(* ===== verification/Prelude.thy ===== *)
theory Prelude
  imports Main "HOL-Library.Word"
begin

text \<open>
  Shared vocabulary of the development: the fixed-width integer types of \<^verbatim>\<open>src/src/types.h\<close>,
  the C idioms the sources use on them (a masked value as a condition, a bit field of an
  instruction word, rotation) and the generic lemmas on words and bounded list updates that the
  component theories share.  The two fact collections are \<open>arm_defs\<close> (definitions of the CPU
  operations that a proof about an instruction unfolds) and \<open>vt_simps\<close> (the entries of a
  concrete virtual-method table).
\<close>

unbundle bit_operations_syntax

named_theorems arm_defs
named_theorems vt_simps

section \<open>Integer types of types.h\<close>

type_synonym u8 = "8 word"
type_synonym u16 = "16 word"
type_synonym u32 = "32 word"
type_synonym u64 = "64 word"

text \<open>
  A signed \<open>s32\<close> is kept as the same 32 bits and read with \<^const>\<open>sint\<close>; conversions between
  \<open>u32\<close> and \<open>s32\<close> are then the identity, as in C++20.
\<close>

type_synonym s32 = "32 word"

section \<open>C idioms\<close>

text \<open>A masked value used as a condition: \<open>if (x & m)\<close>.\<close>

definition tst :: "'a::len word \<Rightarrow> 'a word \<Rightarrow> bool" where
  "tst x m \<longleftrightarrow> x AND m \<noteq> 0"

text \<open>An array index taken from an instruction word: \<open>(instr >> n) & m\<close>.\<close>

definition fld :: "u32 \<Rightarrow> nat \<Rightarrow> u32 \<Rightarrow> nat" where
  "fld w n m = unat (drop_bit n w AND m)"

text \<open>\<open>ROR\<close> of ARM.h: \<open>std::rotr(x, n & 0x1F)\<close>.\<close>

definition ROR :: "u32 \<Rightarrow> u32 \<Rightarrow> u32" where
  "ROR x n = word_rotr (unat (n AND 0x1F)) x"

text \<open>\<open>x << n\<close>, \<open>x >> n\<close> and \<open>((s32)x) >> n\<close> for a shift amount below the width.\<close>

definition shl :: "'a::len word \<Rightarrow> u32 \<Rightarrow> 'a word" where
  "shl x n = push_bit (unat n) x"

definition shr :: "'a::len word \<Rightarrow> u32 \<Rightarrow> 'a word" where
  "shr x n = drop_bit (unat n) x"

definition sar :: "'a::len word \<Rightarrow> u32 \<Rightarrow> 'a word" where
  "sar x n = signed_drop_bit (unat n) x"

text \<open>\<open>std::max\<close> on two \<open>s32\<close> values.\<close>

definition smax :: "s32 \<Rightarrow> s32 \<Rightarrow> s32" where
  "smax a b = (if sint a < sint b then b else a)"

text \<open>\<open>std::popcount\<close> and \<open>std::countr_zero\<close> of a 32-bit value.\<close>

definition popcount32 :: "u32 \<Rightarrow> nat" where
  "popcount32 w = length (filter (bit w) [0..<32])"

definition bits_up :: "u32 \<Rightarrow> nat list" where
  "bits_up w = filter (bit w) [0..<32]"

section \<open>Words\<close>

lemma tst_bit: "tst x (push_bit n 1) \<longleftrightarrow> bit x n"
proof -
  have "bit (x AND push_bit n 1) k \<longleftrightarrow> bit x n \<and> k = n" for k
    by (auto simp: bit_simps bit_imp_le_length dest: bit_imp_le_length)
  then show ?thesis
    by (metis (no_types, lifting) bit_0_eq bot_apply bot_bool_def bit_eq_iff tst_def)
qed

lemma tst_pow: "tst x (2 ^ n) \<longleftrightarrow> bit x n"
  using tst_bit [of x n] by (simp add: push_bit_eq_mult)

lemma fld_le: "fld w n m \<le> unat m"
  unfolding fld_def by (metis word_and_le1 word_le_nat_alt)

lemma fld_15 [simp]: "fld w n 0xF < 16" "fld w n 15 \<le> 15"
  using fld_le [of w n 15] by auto

lemma fld_7 [simp]: "fld w n 7 < 8" "fld w n 7 < 13" "fld w n 7 \<noteq> 13" "fld w n 7 \<noteq> 14"
  "fld w n 7 \<noteq> 15"
  using fld_le [of w n 7] by auto

text \<open>Setting, clearing and reading single bits.\<close>

lemma bit_numeral_and_not:
  "bit (x AND NOT m) n \<longleftrightarrow> bit x n \<and> \<not> bit m n" for x :: "'a::len word"
  by (auto simp: bit_simps dest: bit_imp_le_length)

lemma msb_bit: "tst x 0x80000000 \<longleftrightarrow> bit x 31" for x :: u32
  using tst_pow [of x 31] by simp

lemma bit_pow2_u32: "bit (2 ^ k :: u32) i \<longleftrightarrow> i = k \<and> k < 32"
  by (simp add: bit_exp_iff) (auto)

lemma bit_flag_masks:
  "bit (0x80000000 :: u32) i \<longleftrightarrow> i = 31" "bit (0x40000000 :: u32) i \<longleftrightarrow> i = 30"
  "bit (0x20000000 :: u32) i \<longleftrightarrow> i = 29" "bit (0x10000000 :: u32) i \<longleftrightarrow> i = 28"
  "bit (0x08000000 :: u32) i \<longleftrightarrow> i = 27"
  "bit (0x20 :: u32) i \<longleftrightarrow> i = 5"
  using bit_pow2_u32 [of 31 i] bit_pow2_u32 [of 30 i] bit_pow2_u32 [of 29 i]
    bit_pow2_u32 [of 28 i] bit_pow2_u32 [of 27 i] bit_pow2_u32 [of 5 i] by simp_all

text \<open>A single bit, and a word with it cleared.\<close>

lemma bit_push1: "bit (push_bit k (1 :: u32)) n \<longleftrightarrow> n = k \<and> k < 32"
  by (auto simp: bit_simps)

lemma bit_clear1: "bit (m AND NOT (push_bit k 1)) n \<longleftrightarrow> bit m n \<and> n \<noteq> k" for m :: u32
  using bit_imp_le_length [of m n] by (auto simp only: bit_and_iff bit_not_iff bit_push1 possible_bit_word) simp_all

text \<open>A run of ones: \<open>n\<close> bits from bit \<open>k\<close>.\<close>

lemma bit_run_u32: "bit (push_bit k (mask n) :: u32) i \<longleftrightarrow> k \<le> i \<and> i < k + n \<and> i < 32"
  by (simp only: bit_push_bit_iff bit_mask_iff possible_bit_word) auto

lemma bit_top2: "bit (0xC0000000 :: u32) i \<longleftrightarrow> i = 30 \<or> i = 31"
  using bit_run_u32 [of 30 2 i] by (simp add: mask_numeral) arith

lemma bit_top4: "bit (0xF0000000 :: u32) i \<longleftrightarrow> 28 \<le> i \<and> i < 32"
  using bit_run_u32 [of 28 4 i] by (simp add: mask_numeral)

lemma tst_masks:
  "tst x 0x80000000 \<longleftrightarrow> bit x 31" "tst x 0x40000000 \<longleftrightarrow> bit x 30"
  "tst x 0x20000000 \<longleftrightarrow> bit x 29" "tst x 0x10000000 \<longleftrightarrow> bit x 28"
  "tst x 0x20 \<longleftrightarrow> bit x 5" "tst x 0x80 \<longleftrightarrow> bit x 7" "tst x 1 \<longleftrightarrow> bit x 0" for x :: u32
  using tst_pow [of x 31] tst_pow [of x 30] tst_pow [of x 29] tst_pow [of x 28] tst_pow [of x 5]
    tst_pow [of x 7] tst_pow [of x 0] by simp_all

lemma bit_or_mask: "bit m i = Q \<Longrightarrow> bit (p OR m) i \<longleftrightarrow> bit p i \<or> Q" for p :: u32
  by (simp add: bit_or_iff)

lemma nzcv_nibble:
  "unat (drop_bit 28 p) = 8 * of_bool (bit p 31) + 4 * of_bool (bit p 30) + 2 * of_bool (bit p 29) + of_bool (bit p 28)"
  for p :: u32
proof -
  have "unat (drop_bit 28 p) = take_bit 4 (drop_bit 28 (unat p))"
    by (simp add: unsigned_drop_bit_eq drop_bit_take_bit)
  also have "\<dots> = horner_sum of_bool 2 (map (bit (drop_bit 28 (unat p))) [0..<4])"
    by (simp add: horner_sum_bit_eq_take_bit)
  also have "\<dots> = 8 * of_bool (bit p 31) + 4 * of_bool (bit p 30) + 2 * of_bool (bit p 29) + of_bool (bit p 28)"
    by (simp add: upt_rec bit_simps)
  finally show ?thesis .
qed

section \<open>Arithmetic on 32 bits\<close>

lemma uint_bound32: "0 \<le> uint x" "uint x < 4294967296" for x :: u32
  using uint_bounded [of x] by simp_all

lemma bit31_uint: "bit x 31 \<longleftrightarrow> 2147483648 \<le> uint x" for x :: u32
proof -
  have "uint x div 2147483648 = (if 2147483648 \<le> uint x then 1 else 0)"
    using uint_bound32 [of x] int_div_pos_eq [of "uint x" 2147483648 1 "uint x - 2147483648"] by auto
  then have "bit (uint x) 31 \<longleftrightarrow> 2147483648 \<le> uint x" by (simp add: bit_iff_odd [of "uint x"])
  then show ?thesis by (simp add: bit_uint_iff)
qed

lemma sint_uint32: "sint x = uint x - (if 2147483648 \<le> uint x then 4294967296 else 0)" for x :: u32
proof -
  have "sint x = take_bit (Suc 31) (uint x) - 2 ^ Suc 31 * of_bool (bit (uint x) 31)"
    by (simp only: sint_uint signed_take_bit_eq_take_bit_minus) simp
  also have "take_bit (Suc 31) (uint x) = uint x"
    using uint_bound32 [of x] by (simp only: take_bit_int_eq_self_iff) simp
  also have "bit (uint x) 31 \<longleftrightarrow> 2147483648 \<le> uint x"
    by (simp add: bit31_uint [symmetric] bit_uint_iff)
  finally show ?thesis by simp
qed

lemma uint_plus32:
  "uint (a + b) = (if uint a + uint b < 4294967296 then uint a + uint b
                   else uint a + uint b - 4294967296)" for a b :: u32
  using uint_plus_if' [of a b] by simp

lemma uint_minus32:
  "uint (a - b) = (if uint b \<le> uint a then uint a - uint b
                   else uint a - uint b + 4294967296)" for a b :: u32
  using uint_sub_if' [of a b] by simp

lemmas arith32 = uint_bound32 sint_uint32 uint_plus32 uint_minus32

lemma tst_xor_msb: "tst (a XOR b) 0x80000000 \<longleftrightarrow> (2147483648 \<le> uint a) \<noteq> (2147483648 \<le> uint b)" for a b :: u32
  unfolding msb_bit bit_xor_iff by (simp only: bit31_uint)

lemma sign_bit: "tst x 0x80000000 \<longleftrightarrow> sint x < 0" for x :: u32
  using uint_bound32 [of x] by (simp add: msb_bit bit31_uint sint_uint32)

lemma not_minus32: "NOT b = -1 - b" for b :: u32
  by (simp add: not_eq_complement)

lemma uint_m1: "uint (-1 :: u32) = 4294967295"
  by (simp add: unsigned_minus_1_eq_mask mask_numeral)

lemma uint_not32: "uint (NOT b) = 4294967295 - uint b" for b :: u32
  using uint_bound32 [of b] by (simp add: not_minus32 uint_minus32 uint_m1)

lemma uint_of_bool32: "uint (of_bool c :: u32) = of_bool c"
  by (cases c) simp_all

lemma sint_not32: "sint (NOT b) = - sint b - 1" for b :: u32
  using uint_bound32 [of b] by (simp add: sint_uint32 uint_not32)

lemma uint_prod64: "uint ((ucast a :: u64) * ucast b) = uint a * uint b" for a b :: u32
proof -
  have "uint a * uint b < 4294967296 * 4294967296"
    using uint_bound32 [of a] uint_bound32 [of b] by (intro mult_strict_mono) auto
  moreover have "uint (ucast x :: u64) = uint x" for x :: u32
    using uint_bound32 [of x] by (simp add: unsigned_ucast_eq take_bit_int_eq_self_iff)
  ultimately show ?thesis
    by (simp only: uint_word_ariths) simp
qed

lemma sint_bound32: "- 2147483648 \<le> sint a" "sint a \<le> 2147483647" for a :: u32
  using uint_bound32 [of a] by (simp_all only: sint_uint32 split: if_split) linarith+

lemma sint_prod_bound: "\<bar>sint a * sint b\<bar> \<le> 4611686018427387904" for a b :: u32
proof -
  have "\<bar>sint a\<bar> \<le> 2147483648" "\<bar>sint b\<bar> \<le> 2147483648"
    using sint_bound32 [of a] sint_bound32 [of b] by auto
  then have "\<bar>sint a\<bar> * \<bar>sint b\<bar> \<le> 2147483648 * 2147483648"
    by (intro mult_mono) auto
  then show ?thesis by (simp add: abs_mult)
qed

lemma sint_prod64: "sint ((scast a :: u64) * scast b) = sint a * sint b" for a b :: u32
proof -
  have "sint ((scast a :: u64) * scast b) = signed_take_bit 63 (sint a * sint b)"
    by (simp add: sint_word_ariths signed_scast_eq signed_take_bit_mult)
  also have "\<dots> = sint a * sint b"
    using sint_prod_bound [of a b] by (intro signed_take_bit_int_eq_self) auto
  finally show ?thesis .
qed

lemma sint_plus_cases:
  "sint (a + b) = sint a + sint b \<or>
   sint (a + b) = sint a + sint b - 4294967296 \<and> 2147483647 < sint a + sint b \<and> sint a + sint b < 4294967296 \<or>
   sint (a + b) = sint a + sint b + 4294967296 \<and> sint a + sint b < - 2147483648 \<and> - 4294967296 \<le> sint a + sint b" for a b :: u32
  using uint_bound32 [of a] uint_bound32 [of b]
  by (simp only: sint_uint32 uint_plus32 split: if_split) linarith

lemma sint_minus_cases:
  "sint (a - b) = sint a - sint b \<or>
   sint (a - b) = sint a - sint b - 4294967296 \<and> 2147483647 < sint a - sint b \<and> sint a - sint b < 4294967296 \<or>
   sint (a - b) = sint a - sint b + 4294967296 \<and> sint a - sint b < - 2147483648 \<and> - 4294967296 \<le> sint a - sint b" for a b :: u32
  using uint_bound32 [of a] uint_bound32 [of b]
  by (simp only: sint_uint32 uint_minus32 split: if_split) linarith

section \<open>Shift amounts\<close>

lemma word_rotr_0: "word_rotr 0 x = x" for x :: u32
  by (rule bit_word_eqI) (simp add: bit_word_rotr_iff)

lemma unat_le_31: "s \<le> 31 \<longleftrightarrow> unat s \<le> 31" "s > 31 \<longleftrightarrow> unat s > 31" "s > 32 \<longleftrightarrow> unat s > 32" "0 < s \<longleftrightarrow> 0 < unat s" for s :: u32
  by (simp_all add: word_le_nat_alt word_less_nat_alt)

lemma unat_sub1: "0 < s \<Longrightarrow> unat (s - 1) = unat s - 1" for s :: u32
  by (metis One_nat_def Suc_pred unat_gt_0 unat_minus_one word_neq_0_conv)

lemma unat_32_sub: "unat s \<le> 32 \<Longrightarrow> unat (32 - s) = 32 - unat s" for s :: u32
  using unat_sub [of s 32] by (simp add: word_le_nat_alt)

lemma and31: "unat (n AND 0x1F) = unat n mod 32" for n :: u32
proof -
  have "unat (n AND 0x1F) = unat n AND mask 5" by (simp add: unsigned_and_eq mask_numeral)
  also have "\<dots> = unat n mod 32" by (simp add: take_bit_eq_mod flip: take_bit_eq_mask) 
  finally show ?thesis .
qed

lemma shl_big: "32 \<le> n \<Longrightarrow> push_bit n x = 0" "32 \<le> n \<Longrightarrow> drop_bit n x = 0" for x :: u32
  by (auto intro!: bit_word_eqI simp: bit_push_bit_iff bit_drop_bit_eq dest: bit_imp_le_length)

lemma bit_big: "32 \<le> n \<Longrightarrow> \<not> bit x n" for x :: u32
  using bit_imp_le_length [of x n] by auto

lemma sar_big: "31 < n \<Longrightarrow> signed_drop_bit n x = signed_drop_bit 31 x" for x :: u32
  by (rule bit_word_eqI) (auto simp: bit_signed_drop_bit_iff not_less_eq_eq)

lemma rotr_32: "word_rotr 32 x = x" for x :: u32
  by (rule bit_word_eqI) (simp add: bit_word_rotr_iff)

lemma rotr_mod: "word_rotr (n mod 32) x = word_rotr n x" for x :: u32
proof (rule bit_word_eqI)
  fix i
  assume "i < LENGTH(32)"
  show "bit (word_rotr (n mod 32) x) i = bit (word_rotr n x) i"
    by (simp only: bit_word_rotr_iff len_num1 len_bit0) (simp add: mod_add_right_eq)
qed

lemma ucast16_less: "(ucast (h :: u16) :: u32) < 0x10000"
proof -
  have h: "unat h < 65536" using unsigned_less [of h, where ?'a = nat] by simp
  then have "unat (ucast h :: u32) = unat h"
    by (simp add: unsigned_ucast_eq take_bit_nat_eq_self_iff)
  with h show ?thesis by (simp add: word_less_nat_alt)
qed

lemma unat_ucast_up:
  fixes x :: "'a::len word"
  assumes "LENGTH('a) \<le> LENGTH('b::len)"
  shows "unat (ucast x :: 'b word) = unat x"
proof -
  have "unat x < 2 ^ LENGTH('a)" by (rule unsigned_less)
  also have "\<dots> \<le> 2 ^ LENGTH('b)" using assms by (rule power_increasing) simp
  finally show ?thesis by (simp add: unsigned_ucast_eq take_bit_nat_eq_self_iff)
qed

section \<open>Byte masks\<close>

lemma div8_eq: "i div 8 = q \<longleftrightarrow> 8 * q \<le> i \<and> i < 8 * q + 8" for i q :: nat
  by (auto intro!: div_nat_eqI)

lemma bit_byte_masks:
  "bit (0xFF :: u32) i \<longleftrightarrow> i div 8 = 0" "bit (0xFF00 :: u32) i \<longleftrightarrow> i div 8 = 1"
  "bit (0xFF0000 :: u32) i \<longleftrightarrow> i div 8 = 2" "bit (0xFF000000 :: u32) i \<longleftrightarrow> i div 8 = 3"
proof -
  have "(0xFF :: u32) = push_bit 0 (mask 8)" "(0xFF00 :: u32) = push_bit 8 (mask 8)"
    "(0xFF0000 :: u32) = push_bit 16 (mask 8)" "(0xFF000000 :: u32) = push_bit 24 (mask 8)"
    by (simp_all add: mask_numeral)
  then show "bit (0xFF :: u32) i \<longleftrightarrow> i div 8 = 0" "bit (0xFF00 :: u32) i \<longleftrightarrow> i div 8 = 1"
  "bit (0xFF0000 :: u32) i \<longleftrightarrow> i div 8 = 2" "bit (0xFF000000 :: u32) i \<longleftrightarrow> i div 8 = 3"
    by (simp_all only: bit_run_u32 div8_eq) auto
qed

lemma bit_neg_masks:
  "bit (0xFFFFFFDF :: u32) i \<longleftrightarrow> i < 32 \<and> i \<noteq> 5" "bit (0xFFFFFF00 :: u32) i \<longleftrightarrow> 8 \<le> i \<and> i < 32"
proof -
  have "(0xFFFFFFDF :: u32) = NOT 0x20" "(0xFFFFFF00 :: u32) = NOT 0xFF" by simp_all
  then show "bit (0xFFFFFFDF :: u32) i \<longleftrightarrow> i < 32 \<and> i \<noteq> 5" "bit (0xFFFFFF00 :: u32) i \<longleftrightarrow> 8 \<le> i \<and> i < 32"
    by (simp_all only: bit_not_iff bit_flag_masks bit_byte_masks div8_eq possible_bit_word) auto
qed

lemma bit_if_or: "bit (if c then m OR k else m) i \<longleftrightarrow> bit m i \<or> c \<and> bit k i" for m :: u32
  by (simp add: bit_or_iff)

lemma bit_if_and: "bit (if c then m AND k else m) i \<longleftrightarrow> bit m i \<and> (c \<longrightarrow> bit k i)" for m :: u32
  by (simp add: bit_and_iff)

end
