(* ===== verification/ArmState.thy ===== *)
theory ArmState
  imports Prelude
begin

text \<open>
  The CPU base class \<open>ARM\<close> of \<^verbatim>\<open>src/src/ARM.h\<close> and the non-virtual methods of
  \<^verbatim>\<open>src/src/ARM.cpp\<close>: the register file with its banks, the flag setters, the condition table,
  bank switching, exception entry by interrupt and the return from an exception.

  A CPU object is the record \<open>arm\<close>.  Arrays are functions from the index; every access of the
  code masks its index to the array's size.  The virtual methods, which \<open>ARMv4\<close> and \<open>ARMv5\<close>
  override, are the fields of the record \<open>arm_vt\<close>; an instruction handler takes the table it
  runs on.  \<open>'n\<close> is the state of the rest of the console (the \<open>NDS\<close> object).  The handlers of
  the bus can also stop the CPU (\<open>Halt\<close>, a pending interrupt), so they act on the record
  \<open>sys\<close>, which holds \<open>NDS\<close> and the \<open>StopExecution\<close> union.
\<close>

section \<open>State\<close>

record 'n sys =
  NDS :: 'n
  Halted :: u8
  IRQ :: u8
  IdleLoop :: u8

text \<open>The table that \<open>PU_Map\<close> of \<open>ARMv5\<close> points to.\<close>

datatype pu_map = PU_PrivMap | PU_UserMap

record 'n arm =
  Num :: u32
  Cycles :: s32
  Sys :: "'n sys"
  CodeRegion :: u32
  CodeCycles :: s32
  DataRegion :: u32
  DataCycles :: s32
  R :: "nat \<Rightarrow> u32"
  CPSR :: u32
  R_FIQ :: "nat \<Rightarrow> u32"
  R_SVC :: "nat \<Rightarrow> u32"
  R_ABT :: "nat \<Rightarrow> u32"
  R_IRQ :: "nat \<Rightarrow> u32"
  R_UND :: "nat \<Rightarrow> u32"
  CurInstr :: u32
  NextInstr :: "nat \<Rightarrow> u32"
  ExceptionBase :: u32
  PU_Map :: pu_map

text \<open>
  The virtual methods.  A read gives \<open>None\<close> for the C++ \<open>false\<close>: the access entered an
  exception and wrote no destination.  The last fields are what the interpreter reaches through
  casts (\<open>static_cast<ARMv5*>\<close>) and through the \<open>NDS\<close> reference.
\<close>

record 'n arm_vt =
  JumpTo :: "u32 \<Rightarrow> bool \<Rightarrow> 'n arm \<Rightarrow> 'n arm"
  DataRead8 :: "u32 \<Rightarrow> 'n arm \<Rightarrow> u32 option \<times> 'n arm"
  DataRead16 :: "u32 \<Rightarrow> 'n arm \<Rightarrow> u32 option \<times> 'n arm"
  DataRead32 :: "u32 \<Rightarrow> 'n arm \<Rightarrow> u32 option \<times> 'n arm"
  DataRead32S :: "u32 \<Rightarrow> 'n arm \<Rightarrow> u32 option \<times> 'n arm"
  DataWrite8 :: "u32 \<Rightarrow> u8 \<Rightarrow> 'n arm \<Rightarrow> bool \<times> 'n arm"
  DataWrite16 :: "u32 \<Rightarrow> u16 \<Rightarrow> 'n arm \<Rightarrow> bool \<times> 'n arm"
  DataWrite32 :: "u32 \<Rightarrow> u32 \<Rightarrow> 'n arm \<Rightarrow> bool \<times> 'n arm"
  DataWrite32S :: "u32 \<Rightarrow> u32 \<Rightarrow> 'n arm \<Rightarrow> bool \<times> 'n arm"
  AddCycles_C :: "'n arm \<Rightarrow> 'n arm"
  AddCycles_CI :: "s32 \<Rightarrow> 'n arm \<Rightarrow> 'n arm"
  AddCycles_CDI :: "'n arm \<Rightarrow> 'n arm"
  AddCycles_CD :: "'n arm \<Rightarrow> 'n arm"
  DataAbort :: "'n arm \<Rightarrow> 'n arm"
  UserMap :: "'n arm \<Rightarrow> u32 \<Rightarrow> u8"
  CP15Write :: "u32 \<Rightarrow> u32 \<Rightarrow> 'n arm \<Rightarrow> 'n arm"
  CP15Read :: "u32 \<Rightarrow> 'n arm \<Rightarrow> u32"
  NocashPrint :: "u32 \<Rightarrow> u32 \<Rightarrow> 'n arm \<Rightarrow> 'n arm"
  NDS_IF :: "'n \<Rightarrow> u32 \<Rightarrow> u32"
  NDS_IE :: "'n \<Rightarrow> u32 \<Rightarrow> u32"
  RunCheats :: "'n arm \<Rightarrow> 'n arm"

section \<open>Flags and conditions\<close>

definition SetC :: "bool \<Rightarrow> 'n arm \<Rightarrow> 'n arm" where
  "SetC c cpu = cpu\<lparr>CPSR := (if c then CPSR cpu OR 0x20000000 else CPSR cpu AND NOT 0x20000000)\<rparr>"

definition SetNZ :: "bool \<Rightarrow> bool \<Rightarrow> 'n arm \<Rightarrow> 'n arm" where
  "SetNZ n z cpu =
     (let p = CPSR cpu AND NOT 0xC0000000;
          p = (if n then p OR 0x80000000 else p);
          p = (if z then p OR 0x40000000 else p)
      in cpu\<lparr>CPSR := p\<rparr>)"

definition SetNZCV :: "bool \<Rightarrow> bool \<Rightarrow> bool \<Rightarrow> bool \<Rightarrow> 'n arm \<Rightarrow> 'n arm" where
  "SetNZCV n z c v cpu =
     (let p = CPSR cpu AND NOT 0xF0000000;
          p = (if n then p OR 0x80000000 else p);
          p = (if z then p OR 0x40000000 else p);
          p = (if c then p OR 0x20000000 else p);
          p = (if v then p OR 0x10000000 else p)
      in cpu\<lparr>CPSR := p\<rparr>)"

definition ConditionTable :: "u32 list" where
  "ConditionTable =
     [0xF0F0, 0x0F0F, 0xCCCC, 0x3333, 0xFF00, 0x00FF, 0xAAAA, 0x5555,
      0x0C0C, 0xF3F3, 0xAA55, 0x55AA, 0x0A05, 0xF5FA, 0xFFFF, 0x0000]"

text \<open>\<open>code\<close> is a four-bit field in every call.\<close>

definition CheckCondition :: "nat \<Rightarrow> 'n arm \<Rightarrow> bool" where
  "CheckCondition code cpu \<longleftrightarrow>
     (if code = 0xE then True
      else tst (ConditionTable ! code) (push_bit (unat (drop_bit 28 (CPSR cpu))) 1))"

definition Halt :: "u8 \<Rightarrow> 'n arm \<Rightarrow> 'n arm" where
  "Halt halt cpu =
     (if halt = 2 \<and> Halted (Sys cpu) = 1 then cpu
      else cpu\<lparr>Sys := (Sys cpu)\<lparr>Halted := halt\<rparr>\<rparr>)"

definition ModeIs :: "u32 \<Rightarrow> 'n arm \<Rightarrow> bool" where
  "ModeIs m cpu \<longleftrightarrow>
     (let cm = CPSR cpu AND 0x1F; mode = m AND 0x1F
      in if mode = cm then True
         else if mode = 0x17 then 0x14 \<le> cm \<and> cm \<le> 0x17
         else if mode = 0x1B then 0x18 \<le> cm \<and> cm \<le> 0x1B
         else False)"

section \<open>Register banks\<close>

text \<open>One \<open>switch\<close> of \<open>UpdateMode\<close>: the \<open>std::swap\<close> calls of the mode's bank.\<close>

definition swap_FIQ :: "'n arm \<Rightarrow> 'n arm" where
  "swap_FIQ cpu = cpu\<lparr>
     R := (R cpu)(8 := R_FIQ cpu 0, 9 := R_FIQ cpu 1, 10 := R_FIQ cpu 2, 11 := R_FIQ cpu 3,
                  12 := R_FIQ cpu 4, 13 := R_FIQ cpu 5, 14 := R_FIQ cpu 6),
     R_FIQ := (R_FIQ cpu)(0 := R cpu 8, 1 := R cpu 9, 2 := R cpu 10, 3 := R cpu 11,
                  4 := R cpu 12, 5 := R cpu 13, 6 := R cpu 14)\<rparr>"

definition swap_IRQ :: "'n arm \<Rightarrow> 'n arm" where
  "swap_IRQ cpu = cpu\<lparr>R := (R cpu)(13 := R_IRQ cpu 0, 14 := R_IRQ cpu 1),
                      R_IRQ := (R_IRQ cpu)(0 := R cpu 13, 1 := R cpu 14)\<rparr>"

definition swap_SVC :: "'n arm \<Rightarrow> 'n arm" where
  "swap_SVC cpu = cpu\<lparr>R := (R cpu)(13 := R_SVC cpu 0, 14 := R_SVC cpu 1),
                      R_SVC := (R_SVC cpu)(0 := R cpu 13, 1 := R cpu 14)\<rparr>"

definition swap_ABT :: "'n arm \<Rightarrow> 'n arm" where
  "swap_ABT cpu = cpu\<lparr>R := (R cpu)(13 := R_ABT cpu 0, 14 := R_ABT cpu 1),
                      R_ABT := (R_ABT cpu)(0 := R cpu 13, 1 := R cpu 14)\<rparr>"

definition swap_UND :: "'n arm \<Rightarrow> 'n arm" where
  "swap_UND cpu = cpu\<lparr>R := (R cpu)(13 := R_UND cpu 0, 14 := R_UND cpu 1),
                      R_UND := (R_UND cpu)(0 := R cpu 13, 1 := R cpu 14)\<rparr>"

definition swap_bank :: "u32 \<Rightarrow> 'n arm \<Rightarrow> 'n arm" where
  "swap_bank mode cpu =
     (if mode = 0x11 then swap_FIQ cpu
      else if mode = 0x12 then swap_IRQ cpu
      else if mode = 0x13 then swap_SVC cpu
      else if mode = 0x17 then swap_ABT cpu
      else if mode = 0x1B then swap_UND cpu
      else cpu)"

definition UpdateMode :: "u32 \<Rightarrow> u32 \<Rightarrow> bool \<Rightarrow> 'n arm \<Rightarrow> 'n arm" where
  "UpdateMode oldmode newmode phony cpu =
     (if oldmode AND 0x1F = newmode AND 0x1F then cpu
      else let cpu = swap_bank (oldmode AND 0x1F) cpu;
               cpu = swap_bank (newmode AND 0x1F) cpu
           in if \<not> phony \<and> Num cpu = 0
              then cpu\<lparr>PU_Map := (if newmode AND 0x1F = 0x10 then PU_UserMap else PU_PrivMap)\<rparr>
              else cpu)"

definition RestoreCPSR :: "'n arm \<Rightarrow> 'n arm" where
  "RestoreCPSR cpu =
     (let oldcpsr = CPSR cpu;
          m = CPSR cpu AND 0x1F;
          p = (if m = 0x11 then R_FIQ cpu 7
               else if m = 0x12 then R_IRQ cpu 2
               else if m = 0x13 then R_SVC cpu 2
               else if m \<in> {0x14, 0x15, 0x16, 0x17} then R_ABT cpu 2
               else if m \<in> {0x18, 0x19, 0x1A, 0x1B} then R_UND cpu 2
               else CPSR cpu);
          cpu = cpu\<lparr>CPSR := p OR 0x10\<rparr>
      in UpdateMode oldcpsr (CPSR cpu) False cpu)"

section \<open>Interrupt entry and reset\<close>

definition IRQ_VBlank :: nat where
  "IRQ_VBlank = 0"

definition TriggerIRQ :: "'n arm_vt \<Rightarrow> 'n arm \<Rightarrow> 'n arm" where
  "TriggerIRQ vt cpu =
     (if tst (CPSR cpu) 0x80 then cpu
      else let oldcpsr = CPSR cpu;
               cpu = cpu\<lparr>CPSR := (CPSR cpu AND NOT 0xBF) OR 0x92\<rparr>;
               cpu = UpdateMode oldcpsr (CPSR cpu) False cpu;
               cpu = cpu\<lparr>R_IRQ := (R_IRQ cpu)(2 := oldcpsr)\<rparr>;
               cpu = cpu\<lparr>R := (R cpu)(14 := R cpu 15 + (if tst oldcpsr 0x20 then 2 else 0))\<rparr>;
               cpu = JumpTo vt (ExceptionBase cpu + 0x18) False cpu
           in if Num cpu = 1 \<and>
                 tst (NDS_IF vt (NDS (Sys cpu)) 1 AND NDS_IE vt (NDS (Sys cpu)) 1)
                     (push_bit IRQ_VBlank 1)
              then RunCheats vt cpu else cpu)"

text \<open>
  \<open>ARM::Reset\<close> up to its final jump; \<open>R_FIQ[7]\<close> and the other saved status words get mode 10.
\<close>

definition arm_reset_regs :: "'n arm \<Rightarrow> 'n arm" where
  "arm_reset_regs cpu = cpu\<lparr>
     Cycles := 0,
     Sys := (Sys cpu)\<lparr>Halted := 0, IRQ := 0\<rparr>,
     R := (\<lambda>i. if i < 16 then 0 else R cpu i),
     CPSR := 0x000000D3,
     R_FIQ := (\<lambda>i. if i < 7 then 0 else if i = 7 then 0x10 else R_FIQ cpu i),
     R_SVC := (R_SVC cpu)(0 := 0, 1 := 0, 2 := 0x10),
     R_ABT := (R_ABT cpu)(0 := 0, 1 := 0, 2 := 0x10),
     R_IRQ := (R_IRQ cpu)(0 := 0, 1 := 0, 2 := 0x10),
     R_UND := (R_UND cpu)(0 := 0, 1 := 0, 2 := 0x10),
     ExceptionBase := (if Num cpu \<noteq> 0 then 0x00000000 else 0xFFFF0000)\<rparr>"

definition arm_Reset :: "'n arm_vt \<Rightarrow> 'n arm \<Rightarrow> 'n arm" where
  "arm_Reset vt cpu =
     (let cpu = arm_reset_regs cpu in JumpTo vt (ExceptionBase cpu) False cpu)"

section \<open>Flag setters, bit by bit\<close>

lemma CPSR_set: "CPSR (cpu\<lparr>CPSR := p\<rparr>) = p"
  by simp

lemma bit_SetC:
  "bit (CPSR (SetC c cpu)) i \<longleftrightarrow> (if i = 29 then c else bit (CPSR cpu) i)"
  by (simp only: SetC_def CPSR_set bit_or_iff bit_numeral_and_not bit_flag_masks split: if_split) auto

lemma bit_SetNZ:
  "bit (CPSR (SetNZ n z cpu)) i \<longleftrightarrow> (if i = 31 then n else if i = 30 then z else bit (CPSR cpu) i)"
  by (simp only: SetNZ_def Let_def CPSR_set bit_or_iff bit_numeral_and_not bit_flag_masks bit_top2
      split: if_split) auto

lemma bit_SetNZCV:
  "bit (CPSR (SetNZCV n z c v cpu)) i \<longleftrightarrow>
     (if i = 31 then n else if i = 30 then z else if i = 29 then c else if i = 28 then v
      else bit (CPSR cpu) i)"
  using bit_imp_le_length [of "CPSR cpu" i]
  by (simp only: SetNZCV_def Let_def CPSR_set bit_or_iff bit_numeral_and_not bit_flag_masks bit_top4
      split: if_split) auto

lemma SetC_same: "SetC (bit (CPSR cpu) 29) cpu = cpu"
proof -
  have "CPSR (SetC (bit (CPSR cpu) 29) cpu) = CPSR cpu"
    by (rule bit_word_eqI) (simp add: bit_SetC)
  then show ?thesis by (simp add: SetC_def)
qed

section \<open>Conditions\<close>

text \<open>The condition field of an instruction, over the flags N, Z, C, V.\<close>

definition condition_holds :: "nat \<Rightarrow> bool \<Rightarrow> bool \<Rightarrow> bool \<Rightarrow> bool \<Rightarrow> bool" where
  "condition_holds code n z c v \<longleftrightarrow>
     [z, \<not> z, c, \<not> c, n, \<not> n, v, \<not> v, c \<and> \<not> z, \<not> (c \<and> \<not> z),
      n = v, n \<noteq> v, \<not> z \<and> n = v, \<not> (\<not> z \<and> n = v), True, False] ! code"

lemma ConditionTable_bits:
  "list_all (\<lambda>code. list_all (\<lambda>n. list_all (\<lambda>z. list_all (\<lambda>c. list_all (\<lambda>v.
       bit (ConditionTable ! code) (8 * of_bool n + 4 * of_bool z + 2 * of_bool c + of_bool v) =
       condition_holds code n z c v)
     [False, True]) [False, True]) [False, True]) [False, True]) [0..<16]"
  by code_simp

text \<open>A condition code is tested as the architecture defines it: the 16 half-words of
  \<open>ConditionTable\<close>, indexed by the code and the flag nibble, are the truth tables of the sixteen
  predicates on N, Z, C and V.\<close>

lemma CheckCondition_spec:
  assumes "code < 16"
  shows "CheckCondition code cpu \<longleftrightarrow>
    condition_holds code (bit (CPSR cpu) 31) (bit (CPSR cpu) 30) (bit (CPSR cpu) 29) (bit (CPSR cpu) 28)"
proof -
  have "bit (ConditionTable ! code) (8 * of_bool n + 4 * of_bool z + 2 * of_bool c + of_bool v) =
       condition_holds code n z c v" for n z c v
    using ConditionTable_bits assms by (cases n; cases z; cases c; cases v) (simp_all add: list_all_iff)
  from this [of "bit (CPSR cpu) 31" "bit (CPSR cpu) 30" "bit (CPSR cpu) 29" "bit (CPSR cpu) 28"]
  have "tst (ConditionTable ! code) (push_bit (unat (drop_bit 28 (CPSR cpu))) 1) =
      condition_holds code (bit (CPSR cpu) 31) (bit (CPSR cpu) 30) (bit (CPSR cpu) 29) (bit (CPSR cpu) 28)"
    by (simp only: tst_bit nzcv_nibble)
  then show ?thesis
    by (cases "code = 0xE") (simp_all only: CheckCondition_def if_True if_False, simp add: condition_holds_def)
qed

lemma CheckCondition_spec_witness:
  "CheckCondition 10 (undefined\<lparr>CPSR := 0x90000000\<rparr> :: unit arm)"
  using CheckCondition_spec [of 10 "undefined\<lparr>CPSR := 0x90000000\<rparr> :: unit arm"]
  by (simp add: condition_holds_def)

section \<open>Banks\<close>

text \<open>
  The banked register file as the architecture describes it.  \<open>mode_reg cur b r\<close> is register
  \<open>r\<close> as bank \<open>b\<close> sees it, read from the physical arrays while bank \<open>cur\<close> is swapped in.
\<close>

datatype bank = B_USR | B_FIQ | B_IRQ | B_SVC | B_ABT | B_UND

definition bank_of :: "u32 \<Rightarrow> bank" where
  "bank_of m =
     (let m = m AND 0x1F
      in if m = 0x11 then B_FIQ else if m = 0x12 then B_IRQ else if m = 0x13 then B_SVC
         else if m = 0x17 then B_ABT else if m = 0x1B then B_UND else B_USR)"

definition banked :: "bank \<Rightarrow> nat \<Rightarrow> bool" where
  "banked b r \<longleftrightarrow> (case b of B_USR \<Rightarrow> False | B_FIQ \<Rightarrow> 8 \<le> r \<and> r \<le> 14 | _ \<Rightarrow> 13 \<le> r \<and> r \<le> 14)"

definition bank_slot :: "bank \<Rightarrow> nat \<Rightarrow> 'n arm \<Rightarrow> u32" where
  "bank_slot b r cpu =
     (case b of B_USR \<Rightarrow> R cpu r | B_FIQ \<Rightarrow> R_FIQ cpu (r - 8) | B_IRQ \<Rightarrow> R_IRQ cpu (r - 13)
      | B_SVC \<Rightarrow> R_SVC cpu (r - 13) | B_ABT \<Rightarrow> R_ABT cpu (r - 13) | B_UND \<Rightarrow> R_UND cpu (r - 13))"

definition mode_reg :: "bank \<Rightarrow> bank \<Rightarrow> nat \<Rightarrow> 'n arm \<Rightarrow> u32" where
  "mode_reg cur b r cpu =
     (let b = (if banked b r then b else B_USR); c = (if banked cur r then cur else B_USR)
      in if b = c then R cpu r else if b = B_USR then bank_slot c r cpu else bank_slot b r cpu)"

lemma swap_bank_slots:
  "swap_bank (m AND 0x1F) cpu =
     (case bank_of m of B_USR \<Rightarrow> cpu | B_FIQ \<Rightarrow> swap_FIQ cpu | B_IRQ \<Rightarrow> swap_IRQ cpu
      | B_SVC \<Rightarrow> swap_SVC cpu | B_ABT \<Rightarrow> swap_ABT cpu | B_UND \<Rightarrow> swap_UND cpu)"
  by (simp add: swap_bank_def bank_of_def Let_def)

lemma mode_reg_PU_Map [simp]: "mode_reg a b r (cpu\<lparr>PU_Map := p\<rparr>) = mode_reg a b r cpu"
  by (simp add: mode_reg_def bank_slot_def split: bank.split)

lemma banked_iff:
  "banked B_USR r \<longleftrightarrow> False"
  "banked B_FIQ r \<longleftrightarrow> r = 8 \<or> r = 9 \<or> r = 10 \<or> r = 11 \<or> r = 12 \<or> r = 13 \<or> r = 14"
  "banked B_IRQ r \<longleftrightarrow> r = 13 \<or> r = 14" "banked B_SVC r \<longleftrightarrow> r = 13 \<or> r = 14"
  "banked B_ABT r \<longleftrightarrow> r = 13 \<or> r = 14" "banked B_UND r \<longleftrightarrow> r = 13 \<or> r = 14"
  by (auto simp: banked_def)

lemmas swap_defs = swap_FIQ_def swap_IRQ_def swap_SVC_def swap_ABT_def swap_UND_def

lemma swap_leave:
  "mode_reg B_USR b r (swap_bank (m AND 0x1F) cpu) = mode_reg (bank_of m) b r cpu"
  "mode_reg (bank_of m) b r (swap_bank (m AND 0x1F) cpu) = mode_reg B_USR b r cpu"
  unfolding swap_bank_slots mode_reg_def Let_def
  by (cases "bank_of m"; cases b; cases "banked (bank_of m) r"; cases "banked b r";
      auto simp: banked_iff bank_slot_def swap_defs)+

lemma UpdateMode_mode_reg:
  "mode_reg (bank_of newmode) b r (UpdateMode oldmode newmode phony cpu) = mode_reg (bank_of oldmode) b r cpu"
proof (cases "oldmode AND 0x1F = newmode AND 0x1F")
  case True
  then have "bank_of oldmode = bank_of newmode" by (simp add: bank_of_def)
  with True show ?thesis by (simp add: UpdateMode_def)
next
  case False
  have *: "mode_reg (bank_of newmode) b r (swap_bank (newmode AND 0x1F) (swap_bank (oldmode AND 0x1F) cpu)) =
      mode_reg (bank_of oldmode) b r cpu"
    by (simp only: swap_leave)
  show ?thesis
    by (simp only: UpdateMode_def Let_def False if_False mode_reg_PU_Map * if_distrib [of "mode_reg _ b r"] if_cancel)
qed

lemma swap_bank_swap_bank: "swap_bank m (swap_bank m cpu) = cpu"
  by (simp add: swap_bank_def swap_FIQ_def swap_IRQ_def swap_SVC_def swap_ABT_def swap_UND_def fun_eq_iff)

lemma UpdateMode_id [simp]: "UpdateMode m m phony cpu = cpu"
  by (simp add: UpdateMode_def)

lemma swap_bank_fields [simp]:
  "CPSR (swap_bank m cpu) = CPSR cpu" "Num (swap_bank m cpu) = Num cpu"
  "Sys (swap_bank m cpu) = Sys cpu" "NextInstr (swap_bank m cpu) = NextInstr cpu"
  "CurInstr (swap_bank m cpu) = CurInstr cpu" "Cycles (swap_bank m cpu) = Cycles cpu"
  "ExceptionBase (swap_bank m cpu) = ExceptionBase cpu" "PU_Map (swap_bank m cpu) = PU_Map cpu"
  "R (swap_bank m cpu) 15 = R cpu 15" "i < 8 \<Longrightarrow> R (swap_bank m cpu) i = R cpu i"
  by (simp_all add: swap_bank_def swap_FIQ_def swap_IRQ_def swap_SVC_def swap_ABT_def swap_UND_def)

lemma UpdateMode_fields [simp]:
  "CPSR (UpdateMode a b p cpu) = CPSR cpu" "Num (UpdateMode a b p cpu) = Num cpu"
  "Sys (UpdateMode a b p cpu) = Sys cpu" "NextInstr (UpdateMode a b p cpu) = NextInstr cpu"
  "CurInstr (UpdateMode a b p cpu) = CurInstr cpu" "Cycles (UpdateMode a b p cpu) = Cycles cpu"
  "ExceptionBase (UpdateMode a b p cpu) = ExceptionBase cpu"
  "R (UpdateMode a b p cpu) 15 = R cpu 15" "i < 8 \<Longrightarrow> R (UpdateMode a b p cpu) i = R cpu i"
  by (simp_all add: UpdateMode_def Let_def)

lemma swap_bank_PU: "swap_bank m (cpu\<lparr>PU_Map := p\<rparr>) = (swap_bank m cpu)\<lparr>PU_Map := p\<rparr>"
  by (simp add: swap_bank_def swap_FIQ_def swap_IRQ_def swap_SVC_def swap_ABT_def swap_UND_def)

lemma UpdateMode_eq:
  assumes "a AND 0x1F \<noteq> b AND 0x1F"
  obtains q where "UpdateMode a b p cpu =
    (swap_bank (b AND 0x1F) (swap_bank (a AND 0x1F) cpu))\<lparr>PU_Map := q\<rparr>"
proof -
  let ?c = "swap_bank (b AND 0x1F) (swap_bank (a AND 0x1F) cpu)"
  have "\<exists>q. (if Q then ?c\<lparr>PU_Map := x\<rparr> else ?c) = ?c\<lparr>PU_Map := q\<rparr>" for Q x
  proof (cases Q)
    case False
    then show ?thesis by (intro exI [of _ "PU_Map ?c"]) simp
  qed auto
  from this [of "\<not> p \<and> Num ?c = 0" "if b AND 0x1F = 0x10 then PU_UserMap else PU_PrivMap"] that
  show ?thesis
    by (auto simp only: UpdateMode_def Let_def assms if_False)
qed

lemma UpdateMode_inverse:
  "\<exists>p. UpdateMode newmode oldmode phony' (UpdateMode oldmode newmode phony cpu) = cpu\<lparr>PU_Map := p\<rparr>"
proof (cases "oldmode AND 0x1F = newmode AND 0x1F")
  case True
  then show ?thesis by (auto simp: UpdateMode_def intro: exI [of _ "PU_Map cpu"])
next
  case False
  obtain q where q: "UpdateMode oldmode newmode phony cpu =
      (swap_bank (newmode AND 0x1F) (swap_bank (oldmode AND 0x1F) cpu))\<lparr>PU_Map := q\<rparr>"
    using False by (rule UpdateMode_eq)
  obtain q' where "UpdateMode newmode oldmode phony' (UpdateMode oldmode newmode phony cpu) =
      (swap_bank (oldmode AND 0x1F) (swap_bank (newmode AND 0x1F)
         (UpdateMode oldmode newmode phony cpu)))\<lparr>PU_Map := q'\<rparr>"
    using False [symmetric] by (rule UpdateMode_eq)
  then show ?thesis
    unfolding q swap_bank_PU swap_bank_swap_bank by auto
qed
text \<open>C7.  A mode switch never loses a banked register: every register of every mode reads the
  same before and after \<open>UpdateMode\<close>, although the physical arrays are permuted, and switching
  back restores the whole CPU (up to the choice of the memory map of the ARM9).\<close>

theorem UpdateMode_preserves_banks:
  "mode_reg (bank_of newmode) b r (UpdateMode oldmode newmode phony cpu) =
     mode_reg (bank_of oldmode) b r cpu \<and>
   (\<exists>p. UpdateMode newmode oldmode phony' (UpdateMode oldmode newmode phony cpu) = cpu\<lparr>PU_Map := p\<rparr>)"
  using UpdateMode_mode_reg UpdateMode_inverse by blast

lemma mode_reg_CPSR [simp]: "mode_reg a b r (cpu\<lparr>CPSR := p\<rparr>) = mode_reg a b r cpu"
  by (simp add: mode_reg_def bank_slot_def split: bank.split)

end
