(* ===== verification/ArmShift.thy ===== *)
theory ArmShift
  imports ArmState
begin

text \<open>
  The carry and overflow predicates and the barrel-shifter macros at the head of
  \<^verbatim>\<open>src/src/ARMInterpreter_ALU.cpp\<close>.  A macro \<open>X(x, s)\<close> is a function of \<open>x\<close> and \<open>s\<close>
  that returns the new \<open>x\<close>; the \<open>_S\<close> variants also return the CPU with the shifter carry in C.
\<close>

section \<open>Carry and overflow\<close>

definition CarryAdd :: "u32 \<Rightarrow> u32 \<Rightarrow> bool" where
  "CarryAdd a b \<longleftrightarrow> 0xFFFFFFFF - a < b"

definition CarrySub :: "u32 \<Rightarrow> u32 \<Rightarrow> bool" where
  "CarrySub a b \<longleftrightarrow> b \<le> a"

definition OverflowAdd :: "u32 \<Rightarrow> u32 \<Rightarrow> bool" where
  "OverflowAdd a b \<longleftrightarrow>
     (let res = a + b in \<not> tst (a XOR b) 0x80000000 \<and> tst (a XOR res) 0x80000000)"

definition OverflowSub :: "u32 \<Rightarrow> u32 \<Rightarrow> bool" where
  "OverflowSub a b \<longleftrightarrow>
     (let res = a - b in tst (a XOR b) 0x80000000 \<and> tst (a XOR res) 0x80000000)"

text \<open>The 64-bit sums of \<open>OverflowAdc\<close> and \<open>OverflowSbc\<close> cannot wrap, so they are integers.\<close>

definition OverflowAdc :: "u32 \<Rightarrow> u32 \<Rightarrow> u32 \<Rightarrow> bool" where
  "OverflowAdc a b carry \<longleftrightarrow>
     (let fullResult = sint a + sint b + uint carry;
          res = a + b + carry
      in sint res \<noteq> fullResult)"

definition OverflowSbc :: "u32 \<Rightarrow> u32 \<Rightarrow> u32 \<Rightarrow> bool" where
  "OverflowSbc a b carry \<longleftrightarrow>
     (let fullResult = sint a - sint b - uint carry;
          res = a - b - carry
      in sint res \<noteq> fullResult)"

section \<open>Shifts by an immediate\<close>

definition LSL_IMM :: "'n arm \<Rightarrow> u32 \<Rightarrow> u32 \<Rightarrow> u32" where
  "LSL_IMM cpu x s = shl x s"

definition LSR_IMM :: "'n arm \<Rightarrow> u32 \<Rightarrow> u32 \<Rightarrow> u32" where
  "LSR_IMM cpu x s = (if s = 0 then 0 else shr x s)"

definition ASR_IMM :: "'n arm \<Rightarrow> u32 \<Rightarrow> u32 \<Rightarrow> u32" where
  "ASR_IMM cpu x s = (if s = 0 then sar x 31 else sar x s)"

definition ROR_IMM :: "'n arm \<Rightarrow> u32 \<Rightarrow> u32 \<Rightarrow> u32" where
  "ROR_IMM cpu x s =
     (if s = 0 then shr x 1 OR shl (CPSR cpu AND 0x20000000) 2 else ROR x s)"

definition LSL_IMM_S :: "'n arm \<Rightarrow> u32 \<Rightarrow> u32 \<Rightarrow> u32 \<times> 'n arm" where
  "LSL_IMM_S cpu x s =
     (if 0 < s then (shl x s, SetC (tst x (shl 1 (32 - s))) cpu) else (x, cpu))"

definition LSR_IMM_S :: "'n arm \<Rightarrow> u32 \<Rightarrow> u32 \<Rightarrow> u32 \<times> 'n arm" where
  "LSR_IMM_S cpu x s =
     (if s = 0 then (0, SetC (tst x (shl 1 31)) cpu)
      else (shr x s, SetC (tst x (shl 1 (s - 1))) cpu))"

definition ASR_IMM_S :: "'n arm \<Rightarrow> u32 \<Rightarrow> u32 \<Rightarrow> u32 \<times> 'n arm" where
  "ASR_IMM_S cpu x s =
     (if s = 0 then (sar x 31, SetC (tst x (shl 1 31)) cpu)
      else (sar x s, SetC (tst x (shl 1 (s - 1))) cpu))"

definition ROR_IMM_S :: "'n arm \<Rightarrow> u32 \<Rightarrow> u32 \<Rightarrow> u32 \<times> 'n arm" where
  "ROR_IMM_S cpu x s =
     (if s = 0
      then let newc = x AND 1;
               x = shr x 1 OR shl (CPSR cpu AND 0x20000000) 2
           in (x, SetC (newc \<noteq> 0) cpu)
      else (ROR x s, SetC (tst x (shl 1 (s - 1))) cpu))"

section \<open>Shifts by a register\<close>

text \<open>\<open>s\<close> is the low byte of a register: 0 to 255.\<close>

definition LSL_REG :: "u32 \<Rightarrow> u32 \<Rightarrow> u32" where
  "LSL_REG x s = (if s > 31 then 0 else shl x s)"

definition LSR_REG :: "u32 \<Rightarrow> u32 \<Rightarrow> u32" where
  "LSR_REG x s = (if s > 31 then 0 else shr x s)"

definition ASR_REG :: "u32 \<Rightarrow> u32 \<Rightarrow> u32" where
  "ASR_REG x s = (if s > 31 then sar x 31 else sar x s)"

definition ROR_REG :: "u32 \<Rightarrow> u32 \<Rightarrow> u32" where
  "ROR_REG x s = ROR x (s AND 0x1F)"

definition LSL_REG_S :: "'n arm \<Rightarrow> u32 \<Rightarrow> u32 \<Rightarrow> u32 \<times> 'n arm" where
  "LSL_REG_S cpu x s =
     (if s > 31 then (0, SetC (if s > 32 then False else tst x (shl 1 0)) cpu)
      else if s > 0 then (shl x s, SetC (tst x (shl 1 (32 - s))) cpu)
      else (x, cpu))"

definition LSR_REG_S :: "'n arm \<Rightarrow> u32 \<Rightarrow> u32 \<Rightarrow> u32 \<times> 'n arm" where
  "LSR_REG_S cpu x s =
     (if s > 31 then (0, SetC (if s > 32 then False else tst x (shl 1 31)) cpu)
      else if s > 0 then (shr x s, SetC (tst x (shl 1 (s - 1))) cpu)
      else (x, cpu))"

definition ASR_REG_S :: "'n arm \<Rightarrow> u32 \<Rightarrow> u32 \<Rightarrow> u32 \<times> 'n arm" where
  "ASR_REG_S cpu x s =
     (if s > 31 then (sar x 31, SetC (tst x (shl 1 31)) cpu)
      else if s > 0 then (sar x s, SetC (tst x (shl 1 (s - 1))) cpu)
      else (x, cpu))"

definition ROR_REG_S :: "'n arm \<Rightarrow> u32 \<Rightarrow> u32 \<Rightarrow> u32 \<times> 'n arm" where
  "ROR_REG_S cpu x s =
     (ROR x (s AND 0x1F),
      if s > 0 then SetC (tst x (shl 1 ((s - 1) AND 31))) cpu else cpu)"

section \<open>The second operand of a data-processing instruction\<close>

datatype shiftop = SH_LSL | SH_LSR | SH_ASR | SH_ROR

text \<open>The nine operand forms that \<open>A_IMPLEMENT_ALU_OP\<close> generates a handler for.\<close>

datatype operand2 = IMM | REG_IMM shiftop | REG_REG shiftop

fun shift_imm :: "shiftop \<Rightarrow> 'n arm \<Rightarrow> u32 \<Rightarrow> u32 \<Rightarrow> u32" where
  "shift_imm SH_LSL = LSL_IMM"
| "shift_imm SH_LSR = LSR_IMM"
| "shift_imm SH_ASR = ASR_IMM"
| "shift_imm SH_ROR = ROR_IMM"

fun shift_imm_S :: "shiftop \<Rightarrow> 'n arm \<Rightarrow> u32 \<Rightarrow> u32 \<Rightarrow> u32 \<times> 'n arm" where
  "shift_imm_S SH_LSL = LSL_IMM_S"
| "shift_imm_S SH_LSR = LSR_IMM_S"
| "shift_imm_S SH_ASR = ASR_IMM_S"
| "shift_imm_S SH_ROR = ROR_IMM_S"

fun shift_reg :: "shiftop \<Rightarrow> u32 \<Rightarrow> u32 \<Rightarrow> u32" where
  "shift_reg SH_LSL = LSL_REG"
| "shift_reg SH_LSR = LSR_REG"
| "shift_reg SH_ASR = ASR_REG"
| "shift_reg SH_ROR = ROR_REG"

fun shift_reg_S :: "shiftop \<Rightarrow> 'n arm \<Rightarrow> u32 \<Rightarrow> u32 \<Rightarrow> u32 \<times> 'n arm" where
  "shift_reg_S SH_LSL = LSL_REG_S"
| "shift_reg_S SH_LSR = LSR_REG_S"
| "shift_reg_S SH_ASR = ASR_REG_S"
| "shift_reg_S SH_ROR = ROR_REG_S"

definition A_CALC_OP2_IMM :: "'n arm \<Rightarrow> u32" where
  "A_CALC_OP2_IMM cpu = ROR (CurInstr cpu AND 0xFF) (drop_bit 7 (CurInstr cpu) AND 0x1E)"

definition A_CALC_OP2_IMM_S :: "'n arm \<Rightarrow> u32 \<times> 'n arm" where
  "A_CALC_OP2_IMM_S cpu =
     (let b = ROR (CurInstr cpu AND 0xFF) (drop_bit 7 (CurInstr cpu) AND 0x1E)
      in (b, if tst (drop_bit 7 (CurInstr cpu)) 0x1E then SetC (tst b 0x80000000) cpu else cpu))"

definition A_CALC_OP2_REG_SHIFT_IMM :: "shiftop \<Rightarrow> 'n arm \<Rightarrow> u32" where
  "A_CALC_OP2_REG_SHIFT_IMM sh cpu =
     (let b = R cpu (fld (CurInstr cpu) 0 0xF);
          s = drop_bit 7 (CurInstr cpu) AND 0x1F
      in shift_imm sh cpu b s)"

definition A_CALC_OP2_REG_SHIFT_IMM_S :: "shiftop \<Rightarrow> 'n arm \<Rightarrow> u32 \<times> 'n arm" where
  "A_CALC_OP2_REG_SHIFT_IMM_S sh cpu =
     (let b = R cpu (fld (CurInstr cpu) 0 0xF);
          s = drop_bit 7 (CurInstr cpu) AND 0x1F
      in shift_imm_S sh cpu b s)"

definition A_CALC_OP2_REG_SHIFT_REG :: "shiftop \<Rightarrow> 'n arm \<Rightarrow> u32" where
  "A_CALC_OP2_REG_SHIFT_REG sh cpu =
     (let b = R cpu (fld (CurInstr cpu) 0 0xF);
          b = (if fld (CurInstr cpu) 0 0xF = 15 then b + 4 else b)
      in shift_reg sh b (R cpu (fld (CurInstr cpu) 8 0xF) AND 0xFF))"

definition A_CALC_OP2_REG_SHIFT_REG_S :: "shiftop \<Rightarrow> 'n arm \<Rightarrow> u32 \<times> 'n arm" where
  "A_CALC_OP2_REG_SHIFT_REG_S sh cpu =
     (let b = R cpu (fld (CurInstr cpu) 0 0xF);
          b = (if fld (CurInstr cpu) 0 0xF = 15 then b + 4 else b)
      in shift_reg_S sh cpu b (R cpu (fld (CurInstr cpu) 8 0xF) AND 0xFF))"

text \<open>
  The operand of one form, without and with the shifter carry, and the \<open>c\<close> that the generated
  handler passes to the operation (the internal cycles: 1 for a shift by register).
\<close>

fun op2_value :: "operand2 \<Rightarrow> 'n arm \<Rightarrow> u32" where
  "op2_value IMM cpu = A_CALC_OP2_IMM cpu"
| "op2_value (REG_IMM sh) cpu = A_CALC_OP2_REG_SHIFT_IMM sh cpu"
| "op2_value (REG_REG sh) cpu = A_CALC_OP2_REG_SHIFT_REG sh cpu"

fun op2_value_S :: "operand2 \<Rightarrow> 'n arm \<Rightarrow> u32 \<times> 'n arm" where
  "op2_value_S IMM cpu = A_CALC_OP2_IMM_S cpu"
| "op2_value_S (REG_IMM sh) cpu = A_CALC_OP2_REG_SHIFT_IMM_S sh cpu"
| "op2_value_S (REG_REG sh) cpu = A_CALC_OP2_REG_SHIFT_REG_S sh cpu"

fun op2_cycles :: "operand2 \<Rightarrow> u32" where
  "op2_cycles IMM = 0"
| "op2_cycles (REG_IMM _) = 0"
| "op2_cycles (REG_REG _) = 1"

section \<open>Carries and overflows are those of the integers\<close>

lemma CarryAdd_iff: "CarryAdd a b \<longleftrightarrow> 4294967296 \<le> uint a + uint b"
proof -
  have "uint (0xFFFFFFFF - a) = 4294967295 - uint a"
    using uint_bound32 [of a] by (simp add: uint_minus32)
  then show ?thesis by (simp add: CarryAdd_def word_less_def) linarith
qed

lemma CarrySub_iff: "CarrySub a b \<longleftrightarrow> uint b \<le> uint a"
  by (simp add: CarrySub_def word_le_def)

lemma OverflowAdd_iff: "OverflowAdd a b \<longleftrightarrow> sint (a + b) \<noteq> sint a + sint b"
  using uint_bound32 [of a] uint_bound32 [of b]
  by (simp only: OverflowAdd_def Let_def tst_xor_msb sint_uint32 uint_plus32 split: if_split) linarith

lemma OverflowSub_iff: "OverflowSub a b \<longleftrightarrow> sint (a - b) \<noteq> sint a - sint b"
  using uint_bound32 [of a] uint_bound32 [of b]
  by (simp only: OverflowSub_def Let_def tst_xor_msb sint_uint32 uint_minus32 split: if_split) linarith

lemma CarryAdc_iff:
  assumes "uint c \<le> 1"
  shows "CarryAdd a b \<or> CarryAdd (a + b) c \<longleftrightarrow> 4294967296 \<le> uint a + uint b + uint c"
  using assms uint_bound32 [of a] uint_bound32 [of b] uint_bound32 [of c]
  by (simp only: CarryAdd_iff uint_plus32 split: if_split) linarith

lemma CarrySbc_iff:
  assumes "uint c \<le> 1"
  shows "CarrySub a b \<and> CarrySub (a - b) c \<longleftrightarrow> uint b + uint c \<le> uint a"
  using assms uint_bound32 [of a] uint_bound32 [of b] uint_bound32 [of c]
  by (simp only: CarrySub_iff uint_minus32 split: if_split) linarith

section \<open>The barrel shifter bit by bit\<close>

text \<open>
  The reference: a shift moves one bit at a time, and the carry is the last bit moved out.  The
  immediate encodings of a zero amount mean 32 for \<open>LSR\<close> and \<open>ASR\<close>, and a rotation through
  the carry for \<open>ROR\<close>.
\<close>

fun shift_once :: "shiftop \<Rightarrow> u32 \<Rightarrow> u32 \<times> bool" where
  "shift_once SH_LSL x = (push_bit 1 x, bit x 31)"
| "shift_once SH_LSR x = (drop_bit 1 x, bit x 0)"
| "shift_once SH_ASR x = (signed_drop_bit 1 x, bit x 0)"
| "shift_once SH_ROR x = (word_rotr 1 x, bit x 0)"

fun shift_serial :: "shiftop \<Rightarrow> nat \<Rightarrow> u32 \<times> bool \<Rightarrow> u32 \<times> bool" where
  "shift_serial sh 0 xc = xc"
| "shift_serial sh (Suc n) xc = shift_once sh (fst (shift_serial sh n xc))"

lemma serial_LSL:
  "shift_serial SH_LSL n (x, c) = (push_bit n x, if n = 0 then c else n \<le> 32 \<and> bit x (32 - n))"
proof (induction n)
  case (Suc n)
  have "31 - n = 32 - Suc n" by simp
  with Suc show ?case by (auto simp: bit_push_bit_iff)
qed simp

lemma serial_LSR:
  "shift_serial SH_LSR n (x, c) = (drop_bit n x, if n = 0 then c else bit x (n - 1))"
  by (induction n) (auto simp: bit_drop_bit_eq)

lemma serial_ASR:
  "shift_serial SH_ASR n (x, c) = (signed_drop_bit n x, if n = 0 then c else bit x (min (n - 1) 31))"
proof (induction n)
  case (Suc n)
  then show ?case by (auto simp: bit_signed_drop_bit_iff min_def)
qed simp

lemma serial_ROR:
  "shift_serial SH_ROR n (x, c) = (word_rotr n x, if n = 0 then c else bit x ((n - 1) mod 32))"
proof (induction n)
  case (Suc n)
  have "word_rotr (Suc 0) (word_rotr n x) = word_rotr (Suc n) x"
  proof (rule bit_word_eqI)
    fix i
    assume "i < LENGTH(32)"
    have "(i + 1) mod 32 < (32::nat)" "((i + 1) mod 32 + n) mod 32 = (i + Suc n) mod 32"
      by (simp_all add: mod_simps)
    then show "bit (word_rotr (Suc 0) (word_rotr n x)) i = bit (word_rotr (Suc n) x) i"
      by (simp only: bit_word_rotr_iff One_nat_def len_num1 len_bit0 len_bit1) simp
  qed
  with Suc show ?case by (auto simp: bit_word_rotr_iff)
qed (simp add: word_rotr_0)

lemmas serial_simps = shl_def shr_def sar_def tst_pow tst_masks unat_32_sub unat_sub1 unat_sub1 [OF word_neq_0_conv [THEN iffD1]] unat_le_31
  shl_big sar_big SetC_same bit_big

lemma LSL_REG_S_serial:
  "LSL_REG_S cpu x s = (case shift_serial SH_LSL (unat s) (x, bit (CPSR cpu) 29) of (y, c) \<Rightarrow> (y, SetC c cpu))"
  by (cases "unat s" "32::nat" rule: linorder_cases) (auto simp: LSL_REG_S_def serial_LSL serial_simps)

lemma LSR_REG_S_serial:
  "LSR_REG_S cpu x s = (case shift_serial SH_LSR (unat s) (x, bit (CPSR cpu) 29) of (y, c) \<Rightarrow> (y, SetC c cpu))"
  by (cases "unat s" "32::nat" rule: linorder_cases) (auto simp: LSR_REG_S_def serial_LSR serial_simps )

lemma ASR_REG_S_serial:
  "ASR_REG_S cpu x s = (case shift_serial SH_ASR (unat s) (x, bit (CPSR cpu) 29) of (y, c) \<Rightarrow> (y, SetC c cpu))"
  by (cases "unat s" "32::nat" rule: linorder_cases) (auto simp: ASR_REG_S_def serial_ASR serial_simps)

lemma ROR_REG_S_serial:
  "ROR_REG_S cpu x s = (case shift_serial SH_ROR (unat s) (x, bit (CPSR cpu) 29) of (y, c) \<Rightarrow> (y, SetC c cpu))"
  by (cases "unat s" "32::nat" rule: linorder_cases) (auto simp: ROR_REG_S_def serial_ROR serial_simps ROR_def and31 rotr_mod rotr_32 word_rotr_0)

lemma shift_reg_S_serial:
  "shift_reg_S sh cpu x s =
     (case shift_serial sh (unat s) (x, bit (CPSR cpu) 29) of (y, c) \<Rightarrow> (y, SetC c cpu)) \<and>
   shift_reg sh x s = fst (shift_serial sh (unat s) (x, bit (CPSR cpu) 29))"
proof
  show S: "shift_reg_S sh cpu x s =
     (case shift_serial sh (unat s) (x, bit (CPSR cpu) 29) of (y, c) \<Rightarrow> (y, SetC c cpu))"
    by (cases sh) (simp_all add: LSL_REG_S_serial LSR_REG_S_serial ASR_REG_S_serial ROR_REG_S_serial)
  have "shift_reg sh x s = fst (shift_reg_S sh cpu x s)"
    by (cases "s = 0"; cases sh) (auto simp: LSL_REG_def LSR_REG_def ASR_REG_def ROR_REG_def LSL_REG_S_def LSR_REG_S_def
      ASR_REG_S_def ROR_REG_S_def shl_def shr_def sar_def word_neq_0_conv)
  then show "shift_reg sh x s = fst (shift_serial sh (unat s) (x, bit (CPSR cpu) 29))"
    by (simp add: S split: prod.split)
qed

definition imm_amount :: "shiftop \<Rightarrow> nat \<Rightarrow> nat" where
  "imm_amount sh s = (if s = 0 \<and> sh \<in> {SH_LSR, SH_ASR} then 32 else s)"

definition rrx :: "u32 \<Rightarrow> bool \<Rightarrow> u32 \<times> bool" where
  "rrx x c = (drop_bit 1 x OR push_bit 31 (of_bool c), bit x 0)"

lemma rrx_carry: "shl (CPSR cpu AND 0x20000000) 2 = push_bit 31 (of_bool (bit (CPSR cpu) 29))"
proof (rule bit_word_eqI)
  fix i
  assume "i < LENGTH(32)"
  have two: "unat (2 :: u32) = 2" by simp
  show "bit (shl (CPSR cpu AND 0x20000000) 2) i = bit (push_bit 31 (of_bool (bit (CPSR cpu) 29)) :: u32) i"
    unfolding shl_def two by (simp only: bit_push_bit_iff bit_and_iff bit_flag_masks bit_of_bool_iff) auto
qed

lemma imm_le_31: "unat s \<le> 31 \<Longrightarrow> unat s < 32"
  by simp

lemma ROR_IMM_S_0:
  "ROR_IMM_S cpu x 0 = (case rrx x (bit (CPSR cpu) 29) of (y, c) \<Rightarrow> (y, SetC c cpu))"
proof -
  have "x AND 1 \<noteq> 0 \<longleftrightarrow> bit x 0"
    using tst_masks(7) [of x] by (simp only: tst_def)
  then show ?thesis
    by (simp only: ROR_IMM_S_def Let_def rrx_carry rrx_def shr_def if_True refl prod.case) simp
qed

lemma shift_imm_S_serial:
  assumes "s \<le> 31"
  shows "shift_imm_S sh cpu x s =
      (case (if sh = SH_ROR \<and> s = 0 then rrx x (bit (CPSR cpu) 29)
             else shift_serial sh (imm_amount sh (unat s)) (x, bit (CPSR cpu) 29)) of
        (y, c) \<Rightarrow> (y, SetC c cpu))"
proof -
  have le: "unat s \<le> 31" "\<not> 31 < unat s" using assms by (simp_all add: word_le_nat_alt)
  show ?thesis
  proof (cases sh)
    case SH_LSL
    then show ?thesis using le
      by (auto simp: LSL_IMM_S_def serial_LSL imm_amount_def serial_simps)
  next
    case SH_LSR
    then show ?thesis using le
      by (cases "s = 0") (auto simp: LSR_IMM_S_def serial_LSR imm_amount_def serial_simps unat_eq_0)
  next
    case SH_ASR
    then show ?thesis using le
      by (cases "s = 0") (auto simp: ASR_IMM_S_def serial_ASR imm_amount_def serial_simps unat_eq_0)
  next
    case SH_ROR
    then show ?thesis using le
      by (cases "s = 0") (auto simp: ROR_IMM_S_0, auto simp: ROR_IMM_S_def serial_ROR imm_amount_def
        serial_simps unat_eq_0 ROR_def and31)
  qed
qed

lemma shift_field_le: "drop_bit 7 instr AND 0x1F \<le> (31 :: u32)"
  by (rule word_and_le1)

text \<open>C5.  The second operand with the shifter carry is the bit-serial shift of the register, for
  every amount the encodings can give: 0 to 255 by register, and by immediate with the special
  meanings of a zero amount.\<close>

theorem op2_value_S_serial:
  "op2_value_S (REG_REG sh) cpu =
     (let rm = fld (CurInstr cpu) 0 0xF; x = (if rm = 15 then R cpu rm + 4 else R cpu rm);
          (y, c) = shift_serial sh (unat (R cpu (fld (CurInstr cpu) 8 0xF) AND 0xFF))
                     (x, bit (CPSR cpu) 29)
      in (y, SetC c cpu)) \<and>
   op2_value_S (REG_IMM sh) cpu =
     (let x = R cpu (fld (CurInstr cpu) 0 0xF); s = unat (drop_bit 7 (CurInstr cpu) AND 0x1F);
          (y, c) = (if sh = SH_ROR \<and> s = 0 then rrx x (bit (CPSR cpu) 29)
                    else shift_serial sh (imm_amount sh s) (x, bit (CPSR cpu) 29))
      in (y, SetC c cpu))"
proof -
  have "unat s = 0 \<longleftrightarrow> s = 0" for s :: u32 by (simp add: unat_eq_0)
  then show ?thesis
    by (simp only: op2_value_S.simps A_CALC_OP2_REG_SHIFT_REG_S_def A_CALC_OP2_REG_SHIFT_IMM_S_def
        Let_def shift_reg_S_serial shift_imm_S_serial [OF shift_field_le] simp_thms)
qed

end
