(* ===== verification/ArmAlu.thy ===== *)
theory ArmAlu
  imports ArmShift
begin

text \<open>
  The data-processing, multiply and saturating instructions of
  \<^verbatim>\<open>src/src/ARMInterpreter_ALU.cpp\<close>, ARM and Thumb.  A macro \<open>A_X(c)\<close> that the generated
  handlers expand after computing \<open>b\<close> is the function \<open>A_X vt c b\<close> on the CPU; the handlers of
  \<open>A_IMPLEMENT_ALU_OP\<close> are \<open>A_ALU\<close> and \<open>A_ALU_S\<close> over the operation and the operand form.
\<close>

section \<open>Pieces every operation shares\<close>

text \<open>\<open>if (c) cpu->AddCycles_CI(c); else cpu->AddCycles_C();\<close>\<close>

definition alu_cycles :: "'n arm_vt \<Rightarrow> u32 \<Rightarrow> 'n arm \<Rightarrow> 'n arm" where
  [arm_defs]: "alu_cycles vt c cpu = (if c \<noteq> 0 then AddCycles_CI vt c cpu else AddCycles_C vt cpu)"

text \<open>The final \<open>if\<close> of an operation that writes Rd, without and with the S bit.\<close>

definition alu_write :: "'n arm_vt \<Rightarrow> u32 \<Rightarrow> 'n arm \<Rightarrow> 'n arm" where
  [arm_defs]: "alu_write vt res cpu =
     (if fld (CurInstr cpu) 12 0xF = 15 then JumpTo vt (res AND NOT 1) False cpu
      else cpu\<lparr>R := (R cpu)(fld (CurInstr cpu) 12 0xF := res)\<rparr>)"

definition alu_write_S :: "'n arm_vt \<Rightarrow> u32 \<Rightarrow> 'n arm \<Rightarrow> 'n arm" where
  [arm_defs]: "alu_write_S vt res cpu =
     (if fld (CurInstr cpu) 12 0xF = 15 then JumpTo vt res True cpu
      else cpu\<lparr>R := (R cpu)(fld (CurInstr cpu) 12 0xF := res)\<rparr>)"

definition Rn :: "'n arm \<Rightarrow> u32" where
  [arm_defs]: "Rn cpu = R cpu (fld (CurInstr cpu) 16 0xF)"

text \<open>\<open>cpu->CPSR & 0x20000000 ? 1 : 0\<close>\<close>

definition carry_in :: "'n arm \<Rightarrow> u32" where
  "carry_in cpu = (if tst (CPSR cpu) 0x20000000 then 1 else 0)"

definition not_carry_in :: "'n arm \<Rightarrow> u32" where
  "not_carry_in cpu = (if tst (CPSR cpu) 0x20000000 then 0 else 1)"

section \<open>The operations\<close>

definition A_AND :: "'n arm_vt \<Rightarrow> u32 \<Rightarrow> u32 \<Rightarrow> 'n arm \<Rightarrow> 'n arm" where
  [arm_defs]: "A_AND vt c b cpu =
     (let a = Rn cpu; res = a AND b
      in alu_write vt res (alu_cycles vt c cpu))"

definition A_AND_S :: "'n arm_vt \<Rightarrow> u32 \<Rightarrow> u32 \<Rightarrow> 'n arm \<Rightarrow> 'n arm" where
  [arm_defs]: "A_AND_S vt c b cpu =
     (let a = Rn cpu; res = a AND b
      in alu_write_S vt res (alu_cycles vt c (SetNZ (tst res 0x80000000) (res = 0) cpu)))"

definition A_EOR :: "'n arm_vt \<Rightarrow> u32 \<Rightarrow> u32 \<Rightarrow> 'n arm \<Rightarrow> 'n arm" where
  [arm_defs]: "A_EOR vt c b cpu =
     (let a = Rn cpu; res = a XOR b
      in alu_write vt res (alu_cycles vt c cpu))"

definition A_EOR_S :: "'n arm_vt \<Rightarrow> u32 \<Rightarrow> u32 \<Rightarrow> 'n arm \<Rightarrow> 'n arm" where
  [arm_defs]: "A_EOR_S vt c b cpu =
     (let a = Rn cpu; res = a XOR b
      in alu_write_S vt res (alu_cycles vt c (SetNZ (tst res 0x80000000) (res = 0) cpu)))"

definition A_SUB :: "'n arm_vt \<Rightarrow> u32 \<Rightarrow> u32 \<Rightarrow> 'n arm \<Rightarrow> 'n arm" where
  [arm_defs]: "A_SUB vt c b cpu =
     (let a = Rn cpu; res = a - b
      in alu_write vt res (alu_cycles vt c cpu))"

definition A_SUB_S :: "'n arm_vt \<Rightarrow> u32 \<Rightarrow> u32 \<Rightarrow> 'n arm \<Rightarrow> 'n arm" where
  [arm_defs]: "A_SUB_S vt c b cpu =
     (let a = Rn cpu; res = a - b
      in alu_write_S vt res (alu_cycles vt c
           (SetNZCV (tst res 0x80000000) (res = 0) (CarrySub a b) (OverflowSub a b) cpu)))"

definition A_RSB :: "'n arm_vt \<Rightarrow> u32 \<Rightarrow> u32 \<Rightarrow> 'n arm \<Rightarrow> 'n arm" where
  [arm_defs]: "A_RSB vt c b cpu =
     (let a = Rn cpu; res = b - a
      in alu_write vt res (alu_cycles vt c cpu))"

definition A_RSB_S :: "'n arm_vt \<Rightarrow> u32 \<Rightarrow> u32 \<Rightarrow> 'n arm \<Rightarrow> 'n arm" where
  [arm_defs]: "A_RSB_S vt c b cpu =
     (let a = Rn cpu; res = b - a
      in alu_write_S vt res (alu_cycles vt c
           (SetNZCV (tst res 0x80000000) (res = 0) (CarrySub b a) (OverflowSub b a) cpu)))"

definition A_ADD :: "'n arm_vt \<Rightarrow> u32 \<Rightarrow> u32 \<Rightarrow> 'n arm \<Rightarrow> 'n arm" where
  [arm_defs]: "A_ADD vt c b cpu =
     (let a = Rn cpu; res = a + b
      in alu_write vt res (alu_cycles vt c cpu))"

definition A_ADD_S :: "'n arm_vt \<Rightarrow> u32 \<Rightarrow> u32 \<Rightarrow> 'n arm \<Rightarrow> 'n arm" where
  [arm_defs]: "A_ADD_S vt c b cpu =
     (let a = Rn cpu; res = a + b
      in alu_write_S vt res (alu_cycles vt c
           (SetNZCV (tst res 0x80000000) (res = 0) (CarryAdd a b) (OverflowAdd a b) cpu)))"

definition A_ADC :: "'n arm_vt \<Rightarrow> u32 \<Rightarrow> u32 \<Rightarrow> 'n arm \<Rightarrow> 'n arm" where
  [arm_defs]: "A_ADC vt c b cpu =
     (let a = Rn cpu; res = a + b + carry_in cpu
      in alu_write vt res (alu_cycles vt c cpu))"

definition A_ADC_S :: "'n arm_vt \<Rightarrow> u32 \<Rightarrow> u32 \<Rightarrow> 'n arm \<Rightarrow> 'n arm" where
  [arm_defs]: "A_ADC_S vt c b cpu =
     (let a = Rn cpu; res_tmp = a + b; carry = carry_in cpu; res = res_tmp + carry
      in alu_write_S vt res (alu_cycles vt c
           (SetNZCV (tst res 0x80000000) (res = 0)
              (CarryAdd a b \<or> CarryAdd res_tmp carry) (OverflowAdc a b carry) cpu)))"

definition A_SBC :: "'n arm_vt \<Rightarrow> u32 \<Rightarrow> u32 \<Rightarrow> 'n arm \<Rightarrow> 'n arm" where
  [arm_defs]: "A_SBC vt c b cpu =
     (let a = Rn cpu; res = a - b - not_carry_in cpu
      in alu_write vt res (alu_cycles vt c cpu))"

definition A_SBC_S :: "'n arm_vt \<Rightarrow> u32 \<Rightarrow> u32 \<Rightarrow> 'n arm \<Rightarrow> 'n arm" where
  [arm_defs]: "A_SBC_S vt c b cpu =
     (let a = Rn cpu; res_tmp = a - b; carry = not_carry_in cpu; res = res_tmp - carry
      in alu_write_S vt res (alu_cycles vt c
           (SetNZCV (tst res 0x80000000) (res = 0)
              (CarrySub a b \<and> CarrySub res_tmp carry) (OverflowSbc a b carry) cpu)))"

definition A_RSC :: "'n arm_vt \<Rightarrow> u32 \<Rightarrow> u32 \<Rightarrow> 'n arm \<Rightarrow> 'n arm" where
  [arm_defs]: "A_RSC vt c b cpu =
     (let a = Rn cpu; res = b - a - not_carry_in cpu
      in alu_write vt res (alu_cycles vt c cpu))"

definition A_RSC_S :: "'n arm_vt \<Rightarrow> u32 \<Rightarrow> u32 \<Rightarrow> 'n arm \<Rightarrow> 'n arm" where
  [arm_defs]: "A_RSC_S vt c b cpu =
     (let a = Rn cpu; res_tmp = b - a; carry = not_carry_in cpu; res = res_tmp - carry
      in alu_write_S vt res (alu_cycles vt c
           (SetNZCV (tst res 0x80000000) (res = 0)
              (CarrySub b a \<and> CarrySub res_tmp carry) (OverflowSbc b a carry) cpu)))"

definition A_TST :: "'n arm_vt \<Rightarrow> u32 \<Rightarrow> u32 \<Rightarrow> 'n arm \<Rightarrow> 'n arm" where
  [arm_defs]: "A_TST vt c b cpu =
     (let a = Rn cpu; res = a AND b
      in alu_cycles vt c (SetNZ (tst res 0x80000000) (res = 0) cpu))"

definition A_TEQ :: "'n arm_vt \<Rightarrow> u32 \<Rightarrow> u32 \<Rightarrow> 'n arm \<Rightarrow> 'n arm" where
  [arm_defs]: "A_TEQ vt c b cpu =
     (let a = Rn cpu; res = a XOR b
      in alu_cycles vt c (SetNZ (tst res 0x80000000) (res = 0) cpu))"

definition A_CMP :: "'n arm_vt \<Rightarrow> u32 \<Rightarrow> u32 \<Rightarrow> 'n arm \<Rightarrow> 'n arm" where
  [arm_defs]: "A_CMP vt c b cpu =
     (let a = Rn cpu; res = a - b
      in alu_cycles vt c
           (SetNZCV (tst res 0x80000000) (res = 0) (CarrySub a b) (OverflowSub a b) cpu))"

definition A_CMN :: "'n arm_vt \<Rightarrow> u32 \<Rightarrow> u32 \<Rightarrow> 'n arm \<Rightarrow> 'n arm" where
  [arm_defs]: "A_CMN vt c b cpu =
     (let a = Rn cpu; res = a + b
      in alu_cycles vt c
           (SetNZCV (tst res 0x80000000) (res = 0) (CarryAdd a b) (OverflowAdd a b) cpu))"

definition A_ORR :: "'n arm_vt \<Rightarrow> u32 \<Rightarrow> u32 \<Rightarrow> 'n arm \<Rightarrow> 'n arm" where
  [arm_defs]: "A_ORR vt c b cpu =
     (let a = Rn cpu; res = a OR b
      in alu_write vt res (alu_cycles vt c cpu))"

definition A_ORR_S :: "'n arm_vt \<Rightarrow> u32 \<Rightarrow> u32 \<Rightarrow> 'n arm \<Rightarrow> 'n arm" where
  [arm_defs]: "A_ORR_S vt c b cpu =
     (let a = Rn cpu; res = a OR b
      in alu_write_S vt res (alu_cycles vt c (SetNZ (tst res 0x80000000) (res = 0) cpu)))"

definition A_MOV :: "'n arm_vt \<Rightarrow> u32 \<Rightarrow> u32 \<Rightarrow> 'n arm \<Rightarrow> 'n arm" where
  [arm_defs]: "A_MOV vt c b cpu = alu_write vt b (alu_cycles vt c cpu)"

definition A_MOV_S :: "'n arm_vt \<Rightarrow> u32 \<Rightarrow> u32 \<Rightarrow> 'n arm \<Rightarrow> 'n arm" where
  [arm_defs]: "A_MOV_S vt c b cpu =
     alu_write_S vt b (alu_cycles vt c (SetNZ (tst b 0x80000000) (b = 0) cpu))"

definition A_BIC :: "'n arm_vt \<Rightarrow> u32 \<Rightarrow> u32 \<Rightarrow> 'n arm \<Rightarrow> 'n arm" where
  [arm_defs]: "A_BIC vt c b cpu =
     (let a = Rn cpu; res = a AND NOT b
      in alu_write vt res (alu_cycles vt c cpu))"

definition A_BIC_S :: "'n arm_vt \<Rightarrow> u32 \<Rightarrow> u32 \<Rightarrow> 'n arm \<Rightarrow> 'n arm" where
  [arm_defs]: "A_BIC_S vt c b cpu =
     (let a = Rn cpu; res = a AND NOT b
      in alu_write_S vt res (alu_cycles vt c (SetNZ (tst res 0x80000000) (res = 0) cpu)))"

definition A_MVN :: "'n arm_vt \<Rightarrow> u32 \<Rightarrow> u32 \<Rightarrow> 'n arm \<Rightarrow> 'n arm" where
  [arm_defs]: "A_MVN vt c b cpu =
     (let b = NOT b in alu_write vt b (alu_cycles vt c cpu))"

definition A_MVN_S :: "'n arm_vt \<Rightarrow> u32 \<Rightarrow> u32 \<Rightarrow> 'n arm \<Rightarrow> 'n arm" where
  [arm_defs]: "A_MVN_S vt c b cpu =
     (let b = NOT b
      in alu_write_S vt b (alu_cycles vt c (SetNZ (tst b 0x80000000) (b = 0) cpu)))"

section \<open>The generated handlers\<close>

datatype alu_op = OP_AND | OP_EOR | OP_SUB | OP_RSB | OP_ADD | OP_ADC | OP_SBC | OP_RSC
  | OP_TST | OP_TEQ | OP_CMP | OP_CMN | OP_ORR | OP_MOV | OP_BIC | OP_MVN

text \<open>
  The second macro argument: the operations whose flag-setting handlers take C from the
  shifter (\<open>A_IMPLEMENT_ALU_OP(x,_S)\<close>, \<open>A_IMPLEMENT_ALU_TEST(x,_S)\<close>).
\<close>

fun logical_op :: "alu_op \<Rightarrow> bool" where
  "logical_op OP_SUB = False"
| "logical_op OP_RSB = False"
| "logical_op OP_ADD = False"
| "logical_op OP_ADC = False"
| "logical_op OP_SBC = False"
| "logical_op OP_RSC = False"
| "logical_op OP_CMP = False"
| "logical_op OP_CMN = False"
| "logical_op _ = True"

fun alu_exec :: "alu_op \<Rightarrow> 'n arm_vt \<Rightarrow> u32 \<Rightarrow> u32 \<Rightarrow> 'n arm \<Rightarrow> 'n arm" where
  "alu_exec OP_AND = A_AND"
| "alu_exec OP_EOR = A_EOR"
| "alu_exec OP_SUB = A_SUB"
| "alu_exec OP_RSB = A_RSB"
| "alu_exec OP_ADD = A_ADD"
| "alu_exec OP_ADC = A_ADC"
| "alu_exec OP_SBC = A_SBC"
| "alu_exec OP_RSC = A_RSC"
| "alu_exec OP_TST = A_TST"
| "alu_exec OP_TEQ = A_TEQ"
| "alu_exec OP_CMP = A_CMP"
| "alu_exec OP_CMN = A_CMN"
| "alu_exec OP_ORR = A_ORR"
| "alu_exec OP_MOV = A_MOV"
| "alu_exec OP_BIC = A_BIC"
| "alu_exec OP_MVN = A_MVN"

text \<open>The tests have no variant without the S bit: their handlers always set flags.\<close>

fun alu_exec_S :: "alu_op \<Rightarrow> 'n arm_vt \<Rightarrow> u32 \<Rightarrow> u32 \<Rightarrow> 'n arm \<Rightarrow> 'n arm" where
  "alu_exec_S OP_AND = A_AND_S"
| "alu_exec_S OP_EOR = A_EOR_S"
| "alu_exec_S OP_SUB = A_SUB_S"
| "alu_exec_S OP_RSB = A_RSB_S"
| "alu_exec_S OP_ADD = A_ADD_S"
| "alu_exec_S OP_ADC = A_ADC_S"
| "alu_exec_S OP_SBC = A_SBC_S"
| "alu_exec_S OP_RSC = A_RSC_S"
| "alu_exec_S OP_TST = A_TST"
| "alu_exec_S OP_TEQ = A_TEQ"
| "alu_exec_S OP_CMP = A_CMP"
| "alu_exec_S OP_CMN = A_CMN"
| "alu_exec_S OP_ORR = A_ORR_S"
| "alu_exec_S OP_MOV = A_MOV_S"
| "alu_exec_S OP_BIC = A_BIC_S"
| "alu_exec_S OP_MVN = A_MVN_S"

text \<open>\<open>A_x_IMM\<close>, \<open>A_x_REG_LSL_IMM\<close>, \dots, \<open>A_x_REG_ROR_REG\<close>\<close>

definition A_ALU :: "alu_op \<Rightarrow> operand2 \<Rightarrow> 'n arm_vt \<Rightarrow> 'n arm \<Rightarrow> 'n arm" where
  "A_ALU op f vt cpu = alu_exec op vt (op2_cycles f) (op2_value f cpu) cpu"

text \<open>\<open>A_x_IMM_S\<close>, \<open>A_x_REG_LSL_IMM_S\<close>, \dots, and the handlers of \<open>A_IMPLEMENT_ALU_TEST\<close>\<close>

definition A_ALU_S :: "alu_op \<Rightarrow> operand2 \<Rightarrow> 'n arm_vt \<Rightarrow> 'n arm \<Rightarrow> 'n arm" where
  "A_ALU_S op f vt cpu =
     (if logical_op op
      then let (b, cpu) = op2_value_S f cpu in alu_exec_S op vt (op2_cycles f) b cpu
      else alu_exec_S op vt (op2_cycles f) (op2_value f cpu) cpu)"

definition A_ALU_TEST :: "alu_op \<Rightarrow> operand2 \<Rightarrow> 'n arm_vt \<Rightarrow> 'n arm \<Rightarrow> 'n arm" where
  "A_ALU_TEST op f vt cpu =
     (if logical_op op
      then let (b, cpu) = op2_value_S f cpu in alu_exec op vt (op2_cycles f) b cpu
      else alu_exec op vt (op2_cycles f) (op2_value f cpu) cpu)"

definition A_MOV_REG_LSL_IMM_DBG :: "'n arm_vt \<Rightarrow> 'n arm \<Rightarrow> 'n arm" where
  "A_MOV_REG_LSL_IMM_DBG vt cpu =
     (let cpu = A_ALU OP_MOV (REG_IMM SH_LSL) vt cpu
      in if CurInstr cpu = 0xE1A0C00C \<and> NextInstr cpu 0 AND 0xFF000000 = 0xEA000000 \<and>
            NextInstr cpu 1 AND 0xFFFF = 0x6464
         then NocashPrint vt (Num cpu) (R cpu 15 + 4) cpu
         else cpu)"

section \<open>The arithmetic flags\<close>

text \<open>
  The reference is the adder of the architecture: a subtraction adds the complement, carry and
  overflow are read off the exact integer sums.
\<close>

definition add_with_carry :: "u32 \<Rightarrow> u32 \<Rightarrow> bool \<Rightarrow> u32 \<times> bool \<times> bool" where
  "add_with_carry x y cin =
     (let u = uint x + uint y + of_bool cin; s = sint x + sint y + of_bool cin;
          r = word_of_int u
      in (r, uint r \<noteq> u, sint r \<noteq> s))"

fun arith_operands :: "alu_op \<Rightarrow> u32 \<Rightarrow> u32 \<Rightarrow> bool \<Rightarrow> u32 \<times> u32 \<times> bool" where
  "arith_operands OP_SUB a b c = (a, NOT b, True)"
| "arith_operands OP_CMP a b c = (a, NOT b, True)"
| "arith_operands OP_RSB a b c = (b, NOT a, True)"
| "arith_operands OP_ADC a b c = (a, b, c)"
| "arith_operands OP_SBC a b c = (a, NOT b, c)"
| "arith_operands OP_RSC a b c = (b, NOT a, c)"
| "arith_operands _ a b c = (a, b, False)"

lemma awc:
  "add_with_carry x y cin =
     (x + y + of_bool cin, 4294967296 \<le> uint x + uint y + of_bool cin,
      sint (x + y + of_bool cin) \<noteq> sint x + sint y + of_bool cin)"
proof -
  have r: "word_of_int (uint x + uint y + of_bool cin) = x + y + (of_bool cin :: u32)"
    by (cases cin) simp_all
  have "uint (x + y + (of_bool cin :: u32)) \<noteq> uint x + uint y + of_bool cin \<longleftrightarrow>
      4294967296 \<le> uint x + uint y + of_bool cin"
    using uint_bound32 [of x] uint_bound32 [of y] uint_bound32 [of "of_bool cin"]
    by (simp only: uint_plus32 uint_of_bool32 split: if_split) (cases cin; simp; linarith)
  with r show ?thesis by (simp only: add_with_carry_def Let_def simp_thms)
qed

lemma awc_add: "add_with_carry a b False = (a + b, CarryAdd a b, OverflowAdd a b)"
  by (simp add: awc CarryAdd_iff OverflowAdd_iff)

lemma awc_sub: "add_with_carry a (NOT b) True = (a - b, CarrySub a b, OverflowSub a b)"
proof -
  have r: "a + NOT b + of_bool True = a - b" by (simp add: not_minus32)
  show ?thesis
    unfolding awc r using uint_bound32 [of b]
    by (simp add: CarrySub_iff OverflowSub_iff uint_not32 sint_not32)
qed

lemma carry_in_bool: "carry_in cpu = of_bool (bit (CPSR cpu) 29)" "not_carry_in cpu = of_bool (\<not> bit (CPSR cpu) 29)"
  by (simp_all add: carry_in_def not_carry_in_def tst_masks)

lemma awc_adc:
  "add_with_carry a b c = (a + b + of_bool c, CarryAdd a b \<or> CarryAdd (a + b) (of_bool c), OverflowAdc a b (of_bool c))"
  using CarryAdc_iff [of "of_bool c" a b]
  by (simp add: awc uint_of_bool32 OverflowAdc_def Let_def)

lemma awc_sbc:
  "add_with_carry a (NOT b) c =
     (a - b - of_bool (\<not> c), CarrySub a b \<and> CarrySub (a - b) (of_bool (\<not> c)), OverflowSbc a b (of_bool (\<not> c)))"
proof -
  have r: "a + NOT b + of_bool c = a - b - (of_bool (\<not> c) :: u32)" by (cases c) (simp_all add: not_minus32)
  have "sint a + sint (NOT b) + of_bool c = sint a - sint b - uint (of_bool (\<not> c) :: u32)"
    by (cases c) (simp_all add: sint_not32)
  moreover have "4294967296 \<le> uint a + uint (NOT b) + of_bool c \<longleftrightarrow> CarrySub a b \<and> CarrySub (a - b) (of_bool (\<not> c))"
    by (subst CarrySbc_iff) (auto simp: uint_of_bool32 uint_not32)
  ultimately show ?thesis
    by (simp only: awc r OverflowSbc_def Let_def)
qed

lemmas alu_arith_defs = A_SUB_S_def A_RSB_S_def A_ADD_S_def A_ADC_S_def A_SBC_S_def A_RSC_S_def A_CMP_def
  A_CMN_def Let_def sign_bit carry_in_bool

text \<open>C6.  Every flag-setting arithmetic instruction (\<open>SUB\<close>, \<open>RSB\<close>, \<open>ADD\<close>, \<open>ADC\<close>, \<open>SBC\<close>,
  \<open>RSC\<close>, \<open>CMP\<close>, \<open>CMN\<close>) computes result and flags as the architecture's adder does: N and Z of
  the result, C the carry out of the unsigned sum, V the overflow of the signed sum.\<close>

theorem alu_arith_flags:
  assumes "\<not> logical_op op"
  shows "alu_exec_S op vt k b cpu =
     (let (x, y, cin) = arith_operands op (Rn cpu) b (bit (CPSR cpu) 29);
          (r, c, v) = add_with_carry x y cin;
          cpu' = alu_cycles vt k (SetNZCV (sint r < 0) (r = 0) c v cpu)
      in if op = OP_CMP \<or> op = OP_CMN then cpu' else alu_write_S vt r cpu')"
  using assms
  by (cases op)
    ((simp add: awc_add awc_sub awc_sbc [of _ _ "bit (CPSR cpu) 29"] alu_arith_defs del: of_bool_eq; fail) |
     (simp add: awc_adc [of _ _ "bit (CPSR cpu) 29"] alu_arith_defs del: of_bool_eq; fail))+

theorem alu_arith_flags_witness:
  "\<forall>vt :: unit arm_vt. \<exists>cpu'. alu_exec_S OP_SBC vt 0 3
      (undefined\<lparr>CPSR := 0, CurInstr := 0, R := (\<lambda>_. 3)\<rparr>) = alu_write_S vt (-1) cpu'"
proof
  fix vt :: "unit arm_vt"
  show "\<exists>cpu'. alu_exec_S OP_SBC vt 0 3
      (undefined\<lparr>CPSR := 0, CurInstr := 0, R := (\<lambda>_. 3)\<rparr>) = alu_write_S vt (-1) cpu'"
    using alu_arith_flags [of OP_SBC vt 0 3 "undefined\<lparr>CPSR := 0, CurInstr := 0, R := (\<lambda>_. 3)\<rparr> :: unit arm"]
    by (auto simp: Rn_def awc not_minus32)
qed

end
