(* ===== verification/ArmMul.thy ===== *)
theory ArmMul
  imports ArmAlu
begin

text \<open>
  The multiply, count-leading-zeros and saturating instructions of
  \<^verbatim>\<open>src/src/ARMInterpreter_ALU.cpp\<close>.  \<open>s64\<close> values are 64-bit words read with
  \<^const>\<open>sint\<close>; the accumulation \<open>res += rd\<close> wraps, where C++ leaves a signed overflow
  undefined.  Undefined instructions enter the exception through \<open>A_UNK\<close> of
  \<^verbatim>\<open>src/src/ARMInterpreter.cpp\<close>, which is defined first.
\<close>

section \<open>Undefined instructions\<close>

definition A_UNK :: "'n arm_vt \<Rightarrow> 'n arm \<Rightarrow> 'n arm" where
  "A_UNK vt cpu =
     (let oldcpsr = CPSR cpu;
          cpu = cpu\<lparr>CPSR := (CPSR cpu AND NOT 0xBF) OR 0x9B\<rparr>;
          cpu = UpdateMode oldcpsr (CPSR cpu) False cpu;
          cpu = cpu\<lparr>R_UND := (R_UND cpu)(2 := oldcpsr)\<rparr>;
          cpu = cpu\<lparr>R := (R cpu)(14 := R cpu 15 - 4)\<rparr>
      in JumpTo vt (ExceptionBase cpu + 0x04) False cpu)"

definition T_UNK :: "'n arm_vt \<Rightarrow> 'n arm \<Rightarrow> 'n arm" where
  "T_UNK vt cpu =
     (let oldcpsr = CPSR cpu;
          cpu = cpu\<lparr>CPSR := (CPSR cpu AND NOT 0xBF) OR 0x9B\<rparr>;
          cpu = UpdateMode oldcpsr (CPSR cpu) False cpu;
          cpu = cpu\<lparr>R_UND := (R_UND cpu)(2 := oldcpsr)\<rparr>;
          cpu = cpu\<lparr>R := (R cpu)(14 := R cpu 15 - 2)\<rparr>
      in JumpTo vt (ExceptionBase cpu + 0x04) False cpu)"

section \<open>Internal cycles of the multiplies\<close>

text \<open>
  The \<open>cycles\<close> cascades, which differ in their first count and in whether a run of leading ones
  terminates early too.
\<close>

definition mul_cycles :: "'n arm \<Rightarrow> u32 \<Rightarrow> s32" where
  "mul_cycles cpu rs =
     (if Num cpu = 0 then if tst (CurInstr cpu) (push_bit 20 1) then 3 else 1
      else if rs AND 0xFFFFFF00 = 0x00000000 \<or> rs AND 0xFFFFFF00 = 0xFFFFFF00 then 1
      else if rs AND 0xFFFF0000 = 0x00000000 \<or> rs AND 0xFFFF0000 = 0xFFFF0000 then 2
      else if rs AND 0xFF000000 = 0x00000000 \<or> rs AND 0xFF000000 = 0xFF000000 then 3
      else 4)"

definition mla_cycles :: "'n arm \<Rightarrow> u32 \<Rightarrow> s32" where
  "mla_cycles cpu rs =
     (if Num cpu = 0 then if tst (CurInstr cpu) (push_bit 20 1) then 3 else 1
      else if rs AND 0xFFFFFF00 = 0x00000000 \<or> rs AND 0xFFFFFF00 = 0xFFFFFF00 then 2
      else if rs AND 0xFFFF0000 = 0x00000000 \<or> rs AND 0xFFFF0000 = 0xFFFF0000 then 3
      else if rs AND 0xFF000000 = 0x00000000 \<or> rs AND 0xFF000000 = 0xFF000000 then 4
      else 5)"

definition umull_cycles :: "'n arm \<Rightarrow> u32 \<Rightarrow> s32" where
  "umull_cycles cpu rs =
     (if Num cpu = 0 then if tst (CurInstr cpu) (push_bit 20 1) then 3 else 1
      else if rs AND 0xFFFFFF00 = 0x00000000 then 2
      else if rs AND 0xFFFF0000 = 0x00000000 then 3
      else if rs AND 0xFF000000 = 0x00000000 then 4
      else 5)"

definition umlal_cycles :: "'n arm \<Rightarrow> u32 \<Rightarrow> s32" where
  "umlal_cycles cpu rs =
     (if Num cpu = 0 then if tst (CurInstr cpu) (push_bit 20 1) then 3 else 1
      else if rs AND 0xFFFFFF00 = 0x00000000 then 3
      else if rs AND 0xFFFF0000 = 0x00000000 then 4
      else if rs AND 0xFF000000 = 0x00000000 then 5
      else 6)"

definition smull_cycles :: "'n arm \<Rightarrow> u32 \<Rightarrow> s32" where
  "smull_cycles cpu rs =
     (if Num cpu = 0 then if tst (CurInstr cpu) (push_bit 20 1) then 3 else 1
      else if rs AND 0xFFFFFF00 = 0x00000000 \<or> rs AND 0xFFFFFF00 = 0xFFFFFF00 then 2
      else if rs AND 0xFFFF0000 = 0x00000000 \<or> rs AND 0xFFFF0000 = 0xFFFF0000 then 3
      else if rs AND 0xFF000000 = 0x00000000 \<or> rs AND 0xFF000000 = 0xFF000000 then 4
      else 5)"

definition smlal_cycles :: "'n arm \<Rightarrow> u32 \<Rightarrow> s32" where
  "smlal_cycles cpu rs =
     (if Num cpu = 0 then if tst (CurInstr cpu) (push_bit 20 1) then 3 else 1
      else if rs AND 0xFFFFFF00 = 0x00000000 \<or> rs AND 0xFFFFFF00 = 0xFFFFFF00 then 3
      else if rs AND 0xFFFF0000 = 0x00000000 \<or> rs AND 0xFFFF0000 = 0xFFFF0000 then 4
      else if rs AND 0xFF000000 = 0x00000000 \<or> rs AND 0xFF000000 = 0xFF000000 then 5
      else 6)"

text \<open>The flag update of a multiply with the S bit.\<close>

definition mul_flags :: "bool \<Rightarrow> bool \<Rightarrow> 'n arm \<Rightarrow> 'n arm" where
  "mul_flags n z cpu =
     (if tst (CurInstr cpu) (push_bit 20 1)
      then let cpu = SetNZ n z cpu in if Num cpu = 1 then SetC False cpu else cpu
      else cpu)"

definition Rm :: "'n arm \<Rightarrow> u32" where
  "Rm cpu = R cpu (fld (CurInstr cpu) 0 0xF)"

definition Rs :: "'n arm \<Rightarrow> u32" where
  "Rs cpu = R cpu (fld (CurInstr cpu) 8 0xF)"

section \<open>Multiplies\<close>

definition A_MUL :: "'n arm_vt \<Rightarrow> 'n arm \<Rightarrow> 'n arm" where
  "A_MUL vt cpu =
     (let rm = Rm cpu; rs = Rs cpu; res = rm * rs;
          cpu = cpu\<lparr>R := (R cpu)(fld (CurInstr cpu) 16 0xF := res)\<rparr>;
          cpu = mul_flags (tst res 0x80000000) (res = 0) cpu
      in AddCycles_CI vt (mul_cycles cpu rs) cpu)"

definition A_MLA :: "'n arm_vt \<Rightarrow> 'n arm \<Rightarrow> 'n arm" where
  "A_MLA vt cpu =
     (let rm = Rm cpu; rs = Rs cpu; rn = R cpu (fld (CurInstr cpu) 12 0xF); res = rm * rs + rn;
          cpu = cpu\<lparr>R := (R cpu)(fld (CurInstr cpu) 16 0xF := res)\<rparr>;
          cpu = mul_flags (tst res 0x80000000) (res = 0) cpu
      in AddCycles_CI vt (mla_cycles cpu rs) cpu)"

text \<open>The 64-bit accumulator \<open>(u64)R[lo] | ((u64)R[hi] << 32)\<close> and the write of both halves.\<close>

definition acc64 :: "'n arm \<Rightarrow> u64" where
  "acc64 cpu = ucast (R cpu (fld (CurInstr cpu) 12 0xF)) OR
               push_bit 32 (ucast (R cpu (fld (CurInstr cpu) 16 0xF)))"

definition write64 :: "u64 \<Rightarrow> 'n arm \<Rightarrow> 'n arm" where
  "write64 res cpu =
     cpu\<lparr>R := (R cpu)(fld (CurInstr cpu) 12 0xF := ucast res,
                      fld (CurInstr cpu) 16 0xF := ucast (drop_bit 32 res))\<rparr>"

definition A_UMULL :: "'n arm_vt \<Rightarrow> 'n arm \<Rightarrow> 'n arm" where
  "A_UMULL vt cpu =
     (let rm = Rm cpu; rs = Rs cpu; res = (ucast rm :: u64) * ucast rs;
          cpu = write64 res cpu;
          cpu = mul_flags (drop_bit 63 res \<noteq> 0) (res = 0) cpu
      in AddCycles_CI vt (umull_cycles cpu rs) cpu)"

definition A_UMLAL :: "'n arm_vt \<Rightarrow> 'n arm \<Rightarrow> 'n arm" where
  "A_UMLAL vt cpu =
     (let rm = Rm cpu; rs = Rs cpu; res = (ucast rm :: u64) * ucast rs;
          rd = acc64 cpu; res = res + rd;
          cpu = write64 res cpu;
          cpu = mul_flags (drop_bit 63 res \<noteq> 0) (res = 0) cpu
      in AddCycles_CI vt (umlal_cycles cpu rs) cpu)"

definition A_SMULL :: "'n arm_vt \<Rightarrow> 'n arm \<Rightarrow> 'n arm" where
  "A_SMULL vt cpu =
     (let rm = Rm cpu; rs = Rs cpu; res = (scast rm :: u64) * scast rs;
          cpu = write64 res cpu;
          cpu = mul_flags ((ucast (signed_drop_bit 63 res) :: u32) \<noteq> 0) (res = 0) cpu
      in AddCycles_CI vt (smull_cycles cpu rs) cpu)"

definition A_SMLAL :: "'n arm_vt \<Rightarrow> 'n arm \<Rightarrow> 'n arm" where
  "A_SMLAL vt cpu =
     (let rm = Rm cpu; rs = Rs cpu; res = (scast rm :: u64) * scast rs;
          rd = acc64 cpu; res = res + rd;
          cpu = write64 res cpu;
          cpu = mul_flags ((ucast (signed_drop_bit 63 res) :: u32) \<noteq> 0) (res = 0) cpu
      in AddCycles_CI vt (smlal_cycles cpu rs) cpu)"

section \<open>Halfword multiplies\<close>

text \<open>
  \<open>if (CurInstr & (1<<n)) r >>= 16; else r &= 0xFFFF;\<close> and the product of the two \<open>s16\<close> halves.
\<close>

definition half_sel :: "nat \<Rightarrow> 'n arm \<Rightarrow> u32 \<Rightarrow> u32" where
  "half_sel n cpu r = (if tst (CurInstr cpu) (push_bit n 1) then drop_bit 16 r else r AND 0xFFFF)"

definition mul_s16 :: "u32 \<Rightarrow> u32 \<Rightarrow> u32" where
  "mul_s16 a b = scast (ucast a :: u16) * scast (ucast b :: u16)"

text \<open>\<open>((s64)(s32)rm * (s16)rs) >> 16\<close> as a \<open>u32\<close>\<close>

definition mul_w16 :: "u32 \<Rightarrow> u32 \<Rightarrow> u32" where
  "mul_w16 a b = ucast (signed_drop_bit 16 ((scast a :: u64) * scast (ucast b :: u16)))"

definition set_Q :: "'n arm \<Rightarrow> 'n arm" where
  "set_Q cpu = cpu\<lparr>CPSR := CPSR cpu OR 0x08000000\<rparr>"

definition A_SMLAxy :: "'n arm_vt \<Rightarrow> 'n arm \<Rightarrow> 'n arm" where
  "A_SMLAxy vt cpu =
     (if Num cpu \<noteq> 0 then cpu
      else let rm = half_sel 5 cpu (Rm cpu); rs = half_sel 6 cpu (Rs cpu);
               rn = R cpu (fld (CurInstr cpu) 12 0xF);
               res_mul = mul_s16 rm rs; res = res_mul + rn;
               cpu = cpu\<lparr>R := (R cpu)(fld (CurInstr cpu) 16 0xF := res)\<rparr>;
               cpu = (if OverflowAdd res_mul rn then set_Q cpu else cpu)
           in AddCycles_C vt cpu)"

definition A_SMLAWy :: "'n arm_vt \<Rightarrow> 'n arm \<Rightarrow> 'n arm" where
  "A_SMLAWy vt cpu =
     (if Num cpu \<noteq> 0 then cpu
      else let rm = Rm cpu; rs = half_sel 6 cpu (Rs cpu);
               rn = R cpu (fld (CurInstr cpu) 12 0xF);
               res_mul = mul_w16 rm rs; res = res_mul + rn;
               cpu = cpu\<lparr>R := (R cpu)(fld (CurInstr cpu) 16 0xF := res)\<rparr>;
               cpu = (if OverflowAdd res_mul rn then set_Q cpu else cpu)
           in AddCycles_C vt cpu)"

definition A_SMULxy :: "'n arm_vt \<Rightarrow> 'n arm \<Rightarrow> 'n arm" where
  "A_SMULxy vt cpu =
     (if Num cpu \<noteq> 0 then cpu
      else let rm = half_sel 5 cpu (Rm cpu); rs = half_sel 6 cpu (Rs cpu);
               cpu = cpu\<lparr>R := (R cpu)(fld (CurInstr cpu) 16 0xF := mul_s16 rm rs)\<rparr>
           in AddCycles_C vt cpu)"

definition A_SMULWy :: "'n arm_vt \<Rightarrow> 'n arm \<Rightarrow> 'n arm" where
  "A_SMULWy vt cpu =
     (if Num cpu \<noteq> 0 then cpu
      else let rm = Rm cpu; rs = half_sel 6 cpu (Rs cpu);
               cpu = cpu\<lparr>R := (R cpu)(fld (CurInstr cpu) 16 0xF := mul_w16 rm rs)\<rparr>
           in AddCycles_C vt cpu)"

definition A_SMLALxy :: "'n arm_vt \<Rightarrow> 'n arm \<Rightarrow> 'n arm" where
  "A_SMLALxy vt cpu =
     (if Num cpu \<noteq> 0 then cpu
      else let rm = half_sel 5 cpu (Rm cpu); rs = half_sel 6 cpu (Rs cpu);
               res = (scast (ucast rm :: u16) :: u64) * scast (ucast rs :: u16);
               rd = acc64 cpu; res = res + rd;
               cpu = write64 res cpu
           in AddCycles_CI vt 1 cpu)"

section \<open>CLZ and the saturating instructions\<close>

text \<open>\<open>std::countl_zero\<close> of a 32-bit value\<close>

definition countl_zero32 :: "u32 \<Rightarrow> nat" where
  "countl_zero32 v = length (takeWhile (\<lambda>i. \<not> bit v i) (rev [0..<32]))"

definition A_CLZ :: "'n arm_vt \<Rightarrow> 'n arm \<Rightarrow> 'n arm" where
  "A_CLZ vt cpu =
     (if Num cpu \<noteq> 0 then A_UNK vt cpu
      else let val = Rm cpu; res = of_nat (countl_zero32 val);
               cpu = cpu\<lparr>R := (R cpu)(fld (CurInstr cpu) 12 0xF := res)\<rparr>
           in AddCycles_C vt cpu)"

text \<open>
  \<open>if (Overflow) { res = (res & 0x80000000) ? 0x7FFFFFFF : 0x80000000; CPSR |= 0x08000000; }\<close>
\<close>

definition sat_result :: "bool \<Rightarrow> u32 \<Rightarrow> u32" where
  "sat_result ov res = (if ov then if tst res 0x80000000 then 0x7FFFFFFF else 0x80000000 else res)"

definition sat_flag :: "bool \<Rightarrow> 'n arm \<Rightarrow> 'n arm" where
  "sat_flag ov cpu = (if ov then set_Q cpu else cpu)"

text \<open>The doubling of \<open>rn\<close> in \<open>QDADD\<close> and \<open>QDSUB\<close>.\<close>

definition sat_double :: "u32 \<Rightarrow> u32" where
  "sat_double rn =
     (if OverflowAdd rn rn then if tst rn 0x80000000 then 0x80000000 else 0x7FFFFFFF
      else push_bit 1 rn)"

definition A_QADD :: "'n arm_vt \<Rightarrow> 'n arm \<Rightarrow> 'n arm" where
  "A_QADD vt cpu =
     (if Num cpu \<noteq> 0 then A_UNK vt cpu
      else let rm = Rm cpu; rn = Rn cpu; res = rm + rn; ov = OverflowAdd rm rn;
               cpu = sat_flag ov cpu;
               cpu = cpu\<lparr>R := (R cpu)(fld (CurInstr cpu) 12 0xF := sat_result ov res)\<rparr>
           in AddCycles_C vt cpu)"

definition A_QSUB :: "'n arm_vt \<Rightarrow> 'n arm \<Rightarrow> 'n arm" where
  "A_QSUB vt cpu =
     (if Num cpu \<noteq> 0 then A_UNK vt cpu
      else let rm = Rm cpu; rn = Rn cpu; res = rm - rn; ov = OverflowSub rm rn;
               cpu = sat_flag ov cpu;
               cpu = cpu\<lparr>R := (R cpu)(fld (CurInstr cpu) 12 0xF := sat_result ov res)\<rparr>
           in AddCycles_C vt cpu)"

definition A_QDADD :: "'n arm_vt \<Rightarrow> 'n arm \<Rightarrow> 'n arm" where
  "A_QDADD vt cpu =
     (if Num cpu \<noteq> 0 then A_UNK vt cpu
      else let rm = Rm cpu; rn = Rn cpu;
               cpu = sat_flag (OverflowAdd rn rn) cpu; rn = sat_double rn;
               res = rm + rn; ov = OverflowAdd rm rn;
               cpu = sat_flag ov cpu;
               cpu = cpu\<lparr>R := (R cpu)(fld (CurInstr cpu) 12 0xF := sat_result ov res)\<rparr>
           in AddCycles_C vt cpu)"

definition A_QDSUB :: "'n arm_vt \<Rightarrow> 'n arm \<Rightarrow> 'n arm" where
  "A_QDSUB vt cpu =
     (if Num cpu \<noteq> 0 then A_UNK vt cpu
      else let rm = Rm cpu; rn = Rn cpu;
               cpu = sat_flag (OverflowAdd rn rn) cpu; rn = sat_double rn;
               res = rm - rn; ov = OverflowSub rm rn;
               cpu = sat_flag ov cpu;
               cpu = cpu\<lparr>R := (R cpu)(fld (CurInstr cpu) 12 0xF := sat_result ov res)\<rparr>
           in AddCycles_C vt cpu)"

section \<open>Products, leading zeros, saturation\<close>

lemma acc64_write64:
  assumes "fld (CurInstr cpu) 12 0xF \<noteq> fld (CurInstr cpu) 16 0xF"
  shows "acc64 (write64 res cpu) = res"
proof -
  have "ucast (ucast res :: u32) OR push_bit 32 (ucast (ucast (drop_bit 32 res) :: u32)) = (res :: u64)"
  proof (rule bit_word_eqI)
    fix i
    assume "i < LENGTH(64)"
    then show "bit (ucast (ucast res :: u32) OR push_bit 32 (ucast (ucast (drop_bit 32 res) :: u32)) :: u64) i = bit res i"
      by (cases "i < 32") (auto simp: bit_or_iff bit_push_bit_iff bit_ucast_iff bit_drop_bit_eq)
  qed
  with assms show ?thesis by (simp add: acc64_def write64_def)
qed

lemma mul_flags_same [simp]:
  "R (mul_flags n z cpu) = R cpu" "CurInstr (mul_flags n z cpu) = CurInstr cpu" "Num (mul_flags n z cpu) = Num cpu"
  by (simp_all add: mul_flags_def Let_def SetNZ_def SetC_def)

lemma acc64_mul_flags [simp]: "acc64 (mul_flags n z cpu) = acc64 cpu"
  by (simp add: acc64_def)

lemma CurInstr_write64 [simp]: "CurInstr (write64 r cpu) = CurInstr cpu"
  by (simp add: write64_def)

lemma countl_zero32_spec:
  "if v = 0 then countl_zero32 v = 32
   else countl_zero32 v < 32 \<and> bit v (31 - countl_zero32 v) \<and> (\<forall>i > 31 - countl_zero32 v. \<not> bit v i)"
proof (cases "v = 0")
  case True
  then have "takeWhile (\<lambda>i. \<not> bit v i) (rev [0..<32]) = rev [0..<32]"
    by (intro takeWhile_eq_all_conv [THEN iffD2]) simp
  then have "countl_zero32 v = length (rev [0..<32::nat])"
    by (simp only: countl_zero32_def)
  then have "countl_zero32 v = 32" by simp
  with True show ?thesis by simp
next
  case False
  let ?t = "takeWhile (\<lambda>i. \<not> bit v i) (rev [0..<32])"
  have nth: "rev [0..<32] ! k = 31 - k" if "k < 32" for k :: nat
    using that by (simp only: rev_nth length_upt nth_upt)
  obtain j where j: "bit v j" using False by (auto simp: bit_eq_iff)
  then have "j < 32" using bit_imp_le_length [OF j] by simp
  with j have "\<not> (\<forall>x\<in>set (rev [0..<32]). \<not> bit v x)" by auto
  then have len: "length ?t < length (rev [0..<32])"
    using length_takeWhile_le [of "\<lambda>i. \<not> bit v i" "rev [0..<32]"] takeWhile_eq_all_conv
    by (metis le_neq_implies_less takeWhile_eq_take take_all_iff)
  then have len': "length ?t < 32" by (simp only: length_rev length_upt diff_zero)
  have "bit v (31 - length ?t)"
    using nth_length_takeWhile [OF len] unfolding nth [OF len'] by simp
  moreover have "\<not> bit v i" if "i > 31 - length ?t" for i
  proof
    assume b: "bit v i"
    then have "i < 32" using bit_imp_le_length [OF b] by simp
    then have k: "31 - i < length ?t" using that len' by simp
    then have "\<not> bit v (?t ! (31 - i))" by (metis nth_mem set_takeWhileD)
    moreover have "?t ! (31 - i) = i"
      using k len' nth [of "31 - i"] \<open>i < 32\<close> by (simp only: takeWhile_nth)
    ultimately show False using b by simp
  qed
  ultimately show ?thesis unfolding countl_zero32_def using False len' by (auto simp only: if_False)
qed

text \<open>The nearest integer a signed word holds.\<close>

definition sat32 :: "int \<Rightarrow> int" where
  "sat32 x = max (- 2147483648) (min 2147483647 x)"

lemma sint_consts: "sint (0x7FFFFFFF :: u32) = 2147483647" "sint (0x80000000 :: u32) = - 2147483648"
  by (simp_all add: sint_uint32)

lemma sat_wrap:
  assumes "sint r = s \<or> sint r = s - 4294967296 \<and> 2147483647 < s \<and> s < 4294967296 \<or> sint r = s + 4294967296 \<and> s < - 2147483648 \<and> - 4294967296 \<le> s"
  shows "sint (sat_result (sint r \<noteq> s) r) = sat32 s"
  using assms sint_bound32 [of r]
  by (cases "sint r < 0") (auto simp: sat_result_def sign_bit sint_consts sat32_def)

lemma sat_add: "sint (sat_result (OverflowAdd a b) (a + b)) = sat32 (sint a + sint b)"
  unfolding OverflowAdd_iff by (rule sat_wrap) (rule sint_plus_cases)

lemma sat_sub: "sint (sat_result (OverflowSub a b) (a - b)) = sat32 (sint a - sint b)"
  unfolding OverflowSub_iff by (rule sat_wrap) (rule sint_minus_cases)

lemma sat_dbl: "sint (sat_double a) = sat32 (2 * sint a)"
proof -
  define r where "r = a + a"
  have p: "push_bit 1 a = r" by (simp add: push_bit_eq_mult r_def)
  have o: "OverflowAdd a a \<longleftrightarrow> sint r \<noteq> sint a + sint a" by (simp only: OverflowAdd_iff r_def)
  have cases: "sint r = sint a + sint a \<or> (sint a < 0 \<longleftrightarrow> \<not> sint r < 0)"
    using sint_plus_cases [of a a] sint_bound32 [of a] sint_bound32 [of "a + a"]
    unfolding r_def by linarith
  have "sat_double a = sat_result (OverflowAdd a a) r"
    unfolding sat_double_def sat_result_def o sign_bit p using cases by auto
  then show ?thesis unfolding r_def by (simp only: sat_add) simp
qed

lemma long_multiplies:
  assumes "fld (CurInstr cpu) 12 0xF \<noteq> fld (CurInstr cpu) 16 0xF"
  shows
    "\<exists>k cpu'. A_UMULL vt cpu = AddCycles_CI vt k cpu' \<and>
       uint (acc64 cpu') = uint (Rm cpu) * uint (Rs cpu)" (is ?umull)
    "\<exists>k cpu'. A_UMLAL vt cpu = AddCycles_CI vt k cpu' \<and>
       acc64 cpu' = word_of_int (uint (acc64 cpu) + uint (Rm cpu) * uint (Rs cpu))" (is ?umlal)
    "\<exists>k cpu'. A_SMULL vt cpu = AddCycles_CI vt k cpu' \<and>
       sint (acc64 cpu') = sint (Rm cpu) * sint (Rs cpu)" (is ?smull)
    "\<exists>k cpu'. A_SMLAL vt cpu = AddCycles_CI vt k cpu' \<and>
       acc64 cpu' = word_of_int (sint (acc64 cpu) + sint (Rm cpu) * sint (Rs cpu))" (is ?smlal)
proof -
  have u: "word_of_int (uint a * uint b) = (ucast a :: u64) * ucast b" for a b :: u32
    by (simp flip: uint_prod64)
  have i: "word_of_int (sint a * sint b) = (scast a :: u64) * scast b" for a b :: u32
    by (simp flip: sint_prod64)
  show ?umull unfolding A_UMULL_def Let_def
    by (intro exI conjI, rule refl) (simp add: acc64_write64 [OF assms] uint_prod64)
  show ?umlal unfolding A_UMLAL_def Let_def
    by (intro exI conjI, rule refl) (simp add: acc64_write64 [OF assms] u)
  show ?smull unfolding A_SMULL_def Let_def
    by (intro exI conjI, rule refl) (simp add: acc64_write64 [OF assms] sint_prod64)
  show ?smlal unfolding A_SMLAL_def Let_def
    by (intro exI conjI, rule refl) (simp add: acc64_write64 [OF assms] i)
qed

lemma sat_flag_fields [simp]:
  "R (sat_flag ov cpu) = R cpu" "CurInstr (sat_flag ov cpu) = CurInstr cpu"
  by (simp_all add: sat_flag_def set_Q_def)

lemma bit_sat_flag: "bit (CPSR (sat_flag ov cpu)) i \<longleftrightarrow> bit (CPSR cpu) i \<or> ov \<and> i = 27"
proof -
  have "bit (CPSR cpu OR 0x08000000) i \<longleftrightarrow> bit (CPSR cpu) i \<or> i = 27"
    by (rule bit_or_mask) (rule bit_flag_masks)
  then show ?thesis by (cases ov) (simp_all only: sat_flag_def set_Q_def CPSR_set if_True if_False simp_thms)
qed

lemma OverflowAdd_sat: "OverflowAdd a b \<longleftrightarrow> sat32 (sint a + sint b) \<noteq> sint a + sint b"
  using sint_plus_cases [of a b] sint_bound32 [of "a + b"] by (auto simp: OverflowAdd_iff sat32_def)

lemma OverflowSub_sat: "OverflowSub a b \<longleftrightarrow> sat32 (sint a - sint b) \<noteq> sint a - sint b"
  using sint_minus_cases [of a b] sint_bound32 [of "a - b"] by (auto simp: OverflowSub_iff sat32_def)

text \<open>Rd holds the saturated value and Q is sticky; nothing else moves.\<close>

definition sat_spec :: "'n arm \<Rightarrow> int \<Rightarrow> bool \<Rightarrow> 'n arm \<Rightarrow> bool" where
  "sat_spec cpu v q cpu' \<longleftrightarrow>
     sint (R cpu' (fld (CurInstr cpu) 12 0xF)) = sat32 v \<and>
     (\<forall>i. bit (CPSR cpu') i \<longleftrightarrow> bit (CPSR cpu) i \<or> i = 27 \<and> (q \<or> sat32 v \<noteq> v)) \<and>
     (\<forall>i. i \<noteq> fld (CurInstr cpu) 12 0xF \<longrightarrow> R cpu' i = R cpu i)"

lemma sat_spec_post:
  assumes "sint (sat_result ov r) = sat32 v" and "ov \<longleftrightarrow> sat32 v \<noteq> v"
  shows "sat_spec cpu v q
    ((sat_flag ov (sat_flag q cpu))\<lparr>R := (R cpu)(fld (CurInstr cpu) 12 0xF := sat_result ov r)\<rparr>)"
  using assms by (auto simp: sat_spec_def bit_sat_flag)

lemma sat_flag_False: "sat_flag ov cpu = sat_flag ov (sat_flag False cpu)"
  by (simp add: sat_flag_def)

lemma saturating_each:
  assumes "Num cpu = 0"
  shows
    "\<exists>cpu'. A_QADD vt cpu = AddCycles_C vt cpu' \<and> sat_spec cpu (sint (Rm cpu) + sint (Rn cpu)) False cpu'"
      (is ?qadd)
    "\<exists>cpu'. A_QSUB vt cpu = AddCycles_C vt cpu' \<and> sat_spec cpu (sint (Rm cpu) - sint (Rn cpu)) False cpu'"
      (is ?qsub)
    "\<exists>cpu'. A_QDADD vt cpu = AddCycles_C vt cpu' \<and>
       sat_spec cpu (sint (Rm cpu) + sat32 (2 * sint (Rn cpu))) (sat32 (2 * sint (Rn cpu)) \<noteq> 2 * sint (Rn cpu)) cpu'"
      (is ?qdadd)
    "\<exists>cpu'. A_QDSUB vt cpu = AddCycles_C vt cpu' \<and>
       sat_spec cpu (sint (Rm cpu) - sat32 (2 * sint (Rn cpu))) (sat32 (2 * sint (Rn cpu)) \<noteq> 2 * sint (Rn cpu)) cpu'"
      (is ?qdsub)
proof -
  note add = sat_spec_post [OF sat_add OverflowAdd_sat] and sub = sat_spec_post [OF sat_sub OverflowSub_sat]
  have dbl: "OverflowAdd a a \<longleftrightarrow> sat32 (2 * sint a) \<noteq> 2 * sint a" for a
    using OverflowAdd_sat [of a a] by simp
  show ?qadd
    using assms add [of cpu "Rm cpu" "Rn cpu" False]
    by (intro exI conjI) (auto simp: A_QADD_def Let_def simp flip: sat_flag_False)
  show ?qsub
    using assms sub [of cpu "Rm cpu" "Rn cpu" False]
    by (intro exI conjI) (auto simp: A_QSUB_def Let_def simp flip: sat_flag_False)
  show ?qdadd
    using assms add [of cpu "Rm cpu" "sat_double (Rn cpu)" "OverflowAdd (Rn cpu) (Rn cpu)"]
    by (intro exI conjI) (auto simp: A_QDADD_def Let_def sat_dbl dbl)
  show ?qdsub
    using assms sub [of cpu "Rm cpu" "sat_double (Rn cpu)" "OverflowAdd (Rn cpu) (Rn cpu)"]
    by (intro exI conjI) (auto simp: A_QDSUB_def Let_def sat_dbl dbl)
qed
section \<open>The instructions\<close>

text \<open>C8.  The long multiplies leave the exact 64-bit product in the register pair, and the
  accumulating ones the sum with the old pair modulo \<open>2 ^ 64\<close>, for every operand, unsigned and
  signed.\<close>

theorem long_multiplies_exact:
  assumes "fld (CurInstr cpu) 12 0xF \<noteq> fld (CurInstr cpu) 16 0xF"
  shows
    "(\<exists>k cpu'. A_UMULL vt cpu = AddCycles_CI vt k cpu' \<and>
       uint (acc64 cpu') = uint (Rm cpu) * uint (Rs cpu)) \<and>
     (\<exists>k cpu'. A_UMLAL vt cpu = AddCycles_CI vt k cpu' \<and>
       acc64 cpu' = word_of_int (uint (acc64 cpu) + uint (Rm cpu) * uint (Rs cpu))) \<and>
     (\<exists>k cpu'. A_SMULL vt cpu = AddCycles_CI vt k cpu' \<and>
       sint (acc64 cpu') = sint (Rm cpu) * sint (Rs cpu)) \<and>
     (\<exists>k cpu'. A_SMLAL vt cpu = AddCycles_CI vt k cpu' \<and>
       acc64 cpu' = word_of_int (sint (acc64 cpu) + sint (Rm cpu) * sint (Rs cpu)))"
  by (intro conjI long_multiplies [OF assms])

theorem long_multiplies_exact_witness:
  "\<forall>vt :: unit arm_vt. \<exists>k cpu'.
     A_SMULL vt (undefined\<lparr>CurInstr := 0xE0C10302, R := (\<lambda>_. 0xFFFFFFFF)\<rparr>) =
     AddCycles_CI vt k cpu' \<and> sint (acc64 cpu') = 1"
proof
  fix vt :: "unit arm_vt"
  let ?c = "undefined\<lparr>CurInstr := 0xE0C10302, R := (\<lambda>_. 0xFFFFFFFF)\<rparr> :: unit arm"
  have "fld (CurInstr ?c) 12 0xF \<noteq> fld (CurInstr ?c) 16 0xF"
    by (simp add: fld_def)
  from long_multiplies_exact [OF this, of vt]
  show "\<exists>k cpu'. A_SMULL vt ?c = AddCycles_CI vt k cpu' \<and> sint (acc64 cpu') = 1"
    by (simp add: Rm_def Rs_def)
qed

text \<open>The saturating instructions of the ARM9 clamp the exact integer result to 32 bits and set
  the sticky Q flag exactly when one of their saturations changed a value; \<open>QDADD\<close> and
  \<open>QDSUB\<close> saturate the doubling first.\<close>

lemma saturating_instructions:
  assumes "Num cpu = 0"
  shows
    "(\<exists>cpu'. A_QADD vt cpu = AddCycles_C vt cpu' \<and>
       sat_spec cpu (sint (Rm cpu) + sint (Rn cpu)) False cpu') \<and>
     (\<exists>cpu'. A_QSUB vt cpu = AddCycles_C vt cpu' \<and>
       sat_spec cpu (sint (Rm cpu) - sint (Rn cpu)) False cpu') \<and>
     (\<exists>cpu'. A_QDADD vt cpu = AddCycles_C vt cpu' \<and>
       sat_spec cpu (sint (Rm cpu) + sat32 (2 * sint (Rn cpu)))
         (sat32 (2 * sint (Rn cpu)) \<noteq> 2 * sint (Rn cpu)) cpu') \<and>
     (\<exists>cpu'. A_QDSUB vt cpu = AddCycles_C vt cpu' \<and>
       sat_spec cpu (sint (Rm cpu) - sat32 (2 * sint (Rn cpu)))
         (sat32 (2 * sint (Rn cpu)) \<noteq> 2 * sint (Rn cpu)) cpu')"
  by (intro conjI saturating_each [OF assms])

lemma saturating_instructions_witness:
  "\<forall>vt :: unit arm_vt. \<exists>cpu'. A_QADD vt
       (undefined\<lparr>Num := 0, CurInstr := 0, CPSR := 0, R := (\<lambda>_. 0x7FFFFFFF)\<rparr>) = AddCycles_C vt cpu' \<and>
     sint (R cpu' 0) = 2147483647 \<and> bit (CPSR cpu') 27"
proof
  fix vt :: "unit arm_vt"
  let ?c = "undefined\<lparr>Num := 0, CurInstr := 0, CPSR := 0, R := (\<lambda>_. 0x7FFFFFFF)\<rparr> :: unit arm"
  show "\<exists>cpu'. A_QADD vt ?c = AddCycles_C vt cpu' \<and> sint (R cpu' 0) = 2147483647 \<and> bit (CPSR cpu') 27"
    using saturating_instructions [of ?c vt]
    by (auto simp: sat_spec_def Rm_def Rn_def sat32_def sint_consts fld_def)
qed

text \<open> \<open>CLZ\<close> writes the number of leading zeros: 32 for zero, else the distance of the highest
  set bit from bit 31.\<close>

theorem A_CLZ_correct:
  assumes "Num cpu = 0"
  shows "\<exists>cpu' n. A_CLZ vt cpu = AddCycles_C vt cpu' \<and>
    R cpu' = (R cpu)(fld (CurInstr cpu) 12 0xF := of_nat n) \<and>
    (if Rm cpu = 0 then n = 32
     else n < 32 \<and> bit (Rm cpu) (31 - n) \<and> (\<forall>i > 31 - n. \<not> bit (Rm cpu) i))"
proof -
  have "A_CLZ vt cpu = AddCycles_C vt (cpu\<lparr>R := (R cpu)(fld (CurInstr cpu) 12 0xF := of_nat (countl_zero32 (Rm cpu)))\<rparr>)"
    using assms by (simp add: A_CLZ_def Let_def)
  then show ?thesis using countl_zero32_spec [of "Rm cpu"] by fastforce
qed

theorem A_CLZ_correct_witness:
  "\<forall>vt :: unit arm_vt. \<exists>cpu'.
     A_CLZ vt (undefined\<lparr>Num := 0, CurInstr := 0, R := (\<lambda>_. 0)\<rparr>) = AddCycles_C vt cpu' \<and> R cpu' 0 = 32"
proof
  fix vt :: "unit arm_vt"
  let ?c = "undefined\<lparr>Num := 0, CurInstr := 0, R := (\<lambda>_. 0)\<rparr> :: unit arm"
  show "\<exists>cpu'. A_CLZ vt ?c = AddCycles_C vt cpu' \<and> R cpu' 0 = 32"
    using A_CLZ_correct [of ?c vt] by (auto simp: Rm_def fld_def)
qed

end
