(* ===== verification/ArmThumbAlu.thy ===== *)
theory ArmThumbAlu
  imports ArmMul
begin

text \<open>
  The Thumb data-processing handlers of \<^verbatim>\<open>src/src/ARMInterpreter_ALU.cpp\<close>.  The four C++ names
  that end in an underscore (\<open>T_ADD_REG_\<close>, \<open>T_SUB_REG_\<close>, \<open>T_ADD_IMM_\<close>, \<open>T_SUB_IMM_\<close>) end in
  \<open>3\<close> here.
\<close>

text \<open>Operands: \<open>R[CurInstr & 7]\<close>, \<open>R[(CurInstr >> 3) & 7]\<close> and the other three-bit fields.\<close>

definition T_r0 :: "'n arm \<Rightarrow> nat" where
  [arm_defs]: "T_r0 cpu = fld (CurInstr cpu) 0 7"

definition T_r3 :: "'n arm \<Rightarrow> nat" where
  [arm_defs]: "T_r3 cpu = fld (CurInstr cpu) 3 7"

definition T_r6 :: "'n arm \<Rightarrow> nat" where
  [arm_defs]: "T_r6 cpu = fld (CurInstr cpu) 6 7"

definition T_r8 :: "'n arm \<Rightarrow> nat" where
  [arm_defs]: "T_r8 cpu = fld (CurInstr cpu) 8 7"

definition T_imm8 :: "'n arm \<Rightarrow> u32" where
  [arm_defs]: "T_imm8 cpu = CurInstr cpu AND 0xFF"

definition write_reg :: "nat \<Rightarrow> u32 \<Rightarrow> 'n arm \<Rightarrow> 'n arm" where
  [arm_defs]: "write_reg i v cpu = cpu\<lparr>R := (R cpu)(i := v)\<rparr>"

section \<open>Shifts by an immediate, three-operand add and subtract\<close>

definition T_LSL_IMM :: "'n arm_vt \<Rightarrow> 'n arm \<Rightarrow> 'n arm" where
  [arm_defs]: "T_LSL_IMM vt cpu =
     (let op = R cpu (T_r3 cpu); s = drop_bit 6 (CurInstr cpu) AND 0x1F;
          (op, cpu) = LSL_IMM_S cpu op s;
          cpu = write_reg (T_r0 cpu) op cpu;
          cpu = SetNZ (tst op 0x80000000) (op = 0) cpu
      in AddCycles_C vt cpu)"

definition T_LSR_IMM :: "'n arm_vt \<Rightarrow> 'n arm \<Rightarrow> 'n arm" where
  [arm_defs]: "T_LSR_IMM vt cpu =
     (let op = R cpu (T_r3 cpu); s = drop_bit 6 (CurInstr cpu) AND 0x1F;
          (op, cpu) = LSR_IMM_S cpu op s;
          cpu = write_reg (T_r0 cpu) op cpu;
          cpu = SetNZ (tst op 0x80000000) (op = 0) cpu
      in AddCycles_C vt cpu)"

definition T_ASR_IMM :: "'n arm_vt \<Rightarrow> 'n arm \<Rightarrow> 'n arm" where
  [arm_defs]: "T_ASR_IMM vt cpu =
     (let op = R cpu (T_r3 cpu); s = drop_bit 6 (CurInstr cpu) AND 0x1F;
          (op, cpu) = ASR_IMM_S cpu op s;
          cpu = write_reg (T_r0 cpu) op cpu;
          cpu = SetNZ (tst op 0x80000000) (op = 0) cpu
      in AddCycles_C vt cpu)"

definition T_ADD_REG3 :: "'n arm_vt \<Rightarrow> 'n arm \<Rightarrow> 'n arm" where
  [arm_defs]: "T_ADD_REG3 vt cpu =
     (let a = R cpu (T_r3 cpu); b = R cpu (T_r6 cpu); res = a + b;
          cpu = write_reg (T_r0 cpu) res cpu;
          cpu = SetNZCV (tst res 0x80000000) (res = 0) (CarryAdd a b) (OverflowAdd a b) cpu
      in AddCycles_C vt cpu)"

definition T_SUB_REG3 :: "'n arm_vt \<Rightarrow> 'n arm \<Rightarrow> 'n arm" where
  [arm_defs]: "T_SUB_REG3 vt cpu =
     (let a = R cpu (T_r3 cpu); b = R cpu (T_r6 cpu); res = a - b;
          cpu = write_reg (T_r0 cpu) res cpu;
          cpu = SetNZCV (tst res 0x80000000) (res = 0) (CarrySub a b) (OverflowSub a b) cpu
      in AddCycles_C vt cpu)"

definition T_ADD_IMM3 :: "'n arm_vt \<Rightarrow> 'n arm \<Rightarrow> 'n arm" where
  [arm_defs]: "T_ADD_IMM3 vt cpu =
     (let a = R cpu (T_r3 cpu); b = drop_bit 6 (CurInstr cpu) AND 7; res = a + b;
          cpu = write_reg (T_r0 cpu) res cpu;
          cpu = SetNZCV (tst res 0x80000000) (res = 0) (CarryAdd a b) (OverflowAdd a b) cpu
      in AddCycles_C vt cpu)"

definition T_SUB_IMM3 :: "'n arm_vt \<Rightarrow> 'n arm \<Rightarrow> 'n arm" where
  [arm_defs]: "T_SUB_IMM3 vt cpu =
     (let a = R cpu (T_r3 cpu); b = drop_bit 6 (CurInstr cpu) AND 7; res = a - b;
          cpu = write_reg (T_r0 cpu) res cpu;
          cpu = SetNZCV (tst res 0x80000000) (res = 0) (CarrySub a b) (OverflowSub a b) cpu
      in AddCycles_C vt cpu)"

section \<open>Eight-bit immediates\<close>

definition T_MOV_IMM :: "'n arm_vt \<Rightarrow> 'n arm \<Rightarrow> 'n arm" where
  [arm_defs]: "T_MOV_IMM vt cpu =
     (let b = T_imm8 cpu;
          cpu = write_reg (T_r8 cpu) b cpu;
          cpu = SetNZ False (b = 0) cpu
      in AddCycles_C vt cpu)"

definition T_CMP_IMM :: "'n arm_vt \<Rightarrow> 'n arm \<Rightarrow> 'n arm" where
  [arm_defs]: "T_CMP_IMM vt cpu =
     (let a = R cpu (T_r8 cpu); b = T_imm8 cpu; res = a - b;
          cpu = SetNZCV (tst res 0x80000000) (res = 0) (CarrySub a b) (OverflowSub a b) cpu
      in AddCycles_C vt cpu)"

definition T_ADD_IMM :: "'n arm_vt \<Rightarrow> 'n arm \<Rightarrow> 'n arm" where
  [arm_defs]: "T_ADD_IMM vt cpu =
     (let a = R cpu (T_r8 cpu); b = T_imm8 cpu; res = a + b;
          cpu = write_reg (T_r8 cpu) res cpu;
          cpu = SetNZCV (tst res 0x80000000) (res = 0) (CarryAdd a b) (OverflowAdd a b) cpu
      in AddCycles_C vt cpu)"

definition T_SUB_IMM :: "'n arm_vt \<Rightarrow> 'n arm \<Rightarrow> 'n arm" where
  [arm_defs]: "T_SUB_IMM vt cpu =
     (let a = R cpu (T_r8 cpu); b = T_imm8 cpu; res = a - b;
          cpu = write_reg (T_r8 cpu) res cpu;
          cpu = SetNZCV (tst res 0x80000000) (res = 0) (CarrySub a b) (OverflowSub a b) cpu
      in AddCycles_C vt cpu)"

section \<open>Register operations\<close>

definition T_AND_REG :: "'n arm_vt \<Rightarrow> 'n arm \<Rightarrow> 'n arm" where
  [arm_defs]: "T_AND_REG vt cpu =
     (let a = R cpu (T_r0 cpu); b = R cpu (T_r3 cpu); res = a AND b;
          cpu = write_reg (T_r0 cpu) res cpu;
          cpu = SetNZ (tst res 0x80000000) (res = 0) cpu
      in AddCycles_C vt cpu)"

definition T_EOR_REG :: "'n arm_vt \<Rightarrow> 'n arm \<Rightarrow> 'n arm" where
  [arm_defs]: "T_EOR_REG vt cpu =
     (let a = R cpu (T_r0 cpu); b = R cpu (T_r3 cpu); res = a XOR b;
          cpu = write_reg (T_r0 cpu) res cpu;
          cpu = SetNZ (tst res 0x80000000) (res = 0) cpu
      in AddCycles_C vt cpu)"

definition T_LSL_REG :: "'n arm_vt \<Rightarrow> 'n arm \<Rightarrow> 'n arm" where
  [arm_defs]: "T_LSL_REG vt cpu =
     (let a = R cpu (T_r0 cpu); b = R cpu (T_r3 cpu) AND 0xFF;
          (a, cpu) = LSL_REG_S cpu a b;
          cpu = write_reg (T_r0 cpu) a cpu;
          cpu = SetNZ (tst a 0x80000000) (a = 0) cpu
      in AddCycles_CI vt 1 cpu)"

definition T_LSR_REG :: "'n arm_vt \<Rightarrow> 'n arm \<Rightarrow> 'n arm" where
  [arm_defs]: "T_LSR_REG vt cpu =
     (let a = R cpu (T_r0 cpu); b = R cpu (T_r3 cpu) AND 0xFF;
          (a, cpu) = LSR_REG_S cpu a b;
          cpu = write_reg (T_r0 cpu) a cpu;
          cpu = SetNZ (tst a 0x80000000) (a = 0) cpu
      in AddCycles_CI vt 1 cpu)"

definition T_ASR_REG :: "'n arm_vt \<Rightarrow> 'n arm \<Rightarrow> 'n arm" where
  [arm_defs]: "T_ASR_REG vt cpu =
     (let a = R cpu (T_r0 cpu); b = R cpu (T_r3 cpu) AND 0xFF;
          (a, cpu) = ASR_REG_S cpu a b;
          cpu = write_reg (T_r0 cpu) a cpu;
          cpu = SetNZ (tst a 0x80000000) (a = 0) cpu
      in AddCycles_CI vt 1 cpu)"

definition T_ADC_REG :: "'n arm_vt \<Rightarrow> 'n arm \<Rightarrow> 'n arm" where
  [arm_defs]: "T_ADC_REG vt cpu =
     (let a = R cpu (T_r0 cpu); b = R cpu (T_r3 cpu); res_tmp = a + b;
          carry = carry_in cpu; res = res_tmp + carry;
          cpu = write_reg (T_r0 cpu) res cpu;
          cpu = SetNZCV (tst res 0x80000000) (res = 0)
                  (CarryAdd a b \<or> CarryAdd res_tmp carry) (OverflowAdc a b carry) cpu
      in AddCycles_C vt cpu)"

definition T_SBC_REG :: "'n arm_vt \<Rightarrow> 'n arm \<Rightarrow> 'n arm" where
  [arm_defs]: "T_SBC_REG vt cpu =
     (let a = R cpu (T_r0 cpu); b = R cpu (T_r3 cpu); res_tmp = a - b;
          carry = not_carry_in cpu; res = res_tmp - carry;
          cpu = write_reg (T_r0 cpu) res cpu;
          cpu = SetNZCV (tst res 0x80000000) (res = 0)
                  (CarrySub a b \<and> CarrySub res_tmp carry) (OverflowSbc a b carry) cpu
      in AddCycles_C vt cpu)"

definition T_ROR_REG :: "'n arm_vt \<Rightarrow> 'n arm \<Rightarrow> 'n arm" where
  [arm_defs]: "T_ROR_REG vt cpu =
     (let a = R cpu (T_r0 cpu); b = R cpu (T_r3 cpu) AND 0xFF;
          (a, cpu) = ROR_REG_S cpu a b;
          cpu = write_reg (T_r0 cpu) a cpu;
          cpu = SetNZ (tst a 0x80000000) (a = 0) cpu
      in AddCycles_CI vt 1 cpu)"

definition T_TST_REG :: "'n arm_vt \<Rightarrow> 'n arm \<Rightarrow> 'n arm" where
  [arm_defs]: "T_TST_REG vt cpu =
     (let a = R cpu (T_r0 cpu); b = R cpu (T_r3 cpu); res = a AND b;
          cpu = SetNZ (tst res 0x80000000) (res = 0) cpu
      in AddCycles_C vt cpu)"

definition T_NEG_REG :: "'n arm_vt \<Rightarrow> 'n arm \<Rightarrow> 'n arm" where
  [arm_defs]: "T_NEG_REG vt cpu =
     (let b = R cpu (T_r3 cpu); res = - b;
          cpu = write_reg (T_r0 cpu) res cpu;
          cpu = SetNZCV (tst res 0x80000000) (res = 0) (CarrySub 0 b) (OverflowSub 0 b) cpu
      in AddCycles_C vt cpu)"

definition T_CMP_REG :: "'n arm_vt \<Rightarrow> 'n arm \<Rightarrow> 'n arm" where
  [arm_defs]: "T_CMP_REG vt cpu =
     (let a = R cpu (T_r0 cpu); b = R cpu (T_r3 cpu); res = a - b;
          cpu = SetNZCV (tst res 0x80000000) (res = 0) (CarrySub a b) (OverflowSub a b) cpu
      in AddCycles_C vt cpu)"

definition T_CMN_REG :: "'n arm_vt \<Rightarrow> 'n arm \<Rightarrow> 'n arm" where
  [arm_defs]: "T_CMN_REG vt cpu =
     (let a = R cpu (T_r0 cpu); b = R cpu (T_r3 cpu); res = a + b;
          cpu = SetNZCV (tst res 0x80000000) (res = 0) (CarryAdd a b) (OverflowAdd a b) cpu
      in AddCycles_C vt cpu)"

definition T_ORR_REG :: "'n arm_vt \<Rightarrow> 'n arm \<Rightarrow> 'n arm" where
  [arm_defs]: "T_ORR_REG vt cpu =
     (let a = R cpu (T_r0 cpu); b = R cpu (T_r3 cpu); res = a OR b;
          cpu = write_reg (T_r0 cpu) res cpu;
          cpu = SetNZ (tst res 0x80000000) (res = 0) cpu
      in AddCycles_C vt cpu)"

definition T_MUL_REG :: "'n arm_vt \<Rightarrow> 'n arm \<Rightarrow> 'n arm" where
  [arm_defs]: "T_MUL_REG vt cpu =
     (let a = R cpu (T_r0 cpu); b = R cpu (T_r3 cpu); res = a * b;
          cpu = write_reg (T_r0 cpu) res cpu;
          cpu = SetNZ (tst res 0x80000000) (res = 0) cpu
      in if Num cpu = 0 then AddCycles_CI vt 3 cpu
         else let cpu = SetC False cpu;
                  multiplier = (if tst a 0x80000000 then NOT a else a)
              in AddCycles_CI vt
                   (if tst multiplier 0xFF000000 then 4
                    else if tst multiplier 0x00FF0000 then 3
                    else if tst multiplier 0x0000FF00 then 2
                    else 1) cpu)"

definition T_BIC_REG :: "'n arm_vt \<Rightarrow> 'n arm \<Rightarrow> 'n arm" where
  [arm_defs]: "T_BIC_REG vt cpu =
     (let a = R cpu (T_r0 cpu); b = R cpu (T_r3 cpu); res = a AND NOT b;
          cpu = write_reg (T_r0 cpu) res cpu;
          cpu = SetNZ (tst res 0x80000000) (res = 0) cpu
      in AddCycles_C vt cpu)"

definition T_MVN_REG :: "'n arm_vt \<Rightarrow> 'n arm \<Rightarrow> 'n arm" where
  [arm_defs]: "T_MVN_REG vt cpu =
     (let b = R cpu (T_r3 cpu); res = NOT b;
          cpu = write_reg (T_r0 cpu) res cpu;
          cpu = SetNZ (tst res 0x80000000) (res = 0) cpu
      in AddCycles_C vt cpu)"

section \<open>High registers\<close>

text \<open>\<open>(CurInstr & 0x7) | ((CurInstr >> 4) & 0x8)\<close> and \<open>(CurInstr >> 3) & 0xF\<close>\<close>

definition T_hi_rd :: "'n arm \<Rightarrow> nat" where
  "T_hi_rd cpu = unat ((CurInstr cpu AND 7) OR (drop_bit 4 (CurInstr cpu) AND 8))"

definition T_hi_rs :: "'n arm \<Rightarrow> nat" where
  "T_hi_rs cpu = fld (CurInstr cpu) 3 0xF"

definition T_ADD_HIREG :: "'n arm_vt \<Rightarrow> 'n arm \<Rightarrow> 'n arm" where
  [arm_defs]: "T_ADD_HIREG vt cpu =
     (let rd = T_hi_rd cpu; rs = T_hi_rs cpu; a = R cpu rd; b = R cpu rs;
          cpu = AddCycles_C vt cpu
      in if rd = 15 then JumpTo vt ((a + b) OR 1) False cpu
         else write_reg rd (a + b) cpu)"

definition T_CMP_HIREG :: "'n arm_vt \<Rightarrow> 'n arm \<Rightarrow> 'n arm" where
  [arm_defs]: "T_CMP_HIREG vt cpu =
     (let rd = T_hi_rd cpu; rs = T_hi_rs cpu; a = R cpu rd; b = R cpu rs; res = a - b;
          cpu = SetNZCV (tst res 0x80000000) (res = 0) (CarrySub a b) (OverflowSub a b) cpu
      in AddCycles_C vt cpu)"

definition T_MOV_HIREG :: "'n arm_vt \<Rightarrow> 'n arm \<Rightarrow> 'n arm" where
  [arm_defs]: "T_MOV_HIREG vt cpu =
     (let rd = T_hi_rd cpu; rs = T_hi_rs cpu;
          cpu = AddCycles_C vt cpu;
          cpu = (if rd = 15 then JumpTo vt (R cpu rs OR 1) False cpu
                 else write_reg rd (R cpu rs) cpu)
      in if CurInstr cpu AND 0xFFFF = 0x46E4 \<and> NextInstr cpu 0 AND 0xF800 = 0xE000 \<and>
            NextInstr cpu 1 AND 0xFFFF = 0x6464
         then NocashPrint vt (Num cpu) (R cpu 15 + 4) cpu
         else cpu)"

section \<open>Address arithmetic\<close>

definition T_ADD_PCREL :: "'n arm_vt \<Rightarrow> 'n arm \<Rightarrow> 'n arm" where
  [arm_defs]: "T_ADD_PCREL vt cpu =
     (let val = (R cpu 15 AND NOT 2) + push_bit 2 (CurInstr cpu AND 0xFF)
      in AddCycles_C vt (write_reg (T_r8 cpu) val cpu))"

definition T_ADD_SPREL :: "'n arm_vt \<Rightarrow> 'n arm \<Rightarrow> 'n arm" where
  [arm_defs]: "T_ADD_SPREL vt cpu =
     (let val = R cpu 13 + push_bit 2 (CurInstr cpu AND 0xFF)
      in AddCycles_C vt (write_reg (T_r8 cpu) val cpu))"

definition T_ADD_SP :: "'n arm_vt \<Rightarrow> 'n arm \<Rightarrow> 'n arm" where
  [arm_defs]: "T_ADD_SP vt cpu =
     (let val = R cpu 13;
          val = (if tst (CurInstr cpu) (push_bit 7 1)
                 then val - push_bit 2 (CurInstr cpu AND 0x7F)
                 else val + push_bit 2 (CurInstr cpu AND 0x7F))
      in AddCycles_C vt (write_reg 13 val cpu))"

end
