(* ===== verification/ArmLoadStore.thy ===== *)
theory ArmLoadStore
  imports ArmThumbAlu
begin

text \<open>
  The single and block transfers of \<^verbatim>\<open>src/src/ARMInterpreter_LoadStore.cpp\<close>, ARM and Thumb.
  A data access is a virtual method that can enter an exception; the handlers then return at
  once, which \<open>on_read\<close> and \<open>on_write\<close> express.
\<close>

section \<open>Accesses that may abort\<close>

text \<open>\<open>if (!cpu->DataRead(addr, &val)) return;\<close> and \<open>if (!cpu->DataWrite(addr, val)) return;\<close>\<close>

definition on_read :: "u32 option \<times> 'n arm \<Rightarrow> (u32 \<Rightarrow> 'n arm \<Rightarrow> 'n arm) \<Rightarrow> 'n arm" where
  [arm_defs]: "on_read r k = (case r of (Some v, cpu) \<Rightarrow> k v cpu | (None, cpu) \<Rightarrow> cpu)"

definition on_write :: "bool \<times> 'n arm \<Rightarrow> ('n arm \<Rightarrow> 'n arm) \<Rightarrow> 'n arm" where
  [arm_defs]: "on_write r k = (case r of (ok, cpu) \<Rightarrow> if ok then k cpu else cpu)"

section \<open>Word and byte transfers\<close>

definition A_WB_CALC_OFFSET_IMM :: "'n arm \<Rightarrow> u32" where
  "A_WB_CALC_OFFSET_IMM cpu =
     (let offset = CurInstr cpu AND 0xFFF
      in if tst (CurInstr cpu) (push_bit 23 1) then offset else - offset)"

definition A_WB_CALC_OFFSET_REG :: "shiftop \<Rightarrow> 'n arm \<Rightarrow> u32" where
  "A_WB_CALC_OFFSET_REG sh cpu =
     (let offset = R cpu (fld (CurInstr cpu) 0 0xF);
          shift = drop_bit 7 (CurInstr cpu) AND 0x1F;
          offset = shift_imm sh cpu offset shift
      in if tst (CurInstr cpu) (push_bit 23 1) then offset else - offset)"

text \<open>Bit 21: \<open>if (CurInstr & (1<<21)) R[rn] = offset;\<close> and the register indices.\<close>

definition rn_idx :: "'n arm \<Rightarrow> nat" where
  [arm_defs]: "rn_idx cpu = fld (CurInstr cpu) 16 0xF"

definition rd_idx :: "'n arm \<Rightarrow> nat" where
  [arm_defs]: "rd_idx cpu = fld (CurInstr cpu) 12 0xF"

definition base_wb :: "u32 \<Rightarrow> 'n arm \<Rightarrow> 'n arm" where
  [arm_defs]: "base_wb offset cpu =
     (if tst (CurInstr cpu) (push_bit 21 1) then write_reg (rn_idx cpu) offset cpu else cpu)"

definition base_add :: "u32 \<Rightarrow> 'n arm \<Rightarrow> 'n arm" where
  [arm_defs]: "base_add offset cpu = write_reg (rn_idx cpu) (R cpu (rn_idx cpu) + offset) cpu"

text \<open>The value a word store writes: PC is stored four bytes further.\<close>

definition store_val :: "'n arm \<Rightarrow> u32" where
  "store_val cpu = (if rd_idx cpu = 15 then R cpu (rd_idx cpu) + 4 else R cpu (rd_idx cpu))"

definition CheckUserTransfer :: "'n arm_vt \<Rightarrow> u32 \<Rightarrow> bool \<Rightarrow> 'n arm \<Rightarrow> bool \<times> 'n arm" where
  "CheckUserTransfer vt addr store cpu =
     (if Num cpu \<noteq> 0 \<or> \<not> tst (CurInstr cpu) (push_bit 21 1) then (True, cpu)
      else if tst (UserMap vt cpu (drop_bit 12 addr)) (if store then 2 else 1) then (True, cpu)
      else (False, DataAbort vt cpu))"

text \<open>The tail of a word load: write Rd, or jump when it is the PC.\<close>

definition ldr_result :: "'n arm_vt \<Rightarrow> u32 \<Rightarrow> 'n arm \<Rightarrow> 'n arm" where
  "ldr_result vt val cpu =
     (if rd_idx cpu = 15
      then JumpTo vt (if Num cpu = 1 then val AND NOT 1 else val) False cpu
      else write_reg (rd_idx cpu) val cpu)"

definition A_STR :: "u32 \<Rightarrow> 'n arm_vt \<Rightarrow> 'n arm \<Rightarrow> 'n arm" where
  "A_STR offset vt cpu =
     (let offset = offset + R cpu (rn_idx cpu); storeval = store_val cpu
      in on_write (DataWrite32 vt offset storeval cpu) (\<lambda>cpu.
           AddCycles_CD vt (base_wb offset cpu)))"

definition A_STR_POST :: "u32 \<Rightarrow> 'n arm_vt \<Rightarrow> 'n arm \<Rightarrow> 'n arm" where
  "A_STR_POST offset vt cpu =
     (let addr = R cpu (rn_idx cpu); storeval = store_val cpu
      in on_write (CheckUserTransfer vt addr True cpu) (\<lambda>cpu.
         on_write (DataWrite32 vt addr storeval cpu) (\<lambda>cpu.
           AddCycles_CD vt (base_add offset cpu))))"

definition A_STRB :: "u32 \<Rightarrow> 'n arm_vt \<Rightarrow> 'n arm \<Rightarrow> 'n arm" where
  "A_STRB offset vt cpu =
     (let offset = offset + R cpu (rn_idx cpu)
      in on_write (DataWrite8 vt offset (ucast (R cpu (rd_idx cpu))) cpu) (\<lambda>cpu.
           AddCycles_CD vt (base_wb offset cpu)))"

definition A_STRB_POST :: "u32 \<Rightarrow> 'n arm_vt \<Rightarrow> 'n arm \<Rightarrow> 'n arm" where
  "A_STRB_POST offset vt cpu =
     (let addr = R cpu (rn_idx cpu)
      in on_write (CheckUserTransfer vt addr True cpu) (\<lambda>cpu.
         on_write (DataWrite8 vt addr (ucast (R cpu (rd_idx cpu))) cpu) (\<lambda>cpu.
           AddCycles_CD vt (base_add offset cpu))))"

definition A_LDR :: "u32 \<Rightarrow> 'n arm_vt \<Rightarrow> 'n arm \<Rightarrow> 'n arm" where
  "A_LDR offset vt cpu =
     (let offset = offset + R cpu (rn_idx cpu)
      in on_read (DataRead32 vt offset cpu) (\<lambda>val cpu.
           let val = ROR val (push_bit 3 (offset AND 0x3));
               cpu = AddCycles_CDI vt (base_wb offset cpu)
           in ldr_result vt val cpu))"

definition A_LDR_POST :: "u32 \<Rightarrow> 'n arm_vt \<Rightarrow> 'n arm \<Rightarrow> 'n arm" where
  "A_LDR_POST offset vt cpu =
     (let addr = R cpu (rn_idx cpu)
      in on_write (CheckUserTransfer vt addr False cpu) (\<lambda>cpu.
         on_read (DataRead32 vt addr cpu) (\<lambda>val cpu.
           let val = ROR val (push_bit 3 (addr AND 0x3));
               cpu = AddCycles_CDI vt (base_add offset cpu)
           in ldr_result vt val cpu)))"

definition A_LDRB :: "u32 \<Rightarrow> 'n arm_vt \<Rightarrow> 'n arm \<Rightarrow> 'n arm" where
  "A_LDRB offset vt cpu =
     (let offset = offset + R cpu (rn_idx cpu)
      in on_read (DataRead8 vt offset cpu) (\<lambda>val cpu.
           write_reg (rd_idx cpu) val (AddCycles_CDI vt (base_wb offset cpu))))"

definition A_LDRB_POST :: "u32 \<Rightarrow> 'n arm_vt \<Rightarrow> 'n arm \<Rightarrow> 'n arm" where
  "A_LDRB_POST offset vt cpu =
     (let addr = R cpu (rn_idx cpu)
      in on_write (CheckUserTransfer vt addr False cpu) (\<lambda>cpu.
         on_read (DataRead8 vt addr cpu) (\<lambda>val cpu.
           write_reg (rd_idx cpu) val (AddCycles_CDI vt (base_add offset cpu)))))"

text \<open>The ten handlers \<open>A_IMPLEMENT_WB_LDRSTR\<close> generates for each of the four operations.\<close>

datatype wb_op = WB_STR | WB_STRB | WB_LDR | WB_LDRB

datatype wb_off = OFF_IMM | OFF_REG shiftop

fun wb_offset :: "wb_off \<Rightarrow> 'n arm \<Rightarrow> u32" where
  "wb_offset OFF_IMM cpu = A_WB_CALC_OFFSET_IMM cpu"
| "wb_offset (OFF_REG sh) cpu = A_WB_CALC_OFFSET_REG sh cpu"

fun A_WB :: "wb_op \<Rightarrow> bool \<Rightarrow> wb_off \<Rightarrow> 'n arm_vt \<Rightarrow> 'n arm \<Rightarrow> 'n arm" where
  "A_WB WB_STR post off vt cpu =
     (if post then A_STR_POST (wb_offset off cpu) vt cpu else A_STR (wb_offset off cpu) vt cpu)"
| "A_WB WB_STRB post off vt cpu =
     (if post then A_STRB_POST (wb_offset off cpu) vt cpu else A_STRB (wb_offset off cpu) vt cpu)"
| "A_WB WB_LDR post off vt cpu =
     (if post then A_LDR_POST (wb_offset off cpu) vt cpu else A_LDR (wb_offset off cpu) vt cpu)"
| "A_WB WB_LDRB post off vt cpu =
     (if post then A_LDRB_POST (wb_offset off cpu) vt cpu else A_LDRB (wb_offset off cpu) vt cpu)"

section \<open>Halfword, signed and doubleword transfers\<close>

definition A_HD_CALC_OFFSET_IMM :: "'n arm \<Rightarrow> u32" where
  "A_HD_CALC_OFFSET_IMM cpu =
     (let offset = (CurInstr cpu AND 0xF) OR (drop_bit 4 (CurInstr cpu) AND 0xF0)
      in if tst (CurInstr cpu) (push_bit 23 1) then offset else - offset)"

definition A_HD_CALC_OFFSET_REG :: "'n arm \<Rightarrow> u32" where
  "A_HD_CALC_OFFSET_REG cpu =
     (let offset = R cpu (fld (CurInstr cpu) 0 0xF)
      in if tst (CurInstr cpu) (push_bit 23 1) then offset else - offset)"

definition sext8 :: "u32 \<Rightarrow> u32" where
  "sext8 v = scast (ucast v :: u8)"

definition sext16 :: "u32 \<Rightarrow> u32" where
  "sext16 v = scast (ucast v :: u16)"

text \<open>\<open>if (r&1) r--;\<close>\<close>

definition even_reg :: "nat \<Rightarrow> nat" where
  "even_reg r = (if odd r then r - 1 else r)"

definition A_STRH :: "u32 \<Rightarrow> 'n arm_vt \<Rightarrow> 'n arm \<Rightarrow> 'n arm" where
  "A_STRH offset vt cpu =
     (let offset = offset + R cpu (rn_idx cpu)
      in on_write (DataWrite16 vt offset (ucast (R cpu (rd_idx cpu))) cpu) (\<lambda>cpu.
           AddCycles_CD vt (base_wb offset cpu)))"

definition A_STRH_POST :: "u32 \<Rightarrow> 'n arm_vt \<Rightarrow> 'n arm \<Rightarrow> 'n arm" where
  "A_STRH_POST offset vt cpu =
     (let addr = R cpu (rn_idx cpu)
      in on_write (DataWrite16 vt addr (ucast (R cpu (rd_idx cpu))) cpu) (\<lambda>cpu.
           AddCycles_CD vt (base_add offset cpu)))"

definition A_LDRD :: "u32 \<Rightarrow> 'n arm_vt \<Rightarrow> 'n arm \<Rightarrow> 'n arm" where
  "A_LDRD offset vt cpu =
     (if Num cpu \<noteq> 0 then cpu
      else let offset = offset + R cpu (rn_idx cpu); r = even_reg (rd_idx cpu)
           in on_read (DataRead32 vt offset cpu) (\<lambda>lo cpu.
              on_read (DataRead32S vt (offset + 4) cpu) (\<lambda>hi cpu.
                AddCycles_CDI vt (write_reg (r + 1) hi (write_reg r lo (base_wb offset cpu))))))"

definition A_LDRD_POST :: "u32 \<Rightarrow> 'n arm_vt \<Rightarrow> 'n arm \<Rightarrow> 'n arm" where
  "A_LDRD_POST offset vt cpu =
     (if Num cpu \<noteq> 0 then cpu
      else let addr = R cpu (rn_idx cpu); r = even_reg (rd_idx cpu)
           in on_read (DataRead32 vt addr cpu) (\<lambda>lo cpu.
              on_read (DataRead32S vt (addr + 4) cpu) (\<lambda>hi cpu.
                AddCycles_CDI vt (write_reg (r + 1) hi (write_reg r lo (base_add offset cpu))))))"

definition A_STRD :: "u32 \<Rightarrow> 'n arm_vt \<Rightarrow> 'n arm \<Rightarrow> 'n arm" where
  "A_STRD offset vt cpu =
     (if Num cpu \<noteq> 0 then cpu
      else let offset = offset + R cpu (rn_idx cpu); r = even_reg (rd_idx cpu)
           in on_write (DataWrite32 vt offset (R cpu r) cpu) (\<lambda>cpu.
              on_write (DataWrite32S vt (offset + 4) (R cpu (r + 1)) cpu) (\<lambda>cpu.
                AddCycles_CD vt (base_wb offset cpu))))"

definition A_STRD_POST :: "u32 \<Rightarrow> 'n arm_vt \<Rightarrow> 'n arm \<Rightarrow> 'n arm" where
  "A_STRD_POST offset vt cpu =
     (if Num cpu \<noteq> 0 then cpu
      else let addr = R cpu (rn_idx cpu); r = even_reg (rd_idx cpu)
           in on_write (DataWrite32 vt addr (R cpu r) cpu) (\<lambda>cpu.
              on_write (DataWrite32S vt (addr + 4) (R cpu (r + 1)) cpu) (\<lambda>cpu.
                AddCycles_CD vt (base_add offset cpu))))"

definition A_LDRH :: "u32 \<Rightarrow> 'n arm_vt \<Rightarrow> 'n arm \<Rightarrow> 'n arm" where
  "A_LDRH offset vt cpu =
     (let offset = offset + R cpu (rn_idx cpu)
      in on_read (DataRead16 vt offset cpu) (\<lambda>val cpu.
           AddCycles_CDI vt (write_reg (rd_idx cpu) val (base_wb offset cpu))))"

definition A_LDRH_POST :: "u32 \<Rightarrow> 'n arm_vt \<Rightarrow> 'n arm \<Rightarrow> 'n arm" where
  "A_LDRH_POST offset vt cpu =
     (let addr = R cpu (rn_idx cpu)
      in on_read (DataRead16 vt addr cpu) (\<lambda>val cpu.
           AddCycles_CDI vt (write_reg (rd_idx cpu) val (base_add offset cpu))))"

definition A_LDRSB :: "u32 \<Rightarrow> 'n arm_vt \<Rightarrow> 'n arm \<Rightarrow> 'n arm" where
  "A_LDRSB offset vt cpu =
     (let offset = offset + R cpu (rn_idx cpu)
      in on_read (DataRead8 vt offset cpu) (\<lambda>val cpu.
           AddCycles_CDI vt (write_reg (rd_idx cpu) (sext8 val) (base_wb offset cpu))))"

definition A_LDRSB_POST :: "u32 \<Rightarrow> 'n arm_vt \<Rightarrow> 'n arm \<Rightarrow> 'n arm" where
  "A_LDRSB_POST offset vt cpu =
     (let addr = R cpu (rn_idx cpu)
      in on_read (DataRead8 vt addr cpu) (\<lambda>val cpu.
           AddCycles_CDI vt (write_reg (rd_idx cpu) (sext8 val) (base_add offset cpu))))"

definition A_LDRSH :: "u32 \<Rightarrow> 'n arm_vt \<Rightarrow> 'n arm \<Rightarrow> 'n arm" where
  "A_LDRSH offset vt cpu =
     (let offset = offset + R cpu (rn_idx cpu)
      in on_read (DataRead16 vt offset cpu) (\<lambda>val cpu.
           AddCycles_CDI vt (write_reg (rd_idx cpu) (sext16 val) (base_wb offset cpu))))"

definition A_LDRSH_POST :: "u32 \<Rightarrow> 'n arm_vt \<Rightarrow> 'n arm \<Rightarrow> 'n arm" where
  "A_LDRSH_POST offset vt cpu =
     (let addr = R cpu (rn_idx cpu)
      in on_read (DataRead16 vt addr cpu) (\<lambda>val cpu.
           AddCycles_CDI vt (write_reg (rd_idx cpu) (sext16 val) (base_add offset cpu))))"

datatype hd_op = HD_STRH | HD_LDRD | HD_STRD | HD_LDRH | HD_LDRSB | HD_LDRSH

definition hd_offset :: "bool \<Rightarrow> 'n arm \<Rightarrow> u32" where
  "hd_offset imm cpu = (if imm then A_HD_CALC_OFFSET_IMM cpu else A_HD_CALC_OFFSET_REG cpu)"

fun A_HD :: "hd_op \<Rightarrow> bool \<Rightarrow> bool \<Rightarrow> 'n arm_vt \<Rightarrow> 'n arm \<Rightarrow> 'n arm" where
  "A_HD HD_STRH post imm vt cpu =
     (if post then A_STRH_POST (hd_offset imm cpu) vt cpu else A_STRH (hd_offset imm cpu) vt cpu)"
| "A_HD HD_LDRD post imm vt cpu =
     (if post then A_LDRD_POST (hd_offset imm cpu) vt cpu else A_LDRD (hd_offset imm cpu) vt cpu)"
| "A_HD HD_STRD post imm vt cpu =
     (if post then A_STRD_POST (hd_offset imm cpu) vt cpu else A_STRD (hd_offset imm cpu) vt cpu)"
| "A_HD HD_LDRH post imm vt cpu =
     (if post then A_LDRH_POST (hd_offset imm cpu) vt cpu else A_LDRH (hd_offset imm cpu) vt cpu)"
| "A_HD HD_LDRSB post imm vt cpu =
     (if post then A_LDRSB_POST (hd_offset imm cpu) vt cpu else A_LDRSB (hd_offset imm cpu) vt cpu)"
| "A_HD HD_LDRSH post imm vt cpu =
     (if post then A_LDRSH_POST (hd_offset imm cpu) vt cpu else A_LDRSH (hd_offset imm cpu) vt cpu)"

section \<open>Swaps\<close>

definition A_SWP :: "'n arm_vt \<Rightarrow> 'n arm \<Rightarrow> 'n arm" where
  "A_SWP vt cpu =
     (let base = R cpu (rn_idx cpu); rm = R cpu (fld (CurInstr cpu) 0 0xF)
      in on_read (DataRead32 vt base cpu) (\<lambda>val cpu.
           let numD = DataCycles cpu
           in on_write (DataWrite32 vt base rm cpu) (\<lambda>cpu.
                let cpu = write_reg (rd_idx cpu) (ROR val (8 * (base AND 0x3))) cpu;
                    cpu = cpu\<lparr>DataCycles := DataCycles cpu + numD\<rparr>
                in AddCycles_CDI vt cpu)))"

definition A_SWPB :: "'n arm_vt \<Rightarrow> 'n arm \<Rightarrow> 'n arm" where
  "A_SWPB vt cpu =
     (let base = R cpu (rn_idx cpu); rm = R cpu (fld (CurInstr cpu) 0 0xF) AND 0xFF
      in on_read (DataRead8 vt base cpu) (\<lambda>val cpu.
           let numD = DataCycles cpu
           in on_write (DataWrite8 vt base (ucast rm) cpu) (\<lambda>cpu.
                let cpu = write_reg (rd_idx cpu) val cpu;
                    cpu = cpu\<lparr>DataCycles := DataCycles cpu + numD\<rparr>
                in AddCycles_CDI vt cpu)))"

end
