(* ===== verification/ArmBlock.thy ===== *)
theory ArmBlock
  imports ArmLoadStore
begin

text \<open>
  Block transfers of \<^verbatim>\<open>src/src/ARMInterpreter_LoadStore.cpp\<close>: \<open>LDM\<close>, \<open>STM\<close> with their user
  bank and empty list cases, and the Thumb \<open>PUSH\<close>, \<open>POP\<close>, \<open>LDMIA\<close>, \<open>STMIA\<close> and single
  transfers.  The loops \<open>for (regs = list; regs; regs &= regs - 1)\<close> run over \<open>bit_walk list\<close>,
  the values \<open>std::countr_zero(regs)\<close> takes in the successive rounds.
\<close>

section \<open>Register lists\<close>

text \<open>\<open>std::countr_zero\<close>\<close>

definition countr_zero32 :: "u32 \<Rightarrow> nat" where
  "countr_zero32 w = length (takeWhile (\<lambda>i. \<not> bit w i) [0..<32])"

lemma and_minus_one_less: "w \<noteq> 0 \<Longrightarrow> unat (w AND (w - 1)) < unat w" for w :: u32
  by (metis measure_unat order_le_less_trans word_and_le1 word_le_nat_alt)

function bit_walk :: "u32 \<Rightarrow> nat list" where
  "bit_walk regs = (if regs = 0 then [] else countr_zero32 regs # bit_walk (regs AND (regs - 1)))"
  by pat_completeness auto
termination
  by (relation "measure unat") (simp_all add: and_minus_one_less)

declare bit_walk.simps [simp del]

section \<open>User bank transfers\<close>

text \<open>The register that \<open>UserTransferReg\<close> refers to, as a value and as a destination.\<close>

definition UserTransferReg :: "'n arm \<Rightarrow> nat \<Rightarrow> u32" where
  "UserTransferReg cpu reg =
     (let mode = CPSR cpu AND 0x1F
      in if mode = 0x11 \<and> 8 \<le> reg \<and> reg < 15 then R_FIQ cpu (reg - 8)
         else if reg = 13 \<or> reg = 14
         then if mode = 0x12 then R_IRQ cpu (reg - 13)
              else if mode = 0x13 then R_SVC cpu (reg - 13)
              else if mode = 0x17 then R_ABT cpu (reg - 13)
              else if mode = 0x1B then R_UND cpu (reg - 13)
              else R cpu reg
         else R cpu reg)"

definition set_UserTransferReg :: "nat \<Rightarrow> u32 \<Rightarrow> 'n arm \<Rightarrow> 'n arm" where
  "set_UserTransferReg reg v cpu =
     (let mode = CPSR cpu AND 0x1F
      in if mode = 0x11 \<and> 8 \<le> reg \<and> reg < 15
         then cpu\<lparr>R_FIQ := (R_FIQ cpu)(reg - 8 := v)\<rparr>
         else if reg = 13 \<or> reg = 14
         then if mode = 0x12 then cpu\<lparr>R_IRQ := (R_IRQ cpu)(reg - 13 := v)\<rparr>
              else if mode = 0x13 then cpu\<lparr>R_SVC := (R_SVC cpu)(reg - 13 := v)\<rparr>
              else if mode = 0x17 then cpu\<lparr>R_ABT := (R_ABT cpu)(reg - 13 := v)\<rparr>
              else if mode = 0x1B then cpu\<lparr>R_UND := (R_UND cpu)(reg - 13 := v)\<rparr>
              else write_reg reg v cpu
         else write_reg reg v cpu)"

definition RestoreTransferBase :: "nat \<Rightarrow> u32 \<Rightarrow> u32 \<Rightarrow> 'n arm \<Rightarrow> 'n arm" where
  "RestoreTransferBase reg base oldcpsr cpu =
     (if reg = 15 \<or> reg = 14 \<and> oldcpsr AND 0x1F = 0x17 then cpu
      else let cpu = UpdateMode (CPSR cpu) oldcpsr True cpu;
               cpu = write_reg reg base cpu
           in UpdateMode oldcpsr (CPSR cpu) True cpu)"

section \<open>Empty lists\<close>

text \<open>
  The results of the two accesses are ignored here; this path runs on the ARM7 only, whose
  accesses never fail.  \<open>pc\<close> is uninitialised in C++ before the read; 0 stands for it.
\<close>

definition A_EmptyBlockTransfer :: "'n arm_vt \<Rightarrow> bool \<Rightarrow> 'n arm \<Rightarrow> 'n arm" where
  "A_EmptyBlockTransfer vt load cpu =
     (let rn = rn_idx cpu; base = R cpu rn;
          up = tst (CurInstr cpu) (push_bit 23 1);
          pre = tst (CurInstr cpu) (push_bit 24 1);
          writeback = (if up then base + 0x40 else base - 0x40)
      in if Num cpu = 0
         then let cpu = (if tst (CurInstr cpu) (push_bit 21 1)
                         then write_reg rn writeback cpu else cpu)
              in AddCycles_C vt cpu
         else let address = (if up then base else writeback) + (if pre = up then 4 else 0);
                  (pc, cpu) = (if load
                               then case DataRead32 vt address cpu of
                                      (v, cpu) \<Rightarrow> (case v of Some x \<Rightarrow> x | None \<Rightarrow> 0, cpu)
                               else (0, snd (DataWrite32 vt address (R cpu 15 + 4) cpu)));
                  cpu = (if tst (CurInstr cpu) (push_bit 21 1)
                         then write_reg rn writeback cpu else cpu)
              in if load
                 then AddCycles_CDI vt
                        (JumpTo vt (pc AND NOT 1) (tst (CurInstr cpu) (push_bit 22 1)) cpu)
                 else AddCycles_CD vt cpu)"

section \<open>Loops of the block transfers\<close>

text \<open>
  One \<open>first ? DataRead32(base, dest) : DataRead32S(base, dest)\<close>; a loop returns \<open>None\<close> when an
  access failed, else the final \<open>base\<close> and \<open>first\<close>.
\<close>

definition read_seq :: "'n arm_vt \<Rightarrow> bool \<Rightarrow> u32 \<Rightarrow> 'n arm \<Rightarrow> u32 option \<times> 'n arm" where
  [arm_defs]: "read_seq vt first = (if first then DataRead32 vt else DataRead32S vt)"

definition write_seq :: "'n arm_vt \<Rightarrow> bool \<Rightarrow> u32 \<Rightarrow> u32 \<Rightarrow> 'n arm \<Rightarrow> bool \<times> 'n arm" where
  [arm_defs]: "write_seq vt first = (if first then DataWrite32 vt else DataWrite32S vt)"

fun ldm_loop :: "'n arm_vt \<Rightarrow> bool \<Rightarrow> bool \<Rightarrow> nat list \<Rightarrow> u32 \<Rightarrow> bool \<Rightarrow> 'n arm
    \<Rightarrow> (u32 \<times> bool) option \<times> 'n arm" where
  "ldm_loop vt user preinc [] base first cpu = (Some (base, first), cpu)"
| "ldm_loop vt user preinc (i # is) base first cpu =
     (let base = (if preinc then base + 4 else base)
      in case read_seq vt first base cpu of
           (None, cpu) \<Rightarrow> (None, cpu)
         | (Some v, cpu) \<Rightarrow>
             let cpu = (if user then set_UserTransferReg i v cpu else write_reg i v cpu)
             in ldm_loop vt user preinc is (if preinc then base else base + 4) False cpu)"

definition popcount16 :: "'n arm \<Rightarrow> u32" where
  "popcount16 cpu = of_nat (popcount32 (CurInstr cpu AND 0xFFFF))"

text \<open>The last part of \<open>A_LDM\<close>: base writeback, jump, cycles.\<close>

definition ldm_finish :: "'n arm_vt \<Rightarrow> nat \<Rightarrow> u32 \<Rightarrow> u32 \<Rightarrow> u32 \<Rightarrow> 'n arm \<Rightarrow> 'n arm" where
  "ldm_finish vt baseid wbpre base pc cpu =
     (let instr = CurInstr cpu;
          cpu = (if tst instr (push_bit 21 1)
                 then let wbbase = (if tst instr (push_bit 23 1) then base else wbpre)
                      in if tst instr (push_bit baseid 1)
                         then if Num cpu = 0 \<and>
                                 (let rlist = instr AND 0xFFFF
                                  in \<not> tst rlist (NOT (push_bit baseid 1)) \<or>
                                     tst rlist (NOT (push_bit baseid 2 - 1)))
                              then write_reg baseid wbbase cpu else cpu
                         else write_reg baseid wbbase cpu
                 else cpu);
          cpu = (if tst instr (push_bit 15 1)
                 then JumpTo vt pc (tst instr (push_bit 22 1)) cpu else cpu)
      in AddCycles_CDI vt cpu)"

definition A_LDM :: "'n arm_vt \<Rightarrow> 'n arm \<Rightarrow> 'n arm" where
  "A_LDM vt cpu =
     (if CurInstr cpu AND 0xFFFF = 0 then A_EmptyBlockTransfer vt True cpu
      else
        let instr = CurInstr cpu;
            baseid = rn_idx cpu; oldbase = R cpu baseid; oldcpsr = CPSR cpu;
            up = tst instr (push_bit 23 1);
            base = (if up then oldbase else oldbase - 4 * popcount16 cpu);
            wbpre = base;
            preinc = (tst instr (push_bit 24 1) = up);
            user = (tst instr (push_bit 22 1) \<and> \<not> tst instr (push_bit 15 1))
        in case ldm_loop vt user preinc (bit_walk (instr AND 0x7FFF)) base True cpu of
             (None, cpu) \<Rightarrow> RestoreTransferBase baseid oldbase oldcpsr cpu
           | (Some (base, first), cpu) \<Rightarrow>
               if tst instr (push_bit 15 1)
               then let base = (if preinc then base + 4 else base)
                    in case read_seq vt first base cpu of
                         (None, cpu) \<Rightarrow> RestoreTransferBase baseid oldbase oldcpsr cpu
                       | (Some pc, cpu) \<Rightarrow>
                           let base = (if preinc then base else base + 4);
                               pc = (if Num cpu = 1 then pc AND NOT 1 else pc)
                           in ldm_finish vt baseid wbpre base pc cpu
               else ldm_finish vt baseid wbpre base 0 cpu)"

text \<open>The value \<open>A_STM\<close> stores for register \<open>i\<close>.\<close>

definition stm_value :: "nat \<Rightarrow> u32 \<Rightarrow> u32 \<Rightarrow> bool \<Rightarrow> nat \<Rightarrow> 'n arm \<Rightarrow> u32" where
  "stm_value baseid oldbase base isbanked i cpu =
     (if i = baseid \<and> \<not> isbanked
      then if Num cpu = 0 \<or> \<not> tst (CurInstr cpu) (push_bit i 1 - 1) then oldbase else base
      else (if tst (CurInstr cpu) (push_bit 22 1) then UserTransferReg cpu i else R cpu i)
           + (if i = 15 \<and> Num cpu = 1 then 4 else 0))"

fun stm_loop :: "'n arm_vt \<Rightarrow> nat \<Rightarrow> u32 \<Rightarrow> bool \<Rightarrow> bool \<Rightarrow> nat list \<Rightarrow> u32 \<Rightarrow> bool \<Rightarrow> 'n arm
    \<Rightarrow> u32 option \<times> 'n arm" where
  "stm_loop vt baseid oldbase isbanked preinc [] base first cpu = (Some base, cpu)"
| "stm_loop vt baseid oldbase isbanked preinc (i # is) base first cpu =
     (let base = (if preinc then base + 4 else base);
          value = stm_value baseid oldbase base isbanked i cpu
      in case write_seq vt first base value cpu of
           (False, cpu) \<Rightarrow> (None, cpu)
         | (True, cpu) \<Rightarrow>
             stm_loop vt baseid oldbase isbanked preinc is
               (if preinc then base else base + 4) False cpu)"

definition A_STM :: "'n arm_vt \<Rightarrow> 'n arm \<Rightarrow> 'n arm" where
  "A_STM vt cpu =
     (if CurInstr cpu AND 0xFFFF = 0 then A_EmptyBlockTransfer vt False cpu
      else
        let instr = CurInstr cpu;
            baseid = rn_idx cpu; oldbase = R cpu baseid;
            up = tst instr (push_bit 23 1);
            base = (if up then oldbase else oldbase - 4 * popcount16 cpu);
            preinc = (tst instr (push_bit 24 1) = up);
            mode = CPSR cpu AND 0x1F;
            isbanked = (if tst instr (push_bit 22 1)
                        then if mode = 0x11 then 8 \<le> baseid \<and> baseid < 15
                             else if mode \<noteq> 0x10 \<and> mode \<noteq> 0x1F then 13 \<le> baseid \<and> baseid < 15
                             else False
                        else False)
        in case stm_loop vt baseid oldbase isbanked preinc (bit_walk (instr AND 0xFFFF))
                  base True cpu of
             (None, cpu) \<Rightarrow> cpu
           | (Some base, cpu) \<Rightarrow>
               let cpu = (if tst instr (push_bit 21 1)
                          then write_reg baseid
                                 (if up then base else oldbase - 4 * popcount16 cpu) cpu
                          else cpu)
               in AddCycles_CD vt cpu)"

section \<open>Thumb block transfers\<close>

text \<open>The loops over \<open>CurInstr & 0xFF\<close> of the Thumb handlers, ascending from \<open>base\<close>.\<close>

fun T_store_loop :: "'n arm_vt \<Rightarrow> nat list \<Rightarrow> u32 \<Rightarrow> bool \<Rightarrow> 'n arm
    \<Rightarrow> (u32 \<times> bool) option \<times> 'n arm" where
  "T_store_loop vt [] base first cpu = (Some (base, first), cpu)"
| "T_store_loop vt (i # is) base first cpu =
     (case write_seq vt first base (R cpu i) cpu of
        (False, cpu) \<Rightarrow> (None, cpu)
      | (True, cpu) \<Rightarrow> T_store_loop vt is (base + 4) False cpu)"

fun T_load_loop :: "'n arm_vt \<Rightarrow> nat list \<Rightarrow> u32 \<Rightarrow> bool \<Rightarrow> 'n arm
    \<Rightarrow> (u32 \<times> bool) option \<times> 'n arm" where
  "T_load_loop vt [] base first cpu = (Some (base, first), cpu)"
| "T_load_loop vt (i # is) base first cpu =
     (case read_seq vt first base cpu of
        (None, cpu) \<Rightarrow> (None, cpu)
      | (Some v, cpu) \<Rightarrow> T_load_loop vt is (base + 4) False (write_reg i v cpu))"

definition T_PUSH :: "'n arm_vt \<Rightarrow> 'n arm \<Rightarrow> 'n arm" where
  "T_PUSH vt cpu =
     (let nregs = of_nat (popcount32 (CurInstr cpu AND 0x1FF)) :: u32;
          base = R cpu 13 - push_bit 2 nregs
      in case T_store_loop vt (bit_walk (CurInstr cpu AND 0xFF)) base True cpu of
           (None, cpu) \<Rightarrow> cpu
         | (Some (base, first), cpu) \<Rightarrow>
             on_write (if tst (CurInstr cpu) (push_bit 8 1)
                       then write_seq vt first base (R cpu 14) cpu else (True, cpu)) (\<lambda>cpu.
               AddCycles_CD vt (write_reg 13 (R cpu 13 - push_bit 2 nregs) cpu)))"

definition T_POP :: "'n arm_vt \<Rightarrow> 'n arm \<Rightarrow> 'n arm" where
  "T_POP vt cpu =
     (case T_load_loop vt (bit_walk (CurInstr cpu AND 0xFF)) (R cpu 13) True cpu of
        (None, cpu) \<Rightarrow> cpu
      | (Some (base, first), cpu) \<Rightarrow>
          if tst (CurInstr cpu) (push_bit 8 1)
          then on_read (read_seq vt first base cpu) (\<lambda>pc cpu.
                 let pc = (if Num cpu = 1 then pc OR 1 else pc);
                     cpu = JumpTo vt pc False cpu;
                     base = base + 4
                 in AddCycles_CDI vt (write_reg 13 base cpu))
          else AddCycles_CDI vt (write_reg 13 base cpu))"

definition T_STMIA :: "'n arm_vt \<Rightarrow> 'n arm \<Rightarrow> 'n arm" where
  "T_STMIA vt cpu =
     (let rb = T_r8 cpu; base = R cpu rb
      in if CurInstr cpu AND 0xFF = 0
         then let cpu = write_reg rb (base + 0x40) cpu
              in if Num cpu = 1
                 then AddCycles_CD vt (snd (DataWrite32 vt base (R cpu 15 + 2) cpu))
                 else AddCycles_C vt cpu
         else case T_store_loop vt (bit_walk (CurInstr cpu AND 0xFF)) base True cpu of
                (None, cpu) \<Rightarrow> cpu
              | (Some (base, first), cpu) \<Rightarrow> AddCycles_CD vt (write_reg rb base cpu))"

definition T_LDMIA :: "'n arm_vt \<Rightarrow> 'n arm \<Rightarrow> 'n arm" where
  "T_LDMIA vt cpu =
     (let rb = T_r8 cpu; base = R cpu rb
      in if CurInstr cpu AND 0xFF = 0
         then let cpu = write_reg rb (base + 0x40) cpu
              in if Num cpu = 1
                 then case DataRead32 vt base cpu of
                        (v, cpu) \<Rightarrow>
                          let pc = (case v of Some x \<Rightarrow> x | None \<Rightarrow> 0)
                          in AddCycles_CDI vt (JumpTo vt (pc OR 1) False cpu)
                 else AddCycles_C vt cpu
         else let oldbase = base; oldcpsr = CPSR cpu
              in case T_load_loop vt (bit_walk (CurInstr cpu AND 0xFF)) base True cpu of
                   (None, cpu) \<Rightarrow> RestoreTransferBase rb oldbase oldcpsr cpu
                 | (Some (base, first), cpu) \<Rightarrow>
                     AddCycles_CDI vt
                       (if tst (CurInstr cpu) (push_bit rb 1) then cpu
                        else write_reg rb base cpu))"

section \<open>Thumb single transfers\<close>

definition T_LDR_PCREL :: "'n arm_vt \<Rightarrow> 'n arm \<Rightarrow> 'n arm" where
  [arm_defs]: "T_LDR_PCREL vt cpu =
     (let addr = (R cpu 15 AND NOT 2) + push_bit 2 (CurInstr cpu AND 0xFF)
      in on_read (DataRead32 vt addr cpu) (\<lambda>val cpu.
           AddCycles_CDI vt (write_reg (T_r8 cpu) val cpu)))"

definition T_STR_REG :: "'n arm_vt \<Rightarrow> 'n arm \<Rightarrow> 'n arm" where
  [arm_defs]: "T_STR_REG vt cpu =
     (let addr = R cpu (T_r3 cpu) + R cpu (T_r6 cpu)
      in on_write (DataWrite32 vt addr (R cpu (T_r0 cpu)) cpu) (AddCycles_CD vt))"

definition T_STRB_REG :: "'n arm_vt \<Rightarrow> 'n arm \<Rightarrow> 'n arm" where
  [arm_defs]: "T_STRB_REG vt cpu =
     (let addr = R cpu (T_r3 cpu) + R cpu (T_r6 cpu)
      in on_write (DataWrite8 vt addr (ucast (R cpu (T_r0 cpu))) cpu) (AddCycles_CD vt))"

definition T_LDR_REG :: "'n arm_vt \<Rightarrow> 'n arm \<Rightarrow> 'n arm" where
  [arm_defs]: "T_LDR_REG vt cpu =
     (let addr = R cpu (T_r3 cpu) + R cpu (T_r6 cpu)
      in on_read (DataRead32 vt addr cpu) (\<lambda>val cpu.
           AddCycles_CDI vt (write_reg (T_r0 cpu) (ROR val (8 * (addr AND 0x3))) cpu)))"

definition T_LDRB_REG :: "'n arm_vt \<Rightarrow> 'n arm \<Rightarrow> 'n arm" where
  [arm_defs]: "T_LDRB_REG vt cpu =
     (let addr = R cpu (T_r3 cpu) + R cpu (T_r6 cpu)
      in on_read (DataRead8 vt addr cpu) (\<lambda>val cpu.
           AddCycles_CDI vt (write_reg (T_r0 cpu) val cpu)))"

definition T_STRH_REG :: "'n arm_vt \<Rightarrow> 'n arm \<Rightarrow> 'n arm" where
  [arm_defs]: "T_STRH_REG vt cpu =
     (let addr = R cpu (T_r3 cpu) + R cpu (T_r6 cpu)
      in on_write (DataWrite16 vt addr (ucast (R cpu (T_r0 cpu))) cpu) (AddCycles_CD vt))"

definition T_LDRSB_REG :: "'n arm_vt \<Rightarrow> 'n arm \<Rightarrow> 'n arm" where
  [arm_defs]: "T_LDRSB_REG vt cpu =
     (let addr = R cpu (T_r3 cpu) + R cpu (T_r6 cpu)
      in on_read (DataRead8 vt addr cpu) (\<lambda>val cpu.
           AddCycles_CDI vt (write_reg (T_r0 cpu) (sext8 val) cpu)))"

definition T_LDRH_REG :: "'n arm_vt \<Rightarrow> 'n arm \<Rightarrow> 'n arm" where
  [arm_defs]: "T_LDRH_REG vt cpu =
     (let addr = R cpu (T_r3 cpu) + R cpu (T_r6 cpu)
      in on_read (DataRead16 vt addr cpu) (\<lambda>val cpu.
           AddCycles_CDI vt (write_reg (T_r0 cpu) val cpu)))"

definition T_LDRSH_REG :: "'n arm_vt \<Rightarrow> 'n arm \<Rightarrow> 'n arm" where
  [arm_defs]: "T_LDRSH_REG vt cpu =
     (let addr = R cpu (T_r3 cpu) + R cpu (T_r6 cpu)
      in on_read (DataRead16 vt addr cpu) (\<lambda>val cpu.
           AddCycles_CDI vt (write_reg (T_r0 cpu) (sext16 val) cpu)))"

definition T_STR_IMM :: "'n arm_vt \<Rightarrow> 'n arm \<Rightarrow> 'n arm" where
  [arm_defs]: "T_STR_IMM vt cpu =
     (let addr = (drop_bit 4 (CurInstr cpu) AND 0x7C) + R cpu (T_r3 cpu)
      in on_write (DataWrite32 vt addr (R cpu (T_r0 cpu)) cpu) (AddCycles_CD vt))"

definition T_LDR_IMM :: "'n arm_vt \<Rightarrow> 'n arm \<Rightarrow> 'n arm" where
  [arm_defs]: "T_LDR_IMM vt cpu =
     (let addr = (drop_bit 4 (CurInstr cpu) AND 0x7C) + R cpu (T_r3 cpu)
      in on_read (DataRead32 vt addr cpu) (\<lambda>val cpu.
           AddCycles_CDI vt (write_reg (T_r0 cpu) (ROR val (8 * (addr AND 0x3))) cpu)))"

definition T_STRB_IMM :: "'n arm_vt \<Rightarrow> 'n arm \<Rightarrow> 'n arm" where
  [arm_defs]: "T_STRB_IMM vt cpu =
     (let addr = (drop_bit 6 (CurInstr cpu) AND 0x1F) + R cpu (T_r3 cpu)
      in on_write (DataWrite8 vt addr (ucast (R cpu (T_r0 cpu))) cpu) (AddCycles_CD vt))"

definition T_LDRB_IMM :: "'n arm_vt \<Rightarrow> 'n arm \<Rightarrow> 'n arm" where
  [arm_defs]: "T_LDRB_IMM vt cpu =
     (let addr = (drop_bit 6 (CurInstr cpu) AND 0x1F) + R cpu (T_r3 cpu)
      in on_read (DataRead8 vt addr cpu) (\<lambda>val cpu.
           AddCycles_CDI vt (write_reg (T_r0 cpu) val cpu)))"

definition T_STRH_IMM :: "'n arm_vt \<Rightarrow> 'n arm \<Rightarrow> 'n arm" where
  [arm_defs]: "T_STRH_IMM vt cpu =
     (let addr = (drop_bit 5 (CurInstr cpu) AND 0x3E) + R cpu (T_r3 cpu)
      in on_write (DataWrite16 vt addr (ucast (R cpu (T_r0 cpu))) cpu) (AddCycles_CD vt))"

definition T_LDRH_IMM :: "'n arm_vt \<Rightarrow> 'n arm \<Rightarrow> 'n arm" where
  [arm_defs]: "T_LDRH_IMM vt cpu =
     (let addr = (drop_bit 5 (CurInstr cpu) AND 0x3E) + R cpu (T_r3 cpu)
      in on_read (DataRead16 vt addr cpu) (\<lambda>val cpu.
           AddCycles_CDI vt (write_reg (T_r0 cpu) val cpu)))"

definition T_STR_SPREL :: "'n arm_vt \<Rightarrow> 'n arm \<Rightarrow> 'n arm" where
  [arm_defs]: "T_STR_SPREL vt cpu =
     (let addr = (push_bit 2 (CurInstr cpu) AND 0x3FC) + R cpu 13
      in on_write (DataWrite32 vt addr (R cpu (T_r8 cpu)) cpu) (AddCycles_CD vt))"

definition T_LDR_SPREL :: "'n arm_vt \<Rightarrow> 'n arm \<Rightarrow> 'n arm" where
  [arm_defs]: "T_LDR_SPREL vt cpu =
     (let addr = (push_bit 2 (CurInstr cpu) AND 0x3FC) + R cpu 13
      in on_read (DataRead32 vt addr cpu) (\<lambda>val cpu.
           AddCycles_CDI vt (write_reg (T_r8 cpu) val cpu)))"

section \<open>The register list is walked in ascending order\<close>

lemma countr_zero32_lowest:
  assumes "w \<noteq> 0"
  shows "countr_zero32 w < 32" "bit w (countr_zero32 w)" "i < countr_zero32 w \<Longrightarrow> \<not> bit w i"
proof -
  let ?t = "takeWhile (\<lambda>i. \<not> bit w i) [0..<32]"
  obtain j where j: "bit w j" using assms by (auto simp: bit_eq_iff)
  then have "j < 32" using bit_imp_le_length [OF j] by simp
  with j have "?t \<noteq> [0..<32]" by (auto simp: takeWhile_eq_all_conv)
  then have len: "length ?t < length [0..<32::nat]"
    by (metis length_takeWhile_le le_neq_implies_less takeWhile_eq_take take_all_iff)
  then have len': "length ?t < 32" by (simp only: length_upt diff_zero)
  then show "countr_zero32 w < 32" by (simp only: countr_zero32_def)
  have nth: "[0..<32] ! k = k" if "k < 32" for k :: nat
    using that by (simp only: nth_upt add_0 diff_zero)
  show "bit w (countr_zero32 w)"
    using nth_length_takeWhile [OF len] unfolding nth [OF len'] by (simp only: countr_zero32_def not_not)
  show "\<not> bit w i" if "i < countr_zero32 w"
  proof -
    have i: "i < length ?t" using that by (simp only: countr_zero32_def)
    then have "i < 32" using len' by linarith
    have "?t ! i = i" using i by (simp only: takeWhile_nth nth [OF \<open>i < 32\<close>])
    moreover have "\<not> bit w (?t ! i)" using i by (metis nth_mem set_takeWhileD)
    ultimately show ?thesis by simp
  qed
qed

lemma clear_lowest:
  fixes w :: u32
  assumes k: "k < 32" "bit w k" "\<And>i. i < k \<Longrightarrow> \<not> bit w i"
  shows "w AND (w - 1) = w AND NOT (2 ^ k)"
proof -
  let ?w = "w AND NOT (2 ^ k)"
  have "?w AND 2 ^ k = 0" by (simp add: and.assoc)
  then have "?w + 2 ^ k = ?w OR 2 ^ k" using word_plus_and_or [of ?w "2 ^ k"] by simp
  also have "\<dots> = w"
    by (rule bit_word_eqI) (use k in \<open>auto simp: bit_or_iff bit_and_iff bit_not_iff bit_exp_iff\<close>)
  finally have "w - 1 = ?w + mask k" by (simp add: mask_eq_decr_exp algebra_simps)
  moreover have "?w AND mask k = 0"
    by (rule bit_word_eqI) (use k in \<open>auto simp: bit_and_iff bit_not_iff bit_mask_iff bit_exp_iff\<close>)
  then have "?w + mask k = ?w OR mask k" using word_plus_and_or [of ?w "mask k"] by simp
  ultimately have "w AND (w - 1) = w AND (?w OR mask k)" by simp
  also have "\<dots> = ?w"
    by (rule bit_word_eqI) (use k in \<open>auto simp: bit_or_iff bit_and_iff bit_not_iff bit_exp_iff bit_mask_iff\<close>)
  finally show ?thesis .
qed

lemma filter_lowest:
  assumes "k < n" "P k" "\<And>i. i < k \<Longrightarrow> \<not> P i"
  shows "filter P [0..<n] = k # filter (\<lambda>i. P i \<and> i \<noteq> k) [0..<n]"
proof -
  have u: "[0..<n] = [0..<k] @ k # [Suc k..<n]"
    using assms(1) upt_add_eq_append [of 0 k "n - k"] by (simp add: upt_conv_Cons)
  have "filter P [0..<k] = []" "filter (\<lambda>i. P i \<and> i \<noteq> k) [0..<k] = []"
    using assms(3) by (auto simp: filter_empty_conv)
  moreover have "filter (\<lambda>i. P i \<and> i \<noteq> k) [Suc k..<n] = filter P [Suc k..<n]"
    by (rule filter_cong) auto
  ultimately show ?thesis using assms(2) by (simp add: u)
qed

lemma bit_walk_eq: "bit_walk w = bits_up w"
proof (induction w rule: bit_walk.induct)
  case (1 w)
  show ?case
  proof (cases "w = 0")
    case True
    then show ?thesis by (simp add: bit_walk.simps bits_up_def)
  next
    case False
    note low = countr_zero32_lowest [OF False]
    let ?k = "countr_zero32 w"
    have "bits_up w = ?k # filter (\<lambda>i. bit w i \<and> i \<noteq> ?k) [0..<32]"
      unfolding bits_up_def using low by (intro filter_lowest)
    also have "(\<lambda>i. bit w i \<and> i \<noteq> ?k) = bit (w AND (w - 1))"
      using clear_lowest [of ?k w] low by (auto simp: fun_eq_iff bit_and_iff bit_not_iff bit_exp_iff dest: bit_imp_le_length)
    finally show ?thesis
      using 1 False by (simp only: bits_up_def [symmetric] bit_walk.simps [of w] if_False not_False_eq_True simp_thms)
  qed
qed

end
