(* ===== verification/ArmBranch.thy ===== *)
theory ArmBranch
  imports ArmBlock
begin

text \<open>
  Branches (\<^verbatim>\<open>src/src/ARMInterpreter_Branch.cpp\<close>) and the status register, coprocessor and
  software interrupt instructions of \<^verbatim>\<open>src/src/ARMInterpreter.cpp\<close>.
\<close>

section \<open>ARM branches\<close>

text \<open>\<open>(s32)(CurInstr << 8) >> 6\<close>\<close>

definition b_offset :: "'n arm \<Rightarrow> s32" where
  "b_offset cpu = signed_drop_bit 6 (push_bit 8 (CurInstr cpu))"

definition A_B :: "'n arm_vt \<Rightarrow> 'n arm \<Rightarrow> 'n arm" where
  "A_B vt cpu = (let offset = b_offset cpu in JumpTo vt (R cpu 15 + offset) False cpu)"

definition A_BL :: "'n arm_vt \<Rightarrow> 'n arm \<Rightarrow> 'n arm" where
  "A_BL vt cpu =
     (let offset = b_offset cpu;
          cpu = write_reg 14 (R cpu 15 - 4) cpu
      in JumpTo vt (R cpu 15 + offset) False cpu)"

definition A_BLX_IMM :: "'n arm_vt \<Rightarrow> 'n arm \<Rightarrow> 'n arm" where
  "A_BLX_IMM vt cpu =
     (let offset = b_offset cpu;
          offset = (if tst (CurInstr cpu) 0x01000000 then offset + 2 else offset);
          cpu = write_reg 14 (R cpu 15 - 4) cpu
      in JumpTo vt (R cpu 15 + offset + 1) False cpu)"

definition A_BX :: "'n arm_vt \<Rightarrow> 'n arm \<Rightarrow> 'n arm" where
  "A_BX vt cpu = JumpTo vt (R cpu (fld (CurInstr cpu) 0 0xF)) False cpu"

definition A_BLX_REG :: "'n arm_vt \<Rightarrow> 'n arm \<Rightarrow> 'n arm" where
  "A_BLX_REG vt cpu =
     (let lr = R cpu 15 - 4;
          cpu = JumpTo vt (R cpu (fld (CurInstr cpu) 0 0xF)) False cpu
      in write_reg 14 lr cpu)"

section \<open>Thumb branches\<close>

definition T_BCOND :: "'n arm_vt \<Rightarrow> 'n arm \<Rightarrow> 'n arm" where
  "T_BCOND vt cpu =
     (if CheckCondition (fld (CurInstr cpu) 8 0xF) cpu
      then let offset = signed_drop_bit 23 (push_bit 24 (CurInstr cpu))
           in JumpTo vt (R cpu 15 + offset + 1) False cpu
      else AddCycles_C vt cpu)"

definition T_BX :: "'n arm_vt \<Rightarrow> 'n arm \<Rightarrow> 'n arm" where
  "T_BX vt cpu = JumpTo vt (R cpu (fld (CurInstr cpu) 3 0xF)) False cpu"

definition T_BLX_REG :: "'n arm_vt \<Rightarrow> 'n arm \<Rightarrow> 'n arm" where
  "T_BLX_REG vt cpu =
     (if Num cpu = 1 then cpu
      else let lr = R cpu 15 - 1;
               cpu = JumpTo vt (R cpu (fld (CurInstr cpu) 3 0xF)) False cpu
           in write_reg 14 lr cpu)"

definition T_B :: "'n arm_vt \<Rightarrow> 'n arm \<Rightarrow> 'n arm" where
  "T_B vt cpu =
     (let offset = signed_drop_bit 20 (push_bit 21 (CurInstr cpu AND 0x7FF))
      in JumpTo vt (R cpu 15 + offset + 1) False cpu)"

definition T_BL_LONG_1 :: "'n arm_vt \<Rightarrow> 'n arm \<Rightarrow> 'n arm" where
  "T_BL_LONG_1 vt cpu =
     (let offset = signed_drop_bit 9 (push_bit 21 (CurInstr cpu AND 0x7FF))
      in AddCycles_C vt (write_reg 14 (R cpu 15 + offset) cpu))"

definition T_BL_LONG_2 :: "'n arm_vt \<Rightarrow> 'n arm \<Rightarrow> 'n arm" where
  "T_BL_LONG_2 vt cpu =
     (let offset = push_bit 1 (CurInstr cpu AND 0x7FF);
          pc = R cpu 14 + offset;
          bl = (\<lambda>pc. let cpu = write_reg 14 ((R cpu 15 - 2) OR 1) cpu in JumpTo vt pc False cpu)
      in if Num cpu = 1 \<or> tst (CurInstr cpu) (push_bit 12 1) then bl (pc OR 1)
         else if tst (CurInstr cpu) 1 then T_UNK vt cpu
         else bl (pc AND NOT 1))"

section \<open>Status registers\<close>

text \<open>
  The \<open>psr\<close> pointer of \<open>A_MSR_IMM\<close>, \<open>A_MSR_REG\<close> and \<open>A_MRS\<close>: which status register bit 22
  selects in the current mode.  \<open>None\<close> is the \<open>default:\<close> branch, a mode without a saved one.
\<close>

datatype psr = PSR_CPSR | SPSR_FIQ | SPSR_IRQ | SPSR_SVC | SPSR_ABT | SPSR_UND

definition spsr_of_mode :: "u32 \<Rightarrow> psr option" where
  "spsr_of_mode m =
     (if m = 0x11 then Some SPSR_FIQ
      else if m = 0x12 then Some SPSR_IRQ
      else if m = 0x13 then Some SPSR_SVC
      else if m \<in> {0x14, 0x15, 0x16, 0x17} then Some SPSR_ABT
      else if m \<in> {0x18, 0x19, 0x1A, 0x1B} then Some SPSR_UND
      else None)"

fun get_psr :: "psr \<Rightarrow> 'n arm \<Rightarrow> u32" where
  "get_psr PSR_CPSR cpu = CPSR cpu"
| "get_psr SPSR_FIQ cpu = R_FIQ cpu 7"
| "get_psr SPSR_IRQ cpu = R_IRQ cpu 2"
| "get_psr SPSR_SVC cpu = R_SVC cpu 2"
| "get_psr SPSR_ABT cpu = R_ABT cpu 2"
| "get_psr SPSR_UND cpu = R_UND cpu 2"

fun put_psr :: "psr \<Rightarrow> u32 \<Rightarrow> 'n arm \<Rightarrow> 'n arm" where
  "put_psr PSR_CPSR v cpu = cpu\<lparr>CPSR := v\<rparr>"
| "put_psr SPSR_FIQ v cpu = cpu\<lparr>R_FIQ := (R_FIQ cpu)(7 := v)\<rparr>"
| "put_psr SPSR_IRQ v cpu = cpu\<lparr>R_IRQ := (R_IRQ cpu)(2 := v)\<rparr>"
| "put_psr SPSR_SVC v cpu = cpu\<lparr>R_SVC := (R_SVC cpu)(2 := v)\<rparr>"
| "put_psr SPSR_ABT v cpu = cpu\<lparr>R_ABT := (R_ABT cpu)(2 := v)\<rparr>"
| "put_psr SPSR_UND v cpu = cpu\<lparr>R_UND := (R_UND cpu)(2 := v)\<rparr>"

definition msr_mask :: "'n arm \<Rightarrow> u32" where
  "msr_mask cpu =
     (let instr = CurInstr cpu;
          mask = 0;
          mask = (if tst instr (push_bit 16 1) then mask OR 0x000000FF else mask);
          mask = (if tst instr (push_bit 17 1) then mask OR 0x0000FF00 else mask);
          mask = (if tst instr (push_bit 18 1) then mask OR 0x00FF0000 else mask);
          mask = (if tst instr (push_bit 19 1) then mask OR 0xFF000000 else mask);
          mask = (if \<not> tst instr (push_bit 22 1) then mask AND 0xFFFFFFDF else mask)
      in if CPSR cpu AND 0x1F = 0x10 then mask AND 0xFFFFFF00 else mask)"

text \<open>The common body of the two \<open>MSR\<close> handlers for a value \<open>val\<close>.\<close>

definition A_MSR :: "'n arm_vt \<Rightarrow> u32 \<Rightarrow> 'n arm \<Rightarrow> 'n arm" where
  "A_MSR vt val cpu =
     (let spsr = tst (CurInstr cpu) (push_bit 22 1)
      in case (if spsr then spsr_of_mode (CPSR cpu AND 0x1F) else Some PSR_CPSR) of
           None \<Rightarrow> AddCycles_C vt cpu
         | Some psr \<Rightarrow>
             let oldpsr = get_psr psr cpu;
                 mask = msr_mask cpu;
                 val = val OR 0x00000010;
                 cpu = put_psr psr ((oldpsr AND NOT mask) OR (val AND mask)) cpu;
                 cpu = (if \<not> spsr then UpdateMode oldpsr (CPSR cpu) False cpu else cpu)
             in AddCycles_C vt cpu)"

definition A_MSR_IMM :: "'n arm_vt \<Rightarrow> 'n arm \<Rightarrow> 'n arm" where
  "A_MSR_IMM vt cpu =
     A_MSR vt (ROR (CurInstr cpu AND 0xFF) (drop_bit 7 (CurInstr cpu) AND 0x1E)) cpu"

definition A_MSR_REG :: "'n arm_vt \<Rightarrow> 'n arm \<Rightarrow> 'n arm" where
  "A_MSR_REG vt cpu = A_MSR vt (R cpu (fld (CurInstr cpu) 0 0xF)) cpu"

definition A_MRS :: "'n arm_vt \<Rightarrow> 'n arm \<Rightarrow> 'n arm" where
  "A_MRS vt cpu =
     (let psr = (if tst (CurInstr cpu) (push_bit 22 1)
                 then case spsr_of_mode (CPSR cpu AND 0x1F) of
                        Some p \<Rightarrow> get_psr p cpu | None \<Rightarrow> CPSR cpu
                 else CPSR cpu)
      in AddCycles_C vt (write_reg (rd_idx cpu) psr cpu))"

section \<open>Coprocessor transfers and software interrupts\<close>

text \<open>\<open>(cn<<8)|(cm<<4)|cpinfo\<close>\<close>

definition cp_id :: "'n arm \<Rightarrow> u32" where
  "cp_id cpu =
     (let cn = drop_bit 16 (CurInstr cpu) AND 0xF; cm = CurInstr cpu AND 0xF;
          cpinfo = drop_bit 5 (CurInstr cpu) AND 7
      in push_bit 8 cn OR push_bit 4 cm OR cpinfo)"

definition A_MCR :: "'n arm_vt \<Rightarrow> 'n arm \<Rightarrow> 'n arm" where
  "A_MCR vt cpu =
     (if CPSR cpu AND 0x1F = 0x10 then A_UNK vt cpu
      else let cp = fld (CurInstr cpu) 8 0xF
           in if Num cpu = 0 \<and> cp = 15
              then AddCycles_CI vt 2 (CP15Write vt (cp_id cpu) (R cpu (rd_idx cpu)) cpu)
              else if Num cpu = 1 \<and> cp = 14 then AddCycles_CI vt 2 cpu
              else A_UNK vt cpu)"

definition A_MRC :: "'n arm_vt \<Rightarrow> 'n arm \<Rightarrow> 'n arm" where
  "A_MRC vt cpu =
     (if CPSR cpu AND 0x1F = 0x10 then A_UNK vt cpu
      else let cp = fld (CurInstr cpu) 8 0xF
           in if Num cpu = 0 \<and> cp = 15
              then AddCycles_CI vt 3 (write_reg (rd_idx cpu) (CP15Read vt (cp_id cpu) cpu) cpu)
              else if Num cpu = 1 \<and> cp = 14 then AddCycles_CI vt 3 cpu
              else A_UNK vt cpu)"

definition A_SVC :: "'n arm_vt \<Rightarrow> 'n arm \<Rightarrow> 'n arm" where
  "A_SVC vt cpu =
     (let oldcpsr = CPSR cpu;
          cpu = cpu\<lparr>CPSR := (CPSR cpu AND NOT 0xBF) OR 0x93\<rparr>;
          cpu = UpdateMode oldcpsr (CPSR cpu) False cpu;
          cpu = cpu\<lparr>R_SVC := (R_SVC cpu)(2 := oldcpsr)\<rparr>;
          cpu = write_reg 14 (R cpu 15 - 4) cpu
      in JumpTo vt (ExceptionBase cpu + 0x08) False cpu)"

definition T_SVC :: "'n arm_vt \<Rightarrow> 'n arm \<Rightarrow> 'n arm" where
  "T_SVC vt cpu =
     (let oldcpsr = CPSR cpu;
          cpu = cpu\<lparr>CPSR := (CPSR cpu AND NOT 0xBF) OR 0x93\<rparr>;
          cpu = UpdateMode oldcpsr (CPSR cpu) False cpu;
          cpu = cpu\<lparr>R_SVC := (R_SVC cpu)(2 := oldcpsr)\<rparr>;
          cpu = write_reg 14 (R cpu 15 - 2) cpu
      in JumpTo vt (ExceptionBase cpu + 0x08) False cpu)"

section \<open>The status register mask\<close>

lemma bit_msr_mask:
  "bit (msr_mask cpu) i \<longleftrightarrow>
     i < 32 \<and> bit (CurInstr cpu) (16 + i div 8) \<and> (i = 5 \<longrightarrow> bit (CurInstr cpu) 22) \<and>
     (CPSR cpu AND 0x1F = 0x10 \<longrightarrow> 8 \<le> i)"
proof -
  have "bit (msr_mask cpu) i \<longleftrightarrow>
     (((((False \<or> bit (CurInstr cpu) 16 \<and> i div 8 = 0) \<or> bit (CurInstr cpu) 17 \<and> i div 8 = 1) \<or>
       bit (CurInstr cpu) 18 \<and> i div 8 = 2) \<or> bit (CurInstr cpu) 19 \<and> i div 8 = 3) \<and>
      (\<not> bit (CurInstr cpu) 22 \<longrightarrow> i < 32 \<and> i \<noteq> 5)) \<and> (CPSR cpu AND 0x1F = 0x10 \<longrightarrow> 8 \<le> i \<and> i < 32)"
    by (simp only: msr_mask_def Let_def tst_bit bit_if_or bit_if_and bit_byte_masks bit_neg_masks bit_0_eq bot_apply bot_bool_def)
  also have "\<dots> \<longleftrightarrow> i < 32 \<and> bit (CurInstr cpu) (16 + i div 8) \<and> (i = 5 \<longrightarrow> bit (CurInstr cpu) 22) \<and>
     (CPSR cpu AND 0x1F = 0x10 \<longrightarrow> 8 \<le> i)"
  proof (cases "i < 32")
    case True
    then have "i div 8 = 0 \<or> i div 8 = 1 \<or> i div 8 = 2 \<or> i div 8 = 3" by linarith
    then show ?thesis using True by auto
  next
    case False
    then have "4 \<le> i div 8" by linarith
    then show ?thesis using False by auto
  qed
  finally show ?thesis .
qed

text \<open>\<open>MSR CPSR\<close> writes exactly the bits its field mask selects: never the T bit, in user mode
  never a control bit, bit 4 always as one; a mode change it causes keeps every banked register.\<close>

lemma A_MSR_spec:
  assumes "\<not> bit (CurInstr cpu) 22"
  shows "\<exists>cpu'. A_MSR vt v cpu = AddCycles_C vt cpu' \<and>
    (\<forall>i. bit (CPSR cpu') i \<longleftrightarrow>
       (if i < 32 \<and> bit (CurInstr cpu) (16 + i div 8) \<and> i \<noteq> 5 \<and> (CPSR cpu AND 0x1F = 0x10 \<longrightarrow> 8 \<le> i)
        then bit v i \<or> i = 4 else bit (CPSR cpu) i)) \<and>
    (\<forall>b r. mode_reg (bank_of (CPSR cpu')) b r cpu' = mode_reg (bank_of (CPSR cpu)) b r cpu)"
proof -
  let ?p = "(CPSR cpu AND NOT (msr_mask cpu)) OR ((v OR 0x10) AND msr_mask cpu)"
  let ?c = "UpdateMode (CPSR cpu) ?p False (cpu\<lparr>CPSR := ?p\<rparr>)"
  have "A_MSR vt v cpu = AddCycles_C vt ?c"
    using assms by (simp only: A_MSR_def tst_bit Let_def if_False option.case get_psr.simps put_psr.simps
        CPSR_set not_False_eq_True if_True)
  moreover have "bit (CPSR ?c) i \<longleftrightarrow>
       (if i < 32 \<and> bit (CurInstr cpu) (16 + i div 8) \<and> i \<noteq> 5 \<and> (CPSR cpu AND 0x1F = 0x10 \<longrightarrow> 8 \<le> i)
        then bit v i \<or> i = 4 else bit (CPSR cpu) i)" for i
  proof -
    have "bit (CPSR ?c) i \<longleftrightarrow> bit (CPSR cpu) i \<and> \<not> bit (msr_mask cpu) i \<or> (bit v i \<or> i = 4) \<and> bit (msr_mask cpu) i"
      using bit_pow2_u32 [of 4 i] bit_imp_le_length [of "CPSR cpu" i]
      by (simp only: UpdateMode_fields CPSR_set bit_or_iff bit_and_iff bit_not_iff possible_bit_word) auto
    then show ?thesis using assms by (auto simp: bit_msr_mask)
  qed
  moreover have "mode_reg (bank_of (CPSR ?c)) b r ?c = mode_reg (bank_of (CPSR cpu)) b r cpu" for b r
    by (simp only: UpdateMode_fields CPSR_set UpdateMode_mode_reg mode_reg_CPSR)
  ultimately show ?thesis by blast
qed

lemma A_MSR_spec_witness:
  "\<forall>vt :: unit arm_vt. \<exists>cpu'. A_MSR vt 0x1F (undefined\<lparr>CurInstr := 0x00090000, CPSR := 0xF0000010\<rparr>) =
     AddCycles_C vt cpu' \<and> \<not> bit (CPSR cpu') 0 \<and> \<not> bit (CPSR cpu') 31"
proof
  fix vt :: "unit arm_vt"
  let ?cpu = "undefined\<lparr>CurInstr := 0x00090000, CPSR := 0xF0000010\<rparr> :: unit arm"
  have "\<not> bit (CurInstr ?cpu) 22" by simp
  from A_MSR_spec [OF this, of vt "0x1F"] obtain cpu' where a: "A_MSR vt 0x1F ?cpu = AddCycles_C vt cpu'"
    and b: "\<forall>i. bit (CPSR cpu') i \<longleftrightarrow>
       (if i < 32 \<and> bit (CurInstr ?cpu) (16 + i div 8) \<and> i \<noteq> 5 \<and> (CPSR ?cpu AND 0x1F = 0x10 \<longrightarrow> 8 \<le> i)
        then bit (0x1F :: 32 word) i \<or> i = 4 else bit (CPSR ?cpu) i)"
    by (elim exE conjE) (rule that)
  have "\<not> bit (CPSR cpu') 0" "\<not> bit (CPSR cpu') 31"
    using b [THEN spec, of 0] b [THEN spec, of 31] by simp_all
  then show "\<exists>cpu'. A_MSR vt 0x1F ?cpu = AddCycles_C vt cpu' \<and> \<not> bit (CPSR cpu') 0 \<and> \<not> bit (CPSR cpu') 31"
    using a by (intro exI conjI)
qed

end
