(* ===== verification/ArmTable.thy ===== *)
theory ArmTable
  imports ArmBranch
begin

text \<open>
  The dispatch tables of \<^verbatim>\<open>src/src/ARM_InstrTable.h\<close>: \<open>ARMInstrTable\<close>, indexed by bits 27-20
  and 7-4 of an ARM instruction, and \<open>THUMBInstrTable\<close>, indexed by bits 15-6 of a Thumb one.  An
  entry, a pointer to a handler, is a constructor of \<open>a_instr\<close> or \<open>t_instr\<close>; the handlers that the
  macros generate are one constructor over the macro's arguments.  The ARM table is kept in the
  sixteen blocks of 256 entries that share bits 27-24.
\<close>

section \<open>Handlers\<close>

datatype (plugins only: code size) a_instr = H_ALU alu_op operand2 | H_ALU_S alu_op operand2 | H_TEST alu_op operand2
  | H_MOV_DBG | H_WB wb_op bool wb_off | H_HD hd_op bool bool
  | H_MUL | H_MLA | H_UMULL | H_UMLAL | H_SMULL | H_SMLAL | H_SMLAxy | H_SMLAWy | H_SMULxy | H_SMULWy | H_SMLALxy
  | H_CLZ | H_QADD | H_QSUB | H_QDADD | H_QDSUB | H_SWP | H_SWPB | H_LDM | H_STM | H_MRS | H_MSR_IMM
  | H_MSR_REG | H_MCR | H_MRC | H_SVC | H_B | H_BL | H_BX | H_BLX_REG | H_UNK

fun a_handler :: "a_instr \<Rightarrow> 'n arm_vt \<Rightarrow> 'n arm \<Rightarrow> 'n arm" where
  "a_handler (H_ALU op f) = A_ALU op f"
| "a_handler (H_ALU_S op f) = A_ALU_S op f"
| "a_handler (H_TEST op f) = A_ALU_TEST op f"
| "a_handler H_MOV_DBG = A_MOV_REG_LSL_IMM_DBG"
| "a_handler (H_WB op post off) = A_WB op post off"
| "a_handler (H_HD op post imm) = A_HD op post imm"
| "a_handler H_MUL = A_MUL"
| "a_handler H_MLA = A_MLA"
| "a_handler H_UMULL = A_UMULL"
| "a_handler H_UMLAL = A_UMLAL"
| "a_handler H_SMULL = A_SMULL"
| "a_handler H_SMLAL = A_SMLAL"
| "a_handler H_SMLAxy = A_SMLAxy"
| "a_handler H_SMLAWy = A_SMLAWy"
| "a_handler H_SMULxy = A_SMULxy"
| "a_handler H_SMULWy = A_SMULWy"
| "a_handler H_SMLALxy = A_SMLALxy"
| "a_handler H_CLZ = A_CLZ"
| "a_handler H_QADD = A_QADD"
| "a_handler H_QSUB = A_QSUB"
| "a_handler H_QDADD = A_QDADD"
| "a_handler H_QDSUB = A_QDSUB"
| "a_handler H_SWP = A_SWP"
| "a_handler H_SWPB = A_SWPB"
| "a_handler H_LDM = A_LDM"
| "a_handler H_STM = A_STM"
| "a_handler H_MRS = A_MRS"
| "a_handler H_MSR_IMM = A_MSR_IMM"
| "a_handler H_MSR_REG = A_MSR_REG"
| "a_handler H_MCR = A_MCR"
| "a_handler H_MRC = A_MRC"
| "a_handler H_SVC = A_SVC"
| "a_handler H_B = A_B"
| "a_handler H_BL = A_BL"
| "a_handler H_BX = A_BX"
| "a_handler H_BLX_REG = A_BLX_REG"
| "a_handler H_UNK = A_UNK"

datatype (plugins only: code size) t_instr = HT_LSL_IMM | HT_LSR_IMM | HT_ASR_IMM | HT_ADD_REG3 | HT_SUB_REG3 | HT_ADD_IMM3 | HT_SUB_IMM3
  | HT_MOV_IMM | HT_CMP_IMM | HT_ADD_IMM | HT_SUB_IMM | HT_AND_REG | HT_EOR_REG | HT_LSL_REG
  | HT_LSR_REG | HT_ASR_REG | HT_ADC_REG | HT_SBC_REG | HT_ROR_REG | HT_TST_REG | HT_NEG_REG
  | HT_CMP_REG | HT_CMN_REG | HT_ORR_REG | HT_MUL_REG | HT_BIC_REG | HT_MVN_REG | HT_ADD_HIREG
  | HT_CMP_HIREG | HT_MOV_HIREG | HT_BX | HT_BLX_REG | HT_LDR_PCREL | HT_STR_REG | HT_STRH_REG
  | HT_STRB_REG | HT_LDRSB_REG | HT_LDR_REG | HT_LDRH_REG | HT_LDRB_REG | HT_LDRSH_REG | HT_STR_IMM
  | HT_LDR_IMM | HT_STRB_IMM | HT_LDRB_IMM | HT_STRH_IMM | HT_LDRH_IMM | HT_STR_SPREL | HT_LDR_SPREL
  | HT_ADD_PCREL | HT_ADD_SPREL | HT_ADD_SP | HT_UNK | HT_PUSH | HT_POP | HT_STMIA
  | HT_LDMIA | HT_BCOND | HT_SVC | HT_B | HT_BL_LONG_2 | HT_BL_LONG_1

fun t_handler :: "t_instr \<Rightarrow> 'n arm_vt \<Rightarrow> 'n arm \<Rightarrow> 'n arm" where
  "t_handler HT_LSL_IMM = T_LSL_IMM"
| "t_handler HT_LSR_IMM = T_LSR_IMM"
| "t_handler HT_ASR_IMM = T_ASR_IMM"
| "t_handler HT_ADD_REG3 = T_ADD_REG3"
| "t_handler HT_SUB_REG3 = T_SUB_REG3"
| "t_handler HT_ADD_IMM3 = T_ADD_IMM3"
| "t_handler HT_SUB_IMM3 = T_SUB_IMM3"
| "t_handler HT_MOV_IMM = T_MOV_IMM"
| "t_handler HT_CMP_IMM = T_CMP_IMM"
| "t_handler HT_ADD_IMM = T_ADD_IMM"
| "t_handler HT_SUB_IMM = T_SUB_IMM"
| "t_handler HT_AND_REG = T_AND_REG"
| "t_handler HT_EOR_REG = T_EOR_REG"
| "t_handler HT_LSL_REG = T_LSL_REG"
| "t_handler HT_LSR_REG = T_LSR_REG"
| "t_handler HT_ASR_REG = T_ASR_REG"
| "t_handler HT_ADC_REG = T_ADC_REG"
| "t_handler HT_SBC_REG = T_SBC_REG"
| "t_handler HT_ROR_REG = T_ROR_REG"
| "t_handler HT_TST_REG = T_TST_REG"
| "t_handler HT_NEG_REG = T_NEG_REG"
| "t_handler HT_CMP_REG = T_CMP_REG"
| "t_handler HT_CMN_REG = T_CMN_REG"
| "t_handler HT_ORR_REG = T_ORR_REG"
| "t_handler HT_MUL_REG = T_MUL_REG"
| "t_handler HT_BIC_REG = T_BIC_REG"
| "t_handler HT_MVN_REG = T_MVN_REG"
| "t_handler HT_ADD_HIREG = T_ADD_HIREG"
| "t_handler HT_CMP_HIREG = T_CMP_HIREG"
| "t_handler HT_MOV_HIREG = T_MOV_HIREG"
| "t_handler HT_BX = T_BX"
| "t_handler HT_BLX_REG = T_BLX_REG"
| "t_handler HT_LDR_PCREL = T_LDR_PCREL"
| "t_handler HT_STR_REG = T_STR_REG"
| "t_handler HT_STRH_REG = T_STRH_REG"
| "t_handler HT_STRB_REG = T_STRB_REG"
| "t_handler HT_LDRSB_REG = T_LDRSB_REG"
| "t_handler HT_LDR_REG = T_LDR_REG"
| "t_handler HT_LDRH_REG = T_LDRH_REG"
| "t_handler HT_LDRB_REG = T_LDRB_REG"
| "t_handler HT_LDRSH_REG = T_LDRSH_REG"
| "t_handler HT_STR_IMM = T_STR_IMM"
| "t_handler HT_LDR_IMM = T_LDR_IMM"
| "t_handler HT_STRB_IMM = T_STRB_IMM"
| "t_handler HT_LDRB_IMM = T_LDRB_IMM"
| "t_handler HT_STRH_IMM = T_STRH_IMM"
| "t_handler HT_LDRH_IMM = T_LDRH_IMM"
| "t_handler HT_STR_SPREL = T_STR_SPREL"
| "t_handler HT_LDR_SPREL = T_LDR_SPREL"
| "t_handler HT_ADD_PCREL = T_ADD_PCREL"
| "t_handler HT_ADD_SPREL = T_ADD_SPREL"
| "t_handler HT_ADD_SP = T_ADD_SP"
| "t_handler HT_UNK = T_UNK"
| "t_handler HT_PUSH = T_PUSH"
| "t_handler HT_POP = T_POP"
| "t_handler HT_STMIA = T_STMIA"
| "t_handler HT_LDMIA = T_LDMIA"
| "t_handler HT_BCOND = T_BCOND"
| "t_handler HT_SVC = T_SVC"
| "t_handler HT_B = T_B"
| "t_handler HT_BL_LONG_2 = T_BL_LONG_2"
| "t_handler HT_BL_LONG_1 = T_BL_LONG_1"

section \<open>The ARM table\<close>

definition ARMInstrTable_0 :: "a_instr list" where
  "ARMInstrTable_0 =
     [H_ALU OP_AND (REG_IMM SH_LSL), H_ALU OP_AND (REG_REG SH_LSL), H_ALU OP_AND (REG_IMM SH_LSR), H_ALU OP_AND (REG_REG SH_LSR),
      H_ALU OP_AND (REG_IMM SH_ASR), H_ALU OP_AND (REG_REG SH_ASR), H_ALU OP_AND (REG_IMM SH_ROR), H_ALU OP_AND (REG_REG SH_ROR),
      H_ALU OP_AND (REG_IMM SH_LSL), H_MUL, H_ALU OP_AND (REG_IMM SH_LSR), H_HD HD_STRH True False,
      H_ALU OP_AND (REG_IMM SH_ASR), H_HD HD_LDRD True False, H_ALU OP_AND (REG_IMM SH_ROR), H_HD HD_STRD True False,
      H_ALU_S OP_AND (REG_IMM SH_LSL), H_ALU_S OP_AND (REG_REG SH_LSL), H_ALU_S OP_AND (REG_IMM SH_LSR), H_ALU_S OP_AND (REG_REG SH_LSR),
      H_ALU_S OP_AND (REG_IMM SH_ASR), H_ALU_S OP_AND (REG_REG SH_ASR), H_ALU_S OP_AND (REG_IMM SH_ROR), H_ALU_S OP_AND (REG_REG SH_ROR),
      H_ALU_S OP_AND (REG_IMM SH_LSL), H_MUL, H_ALU_S OP_AND (REG_IMM SH_LSR), H_HD HD_LDRH True False,
      H_ALU_S OP_AND (REG_IMM SH_ASR), H_HD HD_LDRSB True False, H_ALU_S OP_AND (REG_IMM SH_ROR), H_HD HD_LDRSH True False,
      H_ALU OP_EOR (REG_IMM SH_LSL), H_ALU OP_EOR (REG_REG SH_LSL), H_ALU OP_EOR (REG_IMM SH_LSR), H_ALU OP_EOR (REG_REG SH_LSR),
      H_ALU OP_EOR (REG_IMM SH_ASR), H_ALU OP_EOR (REG_REG SH_ASR), H_ALU OP_EOR (REG_IMM SH_ROR), H_ALU OP_EOR (REG_REG SH_ROR),
      H_ALU OP_EOR (REG_IMM SH_LSL), H_MLA, H_ALU OP_EOR (REG_IMM SH_LSR), H_UNK,
      H_ALU OP_EOR (REG_IMM SH_ASR), H_UNK, H_ALU OP_EOR (REG_IMM SH_ROR), H_UNK,
      H_ALU_S OP_EOR (REG_IMM SH_LSL), H_ALU_S OP_EOR (REG_REG SH_LSL), H_ALU_S OP_EOR (REG_IMM SH_LSR), H_ALU_S OP_EOR (REG_REG SH_LSR),
      H_ALU_S OP_EOR (REG_IMM SH_ASR), H_ALU_S OP_EOR (REG_REG SH_ASR), H_ALU_S OP_EOR (REG_IMM SH_ROR), H_ALU_S OP_EOR (REG_REG SH_ROR),
      H_ALU_S OP_EOR (REG_IMM SH_LSL), H_MLA, H_ALU_S OP_EOR (REG_IMM SH_ROR), H_UNK,
      H_ALU_S OP_EOR (REG_IMM SH_ASR), H_UNK, H_ALU_S OP_EOR (REG_IMM SH_ROR), H_UNK,
      H_ALU OP_SUB (REG_IMM SH_LSL), H_ALU OP_SUB (REG_REG SH_LSL), H_ALU OP_SUB (REG_IMM SH_LSR), H_ALU OP_SUB (REG_REG SH_LSR),
      H_ALU OP_SUB (REG_IMM SH_ASR), H_ALU OP_SUB (REG_REG SH_ASR), H_ALU OP_SUB (REG_IMM SH_ROR), H_ALU OP_SUB (REG_REG SH_ROR),
      H_ALU OP_SUB (REG_IMM SH_LSL), H_UNK, H_ALU OP_SUB (REG_IMM SH_LSR), H_HD HD_STRH True True,
      H_ALU OP_SUB (REG_IMM SH_ASR), H_HD HD_LDRD True True, H_ALU OP_SUB (REG_IMM SH_ROR), H_HD HD_STRD True True,
      H_ALU_S OP_SUB (REG_IMM SH_LSL), H_ALU_S OP_SUB (REG_REG SH_LSL), H_ALU_S OP_SUB (REG_IMM SH_LSR), H_ALU_S OP_SUB (REG_REG SH_LSR),
      H_ALU_S OP_SUB (REG_IMM SH_ASR), H_ALU_S OP_SUB (REG_REG SH_ASR), H_ALU_S OP_SUB (REG_IMM SH_ROR), H_ALU_S OP_SUB (REG_REG SH_ROR),
      H_ALU_S OP_SUB (REG_IMM SH_LSL), H_UNK, H_ALU_S OP_SUB (REG_IMM SH_LSR), H_HD HD_LDRH True True,
      H_ALU_S OP_SUB (REG_IMM SH_ASR), H_HD HD_LDRSB True True, H_ALU_S OP_SUB (REG_IMM SH_ROR), H_HD HD_LDRSH True True,
      H_ALU OP_RSB (REG_IMM SH_LSL), H_ALU OP_RSB (REG_REG SH_LSL), H_ALU OP_RSB (REG_IMM SH_LSR), H_ALU OP_RSB (REG_REG SH_LSR),
      H_ALU OP_RSB (REG_IMM SH_ASR), H_ALU OP_RSB (REG_REG SH_ASR), H_ALU OP_RSB (REG_IMM SH_ROR), H_ALU OP_RSB (REG_REG SH_ROR),
      H_ALU OP_RSB (REG_IMM SH_LSL), H_UNK, H_ALU OP_RSB (REG_IMM SH_LSR), H_UNK,
      H_ALU OP_RSB (REG_IMM SH_ASR), H_UNK, H_ALU OP_RSB (REG_IMM SH_ROR), H_UNK,
      H_ALU_S OP_RSB (REG_IMM SH_LSL), H_ALU_S OP_RSB (REG_REG SH_LSL), H_ALU_S OP_RSB (REG_IMM SH_LSR), H_ALU_S OP_RSB (REG_REG SH_LSR),
      H_ALU_S OP_RSB (REG_IMM SH_ASR), H_ALU_S OP_RSB (REG_REG SH_ASR), H_ALU_S OP_RSB (REG_IMM SH_ROR), H_ALU_S OP_RSB (REG_REG SH_ROR),
      H_ALU_S OP_RSB (REG_IMM SH_LSL), H_UNK, H_ALU_S OP_RSB (REG_IMM SH_LSR), H_UNK,
      H_ALU_S OP_RSB (REG_IMM SH_ASR), H_UNK, H_ALU_S OP_RSB (REG_IMM SH_ROR), H_UNK,
      H_ALU OP_ADD (REG_IMM SH_LSL), H_ALU OP_ADD (REG_REG SH_LSL), H_ALU OP_ADD (REG_IMM SH_LSR), H_ALU OP_ADD (REG_REG SH_LSR),
      H_ALU OP_ADD (REG_IMM SH_ASR), H_ALU OP_ADD (REG_REG SH_ASR), H_ALU OP_ADD (REG_IMM SH_ROR), H_ALU OP_ADD (REG_REG SH_ROR),
      H_ALU OP_ADD (REG_IMM SH_LSL), H_UMULL, H_ALU OP_ADD (REG_IMM SH_LSR), H_HD HD_STRH True False,
      H_ALU OP_ADD (REG_IMM SH_ASR), H_HD HD_LDRD True False, H_ALU OP_ADD (REG_IMM SH_ROR), H_HD HD_STRD True False,
      H_ALU_S OP_ADD (REG_IMM SH_LSL), H_ALU_S OP_ADD (REG_REG SH_LSL), H_ALU_S OP_ADD (REG_IMM SH_LSR), H_ALU_S OP_ADD (REG_REG SH_LSR),
      H_ALU_S OP_ADD (REG_IMM SH_ASR), H_ALU_S OP_ADD (REG_REG SH_ASR), H_ALU_S OP_ADD (REG_IMM SH_ROR), H_ALU_S OP_ADD (REG_REG SH_ROR),
      H_ALU_S OP_ADD (REG_IMM SH_LSL), H_UMULL, H_ALU_S OP_ADD (REG_IMM SH_LSR), H_HD HD_LDRH True False,
      H_ALU_S OP_ADD (REG_IMM SH_ASR), H_HD HD_LDRSB True False, H_ALU_S OP_ADD (REG_IMM SH_ROR), H_HD HD_LDRSH True False,
      H_ALU OP_ADC (REG_IMM SH_LSL), H_ALU OP_ADC (REG_REG SH_LSL), H_ALU OP_ADC (REG_IMM SH_LSR), H_ALU OP_ADC (REG_REG SH_LSR),
      H_ALU OP_ADC (REG_IMM SH_ASR), H_ALU OP_ADC (REG_REG SH_ASR), H_ALU OP_ADC (REG_IMM SH_ROR), H_ALU OP_ADC (REG_REG SH_ROR),
      H_ALU OP_ADC (REG_IMM SH_LSL), H_UMLAL, H_ALU OP_ADC (REG_IMM SH_LSR), H_UNK,
      H_ALU OP_ADC (REG_IMM SH_ASR), H_UNK, H_ALU OP_ADC (REG_IMM SH_ROR), H_UNK,
      H_ALU_S OP_ADC (REG_IMM SH_LSL), H_ALU_S OP_ADC (REG_REG SH_LSL), H_ALU_S OP_ADC (REG_IMM SH_LSR), H_ALU_S OP_ADC (REG_REG SH_LSR),
      H_ALU_S OP_ADC (REG_IMM SH_ASR), H_ALU_S OP_ADC (REG_REG SH_ASR), H_ALU_S OP_ADC (REG_IMM SH_ROR), H_ALU_S OP_ADC (REG_REG SH_ROR),
      H_ALU_S OP_ADC (REG_IMM SH_LSL), H_UMLAL, H_ALU_S OP_ADC (REG_IMM SH_LSR), H_UNK,
      H_ALU_S OP_ADC (REG_IMM SH_ASR), H_UNK, H_ALU_S OP_ADC (REG_IMM SH_ROR), H_UNK,
      H_ALU OP_SBC (REG_IMM SH_LSL), H_ALU OP_SBC (REG_REG SH_LSL), H_ALU OP_SBC (REG_IMM SH_LSR), H_ALU OP_SBC (REG_REG SH_LSR),
      H_ALU OP_SBC (REG_IMM SH_ASR), H_ALU OP_SBC (REG_REG SH_ASR), H_ALU OP_SBC (REG_IMM SH_ROR), H_ALU OP_SBC (REG_REG SH_ROR),
      H_ALU OP_SBC (REG_IMM SH_LSL), H_SMULL, H_ALU OP_SBC (REG_IMM SH_LSR), H_HD HD_STRH True True,
      H_ALU OP_SBC (REG_IMM SH_ASR), H_HD HD_LDRD True True, H_ALU OP_SBC (REG_IMM SH_ROR), H_HD HD_STRD True True,
      H_ALU_S OP_SBC (REG_IMM SH_LSL), H_ALU_S OP_SBC (REG_REG SH_LSL), H_ALU_S OP_SBC (REG_IMM SH_LSR), H_ALU_S OP_SBC (REG_REG SH_LSR),
      H_ALU_S OP_SBC (REG_IMM SH_ASR), H_ALU_S OP_SBC (REG_REG SH_ASR), H_ALU_S OP_SBC (REG_IMM SH_ROR), H_ALU_S OP_SBC (REG_REG SH_ROR),
      H_ALU_S OP_SBC (REG_IMM SH_LSL), H_SMULL, H_ALU_S OP_SBC (REG_IMM SH_LSR), H_HD HD_LDRH True True,
      H_ALU_S OP_SBC (REG_IMM SH_ASR), H_HD HD_LDRSB True True, H_ALU_S OP_SBC (REG_IMM SH_ROR), H_HD HD_LDRSH True True,
      H_ALU OP_RSC (REG_IMM SH_LSL), H_ALU OP_RSC (REG_REG SH_LSL), H_ALU OP_RSC (REG_IMM SH_LSR), H_ALU OP_RSC (REG_REG SH_LSR),
      H_ALU OP_RSC (REG_IMM SH_ASR), H_ALU OP_RSC (REG_REG SH_ASR), H_ALU OP_RSC (REG_IMM SH_ROR), H_ALU OP_RSC (REG_REG SH_ROR),
      H_ALU OP_RSC (REG_IMM SH_LSL), H_SMLAL, H_ALU OP_RSC (REG_IMM SH_LSR), H_UNK,
      H_ALU OP_RSC (REG_IMM SH_ASR), H_UNK, H_ALU OP_RSC (REG_IMM SH_ROR), H_UNK,
      H_ALU_S OP_RSC (REG_IMM SH_LSL), H_ALU_S OP_RSC (REG_REG SH_LSL), H_ALU_S OP_RSC (REG_IMM SH_LSR), H_ALU_S OP_RSC (REG_REG SH_LSR),
      H_ALU_S OP_RSC (REG_IMM SH_ASR), H_ALU_S OP_RSC (REG_REG SH_ASR), H_ALU_S OP_RSC (REG_IMM SH_ROR), H_ALU_S OP_RSC (REG_REG SH_ROR),
      H_ALU_S OP_RSC (REG_IMM SH_LSL), H_SMLAL, H_ALU_S OP_RSC (REG_IMM SH_LSR), H_UNK,
      H_ALU_S OP_RSC (REG_IMM SH_ASR), H_UNK, H_ALU_S OP_RSC (REG_IMM SH_ROR), H_UNK]"

definition ARMInstrTable_1 :: "a_instr list" where
  "ARMInstrTable_1 =
     [H_MRS, H_UNK, H_UNK, H_UNK,
      H_UNK, H_QADD, H_UNK, H_UNK,
      H_SMLAxy, H_SWP, H_SMLAxy, H_HD HD_STRH False False,
      H_SMLAxy, H_HD HD_LDRD False False, H_SMLAxy, H_HD HD_STRD False False,
      H_TEST OP_TST (REG_IMM SH_LSL), H_TEST OP_TST (REG_REG SH_LSL), H_TEST OP_TST (REG_IMM SH_LSR), H_TEST OP_TST (REG_REG SH_LSR),
      H_TEST OP_TST (REG_IMM SH_ASR), H_TEST OP_TST (REG_REG SH_ASR), H_TEST OP_TST (REG_IMM SH_ROR), H_TEST OP_TST (REG_REG SH_ROR),
      H_TEST OP_TST (REG_IMM SH_LSL), H_UNK, H_TEST OP_TST (REG_IMM SH_LSR), H_HD HD_LDRH False False,
      H_TEST OP_TST (REG_IMM SH_ASR), H_HD HD_LDRSB False False, H_TEST OP_TST (REG_IMM SH_ROR), H_HD HD_LDRSH False False,
      H_MSR_REG, H_BX, H_UNK, H_BLX_REG,
      H_UNK, H_QSUB, H_UNK, H_UNK,
      H_SMLAWy, H_UNK, H_SMULWy, H_HD HD_STRH False False,
      H_SMLAWy, H_HD HD_LDRD False False, H_SMULWy, H_HD HD_STRD False False,
      H_TEST OP_TEQ (REG_IMM SH_LSL), H_TEST OP_TEQ (REG_REG SH_LSL), H_TEST OP_TEQ (REG_IMM SH_LSR), H_TEST OP_TEQ (REG_REG SH_LSR),
      H_TEST OP_TEQ (REG_IMM SH_ASR), H_TEST OP_TEQ (REG_REG SH_ASR), H_TEST OP_TEQ (REG_IMM SH_ROR), H_TEST OP_TEQ (REG_REG SH_ROR),
      H_TEST OP_TEQ (REG_IMM SH_LSL), H_UNK, H_TEST OP_TEQ (REG_IMM SH_LSR), H_HD HD_LDRH False False,
      H_TEST OP_TEQ (REG_IMM SH_ASR), H_HD HD_LDRSB False False, H_TEST OP_TEQ (REG_IMM SH_ROR), H_HD HD_LDRSH False False,
      H_MRS, H_UNK, H_UNK, H_UNK,
      H_UNK, H_QDADD, H_UNK, H_UNK,
      H_SMLALxy, H_SWPB, H_SMLALxy, H_HD HD_STRH False True,
      H_SMLALxy, H_HD HD_LDRD False True, H_SMLALxy, H_HD HD_STRD False True,
      H_TEST OP_CMP (REG_IMM SH_LSL), H_TEST OP_CMP (REG_REG SH_LSL), H_TEST OP_CMP (REG_IMM SH_LSR), H_TEST OP_CMP (REG_REG SH_LSR),
      H_TEST OP_CMP (REG_IMM SH_ASR), H_TEST OP_CMP (REG_REG SH_ASR), H_TEST OP_CMP (REG_IMM SH_ROR), H_TEST OP_CMP (REG_REG SH_ROR),
      H_TEST OP_CMP (REG_IMM SH_LSL), H_UNK, H_TEST OP_CMP (REG_IMM SH_LSR), H_HD HD_LDRH False True,
      H_TEST OP_CMP (REG_IMM SH_ASR), H_HD HD_LDRSB False True, H_TEST OP_CMP (REG_IMM SH_ROR), H_HD HD_LDRSH False True,
      H_MSR_REG, H_CLZ, H_UNK, H_UNK,
      H_UNK, H_QDSUB, H_UNK, H_UNK,
      H_SMULxy, H_UNK, H_SMULxy, H_HD HD_STRH False True,
      H_SMULxy, H_HD HD_LDRD False True, H_SMULxy, H_HD HD_STRD False True,
      H_TEST OP_CMN (REG_IMM SH_LSL), H_TEST OP_CMN (REG_REG SH_LSL), H_TEST OP_CMN (REG_IMM SH_LSR), H_TEST OP_CMN (REG_REG SH_LSR),
      H_TEST OP_CMN (REG_IMM SH_ASR), H_TEST OP_CMN (REG_REG SH_ASR), H_TEST OP_CMN (REG_IMM SH_ROR), H_TEST OP_CMN (REG_REG SH_ROR),
      H_TEST OP_CMN (REG_IMM SH_LSL), H_UNK, H_TEST OP_CMN (REG_IMM SH_LSR), H_HD HD_LDRH False True,
      H_TEST OP_CMN (REG_IMM SH_ASR), H_HD HD_LDRSB False True, H_TEST OP_CMN (REG_IMM SH_ROR), H_HD HD_LDRSH False True,
      H_ALU OP_ORR (REG_IMM SH_LSL), H_ALU OP_ORR (REG_REG SH_LSL), H_ALU OP_ORR (REG_IMM SH_LSR), H_ALU OP_ORR (REG_REG SH_LSR),
      H_ALU OP_ORR (REG_IMM SH_ASR), H_ALU OP_ORR (REG_REG SH_ASR), H_ALU OP_ORR (REG_IMM SH_ROR), H_ALU OP_ORR (REG_REG SH_ROR),
      H_ALU OP_ORR (REG_IMM SH_LSL), H_UNK, H_ALU OP_ORR (REG_IMM SH_LSR), H_HD HD_STRH False False,
      H_ALU OP_ORR (REG_IMM SH_ASR), H_HD HD_LDRD False False, H_ALU OP_ORR (REG_IMM SH_ROR), H_HD HD_STRD False False,
      H_ALU_S OP_ORR (REG_IMM SH_LSL), H_ALU_S OP_ORR (REG_REG SH_LSL), H_ALU_S OP_ORR (REG_IMM SH_LSR), H_ALU_S OP_ORR (REG_REG SH_LSR),
      H_ALU_S OP_ORR (REG_IMM SH_ASR), H_ALU_S OP_ORR (REG_REG SH_ASR), H_ALU_S OP_ORR (REG_IMM SH_ROR), H_ALU_S OP_ORR (REG_REG SH_ROR),
      H_ALU_S OP_ORR (REG_IMM SH_LSL), H_UNK, H_ALU_S OP_ORR (REG_IMM SH_LSR), H_HD HD_LDRH False False,
      H_ALU_S OP_ORR (REG_IMM SH_ASR), H_HD HD_LDRSB False False, H_ALU_S OP_ORR (REG_IMM SH_ROR), H_HD HD_LDRSH False False,
      H_MOV_DBG, H_ALU OP_MOV (REG_REG SH_LSL), H_ALU OP_MOV (REG_IMM SH_LSR), H_ALU OP_MOV (REG_REG SH_LSR),
      H_ALU OP_MOV (REG_IMM SH_ASR), H_ALU OP_MOV (REG_REG SH_ASR), H_ALU OP_MOV (REG_IMM SH_ROR), H_ALU OP_MOV (REG_REG SH_ROR),
      H_ALU OP_MOV (REG_IMM SH_LSL), H_UNK, H_ALU OP_MOV (REG_IMM SH_LSR), H_HD HD_STRH False False,
      H_ALU OP_MOV (REG_IMM SH_ASR), H_HD HD_LDRD False False, H_ALU OP_MOV (REG_IMM SH_ROR), H_HD HD_STRD False False,
      H_ALU_S OP_MOV (REG_IMM SH_LSL), H_ALU_S OP_MOV (REG_REG SH_LSL), H_ALU_S OP_MOV (REG_IMM SH_LSR), H_ALU_S OP_MOV (REG_REG SH_LSR),
      H_ALU_S OP_MOV (REG_IMM SH_ASR), H_ALU_S OP_MOV (REG_REG SH_ASR), H_ALU_S OP_MOV (REG_IMM SH_ROR), H_ALU_S OP_MOV (REG_REG SH_ROR),
      H_ALU_S OP_MOV (REG_IMM SH_LSL), H_UNK, H_ALU_S OP_MOV (REG_IMM SH_LSR), H_HD HD_LDRH False False,
      H_ALU_S OP_MOV (REG_IMM SH_ASR), H_HD HD_LDRSB False False, H_ALU_S OP_MOV (REG_IMM SH_ROR), H_HD HD_LDRSH False False,
      H_ALU OP_BIC (REG_IMM SH_LSL), H_ALU OP_BIC (REG_REG SH_LSL), H_ALU OP_BIC (REG_IMM SH_LSR), H_ALU OP_BIC (REG_REG SH_LSR),
      H_ALU OP_BIC (REG_IMM SH_ASR), H_ALU OP_BIC (REG_REG SH_ASR), H_ALU OP_BIC (REG_IMM SH_ROR), H_ALU OP_BIC (REG_REG SH_ROR),
      H_ALU OP_BIC (REG_IMM SH_LSL), H_UNK, H_ALU OP_BIC (REG_IMM SH_LSR), H_HD HD_STRH False True,
      H_ALU OP_BIC (REG_IMM SH_ASR), H_HD HD_LDRD False True, H_ALU OP_BIC (REG_IMM SH_ROR), H_HD HD_STRD False True,
      H_ALU_S OP_BIC (REG_IMM SH_LSL), H_ALU_S OP_BIC (REG_REG SH_LSL), H_ALU_S OP_BIC (REG_IMM SH_LSR), H_ALU_S OP_BIC (REG_REG SH_LSR),
      H_ALU_S OP_BIC (REG_IMM SH_ASR), H_ALU_S OP_BIC (REG_REG SH_ASR), H_ALU_S OP_BIC (REG_IMM SH_ROR), H_ALU_S OP_BIC (REG_REG SH_ROR),
      H_ALU_S OP_BIC (REG_IMM SH_LSL), H_UNK, H_ALU_S OP_BIC (REG_IMM SH_LSR), H_HD HD_LDRH False True,
      H_ALU_S OP_BIC (REG_IMM SH_ASR), H_HD HD_LDRSB False True, H_ALU_S OP_BIC (REG_IMM SH_ROR), H_HD HD_LDRSH False True,
      H_ALU OP_MVN (REG_IMM SH_LSL), H_ALU OP_MVN (REG_REG SH_LSL), H_ALU OP_MVN (REG_IMM SH_LSR), H_ALU OP_MVN (REG_REG SH_LSR),
      H_ALU OP_MVN (REG_IMM SH_ASR), H_ALU OP_MVN (REG_REG SH_ASR), H_ALU OP_MVN (REG_IMM SH_ROR), H_ALU OP_MVN (REG_REG SH_ROR),
      H_ALU OP_MVN (REG_IMM SH_LSL), H_UNK, H_ALU OP_MVN (REG_IMM SH_LSR), H_HD HD_STRH False True,
      H_ALU OP_MVN (REG_IMM SH_ASR), H_HD HD_LDRD False True, H_ALU OP_MVN (REG_IMM SH_ROR), H_HD HD_STRD False True,
      H_ALU_S OP_MVN (REG_IMM SH_LSL), H_ALU_S OP_MVN (REG_REG SH_LSL), H_ALU_S OP_MVN (REG_IMM SH_LSR), H_ALU_S OP_MVN (REG_REG SH_LSR),
      H_ALU_S OP_MVN (REG_IMM SH_ASR), H_ALU_S OP_MVN (REG_REG SH_ASR), H_ALU_S OP_MVN (REG_IMM SH_ROR), H_ALU_S OP_MVN (REG_REG SH_ROR),
      H_ALU_S OP_MVN (REG_IMM SH_LSL), H_UNK, H_ALU_S OP_MVN (REG_IMM SH_LSR), H_HD HD_LDRH False True,
      H_ALU_S OP_MVN (REG_IMM SH_ASR), H_HD HD_LDRSB False True, H_ALU_S OP_MVN (REG_IMM SH_ROR), H_HD HD_LDRSH False True]"

definition ARMInstrTable_2 :: "a_instr list" where
  "ARMInstrTable_2 =
     [H_ALU OP_AND IMM, H_ALU OP_AND IMM, H_ALU OP_AND IMM, H_ALU OP_AND IMM,
      H_ALU OP_AND IMM, H_ALU OP_AND IMM, H_ALU OP_AND IMM, H_ALU OP_AND IMM,
      H_ALU OP_AND IMM, H_ALU OP_AND IMM, H_ALU OP_AND IMM, H_ALU OP_AND IMM,
      H_ALU OP_AND IMM, H_ALU OP_AND IMM, H_ALU OP_AND IMM, H_ALU OP_AND IMM,
      H_ALU_S OP_AND IMM, H_ALU_S OP_AND IMM, H_ALU_S OP_AND IMM, H_ALU_S OP_AND IMM,
      H_ALU_S OP_AND IMM, H_ALU_S OP_AND IMM, H_ALU_S OP_AND IMM, H_ALU_S OP_AND IMM,
      H_ALU_S OP_AND IMM, H_ALU_S OP_AND IMM, H_ALU_S OP_AND IMM, H_ALU_S OP_AND IMM,
      H_ALU_S OP_AND IMM, H_ALU_S OP_AND IMM, H_ALU_S OP_AND IMM, H_ALU_S OP_AND IMM,
      H_ALU OP_EOR IMM, H_ALU OP_EOR IMM, H_ALU OP_EOR IMM, H_ALU OP_EOR IMM,
      H_ALU OP_EOR IMM, H_ALU OP_EOR IMM, H_ALU OP_EOR IMM, H_ALU OP_EOR IMM,
      H_ALU OP_EOR IMM, H_ALU OP_EOR IMM, H_ALU OP_EOR IMM, H_ALU OP_EOR IMM,
      H_ALU OP_EOR IMM, H_ALU OP_EOR IMM, H_ALU OP_EOR IMM, H_ALU OP_EOR IMM,
      H_ALU_S OP_EOR IMM, H_ALU_S OP_EOR IMM, H_ALU_S OP_EOR IMM, H_ALU_S OP_EOR IMM,
      H_ALU_S OP_EOR IMM, H_ALU_S OP_EOR IMM, H_ALU_S OP_EOR IMM, H_ALU_S OP_EOR IMM,
      H_ALU_S OP_EOR IMM, H_ALU_S OP_EOR IMM, H_ALU_S OP_EOR IMM, H_ALU_S OP_EOR IMM,
      H_ALU_S OP_EOR IMM, H_ALU_S OP_EOR IMM, H_ALU_S OP_EOR IMM, H_ALU_S OP_EOR IMM,
      H_ALU OP_SUB IMM, H_ALU OP_SUB IMM, H_ALU OP_SUB IMM, H_ALU OP_SUB IMM,
      H_ALU OP_SUB IMM, H_ALU OP_SUB IMM, H_ALU OP_SUB IMM, H_ALU OP_SUB IMM,
      H_ALU OP_SUB IMM, H_ALU OP_SUB IMM, H_ALU OP_SUB IMM, H_ALU OP_SUB IMM,
      H_ALU OP_SUB IMM, H_ALU OP_SUB IMM, H_ALU OP_SUB IMM, H_ALU OP_SUB IMM,
      H_ALU_S OP_SUB IMM, H_ALU_S OP_SUB IMM, H_ALU_S OP_SUB IMM, H_ALU_S OP_SUB IMM,
      H_ALU_S OP_SUB IMM, H_ALU_S OP_SUB IMM, H_ALU_S OP_SUB IMM, H_ALU_S OP_SUB IMM,
      H_ALU_S OP_SUB IMM, H_ALU_S OP_SUB IMM, H_ALU_S OP_SUB IMM, H_ALU_S OP_SUB IMM,
      H_ALU_S OP_SUB IMM, H_ALU_S OP_SUB IMM, H_ALU_S OP_SUB IMM, H_ALU_S OP_SUB IMM,
      H_ALU OP_RSB IMM, H_ALU OP_RSB IMM, H_ALU OP_RSB IMM, H_ALU OP_RSB IMM,
      H_ALU OP_RSB IMM, H_ALU OP_RSB IMM, H_ALU OP_RSB IMM, H_ALU OP_RSB IMM,
      H_ALU OP_RSB IMM, H_ALU OP_RSB IMM, H_ALU OP_RSB IMM, H_ALU OP_RSB IMM,
      H_ALU OP_RSB IMM, H_ALU OP_RSB IMM, H_ALU OP_RSB IMM, H_ALU OP_RSB IMM,
      H_ALU_S OP_RSB IMM, H_ALU_S OP_RSB IMM, H_ALU_S OP_RSB IMM, H_ALU_S OP_RSB IMM,
      H_ALU_S OP_RSB IMM, H_ALU_S OP_RSB IMM, H_ALU_S OP_RSB IMM, H_ALU_S OP_RSB IMM,
      H_ALU_S OP_RSB IMM, H_ALU_S OP_RSB IMM, H_ALU_S OP_RSB IMM, H_ALU_S OP_RSB IMM,
      H_ALU_S OP_RSB IMM, H_ALU_S OP_RSB IMM, H_ALU_S OP_RSB IMM, H_ALU_S OP_RSB IMM,
      H_ALU OP_ADD IMM, H_ALU OP_ADD IMM, H_ALU OP_ADD IMM, H_ALU OP_ADD IMM,
      H_ALU OP_ADD IMM, H_ALU OP_ADD IMM, H_ALU OP_ADD IMM, H_ALU OP_ADD IMM,
      H_ALU OP_ADD IMM, H_ALU OP_ADD IMM, H_ALU OP_ADD IMM, H_ALU OP_ADD IMM,
      H_ALU OP_ADD IMM, H_ALU OP_ADD IMM, H_ALU OP_ADD IMM, H_ALU OP_ADD IMM,
      H_ALU_S OP_ADD IMM, H_ALU_S OP_ADD IMM, H_ALU_S OP_ADD IMM, H_ALU_S OP_ADD IMM,
      H_ALU_S OP_ADD IMM, H_ALU_S OP_ADD IMM, H_ALU_S OP_ADD IMM, H_ALU_S OP_ADD IMM,
      H_ALU_S OP_ADD IMM, H_ALU_S OP_ADD IMM, H_ALU_S OP_ADD IMM, H_ALU_S OP_ADD IMM,
      H_ALU_S OP_ADD IMM, H_ALU_S OP_ADD IMM, H_ALU_S OP_ADD IMM, H_ALU_S OP_ADD IMM,
      H_ALU OP_ADC IMM, H_ALU OP_ADC IMM, H_ALU OP_ADC IMM, H_ALU OP_ADC IMM,
      H_ALU OP_ADC IMM, H_ALU OP_ADC IMM, H_ALU OP_ADC IMM, H_ALU OP_ADC IMM,
      H_ALU OP_ADC IMM, H_ALU OP_ADC IMM, H_ALU OP_ADC IMM, H_ALU OP_ADC IMM,
      H_ALU OP_ADC IMM, H_ALU OP_ADC IMM, H_ALU OP_ADC IMM, H_ALU OP_ADC IMM,
      H_ALU_S OP_ADC IMM, H_ALU_S OP_ADC IMM, H_ALU_S OP_ADC IMM, H_ALU_S OP_ADC IMM,
      H_ALU_S OP_ADC IMM, H_ALU_S OP_ADC IMM, H_ALU_S OP_ADC IMM, H_ALU_S OP_ADC IMM,
      H_ALU_S OP_ADC IMM, H_ALU_S OP_ADC IMM, H_ALU_S OP_ADC IMM, H_ALU_S OP_ADC IMM,
      H_ALU_S OP_ADC IMM, H_ALU_S OP_ADC IMM, H_ALU_S OP_ADC IMM, H_ALU_S OP_ADC IMM,
      H_ALU OP_SBC IMM, H_ALU OP_SBC IMM, H_ALU OP_SBC IMM, H_ALU OP_SBC IMM,
      H_ALU OP_SBC IMM, H_ALU OP_SBC IMM, H_ALU OP_SBC IMM, H_ALU OP_SBC IMM,
      H_ALU OP_SBC IMM, H_ALU OP_SBC IMM, H_ALU OP_SBC IMM, H_ALU OP_SBC IMM,
      H_ALU OP_SBC IMM, H_ALU OP_SBC IMM, H_ALU OP_SBC IMM, H_ALU OP_SBC IMM,
      H_ALU_S OP_SBC IMM, H_ALU_S OP_SBC IMM, H_ALU_S OP_SBC IMM, H_ALU_S OP_SBC IMM,
      H_ALU_S OP_SBC IMM, H_ALU_S OP_SBC IMM, H_ALU_S OP_SBC IMM, H_ALU_S OP_SBC IMM,
      H_ALU_S OP_SBC IMM, H_ALU_S OP_SBC IMM, H_ALU_S OP_SBC IMM, H_ALU_S OP_SBC IMM,
      H_ALU_S OP_SBC IMM, H_ALU_S OP_SBC IMM, H_ALU_S OP_SBC IMM, H_ALU_S OP_SBC IMM,
      H_ALU OP_RSC IMM, H_ALU OP_RSC IMM, H_ALU OP_RSC IMM, H_ALU OP_RSC IMM,
      H_ALU OP_RSC IMM, H_ALU OP_RSC IMM, H_ALU OP_RSC IMM, H_ALU OP_RSC IMM,
      H_ALU OP_RSC IMM, H_ALU OP_RSC IMM, H_ALU OP_RSC IMM, H_ALU OP_RSC IMM,
      H_ALU OP_RSC IMM, H_ALU OP_RSC IMM, H_ALU OP_RSC IMM, H_ALU OP_RSC IMM,
      H_ALU_S OP_RSC IMM, H_ALU_S OP_RSC IMM, H_ALU_S OP_RSC IMM, H_ALU_S OP_RSC IMM,
      H_ALU_S OP_RSC IMM, H_ALU_S OP_RSC IMM, H_ALU_S OP_RSC IMM, H_ALU_S OP_RSC IMM,
      H_ALU_S OP_RSC IMM, H_ALU_S OP_RSC IMM, H_ALU_S OP_RSC IMM, H_ALU_S OP_RSC IMM,
      H_ALU_S OP_RSC IMM, H_ALU_S OP_RSC IMM, H_ALU_S OP_RSC IMM, H_ALU_S OP_RSC IMM]"

definition ARMInstrTable_3 :: "a_instr list" where
  "ARMInstrTable_3 =
     [H_UNK, H_UNK, H_UNK, H_UNK,
      H_UNK, H_UNK, H_UNK, H_UNK,
      H_UNK, H_UNK, H_UNK, H_UNK,
      H_UNK, H_UNK, H_UNK, H_UNK,
      H_TEST OP_TST IMM, H_TEST OP_TST IMM, H_TEST OP_TST IMM, H_TEST OP_TST IMM,
      H_TEST OP_TST IMM, H_TEST OP_TST IMM, H_TEST OP_TST IMM, H_TEST OP_TST IMM,
      H_TEST OP_TST IMM, H_TEST OP_TST IMM, H_TEST OP_TST IMM, H_TEST OP_TST IMM,
      H_TEST OP_TST IMM, H_TEST OP_TST IMM, H_TEST OP_TST IMM, H_TEST OP_TST IMM,
      H_MSR_IMM, H_MSR_IMM, H_MSR_IMM, H_MSR_IMM,
      H_MSR_IMM, H_MSR_IMM, H_MSR_IMM, H_MSR_IMM,
      H_MSR_IMM, H_MSR_IMM, H_MSR_IMM, H_MSR_IMM,
      H_MSR_IMM, H_MSR_IMM, H_MSR_IMM, H_MSR_IMM,
      H_TEST OP_TEQ IMM, H_TEST OP_TEQ IMM, H_TEST OP_TEQ IMM, H_TEST OP_TEQ IMM,
      H_TEST OP_TEQ IMM, H_TEST OP_TEQ IMM, H_TEST OP_TEQ IMM, H_TEST OP_TEQ IMM,
      H_TEST OP_TEQ IMM, H_TEST OP_TEQ IMM, H_TEST OP_TEQ IMM, H_TEST OP_TEQ IMM,
      H_TEST OP_TEQ IMM, H_TEST OP_TEQ IMM, H_TEST OP_TEQ IMM, H_TEST OP_TEQ IMM,
      H_UNK, H_UNK, H_UNK, H_UNK,
      H_UNK, H_UNK, H_UNK, H_UNK,
      H_UNK, H_UNK, H_UNK, H_UNK,
      H_UNK, H_UNK, H_UNK, H_UNK,
      H_TEST OP_CMP IMM, H_TEST OP_CMP IMM, H_TEST OP_CMP IMM, H_TEST OP_CMP IMM,
      H_TEST OP_CMP IMM, H_TEST OP_CMP IMM, H_TEST OP_CMP IMM, H_TEST OP_CMP IMM,
      H_TEST OP_CMP IMM, H_TEST OP_CMP IMM, H_TEST OP_CMP IMM, H_TEST OP_CMP IMM,
      H_TEST OP_CMP IMM, H_TEST OP_CMP IMM, H_TEST OP_CMP IMM, H_TEST OP_CMP IMM,
      H_MSR_IMM, H_MSR_IMM, H_MSR_IMM, H_MSR_IMM,
      H_MSR_IMM, H_MSR_IMM, H_MSR_IMM, H_MSR_IMM,
      H_MSR_IMM, H_MSR_IMM, H_MSR_IMM, H_MSR_IMM,
      H_MSR_IMM, H_MSR_IMM, H_MSR_IMM, H_MSR_IMM,
      H_TEST OP_CMN IMM, H_TEST OP_CMN IMM, H_TEST OP_CMN IMM, H_TEST OP_CMN IMM,
      H_TEST OP_CMN IMM, H_TEST OP_CMN IMM, H_TEST OP_CMN IMM, H_TEST OP_CMN IMM,
      H_TEST OP_CMN IMM, H_TEST OP_CMN IMM, H_TEST OP_CMN IMM, H_TEST OP_CMN IMM,
      H_TEST OP_CMN IMM, H_TEST OP_CMN IMM, H_TEST OP_CMN IMM, H_TEST OP_CMN IMM,
      H_ALU OP_ORR IMM, H_ALU OP_ORR IMM, H_ALU OP_ORR IMM, H_ALU OP_ORR IMM,
      H_ALU OP_ORR IMM, H_ALU OP_ORR IMM, H_ALU OP_ORR IMM, H_ALU OP_ORR IMM,
      H_ALU OP_ORR IMM, H_ALU OP_ORR IMM, H_ALU OP_ORR IMM, H_ALU OP_ORR IMM,
      H_ALU OP_ORR IMM, H_ALU OP_ORR IMM, H_ALU OP_ORR IMM, H_ALU OP_ORR IMM,
      H_ALU_S OP_ORR IMM, H_ALU_S OP_ORR IMM, H_ALU_S OP_ORR IMM, H_ALU_S OP_ORR IMM,
      H_ALU_S OP_ORR IMM, H_ALU_S OP_ORR IMM, H_ALU_S OP_ORR IMM, H_ALU_S OP_ORR IMM,
      H_ALU_S OP_ORR IMM, H_ALU_S OP_ORR IMM, H_ALU_S OP_ORR IMM, H_ALU_S OP_ORR IMM,
      H_ALU_S OP_ORR IMM, H_ALU_S OP_ORR IMM, H_ALU_S OP_ORR IMM, H_ALU_S OP_ORR IMM,
      H_ALU OP_MOV IMM, H_ALU OP_MOV IMM, H_ALU OP_MOV IMM, H_ALU OP_MOV IMM,
      H_ALU OP_MOV IMM, H_ALU OP_MOV IMM, H_ALU OP_MOV IMM, H_ALU OP_MOV IMM,
      H_ALU OP_MOV IMM, H_ALU OP_MOV IMM, H_ALU OP_MOV IMM, H_ALU OP_MOV IMM,
      H_ALU OP_MOV IMM, H_ALU OP_MOV IMM, H_ALU OP_MOV IMM, H_ALU OP_MOV IMM,
      H_ALU_S OP_MOV IMM, H_ALU_S OP_MOV IMM, H_ALU_S OP_MOV IMM, H_ALU_S OP_MOV IMM,
      H_ALU_S OP_MOV IMM, H_ALU_S OP_MOV IMM, H_ALU_S OP_MOV IMM, H_ALU_S OP_MOV IMM,
      H_ALU_S OP_MOV IMM, H_ALU_S OP_MOV IMM, H_ALU_S OP_MOV IMM, H_ALU_S OP_MOV IMM,
      H_ALU_S OP_MOV IMM, H_ALU_S OP_MOV IMM, H_ALU_S OP_MOV IMM, H_ALU_S OP_MOV IMM,
      H_ALU OP_BIC IMM, H_ALU OP_BIC IMM, H_ALU OP_BIC IMM, H_ALU OP_BIC IMM,
      H_ALU OP_BIC IMM, H_ALU OP_BIC IMM, H_ALU OP_BIC IMM, H_ALU OP_BIC IMM,
      H_ALU OP_BIC IMM, H_ALU OP_BIC IMM, H_ALU OP_BIC IMM, H_ALU OP_BIC IMM,
      H_ALU OP_BIC IMM, H_ALU OP_BIC IMM, H_ALU OP_BIC IMM, H_ALU OP_BIC IMM,
      H_ALU_S OP_BIC IMM, H_ALU_S OP_BIC IMM, H_ALU_S OP_BIC IMM, H_ALU_S OP_BIC IMM,
      H_ALU_S OP_BIC IMM, H_ALU_S OP_BIC IMM, H_ALU_S OP_BIC IMM, H_ALU_S OP_BIC IMM,
      H_ALU_S OP_BIC IMM, H_ALU_S OP_BIC IMM, H_ALU_S OP_BIC IMM, H_ALU_S OP_BIC IMM,
      H_ALU_S OP_BIC IMM, H_ALU_S OP_BIC IMM, H_ALU_S OP_BIC IMM, H_ALU_S OP_BIC IMM,
      H_ALU OP_MVN IMM, H_ALU OP_MVN IMM, H_ALU OP_MVN IMM, H_ALU OP_MVN IMM,
      H_ALU OP_MVN IMM, H_ALU OP_MVN IMM, H_ALU OP_MVN IMM, H_ALU OP_MVN IMM,
      H_ALU OP_MVN IMM, H_ALU OP_MVN IMM, H_ALU OP_MVN IMM, H_ALU OP_MVN IMM,
      H_ALU OP_MVN IMM, H_ALU OP_MVN IMM, H_ALU OP_MVN IMM, H_ALU OP_MVN IMM,
      H_ALU_S OP_MVN IMM, H_ALU_S OP_MVN IMM, H_ALU_S OP_MVN IMM, H_ALU_S OP_MVN IMM,
      H_ALU_S OP_MVN IMM, H_ALU_S OP_MVN IMM, H_ALU_S OP_MVN IMM, H_ALU_S OP_MVN IMM,
      H_ALU_S OP_MVN IMM, H_ALU_S OP_MVN IMM, H_ALU_S OP_MVN IMM, H_ALU_S OP_MVN IMM,
      H_ALU_S OP_MVN IMM, H_ALU_S OP_MVN IMM, H_ALU_S OP_MVN IMM, H_ALU_S OP_MVN IMM]"

definition ARMInstrTable_4 :: "a_instr list" where
  "ARMInstrTable_4 =
     [H_WB WB_STR True OFF_IMM, H_WB WB_STR True OFF_IMM, H_WB WB_STR True OFF_IMM, H_WB WB_STR True OFF_IMM,
      H_WB WB_STR True OFF_IMM, H_WB WB_STR True OFF_IMM, H_WB WB_STR True OFF_IMM, H_WB WB_STR True OFF_IMM,
      H_WB WB_STR True OFF_IMM, H_WB WB_STR True OFF_IMM, H_WB WB_STR True OFF_IMM, H_WB WB_STR True OFF_IMM,
      H_WB WB_STR True OFF_IMM, H_WB WB_STR True OFF_IMM, H_WB WB_STR True OFF_IMM, H_WB WB_STR True OFF_IMM,
      H_WB WB_LDR True OFF_IMM, H_WB WB_LDR True OFF_IMM, H_WB WB_LDR True OFF_IMM, H_WB WB_LDR True OFF_IMM,
      H_WB WB_LDR True OFF_IMM, H_WB WB_LDR True OFF_IMM, H_WB WB_LDR True OFF_IMM, H_WB WB_LDR True OFF_IMM,
      H_WB WB_LDR True OFF_IMM, H_WB WB_LDR True OFF_IMM, H_WB WB_LDR True OFF_IMM, H_WB WB_LDR True OFF_IMM,
      H_WB WB_LDR True OFF_IMM, H_WB WB_LDR True OFF_IMM, H_WB WB_LDR True OFF_IMM, H_WB WB_LDR True OFF_IMM,
      H_WB WB_STR True OFF_IMM, H_WB WB_STR True OFF_IMM, H_WB WB_STR True OFF_IMM, H_WB WB_STR True OFF_IMM,
      H_WB WB_STR True OFF_IMM, H_WB WB_STR True OFF_IMM, H_WB WB_STR True OFF_IMM, H_WB WB_STR True OFF_IMM,
      H_WB WB_STR True OFF_IMM, H_WB WB_STR True OFF_IMM, H_WB WB_STR True OFF_IMM, H_WB WB_STR True OFF_IMM,
      H_WB WB_STR True OFF_IMM, H_WB WB_STR True OFF_IMM, H_WB WB_STR True OFF_IMM, H_WB WB_STR True OFF_IMM,
      H_WB WB_LDR True OFF_IMM, H_WB WB_LDR True OFF_IMM, H_WB WB_LDR True OFF_IMM, H_WB WB_LDR True OFF_IMM,
      H_WB WB_LDR True OFF_IMM, H_WB WB_LDR True OFF_IMM, H_WB WB_LDR True OFF_IMM, H_WB WB_LDR True OFF_IMM,
      H_WB WB_LDR True OFF_IMM, H_WB WB_LDR True OFF_IMM, H_WB WB_LDR True OFF_IMM, H_WB WB_LDR True OFF_IMM,
      H_WB WB_LDR True OFF_IMM, H_WB WB_LDR True OFF_IMM, H_WB WB_LDR True OFF_IMM, H_WB WB_LDR True OFF_IMM,
      H_WB WB_STRB True OFF_IMM, H_WB WB_STRB True OFF_IMM, H_WB WB_STRB True OFF_IMM, H_WB WB_STRB True OFF_IMM,
      H_WB WB_STRB True OFF_IMM, H_WB WB_STRB True OFF_IMM, H_WB WB_STRB True OFF_IMM, H_WB WB_STRB True OFF_IMM,
      H_WB WB_STRB True OFF_IMM, H_WB WB_STRB True OFF_IMM, H_WB WB_STRB True OFF_IMM, H_WB WB_STRB True OFF_IMM,
      H_WB WB_STRB True OFF_IMM, H_WB WB_STRB True OFF_IMM, H_WB WB_STRB True OFF_IMM, H_WB WB_STRB True OFF_IMM,
      H_WB WB_LDRB True OFF_IMM, H_WB WB_LDRB True OFF_IMM, H_WB WB_LDRB True OFF_IMM, H_WB WB_LDRB True OFF_IMM,
      H_WB WB_LDRB True OFF_IMM, H_WB WB_LDRB True OFF_IMM, H_WB WB_LDRB True OFF_IMM, H_WB WB_LDRB True OFF_IMM,
      H_WB WB_LDRB True OFF_IMM, H_WB WB_LDRB True OFF_IMM, H_WB WB_LDRB True OFF_IMM, H_WB WB_LDRB True OFF_IMM,
      H_WB WB_LDRB True OFF_IMM, H_WB WB_LDRB True OFF_IMM, H_WB WB_LDRB True OFF_IMM, H_WB WB_LDRB True OFF_IMM,
      H_WB WB_STRB True OFF_IMM, H_WB WB_STRB True OFF_IMM, H_WB WB_STRB True OFF_IMM, H_WB WB_STRB True OFF_IMM,
      H_WB WB_STRB True OFF_IMM, H_WB WB_STRB True OFF_IMM, H_WB WB_STRB True OFF_IMM, H_WB WB_STRB True OFF_IMM,
      H_WB WB_STRB True OFF_IMM, H_WB WB_STRB True OFF_IMM, H_WB WB_STRB True OFF_IMM, H_WB WB_STRB True OFF_IMM,
      H_WB WB_STRB True OFF_IMM, H_WB WB_STRB True OFF_IMM, H_WB WB_STRB True OFF_IMM, H_WB WB_STRB True OFF_IMM,
      H_WB WB_LDRB True OFF_IMM, H_WB WB_LDRB True OFF_IMM, H_WB WB_LDRB True OFF_IMM, H_WB WB_LDRB True OFF_IMM,
      H_WB WB_LDRB True OFF_IMM, H_WB WB_LDRB True OFF_IMM, H_WB WB_LDRB True OFF_IMM, H_WB WB_LDRB True OFF_IMM,
      H_WB WB_LDRB True OFF_IMM, H_WB WB_LDRB True OFF_IMM, H_WB WB_LDRB True OFF_IMM, H_WB WB_LDRB True OFF_IMM,
      H_WB WB_LDRB True OFF_IMM, H_WB WB_LDRB True OFF_IMM, H_WB WB_LDRB True OFF_IMM, H_WB WB_LDRB True OFF_IMM,
      H_WB WB_STR True OFF_IMM, H_WB WB_STR True OFF_IMM, H_WB WB_STR True OFF_IMM, H_WB WB_STR True OFF_IMM,
      H_WB WB_STR True OFF_IMM, H_WB WB_STR True OFF_IMM, H_WB WB_STR True OFF_IMM, H_WB WB_STR True OFF_IMM,
      H_WB WB_STR True OFF_IMM, H_WB WB_STR True OFF_IMM, H_WB WB_STR True OFF_IMM, H_WB WB_STR True OFF_IMM,
      H_WB WB_STR True OFF_IMM, H_WB WB_STR True OFF_IMM, H_WB WB_STR True OFF_IMM, H_WB WB_STR True OFF_IMM,
      H_WB WB_LDR True OFF_IMM, H_WB WB_LDR True OFF_IMM, H_WB WB_LDR True OFF_IMM, H_WB WB_LDR True OFF_IMM,
      H_WB WB_LDR True OFF_IMM, H_WB WB_LDR True OFF_IMM, H_WB WB_LDR True OFF_IMM, H_WB WB_LDR True OFF_IMM,
      H_WB WB_LDR True OFF_IMM, H_WB WB_LDR True OFF_IMM, H_WB WB_LDR True OFF_IMM, H_WB WB_LDR True OFF_IMM,
      H_WB WB_LDR True OFF_IMM, H_WB WB_LDR True OFF_IMM, H_WB WB_LDR True OFF_IMM, H_WB WB_LDR True OFF_IMM,
      H_WB WB_STR True OFF_IMM, H_WB WB_STR True OFF_IMM, H_WB WB_STR True OFF_IMM, H_WB WB_STR True OFF_IMM,
      H_WB WB_STR True OFF_IMM, H_WB WB_STR True OFF_IMM, H_WB WB_STR True OFF_IMM, H_WB WB_STR True OFF_IMM,
      H_WB WB_STR True OFF_IMM, H_WB WB_STR True OFF_IMM, H_WB WB_STR True OFF_IMM, H_WB WB_STR True OFF_IMM,
      H_WB WB_STR True OFF_IMM, H_WB WB_STR True OFF_IMM, H_WB WB_STR True OFF_IMM, H_WB WB_STR True OFF_IMM,
      H_WB WB_LDR True OFF_IMM, H_WB WB_LDR True OFF_IMM, H_WB WB_LDR True OFF_IMM, H_WB WB_LDR True OFF_IMM,
      H_WB WB_LDR True OFF_IMM, H_WB WB_LDR True OFF_IMM, H_WB WB_LDR True OFF_IMM, H_WB WB_LDR True OFF_IMM,
      H_WB WB_LDR True OFF_IMM, H_WB WB_LDR True OFF_IMM, H_WB WB_LDR True OFF_IMM, H_WB WB_LDR True OFF_IMM,
      H_WB WB_LDR True OFF_IMM, H_WB WB_LDR True OFF_IMM, H_WB WB_LDR True OFF_IMM, H_WB WB_LDR True OFF_IMM,
      H_WB WB_STRB True OFF_IMM, H_WB WB_STRB True OFF_IMM, H_WB WB_STRB True OFF_IMM, H_WB WB_STRB True OFF_IMM,
      H_WB WB_STRB True OFF_IMM, H_WB WB_STRB True OFF_IMM, H_WB WB_STRB True OFF_IMM, H_WB WB_STRB True OFF_IMM,
      H_WB WB_STRB True OFF_IMM, H_WB WB_STRB True OFF_IMM, H_WB WB_STRB True OFF_IMM, H_WB WB_STRB True OFF_IMM,
      H_WB WB_STRB True OFF_IMM, H_WB WB_STRB True OFF_IMM, H_WB WB_STRB True OFF_IMM, H_WB WB_STRB True OFF_IMM,
      H_WB WB_LDRB True OFF_IMM, H_WB WB_LDRB True OFF_IMM, H_WB WB_LDRB True OFF_IMM, H_WB WB_LDRB True OFF_IMM,
      H_WB WB_LDRB True OFF_IMM, H_WB WB_LDRB True OFF_IMM, H_WB WB_LDRB True OFF_IMM, H_WB WB_LDRB True OFF_IMM,
      H_WB WB_LDRB True OFF_IMM, H_WB WB_LDRB True OFF_IMM, H_WB WB_LDRB True OFF_IMM, H_WB WB_LDRB True OFF_IMM,
      H_WB WB_LDRB True OFF_IMM, H_WB WB_LDRB True OFF_IMM, H_WB WB_LDRB True OFF_IMM, H_WB WB_LDRB True OFF_IMM,
      H_WB WB_STRB True OFF_IMM, H_WB WB_STRB True OFF_IMM, H_WB WB_STRB True OFF_IMM, H_WB WB_STRB True OFF_IMM,
      H_WB WB_STRB True OFF_IMM, H_WB WB_STRB True OFF_IMM, H_WB WB_STRB True OFF_IMM, H_WB WB_STRB True OFF_IMM,
      H_WB WB_STRB True OFF_IMM, H_WB WB_STRB True OFF_IMM, H_WB WB_STRB True OFF_IMM, H_WB WB_STRB True OFF_IMM,
      H_WB WB_STRB True OFF_IMM, H_WB WB_STRB True OFF_IMM, H_WB WB_STRB True OFF_IMM, H_WB WB_STRB True OFF_IMM,
      H_WB WB_LDRB True OFF_IMM, H_WB WB_LDRB True OFF_IMM, H_WB WB_LDRB True OFF_IMM, H_WB WB_LDRB True OFF_IMM,
      H_WB WB_LDRB True OFF_IMM, H_WB WB_LDRB True OFF_IMM, H_WB WB_LDRB True OFF_IMM, H_WB WB_LDRB True OFF_IMM,
      H_WB WB_LDRB True OFF_IMM, H_WB WB_LDRB True OFF_IMM, H_WB WB_LDRB True OFF_IMM, H_WB WB_LDRB True OFF_IMM,
      H_WB WB_LDRB True OFF_IMM, H_WB WB_LDRB True OFF_IMM, H_WB WB_LDRB True OFF_IMM, H_WB WB_LDRB True OFF_IMM]"

definition ARMInstrTable_5 :: "a_instr list" where
  "ARMInstrTable_5 =
     [H_WB WB_STR False OFF_IMM, H_WB WB_STR False OFF_IMM, H_WB WB_STR False OFF_IMM, H_WB WB_STR False OFF_IMM,
      H_WB WB_STR False OFF_IMM, H_WB WB_STR False OFF_IMM, H_WB WB_STR False OFF_IMM, H_WB WB_STR False OFF_IMM,
      H_WB WB_STR False OFF_IMM, H_WB WB_STR False OFF_IMM, H_WB WB_STR False OFF_IMM, H_WB WB_STR False OFF_IMM,
      H_WB WB_STR False OFF_IMM, H_WB WB_STR False OFF_IMM, H_WB WB_STR False OFF_IMM, H_WB WB_STR False OFF_IMM,
      H_WB WB_LDR False OFF_IMM, H_WB WB_LDR False OFF_IMM, H_WB WB_LDR False OFF_IMM, H_WB WB_LDR False OFF_IMM,
      H_WB WB_LDR False OFF_IMM, H_WB WB_LDR False OFF_IMM, H_WB WB_LDR False OFF_IMM, H_WB WB_LDR False OFF_IMM,
      H_WB WB_LDR False OFF_IMM, H_WB WB_LDR False OFF_IMM, H_WB WB_LDR False OFF_IMM, H_WB WB_LDR False OFF_IMM,
      H_WB WB_LDR False OFF_IMM, H_WB WB_LDR False OFF_IMM, H_WB WB_LDR False OFF_IMM, H_WB WB_LDR False OFF_IMM,
      H_WB WB_STR False OFF_IMM, H_WB WB_STR False OFF_IMM, H_WB WB_STR False OFF_IMM, H_WB WB_STR False OFF_IMM,
      H_WB WB_STR False OFF_IMM, H_WB WB_STR False OFF_IMM, H_WB WB_STR False OFF_IMM, H_WB WB_STR False OFF_IMM,
      H_WB WB_STR False OFF_IMM, H_WB WB_STR False OFF_IMM, H_WB WB_STR False OFF_IMM, H_WB WB_STR False OFF_IMM,
      H_WB WB_STR False OFF_IMM, H_WB WB_STR False OFF_IMM, H_WB WB_STR False OFF_IMM, H_WB WB_STR False OFF_IMM,
      H_WB WB_LDR False OFF_IMM, H_WB WB_LDR False OFF_IMM, H_WB WB_LDR False OFF_IMM, H_WB WB_LDR False OFF_IMM,
      H_WB WB_LDR False OFF_IMM, H_WB WB_LDR False OFF_IMM, H_WB WB_LDR False OFF_IMM, H_WB WB_LDR False OFF_IMM,
      H_WB WB_LDR False OFF_IMM, H_WB WB_LDR False OFF_IMM, H_WB WB_LDR False OFF_IMM, H_WB WB_LDR False OFF_IMM,
      H_WB WB_LDR False OFF_IMM, H_WB WB_LDR False OFF_IMM, H_WB WB_LDR False OFF_IMM, H_WB WB_LDR False OFF_IMM,
      H_WB WB_STRB False OFF_IMM, H_WB WB_STRB False OFF_IMM, H_WB WB_STRB False OFF_IMM, H_WB WB_STRB False OFF_IMM,
      H_WB WB_STRB False OFF_IMM, H_WB WB_STRB False OFF_IMM, H_WB WB_STRB False OFF_IMM, H_WB WB_STRB False OFF_IMM,
      H_WB WB_STRB False OFF_IMM, H_WB WB_STRB False OFF_IMM, H_WB WB_STRB False OFF_IMM, H_WB WB_STRB False OFF_IMM,
      H_WB WB_STRB False OFF_IMM, H_WB WB_STRB False OFF_IMM, H_WB WB_STRB False OFF_IMM, H_WB WB_STRB False OFF_IMM,
      H_WB WB_LDRB False OFF_IMM, H_WB WB_LDRB False OFF_IMM, H_WB WB_LDRB False OFF_IMM, H_WB WB_LDRB False OFF_IMM,
      H_WB WB_LDRB False OFF_IMM, H_WB WB_LDRB False OFF_IMM, H_WB WB_LDRB False OFF_IMM, H_WB WB_LDRB False OFF_IMM,
      H_WB WB_LDRB False OFF_IMM, H_WB WB_LDRB False OFF_IMM, H_WB WB_LDRB False OFF_IMM, H_WB WB_LDRB False OFF_IMM,
      H_WB WB_LDRB False OFF_IMM, H_WB WB_LDRB False OFF_IMM, H_WB WB_LDRB False OFF_IMM, H_WB WB_LDRB False OFF_IMM,
      H_WB WB_STRB False OFF_IMM, H_WB WB_STRB False OFF_IMM, H_WB WB_STRB False OFF_IMM, H_WB WB_STRB False OFF_IMM,
      H_WB WB_STRB False OFF_IMM, H_WB WB_STRB False OFF_IMM, H_WB WB_STRB False OFF_IMM, H_WB WB_STRB False OFF_IMM,
      H_WB WB_STRB False OFF_IMM, H_WB WB_STRB False OFF_IMM, H_WB WB_STRB False OFF_IMM, H_WB WB_STRB False OFF_IMM,
      H_WB WB_STRB False OFF_IMM, H_WB WB_STRB False OFF_IMM, H_WB WB_STRB False OFF_IMM, H_WB WB_STRB False OFF_IMM,
      H_WB WB_LDRB False OFF_IMM, H_WB WB_LDRB False OFF_IMM, H_WB WB_LDRB False OFF_IMM, H_WB WB_LDRB False OFF_IMM,
      H_WB WB_LDRB False OFF_IMM, H_WB WB_LDRB False OFF_IMM, H_WB WB_LDRB False OFF_IMM, H_WB WB_LDRB False OFF_IMM,
      H_WB WB_LDRB False OFF_IMM, H_WB WB_LDRB False OFF_IMM, H_WB WB_LDRB False OFF_IMM, H_WB WB_LDRB False OFF_IMM,
      H_WB WB_LDRB False OFF_IMM, H_WB WB_LDRB False OFF_IMM, H_WB WB_LDRB False OFF_IMM, H_WB WB_LDRB False OFF_IMM,
      H_WB WB_STR False OFF_IMM, H_WB WB_STR False OFF_IMM, H_WB WB_STR False OFF_IMM, H_WB WB_STR False OFF_IMM,
      H_WB WB_STR False OFF_IMM, H_WB WB_STR False OFF_IMM, H_WB WB_STR False OFF_IMM, H_WB WB_STR False OFF_IMM,
      H_WB WB_STR False OFF_IMM, H_WB WB_STR False OFF_IMM, H_WB WB_STR False OFF_IMM, H_WB WB_STR False OFF_IMM,
      H_WB WB_STR False OFF_IMM, H_WB WB_STR False OFF_IMM, H_WB WB_STR False OFF_IMM, H_WB WB_STR False OFF_IMM,
      H_WB WB_LDR False OFF_IMM, H_WB WB_LDR False OFF_IMM, H_WB WB_LDR False OFF_IMM, H_WB WB_LDR False OFF_IMM,
      H_WB WB_LDR False OFF_IMM, H_WB WB_LDR False OFF_IMM, H_WB WB_LDR False OFF_IMM, H_WB WB_LDR False OFF_IMM,
      H_WB WB_LDR False OFF_IMM, H_WB WB_LDR False OFF_IMM, H_WB WB_LDR False OFF_IMM, H_WB WB_LDR False OFF_IMM,
      H_WB WB_LDR False OFF_IMM, H_WB WB_LDR False OFF_IMM, H_WB WB_LDR False OFF_IMM, H_WB WB_LDR False OFF_IMM,
      H_WB WB_STR False OFF_IMM, H_WB WB_STR False OFF_IMM, H_WB WB_STR False OFF_IMM, H_WB WB_STR False OFF_IMM,
      H_WB WB_STR False OFF_IMM, H_WB WB_STR False OFF_IMM, H_WB WB_STR False OFF_IMM, H_WB WB_STR False OFF_IMM,
      H_WB WB_STR False OFF_IMM, H_WB WB_STR False OFF_IMM, H_WB WB_STR False OFF_IMM, H_WB WB_STR False OFF_IMM,
      H_WB WB_STR False OFF_IMM, H_WB WB_STR False OFF_IMM, H_WB WB_STR False OFF_IMM, H_WB WB_STR False OFF_IMM,
      H_WB WB_LDR False OFF_IMM, H_WB WB_LDR False OFF_IMM, H_WB WB_LDR False OFF_IMM, H_WB WB_LDR False OFF_IMM,
      H_WB WB_LDR False OFF_IMM, H_WB WB_LDR False OFF_IMM, H_WB WB_LDR False OFF_IMM, H_WB WB_LDR False OFF_IMM,
      H_WB WB_LDR False OFF_IMM, H_WB WB_LDR False OFF_IMM, H_WB WB_LDR False OFF_IMM, H_WB WB_LDR False OFF_IMM,
      H_WB WB_LDR False OFF_IMM, H_WB WB_LDR False OFF_IMM, H_WB WB_LDR False OFF_IMM, H_WB WB_LDR False OFF_IMM,
      H_WB WB_STRB False OFF_IMM, H_WB WB_STRB False OFF_IMM, H_WB WB_STRB False OFF_IMM, H_WB WB_STRB False OFF_IMM,
      H_WB WB_STRB False OFF_IMM, H_WB WB_STRB False OFF_IMM, H_WB WB_STRB False OFF_IMM, H_WB WB_STRB False OFF_IMM,
      H_WB WB_STRB False OFF_IMM, H_WB WB_STRB False OFF_IMM, H_WB WB_STRB False OFF_IMM, H_WB WB_STRB False OFF_IMM,
      H_WB WB_STRB False OFF_IMM, H_WB WB_STRB False OFF_IMM, H_WB WB_STRB False OFF_IMM, H_WB WB_STRB False OFF_IMM,
      H_WB WB_LDRB False OFF_IMM, H_WB WB_LDRB False OFF_IMM, H_WB WB_LDRB False OFF_IMM, H_WB WB_LDRB False OFF_IMM,
      H_WB WB_LDRB False OFF_IMM, H_WB WB_LDRB False OFF_IMM, H_WB WB_LDRB False OFF_IMM, H_WB WB_LDRB False OFF_IMM,
      H_WB WB_LDRB False OFF_IMM, H_WB WB_LDRB False OFF_IMM, H_WB WB_LDRB False OFF_IMM, H_WB WB_LDRB False OFF_IMM,
      H_WB WB_LDRB False OFF_IMM, H_WB WB_LDRB False OFF_IMM, H_WB WB_LDRB False OFF_IMM, H_WB WB_LDRB False OFF_IMM,
      H_WB WB_STRB False OFF_IMM, H_WB WB_STRB False OFF_IMM, H_WB WB_STRB False OFF_IMM, H_WB WB_STRB False OFF_IMM,
      H_WB WB_STRB False OFF_IMM, H_WB WB_STRB False OFF_IMM, H_WB WB_STRB False OFF_IMM, H_WB WB_STRB False OFF_IMM,
      H_WB WB_STRB False OFF_IMM, H_WB WB_STRB False OFF_IMM, H_WB WB_STRB False OFF_IMM, H_WB WB_STRB False OFF_IMM,
      H_WB WB_STRB False OFF_IMM, H_WB WB_STRB False OFF_IMM, H_WB WB_STRB False OFF_IMM, H_WB WB_STRB False OFF_IMM,
      H_WB WB_LDRB False OFF_IMM, H_WB WB_LDRB False OFF_IMM, H_WB WB_LDRB False OFF_IMM, H_WB WB_LDRB False OFF_IMM,
      H_WB WB_LDRB False OFF_IMM, H_WB WB_LDRB False OFF_IMM, H_WB WB_LDRB False OFF_IMM, H_WB WB_LDRB False OFF_IMM,
      H_WB WB_LDRB False OFF_IMM, H_WB WB_LDRB False OFF_IMM, H_WB WB_LDRB False OFF_IMM, H_WB WB_LDRB False OFF_IMM,
      H_WB WB_LDRB False OFF_IMM, H_WB WB_LDRB False OFF_IMM, H_WB WB_LDRB False OFF_IMM, H_WB WB_LDRB False OFF_IMM]"

definition ARMInstrTable_6 :: "a_instr list" where
  "ARMInstrTable_6 =
     [H_WB WB_STR True (OFF_REG SH_LSL), H_UNK, H_WB WB_STR True (OFF_REG SH_LSR), H_UNK,
      H_WB WB_STR True (OFF_REG SH_ASR), H_UNK, H_WB WB_STR True (OFF_REG SH_ROR), H_UNK,
      H_WB WB_STR True (OFF_REG SH_LSL), H_UNK, H_WB WB_STR True (OFF_REG SH_LSR), H_UNK,
      H_WB WB_STR True (OFF_REG SH_ASR), H_UNK, H_WB WB_STR True (OFF_REG SH_ROR), H_UNK,
      H_WB WB_LDR True (OFF_REG SH_LSL), H_UNK, H_WB WB_LDR True (OFF_REG SH_LSR), H_UNK,
      H_WB WB_LDR True (OFF_REG SH_ASR), H_UNK, H_WB WB_LDR True (OFF_REG SH_ROR), H_UNK,
      H_WB WB_LDR True (OFF_REG SH_LSL), H_UNK, H_WB WB_LDR True (OFF_REG SH_LSR), H_UNK,
      H_WB WB_LDR True (OFF_REG SH_ASR), H_UNK, H_WB WB_LDR True (OFF_REG SH_ROR), H_UNK,
      H_WB WB_STR True (OFF_REG SH_LSL), H_UNK, H_WB WB_STR True (OFF_REG SH_LSR), H_UNK,
      H_WB WB_STR True (OFF_REG SH_ASR), H_UNK, H_WB WB_STR True (OFF_REG SH_ROR), H_UNK,
      H_WB WB_STR True (OFF_REG SH_LSL), H_UNK, H_WB WB_STR True (OFF_REG SH_LSR), H_UNK,
      H_WB WB_STR True (OFF_REG SH_ASR), H_UNK, H_WB WB_STR True (OFF_REG SH_ROR), H_UNK,
      H_WB WB_LDR True (OFF_REG SH_LSL), H_UNK, H_WB WB_LDR True (OFF_REG SH_LSR), H_UNK,
      H_WB WB_LDR True (OFF_REG SH_ASR), H_UNK, H_WB WB_LDR True (OFF_REG SH_ROR), H_UNK,
      H_WB WB_LDR True (OFF_REG SH_LSL), H_UNK, H_WB WB_LDR True (OFF_REG SH_LSR), H_UNK,
      H_WB WB_LDR True (OFF_REG SH_ASR), H_UNK, H_WB WB_LDR True (OFF_REG SH_ROR), H_UNK,
      H_WB WB_STRB True (OFF_REG SH_LSL), H_UNK, H_WB WB_STRB True (OFF_REG SH_LSR), H_UNK,
      H_WB WB_STRB True (OFF_REG SH_ASR), H_UNK, H_WB WB_STRB True (OFF_REG SH_ROR), H_UNK,
      H_WB WB_STRB True (OFF_REG SH_LSL), H_UNK, H_WB WB_STRB True (OFF_REG SH_LSR), H_UNK,
      H_WB WB_STRB True (OFF_REG SH_ASR), H_UNK, H_WB WB_STRB True (OFF_REG SH_ROR), H_UNK,
      H_WB WB_LDRB True (OFF_REG SH_LSL), H_UNK, H_WB WB_LDRB True (OFF_REG SH_LSR), H_UNK,
      H_WB WB_LDRB True (OFF_REG SH_ASR), H_UNK, H_WB WB_LDRB True (OFF_REG SH_ROR), H_UNK,
      H_WB WB_LDRB True (OFF_REG SH_LSL), H_UNK, H_WB WB_LDRB True (OFF_REG SH_LSR), H_UNK,
      H_WB WB_LDRB True (OFF_REG SH_ASR), H_UNK, H_WB WB_LDRB True (OFF_REG SH_ROR), H_UNK,
      H_WB WB_STRB True (OFF_REG SH_LSL), H_UNK, H_WB WB_STRB True (OFF_REG SH_LSR), H_UNK,
      H_WB WB_STRB True (OFF_REG SH_ASR), H_UNK, H_WB WB_STRB True (OFF_REG SH_ROR), H_UNK,
      H_WB WB_STRB True (OFF_REG SH_LSL), H_UNK, H_WB WB_STRB True (OFF_REG SH_LSR), H_UNK,
      H_WB WB_STRB True (OFF_REG SH_ASR), H_UNK, H_WB WB_STRB True (OFF_REG SH_ROR), H_UNK,
      H_WB WB_LDRB True (OFF_REG SH_LSL), H_UNK, H_WB WB_LDRB True (OFF_REG SH_LSR), H_UNK,
      H_WB WB_LDRB True (OFF_REG SH_ASR), H_UNK, H_WB WB_LDRB True (OFF_REG SH_ROR), H_UNK,
      H_WB WB_LDRB True (OFF_REG SH_LSL), H_UNK, H_WB WB_LDRB True (OFF_REG SH_LSR), H_UNK,
      H_WB WB_LDRB True (OFF_REG SH_ASR), H_UNK, H_WB WB_LDRB True (OFF_REG SH_ROR), H_UNK,
      H_WB WB_STR True (OFF_REG SH_LSL), H_UNK, H_WB WB_STR True (OFF_REG SH_LSR), H_UNK,
      H_WB WB_STR True (OFF_REG SH_ASR), H_UNK, H_WB WB_STR True (OFF_REG SH_ROR), H_UNK,
      H_WB WB_STR True (OFF_REG SH_LSL), H_UNK, H_WB WB_STR True (OFF_REG SH_LSR), H_UNK,
      H_WB WB_STR True (OFF_REG SH_ASR), H_UNK, H_WB WB_STR True (OFF_REG SH_ROR), H_UNK,
      H_WB WB_LDR True (OFF_REG SH_LSL), H_UNK, H_WB WB_LDR True (OFF_REG SH_LSR), H_UNK,
      H_WB WB_LDR True (OFF_REG SH_ASR), H_UNK, H_WB WB_LDR True (OFF_REG SH_ROR), H_UNK,
      H_WB WB_LDR True (OFF_REG SH_LSL), H_UNK, H_WB WB_LDR True (OFF_REG SH_LSR), H_UNK,
      H_WB WB_LDR True (OFF_REG SH_ASR), H_UNK, H_WB WB_LDR True (OFF_REG SH_ROR), H_UNK,
      H_WB WB_STR True (OFF_REG SH_LSL), H_UNK, H_WB WB_STR True (OFF_REG SH_LSR), H_UNK,
      H_WB WB_STR True (OFF_REG SH_ASR), H_UNK, H_WB WB_STR True (OFF_REG SH_ROR), H_UNK,
      H_WB WB_STR True (OFF_REG SH_LSL), H_UNK, H_WB WB_STR True (OFF_REG SH_LSR), H_UNK,
      H_WB WB_STR True (OFF_REG SH_ASR), H_UNK, H_WB WB_STR True (OFF_REG SH_ROR), H_UNK,
      H_WB WB_LDR True (OFF_REG SH_LSL), H_UNK, H_WB WB_LDR True (OFF_REG SH_LSR), H_UNK,
      H_WB WB_LDR True (OFF_REG SH_ASR), H_UNK, H_WB WB_LDR True (OFF_REG SH_ROR), H_UNK,
      H_WB WB_LDR True (OFF_REG SH_LSL), H_UNK, H_WB WB_LDR True (OFF_REG SH_LSR), H_UNK,
      H_WB WB_LDR True (OFF_REG SH_ASR), H_UNK, H_WB WB_LDR True (OFF_REG SH_ROR), H_UNK,
      H_WB WB_STRB True (OFF_REG SH_LSL), H_UNK, H_WB WB_STRB True (OFF_REG SH_LSR), H_UNK,
      H_WB WB_STRB True (OFF_REG SH_ASR), H_UNK, H_WB WB_STRB True (OFF_REG SH_ROR), H_UNK,
      H_WB WB_STRB True (OFF_REG SH_LSL), H_UNK, H_WB WB_STRB True (OFF_REG SH_LSR), H_UNK,
      H_WB WB_STRB True (OFF_REG SH_ASR), H_UNK, H_WB WB_STRB True (OFF_REG SH_ROR), H_UNK,
      H_WB WB_LDRB True (OFF_REG SH_LSL), H_UNK, H_WB WB_LDRB True (OFF_REG SH_LSR), H_UNK,
      H_WB WB_LDRB True (OFF_REG SH_ASR), H_UNK, H_WB WB_LDRB True (OFF_REG SH_ROR), H_UNK,
      H_WB WB_LDRB True (OFF_REG SH_LSL), H_UNK, H_WB WB_LDRB True (OFF_REG SH_LSR), H_UNK,
      H_WB WB_LDRB True (OFF_REG SH_ASR), H_UNK, H_WB WB_LDRB True (OFF_REG SH_ROR), H_UNK,
      H_WB WB_STRB True (OFF_REG SH_LSL), H_UNK, H_WB WB_STRB True (OFF_REG SH_LSR), H_UNK,
      H_WB WB_STRB True (OFF_REG SH_ASR), H_UNK, H_WB WB_STRB True (OFF_REG SH_ROR), H_UNK,
      H_WB WB_STRB True (OFF_REG SH_LSL), H_UNK, H_WB WB_STRB True (OFF_REG SH_LSR), H_UNK,
      H_WB WB_STRB True (OFF_REG SH_ASR), H_UNK, H_WB WB_STRB True (OFF_REG SH_ROR), H_UNK,
      H_WB WB_LDRB True (OFF_REG SH_LSL), H_UNK, H_WB WB_LDRB True (OFF_REG SH_LSR), H_UNK,
      H_WB WB_LDRB True (OFF_REG SH_ASR), H_UNK, H_WB WB_LDRB True (OFF_REG SH_ROR), H_UNK,
      H_WB WB_LDRB True (OFF_REG SH_LSL), H_UNK, H_WB WB_LDRB True (OFF_REG SH_LSR), H_UNK,
      H_WB WB_LDRB True (OFF_REG SH_ASR), H_UNK, H_WB WB_LDRB True (OFF_REG SH_ROR), H_UNK]"

definition ARMInstrTable_7 :: "a_instr list" where
  "ARMInstrTable_7 =
     [H_WB WB_STR False (OFF_REG SH_LSL), H_UNK, H_WB WB_STR False (OFF_REG SH_LSR), H_UNK,
      H_WB WB_STR False (OFF_REG SH_ASR), H_UNK, H_WB WB_STR False (OFF_REG SH_ROR), H_UNK,
      H_WB WB_STR False (OFF_REG SH_LSL), H_UNK, H_WB WB_STR False (OFF_REG SH_LSR), H_UNK,
      H_WB WB_STR False (OFF_REG SH_ASR), H_UNK, H_WB WB_STR False (OFF_REG SH_ROR), H_UNK,
      H_WB WB_LDR False (OFF_REG SH_LSL), H_UNK, H_WB WB_LDR False (OFF_REG SH_LSR), H_UNK,
      H_WB WB_LDR False (OFF_REG SH_ASR), H_UNK, H_WB WB_LDR False (OFF_REG SH_ROR), H_UNK,
      H_WB WB_LDR False (OFF_REG SH_LSL), H_UNK, H_WB WB_LDR False (OFF_REG SH_LSR), H_UNK,
      H_WB WB_LDR False (OFF_REG SH_ASR), H_UNK, H_WB WB_LDR False (OFF_REG SH_ROR), H_UNK,
      H_WB WB_STR False (OFF_REG SH_LSL), H_UNK, H_WB WB_STR False (OFF_REG SH_LSR), H_UNK,
      H_WB WB_STR False (OFF_REG SH_ASR), H_UNK, H_WB WB_STR False (OFF_REG SH_ROR), H_UNK,
      H_WB WB_STR False (OFF_REG SH_LSL), H_UNK, H_WB WB_STR False (OFF_REG SH_LSR), H_UNK,
      H_WB WB_STR False (OFF_REG SH_ASR), H_UNK, H_WB WB_STR False (OFF_REG SH_ROR), H_UNK,
      H_WB WB_LDR False (OFF_REG SH_LSL), H_UNK, H_WB WB_LDR False (OFF_REG SH_LSR), H_UNK,
      H_WB WB_LDR False (OFF_REG SH_ASR), H_UNK, H_WB WB_LDR False (OFF_REG SH_ROR), H_UNK,
      H_WB WB_LDR False (OFF_REG SH_LSL), H_UNK, H_WB WB_LDR False (OFF_REG SH_LSR), H_UNK,
      H_WB WB_LDR False (OFF_REG SH_ASR), H_UNK, H_WB WB_LDR False (OFF_REG SH_ROR), H_UNK,
      H_WB WB_STRB False (OFF_REG SH_LSL), H_UNK, H_WB WB_STRB False (OFF_REG SH_LSR), H_UNK,
      H_WB WB_STRB False (OFF_REG SH_ASR), H_UNK, H_WB WB_STRB False (OFF_REG SH_ROR), H_UNK,
      H_WB WB_STRB False (OFF_REG SH_LSL), H_UNK, H_WB WB_STRB False (OFF_REG SH_LSR), H_UNK,
      H_WB WB_STRB False (OFF_REG SH_ASR), H_UNK, H_WB WB_STRB False (OFF_REG SH_ROR), H_UNK,
      H_WB WB_LDRB False (OFF_REG SH_LSL), H_UNK, H_WB WB_LDRB False (OFF_REG SH_LSR), H_UNK,
      H_WB WB_LDRB False (OFF_REG SH_ASR), H_UNK, H_WB WB_LDRB False (OFF_REG SH_ROR), H_UNK,
      H_WB WB_LDRB False (OFF_REG SH_LSL), H_UNK, H_WB WB_LDRB False (OFF_REG SH_LSR), H_UNK,
      H_WB WB_LDRB False (OFF_REG SH_ASR), H_UNK, H_WB WB_LDRB False (OFF_REG SH_ROR), H_UNK,
      H_WB WB_STRB False (OFF_REG SH_LSL), H_UNK, H_WB WB_STRB False (OFF_REG SH_LSR), H_UNK,
      H_WB WB_STRB False (OFF_REG SH_ASR), H_UNK, H_WB WB_STRB False (OFF_REG SH_ROR), H_UNK,
      H_WB WB_STRB False (OFF_REG SH_LSL), H_UNK, H_WB WB_STRB False (OFF_REG SH_LSR), H_UNK,
      H_WB WB_STRB False (OFF_REG SH_ASR), H_UNK, H_WB WB_STRB False (OFF_REG SH_ROR), H_UNK,
      H_WB WB_LDRB False (OFF_REG SH_LSL), H_UNK, H_WB WB_LDRB False (OFF_REG SH_LSR), H_UNK,
      H_WB WB_LDRB False (OFF_REG SH_ASR), H_UNK, H_WB WB_LDRB False (OFF_REG SH_ROR), H_UNK,
      H_WB WB_LDRB False (OFF_REG SH_LSL), H_UNK, H_WB WB_LDRB False (OFF_REG SH_LSR), H_UNK,
      H_WB WB_LDRB False (OFF_REG SH_ASR), H_UNK, H_WB WB_LDRB False (OFF_REG SH_ROR), H_UNK,
      H_WB WB_STR False (OFF_REG SH_LSL), H_UNK, H_WB WB_STR False (OFF_REG SH_LSR), H_UNK,
      H_WB WB_STR False (OFF_REG SH_ASR), H_UNK, H_WB WB_STR False (OFF_REG SH_ROR), H_UNK,
      H_WB WB_STR False (OFF_REG SH_LSL), H_UNK, H_WB WB_STR False (OFF_REG SH_LSR), H_UNK,
      H_WB WB_STR False (OFF_REG SH_ASR), H_UNK, H_WB WB_STR False (OFF_REG SH_ROR), H_UNK,
      H_WB WB_LDR False (OFF_REG SH_LSL), H_UNK, H_WB WB_LDR False (OFF_REG SH_LSR), H_UNK,
      H_WB WB_LDR False (OFF_REG SH_ASR), H_UNK, H_WB WB_LDR False (OFF_REG SH_ROR), H_UNK,
      H_WB WB_LDR False (OFF_REG SH_LSL), H_UNK, H_WB WB_LDR False (OFF_REG SH_LSR), H_UNK,
      H_WB WB_LDR False (OFF_REG SH_ASR), H_UNK, H_WB WB_LDR False (OFF_REG SH_ROR), H_UNK,
      H_WB WB_STR False (OFF_REG SH_LSL), H_UNK, H_WB WB_STR False (OFF_REG SH_LSR), H_UNK,
      H_WB WB_STR False (OFF_REG SH_ASR), H_UNK, H_WB WB_STR False (OFF_REG SH_ROR), H_UNK,
      H_WB WB_STR False (OFF_REG SH_LSL), H_UNK, H_WB WB_STR False (OFF_REG SH_LSR), H_UNK,
      H_WB WB_STR False (OFF_REG SH_ASR), H_UNK, H_WB WB_STR False (OFF_REG SH_ROR), H_UNK,
      H_WB WB_LDR False (OFF_REG SH_LSL), H_UNK, H_WB WB_LDR False (OFF_REG SH_LSR), H_UNK,
      H_WB WB_LDR False (OFF_REG SH_ASR), H_UNK, H_WB WB_LDR False (OFF_REG SH_ROR), H_UNK,
      H_WB WB_LDR False (OFF_REG SH_LSL), H_UNK, H_WB WB_LDR False (OFF_REG SH_LSR), H_UNK,
      H_WB WB_LDR False (OFF_REG SH_ASR), H_UNK, H_WB WB_LDR False (OFF_REG SH_ROR), H_UNK,
      H_WB WB_STRB False (OFF_REG SH_LSL), H_UNK, H_WB WB_STRB False (OFF_REG SH_LSR), H_UNK,
      H_WB WB_STRB False (OFF_REG SH_ASR), H_UNK, H_WB WB_STRB False (OFF_REG SH_ROR), H_UNK,
      H_WB WB_STRB False (OFF_REG SH_LSL), H_UNK, H_WB WB_STRB False (OFF_REG SH_LSR), H_UNK,
      H_WB WB_STRB False (OFF_REG SH_ASR), H_UNK, H_WB WB_STRB False (OFF_REG SH_ROR), H_UNK,
      H_WB WB_LDRB False (OFF_REG SH_LSL), H_UNK, H_WB WB_LDRB False (OFF_REG SH_LSR), H_UNK,
      H_WB WB_LDRB False (OFF_REG SH_ASR), H_UNK, H_WB WB_LDRB False (OFF_REG SH_ROR), H_UNK,
      H_WB WB_LDRB False (OFF_REG SH_LSL), H_UNK, H_WB WB_LDRB False (OFF_REG SH_LSR), H_UNK,
      H_WB WB_LDRB False (OFF_REG SH_ASR), H_UNK, H_WB WB_LDRB False (OFF_REG SH_ROR), H_UNK,
      H_WB WB_STRB False (OFF_REG SH_LSL), H_UNK, H_WB WB_STRB False (OFF_REG SH_LSR), H_UNK,
      H_WB WB_STRB False (OFF_REG SH_ASR), H_UNK, H_WB WB_STRB False (OFF_REG SH_ROR), H_UNK,
      H_WB WB_STRB False (OFF_REG SH_LSL), H_UNK, H_WB WB_STRB False (OFF_REG SH_LSR), H_UNK,
      H_WB WB_STRB False (OFF_REG SH_ASR), H_UNK, H_WB WB_STRB False (OFF_REG SH_ROR), H_UNK,
      H_WB WB_LDRB False (OFF_REG SH_LSL), H_UNK, H_WB WB_LDRB False (OFF_REG SH_LSR), H_UNK,
      H_WB WB_LDRB False (OFF_REG SH_ASR), H_UNK, H_WB WB_LDRB False (OFF_REG SH_ROR), H_UNK,
      H_WB WB_LDRB False (OFF_REG SH_LSL), H_UNK, H_WB WB_LDRB False (OFF_REG SH_LSR), H_UNK,
      H_WB WB_LDRB False (OFF_REG SH_ASR), H_UNK, H_WB WB_LDRB False (OFF_REG SH_ROR), H_UNK]"

definition ARMInstrTable_8 :: "a_instr list" where
  "ARMInstrTable_8 =
     [H_STM, H_STM, H_STM, H_STM,
      H_STM, H_STM, H_STM, H_STM,
      H_STM, H_STM, H_STM, H_STM,
      H_STM, H_STM, H_STM, H_STM,
      H_LDM, H_LDM, H_LDM, H_LDM,
      H_LDM, H_LDM, H_LDM, H_LDM,
      H_LDM, H_LDM, H_LDM, H_LDM,
      H_LDM, H_LDM, H_LDM, H_LDM,
      H_STM, H_STM, H_STM, H_STM,
      H_STM, H_STM, H_STM, H_STM,
      H_STM, H_STM, H_STM, H_STM,
      H_STM, H_STM, H_STM, H_STM,
      H_LDM, H_LDM, H_LDM, H_LDM,
      H_LDM, H_LDM, H_LDM, H_LDM,
      H_LDM, H_LDM, H_LDM, H_LDM,
      H_LDM, H_LDM, H_LDM, H_LDM,
      H_STM, H_STM, H_STM, H_STM,
      H_STM, H_STM, H_STM, H_STM,
      H_STM, H_STM, H_STM, H_STM,
      H_STM, H_STM, H_STM, H_STM,
      H_LDM, H_LDM, H_LDM, H_LDM,
      H_LDM, H_LDM, H_LDM, H_LDM,
      H_LDM, H_LDM, H_LDM, H_LDM,
      H_LDM, H_LDM, H_LDM, H_LDM,
      H_STM, H_STM, H_STM, H_STM,
      H_STM, H_STM, H_STM, H_STM,
      H_STM, H_STM, H_STM, H_STM,
      H_STM, H_STM, H_STM, H_STM,
      H_LDM, H_LDM, H_LDM, H_LDM,
      H_LDM, H_LDM, H_LDM, H_LDM,
      H_LDM, H_LDM, H_LDM, H_LDM,
      H_LDM, H_LDM, H_LDM, H_LDM,
      H_STM, H_STM, H_STM, H_STM,
      H_STM, H_STM, H_STM, H_STM,
      H_STM, H_STM, H_STM, H_STM,
      H_STM, H_STM, H_STM, H_STM,
      H_LDM, H_LDM, H_LDM, H_LDM,
      H_LDM, H_LDM, H_LDM, H_LDM,
      H_LDM, H_LDM, H_LDM, H_LDM,
      H_LDM, H_LDM, H_LDM, H_LDM,
      H_STM, H_STM, H_STM, H_STM,
      H_STM, H_STM, H_STM, H_STM,
      H_STM, H_STM, H_STM, H_STM,
      H_STM, H_STM, H_STM, H_STM,
      H_LDM, H_LDM, H_LDM, H_LDM,
      H_LDM, H_LDM, H_LDM, H_LDM,
      H_LDM, H_LDM, H_LDM, H_LDM,
      H_LDM, H_LDM, H_LDM, H_LDM,
      H_STM, H_STM, H_STM, H_STM,
      H_STM, H_STM, H_STM, H_STM,
      H_STM, H_STM, H_STM, H_STM,
      H_STM, H_STM, H_STM, H_STM,
      H_LDM, H_LDM, H_LDM, H_LDM,
      H_LDM, H_LDM, H_LDM, H_LDM,
      H_LDM, H_LDM, H_LDM, H_LDM,
      H_LDM, H_LDM, H_LDM, H_LDM,
      H_STM, H_STM, H_STM, H_STM,
      H_STM, H_STM, H_STM, H_STM,
      H_STM, H_STM, H_STM, H_STM,
      H_STM, H_STM, H_STM, H_STM,
      H_LDM, H_LDM, H_LDM, H_LDM,
      H_LDM, H_LDM, H_LDM, H_LDM,
      H_LDM, H_LDM, H_LDM, H_LDM,
      H_LDM, H_LDM, H_LDM, H_LDM]"

definition ARMInstrTable_9 :: "a_instr list" where
  "ARMInstrTable_9 =
     [H_STM, H_STM, H_STM, H_STM,
      H_STM, H_STM, H_STM, H_STM,
      H_STM, H_STM, H_STM, H_STM,
      H_STM, H_STM, H_STM, H_STM,
      H_LDM, H_LDM, H_LDM, H_LDM,
      H_LDM, H_LDM, H_LDM, H_LDM,
      H_LDM, H_LDM, H_LDM, H_LDM,
      H_LDM, H_LDM, H_LDM, H_LDM,
      H_STM, H_STM, H_STM, H_STM,
      H_STM, H_STM, H_STM, H_STM,
      H_STM, H_STM, H_STM, H_STM,
      H_STM, H_STM, H_STM, H_STM,
      H_LDM, H_LDM, H_LDM, H_LDM,
      H_LDM, H_LDM, H_LDM, H_LDM,
      H_LDM, H_LDM, H_LDM, H_LDM,
      H_LDM, H_LDM, H_LDM, H_LDM,
      H_STM, H_STM, H_STM, H_STM,
      H_STM, H_STM, H_STM, H_STM,
      H_STM, H_STM, H_STM, H_STM,
      H_STM, H_STM, H_STM, H_STM,
      H_LDM, H_LDM, H_LDM, H_LDM,
      H_LDM, H_LDM, H_LDM, H_LDM,
      H_LDM, H_LDM, H_LDM, H_LDM,
      H_LDM, H_LDM, H_LDM, H_LDM,
      H_STM, H_STM, H_STM, H_STM,
      H_STM, H_STM, H_STM, H_STM,
      H_STM, H_STM, H_STM, H_STM,
      H_STM, H_STM, H_STM, H_STM,
      H_LDM, H_LDM, H_LDM, H_LDM,
      H_LDM, H_LDM, H_LDM, H_LDM,
      H_LDM, H_LDM, H_LDM, H_LDM,
      H_LDM, H_LDM, H_LDM, H_LDM,
      H_STM, H_STM, H_STM, H_STM,
      H_STM, H_STM, H_STM, H_STM,
      H_STM, H_STM, H_STM, H_STM,
      H_STM, H_STM, H_STM, H_STM,
      H_LDM, H_LDM, H_LDM, H_LDM,
      H_LDM, H_LDM, H_LDM, H_LDM,
      H_LDM, H_LDM, H_LDM, H_LDM,
      H_LDM, H_LDM, H_LDM, H_LDM,
      H_STM, H_STM, H_STM, H_STM,
      H_STM, H_STM, H_STM, H_STM,
      H_STM, H_STM, H_STM, H_STM,
      H_STM, H_STM, H_STM, H_STM,
      H_LDM, H_LDM, H_LDM, H_LDM,
      H_LDM, H_LDM, H_LDM, H_LDM,
      H_LDM, H_LDM, H_LDM, H_LDM,
      H_LDM, H_LDM, H_LDM, H_LDM,
      H_STM, H_STM, H_STM, H_STM,
      H_STM, H_STM, H_STM, H_STM,
      H_STM, H_STM, H_STM, H_STM,
      H_STM, H_STM, H_STM, H_STM,
      H_LDM, H_LDM, H_LDM, H_LDM,
      H_LDM, H_LDM, H_LDM, H_LDM,
      H_LDM, H_LDM, H_LDM, H_LDM,
      H_LDM, H_LDM, H_LDM, H_LDM,
      H_STM, H_STM, H_STM, H_STM,
      H_STM, H_STM, H_STM, H_STM,
      H_STM, H_STM, H_STM, H_STM,
      H_STM, H_STM, H_STM, H_STM,
      H_LDM, H_LDM, H_LDM, H_LDM,
      H_LDM, H_LDM, H_LDM, H_LDM,
      H_LDM, H_LDM, H_LDM, H_LDM,
      H_LDM, H_LDM, H_LDM, H_LDM]"

definition ARMInstrTable_A :: "a_instr list" where
  "ARMInstrTable_A =
     [H_B, H_B, H_B, H_B,
      H_B, H_B, H_B, H_B,
      H_B, H_B, H_B, H_B,
      H_B, H_B, H_B, H_B,
      H_B, H_B, H_B, H_B,
      H_B, H_B, H_B, H_B,
      H_B, H_B, H_B, H_B,
      H_B, H_B, H_B, H_B,
      H_B, H_B, H_B, H_B,
      H_B, H_B, H_B, H_B,
      H_B, H_B, H_B, H_B,
      H_B, H_B, H_B, H_B,
      H_B, H_B, H_B, H_B,
      H_B, H_B, H_B, H_B,
      H_B, H_B, H_B, H_B,
      H_B, H_B, H_B, H_B,
      H_B, H_B, H_B, H_B,
      H_B, H_B, H_B, H_B,
      H_B, H_B, H_B, H_B,
      H_B, H_B, H_B, H_B,
      H_B, H_B, H_B, H_B,
      H_B, H_B, H_B, H_B,
      H_B, H_B, H_B, H_B,
      H_B, H_B, H_B, H_B,
      H_B, H_B, H_B, H_B,
      H_B, H_B, H_B, H_B,
      H_B, H_B, H_B, H_B,
      H_B, H_B, H_B, H_B,
      H_B, H_B, H_B, H_B,
      H_B, H_B, H_B, H_B,
      H_B, H_B, H_B, H_B,
      H_B, H_B, H_B, H_B,
      H_B, H_B, H_B, H_B,
      H_B, H_B, H_B, H_B,
      H_B, H_B, H_B, H_B,
      H_B, H_B, H_B, H_B,
      H_B, H_B, H_B, H_B,
      H_B, H_B, H_B, H_B,
      H_B, H_B, H_B, H_B,
      H_B, H_B, H_B, H_B,
      H_B, H_B, H_B, H_B,
      H_B, H_B, H_B, H_B,
      H_B, H_B, H_B, H_B,
      H_B, H_B, H_B, H_B,
      H_B, H_B, H_B, H_B,
      H_B, H_B, H_B, H_B,
      H_B, H_B, H_B, H_B,
      H_B, H_B, H_B, H_B,
      H_B, H_B, H_B, H_B,
      H_B, H_B, H_B, H_B,
      H_B, H_B, H_B, H_B,
      H_B, H_B, H_B, H_B,
      H_B, H_B, H_B, H_B,
      H_B, H_B, H_B, H_B,
      H_B, H_B, H_B, H_B,
      H_B, H_B, H_B, H_B,
      H_B, H_B, H_B, H_B,
      H_B, H_B, H_B, H_B,
      H_B, H_B, H_B, H_B,
      H_B, H_B, H_B, H_B,
      H_B, H_B, H_B, H_B,
      H_B, H_B, H_B, H_B,
      H_B, H_B, H_B, H_B,
      H_B, H_B, H_B, H_B]"

definition ARMInstrTable_B :: "a_instr list" where
  "ARMInstrTable_B =
     [H_BL, H_BL, H_BL, H_BL,
      H_BL, H_BL, H_BL, H_BL,
      H_BL, H_BL, H_BL, H_BL,
      H_BL, H_BL, H_BL, H_BL,
      H_BL, H_BL, H_BL, H_BL,
      H_BL, H_BL, H_BL, H_BL,
      H_BL, H_BL, H_BL, H_BL,
      H_BL, H_BL, H_BL, H_BL,
      H_BL, H_BL, H_BL, H_BL,
      H_BL, H_BL, H_BL, H_BL,
      H_BL, H_BL, H_BL, H_BL,
      H_BL, H_BL, H_BL, H_BL,
      H_BL, H_BL, H_BL, H_BL,
      H_BL, H_BL, H_BL, H_BL,
      H_BL, H_BL, H_BL, H_BL,
      H_BL, H_BL, H_BL, H_BL,
      H_BL, H_BL, H_BL, H_BL,
      H_BL, H_BL, H_BL, H_BL,
      H_BL, H_BL, H_BL, H_BL,
      H_BL, H_BL, H_BL, H_BL,
      H_BL, H_BL, H_BL, H_BL,
      H_BL, H_BL, H_BL, H_BL,
      H_BL, H_BL, H_BL, H_BL,
      H_BL, H_BL, H_BL, H_BL,
      H_BL, H_BL, H_BL, H_BL,
      H_BL, H_BL, H_BL, H_BL,
      H_BL, H_BL, H_BL, H_BL,
      H_BL, H_BL, H_BL, H_BL,
      H_BL, H_BL, H_BL, H_BL,
      H_BL, H_BL, H_BL, H_BL,
      H_BL, H_BL, H_BL, H_BL,
      H_BL, H_BL, H_BL, H_BL,
      H_BL, H_BL, H_BL, H_BL,
      H_BL, H_BL, H_BL, H_BL,
      H_BL, H_BL, H_BL, H_BL,
      H_BL, H_BL, H_BL, H_BL,
      H_BL, H_BL, H_BL, H_BL,
      H_BL, H_BL, H_BL, H_BL,
      H_BL, H_BL, H_BL, H_BL,
      H_BL, H_BL, H_BL, H_BL,
      H_BL, H_BL, H_BL, H_BL,
      H_BL, H_BL, H_BL, H_BL,
      H_BL, H_BL, H_BL, H_BL,
      H_BL, H_BL, H_BL, H_BL,
      H_BL, H_BL, H_BL, H_BL,
      H_BL, H_BL, H_BL, H_BL,
      H_BL, H_BL, H_BL, H_BL,
      H_BL, H_BL, H_BL, H_BL,
      H_BL, H_BL, H_BL, H_BL,
      H_BL, H_BL, H_BL, H_BL,
      H_BL, H_BL, H_BL, H_BL,
      H_BL, H_BL, H_BL, H_BL,
      H_BL, H_BL, H_BL, H_BL,
      H_BL, H_BL, H_BL, H_BL,
      H_BL, H_BL, H_BL, H_BL,
      H_BL, H_BL, H_BL, H_BL,
      H_BL, H_BL, H_BL, H_BL,
      H_BL, H_BL, H_BL, H_BL,
      H_BL, H_BL, H_BL, H_BL,
      H_BL, H_BL, H_BL, H_BL,
      H_BL, H_BL, H_BL, H_BL,
      H_BL, H_BL, H_BL, H_BL,
      H_BL, H_BL, H_BL, H_BL,
      H_BL, H_BL, H_BL, H_BL]"

definition ARMInstrTable_C :: "a_instr list" where
  "ARMInstrTable_C =
     [H_UNK, H_UNK, H_UNK, H_UNK,
      H_UNK, H_UNK, H_UNK, H_UNK,
      H_UNK, H_UNK, H_UNK, H_UNK,
      H_UNK, H_UNK, H_UNK, H_UNK,
      H_UNK, H_UNK, H_UNK, H_UNK,
      H_UNK, H_UNK, H_UNK, H_UNK,
      H_UNK, H_UNK, H_UNK, H_UNK,
      H_UNK, H_UNK, H_UNK, H_UNK,
      H_UNK, H_UNK, H_UNK, H_UNK,
      H_UNK, H_UNK, H_UNK, H_UNK,
      H_UNK, H_UNK, H_UNK, H_UNK,
      H_UNK, H_UNK, H_UNK, H_UNK,
      H_UNK, H_UNK, H_UNK, H_UNK,
      H_UNK, H_UNK, H_UNK, H_UNK,
      H_UNK, H_UNK, H_UNK, H_UNK,
      H_UNK, H_UNK, H_UNK, H_UNK,
      H_UNK, H_UNK, H_UNK, H_UNK,
      H_UNK, H_UNK, H_UNK, H_UNK,
      H_UNK, H_UNK, H_UNK, H_UNK,
      H_UNK, H_UNK, H_UNK, H_UNK,
      H_UNK, H_UNK, H_UNK, H_UNK,
      H_UNK, H_UNK, H_UNK, H_UNK,
      H_UNK, H_UNK, H_UNK, H_UNK,
      H_UNK, H_UNK, H_UNK, H_UNK,
      H_UNK, H_UNK, H_UNK, H_UNK,
      H_UNK, H_UNK, H_UNK, H_UNK,
      H_UNK, H_UNK, H_UNK, H_UNK,
      H_UNK, H_UNK, H_UNK, H_UNK,
      H_UNK, H_UNK, H_UNK, H_UNK,
      H_UNK, H_UNK, H_UNK, H_UNK,
      H_UNK, H_UNK, H_UNK, H_UNK,
      H_UNK, H_UNK, H_UNK, H_UNK,
      H_UNK, H_UNK, H_UNK, H_UNK,
      H_UNK, H_UNK, H_UNK, H_UNK,
      H_UNK, H_UNK, H_UNK, H_UNK,
      H_UNK, H_UNK, H_UNK, H_UNK,
      H_UNK, H_UNK, H_UNK, H_UNK,
      H_UNK, H_UNK, H_UNK, H_UNK,
      H_UNK, H_UNK, H_UNK, H_UNK,
      H_UNK, H_UNK, H_UNK, H_UNK,
      H_UNK, H_UNK, H_UNK, H_UNK,
      H_UNK, H_UNK, H_UNK, H_UNK,
      H_UNK, H_UNK, H_UNK, H_UNK,
      H_UNK, H_UNK, H_UNK, H_UNK,
      H_UNK, H_UNK, H_UNK, H_UNK,
      H_UNK, H_UNK, H_UNK, H_UNK,
      H_UNK, H_UNK, H_UNK, H_UNK,
      H_UNK, H_UNK, H_UNK, H_UNK,
      H_UNK, H_UNK, H_UNK, H_UNK,
      H_UNK, H_UNK, H_UNK, H_UNK,
      H_UNK, H_UNK, H_UNK, H_UNK,
      H_UNK, H_UNK, H_UNK, H_UNK,
      H_UNK, H_UNK, H_UNK, H_UNK,
      H_UNK, H_UNK, H_UNK, H_UNK,
      H_UNK, H_UNK, H_UNK, H_UNK,
      H_UNK, H_UNK, H_UNK, H_UNK,
      H_UNK, H_UNK, H_UNK, H_UNK,
      H_UNK, H_UNK, H_UNK, H_UNK,
      H_UNK, H_UNK, H_UNK, H_UNK,
      H_UNK, H_UNK, H_UNK, H_UNK,
      H_UNK, H_UNK, H_UNK, H_UNK,
      H_UNK, H_UNK, H_UNK, H_UNK,
      H_UNK, H_UNK, H_UNK, H_UNK,
      H_UNK, H_UNK, H_UNK, H_UNK]"

definition ARMInstrTable_D :: "a_instr list" where
  "ARMInstrTable_D =
     [H_UNK, H_UNK, H_UNK, H_UNK,
      H_UNK, H_UNK, H_UNK, H_UNK,
      H_UNK, H_UNK, H_UNK, H_UNK,
      H_UNK, H_UNK, H_UNK, H_UNK,
      H_UNK, H_UNK, H_UNK, H_UNK,
      H_UNK, H_UNK, H_UNK, H_UNK,
      H_UNK, H_UNK, H_UNK, H_UNK,
      H_UNK, H_UNK, H_UNK, H_UNK,
      H_UNK, H_UNK, H_UNK, H_UNK,
      H_UNK, H_UNK, H_UNK, H_UNK,
      H_UNK, H_UNK, H_UNK, H_UNK,
      H_UNK, H_UNK, H_UNK, H_UNK,
      H_UNK, H_UNK, H_UNK, H_UNK,
      H_UNK, H_UNK, H_UNK, H_UNK,
      H_UNK, H_UNK, H_UNK, H_UNK,
      H_UNK, H_UNK, H_UNK, H_UNK,
      H_UNK, H_UNK, H_UNK, H_UNK,
      H_UNK, H_UNK, H_UNK, H_UNK,
      H_UNK, H_UNK, H_UNK, H_UNK,
      H_UNK, H_UNK, H_UNK, H_UNK,
      H_UNK, H_UNK, H_UNK, H_UNK,
      H_UNK, H_UNK, H_UNK, H_UNK,
      H_UNK, H_UNK, H_UNK, H_UNK,
      H_UNK, H_UNK, H_UNK, H_UNK,
      H_UNK, H_UNK, H_UNK, H_UNK,
      H_UNK, H_UNK, H_UNK, H_UNK,
      H_UNK, H_UNK, H_UNK, H_UNK,
      H_UNK, H_UNK, H_UNK, H_UNK,
      H_UNK, H_UNK, H_UNK, H_UNK,
      H_UNK, H_UNK, H_UNK, H_UNK,
      H_UNK, H_UNK, H_UNK, H_UNK,
      H_UNK, H_UNK, H_UNK, H_UNK,
      H_UNK, H_UNK, H_UNK, H_UNK,
      H_UNK, H_UNK, H_UNK, H_UNK,
      H_UNK, H_UNK, H_UNK, H_UNK,
      H_UNK, H_UNK, H_UNK, H_UNK,
      H_UNK, H_UNK, H_UNK, H_UNK,
      H_UNK, H_UNK, H_UNK, H_UNK,
      H_UNK, H_UNK, H_UNK, H_UNK,
      H_UNK, H_UNK, H_UNK, H_UNK,
      H_UNK, H_UNK, H_UNK, H_UNK,
      H_UNK, H_UNK, H_UNK, H_UNK,
      H_UNK, H_UNK, H_UNK, H_UNK,
      H_UNK, H_UNK, H_UNK, H_UNK,
      H_UNK, H_UNK, H_UNK, H_UNK,
      H_UNK, H_UNK, H_UNK, H_UNK,
      H_UNK, H_UNK, H_UNK, H_UNK,
      H_UNK, H_UNK, H_UNK, H_UNK,
      H_UNK, H_UNK, H_UNK, H_UNK,
      H_UNK, H_UNK, H_UNK, H_UNK,
      H_UNK, H_UNK, H_UNK, H_UNK,
      H_UNK, H_UNK, H_UNK, H_UNK,
      H_UNK, H_UNK, H_UNK, H_UNK,
      H_UNK, H_UNK, H_UNK, H_UNK,
      H_UNK, H_UNK, H_UNK, H_UNK,
      H_UNK, H_UNK, H_UNK, H_UNK,
      H_UNK, H_UNK, H_UNK, H_UNK,
      H_UNK, H_UNK, H_UNK, H_UNK,
      H_UNK, H_UNK, H_UNK, H_UNK,
      H_UNK, H_UNK, H_UNK, H_UNK,
      H_UNK, H_UNK, H_UNK, H_UNK,
      H_UNK, H_UNK, H_UNK, H_UNK,
      H_UNK, H_UNK, H_UNK, H_UNK,
      H_UNK, H_UNK, H_UNK, H_UNK]"

definition ARMInstrTable_E :: "a_instr list" where
  "ARMInstrTable_E =
     [H_UNK, H_MCR, H_UNK, H_MCR,
      H_UNK, H_MCR, H_UNK, H_MCR,
      H_UNK, H_MCR, H_UNK, H_MCR,
      H_UNK, H_MCR, H_UNK, H_MCR,
      H_UNK, H_MRC, H_UNK, H_MRC,
      H_UNK, H_MRC, H_UNK, H_MRC,
      H_UNK, H_MRC, H_UNK, H_MRC,
      H_UNK, H_MRC, H_UNK, H_MRC,
      H_UNK, H_MCR, H_UNK, H_MCR,
      H_UNK, H_MCR, H_UNK, H_MCR,
      H_UNK, H_MCR, H_UNK, H_MCR,
      H_UNK, H_MCR, H_UNK, H_MCR,
      H_UNK, H_MRC, H_UNK, H_MRC,
      H_UNK, H_MRC, H_UNK, H_MRC,
      H_UNK, H_MRC, H_UNK, H_MRC,
      H_UNK, H_MRC, H_UNK, H_MRC,
      H_UNK, H_MCR, H_UNK, H_MCR,
      H_UNK, H_MCR, H_UNK, H_MCR,
      H_UNK, H_MCR, H_UNK, H_MCR,
      H_UNK, H_MCR, H_UNK, H_MCR,
      H_UNK, H_MRC, H_UNK, H_MRC,
      H_UNK, H_MRC, H_UNK, H_MRC,
      H_UNK, H_MRC, H_UNK, H_MRC,
      H_UNK, H_MRC, H_UNK, H_MRC,
      H_UNK, H_MCR, H_UNK, H_MCR,
      H_UNK, H_MCR, H_UNK, H_MCR,
      H_UNK, H_MCR, H_UNK, H_MCR,
      H_UNK, H_MCR, H_UNK, H_MCR,
      H_UNK, H_MRC, H_UNK, H_MRC,
      H_UNK, H_MRC, H_UNK, H_MRC,
      H_UNK, H_MRC, H_UNK, H_MRC,
      H_UNK, H_MRC, H_UNK, H_MRC,
      H_UNK, H_MCR, H_UNK, H_MCR,
      H_UNK, H_MCR, H_UNK, H_MCR,
      H_UNK, H_MCR, H_UNK, H_MCR,
      H_UNK, H_MCR, H_UNK, H_MCR,
      H_UNK, H_MRC, H_UNK, H_MRC,
      H_UNK, H_MRC, H_UNK, H_MRC,
      H_UNK, H_MRC, H_UNK, H_MRC,
      H_UNK, H_MRC, H_UNK, H_MRC,
      H_UNK, H_MCR, H_UNK, H_MCR,
      H_UNK, H_MCR, H_UNK, H_MCR,
      H_UNK, H_MCR, H_UNK, H_MCR,
      H_UNK, H_MCR, H_UNK, H_MCR,
      H_UNK, H_MRC, H_UNK, H_MRC,
      H_UNK, H_MRC, H_UNK, H_MRC,
      H_UNK, H_MRC, H_UNK, H_MRC,
      H_UNK, H_MRC, H_UNK, H_MRC,
      H_UNK, H_MCR, H_UNK, H_MCR,
      H_UNK, H_MCR, H_UNK, H_MCR,
      H_UNK, H_MCR, H_UNK, H_MCR,
      H_UNK, H_MCR, H_UNK, H_MCR,
      H_UNK, H_MRC, H_UNK, H_MRC,
      H_UNK, H_MRC, H_UNK, H_MRC,
      H_UNK, H_MRC, H_UNK, H_MRC,
      H_UNK, H_MRC, H_UNK, H_MRC,
      H_UNK, H_MCR, H_UNK, H_MCR,
      H_UNK, H_MCR, H_UNK, H_MCR,
      H_UNK, H_MCR, H_UNK, H_MCR,
      H_UNK, H_MCR, H_UNK, H_MCR,
      H_UNK, H_MRC, H_UNK, H_MRC,
      H_UNK, H_MRC, H_UNK, H_MRC,
      H_UNK, H_MRC, H_UNK, H_MRC,
      H_UNK, H_MRC, H_UNK, H_MRC]"

definition ARMInstrTable_F :: "a_instr list" where
  "ARMInstrTable_F =
     [H_SVC, H_SVC, H_SVC, H_SVC,
      H_SVC, H_SVC, H_SVC, H_SVC,
      H_SVC, H_SVC, H_SVC, H_SVC,
      H_SVC, H_SVC, H_SVC, H_SVC,
      H_SVC, H_SVC, H_SVC, H_SVC,
      H_SVC, H_SVC, H_SVC, H_SVC,
      H_SVC, H_SVC, H_SVC, H_SVC,
      H_SVC, H_SVC, H_SVC, H_SVC,
      H_SVC, H_SVC, H_SVC, H_SVC,
      H_SVC, H_SVC, H_SVC, H_SVC,
      H_SVC, H_SVC, H_SVC, H_SVC,
      H_SVC, H_SVC, H_SVC, H_SVC,
      H_SVC, H_SVC, H_SVC, H_SVC,
      H_SVC, H_SVC, H_SVC, H_SVC,
      H_SVC, H_SVC, H_SVC, H_SVC,
      H_SVC, H_SVC, H_SVC, H_SVC,
      H_SVC, H_SVC, H_SVC, H_SVC,
      H_SVC, H_SVC, H_SVC, H_SVC,
      H_SVC, H_SVC, H_SVC, H_SVC,
      H_SVC, H_SVC, H_SVC, H_SVC,
      H_SVC, H_SVC, H_SVC, H_SVC,
      H_SVC, H_SVC, H_SVC, H_SVC,
      H_SVC, H_SVC, H_SVC, H_SVC,
      H_SVC, H_SVC, H_SVC, H_SVC,
      H_SVC, H_SVC, H_SVC, H_SVC,
      H_SVC, H_SVC, H_SVC, H_SVC,
      H_SVC, H_SVC, H_SVC, H_SVC,
      H_SVC, H_SVC, H_SVC, H_SVC,
      H_SVC, H_SVC, H_SVC, H_SVC,
      H_SVC, H_SVC, H_SVC, H_SVC,
      H_SVC, H_SVC, H_SVC, H_SVC,
      H_SVC, H_SVC, H_SVC, H_SVC,
      H_SVC, H_SVC, H_SVC, H_SVC,
      H_SVC, H_SVC, H_SVC, H_SVC,
      H_SVC, H_SVC, H_SVC, H_SVC,
      H_SVC, H_SVC, H_SVC, H_SVC,
      H_SVC, H_SVC, H_SVC, H_SVC,
      H_SVC, H_SVC, H_SVC, H_SVC,
      H_SVC, H_SVC, H_SVC, H_SVC,
      H_SVC, H_SVC, H_SVC, H_SVC,
      H_SVC, H_SVC, H_SVC, H_SVC,
      H_SVC, H_SVC, H_SVC, H_SVC,
      H_SVC, H_SVC, H_SVC, H_SVC,
      H_SVC, H_SVC, H_SVC, H_SVC,
      H_SVC, H_SVC, H_SVC, H_SVC,
      H_SVC, H_SVC, H_SVC, H_SVC,
      H_SVC, H_SVC, H_SVC, H_SVC,
      H_SVC, H_SVC, H_SVC, H_SVC,
      H_SVC, H_SVC, H_SVC, H_SVC,
      H_SVC, H_SVC, H_SVC, H_SVC,
      H_SVC, H_SVC, H_SVC, H_SVC,
      H_SVC, H_SVC, H_SVC, H_SVC,
      H_SVC, H_SVC, H_SVC, H_SVC,
      H_SVC, H_SVC, H_SVC, H_SVC,
      H_SVC, H_SVC, H_SVC, H_SVC,
      H_SVC, H_SVC, H_SVC, H_SVC,
      H_SVC, H_SVC, H_SVC, H_SVC,
      H_SVC, H_SVC, H_SVC, H_SVC,
      H_SVC, H_SVC, H_SVC, H_SVC,
      H_SVC, H_SVC, H_SVC, H_SVC,
      H_SVC, H_SVC, H_SVC, H_SVC,
      H_SVC, H_SVC, H_SVC, H_SVC,
      H_SVC, H_SVC, H_SVC, H_SVC,
      H_SVC, H_SVC, H_SVC, H_SVC]"

definition ARMInstrTable :: "a_instr list" where
  "ARMInstrTable =
     ARMInstrTable_0 @ ARMInstrTable_1 @ ARMInstrTable_2 @ ARMInstrTable_3 @
     ARMInstrTable_4 @ ARMInstrTable_5 @ ARMInstrTable_6 @ ARMInstrTable_7 @
     ARMInstrTable_8 @ ARMInstrTable_9 @ ARMInstrTable_A @ ARMInstrTable_B @
     ARMInstrTable_C @ ARMInstrTable_D @ ARMInstrTable_E @ ARMInstrTable_F"

section \<open>The Thumb table\<close>

definition THUMBInstrTable_0 :: "t_instr list" where
  "THUMBInstrTable_0 =
     [HT_LSL_IMM, HT_LSL_IMM, HT_LSL_IMM, HT_LSL_IMM, HT_LSL_IMM, HT_LSL_IMM, HT_LSL_IMM, HT_LSL_IMM,
      HT_LSL_IMM, HT_LSL_IMM, HT_LSL_IMM, HT_LSL_IMM, HT_LSL_IMM, HT_LSL_IMM, HT_LSL_IMM, HT_LSL_IMM,
      HT_LSL_IMM, HT_LSL_IMM, HT_LSL_IMM, HT_LSL_IMM, HT_LSL_IMM, HT_LSL_IMM, HT_LSL_IMM, HT_LSL_IMM,
      HT_LSL_IMM, HT_LSL_IMM, HT_LSL_IMM, HT_LSL_IMM, HT_LSL_IMM, HT_LSL_IMM, HT_LSL_IMM, HT_LSL_IMM,
      HT_LSR_IMM, HT_LSR_IMM, HT_LSR_IMM, HT_LSR_IMM, HT_LSR_IMM, HT_LSR_IMM, HT_LSR_IMM, HT_LSR_IMM,
      HT_LSR_IMM, HT_LSR_IMM, HT_LSR_IMM, HT_LSR_IMM, HT_LSR_IMM, HT_LSR_IMM, HT_LSR_IMM, HT_LSR_IMM,
      HT_LSR_IMM, HT_LSR_IMM, HT_LSR_IMM, HT_LSR_IMM, HT_LSR_IMM, HT_LSR_IMM, HT_LSR_IMM, HT_LSR_IMM,
      HT_LSR_IMM, HT_LSR_IMM, HT_LSR_IMM, HT_LSR_IMM, HT_LSR_IMM, HT_LSR_IMM, HT_LSR_IMM, HT_LSR_IMM,
      HT_ASR_IMM, HT_ASR_IMM, HT_ASR_IMM, HT_ASR_IMM, HT_ASR_IMM, HT_ASR_IMM, HT_ASR_IMM, HT_ASR_IMM,
      HT_ASR_IMM, HT_ASR_IMM, HT_ASR_IMM, HT_ASR_IMM, HT_ASR_IMM, HT_ASR_IMM, HT_ASR_IMM, HT_ASR_IMM,
      HT_ASR_IMM, HT_ASR_IMM, HT_ASR_IMM, HT_ASR_IMM, HT_ASR_IMM, HT_ASR_IMM, HT_ASR_IMM, HT_ASR_IMM,
      HT_ASR_IMM, HT_ASR_IMM, HT_ASR_IMM, HT_ASR_IMM, HT_ASR_IMM, HT_ASR_IMM, HT_ASR_IMM, HT_ASR_IMM,
      HT_ADD_REG3, HT_ADD_REG3, HT_ADD_REG3, HT_ADD_REG3, HT_ADD_REG3, HT_ADD_REG3, HT_ADD_REG3, HT_ADD_REG3,
      HT_SUB_REG3, HT_SUB_REG3, HT_SUB_REG3, HT_SUB_REG3, HT_SUB_REG3, HT_SUB_REG3, HT_SUB_REG3, HT_SUB_REG3,
      HT_ADD_IMM3, HT_ADD_IMM3, HT_ADD_IMM3, HT_ADD_IMM3, HT_ADD_IMM3, HT_ADD_IMM3, HT_ADD_IMM3, HT_ADD_IMM3,
      HT_SUB_IMM3, HT_SUB_IMM3, HT_SUB_IMM3, HT_SUB_IMM3, HT_SUB_IMM3, HT_SUB_IMM3, HT_SUB_IMM3, HT_SUB_IMM3,
      HT_MOV_IMM, HT_MOV_IMM, HT_MOV_IMM, HT_MOV_IMM, HT_MOV_IMM, HT_MOV_IMM, HT_MOV_IMM, HT_MOV_IMM,
      HT_MOV_IMM, HT_MOV_IMM, HT_MOV_IMM, HT_MOV_IMM, HT_MOV_IMM, HT_MOV_IMM, HT_MOV_IMM, HT_MOV_IMM,
      HT_MOV_IMM, HT_MOV_IMM, HT_MOV_IMM, HT_MOV_IMM, HT_MOV_IMM, HT_MOV_IMM, HT_MOV_IMM, HT_MOV_IMM,
      HT_MOV_IMM, HT_MOV_IMM, HT_MOV_IMM, HT_MOV_IMM, HT_MOV_IMM, HT_MOV_IMM, HT_MOV_IMM, HT_MOV_IMM,
      HT_CMP_IMM, HT_CMP_IMM, HT_CMP_IMM, HT_CMP_IMM, HT_CMP_IMM, HT_CMP_IMM, HT_CMP_IMM, HT_CMP_IMM,
      HT_CMP_IMM, HT_CMP_IMM, HT_CMP_IMM, HT_CMP_IMM, HT_CMP_IMM, HT_CMP_IMM, HT_CMP_IMM, HT_CMP_IMM,
      HT_CMP_IMM, HT_CMP_IMM, HT_CMP_IMM, HT_CMP_IMM, HT_CMP_IMM, HT_CMP_IMM, HT_CMP_IMM, HT_CMP_IMM,
      HT_CMP_IMM, HT_CMP_IMM, HT_CMP_IMM, HT_CMP_IMM, HT_CMP_IMM, HT_CMP_IMM, HT_CMP_IMM, HT_CMP_IMM,
      HT_ADD_IMM, HT_ADD_IMM, HT_ADD_IMM, HT_ADD_IMM, HT_ADD_IMM, HT_ADD_IMM, HT_ADD_IMM, HT_ADD_IMM,
      HT_ADD_IMM, HT_ADD_IMM, HT_ADD_IMM, HT_ADD_IMM, HT_ADD_IMM, HT_ADD_IMM, HT_ADD_IMM, HT_ADD_IMM,
      HT_ADD_IMM, HT_ADD_IMM, HT_ADD_IMM, HT_ADD_IMM, HT_ADD_IMM, HT_ADD_IMM, HT_ADD_IMM, HT_ADD_IMM,
      HT_ADD_IMM, HT_ADD_IMM, HT_ADD_IMM, HT_ADD_IMM, HT_ADD_IMM, HT_ADD_IMM, HT_ADD_IMM, HT_ADD_IMM,
      HT_SUB_IMM, HT_SUB_IMM, HT_SUB_IMM, HT_SUB_IMM, HT_SUB_IMM, HT_SUB_IMM, HT_SUB_IMM, HT_SUB_IMM,
      HT_SUB_IMM, HT_SUB_IMM, HT_SUB_IMM, HT_SUB_IMM, HT_SUB_IMM, HT_SUB_IMM, HT_SUB_IMM, HT_SUB_IMM,
      HT_SUB_IMM, HT_SUB_IMM, HT_SUB_IMM, HT_SUB_IMM, HT_SUB_IMM, HT_SUB_IMM, HT_SUB_IMM, HT_SUB_IMM,
      HT_SUB_IMM, HT_SUB_IMM, HT_SUB_IMM, HT_SUB_IMM, HT_SUB_IMM, HT_SUB_IMM, HT_SUB_IMM, HT_SUB_IMM]"

definition THUMBInstrTable_1 :: "t_instr list" where
  "THUMBInstrTable_1 =
     [HT_AND_REG, HT_EOR_REG, HT_LSL_REG, HT_LSR_REG, HT_ASR_REG, HT_ADC_REG, HT_SBC_REG, HT_ROR_REG,
      HT_TST_REG, HT_NEG_REG, HT_CMP_REG, HT_CMN_REG, HT_ORR_REG, HT_MUL_REG, HT_BIC_REG, HT_MVN_REG,
      HT_ADD_HIREG, HT_ADD_HIREG, HT_ADD_HIREG, HT_ADD_HIREG, HT_CMP_HIREG, HT_CMP_HIREG, HT_CMP_HIREG, HT_CMP_HIREG,
      HT_MOV_HIREG, HT_MOV_HIREG, HT_MOV_HIREG, HT_MOV_HIREG, HT_BX, HT_BX, HT_BLX_REG, HT_BLX_REG,
      HT_LDR_PCREL, HT_LDR_PCREL, HT_LDR_PCREL, HT_LDR_PCREL, HT_LDR_PCREL, HT_LDR_PCREL, HT_LDR_PCREL, HT_LDR_PCREL,
      HT_LDR_PCREL, HT_LDR_PCREL, HT_LDR_PCREL, HT_LDR_PCREL, HT_LDR_PCREL, HT_LDR_PCREL, HT_LDR_PCREL, HT_LDR_PCREL,
      HT_LDR_PCREL, HT_LDR_PCREL, HT_LDR_PCREL, HT_LDR_PCREL, HT_LDR_PCREL, HT_LDR_PCREL, HT_LDR_PCREL, HT_LDR_PCREL,
      HT_LDR_PCREL, HT_LDR_PCREL, HT_LDR_PCREL, HT_LDR_PCREL, HT_LDR_PCREL, HT_LDR_PCREL, HT_LDR_PCREL, HT_LDR_PCREL,
      HT_STR_REG, HT_STR_REG, HT_STR_REG, HT_STR_REG, HT_STR_REG, HT_STR_REG, HT_STR_REG, HT_STR_REG,
      HT_STRH_REG, HT_STRH_REG, HT_STRH_REG, HT_STRH_REG, HT_STRH_REG, HT_STRH_REG, HT_STRH_REG, HT_STRH_REG,
      HT_STRB_REG, HT_STRB_REG, HT_STRB_REG, HT_STRB_REG, HT_STRB_REG, HT_STRB_REG, HT_STRB_REG, HT_STRB_REG,
      HT_LDRSB_REG, HT_LDRSB_REG, HT_LDRSB_REG, HT_LDRSB_REG, HT_LDRSB_REG, HT_LDRSB_REG, HT_LDRSB_REG, HT_LDRSB_REG,
      HT_LDR_REG, HT_LDR_REG, HT_LDR_REG, HT_LDR_REG, HT_LDR_REG, HT_LDR_REG, HT_LDR_REG, HT_LDR_REG,
      HT_LDRH_REG, HT_LDRH_REG, HT_LDRH_REG, HT_LDRH_REG, HT_LDRH_REG, HT_LDRH_REG, HT_LDRH_REG, HT_LDRH_REG,
      HT_LDRB_REG, HT_LDRB_REG, HT_LDRB_REG, HT_LDRB_REG, HT_LDRB_REG, HT_LDRB_REG, HT_LDRB_REG, HT_LDRB_REG,
      HT_LDRSH_REG, HT_LDRSH_REG, HT_LDRSH_REG, HT_LDRSH_REG, HT_LDRSH_REG, HT_LDRSH_REG, HT_LDRSH_REG, HT_LDRSH_REG,
      HT_STR_IMM, HT_STR_IMM, HT_STR_IMM, HT_STR_IMM, HT_STR_IMM, HT_STR_IMM, HT_STR_IMM, HT_STR_IMM,
      HT_STR_IMM, HT_STR_IMM, HT_STR_IMM, HT_STR_IMM, HT_STR_IMM, HT_STR_IMM, HT_STR_IMM, HT_STR_IMM,
      HT_STR_IMM, HT_STR_IMM, HT_STR_IMM, HT_STR_IMM, HT_STR_IMM, HT_STR_IMM, HT_STR_IMM, HT_STR_IMM,
      HT_STR_IMM, HT_STR_IMM, HT_STR_IMM, HT_STR_IMM, HT_STR_IMM, HT_STR_IMM, HT_STR_IMM, HT_STR_IMM,
      HT_LDR_IMM, HT_LDR_IMM, HT_LDR_IMM, HT_LDR_IMM, HT_LDR_IMM, HT_LDR_IMM, HT_LDR_IMM, HT_LDR_IMM,
      HT_LDR_IMM, HT_LDR_IMM, HT_LDR_IMM, HT_LDR_IMM, HT_LDR_IMM, HT_LDR_IMM, HT_LDR_IMM, HT_LDR_IMM,
      HT_LDR_IMM, HT_LDR_IMM, HT_LDR_IMM, HT_LDR_IMM, HT_LDR_IMM, HT_LDR_IMM, HT_LDR_IMM, HT_LDR_IMM,
      HT_LDR_IMM, HT_LDR_IMM, HT_LDR_IMM, HT_LDR_IMM, HT_LDR_IMM, HT_LDR_IMM, HT_LDR_IMM, HT_LDR_IMM,
      HT_STRB_IMM, HT_STRB_IMM, HT_STRB_IMM, HT_STRB_IMM, HT_STRB_IMM, HT_STRB_IMM, HT_STRB_IMM, HT_STRB_IMM,
      HT_STRB_IMM, HT_STRB_IMM, HT_STRB_IMM, HT_STRB_IMM, HT_STRB_IMM, HT_STRB_IMM, HT_STRB_IMM, HT_STRB_IMM,
      HT_STRB_IMM, HT_STRB_IMM, HT_STRB_IMM, HT_STRB_IMM, HT_STRB_IMM, HT_STRB_IMM, HT_STRB_IMM, HT_STRB_IMM,
      HT_STRB_IMM, HT_STRB_IMM, HT_STRB_IMM, HT_STRB_IMM, HT_STRB_IMM, HT_STRB_IMM, HT_STRB_IMM, HT_STRB_IMM,
      HT_LDRB_IMM, HT_LDRB_IMM, HT_LDRB_IMM, HT_LDRB_IMM, HT_LDRB_IMM, HT_LDRB_IMM, HT_LDRB_IMM, HT_LDRB_IMM,
      HT_LDRB_IMM, HT_LDRB_IMM, HT_LDRB_IMM, HT_LDRB_IMM, HT_LDRB_IMM, HT_LDRB_IMM, HT_LDRB_IMM, HT_LDRB_IMM,
      HT_LDRB_IMM, HT_LDRB_IMM, HT_LDRB_IMM, HT_LDRB_IMM, HT_LDRB_IMM, HT_LDRB_IMM, HT_LDRB_IMM, HT_LDRB_IMM,
      HT_LDRB_IMM, HT_LDRB_IMM, HT_LDRB_IMM, HT_LDRB_IMM, HT_LDRB_IMM, HT_LDRB_IMM, HT_LDRB_IMM, HT_LDRB_IMM]"

definition THUMBInstrTable_2 :: "t_instr list" where
  "THUMBInstrTable_2 =
     [HT_STRH_IMM, HT_STRH_IMM, HT_STRH_IMM, HT_STRH_IMM, HT_STRH_IMM, HT_STRH_IMM, HT_STRH_IMM, HT_STRH_IMM,
      HT_STRH_IMM, HT_STRH_IMM, HT_STRH_IMM, HT_STRH_IMM, HT_STRH_IMM, HT_STRH_IMM, HT_STRH_IMM, HT_STRH_IMM,
      HT_STRH_IMM, HT_STRH_IMM, HT_STRH_IMM, HT_STRH_IMM, HT_STRH_IMM, HT_STRH_IMM, HT_STRH_IMM, HT_STRH_IMM,
      HT_STRH_IMM, HT_STRH_IMM, HT_STRH_IMM, HT_STRH_IMM, HT_STRH_IMM, HT_STRH_IMM, HT_STRH_IMM, HT_STRH_IMM,
      HT_LDRH_IMM, HT_LDRH_IMM, HT_LDRH_IMM, HT_LDRH_IMM, HT_LDRH_IMM, HT_LDRH_IMM, HT_LDRH_IMM, HT_LDRH_IMM,
      HT_LDRH_IMM, HT_LDRH_IMM, HT_LDRH_IMM, HT_LDRH_IMM, HT_LDRH_IMM, HT_LDRH_IMM, HT_LDRH_IMM, HT_LDRH_IMM,
      HT_LDRH_IMM, HT_LDRH_IMM, HT_LDRH_IMM, HT_LDRH_IMM, HT_LDRH_IMM, HT_LDRH_IMM, HT_LDRH_IMM, HT_LDRH_IMM,
      HT_LDRH_IMM, HT_LDRH_IMM, HT_LDRH_IMM, HT_LDRH_IMM, HT_LDRH_IMM, HT_LDRH_IMM, HT_LDRH_IMM, HT_LDRH_IMM,
      HT_STR_SPREL, HT_STR_SPREL, HT_STR_SPREL, HT_STR_SPREL, HT_STR_SPREL, HT_STR_SPREL, HT_STR_SPREL, HT_STR_SPREL,
      HT_STR_SPREL, HT_STR_SPREL, HT_STR_SPREL, HT_STR_SPREL, HT_STR_SPREL, HT_STR_SPREL, HT_STR_SPREL, HT_STR_SPREL,
      HT_STR_SPREL, HT_STR_SPREL, HT_STR_SPREL, HT_STR_SPREL, HT_STR_SPREL, HT_STR_SPREL, HT_STR_SPREL, HT_STR_SPREL,
      HT_STR_SPREL, HT_STR_SPREL, HT_STR_SPREL, HT_STR_SPREL, HT_STR_SPREL, HT_STR_SPREL, HT_STR_SPREL, HT_STR_SPREL,
      HT_LDR_SPREL, HT_LDR_SPREL, HT_LDR_SPREL, HT_LDR_SPREL, HT_LDR_SPREL, HT_LDR_SPREL, HT_LDR_SPREL, HT_LDR_SPREL,
      HT_LDR_SPREL, HT_LDR_SPREL, HT_LDR_SPREL, HT_LDR_SPREL, HT_LDR_SPREL, HT_LDR_SPREL, HT_LDR_SPREL, HT_LDR_SPREL,
      HT_LDR_SPREL, HT_LDR_SPREL, HT_LDR_SPREL, HT_LDR_SPREL, HT_LDR_SPREL, HT_LDR_SPREL, HT_LDR_SPREL, HT_LDR_SPREL,
      HT_LDR_SPREL, HT_LDR_SPREL, HT_LDR_SPREL, HT_LDR_SPREL, HT_LDR_SPREL, HT_LDR_SPREL, HT_LDR_SPREL, HT_LDR_SPREL,
      HT_ADD_PCREL, HT_ADD_PCREL, HT_ADD_PCREL, HT_ADD_PCREL, HT_ADD_PCREL, HT_ADD_PCREL, HT_ADD_PCREL, HT_ADD_PCREL,
      HT_ADD_PCREL, HT_ADD_PCREL, HT_ADD_PCREL, HT_ADD_PCREL, HT_ADD_PCREL, HT_ADD_PCREL, HT_ADD_PCREL, HT_ADD_PCREL,
      HT_ADD_PCREL, HT_ADD_PCREL, HT_ADD_PCREL, HT_ADD_PCREL, HT_ADD_PCREL, HT_ADD_PCREL, HT_ADD_PCREL, HT_ADD_PCREL,
      HT_ADD_PCREL, HT_ADD_PCREL, HT_ADD_PCREL, HT_ADD_PCREL, HT_ADD_PCREL, HT_ADD_PCREL, HT_ADD_PCREL, HT_ADD_PCREL,
      HT_ADD_SPREL, HT_ADD_SPREL, HT_ADD_SPREL, HT_ADD_SPREL, HT_ADD_SPREL, HT_ADD_SPREL, HT_ADD_SPREL, HT_ADD_SPREL,
      HT_ADD_SPREL, HT_ADD_SPREL, HT_ADD_SPREL, HT_ADD_SPREL, HT_ADD_SPREL, HT_ADD_SPREL, HT_ADD_SPREL, HT_ADD_SPREL,
      HT_ADD_SPREL, HT_ADD_SPREL, HT_ADD_SPREL, HT_ADD_SPREL, HT_ADD_SPREL, HT_ADD_SPREL, HT_ADD_SPREL, HT_ADD_SPREL,
      HT_ADD_SPREL, HT_ADD_SPREL, HT_ADD_SPREL, HT_ADD_SPREL, HT_ADD_SPREL, HT_ADD_SPREL, HT_ADD_SPREL, HT_ADD_SPREL,
      HT_ADD_SP, HT_ADD_SP, HT_ADD_SP, HT_ADD_SP, HT_UNK, HT_UNK, HT_UNK, HT_UNK,
      HT_UNK, HT_UNK, HT_UNK, HT_UNK, HT_UNK, HT_UNK, HT_UNK, HT_UNK,
      HT_PUSH, HT_PUSH, HT_PUSH, HT_PUSH, HT_PUSH, HT_PUSH, HT_PUSH, HT_PUSH,
      HT_UNK, HT_UNK, HT_UNK, HT_UNK, HT_UNK, HT_UNK, HT_UNK, HT_UNK,
      HT_UNK, HT_UNK, HT_UNK, HT_UNK, HT_UNK, HT_UNK, HT_UNK, HT_UNK,
      HT_UNK, HT_UNK, HT_UNK, HT_UNK, HT_UNK, HT_UNK, HT_UNK, HT_UNK,
      HT_POP, HT_POP, HT_POP, HT_POP, HT_POP, HT_POP, HT_POP, HT_POP,
      HT_UNK, HT_UNK, HT_UNK, HT_UNK, HT_UNK, HT_UNK, HT_UNK, HT_UNK]"

definition THUMBInstrTable_3 :: "t_instr list" where
  "THUMBInstrTable_3 =
     [HT_STMIA, HT_STMIA, HT_STMIA, HT_STMIA, HT_STMIA, HT_STMIA, HT_STMIA, HT_STMIA,
      HT_STMIA, HT_STMIA, HT_STMIA, HT_STMIA, HT_STMIA, HT_STMIA, HT_STMIA, HT_STMIA,
      HT_STMIA, HT_STMIA, HT_STMIA, HT_STMIA, HT_STMIA, HT_STMIA, HT_STMIA, HT_STMIA,
      HT_STMIA, HT_STMIA, HT_STMIA, HT_STMIA, HT_STMIA, HT_STMIA, HT_STMIA, HT_STMIA,
      HT_LDMIA, HT_LDMIA, HT_LDMIA, HT_LDMIA, HT_LDMIA, HT_LDMIA, HT_LDMIA, HT_LDMIA,
      HT_LDMIA, HT_LDMIA, HT_LDMIA, HT_LDMIA, HT_LDMIA, HT_LDMIA, HT_LDMIA, HT_LDMIA,
      HT_LDMIA, HT_LDMIA, HT_LDMIA, HT_LDMIA, HT_LDMIA, HT_LDMIA, HT_LDMIA, HT_LDMIA,
      HT_LDMIA, HT_LDMIA, HT_LDMIA, HT_LDMIA, HT_LDMIA, HT_LDMIA, HT_LDMIA, HT_LDMIA,
      HT_BCOND, HT_BCOND, HT_BCOND, HT_BCOND, HT_BCOND, HT_BCOND, HT_BCOND, HT_BCOND,
      HT_BCOND, HT_BCOND, HT_BCOND, HT_BCOND, HT_BCOND, HT_BCOND, HT_BCOND, HT_BCOND,
      HT_BCOND, HT_BCOND, HT_BCOND, HT_BCOND, HT_BCOND, HT_BCOND, HT_BCOND, HT_BCOND,
      HT_BCOND, HT_BCOND, HT_BCOND, HT_BCOND, HT_BCOND, HT_BCOND, HT_BCOND, HT_BCOND,
      HT_BCOND, HT_BCOND, HT_BCOND, HT_BCOND, HT_BCOND, HT_BCOND, HT_BCOND, HT_BCOND,
      HT_BCOND, HT_BCOND, HT_BCOND, HT_BCOND, HT_BCOND, HT_BCOND, HT_BCOND, HT_BCOND,
      HT_BCOND, HT_BCOND, HT_BCOND, HT_BCOND, HT_BCOND, HT_BCOND, HT_BCOND, HT_BCOND,
      HT_UNK, HT_UNK, HT_UNK, HT_UNK, HT_SVC, HT_SVC, HT_SVC, HT_SVC,
      HT_B, HT_B, HT_B, HT_B, HT_B, HT_B, HT_B, HT_B,
      HT_B, HT_B, HT_B, HT_B, HT_B, HT_B, HT_B, HT_B,
      HT_B, HT_B, HT_B, HT_B, HT_B, HT_B, HT_B, HT_B,
      HT_B, HT_B, HT_B, HT_B, HT_B, HT_B, HT_B, HT_B,
      HT_BL_LONG_2, HT_BL_LONG_2, HT_BL_LONG_2, HT_BL_LONG_2, HT_BL_LONG_2, HT_BL_LONG_2, HT_BL_LONG_2, HT_BL_LONG_2,
      HT_BL_LONG_2, HT_BL_LONG_2, HT_BL_LONG_2, HT_BL_LONG_2, HT_BL_LONG_2, HT_BL_LONG_2, HT_BL_LONG_2, HT_BL_LONG_2,
      HT_BL_LONG_2, HT_BL_LONG_2, HT_BL_LONG_2, HT_BL_LONG_2, HT_BL_LONG_2, HT_BL_LONG_2, HT_BL_LONG_2, HT_BL_LONG_2,
      HT_BL_LONG_2, HT_BL_LONG_2, HT_BL_LONG_2, HT_BL_LONG_2, HT_BL_LONG_2, HT_BL_LONG_2, HT_BL_LONG_2, HT_BL_LONG_2,
      HT_BL_LONG_1, HT_BL_LONG_1, HT_BL_LONG_1, HT_BL_LONG_1, HT_BL_LONG_1, HT_BL_LONG_1, HT_BL_LONG_1, HT_BL_LONG_1,
      HT_BL_LONG_1, HT_BL_LONG_1, HT_BL_LONG_1, HT_BL_LONG_1, HT_BL_LONG_1, HT_BL_LONG_1, HT_BL_LONG_1, HT_BL_LONG_1,
      HT_BL_LONG_1, HT_BL_LONG_1, HT_BL_LONG_1, HT_BL_LONG_1, HT_BL_LONG_1, HT_BL_LONG_1, HT_BL_LONG_1, HT_BL_LONG_1,
      HT_BL_LONG_1, HT_BL_LONG_1, HT_BL_LONG_1, HT_BL_LONG_1, HT_BL_LONG_1, HT_BL_LONG_1, HT_BL_LONG_1, HT_BL_LONG_1,
      HT_BL_LONG_2, HT_BL_LONG_2, HT_BL_LONG_2, HT_BL_LONG_2, HT_BL_LONG_2, HT_BL_LONG_2, HT_BL_LONG_2, HT_BL_LONG_2,
      HT_BL_LONG_2, HT_BL_LONG_2, HT_BL_LONG_2, HT_BL_LONG_2, HT_BL_LONG_2, HT_BL_LONG_2, HT_BL_LONG_2, HT_BL_LONG_2,
      HT_BL_LONG_2, HT_BL_LONG_2, HT_BL_LONG_2, HT_BL_LONG_2, HT_BL_LONG_2, HT_BL_LONG_2, HT_BL_LONG_2, HT_BL_LONG_2,
      HT_BL_LONG_2, HT_BL_LONG_2, HT_BL_LONG_2, HT_BL_LONG_2, HT_BL_LONG_2, HT_BL_LONG_2, HT_BL_LONG_2, HT_BL_LONG_2]"

definition THUMBInstrTable :: "t_instr list" where
  "THUMBInstrTable = THUMBInstrTable_0 @ THUMBInstrTable_1 @ THUMBInstrTable_2 @ THUMBInstrTable_3"

end
