(* ===== verification/ArmDecode.thy ===== *)
theory ArmDecode
  imports ArmTable
begin

text \<open>
  The instruction encoding, written from the fields of the ARMv5TE and Thumb encodings, and the
  agreement of the dispatch tables of \<^verbatim>\<open>src/src/ARM_InstrTable.h\<close> with it.  The ARM key is
  three hexadecimal digits: \<open>h\<close> is bits 27-24, \<open>m\<close> bits 23-20 and \<open>l\<close> bits 7-4 of the
  instruction; the table's index is \<open>256 h + 16 m + l\<close>.  One entry disagrees: the table sends
  \<open>EORS Rd, Rn, Rm, LSR #imm\<close> with an odd shift amount (key \<open>0 3 A\<close>) to the \<open>ROR\<close> handler.
\<close>

section \<open>The ARM encoding\<close>

definition dp_ops :: "alu_op list" where
  "dp_ops = [OP_AND, OP_EOR, OP_SUB, OP_RSB, OP_ADD, OP_ADC, OP_SBC, OP_RSC,
             OP_TST, OP_TEQ, OP_CMP, OP_CMN, OP_ORR, OP_MOV, OP_BIC, OP_MVN]"

definition sh_ops :: "shiftop list" where
  "sh_ops = [SH_LSL, SH_LSR, SH_ASR, SH_ROR]"

text \<open>Bits 6-5 select the shift, bit 4 a shift by register.\<close>

definition dec_shifted :: "nat \<Rightarrow> operand2" where
  "dec_shifted l =
     (if odd l then REG_REG (sh_ops ! (l div 2 mod 4)) else REG_IMM (sh_ops ! (l div 2 mod 4)))"

text \<open>Data processing: opcode in bits 24-21, S in bit 20; a test always sets flags.\<close>

definition dec_dp :: "nat \<Rightarrow> bool \<Rightarrow> operand2 \<Rightarrow> a_instr" where
  "dec_dp opc s f =
     (if 8 \<le> opc \<and> opc < 12 then H_TEST (dp_ops ! opc) f
      else if s then H_ALU_S (dp_ops ! opc) f else H_ALU (dp_ops ! opc) f)"

text \<open>Halfword and doubleword transfers: bit 22 immediate offset, bit 20 load, bits 6-5 kind.\<close>

definition dec_hd :: "bool \<Rightarrow> nat \<Rightarrow> nat \<Rightarrow> a_instr" where
  "dec_hd post m l =
     (let imm = odd (m div 4); load = odd m
      in if l = 0xB then H_HD (if load then HD_LDRH else HD_STRH) post imm
         else if l = 0xD then H_HD (if load then HD_LDRSB else HD_LDRD) post imm
         else H_HD (if load then HD_LDRSH else HD_STRD) post imm)"

text \<open>Bits 27-24 zero: data processing, multiplies, post-indexed halfword transfers.\<close>

definition dec_0 :: "nat \<Rightarrow> nat \<Rightarrow> a_instr" where
  "dec_0 m l =
     (if l = 9 then [H_MUL, H_MLA, H_UNK, H_UNK, H_UMULL, H_UMLAL, H_SMULL, H_SMLAL] ! (m div 2)
      else if l = 0xB \<or> l = 0xD \<or> l = 0xF
      then if odd (m div 2) then H_UNK else dec_hd True m l
      else dec_dp (m div 2) (odd m) (dec_shifted l))"

text \<open>The opcodes 8 to 11 without S: status register access and the ARMv5TE additions.\<close>

definition dec_misc :: "nat \<Rightarrow> nat \<Rightarrow> a_instr" where
  "dec_misc m l =
     (if l = 0 then if m = 0 \<or> m = 4 then H_MRS else H_MSR_REG
      else if l = 1 \<and> m = 2 then H_BX
      else if l = 1 \<and> m = 6 then H_CLZ
      else if l = 3 \<and> m = 2 then H_BLX_REG
      else if l = 5 then if m = 0 then H_QADD else if m = 2 then H_QSUB
                         else if m = 4 then H_QDADD else H_QDSUB
      else if 8 \<le> l \<and> even l
      then if m = 0 then H_SMLAxy
           else if m = 2 then if odd (l div 2) then H_SMULWy else H_SMLAWy
           else if m = 4 then H_SMLALxy else H_SMULxy
      else H_UNK)"

text \<open>\<open>MOV\<close> with an immediate \<open>LSL\<close> goes through its debug hook.\<close>

definition dec_1 :: "nat \<Rightarrow> nat \<Rightarrow> a_instr" where
  "dec_1 m l =
     (if l = 9 then if m = 0 then H_SWP else if m = 4 then H_SWPB else H_UNK
      else if l = 0xB \<or> l = 0xD \<or> l = 0xF then dec_hd False m l
      else if m < 8 \<and> even m then dec_misc m l
      else if m = 0xA \<and> l = 0 then H_MOV_DBG
      else dec_dp (8 + m div 2) (odd m) (dec_shifted l))"

definition dec_imm :: "nat \<Rightarrow> nat \<Rightarrow> a_instr" where
  "dec_imm h m =
     (if h = 3 \<and> m < 8 \<and> even m then if m = 2 \<or> m = 6 then H_MSR_IMM else H_UNK
      else dec_dp (8 * (h - 2) + m div 2) (odd m) IMM)"

definition dec_wb :: "bool \<Rightarrow> nat \<Rightarrow> wb_off \<Rightarrow> a_instr" where
  "dec_wb post m off =
     (let load = odd m; byte = odd (m div 4)
      in H_WB (if load then if byte then WB_LDRB else WB_LDR
               else if byte then WB_STRB else WB_STR) post off)"

definition arm_decode :: "nat \<Rightarrow> nat \<Rightarrow> nat \<Rightarrow> a_instr" where
  "arm_decode h m l =
     (if h = 0 then dec_0 m l
      else if h = 1 then dec_1 m l
      else if h = 2 \<or> h = 3 then dec_imm h m
      else if h = 4 \<or> h = 5 then dec_wb (h = 4) m OFF_IMM
      else if h = 6 \<or> h = 7
      then if odd l then H_UNK else dec_wb (h = 6) m (OFF_REG (sh_ops ! (l div 2 mod 4)))
      else if h = 8 \<or> h = 9 then if odd m then H_LDM else H_STM
      else if h = 0xA then H_B
      else if h = 0xB then H_BL
      else if h = 0xC \<or> h = 0xD then H_UNK
      else if h = 0xE then if odd l then if odd m then H_MRC else H_MCR else H_UNK
      else H_SVC)"

section \<open>The Thumb encoding\<close>

text \<open>The key is \<open>h\<close> = bits 15-12, \<open>m\<close> = bits 11-8 and \<open>q\<close> = bits 7-6.\<close>

definition dec_thumb4 :: "nat \<Rightarrow> nat \<Rightarrow> t_instr" where
  "dec_thumb4 m q =
     (if m < 4
      then [HT_AND_REG, HT_EOR_REG, HT_LSL_REG, HT_LSR_REG, HT_ASR_REG, HT_ADC_REG, HT_SBC_REG,
            HT_ROR_REG, HT_TST_REG, HT_NEG_REG, HT_CMP_REG, HT_CMN_REG, HT_ORR_REG, HT_MUL_REG,
            HT_BIC_REG, HT_MVN_REG] ! (4 * m + q)
      else if m = 4 then HT_ADD_HIREG
      else if m = 5 then HT_CMP_HIREG
      else if m = 6 then HT_MOV_HIREG
      else if m = 7 then if q < 2 then HT_BX else HT_BLX_REG
      else HT_LDR_PCREL)"

definition dec_thumbB :: "nat \<Rightarrow> nat \<Rightarrow> t_instr" where
  "dec_thumbB m q =
     (if m = 0 then HT_ADD_SP
      else if m = 4 \<or> m = 5 then HT_PUSH
      else if m = 0xC \<or> m = 0xD then HT_POP
      else HT_UNK)"

definition thumb_decode :: "nat \<Rightarrow> nat \<Rightarrow> nat \<Rightarrow> t_instr" where
  "thumb_decode h m q =
     (if h = 0 then if m < 8 then HT_LSL_IMM else HT_LSR_IMM
      else if h = 1
      then if m < 8 then HT_ASR_IMM
           else [HT_ADD_REG3, HT_SUB_REG3, HT_ADD_IMM3, HT_SUB_IMM3] ! ((m - 8) div 2)
      else if h = 2 then if m < 8 then HT_MOV_IMM else HT_CMP_IMM
      else if h = 3 then if m < 8 then HT_ADD_IMM else HT_SUB_IMM
      else if h = 4 then dec_thumb4 m q
      else if h = 5
      then [HT_STR_REG, HT_STRH_REG, HT_STRB_REG, HT_LDRSB_REG, HT_LDR_REG, HT_LDRH_REG,
            HT_LDRB_REG, HT_LDRSH_REG] ! (m div 2)
      else if h = 6 then if m < 8 then HT_STR_IMM else HT_LDR_IMM
      else if h = 7 then if m < 8 then HT_STRB_IMM else HT_LDRB_IMM
      else if h = 8 then if m < 8 then HT_STRH_IMM else HT_LDRH_IMM
      else if h = 9 then if m < 8 then HT_STR_SPREL else HT_LDR_SPREL
      else if h = 0xA then if m < 8 then HT_ADD_PCREL else HT_ADD_SPREL
      else if h = 0xB then dec_thumbB m q
      else if h = 0xC then if m < 8 then HT_STMIA else HT_LDMIA
      else if h = 0xD then if m < 0xE then HT_BCOND else if m = 0xE then HT_UNK else HT_SVC
      else if h = 0xE then if m < 8 then HT_B else HT_BL_LONG_2
      else if m < 8 then HT_BL_LONG_1 else HT_BL_LONG_2)"

section \<open>The tables agree with the encodings\<close>

lemma upto16: "[0..<16] = [0, 1, 2, 3, 4, 5, 6, 7, 8, 9, 10, 11, 12, 13, 14, 15::nat]"
  by (simp add: upt_rec)

lemma upto4: "[0..<4] = [0, 1, 2, 3::nat]"
  by (simp add: upt_rec)

lemma length_concat_rows: "\<forall>i < n. length (f i) = k \<Longrightarrow> length (concat (map f [0..<n])) = n * k"
  by (induction n) auto

text \<open>An entry of a table laid out as \<open>n\<close> rows of \<open>k\<close> entries.\<close>

lemma nth_concat_rows:
  "\<forall>i < n. length (f i) = k \<Longrightarrow> i < n \<Longrightarrow> j < k \<Longrightarrow> concat (map f [0..<n]) ! (k * i + j) = f i ! j"
proof (induction n)
  case 0
  then show ?case by simp
next
  case (Suc n)
  have len: "length (concat (map f [0..<n])) = n * k"
    using Suc.prems(1) by (intro length_concat_rows) simp
  show ?case
  proof (cases "i < n")
    case True
    have "k * i + j < k * Suc i" using Suc.prems(3) by simp
    also have "k * Suc i \<le> k * n" using True by (intro mult_le_mono2) simp
    finally show ?thesis using Suc True len by (simp add: nth_append mult.commute)
  next
    case False
    with Suc.prems have "i = n" by simp
    with Suc.prems len show ?thesis by (simp add: nth_append mult.commute)
  qed
qed

text \<open>The decoder with the one entry that the table has different.\<close>

definition table_entry :: "nat \<Rightarrow> nat \<Rightarrow> nat \<Rightarrow> a_instr" where
  "table_entry h m l =
     (if h = 0 \<and> m = 3 \<and> l = 0xA then H_ALU_S OP_EOR (REG_IMM SH_ROR) else arm_decode h m l)"

definition table_block :: "nat \<Rightarrow> a_instr list" where
  "table_block h = concat (map (\<lambda>m. map (table_entry h m) [0..<16]) [0..<16])"

lemmas decode_simps = table_entry_def arm_decode_def dec_0_def dec_1_def dec_misc_def dec_imm_def
  dec_wb_def dec_hd_def dec_dp_def dec_shifted_def dp_ops_def sh_ops_def

lemma table_block_0: "ARMInstrTable_0 = table_block 0"
  by (simp add: ARMInstrTable_0_def table_block_def upto16 decode_simps)

lemma table_block_1: "ARMInstrTable_1 = table_block 1"
  by (simp add: ARMInstrTable_1_def table_block_def upto16 decode_simps)

lemma table_block_2: "ARMInstrTable_2 = table_block 2"
  by (simp add: ARMInstrTable_2_def table_block_def upto16 decode_simps)

lemma table_block_3: "ARMInstrTable_3 = table_block 3"
  by (simp add: ARMInstrTable_3_def table_block_def upto16 decode_simps)

lemma table_block_4: "ARMInstrTable_4 = table_block 4"
  by (simp add: ARMInstrTable_4_def table_block_def upto16 decode_simps)

lemma table_block_5: "ARMInstrTable_5 = table_block 5"
  by (simp add: ARMInstrTable_5_def table_block_def upto16 decode_simps)

lemma table_block_6: "ARMInstrTable_6 = table_block 6"
  by (simp add: ARMInstrTable_6_def table_block_def upto16 decode_simps)

lemma table_block_7: "ARMInstrTable_7 = table_block 7"
  by (simp add: ARMInstrTable_7_def table_block_def upto16 decode_simps)

lemma table_block_8: "ARMInstrTable_8 = table_block 8"
  by (simp add: ARMInstrTable_8_def table_block_def upto16 decode_simps)

lemma table_block_9: "ARMInstrTable_9 = table_block 9"
  by (simp add: ARMInstrTable_9_def table_block_def upto16 decode_simps)

lemma table_block_A: "ARMInstrTable_A = table_block 10"
  by (simp add: ARMInstrTable_A_def table_block_def upto16 decode_simps)

lemma table_block_B: "ARMInstrTable_B = table_block 11"
  by (simp add: ARMInstrTable_B_def table_block_def upto16 decode_simps)

lemma table_block_C: "ARMInstrTable_C = table_block 12"
  by (simp add: ARMInstrTable_C_def table_block_def upto16 decode_simps)

lemma table_block_D: "ARMInstrTable_D = table_block 13"
  by (simp add: ARMInstrTable_D_def table_block_def upto16 decode_simps)

lemma table_block_E: "ARMInstrTable_E = table_block 14"
  by (simp add: ARMInstrTable_E_def table_block_def upto16 decode_simps)

lemma table_block_F: "ARMInstrTable_F = table_block 15"
  by (simp add: ARMInstrTable_F_def table_block_def upto16 decode_simps)

lemma ARMInstrTable_blocks: "ARMInstrTable = concat (map table_block [0..<16])"
  unfolding ARMInstrTable_def upto16
  by (simp add: table_block_0 table_block_1 table_block_2 table_block_3 table_block_4 table_block_5 table_block_6 table_block_7 table_block_8 table_block_9 table_block_A table_block_B table_block_C table_block_D table_block_E table_block_F)

lemma length_table_block: "length (table_block h) = 256"
  unfolding table_block_def by (subst length_concat_rows [where k = 16]) simp_all

lemma ARMInstrTable_entry:
  assumes "h < 16" "m < 16" "l < 16"
  shows "ARMInstrTable ! (256 * h + 16 * m + l) = table_entry h m l"
proof -
  have "ARMInstrTable ! (256 * h + (16 * m + l)) = table_block h ! (16 * m + l)"
    unfolding ARMInstrTable_blocks using assms
    by (intro nth_concat_rows) (simp_all add: length_table_block)
  also have "\<dots> = map (table_entry h m) [0..<16] ! l"
    unfolding table_block_def using assms by (intro nth_concat_rows) simp_all
  finally show ?thesis using assms by (simp add: add.assoc)
qed

definition thumb_block :: "nat \<Rightarrow> t_instr list" where
  "thumb_block h = concat (map (\<lambda>m. map (thumb_decode h m) [0..<4]) [0..<16])"

lemmas thumb_simps = thumb_decode_def dec_thumb4_def dec_thumbB_def

lemma thumb_block_0: "THUMBInstrTable_0 = thumb_block 0 @ thumb_block 1 @ thumb_block 2 @ thumb_block 3"
  by (simp add: THUMBInstrTable_0_def thumb_block_def upto16 upto4 thumb_simps)

lemma thumb_block_1: "THUMBInstrTable_1 = thumb_block 4 @ thumb_block 5 @ thumb_block 6 @ thumb_block 7"
  by (simp add: THUMBInstrTable_1_def thumb_block_def upto16 upto4 thumb_simps)

lemma thumb_block_2: "THUMBInstrTable_2 = thumb_block 8 @ thumb_block 9 @ thumb_block 10 @ thumb_block 11"
  by (simp add: THUMBInstrTable_2_def thumb_block_def upto16 upto4 thumb_simps)

lemma thumb_block_3: "THUMBInstrTable_3 = thumb_block 12 @ thumb_block 13 @ thumb_block 14 @ thumb_block 15"
  by (simp add: THUMBInstrTable_3_def thumb_block_def upto16 upto4 thumb_simps)

lemma THUMBInstrTable_blocks: "THUMBInstrTable = concat (map thumb_block [0..<16])"
  unfolding THUMBInstrTable_def upto16
  by (simp add: thumb_block_0 thumb_block_1 thumb_block_2 thumb_block_3)

lemma length_thumb_block: "length (thumb_block h) = 64"
  unfolding thumb_block_def by (subst length_concat_rows [where k = 4]) simp_all

text \<open>C2.  Every entry of the ARM dispatch table but one is the handler that the instruction encoding
  asks for: for each of the 4096 keys other than \<open>0 3 A\<close> the table and the decoder agree.
\<close>

theorem ARMInstrTable_correct:
  assumes "h < 16" "m < 16" "l < 16" and "(h, m, l) \<noteq> (0, 3, 0xA)"
  shows "ARMInstrTable ! (256 * h + 16 * m + l) = arm_decode h m l"
  using assms ARMInstrTable_entry [of h m l] by (auto simp: table_entry_def)

theorem ARMInstrTable_correct_witness:
  "ARMInstrTable ! (256 * 0 + 16 * 9 + 4) = H_ALU_S OP_ADD (REG_IMM SH_ASR)"
  using ARMInstrTable_correct [of 0 9 4] by (simp add: decode_simps)

text \<open>C3.  Every entry of the Thumb dispatch table is the handler that the Thumb encoding asks for.
\<close>

theorem THUMBInstrTable_correct:
  assumes "h < 16" "m < 16" "q < 4"
  shows "THUMBInstrTable ! (64 * h + 4 * m + q) = thumb_decode h m q"
proof -
  have "THUMBInstrTable ! (64 * h + (4 * m + q)) = thumb_block h ! (4 * m + q)"
    unfolding THUMBInstrTable_blocks using assms
    by (intro nth_concat_rows) (simp_all add: length_thumb_block)
  also have "\<dots> = map (thumb_decode h m) [0..<4] ! q"
    unfolding thumb_block_def using assms by (intro nth_concat_rows) simp_all
  finally show ?thesis using assms by (simp add: add.assoc)
qed

theorem THUMBInstrTable_correct_witness:
  "THUMBInstrTable ! (64 * 11 + 4 * 4 + 1) = HT_PUSH"
  using THUMBInstrTable_correct [of 11 4 1] by (simp add: thumb_simps)

text \<open>C9.  The entry \<open>0 3 A\<close>: \<open>EORS r0, r0, r1, LSR #1\<close> runs the \<open>ROR\<close> handler; with 1 in \<open>r1\<close> the operand
  is \<open>0x80000000\<close> where the instruction calls for 0.
\<close>

theorem EORS_LSR_odd_rotates:
  fixes cpu :: "'n arm"
  assumes "CurInstr cpu = 0xE03000A1" "R cpu 1 = 1"
  shows "ARMInstrTable ! (256 * 0 + 16 * 3 + 0xA) = H_ALU_S OP_EOR (REG_IMM SH_ROR) \<and>
    arm_decode 0 3 0xA = H_ALU_S OP_EOR (REG_IMM SH_LSR) \<and>
    fst (op2_value_S (REG_IMM SH_ROR) cpu) = 0x80000000 \<and>
    fst (op2_value_S (REG_IMM SH_LSR) cpu) = 0"
proof (intro conjI)
  show "ARMInstrTable ! (256 * 0 + 16 * 3 + 0xA) = H_ALU_S OP_EOR (REG_IMM SH_ROR)"
    using ARMInstrTable_entry [of 0 3 10] by (simp add: table_entry_def)
  show "arm_decode 0 3 0xA = H_ALU_S OP_EOR (REG_IMM SH_LSR)"
    by (simp add: decode_simps)
  have "R cpu (fld (CurInstr cpu) 0 0xF) = 1" using assms by (simp add: fld_def)
  moreover have "drop_bit 7 (CurInstr cpu) AND 0x1F = 1" using assms by simp
  moreover have "word_rotr (Suc 0) (1 :: 32 word) = 0x80000000" by code_simp
  ultimately show "fst (op2_value_S (REG_IMM SH_ROR) cpu) = 0x80000000"
    "fst (op2_value_S (REG_IMM SH_LSR) cpu) = 0"
    by (simp_all only: op2_value_S.simps shift_imm_S.simps A_CALC_OP2_REG_SHIFT_IMM_S_def Let_def ROR_IMM_S_def LSR_IMM_S_def)
      (simp_all add: ROR_def shr_def)
qed

theorem EORS_LSR_odd_rotates_witness:
  "fst (op2_value_S (REG_IMM SH_ROR) (undefined\<lparr>CurInstr := 0xE03000A1, R := (\<lambda>_. 1)\<rparr> :: unit arm)) = 0x80000000"
  using EORS_LSR_odd_rotates [of "undefined\<lparr>CurInstr := 0xE03000A1, R := (\<lambda>_. 1)\<rparr> :: unit arm"]
  by simp

end
