(* ===== verification/ArmCore.thy ===== *)
theory ArmCore
  imports ArmTable
begin

text \<open>
  The invariant of the interpreter.  The virtual methods of a CPU class are the operations of the
  locale \<open>arm_core\<close>; under its laws every handler of both dispatch tables, and interrupt entry,
  keep the invariant \<open>arm_inv\<close>.  \<open>Armv4\<close> interprets the locale on the ARM7's methods.
\<close>

named_theorems inv_intros

section \<open>The invariant\<close>

text \<open>
  \<open>arm_ok n\<close>: the object is core \<open>n\<close> and mode bit 4 is set, so the mode is one of the 32-bit
  modes.  \<open>arm_inv n\<close> adds that in Thumb state both prefetched instructions are half-words,
  which the dispatch needs.  Between a status register restore and the refill of the pipeline
  only \<open>arm_ok\<close> holds.
\<close>

definition arm_ok :: "u32 \<Rightarrow> 'n arm \<Rightarrow> bool" where
  "arm_ok n cpu \<longleftrightarrow> Num cpu = n \<and> bit (CPSR cpu) 4"

definition arm_inv :: "u32 \<Rightarrow> 'n arm \<Rightarrow> bool" where
  "arm_inv n cpu \<longleftrightarrow> arm_ok n cpu \<and>
     (bit (CPSR cpu) 5 \<longrightarrow> NextInstr cpu 0 < 0x10000 \<and> NextInstr cpu 1 < 0x10000)"

lemma arm_inv_ok: "arm_inv n cpu \<Longrightarrow> arm_ok n cpu"
  by (simp add: arm_inv_def)

lemma arm_inv_frame:
  assumes "Num cpu' = Num cpu" "NextInstr cpu' = NextInstr cpu"
    and "bit (CPSR cpu') 4 = bit (CPSR cpu) 4" "bit (CPSR cpu') 5 = bit (CPSR cpu) 5"
  shows "arm_inv n cpu' \<longleftrightarrow> arm_inv n cpu" and "arm_ok n cpu' \<longleftrightarrow> arm_ok n cpu"
  using assms by (simp_all add: arm_inv_def arm_ok_def)

lemma arm_inv_fields [simp]:
  "arm_inv n (cpu\<lparr>R := r\<rparr>) \<longleftrightarrow> arm_inv n cpu" "arm_ok n (cpu\<lparr>R := r\<rparr>) \<longleftrightarrow> arm_ok n cpu"
  "arm_inv n (cpu\<lparr>Cycles := c\<rparr>) \<longleftrightarrow> arm_inv n cpu" "arm_ok n (cpu\<lparr>Cycles := c\<rparr>) \<longleftrightarrow> arm_ok n cpu"
  "arm_inv n (cpu\<lparr>Sys := s\<rparr>) \<longleftrightarrow> arm_inv n cpu" "arm_ok n (cpu\<lparr>Sys := s\<rparr>) \<longleftrightarrow> arm_ok n cpu"
  "arm_inv n (cpu\<lparr>CodeRegion := c\<rparr>) \<longleftrightarrow> arm_inv n cpu" "arm_ok n (cpu\<lparr>CodeRegion := c\<rparr>) \<longleftrightarrow> arm_ok n cpu"
  "arm_inv n (cpu\<lparr>CodeCycles := c\<rparr>) \<longleftrightarrow> arm_inv n cpu" "arm_ok n (cpu\<lparr>CodeCycles := c\<rparr>) \<longleftrightarrow> arm_ok n cpu"
  "arm_inv n (cpu\<lparr>DataRegion := c\<rparr>) \<longleftrightarrow> arm_inv n cpu" "arm_ok n (cpu\<lparr>DataRegion := c\<rparr>) \<longleftrightarrow> arm_ok n cpu"
  "arm_inv n (cpu\<lparr>DataCycles := c\<rparr>) \<longleftrightarrow> arm_inv n cpu" "arm_ok n (cpu\<lparr>DataCycles := c\<rparr>) \<longleftrightarrow> arm_ok n cpu"
  "arm_inv n (cpu\<lparr>R_FIQ := r\<rparr>) \<longleftrightarrow> arm_inv n cpu" "arm_ok n (cpu\<lparr>R_FIQ := r\<rparr>) \<longleftrightarrow> arm_ok n cpu"
  "arm_inv n (cpu\<lparr>R_IRQ := r\<rparr>) \<longleftrightarrow> arm_inv n cpu" "arm_ok n (cpu\<lparr>R_IRQ := r\<rparr>) \<longleftrightarrow> arm_ok n cpu"
  "arm_inv n (cpu\<lparr>R_SVC := r\<rparr>) \<longleftrightarrow> arm_inv n cpu" "arm_ok n (cpu\<lparr>R_SVC := r\<rparr>) \<longleftrightarrow> arm_ok n cpu"
  "arm_inv n (cpu\<lparr>R_ABT := r\<rparr>) \<longleftrightarrow> arm_inv n cpu" "arm_ok n (cpu\<lparr>R_ABT := r\<rparr>) \<longleftrightarrow> arm_ok n cpu"
  "arm_inv n (cpu\<lparr>R_UND := r\<rparr>) \<longleftrightarrow> arm_inv n cpu" "arm_ok n (cpu\<lparr>R_UND := r\<rparr>) \<longleftrightarrow> arm_ok n cpu"
  "arm_inv n (cpu\<lparr>CurInstr := c\<rparr>) \<longleftrightarrow> arm_inv n cpu" "arm_ok n (cpu\<lparr>CurInstr := c\<rparr>) \<longleftrightarrow> arm_ok n cpu"
  by (rule arm_inv_frame; simp)+

lemma flags_frame [simp]:
  "Num (SetC c cpu) = Num cpu" "NextInstr (SetC c cpu) = NextInstr cpu"
  "Num (SetNZ m z cpu) = Num cpu" "NextInstr (SetNZ m z cpu) = NextInstr cpu"
  "Num (SetNZCV m z c v cpu) = Num cpu" "NextInstr (SetNZCV m z c v cpu) = NextInstr cpu"
  by (simp_all add: SetC_def SetNZ_def SetNZCV_def Let_def)

lemma set_Q_frame [simp]: "Num (set_Q cpu) = Num cpu" "NextInstr (set_Q cpu) = NextInstr cpu"
  by (simp_all add: set_Q_def)

lemma bit_set_Q: "bit (CPSR (set_Q cpu)) i \<longleftrightarrow> bit (CPSR cpu) i \<or> i = 27"
  using bit_sat_flag [of True cpu i] by (simp add: sat_flag_def)

lemma arm_inv_flags [simp]:
  "arm_inv n (SetC c cpu) \<longleftrightarrow> arm_inv n cpu" "arm_inv n (SetNZ m z cpu) \<longleftrightarrow> arm_inv n cpu"
  "arm_inv n (SetNZCV m z c v cpu) \<longleftrightarrow> arm_inv n cpu" "arm_inv n (set_Q cpu) \<longleftrightarrow> arm_inv n cpu"
  "arm_inv n (UpdateMode a b p cpu) \<longleftrightarrow> arm_inv n cpu" "arm_ok n (UpdateMode a b p cpu) \<longleftrightarrow> arm_ok n cpu"
  "arm_inv n (write_reg i x cpu) \<longleftrightarrow> arm_inv n cpu" "arm_ok n (write_reg i x cpu) \<longleftrightarrow> arm_ok n cpu"
  "arm_inv n (write64 y cpu) \<longleftrightarrow> arm_inv n cpu"
  by (rule arm_inv_frame; simp add: bit_SetC bit_SetNZ bit_SetNZCV bit_set_Q write_reg_def write64_def)+

lemma arm_inv_flags2 [simp]:
  "arm_inv n (sat_flag c cpu) \<longleftrightarrow> arm_inv n cpu" "arm_inv n (mul_flags m z cpu) \<longleftrightarrow> arm_inv n cpu"
  by (simp_all add: sat_flag_def mul_flags_def Let_def)

lemma arm_ok_exception [simp]:
  "arm_ok n (cpu\<lparr>CPSR := p OR 0x92\<rparr>) \<longleftrightarrow> Num cpu = n"
  "arm_ok n (cpu\<lparr>CPSR := p OR 0x93\<rparr>) \<longleftrightarrow> Num cpu = n"
  "arm_ok n (cpu\<lparr>CPSR := p OR 0x9B\<rparr>) \<longleftrightarrow> Num cpu = n"
  by (simp_all add: arm_ok_def bit_or_iff)

lemma arm_inv_Num: "arm_inv n cpu \<Longrightarrow> Num cpu = n"
  by (simp add: arm_inv_def arm_ok_def)

section \<open>What a core promises\<close>

text \<open>
  The contract of the virtual methods: a jump refills the pipeline, every other method keeps
  the invariant.
\<close>

locale arm_core =
  fixes vt :: "'n arm_vt" and n :: u32
  assumes JumpTo_inv [inv_intros]: "arm_ok n cpu \<Longrightarrow> arm_inv n (JumpTo vt a r cpu)"
    and read8_inv [inv_intros]: "arm_inv n cpu \<Longrightarrow> arm_inv n (snd (DataRead8 vt a cpu))"
    and read16_inv [inv_intros]: "arm_inv n cpu \<Longrightarrow> arm_inv n (snd (DataRead16 vt a cpu))"
    and read32_inv [inv_intros]: "arm_inv n cpu \<Longrightarrow> arm_inv n (snd (DataRead32 vt a cpu))"
    and read32S_inv [inv_intros]: "arm_inv n cpu \<Longrightarrow> arm_inv n (snd (DataRead32S vt a cpu))"
    and write8_inv [inv_intros]: "arm_inv n cpu \<Longrightarrow> arm_inv n (snd (DataWrite8 vt a b cpu))"
    and write16_inv [inv_intros]: "arm_inv n cpu \<Longrightarrow> arm_inv n (snd (DataWrite16 vt a h cpu))"
    and write32_inv [inv_intros]: "arm_inv n cpu \<Longrightarrow> arm_inv n (snd (DataWrite32 vt a w cpu))"
    and write32S_inv [inv_intros]: "arm_inv n cpu \<Longrightarrow> arm_inv n (snd (DataWrite32S vt a w cpu))"
    and C_inv [inv_intros]: "arm_inv n cpu \<Longrightarrow> arm_inv n (AddCycles_C vt cpu)"
    and CI_inv [inv_intros]: "arm_inv n cpu \<Longrightarrow> arm_inv n (AddCycles_CI vt k cpu)"
    and CDI_inv [inv_intros]: "arm_inv n cpu \<Longrightarrow> arm_inv n (AddCycles_CDI vt cpu)"
    and CD_inv [inv_intros]: "arm_inv n cpu \<Longrightarrow> arm_inv n (AddCycles_CD vt cpu)"
    and abort_inv [inv_intros]: "arm_inv n cpu \<Longrightarrow> arm_inv n (DataAbort vt cpu)"
    and CP15_inv [inv_intros]: "arm_inv n cpu \<Longrightarrow> arm_inv n (CP15Write vt i w cpu)"
    and Nocash_inv [inv_intros]: "arm_inv n cpu \<Longrightarrow> arm_inv n (NocashPrint vt i a cpu)"
    and Cheats_inv [inv_intros]: "arm_inv n cpu \<Longrightarrow> arm_inv n (RunCheats vt cpu)"
begin

lemma on_read_inv [inv_intros]:
  "arm_inv n (snd r) \<Longrightarrow> (\<And>v c. arm_inv n c \<Longrightarrow> arm_inv n (k v c)) \<Longrightarrow> arm_inv n (on_read r k)"
  by (cases r) (auto simp: on_read_def split: option.split)

lemma on_write_inv [inv_intros]:
  "arm_inv n (snd r) \<Longrightarrow> (\<And>c. arm_inv n c \<Longrightarrow> arm_inv n (k c)) \<Longrightarrow> arm_inv n (on_write r k)"
  by (cases r) (auto simp: on_write_def)

lemma alu_write_inv [inv_intros]:
  "arm_inv n cpu \<Longrightarrow> arm_inv n (alu_write vt x cpu)" "arm_inv n cpu \<Longrightarrow> arm_inv n (alu_write_S vt x cpu)"
  by (auto simp: alu_write_def alu_write_S_def intro!: inv_intros dest: arm_inv_ok)

lemma alu_cycles_inv [inv_intros]: "arm_inv n cpu \<Longrightarrow> arm_inv n (alu_cycles vt c cpu)"
  by (auto simp: alu_cycles_def intro!: inv_intros)

lemma alu_exec_inv:
  "arm_inv n cpu \<Longrightarrow> arm_inv n (alu_exec op vt c b cpu)"
  "arm_inv n cpu \<Longrightarrow> arm_inv n (alu_exec_S op vt c b cpu)"
  by (cases op; simp add: A_AND_def A_EOR_def A_SUB_def A_RSB_def A_ADD_def A_ADC_def A_SBC_def A_RSC_def A_TST_def
    A_TEQ_def A_CMP_def A_CMN_def A_ORR_def A_MOV_def A_BIC_def A_MVN_def
    A_AND_S_def A_EOR_S_def A_SUB_S_def A_RSB_S_def A_ADD_S_def A_ADC_S_def A_SBC_S_def A_RSC_S_def 
    A_ORR_S_def A_MOV_S_def A_BIC_S_def A_MVN_S_def Let_def inv_intros)+

lemma snd_case_pair: "arm_inv n (snd p) \<Longrightarrow> (\<And>x c. arm_inv n c \<Longrightarrow> P (f x c)) \<Longrightarrow> P (case p of (x, c) \<Rightarrow> f x c)"
  by (cases p) auto

lemma op2_inv: "arm_inv n cpu \<Longrightarrow> arm_inv n (snd (op2_value_S f cpu))"
proof (cases f)
  case IMM
  then show "arm_inv n cpu \<Longrightarrow> ?thesis" by (simp add: A_CALC_OP2_IMM_S_def Let_def)
qed (simp_all add: op2_value_S_serial Let_def split: prod.split del: op2_value_S.simps)

lemma A_ALU_inv [inv_intros]:
  "arm_inv n cpu \<Longrightarrow> arm_inv n (A_ALU op f vt cpu)"
  "arm_inv n cpu \<Longrightarrow> arm_inv n (A_ALU_S op f vt cpu)"
  "arm_inv n cpu \<Longrightarrow> arm_inv n (A_ALU_TEST op f vt cpu)"
  using op2_inv [of cpu f]
  by (auto simp: A_ALU_def A_ALU_S_def A_ALU_TEST_def intro!: alu_exec_inv split: prod.splits)

lemma UNK_inv [inv_intros]:
  "arm_inv n cpu \<Longrightarrow> arm_inv n (A_UNK vt cpu)" "arm_inv n cpu \<Longrightarrow> arm_inv n (T_UNK vt cpu)"
  by (simp_all add: A_UNK_def T_UNK_def Let_def JumpTo_inv arm_inv_Num)

lemma shift_imm_S_inv:
  "arm_inv n (snd (LSL_IMM_S cpu x s)) \<longleftrightarrow> arm_inv n cpu"
  "arm_inv n (snd (LSR_IMM_S cpu x s)) \<longleftrightarrow> arm_inv n cpu"
  "arm_inv n (snd (ASR_IMM_S cpu x s)) \<longleftrightarrow> arm_inv n cpu"
  "arm_inv n (snd (LSL_REG_S cpu x s)) \<longleftrightarrow> arm_inv n cpu"
  "arm_inv n (snd (LSR_REG_S cpu x s)) \<longleftrightarrow> arm_inv n cpu"
  "arm_inv n (snd (ASR_REG_S cpu x s)) \<longleftrightarrow> arm_inv n cpu"
  "arm_inv n (snd (ROR_REG_S cpu x s)) \<longleftrightarrow> arm_inv n cpu"
  by (simp_all add: LSL_IMM_S_def LSR_IMM_S_def ASR_IMM_S_def LSL_REG_S_def LSR_REG_S_def ASR_REG_S_def
      ROR_REG_S_def)

lemma A_MOV_DBG_inv [inv_intros]:
  "arm_inv n cpu \<Longrightarrow> arm_inv n (A_MOV_REG_LSL_IMM_DBG vt cpu)"
  by (auto simp: A_MOV_REG_LSL_IMM_DBG_def Let_def intro!: inv_intros)

lemma mul_inv [inv_intros]:
  assumes "arm_inv n cpu"
  shows "arm_inv n (A_MUL vt cpu)" "arm_inv n (A_MLA vt cpu)" "arm_inv n (A_UMULL vt cpu)"
    "arm_inv n (A_UMLAL vt cpu)" "arm_inv n (A_SMULL vt cpu)" "arm_inv n (A_SMLAL vt cpu)"
    "arm_inv n (A_SMLAxy vt cpu)" "arm_inv n (A_SMLAWy vt cpu)" "arm_inv n (A_SMULxy vt cpu)"
    "arm_inv n (A_SMULWy vt cpu)" "arm_inv n (A_SMLALxy vt cpu)" "arm_inv n (A_CLZ vt cpu)"
    "arm_inv n (A_QADD vt cpu)" "arm_inv n (A_QSUB vt cpu)" "arm_inv n (A_QDADD vt cpu)" "arm_inv n (A_QDSUB vt cpu)"
  using assms
  by (simp_all add: A_MUL_def A_MLA_def A_UMULL_def A_UMLAL_def A_SMULL_def A_SMLAL_def A_SMLAxy_def
      A_SMLAWy_def A_SMULxy_def A_SMULWy_def A_SMLALxy_def A_CLZ_def A_QADD_def A_QSUB_def A_QDADD_def
      A_QDSUB_def Let_def inv_intros)

lemma wb_inv [simp]:
  "arm_inv n (base_wb x cpu) \<longleftrightarrow> arm_inv n cpu" "arm_inv n (base_add x cpu) \<longleftrightarrow> arm_inv n cpu"
  by (simp_all add: base_wb_def base_add_def)

lemma ldr_result_inv [inv_intros]: "arm_inv n cpu \<Longrightarrow> arm_inv n (ldr_result vt v cpu)"
  by (simp add: ldr_result_def JumpTo_inv arm_inv_ok)

lemma CheckUserTransfer_inv [inv_intros]:
  "arm_inv n cpu \<Longrightarrow> arm_inv n (snd (CheckUserTransfer vt a st cpu))"
  by (simp add: CheckUserTransfer_def abort_inv)

lemma A_WB_inv [inv_intros]: "arm_inv n cpu \<Longrightarrow> arm_inv n (A_WB op post off vt cpu)"
  by (cases op; cases post) (auto simp: A_STR_def A_STR_POST_def A_STRB_def A_STRB_POST_def A_LDR_def A_LDR_POST_def
    A_LDRB_def A_LDRB_POST_def Let_def intro!: inv_intros)

lemma A_HD_inv [inv_intros]: "arm_inv n cpu \<Longrightarrow> arm_inv n (A_HD op post imm vt cpu)"
  by (cases op; cases post) (auto simp: A_STRH_def A_STRH_POST_def A_LDRD_def A_LDRD_POST_def A_STRD_def A_STRD_POST_def
    A_LDRH_def A_LDRH_POST_def A_LDRSB_def A_LDRSB_POST_def A_LDRSH_def A_LDRSH_POST_def Let_def intro!: inv_intros)

lemma swap_inv [inv_intros]:
  "arm_inv n cpu \<Longrightarrow> arm_inv n (A_SWP vt cpu)" "arm_inv n cpu \<Longrightarrow> arm_inv n (A_SWPB vt cpu)"
  by (auto simp: A_SWP_def A_SWPB_def Let_def intro!: inv_intros)

lemma set_UserTransferReg_inv [simp]: "arm_inv n (set_UserTransferReg i v cpu) \<longleftrightarrow> arm_inv n cpu"
  by (simp add: set_UserTransferReg_def Let_def)

lemma RestoreTransferBase_inv [simp]: "arm_inv n (RestoreTransferBase i b oc cpu) \<longleftrightarrow> arm_inv n cpu"
  by (simp add: RestoreTransferBase_def Let_def)

lemma seq_inv [inv_intros]:
  "arm_inv n cpu \<Longrightarrow> arm_inv n (snd (read_seq vt f a cpu))"
  "arm_inv n cpu \<Longrightarrow> arm_inv n (snd (write_seq vt f a v cpu))"
  by (simp_all add: read_seq_def write_seq_def inv_intros)

lemma case_read_inv:
  assumes "arm_inv n (snd p)" "\<And>c. arm_inv n c \<Longrightarrow> arm_inv n (f c)" "\<And>v c. arm_inv n c \<Longrightarrow> arm_inv n (g v c)"
  shows "arm_inv n (case p of (None, c) \<Rightarrow> f c | (Some v, c) \<Rightarrow> g v c)"
  using assms by (cases p) (auto split: option.split)

lemma case_loop_inv:
  assumes "arm_inv n (snd p)" "\<And>c. arm_inv n c \<Longrightarrow> arm_inv n (f c)" "\<And>b ft c. arm_inv n c \<Longrightarrow> arm_inv n (g b ft c)"
  shows "arm_inv n (case p of (None, c) \<Rightarrow> f c | (Some (b, ft), c) \<Rightarrow> g b ft c)"
  using assms by (cases p) (auto split: option.split)

lemma snd_case_read_inv:
  assumes "arm_inv n (snd p)" "\<And>c. arm_inv n c \<Longrightarrow> arm_inv n (snd (f c))" "\<And>v c. arm_inv n c \<Longrightarrow> arm_inv n (snd (g v c))"
  shows "arm_inv n (snd (case p of (None, c) \<Rightarrow> f c | (Some v, c) \<Rightarrow> g v c))"
  using assms by (cases p) (auto split: option.split)

lemma snd_case_write_inv:
  assumes "arm_inv n (snd p)" "\<And>c. arm_inv n c \<Longrightarrow> arm_inv n (snd (f c))" "\<And>c. arm_inv n c \<Longrightarrow> arm_inv n (snd (g c))"
  shows "arm_inv n (snd (case p of (False, c) \<Rightarrow> f c | (True, c) \<Rightarrow> g c))"
  using assms by (cases p) (auto split: bool.split)

lemma ldm_loop_inv [inv_intros]:
  "arm_inv n cpu \<Longrightarrow> arm_inv n (snd (ldm_loop vt u p is b f cpu))"
  by (induction "is" arbitrary: b f cpu) (auto simp: Let_def intro!: snd_case_read_inv inv_intros)

lemma stm_loop_inv [inv_intros]:
  "arm_inv n cpu \<Longrightarrow> arm_inv n (snd (stm_loop vt i ob bk p is b f cpu))"
  by (induction "is" arbitrary: b f cpu) (auto simp: Let_def intro!: snd_case_write_inv inv_intros)

lemma T_loops_inv [inv_intros]:
  "arm_inv n cpu \<Longrightarrow> arm_inv n (snd (T_store_loop vt is b f cpu))"
  "arm_inv n cpu \<Longrightarrow> arm_inv n (snd (T_load_loop vt is b f cpu))"
  by (induction "is" arbitrary: b f cpu) (auto simp: Let_def intro!: snd_case_write_inv snd_case_read_inv inv_intros)

lemma Empty_load_inv:
  assumes "arm_inv n cpu"
  shows "arm_inv n (case (case DataRead32 vt a cpu of (v, c) \<Rightarrow> (case v of Some x \<Rightarrow> x | None \<Rightarrow> 0, c)) of
    (pc, c) \<Rightarrow> AddCycles_CDI vt (JumpTo vt (f pc) (q c) (if w c then write_reg rn b c else c)))"
  using read32_inv [OF assms, of a]
  by (cases "DataRead32 vt a cpu") (auto simp: arm_inv_ok intro!: CDI_inv JumpTo_inv)

lemma Empty_inv [inv_intros]: "arm_inv n cpu \<Longrightarrow> arm_inv n (A_EmptyBlockTransfer vt ld cpu)"
proof (cases "Num cpu = 0")
  case True
  then show "arm_inv n cpu \<Longrightarrow> ?thesis"
    by (simp add: A_EmptyBlockTransfer_def Let_def inv_intros)
next
  case False
  then show "arm_inv n cpu \<Longrightarrow> ?thesis"
    unfolding A_EmptyBlockTransfer_def Let_def
    by (cases ld) (simp_all only: if_True if_False Empty_load_inv refl, simp add: inv_intros)
qed

lemma ldm_finish_inv [inv_intros]: "arm_inv n cpu \<Longrightarrow> arm_inv n (ldm_finish vt i w b pc cpu)"
  by (auto simp: ldm_finish_def Let_def arm_inv_ok intro!: CDI_inv JumpTo_inv)

lemma block_inv [inv_intros]:
  "arm_inv n cpu \<Longrightarrow> arm_inv n (A_LDM vt cpu)"
  "arm_inv n cpu \<Longrightarrow> arm_inv n (A_STM vt cpu)"
  by (auto simp: A_LDM_def A_STM_def Let_def intro!: case_read_inv case_loop_inv inv_intros)

lemma branch_inv [inv_intros]:
  assumes "arm_inv n cpu"
  shows "arm_inv n (A_B vt cpu)" "arm_inv n (A_BL vt cpu)" "arm_inv n (A_BLX_IMM vt cpu)" "arm_inv n (A_BX vt cpu)"
    "arm_inv n (A_BLX_REG vt cpu)" "arm_inv n (T_BCOND vt cpu)" "arm_inv n (T_BX vt cpu)" "arm_inv n (T_BLX_REG vt cpu)"
    "arm_inv n (T_B vt cpu)" "arm_inv n (T_BL_LONG_1 vt cpu)" "arm_inv n (T_BL_LONG_2 vt cpu)"
  using assms arm_inv_ok [OF assms]
  by (simp_all add: A_B_def A_BL_def A_BLX_IMM_def A_BX_def A_BLX_REG_def T_BCOND_def T_BX_def T_BLX_REG_def T_B_def
     T_BL_LONG_1_def T_BL_LONG_2_def Let_def inv_intros)

lemma put_psr_inv: "psr \<noteq> PSR_CPSR \<Longrightarrow> arm_inv n (put_psr psr v cpu) \<longleftrightarrow> arm_inv n cpu"
  by (cases psr) auto

lemma msr_mask_bits:
  "\<not> tst (CurInstr cpu) (push_bit 22 1) \<Longrightarrow> \<not> bit (msr_mask cpu) 5"
  by (simp add: msr_mask_def Let_def bit_and_iff bit_or_iff)

lemma A_MSR_inv: "arm_inv n cpu \<Longrightarrow> arm_inv n (A_MSR vt v cpu)"
proof -
  assume I: "arm_inv n cpu"
  show ?thesis
  proof (cases "tst (CurInstr cpu) (push_bit 22 1)")
    case True
    then show ?thesis using I
      by (auto simp: A_MSR_def Let_def spsr_of_mode_def intro!: inv_intros)
  next
    case False
    let ?p = "(CPSR cpu AND NOT (msr_mask cpu)) OR ((v OR 0x10) AND msr_mask cpu)"
    have "bit ?p 4" using I by (auto simp: bit_or_iff bit_and_iff bit_not_iff arm_inv_def arm_ok_def)
    moreover have "bit ?p 5 = bit (CPSR cpu) 5" using msr_mask_bits [OF False] by (auto simp: bit_or_iff bit_and_iff bit_not_iff)
    ultimately have "arm_inv n (cpu\<lparr>CPSR := ?p\<rparr>)"
      using I by (auto simp: arm_inv_def arm_ok_def)
    then show ?thesis using False by (simp add: A_MSR_def Let_def C_inv)
  qed
qed

lemma system_inv [inv_intros]:
  assumes "arm_inv n cpu"
  shows "arm_inv n (A_MSR_IMM vt cpu)" "arm_inv n (A_MSR_REG vt cpu)" "arm_inv n (A_MRS vt cpu)" "arm_inv n (A_MCR vt cpu)"
    "arm_inv n (A_MRC vt cpu)"
  using assms
  by (simp_all add: A_MSR_IMM_def A_MSR_REG_def A_MSR_inv A_MRS_def A_MCR_def A_MRC_def Let_def inv_intros)

lemma SVC_inv [inv_intros]:
  "arm_inv n cpu \<Longrightarrow> arm_inv n (A_SVC vt cpu)" "arm_inv n cpu \<Longrightarrow> arm_inv n (T_SVC vt cpu)"
  by (simp_all add: A_SVC_def T_SVC_def Let_def JumpTo_inv arm_inv_Num)

lemma a_handler_inv: "arm_inv n cpu \<Longrightarrow> arm_inv n (a_handler h vt cpu)"
  by (cases h) (simp_all add: inv_intros)

lemma T_POP_inv [inv_intros]: "arm_inv n cpu \<Longrightarrow> arm_inv n (T_POP vt cpu)"
  by (auto simp: T_POP_def Let_def arm_inv_ok intro!: case_loop_inv inv_intros)

lemma T_PUSH_inv [inv_intros]: "arm_inv n cpu \<Longrightarrow> arm_inv n (T_PUSH vt cpu)"
  by (auto simp: T_PUSH_def Let_def arm_inv_ok intro!: case_loop_inv inv_intros)

lemma case_pair_inv:
  assumes "arm_inv n (snd p)" "\<And>v c. arm_inv n c \<Longrightarrow> arm_inv n (f v c)"
  shows "arm_inv n (case p of (v, c) \<Rightarrow> f v c)"
  using assms by (cases p) auto

lemma T_MIA_inv [inv_intros]:
  "arm_inv n cpu \<Longrightarrow> arm_inv n (T_STMIA vt cpu)"
  "arm_inv n cpu \<Longrightarrow> arm_inv n (T_LDMIA vt cpu)"
  by (auto simp: T_STMIA_def T_LDMIA_def Let_def arm_inv_ok intro!: case_pair_inv inv_intros split: option.split)

lemma T_shift_inv [inv_intros]:
  assumes "arm_inv n cpu"
  shows "arm_inv n (T_LSL_IMM vt cpu)" "arm_inv n (T_LSR_IMM vt cpu)" "arm_inv n (T_ASR_IMM vt cpu)"
    "arm_inv n (T_LSL_REG vt cpu)" "arm_inv n (T_LSR_REG vt cpu)" "arm_inv n (T_ASR_REG vt cpu)"
    "arm_inv n (T_ROR_REG vt cpu)"
  unfolding T_LSL_IMM_def T_LSR_IMM_def T_ASR_IMM_def T_LSL_REG_def T_LSR_REG_def T_ASR_REG_def T_ROR_REG_def Let_def
  using assms by (auto intro!: case_pair_inv C_inv CI_inv simp: shift_imm_S_inv)

lemma T_alu_inv [inv_intros]:
  assumes "arm_inv n cpu"
  shows "arm_inv n (T_ADD_REG3 vt cpu)" "arm_inv n (T_SUB_REG3 vt cpu)" "arm_inv n (T_ADD_IMM3 vt cpu)"
    "arm_inv n (T_SUB_IMM3 vt cpu)" "arm_inv n (T_MOV_IMM vt cpu)" "arm_inv n (T_CMP_IMM vt cpu)"
    "arm_inv n (T_ADD_IMM vt cpu)" "arm_inv n (T_SUB_IMM vt cpu)" "arm_inv n (T_AND_REG vt cpu)"
    "arm_inv n (T_EOR_REG vt cpu)" "arm_inv n (T_ADC_REG vt cpu)" "arm_inv n (T_SBC_REG vt cpu)"
    "arm_inv n (T_TST_REG vt cpu)" "arm_inv n (T_NEG_REG vt cpu)" "arm_inv n (T_CMP_REG vt cpu)"
    "arm_inv n (T_CMN_REG vt cpu)" "arm_inv n (T_ORR_REG vt cpu)" "arm_inv n (T_MUL_REG vt cpu)"
    "arm_inv n (T_BIC_REG vt cpu)" "arm_inv n (T_MVN_REG vt cpu)" "arm_inv n (T_ADD_HIREG vt cpu)"
    "arm_inv n (T_CMP_HIREG vt cpu)" "arm_inv n (T_MOV_HIREG vt cpu)" "arm_inv n (T_ADD_PCREL vt cpu)"
    "arm_inv n (T_ADD_SPREL vt cpu)" "arm_inv n (T_ADD_SP vt cpu)"
  using assms
  by (simp_all add: T_ADD_REG3_def T_SUB_REG3_def T_ADD_IMM3_def T_SUB_IMM3_def T_MOV_IMM_def T_CMP_IMM_def
      T_ADD_IMM_def T_SUB_IMM_def T_AND_REG_def T_EOR_REG_def T_ADC_REG_def T_SBC_REG_def T_TST_REG_def
      T_NEG_REG_def T_CMP_REG_def T_CMN_REG_def T_ORR_REG_def T_MUL_REG_def T_BIC_REG_def T_MVN_REG_def
      T_ADD_HIREG_def T_CMP_HIREG_def T_MOV_HIREG_def T_ADD_PCREL_def T_ADD_SPREL_def T_ADD_SP_def
      Let_def inv_intros arm_inv_ok)

lemma T_single_inv [inv_intros]:
  assumes "arm_inv n cpu"
  shows "arm_inv n (T_LDR_PCREL vt cpu)" "arm_inv n (T_STR_REG vt cpu)" "arm_inv n (T_STRB_REG vt cpu)"
    "arm_inv n (T_LDR_REG vt cpu)" "arm_inv n (T_LDRB_REG vt cpu)" "arm_inv n (T_STRH_REG vt cpu)"
    "arm_inv n (T_LDRSB_REG vt cpu)" "arm_inv n (T_LDRH_REG vt cpu)" "arm_inv n (T_LDRSH_REG vt cpu)"
    "arm_inv n (T_STR_IMM vt cpu)" "arm_inv n (T_LDR_IMM vt cpu)" "arm_inv n (T_STRB_IMM vt cpu)"
    "arm_inv n (T_LDRB_IMM vt cpu)" "arm_inv n (T_STRH_IMM vt cpu)" "arm_inv n (T_LDRH_IMM vt cpu)"
    "arm_inv n (T_STR_SPREL vt cpu)" "arm_inv n (T_LDR_SPREL vt cpu)"
  using assms
  by (auto simp: T_LDR_PCREL_def T_STR_REG_def T_STRB_REG_def T_LDR_REG_def T_LDRB_REG_def T_STRH_REG_def
      T_LDRSB_REG_def T_LDRH_REG_def T_LDRSH_REG_def T_STR_IMM_def T_LDR_IMM_def T_STRB_IMM_def
      T_LDRB_IMM_def T_STRH_IMM_def T_LDRH_IMM_def T_STR_SPREL_def T_LDR_SPREL_def Let_def intro!: inv_intros)

lemma t_handler_inv: "arm_inv n cpu \<Longrightarrow> arm_inv n (t_handler h vt cpu)"
  by (cases h) (simp_all add: inv_intros)

lemma TriggerIRQ_inv: "arm_inv n cpu \<Longrightarrow> arm_inv n (TriggerIRQ vt cpu)"
  by (simp add: TriggerIRQ_def Let_def JumpTo_inv Cheats_inv arm_inv_Num)

end
end
