(* ===== verification/Armv4.thy ===== *)
theory Armv4
  imports ArmDecode ArmCore
begin

text \<open>
  The ARM7 core: class \<open>ARMv4\<close> of \<^verbatim>\<open>src/src/ARM.h\<close> and \<^verbatim>\<open>src/src/ARM.cpp\<close>.  Its virtual
  methods over the console's ARM7 bus, the table \<open>ARMv4_vt\<close> they make, one instruction of the
  interpreter and the loop of \<open>ARMv4::Execute\<close> (the interpreter build: no JIT, no GDB stub).

  The console is reached through the record \<open>bus7\<close>: the \<open>NDS\<close> members the ARM7 calls.  The
  BIOS area of the memory map looks at the ARM7's \<open>R[15]\<close>, so the accesses take it as an
  argument; they can halt the CPU or raise its IRQ line, so they act on \<open>sys\<close>, but they
  have no way to write its registers.
\<close>

section \<open>The ARM7's view of the console\<close>

record 'n bus7 =
  ARM7Read8 :: "u32 \<Rightarrow> u32 \<Rightarrow> 'n sys \<Rightarrow> u8 \<times> 'n sys"
  ARM7Read16 :: "u32 \<Rightarrow> u32 \<Rightarrow> 'n sys \<Rightarrow> u16 \<times> 'n sys"
  ARM7Read32 :: "u32 \<Rightarrow> u32 \<Rightarrow> 'n sys \<Rightarrow> u32 \<times> 'n sys"
  ARM7Write8 :: "u32 \<Rightarrow> u32 \<Rightarrow> u8 \<Rightarrow> 'n sys \<Rightarrow> 'n sys"
  ARM7Write16 :: "u32 \<Rightarrow> u32 \<Rightarrow> u16 \<Rightarrow> 'n sys \<Rightarrow> 'n sys"
  ARM7Write32 :: "u32 \<Rightarrow> u32 \<Rightarrow> u32 \<Rightarrow> 'n sys \<Rightarrow> 'n sys"
  ARM7MemTimings :: "'n \<Rightarrow> nat \<Rightarrow> nat \<Rightarrow> u8"
  bus_IF :: "'n \<Rightarrow> u32 \<Rightarrow> u32"
  bus_IE :: "'n \<Rightarrow> u32 \<Rightarrow> u32"
  bus_IME :: "'n \<Rightarrow> u32 \<Rightarrow> u32"
  HaltInterrupted :: "'n \<Rightarrow> u32 \<Rightarrow> bool"
  bus_RunCheats :: "u32 \<Rightarrow> 'n sys \<Rightarrow> 'n sys"
  bus_NocashPrint :: "u32 \<Rightarrow> u32 \<Rightarrow> (nat \<Rightarrow> u32) \<Rightarrow> 'n sys \<Rightarrow> 'n sys"
  ARM7Timestamp :: "'n \<Rightarrow> u64"
  ARM7Target :: "'n \<Rightarrow> u64"
  set_ARM7Timestamp :: "u64 \<Rightarrow> 'n \<Rightarrow> 'n"
  SoftReset :: "'n arm \<Rightarrow> 'n arm"

section \<open>Bus accesses\<close>

definition v4_read8 :: "'n bus7 \<Rightarrow> u32 \<Rightarrow> 'n arm \<Rightarrow> u8 \<times> 'n arm" where
  "v4_read8 bus addr cpu =
     (case ARM7Read8 bus (R cpu 15) addr (Sys cpu) of (v, s) \<Rightarrow> (v, cpu\<lparr>Sys := s\<rparr>))"

definition v4_read16 :: "'n bus7 \<Rightarrow> u32 \<Rightarrow> 'n arm \<Rightarrow> u16 \<times> 'n arm" where
  "v4_read16 bus addr cpu =
     (case ARM7Read16 bus (R cpu 15) addr (Sys cpu) of (v, s) \<Rightarrow> (v, cpu\<lparr>Sys := s\<rparr>))"

definition v4_read32 :: "'n bus7 \<Rightarrow> u32 \<Rightarrow> 'n arm \<Rightarrow> u32 \<times> 'n arm" where
  "v4_read32 bus addr cpu =
     (case ARM7Read32 bus (R cpu 15) addr (Sys cpu) of (v, s) \<Rightarrow> (v, cpu\<lparr>Sys := s\<rparr>))"

definition v4_write8 :: "'n bus7 \<Rightarrow> u32 \<Rightarrow> u8 \<Rightarrow> 'n arm \<Rightarrow> 'n arm" where
  "v4_write8 bus addr v cpu = cpu\<lparr>Sys := ARM7Write8 bus (R cpu 15) addr v (Sys cpu)\<rparr>"

definition v4_write16 :: "'n bus7 \<Rightarrow> u32 \<Rightarrow> u16 \<Rightarrow> 'n arm \<Rightarrow> 'n arm" where
  "v4_write16 bus addr v cpu = cpu\<lparr>Sys := ARM7Write16 bus (R cpu 15) addr v (Sys cpu)\<rparr>"

definition v4_write32 :: "'n bus7 \<Rightarrow> u32 \<Rightarrow> u32 \<Rightarrow> 'n arm \<Rightarrow> 'n arm" where
  "v4_write32 bus addr v cpu = cpu\<lparr>Sys := ARM7Write32 bus (R cpu 15) addr v (Sys cpu)\<rparr>"

text \<open>\<open>NDS.ARM7MemTimings[i][j]\<close>, a \<open>u8\<close> promoted to \<open>int\<close>.\<close>

definition timing7 :: "'n bus7 \<Rightarrow> 'n arm \<Rightarrow> u32 \<Rightarrow> nat \<Rightarrow> s32" where
  "timing7 bus cpu i j = ucast (ARM7MemTimings bus (NDS (Sys cpu)) (unat i) j)"

section \<open>Data accesses\<close>

definition v4_DataRead8 :: "'n bus7 \<Rightarrow> u32 \<Rightarrow> 'n arm \<Rightarrow> u32 option \<times> 'n arm" where
  "v4_DataRead8 bus addr cpu =
     (let (v, cpu) = v4_read8 bus addr cpu;
          cpu = cpu\<lparr>DataRegion := addr\<rparr>;
          cpu = cpu\<lparr>DataCycles := timing7 bus cpu (drop_bit 15 addr) 0\<rparr>
      in (Some (ucast v), cpu))"

definition v4_DataRead16 :: "'n bus7 \<Rightarrow> u32 \<Rightarrow> 'n arm \<Rightarrow> u32 option \<times> 'n arm" where
  "v4_DataRead16 bus addr cpu =
     (let addr = addr AND NOT 1;
          (v, cpu) = v4_read16 bus addr cpu;
          cpu = cpu\<lparr>DataRegion := addr\<rparr>;
          cpu = cpu\<lparr>DataCycles := timing7 bus cpu (drop_bit 15 addr) 0\<rparr>
      in (Some (ucast v), cpu))"

definition v4_DataRead32 :: "'n bus7 \<Rightarrow> u32 \<Rightarrow> 'n arm \<Rightarrow> u32 option \<times> 'n arm" where
  "v4_DataRead32 bus addr cpu =
     (let addr = addr AND NOT 3;
          (v, cpu) = v4_read32 bus addr cpu;
          cpu = cpu\<lparr>DataRegion := addr\<rparr>;
          cpu = cpu\<lparr>DataCycles := timing7 bus cpu (drop_bit 15 addr) 2\<rparr>
      in (Some v, cpu))"

definition v4_DataRead32S :: "'n bus7 \<Rightarrow> u32 \<Rightarrow> 'n arm \<Rightarrow> u32 option \<times> 'n arm" where
  "v4_DataRead32S bus addr cpu =
     (let addr = addr AND NOT 3;
          (v, cpu) = v4_read32 bus addr cpu;
          cpu = cpu\<lparr>DataCycles := DataCycles cpu + timing7 bus cpu (drop_bit 15 addr) 3\<rparr>
      in (Some v, cpu))"

definition v4_DataWrite8 :: "'n bus7 \<Rightarrow> u32 \<Rightarrow> u8 \<Rightarrow> 'n arm \<Rightarrow> bool \<times> 'n arm" where
  "v4_DataWrite8 bus addr val cpu =
     (let cpu = v4_write8 bus addr val cpu;
          cpu = cpu\<lparr>DataRegion := addr\<rparr>;
          cpu = cpu\<lparr>DataCycles := timing7 bus cpu (drop_bit 15 addr) 0\<rparr>
      in (True, cpu))"

definition v4_DataWrite16 :: "'n bus7 \<Rightarrow> u32 \<Rightarrow> u16 \<Rightarrow> 'n arm \<Rightarrow> bool \<times> 'n arm" where
  "v4_DataWrite16 bus addr val cpu =
     (let addr = addr AND NOT 1;
          cpu = v4_write16 bus addr val cpu;
          cpu = cpu\<lparr>DataRegion := addr\<rparr>;
          cpu = cpu\<lparr>DataCycles := timing7 bus cpu (drop_bit 15 addr) 0\<rparr>
      in (True, cpu))"

definition v4_DataWrite32 :: "'n bus7 \<Rightarrow> u32 \<Rightarrow> u32 \<Rightarrow> 'n arm \<Rightarrow> bool \<times> 'n arm" where
  "v4_DataWrite32 bus addr val cpu =
     (let addr = addr AND NOT 3;
          cpu = v4_write32 bus addr val cpu;
          cpu = cpu\<lparr>DataRegion := addr\<rparr>;
          cpu = cpu\<lparr>DataCycles := timing7 bus cpu (drop_bit 15 addr) 2\<rparr>
      in (True, cpu))"

definition v4_DataWrite32S :: "'n bus7 \<Rightarrow> u32 \<Rightarrow> u32 \<Rightarrow> 'n arm \<Rightarrow> bool \<times> 'n arm" where
  "v4_DataWrite32S bus addr val cpu =
     (let addr = addr AND NOT 3;
          cpu = v4_write32 bus addr val cpu;
          cpu = cpu\<lparr>DataCycles := DataCycles cpu + timing7 bus cpu (drop_bit 15 addr) 3\<rparr>
      in (True, cpu))"

section \<open>Cycle counting\<close>

definition v4_AddCycles_C :: "'n bus7 \<Rightarrow> 'n arm \<Rightarrow> 'n arm" where
  "v4_AddCycles_C bus cpu =
     cpu\<lparr>Cycles := Cycles cpu
        + timing7 bus cpu (CodeCycles cpu) (if tst (CPSR cpu) 0x20 then 1 else 3)\<rparr>"

definition v4_AddCycles_CI :: "'n bus7 \<Rightarrow> s32 \<Rightarrow> 'n arm \<Rightarrow> 'n arm" where
  "v4_AddCycles_CI bus num cpu =
     cpu\<lparr>Cycles := Cycles cpu
        + (timing7 bus cpu (CodeCycles cpu) (if tst (CPSR cpu) 0x20 then 0 else 2) + num)\<rparr>"

definition v4_AddCycles_CDI :: "'n bus7 \<Rightarrow> 'n arm \<Rightarrow> 'n arm" where
  "v4_AddCycles_CDI bus cpu =
     (let numC = timing7 bus cpu (CodeCycles cpu) (if tst (CPSR cpu) 0x20 then 0 else 2);
          numD = DataCycles cpu
      in cpu\<lparr>Cycles := Cycles cpu +
           (if drop_bit 24 (DataRegion cpu) = 0x02
            then if CodeRegion cpu = 0x02 then numC + numD
                 else let numC = numC + 1 in smax (numC + numD - 3) (smax numC numD)
            else if CodeRegion cpu = 0x02
            then let numD = numD + 1 in smax (numC + numD - 3) (smax numC numD)
            else numC + numD + 1)\<rparr>)"

definition v4_AddCycles_CD :: "'n bus7 \<Rightarrow> 'n arm \<Rightarrow> 'n arm" where
  "v4_AddCycles_CD bus cpu =
     (let numC = timing7 bus cpu (CodeCycles cpu) (if tst (CPSR cpu) 0x20 then 0 else 2);
          numD = DataCycles cpu
      in cpu\<lparr>Cycles := Cycles cpu +
           (if drop_bit 24 (DataRegion cpu) = 0x02
            then if CodeRegion cpu = 0x02 then numC + numD
                 else smax (numC + numD - 3) (smax numC numD)
            else if CodeRegion cpu = 0x02
            then smax (numC + numD - 3) (smax numC numD)
            else numC + numD)\<rparr>)"

section \<open>Jumps\<close>

definition v4_JumpTo :: "'n bus7 \<Rightarrow> u32 \<Rightarrow> bool \<Rightarrow> 'n arm \<Rightarrow> 'n arm" where
  "v4_JumpTo bus addr restorecpsr cpu =
     (let cpu = (if restorecpsr then RestoreCPSR cpu else cpu);
          addr = (if restorecpsr then if tst (CPSR cpu) 0x20 then addr OR 1 else addr AND NOT 1
                  else addr);
          cpu = cpu\<lparr>CodeRegion := drop_bit 24 addr, CodeCycles := drop_bit 15 addr\<rparr>
      in if tst addr 1
         then let addr = addr AND NOT 1;
                  cpu = cpu\<lparr>R := (R cpu)(15 := addr + 2)\<rparr>;
                  (i0, cpu) = v4_read16 bus addr cpu;
                  cpu = cpu\<lparr>NextInstr := (NextInstr cpu)(0 := ucast i0)\<rparr>;
                  (i1, cpu) = v4_read16 bus (addr + 2) cpu;
                  cpu = cpu\<lparr>NextInstr := (NextInstr cpu)(1 := ucast i1)\<rparr>;
                  cpu = cpu\<lparr>Cycles := Cycles cpu
                          + (timing7 bus cpu (CodeCycles cpu) 0 + timing7 bus cpu (CodeCycles cpu) 1)\<rparr>
              in cpu\<lparr>CPSR := CPSR cpu OR 0x20\<rparr>
         else let addr = addr AND NOT 3;
                  cpu = cpu\<lparr>R := (R cpu)(15 := addr + 4)\<rparr>;
                  (i0, cpu) = v4_read32 bus addr cpu;
                  cpu = cpu\<lparr>NextInstr := (NextInstr cpu)(0 := i0)\<rparr>;
                  (i1, cpu) = v4_read32 bus (addr + 4) cpu;
                  cpu = cpu\<lparr>NextInstr := (NextInstr cpu)(1 := i1)\<rparr>;
                  cpu = cpu\<lparr>Cycles := Cycles cpu
                          + (timing7 bus cpu (CodeCycles cpu) 2 + timing7 bus cpu (CodeCycles cpu) 3)\<rparr>
              in cpu\<lparr>CPSR := CPSR cpu AND NOT 0x20\<rparr>)"

definition v4_FillPipeline :: "'n bus7 \<Rightarrow> 'n arm \<Rightarrow> 'n arm" where
  "v4_FillPipeline bus cpu =
     (if tst (CPSR cpu) 0x20
      then let (i0, cpu) = v4_read16 bus (R cpu 15 - 2) cpu;
               cpu = cpu\<lparr>NextInstr := (NextInstr cpu)(0 := ucast i0)\<rparr>;
               (i1, cpu) = v4_read16 bus (R cpu 15) cpu
           in cpu\<lparr>NextInstr := (NextInstr cpu)(1 := ucast i1)\<rparr>
      else let (i0, cpu) = v4_read32 bus (R cpu 15 - 4) cpu;
               cpu = cpu\<lparr>NextInstr := (NextInstr cpu)(0 := i0)\<rparr>;
               (i1, cpu) = v4_read32 bus (R cpu 15) cpu
           in cpu\<lparr>NextInstr := (NextInstr cpu)(1 := i1)\<rparr>)"

section \<open>The virtual-method table\<close>

text \<open>
  The \<open>ARMv5\<close> members behind casts that test \<open>Num == 0\<close> are never reached on this core.
\<close>

definition ARMv4_vt :: "'n bus7 \<Rightarrow> 'n arm_vt" where
  "ARMv4_vt bus = \<lparr>
     JumpTo = v4_JumpTo bus,
     DataRead8 = v4_DataRead8 bus,
     DataRead16 = v4_DataRead16 bus,
     DataRead32 = v4_DataRead32 bus,
     DataRead32S = v4_DataRead32S bus,
     DataWrite8 = v4_DataWrite8 bus,
     DataWrite16 = v4_DataWrite16 bus,
     DataWrite32 = v4_DataWrite32 bus,
     DataWrite32S = v4_DataWrite32S bus,
     AddCycles_C = v4_AddCycles_C bus,
     AddCycles_CI = v4_AddCycles_CI bus,
     AddCycles_CDI = v4_AddCycles_CDI bus,
     AddCycles_CD = v4_AddCycles_CD bus,
     DataAbort = (\<lambda>cpu. cpu),
     UserMap = (\<lambda>_ _. 0),
     CP15Write = (\<lambda>_ _ cpu. cpu),
     CP15Read = (\<lambda>_ _. 0),
     NocashPrint = (\<lambda>n addr cpu. cpu\<lparr>Sys := bus_NocashPrint bus n addr (R cpu) (Sys cpu)\<rparr>),
     NDS_IF = bus_IF bus,
     NDS_IE = bus_IE bus,
     RunCheats = (\<lambda>cpu. cpu\<lparr>Sys := bus_RunCheats bus (R cpu 15) (Sys cpu)\<rparr>)\<rparr>"

lemma ARMv4_vt_sel [vt_simps]:
  "JumpTo (ARMv4_vt bus) = v4_JumpTo bus"
  "DataRead8 (ARMv4_vt bus) = v4_DataRead8 bus"
  "DataRead16 (ARMv4_vt bus) = v4_DataRead16 bus"
  "DataRead32 (ARMv4_vt bus) = v4_DataRead32 bus"
  "DataRead32S (ARMv4_vt bus) = v4_DataRead32S bus"
  "DataWrite8 (ARMv4_vt bus) = v4_DataWrite8 bus"
  "DataWrite16 (ARMv4_vt bus) = v4_DataWrite16 bus"
  "DataWrite32 (ARMv4_vt bus) = v4_DataWrite32 bus"
  "DataWrite32S (ARMv4_vt bus) = v4_DataWrite32S bus"
  "AddCycles_C (ARMv4_vt bus) = v4_AddCycles_C bus"
  "AddCycles_CI (ARMv4_vt bus) = v4_AddCycles_CI bus"
  "AddCycles_CDI (ARMv4_vt bus) = v4_AddCycles_CDI bus"
  "AddCycles_CD (ARMv4_vt bus) = v4_AddCycles_CD bus"
  by (simp_all add: ARMv4_vt_def)

section \<open>One instruction\<close>

definition thumb_step :: "'n bus7 \<Rightarrow> 'n arm \<Rightarrow> 'n arm" where
  "thumb_step bus cpu =
     (let cpu = cpu\<lparr>R := (R cpu)(15 := R cpu 15 + 2)\<rparr>;
          cpu = cpu\<lparr>CurInstr := NextInstr cpu 0\<rparr>;
          cpu = cpu\<lparr>NextInstr := (NextInstr cpu)(0 := NextInstr cpu 1)\<rparr>;
          (i, cpu) = v4_read16 bus (R cpu 15) cpu;
          cpu = cpu\<lparr>NextInstr := (NextInstr cpu)(1 := ucast i)\<rparr>;
          icode = unat (drop_bit 6 (CurInstr cpu))
      in t_handler (THUMBInstrTable ! icode) (ARMv4_vt bus) cpu)"

definition arm_icode :: "u32 \<Rightarrow> nat" where
  "arm_icode instr = unat ((drop_bit 4 instr AND 0xF) OR (drop_bit 16 instr AND 0xFF0))"

definition arm_step :: "'n bus7 \<Rightarrow> 'n arm \<Rightarrow> 'n arm" where
  "arm_step bus cpu =
     (let cpu = cpu\<lparr>R := (R cpu)(15 := R cpu 15 + 4)\<rparr>;
          cpu = cpu\<lparr>CurInstr := NextInstr cpu 0\<rparr>;
          cpu = cpu\<lparr>NextInstr := (NextInstr cpu)(0 := NextInstr cpu 1)\<rparr>;
          (i, cpu) = v4_read32 bus (R cpu 15) cpu;
          cpu = cpu\<lparr>NextInstr := (NextInstr cpu)(1 := i)\<rparr>
      in if CheckCondition (unat (drop_bit 28 (CurInstr cpu))) cpu
         then a_handler (ARMInstrTable ! arm_icode (CurInstr cpu)) (ARMv4_vt bus) cpu
         else v4_AddCycles_C bus cpu)"

definition ARMv4_step :: "'n bus7 \<Rightarrow> 'n arm \<Rightarrow> 'n arm" where
  "ARMv4_step bus cpu = (if tst (CPSR cpu) 0x20 then thumb_step bus cpu else arm_step bus cpu)"

section \<open>The loop of ARMv4::Execute\<close>

definition timestamp7 :: "'n bus7 \<Rightarrow> 'n arm \<Rightarrow> u64" where
  "timestamp7 bus cpu = ARM7Timestamp bus (NDS (Sys cpu))"

definition target7 :: "'n bus7 \<Rightarrow> 'n arm \<Rightarrow> u64" where
  "target7 bus cpu = ARM7Target bus (NDS (Sys cpu))"

definition set_timestamp7 :: "'n bus7 \<Rightarrow> u64 \<Rightarrow> 'n arm \<Rightarrow> 'n arm" where
  "set_timestamp7 bus t cpu =
     cpu\<lparr>Sys := (Sys cpu)\<lparr>NDS := set_ARM7Timestamp bus t (NDS (Sys cpu))\<rparr>\<rparr>"

definition set_halted :: "u8 \<Rightarrow> 'n arm \<Rightarrow> 'n arm" where
  "set_halted h cpu = cpu\<lparr>Sys := (Sys cpu)\<lparr>Halted := h\<rparr>\<rparr>"

text \<open>
  The \<open>while\<close> loop with fuel: \<open>None\<close> when the fuel ran out.  Each round is one instruction,
  then the test of \<open>Halted\<close> (which leaves the loop without adding the cycles), a pending IRQ,
  and the addition of the cycles to the timestamp (an \<open>s32\<close> added to a \<open>u64\<close>).
\<close>

fun v4_loop :: "nat \<Rightarrow> 'n bus7 \<Rightarrow> 'n arm \<Rightarrow> 'n arm option" where
  "v4_loop 0 bus cpu = None"
| "v4_loop (Suc fuel) bus cpu =
     (if timestamp7 bus cpu < target7 bus cpu
      then let cpu = ARMv4_step bus cpu
           in if Halted (Sys cpu) \<noteq> 0
              then Some (if Halted (Sys cpu) = 1 \<and> timestamp7 bus cpu < target7 bus cpu
                         then set_timestamp7 bus (target7 bus cpu) cpu else cpu)
              else let cpu = (if IRQ (Sys cpu) \<noteq> 0 then TriggerIRQ (ARMv4_vt bus) cpu else cpu);
                       cpu = set_timestamp7 bus (timestamp7 bus cpu + scast (Cycles cpu)) cpu
                   in v4_loop fuel bus (cpu\<lparr>Cycles := 0\<rparr>)
      else Some cpu)"

definition v4_exit :: "'n bus7 \<Rightarrow> 'n arm \<Rightarrow> 'n arm" where
  "v4_exit bus cpu =
     (let cpu = (if Halted (Sys cpu) = 2 then set_halted 0 cpu else cpu)
      in if Halted (Sys cpu) = 4 then set_halted 2 (SoftReset bus cpu) else cpu)"

definition ARMv4_Execute :: "nat \<Rightarrow> 'n bus7 \<Rightarrow> 'n arm \<Rightarrow> 'n arm option" where
  "ARMv4_Execute fuel bus cpu =
     (if Halted (Sys cpu) \<noteq> 0 \<and> Halted (Sys cpu) \<noteq> 2 \<and> \<not> HaltInterrupted bus (NDS (Sys cpu)) 1
      then Some (set_timestamp7 bus (target7 bus cpu) cpu)
      else let cpu = (if Halted (Sys cpu) = 0 then cpu
                      else if Halted (Sys cpu) = 2 then set_halted 0 cpu
                      else let cpu = set_halted 0 cpu
                           in if tst (bus_IME bus (NDS (Sys cpu)) 1) 1
                              then TriggerIRQ (ARMv4_vt bus) cpu else cpu)
           in map_option (v4_exit bus) (v4_loop fuel bus cpu))"

section \<open>The invariant of the ARM7\<close>

lemma v4_access_inv [simp]:
  "arm_inv n (snd (v4_read8 bus a cpu)) \<longleftrightarrow> arm_inv n cpu"
  "arm_inv n (snd (v4_read16 bus a cpu)) \<longleftrightarrow> arm_inv n cpu"
  "arm_inv n (snd (v4_read32 bus a cpu)) \<longleftrightarrow> arm_inv n cpu"
  "arm_ok n (snd (v4_read16 bus a cpu)) \<longleftrightarrow> arm_ok n cpu"
  "arm_ok n (snd (v4_read32 bus a cpu)) \<longleftrightarrow> arm_ok n cpu"
  "arm_inv n (v4_write8 bus a b cpu) \<longleftrightarrow> arm_inv n cpu"
  "arm_inv n (v4_write16 bus a h cpu) \<longleftrightarrow> arm_inv n cpu"
  "arm_inv n (v4_write32 bus a w cpu) \<longleftrightarrow> arm_inv n cpu"
  by (simp_all add: v4_read8_def v4_read16_def v4_read32_def v4_write8_def v4_write16_def v4_write32_def
      split: prod.split)

lemma arm_ok_NextInstr [simp]: "arm_ok n (cpu\<lparr>NextInstr := f\<rparr>) \<longleftrightarrow> arm_ok n cpu"
  by (simp add: arm_ok_def)

lemma RestoreCPSR_ok: "arm_ok n cpu \<Longrightarrow> arm_ok n (RestoreCPSR cpu)"
  by (simp add: RestoreCPSR_def Let_def arm_ok_def bit_or_iff)

lemma v4_read_R15: "v4_read16 bus a cpu = (fst (v4_read16 bus a cpu), cpu\<lparr>Sys := Sys (snd (v4_read16 bus a cpu))\<rparr>)"
  "v4_read32 bus a cpu = (fst (v4_read32 bus a cpu), cpu\<lparr>Sys := Sys (snd (v4_read32 bus a cpu))\<rparr>)"
  by (simp_all add: v4_read16_def v4_read32_def split: prod.split)

lemma arm_inv_thumb:
  "arm_ok n cpu \<Longrightarrow> NextInstr cpu 0 < 0x10000 \<Longrightarrow> NextInstr cpu 1 < 0x10000 \<Longrightarrow>
   arm_inv n (cpu\<lparr>CPSR := CPSR cpu OR 0x20\<rparr>)"
  by (simp add: arm_inv_def arm_ok_def bit_or_iff)

lemma arm_inv_arm: "arm_ok n cpu \<Longrightarrow> arm_inv n (cpu\<lparr>CPSR := CPSR cpu AND NOT 0x20\<rparr>)"
  by (simp only: arm_inv_def arm_ok_def CPSR_set bit_numeral_and_not bit_flag_masks) simp

lemma v4_reads:
  "\<exists>f g. \<forall>a c. v4_read16 bus a c = (f a c, c\<lparr>Sys := g a c\<rparr>)"
  by (rule exI [of _ "\<lambda>a c. fst (ARM7Read16 bus (R c 15) a (Sys c))"],
      rule exI [of _ "\<lambda>a c. snd (ARM7Read16 bus (R c 15) a (Sys c))"])
    (simp_all add: v4_read16_def split: prod.split)

lemma v4_reads32:
  "\<exists>f g. \<forall>a c. v4_read32 bus a c = (f a c, c\<lparr>Sys := g a c\<rparr>)"
  by (rule exI [of _ "\<lambda>a c. fst (ARM7Read32 bus (R c 15) a (Sys c))"],
      rule exI [of _ "\<lambda>a c. snd (ARM7Read32 bus (R c 15) a (Sys c))"])
    (simp add: v4_read32_def split: prod.split)

lemma v4_JumpTo_inv:
  assumes "arm_ok n cpu"
  shows "arm_inv n (v4_JumpTo bus a r cpu)"
proof -
  have ok: "arm_ok n cpu" "arm_ok n (RestoreCPSR cpu)" using assms by (simp_all add: RestoreCPSR_ok)
  obtain f g where r16: "\<And>a c. v4_read16 bus a c = (f a c, c\<lparr>Sys := g a c\<rparr>)" using v4_reads [of bus] by blast
  obtain f' g' where r32: "\<And>a c. v4_read32 bus a c = (f' a c, c\<lparr>Sys := g' a c\<rparr>)" using v4_reads32 [of bus] by blast
  show ?thesis
    unfolding v4_JumpTo_def Let_def r16 r32 prod.case
    by (rule if_split [THEN iffD2], intro conjI impI, rule arm_inv_thumb; (rule arm_inv_arm)?; simp add: ok ucast16_less)
qed

lemma v4_data_inv:
  "arm_inv n cpu \<Longrightarrow> arm_inv n (snd (v4_DataRead8 bus a cpu))"
  "arm_inv n cpu \<Longrightarrow> arm_inv n (snd (v4_DataRead16 bus a cpu))"
  "arm_inv n cpu \<Longrightarrow> arm_inv n (snd (v4_DataRead32 bus a cpu))"
  "arm_inv n cpu \<Longrightarrow> arm_inv n (snd (v4_DataRead32S bus a cpu))"
  "arm_inv n cpu \<Longrightarrow> arm_inv n (snd (v4_DataWrite8 bus a b cpu))"
  "arm_inv n cpu \<Longrightarrow> arm_inv n (snd (v4_DataWrite16 bus a h cpu))"
  "arm_inv n cpu \<Longrightarrow> arm_inv n (snd (v4_DataWrite32 bus a w cpu))"
  "arm_inv n cpu \<Longrightarrow> arm_inv n (snd (v4_DataWrite32S bus a w cpu))"
  by (simp_all add: v4_DataRead8_def v4_DataRead16_def v4_DataRead32_def v4_DataRead32S_def v4_DataWrite8_def
      v4_DataWrite16_def v4_DataWrite32_def v4_DataWrite32S_def v4_read8_def v4_read16_def v4_read32_def Let_def
      split: prod.split)

lemma v4_cycles_inv:
  "arm_inv n cpu \<Longrightarrow> arm_inv n (v4_AddCycles_C bus cpu)" "arm_inv n cpu \<Longrightarrow> arm_inv n (v4_AddCycles_CI bus k cpu)"
  "arm_inv n cpu \<Longrightarrow> arm_inv n (v4_AddCycles_CDI bus cpu)" "arm_inv n cpu \<Longrightarrow> arm_inv n (v4_AddCycles_CD bus cpu)"
  by (simp_all add: v4_AddCycles_C_def v4_AddCycles_CI_def v4_AddCycles_CDI_def v4_AddCycles_CD_def Let_def)

text \<open>The ARM7's methods keep the contract of a core.\<close>

interpretation v4: arm_core "ARMv4_vt bus" 1 for bus :: "'n bus7"
  by unfold_locales (simp_all add: ARMv4_vt_def v4_JumpTo_inv v4_data_inv v4_cycles_inv)

lemma thumb_step_inv:
  assumes "arm_inv 1 cpu" "bit (CPSR cpu) 5"
  shows "arm_inv 1 (thumb_step bus cpu)"
proof -
  obtain f g where r16: "\<And>a c. v4_read16 bus a c = (f a c, c\<lparr>Sys := g a c\<rparr>)" using v4_reads [of bus] by blast
  show ?thesis
    unfolding thumb_step_def Let_def r16 prod.case
    by (rule v4.t_handler_inv) (use assms in \<open>simp add: arm_inv_def arm_ok_def ucast16_less\<close>)
qed

lemma arm_step_inv:
  assumes "arm_inv 1 cpu" "\<not> bit (CPSR cpu) 5"
  shows "arm_inv 1 (arm_step bus cpu)"
proof -
  obtain f g where r32: "\<And>a c. v4_read32 bus a c = (f a c, c\<lparr>Sys := g a c\<rparr>)" using v4_reads32 [of bus] by blast
  show ?thesis
    unfolding arm_step_def Let_def r32 prod.case
    by (rule if_split [THEN iffD2], intro conjI impI v4.a_handler_inv v4_cycles_inv)
      (use assms in \<open>simp_all add: arm_inv_def arm_ok_def\<close>)
qed

lemma ARMv4_step_inv: "arm_inv 1 cpu \<Longrightarrow> arm_inv 1 (ARMv4_step bus cpu)"
  by (simp add: ARMv4_step_def tst_masks thumb_step_inv arm_step_inv)

text \<open>
  Every state the ARM7 can be in: reset, then instructions, interrupts, whatever the rest of the
  console does to the bus, the halt and the IRQ line, and the accounting of cycles.
\<close>

inductive arm7_run :: "'n bus7 \<Rightarrow> 'n arm \<Rightarrow> bool" for bus where
  reset: "Num cpu = 1 \<Longrightarrow> arm7_run bus (arm_Reset (ARMv4_vt bus) cpu)"
| step: "arm7_run bus cpu \<Longrightarrow> arm7_run bus (ARMv4_step bus cpu)"
| irq: "arm7_run bus cpu \<Longrightarrow> arm7_run bus (TriggerIRQ (ARMv4_vt bus) cpu)"
| outside: "arm7_run bus cpu \<Longrightarrow> arm7_run bus (cpu\<lparr>Sys := s\<rparr>)"
| charge: "arm7_run bus cpu \<Longrightarrow> arm7_run bus (cpu\<lparr>Cycles := c\<rparr>)"

lemma arm_Reset_inv: "Num cpu = 1 \<Longrightarrow> arm_inv 1 (arm_Reset (ARMv4_vt bus) cpu)"
  unfolding arm_Reset_def Let_def
  by (rule v4.JumpTo_inv) (simp add: arm_ok_def arm_reset_regs_def)

lemma arm7_run_inv: "arm7_run bus cpu \<Longrightarrow> arm_inv 1 cpu"
  by (induction rule: arm7_run.induct) (simp_all add: arm_Reset_inv ARMv4_step_inv v4.TriggerIRQ_inv)

lemma v4_loop_run:
  "arm7_run bus cpu \<Longrightarrow> v4_loop k bus cpu = Some cpu' \<Longrightarrow> arm7_run bus cpu'"
proof (induction k arbitrary: cpu)
  case (Suc k)
  have set: "arm7_run bus c \<Longrightarrow> arm7_run bus (set_timestamp7 bus t c)"
    "arm7_run bus c \<Longrightarrow> arm7_run bus ((set_timestamp7 bus t c)\<lparr>Cycles := 0\<rparr>)" for c t
    by (auto simp: set_timestamp7_def intro: arm7_run.outside arm7_run.charge)
  show ?case
    using Suc.prems Suc.IH
    by (auto simp: Let_def intro!: set arm7_run.step arm7_run.irq split: if_splits)
      (erule Suc.IH [rotated], intro set arm7_run.step arm7_run.irq, assumption)+
qed simp

text \<open>
  The next instruction may index the tables it goes through: in Thumb state the 1024 handlers of
  \<open>THUMBInstrTable\<close>, in ARM state the condition's row of \<open>ConditionTable\<close> and the 4096 handlers of
  \<open>ARMInstrTable\<close>.
\<close>

definition dispatch_ok :: "'n arm \<Rightarrow> bool" where
  "dispatch_ok cpu \<longleftrightarrow> Num cpu = 1 \<and> bit (CPSR cpu) 4 \<and>
     (if tst (CPSR cpu) 0x20 then unat (drop_bit 6 (NextInstr cpu 0)) < length THUMBInstrTable
      else unat (drop_bit 28 (NextInstr cpu 0)) < length ConditionTable \<and>
        arm_icode (NextInstr cpu 0) < length ARMInstrTable)"

lemma dispatch_okI:
  assumes I: "arm_inv 1 cpu"
  shows "dispatch_ok cpu"
proof -
  have "unat (drop_bit 6 (NextInstr cpu 0)) < 1024" if "NextInstr cpu 0 < 0x10000"
    using that by (simp add: word_less_nat_alt drop_bit_eq_div unat_div) 
  moreover have "length THUMBInstrTable = 1024"
    unfolding THUMBInstrTable_blocks by (subst length_concat_rows [where k = 64]) (simp_all add: length_thumb_block)
  moreover have "length ARMInstrTable = 4096"
    unfolding ARMInstrTable_blocks by (subst length_concat_rows [where k = 256]) (simp_all add: length_table_block)
  moreover have "arm_icode (NextInstr cpu 0) < 4096"
  proof -
    have le: "y \<le> 0xFFF" if "y = y AND 0xFFF" for y :: u32
    proof -
      have "y AND 0xFFF \<le> 0xFFF" by (rule word_and_le1)
      with that show ?thesis by simp
    qed
    have "(drop_bit 4 x AND 0xF) OR (drop_bit 16 x AND 0xFF0) \<le> 0xFFF" for x :: u32
      by (rule le) (simp add: bit.conj_disj_distrib2 and.assoc)
    then show ?thesis by (simp add: arm_icode_def word_le_nat_alt le_imp_less_Suc [of _ 4095, simplified])
  qed
  moreover have "unat (drop_bit 28 (NextInstr cpu 0)) < length ConditionTable"
    using unsigned_less [of "NextInstr cpu 0", where ?'a = nat] by (simp add: drop_bit_eq_div unat_div ConditionTable_def less_mult_imp_div_less)
  ultimately show ?thesis using I by (simp add: dispatch_ok_def arm_inv_def arm_ok_def tst_masks)
qed

text \<open>C1.  The ARM7 never dispatches outside its tables.  In every state it can reach from reset by
  instructions, interrupts and whatever the console does to the bus and its lines, it keeps its
  identity and a 32-bit mode, and the next instruction's index is below the length of the Thumb table, or of
  the condition table and the ARM table; and the loop of \<open>Execute\<close>, however many
  instructions and interrupts it runs, ends in such a state again.\<close>

theorem arm7_dispatch_in_bounds:
  assumes "arm7_run bus cpu"
  shows "dispatch_ok cpu \<and> (\<forall>fuel cpu'. v4_loop fuel bus cpu = Some cpu' \<longrightarrow> arm7_run bus cpu' \<and> dispatch_ok cpu')"
  using assms v4_loop_run arm7_run_inv dispatch_okI by blast

theorem arm7_dispatch_in_bounds_witness:
  "dispatch_ok (arm_Reset (ARMv4_vt (undefined :: unit bus7)) (undefined\<lparr>Num := 1\<rparr>))"
  using arm7_dispatch_in_bounds
    [of "undefined :: unit bus7" "arm_Reset (ARMv4_vt (undefined :: unit bus7)) (undefined\<lparr>Num := 1\<rparr>)"]
    arm7_run.reset [of "undefined\<lparr>Num := 1\<rparr>" "undefined :: unit bus7"]
  by simp

end
