(* ===== verification/Armv4Props.thy ===== *)
theory Armv4Props
  imports Armv4
begin

text \<open>
  Properties of whole instructions on the ARM7 of \<open>Armv4\<close>: entry to an exception and the return
  from it, and the stack instructions as inverse operations on memory.
\<close>

section \<open>Exceptions\<close>

lemma mode_bits:
  "((p AND NOT 0xBF) OR 0x92) AND 0x1F = (0x12 :: u32)"
  "((p AND NOT 0xBF) OR 0x93) AND 0x1F = (0x13 :: u32)"
  "((p AND NOT 0xBF) OR 0x9B) AND 0x1F = (0x1B :: u32)"
  by (simp_all add: bit.conj_disj_distrib2 and.assoc)

lemma v4_JumpTo_frame:
  "CPSR (v4_JumpTo bus a False cpu) AND 0x1F = CPSR cpu AND 0x1F"
  "i \<noteq> 15 \<Longrightarrow> R (v4_JumpTo bus a False cpu) i = R cpu i"
  "R_FIQ (v4_JumpTo bus a False cpu) = R_FIQ cpu" "R_IRQ (v4_JumpTo bus a False cpu) = R_IRQ cpu"
  "R_SVC (v4_JumpTo bus a False cpu) = R_SVC cpu" "R_ABT (v4_JumpTo bus a False cpu) = R_ABT cpu"
  "R_UND (v4_JumpTo bus a False cpu) = R_UND cpu"
proof -
  obtain f g where r16: "\<And>a c. v4_read16 bus a c = (f a c, c\<lparr>Sys := g a c\<rparr>)" using v4_reads [of bus] by blast
  obtain f' g' where r32: "\<And>a c. v4_read32 bus a c = (f' a c, c\<lparr>Sys := g' a c\<rparr>)" using v4_reads32 [of bus] by blast
  have "(p OR 0x20) AND 0x1F = p AND (0x1F :: u32)" "(p AND NOT 0x20) AND 0x1F = p AND (0x1F :: u32)" for p
    by (simp_all add: bit.conj_disj_distrib2 and.assoc)
  then show "CPSR (v4_JumpTo bus a False cpu) AND 0x1F = CPSR cpu AND 0x1F"
    by (simp add: v4_JumpTo_def Let_def r16 r32)
qed (simp_all add: v4_JumpTo_def Let_def v4_read16_def v4_read32_def split: prod.split)

text \<open>The saved status register of the current mode.\<close>

definition saved_psr :: "'n arm \<Rightarrow> u32" where
  "saved_psr cpu = (case spsr_of_mode (CPSR cpu AND 0x1F) of Some p \<Rightarrow> get_psr p cpu | None \<Rightarrow> CPSR cpu)"

lemma RestoreCPSR_saved: "CPSR (RestoreCPSR cpu) = saved_psr cpu OR 0x10"
  by (simp add: RestoreCPSR_def Let_def saved_psr_def spsr_of_mode_def)

lemma RestoreCPSR_banks:
  "mode_reg (bank_of (CPSR (RestoreCPSR cpu))) b r (RestoreCPSR cpu) = mode_reg (bank_of (CPSR cpu)) b r cpu"
  by (simp add: RestoreCPSR_def Let_def UpdateMode_mode_reg)

lemma mode_reg_cong:
  assumes "\<And>i. i \<le> 14 \<Longrightarrow> R c i = R c' i"
    and "\<And>i. i < 7 \<Longrightarrow> R_FIQ c i = R_FIQ c' i" and "\<And>i. i < 2 \<Longrightarrow> R_IRQ c i = R_IRQ c' i"
    and "\<And>i. i < 2 \<Longrightarrow> R_SVC c i = R_SVC c' i" and "\<And>i. i < 2 \<Longrightarrow> R_ABT c i = R_ABT c' i"
    and "\<And>i. i < 2 \<Longrightarrow> R_UND c i = R_UND c' i" and "r \<le> 14"
  shows "mode_reg a b r c = mode_reg a b r c'"
proof -
  have "banked b r \<Longrightarrow> bank_slot b r c = bank_slot b r c'" for b
    using assms by (cases b) (auto simp: bank_slot_def banked_def)
  then show ?thesis
    using assms(1, 7) by (auto simp: mode_reg_def Let_def bank_slot_def)
qed

lemma mode_reg_LR:
  assumes "a \<notin> {B_USR}" "(b, r) \<noteq> (a, 14)"
  shows "mode_reg a b r (c\<lparr>R := (R c)(14 := x)\<rparr>) = mode_reg a b r c"
proof -
  have "banked a 14" using assms(1) by (cases a) (auto simp: banked_iff)
  moreover have "bank_slot b r (c\<lparr>R := (R c)(14 := x)\<rparr>) = bank_slot b r c" if "b \<noteq> B_USR" for b
    using that by (simp add: bank_slot_def split: bank.split)
  ultimately show ?thesis using assms
    by (cases "r = 14") (auto simp: mode_reg_def Let_def banked_def)
qed

text \<open>
  \<open>cpu'\<close> is in the exception bank \<open>m\<close>, and the return of the code (\<open>RestoreCPSR\<close>) brings back the
  status register and every register of every bank of \<open>cpu\<close>, the exception's own LR apart.
\<close>

definition returns_to :: "'n arm \<Rightarrow> bank \<Rightarrow> 'n arm \<Rightarrow> bool" where
  "returns_to cpu m cpu' \<longleftrightarrow>
     bank_of (CPSR cpu') = m \<and> CPSR (RestoreCPSR cpu') = CPSR cpu \<and>
     (\<forall>b r. r \<le> 14 \<and> (b, r) \<noteq> (m, 14) \<longrightarrow>
        mode_reg (bank_of (CPSR cpu)) b r (RestoreCPSR cpu') = mode_reg (bank_of (CPSR cpu)) b r cpu)"

lemma returns_toI:
  assumes "bit (CPSR cpu) 4" and m: "bank_of (CPSR cpu') = m" "m \<noteq> B_USR"
    and saved: "saved_psr cpu' = CPSR cpu"
    and regs: "\<And>b r. r \<le> 14 \<Longrightarrow> (b, r) \<noteq> (m, 14) \<Longrightarrow>
      mode_reg m b r cpu' = mode_reg (bank_of (CPSR cpu)) b r cpu"
  shows "returns_to cpu m cpu'"
proof -
  have "CPSR cpu OR 0x10 = CPSR cpu"
  proof (rule bit_word_eqI)
    fix i
    have "bit (0x10 :: u32) i \<longleftrightarrow> i = 4" using bit_pow2_u32 [of 4 i] by simp
    then show "bit (CPSR cpu OR 0x10) i = bit (CPSR cpu) i"
      using assms(1) by (simp only: bit_or_iff) auto
  qed
  then have c: "CPSR (RestoreCPSR cpu') = CPSR cpu" by (simp add: RestoreCPSR_saved saved)
  show ?thesis
    unfolding returns_to_def
  proof (intro conjI allI impI)
    fix b and r :: nat
    assume "r \<le> 14 \<and> (b, r) \<noteq> (m, 14)"
    then show "mode_reg (bank_of (CPSR cpu)) b r (RestoreCPSR cpu') = mode_reg (bank_of (CPSR cpu)) b r cpu"
      using RestoreCPSR_banks [of cpu' b r] regs [of r b] unfolding c m(1) by (simp only: simp_thms)
  qed (rule m(1) c)+
qed

lemma exception_returns:
  fixes cpu :: "'n arm"
  defines "c1 p \<equiv> UpdateMode (CPSR cpu) p False (cpu\<lparr>CPSR := p\<rparr>)"
  assumes "bit (CPSR cpu) 4" and m: "bank_of p = m" "m \<noteq> B_USR"
    and mode: "CPSR c AND 0x1F = p AND 0x1F"
    and saved: "saved_psr c = CPSR cpu"
    and regs: "\<And>i. i \<le> 14 \<Longrightarrow> R c i = ((R (c1 p))(14 := lr)) i"
      "\<And>i. i < 7 \<Longrightarrow> R_FIQ c i = R_FIQ (c1 p) i" "\<And>i. i < 2 \<Longrightarrow> R_IRQ c i = R_IRQ (c1 p) i"
      "\<And>i. i < 2 \<Longrightarrow> R_SVC c i = R_SVC (c1 p) i" "\<And>i. i < 2 \<Longrightarrow> R_ABT c i = R_ABT (c1 p) i"
      "\<And>i. i < 2 \<Longrightarrow> R_UND c i = R_UND (c1 p) i"
  shows "returns_to cpu m c"
proof (rule returns_toI)
  show "bank_of (CPSR c) = m" using m mode by (simp add: bank_of_def)
  fix b and r :: nat
  assume r: "r \<le> 14" "(b, r) \<noteq> (m, 14)"
  have "mode_reg m b r c = mode_reg m b r ((c1 p)\<lparr>R := (R (c1 p))(14 := lr)\<rparr>)"
    using r regs by (intro mode_reg_cong) simp_all
  also have "\<dots> = mode_reg m b r (c1 p)" using m r by (intro mode_reg_LR) auto
  also have "\<dots> = mode_reg (bank_of (CPSR cpu)) b r cpu"
    unfolding m(1) [symmetric] c1_def UpdateMode_mode_reg by simp
  finally show "mode_reg m b r c = mode_reg (bank_of (CPSR cpu)) b r cpu" .
qed (use assms in auto)

lemma saved_psr_mode:
  "CPSR c AND 0x1F = 0x12 \<Longrightarrow> saved_psr c = R_IRQ c 2"
  "CPSR c AND 0x1F = 0x13 \<Longrightarrow> saved_psr c = R_SVC c 2"
  "CPSR c AND 0x1F = 0x1B \<Longrightarrow> saved_psr c = R_UND c 2"
  by (simp_all add: saved_psr_def spsr_of_mode_def)

lemma bank_of_exception:
  "bank_of ((p AND NOT 0xBF) OR 0x92) = B_IRQ" "bank_of ((p AND NOT 0xBF) OR 0x93) = B_SVC"
  "bank_of ((p AND NOT 0xBF) OR 0x9B) = B_UND"
  unfolding bank_of_def mode_bits by simp_all

lemma ARMv4_RunCheats:
  "RunCheats (ARMv4_vt bus) cpu = cpu\<lparr>Sys := bus_RunCheats bus (R cpu 15) (Sys cpu)\<rparr>"
  by (simp add: ARMv4_vt_def)

lemmas exception_simps = A_SVC_def T_SVC_def A_UNK_def T_UNK_def TriggerIRQ_def Let_def vt_simps v4_JumpTo_frame
  write_reg_def ARMv4_RunCheats

lemma A_SVC_returns:
  assumes "bit (CPSR cpu) 4"
  shows "returns_to cpu B_SVC (A_SVC (ARMv4_vt bus) cpu)"
proof -
  let ?p = "(CPSR cpu AND NOT 0xBF) OR 0x93"
  have m: "CPSR (A_SVC (ARMv4_vt bus) cpu) AND 0x1F = ?p AND 0x1F"
    using assms by (simp add: exception_simps)
  show ?thesis
    by (rule exception_returns [where p = ?p and lr = "R cpu 15 - 4", OF assms(1) bank_of_exception(2) _ m])
      (use assms in \<open>simp_all add: saved_psr_mode(2) [OF m [unfolded mode_bits]]\<close>,
       use assms in \<open>simp_all add: exception_simps\<close>)
qed

lemma T_SVC_returns:
  assumes "bit (CPSR cpu) 4"
  shows "returns_to cpu B_SVC (T_SVC (ARMv4_vt bus) cpu)"
proof -
  let ?p = "(CPSR cpu AND NOT 0xBF) OR 0x93"
  have m: "CPSR (T_SVC (ARMv4_vt bus) cpu) AND 0x1F = ?p AND 0x1F"
    using assms by (simp add: exception_simps)
  show ?thesis
    by (rule exception_returns [where p = ?p and lr = "R cpu 15 - 2", OF assms(1) bank_of_exception(2) _ m])
      (use assms in \<open>simp_all add: saved_psr_mode(2) [OF m [unfolded mode_bits]]\<close>,
       use assms in \<open>simp_all add: exception_simps\<close>)
qed

lemma A_UNK_returns:
  assumes "bit (CPSR cpu) 4"
  shows "returns_to cpu B_UND (A_UNK (ARMv4_vt bus) cpu)"
proof -
  let ?p = "(CPSR cpu AND NOT 0xBF) OR 0x9B"
  have m: "CPSR (A_UNK (ARMv4_vt bus) cpu) AND 0x1F = ?p AND 0x1F"
    using assms by (simp add: exception_simps)
  show ?thesis
    by (rule exception_returns [where p = ?p and lr = "R cpu 15 - 4", OF assms(1) bank_of_exception(3) _ m])
      (use assms in \<open>simp_all add: saved_psr_mode(3) [OF m [unfolded mode_bits]]\<close>,
       use assms in \<open>simp_all add: exception_simps\<close>)
qed

lemma T_UNK_returns:
  assumes "bit (CPSR cpu) 4"
  shows "returns_to cpu B_UND (T_UNK (ARMv4_vt bus) cpu)"
proof -
  let ?p = "(CPSR cpu AND NOT 0xBF) OR 0x9B"
  have m: "CPSR (T_UNK (ARMv4_vt bus) cpu) AND 0x1F = ?p AND 0x1F"
    using assms by (simp add: exception_simps)
  show ?thesis
    by (rule exception_returns [where p = ?p and lr = "R cpu 15 - 2", OF assms(1) bank_of_exception(3) _ m])
      (use assms in \<open>simp_all add: saved_psr_mode(3) [OF m [unfolded mode_bits]]\<close>,
       use assms in \<open>simp_all add: exception_simps\<close>)
qed

lemma TriggerIRQ_returns:
  assumes "bit (CPSR cpu) 4" "\<not> tst (CPSR cpu) 0x80"
  shows "returns_to cpu B_IRQ (TriggerIRQ (ARMv4_vt bus) cpu)"
proof -
  let ?p = "(CPSR cpu AND NOT 0xBF) OR 0x92"
  have m: "CPSR (TriggerIRQ (ARMv4_vt bus) cpu) AND 0x1F = ?p AND 0x1F"
    using assms by (simp add: exception_simps)
  show ?thesis
    by (rule exception_returns [where p = ?p and lr = "R cpu 15 + (if tst (CPSR cpu) 0x20 then 2 else 0)", OF assms(1) bank_of_exception(1) _ m])
      (use assms in \<open>simp_all add: saved_psr_mode(1) [OF m [unfolded mode_bits]]\<close>,
       use assms in \<open>simp_all add: exception_simps\<close>)
qed

text \<open>C4.  Exceptions nest safely: software interrupts and undefined instructions of both states, and
  interrupts when not masked, save the status register, and the return restores it together with
  all banked registers of all modes (only the link register of the exception's bank is new).\<close>

theorem exceptions_return:
  assumes "bit (CPSR cpu) 4"
  shows "returns_to cpu B_SVC (A_SVC (ARMv4_vt bus) cpu) \<and> returns_to cpu B_SVC (T_SVC (ARMv4_vt bus) cpu) \<and>
    returns_to cpu B_UND (A_UNK (ARMv4_vt bus) cpu) \<and> returns_to cpu B_UND (T_UNK (ARMv4_vt bus) cpu) \<and>
    (tst (CPSR cpu) 0x80 \<or> returns_to cpu B_IRQ (TriggerIRQ (ARMv4_vt bus) cpu))"
  using A_SVC_returns [OF assms] T_SVC_returns [OF assms] A_UNK_returns [OF assms] T_UNK_returns [OF assms]
    TriggerIRQ_returns [OF assms] by blast
theorem exceptions_return_witness:
  "returns_to (undefined\<lparr>CPSR := 0x1F\<rparr>) B_IRQ
     (TriggerIRQ (ARMv4_vt (undefined :: unit bus7)) (undefined\<lparr>CPSR := 0x1F\<rparr>))"
  using exceptions_return [of "undefined\<lparr>CPSR := 0x1F\<rparr> :: unit arm" undefined]
  by (simp add: tst_def)

section \<open>Stacks\<close>

text \<open>Consecutive word accesses to the ARM7's bus from address \<open>a\<close>.\<close>

fun store_words :: "'n bus7 \<Rightarrow> u32 \<Rightarrow> u32 \<Rightarrow> u32 list \<Rightarrow> 'n sys \<Rightarrow> 'n sys" where
  "store_words bus pc a [] s = s"
| "store_words bus pc a (v # vs) s = store_words bus pc (a + 4) vs (ARM7Write32 bus pc (a AND NOT 3) v s)"

fun load_words :: "'n bus7 \<Rightarrow> u32 \<Rightarrow> u32 \<Rightarrow> nat \<Rightarrow> 'n sys \<Rightarrow> u32 list \<times> 'n sys" where
  "load_words bus pc a 0 s = ([], s)"
| "load_words bus pc a (Suc n) s =
     (let (v, s) = ARM7Read32 bus pc (a AND NOT 3) s; (vs, s) = load_words bus pc (a + 4) n s in (v # vs, s))"

lemma write_seq_v4:
  "\<exists>dr dc. write_seq (ARMv4_vt bus) first a v cpu =
    (True, cpu\<lparr>Sys := ARM7Write32 bus (R cpu 15) (a AND NOT 3) v (Sys cpu), DataRegion := dr, DataCycles := dc\<rparr>)"
  by (rule exI [of _ "DataRegion (snd (write_seq (ARMv4_vt bus) first a v cpu))"],
      rule exI [of _ "DataCycles (snd (write_seq (ARMv4_vt bus) first a v cpu))"], cases first)
    (auto intro!: arm.equality simp: write_seq_def vt_simps v4_DataWrite32_def v4_DataWrite32S_def
        Let_def v4_write32_def)

lemma read_seq_v4:
  "\<exists>dr dc. read_seq (ARMv4_vt bus) first a cpu =
    (Some (fst (ARM7Read32 bus (R cpu 15) (a AND NOT 3) (Sys cpu))),
     cpu\<lparr>Sys := snd (ARM7Read32 bus (R cpu 15) (a AND NOT 3) (Sys cpu)), DataRegion := dr, DataCycles := dc\<rparr>)"
  by (rule exI [of _ "DataRegion (snd (read_seq (ARMv4_vt bus) first a cpu))"],
      rule exI [of _ "DataCycles (snd (read_seq (ARMv4_vt bus) first a cpu))"], cases first)
    (auto intro!: arm.equality simp: read_seq_def vt_simps v4_DataRead32_def v4_DataRead32S_def
        Let_def v4_read32_def split: prod.split)

lemma store_loop_v4:
  "\<exists>dr dc. T_store_loop (ARMv4_vt bus) is a first cpu =
     (Some (a + 4 * of_nat (length is), first \<and> is = []),
      cpu\<lparr>Sys := store_words bus (R cpu 15) a (map (R cpu) is) (Sys cpu), DataRegion := dr, DataCycles := dc\<rparr>)"
proof (induction "is" arbitrary: a first cpu)
  case Nil
  have "cpu = cpu\<lparr>Sys := Sys cpu, DataRegion := DataRegion cpu, DataCycles := DataCycles cpu\<rparr>" by simp
  then show ?case
    by (intro exI [of _ "DataRegion cpu", OF exI [of _ "DataCycles cpu"]]) simp
next
  case (Cons i "is")
  obtain dr dc where w: "write_seq (ARMv4_vt bus) first a (R cpu i) cpu =
    (True, cpu\<lparr>Sys := ARM7Write32 bus (R cpu 15) (a AND NOT 3) (R cpu i) (Sys cpu), DataRegion := dr, DataCycles := dc\<rparr>)"
    using write_seq_v4 by blast
  show ?case
    using Cons [of "a + 4" False "cpu\<lparr>Sys := ARM7Write32 bus (R cpu 15) (a AND NOT 3) (R cpu i) (Sys cpu), DataRegion := dr, DataCycles := dc\<rparr>"]
    by (simp only: T_store_loop.simps w prod.case bool.case) (auto simp: algebra_simps)
qed

lemma popcount_split:
  "popcount32 (x AND 0x1FF) = length (bits_up (x AND 0xFF) @ (if bit x 8 then [14::nat] else []))"
proof -
  have u: "[0..<32] = [0..<8] @ 8 # [9..<32::nat]"
    by (simp add: upt_rec)
  have "(0x1FF :: u32) = push_bit 0 (mask 9)" "(0xFF :: u32) = push_bit 0 (mask 8)"
    by (simp_all add: mask_numeral)
  then have "bit (0x1FF :: u32) i \<longleftrightarrow> i < 9" "bit (0xFF :: u32) i \<longleftrightarrow> i < 8" for i
    by (simp_all only: bit_run_u32) auto
  then have b: "bit (x AND 0x1FF) = (\<lambda>i. bit x i \<and> i < 9)" "bit (x AND 0xFF) = (\<lambda>i. bit x i \<and> i < 8)"
    by (simp_all only: fun_eq_iff bit_and_iff simp_thms)
  have f: "filter (\<lambda>i. bit x i \<and> i < 9) [0..<8] = filter (bit x) [0..<8]"
    "filter (\<lambda>i. bit x i \<and> i < 8) [0..<8] = filter (bit x) [0..<8]"
    "filter (\<lambda>i. bit x i \<and> i < 9) [9..<32] = []" "filter (\<lambda>i. bit x i \<and> i < 8) [9..<32] = []"
    by (auto intro!: filter_cong simp: filter_empty_conv)
  show ?thesis
    unfolding popcount32_def bits_up_def b u by (simp only: filter_append filter.simps f) simp
qed

lemma load_loop_v4:
  "15 \<notin> set is \<Longrightarrow> \<exists>dr dc. T_load_loop (ARMv4_vt bus) is a first cpu =
     (Some (a + 4 * of_nat (length is), first \<and> is = []),
      cpu\<lparr>Sys := snd (load_words bus (R cpu 15) a (length is) (Sys cpu)), DataRegion := dr, DataCycles := dc,
        R := fold (\<lambda>(i, v) f. f(i := v)) (zip is (fst (load_words bus (R cpu 15) a (length is) (Sys cpu)))) (R cpu)\<rparr>)"
proof (induction "is" arbitrary: a first cpu)
  case Nil
  have "cpu = cpu\<lparr>Sys := Sys cpu, DataRegion := DataRegion cpu, DataCycles := DataCycles cpu, R := R cpu\<rparr>" by simp
  then show ?case
    by (intro exI [of _ "DataRegion cpu", OF exI [of _ "DataCycles cpu"]]) simp
next
  case (Cons i "is")
  obtain v s where v: "ARM7Read32 bus (R cpu 15) (a AND NOT 3) (Sys cpu) = (v, s)" by fastforce
  obtain dr dc where w: "read_seq (ARMv4_vt bus) first a cpu =
    (Some v, cpu\<lparr>Sys := s, DataRegion := dr, DataCycles := dc\<rparr>)"
    using read_seq_v4 [of bus first a cpu] unfolding v fst_conv snd_conv by blast
  obtain vs s' where l: "load_words bus (R cpu 15) (a + 4) (length is) s = (vs, s')" by fastforce
  have 15: "15 \<notin> set is" "i \<noteq> 15" using Cons.prems by auto
  show ?case
    using Cons.IH [OF 15(1), of "a + 4" False "write_reg i v (cpu\<lparr>Sys := s, DataRegion := dr, DataCycles := dc\<rparr>)"] 15(2) v l
    by (simp only: T_load_loop.simps w prod.case option.case) (auto simp: write_reg_def algebra_simps)
qed

text \<open>The registers \<open>PUSH\<close> stores, lowest address first.\<close>

definition push_regs :: "u32 \<Rightarrow> nat list" where
  "push_regs instr = bits_up (instr AND 0xFF) @ (if bit instr 8 then [14] else [])"

lemma store_words_append:
  "store_words bus pc a (xs @ ys) s = store_words bus pc (a + 4 * of_nat (length xs)) ys (store_words bus pc a xs s)"
  by (induction xs arbitrary: a s) (simp_all add: algebra_simps)

lemma v4_CD_frame: "Sys (v4_AddCycles_CD bus cpu) = Sys cpu" "R (v4_AddCycles_CD bus cpu) = R cpu"
  "Sys (v4_AddCycles_CDI bus cpu) = Sys cpu" "R (v4_AddCycles_CDI bus cpu) = R cpu"
  by (simp_all add: v4_AddCycles_CD_def v4_AddCycles_CDI_def Let_def)

lemma T_PUSH_each:
  fixes cpu :: "'n arm"
  defines "regs \<equiv> push_regs (CurInstr cpu)"
  defines "base \<equiv> R cpu 13 - 4 * of_nat (length regs)"
  shows "Sys (T_PUSH (ARMv4_vt bus) cpu) = store_words bus (R cpu 15) base (map (R cpu) regs) (Sys cpu)"
    and "R (T_PUSH (ARMv4_vt bus) cpu) = (R cpu)(13 := base)"
proof -
  let ?low = "bits_up (CurInstr cpu AND 0xFF)"
  have n: "popcount32 (CurInstr cpu AND 0x1FF) = length regs"
    unfolding regs_def push_regs_def by (rule popcount_split)
  have b: "R cpu 13 - push_bit 2 (of_nat (length regs)) = base"
    by (simp add: base_def push_bit_eq_mult mult.commute)
  obtain dr dc where l: "T_store_loop (ARMv4_vt bus) ?low base True cpu =
     (Some (base + 4 * of_nat (length ?low), True \<and> ?low = []),
      cpu\<lparr>Sys := store_words bus (R cpu 15) base (map (R cpu) ?low) (Sys cpu), DataRegion := dr, DataCycles := dc\<rparr>)"
    using store_loop_v4 by blast
  let ?c = "cpu\<lparr>Sys := store_words bus (R cpu 15) base (map (R cpu) ?low) (Sys cpu), DataRegion := dr, DataCycles := dc\<rparr>"
  obtain dr' dc' where w: "write_seq (ARMv4_vt bus) (True \<and> ?low = []) (base + 4 * of_nat (length ?low)) (R cpu 14) ?c =
     (True, ?c\<lparr>Sys := ARM7Write32 bus (R ?c 15) ((base + 4 * of_nat (length ?low)) AND NOT 3) (R cpu 14) (Sys ?c),
       DataRegion := dr', DataCycles := dc'\<rparr>)"
    using write_seq_v4 by blast
  have p: "T_PUSH (ARMv4_vt bus) cpu = v4_AddCycles_CD bus (write_reg 13 base
     (if bit (CurInstr cpu) 8
      then ?c\<lparr>Sys := ARM7Write32 bus (R ?c 15) ((base + 4 * of_nat (length ?low)) AND NOT 3) (R cpu 14) (Sys ?c),
       DataRegion := dr', DataCycles := dc'\<rparr> else ?c))"
    unfolding T_PUSH_def Let_def n b bit_walk_eq l tst_bit
    using w b by (cases "bit (CurInstr cpu) 8") (simp_all add: on_write_def vt_simps)
  show "Sys (T_PUSH (ARMv4_vt bus) cpu) = store_words bus (R cpu 15) base (map (R cpu) regs) (Sys cpu)"
    unfolding p regs_def push_regs_def by (simp add: v4_CD_frame write_reg_def store_words_append)
  show "R (T_PUSH (ARMv4_vt bus) cpu) = (R cpu)(13 := base)"
    unfolding p by (simp add: v4_CD_frame write_reg_def)
qed

text \<open> \<open>PUSH\<close> moves the stack pointer down by the whole list and stores the listed registers, LR
  last, in ascending order at consecutive words from the new stack pointer; no other register
  changes.\<close>

theorem T_PUSH_stores:
  "Sys (T_PUSH (ARMv4_vt bus) cpu) =
     store_words bus (R cpu 15) (R cpu 13 - 4 * of_nat (length (push_regs (CurInstr cpu))))
       (map (R cpu) (push_regs (CurInstr cpu))) (Sys cpu) \<and>
   R (T_PUSH (ARMv4_vt bus) cpu) =
     (R cpu)(13 := R cpu 13 - 4 * of_nat (length (push_regs (CurInstr cpu))))"
  using T_PUSH_each [of bus cpu] by simp

lemma T_POP_loads:
  fixes cpu :: "'n arm"
  defines "regs \<equiv> bits_up (CurInstr cpu AND 0xFF)"
  assumes "\<not> bit (CurInstr cpu) 8"
  shows "Sys (T_POP (ARMv4_vt bus) cpu) = snd (load_words bus (R cpu 15) (R cpu 13) (length regs) (Sys cpu))"
    and "R (T_POP (ARMv4_vt bus) cpu) =
      (fold (\<lambda>(i, v) f. f(i := v)) (zip regs (fst (load_words bus (R cpu 15) (R cpu 13) (length regs) (Sys cpu)))) (R cpu))
      (13 := R cpu 13 + 4 * of_nat (length regs))"
proof -
  have "\<not> bit (0xFF :: u32) 15" by simp
  then have "15 \<notin> set regs" by (simp only: regs_def bits_up_def set_filter bit_and_iff) simp
  from load_loop_v4 [OF this, of bus "R cpu 13" True cpu]
  obtain dr dc where l: "T_load_loop (ARMv4_vt bus) regs (R cpu 13) True cpu =
     (Some (R cpu 13 + 4 * of_nat (length regs), True \<and> regs = []),
      cpu\<lparr>Sys := snd (load_words bus (R cpu 15) (R cpu 13) (length regs) (Sys cpu)), DataRegion := dr, DataCycles := dc,
        R := fold (\<lambda>(i, v) f. f(i := v)) (zip regs (fst (load_words bus (R cpu 15) (R cpu 13) (length regs) (Sys cpu)))) (R cpu)\<rparr>)"
    by blast
  show "Sys (T_POP (ARMv4_vt bus) cpu) = snd (load_words bus (R cpu 15) (R cpu 13) (length regs) (Sys cpu))"
    using assms(2) unfolding T_POP_def bit_walk_eq tst_bit regs_def [symmetric] l
    by (simp add: Let_def vt_simps v4_CD_frame write_reg_def)
  show "R (T_POP (ARMv4_vt bus) cpu) =
      (fold (\<lambda>(i, v) f. f(i := v)) (zip regs (fst (load_words bus (R cpu 15) (R cpu 13) (length regs) (Sys cpu)))) (R cpu))
      (13 := R cpu 13 + 4 * of_nat (length regs))"
    using assms(2) unfolding T_POP_def bit_walk_eq tst_bit regs_def [symmetric] l
    by (simp add: Let_def vt_simps v4_CD_frame write_reg_def)
qed

text \<open>The bus answers at the addresses \<open>A\<close> as memory \<open>mem\<close> does.\<close>

definition ram_at :: "'n bus7 \<Rightarrow> ('n sys \<Rightarrow> u32 \<Rightarrow> u32) \<Rightarrow> u32 set \<Rightarrow> bool" where
  "ram_at bus mem A \<longleftrightarrow> (\<forall>a\<in>A. \<forall>pc v s. ARM7Read32 bus pc a s = (mem s a, s) \<and>
     mem (ARM7Write32 bus pc a v s) = (mem s)(a := v))"

text \<open>The word address of the \<open>j\<close>-th slot from \<open>a\<close>.\<close>

definition slot :: "u32 \<Rightarrow> nat \<Rightarrow> u32" where
  "slot a j = (a + 4 * of_nat j) AND NOT 3"

lemma slot_eq: "slot a j = (a AND NOT 3) + 4 * of_nat j"
proof -
  have m: "x AND NOT 3 = x - (x AND 3)" for x :: u32
  proof -
    have "(x AND 3) + (x AND NOT 3) = ((x AND 3) AND (x AND NOT 3)) + ((x AND 3) OR (x AND NOT 3))"
      by (simp only: word_plus_and_or)
    also have "(x AND 3) AND (x AND NOT 3) = 0"
      by (rule bit_word_eqI) (simp only: bit_and_iff bit_not_iff, auto)
    also have "(x AND 3) OR (x AND NOT 3) = x"
      by (rule bit_word_eqI) (simp only: bit_or_iff bit_and_iff bit_not_iff possible_bit_word, auto)
    finally show ?thesis by (simp add: algebra_simps)
  qed
  have e: "(a + 4 * of_nat j) AND 3 = a AND (3 :: u32)"
  proof -
    have t: "x AND 3 = take_bit 2 x" for x :: u32 by (simp add: take_bit_eq_mask mask_numeral)
    have "take_bit 2 (4 * of_nat j :: u32) = 0"
    proof -
      have "4 * of_nat j = (push_bit 2 (of_nat j) :: u32)" by (simp add: push_bit_eq_mult mult.commute)
      then show ?thesis by (simp only:) (rule bit_word_eqI, auto simp: bit_take_bit_iff bit_push_bit_iff)
    qed
    then have z: "take_bit 2 (uint (4 * of_nat j :: u32)) = 0"
      by (simp only: unsigned_take_bit_eq [symmetric]) simp
    have "uint (take_bit 2 (a + 4 * of_nat j)) = take_bit 2 (take_bit 32 (uint a + uint (4 * of_nat j :: u32)))"
      by (simp only: unsigned_take_bit_eq uint_word_ariths) (simp add: take_bit_eq_mod)
    also have "\<dots> = take_bit 2 (take_bit 2 (uint a) + take_bit 2 (uint (4 * of_nat j :: u32)))"
      by (simp only: take_bit_add) (simp only: take_bit_take_bit min_def, simp)
    also have "\<dots> = uint (take_bit 2 a)" unfolding z by (simp add: unsigned_take_bit_eq)
    finally show ?thesis unfolding t by (simp only: word_uint_eq_iff)
  qed
  show ?thesis by (simp only: slot_def m e diff_add_eq)
qed

lemma slot_inj: "slot a i = slot a j \<Longrightarrow> i < 2 ^ 30 \<Longrightarrow> j < 2 ^ 30 \<Longrightarrow> i = j"
proof -
  assume eq: "slot a i = slot a j" and i: "i < 2 ^ 30" "j < 2 ^ 30"
  have "unat (4 * of_nat k :: u32) = 4 * k" if "k < 2 ^ 30" for k
  proof -
    have "4 * k < 2 ^ LENGTH(32)" using that by simp
    then have "unat (of_nat (4 * k) :: u32) = 4 * k" by (simp only: unsigned_of_nat take_bit_nat_eq_self of_nat_id)
    then show ?thesis by simp
  qed
  moreover have "4 * of_nat i = (4 * of_nat j :: u32)" using eq unfolding slot_eq by (rule add_left_imp_eq)
  ultimately have "4 * i = 4 * j" using i by metis
  then show "i = j" by simp
qed

lemma slot_Suc: "slot (a + 4) j = slot a (Suc j)" "slot a 0 = a AND NOT 3"
  by (simp_all add: slot_def algebra_simps)

lemma load_words_ram:
  assumes "ram_at bus mem A" "\<And>j. j < n \<Longrightarrow> slot a j \<in> A"
  shows "load_words bus pc a n s = (map (\<lambda>j. mem s (slot a j)) [0..<n], s)"
  using assms(2)
proof (induction n arbitrary: a)
  case (Suc n)
  have "slot a 0 \<in> A" using Suc.prems by blast
  then have r: "ARM7Read32 bus pc (a AND NOT 3) s = (mem s (slot a 0), s)"
    using assms(1) unfolding ram_at_def slot_Suc(2) by blast
  have "slot (a + 4) j \<in> A" if "j < n" for j using Suc.prems [of "Suc j"] that by (simp only: slot_Suc Suc_less_eq)
  then have "load_words bus pc (a + 4) n s = (map (\<lambda>j. mem s (slot a (Suc j))) [0..<n], s)"
    using Suc.IH [of "a + 4"] by (simp only: slot_Suc)
  moreover have "[0..<Suc n] = 0 # map Suc [0..<n]" by (simp only: upt_conv_Cons [OF zero_less_Suc] map_Suc_upt)
  ultimately show ?case by (simp only: load_words.simps r Let_def prod.case list.map map_map o_def)
qed simp

lemma store_words_other:
  assumes "ram_at bus mem A" "\<And>j. j < length vs \<Longrightarrow> slot a j \<in> A" "\<And>j. j < length vs \<Longrightarrow> x \<noteq> slot a j"
  shows "mem (store_words bus pc a vs s) x = mem s x"
  using assms(2, 3)
proof (induction vs arbitrary: a s)
  case (Cons v vs)
  have "slot a 0 \<in> A" "x \<noteq> slot a 0" using Cons.prems by (metis length_greater_0_conv list.discI)+
  then have "mem (ARM7Write32 bus pc (a AND NOT 3) v s) x = mem s x"
    using assms(1) unfolding ram_at_def slot_Suc(2) by simp
  moreover have "slot (a + 4) j \<in> A" "x \<noteq> slot (a + 4) j" if "j < length vs" for j
    using Cons.prems [of "Suc j"] that by (simp_all only: slot_Suc length_Cons Suc_less_eq simp_thms)
  ultimately show ?case using Cons.IH [of "a + 4"] by (simp only: store_words.simps) metis
qed simp

lemma store_words_ram:
  assumes "ram_at bus mem A" "\<And>j. j < length vs \<Longrightarrow> slot a j \<in> A" "length vs \<le> 2 ^ 30" "j < length vs"
  shows "mem (store_words bus pc a vs s) (slot a j) = vs ! j"
  using assms(2-4)
proof (induction vs arbitrary: a s j)
  case (Cons v vs)
  have A: "slot (a + 4) j \<in> A" if "j < length vs" for j
    using Cons.prems(1) [of "Suc j"] that by (simp only: slot_Suc length_Cons Suc_less_eq)
  show ?case
  proof (cases j)
    case 0
    have "slot a 0 \<in> A" using Cons.prems(1) [of 0] by simp
    then have "mem (ARM7Write32 bus pc (a AND NOT 3) v s) (slot a 0) = v"
      using assms(1) unfolding ram_at_def slot_Suc(2) by simp
    moreover have "slot a 0 \<noteq> slot (a + 4) i" if "i < length vs" for i
    proof
      assume "slot a 0 = slot (a + 4) i"
      then have "slot a 0 = slot a (Suc i)" by (simp only: slot_Suc)
      then show False using slot_inj [of a 0 "Suc i"] that Cons.prems(2) by simp
    qed
    ultimately show ?thesis
      using store_words_other [OF assms(1), of vs "a + 4" "slot a 0"] A 0 by (simp only: store_words.simps nth_Cons_0) metis
  next
    case (Suc i)
    then show ?thesis using Cons.IH [of "a + 4" i] Cons.prems(2, 3) A
      by (simp only: store_words.simps nth_Cons_Suc slot_Suc) simp
  qed
qed simp

lemma fold_upd:
  "distinct is \<Longrightarrow> fold (\<lambda>(i, v) f. f(i := v)) (zip is (map g is)) f x = (if x \<in> set is then g x else f x)"
  by (induction "is" arbitrary: f) auto

lemma length_bits_up: "length (bits_up w) \<le> 2 ^ 30"
proof -
  have "length (bits_up w) \<le> length [0..<32::nat]" unfolding bits_up_def by (rule length_filter_le)
  then show ?thesis by simp
qed

text \<open>\<open>PUSH\<close> and \<open>POP\<close> are inverse on a stack in memory: after any code that leaves the stack
  and the stack pointer as \<open>PUSH\<close> left them, \<open>POP\<close> of the same list gives every listed register
  and the stack pointer their old values and touches no other.\<close>

lemma T_PUSH_POP:
  fixes cpu c :: "'n arm"
  defines "regs \<equiv> bits_up (CurInstr cpu AND 0xFF)"
  defines "sp \<equiv> R cpu 13 - 4 * of_nat (length regs)"
  assumes "ram_at bus mem A" and slots: "\<And>j. j < length regs \<Longrightarrow> slot sp j \<in> A"
    and "\<not> bit (CurInstr cpu) 8" "\<not> bit (CurInstr c) 8" "CurInstr c AND 0xFF = CurInstr cpu AND 0xFF"
    and c: "Sys c = Sys (T_PUSH (ARMv4_vt bus) cpu)" "R c 13 = R (T_PUSH (ARMv4_vt bus) cpu) 13"
  shows "R (T_POP (ARMv4_vt bus) c) =
    (\<lambda>i. if i \<in> set regs \<or> i = 13 then R cpu i else R c i)"
proof -
  have p: "push_regs (CurInstr cpu) = regs" using assms(5) by (simp add: push_regs_def regs_def)
  have s: "Sys c = store_words bus (R cpu 15) sp (map (R cpu) regs) (Sys cpu)" and r: "R c 13 = sp"
    using T_PUSH_each [of bus cpu] unfolding p sp_def [symmetric] c by simp_all
  have rc: "bits_up (CurInstr c AND 0xFF) = regs" by (simp only: assms(7) regs_def)
  have "mem (Sys c) (slot sp j) = R cpu (regs ! j)" if "j < length regs" for j
    unfolding s using that slots length_bits_up
    by (subst store_words_ram [OF assms(3)]) (simp_all only: length_map nth_map regs_def)
  then have "map (\<lambda>j. mem (Sys c) (slot sp j)) [0..<length regs] = map (R cpu) regs"
    by (intro nth_equalityI) simp_all
  then have l: "load_words bus (R c 15) sp (length regs) (Sys c) = (map (R cpu) regs, Sys c)"
    using load_words_ram [OF assms(3) slots] by metis
  have d: "distinct regs" "13 \<notin> set regs"
  proof -
    show "distinct regs" by (simp add: regs_def bits_up_def)
    have "\<not> bit (0xFF :: u32) 13" by simp
    then show "13 \<notin> set regs" by (simp only: regs_def bits_up_def set_filter bit_and_iff) simp
  qed
  have "R (T_POP (ARMv4_vt bus) c) =
      (fold (\<lambda>(i, v) f. f(i := v)) (zip regs (map (R cpu) regs)) (R c)) (13 := sp + 4 * of_nat (length regs))"
    using T_POP_loads(2) [OF assms(6), of bus] unfolding rc r l fst_conv .
  then show ?thesis
    using d by (auto simp: fun_eq_iff fold_upd sp_def)
qed
definition ram_bus :: "(u32 \<Rightarrow> u32) bus7" where
  "ram_bus = undefined\<lparr>ARM7Read32 := \<lambda>pc a s. (NDS s a, s),
     ARM7Write32 := \<lambda>pc a v s. s\<lparr>NDS := (NDS s)(a := v)\<rparr>\<rparr>"

lemma T_PUSH_POP_witness:
  "R (T_POP (ARMv4_vt ram_bus)
      ((T_PUSH (ARMv4_vt ram_bus) (undefined\<lparr>CurInstr := 0xB402, R := of_nat\<rparr>))
        \<lparr>CurInstr := 0xBC02, R := (\<lambda>_. 0)(13 := 9)\<rparr>)) 1 = 1"
proof -
  let ?cpu = "undefined\<lparr>CurInstr := 0xB402, R := of_nat\<rparr> :: (u32 \<Rightarrow> u32) arm"
  let ?c = "(T_PUSH (ARMv4_vt ram_bus) ?cpu)\<lparr>CurInstr := 0xBC02, R := (\<lambda>_. 0)(13 := 9)\<rparr>"
  have regs: "bits_up (CurInstr ?cpu AND 0xFF) = [1]"
    by (simp add: bits_up_def upt_rec)
  have "push_regs (CurInstr ?cpu) = [1]" using regs by (simp add: push_regs_def)
  then have sp: "R (T_PUSH (ARMv4_vt ram_bus) ?cpu) 13 = 9"
    using T_PUSH_each(2) [of ram_bus ?cpu] by simp
  have "ram_at ram_bus (\<lambda>s. NDS s) UNIV"
    by (simp add: ram_at_def ram_bus_def)
  from T_PUSH_POP [OF this, of ?cpu ?c] have
    "R (T_POP (ARMv4_vt ram_bus) ?c) = (\<lambda>i. if i \<in> set [1] \<or> i = 13 then R ?cpu i else R ?c i)"
    unfolding regs using sp by simp
  then show ?thesis by simp
qed

end
