(* ===== verification/Crc.thy ===== *)
theory Crc
  imports Prelude
begin

text \<open>
  The checksum of \<^verbatim>\<open>src/src/CRC32.cpp\<close> (BIOS and firmware identification, patch and save keys):
  the table computed at compile time, the byte loop, and the bit-serial division by the reflected
  polynomial that both implement.
\<close>

section \<open>Code\<close>

text \<open>\<open>for (int i = 1; i < (ch + 1); i++)\<close>\<close>

function reflect_loop :: "nat \<Rightarrow> nat \<Rightarrow> u32 \<Rightarrow> u32 \<Rightarrow> u32" where
  "reflect_loop ch i refl' value =
     (if i < ch + 1 then
        reflect_loop ch (i + 1) (drop_bit 1 refl')
          (if tst refl' 1 then value OR push_bit (ch - i) 1 else value)
      else value)"
  by pat_completeness auto
termination
  by (relation "measure (\<lambda>(ch, i, refl', value). ch + 1 - i)") auto

definition reflect :: "u32 \<Rightarrow> nat \<Rightarrow> u32" where
  "reflect refl' ch = reflect_loop ch 1 refl' 0"

definition polynomial :: u32 where
  "polynomial = 0x04C11DB7"

definition crc_shift :: "u32 \<Rightarrow> u32" where
  "crc_shift c = push_bit 1 c XOR (if tst c 0x80000000 then polynomial else 0)"

definition crc_entry :: "nat \<Rightarrow> u32" where
  "crc_entry i = reflect ((crc_shift ^^ 8) (push_bit 24 (reflect (of_nat i) 8))) 32"

definition Crc32Table :: "u32 list" where
  "Crc32Table = map crc_entry [0..<0x100]"

fun crc_bytes :: "u32 \<Rightarrow> u8 list \<Rightarrow> u32" where
  "crc_bytes crc [] = crc"
| "crc_bytes crc (b # bs) = crc_bytes (drop_bit 8 crc XOR Crc32Table ! unat ((crc AND 0xFF) XOR ucast b)) bs"

fun crc_zeros :: "u32 \<Rightarrow> nat \<Rightarrow> u32" where
  "crc_zeros crc 0 = crc"
| "crc_zeros crc (Suc len) = crc_zeros (drop_bit 8 crc XOR Crc32Table ! unat (crc AND 0xFF)) len"

text \<open>\<open>data\<close> may be null; otherwise it holds \<open>len\<close> bytes.\<close>

definition CRC32 :: "u8 list option \<Rightarrow> nat \<Rightarrow> u32 \<Rightarrow> u32" where
  "CRC32 data len start =
     (let crc = start XOR 0xFFFFFFFF;
          crc = (case data of Some bs \<Rightarrow> crc_bytes crc (take len bs) | None \<Rightarrow> crc_zeros crc len)
      in crc XOR 0xFFFFFFFF)"

section \<open>Bit-serial division\<close>

text \<open>One message bit, least significant bits first.\<close>

definition crc_bit :: "u32 \<Rightarrow> bool \<Rightarrow> u32" where
  "crc_bit c b = drop_bit 1 c XOR (if bit c 0 \<noteq> b then 0xEDB88320 else 0)"

definition byte_bits :: "u8 \<Rightarrow> bool list" where
  "byte_bits b = map (bit b) [0..<8]"

definition crc_spec :: "u32 \<Rightarrow> bool list \<Rightarrow> u32" where
  "crc_spec start bs = NOT (fold (\<lambda>b c. crc_bit c b) bs (NOT start))"

section \<open>Reflection\<close>

declare reflect_loop.simps [simp del]

lemma bit_reflect_loop:
  "1 \<le> i \<Longrightarrow> i \<le> ch + 1 \<Longrightarrow> ch \<le> 32 \<Longrightarrow>
    bit (reflect_loop ch i refl' v) n \<longleftrightarrow> bit v n \<or> n \<le> ch - i \<and> i \<le> ch \<and> bit refl' (ch - i - n)"
proof (induction ch i refl' v rule: reflect_loop.induct)
  case (1 ch i refl' v)
  show ?case
  proof (cases "i < ch + 1")
    case True
    define k where "k = ch - i"
    have k: "ch = i + k" "k < 32" using True "1.prems" by (auto simp: k_def)
    let ?v = "if tst refl' 1 then v OR push_bit (ch - i) 1 else v"
    have v: "bit ?v n \<longleftrightarrow> bit v n \<or> n = k \<and> bit refl' 0"
      using tst_bit [of refl' 0] k bit_push1 [of k n] by (simp add: bit_or_iff)
    have "bit (reflect_loop ch i refl' v) n \<longleftrightarrow>
        bit ?v n \<or> n \<le> ch - (i + 1) \<and> i + 1 \<le> ch \<and> bit (drop_bit 1 refl') (ch - (i + 1) - n)"
      using True "1.prems" "1.IH" by (subst reflect_loop.simps) simp
    also have "\<dots> \<longleftrightarrow> bit v n \<or> n \<le> k \<and> bit refl' (k - n)"
      unfolding v using k(1) by (cases k) (auto simp: bit_drop_bit_eq Suc_diff_le le_Suc_eq)
    finally show ?thesis using k(1) by (simp add: diff_diff_left)
  next
    case False
    then show ?thesis by (subst reflect_loop.simps) simp
  qed
qed

lemma bit_reflect: "ch \<le> 32 \<Longrightarrow> bit (reflect x ch) n \<longleftrightarrow> n < ch \<and> bit x (ch - 1 - n)"
  by (simp add: reflect_def bit_reflect_loop) auto

section \<open>The table\<close>

text \<open>Bit reversal turns the most-significant-bit-first step of the table into the reflected one.\<close>

lemma polynomial_reflected: "n < 32 \<Longrightarrow> bit polynomial (31 - n) \<longleftrightarrow> bit (0xEDB88320 :: u32) n"
proof -
  have "reflect polynomial 32 = 0xEDB88320"
    by (simp add: reflect_def polynomial_def reflect_loop.simps tst_def)
  then show "n < 32 \<Longrightarrow> bit polynomial (31 - n) \<longleftrightarrow> bit (0xEDB88320 :: u32) n"
    using bit_reflect [of 32 polynomial n] by simp
qed

lemma reflect_crc_shift: "reflect (crc_shift c) 32 = crc_bit (reflect c 32) False"
proof (rule bit_word_eqI)
  fix n assume "n < LENGTH(32)"
  then have n: "n < 32" by simp
  then have "bit (push_bit 1 c) (31 - n) \<longleftrightarrow> Suc n < 32 \<and> bit c (30 - n)"
    by (simp only: bit_push_bit_iff possible_bit_word diff_diff_left) auto
  moreover have "bit (drop_bit 1 (reflect c 32)) n \<longleftrightarrow> Suc n < 32 \<and> bit c (30 - n)"
    by (simp add: bit_drop_bit_eq bit_reflect)
  ultimately show "bit (reflect (crc_shift c) 32) n \<longleftrightarrow> bit (crc_bit (reflect c 32) False) n"
    using n polynomial_reflected [OF n]
    by (simp add: bit_reflect crc_shift_def crc_bit_def bit_xor_iff msb_bit)
qed

lemma bit_byte_nat: "i < 256 \<Longrightarrow> bit (of_nat i :: u32) n \<Longrightarrow> n < 8"
proof -
  assume "i < 256" "bit (of_nat i :: u32) n"
  then have "take_bit 8 i = i" "bit i n" by (simp_all add: take_bit_nat_eq_self bit_of_nat_iff)
  then show "n < 8" by (metis bit_take_bit_iff)
qed

lemma reflect_byte: "i < 256 \<Longrightarrow> reflect (push_bit 24 (reflect (of_nat i) 8)) 32 = of_nat i"
proof (rule bit_word_eqI)
  fix n assume i: "i < 256" and "n < LENGTH(32)"
  then have "n < 32" by simp
  then have "bit (reflect (push_bit 24 (reflect (of_nat i) 8)) 32) n \<longleftrightarrow> n < 8 \<and> bit (of_nat i :: u32) n"
    by (simp only: bit_reflect bit_push_bit_iff possible_bit_word) (auto simp: bit_reflect)
  then show "bit (reflect (push_bit 24 (reflect (of_nat i) 8)) 32) n \<longleftrightarrow> bit (of_nat i :: u32) n"
    using bit_byte_nat [OF i] by auto
qed

lemma crc_entry_serial: "i < 256 \<Longrightarrow> crc_entry i = ((\<lambda>c. crc_bit c False) ^^ 8) (of_nat i)"
proof -
  have "reflect ((crc_shift ^^ k) x) 32 = ((\<lambda>c. crc_bit c False) ^^ k) (reflect x 32)" for k x
    by (induction k) (simp_all add: reflect_crc_shift)
  then show "i < 256 \<Longrightarrow> crc_entry i = ((\<lambda>c. crc_bit c False) ^^ 8) (of_nat i)"
    by (simp add: crc_entry_def reflect_byte)
qed

section \<open>Bits and bytes\<close>

definition crc_z :: "u32 \<Rightarrow> u32" where
  "crc_z c = crc_bit c False"

abbreviation crc_bits :: "bool list \<Rightarrow> u32 \<Rightarrow> u32" where
  "crc_bits bs c \<equiv> fold (\<lambda>b c. crc_bit c b) bs c"

fun bits_word :: "bool list \<Rightarrow> u32" where
  "bits_word [] = 0"
| "bits_word (b # bs) = of_bool b XOR push_bit 1 (bits_word bs)"

lemma bit_bits_word: "bit (bits_word bs) n \<longleftrightarrow> n < length bs \<and> n < 32 \<and> bs ! n"
proof (induction bs arbitrary: n)
  case (Cons b bs)
  have "bit (push_bit 1 (bits_word bs)) n \<longleftrightarrow> 1 \<le> n \<and> n < 32 \<and> bit (bits_word bs) (n - 1)"
    by (simp only: bit_push_bit_iff possible_bit_word) simp
  moreover have "bit (of_bool b :: u32) n \<longleftrightarrow> n = 0 \<and> b" by (cases b) (auto simp: bit_1_iff)
  ultimately show ?case by (simp only: bits_word.simps bit_xor_iff Cons) (cases n; auto)
qed simp

lemma xor_cancel: "a XOR c = b XOR c \<longleftrightarrow> a = b" for a b c :: u32
  by (metis xor.assoc xor_self_eq xor.right_neutral)

lemma xor_cancel2: "c XOR a = c XOR b \<longleftrightarrow> a = b" for a b c :: u32
  using xor_cancel [of a c b] by (simp add: xor.commute)

lemma crc_z_xor: "crc_z (a XOR b) = crc_z a XOR crc_z b"
  by (rule bit_word_eqI) (auto simp: crc_z_def crc_bit_def bit_xor_iff bit_drop_bit_eq)

lemma crc_bit_z: "crc_bit c b = crc_z (c XOR of_bool b)"
  by (rule bit_word_eqI) (cases b; auto simp: crc_z_def crc_bit_def bit_xor_iff bit_drop_bit_eq bit_1_iff)

lemma crc_z_push: "\<not> bit x 31 \<Longrightarrow> crc_z (push_bit 1 x) = x"
proof (rule bit_word_eqI)
  fix n assume "\<not> bit x 31" "n < LENGTH(32)"
  moreover have "bit (push_bit 1 x) (Suc n) \<longleftrightarrow> Suc n < 32 \<and> bit x n"
    by (simp only: bit_push_bit_iff possible_bit_word) simp
  moreover have "\<not> bit (push_bit 1 x) 0" by (simp only: bit_push_bit_iff) simp
  ultimately show "bit (crc_z (push_bit 1 x)) n \<longleftrightarrow> bit x n"
    by (cases "n = 31") (simp_all add: crc_z_def crc_bit_def bit_drop_bit_eq)
qed

lemma crc_bits_word:
  "length bs \<le> 32 \<Longrightarrow> crc_bits bs c = (crc_z ^^ length bs) (c XOR bits_word bs)"
proof (induction bs arbitrary: c)
  case (Cons b bs)
  have "\<not> bit (bits_word bs) 31" using Cons.prems by (simp add: bit_bits_word)
  then have "crc_z (push_bit 1 (bits_word bs)) = bits_word bs" by (rule crc_z_push)
  then have "crc_bit c b XOR bits_word bs = crc_z (c XOR bits_word (b # bs))"
    by (simp only: bits_word.simps crc_bit_z crc_z_xor xor.assoc)
  then show ?case using Cons by (simp add: funpow_swap1 del: bits_word.simps)
qed simp

lemma crc_z_inj: "crc_z a = crc_z b \<longleftrightarrow> a = b"
proof
  assume eq: "crc_z a = crc_z b"
  have z31: "bit (crc_z c) 31 \<longleftrightarrow> bit c 0" for c
    using bit_imp_le_length [of c 32] by (auto simp: crc_z_def crc_bit_def bit_xor_iff bit_drop_bit_eq)
  have "bit a 0 \<longleftrightarrow> bit b 0" using eq z31 by metis
  then have d: "drop_bit 1 a = drop_bit 1 b" using eq by (simp add: crc_z_def crc_bit_def xor_cancel split: if_splits)
  show "a = b"
  proof (rule bit_word_eqI)
    fix n show "bit a n \<longleftrightarrow> bit b n"
      using \<open>bit a 0 \<longleftrightarrow> bit b 0\<close> arg_cong [OF d, of "\<lambda>x. bit x (n - 1)"]
      by (cases n) (simp_all add: bit_drop_bit_eq)
  qed
qed simp

lemma crc_z_pow_inj: "(crc_z ^^ n) a = (crc_z ^^ n) b \<longleftrightarrow> a = b"
  by (induction n) (simp_all add: crc_z_inj)

lemma crc_bits_inj: "crc_bits bs a = crc_bits bs b \<longleftrightarrow> a = b"
  by (induction bs arbitrary: a b) (simp_all add: crc_bit_z crc_z_inj xor_cancel)

lemma crc_z_xor_pow: "(crc_z ^^ n) (a XOR b) = (crc_z ^^ n) a XOR (crc_z ^^ n) b"
  by (induction n) (simp_all add: crc_z_xor)

lemma crc_z_pow_push: "n \<le> 31 \<Longrightarrow> \<forall>k \<ge> 32 - n. \<not> bit y k \<Longrightarrow> (crc_z ^^ n) (push_bit n y) = y"
proof (induction n)
  case (Suc n)
  have "\<not> bit (push_bit n y) 31"
    using Suc.prems by (auto simp: bit_push_bit_iff)
  moreover have "push_bit (Suc n) y = push_bit 1 (push_bit n y)"
    by (simp only: push_bit_push_bit) simp
  ultimately have "crc_z (push_bit (Suc n) y) = push_bit n y" using crc_z_push by metis
  then show ?case using Suc by (simp only: funpow_Suc_right comp_apply) simp
qed simp

lemma length_byte_bits [simp]: "length (byte_bits b) = 8"
  by (simp add: byte_bits_def)

lemma bits_word_byte: "bits_word (byte_bits b) = ucast b"
  using bit_imp_le_length [of b] by (intro bit_word_eqI) (auto simp: bit_bits_word byte_bits_def bit_ucast_iff)

lemma Crc32Table_nth: "i < 256 \<Longrightarrow> Crc32Table ! i = (crc_z ^^ 8) (of_nat i)"
  by (simp add: Crc32Table_def crc_entry_serial crc_z_def [abs_def])

text \<open>One step of the byte loop is eight bits of the division.\<close>

lemma crc_byte_step:
  "drop_bit 8 c XOR Crc32Table ! unat ((c AND 0xFF) XOR ucast b) = crc_bits (byte_bits b) c" for b :: u8
proof -
  let ?x = "c XOR ucast b :: u32"
  have lo: "(c AND 0xFF) XOR ucast b = take_bit 8 ?x"
    using bit_imp_le_length [of b] bit_run_u32 [of 0 8]
    by (intro bit_word_eqI) (auto simp: bit_and_iff bit_xor_iff bit_take_bit_iff bit_ucast_iff mask_eq_exp_minus_1)
  have hi: "drop_bit 8 c = drop_bit 8 ?x"
    by (rule bit_word_eqI) (auto simp: bit_xor_iff bit_drop_bit_eq bit_ucast_iff dest: bit_imp_le_length)
  have "unat (take_bit 8 w) < 256" for w :: u32
    using take_bit_nat_less_exp [of 8 "unat w"] by (simp add: unsigned_take_bit_eq)
  from this [of ?x] have tab: "Crc32Table ! unat (take_bit 8 ?x) = (crc_z ^^ 8) (take_bit 8 ?x)"
    by (simp only: Crc32Table_nth of_nat_unat ucast_id)
  have "(crc_z ^^ 8) (push_bit 8 (drop_bit 8 ?x)) = drop_bit 8 ?x"
  proof (rule crc_z_pow_push)
    show "\<forall>k \<ge> 32 - 8. \<not> bit (drop_bit 8 ?x) k"
      by (simp only: bit_drop_bit_eq comp_apply) (auto dest: bit_imp_le_length)
  qed simp
  moreover have "?x = push_bit 8 (drop_bit 8 ?x) XOR take_bit 8 ?x"
    by (rule bit_word_eqI) (auto simp: bit_xor_iff bit_push_bit_iff bit_drop_bit_eq bit_take_bit_iff)
  ultimately have "(crc_z ^^ 8) ?x = drop_bit 8 ?x XOR (crc_z ^^ 8) (take_bit 8 ?x)"
    using crc_z_xor_pow by metis
  moreover have "crc_bits (byte_bits b) c = (crc_z ^^ 8) ?x"
    using crc_bits_word [of "byte_bits b" c] by (simp add: bits_word_byte)
  ultimately show ?thesis by (simp only: lo hi tab)
qed

lemma crc_bytes_serial: "crc_bytes c bs = crc_bits (concat (map byte_bits bs)) c"
  by (induction bs arbitrary: c) (simp_all add: crc_byte_step)

lemma crc_zeros_bytes: "crc_zeros c n = crc_bytes c (replicate n 0)"
  by (induction n arbitrary: c) simp_all

lemma xor_all_ones: "x XOR 0xFFFFFFFF = NOT x" for x :: u32
proof -
  have "bit (0xFFFFFFFF :: u32) n" if "n < 32" for n
    using bit_run_u32 [of 0 32 n] that by (simp add: mask_eq_exp_minus_1)
  then show ?thesis by (intro bit_word_eqI) (simp add: bit_xor_iff bit_not_iff del: xor_minus_numerals)
qed

lemma CRC32_bytes:
  "CRC32 (Some bs) (length bs) start = NOT (crc_bits (concat (map byte_bits bs)) (NOT start))"
  by (simp only: CRC32_def Let_def option.case crc_bytes_serial xor_all_ones take_all_iff order_refl take_all)

text \<open>C40.  The table-driven checksum is the bit-serial division by the polynomial \<open>0xEDB88320\<close>, least
  significant bits first, with inverted start and result; a null pointer counts as \<open>len\<close> zero
  bytes; and a checksum of a concatenation can be computed piecewise.\<close>

theorem CRC32_is_bit_serial:
  "CRC32 (Some bs) (length bs) start = crc_spec start (concat (map byte_bits bs)) \<and>
   CRC32 None n start = crc_spec start (concat (replicate n (replicate 8 False))) \<and>
   CRC32 (Some (bs @ cs)) (length (bs @ cs)) start = CRC32 (Some cs) (length cs) (CRC32 (Some bs) (length bs) start)"
proof (intro conjI)
  have "byte_bits 0 = replicate 8 False" by (rule nth_equalityI) (simp_all add: byte_bits_def)
  then show "CRC32 None n start = crc_spec start (concat (replicate n (replicate 8 False)))"
    by (simp only: CRC32_def Let_def option.case crc_zeros_bytes crc_bytes_serial crc_spec_def xor_all_ones map_replicate)
qed (simp_all only: CRC32_bytes crc_spec_def, simp)

text \<open> The checksum detects every error burst of at most four bytes: two messages of the same length
  that differ only within four consecutive bytes have different checksums.\<close>

theorem CRC32_detects_bursts:
  assumes "length us = length vs" "length us \<le> 4" "us \<noteq> vs"
  shows "CRC32 (Some (xs @ us @ ys)) (length (xs @ us @ ys)) start \<noteq> CRC32 (Some (xs @ vs @ ys)) (length (xs @ vs @ ys)) start"
proof -
  have len: "length (concat (map byte_bits bs)) = 8 * length bs" for bs
    by (induction bs) (simp_all add: byte_bits_def)
  have inj: "byte_bits a = byte_bits b \<longleftrightarrow> a = b" for a b
    by (auto simp: byte_bits_def intro!: bit_word_eqI)
  have ne: "concat (map byte_bits us) \<noteq> concat (map byte_bits vs)"
    using assms(1,3) by (induction us vs rule: list_induct2) (auto simp: inj)
  have bw: "length as \<le> 32 \<Longrightarrow> length as = length bs \<Longrightarrow> bits_word as = bits_word bs \<Longrightarrow> as = bs" for as bs
    by (rule nth_equalityI) (metis bit_bits_word order.strict_trans2)+
  have "crc_bits (concat (map byte_bits us)) c \<noteq> crc_bits (concat (map byte_bits vs)) c" for c
  proof -
    have "bits_word (concat (map byte_bits us)) \<noteq> bits_word (concat (map byte_bits vs))"
      using bw ne len assms(1,2) by force
    then show ?thesis
      using crc_bits_word [of "concat (map byte_bits us)" c] crc_bits_word [of "concat (map byte_bits vs)" c]
        assms(1,2) len by (simp add: crc_z_pow_inj xor_cancel2)
  qed
  moreover have "NOT a = NOT b \<longleftrightarrow> a = b" for a b :: u32 by (metis bit.double_compl)
  ultimately show ?thesis
    by (simp only: CRC32_bytes map_append concat_append fold_append comp_apply crc_bits_inj) simp
qed

theorem CRC32_detects_bursts_witness:
  "CRC32 (Some [1, 2, 3]) 3 0 \<noteq> CRC32 (Some [1, 5, 3]) 3 0"
  using CRC32_detects_bursts [of "[2]" "[5]" "[1]" "[3]" 0] by (simp add: numeral_3_eq_3)

end
