(* ===== verification/Fifo.thy ===== *)
theory Fifo
  imports Prelude
begin

text \<open>
  The containers of \<^verbatim>\<open>src/src/FIFO.h\<close>: the ring queues \<open>FIFO<T, NumEntries>\<close> and
  \<open>DynamicFIFO<T>\<close>, and the byte ring \<open>RingBuffer<Size>\<close>.  Positions and counts are \<open>u32\<close> as in
  the code.  The template argument \<open>NumEntries\<close> is the length of the array.  A contract
  \<open>bounded_queue\<close> states what a client of a queue may rely on; both queues provide it.
\<close>

section \<open>Queues\<close>

record 'a fifo =
  Entries :: "'a list"
  NumOccupied :: u32
  ReadPos :: u32
  WritePos :: u32

definition NumEntries :: "'a fifo \<Rightarrow> u32" where
  "NumEntries f = of_nat (length (Entries f))"

definition fifo_new :: "nat \<Rightarrow> 'a::zero fifo" where
  "fifo_new n = \<lparr>Entries = replicate n 0, NumOccupied = 0, ReadPos = 0, WritePos = 0\<rparr>"

text \<open>\<open>Clear\<close> zeroes the one entry at the new read position.\<close>

definition fifo_Clear :: "'a::zero fifo \<Rightarrow> 'a fifo" where
  "fifo_Clear f =
     (let f = f\<lparr>NumOccupied := 0, ReadPos := 0, WritePos := 0\<rparr>
      in f\<lparr>Entries := (Entries f)[unat (ReadPos f) := 0]\<rparr>)"

definition fifo_IsEmpty :: "'a fifo \<Rightarrow> bool" where
  "fifo_IsEmpty f \<longleftrightarrow> NumOccupied f = 0"

definition fifo_IsFull :: "'a fifo \<Rightarrow> bool" where
  "fifo_IsFull f \<longleftrightarrow> NumOccupied f \<ge> NumEntries f"

definition fifo_Level :: "'a fifo \<Rightarrow> u32" where
  "fifo_Level f = NumOccupied f"

definition fifo_CanFit :: "u32 \<Rightarrow> 'a fifo \<Rightarrow> bool" where
  "fifo_CanFit num f \<longleftrightarrow> NumOccupied f + num \<le> NumEntries f"

text \<open>\<open>pos++; if (pos >= n) pos = 0;\<close>\<close>

definition ring_next :: "u32 \<Rightarrow> u32 \<Rightarrow> u32" where
  "ring_next n pos = (if pos + 1 \<ge> n then 0 else pos + 1)"

definition fifo_Write :: "'a \<Rightarrow> 'a fifo \<Rightarrow> 'a fifo" where
  "fifo_Write val f =
     (if fifo_IsFull f then f
      else f\<lparr>Entries := (Entries f)[unat (WritePos f) := val],
             WritePos := ring_next (NumEntries f) (WritePos f),
             NumOccupied := NumOccupied f + 1\<rparr>)"

definition fifo_advance :: "'a fifo \<Rightarrow> 'a fifo" where
  "fifo_advance f = f\<lparr>ReadPos := ring_next (NumEntries f) (ReadPos f), NumOccupied := NumOccupied f - 1\<rparr>"

text \<open>On an empty queue \<open>FIFO::Read\<close> gives the entry behind the read position again.\<close>

definition fifo_Read :: "'a fifo \<Rightarrow> 'a \<times> 'a fifo" where
  "fifo_Read f =
     (if fifo_IsEmpty f then (Entries f ! unat ((if ReadPos f = 0 then NumEntries f else ReadPos f) - 1), f)
      else (Entries f ! unat (ReadPos f), fifo_advance f))"

text \<open>\<open>DynamicFIFO::Read\<close> gives the entry at the read position.\<close>

definition dynfifo_Read :: "'a fifo \<Rightarrow> 'a \<times> 'a fifo" where
  "dynfifo_Read f =
     (let ret = Entries f ! unat (ReadPos f)
      in if fifo_IsEmpty f then (ret, f) else (ret, fifo_advance f))"

definition fifo_Peek :: "'a fifo \<Rightarrow> 'a" where
  "fifo_Peek f = Entries f ! unat (ReadPos f)"

definition fifo_PeekAt :: "u32 \<Rightarrow> 'a fifo \<Rightarrow> 'a" where
  "fifo_PeekAt offset f =
     (let pos = ReadPos f + offset;
          pos = (if pos \<ge> NumEntries f then pos - NumEntries f else pos)
      in Entries f ! unat pos)"

section \<open>The queue's contents and invariant\<close>

text \<open>The entries between the two positions, oldest first.\<close>

definition ring_items :: "'a list \<Rightarrow> nat \<Rightarrow> nat \<Rightarrow> 'a list" where
  "ring_items xs r k = map (\<lambda>i. xs ! ((r + i) mod length xs)) [0..<k]"

definition fifo_items :: "'a fifo \<Rightarrow> 'a list" where
  "fifo_items f = ring_items (Entries f) (unat (ReadPos f)) (unat (NumOccupied f))"

definition fifo_cap :: "'a fifo \<Rightarrow> nat" where
  "fifo_cap f = length (Entries f)"

definition fifo_ok :: "'a fifo \<Rightarrow> bool" where
  "fifo_ok f \<longleftrightarrow>
     0 < length (Entries f) \<and> length (Entries f) < 2 ^ 31 \<and>
     unat (ReadPos f) < length (Entries f) \<and> unat (NumOccupied f) \<le> length (Entries f) \<and>
     unat (WritePos f) = (unat (ReadPos f) + unat (NumOccupied f)) mod length (Entries f)"

lemma length_ring_items [simp]: "length (ring_items xs r k) = k"
  by (simp add: ring_items_def)

lemma nth_ring_items [simp]: "i < k \<Longrightarrow> ring_items xs r k ! i = xs ! ((r + i) mod length xs)"
  by (simp add: ring_items_def)

lemma ring_items_0 [simp]: "ring_items xs r 0 = []"
  by (simp add: ring_items_def)

lemma ring_items_Cons:
  "r < length xs \<Longrightarrow> ring_items xs r (Suc k) = xs ! r # ring_items xs (Suc r mod length xs) k"
  by (rule nth_equalityI) (auto simp: nth_Cons mod_simps split: nat.split)

text \<open>Two offsets below the size meet in the ring only if they are equal.\<close>

lemma ring_offset_inj:
  fixes n :: nat
  assumes "i < n" "j < n"
  shows "(r + i) mod n = (r + j) mod n \<longleftrightarrow> i = j"
proof
  assume "(r + i) mod n = (r + j) mod n"
  then have "i mod n = j mod n" by (simp add: nat_mod_eq_iff)
  then show "i = j" using assms by simp
qed simp

lemma ring_items_snoc:
  assumes "k < length xs"
  shows "ring_items (xs[(r + k) mod length xs := v]) r (Suc k) = ring_items xs r k @ [v]"
proof (rule nth_equalityI)
  fix i assume "i < length (ring_items (xs[(r + k) mod length xs := v]) r (Suc k))"
  then have "i < Suc k" by simp
  moreover have "(r + k) mod length xs < length xs" using assms by (intro mod_less_divisor) auto
  ultimately show "ring_items (xs[(r + k) mod length xs := v]) r (Suc k) ! i = (ring_items xs r k @ [v]) ! i"
    using assms ring_offset_inj [of k "length xs" i r]
    by (cases "i = k") (auto simp: nth_append nth_list_update)
qed simp

section \<open>Positions as numbers\<close>

lemma unat_of_nat31: "n < 2 ^ 31 \<Longrightarrow> unat (of_nat n :: u32) = n"
  by (simp add: unat_of_nat take_bit_nat_eq_self)

lemma unat_inc31: "unat p < 2 ^ 31 \<Longrightarrow> unat (p + 1) = Suc (unat p)" for p :: u32
  by (subst unat_add_lem [THEN iffD1]) simp_all

lemma unat_plus31: "unat p < 2 ^ 31 \<Longrightarrow> unat q < 2 ^ 31 \<Longrightarrow> unat (p + q) = unat p + unat q" for p q :: u32
  by (subst unat_add_lem [THEN iffD1]) simp_all

lemma unat_ring_next:
  assumes "unat p < n" "n < 2 ^ 31"
  shows "unat (ring_next (of_nat n) p) = Suc (unat p) mod n"
  using assms unat_inc31 [of p] unat_of_nat31 [of n]
  by (auto simp: ring_next_def word_le_nat_alt le_Suc_eq not_le mod_Suc)

lemma fifo_okD:
  assumes "fifo_ok f"
  shows "unat (NumEntries f) = length (Entries f)" "unat (NumOccupied f) = length (fifo_items f)"
    "length (fifo_items f) \<le> fifo_cap f"
    "fifo_IsFull f \<longleftrightarrow> length (fifo_items f) = fifo_cap f" "fifo_IsEmpty f \<longleftrightarrow> fifo_items f = []"
  using assms unat_of_nat31 [of "length (Entries f)"]
  by (auto simp: fifo_ok_def NumEntries_def fifo_items_def fifo_cap_def fifo_IsFull_def fifo_IsEmpty_def
      word_le_nat_alt unat_eq_0 ring_items_def)

section \<open>The operations on the contents\<close>

lemma fifo_new_ok:
  "0 < n \<Longrightarrow> n < 2 ^ 31 \<Longrightarrow> fifo_ok (fifo_new n) \<and> fifo_items (fifo_new n) = [] \<and> fifo_cap (fifo_new n) = n"
  by (simp add: fifo_ok_def fifo_new_def fifo_items_def fifo_cap_def)

lemma fifo_Clear_ok:
  "fifo_ok f \<Longrightarrow> fifo_ok (fifo_Clear f) \<and> fifo_items (fifo_Clear f) = [] \<and> fifo_cap (fifo_Clear f) = fifo_cap f"
  by (auto simp: fifo_ok_def fifo_Clear_def Let_def fifo_items_def fifo_cap_def)

lemma fifo_Write_full: "fifo_IsFull f \<Longrightarrow> fifo_Write v f = f"
  by (simp add: fifo_Write_def)

lemma fifo_Write_items:
  assumes ok: "fifo_ok f" and room: "length (fifo_items f) < fifo_cap f"
  shows "fifo_items (fifo_Write v f) = fifo_items f @ [v]" "fifo_ok (fifo_Write v f)"
    "fifo_cap (fifo_Write v f) = fifo_cap f"
proof -
  let ?n = "length (Entries f)" and ?r = "unat (ReadPos f)" and ?k = "unat (NumOccupied f)"
  have k: "?k < ?n" and n: "?n < 2 ^ 31" and w: "unat (WritePos f) = (?r + ?k) mod ?n" and r: "?r < ?n"
    using ok room fifo_okD(2) [OF ok] by (auto simp: fifo_ok_def fifo_cap_def)
  have f': "fifo_Write v f = f\<lparr>Entries := (Entries f)[(?r + ?k) mod ?n := v],
      WritePos := ring_next (of_nat ?n) (WritePos f), NumOccupied := NumOccupied f + 1\<rparr>"
    using room fifo_okD(4) [OF ok] by (simp add: fifo_Write_def NumEntries_def w)
  have k': "unat (NumOccupied f + 1) = Suc ?k" using k n by (intro unat_inc31) simp
  show "fifo_items (fifo_Write v f) = fifo_items f @ [v]"
    using ring_items_snoc [OF k, of ?r v] by (simp add: f' fifo_items_def k')
  have "unat (ring_next (of_nat ?n) (WritePos f)) = Suc ((?r + ?k) mod ?n) mod ?n"
    using w k n mod_less_divisor [OF le_less_trans [OF le0 k], of "?r + ?k"] by (subst unat_ring_next) simp_all
  then show "fifo_ok (fifo_Write v f)"
    using ok k r by (simp add: f' fifo_ok_def k' mod_Suc_eq)
  show "fifo_cap (fifo_Write v f) = fifo_cap f" by (simp add: f' fifo_cap_def)
qed

lemma fifo_advance_items:
  assumes ok: "fifo_ok f" and ne: "fifo_items f \<noteq> []"
  shows "fifo_items f = fifo_Peek f # fifo_items (fifo_advance f)" "fifo_ok (fifo_advance f)"
    "fifo_cap (fifo_advance f) = fifo_cap f"
proof -
  let ?n = "length (Entries f)" and ?r = "unat (ReadPos f)" and ?k = "unat (NumOccupied f)"
  have n: "?n < 2 ^ 31" and w: "unat (WritePos f) = (?r + ?k) mod ?n" and r: "?r < ?n" and k: "?k \<noteq> 0"
    using ok ne fifo_okD(2) [OF ok] by (auto simp: fifo_ok_def)
  obtain j where j: "?k = Suc j" using k by (cases ?k) auto
  have k': "unat (NumOccupied f - 1) = j"
    using j unat_sub1 [of "NumOccupied f"] k by (cases "NumOccupied f = 0") (simp_all add: word_greater_zero_iff)
  have r': "unat (ring_next (NumEntries f) (ReadPos f)) = Suc ?r mod ?n"
    using r n by (simp add: NumEntries_def unat_ring_next)
  show "fifo_items f = fifo_Peek f # fifo_items (fifo_advance f)"
    using ring_items_Cons [OF r, of j] by (simp add: fifo_items_def fifo_advance_def r' k' j fifo_Peek_def)
  show "fifo_ok (fifo_advance f)"
    using ok r w j by (simp add: fifo_ok_def fifo_advance_def r' k' mod_simps)
  show "fifo_cap (fifo_advance f) = fifo_cap f" by (simp add: fifo_advance_def fifo_cap_def)
qed

section \<open>The contract of a bounded queue\<close>

text \<open>A client's requests, and a run of them with the answers to the dequeues.\<close>

datatype 'a qop = Enq 'a | Deq | Clear

fun q_run :: "('a qop \<Rightarrow> 'q \<Rightarrow> 'b list \<times> 'q) \<Rightarrow> 'a qop list \<Rightarrow> 'q \<Rightarrow> 'b list \<times> 'q" where
  "q_run step [] q = ([], q)"
| "q_run step (x # xs) q = (let (o1, q) = step x q; (o2, q) = q_run step xs q in (o1 @ o2, q))"

text \<open>The specification: a list of at most \<open>n\<close> elements; a dequeue of the empty list promises nothing.\<close>

fun spec_step :: "nat \<Rightarrow> 'a qop \<Rightarrow> 'a list \<Rightarrow> 'a option list \<times> 'a list" where
  "spec_step n (Enq x) xs = ([], if length xs < n then xs @ [x] else xs)"
| "spec_step n Deq [] = ([None], [])"
| "spec_step n Deq (x # xs) = ([Some x], xs)"
| "spec_step n Clear xs = ([], [])"

fun impl_step :: "('a \<Rightarrow> 'q \<Rightarrow> 'q) \<Rightarrow> ('q \<Rightarrow> 'a \<times> 'q) \<Rightarrow> ('q \<Rightarrow> 'q) \<Rightarrow> 'a qop \<Rightarrow> 'q \<Rightarrow> 'a list \<times> 'q" where
  "impl_step enq deq clear (Enq x) q = ([], enq x q)"
| "impl_step enq deq clear Deq q = (let (x, q) = deq q in ([x], q))"
| "impl_step enq deq clear Clear q = ([], clear q)"

definition answers :: "'a option \<Rightarrow> 'a \<Rightarrow> bool" where
  "answers p x \<longleftrightarrow> p = None \<or> p = Some x"

locale bounded_queue =
  fixes ok :: "'q \<Rightarrow> bool" and items :: "'q \<Rightarrow> 'a list" and cap :: "'q \<Rightarrow> nat"
    and enq :: "'a \<Rightarrow> 'q \<Rightarrow> 'q" and deq :: "'q \<Rightarrow> 'a \<times> 'q" and clear :: "'q \<Rightarrow> 'q"
  assumes length_le_cap: "ok q \<Longrightarrow> length (items q) \<le> cap q"
    and ok_enq: "ok q \<Longrightarrow> ok (enq x q)" and cap_enq: "ok q \<Longrightarrow> cap (enq x q) = cap q"
    and items_enq: "ok q \<Longrightarrow> items (enq x q) = (if length (items q) < cap q then items q @ [x] else items q)"
    and ok_deq: "ok q \<Longrightarrow> ok (snd (deq q))" and cap_deq: "ok q \<Longrightarrow> cap (snd (deq q)) = cap q"
    and items_deq: "ok q \<Longrightarrow> items (snd (deq q)) = tl (items q)"
    and fst_deq: "ok q \<Longrightarrow> items q \<noteq> [] \<Longrightarrow> fst (deq q) = hd (items q)"
    and ok_clear: "ok q \<Longrightarrow> ok (clear q)" and cap_clear: "ok q \<Longrightarrow> cap (clear q) = cap q"
    and items_clear: "ok q \<Longrightarrow> items (clear q) = []"
begin

lemma step_refines:
  assumes "ok q"
  shows "ok (snd (impl_step enq deq clear x q)) \<and> cap (snd (impl_step enq deq clear x q)) = cap q \<and>
    items (snd (impl_step enq deq clear x q)) = snd (spec_step (cap q) x (items q)) \<and>
    list_all2 answers (fst (spec_step (cap q) x (items q))) (fst (impl_step enq deq clear x q))"
proof (cases x)
  case (Enq y)
  then show ?thesis using assms by (simp add: ok_enq cap_enq items_enq)
next
  case Deq
  then show ?thesis using assms ok_deq [of q] cap_deq [of q] items_deq [of q] fst_deq [of q]
    by (cases "items q"; cases "deq q") (auto simp: answers_def)
next
  case Clear
  then show ?thesis using assms by (simp add: ok_clear cap_clear items_clear)
qed

lemma run_refines:
  assumes "ok q"
  shows "ok (snd (q_run (impl_step enq deq clear) xs q)) \<and>
    items (snd (q_run (impl_step enq deq clear) xs q)) = snd (q_run (spec_step (cap q)) xs (items q)) \<and>
    list_all2 answers (fst (q_run (spec_step (cap q)) xs (items q))) (fst (q_run (impl_step enq deq clear) xs q))"
  using assms
proof (induction xs arbitrary: q)
  case (Cons x xs)
  obtain o1 q1 o2 ys where s: "impl_step enq deq clear x q = (o1, q1)" "spec_step (cap q) x (items q) = (o2, ys)"
    by (metis surj_pair)
  then show ?case using step_refines [OF Cons.prems, of x] Cons.IH [of q1]
    by (auto simp: split_beta list_all2_appendI)
qed simp

text \<open>Enqueues that fit come out in order.\<close>

lemma enq_all:
  "ok q \<Longrightarrow> length (items q) + length xs \<le> cap q \<Longrightarrow>
    items (fold enq xs q) = items q @ xs \<and> ok (fold enq xs q) \<and> cap (fold enq xs q) = cap q"
  by (induction xs arbitrary: q) (auto simp: ok_enq cap_enq items_enq)

end

lemma fifo_Write_laws:
  assumes ok: "fifo_ok f"
  shows "fifo_ok (fifo_Write v f)" "fifo_cap (fifo_Write v f) = fifo_cap f"
    "fifo_items (fifo_Write v f) = (if length (fifo_items f) < fifo_cap f then fifo_items f @ [v] else fifo_items f)"
  using fifo_Write_items [OF ok, of v] fifo_Write_full [of f v] fifo_okD [OF ok] ok
  by (cases "length (fifo_items f) < fifo_cap f"; simp)+

lemma fifo_Read_laws:
  assumes ok: "fifo_ok f"
  shows "fifo_ok (snd (fifo_Read f))" "fifo_cap (snd (fifo_Read f)) = fifo_cap f"
    "fifo_items (snd (fifo_Read f)) = tl (fifo_items f)"
    "fifo_items f \<noteq> [] \<Longrightarrow> fst (fifo_Read f) = hd (fifo_items f)"
  using fifo_advance_items [OF ok] fifo_okD(5) [OF ok] ok
  by (cases "fifo_items f = []"; simp add: fifo_Read_def fifo_Peek_def)+

lemma dynfifo_Read_laws:
  assumes ok: "fifo_ok f"
  shows "fifo_ok (snd (dynfifo_Read f))" "fifo_cap (snd (dynfifo_Read f)) = fifo_cap f"
    "fifo_items (snd (dynfifo_Read f)) = tl (fifo_items f)"
    "fifo_items f \<noteq> [] \<Longrightarrow> fst (dynfifo_Read f) = hd (fifo_items f)"
  using fifo_advance_items [OF ok] fifo_okD(5) [OF ok] ok
  by (cases "fifo_items f = []"; simp add: dynfifo_Read_def Let_def fifo_Peek_def)+

interpretation fifo: bounded_queue fifo_ok fifo_items fifo_cap fifo_Write fifo_Read fifo_Clear
  by unfold_locales (simp_all add: fifo_okD fifo_Write_laws fifo_Read_laws fifo_Clear_ok)

interpretation dynfifo: bounded_queue fifo_ok fifo_items fifo_cap fifo_Write dynfifo_Read fifo_Clear
  by unfold_locales (simp_all add: fifo_okD fifo_Write_laws dynfifo_Read_laws fifo_Clear_ok)

text \<open>\<open>Peek\<close> shows the oldest entry, \<open>Peek(offset)\<close> the entry \<open>offset\<close> places behind it.\<close>

lemma fifo_PeekAt_items:
  assumes ok: "fifo_ok f" and i: "unat i < length (fifo_items f)"
  shows "fifo_PeekAt i f = fifo_items f ! unat i"
proof -
  let ?n = "length (Entries f)" and ?r = "unat (ReadPos f)"
  have n: "?n < 2 ^ 31" and r: "?r < ?n" and k: "unat i < ?n" and N: "unat (NumEntries f) = ?n"
    and i': "unat i < unat (NumOccupied f)"
    using ok i fifo_okD [OF ok] by (auto simp: fifo_ok_def fifo_cap_def)
  have p: "unat (ReadPos f + i) = ?r + unat i" using n r k by (intro unat_plus31) simp_all
  have "unat (if ReadPos f + i \<ge> NumEntries f then ReadPos f + i - NumEntries f else ReadPos f + i) =
      (?r + unat i) mod ?n"
    using r k p N by (auto simp: word_le_nat_alt unat_sub mod_if [of "?r + unat i"])
  then show ?thesis using i' by (simp add: fifo_PeekAt_def Let_def fifo_items_def)
qed

section \<open>Reading an empty queue\<close>

text \<open>
  The specification with the value an empty \<open>FIFO\<close> gives: the last one read, nothing known after
  a \<open>Clear\<close>.
\<close>

fun repeat_step :: "nat \<Rightarrow> 'a qop \<Rightarrow> 'a list \<times> 'a option \<Rightarrow> 'a option list \<times> 'a list \<times> 'a option" where
  "repeat_step n (Enq x) (xs, l) = ([], if length xs < n then xs @ [x] else xs, l)"
| "repeat_step n Deq ([], l) = ([l], [], l)"
| "repeat_step n Deq (x # xs, l) = ([Some x], xs, Some x)"
| "repeat_step n Clear (xs, l) = ([], [], None)"

definition empty_read :: "'a option \<Rightarrow> 'a fifo \<Rightarrow> bool" where
  "empty_read l f \<longleftrightarrow> (fifo_items f = [] \<longrightarrow> answers l (fst (fifo_Read f)))"

lemma fifo_advance_fields:
  "Entries (fifo_advance f) = Entries f" "NumEntries (fifo_advance f) = NumEntries f"
  "ReadPos (fifo_advance f) = ring_next (NumEntries f) (ReadPos f)"
  by (simp_all add: fifo_advance_def NumEntries_def)

lemma fifo_Read_again:
  assumes ok: "fifo_ok f" and one: "fifo_items f = [x]"
  shows "fst (fifo_Read (snd (fifo_Read f))) = x"
proof -
  let ?n = "length (Entries f)" and ?r = "unat (ReadPos f)"
  have n: "?n < 2 ^ 31" and r: "?r < ?n" and N: "unat (NumEntries f) = ?n"
    using ok fifo_okD [OF ok] by (auto simp: fifo_ok_def)
  have f': "snd (fifo_Read f) = fifo_advance f" "fifo_IsEmpty (fifo_advance f)" "fifo_Peek f = x"
    using one fifo_advance_items [OF ok] fifo_okD(5) [OF ok] fifo_okD(5) [of "fifo_advance f"]
    by (auto simp: fifo_Read_def)
  have q: "unat (ring_next (NumEntries f) (ReadPos f)) = Suc ?r mod ?n"
    using r n by (simp add: NumEntries_def unat_ring_next)
  have "unat ((if ring_next (NumEntries f) (ReadPos f) = 0 then NumEntries f else ring_next (NumEntries f) (ReadPos f)) - 1) = ?r"
  proof (cases "Suc ?r = ?n")
    case True
    then have "ring_next (NumEntries f) (ReadPos f) = 0" using q by (simp add: unat_eq_0 [symmetric])
    moreover have "unat (NumEntries f - 1) = ?n - 1" using N r unat_sub1 [of "NumEntries f"]
      by (cases "Entries f = []") (simp_all add: word_less_nat_alt)
    ultimately show ?thesis using True by simp
  next
    case False
    then have "unat (ring_next (NumEntries f) (ReadPos f)) = Suc ?r" using q r by simp
    then show ?thesis using unat_sub1 [of "ring_next (NumEntries f) (ReadPos f)"]
      by (auto simp: word_less_nat_alt)
  qed
  then show ?thesis using f' 
    by (auto simp: fifo_Read_def [of "fifo_advance f"] fifo_advance_fields fifo_Peek_def)
qed

lemma repeat_step_refines:
  assumes ok: "fifo_ok f" and e: "empty_read l f"
  shows "(let (o1, ys, l') = repeat_step (fifo_cap f) x (fifo_items f, l);
              (o2, f') = impl_step fifo_Write fifo_Read fifo_Clear x f
          in fifo_ok f' \<and> fifo_cap f' = fifo_cap f \<and> fifo_items f' = ys \<and> empty_read l' f' \<and> list_all2 answers o1 o2)"
proof (cases x)
  case (Enq v)
  then show ?thesis using ok e fifo_okD(3) [OF ok]
    by (auto simp: fifo_Write_laws empty_read_def fifo_Write_full fifo_okD)
next
  case Clear
  then show ?thesis using ok by (simp add: fifo_Clear_ok empty_read_def answers_def)
next
  case Deq
  note r = fifo_Read_laws [OF ok]
  show ?thesis
  proof (cases "fifo_items f")
    case Nil
    then have "snd (fifo_Read f) = f" using fifo_okD(5) [OF ok] by (simp add: fifo_Read_def)
    then show ?thesis using Deq Nil ok e
      by (cases "fifo_Read f") (simp add: empty_read_def)
  next
    case (Cons y ys)
    then have "ys = [] \<longrightarrow> fst (fifo_Read (snd (fifo_Read f))) = y"
      using fifo_Read_again [OF ok] by simp
    then show ?thesis using Deq Cons r
      by (cases "fifo_Read f") (auto simp: empty_read_def answers_def)
  qed
qed

lemma repeat_run_refines:
  assumes "fifo_ok f" "empty_read l f"
  shows "list_all2 answers (fst (q_run (repeat_step (fifo_cap f)) xs (fifo_items f, l)))
      (fst (q_run (impl_step fifo_Write fifo_Read fifo_Clear) xs f)) \<and>
    fifo_items (snd (q_run (impl_step fifo_Write fifo_Read fifo_Clear) xs f)) =
      fst (snd (q_run (repeat_step (fifo_cap f)) xs (fifo_items f, l)))"
  using assms
proof (induction xs arbitrary: f l)
  case (Cons x xs)
  obtain o1 ys l' where s1: "repeat_step (fifo_cap f) x (fifo_items f, l) = (o1, ys, l')"
    by (metis surj_pair)
  obtain o2 f' where s2: "impl_step fifo_Write fifo_Read fifo_Clear x f = (o2, f')"
    by (metis surj_pair)
  have "fifo_ok f'" "fifo_cap f' = fifo_cap f" "fifo_items f' = ys" "empty_read l' f'" "list_all2 answers o1 o2"
    using repeat_step_refines [OF Cons.prems, of x] s1 s2 by auto
  then show ?case using Cons.IH [of f' l'] s1 s2
    by (auto simp: split_beta list_all2_appendI)
qed simp

text \<open>C38.  A \<open>FIFO\<close> of any size up to \<open>2 ^ 31 - 1\<close> behaves as a bounded queue under every sequence of
  writes, reads and clears: a write to a full queue is dropped, reads give the values in order, a
  read of the empty queue repeats the last value read, and \<open>Level\<close>, \<open>Peek\<close> and \<open>Peek(offset)\<close>
  show its length and elements.\<close>

theorem FIFO_refines_queue:
  fixes n :: nat and ops :: "'a::zero qop list"
  assumes "0 < n" "n < 2 ^ 31"
  defines "f \<equiv> snd (q_run (impl_step fifo_Write fifo_Read fifo_Clear) ops (fifo_new n))"
  shows "list_all2 answers (fst (q_run (repeat_step n) ops ([], Some 0)))
      (fst (q_run (impl_step fifo_Write fifo_Read fifo_Clear) ops (fifo_new n))) \<and>
    (let xs = fst (snd (q_run (repeat_step n) ops ([], Some 0)))
     in unat (fifo_Level f) = length xs \<and> (xs \<noteq> [] \<longrightarrow> fifo_Peek f = hd xs) \<and>
        (\<forall>i. unat i < length xs \<longrightarrow> fifo_PeekAt i f = xs ! unat i))"
proof -
  have new: "fifo_ok (fifo_new n :: 'a fifo)" "fifo_items (fifo_new n :: 'a fifo) = []"
    "fifo_cap (fifo_new n :: 'a fifo) = n"
    using fifo_new_ok [OF assms(1,2)] by auto
  have e: "empty_read (Some 0) (fifo_new n :: 'a fifo)"
    using assms(1,2) unat_sub1 [of "of_nat n :: u32"] unat_of_nat31 [OF assms(2)]
    by (simp add: empty_read_def answers_def fifo_Read_def fifo_new_def fifo_IsEmpty_def NumEntries_def
        word_less_nat_alt)
  have ok: "fifo_ok f" unfolding f_def by (rule fifo.run_refines [THEN conjunct1]) (rule new)
  note runs = repeat_run_refines [OF new(1) e, of ops, unfolded new, folded f_def]
  have "fifo_items f \<noteq> [] \<Longrightarrow> fifo_Peek f = hd (fifo_items f)"
    using fifo_advance_items(1) [OF ok] by (metis list.sel(1))
  then show ?thesis
    using runs fifo_PeekAt_items [OF ok] fifo_okD(2) [OF ok]
    by (simp add: fifo_Level_def Let_def)
qed

theorem FIFO_refines_queue_witness:
  "fst (q_run (impl_step fifo_Write fifo_Read fifo_Clear) [Enq 5, Enq 6, Enq 7, Deq, Deq, Deq]
     (fifo_new 2 :: nat fifo)) = [5, 6, 6]"
  using FIFO_refines_queue [of 2 "[Enq 5, Enq 6, Enq 7, Deq, Deq, Deq] :: nat qop list"]
  by (auto simp: answers_def split_beta)

section \<open>The byte ring\<close>

record ringbuf =
  Buffer :: "u8 list"
  rb_NumOccupied :: u32
  rb_ReadPos :: u32
  rb_WritePos :: u32

definition rb_Size :: "ringbuf \<Rightarrow> u32" where
  "rb_Size b = of_nat (length (Buffer b))"

text \<open>\<open>memcpy(&dst[pos], data, n)\<close> and \<open>memcpy(data, &src[pos], n)\<close>, for ranges inside the array.\<close>

definition copy_in :: "u8 list \<Rightarrow> u32 \<Rightarrow> u8 list \<Rightarrow> u8 list" where
  "copy_in dst pos xs = take (unat pos) dst @ xs @ drop (unat pos + length xs) dst"

definition copy_out :: "u8 list \<Rightarrow> u32 \<Rightarrow> u32 \<Rightarrow> u8 list" where
  "copy_out src pos n = take (unat n) (drop (unat pos) src)"

definition rb_Clear :: "ringbuf \<Rightarrow> ringbuf" where
  "rb_Clear b = \<lparr>Buffer = replicate (length (Buffer b)) 0, rb_NumOccupied = 0, rb_ReadPos = 0, rb_WritePos = 0\<rparr>"

definition rb_CanFit :: "u32 \<Rightarrow> ringbuf \<Rightarrow> bool" where
  "rb_CanFit num b \<longleftrightarrow> rb_NumOccupied b + num \<le> rb_Size b"

text \<open>\<open>data\<close> holds \<open>len\<close> bytes.\<close>

definition rb_Write :: "u8 list \<Rightarrow> u32 \<Rightarrow> ringbuf \<Rightarrow> bool \<times> ringbuf" where
  "rb_Write data len b =
     (if \<not> rb_CanFit len b then (False, b)
      else
        let b =
          (if rb_WritePos b + len \<ge> rb_Size b then
             let part1 = rb_Size b - rb_WritePos b;
                 buf = copy_in (Buffer b) (rb_WritePos b) (take (unat part1) data);
                 buf = (if len > part1 then copy_in buf 0 (take (unat (len - part1)) (drop (unat part1) data)) else buf)
             in b\<lparr>Buffer := buf, rb_WritePos := len - part1\<rparr>
           else b\<lparr>Buffer := copy_in (Buffer b) (rb_WritePos b) (take (unat len) data),
                  rb_WritePos := rb_WritePos b + len\<rparr>)
        in (True, b\<lparr>rb_NumOccupied := rb_NumOccupied b + len\<rparr>))"

text \<open>The bytes at \<open>readpos\<close>, around the end, as \<open>Read\<close> and \<open>Peek\<close> copy them.\<close>

definition rb_segment :: "u32 \<Rightarrow> u32 \<Rightarrow> ringbuf \<Rightarrow> u8 list" where
  "rb_segment readpos len b =
     (if readpos + len \<ge> rb_Size b then
        let part1 = rb_Size b - readpos
        in copy_out (Buffer b) readpos part1 @ (if len > part1 then copy_out (Buffer b) 0 (len - part1) else [])
      else copy_out (Buffer b) readpos len)"

definition rb_Read :: "u32 \<Rightarrow> ringbuf \<Rightarrow> u8 list option \<times> ringbuf" where
  "rb_Read len b =
     (if rb_NumOccupied b < len then (None, b)
      else
        let readpos = rb_ReadPos b;
            data = rb_segment readpos len b;
            b = (if readpos + len \<ge> rb_Size b then b\<lparr>rb_ReadPos := len - (rb_Size b - readpos)\<rparr>
                 else b\<lparr>rb_ReadPos := rb_ReadPos b + len\<rparr>)
        in (Some data, b\<lparr>rb_NumOccupied := rb_NumOccupied b - len\<rparr>))"

definition rb_Peek :: "u32 \<Rightarrow> u32 \<Rightarrow> ringbuf \<Rightarrow> u8 list option" where
  "rb_Peek offset len b =
     (if rb_NumOccupied b < len then None
      else
        let readpos = rb_ReadPos b + offset;
            readpos = (if readpos \<ge> rb_Size b then readpos - rb_Size b else readpos)
        in Some (rb_segment readpos len b))"

definition rb_Skip :: "u32 \<Rightarrow> ringbuf \<Rightarrow> bool \<times> ringbuf" where
  "rb_Skip len b =
     (if rb_NumOccupied b < len then (False, b)
      else
        let pos = rb_ReadPos b + len;
            pos = (if pos \<ge> rb_Size b then pos - rb_Size b else pos)
        in (True, b\<lparr>rb_ReadPos := pos, rb_NumOccupied := rb_NumOccupied b - len\<rparr>))"

definition rb_items :: "ringbuf \<Rightarrow> u8 list" where
  "rb_items b = ring_items (Buffer b) (unat (rb_ReadPos b)) (unat (rb_NumOccupied b))"

definition rb_ok :: "ringbuf \<Rightarrow> bool" where
  "rb_ok b \<longleftrightarrow>
     0 < length (Buffer b) \<and> length (Buffer b) < 2 ^ 30 \<and>
     unat (rb_ReadPos b) < length (Buffer b) \<and> unat (rb_NumOccupied b) \<le> length (Buffer b) \<and>
     unat (rb_WritePos b) = (unat (rb_ReadPos b) + unat (rb_NumOccupied b)) mod length (Buffer b)"

lemma rb_Size_unat: "rb_ok b \<Longrightarrow> unat (rb_Size b) = length (Buffer b)"
  by (simp add: rb_ok_def rb_Size_def unat_of_nat31)

lemma mod_once: "m < 2 * n \<Longrightarrow> m mod n = (if m < n then m else m - n)" for m n :: nat
  by (simp add: mod_if)

lemma copy_out_nth:
  assumes "unat pos + unat n \<le> length src"
  shows "length (copy_out src pos n) = unat n" "i < unat n \<Longrightarrow> copy_out src pos n ! i = src ! (unat pos + i)"
  using assms by (auto simp: copy_out_def)

lemma rb_segment_items:
  assumes ok: "rb_ok b" and p: "unat p < length (Buffer b)" and l: "unat len \<le> length (Buffer b)"
  shows "rb_segment p len b = ring_items (Buffer b) (unat p) (unat len)"
proof -
  let ?n = "length (Buffer b)"
  have n: "?n < 2 ^ 30" and N: "unat (rb_Size b) = ?n" using ok rb_Size_unat by (auto simp: rb_ok_def)
  have s: "unat (p + len) = unat p + unat len" using n p l by (intro unat_plus31) simp_all
  show ?thesis
  proof (cases "?n \<le> unat p + unat len")
    case True
    define a where "a = rb_Size b - p"
    have a: "unat a = ?n - unat p" using p N by (simp add: a_def unat_sub word_le_nat_alt)
    have t: "unat (len - a) = unat len - unat a" and c: "len > a \<longleftrightarrow> unat a < unat len"
      using a True by (simp_all add: unat_sub word_le_nat_alt word_less_nat_alt)
    have A: "length (copy_out (Buffer b) p a) = unat a"
      "\<And>i. i < unat a \<Longrightarrow> copy_out (Buffer b) p a ! i = Buffer b ! (unat p + i)"
      using copy_out_nth [of p a "Buffer b"] a p by simp_all
    have T: "length (copy_out (Buffer b) 0 (len - a)) = unat len - unat a"
      "\<And>i. i < unat len - unat a \<Longrightarrow> copy_out (Buffer b) 0 (len - a) ! i = Buffer b ! i"
      using copy_out_nth [of 0 "len - a" "Buffer b"] t l by simp_all
    have "rb_segment p len b = copy_out (Buffer b) p a @ (if unat a < unat len then copy_out (Buffer b) 0 (len - a) else [])"
      using True s N c by (simp add: rb_segment_def a_def word_le_nat_alt Let_def)
    also have "\<dots> = ring_items (Buffer b) (unat p) (unat len)"
    proof (rule nth_equalityI)
      fix i assume "i < length (copy_out (Buffer b) p a @ (if unat a < unat len then copy_out (Buffer b) 0 (len - a) else []))"
      then have i: "i < unat len" using A T a True by (auto split: if_splits)
      then have "(unat p + i) mod ?n = (if i < unat a then unat p + i else i - unat a)"
        using a p l by (auto simp: mod_once)
      then show "(copy_out (Buffer b) p a @ (if unat a < unat len then copy_out (Buffer b) 0 (len - a) else [])) ! i =
          ring_items (Buffer b) (unat p) (unat len) ! i"
        using i A T by (auto simp: nth_append)
    qed (use A T a True in auto)
    finally show ?thesis .
  next
    case False
    then show ?thesis
      using p l N s copy_out_nth [of p len "Buffer b"] by (intro nth_equalityI) (auto simp: rb_segment_def word_le_nat_alt)
  qed
qed

text \<open>Where byte \<open>j\<close> of the array comes from after \<open>xs\<close> was copied in at \<open>w\<close>.\<close>

definition ring_dist :: "nat \<Rightarrow> nat \<Rightarrow> nat \<Rightarrow> nat" where
  "ring_dist n w j = (if w \<le> j then j - w else n + j - w)"

lemma ring_dist_item:
  assumes "r < n" "i < n" "k \<le> n"
  shows "ring_dist n ((r + k) mod n) ((r + i) mod n) = (if k \<le> i then i - k else n + i - k)"
proof (cases "k = n")
  case True
  then show ?thesis using assms by (auto simp: ring_dist_def mod_once)
next
  case False
  then show ?thesis using assms by (auto simp: ring_dist_def mod_once)
qed

lemma rb_Write_Buffer:
  assumes ok: "rb_ok b" and fits: "unat (rb_NumOccupied b) + length xs \<le> length (Buffer b)"
    and len: "length xs = unat len"
  shows "\<exists>buf w. rb_Write xs len b = (True, b\<lparr>Buffer := buf, rb_WritePos := w, rb_NumOccupied := rb_NumOccupied b + len\<rparr>) \<and>
    length buf = length (Buffer b) \<and> unat w = (unat (rb_WritePos b) + length xs) mod length (Buffer b) \<and>
    (\<forall>j < length (Buffer b). buf ! j = (let d = ring_dist (length (Buffer b)) (unat (rb_WritePos b)) j
       in if d < length xs then xs ! d else Buffer b ! j))"
proof -
  let ?n = "length (Buffer b)" and ?w = "unat (rb_WritePos b)"
  have n: "0 < ?n" "?n < 2 ^ 30" and w: "?w < ?n" and N: "unat (rb_Size b) = ?n"
    using ok rb_Size_unat by (auto simp: rb_ok_def)
  have l: "unat len \<le> ?n" using fits len by simp
  have s: "unat (rb_WritePos b + len) = ?w + unat len" using n w l by (intro unat_plus31) simp_all
  have "unat (rb_NumOccupied b + len) = unat (rb_NumOccupied b) + unat len"
    using n fits len by (intro unat_plus31) simp_all
  then have c: "rb_CanFit len b" using fits len N by (simp add: rb_CanFit_def word_le_nat_alt)
  have q: "unat (rb_Size b - rb_WritePos b) = ?n - ?w"
    using w N by (simp add: unat_sub word_le_nat_alt)
  show ?thesis
  proof (cases "?n \<le> ?w + unat len")
    case True
    then have q': "len > rb_Size b - rb_WritePos b \<longleftrightarrow> ?n - ?w < unat len"
      "unat (len - (rb_Size b - rb_WritePos b)) = unat len - (?n - ?w)"
      using q by (auto simp: word_less_nat_alt unat_sub word_le_nat_alt)
    let ?b1 = "copy_in (Buffer b) (rb_WritePos b) (take (?n - ?w) xs)"
    let ?buf = "if ?n - ?w < unat len then copy_in ?b1 0 (take (unat len - (?n - ?w)) (drop (?n - ?w) xs)) else ?b1"
    have "rb_Write xs len b = (True, b\<lparr>Buffer := ?buf, rb_WritePos := len - (rb_Size b - rb_WritePos b),
        rb_NumOccupied := rb_NumOccupied b + len\<rparr>)"
      using c True q q' N s by (simp add: rb_Write_def Let_def word_le_nat_alt)
    moreover have "length ?buf = ?n" using True w len l by (auto simp: copy_in_def)
    moreover have "unat (len - (rb_Size b - rb_WritePos b)) = (?w + length xs) mod ?n"
      using True w len l q' by (auto simp: mod_once)
    moreover have "\<forall>j < ?n. ?buf ! j = (let d = ring_dist ?n ?w j in if d < length xs then xs ! d else Buffer b ! j)"
      using True w len l by (auto simp: ring_dist_def copy_in_def Let_def nth_append min_def)
    ultimately show ?thesis by blast
  next
    case False
    have "rb_Write xs len b = (True, b\<lparr>Buffer := copy_in (Buffer b) (rb_WritePos b) xs, rb_WritePos := rb_WritePos b + len,
        rb_NumOccupied := rb_NumOccupied b + len\<rparr>)"
      using c False N s len by (simp add: rb_Write_def Let_def word_le_nat_alt)
    moreover have "\<forall>j < ?n. copy_in (Buffer b) (rb_WritePos b) xs ! j =
        (let d = ring_dist ?n ?w j in if d < length xs then xs ! d else Buffer b ! j)"
      using False w len by (auto simp: ring_dist_def copy_in_def Let_def nth_append min_def)
    ultimately show ?thesis using False w len s by (intro exI conjI) (simp_all add: copy_in_def)
  qed
qed

lemma rb_Write_items:
  assumes ok: "rb_ok b" and fits: "length (rb_items b) + length xs \<le> length (Buffer b)"
    and len: "length xs = unat len"
  shows "fst (rb_Write xs len b)" "rb_ok (snd (rb_Write xs len b))"
    "rb_items (snd (rb_Write xs len b)) = rb_items b @ xs"
    "length (Buffer (snd (rb_Write xs len b))) = length (Buffer b)"
proof -
  let ?n = "length (Buffer b)" and ?r = "unat (rb_ReadPos b)" and ?k = "unat (rb_NumOccupied b)"
  have k: "?k + length xs \<le> ?n" using fits by (simp add: rb_items_def)
  obtain buf w where W: "rb_Write xs len b =
      (True, b\<lparr>Buffer := buf, rb_WritePos := w, rb_NumOccupied := rb_NumOccupied b + len\<rparr>)"
    and lb: "length buf = ?n" and w: "unat w = (unat (rb_WritePos b) + length xs) mod ?n"
    and nth: "\<forall>j < ?n. buf ! j = (let d = ring_dist ?n (unat (rb_WritePos b)) j
       in if d < length xs then xs ! d else Buffer b ! j)"
    using rb_Write_Buffer [OF ok k len] by blast
  have n: "?n < 2 ^ 30" and r: "?r < ?n" and wp: "unat (rb_WritePos b) = (?r + ?k) mod ?n"
    using ok by (auto simp: rb_ok_def)
  have k': "unat (rb_NumOccupied b + len) = ?k + length xs"
    using n k len by (subst unat_plus31) simp_all
  show "fst (rb_Write xs len b)" "length (Buffer (snd (rb_Write xs len b))) = ?n" using W lb by simp_all
  show "rb_ok (snd (rb_Write xs len b))"
    using ok k lb by (simp add: W rb_ok_def w wp k' mod_simps add.assoc)
  have "buf ! ((?r + i) mod ?n) = (if i < ?k then Buffer b ! ((?r + i) mod ?n) else xs ! (i - ?k))"
    if i: "i < ?k + length xs" for i
  proof -
    have "(?r + i) mod ?n < ?n" using r by (intro mod_less_divisor) linarith
    then have "buf ! ((?r + i) mod ?n) = (let d = if ?k \<le> i then i - ?k else ?n + i - ?k
        in if d < length xs then xs ! d else Buffer b ! ((?r + i) mod ?n))"
      using nth lb ring_dist_item [OF r, of i ?k] i k by (simp add: wp)
    then show ?thesis using i k by (auto simp: Let_def)
  qed
  then show "rb_items (snd (rb_Write xs len b)) = rb_items b @ xs"
    using lb by (intro nth_equalityI) (simp_all add: W rb_items_def k' nth_append)
qed

lemma rb_Write_no_room:
  assumes ok: "rb_ok b" and full: "\<not> length (rb_items b) + unat len \<le> length (Buffer b)"
    and no_wrap: "unat len < 2 ^ 31"
  shows "rb_Write xs len b = (False, b)"
proof -
  have "unat (rb_NumOccupied b + len) = unat (rb_NumOccupied b) + unat len"
    using ok no_wrap by (intro unat_plus31) (auto simp: rb_ok_def)
  then show ?thesis
    using full rb_Size_unat [OF ok] by (simp add: rb_Write_def rb_CanFit_def word_le_nat_alt rb_items_def)
qed

lemma rb_drop:
  assumes ok: "rb_ok b" and len: "unat len \<le> length (rb_items b)"
    and p: "unat p = (unat (rb_ReadPos b) + unat len) mod length (Buffer b)"
  shows "rb_ok (b\<lparr>rb_ReadPos := p, rb_NumOccupied := rb_NumOccupied b - len\<rparr>)"
    "rb_items (b\<lparr>rb_ReadPos := p, rb_NumOccupied := rb_NumOccupied b - len\<rparr>) = drop (unat len) (rb_items b)"
proof -
  have k: "unat len \<le> unat (rb_NumOccupied b)" using len by (simp add: rb_items_def)
  then have k': "unat (rb_NumOccupied b - len) = unat (rb_NumOccupied b) - unat len"
    by (simp add: unat_sub word_le_nat_alt)
  show "rb_ok (b\<lparr>rb_ReadPos := p, rb_NumOccupied := rb_NumOccupied b - len\<rparr>)"
    using ok k le_Suc_ex [OF k] by (auto simp: rb_ok_def k' p mod_simps add.assoc)
  show "rb_items (b\<lparr>rb_ReadPos := p, rb_NumOccupied := rb_NumOccupied b - len\<rparr>) = drop (unat len) (rb_items b)"
    using k by (intro nth_equalityI) (simp_all add: rb_items_def k' p mod_simps add.assoc)
qed

lemma rb_positions:
  assumes ok: "rb_ok b" and l: "unat len \<le> length (Buffer b)"
  shows "unat (if rb_ReadPos b + len \<ge> rb_Size b then rb_ReadPos b + len - rb_Size b else rb_ReadPos b + len) =
    (unat (rb_ReadPos b) + unat len) mod length (Buffer b)"
    "unat (if rb_ReadPos b + len \<ge> rb_Size b then len - (rb_Size b - rb_ReadPos b) else rb_ReadPos b + len) =
    (unat (rb_ReadPos b) + unat len) mod length (Buffer b)"
proof -
  let ?n = "length (Buffer b)" and ?r = "unat (rb_ReadPos b)"
  have n: "?n < 2 ^ 30" and N: "unat (rb_Size b) = ?n" and r: "?r < ?n"
    using ok rb_Size_unat by (auto simp: rb_ok_def)
  have s: "unat (rb_ReadPos b + len) = ?r + unat len" using n r l by (intro unat_plus31) simp_all
  show "unat (if rb_ReadPos b + len \<ge> rb_Size b then rb_ReadPos b + len - rb_Size b else rb_ReadPos b + len) =
    (?r + unat len) mod ?n"
    using r l s N by (auto simp: word_le_nat_alt unat_sub mod_once)
  moreover have e: "len - (rb_Size b - rb_ReadPos b) = rb_ReadPos b + len - rb_Size b" by simp
  ultimately show "unat (if rb_ReadPos b + len \<ge> rb_Size b then len - (rb_Size b - rb_ReadPos b) else rb_ReadPos b + len) =
    (?r + unat len) mod ?n" by (simp only: e)
qed

text \<open>C39.  A \<open>RingBuffer\<close> is a bounded byte queue: \<open>Write\<close> appends the whole block or, when it does not
  fit, changes nothing and reports it; \<open>Read\<close> and \<open>Skip\<close> take exactly the oldest \<open>len\<close> bytes or
  fail without effect; \<open>Peek\<close> inside the contents shows the bytes at the offset.\<close>

theorem RingBuffer_refines_bytes:
  assumes ok: "rb_ok b" and data: "length data = unat len" "unat len < 2 ^ 31"
  defines "xs \<equiv> rb_items b" and "n \<equiv> unat len"
  shows "(if length xs + n \<le> length (Buffer b)
      then fst (rb_Write data len b) \<and> rb_ok (snd (rb_Write data len b)) \<and>
        rb_items (snd (rb_Write data len b)) = xs @ data
      else rb_Write data len b = (False, b)) \<and>
    (if n \<le> length xs
      then fst (rb_Read len b) = Some (take n xs) \<and> rb_ok (snd (rb_Read len b)) \<and>
        rb_items (snd (rb_Read len b)) = drop n xs \<and> rb_Skip len b = (True, snd (rb_Read len b))
      else rb_Read len b = (None, b) \<and> rb_Skip len b = (False, b)) \<and>
    (unat offset + n \<le> length xs \<longrightarrow> rb_Peek offset len b = Some (take n (drop (unat offset) xs)))"
proof (intro conjI)
  have le: "length xs \<le> length (Buffer b)" and r: "unat (rb_ReadPos b) < length (Buffer b)"
    using ok by (simp_all add: rb_ok_def xs_def rb_items_def)
  have take_seg: "ring_items (Buffer b) (unat (rb_ReadPos b)) k = take k xs" if "k \<le> length xs" for k
    using that by (intro nth_equalityI) (simp_all add: xs_def rb_items_def)
  have occ: "rb_NumOccupied b < l \<longleftrightarrow> \<not> unat l \<le> length xs" for l
    by (simp add: xs_def rb_items_def word_less_nat_alt not_le)
  show "if length xs + n \<le> length (Buffer b)
      then fst (rb_Write data len b) \<and> rb_ok (snd (rb_Write data len b)) \<and>
        rb_items (snd (rb_Write data len b)) = xs @ data
      else rb_Write data len b = (False, b)"
    using rb_Write_items [OF ok _ data(1)] rb_Write_no_room [OF ok _ data(2)] data(1)
    by (simp add: xs_def n_def)
  show "if n \<le> length xs
      then fst (rb_Read len b) = Some (take n xs) \<and> rb_ok (snd (rb_Read len b)) \<and>
        rb_items (snd (rb_Read len b)) = drop n xs \<and> rb_Skip len b = (True, snd (rb_Read len b))
      else rb_Read len b = (None, b) \<and> rb_Skip len b = (False, b)"
  proof (cases "n \<le> length xs")
    case True
    let ?p = "if rb_ReadPos b + len \<ge> rb_Size b then len - (rb_Size b - rb_ReadPos b) else rb_ReadPos b + len"
    let ?q = "if rb_ReadPos b + len \<ge> rb_Size b then rb_ReadPos b + len - rb_Size b else rb_ReadPos b + len"
    have l: "unat len \<le> length (Buffer b)" using True le by (simp add: n_def)
    have "?p = ?q" by simp
    have R: "rb_Read len b = (Some (take n xs), b\<lparr>rb_ReadPos := ?p, rb_NumOccupied := rb_NumOccupied b - len\<rparr>)"
      using True rb_segment_items [OF ok r l] take_seg [of n]
      by (simp add: rb_Read_def Let_def occ n_def)
    have S: "rb_Skip len b = (True, b\<lparr>rb_ReadPos := ?q, rb_NumOccupied := rb_NumOccupied b - len\<rparr>)"
      using True by (simp add: rb_Skip_def Let_def occ n_def)
    show ?thesis
      using True rb_drop [OF ok _ rb_positions(2) [OF ok l]] R S by (simp add: xs_def n_def)
  next
    case False
    then show ?thesis by (simp add: rb_Read_def rb_Skip_def occ n_def)
  qed
  show "unat offset + n \<le> length xs \<longrightarrow> rb_Peek offset len b = Some (take n (drop (unat offset) xs))"
  proof
    assume fits: "unat offset + n \<le> length xs"
    let ?p = "if rb_ReadPos b + offset \<ge> rb_Size b then rb_ReadPos b + offset - rb_Size b else rb_ReadPos b + offset"
    have p: "unat ?p = (unat (rb_ReadPos b) + unat offset) mod length (Buffer b)"
      using rb_positions(1) [OF ok, of offset] fits le by simp
    have "(unat (rb_ReadPos b) + unat offset) mod length (Buffer b) < length (Buffer b)"
      using r by (intro mod_less_divisor) linarith
    then have "unat ?p < length (Buffer b)" by (simp only: p)
    then have "rb_Peek offset len b = Some (ring_items (Buffer b) (unat ?p) n)"
      using rb_segment_items [OF ok, of ?p len] fits le
      by (simp add: rb_Peek_def Let_def occ n_def)
    also have "ring_items (Buffer b) (unat ?p) n = take n (drop (unat offset) xs)"
      using fits by (intro nth_equalityI) (simp_all only: p, simp_all add: xs_def rb_items_def mod_simps add.assoc)
    finally show "rb_Peek offset len b = Some (take n (drop (unat offset) xs))" .
  qed
qed

theorem RingBuffer_refines_bytes_witness:
  "fst (rb_Read 2 \<lparr>Buffer = [7, 8, 9], rb_NumOccupied = 3, rb_ReadPos = 2, rb_WritePos = 2\<rparr>) = Some [9, 7]"
proof -
  let ?b = "\<lparr>Buffer = [7, 8, 9], rb_NumOccupied = 3, rb_ReadPos = 2, rb_WritePos = 2\<rparr> :: ringbuf"
  have ok: "rb_ok ?b" by (simp add: rb_ok_def)
  have xs: "rb_items ?b = [9, 7, 8]" by (simp add: rb_items_def ring_items_def upt_rec)
  show ?thesis
    using RingBuffer_refines_bytes [OF ok, of "[0, 0]" 2 0, THEN conjunct2, THEN conjunct1] xs by simp
qed

end
