(* ===== verification/NdsCore.thy ===== *)
theory NdsCore
  imports Fifo
begin

text \<open>
  The console object \<open>NDS\<close> of \<^verbatim>\<open>src/src/NDS.h\<close> and \<^verbatim>\<open>NDS.cpp\<close>, without its CPUs and
  peripherals: the fields the scheduler, the interrupt controllers, the timers, the inter-processor
  communication and the maths units share, and the event scheduler.

  Small arrays are functions from the index.  The lines of the two CPU objects that this code
  writes (\<open>ARM::IRQ\<close>, \<open>ARM::Halted\<close>) are \<open>cpu_IRQ\<close> and \<open>cpu_Halted\<close>, index 0 the ARM9.
  \<open>'x\<close> is the state of everything else.  What the scheduler reaches through function pointers,
  and the calls into the GPU and the NDMA controllers, are the fields of the record \<open>nds_ext\<close>.
  \<open>CheckNDMAs cpu mode\<close> starts the DSi's NDMA channels of a CPU that wait for a start mode; it
  gives their new state and the mask of CPU-stop flags that \<open>DSi_NDMA::Start\<close> passed to \<open>StopCPU\<close>.
\<close>

section \<open>State\<close>

record sched_event =
  Timestamp :: u64
  FuncID :: u32
  Param :: u32

record timer =
  Reload :: u16
  Cnt :: u16
  Counter :: u32
  CycleShift :: u32

record 'x nds =
  ConsoleType :: nat
  CurCPU :: nat
  SchedList :: "nat \<Rightarrow> sched_event"
  ARM9Timestamp :: u64
  ARM9Target :: u64
  ARM7Timestamp :: u64
  ARM7Target :: u64
  ARM9ClockShift :: nat
  IME :: "nat \<Rightarrow> u32"
  IE :: "nat \<Rightarrow> u32"
  IF :: "nat \<Rightarrow> u32"
  IE2 :: u32
  IF2 :: u32
  Timers :: "nat \<Rightarrow> timer"
  CPUStop :: u32
  KeyInput :: u32
  SchedListMask :: u32
  EarliestEventTimestamp :: u64
  SysTimestamp :: u64
  TimerCheckMask :: "nat \<Rightarrow> u8"
  TimerTimestamp :: "nat \<Rightarrow> u64"
  IPCSync9 :: u16
  IPCSync7 :: u16
  IPCFIFOCnt9 :: u16
  IPCFIFOCnt7 :: u16
  IPCFIFO9 :: "u32 fifo"
  IPCFIFO7 :: "u32 fifo"
  DivCnt :: u16
  DivNumerator :: "nat \<Rightarrow> u32"
  DivDenominator :: "nat \<Rightarrow> u32"
  DivQuotient :: "nat \<Rightarrow> u32"
  DivRemainder :: "nat \<Rightarrow> u32"
  SqrtCnt :: u16
  SqrtVal :: "nat \<Rightarrow> u32"
  SqrtRes :: u32
  KeyCnt :: "nat \<Rightarrow> u16"
  cpu_IRQ :: "nat \<Rightarrow> bool"
  cpu_Halted :: "nat \<Rightarrow> u8"
  Rest :: 'x

text \<open>
  \<open>event_func i f p\<close> is \<open>SchedList[i].Funcs[f]\<close> applied to its object and the parameter \<open>p\<close>.
\<close>

type_synonym 'x event_func = "nat \<Rightarrow> u32 \<Rightarrow> u32 \<Rightarrow> 'x nds \<Rightarrow> 'x nds"

record 'x nds_ext =
  Restart3DFrame :: "'x \<Rightarrow> 'x"
  CheckNDMAs :: "nat \<Rightarrow> nat \<Rightarrow> 'x \<Rightarrow> 'x \<times> u32"
  GXFIFO_irq :: "'x \<Rightarrow> bool"

section \<open>Event slots\<close>

definition Event_LCD :: nat where "Event_LCD = 0"
definition Event_SPU :: nat where "Event_SPU = 1"
definition Event_RTC :: nat where "Event_RTC = 3"
definition Event_Div :: nat where "Event_Div = 10"
definition Event_Sqrt :: nat where "Event_Sqrt = 11"
definition Event_CartSave :: nat where "Event_CartSave = 25"
definition Event_DSi_Cart2Save :: nat where "Event_DSi_Cart2Save = 26"
definition Event_MAX :: nat where "Event_MAX = 27"

lemmas event_ids = Event_LCD_def Event_SPU_def Event_RTC_def Event_Div_def Event_Sqrt_def
  Event_CartSave_def Event_DSi_Cart2Save_def Event_MAX_def

definition EventScheduled :: "nat \<Rightarrow> 'x nds \<Rightarrow> bool" where
  "EventScheduled i nds \<longleftrightarrow> bit (SchedListMask nds) i"

section \<open>The scheduler\<close>

text \<open>
  The loop of \<open>RefreshEarliestEvent\<close> and \<open>NextTargetSleep\<close> over the set bits of a mask:
  \<open>slot = countr_zero(mask); mask &= mask - 1\<close>.  \<open>bits_up mask\<close> lists the slots in the order in
  which that loop visits them (\<open>bit_walk_eq\<close> of the theory on block transfers).
\<close>

definition earliest_of :: "(nat \<Rightarrow> sched_event) \<Rightarrow> nat list \<Rightarrow> u64" where
  "earliest_of list slots =
     fold (\<lambda>slot earliest. if Timestamp (list slot) < earliest then Timestamp (list slot) else earliest) slots (- 1)"

definition RefreshEarliestEvent :: "'x nds \<Rightarrow> 'x nds" where
  "RefreshEarliestEvent nds =
     (let mask = SchedListMask nds AND (push_bit Event_MAX 1 - 1)
      in nds\<lparr>EarliestEventTimestamp := earliest_of (SchedList nds) (bits_up mask)\<rparr>)"

definition kMaxIterationCycles :: u64 where "kMaxIterationCycles = 64"
definition kIterationCycleMargin :: u64 where "kIterationCycleMargin = 8"

definition NextTarget :: "'x nds \<Rightarrow> u64" where
  "NextTarget nds =
     (let max = SysTimestamp nds + kMaxIterationCycles
      in if EarliestEventTimestamp nds < max + kIterationCycleMargin then EarliestEventTimestamp nds else max)"

definition NextTargetSleep :: "'x nds \<Rightarrow> u64" where
  "NextTargetSleep nds =
     (let mask = SchedListMask nds AND (push_bit Event_SPU 1 OR push_bit Event_RTC 1 OR
            push_bit Event_CartSave 1 OR push_bit Event_DSi_Cart2Save 1)
      in earliest_of (SchedList nds) (bits_up mask))"

definition Reschedule :: "u64 \<Rightarrow> 'x nds \<Rightarrow> 'x nds" where
  "Reschedule target nds =
     (if CurCPU nds = 0 then
        if target < drop_bit (ARM9ClockShift nds) (ARM9Target nds)
        then nds\<lparr>ARM9Target := push_bit (ARM9ClockShift nds) target\<rparr> else nds
      else if target < ARM7Target nds then nds\<lparr>ARM7Target := target\<rparr> else nds)"

definition ScheduleEventAt :: "nat \<Rightarrow> u64 \<Rightarrow> u32 \<Rightarrow> u32 \<Rightarrow> 'x nds \<Rightarrow> 'x nds" where
  "ScheduleEventAt i timestamp funcid param nds =
     (if bit (SchedListMask nds) i then nds
      else
        let nds = nds\<lparr>SchedList := (SchedList nds)(i := \<lparr>Timestamp = timestamp, FuncID = funcid, Param = param\<rparr>),
                      SchedListMask := SchedListMask nds OR push_bit i 1\<rparr>;
            nds = (if timestamp < EarliestEventTimestamp nds then nds\<lparr>EarliestEventTimestamp := timestamp\<rparr> else nds)
        in Reschedule timestamp nds)"

text \<open>\<open>delay\<close> is an \<open>s32\<close> added to a \<open>u64\<close>: it is sign-extended.\<close>

definition ScheduleEvent :: "nat \<Rightarrow> bool \<Rightarrow> s32 \<Rightarrow> u32 \<Rightarrow> u32 \<Rightarrow> 'x nds \<Rightarrow> 'x nds" where
  "ScheduleEvent i periodic delay funcid param nds =
     (let start = (if periodic then Timestamp (SchedList nds i)
                   else if CurCPU nds = 0 then drop_bit (ARM9ClockShift nds) (ARM9Timestamp nds)
                   else ARM7Timestamp nds)
      in ScheduleEventAt i (start + scast delay) funcid param nds)"

definition CancelEvent :: "nat \<Rightarrow> 'x nds \<Rightarrow> 'x nds" where
  "CancelEvent i nds =
     (if \<not> bit (SchedListMask nds) i then nds
      else
        let nds = nds\<lparr>SchedListMask := SchedListMask nds AND NOT (push_bit i 1)\<rparr>
        in if Timestamp (SchedList nds i) = EarliestEventTimestamp nds then RefreshEarliestEvent nds else nds)"

text \<open>
  The walk of \<open>RunSystem\<close> over slots \<open>i, i + 1, \<dots>\<close>; \<open>m\<close> is the snapshot shifted right by \<open>i\<close>.
\<close>

definition run_slot :: "'x event_func \<Rightarrow> nat \<Rightarrow> 'x nds \<Rightarrow> 'x nds" where
  "run_slot func i nds =
     (let evt = SchedList nds i
      in if Timestamp evt \<le> SysTimestamp nds
         then func i (FuncID evt) (Param evt) (nds\<lparr>SchedListMask := SchedListMask nds AND NOT (push_bit i 1)\<rparr>)
         else nds)"

function run_slots :: "'x event_func \<Rightarrow> u32 \<Rightarrow> nat \<Rightarrow> 'x nds \<Rightarrow> 'x nds" where
  "run_slots func m i nds =
     (if i < Event_MAX \<and> m \<noteq> 0
      then run_slots func (drop_bit 1 m) (i + 1)
             (if tst m 1 \<and> bit (SchedListMask nds) i then run_slot func i nds else nds)
      else nds)"
  by pat_completeness auto
termination
  by (relation "measure (\<lambda>(func, m, i, nds). Event_MAX - i)") auto

declare run_slots.simps [simp del]

definition RunSystem :: "'x event_func \<Rightarrow> u64 \<Rightarrow> 'x nds \<Rightarrow> 'x nds" where
  "RunSystem func timestamp nds =
     (let nds = nds\<lparr>SysTimestamp := timestamp\<rparr>
      in if timestamp < EarliestEventTimestamp nds then nds
         else RefreshEarliestEvent (run_slots func (SchedListMask nds) 0 nds))"

text \<open>In sleep mode the clock and cart-save events run, every other due event is put off.\<close>

definition sleep_event :: "nat \<Rightarrow> bool" where
  "sleep_event i \<longleftrightarrow> i = Event_RTC \<or> i = Event_CartSave \<or> i = Event_DSi_Cart2Save"

definition postpone :: "nat \<Rightarrow> u64 \<Rightarrow> 'x nds \<Rightarrow> 'x nds" where
  "postpone i offset nds =
     (if Timestamp (SchedList nds i) \<le> SysTimestamp nds
      then nds\<lparr>SchedList := (SchedList nds)(i := (SchedList nds i)\<lparr>Timestamp := Timestamp (SchedList nds i) + offset\<rparr>)\<rparr>
      else nds)"

function sleep_slots :: "'x event_func \<Rightarrow> u64 \<Rightarrow> u32 \<Rightarrow> nat \<Rightarrow> 'x nds \<Rightarrow> 'x nds" where
  "sleep_slots func offset m i nds =
     (if i < Event_MAX \<and> m \<noteq> 0
      then sleep_slots func offset (drop_bit 1 m) (i + 1)
             (if sleep_event i then (if tst m 1 then run_slot func i nds else nds)
              else if tst m 1 then postpone i offset nds else nds)
      else nds)"
  by pat_completeness auto
termination
  by (relation "measure (\<lambda>(func, offset, m, i, nds). Event_MAX - i)") auto

declare sleep_slots.simps [simp del]

definition RunSystemSleep :: "'x event_func \<Rightarrow> u64 \<Rightarrow> 'x nds \<Rightarrow> 'x nds" where
  "RunSystemSleep func timestamp nds =
     (let offset = timestamp - SysTimestamp nds;
          nds = nds\<lparr>SysTimestamp := timestamp\<rparr>
      in RefreshEarliestEvent (sleep_slots func offset (SchedListMask nds) 0 nds))"

section \<open>The earliest deadline\<close>

definition deadlines :: "'x nds \<Rightarrow> u64 set" where
  "deadlines nds = (\<lambda>i. Timestamp (SchedList nds i)) ` {i. i < Event_MAX \<and> bit (SchedListMask nds) i}"

definition sched_exact :: "'x nds \<Rightarrow> bool" where
  "sched_exact nds \<longleftrightarrow> EarliestEventTimestamp nds = Min (insert (- 1) (deadlines nds))"

lemma earliest_of_Min: "earliest_of list slots = Min (insert (- 1) ((\<lambda>i. Timestamp (list i)) ` set slots))"
proof -
  have "fold (\<lambda>slot e. if Timestamp (list slot) < e then Timestamp (list slot) else e) slots e =
      Min (insert e ((\<lambda>i. Timestamp (list i)) ` set slots))" for e
  proof (induction slots arbitrary: e)
    case (Cons a slots)
    have "insert e ((\<lambda>i. Timestamp (list i)) ` set (a # slots)) =
        insert (Timestamp (list a)) (insert e ((\<lambda>i. Timestamp (list i)) ` set slots))" by auto
    then show ?case using Cons.IH [of "if Timestamp (list a) < e then Timestamp (list a) else e"]
      by (cases "(\<lambda>i. Timestamp (list i)) ` set slots = {}") (auto simp: min_def)
  qed simp
  then show ?thesis by (simp add: earliest_of_def)
qed

lemma slot_mask: "set (bits_up (m AND (push_bit Event_MAX 1 - 1))) = {i. i < Event_MAX \<and> bit m i}"
proof -
  have "(push_bit Event_MAX 1 - 1 :: u32) = push_bit 0 (mask 27)"
    by (simp add: event_ids mask_eq_exp_minus_1)
  then have "bit (m AND (push_bit Event_MAX 1 - 1)) i \<longleftrightarrow> i < Event_MAX \<and> bit m i" for i
    by (simp only: bit_and_iff bit_run_u32) (auto simp: event_ids)
  moreover have "set (bits_up w) = {i. bit w i}" for w
    by (auto simp: bits_up_def dest: bit_imp_le_length)
  ultimately show ?thesis by (simp only:)
qed

lemma finite_deadlines [simp]: "finite (deadlines nds)"
  by (simp add: deadlines_def)

lemma RefreshEarliestEvent_eq:
  "RefreshEarliestEvent nds = nds\<lparr>EarliestEventTimestamp := Min (insert (- 1) (deadlines nds))\<rparr>"
  by (simp only: RefreshEarliestEvent_def Let_def earliest_of_Min slot_mask deadlines_def)

lemma deadlines_frame [simp]:
  "deadlines (nds\<lparr>EarliestEventTimestamp := e\<rparr>) = deadlines nds"
  "deadlines (nds\<lparr>SysTimestamp := t\<rparr>) = deadlines nds"
  "deadlines (nds\<lparr>ARM9Target := t\<rparr>) = deadlines nds"
  "deadlines (nds\<lparr>ARM7Target := t\<rparr>) = deadlines nds"
  by (simp_all add: deadlines_def)

lemma Refresh_exact [simp]: "sched_exact (RefreshEarliestEvent nds)"
  by (simp add: RefreshEarliestEvent_eq sched_exact_def)

lemma Refresh_same: "sched_exact nds \<Longrightarrow> RefreshEarliestEvent nds = nds"
  by (simp add: RefreshEarliestEvent_eq sched_exact_def)

lemma Reschedule_exact: "sched_exact (Reschedule t nds) = sched_exact nds"
  by (simp add: Reschedule_def sched_exact_def)

lemma sched_exact_le: "sched_exact nds \<Longrightarrow> d \<in> deadlines nds \<Longrightarrow> EarliestEventTimestamp nds \<le> d"
  by (simp add: sched_exact_def)

lemma deadlines_insert:
  assumes "i < Event_MAX" "\<not> bit (SchedListMask nds) i"
    "\<And>j. bit (SchedListMask nds') j \<longleftrightarrow> bit (SchedListMask nds) j \<or> j = i"
    "\<And>j. j \<noteq> i \<Longrightarrow> SchedList nds' j = SchedList nds j"
  shows "deadlines nds' = insert (Timestamp (SchedList nds' i)) (deadlines nds)"
proof -
  have "{j. j < Event_MAX \<and> bit (SchedListMask nds') j} = insert i {j. j < Event_MAX \<and> bit (SchedListMask nds) j}"
    using assms(1,3) by auto
  then show ?thesis using assms(2,4) by (force simp: deadlines_def intro!: image_cong)
qed

lemma Min_insert_max: "finite (D :: u64 set) \<Longrightarrow> Min (insert (- 1) (insert t D)) = min t (Min (insert (- 1) D))"
  by (subst insert_commute) simp

lemma ScheduleEventAt_exact:
  assumes ex: "sched_exact nds" and i: "i < Event_MAX"
  shows "sched_exact (ScheduleEventAt i t f p nds)"
proof (cases "bit (SchedListMask nds) i")
  case True
  then show ?thesis using ex by (simp add: ScheduleEventAt_def)
next
  case False
  define m where "m = SchedListMask nds OR push_bit i 1"
  define nds' where "nds' = nds\<lparr>SchedList := (SchedList nds)(i := \<lparr>Timestamp = t, FuncID = f, Param = p\<rparr>),
                  SchedListMask := m\<rparr>"
  have m: "bit m j \<longleftrightarrow> bit (SchedListMask nds) j \<or> j = i" for j
    using i by (auto simp only: m_def bit_or_iff bit_push1 event_ids)
  have d: "deadlines nds' = insert t (deadlines nds)"
    using deadlines_insert [of i nds nds'] i False m by (simp add: nds'_def)
  define M where "M = Min (insert (- 1) (deadlines nds))"
  have e: "EarliestEventTimestamp nds' = M"
    using ex by (simp add: nds'_def sched_exact_def M_def)
  have M: "Min (insert (- 1) (deadlines nds')) = min t M"
    unfolding d M_def by (rule Min_insert_max) simp
  have "sched_exact (if t < EarliestEventTimestamp nds' then nds'\<lparr>EarliestEventTimestamp := t\<rparr> else nds')"
    by (cases "t < M") (auto simp: sched_exact_def e M min_def simp del: Min_insert)
  moreover have "ScheduleEventAt i t f p nds =
      Reschedule t (if t < EarliestEventTimestamp nds' then nds'\<lparr>EarliestEventTimestamp := t\<rparr> else nds')"
    using False by (simp only: ScheduleEventAt_def Let_def if_False nds'_def m_def)
  ultimately show ?thesis by (simp only: Reschedule_exact)
qed

lemma CancelEvent_exact:
  assumes ex: "sched_exact nds"
  shows "sched_exact (CancelEvent i nds)"
proof (cases "bit (SchedListMask nds) i \<and> Timestamp (SchedList nds i) \<noteq> EarliestEventTimestamp nds")
  case True
  define m where "m = SchedListMask nds AND NOT (push_bit i 1)"
  define nds' where "nds' = nds\<lparr>SchedListMask := m\<rparr>"
  have b: "bit m j \<longleftrightarrow> bit (SchedListMask nds) j \<and> j \<noteq> i" for j
    by (simp only: m_def bit_clear1)
  have sub: "deadlines nds \<subseteq> insert (Timestamp (SchedList nds i)) (deadlines nds')" "deadlines nds' \<subseteq> deadlines nds"
    by (auto simp: deadlines_def b nds'_def)
  let ?M = "Min (insert (- 1) (deadlines nds))"
  have "?M \<in> insert (- 1) (deadlines nds)" by (rule Min_in) auto
  then have "?M \<in> insert (- 1) (deadlines nds')"
    using True ex sub(1) by (auto simp: sched_exact_def)
  then have "Min (insert (- 1) (deadlines nds')) = ?M"
    using sub(2) by (intro Min_eqI) (auto intro: Min_le)
  moreover have "EarliestEventTimestamp nds' = EarliestEventTimestamp nds" by (simp add: nds'_def)
  ultimately have "sched_exact nds'" using ex by (simp add: sched_exact_def)
  moreover have "CancelEvent i nds = nds'" using True by (simp add: CancelEvent_def Let_def nds'_def m_def)
  ultimately show ?thesis by simp
next
  case False
  then show ?thesis using ex by (auto simp: CancelEvent_def Let_def)
qed

text \<open>C10.  \<open>EarliestEventTimestamp\<close> is exact: after scheduling, cancelling and running events, awake or
  asleep and whatever the callbacks do, it is the least deadline among the scheduled slots, or the
  maximal time if there is none.\<close>

theorem EarliestEventTimestamp_exact:
  assumes "sched_exact nds"
  shows "(i < Event_MAX \<longrightarrow> sched_exact (ScheduleEventAt i t f p nds) \<and> sched_exact (ScheduleEvent i per d f p nds)) \<and>
    sched_exact (CancelEvent i nds) \<and>
    sched_exact (RunSystem func t nds) \<and>
    sched_exact (RunSystemSleep func t nds)"
proof (intro conjI)
  have "sched_exact (nds\<lparr>SysTimestamp := t\<rparr>)" using assms by (simp add: sched_exact_def)
  then show "sched_exact (RunSystem func t nds)" by (simp add: RunSystem_def Let_def)
qed (simp_all add: assms ScheduleEventAt_exact CancelEvent_exact ScheduleEvent_def RunSystemSleep_def Let_def)

lemma sched_exact_idle: "SchedListMask nds = 0 \<Longrightarrow> EarliestEventTimestamp nds = - 1 \<Longrightarrow> sched_exact nds"
  by (simp add: sched_exact_def deadlines_def)

theorem EarliestEventTimestamp_exact_witness:
  "sched_exact (ScheduleEventAt 10 100 0 0 ((undefined :: unit nds)\<lparr>SchedListMask := 0, EarliestEventTimestamp := - 1\<rparr>))"
  using EarliestEventTimestamp_exact
    [OF sched_exact_idle [of "(undefined :: unit nds)\<lparr>SchedListMask := 0, EarliestEventTimestamp := - 1\<rparr>"],
      of 10 100 0 0]
  by (simp add: event_ids)

section \<open>Dispatch\<close>

definition due :: "nat \<Rightarrow> 'x nds \<Rightarrow> bool" where
  "due i nds \<longleftrightarrow> i < Event_MAX \<and> bit (SchedListMask nds) i \<and> Timestamp (SchedList nds i) \<le> SysTimestamp nds"

text \<open>The walk without its early exits: every due slot in ascending order, as the slots stand when reached.\<close>

definition dispatch :: "'x event_func \<Rightarrow> nat \<Rightarrow> 'x nds \<Rightarrow> 'x nds" where
  "dispatch func i nds =
     (if due i nds then func i (FuncID (SchedList nds i)) (Param (SchedList nds i))
        (nds\<lparr>SchedListMask := SchedListMask nds AND NOT (push_bit i 1)\<rparr>) else nds)"

lemma run_slots_fold:
  assumes "\<And>j. bit m j \<longleftrightarrow> bit S (j + i)"
  shows "run_slots func m i nds =
    fold (\<lambda>j nds. if bit S j then dispatch func j nds else nds) [i..<Event_MAX] nds"
  using assms
proof (induction func m i nds rule: run_slots.induct)
  case (1 func m i nds)
  show ?case
  proof (cases "i < Event_MAX")
    case True
    have t: "tst m 1 \<longleftrightarrow> bit S i" using "1.prems" [of 0] tst_bit [of m 0] by simp
    show ?thesis
    proof (cases "m = 0")
      case m0: True
      have "\<not> bit S j" if "i \<le> j" for j using "1.prems" [of "j - i"] that m0 by simp
      then have "fold (\<lambda>j nds. if bit S j then dispatch func j nds else nds) xs nds = nds" if "set xs \<subseteq> {i..}" for xs
        using that by (induction xs) auto
      moreover have "set [i..<Event_MAX] \<subseteq> {i..}" by auto
      ultimately show ?thesis using m0 by (subst run_slots.simps) auto
    next
      case False
      have "bit (drop_bit 1 m) j \<longleftrightarrow> bit S (j + (i + 1))" for j
        using "1.prems" [of "Suc j"] by (simp add: bit_drop_bit_eq)
      note IH = "1.IH" [OF _ this]
      have "(if tst m 1 \<and> bit (SchedListMask nds) i then run_slot func i nds else nds) =
          (if bit S i then dispatch func i nds else nds)"
        using True by (simp add: t run_slot_def dispatch_def due_def Let_def)
      then show ?thesis using True False IH
        by (subst run_slots.simps) (simp add: upt_conv_Cons)
    qed
  next
    case False
    then show ?thesis by (subst run_slots.simps) simp
  qed
qed

lemma RunSystem_walk:
  assumes "sched_exact nds"
  shows "RunSystem func t nds =
    RefreshEarliestEvent (fold (\<lambda>i nds'. if EventScheduled i nds then dispatch func i nds' else nds')
      [0..<Event_MAX] (nds\<lparr>SysTimestamp := t\<rparr>))"
proof -
  let ?nds = "nds\<lparr>SysTimestamp := t\<rparr>"
  have walk: "run_slots func (SchedListMask nds) 0 ?nds =
      fold (\<lambda>i nds'. if EventScheduled i nds then dispatch func i nds' else nds') [0..<Event_MAX] ?nds"
    by (subst run_slots_fold [where S = "SchedListMask nds"]) (simp_all add: EventScheduled_def)
  show ?thesis
  proof (cases "t < EarliestEventTimestamp nds")
    case True
    have "\<not> due i ?nds" for i
    proof
      assume "due i ?nds"
      then have "Timestamp (SchedList nds i) \<in> deadlines nds" "Timestamp (SchedList nds i) \<le> t"
        by (auto simp: due_def deadlines_def)
      then show False using sched_exact_le [OF assms] True by fastforce
    qed
    then have "fold (\<lambda>i nds'. if EventScheduled i nds then dispatch func i nds' else nds') xs ?nds = ?nds" for xs
      by (induction xs) (simp_all add: dispatch_def)
    moreover have "sched_exact ?nds" using assms by (simp add: sched_exact_def)
    ultimately show ?thesis using True by (simp add: RunSystem_def Let_def Refresh_same)
  next
    case False
    then show ?thesis by (simp add: RunSystem_def Let_def walk)
  qed
qed

text \<open>C11.  \<open>RunSystem\<close>, with its cached deadline and shifted snapshot, is the plain walk over the slots that
  were scheduled at its start: in ascending order, each that is still scheduled and due when reached
  is unscheduled and dispatched.\<close>

theorem RunSystem_dispatches:
  assumes "sched_exact nds"
  shows "RunSystem func t nds =
    RefreshEarliestEvent (fold (\<lambda>i nds'. if EventScheduled i nds then dispatch func i nds' else nds')
      [0..<Event_MAX] (nds\<lparr>SysTimestamp := t\<rparr>))"
  using assms by (rule RunSystem_walk)

theorem RunSystem_dispatches_witness:
  "SchedListMask (RunSystem (\<lambda>i f p nds. nds) 5
     ((undefined :: unit nds)\<lparr>SchedListMask := 2, SchedList := (\<lambda>i. \<lparr>Timestamp = 5, FuncID = 0, Param = 0\<rparr>),
        EarliestEventTimestamp := 5\<rparr>)) = 0"
proof -
  let ?nds = "(undefined :: unit nds)\<lparr>SchedListMask := 2, SchedList := (\<lambda>i. \<lparr>Timestamp = 5, FuncID = 0, Param = 0\<rparr>),
        EarliestEventTimestamp := 5\<rparr>"
  have b: "bit (2 :: u32) i \<longleftrightarrow> i = 1" for i
    using bit_pow2_u32 [of 1 i] by simp
  have "{i. i < Event_MAX \<and> i = 1} = {1}" by (auto simp: event_ids)
  moreover have mask2: "SchedListMask ?nds = 2" and "SchedList ?nds = (\<lambda>i. \<lparr>Timestamp = 5, FuncID = 0, Param = 0\<rparr>)"
    by simp_all
  ultimately have "deadlines ?nds = {5}" by (simp only: deadlines_def b sched_event.simps image_insert image_empty)
  then have "sched_exact ?nds" by (simp add: sched_exact_def min_def word_le_nat_alt unsigned_minus_1_eq_mask mask_eq_exp_minus_1)
  note run = RunSystem_dispatches [OF this, of "\<lambda>i f p nds. nds" 5]
  have es: "EventScheduled i ?nds \<longleftrightarrow> i = 1" for i by (simp only: EventScheduled_def mask2 b)
  have idle: "set xs \<subseteq> {2..} \<Longrightarrow>
      fold (\<lambda>i nds'. if EventScheduled i ?nds then dispatch (\<lambda>i f p nds. nds) i nds' else nds') xs y = y" for xs y
    by (induction xs) (auto simp: es)
  have "[0..<Event_MAX] = 0 # 1 # [2..<27]" by (simp add: event_ids upt_conv_Cons numeral_2_eq_2)
  moreover have "(2 :: u32) AND NOT (push_bit 1 1) = 0" by simp
  ultimately show ?thesis
    using idle [of "[2..<27]"]
    by (simp add: run es b dispatch_def due_def RefreshEarliestEvent_eq event_ids)
qed

text \<open> \<open>NextTarget\<close> lies ahead of the current time by at most 71 cycles and never beyond a scheduled
  deadline, so running the CPUs up to it passes no event.\<close>

theorem NextTarget_bounds:
  assumes "sched_exact nds" "\<forall>d \<in> deadlines nds. SysTimestamp nds < d" "unat (SysTimestamp nds) < 2 ^ 63"
  shows "SysTimestamp nds < NextTarget nds \<and> NextTarget nds < SysTimestamp nds + 72 \<and>
    (\<forall>d \<in> deadlines nds. NextTarget nds \<le> d)"
proof -
  let ?t = "SysTimestamp nds" and ?E = "EarliestEventTimestamp nds"
  have E: "?E = - 1 \<or> ?E \<in> deadlines nds"
    using assms(1) Min_in [of "insert (- 1) (deadlines nds)"] by (auto simp: sched_exact_def simp del: Min_insert)
  have u: "unat (?t + k) = unat ?t + unat k" if "unat k < 2 ^ 63" for k
    using assms(3) that by (subst unat_add_lem [THEN iffD1]) simp_all
  have late: "?t < ?E" using E assms(2,3) by (auto simp: word_less_nat_alt unsigned_minus_1_eq_mask mask_eq_exp_minus_1)
  have step: "?t + 64 + 8 = ?t + 72" "?t < ?t + 64" "?t + 64 < ?t + 72"
    using u [of 64] u [of 72] by (simp_all add: word_less_nat_alt)
  have "NextTarget nds = (if ?E < ?t + 72 then ?E else ?t + 64)"
    by (simp only: NextTarget_def Let_def kMaxIterationCycles_def kIterationCycleMargin_def step(1))
  moreover have "?t + 64 \<le> d" if "\<not> ?E < ?t + 72" "d \<in> deadlines nds" for d
    using that step(3) sched_exact_le [OF assms(1), of d] by (meson less_imp_le not_less order_trans)
  ultimately show ?thesis
    using late step(2,3) sched_exact_le [OF assms(1)] by (cases "?E < ?t + 72") auto
qed

theorem NextTarget_bounds_witness:
  "NextTarget ((undefined :: unit nds)\<lparr>SchedListMask := 0, EarliestEventTimestamp := - 1, SysTimestamp := 7\<rparr>) < 79"
proof -
  let ?nds = "(undefined :: unit nds)\<lparr>SchedListMask := 0, EarliestEventTimestamp := - 1, SysTimestamp := 7\<rparr>"
  have d: "deadlines ?nds = {}" by (simp add: deadlines_def)
  have "sched_exact ?nds" by (rule sched_exact_idle) simp_all
  from NextTarget_bounds [OF this] show ?thesis by (simp only: d) simp
qed

end
