(* ===== verification/Irq.thy ===== *)
theory Irq
  imports NdsCore
begin

text \<open>
  The interrupt controllers, the key interrupt and the CPU-stop flags of \<^verbatim>\<open>src/src/NDS.cpp\<close>.
  CPU 0 is the ARM9, CPU 1 the ARM7.
\<close>

section \<open>Interrupt numbers and stop flags\<close>

definition IRQ_Timer0 :: nat where "IRQ_Timer0 = 3"
definition IRQ_Keypad :: nat where "IRQ_Keypad = 12"
definition IRQ_IPCSync :: nat where "IRQ_IPCSync = 16"
definition IRQ_IPCSendDone :: nat where "IRQ_IPCSendDone = 17"
definition IRQ_IPCRecv :: nat where "IRQ_IPCRecv = 18"
definition IRQ_GXFIFO :: nat where "IRQ_GXFIFO = 21"
definition IRQ_LidOpen :: nat where "IRQ_LidOpen = 22"

lemmas irq_ids = IRQ_Timer0_def IRQ_Keypad_def IRQ_IPCSync_def IRQ_IPCSendDone_def IRQ_IPCRecv_def
  IRQ_GXFIFO_def IRQ_LidOpen_def

definition CPUStop_Wakeup :: u32 where "CPUStop_Wakeup = push_bit 29 1"
definition CPUStop_Sleep :: u32 where "CPUStop_Sleep = push_bit 30 1"
definition CPUStop_GXStall :: u32 where "CPUStop_GXStall = push_bit 31 1"

section \<open>Requesting and acknowledging\<close>

definition UpdateIRQ :: "nat \<Rightarrow> 'x nds \<Rightarrow> 'x nds" where
  "UpdateIRQ cpu nds =
     nds\<lparr>cpu_IRQ := (cpu_IRQ nds)(cpu :=
       (if tst (IME nds cpu) 1 then
          tst (IE nds cpu) (IF nds cpu) \<or> (ConsoleType nds = 1 \<and> cpu \<noteq> 0 \<and> tst (IE2 nds) (IF2 nds))
        else False))\<rparr>"

definition SetIRQ :: "'x nds_ext \<Rightarrow> nat \<Rightarrow> nat \<Rightarrow> 'x nds \<Rightarrow> 'x nds" where
  "SetIRQ ext cpu irq nds =
     (let nds = UpdateIRQ cpu (nds\<lparr>IF := (IF nds)(cpu := IF nds cpu OR push_bit irq 1)\<rparr>)
      in if cpu = 1 \<and> tst (CPUStop nds) CPUStop_Sleep then
           if tst (IE nds 1) (push_bit irq 1) then
             nds\<lparr>CPUStop := (CPUStop nds AND NOT CPUStop_Sleep) OR CPUStop_Wakeup,
                 Rest := Restart3DFrame ext (Rest nds)\<rparr>
           else nds
         else nds)"

definition ClearIRQ :: "nat \<Rightarrow> nat \<Rightarrow> 'x nds \<Rightarrow> 'x nds" where
  "ClearIRQ cpu irq nds = UpdateIRQ cpu (nds\<lparr>IF := (IF nds)(cpu := IF nds cpu AND NOT (push_bit irq 1))\<rparr>)"

definition SetIRQ2 :: "nat \<Rightarrow> 'x nds \<Rightarrow> 'x nds" where
  "SetIRQ2 irq nds = UpdateIRQ 1 (nds\<lparr>IF2 := IF2 nds OR push_bit irq 1\<rparr>)"

definition ClearIRQ2 :: "nat \<Rightarrow> 'x nds \<Rightarrow> 'x nds" where
  "ClearIRQ2 irq nds = UpdateIRQ 1 (nds\<lparr>IF2 := IF2 nds AND NOT (push_bit irq 1)\<rparr>)"

definition HaltInterrupted :: "nat \<Rightarrow> 'x nds \<Rightarrow> bool" where
  "HaltInterrupted cpu nds \<longleftrightarrow>
     (if cpu = 0 \<and> \<not> tst (IME nds 0) 1 then False
      else if tst (IF nds cpu) (IE nds cpu) then True
      else ConsoleType nds = 1 \<and> cpu \<noteq> 0 \<and> tst (IF2 nds) (IE2 nds))"

text \<open>The register writes that reach \<open>UpdateIRQ\<close> (\<open>0x04000208\<close>, \<open>0x04000210\<close>, \<open>0x04000214\<close>, 32 bits).\<close>

definition WriteIME :: "nat \<Rightarrow> u32 \<Rightarrow> 'x nds \<Rightarrow> 'x nds" where
  "WriteIME cpu v nds = UpdateIRQ cpu (nds\<lparr>IME := (IME nds)(cpu := v AND 1)\<rparr>)"

definition WriteIE :: "nat \<Rightarrow> u32 \<Rightarrow> 'x nds \<Rightarrow> 'x nds" where
  "WriteIE cpu v nds = UpdateIRQ cpu (nds\<lparr>IE := (IE nds)(cpu := v)\<rparr>)"

text \<open>\<open>GPU3D::CheckFIFOIRQ\<close>; the condition on the command FIFO is \<open>GXFIFO_irq\<close>.\<close>

definition CheckFIFOIRQ :: "'x nds_ext \<Rightarrow> 'x nds \<Rightarrow> 'x nds" where
  "CheckFIFOIRQ ext nds =
     (if GXFIFO_irq ext (Rest nds) then SetIRQ ext 0 IRQ_GXFIFO nds else ClearIRQ 0 IRQ_GXFIFO nds)"

definition WriteIF :: "'x nds_ext \<Rightarrow> nat \<Rightarrow> u32 \<Rightarrow> 'x nds \<Rightarrow> 'x nds" where
  "WriteIF ext cpu v nds =
     (let nds = nds\<lparr>IF := (IF nds)(cpu := IF nds cpu AND NOT v)\<rparr>;
          nds = (if cpu = 0 then CheckFIFOIRQ ext nds else nds)
      in UpdateIRQ cpu nds)"

text \<open>The second controller of the DSi's ARM7 (\<open>0x04000218\<close>, \<open>0x0400021C\<close>).\<close>

definition WriteIE2 :: "u32 \<Rightarrow> 'x nds \<Rightarrow> 'x nds" where
  "WriteIE2 v nds = UpdateIRQ 1 (nds\<lparr>IE2 := v AND 0x7FF7\<rparr>)"

definition WriteIF2 :: "u32 \<Rightarrow> 'x nds \<Rightarrow> 'x nds" where
  "WriteIF2 v nds = UpdateIRQ 1 (nds\<lparr>IF2 := IF2 nds AND NOT (v AND 0x7FF7)\<rparr>)"

section \<open>Keys\<close>

definition CheckKeyIRQ :: "'x nds_ext \<Rightarrow> nat \<Rightarrow> u32 \<Rightarrow> u32 \<Rightarrow> 'x nds \<Rightarrow> 'x nds" where
  "CheckKeyIRQ ext cpu oldkey newkey nds =
     (let cnt = KeyCnt nds cpu
      in if \<not> tst cnt 0x4000 then nds
         else
           let m = ucast (cnt AND 0x03FF);
               oldkey = oldkey AND m;
               newkey = newkey AND m;
               (oldmatch, newmatch) = (if tst cnt 0x8000 then (oldkey = 0, newkey = 0) else (oldkey \<noteq> m, newkey \<noteq> m))
           in if \<not> oldmatch \<and> newmatch then SetIRQ ext cpu IRQ_Keypad nds else nds)"

definition SetKeyMask :: "'x nds_ext \<Rightarrow> u32 \<Rightarrow> 'x nds \<Rightarrow> 'x nds" where
  "SetKeyMask ext m nds =
     (let key_lo = m AND 0x3FF;
          key_hi = drop_bit 10 m AND 0x3;
          oldkey = KeyInput nds;
          nds = nds\<lparr>KeyInput := (KeyInput nds AND 0xFFFCFC00) OR (key_lo OR push_bit 16 key_hi)\<rparr>;
          nds = CheckKeyIRQ ext 0 oldkey (KeyInput nds) nds
      in CheckKeyIRQ ext 1 oldkey (KeyInput nds) nds)"

definition IsLidClosed :: "'x nds \<Rightarrow> bool" where
  "IsLidClosed nds \<longleftrightarrow> tst (KeyInput nds) (push_bit 23 1)"

definition SetLidClosed :: "'x nds_ext \<Rightarrow> bool \<Rightarrow> 'x nds \<Rightarrow> 'x nds" where
  "SetLidClosed ext closed nds =
     (if closed then nds\<lparr>KeyInput := KeyInput nds OR push_bit 23 1\<rparr>
      else SetIRQ ext 1 IRQ_LidOpen (nds\<lparr>KeyInput := KeyInput nds AND NOT (push_bit 23 1)\<rparr>))"

section \<open>Stopping and resuming the CPUs\<close>

text \<open>\<open>ARM::Halt\<close> of ARM.h.\<close>

definition cpu_Halt :: "nat \<Rightarrow> u8 \<Rightarrow> 'x nds \<Rightarrow> 'x nds" where
  "cpu_Halt cpu h nds =
     (if h = 2 \<and> cpu_Halted nds cpu = 1 then nds else nds\<lparr>cpu_Halted := (cpu_Halted nds)(cpu := h)\<rparr>)"

definition StopCPU :: "nat \<Rightarrow> u32 \<Rightarrow> 'x nds \<Rightarrow> 'x nds" where
  "StopCPU cpu m nds =
     (if cpu \<noteq> 0 then cpu_Halt 1 2 (nds\<lparr>CPUStop := CPUStop nds OR push_bit 16 m\<rparr>)
      else cpu_Halt 0 2 (nds\<lparr>CPUStop := CPUStop nds OR m\<rparr>))"

definition ResumeCPU :: "nat \<Rightarrow> u32 \<Rightarrow> 'x nds \<Rightarrow> 'x nds" where
  "ResumeCPU cpu m nds =
     (let m = (if cpu \<noteq> 0 then push_bit 16 m else m) in nds\<lparr>CPUStop := CPUStop nds AND NOT m\<rparr>)"

definition GXFIFOUnstall :: "'x nds \<Rightarrow> 'x nds" where
  "GXFIFOUnstall nds = nds\<lparr>CPUStop := CPUStop nds AND NOT CPUStop_GXStall\<rparr>"

definition EnterSleepMode :: "'x nds \<Rightarrow> 'x nds" where
  "EnterSleepMode nds =
     (if tst (CPUStop nds) CPUStop_Sleep then nds
      else cpu_Halt 1 2 (nds\<lparr>CPUStop := CPUStop nds OR CPUStop_Sleep\<rparr>))"

section \<open>The interrupt lines\<close>

text \<open>What \<open>ARM::IRQ\<close> of each CPU has to be for the registers as they are.\<close>

definition irq_pending :: "nat \<Rightarrow> 'x nds \<Rightarrow> bool" where
  "irq_pending cpu nds \<longleftrightarrow>
     (\<exists>i. bit (IE nds cpu) i \<and> bit (IF nds cpu) i) \<or>
     ConsoleType nds = 1 \<and> cpu \<noteq> 0 \<and> (\<exists>i. bit (IE2 nds) i \<and> bit (IF2 nds) i)"

definition irq_lines :: "'x nds \<Rightarrow> bool" where
  "irq_lines nds \<longleftrightarrow> (\<forall>cpu < 2. cpu_IRQ nds cpu \<longleftrightarrow> bit (IME nds cpu) 0 \<and> irq_pending cpu nds)"

lemma tst_common_bit: "tst a b \<longleftrightarrow> (\<exists>i. bit a i \<and> bit b i)" for a b :: u32
proof -
  have "a AND b = 0 \<longleftrightarrow> (\<forall>i. \<not> bit (a AND b) i)"
    by (standard, simp, intro bit_word_eqI, simp)
  then show ?thesis by (auto simp: tst_def bit_and_iff)
qed

lemma tst_one: "tst x 1 \<longleftrightarrow> bit x 0"
  using tst_bit [of x 0] by simp

lemma UpdateIRQ_eq:
  "UpdateIRQ cpu nds = nds\<lparr>cpu_IRQ := (cpu_IRQ nds)(cpu := bit (IME nds cpu) 0 \<and> irq_pending cpu nds)\<rparr>"
  by (simp only: UpdateIRQ_def irq_pending_def tst_one) (simp add: tst_common_bit)

lemma irq_pending_frame [simp]:
  "irq_pending cpu (nds\<lparr>cpu_IRQ := l\<rparr>) = irq_pending cpu nds"
  "irq_pending cpu (nds\<lparr>CPUStop := s\<rparr>) = irq_pending cpu nds"
  "irq_pending cpu (nds\<lparr>Rest := x\<rparr>) = irq_pending cpu nds"
  "irq_pending cpu (nds\<lparr>KeyInput := k\<rparr>) = irq_pending cpu nds"
  "irq_pending cpu (nds\<lparr>cpu_Halted := h\<rparr>) = irq_pending cpu nds"
  "irq_pending cpu (nds\<lparr>IME := m\<rparr>) = irq_pending cpu nds"
  by (simp_all add: irq_pending_def)

lemma irq_lines_frame [simp]:
  "irq_lines (nds\<lparr>CPUStop := s\<rparr>) = irq_lines nds"
  "irq_lines (nds\<lparr>Rest := x\<rparr>) = irq_lines nds"
  "irq_lines (nds\<lparr>KeyInput := k\<rparr>) = irq_lines nds"
  "irq_lines (nds\<lparr>cpu_Halted := h\<rparr>) = irq_lines nds"
  by (simp_all add: irq_lines_def)

text \<open>A register change followed by \<open>UpdateIRQ\<close> of the one CPU it can affect.\<close>

lemma UpdateIRQ_lines:
  assumes "irq_lines nds" "\<And>c. c \<noteq> cpu \<Longrightarrow> c < 2 \<Longrightarrow> irq_pending c nds' = irq_pending c nds"
    "\<And>c. c \<noteq> cpu \<Longrightarrow> IME nds' c = IME nds c" "cpu_IRQ nds' = cpu_IRQ nds"
  shows "irq_lines (UpdateIRQ cpu nds')"
  using assms by (auto simp: irq_lines_def UpdateIRQ_eq)

lemma UpdateIRQ_same: "irq_lines nds \<Longrightarrow> cpu < 2 \<Longrightarrow> UpdateIRQ cpu nds = nds"
proof -
  assume "irq_lines nds" "cpu < 2"
  then have "(cpu_IRQ nds)(cpu := bit (IME nds cpu) 0 \<and> irq_pending cpu nds) = cpu_IRQ nds"
    by (intro fun_upd_idem) (auto simp: irq_lines_def)
  then show ?thesis by (simp add: UpdateIRQ_eq)
qed

lemma request_lines:
  assumes "irq_lines nds"
  shows "irq_lines (SetIRQ ext cpu irq (nds\<lparr>IF := (IF nds)(cpu := x)\<rparr>))"
    "irq_lines (ClearIRQ cpu irq (nds\<lparr>IF := (IF nds)(cpu := x)\<rparr>))"
proof -
  have upd: "irq_lines (UpdateIRQ cpu (nds\<lparr>IF := (IF nds)(cpu := y)\<rparr>))" for y
    by (rule UpdateIRQ_lines [OF assms]) (simp_all add: irq_pending_def)
  then show "irq_lines (ClearIRQ cpu irq (nds\<lparr>IF := (IF nds)(cpu := x)\<rparr>))"
    by (simp add: ClearIRQ_def)
  show "irq_lines (SetIRQ ext cpu irq (nds\<lparr>IF := (IF nds)(cpu := x)\<rparr>))"
    using upd [of "x OR push_bit irq 1"] by (auto simp: SetIRQ_def Let_def)
qed

lemma SetIRQ_lines [intro]: "irq_lines nds \<Longrightarrow> irq_lines (SetIRQ ext cpu irq nds)"
  using request_lines(1) [of nds ext cpu irq "IF nds cpu"] by simp

lemma ClearIRQ_lines [intro]: "irq_lines nds \<Longrightarrow> irq_lines (ClearIRQ cpu irq nds)"
  using request_lines(2) [of nds cpu irq "IF nds cpu"] by simp

lemma CheckKeyIRQ_lines [intro]: "irq_lines nds \<Longrightarrow> irq_lines (CheckKeyIRQ ext cpu ok nk nds)"
  by (auto simp: CheckKeyIRQ_def Let_def)

lemma cpu_Halt_lines [simp]: "irq_lines (cpu_Halt cpu h nds) = irq_lines nds"
  by (simp add: cpu_Halt_def)

lemma second_controller_lines:
  "irq_lines nds \<Longrightarrow> irq_lines (UpdateIRQ 1 (nds\<lparr>IE2 := a\<rparr>))"
  "irq_lines nds \<Longrightarrow> irq_lines (UpdateIRQ 1 (nds\<lparr>IF2 := a\<rparr>))"
  by (rule UpdateIRQ_lines; auto simp: irq_pending_def)+

text \<open>C12.  The CPUs' interrupt lines always equal the architectural condition: after every request,
  acknowledge, register write and key change, on both consoles, a CPU's line is up exactly when its
  master enable is set and an enabled interrupt is requested; and \<open>HaltInterrupted\<close> wakes a halted
  CPU whenever its line is up, the ARM9 only then.\<close>

theorem irq_lines_exact:
  assumes "irq_lines nds" "cpu < 2"
  shows "irq_lines (SetIRQ ext cpu irq nds) \<and> irq_lines (ClearIRQ cpu irq nds) \<and>
    irq_lines (SetIRQ2 irq nds) \<and> irq_lines (ClearIRQ2 irq nds) \<and>
    irq_lines (WriteIME cpu v nds) \<and> irq_lines (WriteIE cpu v nds) \<and> irq_lines (WriteIF ext cpu v nds) \<and>
    irq_lines (WriteIE2 v nds) \<and> irq_lines (WriteIF2 v nds) \<and>
    irq_lines (SetKeyMask ext v nds) \<and> irq_lines (SetLidClosed ext closed nds) \<and>
    (cpu_IRQ nds cpu \<longrightarrow> HaltInterrupted cpu nds) \<and>
    (HaltInterrupted 0 nds \<longrightarrow> cpu_IRQ nds 0)"
proof (intro conjI)
  show "irq_lines (WriteIME cpu v nds)" "irq_lines (WriteIE cpu v nds)"
    unfolding WriteIME_def WriteIE_def using assms(1) by (auto intro!: UpdateIRQ_lines simp: irq_pending_def)
  let ?n = "nds\<lparr>IF := (IF nds)(cpu := IF nds cpu AND NOT v)\<rparr>"
  show "irq_lines (WriteIF ext cpu v nds)"
  proof (cases "cpu = 0")
    case True
    then have "irq_lines (CheckFIFOIRQ ext ?n)"
      using request_lines [OF assms(1)] by (simp add: CheckFIFOIRQ_def)
    then show ?thesis using True by (simp add: WriteIF_def Let_def UpdateIRQ_same)
  next
    case False
    then show ?thesis using assms(1)
      by (auto simp: WriteIF_def Let_def irq_pending_def intro!: UpdateIRQ_lines)
  qed
  show "cpu_IRQ nds cpu \<longrightarrow> HaltInterrupted cpu nds" "HaltInterrupted 0 nds \<longrightarrow> cpu_IRQ nds 0"
    unfolding HaltInterrupted_def tst_one
    using assms by (auto simp: irq_lines_def irq_pending_def tst_common_bit)
  show "irq_lines (SetIRQ2 irq nds)" "irq_lines (ClearIRQ2 irq nds)" "irq_lines (WriteIE2 v nds)" "irq_lines (WriteIF2 v nds)"
    unfolding SetIRQ2_def ClearIRQ2_def WriteIE2_def WriteIF2_def
    by (intro second_controller_lines assms(1))+
  show "irq_lines (SetKeyMask ext v nds)"
    unfolding SetKeyMask_def Let_def
    by (intro CheckKeyIRQ_lines) (simp only: irq_lines_frame assms(1))
  show "irq_lines (SetLidClosed ext closed nds)"
    using assms(1) by (auto simp: SetLidClosed_def)
qed (use assms(1) in auto)

theorem irq_lines_exact_witness:
  "irq_lines (SetIRQ \<lparr>Restart3DFrame = id, CheckNDMAs = (\<lambda>_ _ x. (x, 0)), GXFIFO_irq = (\<lambda>_. False)\<rparr> 1 7
     ((undefined :: unit nds)\<lparr>IME := (\<lambda>_. 0), cpu_IRQ := (\<lambda>_. False)\<rparr>))"
proof -
  have "irq_lines ((undefined :: unit nds)\<lparr>IME := (\<lambda>_. 0), cpu_IRQ := (\<lambda>_. False)\<rparr>)"
    by (simp add: irq_lines_def)
  from irq_lines_exact [OF this, of 1, THEN conjunct1] show ?thesis by simp
qed

end
