(* ===== verification/Ipc.thy ===== *)
theory Ipc
  imports Irq
begin

text \<open>
  Communication between the two CPUs (\<^verbatim>\<open>src/src/NDS.cpp\<close>, the I/O registers \<open>IPCSYNC\<close>, \<open>IPCFIFOCNT\<close>,
  \<open>IPCFIFOSEND\<close> and \<open>IPCFIFORECV\<close> of both sides): the four-bit sync values and the two queues of
  16 words.  \<open>IPCFIFO9\<close> is the one the ARM9 writes.
\<close>

section \<open>ARM9 side\<close>

definition ipc9_WriteSync :: "'x nds_ext \<Rightarrow> u16 \<Rightarrow> 'x nds \<Rightarrow> 'x nds" where
  "ipc9_WriteSync ext val nds =
     (let nds = nds\<lparr>IPCSync7 := IPCSync7 nds AND 0xFFF0\<rparr>;
          nds = nds\<lparr>IPCSync7 := IPCSync7 nds OR drop_bit 8 (val AND 0x0F00)\<rparr>;
          nds = nds\<lparr>IPCSync9 := IPCSync9 nds AND 0xB0FF\<rparr>;
          nds = nds\<lparr>IPCSync9 := IPCSync9 nds OR (val AND 0x4F00)\<rparr>
      in if tst val 0x2000 \<and> tst (IPCSync7 nds) 0x4000 then SetIRQ ext 1 IRQ_IPCSync nds else nds)"

text \<open>The byte write to \<open>0x04000181\<close>.\<close>

definition ipc9_WriteSyncHi :: "'x nds_ext \<Rightarrow> u8 \<Rightarrow> 'x nds \<Rightarrow> 'x nds" where
  "ipc9_WriteSyncHi ext val nds =
     (let nds = nds\<lparr>IPCSync7 := IPCSync7 nds AND 0xFFF0\<rparr>;
          nds = nds\<lparr>IPCSync7 := IPCSync7 nds OR ucast (val AND 0x0F)\<rparr>;
          nds = nds\<lparr>IPCSync9 := IPCSync9 nds AND 0xB0FF\<rparr>;
          nds = nds\<lparr>IPCSync9 := IPCSync9 nds OR push_bit 8 (ucast (val AND 0x4F))\<rparr>
      in if tst val 0x20 \<and> tst (IPCSync7 nds) 0x4000 then SetIRQ ext 1 IRQ_IPCSync nds else nds)"

definition ipc9_ReadCnt :: "'x nds \<Rightarrow> u16" where
  "ipc9_ReadCnt nds =
     (let val = IPCFIFOCnt9 nds;
          val = (if fifo_IsEmpty (IPCFIFO9 nds) then val OR 0x0001
                 else if fifo_IsFull (IPCFIFO9 nds) then val OR 0x0002 else val)
      in if fifo_IsEmpty (IPCFIFO7 nds) then val OR 0x0100
         else if fifo_IsFull (IPCFIFO7 nds) then val OR 0x0200 else val)"

definition ipc9_WriteCnt :: "'x nds_ext \<Rightarrow> u16 \<Rightarrow> 'x nds \<Rightarrow> 'x nds" where
  "ipc9_WriteCnt ext val nds =
     (let nds = (if tst val 0x0008 then nds\<lparr>IPCFIFO9 := fifo_Clear (IPCFIFO9 nds)\<rparr> else nds);
          nds = (if tst val 0x0004 \<and> \<not> tst (IPCFIFOCnt9 nds) 0x0004 \<and> fifo_IsEmpty (IPCFIFO9 nds)
                 then SetIRQ ext 0 IRQ_IPCSendDone nds else nds);
          nds = (if tst val 0x0400 \<and> \<not> tst (IPCFIFOCnt9 nds) 0x0400 \<and> \<not> fifo_IsEmpty (IPCFIFO7 nds)
                 then SetIRQ ext 0 IRQ_IPCRecv nds else nds);
          nds = (if tst val 0x4000 then nds\<lparr>IPCFIFOCnt9 := IPCFIFOCnt9 nds AND NOT 0x4000\<rparr> else nds)
      in nds\<lparr>IPCFIFOCnt9 := (val AND 0x8404) OR (IPCFIFOCnt9 nds AND 0x4000)\<rparr>)"

definition ipc9_Send :: "'x nds_ext \<Rightarrow> u32 \<Rightarrow> 'x nds \<Rightarrow> 'x nds" where
  "ipc9_Send ext val nds =
     (if tst (IPCFIFOCnt9 nds) 0x8000 then
        if fifo_IsFull (IPCFIFO9 nds) then nds\<lparr>IPCFIFOCnt9 := IPCFIFOCnt9 nds OR 0x4000\<rparr>
        else
          let wasempty = fifo_IsEmpty (IPCFIFO9 nds);
              nds = nds\<lparr>IPCFIFO9 := fifo_Write val (IPCFIFO9 nds)\<rparr>
          in if tst (IPCFIFOCnt7 nds) 0x0400 \<and> wasempty then SetIRQ ext 1 IRQ_IPCRecv nds else nds
      else nds)"

definition ipc9_Recv :: "'x nds_ext \<Rightarrow> 'x nds \<Rightarrow> u32 \<times> 'x nds" where
  "ipc9_Recv ext nds =
     (if tst (IPCFIFOCnt9 nds) 0x8000 then
        if fifo_IsEmpty (IPCFIFO7 nds)
        then (fifo_Peek (IPCFIFO7 nds), nds\<lparr>IPCFIFOCnt9 := IPCFIFOCnt9 nds OR 0x4000\<rparr>)
        else
          let (ret, q) = fifo_Read (IPCFIFO7 nds);
              nds = nds\<lparr>IPCFIFO7 := q\<rparr>
          in (ret, if fifo_IsEmpty (IPCFIFO7 nds) \<and> tst (IPCFIFOCnt7 nds) 0x0004
                   then SetIRQ ext 1 IRQ_IPCSendDone nds else nds)
      else (fifo_Peek (IPCFIFO7 nds), nds))"

section \<open>ARM7 side\<close>

definition ipc7_WriteSync :: "'x nds_ext \<Rightarrow> u16 \<Rightarrow> 'x nds \<Rightarrow> 'x nds" where
  "ipc7_WriteSync ext val nds =
     (let nds = nds\<lparr>IPCSync9 := IPCSync9 nds AND 0xFFF0\<rparr>;
          nds = nds\<lparr>IPCSync9 := IPCSync9 nds OR drop_bit 8 (val AND 0x0F00)\<rparr>;
          nds = nds\<lparr>IPCSync7 := IPCSync7 nds AND 0xB0FF\<rparr>;
          nds = nds\<lparr>IPCSync7 := IPCSync7 nds OR (val AND 0x4F00)\<rparr>
      in if tst val 0x2000 \<and> tst (IPCSync9 nds) 0x4000 then SetIRQ ext 0 IRQ_IPCSync nds else nds)"

definition ipc7_WriteSyncHi :: "'x nds_ext \<Rightarrow> u8 \<Rightarrow> 'x nds \<Rightarrow> 'x nds" where
  "ipc7_WriteSyncHi ext val nds =
     (let nds = nds\<lparr>IPCSync9 := IPCSync9 nds AND 0xFFF0\<rparr>;
          nds = nds\<lparr>IPCSync9 := IPCSync9 nds OR ucast (val AND 0x0F)\<rparr>;
          nds = nds\<lparr>IPCSync7 := IPCSync7 nds AND 0xB0FF\<rparr>;
          nds = nds\<lparr>IPCSync7 := IPCSync7 nds OR push_bit 8 (ucast (val AND 0x4F))\<rparr>
      in if tst val 0x20 \<and> tst (IPCSync9 nds) 0x4000 then SetIRQ ext 0 IRQ_IPCSync nds else nds)"

definition ipc7_ReadCnt :: "'x nds \<Rightarrow> u16" where
  "ipc7_ReadCnt nds =
     (let val = IPCFIFOCnt7 nds;
          val = (if fifo_IsEmpty (IPCFIFO7 nds) then val OR 0x0001
                 else if fifo_IsFull (IPCFIFO7 nds) then val OR 0x0002 else val)
      in if fifo_IsEmpty (IPCFIFO9 nds) then val OR 0x0100
         else if fifo_IsFull (IPCFIFO9 nds) then val OR 0x0200 else val)"

definition ipc7_WriteCnt :: "'x nds_ext \<Rightarrow> u16 \<Rightarrow> 'x nds \<Rightarrow> 'x nds" where
  "ipc7_WriteCnt ext val nds =
     (let nds = (if tst val 0x0008 then nds\<lparr>IPCFIFO7 := fifo_Clear (IPCFIFO7 nds)\<rparr> else nds);
          nds = (if tst val 0x0004 \<and> \<not> tst (IPCFIFOCnt7 nds) 0x0004 \<and> fifo_IsEmpty (IPCFIFO7 nds)
                 then SetIRQ ext 1 IRQ_IPCSendDone nds else nds);
          nds = (if tst val 0x0400 \<and> \<not> tst (IPCFIFOCnt7 nds) 0x0400 \<and> \<not> fifo_IsEmpty (IPCFIFO9 nds)
                 then SetIRQ ext 1 IRQ_IPCRecv nds else nds);
          nds = (if tst val 0x4000 then nds\<lparr>IPCFIFOCnt7 := IPCFIFOCnt7 nds AND NOT 0x4000\<rparr> else nds)
      in nds\<lparr>IPCFIFOCnt7 := (val AND 0x8404) OR (IPCFIFOCnt7 nds AND 0x4000)\<rparr>)"

definition ipc7_Send :: "'x nds_ext \<Rightarrow> u32 \<Rightarrow> 'x nds \<Rightarrow> 'x nds" where
  "ipc7_Send ext val nds =
     (if tst (IPCFIFOCnt7 nds) 0x8000 then
        if fifo_IsFull (IPCFIFO7 nds) then nds\<lparr>IPCFIFOCnt7 := IPCFIFOCnt7 nds OR 0x4000\<rparr>
        else
          let wasempty = fifo_IsEmpty (IPCFIFO7 nds);
              nds = nds\<lparr>IPCFIFO7 := fifo_Write val (IPCFIFO7 nds)\<rparr>
          in if tst (IPCFIFOCnt9 nds) 0x0400 \<and> wasempty then SetIRQ ext 0 IRQ_IPCRecv nds else nds
      else nds)"

definition ipc7_Recv :: "'x nds_ext \<Rightarrow> 'x nds \<Rightarrow> u32 \<times> 'x nds" where
  "ipc7_Recv ext nds =
     (if tst (IPCFIFOCnt7 nds) 0x8000 then
        if fifo_IsEmpty (IPCFIFO9 nds)
        then (fifo_Peek (IPCFIFO9 nds), nds\<lparr>IPCFIFOCnt7 := IPCFIFOCnt7 nds OR 0x4000\<rparr>)
        else
          let (ret, q) = fifo_Read (IPCFIFO9 nds);
              nds = nds\<lparr>IPCFIFO9 := q\<rparr>
          in (ret, if fifo_IsEmpty (IPCFIFO9 nds) \<and> tst (IPCFIFOCnt9 nds) 0x0004
                   then SetIRQ ext 0 IRQ_IPCSendDone nds else nds)
      else (fifo_Peek (IPCFIFO9 nds), nds))"

text \<open>Narrow writes to \<open>IPCFIFOSEND\<close> repeat the value.\<close>

definition ipc9_Send8 :: "'x nds_ext \<Rightarrow> u8 \<Rightarrow> 'x nds \<Rightarrow> 'x nds" where
  "ipc9_Send8 ext val nds =
     (let v = ucast val in ipc9_Send ext (v OR push_bit 8 v OR push_bit 16 v OR push_bit 24 v) nds)"

definition ipc9_Send16 :: "'x nds_ext \<Rightarrow> u16 \<Rightarrow> 'x nds \<Rightarrow> 'x nds" where
  "ipc9_Send16 ext val nds = (let v = ucast val in ipc9_Send ext (v OR push_bit 16 v) nds)"

definition ipc7_Send8 :: "'x nds_ext \<Rightarrow> u8 \<Rightarrow> 'x nds \<Rightarrow> 'x nds" where
  "ipc7_Send8 ext val nds =
     (let v = ucast val in ipc7_Send ext (v OR push_bit 8 v OR push_bit 16 v OR push_bit 24 v) nds)"

definition ipc7_Send16 :: "'x nds_ext \<Rightarrow> u16 \<Rightarrow> 'x nds \<Rightarrow> 'x nds" where
  "ipc7_Send16 ext val nds = (let v = ucast val in ipc7_Send ext (v OR push_bit 16 v) nds)"

section \<open>Flags and frames\<close>

lemma u16_bits:
  "tst x 0x8000 \<longleftrightarrow> bit x 15" "tst x 0x4000 \<longleftrightarrow> bit x 14" "tst x 0x0400 \<longleftrightarrow> bit x 10"
  "tst x 0x0008 \<longleftrightarrow> bit x 3" "tst x 0x0004 \<longleftrightarrow> bit x 2" "tst x 0x2000 \<longleftrightarrow> bit x 13" for x :: u16
  using tst_pow [of x 15] tst_pow [of x 14] tst_pow [of x 10] tst_pow [of x 3] tst_pow [of x 2] tst_pow [of x 13]
  by simp_all

lemma bit_pow2_u16: "bit (2 ^ k :: u16) i \<longleftrightarrow> i = k \<and> k < 16"
  by (simp add: bit_exp_iff) auto

lemma bit_4000: "bit (0x4000 :: u16) i \<longleftrightarrow> i = 14"
  using bit_pow2_u16 [of 14 i] by simp

lemma bit_8404: "bit (0x8404 :: u16) i \<longleftrightarrow> i = 15 \<or> i = 10 \<or> i = 2"
proof -
  have "(0x8404 :: u16) = 2 ^ 15 OR (2 ^ 10 OR 2 ^ 2)" by simp
  then show ?thesis by (simp only: bit_or_iff bit_pow2_u16) auto
qed

lemma SetIRQ_frame [simp]:
  "IPCFIFO9 (SetIRQ ext c i nds) = IPCFIFO9 nds" "IPCFIFO7 (SetIRQ ext c i nds) = IPCFIFO7 nds"
  "IPCFIFOCnt9 (SetIRQ ext c i nds) = IPCFIFOCnt9 nds" "IPCFIFOCnt7 (SetIRQ ext c i nds) = IPCFIFOCnt7 nds"
  "IPCSync9 (SetIRQ ext c i nds) = IPCSync9 nds" "IPCSync7 (SetIRQ ext c i nds) = IPCSync7 nds"
  by (simp_all add: SetIRQ_def Let_def UpdateIRQ_def)

lemma SetIRQ_IF: "bit (IF (SetIRQ ext c i nds) d) n \<longleftrightarrow> bit (IF nds d) n \<or> d = c \<and> n = i \<and> i < 32"
proof -
  have "IF (SetIRQ ext c i nds) = (IF nds)(c := IF nds c OR push_bit i 1)"
    by (simp add: SetIRQ_def Let_def UpdateIRQ_def)
  then show ?thesis by (auto simp only: bit_or_iff bit_push1 fun_upd_apply split: if_splits)
qed

section \<open>The queues as channels\<close>

text \<open>One access of one CPU to its FIFO registers, and what a run of accesses of both CPUs reads.\<close>

datatype side = CPU9 | CPU7

datatype port_op = Send u32 | Recv | Ctl u16

type_synonym ipc_op = "side \<times> port_op"

fun ipc_step :: "'x nds_ext \<Rightarrow> ipc_op \<Rightarrow> 'x nds \<Rightarrow> u32 option \<times> 'x nds" where
  "ipc_step ext (CPU9, Send v) nds = (None, ipc9_Send ext v nds)"
| "ipc_step ext (CPU9, Recv) nds = (let (w, nds) = ipc9_Recv ext nds in (Some w, nds))"
| "ipc_step ext (CPU9, Ctl v) nds = (None, ipc9_WriteCnt ext v nds)"
| "ipc_step ext (CPU7, Send v) nds = (None, ipc7_Send ext v nds)"
| "ipc_step ext (CPU7, Recv) nds = (let (w, nds) = ipc7_Recv ext nds in (Some w, nds))"
| "ipc_step ext (CPU7, Ctl v) nds = (None, ipc7_WriteCnt ext v nds)"

fun ipc_run :: "'x nds_ext \<Rightarrow> ipc_op list \<Rightarrow> 'x nds \<Rightarrow> u32 option list \<times> 'x nds" where
  "ipc_run ext [] nds = ([], nds)"
| "ipc_run ext (x # ops) nds =
     (let (r, nds) = ipc_step ext x nds; (rs, nds) = ipc_run ext ops nds in (r # rs, nds))"

text \<open>
  The specification, written once for either CPU: a port is one CPU's enable bit, error flag and the
  words it sent that the other CPU has not received.  \<open>port_step x me peer\<close> is what the access \<open>x\<close>
  of the CPU \<open>me\<close> does to the two ports.
\<close>

record port =
  PortOn :: bool
  PortErr :: bool
  PortQ :: "u32 list"

datatype port_out =
    Took         \<comment> \<open>the word sent is queued\<close>
  | Lost         \<comment> \<open>the word sent is dropped\<close>
  | Got u32      \<comment> \<open>the oldest word is read and removed from the queue\<close>
  | Seen u32     \<comment> \<open>the oldest word is read and left in the queue\<close>
  | Stale        \<comment> \<open>nothing was queued: some old value is read\<close>
  | Control

fun port_step :: "port_op \<Rightarrow> port \<Rightarrow> port \<Rightarrow> port_out \<times> port \<times> port" where
  "port_step (Send v) me peer =
     (if \<not> PortOn me then (Lost, me, peer)
      else if length (PortQ me) = 16 then (Lost, me\<lparr>PortErr := True\<rparr>, peer)
      else (Took, me\<lparr>PortQ := PortQ me @ [v]\<rparr>, peer))"
| "port_step Recv me peer =
     (case PortQ peer of
        [] \<Rightarrow> (Stale, if PortOn me then me\<lparr>PortErr := True\<rparr> else me, peer)
      | w # ws \<Rightarrow> if PortOn me then (Got w, me, peer\<lparr>PortQ := ws\<rparr>) else (Seen w, me, peer))"
| "port_step (Ctl v) me peer =
     (Control, \<lparr>PortOn = bit v 15, PortErr = (PortErr me \<and> \<not> bit v 14),
                PortQ = (if bit v 3 then [] else PortQ me)\<rparr>, peer)"

fun chan_step :: "ipc_op \<Rightarrow> port \<times> port \<Rightarrow> port_out \<times> port \<times> port" where
  "chan_step (CPU9, x) (p9, p7) = port_step x p9 p7"
| "chan_step (CPU7, x) (p9, p7) = (let (r, p7, p9) = port_step x p7 p9 in (r, p9, p7))"

fun chan_run :: "ipc_op list \<Rightarrow> port \<times> port \<Rightarrow> port_out list \<times> port \<times> port" where
  "chan_run [] c = ([], c)"
| "chan_run (x # ops) c = (let (r, c) = chan_step x c; (rs, c) = chan_run ops c in (r # rs, c))"

text \<open>What the CPU reads in an access with a given outcome.\<close>

fun reads_as :: "port_out \<Rightarrow> u32 option \<Rightarrow> bool" where
  "reads_as (Got w) r \<longleftrightarrow> r = Some w"
| "reads_as (Seen w) r \<longleftrightarrow> r = Some w"
| "reads_as Stale r \<longleftrightarrow> r \<noteq> None"
| "reads_as _ r \<longleftrightarrow> r = None"

text \<open>The words that a run put into the queue of one side, and those the other side took out of it.\<close>

fun word_in :: "side \<Rightarrow> ipc_op \<Rightarrow> port_out \<Rightarrow> u32 list" where
  "word_in s (d, Send v) Took = (if d = s then [v] else [])"
| "word_in s _ _ = []"

fun word_out :: "side \<Rightarrow> ipc_op \<Rightarrow> port_out \<Rightarrow> u32 list" where
  "word_out s (d, Recv) (Got w) = (if d = s then [] else [w])"
| "word_out s _ _ = []"

definition words_in :: "side \<Rightarrow> ipc_op list \<Rightarrow> port_out list \<Rightarrow> u32 list" where
  "words_in s ops outs = concat (map2 (word_in s) ops outs)"

definition words_out :: "side \<Rightarrow> ipc_op list \<Rightarrow> port_out list \<Rightarrow> u32 list" where
  "words_out s ops outs = concat (map2 (word_out s) ops outs)"

fun queue_of :: "side \<Rightarrow> port \<times> port \<Rightarrow> u32 list" where
  "queue_of CPU9 (p9, p7) = PortQ p9"
| "queue_of CPU7 (p9, p7) = PortQ p7"

lemma chan_step_lossless:
  assumes "chan_step (d, x) c = (r, c')" "d = s \<Longrightarrow> \<forall>v. x = Ctl v \<longrightarrow> \<not> bit v 3"
  shows "queue_of s c @ word_in s (d, x) r = word_out s (d, x) r @ queue_of s c'"
  using assms by (cases c; cases d; cases x; cases s) (auto split: if_splits list.splits)

lemma chan_run_lossless:
  "chan_run ops c = (outs, c') \<Longrightarrow> \<forall>v. (s, Ctl v) \<in> set ops \<longrightarrow> \<not> bit v 3 \<Longrightarrow>
   queue_of s c @ words_in s ops outs = words_out s ops outs @ queue_of s c'"
proof (induction ops arbitrary: c outs)
  case Nil
  then show ?case by (simp add: words_in_def words_out_def)
next
  case (Cons x ops)
  obtain r c1 where st: "chan_step x c = (r, c1)" by (rule surj_pair [THEN exE, of "chan_step x c"]) blast
  obtain rs c2 where run: "chan_run ops c1 = (rs, c')" "outs = r # rs"
    using Cons.prems(1) st by (auto split: prod.splits)
  obtain d y where x: "x = (d, y)" by fastforce
  have "queue_of s c @ word_in s x r = word_out s x r @ queue_of s c1"
    using chan_step_lossless [of d y c r c1 s] st Cons.prems(2) x by auto
  moreover have "queue_of s c1 @ words_in s ops rs = words_out s ops rs @ queue_of s c'"
    using Cons.IH [OF run(1)] Cons.prems(2) by simp
  ultimately have "queue_of s c @ (word_in s x r @ words_in s ops rs) =
      (word_out s x r @ words_out s ops rs) @ queue_of s c'"
    by (metis append.assoc)
  then show ?case using run(2) by (simp add: words_in_def words_out_def)
qed

text \<open>The ports of a machine state: bits 15 and 14 of the control registers, and the queues.\<close>

definition ipc_abs :: "'x nds \<Rightarrow> port \<times> port" where
  "ipc_abs nds =
     (\<lparr>PortOn = bit (IPCFIFOCnt9 nds) 15, PortErr = bit (IPCFIFOCnt9 nds) 14, PortQ = fifo_items (IPCFIFO9 nds)\<rparr>,
      \<lparr>PortOn = bit (IPCFIFOCnt7 nds) 15, PortErr = bit (IPCFIFOCnt7 nds) 14, PortQ = fifo_items (IPCFIFO7 nds)\<rparr>)"

definition ipc_ok :: "'x nds \<Rightarrow> bool" where
  "ipc_ok nds \<longleftrightarrow> fifo_ok (IPCFIFO9 nds) \<and> fifo_cap (IPCFIFO9 nds) = 16 \<and>
     fifo_ok (IPCFIFO7 nds) \<and> fifo_cap (IPCFIFO7 nds) = 16"

lemma fifo_Peek_items: "fifo_ok f \<Longrightarrow> fifo_items f \<noteq> [] \<Longrightarrow> fifo_Peek f = hd (fifo_items f)"
  using fifo_Read_laws(4) [of f] fifo_okD(5) [of f] by (simp add: fifo_Read_def fifo_Peek_def)

lemmas fifo_laws = fifo_okD(4,5) fifo_Write_laws fifo_Read_laws(1-3) fifo_Clear_ok

lemmas ipc_bits = u16_bits bit_or_iff bit_and_iff bit_not_iff bit_4000 bit_8404

text \<open>Each access refines the step of the specification.\<close>

lemma Send_refines:
  assumes ok: "ipc_ok nds" and st: "ipc_step ext (d, Send v) nds = (r, nds')" "chan_step (d, Send v) (ipc_abs nds) = (out, c)"
  shows "ipc_ok nds' \<and> ipc_abs nds' = c \<and> reads_as out r"
proof -
  have "length (fifo_items (IPCFIFO9 nds)) \<le> 16" "length (fifo_items (IPCFIFO7 nds)) \<le> 16"
    using ok fifo_okD(3) [of "IPCFIFO9 nds"] fifo_okD(3) [of "IPCFIFO7 nds"] by (simp_all add: ipc_ok_def)
  then show ?thesis using ok st
    by (cases d) (auto simp: ipc_ok_def ipc_abs_def ipc9_Send_def ipc7_Send_def Let_def fifo_laws ipc_bits
        split: if_splits)
qed

lemma Recv_ok: "ipc_ok nds \<Longrightarrow> ipc_ok (snd (ipc9_Recv ext nds)) \<and> ipc_ok (snd (ipc7_Recv ext nds))"
  by (simp add: ipc_ok_def ipc9_Recv_def ipc7_Recv_def Let_def split_beta fifo_Read_laws)

lemma Recv_outcomes:
  assumes "ipc_ok nds"
  shows "fst (chan_step (CPU9, Recv) (ipc_abs nds)) = out \<Longrightarrow> reads_as out (Some (fst (ipc9_Recv ext nds)))"
    "fst (chan_step (CPU7, Recv) (ipc_abs nds)) = out \<Longrightarrow> reads_as out (Some (fst (ipc7_Recv ext nds)))"
proof -
  have ok: "fifo_ok (IPCFIFO9 nds)" "fifo_ok (IPCFIFO7 nds)" using assms by (simp_all add: ipc_ok_def)
  show "fst (chan_step (CPU9, Recv) (ipc_abs nds)) = out \<Longrightarrow> reads_as out (Some (fst (ipc9_Recv ext nds)))"
    using fifo_Read_laws(4) [OF ok(2)] fifo_Peek_items [OF ok(2)] fifo_okD(5) [OF ok(2)]
    by (cases "fifo_items (IPCFIFO7 nds)"; cases "bit (IPCFIFOCnt9 nds) 15")
      (auto simp: ipc_abs_def ipc9_Recv_def u16_bits split_beta Let_def)
  show "fst (chan_step (CPU7, Recv) (ipc_abs nds)) = out \<Longrightarrow> reads_as out (Some (fst (ipc7_Recv ext nds)))"
    using fifo_Read_laws(4) [OF ok(1)] fifo_Peek_items [OF ok(1)] fifo_okD(5) [OF ok(1)]
    by (cases "fifo_items (IPCFIFO9 nds)"; cases "bit (IPCFIFOCnt7 nds) 15")
      (auto simp: ipc_abs_def ipc7_Recv_def u16_bits split_beta Let_def)
qed

lemma Recv_ports:
  assumes "ipc_ok nds"
  shows "snd (chan_step (CPU9, Recv) (ipc_abs nds)) = ipc_abs (snd (ipc9_Recv ext nds))"
    "snd (chan_step (CPU7, Recv) (ipc_abs nds)) = ipc_abs (snd (ipc7_Recv ext nds))"
proof -
  have ok: "fifo_ok (IPCFIFO9 nds)" "fifo_ok (IPCFIFO7 nds)" using assms by (simp_all add: ipc_ok_def)
  show "snd (chan_step (CPU9, Recv) (ipc_abs nds)) = ipc_abs (snd (ipc9_Recv ext nds))"
    using fifo_Read_laws(3) [OF ok(2)] fifo_okD(5) [OF ok(2)]
    by (cases "fifo_items (IPCFIFO7 nds)"; cases "bit (IPCFIFOCnt9 nds) 15")
      (simp_all add: ipc_abs_def ipc9_Recv_def ipc_bits split_beta Let_def)
  show "snd (chan_step (CPU7, Recv) (ipc_abs nds)) = ipc_abs (snd (ipc7_Recv ext nds))"
    using fifo_Read_laws(3) [OF ok(1)] fifo_okD(5) [OF ok(1)]
    by (cases "fifo_items (IPCFIFO9 nds)"; cases "bit (IPCFIFOCnt7 nds) 15")
      (simp_all add: ipc_abs_def ipc7_Recv_def ipc_bits split_beta Let_def)
qed

lemma Recv_refines:
  assumes ok: "ipc_ok nds" and st: "ipc_step ext (d, Recv) nds = (r, nds')" "chan_step (d, Recv) (ipc_abs nds) = (out, c)"
  shows "ipc_ok nds' \<and> ipc_abs nds' = c \<and> reads_as out r"
proof (cases d)
  case CPU9
  then have "r = Some (fst (ipc9_Recv ext nds))" "nds' = snd (ipc9_Recv ext nds)"
    using st(1) by (auto simp: split_beta Let_def)
  then show ?thesis using Recv_ok [OF ok] Recv_ports(1) [OF ok] Recv_outcomes(1) [OF ok] st(2) CPU9
    by (metis fst_conv snd_conv)
next
  case CPU7
  then have "r = Some (fst (ipc7_Recv ext nds))" "nds' = snd (ipc7_Recv ext nds)"
    using st(1) by (auto simp: split_beta Let_def)
  then show ?thesis using Recv_ok [OF ok] Recv_ports(2) [OF ok] Recv_outcomes(2) [OF ok] st(2) CPU7
    by (metis fst_conv snd_conv)
qed

lemma WriteCnt_fields:
  "IPCFIFO9 (ipc9_WriteCnt ext v nds) = (if bit v 3 then fifo_Clear (IPCFIFO9 nds) else IPCFIFO9 nds)"
  "IPCFIFO7 (ipc7_WriteCnt ext v nds) = (if bit v 3 then fifo_Clear (IPCFIFO7 nds) else IPCFIFO7 nds)"
  "IPCFIFO7 (ipc9_WriteCnt ext v nds) = IPCFIFO7 nds" "IPCFIFO9 (ipc7_WriteCnt ext v nds) = IPCFIFO9 nds"
  "IPCFIFOCnt7 (ipc9_WriteCnt ext v nds) = IPCFIFOCnt7 nds" "IPCFIFOCnt9 (ipc7_WriteCnt ext v nds) = IPCFIFOCnt9 nds"
  by (simp_all add: ipc9_WriteCnt_def ipc7_WriteCnt_def Let_def u16_bits)

lemma WriteCnt_bits:
  "bit (IPCFIFOCnt9 (ipc9_WriteCnt ext v nds)) k \<longleftrightarrow>
     k \<in> {15, 10, 2} \<and> bit v k \<or> k = 14 \<and> bit (IPCFIFOCnt9 nds) 14 \<and> \<not> bit v 14"
  "bit (IPCFIFOCnt7 (ipc7_WriteCnt ext v nds)) k \<longleftrightarrow>
     k \<in> {15, 10, 2} \<and> bit v k \<or> k = 14 \<and> bit (IPCFIFOCnt7 nds) 14 \<and> \<not> bit v 14"
proof -
  have w: "bit ((v AND 0x8404) OR ((if bit v 14 then c AND NOT 0x4000 else c) AND 0x4000)) k \<longleftrightarrow>
      k \<in> {15, 10, 2} \<and> bit v k \<or> k = 14 \<and> bit c 14 \<and> \<not> bit v 14" for c :: u16
    by (cases "bit v 14") (simp_all only: if_True if_False bit_or_iff bit_and_iff bit_not_iff bit_4000 bit_8404 possible_bit_word, auto)
  have c: "IPCFIFOCnt9 (ipc9_WriteCnt ext v nds) = (v AND 0x8404) OR ((if bit v 14 then IPCFIFOCnt9 nds AND NOT 0x4000 else IPCFIFOCnt9 nds) AND 0x4000)"
    "IPCFIFOCnt7 (ipc7_WriteCnt ext v nds) = (v AND 0x8404) OR ((if bit v 14 then IPCFIFOCnt7 nds AND NOT 0x4000 else IPCFIFOCnt7 nds) AND 0x4000)"
    by (simp_all add: ipc9_WriteCnt_def ipc7_WriteCnt_def Let_def u16_bits)
  show "bit (IPCFIFOCnt9 (ipc9_WriteCnt ext v nds)) k \<longleftrightarrow>
     k \<in> {15, 10, 2} \<and> bit v k \<or> k = 14 \<and> bit (IPCFIFOCnt9 nds) 14 \<and> \<not> bit v 14"
    "bit (IPCFIFOCnt7 (ipc7_WriteCnt ext v nds)) k \<longleftrightarrow>
     k \<in> {15, 10, 2} \<and> bit v k \<or> k = 14 \<and> bit (IPCFIFOCnt7 nds) 14 \<and> \<not> bit v 14"
    by (simp_all only: c w)
qed

lemma Ctl_refines:
  assumes ok: "ipc_ok nds" and st: "ipc_step ext (d, Ctl v) nds = (r, nds')" "chan_step (d, Ctl v) (ipc_abs nds) = (out, c)"
  shows "ipc_ok nds' \<and> ipc_abs nds' = c \<and> reads_as out r"
  using ok st
  by (cases d) (auto simp: ipc_ok_def ipc_abs_def WriteCnt_fields WriteCnt_bits fifo_Clear_ok)

lemma ipc_step_refines:
  assumes "ipc_ok nds" "ipc_step ext x nds = (r, nds')" "chan_step x (ipc_abs nds) = (out, c)"
  shows "ipc_ok nds' \<and> ipc_abs nds' = c \<and> reads_as out r"
  using assms Send_refines [of nds ext _ _ r nds' out c] Recv_refines [of nds ext _ r nds' out c]
    Ctl_refines [of nds ext _ _ r nds' out c]
  by (cases x; cases "snd x") (simp_all del: ipc_step.simps chan_step.simps)

lemma ipc_run_refines:
  "ipc_ok nds \<Longrightarrow> ipc_run ext ops nds = (rs, nds') \<Longrightarrow> chan_run ops (ipc_abs nds) = (outs, c) \<Longrightarrow>
   ipc_ok nds' \<and> ipc_abs nds' = c \<and> list_all2 reads_as outs rs"
proof (induction ops arbitrary: nds rs outs)
  case (Cons x ops)
  obtain r n o1 c1 where st: "ipc_step ext x nds = (r, n)" "chan_step x (ipc_abs nds) = (o1, c1)"
    by (metis surj_pair)
  note s = ipc_step_refines [OF Cons.prems(1) st]
  obtain rs1 os1 where "ipc_run ext ops n = (rs1, nds')" "chan_run ops c1 = (os1, c)" "rs = r # rs1" "outs = o1 # os1"
    using Cons.prems(2,3) st by (auto split: prod.splits)
  with Cons.IH [of n rs1 os1] s show ?case by simp
qed simp

text \<open>C13.  The two queues between the CPUs are a lossless channel, in any interleaving of sends, receives and
  control writes of both CPUs, the queues enabled or not, full or empty: the machine goes through
  the states of the specification and reads what it says.  So a word sent to an enabled queue with room is queued, one sent to a full queue is
  dropped and sets the error flag, one sent while the FIFO is disabled is dropped without; a receive
  takes the oldest word, sets the error flag when there is none, and only looks at it while the FIFO is
  disabled; a control write flushes the writer's own queue alone.  And of a queue that is not
  flushed in the run, the words queued at the start and those that entered are, in order, the
  words the other CPU took and those still queued.\<close>

theorem ipc_lossless:
  assumes "ipc_ok nds" "ipc_run ext ops nds = (rs, nds')" "chan_run ops (ipc_abs nds) = (outs, c)"
  shows "ipc_ok nds' \<and> ipc_abs nds' = c \<and> list_all2 reads_as outs rs \<and>
    (\<forall>s. (\<forall>v. (s, Ctl v) \<in> set ops \<longrightarrow> \<not> bit v 3) \<longrightarrow>
       queue_of s (ipc_abs nds) @ words_in s ops outs = words_out s ops outs @ queue_of s (ipc_abs nds'))"
proof -
  have run: "ipc_ok nds'" "ipc_abs nds' = c" "list_all2 reads_as outs rs"
    using ipc_run_refines [OF assms] by auto
  then show ?thesis using chan_run_lossless [OF assms(3)] by blast
qed

theorem ipc_lossless_witness:
  "\<forall>ext. queue_of CPU9 (ipc_abs (snd (ipc_run ext [(CPU9, Send 5), (CPU9, Send 6), (CPU7, Send 1), (CPU7, Recv), (CPU9, Recv), (CPU9, Recv)]
     ((undefined :: unit nds)\<lparr>IPCFIFO9 := fifo_new 16, IPCFIFO7 := fifo_new 16, IPCFIFOCnt9 := 0x8000, IPCFIFOCnt7 := 0x8000\<rparr>)))) = [6]"
proof
  fix ext :: "unit nds_ext"
  let ?nds = "(undefined :: unit nds)\<lparr>IPCFIFO9 := fifo_new 16, IPCFIFO7 := fifo_new 16, IPCFIFOCnt9 := 0x8000, IPCFIFOCnt7 := 0x8000\<rparr>"
  let ?ops = "[(CPU9, Send 5), (CPU9, Send 6), (CPU7, Send 1), (CPU7, Recv), (CPU9, Recv), (CPU9, Recv)]"
  have q: "fifo_ok (fifo_new 16 :: u32 fifo)" "fifo_items (fifo_new 16 :: u32 fifo) = []" "fifo_cap (fifo_new 16 :: u32 fifo) = 16"
    using fifo_new_ok [of 16] by auto
  have ok: "ipc_ok ?nds" using q by (simp add: ipc_ok_def)
  have "ipc_abs ?nds = (\<lparr>PortOn = True, PortErr = False, PortQ = []\<rparr>, \<lparr>PortOn = True, PortErr = False, PortQ = []\<rparr>)"
    by (simp add: ipc_abs_def q)
  then have c: "chan_run ?ops (ipc_abs ?nds) = ([Took, Took, Took, Got 5, Got 1, Stale],
      \<lparr>PortOn = True, PortErr = True, PortQ = [6]\<rparr>, \<lparr>PortOn = True, PortErr = False, PortQ = []\<rparr>)"
    by simp
  have r: "ipc_run ext ?ops ?nds = (fst (ipc_run ext ?ops ?nds), snd (ipc_run ext ?ops ?nds))" by (rule prod.collapse [symmetric])
  from ipc_lossless [OF ok r c] show "queue_of CPU9 (ipc_abs (snd (ipc_run ext ?ops ?nds))) = [6]"
    by (elim conjE) (simp only: queue_of.simps port.simps)
qed

section \<open>Notifications\<close>

text \<open>
  The condition of each CPU's receive interrupt (enabled, and the incoming queue holds a word) and of its
  send interrupt (enabled, and the outgoing queue is empty).
\<close>

definition recv_due :: "nat \<Rightarrow> 'x nds \<Rightarrow> bool" where
  "recv_due cpu nds \<longleftrightarrow>
     (if cpu = 0 then bit (IPCFIFOCnt9 nds) 10 \<and> fifo_items (IPCFIFO7 nds) \<noteq> []
      else cpu = 1 \<and> bit (IPCFIFOCnt7 nds) 10 \<and> fifo_items (IPCFIFO9 nds) \<noteq> [])"

definition send_due :: "nat \<Rightarrow> 'x nds \<Rightarrow> bool" where
  "send_due cpu nds \<longleftrightarrow>
     (if cpu = 0 then bit (IPCFIFOCnt9 nds) 2 \<and> fifo_items (IPCFIFO9 nds) = []
      else cpu = 1 \<and> bit (IPCFIFOCnt7 nds) 2 \<and> fifo_items (IPCFIFO7 nds) = [])"

text \<open>A control write that flushes the queue while its send interrupt is already enabled.\<close>

fun quiet_flush :: "ipc_op \<Rightarrow> nat \<Rightarrow> 'x nds \<Rightarrow> bool" where
  "quiet_flush (CPU9, Ctl v) cpu nds \<longleftrightarrow> cpu = 0 \<and> bit v 3 \<and> bit (IPCFIFOCnt9 nds) 2"
| "quiet_flush (CPU7, Ctl v) cpu nds \<longleftrightarrow> cpu = 1 \<and> bit v 3 \<and> bit (IPCFIFOCnt7 nds) 2"
| "quiet_flush _ _ _ \<longleftrightarrow> False"

definition ipc_raises :: "ipc_op \<Rightarrow> nat \<Rightarrow> nat \<Rightarrow> 'x nds \<Rightarrow> 'x nds \<Rightarrow> bool" where
  "ipc_raises x cpu n nds nds' \<longleftrightarrow>
     n = IRQ_IPCRecv \<and> \<not> recv_due cpu nds \<and> recv_due cpu nds' \<or>
     n = IRQ_IPCSendDone \<and> \<not> send_due cpu nds \<and> send_due cpu nds' \<and> \<not> quiet_flush x cpu nds"

lemmas due_defs = ipc_raises_def recv_due_def send_due_def

lemma Send_notifies:
  assumes "ipc_ok nds" "ipc_step ext (d, Send v) nds = (r, nds')"
  shows "bit (IF nds' cpu) n \<longleftrightarrow> bit (IF nds cpu) n \<or> ipc_raises (d, Send v) cpu n nds nds'"
  using assms
  by (cases d) (auto simp: ipc_ok_def due_defs ipc9_Send_def ipc7_Send_def Let_def fifo_laws ipc_bits SetIRQ_IF irq_ids
      split: if_splits)

lemma Recv_notifies:
  assumes ipc: "ipc_ok nds" and st: "ipc_step ext (d, Recv) nds = (r, nds')"
  shows "bit (IF nds' cpu) n \<longleftrightarrow> bit (IF nds cpu) n \<or> ipc_raises (d, Recv) cpu n nds nds'"
proof -
  have ok: "fifo_ok (IPCFIFO9 nds)" "fifo_ok (IPCFIFO7 nds)" using ipc by (simp_all add: ipc_ok_def)
  show ?thesis
  proof (cases d)
    case CPU9
    have "nds' = snd (ipc9_Recv ext nds)" using st CPU9 by (auto simp: split_beta Let_def)
    then show ?thesis
      using fifo_Read_laws(3) [OF ok(2)] fifo_okD(5) [OF ok(2)] fifo_okD(5) [OF fifo_Read_laws(1) [OF ok(2)]]
      by (cases "fifo_items (IPCFIFO7 nds)"; cases "bit (IPCFIFOCnt9 nds) 15")
        (auto simp: due_defs ipc9_Recv_def ipc_bits split_beta Let_def SetIRQ_IF irq_ids CPU9)
  next
    case CPU7
    have "nds' = snd (ipc7_Recv ext nds)" using st CPU7 by (auto simp: split_beta Let_def)
    then show ?thesis
      using fifo_Read_laws(3) [OF ok(1)] fifo_okD(5) [OF ok(1)] fifo_okD(5) [OF fifo_Read_laws(1) [OF ok(1)]]
      by (cases "fifo_items (IPCFIFO9 nds)"; cases "bit (IPCFIFOCnt7 nds) 15")
        (auto simp: due_defs ipc7_Recv_def ipc_bits split_beta Let_def SetIRQ_IF irq_ids CPU7)
  qed
qed

lemma WriteCnt_IF:
  "bit (IF (ipc9_WriteCnt ext v nds) cpu) n \<longleftrightarrow> bit (IF nds cpu) n \<or> cpu = 0 \<and>
     (n = IRQ_IPCSendDone \<and> bit v 2 \<and> \<not> bit (IPCFIFOCnt9 nds) 2 \<and> (bit v 3 \<or> fifo_IsEmpty (IPCFIFO9 nds)) \<or>
      n = IRQ_IPCRecv \<and> bit v 10 \<and> \<not> bit (IPCFIFOCnt9 nds) 10 \<and> \<not> fifo_IsEmpty (IPCFIFO7 nds))"
  "bit (IF (ipc7_WriteCnt ext v nds) cpu) n \<longleftrightarrow> bit (IF nds cpu) n \<or> cpu = 1 \<and>
     (n = IRQ_IPCSendDone \<and> bit v 2 \<and> \<not> bit (IPCFIFOCnt7 nds) 2 \<and> (bit v 3 \<or> fifo_IsEmpty (IPCFIFO7 nds)) \<or>
      n = IRQ_IPCRecv \<and> bit v 10 \<and> \<not> bit (IPCFIFOCnt7 nds) 10 \<and> \<not> fifo_IsEmpty (IPCFIFO9 nds))"
proof -
  have e: "fifo_IsEmpty (fifo_Clear f)" for f :: "u32 fifo" by (simp add: fifo_IsEmpty_def fifo_Clear_def Let_def)
  show "bit (IF (ipc9_WriteCnt ext v nds) cpu) n \<longleftrightarrow> bit (IF nds cpu) n \<or> cpu = 0 \<and>
     (n = IRQ_IPCSendDone \<and> bit v 2 \<and> \<not> bit (IPCFIFOCnt9 nds) 2 \<and> (bit v 3 \<or> fifo_IsEmpty (IPCFIFO9 nds)) \<or>
      n = IRQ_IPCRecv \<and> bit v 10 \<and> \<not> bit (IPCFIFOCnt9 nds) 10 \<and> \<not> fifo_IsEmpty (IPCFIFO7 nds))"
    "bit (IF (ipc7_WriteCnt ext v nds) cpu) n \<longleftrightarrow> bit (IF nds cpu) n \<or> cpu = 1 \<and>
     (n = IRQ_IPCSendDone \<and> bit v 2 \<and> \<not> bit (IPCFIFOCnt7 nds) 2 \<and> (bit v 3 \<or> fifo_IsEmpty (IPCFIFO7 nds)) \<or>
      n = IRQ_IPCRecv \<and> bit v 10 \<and> \<not> bit (IPCFIFOCnt7 nds) 10 \<and> \<not> fifo_IsEmpty (IPCFIFO9 nds))"
    using irq_ids by (simp_all add: ipc9_WriteCnt_def ipc7_WriteCnt_def Let_def u16_bits e SetIRQ_IF) auto
qed

lemma Ctl_notifies:
  assumes ipc: "ipc_ok nds" and st: "ipc_step ext (d, Ctl v) nds = (r, nds')"
  shows "bit (IF nds' cpu) n \<longleftrightarrow> bit (IF nds cpu) n \<or> ipc_raises (d, Ctl v) cpu n nds nds'"
proof -
  have ok: "fifo_ok (IPCFIFO9 nds)" "fifo_ok (IPCFIFO7 nds)" using ipc by (simp_all add: ipc_ok_def)
  have e: "fifo_IsEmpty (IPCFIFO9 nds) \<longleftrightarrow> fifo_items (IPCFIFO9 nds) = []" "fifo_IsEmpty (IPCFIFO7 nds) \<longleftrightarrow> fifo_items (IPCFIFO7 nds) = []"
    using ok by (simp_all add: fifo_okD(5))
  have c: "fifo_items (fifo_Clear (IPCFIFO9 nds)) = []" "fifo_items (fifo_Clear (IPCFIFO7 nds)) = []"
    using ok by (simp_all add: fifo_Clear_ok)
  show ?thesis
    using st by (cases d) (auto simp: due_defs WriteCnt_fields WriteCnt_bits WriteCnt_IF e c irq_ids split: if_splits)
qed

lemma ipc_step_notifies:
  assumes "ipc_ok nds" "ipc_step ext x nds = (r, nds')"
  shows "bit (IF nds' cpu) n \<longleftrightarrow> bit (IF nds cpu) n \<or> ipc_raises x cpu n nds nds'"
  using assms Send_notifies [of nds ext _ _ r nds' cpu n] Recv_notifies [of nds ext _ r nds' cpu n]
    Ctl_notifies [of nds ext _ _ r nds' cpu n]
  by (cases x; cases "snd x") (simp_all del: ipc_step.simps)

text \<open>C14.  The FIFO interrupts are requested exactly on their edges: whatever FIFO access either CPU makes, at any point of a run, the
  request flags it adds are a CPU's receive flag, when that CPU's incoming queue and enable bit make
  the condition true that was false before, and a CPU's send flag, when its outgoing queue and
  enable bit do; no other flag of either CPU is set and none is cleared.  The one edge that requests
  nothing is a CPU's flush of its own queue while its send interrupt is already enabled.\<close>

theorem ipc_notifies:
  assumes "ipc_ok nds" "ipc_run ext ops nds = (rs, nds1)" "ipc_step ext x nds1 = (r, nds2)"
  shows "bit (IF nds2 cpu) n \<longleftrightarrow> bit (IF nds1 cpu) n \<or> ipc_raises x cpu n nds1 nds2"
proof (rule ipc_step_notifies [OF _ assms(3)])
  obtain outs c where "chan_run ops (ipc_abs nds) = (outs, c)" by (metis surj_pair)
  then show "ipc_ok nds1" using ipc_run_refines [OF assms(1,2)] by blast
qed

theorem ipc_notifies_witness:
  "\<forall>ext. bit (IF (ipc9_Send ext 7 ((undefined :: unit nds)\<lparr>IPCFIFO9 := fifo_new 16, IPCFIFO7 := fifo_new 16,
     IPCFIFOCnt9 := 0x8000, IPCFIFOCnt7 := 0x8400\<rparr>)) 1) IRQ_IPCRecv"
proof
  fix ext :: "unit nds_ext"
  let ?nds = "(undefined :: unit nds)\<lparr>IPCFIFO9 := fifo_new 16, IPCFIFO7 := fifo_new 16,
     IPCFIFOCnt9 := 0x8000, IPCFIFOCnt7 := 0x8400\<rparr>"
  have q: "fifo_ok (fifo_new 16 :: u32 fifo)" "fifo_items (fifo_new 16 :: u32 fifo) = []" "fifo_cap (fifo_new 16 :: u32 fifo) = 16"
    using fifo_new_ok [of 16] by auto
  have ok: "ipc_ok ?nds" using q by (simp add: ipc_ok_def)
  have "ipc_raises (CPU9, Send 7) 1 IRQ_IPCRecv ?nds (ipc9_Send ext 7 ?nds)"
    using q by (simp add: due_defs ipc9_Send_def Let_def fifo_laws u16_bits)
  with ipc_notifies [OF ok, of ext "[]" "[]" ?nds "(CPU9, Send 7)" None "ipc9_Send ext 7 ?nds" 1 IRQ_IPCRecv]
  show "bit (IF (ipc9_Send ext 7 ?nds) 1) IRQ_IPCRecv" by simp
qed

section \<open>Sync values\<close>

text \<open>Each side's input nibble is the other side's output nibble.\<close>

definition crossed :: "u16 \<Rightarrow> u16 \<Rightarrow> bool" where
  "crossed a b \<longleftrightarrow> (\<forall>i < 4. bit a i \<longleftrightarrow> bit b (8 + i))"

definition sync_ok :: "'x nds \<Rightarrow> bool" where
  "sync_ok nds \<longleftrightarrow> crossed (IPCSync7 nds) (IPCSync9 nds) \<and> crossed (IPCSync9 nds) (IPCSync7 nds)"

lemma bit_sync_masks:
  "bit (0xFFF0 :: u16) i \<longleftrightarrow> 4 \<le> i \<and> i < 16" "bit (0x0F00 :: u16) i \<longleftrightarrow> 8 \<le> i \<and> i < 12"
  "bit (0xB0FF :: u16) i \<longleftrightarrow> i < 16 \<and> \<not> (8 \<le> i \<and> i < 12) \<and> i \<noteq> 14"
  "bit (0x4F00 :: u16) i \<longleftrightarrow> 8 \<le> i \<and> i < 12 \<or> i = 14"
proof -
  have run: "bit (push_bit k (mask n) :: u16) i \<longleftrightarrow> k \<le> i \<and> i < k + n \<and> i < 16" for k n
    by (simp only: bit_push_bit_iff bit_mask_iff possible_bit_word) auto
  have m: "(0xFFF0 :: u16) = push_bit 4 (mask 12)" "(0x0F00 :: u16) = push_bit 8 (mask 4)"
    "(0x4F00 :: u16) = push_bit 8 (mask 4) OR push_bit 14 (mask 1)"
    "(0xB0FF :: u16) = push_bit 0 (mask 8) OR (push_bit 12 (mask 2) OR push_bit 15 (mask 1))"
    by (simp_all add: mask_eq_exp_minus_1)
  show "bit (0xFFF0 :: u16) i \<longleftrightarrow> 4 \<le> i \<and> i < 16" "bit (0x0F00 :: u16) i \<longleftrightarrow> 8 \<le> i \<and> i < 12"
    "bit (0x4F00 :: u16) i \<longleftrightarrow> 8 \<le> i \<and> i < 12 \<or> i = 14"
    "bit (0xB0FF :: u16) i \<longleftrightarrow> i < 16 \<and> \<not> (8 \<le> i \<and> i < 12) \<and> i \<noteq> 14"
    by (simp_all only: m run bit_or_iff) auto
qed
lemma u8_low: "(v AND 0x4F :: u8) = v AND (mask 4 OR push_bit 6 1)" "(v AND 0x0F :: u8) = v AND mask 4"
  by (simp_all add: mask_eq_exp_minus_1)

lemma sync_write:
  assumes "\<And>i. bit n i \<longleftrightarrow> i < 4 \<and> bit h (8 + i)" "\<And>i. bit h i \<Longrightarrow> 8 \<le> i"
  shows "crossed ((a AND 0xFFF0) OR n) ((b AND 0xB0FF) OR h)"
    "crossed ((b AND 0xB0FF) OR h) ((a AND 0xFFF0) OR n) \<longleftrightarrow> crossed b a"
proof -
  have h: "i < 4 \<Longrightarrow> \<not> bit h i" for i using assms(2) [of i] by auto
  show "crossed ((a AND 0xFFF0) OR n) ((b AND 0xB0FF) OR h)"
    "crossed ((b AND 0xB0FF) OR h) ((a AND 0xFFF0) OR n) \<longleftrightarrow> crossed b a"
    using h bit_imp_le_length [of a] by (simp_all only: crossed_def bit_or_iff bit_and_iff bit_sync_masks assms(1)) auto
qed

lemma sync_fields:
  "bit (drop_bit 8 (v AND 0x0F00)) i \<longleftrightarrow> i < 4 \<and> bit (v AND 0x4F00) (8 + i)" "bit (v AND 0x4F00) i \<Longrightarrow> 8 \<le> i"
  for v :: u16
  by (simp_all only: bit_drop_bit_eq comp_apply bit_and_iff bit_sync_masks) auto

lemma sync_fields8:
  "bit (ucast (b AND 0x0F) :: u16) i \<longleftrightarrow> i < 4 \<and> bit (push_bit 8 (ucast (b AND 0x4F)) :: u16) (8 + i)"
  "bit (push_bit 8 (ucast (b AND 0x4F)) :: u16) i \<Longrightarrow> 8 \<le> i" for b :: u8
proof -
  have m: "bit (b AND 0x0F) i \<longleftrightarrow> bit b i \<and> i < 4" "bit (b AND 0x4F) i \<longleftrightarrow> bit b i \<and> (i < 4 \<or> i = 6)" for i
    by (simp_all only: u8_low bit_and_iff bit_or_iff bit_mask_iff bit_push_bit_iff bit_1_iff possible_bit_word)
      (auto dest: bit_imp_le_length)
  show "bit (ucast (b AND 0x0F) :: u16) i \<longleftrightarrow> i < 4 \<and> bit (push_bit 8 (ucast (b AND 0x4F)) :: u16) (8 + i)"
    "bit (push_bit 8 (ucast (b AND 0x4F)) :: u16) i \<Longrightarrow> 8 \<le> i"
    by (auto simp only: bit_push_bit_iff bit_ucast_iff m possible_bit_word) auto
qed

lemma sync_write_fields:
  "IPCSync7 (ipc9_WriteSync ext v nds) = (IPCSync7 nds AND 0xFFF0) OR drop_bit 8 (v AND 0x0F00)"
  "IPCSync9 (ipc9_WriteSync ext v nds) = (IPCSync9 nds AND 0xB0FF) OR (v AND 0x4F00)"
  "IPCSync9 (ipc7_WriteSync ext v nds) = (IPCSync9 nds AND 0xFFF0) OR drop_bit 8 (v AND 0x0F00)"
  "IPCSync7 (ipc7_WriteSync ext v nds) = (IPCSync7 nds AND 0xB0FF) OR (v AND 0x4F00)"
  "IPCSync7 (ipc9_WriteSyncHi ext b nds) = (IPCSync7 nds AND 0xFFF0) OR ucast (b AND 0x0F)"
  "IPCSync9 (ipc9_WriteSyncHi ext b nds) = (IPCSync9 nds AND 0xB0FF) OR push_bit 8 (ucast (b AND 0x4F))"
  "IPCSync9 (ipc7_WriteSyncHi ext b nds) = (IPCSync9 nds AND 0xFFF0) OR ucast (b AND 0x0F)"
  "IPCSync7 (ipc7_WriteSyncHi ext b nds) = (IPCSync7 nds AND 0xB0FF) OR push_bit 8 (ucast (b AND 0x4F))"
  by (simp_all add: ipc9_WriteSync_def ipc7_WriteSync_def ipc9_WriteSyncHi_def ipc7_WriteSyncHi_def Let_def)

text \<open>\<open>IPCSYNC\<close> is a crossed pair of nibbles: after every 16-bit or byte write of either CPU, the value
  each side reads is the value the other side wrote last, and the writer's own input nibble and the
  other side's output nibble and enable bit are untouched.\<close>

lemma ipc_sync_crossed:
  assumes "sync_ok nds"
  shows "sync_ok (ipc9_WriteSync ext v nds) \<and> sync_ok (ipc7_WriteSync ext v nds) \<and>
    sync_ok (ipc9_WriteSyncHi ext b nds) \<and> sync_ok (ipc7_WriteSyncHi ext b nds) \<and>
    (\<forall>i < 4. bit (IPCSync7 (ipc9_WriteSync ext v nds)) i \<longleftrightarrow> bit v (8 + i)) \<and>
    (\<forall>i < 4. bit (IPCSync9 (ipc9_WriteSync ext v nds)) i \<longleftrightarrow> bit (IPCSync9 nds) i) \<and>
    (\<forall>i \<ge> 8. bit (IPCSync7 (ipc9_WriteSync ext v nds)) i \<longleftrightarrow> bit (IPCSync7 nds) i)"
proof -
  note w = sync_write [OF sync_fields] sync_write [OF sync_fields8]
  have "sync_ok (ipc9_WriteSync ext v nds)" "sync_ok (ipc7_WriteSync ext v nds)"
    "sync_ok (ipc9_WriteSyncHi ext b nds)" "sync_ok (ipc7_WriteSyncHi ext b nds)"
    using assms by (simp_all only: sync_ok_def sync_write_fields w)
  moreover have "bit (IPCSync7 (ipc9_WriteSync ext v nds)) i \<longleftrightarrow> (if i < 4 then bit v (8 + i) else bit (IPCSync7 nds) i)"
    "i < 4 \<Longrightarrow> bit (IPCSync9 (ipc9_WriteSync ext v nds)) i \<longleftrightarrow> bit (IPCSync9 nds) i" for i
    using bit_imp_le_length [of "IPCSync7 nds" i]
    by (simp_all only: sync_write_fields bit_or_iff bit_and_iff bit_drop_bit_eq comp_apply bit_sync_masks) auto
  ultimately show ?thesis by simp
qed

lemma ipc_sync_crossed_witness:
  "\<forall>ext. bit (IPCSync7 (ipc9_WriteSync ext 0x0200 ((undefined :: unit nds)\<lparr>IPCSync9 := 0, IPCSync7 := 0\<rparr>))) 1"
proof
  fix ext :: "unit nds_ext"
  have "sync_ok ((undefined :: unit nds)\<lparr>IPCSync9 := 0, IPCSync7 := 0\<rparr>)" by (simp add: sync_ok_def crossed_def)
  from ipc_sync_crossed [OF this, of ext "0x0200" 0]
  have "\<forall>i < 4. bit (IPCSync7 (ipc9_WriteSync ext 0x0200 ((undefined :: unit nds)\<lparr>IPCSync9 := 0, IPCSync7 := 0\<rparr>))) i
      \<longleftrightarrow> bit (0x0200 :: u16) (8 + i)" by blast
  from this [rule_format, of 1] show
    "bit (IPCSync7 (ipc9_WriteSync ext 0x0200 ((undefined :: unit nds)\<lparr>IPCSync9 := 0, IPCSync7 := 0\<rparr>))) 1"
    by simp
qed

end
