(* ===== verification/Timers.thy ===== *)
theory Timers
  imports Irq
begin

text \<open>
  The eight timers of \<^verbatim>\<open>src/src/NDS.cpp\<close>, four per CPU.  \<open>Counter\<close> holds the 16-bit count above ten
  fraction bits; a timer overflows when bit 26 is reached.
\<close>

section \<open>Code\<close>

definition upd_timer :: "nat \<Rightarrow> (timer \<Rightarrow> timer) \<Rightarrow> 'x nds \<Rightarrow> 'x nds" where
  "upd_timer tid f nds = nds\<lparr>Timers := (Timers nds)(tid := f (Timers nds tid))\<rparr>"

text \<open>The NDMA channels that \<open>DSi::CheckNDMAs\<close> starts stop their CPU.\<close>

definition check_NDMAs :: "'x nds_ext \<Rightarrow> nat \<Rightarrow> nat \<Rightarrow> 'x nds \<Rightarrow> 'x nds" where
  "check_NDMAs ext cpu mode nds =
     (let (x, m) = CheckNDMAs ext cpu mode (Rest nds);
          nds = nds\<lparr>Rest := x\<rparr>
      in if m = 0 then nds else StopCPU cpu m nds)"

text \<open>What every overflow triggers.\<close>

definition timer_signal :: "'x nds_ext \<Rightarrow> nat \<Rightarrow> 'x nds \<Rightarrow> 'x nds" where
  "timer_signal ext tid nds =
     (let nds = (if tst (Cnt (Timers nds tid)) 0x40 then SetIRQ ext (tid div 4) (IRQ_Timer0 + tid mod 4) nds else nds)
      in if ConsoleType nds = 1 then check_NDMAs ext (tid div 4) (tid mod 4 + 32 * (tid div 4)) nds else nds)"

text \<open>The loop over the following timers; \<open>tid\<close> is the timer that overflowed.\<close>

function cascade :: "'x nds_ext \<Rightarrow> nat \<Rightarrow> 'x nds \<Rightarrow> 'x nds" where
  "cascade ext tid nds =
     (if tid mod 4 = 3 then nds
      else
        let tid = tid + 1
        in if Cnt (Timers nds tid) AND 0x84 \<noteq> 0x84 then nds
           else
             let nds = upd_timer tid (\<lambda>t. t\<lparr>Counter := Counter t + push_bit 10 1\<rparr>) nds
             in if drop_bit 26 (Counter (Timers nds tid)) = 0 then nds
                else
                  let nds = upd_timer tid (\<lambda>t. t\<lparr>Counter := push_bit 10 (ucast (Reload t))\<rparr>) nds
                  in cascade ext tid (timer_signal ext tid nds))"
  by pat_completeness auto
termination
  by (relation "measure (\<lambda>(ext, tid, nds). 3 - tid mod 4)") (auto simp: mod_Suc)

declare cascade.simps [simp del]

definition HandleTimerOverflow :: "'x nds_ext \<Rightarrow> nat \<Rightarrow> 'x nds \<Rightarrow> 'x nds" where
  "HandleTimerOverflow ext tid nds =
     (let nds = upd_timer tid (\<lambda>t. t\<lparr>Counter := Counter t + push_bit 10 (ucast (Reload t))\<rparr>) nds
      in cascade ext tid (timer_signal ext tid nds))"

section \<open>What an overflow leaves alone\<close>

lemma Timers_frame [simp]:
  "Timers (SetIRQ ext c i nds) = Timers nds" "Timers (StopCPU c m nds) = Timers nds"
  "Timers (check_NDMAs ext c k nds) = Timers nds" "Timers (timer_signal ext tid nds) = Timers nds"
proof -
  show irq: "Timers (SetIRQ ext c i nds) = Timers nds" for c i nds
    by (simp add: SetIRQ_def Let_def UpdateIRQ_def)
  show stop: "Timers (StopCPU c m nds) = Timers nds" for c m and nds :: "'x nds"
    by (simp add: StopCPU_def cpu_Halt_def)
  show ndma: "Timers (check_NDMAs ext c k nds) = Timers nds" for c k nds
    by (simp add: check_NDMAs_def Let_def stop split: prod.split)
  show "Timers (timer_signal ext tid nds) = Timers nds"
    by (simp add: timer_signal_def Let_def irq ndma)
qed

lemma upd_timer_Timers [simp]: "Timers (upd_timer tid f nds) = (Timers nds)(tid := f (Timers nds tid))"
  by (simp add: upd_timer_def)

text \<open>A cascade changes only counters, only of later timers of the same CPU.\<close>

lemma cascade_other:
  "j \<le> tid \<or> j div 4 \<noteq> tid div 4 \<Longrightarrow> Timers (cascade ext tid nds) j = Timers nds j"
proof (induction ext tid nds rule: cascade.induct)
  case (1 ext tid nds)
  show ?case
  proof (cases "tid mod 4 = 3 \<or> Cnt (Timers nds (tid + 1)) AND 0x84 \<noteq> 0x84")
    case True
    then show ?thesis by (subst cascade.simps) (auto simp: Let_def)
  next
    case False
    then have d: "(tid + 1) div 4 = tid div 4" by (simp add: div_Suc mod_Suc)
    then have j: "j \<noteq> tid + 1" "j \<le> tid + 1 \<or> j div 4 \<noteq> (tid + 1) div 4" using "1.prems" by auto
    show ?thesis using False j "1.IH" d by (subst cascade.simps) (simp add: Let_def)
  qed
qed

lemma HandleTimerOverflow_tid:
  "Timers (HandleTimerOverflow ext tid nds) tid =
    (Timers nds tid)\<lparr>Counter := Counter (Timers nds tid) + push_bit 10 (ucast (Reload (Timers nds tid)))\<rparr>"
  by (simp add: HandleTimerOverflow_def Let_def cascade_other)

lemma reload_units: "unat (push_bit 10 (ucast r) :: u32) = 1024 * unat r" "1024 * unat r < 2 ^ 26" for r :: u16
proof -
  have r: "unat r < 2 ^ 16" using unsigned_less [of r, where ?'a = nat] by simp
  then show "1024 * unat r < 2 ^ 26" by simp
  have "push_bit 10 (ucast r) = 1024 * (ucast r :: u32)" by (simp add: push_bit_eq_mult)
  moreover have "unat (ucast r :: u32) = unat r" by (rule unat_ucast_up) simp
  ultimately show "unat (push_bit 10 (ucast r) :: u32) = 1024 * unat r"
    using r by (simp only: unat_word_ariths) simp
qed

lemma over26: "drop_bit 26 c = 0 \<longleftrightarrow> unat c < 2 ^ 26" for c :: u32
proof -
  have "drop_bit 26 c = 0 \<longleftrightarrow> unat (drop_bit 26 c) = 0" by (simp only: unat_eq_0)
  also have "\<dots> \<longleftrightarrow> take_bit 32 (unat c) div 2 ^ 26 = 0"
    by (simp only: unsigned_drop_bit_eq drop_bit_eq_div [of _ "_ :: nat"]) simp
  also have "take_bit 32 (unat c) = unat c"
    by (rule take_bit_nat_eq_self) (use unsigned_less [of c, where ?'a = nat] in simp)
  finally show ?thesis by (simp add: div_eq_0_iff)
qed

text \<open>One turn of the overflow loop takes a full period off the counter.\<close>

definition period :: "u16 \<Rightarrow> nat" where
  "period r = 2 ^ 26 - 1024 * unat r"

lemma overflow_step:
  fixes c :: u32 and r :: u16
  assumes "drop_bit 26 c \<noteq> 0"
  shows "unat (c - push_bit 26 1 + push_bit 10 (ucast r)) = unat c - period r"
    "unat (c - push_bit 26 1 + push_bit 10 (ucast r)) < unat c"
proof -
  have c: "2 ^ 26 \<le> unat c" using assms over26 [of c] by simp
  have p: "unat (push_bit 26 1 :: u32) = 2 ^ 26" by simp
  have m: "unat (c - push_bit 26 1) = unat c - 2 ^ 26"
    using c p unat_sub [of "push_bit 26 1" c] by (simp only: word_le_nat_alt)
  have b: "unat c < 2 ^ 32" using unsigned_less [of c, where ?'a = nat] by simp
  have "unat (c - push_bit 26 1 + push_bit 10 (ucast r)) = (unat c - 2 ^ 26 + 1024 * unat r) mod 2 ^ 32"
    by (simp only: unat_word_ariths m reload_units) simp
  then show eq: "unat (c - push_bit 26 1 + push_bit 10 (ucast r)) = unat c - period r"
    using c b reload_units(2) [of r] by (simp add: period_def)
  show "unat (c - push_bit 26 1 + push_bit 10 (ucast r)) < unat c"
    unfolding eq using c reload_units(2) [of r] by (simp add: period_def)
qed

lemma turn_counter:
  "Counter (Timers (HandleTimerOverflow ext tid (upd_timer tid (\<lambda>t. t\<lparr>Counter := Counter t - k\<rparr>) nds)) tid) =
    Counter (Timers nds tid) - k + push_bit 10 (ucast (Reload (Timers nds tid)))"
  "Reload (Timers (HandleTimerOverflow ext tid (upd_timer tid (\<lambda>t. t\<lparr>Counter := Counter t - k\<rparr>) nds)) tid) =
    Reload (Timers nds tid)"
  "Cnt (Timers (HandleTimerOverflow ext tid (upd_timer tid (\<lambda>t. t\<lparr>Counter := Counter t - k\<rparr>) nds)) tid) =
    Cnt (Timers nds tid)"
  by (simp_all add: HandleTimerOverflow_tid)

section \<open>Running the timers\<close>

function run_timer_loop :: "'x nds_ext \<Rightarrow> nat \<Rightarrow> 'x nds \<Rightarrow> 'x nds" where
  "run_timer_loop ext tid nds =
     (if drop_bit 26 (Counter (Timers nds tid)) \<noteq> 0
      then run_timer_loop ext tid
             (HandleTimerOverflow ext tid (upd_timer tid (\<lambda>t. t\<lparr>Counter := Counter t - push_bit 26 1\<rparr>) nds))
      else nds)"
  by pat_completeness auto
termination
  by (relation "measure (\<lambda>(ext, tid, nds). unat (Counter (Timers nds tid)))")
    (simp_all only: wf_measure in_measure prod.case turn_counter overflow_step(2) not_False_eq_True)

declare run_timer_loop.simps [simp del]

definition RunTimer :: "'x nds_ext \<Rightarrow> nat \<Rightarrow> s32 \<Rightarrow> 'x nds \<Rightarrow> 'x nds" where
  "RunTimer ext tid cycles nds =
     run_timer_loop ext tid
       (upd_timer tid (\<lambda>t. t\<lparr>Counter := Counter t + push_bit (unat (CycleShift t)) cycles\<rparr>) nds)"

definition RunTimers :: "'x nds_ext \<Rightarrow> nat \<Rightarrow> 'x nds \<Rightarrow> 'x nds" where
  "RunTimers ext cpu nds =
     (let timermask = TimerCheckMask nds cpu;
          cycles = (if cpu = 0 then ucast (drop_bit (ARM9ClockShift nds) (ARM9Timestamp nds) - TimerTimestamp nds 0)
                    else ucast (ARM7Timestamp nds - TimerTimestamp nds 1));
          nds = (if tst timermask 0x1 then RunTimer ext (4 * cpu) cycles nds else nds);
          nds = (if tst timermask 0x2 then RunTimer ext (4 * cpu + 1) cycles nds else nds);
          nds = (if tst timermask 0x4 then RunTimer ext (4 * cpu + 2) cycles nds else nds);
          nds = (if tst timermask 0x8 then RunTimer ext (4 * cpu + 3) cycles nds else nds)
      in nds\<lparr>TimerTimestamp := (TimerTimestamp nds)(cpu := TimerTimestamp nds cpu + scast cycles)\<rparr>)"

definition TimerPrescaler :: "u32 list" where
  "TimerPrescaler = [0, 6, 8, 10]"

definition TimerGetCounter :: "'x nds_ext \<Rightarrow> nat \<Rightarrow> 'x nds \<Rightarrow> u16 \<times> 'x nds" where
  "TimerGetCounter ext tid nds =
     (let nds = RunTimers ext (tid div 4) nds
      in (ucast (drop_bit 10 (Counter (Timers nds tid))), nds))"

definition TimerStart :: "'x nds_ext \<Rightarrow> nat \<Rightarrow> u16 \<Rightarrow> 'x nds \<Rightarrow> 'x nds" where
  "TimerStart ext tid cnt nds =
     (let curstart = Cnt (Timers nds tid) AND 0x80;
          newstart = cnt AND 0x80;
          nds = RunTimers ext (tid div 4) nds;
          nds = upd_timer tid (\<lambda>t. t\<lparr>Cnt := cnt, CycleShift := 10 - TimerPrescaler ! unat (cnt AND 0x03)\<rparr>) nds;
          nds = (if curstart = 0 \<and> newstart \<noteq> 0
                 then upd_timer tid (\<lambda>t. t\<lparr>Counter := push_bit 10 (ucast (Reload t))\<rparr>) nds else nds);
          m = TimerCheckMask nds (tid div 4);
          m = (if cnt AND 0x84 = 0x80 then m OR push_bit (tid mod 4) 1 else m AND NOT (push_bit (tid mod 4) 1))
      in nds\<lparr>TimerCheckMask := (TimerCheckMask nds)(tid div 4 := m)\<rparr>)"

text \<open>The I/O register writes: a 16-bit write of the reload value, and the 32-bit write of both halves.\<close>

definition WriteTimerReload :: "nat \<Rightarrow> u16 \<Rightarrow> 'x nds \<Rightarrow> 'x nds" where
  "WriteTimerReload tid val nds = upd_timer tid (\<lambda>t. t\<lparr>Reload := val\<rparr>) nds"

definition WriteTimer32 :: "'x nds_ext \<Rightarrow> nat \<Rightarrow> u32 \<Rightarrow> 'x nds \<Rightarrow> 'x nds" where
  "WriteTimer32 ext tid val nds = TimerStart ext tid (ucast (drop_bit 16 val)) (WriteTimerReload tid (ucast (val AND 0xFFFF)) nds)"

section \<open>The count\<close>

text \<open>The counter left by the overflow loop, and the number of its turns.\<close>

definition wrapped :: "u16 \<Rightarrow> nat \<Rightarrow> nat" where
  "wrapped r v = (if v < 2 ^ 26 then v else 1024 * unat r + (v - 1024 * unat r) mod period r)"

definition overflows :: "u16 \<Rightarrow> nat \<Rightarrow> nat" where
  "overflows r v = (if v < 2 ^ 26 then 0 else (v - 1024 * unat r) div period r)"

lemma period_pos: "0 < period r" "1024 * unat r + period r = 2 ^ 26" "period r \<le> 2 ^ 26"
  using reload_units(2) [of r] by (simp_all add: period_def)

lemma wrapped_step: "2 ^ 26 \<le> v \<Longrightarrow> wrapped r (v - period r) = wrapped r v"
proof -
  assume v: "2 ^ 26 \<le> v"
  define u where "u = v - 1024 * unat r"
  have u: "period r \<le> u" "v - period r = 1024 * unat r + (u - period r)" "v = 1024 * unat r + u"
    using v period_pos [of r] by (simp_all add: u_def)
  show ?thesis
  proof (cases "v - period r < 2 ^ 26")
    case True
    then have "(u - period r) mod period r = u - period r" using u period_pos(2) [of r] by simp
    then show ?thesis using True v u by (simp add: wrapped_def u_def [symmetric] le_mod_geq)
  next
    case False
    then show ?thesis using v u by (simp add: wrapped_def u_def [symmetric] le_mod_geq)
  qed
qed

lemma wrapped_less: "wrapped r v < 2 ^ 26"
proof -
  have "(v - 1024 * unat r) mod period r < period r" using period_pos(1) by simp
  then show ?thesis using period_pos(2) [of r] unfolding wrapped_def by (cases "v < 2 ^ 26") simp_all
qed

lemma run_timer_loop_counter:
  "unat (Counter (Timers (run_timer_loop ext tid nds) tid)) =
    wrapped (Reload (Timers nds tid)) (unat (Counter (Timers nds tid)))"
proof (induction ext tid nds rule: run_timer_loop.induct)
  case (1 ext tid nds)
  show ?case
  proof (cases "drop_bit 26 (Counter (Timers nds tid)) = 0")
    case True
    then show ?thesis
      by (subst run_timer_loop.simps) (simp only: not_True_eq_False if_False over26 wrapped_def if_True)
  next
    case False
    have "2 ^ 26 \<le> unat (Counter (Timers nds tid))" using False by (simp only: over26 not_less)
    then show ?thesis using "1.IH" [OF False] False
      by (subst run_timer_loop.simps)
        (simp only: not_False_eq_True if_True turn_counter overflow_step(1) wrapped_step)
  qed
qed

section \<open>Interrupts of an overflow\<close>

lemma IF_frame:
  "IF (SetIRQ ext c i nds) = (IF nds)(c := IF nds c OR push_bit i 1)"
  "IF (check_NDMAs ext c m nds) = IF nds" "IF (upd_timer tid f nds) = IF nds"
  by (simp_all add: SetIRQ_def UpdateIRQ_def check_NDMAs_def StopCPU_def cpu_Halt_def upd_timer_def Let_def
      split: prod.split)

lemma IF_timer_signal:
  "IF (timer_signal ext tid nds) =
    (if tst (Cnt (Timers nds tid)) 0x40
     then (IF nds)(tid div 4 := IF nds (tid div 4) OR push_bit (IRQ_Timer0 + tid mod 4) 1) else IF nds)"
  by (simp only: timer_signal_def Let_def IF_frame if_distrib [of IF] if_cancel split: if_split)

lemma bit_timer_signal:
  "bit (IF (timer_signal ext tid nds) c) i \<longleftrightarrow> bit (IF nds c) i \<or>
    (c = tid div 4 \<and> i = IRQ_Timer0 + tid mod 4 \<and> tst (Cnt (Timers nds tid)) 0x40)"
proof -
  have "IRQ_Timer0 + tid mod 4 < 32" by (simp add: irq_ids)
  then have "bit (w OR push_bit (IRQ_Timer0 + tid mod 4) 1) i \<longleftrightarrow> bit w i \<or> i = IRQ_Timer0 + tid mod 4" for w :: u32
    by (simp only: bit_or_iff bit_push1) blast
  then show ?thesis by (auto simp: IF_timer_signal)
qed

text \<open>A cascade requests only interrupts of later timers.\<close>

lemma cascade_IF:
  "i \<le> IRQ_Timer0 + tid mod 4 \<Longrightarrow> bit (IF (cascade ext tid nds) c) i \<longleftrightarrow> bit (IF nds c) i"
proof (induction ext tid nds rule: cascade.induct)
  case (1 ext tid nds)
  show ?case
  proof (cases "tid mod 4 = 3 \<or> Cnt (Timers nds (tid + 1)) AND 0x84 \<noteq> 0x84")
    case True
    then show ?thesis by (subst cascade.simps) (auto simp: Let_def)
  next
    case False
    then have "(tid + 1) mod 4 = tid mod 4 + 1" by (simp add: mod_Suc)
    then have "i \<le> IRQ_Timer0 + (tid + 1) mod 4" "i \<noteq> IRQ_Timer0 + (tid + 1) mod 4" using "1.prems" by auto
    then show ?thesis using False "1.IH" bit_timer_signal [of ext "tid + 1"]
      by (subst cascade.simps) (simp add: Let_def IF_frame)
  qed
qed

lemma overflow_IF:
  "i \<le> IRQ_Timer0 + tid mod 4 \<Longrightarrow>
    bit (IF (HandleTimerOverflow ext tid (upd_timer tid (\<lambda>t. t\<lparr>Counter := Counter t - k\<rparr>) nds)) c) i \<longleftrightarrow>
      bit (IF nds c) i \<or> (c = tid div 4 \<and> i = IRQ_Timer0 + tid mod 4 \<and> tst (Cnt (Timers nds tid)) 0x40)"
  by (simp add: HandleTimerOverflow_def Let_def cascade_IF bit_timer_signal IF_frame)

lemma run_timer_loop_IF:
  "i \<le> IRQ_Timer0 + tid mod 4 \<Longrightarrow>
    bit (IF (run_timer_loop ext tid nds) c) i \<longleftrightarrow> bit (IF nds c) i \<or>
      (2 ^ 26 \<le> unat (Counter (Timers nds tid)) \<and> c = tid div 4 \<and> i = IRQ_Timer0 + tid mod 4 \<and>
       tst (Cnt (Timers nds tid)) 0x40)"
proof (induction ext tid nds rule: run_timer_loop.induct)
  case (1 ext tid nds)
  show ?case
  proof (cases "drop_bit 26 (Counter (Timers nds tid)) = 0")
    case True
    moreover from this have "\<not> 2 ^ 26 \<le> unat (Counter (Timers nds tid))" by (simp only: over26 not_le)
    ultimately show ?thesis by (subst run_timer_loop.simps) simp
  next
    case False
    then have "2 ^ 26 \<le> unat (Counter (Timers nds tid))" by (simp only: over26 not_less)
    then show ?thesis using "1.IH" [OF False "1.prems"] False overflow_IF [OF "1.prems"]
      by (subst run_timer_loop.simps) (simp only: not_False_eq_True if_True turn_counter simp_thms, blast)
  qed
qed

text \<open>The counter with the elapsed ticks added.\<close>

definition ticked :: "'x nds \<Rightarrow> nat \<Rightarrow> s32 \<Rightarrow> nat" where
  "ticked nds tid cycles =
     unat (Counter (Timers nds tid) + push_bit (unat (CycleShift (Timers nds tid))) cycles)"

text \<open>C15.  \<open>RunTimer\<close> adds the elapsed ticks and reloads as often as the counter overflows: below \<open>2\<^sup>2\<^sup>6\<close> the
  sum is kept, above it the count continues from the reload value modulo the period
  \<open>2\<^sup>2\<^sup>6 - 1024 * Reload\<close>.  The result is always below \<open>2\<^sup>2\<^sup>6\<close>, and the timer's interrupt is requested exactly if
  the counter overflowed and bit 6 of its control register is set.\<close>

theorem RunTimer_counts:
  "unat (Counter (Timers (RunTimer ext tid cycles nds) tid)) =
      wrapped (Reload (Timers nds tid)) (ticked nds tid cycles) \<and>
    Counter (Timers (RunTimer ext tid cycles nds) tid) < 2 ^ 26 \<and>
    (bit (IF (RunTimer ext tid cycles nds) (tid div 4)) (IRQ_Timer0 + tid mod 4) \<longleftrightarrow>
      bit (IF nds (tid div 4)) (IRQ_Timer0 + tid mod 4) \<or>
      2 ^ 26 \<le> ticked nds tid cycles \<and> tst (Cnt (Timers nds tid)) 0x40)"
proof -
  have c: "unat (Counter (Timers (RunTimer ext tid cycles nds) tid)) =
      wrapped (Reload (Timers nds tid)) (ticked nds tid cycles)"
    by (simp add: RunTimer_def run_timer_loop_counter ticked_def)
  moreover have "Counter (Timers (RunTimer ext tid cycles nds) tid) < 2 ^ 26"
    using c wrapped_less by (simp add: word_less_nat_alt)
  moreover have "bit (IF (RunTimer ext tid cycles nds) (tid div 4)) (IRQ_Timer0 + tid mod 4) \<longleftrightarrow>
      bit (IF nds (tid div 4)) (IRQ_Timer0 + tid mod 4) \<or> 2 ^ 26 \<le> ticked nds tid cycles \<and> tst (Cnt (Timers nds tid)) 0x40"
    unfolding RunTimer_def by (subst run_timer_loop_IF) (simp_all add: IF_frame ticked_def)
  ultimately show ?thesis by blast
qed

section \<open>All counters are below 2^26\<close>

definition counters_ok :: "nat set \<Rightarrow> 'x nds \<Rightarrow> bool" where
  "counters_ok S nds \<longleftrightarrow> (\<forall>i \<in> S. unat (Counter (Timers nds i)) < 2 ^ 26)"

lemma counters_ok_frame:
  "Timers nds' = Timers nds \<Longrightarrow> counters_ok S nds' = counters_ok S nds"
  by (simp add: counters_ok_def)

lemma counters_ok_upd:
  "counters_ok S nds \<Longrightarrow> tid \<in> S \<Longrightarrow> unat (Counter (f (Timers nds tid))) < 2 ^ 26 \<Longrightarrow>
    counters_ok S (upd_timer tid f nds)"
  by (auto simp: counters_ok_def)

lemma counters_ok_upd_out: "tid \<notin> S \<Longrightarrow> counters_ok S (upd_timer tid f nds) = counters_ok S nds"
  by (auto simp: counters_ok_def)

lemma cascade_ok: "counters_ok S nds \<Longrightarrow> counters_ok S (cascade ext tid nds)"
proof (induction ext tid nds rule: cascade.induct)
  case (1 ext tid nds)
  define m where "m = upd_timer (tid + 1) (\<lambda>t. t\<lparr>Counter := Counter t + push_bit 10 1\<rparr>) nds"
  define m' where "m' = upd_timer (tid + 1) (\<lambda>t. t\<lparr>Counter := push_bit 10 (ucast (Reload t))\<rparr>) m"
  have m: "counters_ok S m" if "drop_bit 26 (Counter (Timers m (tid + 1))) = 0"
    using that "1.prems" by (simp only: over26) (auto simp: counters_ok_def m_def)
  have "counters_ok S m'"
    using "1.prems" reload_units
    by (simp only: counters_ok_def m'_def m_def upd_timer_Timers) (auto simp del: push_bit_eq_mult)
  then have m': "counters_ok S (timer_signal ext (tid + 1) m')" by (simp add: counters_ok_def)
  show ?case
    using "1.prems" m m' "1.IH" by (subst cascade.simps) (simp add: Let_def m_def m'_def)
qed

text \<open>The running timer's own counter is out of range only inside the loop.\<close>

lemma run_timer_loop_other: "tid \<notin> S \<Longrightarrow> counters_ok S nds \<Longrightarrow> counters_ok S (run_timer_loop ext tid nds)"
proof (induction ext tid nds rule: run_timer_loop.induct)
  case (1 ext tid nds)
  have "counters_ok S (timer_signal ext tid x) = counters_ok S x" for x :: "'a nds"
    by (rule counters_ok_frame) simp
  then have "counters_ok S (HandleTimerOverflow ext tid (upd_timer tid f nds))" for f
    unfolding HandleTimerOverflow_def Let_def
    by (intro cascade_ok) (simp only: counters_ok_upd_out [OF "1.prems"(1)] "1.prems"(2))
  then show ?case using "1.IH" "1.prems" by (subst run_timer_loop.simps) simp
qed

lemma RunTimer_ok: "counters_ok UNIV nds \<Longrightarrow> counters_ok UNIV (RunTimer ext tid cycles nds)"
proof -
  assume ok: "counters_ok UNIV nds"
  then have "counters_ok (- {tid}) nds" by (simp add: counters_ok_def)
  then have "counters_ok (- {tid}) (RunTimer ext tid cycles nds)"
    unfolding RunTimer_def by (intro run_timer_loop_other) (simp_all add: counters_ok_upd_out)
  moreover have "unat (Counter (Timers (RunTimer ext tid cycles nds) tid)) < 2 ^ 26"
    unfolding RunTimer_def run_timer_loop_counter by (rule wrapped_less)
  ultimately show ?thesis by (auto simp: counters_ok_def)
qed

lemma RunTimers_ok: "counters_ok UNIV nds \<Longrightarrow> counters_ok UNIV (RunTimers ext cpu nds)"
  by (simp add: RunTimers_def Let_def RunTimer_ok counters_ok_frame [of "_\<lparr>TimerTimestamp := _\<rparr>"])

lemma drop10_count: "unat c < 2 ^ 26 \<Longrightarrow> unat (ucast (drop_bit 10 c) :: u16) = unat c div 1024" for c :: u32
proof -
  assume c: "unat c < 2 ^ 26"
  have "take_bit 32 (unat c) = unat c"
    by (rule take_bit_nat_eq_self) (use unsigned_less [of c, where ?'a = nat] in simp)
  then have d: "unat (drop_bit 10 c) = unat c div 1024"
    by (simp only: unsigned_drop_bit_eq drop_bit_eq_div [of _ "_ :: nat"]) simp
  have "unat (ucast (drop_bit 10 c) :: u16) = take_bit 16 (unat (drop_bit 10 c))"
    by (simp only: unsigned_ucast_eq) simp
  also have "\<dots> = unat (drop_bit 10 c)" by (rule take_bit_nat_eq_self) (use c in \<open>simp add: d\<close>)
  finally show ?thesis by (simp only: d)
qed

text \<open>No timer register operation lets a counter reach \<open>2\<^sup>2\<^sup>6\<close>: running the timers of a CPU, reading a
  counter, writing a reload value or a control register (16 or 32 bits) all keep every counter below it,
  and so the 16-bit value read is exactly the integer part of the counter.\<close>

lemma timer_counters_bounded:
  fixes nds :: "'x nds" and ext :: "'x nds_ext"
  assumes "counters_ok UNIV nds"
  shows "counters_ok UNIV (RunTimers ext cpu nds) \<and> counters_ok UNIV (TimerStart ext tid cnt nds) \<and>
    counters_ok UNIV (WriteTimerReload tid r nds) \<and> counters_ok UNIV (WriteTimer32 ext tid v nds) \<and>
    counters_ok UNIV (snd (TimerGetCounter ext tid nds)) \<and>
    unat (fst (TimerGetCounter ext tid nds)) =
      unat (Counter (Timers (snd (TimerGetCounter ext tid nds)) tid)) div 1024"
proof -
  have start: "counters_ok UNIV (TimerStart ext tid cnt nds)" if "counters_ok UNIV nds" for cnt and nds :: "'x nds"
  proof -
    have "counters_ok UNIV (upd_timer tid (\<lambda>t. t\<lparr>Cnt := c, CycleShift := s\<rparr>) (RunTimers ext (tid div 4) nds))" for c s
      using RunTimers_ok [OF that, of ext "tid div 4"] by (intro counters_ok_upd) (simp_all add: counters_ok_def)
    moreover from this have "counters_ok UNIV (upd_timer tid (\<lambda>t. t\<lparr>Counter := push_bit 10 (ucast (Reload t))\<rparr>)
        (upd_timer tid (\<lambda>t. t\<lparr>Cnt := c, CycleShift := s\<rparr>) (RunTimers ext (tid div 4) nds)))" for c s
      by (rule counters_ok_upd) (use reload_units in auto)
    ultimately show ?thesis
      by (simp add: TimerStart_def Let_def counters_ok_frame [of "_\<lparr>TimerCheckMask := _\<rparr>"])
  qed
  have reload: "counters_ok UNIV (WriteTimerReload tid r nds)" for r
    using assms unfolding WriteTimerReload_def by (intro counters_ok_upd) (simp_all add: counters_ok_def)
  have run: "counters_ok UNIV (RunTimers ext c nds)" for c using RunTimers_ok [OF assms] .
  then have "unat (Counter (Timers (RunTimers ext (tid div 4) nds) tid)) < 2 ^ 26" by (simp add: counters_ok_def)
  then have "unat (fst (TimerGetCounter ext tid nds)) =
      unat (Counter (Timers (snd (TimerGetCounter ext tid nds)) tid)) div 1024"
    using drop10_count by (simp add: TimerGetCounter_def Let_def)
  then show ?thesis using start [OF assms] start [OF reload] reload run
    by (simp add: WriteTimer32_def TimerGetCounter_def Let_def)
qed

lemma timer_counters_bounded_witness:
  "\<forall>ext. counters_ok UNIV (TimerStart ext 0 0x80
     ((undefined :: unit nds)\<lparr>Timers := (\<lambda>i. \<lparr>Reload = 0, Cnt = 0, Counter = 0, CycleShift = 0\<rparr>)\<rparr>))"
proof
  fix ext :: "unit nds_ext"
  have "counters_ok UNIV ((undefined :: unit nds)\<lparr>Timers := (\<lambda>i. \<lparr>Reload = 0, Cnt = 0, Counter = 0, CycleShift = 0\<rparr>)\<rparr>)"
    by (simp add: counters_ok_def)
  from timer_counters_bounded [OF this, of ext 0 0 "0x80"]
  show "counters_ok UNIV (TimerStart ext 0 0x80
     ((undefined :: unit nds)\<lparr>Timers := (\<lambda>i. \<lparr>Reload = 0, Cnt = 0, Counter = 0, CycleShift = 0\<rparr>)\<rparr>))" by blast
qed

section \<open>Chained timers\<close>

lemma cascade_next:
  assumes "tid mod 4 \<noteq> 3" "Cnt (Timers nds (tid + 1)) AND 0x84 = 0x84"
  shows "Timers (cascade ext tid nds) (tid + 1) =
    (let t = Timers nds (tid + 1); c = Counter t + push_bit 10 1
     in if drop_bit 26 c = 0 then t\<lparr>Counter := c\<rparr> else t\<lparr>Counter := push_bit 10 (ucast (Reload t))\<rparr>)"
  using assms by (subst cascade.simps) (simp add: Let_def cascade_other)

text \<open>A count-up timer and its predecessor, both with reload value 0.\<close>

definition chained :: "nat \<Rightarrow> 'x nds \<Rightarrow> bool" where
  "chained tid nds \<longleftrightarrow> tid mod 4 \<noteq> 3 \<and> Cnt (Timers nds (tid + 1)) AND 0x84 = 0x84 \<and>
     Reload (Timers nds tid) = 0 \<and> Reload (Timers nds (tid + 1)) = 0 \<and>
     1024 dvd unat (Counter (Timers nds (tid + 1))) \<and> unat (Counter (Timers nds (tid + 1))) < 2 ^ 26"

definition high_units :: "nat \<Rightarrow> 'x nds \<Rightarrow> nat" where
  "high_units tid nds = 2 ^ 16 * unat (Counter (Timers nds (tid + 1)))"

lemma chained_turn:
  fixes nds :: "'x nds" and ext :: "'x nds_ext"
  assumes ch: "chained tid nds" and c: "drop_bit 26 (Counter (Timers nds tid)) \<noteq> 0"
  defines "nds' \<equiv> HandleTimerOverflow ext tid (upd_timer tid (\<lambda>t. t\<lparr>Counter := Counter t - push_bit 26 1\<rparr>) nds)"
  shows "chained tid nds'"
    "(high_units tid nds' + unat (Counter (Timers nds' tid))) mod 2 ^ 42 =
     (high_units tid nds + unat (Counter (Timers nds tid))) mod 2 ^ 42"
proof -
  define c1 where "c1 = Counter (Timers nds (tid + 1))"
  note ch = ch [unfolded chained_def, folded c1_def]
  have next_t: "Timers nds' (tid + 1) =
      (if drop_bit 26 (c1 + push_bit 10 1) = 0 then (Timers nds (tid + 1))\<lparr>Counter := c1 + push_bit 10 1\<rparr>
       else (Timers nds (tid + 1))\<lparr>Counter := push_bit 10 (ucast (Reload (Timers nds (tid + 1))))\<rparr>)"
    unfolding nds'_def HandleTimerOverflow_def Let_def using ch
    by (subst cascade_next) (simp_all add: Let_def c1_def)
  have "unat (c1 + push_bit 10 1) = (unat c1 + 1024) mod 2 ^ 32" by (simp add: unat_word_ariths)
  then have plus: "unat (c1 + push_bit 10 1) = unat c1 + 1024" using ch by simp
  obtain k where k: "unat c1 = 1024 * k" using ch by (auto elim: dvdE)
  have C1: "unat (Counter (Timers nds' (tid + 1))) = (if unat c1 + 1024 < 2 ^ 26 then unat c1 + 1024 else 0)"
    by (simp only: next_t over26 plus) (use ch plus in simp)
  have C0: "unat (Counter (Timers nds' tid)) = unat (Counter (Timers nds tid)) - 2 ^ 26"
    unfolding nds'_def turn_counter overflow_step(1) [OF c] using ch by (simp add: period_def)
  have c26: "2 ^ 26 \<le> unat (Counter (Timers nds tid))" using c by (simp only: over26 not_less)
  have "Reload (Timers nds' (tid + 1)) = 0" "Cnt (Timers nds' (tid + 1)) AND 0x84 = 0x84"
    unfolding next_t using ch by auto
  moreover have "Reload (Timers nds' tid) = 0" unfolding nds'_def turn_counter using ch by simp
  ultimately show "chained tid nds'" using ch C1 by (auto simp: chained_def)
  show "(high_units tid nds' + unat (Counter (Timers nds' tid))) mod 2 ^ 42 =
     (high_units tid nds + unat (Counter (Timers nds tid))) mod 2 ^ 42"
  proof (cases "unat c1 + 1024 < 2 ^ 26")
    case True
    then show ?thesis using C0 C1 c26 by (simp add: high_units_def c1_def)
  next
    case False
    then have "k = 65535" using k ch by simp
    then have "high_units tid nds + unat (Counter (Timers nds tid)) =
        (high_units tid nds' + unat (Counter (Timers nds' tid))) + 2 ^ 42"
      using False C0 C1 c26 k by (simp add: high_units_def c1_def)
    then show ?thesis by (simp only: mod_add_self2)
  qed
qed

lemma chained_loop:
  "chained tid nds \<Longrightarrow>
    (high_units tid (run_timer_loop ext tid nds) + unat (Counter (Timers (run_timer_loop ext tid nds) tid))) mod 2 ^ 42 =
    (high_units tid nds + unat (Counter (Timers nds tid))) mod 2 ^ 42 \<and> chained tid (run_timer_loop ext tid nds)"
proof (induction ext tid nds rule: run_timer_loop.induct)
  case (1 ext tid nds)
  show ?case
  proof (cases "drop_bit 26 (Counter (Timers nds tid)) = 0")
    case True
    then show ?thesis using "1.prems" by (subst (1 2 3) run_timer_loop.simps) simp
  next
    case False
    then show ?thesis using "1.IH" [OF False chained_turn(1) [OF "1.prems" False]] chained_turn(2) [OF "1.prems" False]
      by (subst (1 2 3) run_timer_loop.simps) (simp only: not_False_eq_True if_True)
  qed
qed

text \<open>C16.  A timer and the count-up timer after it, both reloading 0, form one counter of twice the width: running the
  first adds its ticks to the 42-bit count whose upper 32 bits the two registers hold, modulo \<open>2\<^sup>4\<^sup>2\<close>.\<close>

theorem chained_timers_count:
  assumes "chained tid nds"
  shows "high_units tid (RunTimer ext tid cycles nds) + unat (Counter (Timers (RunTimer ext tid cycles nds) tid)) =
    (high_units tid nds + ticked nds tid cycles) mod 2 ^ 42"
proof -
  let ?nds = "upd_timer tid (\<lambda>t. t\<lparr>Counter := Counter t + push_bit (unat (CycleShift t)) cycles\<rparr>) nds"
  let ?r = "RunTimer ext tid cycles nds"
  have "chained tid ?nds" using assms by (simp add: chained_def)
  note loop = chained_loop [OF this, of ext, folded RunTimer_def]
  have "unat (Counter (Timers ?r tid)) < 2 ^ 26" unfolding RunTimer_def run_timer_loop_counter by (rule wrapped_less)
  moreover have "high_units tid ?r \<le> 2 ^ 42 - 2 ^ 26"
  proof -
    obtain k where "unat (Counter (Timers ?r (tid + 1))) = 1024 * k" "1024 * k < 2 ^ 26"
      using loop by (auto simp: chained_def elim!: dvdE)
    then show ?thesis by (simp add: high_units_def)
  qed
  ultimately have "(high_units tid ?r + unat (Counter (Timers ?r tid))) mod 2 ^ 42 =
      high_units tid ?r + unat (Counter (Timers ?r tid))" by (intro mod_less) simp
  moreover have "high_units tid ?nds = high_units tid nds" "unat (Counter (Timers ?nds tid)) = ticked nds tid cycles"
    by (simp_all add: high_units_def ticked_def)
  ultimately show ?thesis using loop by metis
qed

theorem chained_timers_count_witness:
  "\<forall>ext. let nds = (undefined :: unit nds)\<lparr>Timers := (\<lambda>i. \<lparr>Reload = 0, Cnt = 0x84, Counter = 0, CycleShift = 10\<rparr>)\<rparr>
   in high_units 0 (RunTimer ext 0 0x10001 nds) + unat (Counter (Timers (RunTimer ext 0 0x10001 nds) 0)) = 0x10001 * 1024"
proof
  fix ext :: "unit nds_ext"
  let ?nds = "(undefined :: unit nds)\<lparr>Timers := (\<lambda>i. \<lparr>Reload = 0, Cnt = 0x84, Counter = 0, CycleShift = 10\<rparr>)\<rparr>"
  have "chained 0 ?nds" by (simp add: chained_def)
  from chained_timers_count [OF this, of ext "0x10001"] show "let nds = ?nds
     in high_units 0 (RunTimer ext 0 0x10001 nds) + unat (Counter (Timers (RunTimer ext 0 0x10001 nds) 0)) = 0x10001 * 1024"
    by (simp add: ticked_def high_units_def Let_def)
qed

end
