(* ===== verification/Maths.thy ===== *)
theory Maths
  imports Irq "HOL-Library.Signed_Division"
begin

text \<open>
  The divider and the square-root unit of the ARM9 (\<^verbatim>\<open>src/src/NDS.cpp\<close>): their registers, the
  delayed computations \<open>DivDone\<close> and \<open>SqrtDone\<close> that the scheduler runs, and the register writes that
  start them.  C's signed division is \<^const>\<open>signed_divide\<close> and \<^const>\<open>signed_modulo\<close> on the signed
  readings of the operands; the code excludes the two cases where C leaves it undefined.
\<close>

section \<open>Code\<close>

text \<open>\<open>*(s64*)&a[0]\<close> on an aligned pair of 32-bit registers, on a little-endian host.\<close>

definition get64 :: "(nat \<Rightarrow> u32) \<Rightarrow> u64" where
  "get64 a = ucast (a 0) OR push_bit 32 (ucast (a 1))"

definition put64 :: "u64 \<Rightarrow> (nat \<Rightarrow> u32) \<Rightarrow> (nat \<Rightarrow> u32)" where
  "put64 v a = a(0 := ucast v, 1 := ucast (drop_bit 32 v))"

text \<open>The two 64-bit branches share their text; \<open>den\<close> is the sign-extended divisor.\<close>

definition div64 :: "u64 \<Rightarrow> u64 \<Rightarrow> 'x nds \<Rightarrow> 'x nds" where
  "div64 num den nds =
     (if den = 0 then
        nds\<lparr>DivQuotient := put64 (if sint num < 0 then 1 else - 1) (DivQuotient nds),
            DivRemainder := put64 num (DivRemainder nds)\<rparr>
      else if num = 0x8000000000000000 \<and> den = - 1 then
        nds\<lparr>DivQuotient := put64 0x8000000000000000 (DivQuotient nds),
            DivRemainder := put64 0 (DivRemainder nds)\<rparr>
      else
        nds\<lparr>DivQuotient := put64 (word_of_int (sint num sdiv sint den)) (DivQuotient nds),
            DivRemainder := put64 (word_of_int (sint num smod sint den)) (DivRemainder nds)\<rparr>)"

definition div32 :: "s32 \<Rightarrow> s32 \<Rightarrow> 'x nds \<Rightarrow> 'x nds" where
  "div32 num den nds =
     (if den = 0 then
        nds\<lparr>DivQuotient := (DivQuotient nds)(0 := if sint num < 0 then 1 else - 1, 1 := if sint num < 0 then - 1 else 0),
            DivRemainder := put64 (scast num) (DivRemainder nds)\<rparr>
      else if num = 0x80000000 \<and> den = - 1 then
        nds\<lparr>DivQuotient := put64 0x80000000 (DivQuotient nds)\<rparr>
      else
        nds\<lparr>DivQuotient := put64 (word_of_int (sint num sdiv sint den)) (DivQuotient nds),
            DivRemainder := put64 (word_of_int (sint num smod sint den)) (DivRemainder nds)\<rparr>)"

definition DivDone :: "u32 \<Rightarrow> 'x nds \<Rightarrow> 'x nds" where
  "DivDone param nds =
     (let nds = nds\<lparr>DivCnt := DivCnt nds AND NOT 0xC000\<rparr>;
          nds = (if DivCnt nds AND 0x3 = 0 then div32 (DivNumerator nds 0) (DivDenominator nds 0) nds
                 else if DivCnt nds AND 0x3 = 2 then div64 (get64 (DivNumerator nds)) (get64 (DivDenominator nds)) nds
                 else div64 (get64 (DivNumerator nds)) (scast (DivDenominator nds 0)) nds)
      in if DivDenominator nds 0 OR DivDenominator nds 1 = 0 then nds\<lparr>DivCnt := DivCnt nds OR 0x4000\<rparr> else nds)"

definition StartDiv :: "'x nds \<Rightarrow> 'x nds" where
  "StartDiv nds =
     (let nds = CancelEvent Event_Div nds;
          nds = nds\<lparr>DivCnt := DivCnt nds OR 0x8000\<rparr>
      in ScheduleEvent Event_Div False (if DivCnt nds AND 0x3 = 0 then 18 else 34) 0 0 nds)"

text \<open>The loop of \<open>SqrtDone\<close>; \<open>n\<close> turns are left.  \<open>prod\<close> is a \<open>u32\<close>, compared with the \<open>u64\<close> \<open>rem\<close>.\<close>

primrec sqrt_loop :: "nat \<Rightarrow> nat \<Rightarrow> u64 \<Rightarrow> u64 \<Rightarrow> u32 \<Rightarrow> u32" where
  "sqrt_loop topshift 0 val rem res = res"
| "sqrt_loop topshift (Suc n) val rem res =
     (let rem = push_bit 2 rem + (drop_bit topshift val AND 0x3);
          val = push_bit 2 val;
          res = push_bit 1 res;
          prod = push_bit 1 res + 1
      in if ucast prod \<le> rem then sqrt_loop topshift n val (rem - ucast prod) (res + 1)
         else sqrt_loop topshift n val rem res)"

definition SqrtDone :: "u32 \<Rightarrow> 'x nds \<Rightarrow> 'x nds" where
  "SqrtDone param nds =
     (let nds = nds\<lparr>SqrtCnt := SqrtCnt nds AND NOT 0x8000\<rparr>;
          (val, nbits, topshift) =
            (if tst (SqrtCnt nds) 0x1 then (get64 (SqrtVal nds), 32, 62) else (ucast (SqrtVal nds 0), 16, 30))
      in nds\<lparr>SqrtRes := sqrt_loop topshift nbits val 0 0\<rparr>)"

definition StartSqrt :: "'x nds \<Rightarrow> 'x nds" where
  "StartSqrt nds =
     (let nds = CancelEvent Event_Sqrt nds;
          nds = nds\<lparr>SqrtCnt := SqrtCnt nds OR 0x8000\<rparr>
      in ScheduleEvent Event_Sqrt False 13 0 0 nds)"

text \<open>The register writes (\<open>ARM9IOWrite16\<close>, \<open>ARM9IOWrite32\<close>).\<close>

definition WriteDivCnt :: "u16 \<Rightarrow> 'x nds \<Rightarrow> 'x nds" where
  "WriteDivCnt v nds = StartDiv (nds\<lparr>DivCnt := v\<rparr>)"

definition WriteDivNumerator :: "nat \<Rightarrow> u32 \<Rightarrow> 'x nds \<Rightarrow> 'x nds" where
  "WriteDivNumerator i v nds = StartDiv (nds\<lparr>DivNumerator := (DivNumerator nds)(i := v)\<rparr>)"

definition WriteDivDenominator :: "nat \<Rightarrow> u32 \<Rightarrow> 'x nds \<Rightarrow> 'x nds" where
  "WriteDivDenominator i v nds = StartDiv (nds\<lparr>DivDenominator := (DivDenominator nds)(i := v)\<rparr>)"

definition WriteSqrtCnt :: "u16 \<Rightarrow> 'x nds \<Rightarrow> 'x nds" where
  "WriteSqrtCnt v nds = StartSqrt (nds\<lparr>SqrtCnt := v\<rparr>)"

definition WriteSqrtVal :: "nat \<Rightarrow> u32 \<Rightarrow> 'x nds \<Rightarrow> 'x nds" where
  "WriteSqrtVal i v nds = StartSqrt (nds\<lparr>SqrtVal := (SqrtVal nds)(i := v)\<rparr>)"

section \<open>Division\<close>

lemma get_put64 [simp]: "get64 (put64 v a) = v"
proof (rule bit_word_eqI)
  fix n
  assume "n < LENGTH(64)"
  then show "bit (get64 (put64 v a)) n = bit v n"
    by (auto simp: get64_def put64_def bit_simps)
qed

text \<open>C's truncated division: the quotient and remainder that the registers must hold.\<close>

definition c_division :: "int \<Rightarrow> int \<Rightarrow> int \<Rightarrow> int \<Rightarrow> bool" where
  "c_division num den q r \<longleftrightarrow> num = q * den + r \<and> \<bar>r\<bar> < \<bar>den\<bar> \<and> (r \<noteq> 0 \<longrightarrow> sgn r = sgn num)"

lemma c_division_sdiv: "den \<noteq> 0 \<Longrightarrow> c_division num den (num sdiv den) (num smod den)"
  unfolding c_division_def
proof (intro conjI impI)
  assume den: "den \<noteq> 0"
  have m: "0 \<le> \<bar>num\<bar> mod \<bar>den\<bar>" "\<bar>num\<bar> mod \<bar>den\<bar> < \<bar>den\<bar>" using den by simp_all
  show "num = num sdiv den * den + num smod den" by (simp add: sdiv_mult_smod_eq)
  show "\<bar>num smod den\<bar> < \<bar>den\<bar>" using m den by (auto simp: signed_modulo_int_def abs_mult abs_sgn_eq)
  show "sgn (num smod den) = sgn num" if "num smod den \<noteq> 0"
  proof -
    have "\<bar>num\<bar> mod \<bar>den\<bar> \<noteq> 0" using that by (auto simp: signed_modulo_int_def)
    then have "sgn (\<bar>num\<bar> mod \<bar>den\<bar>) = 1" using m(1) by (simp add: sgn_if)
    then show ?thesis by (simp add: signed_modulo_int_def sgn_mult)
  qed
qed

lemma sint_of_int64: "- (2 ^ 63) \<le> k \<Longrightarrow> k < 2 ^ 63 \<Longrightarrow> sint (word_of_int k :: u64) = k"
  by (simp add: signed_of_int signed_take_bit_int_eq_self)

lemma sdiv_range64:
  fixes num den :: int
  assumes "- (2 ^ 63) \<le> num" "num < 2 ^ 63" "den \<noteq> 0" "\<not> (num = - (2 ^ 63) \<and> den = - 1)"
  shows "- (2 ^ 63) \<le> num sdiv den" "num sdiv den < 2 ^ 63" "- (2 ^ 63) \<le> num smod den" "num smod den < 2 ^ 63"
proof -
  have q: "- \<bar>num\<bar> \<le> num sdiv den" "num sdiv den \<le> \<bar>num\<bar>" using sdiv_int_range [of num den] by auto
  have r: "\<bar>num smod den\<bar> \<le> \<bar>num\<bar>"
    using zmod_le_nonneg_dividend [of "\<bar>num\<bar>" "\<bar>den\<bar>"] assms(3)
    by (auto simp: signed_modulo_int_def abs_mult abs_sgn_eq)
  show "- (2 ^ 63) \<le> num sdiv den" using q(1) assms(1,2) by linarith
  show "num sdiv den < 2 ^ 63"
  proof (cases "num = - (2 ^ 63)")
    case True
    then have "num sdiv den \<noteq> - num" using assms(3,4) int_sdiv_negated_is_minus1 [of num den] by auto
    moreover have "\<bar>num\<bar> = 2 ^ 63" "- num = 2 ^ 63" using True by simp_all
    ultimately show ?thesis using q(2) by linarith
  next
    case False
    then show ?thesis using q(2) assms(1,2) by linarith
  qed
  show "num smod den < 2 ^ 63"
  proof (cases "num = - (2 ^ 63)")
    case True
    have "0 \<le> \<bar>num\<bar> mod \<bar>den\<bar>" using assms(3) by simp
    moreover have "num smod den = - (\<bar>num\<bar> mod \<bar>den\<bar>)" using True by (simp add: signed_modulo_int_def)
    moreover have "(0 :: int) < 2 ^ 63" by simp
    ultimately show ?thesis by linarith
  next
    case False
    then show ?thesis using r assms(1,2) by linarith
  qed
  show "- (2 ^ 63) \<le> num smod den" using r assms(1,2) by linarith
qed

lemma sint_bound64: "- (2 ^ 63) \<le> sint x" "sint x < 2 ^ 63" for x :: u64
  using sint_greater_eq [of x] sint_less [of x] by simp_all

lemma sint_ext64: "sint (scast x :: u64) = sint x" for x :: u32
  by (simp add: signed_scast_eq signed_take_bit_int_eq_self_iff) (use sint_bound32 [of x] in simp)

lemma sint_eq_iff64: "sint x = k \<longleftrightarrow> x = word_of_int k" if "- (2 ^ 63) \<le> k" "k < 2 ^ 63" for x :: u64
  using sint_of_int64 [OF that] of_int_sint [of x] by auto

definition div_num :: "'x nds \<Rightarrow> int" where
  "div_num nds = (if DivCnt nds AND 0x3 = 0 then sint (DivNumerator nds 0) else sint (get64 (DivNumerator nds)))"

definition div_den :: "'x nds \<Rightarrow> int" where
  "div_den nds = (if DivCnt nds AND 0x3 = 2 then sint (get64 (DivDenominator nds)) else sint (DivDenominator nds 0))"

definition div_quot :: "'x nds \<Rightarrow> int" where "div_quot nds = sint (get64 (DivQuotient nds))"

definition div_rem :: "'x nds \<Rightarrow> int" where "div_rem nds = sint (get64 (DivRemainder nds))"

text \<open>What one branch leaves in the result registers, in terms of the operands' signed values.\<close>

lemma div64_result:
  fixes n d :: int
  assumes "sint num = n" "sint den = d"
  shows "d \<noteq> 0 \<Longrightarrow> \<not> (n = - (2 ^ 63) \<and> d = - 1) \<Longrightarrow>
      c_division n d (div_quot (div64 num den nds)) (div_rem (div64 num den nds))"
    "n = - (2 ^ 63) \<Longrightarrow> d = - 1 \<Longrightarrow> div_quot (div64 num den nds) = - (2 ^ 63) \<and> div_rem (div64 num den nds) = 0"
    "d = 0 \<Longrightarrow> div_quot (div64 num den nds) = (if n < 0 then 1 else - 1) \<and> div_rem (div64 num den nds) = n"
proof -
  have m: "(- 9223372036854775808 :: u64) = 9223372036854775808" by simp
  have e: "num = 0x8000000000000000 \<longleftrightarrow> n = - (2 ^ 63)" "den = - 1 \<longleftrightarrow> d = - 1" "den = 0 \<longleftrightarrow> d = 0"
    using sint_eq_iff64 [of "- (2 ^ 63)" num] sint_eq_iff64 [of "- 1" den] sint_eq_iff64 [of 0 den] assms by (simp_all add: m)
  show "c_division n d (div_quot (div64 num den nds)) (div_rem (div64 num den nds))"
    if "d \<noteq> 0" "\<not> (n = - (2 ^ 63) \<and> d = - 1)"
    using that sdiv_range64 [of n d] sint_bound64 [of num] c_division_sdiv [of d n] assms
    by (auto simp: div64_def e div_quot_def div_rem_def sint_of_int64)
  show "div_quot (div64 num den nds) = - (2 ^ 63) \<and> div_rem (div64 num den nds) = 0" if "n = - (2 ^ 63)" "d = - 1"
    using that by (simp add: div64_def e div_quot_def div_rem_def)
  show "div_quot (div64 num den nds) = (if n < 0 then 1 else - 1) \<and> div_rem (div64 num den nds) = n" if "d = 0"
    using that assms by (simp add: div64_def e div_quot_def div_rem_def)
qed

lemma put_neg32: "get64 (a(0 := 1, 1 := - 1)) = word_of_int (1 - 2 ^ 32)" "get64 (a(0 := - 1, 1 := 0)) = word_of_int (2 ^ 32 - 1)"
proof -
  have m: "(- 1 :: u32) = 0xFFFFFFFF" by simp
  show "get64 (a(0 := 1, 1 := - 1)) = word_of_int (1 - 2 ^ 32)" "get64 (a(0 := - 1, 1 := 0)) = word_of_int (2 ^ 32 - 1)"
    unfolding get64_def m by simp_all
qed

lemma sint_eq_iff32: "sint x = k \<longleftrightarrow> x = word_of_int k" if "- (2 ^ 31) \<le> k" "k < 2 ^ 31" for x :: u32
proof -
  have "sint (word_of_int k :: u32) = k" using that by (simp add: signed_of_int signed_take_bit_int_eq_self)
  then show ?thesis using of_int_sint [of x] by auto
qed

lemma div32_result:
  fixes n d :: int
  assumes "sint num = n" "sint den = d"
  shows "d \<noteq> 0 \<Longrightarrow> \<not> (n = - (2 ^ 31) \<and> d = - 1) \<Longrightarrow>
      c_division n d (div_quot (div32 num den nds)) (div_rem (div32 num den nds))"
    "n = - (2 ^ 31) \<Longrightarrow> d = - 1 \<Longrightarrow>
      div_quot (div32 num den nds) = 2 ^ 31 \<and> DivRemainder (div32 num den nds) = DivRemainder nds"
    "d = 0 \<Longrightarrow> div_quot (div32 num den nds) = (if n < 0 then 1 - 2 ^ 32 else 2 ^ 32 - 1) \<and> div_rem (div32 num den nds) = n"
proof -
  have m: "(- 2147483648 :: u32) = 2147483648" by simp
  have e: "num = 0x80000000 \<longleftrightarrow> n = - (2 ^ 31)" "den = - 1 \<longleftrightarrow> d = - 1" "den = 0 \<longleftrightarrow> d = 0"
    using sint_eq_iff32 [of "- (2 ^ 31)" num] sint_eq_iff32 [of "- 1" den] sint_eq_iff32 [of 0 den] assms
    by (simp_all add: m)
  have b: "- (2 ^ 31) \<le> n" "n < 2 ^ 31" using sint_bound32 [of num] assms(1) by simp_all
  then have n: "- (2 ^ 63) \<le> n" "n < 2 ^ 63" "n \<noteq> - (2 ^ 63)" by simp_all
  show "c_division n d (div_quot (div32 num den nds)) (div_rem (div32 num den nds))"
    if "d \<noteq> 0" "\<not> (n = - (2 ^ 31) \<and> d = - 1)"
    using that sdiv_range64 [of n d] n c_division_sdiv [of d n] assms
    by (auto simp: div32_def e div_quot_def div_rem_def sint_of_int64)
  show "div_quot (div32 num den nds) = 2 ^ 31 \<and> DivRemainder (div32 num den nds) = DivRemainder nds"
    if "n = - (2 ^ 31)" "d = - 1"
    using that by (simp add: div32_def e div_quot_def)
  show "div_quot (div32 num den nds) = (if n < 0 then 1 - 2 ^ 32 else 2 ^ 32 - 1) \<and> div_rem (div32 num den nds) = n"
    if "d = 0"
    using that assms put_neg32 [of "DivQuotient nds"]
    by (simp add: div32_def e div_quot_def div_rem_def sint_of_int64 sint_ext64)
qed

text \<open>Operand and control registers are inputs: only their status bits change.\<close>

lemma div_frame [simp]:
  "DivNumerator (div64 n d nds) = DivNumerator nds" "DivDenominator (div64 n d nds) = DivDenominator nds"
  "DivCnt (div64 n d nds) = DivCnt nds"
  "DivNumerator (div32 m e nds) = DivNumerator nds" "DivDenominator (div32 m e nds) = DivDenominator nds"
  "DivCnt (div32 m e nds) = DivCnt nds"
  by (simp_all add: div64_def div32_def)

lemma word_eq_0: "w = 0 \<longleftrightarrow> (\<forall>n. \<not> bit w n)" for w :: "'a::len word"
  by (metis bit_0_eq bit_word_eqI bot_apply bot_bool_def)

lemma get64_0: "get64 a = 0 \<longleftrightarrow> a 0 OR a 1 = 0"
proof -
  have "bit (get64 a) n \<longleftrightarrow> bit (a 0) n \<or> 32 \<le> n \<and> bit (a 1) (n - 32)" for n
    by (auto simp: get64_def bit_simps dest: bit_imp_le_length)
  then have "(\<forall>n. \<not> bit (get64 a) n) \<longleftrightarrow> (\<forall>n. \<not> bit (a 0) n) \<and> (\<forall>n. \<not> bit (a 1) n)"
    by (metis diff_add_inverse2 le_add2)
  then show ?thesis by (simp only: word_eq_0 bit_or_iff) blast
qed

text \<open>The status bits are cleared before the mode is read.\<close>

lemma DivDone_eq:
  fixes nds :: "'x nds" and p :: u32
  obtains c where "c AND 0x3 = DivCnt nds AND 0x3" "\<not> bit c 15" "\<not> bit c 14"
    "DivDone p nds =
      (let m = nds\<lparr>DivCnt := c\<rparr>;
           b = (if DivCnt nds AND 0x3 = 0 then div32 (DivNumerator nds 0) (DivDenominator nds 0) m
                else if DivCnt nds AND 0x3 = 2 then div64 (get64 (DivNumerator nds)) (get64 (DivDenominator nds)) m
                else div64 (get64 (DivNumerator nds)) (scast (DivDenominator nds 0)) m)
       in if get64 (DivDenominator nds) = 0 then b\<lparr>DivCnt := c OR 0x4000\<rparr> else b)"
proof -
  define c where "c = DivCnt nds AND NOT 0xC000"
  have "NOT 0xC000 AND 0x3 = (0x3 :: u16)" by simp
  then have 1: "c AND 0x3 = DivCnt nds AND 0x3" by (simp only: c_def and.assoc)
  have "\<not> bit (NOT 0xC000 :: u16) 15" "\<not> bit (NOT 0xC000 :: u16) 14" by simp_all
  then have 2: "\<not> bit c 15" "\<not> bit c 14" by (simp_all only: c_def bit_and_iff simp_thms)
  have 3: "DivDone p nds =
      (let m = nds\<lparr>DivCnt := c\<rparr>;
           b = (if DivCnt nds AND 0x3 = 0 then div32 (DivNumerator nds 0) (DivDenominator nds 0) m
                else if DivCnt nds AND 0x3 = 2 then div64 (get64 (DivNumerator nds)) (get64 (DivDenominator nds)) m
                else div64 (get64 (DivNumerator nds)) (scast (DivDenominator nds 0)) m)
       in if get64 (DivDenominator nds) = 0 then b\<lparr>DivCnt := c OR 0x4000\<rparr> else b)"
    unfolding DivDone_def c_def [symmetric] get64_0 by (simp add: Let_def 1)
  show ?thesis using 1 2 3 by (rule that)
qed

text \<open>C17.  The divider computes C's truncated division in every mode: quotient and remainder satisfy the
  division equation, with a remainder smaller than the divisor and of the dividend's sign.  The
  two cases C leaves undefined are pinned down: division by zero gives the dividend as remainder and a
  quotient of 1 or -1 (with the upper half inverted in 32-bit mode), the overflowing division
  gives the wrapped quotient in 64 bits, and \<open>2\<^sup>3\<^sup>1\<close> with a stale remainder in 32.  The busy flag is
  cleared, and the error flag tells whether the whole 64-bit divisor register is zero.\<close>

theorem DivDone_divides:
  fixes nds :: "'x nds" and p :: u32
  defines "n \<equiv> div_num nds" and "d \<equiv> div_den nds" and "r \<equiv> DivDone p nds"
    and "w \<equiv> (if DivCnt nds AND 0x3 = 0 then 31 else 63 :: nat)"
  shows "(d \<noteq> 0 \<longrightarrow> \<not> (n = - (2 ^ w) \<and> d = - 1) \<longrightarrow> c_division n d (div_quot r) (div_rem r)) \<and>
    (n = - (2 ^ w) \<longrightarrow> d = - 1 \<longrightarrow>
      (if w = 31 then div_quot r = 2 ^ 31 \<and> DivRemainder r = DivRemainder nds else div_quot r = - (2 ^ 63) \<and> div_rem r = 0)) \<and>
    (d = 0 \<longrightarrow> div_rem r = n \<and>
      div_quot r = (if w = 31 then if n < 0 then 1 - 2 ^ 32 else 2 ^ 32 - 1 else if n < 0 then 1 else - 1)) \<and>
    \<not> bit (DivCnt r) 15 \<and> (bit (DivCnt r) 14 \<longleftrightarrow> get64 (DivDenominator nds) = 0)"
proof -
  obtain c where c: "c AND 0x3 = DivCnt nds AND 0x3" "\<not> bit c 15" "\<not> bit c 14" and
    eq: "r = (let m = nds\<lparr>DivCnt := c\<rparr>;
           b = (if DivCnt nds AND 0x3 = 0 then div32 (DivNumerator nds 0) (DivDenominator nds 0) m
                else if DivCnt nds AND 0x3 = 2 then div64 (get64 (DivNumerator nds)) (get64 (DivDenominator nds)) m
                else div64 (get64 (DivNumerator nds)) (scast (DivDenominator nds 0)) m)
       in if get64 (DivDenominator nds) = 0 then b\<lparr>DivCnt := c OR 0x4000\<rparr> else b)"
    unfolding r_def by (rule DivDone_eq)
  define m where "m = nds\<lparr>DivCnt := c\<rparr>"
  define b where "b = (if DivCnt nds AND 0x3 = 0 then div32 (DivNumerator nds 0) (DivDenominator nds 0) m
    else if DivCnt nds AND 0x3 = 2 then div64 (get64 (DivNumerator nds)) (get64 (DivDenominator nds)) m
    else div64 (get64 (DivNumerator nds)) (scast (DivDenominator nds 0)) m)"
  have r: "r = (if get64 (DivDenominator nds) = 0 then b\<lparr>DivCnt := c OR 0x4000\<rparr> else b)"
    using eq by (simp only: Let_def m_def b_def)
  then have res: "div_quot r = div_quot b" "div_rem r = div_rem b" "DivRemainder r = DivRemainder b"
    by (simp_all add: div_quot_def div_rem_def)
  have rem: "DivRemainder m = DivRemainder nds" by (simp add: m_def)
  have "DivCnt b = c" by (simp add: b_def m_def)
  moreover have "\<not> bit (0x4000 :: u16) 15" "bit (0x4000 :: u16) 14" by simp_all
  ultimately have flags: "\<not> bit (DivCnt r) 15" "bit (DivCnt r) 14 \<longleftrightarrow> get64 (DivDenominator nds) = 0"
    using c(2,3) by (simp_all add: r bit_or_iff del: bit_numeral_word_iff)
  note num = n_def d_def w_def div_num_def div_den_def
  consider "DivCnt nds AND 0x3 = 0" | "DivCnt nds AND 0x3 \<noteq> 0" "DivCnt nds AND 0x3 = 2"
    | "DivCnt nds AND 0x3 \<noteq> 0" "DivCnt nds AND 0x3 \<noteq> 2" by blast
  then show ?thesis
  proof cases
    case 1
    then show ?thesis using div32_result [of "DivNumerator nds 0" n "DivDenominator nds 0" d m]
      by (simp add: flags res) (auto simp: num b_def rem)
  next
    case 2
    then show ?thesis using div64_result [of "get64 (DivNumerator nds)" n "get64 (DivDenominator nds)" d m]
      by (simp add: flags res) (auto simp: num b_def)
  next
    case 3
    then show ?thesis using div64_result [of "get64 (DivNumerator nds)" n "scast (DivDenominator nds 0)" d m]
      by (simp add: flags res) (auto simp: num b_def sint_ext64)
  qed
qed

theorem DivDone_divides_witness:
  "let r = DivDone 0 ((undefined :: unit nds)\<lparr>DivCnt := 0x8000, DivNumerator := (\<lambda>i. - 7), DivDenominator := (\<lambda>i. 2)\<rparr>)
   in c_division (- 7) 2 (div_quot r) (div_rem r) \<and> \<not> bit (DivCnt r) 15"
  using DivDone_divides [of "(undefined :: unit nds)\<lparr>DivCnt := 0x8000, DivNumerator := (\<lambda>i. - 7), DivDenominator := (\<lambda>i. 2)\<rparr>" 0]
  by (simp add: div_num_def div_den_def Let_def)

section \<open>Square root\<close>

definition is_root :: "nat \<Rightarrow> nat \<Rightarrow> bool" where
  "is_root s v \<longleftrightarrow> s * s \<le> v \<and> v < (s + 1) * (s + 1)"

text \<open>One binary digit of the root.\<close>

lemma root_digit:
  assumes "is_root s v" "d < 4"
  shows "4 * s + 1 \<le> 4 * (v - s * s) + d \<Longrightarrow>
      is_root (2 * s + 1) (4 * v + d) \<and> 4 * (v - s * s) + d - (4 * s + 1) = 4 * v + d - (2 * s + 1) * (2 * s + 1)"
    "\<not> 4 * s + 1 \<le> 4 * (v - s * s) + d \<Longrightarrow>
      is_root (2 * s) (4 * v + d) \<and> 4 * (v - s * s) + d = 4 * v + d - (2 * s) * (2 * s)"
proof -
  define r where "r = v - s * s"
  have v: "v = s * s + r" "r \<le> 2 * s" using assms(1) by (auto simp: is_root_def r_def algebra_simps)
  show "is_root (2 * s + 1) (4 * v + d) \<and> 4 * (v - s * s) + d - (4 * s + 1) = 4 * v + d - (2 * s + 1) * (2 * s + 1)"
    if "4 * s + 1 \<le> 4 * (v - s * s) + d"
    using that v assms(2) by (simp add: is_root_def algebra_simps)
  show "is_root (2 * s) (4 * v + d) \<and> 4 * (v - s * s) + d = 4 * v + d - (2 * s) * (2 * s)"
    if "\<not> 4 * s + 1 \<le> 4 * (v - s * s) + d"
    using that v assms(2) by (simp add: is_root_def algebra_simps)
qed

lemma is_root_less: "is_root s v \<Longrightarrow> v < b * b \<Longrightarrow> s < b"
  unfolding is_root_def by (metis le_less_trans mult_le_mono not_less)

lemma sqrt_bits:
  fixes v :: u64
  assumes "k < N" "N \<le> 32"
  shows "unat (drop_bit (2 * N - 2) (push_bit (2 * k) v) AND 0x3) = unat v div 4 ^ (N - 1 - k) mod 4"
proof -
  have "drop_bit (2 * N - 2) (push_bit (2 * k) v) AND mask 2 = drop_bit (2 * (N - 1 - k)) v AND mask 2"
    using assms by (intro bit_word_eqI) (auto simp: bit_simps diff_mult_distrib2 algebra_simps)
  moreover have "unat (w AND mask 2) = unat w mod 4" for w :: u64
    by (simp only: take_bit_eq_mask [symmetric] unsigned_take_bit_eq) (simp add: take_bit_eq_mod)
  moreover have "take_bit 64 (unat v) = unat v"
    by (rule take_bit_nat_eq_self) (use unsigned_less [of v, where ?'a = nat] in simp)
  then have "unat (drop_bit (2 * (N - 1 - k)) v) = unat v div 4 ^ (N - 1 - k)"
    by (simp only: unsigned_drop_bit_eq drop_bit_eq_div [of _ "_ :: nat"] power_mult) simp
  moreover have "(mask 2 :: u64) = 0x3" by (simp add: mask_numeral)
  ultimately show ?thesis by simp
qed

text \<open>The 32-bit \<open>prod\<close> is exact as long as the root so far is below \<open>2\<^sup>3\<^sup>0\<close>.\<close>

lemma sqrt_prod:
  "unat res < 2 ^ 31 \<Longrightarrow> unat (push_bit 1 res) = 2 * unat res"
  "unat (push_bit 1 (push_bit 1 res) + 1) \<le> 4 * unat res + 1"
  "unat res < 2 ^ 30 \<Longrightarrow> unat (push_bit 1 (push_bit 1 res) + 1) = 4 * unat res + 1"
  "unat (push_bit 1 (push_bit 1 res) + 1) = (4 * unat res + 1) mod 2 ^ 32" for res :: u32
proof -
  have "push_bit 1 (push_bit 1 res) + 1 = 4 * res + 1" by (simp add: push_bit_eq_mult)
  moreover have "unat (4 * res + 1) = (4 * unat res + 1) mod 2 ^ 32"
    by (simp add: unat_word_ariths mod_simps)
  ultimately show "unat (push_bit 1 (push_bit 1 res) + 1) \<le> 4 * unat res + 1"
    "unat res < 2 ^ 30 \<Longrightarrow> unat (push_bit 1 (push_bit 1 res) + 1) = 4 * unat res + 1"
    by simp_all
  show "unat (push_bit 1 (push_bit 1 res) + 1) = (4 * unat res + 1) mod 2 ^ 32"
    using \<open>push_bit 1 (push_bit 1 res) + 1 = 4 * res + 1\<close> \<open>unat (4 * res + 1) = (4 * unat res + 1) mod 2 ^ 32\<close> by simp
  show "unat res < 2 ^ 31 \<Longrightarrow> unat (push_bit 1 res) = 2 * unat res"
    by (simp add: push_bit_eq_mult unat_word_ariths)
qed

lemma sqrt_step_nat:
  fixes rem b :: u64 and res :: u32
  assumes inv: "is_root (unat res) v" "unat rem = v - unat res * unat res" and v: "v < 2 ^ 62"
    and d: "unat b < 4"
  shows "unat (push_bit 2 rem + b) = 4 * (v - unat res * unat res) + unat b" "unat res < 2 ^ 31"
proof -
  show s: "unat res < 2 ^ 31" using is_root_less [OF inv(1), of "2 ^ 31"] v by simp
  have "v < unat res * unat res + 2 * unat res + 1" using inv(1) by (simp add: is_root_def algebra_simps)
  then have "unat rem \<le> 2 * unat res" using inv(2) by linarith
  then have "unat rem < 2 ^ 32" using s by simp
  moreover have "push_bit 2 rem = 4 * rem" by (simp add: push_bit_eq_mult)
  moreover have "unat (4 * rem + b) = (4 * unat rem + unat b) mod 2 ^ 64"
    by (simp add: unat_word_ariths mod_simps)
  ultimately show "unat (push_bit 2 rem + b) = 4 * (v - unat res * unat res) + unat b"
    using d inv(2) by simp
qed

lemma div4_step: "V div 4 ^ n = 4 * (V div 4 ^ Suc n) + V div 4 ^ n mod 4" for V :: nat
  by (metis div_mult2_eq mult.commute mult_div_mod_eq power_Suc)

text \<open>The loop keeps the root of the digits read so far; \<open>n\<close> digits are left.\<close>

definition sqrt_inv :: "u64 \<Rightarrow> nat \<Rightarrow> u64 \<Rightarrow> u32 \<Rightarrow> bool" where
  "sqrt_inv V n rem res \<longleftrightarrow>
     is_root (unat res) (unat V div 4 ^ n) \<and> unat rem = unat V div 4 ^ n - unat res * unat res"

text \<open>One turn, for any root so far that 31 bits hold: only \<open>prod\<close> wraps around.\<close>

lemma sqrt_turn:
  fixes V :: u64
  assumes "k + Suc n = N" "N \<le> 32" and inv: "sqrt_inv V (Suc n) rem res" and v: "unat V div 4 ^ Suc n < 2 ^ 62"
  defines "s \<equiv> unat res" and "R \<equiv> unat V div 4 ^ n - 4 * (unat res * unat res)"
  obtains rem' res' where
    "sqrt_loop (2 * N - 2) (Suc n) (push_bit (2 * k) V) rem res = sqrt_loop (2 * N - 2) n (push_bit (2 * Suc k) V) rem' res'"
    "unat res' = (if (4 * s + 1) mod 2 ^ 32 \<le> R then 2 * s + 1 else 2 * s)"
    "unat rem' = (if (4 * s + 1) mod 2 ^ 32 \<le> R then R - (4 * s + 1) mod 2 ^ 32 else R)"
proof -
  define b where "b = drop_bit (2 * N - 2) (push_bit (2 * k) V) AND 0x3"
  define w where "w = unat V div 4 ^ Suc n"
  note inv = inv [unfolded sqrt_inv_def, folded s_def w_def]
  have "N - 1 - k = n" "k < N" using assms(1) by auto
  then have b: "unat b = unat V div 4 ^ n mod 4" using sqrt_bits [of k N V] assms(2) by (simp add: b_def)
  have digit: "unat V div 4 ^ n = 4 * w + unat b" using div4_step [of "unat V" n] b by (simp only: w_def)
  have b4: "unat b < 4" by (simp only: b)
  have rem: "unat (push_bit 2 rem + b) = 4 * (w - s * s) + unat b" and s31: "s < 2 ^ 31"
    using sqrt_step_nat [of res w rem b] inv v b4 by (simp_all add: s_def w_def)
  have "s * s \<le> w" using inv by (simp add: is_root_def)
  then have R: "unat (push_bit 2 rem + b) = R" using rem digit by (simp only: R_def s_def diff_mult_distrib2)
  define prod where "prod = push_bit 1 (push_bit 1 res) + 1"
  have prod: "unat (ucast prod :: u64) = (4 * s + 1) mod 2 ^ 32"
    using sqrt_prod(4) [of res] by (simp only: prod_def s_def unat_ucast_up len_num1 len_bit0)
  have "unat (push_bit 1 res) = 2 * s" using sqrt_prod(1) [of res] s31 by (simp only: s_def)
  moreover from this have "unat (push_bit 1 res + 1) = 2 * s + 1" using s31
    by (simp only: unat_word_ariths unsigned_1) simp
  ultimately have twice: "unat (push_bit 1 res) = 2 * s" "unat (push_bit 1 res + 1) = 2 * s + 1" .
  have le: "ucast prod \<le> push_bit 2 rem + b \<longleftrightarrow> (4 * s + 1) mod 2 ^ 32 \<le> R" by (simp only: word_le_nat_alt R prod)
  have val: "push_bit 2 (push_bit (2 * k) V) = push_bit (2 * Suc k) V" by (simp add: push_bit_push_bit)
  have unfold: "sqrt_loop (2 * N - 2) (Suc n) (push_bit (2 * k) V) rem res =
      sqrt_loop (2 * N - 2) n (push_bit (2 * Suc k) V)
        (if (4 * s + 1) mod 2 ^ 32 \<le> R then push_bit 2 rem + b - ucast prod else push_bit 2 rem + b)
        (if (4 * s + 1) mod 2 ^ 32 \<le> R then push_bit 1 res + 1 else push_bit 1 res)"
    by (simp only: sqrt_loop.simps Let_def val le flip: b_def prod_def) (simp only: if_distrib split: if_split, simp)
  show thesis
    using unat_sub [of "ucast prod" "push_bit 2 rem + b"] le by (intro that [OF unfold]) (simp_all only: twice prod R split: if_split, simp_all)
qed

text \<open>While the root so far is below \<open>2\<^sup>3\<^sup>0\<close> \<open>prod\<close> is exact and the turn keeps the invariant.\<close>

lemma sqrt_turn_exact:
  fixes V :: u64
  assumes "k + Suc n = N" "N \<le> 32" "sqrt_inv V (Suc n) rem res" "unat V div 4 ^ Suc n < 2 ^ 60"
  obtains rem' res' where
    "sqrt_loop (2 * N - 2) (Suc n) (push_bit (2 * k) V) rem res = sqrt_loop (2 * N - 2) n (push_bit (2 * Suc k) V) rem' res'"
    "sqrt_inv V n rem' res'"
proof -
  define s w d where "s = unat res" and "w = unat V div 4 ^ Suc n" and "d = unat V div 4 ^ n mod 4"
  have w: "unat V div 4 ^ n = 4 * w + d" "d < 4" "is_root s w" "s * s \<le> w"
    using div4_step [of "unat V" n] assms(3) by (simp_all add: w_def d_def s_def sqrt_inv_def is_root_def)
  have "s < 2 ^ 30" using is_root_less [OF w(3), of "2 ^ 30"] assms(4) by (simp add: w_def)
  then have m: "(4 * s + 1) mod 2 ^ 32 = 4 * s + 1" by simp
  have R: "unat V div 4 ^ n - 4 * (s * s) = 4 * (w - s * s) + d" using w(1,4) by (simp add: diff_mult_distrib2)
  obtain rem' res' where
    t: "sqrt_loop (2 * N - 2) (Suc n) (push_bit (2 * k) V) rem res = sqrt_loop (2 * N - 2) n (push_bit (2 * Suc k) V) rem' res'"
    "unat res' = (if 4 * s + 1 \<le> 4 * (w - s * s) + d then 2 * s + 1 else 2 * s)"
    "unat rem' = (if 4 * s + 1 \<le> 4 * (w - s * s) + d then 4 * (w - s * s) + d - (4 * s + 1) else 4 * (w - s * s) + d)"
    by (rule sqrt_turn [OF assms(1,2,3)]) (use assms(4) in \<open>simp_all only: m R flip: s_def, simp_all\<close>)
  have "sqrt_inv V n rem' res'"
    using root_digit [OF w(3,2)] by (simp add: sqrt_inv_def t(2,3) w(1))
  with t(1) show thesis by (rule that)
qed

lemma sqrt_loop_exact:
  fixes V :: u64
  assumes "k + n = N" "N \<le> 32" "sqrt_inv V n rem res" "unat V div 4 < 2 ^ 60"
  shows "is_root (unat (sqrt_loop (2 * N - 2) n (push_bit (2 * k) V) rem res)) (unat V)"
  using assms(1,3)
proof (induction n arbitrary: k rem res)
  case (Suc n)
  have "unat V div 4 ^ Suc n < 2 ^ 60" using assms(4) by (simp only: power_Suc div_mult2_eq) (metis div_le_dividend le_less_trans)
  from sqrt_turn_exact [OF Suc.prems(1) assms(2) Suc.prems(2) this] obtain rem' res' where
    t: "sqrt_loop (2 * N - 2) (Suc n) (push_bit (2 * k) V) rem res = sqrt_loop (2 * N - 2) n (push_bit (2 * Suc k) V) rem' res'"
    "sqrt_inv V n rem' res'" .
  have "Suc k + n = N" using Suc.prems(1) by simp
  from Suc.IH [OF this t(2)] show ?case by (simp only: t(1))
qed (simp add: sqrt_inv_def)

text \<open>All turns but the last one are exact for every operand; in the last one \<open>prod\<close> may wrap around.\<close>

lemma sqrt_loop_last:
  fixes V :: u64
  assumes "k + Suc n = N" "N \<le> 32" "sqrt_inv V (Suc n) rem res"
  shows "\<exists>s. is_root s (unat V div 4) \<and>
    unat (sqrt_loop (2 * N - 2) (Suc n) (push_bit (2 * k) V) rem res) =
      (if (4 * s + 1) mod 2 ^ 32 \<le> unat V - 4 * (s * s) then 2 * s + 1 else 2 * s)"
  using assms(1,3)
proof (induction n arbitrary: k rem res)
  case 0
  have "unat V div 4 ^ Suc 0 < 2 ^ 62" using unsigned_less [of V, where ?'a = nat] by simp
  from sqrt_turn [OF 0(1) assms(2) 0(2) this] obtain rem' res' where
    "sqrt_loop (2 * N - 2) (Suc 0) (push_bit (2 * k) V) rem res = res'"
    "unat res' = (if (4 * unat res + 1) mod 2 ^ 32 \<le> unat V div 4 ^ 0 - 4 * (unat res * unat res) then 2 * unat res + 1 else 2 * unat res)"
    by (metis sqrt_loop.simps(1))
  then show ?case using 0(2) by (intro exI [of _ "unat res"]) (simp add: sqrt_inv_def)
next
  case (Suc n)
  have "unat V div 4 ^ Suc (Suc n) = unat V div 16 div 4 ^ n" by (simp flip: div_mult2_eq)
  moreover have "unat V div 16 < 2 ^ 60" using unsigned_less [of V, where ?'a = nat] by simp
  ultimately have "unat V div 4 ^ Suc (Suc n) < 2 ^ 60" by (metis div_le_dividend le_less_trans)
  from sqrt_turn_exact [OF Suc.prems(1) assms(2) Suc.prems(2) this] obtain rem' res' where
    t: "sqrt_loop (2 * N - 2) (Suc (Suc n)) (push_bit (2 * k) V) rem res = sqrt_loop (2 * N - 2) (Suc n) (push_bit (2 * Suc k) V) rem' res'"
    "sqrt_inv V (Suc n) rem' res'" .
  have "Suc k + Suc n = N" using Suc.prems(1) by simp
  from Suc.IH [OF this t(2)] show ?case by (simp only: t(1))
qed

lemma is_root_unique: "is_root r v \<Longrightarrow> is_root s v \<Longrightarrow> r = s"
proof -
  have "r \<le> s" if "is_root r v" "is_root s v" for r s
    using is_root_less [OF that(1), of "s + 1"] that(2) by (simp add: is_root_def)
  then show "is_root r v \<Longrightarrow> is_root s v \<Longrightarrow> r = s" by (meson le_antisym)
qed

text \<open>The last turn for a large operand, in terms of its root.\<close>

lemma sqrt_last_digit:
  fixes v r s :: nat
  assumes v: "2 ^ 62 \<le> v" "v < 2 ^ 64" and r: "is_root r v" and s: "is_root s (v div 4)"
  shows "(if (4 * s + 1) mod 2 ^ 32 \<le> v - 4 * (s * s) then 2 * s + 1 else 2 * s) =
    (if even r \<and> (r + 1) * (r + 1) \<le> v + 2 ^ 32 then r + 1 else r)"
proof -
  have s31: "s < 2 ^ 31" using is_root_less [OF s, of "2 ^ 31"] v(2) by simp
  have s30: "2 ^ 30 \<le> s"
  proof (rule ccontr)
    assume "\<not> 2 ^ 30 \<le> s"
    then have "(s + 1) * (s + 1) \<le> 2 ^ 30 * 2 ^ 30" by (intro mult_le_mono) simp_all
    moreover have "2 ^ 60 \<le> v div 4" using div_le_mono [OF v(1), of 4] by simp
    ultimately show False using s by (simp add: is_root_def)
  qed
  have "4 * s + 1 = (4 * s + 1 - 2 ^ 32) + 2 ^ 32" "4 * s + 1 - 2 ^ 32 < 2 ^ 32" using s30 s31 by simp_all
  then have m: "(4 * s + 1) mod 2 ^ 32 = 4 * s + 1 - 2 ^ 32" by (metis mod_add_self2 mod_less)
  define d where "d = v mod 4"
  have vd: "v = 4 * (v div 4) + d" "d < 4" by (simp_all add: d_def)
  have le: "s * s \<le> v div 4" using s by (simp add: is_root_def)
  have R: "v - 4 * (s * s) = 4 * (v div 4 - s * s) + d" using vd(1) le by (simp add: diff_mult_distrib2)
  have sq: "(2 * s + 1) * (2 * s + 1) = 4 * (s * s) + (4 * s + 1)" by (simp add: algebra_simps)
  show ?thesis
  proof (cases "4 * s + 1 \<le> v - 4 * (s * s)")
    case True
    then have "is_root (2 * s + 1) v" using root_digit(1) [OF s vd(2)] R vd(1) by simp
    then have "r = 2 * s + 1" by (rule is_root_unique [OF r])
    then show ?thesis using True by (simp add: m)
  next
    case False
    then have "is_root (2 * s) v" using root_digit(2) [OF s vd(2)] R vd(1) by simp
    then have "r = 2 * s" by (rule is_root_unique [OF r])
    moreover have "4 * s + 1 - 2 ^ 32 \<le> v - 4 * (s * s) \<longleftrightarrow> 4 * (s * s) + (4 * s + 1) \<le> v + 2 ^ 32"
      using vd(1) le by linarith
    ultimately show ?thesis by (simp only: m sq) simp
  qed
qed

text \<open>The operand of the square root.\<close>

definition sqrt_operand :: "'x nds \<Rightarrow> nat" where
  "sqrt_operand nds = (if tst (SqrtCnt nds) 0x1 then unat (get64 (SqrtVal nds)) else unat (SqrtVal nds 0))"

lemma sqrt_mode: "tst (v AND NOT 0x8000) 0x1 \<longleftrightarrow> tst v 0x1" for v :: u16
proof -
  have "NOT 0x8000 AND 0x1 = (0x1 :: u16)" by simp
  then show ?thesis by (simp only: tst_def and.assoc)
qed

text \<open>C19.  The square-root unit computes the integer square root, rounded down, of every 32-bit operand and of
  every 64-bit operand below \<open>2\<^sup>6\<^sup>2\<close>.\<close>

theorem SqrtDone_is_root:
  assumes "sqrt_operand nds < 2 ^ 62"
  shows "is_root (unat (SqrtRes (SqrtDone p nds))) (sqrt_operand nds)"
proof (cases "tst (SqrtCnt nds) 0x1")
  case True
  have "is_root (unat (sqrt_loop (2 * 32 - 2) 32 (get64 (SqrtVal nds)) 0 0)) (unat (get64 (SqrtVal nds)))"
    using sqrt_loop_exact [of 0 32 32 "get64 (SqrtVal nds)" 0 0] assms
      unsigned_less [where ?'a = nat, of "get64 (SqrtVal nds)"] True
    by (simp add: sqrt_operand_def is_root_def sqrt_inv_def)
  then show ?thesis using True sqrt_mode [of "SqrtCnt nds"] by (simp add: SqrtDone_def Let_def sqrt_operand_def)
next
  case False
  have u: "unat (ucast (SqrtVal nds 0) :: u64) = unat (SqrtVal nds 0)" by (simp add: unat_ucast_up)
  have "is_root (unat (sqrt_loop (2 * 16 - 2) 16 (ucast (SqrtVal nds 0)) 0 0)) (unat (ucast (SqrtVal nds 0) :: u64))"
    using sqrt_loop_exact [of 0 16 16 "ucast (SqrtVal nds 0)" 0 0] unsigned_less [where ?'a = nat, of "SqrtVal nds 0"]
    by (simp add: is_root_def sqrt_inv_def u)
  then show ?thesis using False sqrt_mode [of "SqrtCnt nds"] by (simp add: SqrtDone_def Let_def sqrt_operand_def u)
qed

theorem SqrtDone_is_root_witness:
  "is_root (unat (SqrtRes (SqrtDone 0 ((undefined :: unit nds)\<lparr>SqrtCnt := 0x8000, SqrtVal := (\<lambda>i. 99)\<rparr>)))) 99"
  using SqrtDone_is_root [of "(undefined :: unit nds)\<lparr>SqrtCnt := 0x8000, SqrtVal := (\<lambda>i. 99)\<rparr>" 0]
  by (simp add: sqrt_operand_def tst_def)

text \<open>C20.  For the 64-bit operands that C19 leaves out, those from \<open>2\<^sup>6\<^sup>2\<close> on, the 32-bit \<open>prod\<close>
  overflows in the last turn of the loop, and what the unit returns is known exactly: the root \<open>r\<close> when it is odd, but
  one more than the root when \<open>r\<close> is even and the operand is within \<open>2\<^sup>3\<^sup>2\<close> of the next square.\<close>

theorem SqrtDone_prod_overflow:
  assumes "tst (SqrtCnt nds) 0x1" "2 ^ 62 \<le> sqrt_operand nds" "is_root r (sqrt_operand nds)"
  shows "unat (SqrtRes (SqrtDone p nds)) =
    (if even r \<and> (r + 1) * (r + 1) \<le> sqrt_operand nds + 2 ^ 32 then r + 1 else r)"
proof -
  let ?V = "get64 (SqrtVal nds)"
  have V: "sqrt_operand nds = unat ?V" using assms(1) by (simp add: sqrt_operand_def)
  have "sqrt_inv ?V (Suc 31) 0 0"
    using unsigned_less [where ?'a = nat, of ?V] by (simp add: sqrt_inv_def is_root_def)
  from sqrt_loop_last [of 0 31 32, OF _ _ this] obtain s where "is_root s (unat ?V div 4)"
    "unat (sqrt_loop 62 32 ?V 0 0) = (if (4 * s + 1) mod 2 ^ 32 \<le> unat ?V - 4 * (s * s) then 2 * s + 1 else 2 * s)"
    by (auto simp del: sqrt_loop.simps)
  then have "unat (sqrt_loop 62 32 ?V 0 0) = (if even r \<and> (r + 1) * (r + 1) \<le> unat ?V + 2 ^ 32 then r + 1 else r)"
    using sqrt_last_digit [of "unat ?V" r s] assms(2,3) unsigned_less [where ?'a = nat, of ?V] by (simp add: V)
  then show ?thesis using assms(1) sqrt_mode [of "SqrtCnt nds"] by (simp add: SqrtDone_def Let_def V)
qed

theorem SqrtDone_prod_overflow_witness:
  "let nds = (undefined :: unit nds)\<lparr>SqrtCnt := 0x8001, SqrtVal := (\<lambda>i. 0)(0 := 1, 1 := 0x40000000)\<rparr>
   in sqrt_operand nds = 2 ^ 62 + 1 \<and> is_root (2 ^ 31) (sqrt_operand nds) \<and> unat (SqrtRes (SqrtDone 0 nds)) = 2 ^ 31 + 1"
proof -
  let ?nds = "(undefined :: unit nds)\<lparr>SqrtCnt := 0x8001, SqrtVal := (\<lambda>i. 0)(0 := 1, 1 := 0x40000000)\<rparr>"
  have v: "sqrt_operand ?nds = 2 ^ 62 + 1" by (simp add: sqrt_operand_def tst_def get64_def)
  have "tst (SqrtCnt ?nds) 0x1" "is_root (2 ^ 31) (sqrt_operand ?nds)" unfolding v by (simp_all add: tst_def is_root_def)
  with SqrtDone_prod_overflow [of ?nds "2 ^ 31" 0] show ?thesis unfolding Let_def v by simp
qed

section \<open>Completion\<close>

text \<open>What the rest of the console must leave to the divider: its registers, its event slot and the time.\<close>

definition div_view :: "'x nds \<Rightarrow> bool \<times> sched_event \<times> u64 \<times> u16 \<times> (nat \<Rightarrow> u32) \<times> (nat \<Rightarrow> u32) \<times> (nat \<Rightarrow> u32) \<times> (nat \<Rightarrow> u32)" where
  "div_view nds = (bit (SchedListMask nds) Event_Div, SchedList nds Event_Div, SysTimestamp nds, DivCnt nds,
     DivNumerator nds, DivDenominator nds, DivQuotient nds, DivRemainder nds)"

definition div_regs :: "'x nds \<Rightarrow> u16 \<times> (nat \<Rightarrow> u32) \<times> (nat \<Rightarrow> u32)" where
  "div_regs nds = (DivCnt nds, DivQuotient nds, DivRemainder nds)"

lemmas field_if = if_distrib [of DivCnt] if_distrib [of DivQuotient] if_distrib [of DivRemainder]
  if_distrib [of DivDenominator]

lemma DivDone_view:
  "div_view a = div_view b \<Longrightarrow> div_regs (DivDone p a) = div_regs (DivDone q b)"
  "div_regs (DivDone p (a\<lparr>SchedListMask := m\<rparr>)) = div_regs (DivDone q a)"
  "div_regs (DivDone p (a\<lparr>SysTimestamp := t\<rparr>)) = div_regs (DivDone q a)"
  by (simp_all add: div_view_def div_regs_def DivDone_def div32_def div64_def Let_def field_if split del: if_split cong: if_cong)

lemma div_view_regs: "div_view a = div_view b \<Longrightarrow> div_regs a = div_regs b"
  by (simp add: div_view_def div_regs_def)

text \<open>Every other slot's dispatch keeps the view; the divider's own is \<open>DivDone\<close>, once it is due.\<close>

lemma dispatch_other_view:
  assumes "\<And>f p nds. div_view (func i f p nds) = div_view nds" "i \<noteq> Event_Div"
  shows "div_view (dispatch func i nds) = div_view nds"
proof -
  have "bit (SchedListMask nds AND NOT (push_bit i 1)) Event_Div = bit (SchedListMask nds) Event_Div"
    using assms(2) by (simp only: bit_clear1) auto
  then have "div_view (nds\<lparr>SchedListMask := SchedListMask nds AND NOT (push_bit i 1)\<rparr>) = div_view nds"
    by (simp add: div_view_def)
  then show ?thesis using assms(1) by (simp add: dispatch_def)
qed

lemma fold_other_view:
  assumes "\<And>i f p nds. i \<noteq> Event_Div \<Longrightarrow> div_view (func i f p nds) = div_view nds" "Event_Div \<notin> set xs"
  shows "div_view (fold (\<lambda>i nds. if Q i then dispatch func i nds else nds) xs nds) = div_view nds"
  using assms(2)
proof (induction xs arbitrary: nds)
  case (Cons i xs)
  then show ?case using dispatch_other_view [of func i] assms(1) by simp
qed simp

lemma StartDiv_slot:
  assumes "sched_exact nds"
  shows "sched_exact (StartDiv nds)" "bit (SchedListMask (StartDiv nds)) Event_Div"
    "FuncID (SchedList (StartDiv nds) Event_Div) = 0" "Param (SchedList (StartDiv nds) Event_Div) = 0"
    "DivCnt (StartDiv nds) = DivCnt nds OR 0x8000"
    "Timestamp (SchedList (StartDiv nds) Event_Div) =
      (if CurCPU nds = 0 then drop_bit (ARM9ClockShift nds) (ARM9Timestamp nds) else ARM7Timestamp nds) +
      (if (DivCnt nds OR 0x8000) AND 0x3 = 0 then 18 else 34)"
proof -
  define c where "c = (CancelEvent Event_Div nds)\<lparr>DivCnt := DivCnt nds OR 0x8000\<rparr>"
  have keep: "DivCnt (CancelEvent i nds) = DivCnt nds" "CurCPU (CancelEvent i nds) = CurCPU nds"
    "ARM9Timestamp (CancelEvent i nds) = ARM9Timestamp nds" "ARM7Timestamp (CancelEvent i nds) = ARM7Timestamp nds"
    "ARM9ClockShift (CancelEvent i nds) = ARM9ClockShift nds" for i
    by (simp_all add: CancelEvent_def Let_def RefreshEarliestEvent_def)
  have s: "StartDiv nds = ScheduleEvent Event_Div False (if (DivCnt nds OR 0x8000) AND 0x3 = 0 then 18 else 34) 0 0 c"
    by (simp add: StartDiv_def Let_def keep c_def)
  have ex: "sched_exact c"
    using CancelEvent_exact [OF assms, of Event_Div] by (simp add: c_def sched_exact_def deadlines_def)
  have free: "\<not> bit (SchedListMask c) Event_Div"
  proof -
    have "\<not> bit (SchedListMask nds AND NOT (push_bit Event_Div 1)) Event_Div" by (simp only: bit_clear1) simp
    then show ?thesis by (auto simp: c_def CancelEvent_def Let_def RefreshEarliestEvent_def)
  qed
  show "sched_exact (StartDiv nds)"
    unfolding s ScheduleEvent_def Let_def by (rule ScheduleEventAt_exact [OF ex]) (simp add: event_ids)
  have set: "bit (SchedListMask c OR push_bit Event_Div 1) Event_Div"
    by (simp only: bit_or_iff bit_push1) (simp add: event_ids)
  show "bit (SchedListMask (StartDiv nds)) Event_Div"
    using free set by (simp add: s ScheduleEvent_def ScheduleEventAt_def Let_def Reschedule_def)
  show "FuncID (SchedList (StartDiv nds) Event_Div) = 0" "Param (SchedList (StartDiv nds) Event_Div) = 0"
    "DivCnt (StartDiv nds) = DivCnt nds OR 0x8000"
    using free by (simp_all add: s ScheduleEvent_def ScheduleEventAt_def Let_def Reschedule_def)
      (simp_all add: c_def)
  show "Timestamp (SchedList (StartDiv nds) Event_Div) =
      (if CurCPU nds = 0 then drop_bit (ARM9ClockShift nds) (ARM9Timestamp nds) else ARM7Timestamp nds) +
      (if (DivCnt nds OR 0x8000) AND 0x3 = 0 then 18 else 34)"
    using free by (simp add: s ScheduleEvent_def ScheduleEventAt_def Let_def Reschedule_def)
      (simp add: c_def keep)
qed

text \<open>C18.  A started division completes: the busy flag is raised, and the first \<open>RunSystem\<close> at or after 18 (32-bit
  mode) or 34 cycles from now leaves exactly the result of \<open>DivDone\<close> in the registers, while an earlier
  one leaves them alone, whatever other events it dispatches, provided their callbacks do not
  touch the divider, its event slot or the time.\<close>

theorem StartDiv_completes:
  fixes nds :: "'x nds"
  assumes "sched_exact nds" "\<forall>p nds. func Event_Div 0 p nds = DivDone p nds"
    "\<forall>i f p nds. i \<noteq> Event_Div \<longrightarrow> div_view (func i f p nds) = div_view nds"
  shows "bit (DivCnt (StartDiv nds)) 15 \<and>
    div_regs (RunSystem func t (StartDiv nds)) =
      (if (if CurCPU nds = 0 then drop_bit (ARM9ClockShift nds) (ARM9Timestamp nds) else ARM7Timestamp nds) +
          (if (DivCnt nds OR 0x8000) AND 0x3 = 0 then 18 else 34) \<le> t
       then div_regs (DivDone 0 (StartDiv nds)) else div_regs (StartDiv nds))"
proof -
  define s where "s = StartDiv nds"
  note slot = StartDiv_slot [OF assms(1), folded s_def]
  let ?walk = "fold (\<lambda>i nds'. if EventScheduled i s then dispatch func i nds' else nds')"
  define a where "a = ?walk [0..<Event_Div] (s\<lparr>SysTimestamp := t\<rparr>)"
  define b where "b = dispatch func Event_Div a"
  have split: "[0..<Event_MAX] = [0..<Event_Div] @ Event_Div # [Event_Div + 1..<Event_MAX]"
    by (simp add: event_ids upt_conv_Cons)
  have other: "div_view (?walk xs x) = div_view x" if "Event_Div \<notin> set xs" for xs x
    using fold_other_view [of func xs "\<lambda>i. EventScheduled i s"] assms(3) that by blast
  have a: "div_view a = div_view (s\<lparr>SysTimestamp := t\<rparr>)" unfolding a_def by (rule other) simp
  have "div_regs (RunSystem func t s) = div_regs (?walk [Event_Div + 1..<Event_MAX] b)"
    unfolding RunSystem_walk [OF slot(1)] split
    using slot(2) by (simp add: div_regs_def RefreshEarliestEvent_def a_def b_def EventScheduled_def)
  also have "\<dots> = div_regs b" by (intro div_view_regs other) simp
  also have "\<dots> = (if Timestamp (SchedList s Event_Div) \<le> t then div_regs (DivDone 0 s) else div_regs s)"
  proof (cases "Timestamp (SchedList s Event_Div) \<le> t")
    case True
    have due: "due Event_Div a" using a True slot(2) by (auto simp: div_view_def due_def event_ids)
    have "b = DivDone (Param (SchedList a Event_Div)) (a\<lparr>SchedListMask := SchedListMask a AND NOT (push_bit Event_Div 1)\<rparr>)"
      using due a slot(3) assms(2) by (simp add: b_def dispatch_def div_view_def)
    then show ?thesis using DivDone_view(1) [OF a] True by (simp add: DivDone_view(2,3)) (metis DivDone_view(2,3))
  next
    case False
    then have "\<not> due Event_Div a" using a by (auto simp: div_view_def due_def)
    then show ?thesis using False div_view_regs [OF a] by (simp add: b_def dispatch_def div_regs_def)
  qed
  finally have res: "div_regs (RunSystem func t s) =
      (if Timestamp (SchedList s Event_Div) \<le> t then div_regs (DivDone 0 s) else div_regs s)" .
  have "bit (0x8000 :: u16) 15" by simp
  then have "bit (DivCnt s) 15" by (simp only: slot(5) bit_or_iff simp_thms)
  then show ?thesis using res by (simp only: s_def [symmetric] slot(6) [symmetric] simp_thms)
qed

theorem StartDiv_completes_witness:
  "let nds = (undefined :: unit nds)\<lparr>SchedListMask := 0, EarliestEventTimestamp := - 1, CurCPU := 1,
       ARM7Timestamp := 5, DivCnt := 0\<rparr>;
       func = (\<lambda>i f p nds. if i = Event_Div then DivDone p nds else nds)
   in div_regs (RunSystem func 23 (StartDiv nds)) = div_regs (DivDone 0 (StartDiv nds))"
proof -
  let ?nds = "(undefined :: unit nds)\<lparr>SchedListMask := 0, EarliestEventTimestamp := - 1, CurCPU := 1,
       ARM7Timestamp := 5, DivCnt := 0\<rparr>"
  have "sched_exact ?nds" by (rule sched_exact_idle) simp_all
  from StartDiv_completes [OF this, of "\<lambda>i f p nds. if i = Event_Div then DivDone p nds else nds" 23]
  show ?thesis by simp
qed

end
