(* ===== verification/Dma.thy ===== *)
theory Dma
  imports Irq
begin

text \<open>
  One DMA channel (\<^verbatim>\<open>src/src/DMA.cpp\<close>, \<^verbatim>\<open>DMA.h\<close>, the burst tables of \<^verbatim>\<open>DMA_Timings.cpp\<close>).  The record
  \<open>dma\<close> is the object, with the console it refers to in \<open>console\<close>.  The bus and the two cartridge slots
  are arguments (\<open>dma_ext\<close>): they act on the whole state, so that an access may reach the channel itself.
\<close>

section \<open>State\<close>

record 'x dma =
  SrcAddr :: u32
  DstAddr :: u32
  DCnt :: u32
  console :: "'x nds"
  CPU :: nat
  DNum :: nat
  StartMode :: u32
  CurSrcAddr :: u32
  CurDstAddr :: u32
  RemCount :: u32
  IterCount :: u32
  SrcAddrInc :: s32
  DstAddrInc :: s32
  Running :: u32
  InProgress :: bool
  Executing :: bool
  Stall :: bool
  IsGXFIFODMA :: bool
  MRAMBurstCount :: u32
  MRAMBurstTable :: "u8 list"

text \<open>The bus of one CPU: accesses, and the region and timing tables by page.\<close>

record 'x dma_bus =
  BRead16 :: "u32 \<Rightarrow> 'x dma \<Rightarrow> u16 \<times> 'x dma"
  BRead32 :: "u32 \<Rightarrow> 'x dma \<Rightarrow> u32 \<times> 'x dma"
  BWrite16 :: "u32 \<Rightarrow> u16 \<Rightarrow> 'x dma \<Rightarrow> 'x dma"
  BWrite32 :: "u32 \<Rightarrow> u32 \<Rightarrow> 'x dma \<Rightarrow> 'x dma"
  Regions :: "'x dma \<Rightarrow> nat \<Rightarrow> u32"
  MemTimings :: "'x dma \<Rightarrow> nat \<Rightarrow> nat \<Rightarrow> u8"

record 'x dma_ext =
  Bus9 :: "'x dma_bus"
  Bus7 :: "'x dma_bus"
  Console_ext :: "'x nds_ext"
  NeedsROMBus :: "'x dma \<Rightarrow> bool"
  BeginDMAUnit :: "nat \<Rightarrow> nat \<Rightarrow> u32 \<Rightarrow> u32 \<Rightarrow> u32 \<Rightarrow> bool \<Rightarrow> bool \<Rightarrow> 'x dma \<Rightarrow> 'x dma"
  EndDMAUnit :: "'x dma \<Rightarrow> 'x dma"
  EndDMA :: "nat \<Rightarrow> nat \<Rightarrow> bool \<Rightarrow> 'x dma \<Rightarrow> 'x dma"
  CartCheckDMA :: "nat \<Rightarrow> 'x dma \<Rightarrow> 'x dma"
  CheckFIFODMA :: "'x dma \<Rightarrow> 'x dma"

section \<open>Burst tables\<close>

text \<open>A table of 256 bytes, zero after the given entries.\<close>

definition table256 :: "u8 list \<Rightarrow> u8 list" where
  "table256 xs = xs @ replicate (256 - length xs) 0"

definition MRAMDummy :: "u8 list" where
  "MRAMDummy = table256 [0]"

definition MRAMRead16Bursts :: "u8 list list" where
  "MRAMRead16Bursts =
     [table256 [7, 3, 2, 2, 2, 2, 2, 2, 2, 2, 2, 2, 2, 2, 2, 2, 2, 2, 2, 2, 2, 2, 2, 2, 2, 2, 2, 2, 2, 2,
        2, 2, 2, 2, 2, 2, 2, 2, 2, 2, 2, 2, 2, 2, 2, 2, 2, 2, 2, 2, 2, 2, 2, 2, 2, 2, 2, 2, 2, 2,
        2, 2, 2, 2, 2, 2, 2, 2, 2, 2, 2, 2, 2, 2, 2, 2, 2, 2, 2, 2, 2, 2, 2, 2, 2, 2, 2, 2, 2, 2,
        2, 2, 2, 2, 2, 2, 2, 2, 2, 2, 2, 2, 2, 2, 2, 2, 2, 2, 2, 2, 2, 2, 2, 2, 2, 2, 2, 2, 2, 7,
        3, 2, 2, 2, 2, 2, 2, 2, 2, 2, 2, 2, 2, 2, 2, 2, 2, 2, 2, 2, 2, 2, 2, 2, 2, 2, 2, 2, 2, 2,
        2, 2, 2, 2, 2, 2, 2, 2, 2, 2, 2, 2, 2, 2, 2, 2, 2, 2, 2, 2, 2, 2, 2, 2, 2, 2, 2, 2, 2, 2,
        2, 2, 2, 2, 2, 2, 2, 2, 2, 2, 2, 2, 2, 2, 2, 2, 2, 2, 2, 2, 2, 2, 2, 2, 2, 2, 2, 2, 2, 2,
        2, 2, 2, 2, 2, 2, 2, 2, 2, 2, 2, 2, 2, 2, 2, 2, 2, 2, 2, 2, 2, 2, 2, 2, 2, 2, 2, 2, 7, 3,
        0],
      table256 [8, 6, 5, 5, 5, 5, 5, 5, 5, 5, 5, 5, 5, 5, 5, 5, 5, 5, 5, 5, 5, 5, 5, 5, 5, 5, 5, 5, 5, 5,
        5, 5, 5, 5, 5, 5, 5, 5, 5, 5, 5, 5, 5, 5, 5, 5, 5, 5, 5, 5, 5, 5, 5, 5, 5, 5, 5, 5, 5, 5,
        5, 5, 5, 5, 5, 5, 5, 5, 5, 5, 5, 5, 5, 5, 5, 5, 5, 5, 5, 5, 5, 5, 5, 5, 5, 5, 5, 5, 5, 5,
        5, 5, 5, 5, 5, 5, 0],
      table256 [10, 8, 7, 7, 7, 7, 7, 7, 7, 7, 7, 7, 7, 7, 7, 7, 7, 7, 7, 7, 7, 7, 7, 7, 7, 7, 7, 7, 7, 7,
        7, 7, 7, 7, 12, 8, 7, 7, 7, 7, 7, 7, 7, 7, 7, 7, 7, 7, 7, 7, 7, 7, 7, 7, 7, 7, 7, 7, 7, 7,
        7, 7, 7, 7, 7, 7, 7, 7, 12, 8, 7, 7, 7, 7, 7, 7, 7, 7, 7, 7, 7, 7, 7, 7, 7, 7, 7, 7, 7, 7,
        7, 7, 7, 7, 7, 7, 7, 7, 7, 7, 7, 7, 12, 8, 7, 7, 7, 7, 7, 7, 7, 7, 7, 7, 7, 7, 7, 7, 7, 7,
        7, 7, 7, 7, 7, 7, 7, 7, 7, 7, 7, 7, 7, 7, 7, 7, 12, 8, 7, 7, 7, 7, 7, 7, 7, 7, 7, 7, 7, 7,
        7, 7, 7, 7, 7, 7, 7, 7, 7, 7, 7, 7, 7, 7, 7, 7, 7, 7, 7, 7, 12, 8, 7, 7, 7, 7, 7, 7, 7, 7,
        7, 7, 7, 7, 7, 7, 7, 7, 7, 7, 7, 7, 7, 7, 7, 7, 7, 7, 7, 7, 7, 7, 7, 7, 12, 8, 7, 7, 7, 7,
        7, 7, 7, 7, 7, 7, 7, 7, 7, 7, 7, 7, 7, 7, 7, 7, 7, 7, 7, 7, 7, 7, 7, 7, 7, 7, 7, 7, 12, 8,
        0]]"

definition MRAMRead32Bursts :: "u8 list list" where
  "MRAMRead32Bursts =
     [table256 [9, 4, 3, 3, 3, 3, 3, 3, 3, 3, 3, 3, 3, 3, 3, 3, 3, 3, 3, 3, 3, 3, 3, 3, 3, 3, 3, 3, 3, 3,
        3, 3, 3, 3, 3, 3, 3, 3, 3, 3, 3, 3, 3, 3, 3, 3, 3, 3, 3, 3, 3, 3, 3, 3, 3, 3, 3, 3, 3, 3,
        3, 3, 3, 3, 3, 3, 3, 3, 3, 3, 3, 3, 3, 3, 3, 3, 3, 3, 3, 9, 0],
      table256 [9, 3, 2, 2, 2, 2, 2, 2, 2, 2, 2, 2, 2, 2, 2, 2, 2, 2, 2, 2, 2, 2, 2, 2, 2, 2, 2, 2, 2, 2,
        2, 2, 2, 2, 2, 2, 2, 2, 2, 2, 2, 2, 2, 2, 2, 2, 2, 2, 2, 2, 2, 2, 2, 2, 2, 2, 2, 2, 2, 2,
        2, 2, 2, 2, 2, 2, 2, 2, 2, 2, 2, 2, 2, 2, 2, 2, 2, 2, 2, 2, 2, 2, 2, 2, 2, 2, 2, 2, 2, 2,
        2, 2, 2, 2, 2, 2, 2, 2, 2, 2, 2, 2, 2, 2, 2, 2, 2, 2, 2, 2, 2, 2, 2, 2, 2, 2, 2, 2, 0],
      table256 [14, 10, 9, 9, 9, 9, 9, 9, 9, 9, 9, 9, 9, 9, 9, 9, 9, 9, 9, 9, 9, 9, 9, 9, 9, 9, 9, 13, 10, 9,
        9, 9, 9, 9, 9, 9, 9, 9, 9, 9, 9, 9, 9, 9, 9, 9, 9, 9, 9, 9, 9, 9, 9, 9, 13, 10, 9, 9, 9, 9,
        9, 9, 9, 9, 9, 9, 9, 9, 9, 9, 9, 9, 9, 9, 9, 9, 9, 9, 9, 9, 9, 13, 10, 9, 9, 9, 9, 9, 9, 9,
        9, 9, 9, 9, 9, 9, 9, 9, 9, 9, 9, 9, 9, 9, 9, 9, 9, 9, 13, 10, 9, 9, 9, 9, 9, 9, 9, 9, 9, 9,
        9, 9, 9, 9, 9, 9, 9, 9, 9, 9, 9, 9, 9, 9, 9, 13, 0],
      table256 [18, 14, 13, 13, 13, 13, 13, 13, 13, 13, 13, 13, 13, 13, 13, 13, 13, 13, 13, 17, 14, 13, 13, 13, 13, 13, 13, 13, 13, 13,
        13, 13, 13, 13, 13, 13, 13, 13, 17, 14, 13, 13, 13, 13, 13, 13, 13, 13, 13, 13, 13, 13, 13, 13, 13, 13, 13, 17, 14, 13,
        13, 13, 13, 13, 13, 13, 13, 13, 13, 13, 13, 13, 13, 13, 13, 13, 17, 14, 13, 13, 13, 13, 13, 13, 13, 13, 13, 13, 13, 13,
        13, 13, 13, 13, 13, 17, 0]]"

definition MRAMWrite16Bursts :: "u8 list list" where
  "MRAMWrite16Bursts =
     [table256 [8, 2, 2, 2, 2, 2, 2, 2, 2, 2, 2, 2, 2, 2, 2, 2, 2, 2, 2, 2, 2, 2, 2, 2, 2, 2, 2, 2, 2, 2,
        2, 2, 2, 2, 2, 2, 2, 2, 2, 2, 2, 2, 2, 2, 2, 2, 2, 2, 2, 2, 2, 2, 2, 2, 2, 2, 2, 2, 2, 2,
        2, 2, 2, 2, 2, 2, 2, 2, 2, 2, 2, 2, 2, 2, 2, 2, 2, 2, 2, 2, 2, 2, 2, 2, 2, 2, 2, 2, 2, 2,
        2, 2, 2, 2, 2, 2, 2, 2, 2, 2, 2, 2, 2, 2, 2, 2, 2, 2, 2, 2, 2, 2, 2, 2, 2, 2, 2, 2, 2, 2,
        0],
      table256 [10, 5, 5, 5, 5, 5, 5, 5, 5, 5, 5, 5, 5, 5, 5, 5, 5, 5, 5, 5, 5, 5, 5, 5, 5, 5, 5, 5, 5, 5,
        5, 5, 5, 5, 5, 5, 5, 5, 5, 5, 5, 5, 5, 5, 5, 5, 5, 5, 0],
      table256 [9, 7, 7, 7, 7, 7, 7, 7, 7, 7, 7, 7, 7, 7, 7, 7, 7, 7, 7, 7, 7, 7, 7, 7, 7, 7, 7, 7, 7, 7,
        7, 7, 7, 7, 7, 0]]"

definition MRAMWrite32Bursts :: "u8 list list" where
  "MRAMWrite32Bursts =
     [table256 [9, 4, 4, 4, 4, 4, 4, 4, 4, 4, 4, 4, 4, 4, 4, 4, 4, 4, 4, 4, 4, 4, 4, 4, 4, 4, 4, 4, 4, 4,
        4, 4, 4, 4, 4, 4, 4, 4, 4, 4, 4, 4, 4, 4, 4, 4, 4, 4, 4, 4, 4, 4, 4, 4, 4, 4, 4, 4, 4, 4,
        0],
      table256 [9, 3, 3, 3, 3, 3, 3, 3, 3, 3, 3, 3, 3, 3, 3, 3, 3, 3, 3, 3, 3, 3, 3, 3, 3, 3, 3, 3, 3, 3,
        3, 3, 3, 3, 3, 3, 3, 3, 3, 3, 3, 3, 3, 3, 3, 3, 3, 3, 3, 3, 3, 3, 3, 3, 3, 3, 3, 3, 3, 3,
        3, 3, 3, 3, 3, 3, 3, 3, 3, 3, 3, 3, 3, 3, 3, 3, 3, 3, 3, 3, 0],
      table256 [15, 10, 10, 10, 10, 10, 10, 10, 10, 10, 10, 10, 10, 10, 10, 10, 10, 10, 10, 10, 10, 10, 10, 10, 0],
      table256 [16, 14, 14, 14, 14, 14, 14, 14, 14, 14, 14, 14, 14, 14, 14, 14, 14, 14, 0]]"

section \<open>Regions\<close>

definition Mem9_MainRAM :: u32 where "Mem9_MainRAM = 0x8"
definition Mem9_GBAROM :: u32 where "Mem9_GBAROM = 0x20000"
definition Mem7_MainRAM :: u32 where "Mem7_MainRAM = 0x2"
definition Mem7_Wifi0 :: u32 where "Mem7_Wifi0 = 0x10"
definition Mem7_Wifi1 :: u32 where "Mem7_Wifi1 = 0x20"
definition Mem7_GBAROM :: u32 where "Mem7_GBAROM = 0x100"
definition IRQ_DMA0 :: nat where "IRQ_DMA0 = 8"

section \<open>Control\<close>

definition dma_Reset :: "'x dma \<Rightarrow> 'x dma" where
  "dma_Reset d =
     d\<lparr>SrcAddr := 0, DstAddr := 0, DCnt := 0, StartMode := 0, CurSrcAddr := 0, CurDstAddr := 0,
       RemCount := 0, IterCount := 0, SrcAddrInc := 0, DstAddrInc := 0, Stall := False, Running := 0,
       Executing := False, InProgress := False, MRAMBurstCount := 0, MRAMBurstTable := MRAMDummy\<rparr>"

definition countmask :: "'x dma \<Rightarrow> u32" where
  "countmask d = (if CPU d = 0 then 0x001FFFFF else if DNum d = 3 then 0x0000FFFF else 0x00003FFF)"

text \<open>\<open>DMA::Start\<close>, in the steps of its body.\<close>

definition start_RemCount :: "'x dma \<Rightarrow> 'x dma" where
  "start_RemCount d =
     (if \<not> InProgress d then
        let c = DCnt d AND countmask d in d\<lparr>RemCount := if c = 0 then countmask d + 1 else c\<rparr>
      else d)"

definition start_IterCount :: "'x dma \<Rightarrow> 'x dma" where
  "start_IterCount d = d\<lparr>IterCount := if StartMode d = 0x07 \<and> RemCount d > 112 then 112 else RemCount d\<rparr>"

definition start_addresses :: "'x dma \<Rightarrow> 'x dma" where
  "start_addresses d =
     d\<lparr>CurSrcAddr := if DCnt d AND 0x01800000 = 0x01800000 then SrcAddr d else CurSrcAddr d,
       CurDstAddr := if DCnt d AND 0x00600000 = 0x00600000 then DstAddr d else CurDstAddr d\<rparr>"

definition start_run :: "'x dma \<Rightarrow> 'x dma" where
  "start_run d =
     d\<lparr>IsGXFIFODMA := CPU d = 0 \<and> drop_bit 24 (CurSrcAddr d) = 0x02 \<and> CurDstAddr d = 0x04000400 \<and> DstAddrInc d = 0,
       Running := 2, MRAMBurstTable := MRAMDummy, InProgress := True,
       console := StopCPU (CPU d) (push_bit (DNum d) 1) (console d)\<rparr>"

definition Start :: "'x dma \<Rightarrow> 'x dma" where
  "Start d =
     (if Running d \<noteq> 0 then d else start_run (start_addresses (start_IterCount (start_RemCount d))))"

text \<open>\<open>DMA::WriteCnt\<close>: what enabling the channel loads from the control register.\<close>

definition load_increments :: "'x dma \<Rightarrow> 'x dma" where
  "load_increments d =
     d\<lparr>CurSrcAddr := SrcAddr d, CurDstAddr := DstAddr d,
       DstAddrInc := if DCnt d AND 0x00600000 = 0x00000000 then 1
                     else if DCnt d AND 0x00600000 = 0x00200000 then - 1
                     else if DCnt d AND 0x00600000 = 0x00400000 then 0 else 1,
       SrcAddrInc := if DCnt d AND 0x01800000 = 0x00000000 then 1
                     else if DCnt d AND 0x01800000 = 0x00800000 then - 1
                     else if DCnt d AND 0x01800000 = 0x01000000 then 0 else 1\<rparr>"

definition load_StartMode :: "'x dma \<Rightarrow> 'x dma" where
  "load_StartMode d =
     d\<lparr>StartMode := if CPU d = 0 then drop_bit 27 (DCnt d) AND 0x7 else (drop_bit 28 (DCnt d) AND 0x3) OR 0x10\<rparr>"

definition WriteCnt :: "'x dma_ext \<Rightarrow> u32 \<Rightarrow> 'x dma \<Rightarrow> 'x dma" where
  "WriteCnt ext val d =
     (let oldcnt = DCnt d;
          d = d\<lparr>DCnt := val\<rparr>;
          d = (if tst oldcnt 0x80000000 \<and> \<not> tst val 0x80000000 then EndDMA ext (CPU d) (DNum d) True d else d)
      in if \<not> tst oldcnt 0x80000000 \<and> tst val 0x80000000 then
           let d = load_StartMode (load_increments d)
           in if StartMode d AND 0x7 = 0 then Start d
              else if StartMode d = 0x05 \<or> StartMode d = 0x12 then CartCheckDMA ext (CPU d) d
              else if StartMode d = 0x07 then CheckFIFODMA ext d
              else d
         else d)"

definition IsInMode :: "u32 \<Rightarrow> 'x dma \<Rightarrow> bool" where
  "IsInMode mode d \<longleftrightarrow> mode = StartMode d \<and> tst (DCnt d) 0x80000000"

definition IsRunning :: "'x dma \<Rightarrow> bool" where
  "IsRunning d \<longleftrightarrow> Running d \<noteq> 0"

definition StartIfNeeded :: "u32 \<Rightarrow> 'x dma \<Rightarrow> 'x dma" where
  "StartIfNeeded mode d = (if mode = StartMode d \<and> tst (DCnt d) 0x80000000 then Start d else d)"

definition StopIfNeeded :: "'x dma_ext \<Rightarrow> u32 \<Rightarrow> 'x dma \<Rightarrow> 'x dma" where
  "StopIfNeeded ext mode d = (if mode = StartMode d then WriteCnt ext (DCnt d AND NOT 0x80000000) d else d)"

definition StallIfRunning :: "'x dma \<Rightarrow> 'x dma" where
  "StallIfRunning d = (if Executing d then d\<lparr>Stall := True\<rparr> else d)"

section \<open>Timings\<close>

definition GBASlotBoundaryPenalty :: "u32 \<Rightarrow> u32 \<Rightarrow> bool \<Rightarrow> u32 \<Rightarrow> u32" where
  "GBASlotBoundaryPenalty addr width burststart penalty =
     (let m = 0x20000 - width
      in if addr AND m \<noteq> m \<or> (width = 2 \<and> burststart) then 0 else penalty)"

text \<open>The next entry of the burst table; a new burst takes \<open>table\<close>.\<close>

definition mram_burst :: "bool \<Rightarrow> u8 list \<Rightarrow> 'x dma \<Rightarrow> u32 \<times> 'x dma" where
  "mram_burst burststart table d =
     (let d = (if burststart \<or> MRAMBurstTable d ! unat (MRAMBurstCount d) = 0
               then d\<lparr>MRAMBurstCount := 0, MRAMBurstTable := table\<rparr> else d);
          ret = ucast (MRAMBurstTable d ! unat (MRAMBurstCount d))
      in (ret, d\<lparr>MRAMBurstCount := MRAMBurstCount d + 1\<rparr>))"

definition UnitTimings9_16 :: "'x dma_ext \<Rightarrow> bool \<Rightarrow> 'x dma \<Rightarrow> u32 \<times> 'x dma" where
  "UnitTimings9_16 ext burststart d =
     (let src_id = unat (drop_bit 14 (CurSrcAddr d));
          dst_id = unat (drop_bit 14 (CurDstAddr d));
          src_rgn = Regions (Bus9 ext) d src_id;
          dst_rgn = Regions (Bus9 ext) d dst_id;
          src_n = ucast (MemTimings (Bus9 ext) d src_id 4) :: u32;
          src_s = ucast (MemTimings (Bus9 ext) d src_id 5);
          dst_n = ucast (MemTimings (Bus9 ext) d dst_id 4);
          dst_s = ucast (MemTimings (Bus9 ext) d dst_id 5)
      in if src_rgn = Mem9_MainRAM then
           if dst_rgn = Mem9_MainRAM then (16, d)
           else if 0 < sint (SrcAddrInc d) then
             mram_burst burststart
               (if dst_rgn = Mem9_GBAROM then if dst_s = 4 then MRAMRead16Bursts ! 1 else MRAMRead16Bursts ! 2
                            else MRAMRead16Bursts ! 0) d
           else ((if CurSrcAddr d AND 0x1F = 0x1E then 7 else 8) + (if burststart then dst_n else dst_s), d)
         else if dst_rgn = Mem9_MainRAM then
           if 0 < sint (DstAddrInc d) then
             mram_burst burststart
               (if src_rgn = Mem9_GBAROM then if src_s = 4 then MRAMWrite16Bursts ! 1 else MRAMWrite16Bursts ! 2
                            else MRAMWrite16Bursts ! 0) d
           else ((if burststart then src_n else src_s) + 7, d)
         else if tst src_rgn dst_rgn then (src_n + dst_n + 1, d)
         else
           ((if burststart then src_n + dst_n else src_s + dst_s) +
            (if src_rgn = Mem9_GBAROM then GBASlotBoundaryPenalty (CurSrcAddr d) 2 burststart (src_n - src_s) else 0) +
            (if dst_rgn = Mem9_GBAROM then GBASlotBoundaryPenalty (CurDstAddr d) 2 burststart (dst_n - dst_s) else 0), d))"

definition UnitTimings9_32 :: "'x dma_ext \<Rightarrow> bool \<Rightarrow> 'x dma \<Rightarrow> u32 \<times> 'x dma" where
  "UnitTimings9_32 ext burststart d =
     (let src_id = unat (drop_bit 14 (CurSrcAddr d));
          dst_id = unat (drop_bit 14 (CurDstAddr d));
          src_rgn = Regions (Bus9 ext) d src_id;
          dst_rgn = Regions (Bus9 ext) d dst_id;
          src_n = ucast (MemTimings (Bus9 ext) d src_id 6) :: u32;
          src_s = ucast (MemTimings (Bus9 ext) d src_id 7);
          dst_n = ucast (MemTimings (Bus9 ext) d dst_id 6);
          dst_s = ucast (MemTimings (Bus9 ext) d dst_id 7)
      in if src_rgn = Mem9_MainRAM then
           if dst_rgn = Mem9_MainRAM then (18, d)
           else if 0 < sint (SrcAddrInc d) then
             mram_burst burststart
               (if dst_rgn = Mem9_GBAROM then if dst_s = 8 then MRAMRead32Bursts ! 2 else MRAMRead32Bursts ! 3
                            else if dst_n = 2 then MRAMRead32Bursts ! 0 else MRAMRead32Bursts ! 1) d
           else ((if CurSrcAddr d AND 0x1F = 0x1C then (if dst_n = 2 then 7 else 8) else 9) +
               (if burststart then dst_n else dst_s), d)
         else if dst_rgn = Mem9_MainRAM then
           if 0 < sint (DstAddrInc d) then
             mram_burst burststart
               (if src_rgn = Mem9_GBAROM then if src_s = 8 then MRAMWrite32Bursts ! 2 else MRAMWrite32Bursts ! 3
                            else if src_n = 2 then MRAMWrite32Bursts ! 0 else MRAMWrite32Bursts ! 1) d
           else ((if burststart then src_n else src_s) + 8, d)
         else if tst src_rgn dst_rgn then (src_n + dst_n + 1, d)
         else
           ((if burststart then src_n + dst_n else src_s + dst_s) +
            (if src_rgn = Mem9_GBAROM then GBASlotBoundaryPenalty (CurSrcAddr d) 4 burststart (src_n - src_s) else 0) +
            (if dst_rgn = Mem9_GBAROM then GBASlotBoundaryPenalty (CurDstAddr d) 4 burststart (dst_n - dst_s) else 0), d))"

definition UnitTimings7_16 :: "'x dma_ext \<Rightarrow> bool \<Rightarrow> 'x dma \<Rightarrow> u32 \<times> 'x dma" where
  "UnitTimings7_16 ext burststart d =
     (let src_id = unat (drop_bit 15 (CurSrcAddr d));
          dst_id = unat (drop_bit 15 (CurDstAddr d));
          src_rgn = Regions (Bus7 ext) d src_id;
          dst_rgn = Regions (Bus7 ext) d dst_id;
          src_n = ucast (MemTimings (Bus7 ext) d src_id 0) :: u32;
          src_s = ucast (MemTimings (Bus7 ext) d src_id 1);
          dst_n = ucast (MemTimings (Bus7 ext) d dst_id 0);
          dst_s = ucast (MemTimings (Bus7 ext) d dst_id 1)
      in if src_rgn = Mem7_MainRAM then
           if dst_rgn = Mem7_MainRAM then (16, d)
           else if 0 < sint (SrcAddrInc d) then
             mram_burst burststart
               (if (dst_rgn = Mem7_GBAROM \<or> dst_rgn = Mem7_Wifi0 \<or> dst_rgn = Mem7_Wifi1) then if dst_s = 4 then MRAMRead16Bursts ! 1 else MRAMRead16Bursts ! 2
                            else MRAMRead16Bursts ! 0) d
           else ((if CurSrcAddr d AND 0x1F = 0x1E then 7 else 8) + (if burststart then dst_n else dst_s), d)
         else if dst_rgn = Mem7_MainRAM then
           if 0 < sint (DstAddrInc d) then
             mram_burst burststart
               (if (src_rgn = Mem7_GBAROM \<or> src_rgn = Mem7_Wifi0 \<or> src_rgn = Mem7_Wifi1) then if src_s = 4 then MRAMWrite16Bursts ! 1 else MRAMWrite16Bursts ! 2
                            else MRAMWrite16Bursts ! 0) d
           else ((if burststart then src_n else src_s) + 7, d)
         else if tst src_rgn dst_rgn then (src_n + dst_n + 1, d)
         else
           ((if burststart then src_n + dst_n else src_s + dst_s) +
            (if src_rgn = Mem7_GBAROM then GBASlotBoundaryPenalty (CurSrcAddr d) 2 burststart (src_n - src_s) else 0) +
            (if dst_rgn = Mem7_GBAROM then GBASlotBoundaryPenalty (CurDstAddr d) 2 burststart (dst_n - dst_s) else 0), d))"

definition UnitTimings7_32 :: "'x dma_ext \<Rightarrow> bool \<Rightarrow> 'x dma \<Rightarrow> u32 \<times> 'x dma" where
  "UnitTimings7_32 ext burststart d =
     (let src_id = unat (drop_bit 15 (CurSrcAddr d));
          dst_id = unat (drop_bit 15 (CurDstAddr d));
          src_rgn = Regions (Bus7 ext) d src_id;
          dst_rgn = Regions (Bus7 ext) d dst_id;
          src_n = ucast (MemTimings (Bus7 ext) d src_id 2) :: u32;
          src_s = ucast (MemTimings (Bus7 ext) d src_id 3);
          dst_n = ucast (MemTimings (Bus7 ext) d dst_id 2);
          dst_s = ucast (MemTimings (Bus7 ext) d dst_id 3)
      in if src_rgn = Mem7_MainRAM then
           if dst_rgn = Mem7_MainRAM then (18, d)
           else if 0 < sint (SrcAddrInc d) then
             mram_burst burststart
               (if (dst_rgn = Mem7_GBAROM \<or> dst_rgn = Mem7_Wifi0 \<or> dst_rgn = Mem7_Wifi1) then if dst_s = 8 then MRAMRead32Bursts ! 2 else MRAMRead32Bursts ! 3
                            else if dst_n = 2 then MRAMRead32Bursts ! 0 else MRAMRead32Bursts ! 1) d
           else ((if CurSrcAddr d AND 0x1F = 0x1C then (if dst_n = 2 then 7 else 8) else 9) +
               (if burststart then dst_n else dst_s), d)
         else if dst_rgn = Mem7_MainRAM then
           if 0 < sint (DstAddrInc d) then
             mram_burst burststart
               (if (src_rgn = Mem7_GBAROM \<or> src_rgn = Mem7_Wifi0 \<or> src_rgn = Mem7_Wifi1) then if src_s = 8 then MRAMWrite32Bursts ! 2 else MRAMWrite32Bursts ! 3
                            else if src_n = 2 then MRAMWrite32Bursts ! 0 else MRAMWrite32Bursts ! 1) d
           else ((if burststart then src_n else src_s) + 8, d)
         else if tst src_rgn dst_rgn then (src_n + dst_n + 1, d)
         else
           ((if burststart then src_n + dst_n else src_s + dst_s) +
            (if src_rgn = Mem7_GBAROM then GBASlotBoundaryPenalty (CurSrcAddr d) 4 burststart (src_n - src_s) else 0) +
            (if dst_rgn = Mem7_GBAROM then GBASlotBoundaryPenalty (CurDstAddr d) 4 burststart (dst_n - dst_s) else 0), d))"

section \<open>Running\<close>

text \<open>One turn of each transfer loop.\<close>

definition unit9_16 :: "'x dma_ext \<Rightarrow> bool \<Rightarrow> bool \<Rightarrow> 'x dma \<Rightarrow> 'x dma" where
  "unit9_16 ext serialROM burststart d =
     (let d = (if serialROM
               then BeginDMAUnit ext (CPU d) (DNum d) (CurSrcAddr d) (CurDstAddr d) 2 burststart (tst (DCnt d) 0x80000000) d
               else d);
          (t, d) = UnitTimings9_16 ext burststart d;
          d = d\<lparr>console := (console d)\<lparr>ARM9Timestamp := ARM9Timestamp (console d) + ucast (push_bit (ARM9ClockShift (console d)) t)\<rparr>\<rparr>;
          (v, d) = BRead16 (Bus9 ext) (CurSrcAddr d) d;
          d = BWrite16 (Bus9 ext) (CurDstAddr d) v d;
          d = (if serialROM then EndDMAUnit ext d else d)
      in d\<lparr>CurSrcAddr := CurSrcAddr d + push_bit 1 (SrcAddrInc d), CurDstAddr := CurDstAddr d + push_bit 1 (DstAddrInc d),
           IterCount := IterCount d - 1, RemCount := RemCount d - 1\<rparr>)"

definition unit9_32 :: "'x dma_ext \<Rightarrow> bool \<Rightarrow> bool \<Rightarrow> 'x dma \<Rightarrow> 'x dma" where
  "unit9_32 ext serialROM burststart d =
     (let d = (if serialROM
               then BeginDMAUnit ext (CPU d) (DNum d) (CurSrcAddr d) (CurDstAddr d) 4 burststart (tst (DCnt d) 0x80000000) d
               else d);
          (t, d) = UnitTimings9_32 ext burststart d;
          d = d\<lparr>console := (console d)\<lparr>ARM9Timestamp := ARM9Timestamp (console d) + ucast (push_bit (ARM9ClockShift (console d)) t)\<rparr>\<rparr>;
          (v, d) = BRead32 (Bus9 ext) (CurSrcAddr d) d;
          d = BWrite32 (Bus9 ext) (CurDstAddr d) v d;
          d = (if serialROM then EndDMAUnit ext d else d)
      in d\<lparr>CurSrcAddr := CurSrcAddr d + push_bit 2 (SrcAddrInc d), CurDstAddr := CurDstAddr d + push_bit 2 (DstAddrInc d),
           IterCount := IterCount d - 1, RemCount := RemCount d - 1\<rparr>)"

definition unit7_16 :: "'x dma_ext \<Rightarrow> bool \<Rightarrow> bool \<Rightarrow> 'x dma \<Rightarrow> 'x dma" where
  "unit7_16 ext serialROM burststart d =
     (let d = (if serialROM
               then BeginDMAUnit ext (CPU d) (DNum d) (CurSrcAddr d) (CurDstAddr d) 2 burststart (tst (DCnt d) 0x80000000) d
               else d);
          (t, d) = UnitTimings7_16 ext burststart d;
          d = d\<lparr>console := (console d)\<lparr>ARM7Timestamp := ARM7Timestamp (console d) + ucast (t)\<rparr>\<rparr>;
          (v, d) = BRead16 (Bus7 ext) (CurSrcAddr d) d;
          d = BWrite16 (Bus7 ext) (CurDstAddr d) v d;
          d = (if serialROM then EndDMAUnit ext d else d)
      in d\<lparr>CurSrcAddr := CurSrcAddr d + push_bit 1 (SrcAddrInc d), CurDstAddr := CurDstAddr d + push_bit 1 (DstAddrInc d),
           IterCount := IterCount d - 1, RemCount := RemCount d - 1\<rparr>)"

definition unit7_32 :: "'x dma_ext \<Rightarrow> bool \<Rightarrow> bool \<Rightarrow> 'x dma \<Rightarrow> 'x dma" where
  "unit7_32 ext serialROM burststart d =
     (let d = (if serialROM
               then BeginDMAUnit ext (CPU d) (DNum d) (CurSrcAddr d) (CurDstAddr d) 4 burststart (tst (DCnt d) 0x80000000) d
               else d);
          (t, d) = UnitTimings7_32 ext burststart d;
          d = d\<lparr>console := (console d)\<lparr>ARM7Timestamp := ARM7Timestamp (console d) + ucast (t)\<rparr>\<rparr>;
          (v, d) = BRead32 (Bus7 ext) (CurSrcAddr d) d;
          d = BWrite32 (Bus7 ext) (CurDstAddr d) v d;
          d = (if serialROM then EndDMAUnit ext d else d)
      in d\<lparr>CurSrcAddr := CurSrcAddr d + push_bit 2 (SrcAddrInc d), CurDstAddr := CurDstAddr d + push_bit 2 (DstAddrInc d),
           IterCount := IterCount d - 1, RemCount := RemCount d - 1\<rparr>)"

definition expired9 :: "'x dma \<Rightarrow> bool" where
  "expired9 d \<longleftrightarrow> ARM9Timestamp (console d) \<ge> ARM9Target (console d)"

definition expired7 :: "'x dma \<Rightarrow> bool" where
  "expired7 d \<longleftrightarrow> ARM7Timestamp (console d) \<ge> ARM7Target (console d)"

text \<open>
  The loop ends when the count runs out, on a stall, or when the time is up.  An access may rewrite
  the channel, so no measure bounds it in general.
\<close>

partial_function (option) dma_units ::
  "(bool \<Rightarrow> 'x dma \<Rightarrow> 'x dma) \<Rightarrow> ('x dma \<Rightarrow> bool) \<Rightarrow> bool \<Rightarrow> 'x dma \<Rightarrow> 'x dma option" where
  "dma_units unit expired burststart d =
     (if IterCount d \<noteq> 0 \<and> \<not> Stall d then
        let d = unit burststart d
        in if expired d then Some d else dma_units unit expired False d
      else Some d)"

text \<open>The end of a transfer: the enable bit, the interrupt, the CPU.\<close>

definition end_count :: "'x dma \<Rightarrow> 'x dma" where
  "end_count d = (if \<not> tst (DCnt d) (push_bit 25 1) then d\<lparr>DCnt := DCnt d AND NOT (push_bit 31 1)\<rparr> else d)"

definition request_irq :: "'x dma_ext \<Rightarrow> nat \<Rightarrow> 'x dma \<Rightarrow> 'x dma" where
  "request_irq ext c d =
     (if tst (DCnt d) (push_bit 30 1)
      then d\<lparr>console := SetIRQ (Console_ext ext) c (IRQ_DMA0 + DNum d) (console d)\<rparr> else d)"

definition release :: "nat \<Rightarrow> 'x dma \<Rightarrow> 'x dma" where
  "release c d =
     d\<lparr>Running := 0, InProgress := False, console := ResumeCPU c (push_bit (DNum d) 1) (console d)\<rparr>"

definition finish9 :: "'x dma_ext \<Rightarrow> 'x dma \<Rightarrow> 'x dma" where
  "finish9 ext d =
     (let d = d\<lparr>Executing := False, Stall := False\<rparr>;
          d = (if IterCount d = 0 then EndDMA ext (CPU d) (DNum d) False d else d)
      in if RemCount d \<noteq> 0 then
           if IterCount d = 0 then
            let d = d\<lparr>Running := 0, console := ResumeCPU 0 (push_bit (DNum d) 1) (console d)\<rparr>
            in if StartMode d = 0x07 then CheckFIFODMA ext d else d
           else d
         else
           let d = release 0 (request_irq ext 0 (end_count d))
           in if StartMode d = 0x05 then CartCheckDMA ext 0 d else d)"

definition Run9 :: "'x dma_ext \<Rightarrow> 'x dma \<Rightarrow> 'x dma option" where
  "Run9 ext d =
     (if expired9 d then Some d
      else
        let serialROM = NeedsROMBus ext d;
            d = d\<lparr>Executing := True\<rparr>;
            burststart = (Running d = 2);
            d = d\<lparr>Running := 1\<rparr>
        in map_option (finish9 ext)
             (if \<not> tst (DCnt d) (push_bit 26 1)
              then dma_units (unit9_16 ext serialROM) expired9 burststart d
              else dma_units (unit9_32 ext serialROM) expired9 burststart d))"

definition finish7 :: "'x dma_ext \<Rightarrow> 'x dma \<Rightarrow> 'x dma" where
  "finish7 ext d =
     (let d = d\<lparr>Executing := False, Stall := False\<rparr>;
          d = (if IterCount d = 0 then EndDMA ext (CPU d) (DNum d) False d else d)
      in if RemCount d \<noteq> 0 then
           if IterCount d = 0 then
            d\<lparr>Running := 0, console := ResumeCPU 1 (push_bit (DNum d) 1) (console d)\<rparr>
           else d
         else
           let d = release 1 (request_irq ext 1 (end_count d))
           in if StartMode d = 0x12 then CartCheckDMA ext 1 d else d)"

definition Run7 :: "'x dma_ext \<Rightarrow> 'x dma \<Rightarrow> 'x dma option" where
  "Run7 ext d =
     (if expired7 d then Some d
      else
        let serialROM = NeedsROMBus ext d;
            d = d\<lparr>Executing := True\<rparr>;
            burststart = (Running d = 2);
            d = d\<lparr>Running := 1\<rparr>
        in map_option (finish7 ext)
             (if \<not> tst (DCnt d) (push_bit 26 1)
              then dma_units (unit7_16 ext serialROM) expired7 burststart d
              else dma_units (unit7_32 ext serialROM) expired7 burststart d))"

definition Run :: "'x dma_ext \<Rightarrow> 'x dma \<Rightarrow> 'x dma option" where
  "Run ext d = (if Running d = 0 then Some d else if CPU d = 0 then Run9 ext d else Run7 ext d)"

end
