(* ===== verification/DmaProps.thy ===== *)
theory DmaProps
  imports Dma
begin

text \<open>
  What a DMA channel guarantees: the burst-timing index stays in its table, and on an ordinary
  memory bus a transfer copies exactly its units, however the scheduler slices its time.
\<close>

section \<open>The burst index\<close>

definition table_ok :: "u8 list \<Rightarrow> bool" where
  "table_ok t \<longleftrightarrow> length t = 256 \<and> t ! 255 = 0"

definition burst_ok :: "'x dma \<Rightarrow> bool" where
  "burst_ok d \<longleftrightarrow> table_ok (MRAMBurstTable d) \<and> unat (MRAMBurstCount d) < 256"

lemma table256_ok: "length xs < 256 \<Longrightarrow> table_ok (table256 xs)"
  by (simp add: table_ok_def table256_def nth_append)

lemma tables_ok:
  "table_ok MRAMDummy"
  "i < 3 \<Longrightarrow> table_ok (MRAMRead16Bursts ! i)" "i < 4 \<Longrightarrow> table_ok (MRAMRead32Bursts ! i)"
  "i < 3 \<Longrightarrow> table_ok (MRAMWrite16Bursts ! i)" "i < 4 \<Longrightarrow> table_ok (MRAMWrite32Bursts ! i)"
proof -
  have all: "\<forall>t \<in> set (MRAMRead16Bursts @ MRAMRead32Bursts @ MRAMWrite16Bursts @ MRAMWrite32Bursts). table_ok t"
    by (simp add: MRAMRead16Bursts_def MRAMRead32Bursts_def MRAMWrite16Bursts_def MRAMWrite32Bursts_def table256_ok)
  have "length MRAMRead16Bursts = 3" "length MRAMRead32Bursts = 4" "length MRAMWrite16Bursts = 3"
    "length MRAMWrite32Bursts = 4"
    by (simp_all add: MRAMRead16Bursts_def MRAMRead32Bursts_def MRAMWrite16Bursts_def MRAMWrite32Bursts_def)
  then show "i < 3 \<Longrightarrow> table_ok (MRAMRead16Bursts ! i)" "i < 4 \<Longrightarrow> table_ok (MRAMRead32Bursts ! i)"
    "i < 3 \<Longrightarrow> table_ok (MRAMWrite16Bursts ! i)" "i < 4 \<Longrightarrow> table_ok (MRAMWrite32Bursts ! i)"
    using all nth_mem by fastforce+
  show "table_ok MRAMDummy" by (simp add: MRAMDummy_def table256_ok)
qed

lemma burst_ok_cong:
  "MRAMBurstTable d' = MRAMBurstTable d \<Longrightarrow> MRAMBurstCount d' = MRAMBurstCount d \<Longrightarrow> burst_ok d' = burst_ok d"
  by (simp add: burst_ok_def)

lemma mram_burst_ok:
  assumes "burst_ok d" "table_ok table"
  shows "burst_ok (snd (mram_burst b table d))"
proof (cases "b \<or> MRAMBurstTable d ! unat (MRAMBurstCount d) = 0")
  case True
  then show ?thesis using assms by (simp add: mram_burst_def Let_def burst_ok_def)
next
  case False
  then have "unat (MRAMBurstCount d) \<noteq> 255" using assms by (auto simp: burst_ok_def table_ok_def)
  then have "unat (MRAMBurstCount d) < 255" using assms by (simp add: burst_ok_def)
  then have "unat (MRAMBurstCount d + 1) < 256" by (simp add: unat_word_ariths)
  then show ?thesis using False assms by (simp add: mram_burst_def Let_def burst_ok_def)
qed

lemma UnitTimings_ok:
  assumes "burst_ok d"
  shows "burst_ok (snd (UnitTimings9_16 ext b d))" "burst_ok (snd (UnitTimings9_32 ext b d))"
    "burst_ok (snd (UnitTimings7_16 ext b d))" "burst_ok (snd (UnitTimings7_32 ext b d))"
  using assms mram_burst_ok [OF assms] tables_ok
  by (simp_all add: UnitTimings9_16_def UnitTimings9_32_def UnitTimings7_16_def UnitTimings7_32_def Let_def)

text \<open>The calls out of the channel, as far as the burst state goes: none of them breaks it.\<close>

definition bus_keeps :: "('x dma \<Rightarrow> bool) \<Rightarrow> 'x dma_bus \<Rightarrow> bool" where
  "bus_keeps P b \<longleftrightarrow>
     (\<forall>a d. P d \<longrightarrow> P (snd (BRead16 b a d)) \<and> P (snd (BRead32 b a d))) \<and>
     (\<forall>a v d. P d \<longrightarrow> P (BWrite16 b a v d)) \<and> (\<forall>a v d. P d \<longrightarrow> P (BWrite32 b a v d))"

definition ext_keeps :: "('x dma \<Rightarrow> bool) \<Rightarrow> 'x dma_ext \<Rightarrow> bool" where
  "ext_keeps P ext \<longleftrightarrow> bus_keeps P (Bus9 ext) \<and> bus_keeps P (Bus7 ext) \<and>
     (\<forall>c n s t w b e d. P d \<longrightarrow> P (BeginDMAUnit ext c n s t w b e d)) \<and>
     (\<forall>d. P d \<longrightarrow> P (EndDMAUnit ext d) \<and> P (CheckFIFODMA ext d)) \<and>
     (\<forall>c n a d. P d \<longrightarrow> P (EndDMA ext c n a d)) \<and> (\<forall>c d. P d \<longrightarrow> P (CartCheckDMA ext c d))"

lemmas ext_keepsD = ext_keeps_def [THEN iffD1] bus_keeps_def [THEN iffD1]

lemma burst_ok_upd [simp]:
  "burst_ok (d\<lparr>console := c\<rparr>) = burst_ok d" "burst_ok (d\<lparr>DCnt := v\<rparr>) = burst_ok d"
  "burst_ok (d\<lparr>CurSrcAddr := v\<rparr>) = burst_ok d" "burst_ok (d\<lparr>CurDstAddr := v\<rparr>) = burst_ok d"
  "burst_ok (d\<lparr>RemCount := v\<rparr>) = burst_ok d" "burst_ok (d\<lparr>IterCount := v\<rparr>) = burst_ok d"
  "burst_ok (d\<lparr>SrcAddrInc := v\<rparr>) = burst_ok d" "burst_ok (d\<lparr>DstAddrInc := v\<rparr>) = burst_ok d"
  "burst_ok (d\<lparr>StartMode := v\<rparr>) = burst_ok d" "burst_ok (d\<lparr>Running := v\<rparr>) = burst_ok d"
  "burst_ok (d\<lparr>InProgress := b\<rparr>) = burst_ok d" "burst_ok (d\<lparr>Executing := b\<rparr>) = burst_ok d"
  "burst_ok (d\<lparr>Stall := b\<rparr>) = burst_ok d" "burst_ok (d\<lparr>IsGXFIFODMA := b\<rparr>) = burst_ok d"
  by (simp_all add: burst_ok_def)

lemma unit_ok:
  assumes "ext_keeps burst_ok ext" "burst_ok d"
  shows "burst_ok (unit9_16 ext r b d)" "burst_ok (unit9_32 ext r b d)"
    "burst_ok (unit7_16 ext r b d)" "burst_ok (unit7_32 ext r b d)"
proof -
  define e where "e w = (if r then BeginDMAUnit ext (CPU d) (DNum d) (CurSrcAddr d) (CurDstAddr d) w b
      (tst (DCnt d) 0x80000000) d else d)" for w
  have e: "burst_ok (e w)" for w using assms by (simp add: e_def ext_keeps_def)
  have time: "burst_ok (snd (UnitTimings9_16 ext b (e w)))" "burst_ok (snd (UnitTimings9_32 ext b (e w)))"
    "burst_ok (snd (UnitTimings7_16 ext b (e w)))" "burst_ok (snd (UnitTimings7_32 ext b (e w)))" for w
    using UnitTimings_ok [OF e] by simp_all
  have bus: "burst_ok x \<Longrightarrow> burst_ok (snd (BRead16 (Bus9 ext) a x))" "burst_ok x \<Longrightarrow> burst_ok (snd (BRead32 (Bus9 ext) a x))"
    "burst_ok x \<Longrightarrow> burst_ok (snd (BRead16 (Bus7 ext) a x))" "burst_ok x \<Longrightarrow> burst_ok (snd (BRead32 (Bus7 ext) a x))"
    "burst_ok x \<Longrightarrow> burst_ok (BWrite16 (Bus9 ext) a h x)" "burst_ok x \<Longrightarrow> burst_ok (BWrite32 (Bus9 ext) a v x)"
    "burst_ok x \<Longrightarrow> burst_ok (BWrite16 (Bus7 ext) a h x)" "burst_ok x \<Longrightarrow> burst_ok (BWrite32 (Bus7 ext) a v x)"
    "burst_ok x \<Longrightarrow> burst_ok (EndDMAUnit ext x)" for x a h v
    using assms(1) by (simp_all add: ext_keeps_def bus_keeps_def)
  show "burst_ok (unit9_16 ext r b d)"
    unfolding unit9_16_def e_def [symmetric] Let_def split_beta by (simp add: bus time)
  show "burst_ok (unit9_32 ext r b d)"
    unfolding unit9_32_def e_def [symmetric] Let_def split_beta by (simp add: bus time)
  show "burst_ok (unit7_16 ext r b d)"
    unfolding unit7_16_def e_def [symmetric] Let_def split_beta by (simp add: bus time)
  show "burst_ok (unit7_32 ext r b d)"
    unfolding unit7_32_def e_def [symmetric] Let_def split_beta by (simp add: bus time)
qed

lemma dma_units_keeps:
  assumes "dma_units unit expired b d = Some d'" "\<And>b d. P d \<Longrightarrow> P (unit b d)" "P d"
  shows "P d'"
proof -
  have "(\<forall>b d. P d \<longrightarrow> P (unit b d)) \<longrightarrow> P d \<longrightarrow> P d'"
  proof (rule dma_units.raw_induct [OF _ assms(1), where P = "\<lambda>unit expired b d d'.
      (\<forall>b d. P d \<longrightarrow> P (unit b d)) \<longrightarrow> P d \<longrightarrow> P d'"], goal_cases)
    case (1 units unit expired b d d')
    then show ?case by (auto simp: Let_def split: if_splits)
  qed
  then show ?thesis using assms(2,3) by blast
qed

lemma start_steps [simp]:
  "burst_ok (start_RemCount d) = burst_ok d" "burst_ok (start_IterCount d) = burst_ok d"
  "burst_ok (start_addresses d) = burst_ok d" "burst_ok d \<Longrightarrow> burst_ok (start_run d)"
  "burst_ok (load_increments d) = burst_ok d" "burst_ok (load_StartMode d) = burst_ok d"
  using tables_ok(1)
  by (simp_all only: start_RemCount_def start_IterCount_def start_addresses_def start_run_def load_increments_def
      load_StartMode_def Let_def if_distrib [of burst_ok] burst_ok_upd if_cancel)
    (simp_all add: burst_ok_def)

lemma end_steps [simp]:
  "burst_ok (end_count d) = burst_ok d" "burst_ok (request_irq ext c d) = burst_ok d"
  "burst_ok (release c d) = burst_ok d"
  by (simp_all add: end_count_def request_irq_def release_def)

text \<open>The index into the burst table stays inside its 256 entries: from a reset on, whatever is written to
  the control register, however the channel is started and run, and whatever the bus accesses do as
  long as they too keep the index.\<close>

lemma burst_index_in_bounds:
  assumes "ext_keeps burst_ok ext" "burst_ok d"
  shows "burst_ok (dma_Reset d) \<and> burst_ok (Start d) \<and> burst_ok (WriteCnt ext v d) \<and>
    burst_ok (StartIfNeeded mode d) \<and> burst_ok (StopIfNeeded ext mode d) \<and>
    (\<forall>d'. Run ext d = Some d' \<longrightarrow> burst_ok d' \<and> MRAMBurstCount d' < 256)"
proof -
  have reset: "burst_ok (dma_Reset d)" for d :: "'a dma"
    using tables_ok(1) by (simp add: dma_Reset_def burst_ok_def)
  have start: "burst_ok (Start d)" if "burst_ok d" for d :: "'a dma"
    using that by (simp add: Start_def start_steps)
  have calls: "burst_ok x \<Longrightarrow> burst_ok (EndDMA ext c n a x)" "burst_ok x \<Longrightarrow> burst_ok (CartCheckDMA ext c x)"
    "burst_ok x \<Longrightarrow> burst_ok (CheckFIFODMA ext x)" for x c n a
    using assms(1) by (simp_all add: ext_keeps_def)
  have wcnt: "burst_ok (WriteCnt ext v d)" if "burst_ok d" for v d
    using that by (simp add: WriteCnt_def Let_def start calls start_steps)
  have fin: "burst_ok (finish9 ext x)" "burst_ok (finish7 ext x)" if "burst_ok x" for x
    using that by (simp_all add: finish9_def finish7_def Let_def calls)
  have units: "burst_ok x'" if "dma_units u e b x = Some x'" "burst_ok x" "\<And>b d. burst_ok d \<Longrightarrow> burst_ok (u b d)" for u e b x x'
    by (rule dma_units_keeps [OF that(1) that(3) that(2)])
  note each = units [OF _ _ unit_ok(1) [OF assms(1)]] units [OF _ _ unit_ok(2) [OF assms(1)]]
    units [OF _ _ unit_ok(3) [OF assms(1)]] units [OF _ _ unit_ok(4) [OF assms(1)]]
  have run9: "burst_ok d'" if "Run9 ext d = Some d'" for d'
    using that assms(2) unfolding Run9_def Let_def
    by (auto split: if_split_asm intro!: fin dest: each)
  have run7: "burst_ok d'" if "Run7 ext d = Some d'" for d'
    using that assms(2) unfolding Run7_def Let_def
    by (auto split: if_split_asm intro!: fin dest: each)
  have run: "burst_ok d' \<and> MRAMBurstCount d' < 256" if "Run ext d = Some d'" for d'
    using that assms(2) run9 run7 by (auto simp: Run_def burst_ok_def word_less_nat_alt split: if_split_asm)
  then show ?thesis
    using reset start [OF assms(2)] wcnt [OF assms(2)] assms(2) by (simp add: StartIfNeeded_def StopIfNeeded_def)
qed

section \<open>An ordinary memory bus\<close>

text \<open>
  The environment of a transfer between memories: accesses go to a memory kept in the console's
  \<open>Rest\<close> and touch nothing else, and the cartridge slots and the geometry engine stay idle.
\<close>

record 'x memory =
  rd16 :: "u32 \<Rightarrow> 'x \<Rightarrow> u16"
  rd32 :: "u32 \<Rightarrow> 'x \<Rightarrow> u32"
  wr16 :: "u32 \<Rightarrow> u16 \<Rightarrow> 'x \<Rightarrow> 'x"
  wr32 :: "u32 \<Rightarrow> u32 \<Rightarrow> 'x \<Rightarrow> 'x"
  regions :: "nat \<Rightarrow> u32"
  timings :: "nat \<Rightarrow> nat \<Rightarrow> u8"

definition set_mem :: "'x \<Rightarrow> 'x dma \<Rightarrow> 'x dma" where
  "set_mem x d = d\<lparr>console := (console d)\<lparr>Rest := x\<rparr>\<rparr>"

definition memory_bus :: "'x memory \<Rightarrow> 'x dma_bus" where
  "memory_bus m =
     \<lparr>BRead16 = (\<lambda>a d. (rd16 m a (Rest (console d)), d)), BRead32 = (\<lambda>a d. (rd32 m a (Rest (console d)), d)),
      BWrite16 = (\<lambda>a v d. set_mem (wr16 m a v (Rest (console d))) d),
      BWrite32 = (\<lambda>a v d. set_mem (wr32 m a v (Rest (console d))) d),
      Regions = (\<lambda>_. regions m), MemTimings = (\<lambda>_. timings m)\<rparr>"

definition memory_ext :: "'x memory \<Rightarrow> 'x dma_ext" where
  "memory_ext m =
     \<lparr>Bus9 = memory_bus m, Bus7 = memory_bus m,
      Console_ext = \<lparr>Restart3DFrame = (\<lambda>x. x), CheckNDMAs = (\<lambda>_ _ x. (x, 0)), GXFIFO_irq = (\<lambda>_. False)\<rparr>,
      NeedsROMBus = (\<lambda>_. False), BeginDMAUnit = (\<lambda>_ _ _ _ _ _ _ d. d), EndDMAUnit = (\<lambda>d. d),
      EndDMA = (\<lambda>_ _ _ d. d), CartCheckDMA = (\<lambda>_ d. d), CheckFIFODMA = (\<lambda>d. d)\<rparr>"

lemma memory_ext_sel [simp]:
  "Bus9 (memory_ext m) = memory_bus m" "Bus7 (memory_ext m) = memory_bus m"
  "NeedsROMBus (memory_ext m) d = False" "EndDMA (memory_ext m) c n b d = d"
  "CartCheckDMA (memory_ext m) c d = d" "CheckFIFODMA (memory_ext m) d = d"
  "BRead16 (memory_bus m) a d = (rd16 m a (Rest (console d)), d)"
  "BRead32 (memory_bus m) a d = (rd32 m a (Rest (console d)), d)"
  "BWrite16 (memory_bus m) a h d = set_mem (wr16 m a h (Rest (console d))) d"
  "BWrite32 (memory_bus m) a w d = set_mem (wr32 m a w (Rest (console d))) d"
  by (simp_all add: memory_ext_def memory_bus_def)

lemma memory_ext_keeps: "ext_keeps burst_ok (memory_ext m)"
  by (simp add: ext_keeps_def bus_keeps_def memory_ext_def memory_bus_def set_mem_def)

lemma burst_index_in_bounds_witness:
  "\<forall>m. let d = dma_Reset (undefined :: unit dma) in burst_ok (WriteCnt (memory_ext m) 0x84000010 d)"
proof
  fix m :: "unit memory"
  have "burst_ok (dma_Reset (undefined :: unit dma))"
    using tables_ok(1) by (simp add: dma_Reset_def burst_ok_def)
  from burst_index_in_bounds [OF memory_ext_keeps this, of m "0x84000010"]
  show "let d = dma_Reset (undefined :: unit dma) in burst_ok (WriteCnt (memory_ext m) 0x84000010 d)"
    by (simp add: Let_def)
qed

section \<open>The units of a transfer\<close>

text \<open>What \<open>n\<close> units do to the memory.\<close>

primrec dma_copy :: "(u32 \<Rightarrow> 'x \<Rightarrow> 'v) \<Rightarrow> (u32 \<Rightarrow> 'v \<Rightarrow> 'x \<Rightarrow> 'x) \<Rightarrow> nat \<Rightarrow> u32 \<Rightarrow> u32 \<Rightarrow> s32 \<Rightarrow> s32 \<Rightarrow> 'x \<Rightarrow> 'x" where
  "dma_copy rd wr 0 s t si ti x = x"
| "dma_copy rd wr (Suc n) s t si ti x = dma_copy rd wr n (s + si) (t + ti) si ti (wr t (rd s x) x)"

text \<open>Everything a unit leaves alone.\<close>

definition unit_frame :: "'x dma \<Rightarrow> 'x dma" where
  "unit_frame d = d\<lparr>CurSrcAddr := 0, CurDstAddr := 0, RemCount := 0, IterCount := 0, MRAMBurstCount := 0,
     MRAMBurstTable := [],
     console := (console d)\<lparr>Rest := undefined, ARM9Timestamp := 0, ARM7Timestamp := 0\<rparr>\<rparr>"

locale transfer_unit =
  fixes unit :: "bool \<Rightarrow> 'x dma \<Rightarrow> 'x dma" and rd :: "u32 \<Rightarrow> 'x \<Rightarrow> 'v" and wr :: "u32 \<Rightarrow> 'v \<Rightarrow> 'x \<Rightarrow> 'x"
    and k :: nat
  assumes unit_mem: "Rest (console (unit b d)) =
      wr (CurDstAddr d) (rd (CurSrcAddr d) (Rest (console d))) (Rest (console d))"
    and unit_src: "CurSrcAddr (unit b d) = CurSrcAddr d + push_bit k (SrcAddrInc d)"
    and unit_dst: "CurDstAddr (unit b d) = CurDstAddr d + push_bit k (DstAddrInc d)"
    and unit_iter: "IterCount (unit b d) = IterCount d - 1"
    and unit_rem: "RemCount (unit b d) = RemCount d - 1"
    and unit_else: "unit_frame (unit b d) = unit_frame d"
begin

text \<open>\<open>moved n d d'\<close>: \<open>d'\<close> is \<open>d\<close> after \<open>n\<close> more units.\<close>

definition moved :: "nat \<Rightarrow> 'x dma \<Rightarrow> 'x dma \<Rightarrow> bool" where
  "moved n d d' \<longleftrightarrow>
     Rest (console d') = dma_copy rd wr n (CurSrcAddr d) (CurDstAddr d) (push_bit k (SrcAddrInc d))
       (push_bit k (DstAddrInc d)) (Rest (console d)) \<and>
     CurSrcAddr d' = CurSrcAddr d + of_nat n * push_bit k (SrcAddrInc d) \<and>
     CurDstAddr d' = CurDstAddr d + of_nat n * push_bit k (DstAddrInc d) \<and>
     IterCount d' = IterCount d - of_nat n \<and> RemCount d' = RemCount d - of_nat n \<and>
     unit_frame d' = unit_frame d"

lemma frame_fields:
  fixes d d' :: "'x dma"
  assumes "unit_frame d' = unit_frame d"
  shows "SrcAddrInc d' = SrcAddrInc d" "DstAddrInc d' = DstAddrInc d" "Stall d' = Stall d"
proof -
  have f: "SrcAddrInc (unit_frame d) = SrcAddrInc d" "DstAddrInc (unit_frame d) = DstAddrInc d"
    "Stall (unit_frame d) = Stall d" for d :: "'x dma"
    by (simp_all add: unit_frame_def)
  show "SrcAddrInc d' = SrcAddrInc d" "DstAddrInc d' = DstAddrInc d" "Stall d' = Stall d"
    using f [of d] f [of d'] assms by simp_all
qed

lemma moved_0: "moved 0 d d"
  by (simp add: moved_def)

lemma moved_step: "moved n (unit b d) d' \<Longrightarrow> moved (Suc n) d d'"
  using frame_fields [OF unit_else]
  by (simp add: moved_def unit_mem unit_src unit_dst unit_iter unit_rem unit_else algebra_simps)

text \<open>The loop ends, after as many units as the count holds or when the time is up.\<close>

lemma loop_moves:
  assumes "\<not> Stall d"
  shows "\<exists>n d'. dma_units unit expired b d = Some d' \<and> moved n d d' \<and> n \<le> unat (IterCount d) \<and>
    (IterCount d \<noteq> 0 \<longrightarrow> 0 < n) \<and> (n < unat (IterCount d) \<longrightarrow> expired d')"
  using assms
proof (induction "unat (IterCount d)" arbitrary: b d)
  case 0
  then show ?case using moved_0 by (subst dma_units.simps) (simp add: unat_eq_0)
next
  case (Suc i)
  have it: "IterCount d \<noteq> 0" using Suc.hyps(2) by auto
  then have i: "i = unat (IterCount (unit b d))" using Suc.hyps(2) by (simp add: unit_iter unat_minus_one)
  have st: "\<not> Stall (unit b d)" using frame_fields [OF unit_else] Suc.prems by simp
  show ?case
  proof (cases "expired (unit b d)")
    case True
    then have "dma_units unit expired b d = Some (unit b d)"
      using it Suc.prems by (subst dma_units.simps) (simp add: Let_def)
    then show ?thesis using moved_step [OF moved_0] True Suc.hyps(2) by (intro exI [of _ "Suc 0"]) simp
  next
    case False
    then have eq: "dma_units unit expired b d = dma_units unit expired False (unit b d)"
      using it Suc.prems by (subst dma_units.simps) (simp add: Let_def)
    from Suc.hyps(1) [OF i st] obtain n d' where "dma_units unit expired False (unit b d) = Some d'"
      "moved n (unit b d) d'" "n \<le> i" "n < i \<longrightarrow> expired d'" unfolding i by blast
    then show ?thesis using moved_step Suc.hyps(2) unfolding eq by (intro exI [of _ "Suc n"]) auto
  qed
qed

end

section \<open>The four transfer loops\<close>

lemma mram_burst_shape: "\<exists>c t. snd (mram_burst b table d) = d\<lparr>MRAMBurstCount := c, MRAMBurstTable := t\<rparr>"
proof (cases "b \<or> MRAMBurstTable d ! unat (MRAMBurstCount d) = 0")
  case True
  then show ?thesis
    by (intro exI [of _ 1] exI [of _ table]) (simp add: mram_burst_def Let_def)
next
  case False
  then show ?thesis
    by (intro exI [of _ "MRAMBurstCount d + 1"] exI [of _ "MRAMBurstTable d"]) (simp add: mram_burst_def Let_def)
qed

lemma same_shape: "\<exists>c t. d = d\<lparr>MRAMBurstCount := c, MRAMBurstTable := t\<rparr>"
  by (intro exI [of _ "MRAMBurstCount d"] exI [of _ "MRAMBurstTable d"]) simp

lemma UnitTimings_shape:
  "\<exists>c t. snd (UnitTimings9_16 ext b d) = d\<lparr>MRAMBurstCount := c, MRAMBurstTable := t\<rparr>"
  "\<exists>c t. snd (UnitTimings9_32 ext b d) = d\<lparr>MRAMBurstCount := c, MRAMBurstTable := t\<rparr>"
  "\<exists>c t. snd (UnitTimings7_16 ext b d) = d\<lparr>MRAMBurstCount := c, MRAMBurstTable := t\<rparr>"
  "\<exists>c t. snd (UnitTimings7_32 ext b d) = d\<lparr>MRAMBurstCount := c, MRAMBurstTable := t\<rparr>"
  using mram_burst_shape [of b _ d] same_shape [of d]
  by (simp_all add: UnitTimings9_16_def UnitTimings9_32_def UnitTimings7_16_def UnitTimings7_32_def Let_def)

text \<open>A unit takes its time on one of the two clocks, then moves its value.\<close>

definition tick9 :: "(bool \<Rightarrow> 'x dma \<Rightarrow> u32 \<times> 'x dma) \<Rightarrow> bool \<Rightarrow> 'x dma \<Rightarrow> 'x nds \<Rightarrow> 'x nds" where
  "tick9 T b d c = c\<lparr>ARM9Timestamp := ARM9Timestamp c + ucast (push_bit (ARM9ClockShift c) (fst (T b d)))\<rparr>"

definition tick7 :: "(bool \<Rightarrow> 'x dma \<Rightarrow> u32 \<times> 'x dma) \<Rightarrow> bool \<Rightarrow> 'x dma \<Rightarrow> 'x nds \<Rightarrow> 'x nds" where
  "tick7 T b d c = c\<lparr>ARM7Timestamp := ARM7Timestamp c + ucast (fst (T b d))\<rparr>"

lemma ticks: "\<exists>u v. tick9 T b d c = c\<lparr>ARM9Timestamp := u, ARM7Timestamp := v\<rparr>"
  "\<exists>u v. tick7 T b d c = c\<lparr>ARM9Timestamp := u, ARM7Timestamp := v\<rparr>"
  unfolding tick9_def tick7_def by (cases c; fastforce)+

lemma transfer_unitI:
  assumes T: "\<And>b d. \<exists>c t. snd (T b d) = d\<lparr>MRAMBurstCount := c, MRAMBurstTable := t\<rparr>"
    and S: "\<And>T b d c. \<exists>u v. tick T b d c = c\<lparr>ARM9Timestamp := u, ARM7Timestamp := v\<rparr>"
    and U: "\<And>b d. unit b d =
      (let e = snd (T b d); x = Rest (console e)
       in e\<lparr>console := (tick T b d (console e))\<lparr>Rest := wr (CurDstAddr e) (rd (CurSrcAddr e) x) x\<rparr>,
            CurSrcAddr := CurSrcAddr e + push_bit k (SrcAddrInc e), CurDstAddr := CurDstAddr e + push_bit k (DstAddrInc e),
            IterCount := IterCount e - 1, RemCount := RemCount e - 1\<rparr>)"
  shows "transfer_unit unit rd wr k"
proof
  fix b and d :: "'a dma"
  obtain c t where e: "snd (T b d) = d\<lparr>MRAMBurstCount := c, MRAMBurstTable := t\<rparr>" using T by blast
  moreover obtain u v where "tick T b d (console d) = (console d)\<lparr>ARM9Timestamp := u, ARM7Timestamp := v\<rparr>"
    using S by blast
  ultimately show "Rest (console (unit b d)) = wr (CurDstAddr d) (rd (CurSrcAddr d) (Rest (console d))) (Rest (console d))"
    "CurSrcAddr (unit b d) = CurSrcAddr d + push_bit k (SrcAddrInc d)"
    "CurDstAddr (unit b d) = CurDstAddr d + push_bit k (DstAddrInc d)"
    "IterCount (unit b d) = IterCount d - 1" "RemCount (unit b d) = RemCount d - 1"
    "unit_frame (unit b d) = unit_frame d"
    by (simp_all add: U Let_def unit_frame_def)
qed

lemmas unit_shapes = unit9_16_def unit9_32_def unit7_16_def unit7_32_def tick9_def tick7_def set_mem_def split_beta Let_def

interpretation u9_16: transfer_unit "unit9_16 (memory_ext m) False" "rd16 m" "wr16 m" 1 for m
  by (rule transfer_unitI [OF UnitTimings_shape(1) ticks(1)]) (simp add: unit_shapes)

interpretation u9_32: transfer_unit "unit9_32 (memory_ext m) False" "rd32 m" "wr32 m" 2 for m
  by (rule transfer_unitI [OF UnitTimings_shape(2) ticks(1)]) (simp add: unit_shapes)

interpretation u7_16: transfer_unit "unit7_16 (memory_ext m) False" "rd16 m" "wr16 m" 1 for m
  by (rule transfer_unitI [OF UnitTimings_shape(3) ticks(2)]) (simp add: unit_shapes)

interpretation u7_32: transfer_unit "unit7_32 (memory_ext m) False" "rd32 m" "wr32 m" 2 for m
  by (rule transfer_unitI [OF UnitTimings_shape(4) ticks(2)]) (simp add: unit_shapes)

section \<open>Transfers in time slices\<close>

text \<open>The memory after \<open>n\<close> units of the channel's transfer.\<close>

definition transferred :: "'x memory \<Rightarrow> nat \<Rightarrow> 'x dma \<Rightarrow> 'x \<Rightarrow> 'x" where
  "transferred m n d x =
     (if tst (DCnt d) (push_bit 26 1)
      then dma_copy (rd32 m) (wr32 m) n (CurSrcAddr d) (CurDstAddr d) (push_bit 2 (SrcAddrInc d)) (push_bit 2 (DstAddrInc d)) x
      else dma_copy (rd16 m) (wr16 m) n (CurSrcAddr d) (CurDstAddr d) (push_bit 1 (SrcAddrInc d)) (push_bit 1 (DstAddrInc d)) x)"

definition width_shift :: "'x dma \<Rightarrow> nat" where
  "width_shift d = (if tst (DCnt d) (push_bit 26 1) then 2 else 1)"

definition expired :: "'x dma \<Rightarrow> bool" where
  "expired d = (if CPU d = 0 then expired9 d else expired7 d)"

text \<open>\<open>advanced m n d e\<close>: \<open>e\<close> is \<open>d\<close> after \<open>n\<close> more units.\<close>

definition advanced :: "'x memory \<Rightarrow> nat \<Rightarrow> 'x dma \<Rightarrow> 'x dma \<Rightarrow> bool" where
  "advanced m n d e \<longleftrightarrow>
     Rest (console e) = transferred m n d (Rest (console d)) \<and>
     CurSrcAddr e = CurSrcAddr d + of_nat n * push_bit (width_shift d) (SrcAddrInc d) \<and>
     CurDstAddr e = CurDstAddr d + of_nat n * push_bit (width_shift d) (DstAddrInc d) \<and>
     IterCount e = IterCount d - of_nat n \<and> RemCount e = RemCount d - of_nat n \<and>
     CPU e = CPU d \<and> DNum e = DNum d \<and> DCnt e = DCnt d \<and> StartMode e = StartMode d \<and>
     SrcAddrInc e = SrcAddrInc d \<and> DstAddrInc e = DstAddrInc d \<and> Running e = Running d \<and> Stall e = Stall d"

lemma dma_copy_add:
  "dma_copy rd wr (n + n') s t si ti x =
    dma_copy rd wr n' (s + of_nat n * si) (t + of_nat n * ti) si ti (dma_copy rd wr n s t si ti x)"
  by (induction n arbitrary: s t x) (simp_all add: algebra_simps)

lemma advanced_trans: "advanced m n d e \<Longrightarrow> advanced m n' e f \<Longrightarrow> advanced m (n + n') d f"
  unfolding advanced_def transferred_def width_shift_def
  by (cases "tst (DCnt d) (push_bit 26 1)") (simp_all add: dma_copy_add distrib_right flip: add.assoc diff_diff_add)

lemma unit_frame_fields:
  assumes "unit_frame e = unit_frame d"
  shows "CPU e = CPU d" "DNum e = DNum d" "DCnt e = DCnt d" "StartMode e = StartMode d" "Running e = Running d"
    "SrcAddrInc e = SrcAddrInc d" "DstAddrInc e = DstAddrInc d" "Stall e = Stall d"
proof -
  have f: "CPU (unit_frame d) = CPU d" "DNum (unit_frame d) = DNum d" "DCnt (unit_frame d) = DCnt d"
    "StartMode (unit_frame d) = StartMode d" "Running (unit_frame d) = Running d"
    "SrcAddrInc (unit_frame d) = SrcAddrInc d" "DstAddrInc (unit_frame d) = DstAddrInc d"
    "Stall (unit_frame d) = Stall d" for d :: "'a dma"
    by (simp_all add: unit_frame_def)
  show "CPU e = CPU d" "DNum e = DNum d" "DCnt e = DCnt d" "StartMode e = StartMode d" "Running e = Running d"
    "SrcAddrInc e = SrcAddrInc d" "DstAddrInc e = DstAddrInc d" "Stall e = Stall d"
    using f [of d] f [of e] assms by simp_all
qed

lemma moved_advanced:
  "u9_16.moved m n d e \<Longrightarrow> \<not> tst (DCnt d) (push_bit 26 1) \<Longrightarrow> advanced m n d e"
  "u7_16.moved m n d e \<Longrightarrow> \<not> tst (DCnt d) (push_bit 26 1) \<Longrightarrow> advanced m n d e"
  "u9_32.moved m n d e \<Longrightarrow> tst (DCnt d) (push_bit 26 1) \<Longrightarrow> advanced m n d e"
  "u7_32.moved m n d e \<Longrightarrow> tst (DCnt d) (push_bit 26 1) \<Longrightarrow> advanced m n d e"
  unfolding u9_16.moved_def u7_16.moved_def u9_32.moved_def u7_32.moved_def advanced_def transferred_def width_shift_def
  using unit_frame_fields [of e d] by simp_all

text \<open>The loop of one call, for either CPU and width.\<close>

definition units_of :: "'x memory \<Rightarrow> bool \<Rightarrow> 'x dma \<Rightarrow> 'x dma option" where
  "units_of m b d =
     (if CPU d = 0 then
        if \<not> tst (DCnt d) (push_bit 26 1) then dma_units (unit9_16 (memory_ext m) False) expired9 b d
        else dma_units (unit9_32 (memory_ext m) False) expired9 b d
      else
        if \<not> tst (DCnt d) (push_bit 26 1) then dma_units (unit7_16 (memory_ext m) False) expired7 b d
        else dma_units (unit7_32 (memory_ext m) False) expired7 b d)"

lemma units_advance:
  assumes "\<not> Stall d" "IterCount d \<noteq> 0"
  shows "\<exists>n e. units_of m b d = Some e \<and> advanced m n d e \<and> n \<le> unat (IterCount d) \<and> 0 < n"
proof -
  let ?P = "\<lambda>r. \<exists>n e. r = Some e \<and> advanced m n d e \<and> n \<le> unat (IterCount d) \<and> 0 < n"
  have "?P (dma_units (unit9_16 (memory_ext m) False) expired9 b d)"
    "?P (dma_units (unit7_16 (memory_ext m) False) expired7 b d)" if "\<not> tst (DCnt d) (push_bit 26 1)"
    using u9_16.loop_moves [OF assms(1), where m = m and b = b and expired = expired9]
      u7_16.loop_moves [OF assms(1), where m = m and b = b and expired = expired7]
      moved_advanced(1,2) [OF _ that, of m] assms(2) by meson+
  moreover have "?P (dma_units (unit9_32 (memory_ext m) False) expired9 b d)"
    "?P (dma_units (unit7_32 (memory_ext m) False) expired7 b d)" if "tst (DCnt d) (push_bit 26 1)"
    using u9_32.loop_moves [OF assms(1), where m = m and b = b and expired = expired9]
      u7_32.loop_moves [OF assms(1), where m = m and b = b and expired = expired7]
      moved_advanced(3,4) [OF _ that, of m] assms(2) by meson+
  ultimately show ?thesis
    by (cases "CPU d = 0"; cases "tst (DCnt d) (push_bit 26 1)")
      (simp_all only: units_of_def if_True if_False not_True_eq_False not_False_eq_True simp_thms)
qed

lemma Run_eq:
  "Run (memory_ext m) d =
    (if Running d = 0 \<or> expired d then Some d
     else map_option (if CPU d = 0 then finish9 (memory_ext m) else finish7 (memory_ext m))
       (units_of m (Running d = 2) (d\<lparr>Executing := True, Running := 1\<rparr>)))"
  by (simp add: Run_def Run9_def Run7_def expired_def units_of_def Let_def)

lemma finish_running:
  "RemCount e \<noteq> 0 \<Longrightarrow> IterCount e \<noteq> 0 \<Longrightarrow> finish9 (memory_ext m) e = e\<lparr>Executing := False, Stall := False\<rparr>"
  "RemCount e \<noteq> 0 \<Longrightarrow> IterCount e \<noteq> 0 \<Longrightarrow> finish7 (memory_ext m) e = e\<lparr>Executing := False, Stall := False\<rparr>"
  by (simp_all add: finish9_def finish7_def Let_def)

text \<open>The end of a transfer: what the channel leaves behind.\<close>

definition finished :: "'x dma \<Rightarrow> 'x dma \<Rightarrow> bool" where
  "finished d e \<longleftrightarrow> Running e = 0 \<and> \<not> InProgress e \<and> RemCount e = 0 \<and>
     DCnt e = (if tst (DCnt d) (push_bit 25 1) then DCnt d else DCnt d AND NOT (push_bit 31 1)) \<and>
     \<not> tst (CPUStop (console e)) (if CPU d = 0 then push_bit (DNum d) 1 else push_bit 16 (push_bit (DNum d) 1)) \<and>
     (tst (DCnt d) (push_bit 30 1) \<longrightarrow> tst (IF (console e) (CPU d)) (push_bit (IRQ_DMA0 + DNum d) 1))"

lemma SetIRQ_fields:
  "Restart3DFrame ext = (\<lambda>x. x) \<Longrightarrow> Rest (SetIRQ ext c i nds) = Rest nds"
  "IF (SetIRQ ext c i nds) = (IF nds)(c := IF nds c OR push_bit i 1)"
  by (simp_all add: SetIRQ_def UpdateIRQ_def Let_def)

lemma tst_same [simp]: "\<not> tst (w AND NOT k) k" "tst (w OR k) k \<longleftrightarrow> k \<noteq> 0" for w k :: u32
proof -
  have "(w AND NOT k) AND k = 0" by (rule bit_word_eqI) (auto simp: bit_simps)
  then show "\<not> tst (w AND NOT k) k" by (simp add: tst_def)
  have "(w OR k) AND k = k" by (rule bit_word_eqI) (auto simp: bit_simps)
  then show "tst (w OR k) k \<longleftrightarrow> k \<noteq> 0" by (simp add: tst_def)
qed

lemma ResumeCPU_fields:
  "Rest (ResumeCPU c k nds) = Rest nds" "IF (ResumeCPU c k nds) = IF nds"
  "CPUStop (ResumeCPU c k nds) = CPUStop nds AND NOT (if c = 0 then k else push_bit 16 k)"
  by (simp_all add: ResumeCPU_def Let_def)

text \<open>The end of a finished transfer, for either CPU.\<close>

definition dma_done :: "'x memory \<Rightarrow> nat \<Rightarrow> 'x dma \<Rightarrow> 'x dma" where
  "dma_done m c e = release c (request_irq (memory_ext m) c (end_count (e\<lparr>Executing := False, Stall := False\<rparr>)))"

lemma finish_done:
  "RemCount e = 0 \<Longrightarrow> finish9 (memory_ext m) e = dma_done m 0 e"
  "RemCount e = 0 \<Longrightarrow> finish7 (memory_ext m) e = dma_done m 1 e"
  by (simp_all add: finish9_def finish7_def dma_done_def Let_def)

lemma end_count_fields:
  "DCnt (end_count d) = (if tst (DCnt d) (push_bit 25 1) then DCnt d else DCnt d AND NOT (push_bit 31 1))"
  "tst (DCnt (end_count d)) (push_bit 30 1) = tst (DCnt d) (push_bit 30 1)"
  "DNum (end_count d) = DNum d" "console (end_count d) = console d" "RemCount (end_count d) = RemCount d"
  "CPU (end_count d) = CPU d"
proof -
  have "tst (DCnt d AND NOT (push_bit 31 1)) (push_bit 30 1) = tst (DCnt d) (push_bit 30 1)"
    by (simp only: tst_bit bit_clear1) simp
  then show "tst (DCnt (end_count d)) (push_bit 30 1) = tst (DCnt d) (push_bit 30 1)"
    by (cases "tst (DCnt d) (push_bit 25 1)") (simp_all add: end_count_def)
qed (simp_all add: end_count_def)

lemma request_irq_fields:
  "DCnt (request_irq ext c d) = DCnt d" "RemCount (request_irq ext c d) = RemCount d"
  "CPU (request_irq ext c d) = CPU d" "DNum (request_irq ext c d) = DNum d"
  "Restart3DFrame (Console_ext ext) = (\<lambda>x. x) \<Longrightarrow> Rest (console (request_irq ext c d)) = Rest (console d)"
  "DNum d < 4 \<Longrightarrow> tst (DCnt d) (push_bit 30 1) \<Longrightarrow>
    tst (IF (console (request_irq ext c d)) c) (push_bit (IRQ_DMA0 + DNum d) 1)"
proof -
  show "tst (IF (console (request_irq ext c d)) c) (push_bit (IRQ_DMA0 + DNum d) 1)"
    if "DNum d < 4" "tst (DCnt d) (push_bit 30 1)"
  proof -
    have "(push_bit (IRQ_DMA0 + DNum d) 1 :: u32) \<noteq> 0" using that(1) by (simp add: IRQ_DMA0_def exp_eq_zero_iff)
    then show ?thesis using that(2) by (simp add: request_irq_def SetIRQ_fields)
  qed
qed (simp_all add: request_irq_def SetIRQ_fields)

lemma dma_done_finished:
  assumes "CPU e \<le> 1" "DNum e < 4" "RemCount e = 0"
  shows "finished e (dma_done m (CPU e) e)" "Rest (console (dma_done m (CPU e) e)) = Rest (console e)"
    "CPU (dma_done m (CPU e) e) = CPU e"
proof -
  have r: "Restart3DFrame (Console_ext (memory_ext m)) = (\<lambda>x. x)" by (simp add: memory_ext_def)
  let ?c = "end_count (e\<lparr>Executing := False, Stall := False\<rparr>)"
  let ?d = "request_irq (memory_ext m) (CPU e) ?c"
  have "tst (IF (console ?d) (CPU e)) (push_bit (IRQ_DMA0 + DNum e) 1)" if "tst (DCnt e) (push_bit 30 1)"
  proof -
    have "tst (DCnt ?c) (push_bit 30 1)" unfolding end_count_fields(2) using that by simp
    moreover have "DNum ?c = DNum e" by (simp add: end_count_fields)
    ultimately show ?thesis using request_irq_fields(6) [of ?c "memory_ext m" "CPU e"] assms(2) by simp
  qed
  then show "finished e (dma_done m (CPU e) e)"
    using assms(3)
    by (cases "CPU e = 0") (simp_all add: finished_def dma_done_def release_def ResumeCPU_fields request_irq_fields end_count_fields)
  show "Rest (console (dma_done m (CPU e) e)) = Rest (console e)" "CPU (dma_done m (CPU e) e) = CPU e"
    by (simp_all add: dma_done_def release_def ResumeCPU_fields request_irq_fields end_count_fields r)
qed

text \<open>
  The scheduler runs the channel in time slices: each sets the time up to which it may run.  The number
  counts the slices that began with the channel running and time left.
\<close>

definition set_target :: "u64 \<Rightarrow> 'x dma \<Rightarrow> 'x dma" where
  "set_target t d = d\<lparr>console := (console d)\<lparr>ARM9Target := t, ARM7Target := t\<rparr>\<rparr>"

primrec run_slices :: "'x dma_ext \<Rightarrow> u64 list \<Rightarrow> 'x dma \<Rightarrow> (nat \<times> 'x dma) option" where
  "run_slices ext [] d = Some (0, d)"
| "run_slices ext (t # ts) d =
     (case Run ext (set_target t d) of
        None \<Rightarrow> None
      | Some e \<Rightarrow> map_option (\<lambda>(n, f). (n + of_bool (Running d \<noteq> 0 \<and> \<not> expired (set_target t d)), f))
                    (run_slices ext ts e))"

definition active :: "'x memory \<Rightarrow> nat \<Rightarrow> 'x dma \<Rightarrow> 'x dma \<Rightarrow> bool" where
  "active m n d e \<longleftrightarrow> advanced m n d (e\<lparr>Running := Running d\<rparr>) \<and> Running e \<noteq> 0 \<and> n < unat (RemCount d) \<and>
     IterCount e = RemCount e \<and> \<not> Stall e"

definition complete :: "'x memory \<Rightarrow> 'x dma \<Rightarrow> 'x dma \<Rightarrow> bool" where
  "complete m d e \<longleftrightarrow> finished d e \<and> Rest (console e) = transferred m (unat (RemCount d)) d (Rest (console d))"

lemma unat_minus_of_nat: "n \<le> unat w \<Longrightarrow> unat (w - of_nat n) = unat w - n" for w :: u32
proof -
  assume n: "n \<le> unat w"
  then have "n < 2 ^ 32" using unsigned_less [of w, where ?'a = nat] by simp
  then have "unat (of_nat n :: u32) = n" by (simp add: unsigned_of_nat take_bit_nat_eq_self)
  then show ?thesis using n unat_sub [of "of_nat n" w] by (simp add: word_le_nat_alt)
qed

lemma finished_cong:
  "DCnt d' = DCnt d \<Longrightarrow> CPU d' = CPU d \<Longrightarrow> DNum d' = DNum d \<Longrightarrow> finished d' e = finished d e"
  by (simp add: finished_def)

text \<open>One slice of a running transfer.\<close>

lemma slice_step:
  assumes a: "active m n d e" and d: "CPU d \<le> 1" "DNum d < 4"
  shows "\<exists>f. Run (memory_ext m) e = Some f \<and>
    ((\<exists>k. active m (n + k) d f \<and> (\<not> expired e \<longrightarrow> 0 < k)) \<or> complete m d f)"
proof (cases "expired e")
  case True
  then show ?thesis using a by (auto simp: Run_eq intro: exI [of _ "0 :: nat"])
next
  case False
  define e1 where "e1 = e\<lparr>Executing := True, Running := 1\<rparr>"
  have e1: "advanced m n d (e1\<lparr>Running := Running d\<rparr>)" "IterCount e1 = RemCount e1" "\<not> Stall e1"
    "CPU e1 = CPU d" "RemCount e1 = RemCount d - of_nat n"
    using a by (auto simp: active_def e1_def advanced_def)
  have n: "n < unat (RemCount d)" using a by (simp add: active_def)
  then have rem: "unat (RemCount e1) = unat (RemCount d) - n" using unat_minus_of_nat [of n "RemCount d"] e1(5) by simp
  then have "IterCount e1 \<noteq> 0" using n e1(2) by (auto simp: unat_eq_0 [symmetric])
  from units_advance [OF e1(3) this] obtain k f where f: "units_of m (Running e = 2) e1 = Some f" "advanced m k e1 f"
    "k \<le> unat (IterCount e1)" "0 < k" by blast
  have "advanced m k (e1\<lparr>Running := Running d\<rparr>) (f\<lparr>Running := Running d\<rparr>)"
    using f(2) by (simp add: advanced_def transferred_def width_shift_def)
  then have adv: "advanced m (n + k) d (f\<lparr>Running := Running d\<rparr>)" using advanced_trans [OF e1(1)] by blast
  have f': "RemCount f = IterCount f" "Running f = 1" "\<not> Stall f" "CPU f = CPU d" "DCnt f = DCnt d" "DNum f = DNum d"
    "RemCount f = RemCount d - of_nat (n + k)"
    using f(2) e1 adv by (auto simp: advanced_def e1_def)
  have k: "n + k \<le> unat (RemCount d)" using f(3) e1(2) rem n by simp
  then have remf: "unat (RemCount f) = unat (RemCount d) - (n + k)" using f'(7) unat_minus_of_nat by metis
  have run: "Run (memory_ext m) e = Some ((if CPU d = 0 then finish9 (memory_ext m) else finish7 (memory_ext m)) f)"
    using False a f(1) e1(4) by (simp add: Run_eq active_def e1_def)
  show ?thesis
  proof (cases "n + k = unat (RemCount d)")
    case True
    then have "RemCount f = 0" using remf by (simp add: unat_eq_0)
    then have "Run (memory_ext m) e = Some (dma_done m (CPU f) f)"
      using run finish_done [of f m] d(1) f'(4) by (cases "CPU d = 0") (auto simp: le_Suc_eq)
    moreover have "complete m d (dma_done m (CPU f) f)"
      using dma_done_finished [of f m] \<open>RemCount f = 0\<close> d f' finished_cong [of f d] adv True
      by (simp add: complete_def advanced_def)
    ultimately show ?thesis by blast
  next
    case False
    then have "RemCount f \<noteq> 0" using remf k by (auto simp: unat_eq_0 [symmetric])
    then have "Run (memory_ext m) e = Some (f\<lparr>Executing := False, Stall := False\<rparr>)"
      using run finish_running [of f m] f'(1) by (auto split: if_splits)
    moreover have "active m (n + k) d (f\<lparr>Executing := False, Stall := False\<rparr>)"
      using adv f' k False by (simp add: active_def advanced_def)
    ultimately show ?thesis using f(4) by blast
  qed
qed

lemma active_set_target: "active m n d (set_target t e) = active m n d e"
  by (simp add: active_def advanced_def set_target_def)

lemma complete_set_target: "complete m d (set_target t e) = complete m d e"
  by (simp add: complete_def finished_def set_target_def)

lemma run_slices_complete:
  "complete m d e \<Longrightarrow> \<exists>f. run_slices (memory_ext m) ts e = Some (0, f) \<and> complete m d f"
proof (induction ts arbitrary: e)
  case (Cons t ts)
  have "Running e = 0" using Cons.prems by (simp add: complete_def finished_def)
  then have "Run (memory_ext m) (set_target t e) = Some (set_target t e)" by (simp add: Run_def set_target_def)
  then show ?case using Cons.IH [of "set_target t e"] Cons.prems \<open>Running e = 0\<close> by (simp add: complete_set_target)
qed simp

lemma run_slices_active:
  assumes "CPU d \<le> 1" "DNum d < 4" "active m n d e"
  shows "\<exists>k f. run_slices (memory_ext m) ts e = Some (k, f) \<and>
    ((\<exists>l. active m l d f \<and> n + k \<le> l) \<or> complete m d f)"
  using assms(3)
proof (induction ts arbitrary: n e)
  case (Cons t ts)
  have run: "Running e \<noteq> 0" using Cons.prems by (simp add: active_def)
  from slice_step [of m n d "set_target t e"] Cons.prems assms(1,2) obtain f where
    f: "Run (memory_ext m) (set_target t e) = Some f"
      "(\<exists>k. active m (n + k) d f \<and> (\<not> expired (set_target t e) \<longrightarrow> 0 < k)) \<or> complete m d f"
    by (auto simp: active_set_target)
  from f(2) show ?case
  proof
    assume "\<exists>k. active m (n + k) d f \<and> (\<not> expired (set_target t e) \<longrightarrow> 0 < k)"
    then obtain k where k: "active m (n + k) d f" "\<not> expired (set_target t e) \<longrightarrow> 0 < k" by blast
    from Cons.IH [OF k(1)] obtain k' g where "run_slices (memory_ext m) ts f = Some (k', g)"
      "(\<exists>l. active m l d g \<and> n + k + k' \<le> l) \<or> complete m d g" by blast
    then show ?thesis using f(1) k(2) run by (cases "expired (set_target t e)") fastforce+
  next
    assume "complete m d f"
    from run_slices_complete [OF this] show ?thesis using f(1) by fastforce
  qed
qed auto

text \<open>C21.  On an ordinary memory bus a started transfer copies exactly its units, at its addresses and in order,
  whatever time slices the scheduler gives it: every call returns, after any slices the memory is
  that of some prefix of the transfer, each slice with time left adds a unit, and when it ends the
  whole transfer is in memory, the channel is idle and disabled unless it repeats, its CPU may run and
  the interrupt is requested if enabled.\<close>

theorem DMA_transfers:
  assumes "CPU d \<le> 1" "DNum d < 4" "Running d \<noteq> 0" "\<not> Stall d" "IterCount d = RemCount d" "RemCount d \<noteq> 0"
  shows "\<exists>k e. run_slices (memory_ext m) ts d = Some (k, e) \<and>
    (complete m d e \<or>
     (\<exists>n. k \<le> n \<and> n < unat (RemCount d) \<and> Running e \<noteq> 0 \<and>
        Rest (console e) = transferred m n d (Rest (console d)) \<and> unat (RemCount e) = unat (RemCount d) - n))"
proof -
  have "active m 0 d d"
    using assms by (simp add: active_def advanced_def transferred_def unat_gt_0)
  from run_slices_active [OF assms(1,2) this, of ts, unfolded add_0] obtain k e where
    r: "run_slices (memory_ext m) ts d = Some (k, e)" "(\<exists>l. active m l d e \<and> k \<le> l) \<or> complete m d e" by blast
  have "k \<le> l \<and> l < unat (RemCount d) \<and> Running e \<noteq> 0 \<and>
      Rest (console e) = transferred m l d (Rest (console d)) \<and> unat (RemCount e) = unat (RemCount d) - l"
    if "active m l d e" "k \<le> l" for l
    using that unat_minus_of_nat [of l "RemCount d"] by (auto simp: active_def advanced_def)
  then show ?thesis using r by blast
qed

theorem DMA_transfers_witness:
  "\<forall>m. let d = (undefined :: (u32 \<Rightarrow> u16) dma)\<lparr>CPU := 0, DNum := 3, Running := 2, Stall := False, IterCount := 2, RemCount := 2\<rparr>
   in \<exists>k e. run_slices (memory_ext m) [10, 20] d = Some (k, e) \<and>
     (complete m d e \<or> (\<exists>n. k \<le> n \<and> n < 2 \<and> unat (RemCount e) = 2 - n))"
proof
  fix m :: "(u32 \<Rightarrow> u16) memory"
  let ?d = "(undefined :: (u32 \<Rightarrow> u16) dma)\<lparr>CPU := 0, DNum := 3, Running := 2, Stall := False, IterCount := 2, RemCount := 2\<rparr>"
  have "\<exists>k e. run_slices (memory_ext m) [10, 20] ?d = Some (k, e) \<and>
    (complete m ?d e \<or>
     (\<exists>n. k \<le> n \<and> n < unat (RemCount ?d) \<and> Running e \<noteq> 0 \<and>
        Rest (console e) = transferred m n ?d (Rest (console ?d)) \<and> unat (RemCount e) = unat (RemCount ?d) - n))"
    by (rule DMA_transfers) simp_all
  then show "let d = ?d in \<exists>k e. run_slices (memory_ext m) [10, 20] d = Some (k, e) \<and>
     (complete m d e \<or> (\<exists>n. k \<le> n \<and> n < 2 \<and> unat (RemCount e) = 2 - n))"
    unfolding Let_def by (elim exE conjE disjE) (fastforce simp del: run_slices.simps)+
qed

section \<open>Starting a transfer\<close>

lemma start_fields:
  assumes "Running d = 0"
  shows "RemCount (Start d) = (if InProgress d then RemCount d else if DCnt d AND countmask d = 0 then countmask d + 1
        else DCnt d AND countmask d)"
    "IterCount (Start d) = (if StartMode d = 0x07 \<and> RemCount (Start d) > 112 then 112 else RemCount (Start d))"
    "Running (Start d) = 2" "InProgress (Start d)" "DCnt (Start d) = DCnt d" "Stall (Start d) = Stall d"
    "CurSrcAddr (Start d) = (if DCnt d AND 0x01800000 = 0x01800000 then SrcAddr d else CurSrcAddr d)"
    "CurDstAddr (Start d) = (if DCnt d AND 0x00600000 = 0x00600000 then DstAddr d else CurDstAddr d)"
    "console (Start d) = StopCPU (CPU d) (push_bit (DNum d) 1) (console d)"
proof -
  have r: "RemCount (start_RemCount d) = (if InProgress d then RemCount d
      else if DCnt d AND countmask d = 0 then countmask d + 1 else DCnt d AND countmask d)"
    "StartMode (start_RemCount d) = StartMode d" "DCnt (start_RemCount d) = DCnt d" "SrcAddr (start_RemCount d) = SrcAddr d"
    "DstAddr (start_RemCount d) = DstAddr d" "CurSrcAddr (start_RemCount d) = CurSrcAddr d" "Stall (start_RemCount d) = Stall d"
    "CurDstAddr (start_RemCount d) = CurDstAddr d" "console (start_RemCount d) = console d" "CPU (start_RemCount d) = CPU d"
    "DNum (start_RemCount d) = DNum d"
    by (simp_all add: start_RemCount_def Let_def)
  show "RemCount (Start d) = (if InProgress d then RemCount d else if DCnt d AND countmask d = 0 then countmask d + 1
        else DCnt d AND countmask d)"
    "IterCount (Start d) = (if StartMode d = 0x07 \<and> RemCount (Start d) > 112 then 112 else RemCount (Start d))"
    "Running (Start d) = 2" "InProgress (Start d)" "DCnt (Start d) = DCnt d" "Stall (Start d) = Stall d"
    "CurSrcAddr (Start d) = (if DCnt d AND 0x01800000 = 0x01800000 then SrcAddr d else CurSrcAddr d)"
    "CurDstAddr (Start d) = (if DCnt d AND 0x00600000 = 0x00600000 then DstAddr d else CurDstAddr d)"
    "console (Start d) = StopCPU (CPU d) (push_bit (DNum d) 1) (console d)"
    using assms r by (simp_all add: Start_def start_IterCount_def start_addresses_def start_run_def)
qed

lemma StopCPU_stops: "i < 4 \<Longrightarrow> c \<le> 1 \<Longrightarrow>
    tst (CPUStop (StopCPU c (push_bit i 1) nds)) (if c = 0 then push_bit i 1 else push_bit 16 (push_bit i 1))"
proof -
  assume i: "i < 4" "c \<le> 1"
  have "(push_bit i 1 :: u32) \<noteq> 0" "(push_bit 16 (push_bit i 1) :: u32) \<noteq> 0"
    using i by (simp_all only: push_bit_push_bit) (simp_all add: exp_eq_zero_iff)
  then show ?thesis by (simp only: StopCPU_def cpu_Halt_def) (auto simp: less_Suc_eq)
qed

lemma count_range:
  assumes "CPU d \<le> 1"
  shows "1 \<le> unat (if DCnt d AND countmask d = 0 then countmask d + 1 else DCnt d AND countmask d)"
    "unat (if DCnt d AND countmask d = 0 then countmask d + 1 else DCnt d AND countmask d) \<le> unat (countmask d) + 1"
proof -
  have m: "unat (countmask d + 1) = unat (countmask d) + 1" by (simp add: countmask_def)
  have "DCnt d AND countmask d \<le> countmask d" by (simp add: word_and_le1)
  then have "unat (DCnt d AND countmask d) \<le> unat (countmask d)" by (simp only: word_le_nat_alt)
  then show "1 \<le> unat (if DCnt d AND countmask d = 0 then countmask d + 1 else DCnt d AND countmask d)"
    "unat (if DCnt d AND countmask d = 0 then countmask d + 1 else DCnt d AND countmask d) \<le> unat (countmask d) + 1"
    using m unat_gt_0 [of "DCnt d AND countmask d"] by (cases "DCnt d AND countmask d = 0"; simp)+
qed

text \<open>Enabling an idle channel in an immediate start mode loads its addresses, sets it running and stops its
  CPU; the count comes from the register's count field, zero standing for the maximum, so it is
  between 1 and the channel's maximum and the whole of it is pending.\<close>

lemma WriteCnt_starts:
  assumes "\<not> tst (DCnt d) 0x80000000" "tst v 0x80000000" "Running d = 0" "\<not> InProgress d" "CPU d \<le> 1" "DNum d < 4"
    "if CPU d = 0 then drop_bit 27 v AND 0x7 = 0 else drop_bit 28 v AND 0x3 = 0"
  shows "let e = WriteCnt ext v d in Running e = 2 \<and> DCnt e = v \<and> CurSrcAddr e = SrcAddr d \<and> CurDstAddr e = DstAddr d \<and>
    IterCount e = RemCount e \<and> 1 \<le> unat (RemCount e) \<and> unat (RemCount e) \<le> unat (countmask d) + 1 \<and>
    (v AND countmask d \<noteq> 0 \<longrightarrow> RemCount e = v AND countmask d) \<and>
    tst (CPUStop (console e)) (if CPU d = 0 then push_bit (DNum d) 1 else push_bit 16 (push_bit (DNum d) 1))"
proof -
  define f where "f = load_StartMode (load_increments (d\<lparr>DCnt := v\<rparr>))"
  have f: "Running f = 0" "\<not> InProgress f" "DCnt f = v" "SrcAddr f = SrcAddr d" "DstAddr f = DstAddr d"
    "CurSrcAddr f = SrcAddr d" "CurDstAddr f = DstAddr d" "CPU f = CPU d" "DNum f = DNum d" "console f = console d"
    "StartMode f = (if CPU d = 0 then drop_bit 27 v AND 0x7 else (drop_bit 28 v AND 0x3) OR 0x10)"
    using assms(3,4) by (simp_all add: f_def load_StartMode_def load_increments_def)
  have mode: "StartMode f AND 0x7 = 0" "StartMode f \<noteq> 0x07" using f(11) assms(7) by (auto split: if_splits)
  have e: "WriteCnt ext v d = Start f" using assms(1,2) mode(1) by (simp add: WriteCnt_def Let_def f_def)
  have cm: "countmask f = countmask d" using f by (simp add: countmask_def)
  note s = start_fields [OF f(1)]
  show ?thesis
    using count_range [of f] StopCPU_stops [OF assms(6,5), of "console d"] mode(2) f(2,4,5) assms(5)
    unfolding e Let_def s f cm by (auto simp: f(3,6,7,8,9) split: if_splits)
qed

lemma WriteCnt_starts_witness:
  "\<forall>ext. let d = (undefined :: unit dma)\<lparr>DCnt := 0, Running := 0, InProgress := False, CPU := 0, DNum := 1\<rparr>;
     e = WriteCnt ext 0x80000005 d in Running e = 2 \<and> RemCount e = 5"
proof
  fix ext :: "unit dma_ext"
  let ?d = "(undefined :: unit dma)\<lparr>DCnt := 0, Running := 0, InProgress := False, CPU := 0, DNum := 1\<rparr>"
  have "let e = WriteCnt ext 0x80000005 ?d in Running e = 2 \<and> DCnt e = 0x80000005 \<and> CurSrcAddr e = SrcAddr ?d \<and>
    CurDstAddr e = DstAddr ?d \<and> IterCount e = RemCount e \<and> 1 \<le> unat (RemCount e) \<and>
    unat (RemCount e) \<le> unat (countmask ?d) + 1 \<and>
    (0x80000005 AND countmask ?d \<noteq> 0 \<longrightarrow> RemCount e = 0x80000005 AND countmask ?d) \<and>
    tst (CPUStop (console e)) (if CPU ?d = 0 then push_bit (DNum ?d) 1 else push_bit 16 (push_bit (DNum ?d) 1))"
    by (rule WriteCnt_starts) (simp_all add: tst_def)
  then show "let d = ?d; e = WriteCnt ext 0x80000005 d in Running e = 2 \<and> RemCount e = 5"
    by (simp add: Let_def countmask_def)
qed

end
