(* ===== verification/ActionReplay.thy ===== *)
theory ActionReplay
  imports Prelude
begin

text \<open>
  The cheat engine (\<^verbatim>\<open>src/src/AREngine.cpp\<close>): an interpreter of Action Replay codes, lists of 32-bit
  words in lines of two.  Pointers into the code are indices; a read outside it, which C++ leaves
  undefined, is the outcome \<open>OutOfBounds\<close>.  The console's memory and the frontend's stop token are the
  argument \<open>ar_env\<close>; every call to them may change the state \<open>'w\<close>.
\<close>

section \<open>State\<close>

datatype ar_result = Success | InvalidCode | UnsupportedCode | Interrupted

record 'w ar_env =
  stop_requested :: "'w \<Rightarrow> bool \<times> 'w"
  ARM7Read8 :: "u32 \<Rightarrow> 'w \<Rightarrow> u8 \<times> 'w"
  ARM7Read16 :: "u32 \<Rightarrow> 'w \<Rightarrow> u16 \<times> 'w"
  ARM7Read32 :: "u32 \<Rightarrow> 'w \<Rightarrow> u32 \<times> 'w"
  ARM7Write8 :: "u32 \<Rightarrow> u8 \<Rightarrow> 'w \<Rightarrow> 'w"
  ARM7Write16 :: "u32 \<Rightarrow> u16 \<Rightarrow> 'w \<Rightarrow> 'w"
  ARM7Write32 :: "u32 \<Rightarrow> u32 \<Rightarrow> 'w \<Rightarrow> 'w"

text \<open>The locals of \<open>RunCheat\<close>; \<open>pc\<close> is the pointer \<open>code\<close>.\<close>

record 'w ar =
  pc :: nat
  offset :: u32
  datareg :: u32
  cond :: u32
  condstack :: u32
  loopstart :: nat
  loopcount :: u32
  loopcond :: u32
  loopcondstack :: u32
  c5count :: u32
  started :: bool
  world :: 'w

text \<open>How a run ends: by a return, or by leaving the code.\<close>

datatype 'w ar_exit = Returned ar_result 'w | OutOfBounds

type_synonym ('w, 'a) ar_step = "'w ar_exit + 'a"

definition and_then :: "'e + 'a \<Rightarrow> ('a \<Rightarrow> 'e + 'b) \<Rightarrow> 'e + 'b" where
  "and_then m f = (case m of Inl e \<Rightarrow> Inl e | Inr x \<Rightarrow> f x)"

section \<open>Validation\<close>

definition literal_words :: "u32 \<Rightarrow> nat" where
  "literal_words count = (unat count + 7) div 8 * 2"

text \<open>
  The loop of \<open>ValidateInstructions\<close> on the words that are left; a single last word is not reached, as
  the number of words is even.
\<close>

function validate_loop :: "'w ar_env \<Rightarrow> u32 list \<Rightarrow> 'w \<Rightarrow> ar_result \<times> 'w" where
  "validate_loop env [] w = (Success, w)"
| "validate_loop env [x] w = (InvalidCode, w)"
| "validate_loop env (instruction # count # rest) w =
     (let (stop, w) = stop_requested env w in
      if stop then (Interrupted, w)
      else if drop_bit 28 instruction = 0xE then
        if length rest div 2 < (unat count + 7) div 8 then (InvalidCode, w)
        else validate_loop env (drop (literal_words count) rest) w
      else validate_loop env rest w)"
  by pat_completeness auto
termination by (relation "measure (\<lambda>(env, words, w). length words)") auto

definition ValidateInstructions :: "'w ar_env \<Rightarrow> u32 list \<Rightarrow> 'w \<Rightarrow> ar_result \<times> 'w" where
  "ValidateInstructions env words w =
     (if odd (length words) then (InvalidCode, w) else validate_loop env words w)"

section \<open>Memory\<close>

definition write32 :: "'w ar_env \<Rightarrow> u32 \<Rightarrow> u32 \<Rightarrow> 'w ar \<Rightarrow> 'w ar" where
  "write32 env addr v s = s\<lparr>world := ARM7Write32 env addr v (world s)\<rparr>"

definition write16 :: "'w ar_env \<Rightarrow> u32 \<Rightarrow> u16 \<Rightarrow> 'w ar \<Rightarrow> 'w ar" where
  "write16 env addr v s = s\<lparr>world := ARM7Write16 env addr v (world s)\<rparr>"

definition write8 :: "'w ar_env \<Rightarrow> u32 \<Rightarrow> u8 \<Rightarrow> 'w ar \<Rightarrow> 'w ar" where
  "write8 env addr v s = s\<lparr>world := ARM7Write8 env addr v (world s)\<rparr>"

definition read32 :: "'w ar_env \<Rightarrow> u32 \<Rightarrow> 'w ar \<Rightarrow> u32 \<times> 'w ar" where
  "read32 env addr s = (let (v, w) = ARM7Read32 env addr (world s) in (v, s\<lparr>world := w\<rparr>))"

definition read16 :: "'w ar_env \<Rightarrow> u32 \<Rightarrow> 'w ar \<Rightarrow> u16 \<times> 'w ar" where
  "read16 env addr s = (let (v, w) = ARM7Read16 env addr (world s) in (v, s\<lparr>world := w\<rparr>))"

definition read8 :: "'w ar_env \<Rightarrow> u32 \<Rightarrow> 'w ar \<Rightarrow> u8 \<times> 'w ar" where
  "read8 env addr s = (let (v, w) = ARM7Read8 env addr (world s) in (v, s\<lparr>world := w\<rparr>))"

text \<open>The stop check of a copy loop.\<close>

definition check_stop :: "'w ar_env \<Rightarrow> 'w ar \<Rightarrow> ('w, 'w ar) ar_step" where
  "check_stop env s =
     (let (stop, w) = stop_requested env (world s) in
      if stop then Inl (Returned Interrupted w) else Inr (s\<lparr>world := w\<rparr>))"

text \<open>\<open>*code\<close> and \<open>*code++\<close>.\<close>

definition peek :: "u32 list \<Rightarrow> nat \<Rightarrow> 'w ar \<Rightarrow> ('w, u32) ar_step" where
  "peek code k s = (if pc s + k < length code then Inr (code ! (pc s + k)) else Inl OutOfBounds)"

definition fetch :: "u32 list \<Rightarrow> 'w ar \<Rightarrow> ('w, u32 \<times> 'w ar) ar_step" where
  "fetch code s = and_then (peek code 0 s) (\<lambda>v. Inr (v, s\<lparr>pc := pc s + 1\<rparr>))"

section \<open>Conditions and loops\<close>

definition push_cond :: "'w ar \<Rightarrow> 'w ar" where
  "push_cond s = s\<lparr>condstack := push_bit 1 (condstack s) OR cond s\<rparr>"

definition if_addr :: "u32 \<Rightarrow> 'w ar \<Rightarrow> u32" where
  "if_addr a s = (let addr = a AND 0x0FFFFFFF in if addr = 0 then offset s else addr)"

definition IF32 :: "'w ar_env \<Rightarrow> (u32 \<Rightarrow> u32 \<Rightarrow> bool) \<Rightarrow> u32 \<Rightarrow> u32 \<Rightarrow> 'w ar \<Rightarrow> 'w ar" where
  "IF32 env cmp a b s =
     (let (chk, s) = read32 env (if_addr a s) (push_cond s)
      in s\<lparr>cond := of_bool (cmp b chk)\<rparr>)"

definition IF16 :: "'w ar_env \<Rightarrow> (u32 \<Rightarrow> u32 \<Rightarrow> bool) \<Rightarrow> u32 \<Rightarrow> u32 \<Rightarrow> 'w ar \<Rightarrow> 'w ar" where
  "IF16 env cmp a b s =
     (let (val, s) = read16 env (if_addr a s) (push_cond s);
          chk = ucast (NOT (drop_bit 16 b)) AND val
      in s\<lparr>cond := of_bool (cmp (b AND 0xFFFF) (ucast chk))\<rparr>)"

definition FOR :: "u32 \<Rightarrow> 'w ar \<Rightarrow> 'w ar" where
  "FOR b s = s\<lparr>loopstart := pc s, loopcount := b, loopcond := cond s, loopcondstack := condstack s\<rparr>"

definition IF_count :: "u32 \<Rightarrow> 'w ar \<Rightarrow> 'w ar" where
  "IF_count b s =
     (let s = s\<lparr>c5count := c5count s + 1\<rparr> in
      if cond s = 0 then s
      else (let s = push_cond s
            in s\<lparr>cond := of_bool (c5count s AND (b AND 0xFFFF) = drop_bit 16 b)\<rparr>))"

definition ENDIF :: "'w ar \<Rightarrow> 'w ar" where
  "ENDIF s = s\<lparr>cond := if condstack s \<noteq> 0 then condstack s AND 1 else 1,
               condstack := drop_bit 1 (condstack s)\<rparr>"

definition FLUSH :: "'w ar \<Rightarrow> 'w ar" where
  "FLUSH s = s\<lparr>offset := 0, datareg := 0, condstack := 0, cond := 1,
               loopstart := pc s, loopcondstack := 0, loopcond := 1\<rparr>"

definition NEXT :: "bool \<Rightarrow> 'w ar \<Rightarrow> 'w ar" where
  "NEXT flush s =
     (let s = s\<lparr>cond := loopcond s, condstack := loopcondstack s\<rparr> in
      if loopcount s > 0 then s\<lparr>loopcount := loopcount s - 1, pc := loopstart s\<rparr>
      else if flush then FLUSH s else s)"

section \<open>Data operations\<close>

text \<open>Opcode \<open>D4\<close>; None is \<open>UnsupportedCode\<close>.\<close>

definition data_op :: "u32 \<Rightarrow> u32 \<Rightarrow> u32 \<Rightarrow> u32 option" where
  "data_op sel b d =
     (let n = b AND 0xFF in
      if sel = 0x00 then Some (d + b)
      else if sel = 0x01 then Some (d OR b)
      else if sel = 0x02 then Some (d AND b)
      else if sel = 0x03 then Some (d XOR b)
      else if sel = 0x04 then Some (if n > 31 then 0 else shl d n)
      else if sel = 0x05 then Some (if n > 31 then 0 else shr d n)
      else if sel = 0x06 then Some (ROR d (b AND 0x1F))
      else if sel = 0x07 then Some (if n > 31 then sar d 31 else sar d n)
      else if sel = 0x08 then Some (d * b)
      else None)"

section \<open>Block copies\<close>

text \<open>Opcode \<open>E0\<close>: whole lines, then the words and bytes that are left.\<close>

definition copy_word :: "'w ar_env \<Rightarrow> u32 list \<Rightarrow> u32 \<Rightarrow> 'w ar \<Rightarrow> ('w, 'w ar) ar_step" where
  "copy_word env code dst s = and_then (fetch code s) (\<lambda>(v, s). Inr (write32 env dst v s))"

definition copy_line :: "'w ar_env \<Rightarrow> u32 list \<Rightarrow> u32 \<Rightarrow> 'w ar \<Rightarrow> ('w, 'w ar) ar_step" where
  "copy_line env code dst s =
     and_then (check_stop env s) (\<lambda>s.
     and_then (copy_word env code dst s) (\<lambda>s.
       copy_word env code (dst + 4) s))"

function copy_lines :: "'w ar_env \<Rightarrow> u32 list \<Rightarrow> u32 \<Rightarrow> u32 \<Rightarrow> 'w ar \<Rightarrow> ('w, u32 \<times> u32 \<times> 'w ar) ar_step" where
  "copy_lines env code dst left s =
     (if left \<ge> 8
      then (case copy_line env code dst s of
              Inl e \<Rightarrow> Inl e
            | Inr s \<Rightarrow> copy_lines env code (dst + 8) (left - 8) s)
      else Inr (dst, left, s))"
  by pat_completeness auto
termination
  by (relation "measure (\<lambda>(env, code, dst, left, s). unat left)")
    (auto simp: unat_sub word_le_nat_alt)

declare copy_lines.simps [simp del]

function copy_tail :: "'w ar_env \<Rightarrow> u32 \<Rightarrow> u32 \<Rightarrow> u32 \<Rightarrow> 'w ar \<Rightarrow> 'w ar" where
  "copy_tail env dst leftover left s =
     (if left > 0
      then copy_tail env (dst + 1) (drop_bit 8 leftover) (left - 1)
             (write8 env dst (ucast leftover) s)
      else s)"
  by pat_completeness auto
termination
  by (relation "measure (\<lambda>(env, dst, leftover, left, s). unat left)")
    (auto simp: unat_sub1 unat_gt_0)

declare copy_tail.simps [simp del]

definition copy_rest :: "'w ar_env \<Rightarrow> u32 list \<Rightarrow> u32 \<times> u32 \<times> 'w ar \<Rightarrow> ('w, 'w ar) ar_step" where
  "copy_rest env code = (\<lambda>(dst, left, s).
     if left > 0 then
       and_then (peek code 0 s) (\<lambda>leftover.
       and_then (if left \<ge> 4
                 then and_then (peek code 1 (write32 env dst leftover s)) (\<lambda>leftover'.
                        Inr (dst + 4, leftover', left - 4, write32 env dst leftover s))
                 else Inr (dst, leftover, left, s)) (\<lambda>(dst, leftover, left, s).
         Inr (copy_tail env dst leftover left (s\<lparr>pc := pc s + 2\<rparr>))))
     else Inr s)"

definition literal_copy :: "'w ar_env \<Rightarrow> u32 list \<Rightarrow> u32 \<Rightarrow> u32 \<Rightarrow> 'w ar \<Rightarrow> ('w, 'w ar) ar_step" where
  "literal_copy env code a b s =
     and_then (copy_lines env code ((a AND 0x0FFFFFFF) + offset s) b s) (copy_rest env code)"

text \<open>Opcode \<open>F0\<close>.\<close>

definition move_word :: "'w ar_env \<Rightarrow> u32 \<Rightarrow> u32 \<Rightarrow> 'w ar \<Rightarrow> ('w, 'w ar) ar_step" where
  "move_word env src dst s =
     and_then (check_stop env s) (\<lambda>s. let (v, s) = read32 env src s in Inr (write32 env dst v s))"

function move_words ::
  "'w ar_env \<Rightarrow> u32 \<Rightarrow> u32 \<Rightarrow> u32 \<Rightarrow> 'w ar \<Rightarrow> ('w, u32 \<times> u32 \<times> u32 \<times> 'w ar) ar_step" where
  "move_words env src dst left s =
     (if left \<ge> 4
      then (case move_word env src dst s of
              Inl e \<Rightarrow> Inl e
            | Inr s \<Rightarrow> move_words env (src + 4) (dst + 4) (left - 4) s)
      else Inr (src, dst, left, s))"
  by pat_completeness auto
termination
  by (relation "measure (\<lambda>(env, src, dst, left, s). unat left)")
    (auto simp: unat_sub word_le_nat_alt)

declare move_words.simps [simp del]

function move_bytes :: "'w ar_env \<Rightarrow> u32 \<Rightarrow> u32 \<Rightarrow> u32 \<Rightarrow> 'w ar \<Rightarrow> 'w ar" where
  "move_bytes env src dst left s =
     (if left > 0
      then (let (v, s) = read8 env src s
            in move_bytes env (src + 1) (dst + 1) (left - 1) (write8 env dst v s))
      else s)"
  by pat_completeness auto
termination
  by (relation "measure (\<lambda>(env, src, dst, left, s). unat left)")
    (auto simp: unat_sub1 unat_gt_0)

declare move_bytes.simps [simp del]

definition memory_copy :: "'w ar_env \<Rightarrow> u32 \<Rightarrow> u32 \<Rightarrow> 'w ar \<Rightarrow> ('w, 'w ar) ar_step" where
  "memory_copy env a b s =
     and_then (move_words env (offset s) (a AND 0x0FFFFFFF) b s)
       (\<lambda>(src, dst, left, s). Inr (move_bytes env src dst left s))"

section \<open>One instruction\<close>

definition address :: "u32 \<Rightarrow> 'w ar \<Rightarrow> u32" where
  "address a s = (a AND 0x0FFFFFFF) + offset s"

text \<open>Opcodes \<open>00\<close> to \<open>BF\<close>, by their high nibble.\<close>

definition exec_memory :: "'w ar_env \<Rightarrow> u32 \<Rightarrow> u32 \<Rightarrow> u32 \<Rightarrow> 'w ar \<Rightarrow> 'w ar" where
  "exec_memory env hi a b s =
     (if hi = 0x0 then write32 env (address a s) b s
      else if hi = 0x1 then write16 env (address a s) (ucast (b AND 0xFFFF)) s
      else if hi = 0x2 then write8 env (address a s) (ucast (b AND 0xFF)) s
      else if hi = 0x3 then IF32 env (\<lambda>b chk. b > chk) a b s
      else if hi = 0x4 then IF32 env (\<lambda>b chk. b < chk) a b s
      else if hi = 0x5 then IF32 env (\<lambda>b chk. b = chk) a b s
      else if hi = 0x6 then IF32 env (\<lambda>b chk. b \<noteq> chk) a b s
      else if hi = 0x7 then IF16 env (\<lambda>b chk. b > chk) a b s
      else if hi = 0x8 then IF16 env (\<lambda>b chk. b < chk) a b s
      else if hi = 0x9 then IF16 env (\<lambda>b chk. b = chk) a b s
      else if hi = 0xA then IF16 env (\<lambda>b chk. b \<noteq> chk) a b s
      else (let (v, s) = read32 env (address a s) s in s\<lparr>offset := v\<rparr>))"

text \<open>Opcodes \<open>D3\<close> to \<open>DC\<close>; None is \<open>UnsupportedCode\<close>.\<close>

definition exec_register :: "'w ar_env \<Rightarrow> u32 \<Rightarrow> u32 \<Rightarrow> u32 \<Rightarrow> 'w ar \<Rightarrow> 'w ar option" where
  "exec_register env opc a b s =
     (if opc = 0xD3 then Some (s\<lparr>offset := b\<rparr>)
      else if opc = 0xD4 then
        (case data_op (a AND 0xFF) b (datareg s) of
           None \<Rightarrow> None | Some d \<Rightarrow> Some (s\<lparr>datareg := d\<rparr>))
      else if opc = 0xD5 then Some (s\<lparr>datareg := b\<rparr>)
      else if opc = 0xD6 then
        Some ((write32 env (b + offset s) (datareg s) s)\<lparr>offset := offset s + 4\<rparr>)
      else if opc = 0xD7 then
        Some ((write16 env (b + offset s) (ucast (datareg s AND 0xFFFF)) s)\<lparr>offset := offset s + 2\<rparr>)
      else if opc = 0xD8 then
        Some ((write8 env (b + offset s) (ucast (datareg s AND 0xFF)) s)\<lparr>offset := offset s + 1\<rparr>)
      else if opc = 0xD9 then
        (let (v, s) = read32 env (b + offset s) s in Some (s\<lparr>datareg := v\<rparr>))
      else if opc = 0xDA then
        (let (v, s) = read16 env (b + offset s) s in Some (s\<lparr>datareg := ucast v\<rparr>))
      else if opc = 0xDB then
        (let (v, s) = read8 env (b + offset s) s in Some (s\<lparr>datareg := ucast v\<rparr>))
      else if opc = 0xDC then Some (s\<lparr>offset := offset s + b\<rparr>)
      else None)"

text \<open>The \<open>switch\<close>; \<open>s\<close> is the state after the fetch.\<close>

definition execute :: "'w ar_env \<Rightarrow> u32 list \<Rightarrow> u32 \<Rightarrow> u32 \<Rightarrow> 'w ar \<Rightarrow> ('w, 'w ar) ar_step" where
  "execute env code a b s =
     (let opc = drop_bit 24 a; hi = drop_bit 28 a in
      if hi \<le> 0xB then Inr (exec_memory env hi a b s)
      else if opc = 0xC0 then Inr (FOR b s)
      else if opc = 0xC4 then Inl (Returned UnsupportedCode (world s))
      else if opc = 0xC5 then Inr (IF_count b s)
      else if opc = 0xC6 then Inr (write32 env b (offset s) s)
      else if opc = 0xD0 then Inr (ENDIF s)
      else if opc = 0xD1 then Inr (NEXT False s)
      else if opc = 0xD2 then Inr (NEXT True s)
      else if hi = 0xE then literal_copy env code a b s
      else if hi = 0xF then memory_copy env a b s
      else (case exec_register env opc a b s of
              None \<Rightarrow> Inl (Returned UnsupportedCode (world s))
            | Some s \<Rightarrow> Inr s))"

definition conditional :: "u32 \<Rightarrow> bool" where
  "conditional opc \<longleftrightarrow> opc < 0xD0 \<and> opc \<noteq> 0xC5 \<or> opc > 0xD2"

definition skip :: "u32 \<Rightarrow> u32 \<Rightarrow> 'w ar \<Rightarrow> 'w ar" where
  "skip opc b s = (if opc AND 0xF0 = 0xE0 then s\<lparr>pc := pc s + literal_words b\<rparr> else s)"

definition run_instruction :: "'w ar_env \<Rightarrow> u32 list \<Rightarrow> u32 \<Rightarrow> u32 \<Rightarrow> 'w ar \<Rightarrow> ('w, 'w ar) ar_step" where
  "run_instruction env code a b s =
     (let opc = drop_bit 24 a in
      if conditional opc \<and> cond s = 0 then Inr (skip opc b s)
      else execute env code a b s)"

section \<open>RunCheat\<close>

text \<open>The body of the main loop.\<close>

definition RunCheat_step :: "'w ar_env \<Rightarrow> u32 list \<Rightarrow> 'w ar \<Rightarrow> ('w, 'w ar) ar_step" where
  "RunCheat_step env code s =
     (if pc s = length code then Inl (Returned Success (world s))
      else let (stop, w) = stop_requested env (world s) in
      if stop then Inl (Returned (if started s then Interrupted else Success) w)
      else and_then (fetch code (s\<lparr>world := w, started := True\<rparr>)) (\<lambda>(a, s).
           and_then (fetch code s) (\<lambda>(b, s).
             run_instruction env code a b s)))"

partial_function (option) RunCheat_loop :: "'w ar_env \<Rightarrow> u32 list \<Rightarrow> 'w ar \<Rightarrow> 'w ar_exit option" where
  "RunCheat_loop env code s =
     (case RunCheat_step env code s of
        Inl e \<Rightarrow> Some e
      | Inr s \<Rightarrow> RunCheat_loop env code s)"

definition RunCheat_init :: "'w \<Rightarrow> 'w ar" where
  "RunCheat_init w = \<lparr>pc = 0, offset = 0, datareg = 0, cond = 1, condstack = 0,
     loopstart = 0, loopcount = 0, loopcond = 1, loopcondstack = 0,
     c5count = 0, started = False, world = w\<rparr>"

definition RunCheat :: "'w ar_env \<Rightarrow> u32 list \<Rightarrow> 'w \<Rightarrow> 'w ar_exit option" where
  "RunCheat env code w =
     (let (stop, w) = stop_requested env w in
      if stop then Some (Returned Success w)
      else let (validation, w) = ValidateInstructions env code w in
      if validation = Interrupted then Some (Returned Success w)
      else if validation \<noteq> Success then Some (Returned validation w)
      else if code = [] then Some (Returned Success w)
      else RunCheat_loop env code (RunCheat_init w))"

section \<open>RunCheats\<close>

record ar_code =
  Name :: string
  Description :: string
  Enabled :: bool
  Code :: "u32 list"

text \<open>
  The loop over the codes: the new list, the errors to append and the state.  None is a cheat that does
  not return or that leaves its code.
\<close>

primrec run_codes ::
  "'w ar_env \<Rightarrow> ar_code list \<Rightarrow> 'w \<Rightarrow> (ar_code list \<times> (string \<times> ar_result) list \<times> 'w) option" where
  "run_codes env [] w = Some ([], [], w)"
| "run_codes env (c # cs) w =
     (let (stop, w) = stop_requested env w in
      if stop then Some (c # cs, [], w)
      else if \<not> Enabled c then
        map_option (\<lambda>(ds, es, w). (c # ds, es, w)) (run_codes env cs w)
      else (case RunCheat env (Code c) w of
              None \<Rightarrow> None
            | Some OutOfBounds \<Rightarrow> None
            | Some (Returned r w) \<Rightarrow>
                if r = Success then
                  map_option (\<lambda>(ds, es, w). (c # ds, es, w)) (run_codes env cs w)
                else if r = Interrupted then
                  Some (c\<lparr>Enabled := False\<rparr> # cs, [(Name c, r)], w)
                else
                  map_option (\<lambda>(ds, es, w). (c\<lparr>Enabled := False\<rparr> # ds, (Name c, r) # es, w))
                    (run_codes env cs w)))"

record ar_engine =
  Cheats :: "ar_code list"
  Errors :: "(string \<times> ar_result) list"

definition RunCheats :: "'w ar_env \<Rightarrow> ar_engine \<Rightarrow> 'w \<Rightarrow> (ar_engine \<times> 'w) option" where
  "RunCheats env e w =
     map_option (\<lambda>(cs, es, w). (e\<lparr>Cheats := cs, Errors := Errors e @ es\<rparr>, w))
       (run_codes env (Cheats e) w)"

definition TakeErrors :: "ar_engine \<Rightarrow> (string \<times> ar_result) list \<times> ar_engine" where
  "TakeErrors e = (Errors e, e\<lparr>Errors := []\<rparr>)"

end
