(* ===== verification/ActionReplayProps.thy ===== *)
theory ActionReplayProps
  imports ActionReplay
begin

text \<open>
  Properties of the cheat engine: the validation admits only codes whose instructions and literal blocks
  lie inside the code, the interpreter stays on instruction boundaries and comes to an end, a literal
  copy writes the bytes of the code, and a run of all cheats disables exactly the failing ones.
\<close>

section \<open>Validation\<close>

text \<open>A code, from an instruction on: lines of two words, literal blocks complete.\<close>

function well_formed :: "u32 list \<Rightarrow> bool" where
  "well_formed [] = True"
| "well_formed [x] = False"
| "well_formed (instruction # count # rest) =
     (if drop_bit 28 instruction = 0xE
      then literal_words count \<le> length rest \<and> well_formed (drop (literal_words count) rest)
      else well_formed rest)"
  by pat_completeness auto
termination by (relation "measure length") auto

lemma validate_loop_well_formed:
  "even (length words) \<Longrightarrow> validate_loop env words w = (Success, w') \<Longrightarrow> well_formed words"
proof (induction env words w rule: validate_loop.induct)
  case (3 env i c rest w)
  have "even (length (drop (literal_words c) rest))" if "literal_words c \<le> length rest"
    using 3(3) that by (simp add: literal_words_def)
  moreover have "literal_words c \<le> length rest" if "\<not> length rest div 2 < (unat c + 7) div 8"
    using that 3(3) by (auto simp: literal_words_def elim!: evenE)
  ultimately show ?case
    using 3 by (auto simp: Let_def split: prod.splits if_splits)
qed simp_all

lemma ValidateInstructions_well_formed:
  "ValidateInstructions env words w = (Success, w') \<Longrightarrow> well_formed words"
  by (auto simp: ValidateInstructions_def intro: validate_loop_well_formed split: if_splits)

section \<open>Instruction boundaries\<close>

definition boundary :: "u32 list \<Rightarrow> nat \<Rightarrow> bool" where
  "boundary code p \<longleftrightarrow> p \<le> length code \<and> well_formed (drop p code)"

lemma boundary_line:
  assumes "boundary code p" "p < length code"
  shows "p + 2 \<le> length code"
    and "drop_bit 28 (code ! p) = 0xE \<Longrightarrow> boundary code (p + 2 + literal_words (code ! (p + 1)))"
    and "drop_bit 28 (code ! p) \<noteq> 0xE \<Longrightarrow> boundary code (p + 2)"
proof -
  from assms have "drop p code = code ! p # drop (p + 1) code"
    by (simp add: Cons_nth_drop_Suc)
  with assms(1) have len: "p + 1 < length code"
    by (cases "p + 1 < length code") (simp_all add: boundary_def)
  have "drop p code = code ! p # code ! (p + 1) # drop (p + 2) code"
    using assms(2) len by (simp add: Cons_nth_drop_Suc numeral_2_eq_2)
  moreover have "well_formed (drop p code)" using assms(1) by (simp add: boundary_def)
  ultimately have wf: "well_formed (code ! p # code ! (p + 1) # drop (p + 2) code)"
    by (simp only:)
  show "p + 2 \<le> length code" using len by simp
  show "boundary code (p + 2 + literal_words (code ! (p + 1)))" if "drop_bit 28 (code ! p) = 0xE"
    using wf that len by (simp add: boundary_def ac_simps) arith
  show "boundary code (p + 2)" if "drop_bit 28 (code ! p) \<noteq> 0xE"
    using wf that len by (simp add: boundary_def)
qed

text \<open>What the control flow depends on, and the invariant of the main loop.\<close>

definition control :: "'w ar \<Rightarrow> nat \<times> nat \<times> u32" where
  "control s = (pc s, loopstart s, loopcount s)"

definition inside :: "u32 list \<Rightarrow> 'w ar \<Rightarrow> bool" where
  "inside code s \<longleftrightarrow> boundary code (pc s) \<and> boundary code (loopstart s) \<and> loopstart s \<le> pc s"

lemma control_update [simp]:
  "control (s\<lparr>offset := x\<rparr>) = control s" "control (s\<lparr>datareg := x\<rparr>) = control s"
  "control (s\<lparr>cond := x\<rparr>) = control s" "control (s\<lparr>condstack := x\<rparr>) = control s"
  "control (s\<lparr>loopcond := x\<rparr>) = control s" "control (s\<lparr>loopcondstack := x\<rparr>) = control s"
  "control (s\<lparr>c5count := x\<rparr>) = control s" "control (s\<lparr>started := f\<rparr>) = control s"
  "control (s\<lparr>world := w\<rparr>) = control s"
  by (simp_all add: control_def)

lemma control_memory [simp]:
  "control (write32 env a x s) = control s" "control (write16 env a h s) = control s"
  "control (write8 env a c s) = control s"
  "control (snd (read32 env a s)) = control s" "control (snd (read16 env a s)) = control s"
  "control (snd (read8 env a s)) = control s"
  by (simp_all add: write32_def write16_def write8_def read32_def read16_def read8_def split_beta Let_def)

lemma control_cond [simp]:
  "control (push_cond s) = control s" "control (IF32 env f a b s) = control s"
  "control (IF16 env f a b s) = control s" "control (IF_count b s) = control s"
  "control (ENDIF s) = control s"
  by (simp_all add: push_cond_def IF32_def IF16_def IF_count_def ENDIF_def split_beta Let_def)

lemma control_copy_tail [simp]: "control (copy_tail env dst v left s) = control s"
proof (induction env dst v left s rule: copy_tail.induct)
  case (1 env dst v left s)
  then show ?case by (subst copy_tail.simps) simp
qed

lemma control_move_bytes [simp]: "control (move_bytes env src dst left s) = control s"
proof (induction env src dst left s rule: move_bytes.induct)
  case (1 env src dst left s)
  then show ?case by (subst move_bytes.simps) (simp add: split_beta Let_def)
qed

lemma control_exec_memory [simp]: "control (exec_memory env hi a b s) = control s"
  by (simp add: exec_memory_def split_beta Let_def)

lemma control_exec_register: "exec_register env opc a b s = Some s' \<Longrightarrow> control s' = control s"
  by (auto simp: exec_register_def split_beta Let_def split: if_splits option.splits)

section \<open>Outcomes of a step\<close>

text \<open>A step that returns, or goes on in a state that satisfies \<open>P\<close>; it does not leave the code.\<close>

fun outcome :: "('a \<Rightarrow> bool) \<Rightarrow> ('w, 'a) ar_step \<Rightarrow> bool" where
  "outcome P (Inl (Returned r w)) = True"
| "outcome P (Inl OutOfBounds) = False"
| "outcome P (Inr x) = P x"

lemma outcome_and_then:
  "outcome Q m \<Longrightarrow> (\<And>x. Q x \<Longrightarrow> outcome P (f x)) \<Longrightarrow> outcome P (and_then m f)"
  by (cases m rule: sum.exhaust; simp add: and_then_def) (metis ar_exit.exhaust outcome.simps(1,2))

lemma outcome_mono: "outcome Q m \<Longrightarrow> (\<And>x. Q x \<Longrightarrow> P x) \<Longrightarrow> outcome P m"
  by (induction Q m rule: outcome.induct) auto

lemma outcome_check_stop: "outcome (\<lambda>s'. control s' = control s) (check_stop env s)"
  by (simp add: check_stop_def split_beta Let_def)

lemma outcome_peek: "pc s + k < length code \<Longrightarrow> outcome (\<lambda>v. v = code ! (pc s + k)) (peek code k s)"
  by (simp add: peek_def)

lemma outcome_fetch:
  "pc s < length code \<Longrightarrow> outcome (\<lambda>(v, s'). v = code ! pc s \<and> s' = s\<lparr>pc := pc s + 1\<rparr>) (fetch code s)"
  by (simp add: fetch_def peek_def and_then_def)

text \<open>The control part after \<open>n\<close> words have been consumed.\<close>

definition consumed :: "nat \<Rightarrow> 'w ar \<Rightarrow> 'w ar \<Rightarrow> bool" where
  "consumed n s s' \<longleftrightarrow> control s' = (pc s + n, loopstart s, loopcount s)"

lemma consumed_trans: "consumed m s s' \<Longrightarrow> consumed n s' s'' \<Longrightarrow> consumed (m + n) s s''"
  by (simp add: consumed_def control_def)

lemma consumed_0: "control s' = control s \<longleftrightarrow> consumed 0 s s'"
  by (simp add: consumed_def control_def)

lemma consumed_pc: "consumed n s s' \<Longrightarrow> pc s' = pc s + n"
  by (simp add: consumed_def control_def)

lemma outcome_copy_word:
  "pc s < length code \<Longrightarrow> outcome (consumed 1 s) (copy_word env code dst s)"
  by (simp add: copy_word_def fetch_def peek_def and_then_def consumed_def) (simp add: control_def)

lemma outcome_copy_line:
  assumes "pc s + 2 \<le> length code"
  shows "outcome (consumed 2 s) (copy_line env code dst s)"
  unfolding copy_line_def
proof (rule outcome_and_then [OF outcome_check_stop])
  fix s1 :: "'a ar"
  assume 1: "control s1 = control s"
  then have "pc s1 = pc s" by (simp add: control_def)
  show "outcome (consumed 2 s) (and_then (copy_word env code dst s1) (copy_word env code (dst + 4)))"
  proof (rule outcome_and_then [OF outcome_copy_word])
    show "pc s1 < length code" using \<open>pc s1 = pc s\<close> assms by simp
    fix s2
    assume 2: "consumed 1 s1 s2"
    with assms \<open>pc s1 = pc s\<close> have "pc s2 < length code" by (simp add: consumed_pc)
    moreover have "consumed 1 s s2" using 1 2 by (simp add: consumed_def control_def)
    ultimately show "outcome (consumed 2 s) (copy_word env code (dst + 4) s2)"
      by (intro outcome_mono [OF outcome_copy_word]) (auto dest: consumed_trans simp: numeral_2_eq_2)
  qed
qed


lemma outcome_copy_lines:
  "pc s + unat left div 8 * 2 \<le> length code \<Longrightarrow>
   outcome (\<lambda>(dst', left', s'). unat left' = unat left mod 8 \<and> consumed (unat left div 8 * 2) s s')
     (copy_lines env code dst left s)"
proof (induction env code dst left s rule: copy_lines.induct)
  case (1 env code dst left s)
  show ?case
  proof (cases "left \<ge> 8")
    case True
    then have sub: "unat (left - 8) = unat left - 8" "8 \<le> unat left"
      by (simp_all add: unat_sub word_le_nat_alt)
    then have q: "unat left div 8 = Suc ((unat left - 8) div 8)" "(unat left - 8) mod 8 = unat left mod 8"
      by (simp_all add: le_div_geq le_mod_geq)
    have "outcome (consumed 2 s) (copy_line env code dst s)"
      using 1(2) q by (intro outcome_copy_line) simp
    then show ?thesis
    proof (cases "copy_line env code dst s")
      case (Inr s1)
      with \<open>outcome (consumed 2 s) (copy_line env code dst s)\<close> have m: "consumed 2 s s1" by simp
      then have "pc s1 + unat (left - 8) div 8 * 2 \<le> length code"
        using 1(2) q sub by (simp add: consumed_pc)
      from 1(1) [OF True Inr this] show ?thesis
        using True Inr sub q consumed_trans [OF m]
        by (subst copy_lines.simps) (auto elim!: outcome_mono)
    next
      case (Inl e)
      with \<open>outcome (consumed 2 s) (copy_line env code dst s)\<close> True show ?thesis
        by (subst copy_lines.simps) (cases e; simp)
    qed
  next
    case False
    then have "unat left < 8" by (simp add: word_le_nat_alt)
    with False show ?thesis by (subst copy_lines.simps) (simp add: consumed_def control_def)
  qed
qed

lemma pc_write [simp]: "pc (write32 env a v s) = pc s"
  by (simp add: write32_def)

lemma outcome_copy_rest:
  assumes "0 < unat left \<Longrightarrow> pc s + 2 \<le> length code"
  shows "outcome (consumed (if left = 0 then 0 else 2) s) (copy_rest env code (dst, left, s))"
proof (cases "left = 0")
  case False
  then have "pc s + 2 \<le> length code" using assms by (simp add: unat_gt_0)
  with False show ?thesis
    by (simp add: copy_rest_def peek_def and_then_def word_gt_0 consumed_def)
      (simp add: control_def write32_def)
qed (simp add: copy_rest_def consumed_def control_def)

lemma literal_words_alt:
  "literal_words b = unat b div 8 * 2 + (if unat b mod 8 = 0 then 0 else 2)"
proof -
  have "(n + 7) div 8 * 2 = n div 8 * 2 + (if n mod 8 = 0 then 0 else 2)" for n :: nat
    by presburger
  then show ?thesis by (simp only: literal_words_def)
qed

lemma outcome_literal_copy:
  assumes "pc s + literal_words b \<le> length code"
  shows "outcome (consumed (literal_words b) s) (literal_copy env code a b s)"
  unfolding literal_copy_def
proof (rule outcome_and_then [OF outcome_copy_lines], goal_cases)
  case 1
  then show ?case using assms by (simp add: literal_words_alt split: if_splits)
next
  case (2 x)
  obtain dst left s1 where x: "x = (dst, left, s1)" by (cases x)
  with 2 have left: "unat left = unat b mod 8" and m: "consumed (unat b div 8 * 2) s s1" by auto
  then have "pc s1 + 2 \<le> length code" if "0 < unat left"
    using assms that by (auto simp: consumed_pc literal_words_alt split: if_splits)
  then have "outcome (consumed (if left = 0 then 0 else 2) s1) (copy_rest env code (dst, left, s1))"
    by (rule outcome_copy_rest)
  then show ?case
    unfolding x using consumed_trans [OF m, of 0] consumed_trans [OF m, of 2] left
    by (auto elim!: outcome_mono simp: literal_words_alt unat_eq_0 split: if_splits)
qed

lemma outcome_move_words:
  "outcome (\<lambda>(src', dst', left', s'). control s' = control s) (move_words env src dst left s)"
proof (induction env src dst left s rule: move_words.induct)
  case (1 env src dst left s)
  have w: "outcome (\<lambda>s'. control s' = control s) (move_word env src dst s)"
    unfolding move_word_def
    by (rule outcome_and_then [OF outcome_check_stop]) (simp add: split_beta Let_def)
  show ?case
  proof (cases "move_word env src dst s")
    case (Inl e)
    with w show ?thesis by (subst move_words.simps) (cases e; simp)
  next
    case (Inr s1)
    with 1 [of s1] w show ?thesis by (subst move_words.simps) simp
  qed
qed

lemma outcome_memory_copy: "outcome (\<lambda>s'. control s' = control s) (memory_copy env a b s)"
  unfolding memory_copy_def
  by (rule outcome_and_then [OF outcome_move_words]) auto


section \<open>The main loop\<close>

text \<open>
  The order in which the loop comes to an end: \<open>FOR\<close> moves the start of the loop forward, \<open>NEXT\<close>
  counts down, and any other instruction moves the program counter forward.
\<close>

definition rank :: "u32 list \<Rightarrow> 'w ar \<Rightarrow> nat \<times> nat \<times> nat" where
  "rank code s = (length code - loopstart s, unat (loopcount s), length code - pc s)"

definition loop_order :: "u32 list \<Rightarrow> ('w ar \<times> 'w ar) set" where
  "loop_order code = inv_image (less_than <*lex*> less_than <*lex*> less_than) (rank code)"

lemma wf_loop_order: "wf (loop_order code)"
  by (simp add: loop_order_def wf_inv_image wf_lex_prod)

definition progress :: "u32 list \<Rightarrow> 'w ar \<Rightarrow> 'w ar \<Rightarrow> bool" where
  "progress code s s' \<longleftrightarrow> inside code s' \<and> (s', s) \<in> loop_order code"

lemma progress_forward:
  assumes "inside code s" "consumed n s s'" "0 < n" "boundary code (pc s + n)"
  shows "progress code s s'"
  using assms
  by (auto simp: progress_def inside_def consumed_def control_def loop_order_def rank_def boundary_def)

text \<open>The state after the fetch of a line that is not a literal block.\<close>

lemma progress_FOR:
  assumes "inside code s" "consumed 2 s s'" "boundary code (pc s + 2)"
  shows "progress code s (FOR b s')"
  using assms
  by (auto simp: progress_def inside_def consumed_def control_def loop_order_def rank_def boundary_def FOR_def)

lemma progress_NEXT:
  assumes "inside code s" "consumed 2 s s'" "boundary code (pc s + 2)"
  shows "progress code s (NEXT flush s')"
  using assms
  by (auto simp: progress_def inside_def consumed_def control_def loop_order_def rank_def boundary_def
      NEXT_def FLUSH_def Let_def unat_sub1 unat_gt_0 word_gt_0 split: if_splits)

lemma nibble_E: "drop_bit 24 a AND 0xF0 = 0xE0 \<longleftrightarrow> drop_bit 28 a = 0xE" for a :: u32
proof -
  have F0: "bit (0xF0 :: u32) n \<longleftrightarrow> 4 \<le> n \<and> n < 8" for n
    using bit_run_u32 [of 4 4 n] by (auto simp: mask_numeral)
  have eq: "drop_bit 24 a AND 0xF0 = push_bit 4 (drop_bit 28 a)"
  proof (rule bit_word_eqI)
    fix n
    show "bit (drop_bit 24 a AND 0xF0) n = bit (push_bit 4 (drop_bit 28 a)) n"
      using bit_imp_le_length [of a "24 + n"]
      by (auto simp only: bit_and_iff bit_drop_bit_eq bit_push_bit_iff F0 comp_apply) auto
  qed
  have "drop_bit 4 (push_bit 4 (drop_bit 28 a)) = drop_bit 28 a"
    by (rule bit_word_eqI) (auto simp: bit_drop_bit_eq bit_push_bit_iff dest: bit_imp_le_length)
  then have "push_bit 4 (drop_bit 28 a) = 0xE0 \<Longrightarrow> drop_bit 28 a = 0xE" by simp
  then show ?thesis
    unfolding eq by auto
qed

lemma op_nibble: "drop_bit 24 a = k \<Longrightarrow> drop_bit 28 a = drop_bit 4 k" for a :: u32
  by (auto simp: drop_bit_drop_bit)

lemma literal_opcode:
  fixes a :: u32
  assumes "drop_bit 28 a = 0xE"
  shows "drop_bit 24 a \<noteq> 0xC0" "drop_bit 24 a \<noteq> 0xC4" "drop_bit 24 a \<noteq> 0xC5" "drop_bit 24 a \<noteq> 0xC6"
    "drop_bit 24 a \<noteq> 0xD0" "drop_bit 24 a \<noteq> 0xD1" "drop_bit 24 a \<noteq> 0xD2"
  using assms by (auto dest: op_nibble)

text \<open>The switch: a literal block takes its words, any other instruction only its line.\<close>

lemma execute_progress:
  assumes inside: "inside code s" and m: "consumed 2 s s1"
    and lit: "drop_bit 28 a = 0xE \<Longrightarrow> boundary code (pc s + 2 + literal_words b)"
    and other: "drop_bit 28 a \<noteq> 0xE \<Longrightarrow> boundary code (pc s + 2)"
  shows "outcome (progress code s) (execute env code a b s1)"
proof (cases "drop_bit 28 a = 0xE")
  case True
  then have "outcome (consumed (literal_words b) s1) (literal_copy env code a b s1)"
    using lit m by (intro outcome_literal_copy) (simp add: consumed_pc boundary_def)
  then have "outcome (progress code s) (literal_copy env code a b s1)"
    using progress_forward [OF inside consumed_trans [OF m]] lit [OF True]
    by (elim outcome_mono) (simp add: add.assoc)
  then show ?thesis
    by (simp add: execute_def Let_def literal_opcode [OF True] True)
next
  case False
  note b2 = other [OF this]
  have keep: "progress code s s2" if "control s2 = control s1" for s2
    using progress_forward [OF inside _ _ b2, of s2] m that by (simp add: consumed_def)
  have copy: "outcome (progress code s) (memory_copy env a b s1)"
    using outcome_memory_copy keep by (rule outcome_mono)
  have reg: "outcome (progress code s) (case exec_register env opc a b s1 of
      None \<Rightarrow> Inl (Returned UnsupportedCode (world s1)) | Some s \<Rightarrow> Inr s)" for opc
    by (auto split: option.split intro: keep dest: control_exec_register)
  show ?thesis
    unfolding execute_def Let_def
    by (simp only: False if_False outcome.simps copy reg progress_FOR [OF inside m b2]
        progress_NEXT [OF inside m b2] keep control_exec_memory control_cond control_memory
        simp_thms split: if_split)
qed

lemma run_instruction_progress:
  assumes "inside code s" and m: "consumed 2 s s1"
    and "drop_bit 28 a = 0xE \<Longrightarrow> boundary code (pc s + 2 + literal_words b)"
    and "drop_bit 28 a \<noteq> 0xE \<Longrightarrow> boundary code (pc s + 2)"
  shows "outcome (progress code s) (run_instruction env code a b s1)"
proof -
  have "consumed (if drop_bit 28 a = 0xE then 2 + literal_words b else 2) s (skip (drop_bit 24 a) b s1)"
    using m by (auto simp: skip_def nibble_E consumed_def control_def)
  then have "progress code s (skip (drop_bit 24 a) b s1)"
    using assms by (auto intro: progress_forward simp: add.assoc split: if_splits)
  then show ?thesis
    using execute_progress [OF assms] by (simp add: run_instruction_def Let_def)
qed

lemma RunCheat_step_progress:
  assumes "inside code s"
  shows "outcome (progress code s) (RunCheat_step env code s)"
proof (cases "pc s = length code \<or> fst (stop_requested env (world s))")
  case True
  then show ?thesis by (auto simp: RunCheat_step_def split_beta Let_def)
next
  case False
  define s0 where "s0 = s\<lparr>world := snd (stop_requested env (world s)), started := True\<rparr>"
  define s1 where "s1 = s0\<lparr>pc := pc s0 + 1, pc := pc s0 + 2\<rparr>"
  have pc: "pc s < length code" "boundary code (pc s)"
    using assms False by (auto simp: inside_def boundary_def)
  note line = boundary_line [OF pc(2,1)]
  have "RunCheat_step env code s = run_instruction env code (code ! pc s) (code ! (pc s + 1)) s1"
    using False line(1)
    by (simp add: RunCheat_step_def split_beta Let_def fetch_def peek_def and_then_def s0_def s1_def)
  moreover have "consumed 2 s s1" by (simp add: s0_def s1_def consumed_def control_def)
  ultimately show ?thesis
    using run_instruction_progress [OF assms] line(2,3) by simp
qed

lemma RunCheat_loop_returns:
  "inside code s \<Longrightarrow> \<exists>r w. RunCheat_loop env code s = Some (Returned r w)"
proof (induction s rule: wf_induct_rule [OF wf_loop_order [of code]])
  case (1 s)
  have step: "outcome (progress code s) (RunCheat_step env code s)"
    using 1(2) by (rule RunCheat_step_progress)
  show ?case
  proof (cases "RunCheat_step env code s")
    case (Inl e)
    with step show ?thesis by (subst RunCheat_loop.simps) (cases e; simp)
  next
    case (Inr s')
    with step have "inside code s'" "(s', s) \<in> loop_order code" by (simp_all add: progress_def)
    with 1(1) Inr show ?thesis by (subst RunCheat_loop.simps) simp
  qed
qed

lemma RunCheat_total: "\<exists>r w'. RunCheat env code w = Some (Returned r w')"
proof -
  have "inside code (RunCheat_init w')" if "ValidateInstructions env code w'' = (Success, w')" for w'' w'
    using ValidateInstructions_well_formed [OF that] by (simp add: inside_def boundary_def RunCheat_init_def)
  then show ?thesis
    by (auto simp: RunCheat_def split_beta Let_def prod_eq_iff intro!: RunCheat_loop_returns)
qed

text \<open>C22. A cheat always returns: whatever its words, the memory and the stop token do, the run comes to
its end with one of the four results, and no access through the code pointer is outside the code (the
validation before the run and the order of \<open>FOR\<close> and \<open>NEXT\<close> exclude both).\<close>

theorem RunCheat_returns: "\<exists>r w'. RunCheat env code w = Some (Returned r w')"
  by (rule RunCheat_total)

section \<open>Runs of all cheats\<close>

text \<open>The codes that a run has disabled.\<close>

definition disabled :: "ar_code list \<Rightarrow> ar_code list \<Rightarrow> ar_code list" where
  "disabled cs cs' = map fst (filter (\<lambda>(c, c'). Enabled c \<and> \<not> Enabled c') (zip cs cs'))"

definition same_or_disabled :: "ar_code \<Rightarrow> ar_code \<Rightarrow> bool" where
  "same_or_disabled c c' \<longleftrightarrow> c' = c \<or> Enabled c \<and> c' = c\<lparr>Enabled := False\<rparr>"

definition explains :: "'w ar_env \<Rightarrow> ar_code \<Rightarrow> string \<times> ar_result \<Rightarrow> bool" where
  "explains env c err \<longleftrightarrow> fst err = Name c \<and> snd err \<noteq> Success \<and>
     (\<exists>w w'. RunCheat env (Code c) w = Some (Returned (snd err) w'))"

definition run_ok ::
  "'w ar_env \<Rightarrow> ar_code list \<Rightarrow> (ar_code list \<times> (string \<times> ar_result) list \<times> 'w) option \<Rightarrow> bool" where
  "run_ok env cs r \<longleftrightarrow> (case r of None \<Rightarrow> False | Some (cs', es, w) \<Rightarrow>
     list_all2 same_or_disabled cs cs' \<and> list_all2 (explains env) (disabled cs cs') es)"

lemma disabled_refl [simp]: "disabled cs cs = []"
  by (induction cs) (simp_all add: disabled_def)

lemma disabled_Cons [simp]:
  "disabled (c # cs) (c # cs') = disabled cs cs'"
  "Enabled c \<Longrightarrow> disabled (c # cs) (c\<lparr>Enabled := False\<rparr> # cs') = c # disabled cs cs'"
  by (simp_all add: disabled_def)

lemma run_ok_stop: "run_ok env cs (Some (cs, [], w))"
  by (simp add: run_ok_def list_all2_refl same_or_disabled_def)

lemma run_ok_keep:
  "run_ok env cs r \<Longrightarrow> run_ok env (c # cs) (map_option (\<lambda>(ds, es, w). (c # ds, es, w)) r)"
  by (auto simp: run_ok_def same_or_disabled_def split: option.splits)

lemma run_ok_disable:
  "run_ok env cs r \<Longrightarrow> Enabled c \<Longrightarrow> RunCheat env (Code c) w0 = Some (Returned k w1) \<Longrightarrow> k \<noteq> Success \<Longrightarrow>
   run_ok env (c # cs)
     (map_option (\<lambda>(ds, es, w). (c\<lparr>Enabled := False\<rparr> # ds, (Name c, k) # es, w)) r)"
  by (auto simp: run_ok_def same_or_disabled_def explains_def split: option.splits)

lemma run_codes_ok: "run_ok env cs (run_codes env cs w)"
proof (induction cs arbitrary: w)
  case Nil
  show ?case by (simp add: run_ok_stop)
next
  case (Cons c cs)
  obtain stop w1 where stop: "stop_requested env w = (stop, w1)" by (cases "stop_requested env w")
  obtain k w2 where run: "RunCheat env (Code c) w1 = Some (Returned k w2)"
    using RunCheat_total [of env "Code c" w1] by blast
  have last: "run_ok env (c # cs) (Some (c\<lparr>Enabled := False\<rparr> # cs, [(Name c, k)], w2))"
    if "Enabled c" "k \<noteq> Success"
    using run_ok_disable [OF run_ok_stop [of env cs w2] that(1) run that(2)] by simp
  show ?case
    using run last run_ok_disable [OF Cons.IH _ run]
    by (auto simp: stop run_ok_stop run_ok_keep [simplified] Cons.IH)
qed

text \<open>C23. A run of all cheats always comes to an end; it changes nothing in the list but the \<open>Enabled\<close> flag of
codes that were enabled, and appends to the errors, in the order of the list, exactly one entry for each
code it has disabled, with a result other than \<open>Success\<close> that \<open>RunCheat\<close> gave for that code.\<close>

theorem RunCheats_disables_failing:
  "\<exists>e' w' es. RunCheats env e w = Some (e', w') \<and>
     list_all2 same_or_disabled (Cheats e) (Cheats e') \<and>
     Errors e' = Errors e @ es \<and> list_all2 (explains env) (disabled (Cheats e) (Cheats e')) es"
  using run_codes_ok [of env "Cheats e" w]
  by (auto simp: run_ok_def RunCheats_def split: option.splits)


section \<open>Literal copies\<close>

definition le_bytes :: "u32 \<Rightarrow> u8 list" where
  "le_bytes v = map (\<lambda>i. ucast (drop_bit (8 * i) v)) [0..<4]"

definition bytes_of :: "u32 list \<Rightarrow> u8 list" where
  "bytes_of vs = concat (map le_bytes vs)"

primrec write_bytes :: "(u32 \<Rightarrow> u8 \<Rightarrow> 'w \<Rightarrow> 'w) \<Rightarrow> u32 \<Rightarrow> u8 list \<Rightarrow> 'w \<Rightarrow> 'w" where
  "write_bytes W a [] w = w"
| "write_bytes W a (b # bs) w = write_bytes W (a + 1) bs (W a b w)"

text \<open>A memory whose 32-bit writes are four byte writes, and a stop token that is never set.\<close>

definition byte_memory :: "'w ar_env \<Rightarrow> bool" where
  "byte_memory env \<longleftrightarrow> stop_requested env = (\<lambda>w. (False, w)) \<and>
     ARM7Write32 env = (\<lambda>a v w. write_bytes (ARM7Write8 env) a (le_bytes v) w)"

lemma le_bytes_list: "le_bytes v = [ucast v, ucast (drop_bit 8 v), ucast (drop_bit 16 v), ucast (drop_bit 24 v)]"
  by (simp add: le_bytes_def upt_rec)

lemma write_bytes_append:
  "write_bytes W a (xs @ ys) w = write_bytes W (a + of_nat (length xs)) ys (write_bytes W a xs w)"
  by (induction xs arbitrary: a w) (simp_all add: add.assoc)

lemma bytes_of_Cons [simp]: "bytes_of [] = []" "bytes_of (v # vs) = le_bytes v @ bytes_of vs"
  by (simp_all add: bytes_of_def)

lemma length_le_bytes [simp]: "length (le_bytes v) = 4"
  by (simp add: le_bytes_def)

lemma copy_line_bytes:
  assumes "byte_memory env" "pc s + 2 \<le> length code"
  shows "copy_line env code dst s =
    Inr (s\<lparr>pc := pc s + 2, world := write_bytes (ARM7Write8 env) dst
             (bytes_of [code ! pc s, code ! (pc s + 1)]) (world s)\<rparr>)"
  using assms
  by (simp add: copy_line_def copy_word_def fetch_def peek_def and_then_def check_stop_def write32_def
      byte_memory_def write_bytes_append)

lemma copy_lines_bytes:
  assumes "byte_memory env"
  shows "pc s + 2 * (unat left div 8) \<le> length code \<Longrightarrow>
   copy_lines env code dst left s =
     Inr (dst + of_nat (8 * (unat left div 8)), of_nat (unat left mod 8),
       s\<lparr>pc := pc s + 2 * (unat left div 8),
         world := write_bytes (ARM7Write8 env) dst
           (bytes_of (take (2 * (unat left div 8)) (drop (pc s) code))) (world s)\<rparr>)"
proof (induction "unat left div 8" arbitrary: dst left s)
  case 0
  then have "unat left < 8" by (simp add: div_eq_0_iff)
  moreover from this have "\<not> 8 \<le> left" by (simp add: word_le_nat_alt)
  ultimately show ?case by (subst copy_lines.simps) simp
next
  case (Suc q)
  then have ge: "8 \<le> unat left" "8 \<le> left" by (auto simp: word_le_nat_alt intro: ccontr)
  then have sub: "unat (left - 8) = unat left - 8" by (simp add: unat_sub word_le_nat_alt)
  have q: "q = unat (left - 8) div 8" "unat (left - 8) mod 8 = unat left mod 8"
    using ge Suc(2) by (simp_all add: sub le_div_geq le_mod_geq)
  have data: "drop (pc s) code = code ! pc s # code ! (pc s + 1) # drop (pc s + 2) code"
    using Suc(2,3) by (simp add: Cons_nth_drop_Suc numeral_2_eq_2)
  have len: "pc s + 2 + 2 * (unat (left - 8) div 8) \<le> length code"
    using Suc(2,3) q by simp
  show ?case
    using ge(2) copy_line_bytes [OF assms, of s code dst] Suc(1) [OF q(1), of _ "dst + 8"] len
    by (subst copy_lines.simps)
      (simp add: Suc(2) [symmetric] q(2) q(1) [symmetric] data write_bytes_append algebra_simps)
qed


lemma copy_tail_bytes:
  "n \<le> 4 \<Longrightarrow> copy_tail env dst v (of_nat n) s =
     s\<lparr>world := write_bytes (ARM7Write8 env) dst (map (\<lambda>i. ucast (drop_bit (8 * i) v)) [0..<n]) (world s)\<rparr>"
proof (induction n arbitrary: dst v s)
  case 0
  show ?case by (subst copy_tail.simps) simp
next
  case (Suc n)
  have "unat (of_nat (Suc n) :: u32) = Suc n"
    using Suc(2) by (simp only: unat_of_nat) simp
  then have "(0 :: u32) < of_nat (Suc n)" by (simp only: word_less_nat_alt unat_0)
  then show ?case
    using Suc by (subst copy_tail.simps)
      (simp add: write8_def upt_conv_Cons map_Suc_upt [symmetric] drop_bit_drop_bit comp_def add.commute
        del: upt_Suc)
qed

lemma take_le_bytes: "n \<le> 4 \<Longrightarrow> map (\<lambda>i. ucast (drop_bit (8 * i) v)) [0..<n] = take n (le_bytes v)"
  by (simp add: le_bytes_def take_map)

lemma copy_rest_bytes:
  assumes "byte_memory env" "n < 8" "0 < n \<Longrightarrow> pc s + 2 \<le> length code"
  shows "copy_rest env code (dst, of_nat n, s) =
    Inr (s\<lparr>pc := pc s + (if n = 0 then 0 else 2),
           world := write_bytes (ARM7Write8 env) dst (take n (bytes_of (drop (pc s) code))) (world s)\<rparr>)"
proof (cases "n = 0")
  case True
  then show ?thesis by (simp add: copy_rest_def)
next
  case False
  then have data: "drop (pc s) code = code ! pc s # code ! (pc s + 1) # drop (pc s + 2) code"
    using assms(3) by (simp add: Cons_nth_drop_Suc numeral_2_eq_2)
  have n: "unat (of_nat n :: u32) = n"
    using assms(2) by (simp add: unat_of_nat)
  have pos: "0 < (of_nat n :: u32)" "4 \<le> (of_nat n :: u32) \<longleftrightarrow> 4 \<le> n"
    using False by (simp_all add: word_less_nat_alt word_le_nat_alt n)
  have sub: "4 \<le> n \<Longrightarrow> of_nat n - (4 :: u32) = of_nat (n - 4)" by (simp add: of_nat_diff)
  have peek: "peek code 0 s = Inr (code ! pc s)"
    "peek code 1 (write32 env dst (code ! pc s) s) = Inr (code ! (pc s + 1))"
    using assms(3) False by (simp_all add: peek_def)
  have bytes: "take n (bytes_of (drop (pc s) code)) =
      take n (le_bytes (code ! pc s)) @ take (n - 4) (le_bytes (code ! (pc s + 1)))"
    using assms(2) by (simp add: data)
  show ?thesis
  proof (cases "4 \<le> n")
    case True
    then have "copy_rest env code (dst, of_nat n, s) =
        Inr (copy_tail env (dst + 4) (code ! (pc s + 1)) (of_nat (n - 4))
               ((write32 env dst (code ! pc s) s)\<lparr>pc := pc s + 2\<rparr>))"
      by (simp only: copy_rest_def prod.case pos peek sub and_then_def sum.case if_True) simp
    then show ?thesis
      using True False assms(1,2)
      by (simp add: copy_tail_bytes take_le_bytes bytes write_bytes_append write32_def byte_memory_def
          del: of_nat_diff)
  next
    case small: False
    then have "copy_rest env code (dst, of_nat n, s) =
        Inr (copy_tail env dst (code ! pc s) (of_nat n) (s\<lparr>pc := pc s + 2\<rparr>))"
      by (simp only: copy_rest_def prod.case pos peek and_then_def sum.case if_True if_False)
    then show ?thesis
      using small False by (simp add: copy_tail_bytes take_le_bytes bytes)
  qed
qed

lemma bytes_of_append: "bytes_of (xs @ ys) = bytes_of xs @ bytes_of ys"
  by (simp add: bytes_of_def)

lemma length_bytes_of: "length (bytes_of vs) = 4 * length vs"
  by (induction vs) simp_all

lemma take_bytes_of:
  assumes "k \<le> length vs"
  shows "take (4 * k + r) (bytes_of vs) = bytes_of (take k vs) @ take r (bytes_of (drop k vs))"
proof -
  have "bytes_of vs = bytes_of (take k vs) @ bytes_of (drop k vs)"
    by (simp flip: bytes_of_append)
  moreover have "length (bytes_of (take k vs)) = 4 * k"
    using assms by (simp add: length_bytes_of)
  ultimately show ?thesis by (metis take_add append_eq_conv_conj)
qed

text \<open>Opcode \<open>E0\<close> copies exactly \<open>b\<close> bytes: when the literal block lies inside the code (which the
validation checks), the memory is written, byte after byte from the address on, with the first \<open>b\<close> bytes
of the block in little-endian order, and the program counter moves behind the padded block.\<close>

lemma literal_copy_bytes:
  assumes "byte_memory env" "pc s + literal_words b \<le> length code"
  shows "literal_copy env code a b s =
    Inr (s\<lparr>pc := pc s + literal_words b,
           world := write_bytes (ARM7Write8 env) (address a s)
                      (take (unat b) (bytes_of (drop (pc s) code))) (world s)\<rparr>)"
proof -
  define q r where "q = unat b div 8" and "r = unat b mod 8"
  have b: "unat b = 4 * (2 * q) + r" "r < 8" by (simp_all add: q_def r_def)
  have words: "literal_words b = 2 * q + (if r = 0 then 0 else 2)"
    by (simp add: literal_words_alt q_def r_def)
  have len: "pc s + 2 * q \<le> length code" using assms(2) words by simp
  define s1 where "s1 = s\<lparr>pc := pc s + 2 * q, world := write_bytes (ARM7Write8 env) (address a s)
    (bytes_of (take (2 * q) (drop (pc s) code))) (world s)\<rparr>"
  have lines: "copy_lines env code (address a s) b s = Inr (address a s + of_nat (8 * q), of_nat r, s1)"
    using copy_lines_bytes [OF assms(1), of s b code "address a s"] len
    by (simp add: s1_def q_def r_def)
  have rest: "copy_rest env code (address a s + of_nat (8 * q), of_nat r, s1) =
      Inr (s1\<lparr>pc := pc s1 + (if r = 0 then 0 else 2),
        world := write_bytes (ARM7Write8 env) (address a s + of_nat (8 * q))
          (take r (bytes_of (drop (pc s1) code))) (world s1)\<rparr>)"
    using assms(2) words by (intro copy_rest_bytes [OF assms(1) b(2)]) (simp add: s1_def)
  have data: "take (unat b) (bytes_of (drop (pc s) code)) =
      bytes_of (take (2 * q) (drop (pc s) code)) @ take r (bytes_of (drop (pc s1) code))"
    unfolding b(1) using len by (subst take_bytes_of) (simp_all add: s1_def ac_simps)
  have "literal_copy env code a b s =
      and_then (copy_lines env code (address a s) b s) (copy_rest env code)"
    by (simp add: literal_copy_def address_def)
  also have "\<dots> = copy_rest env code (address a s + of_nat (8 * q), of_nat r, s1)"
    by (simp only: lines and_then_def sum.case)
  finally have run: "literal_copy env code a b s = \<dots>" .
  have "length (bytes_of (take (2 * q) (drop (pc s) code))) = 8 * q"
    using len by (simp add: length_bytes_of)
  then show ?thesis
    by (simp add: run rest data write_bytes_append words del: of_nat_mult) (simp add: s1_def)
qed

text \<open>A memory that logs its byte writes.\<close>

definition log_env :: "(u32 \<times> u8) list ar_env" where
  "log_env = \<lparr>stop_requested = (\<lambda>w. (False, w)), ARM7Read8 = (\<lambda>a w. (0, w)),
     ARM7Read16 = (\<lambda>a w. (0, w)), ARM7Read32 = (\<lambda>a w. (0, w)),
     ARM7Write8 = (\<lambda>a v w. w @ [(a, v)]),
     ARM7Write16 = (\<lambda>a v w. w @ [(a, ucast v), (a + 1, ucast (drop_bit 8 v))]),
     ARM7Write32 = (\<lambda>a v w. write_bytes (\<lambda>a v w. w @ [(a, v)]) a (le_bytes v) w)\<rparr>"

text \<open>Ten bytes at \<open>0x2000000\<close>, over one line and the first half of another.\<close>

lemma literal_copy_bytes_witness:
  "literal_copy log_env [0xE2000000, 10, 0x44332211, 0x88776655, 0xAA99, 0] 0xE2000000 10
     ((RunCheat_init [])\<lparr>pc := 2\<rparr>) =
   Inr ((RunCheat_init [(0x2000000, 0x11), (0x2000001, 0x22), (0x2000002, 0x33), (0x2000003, 0x44),
          (0x2000004, 0x55), (0x2000005, 0x66), (0x2000006, 0x77), (0x2000007, 0x88),
          (0x2000008, 0x99), (0x2000009, 0xAA)])\<lparr>pc := 6\<rparr>)"
  by (subst literal_copy_bytes)
    (simp_all add: byte_memory_def log_env_def literal_words_def RunCheat_init_def address_def
      bytes_of_def le_bytes_list)

end
