(* ===== verification/ARCodeFile.thy ===== *)
theory ARCodeFile
  imports ActionReplay
begin

text \<open>
  Cheat files (\<^verbatim>\<open>src/src/ARCodeFile.cpp\<close>): the tree of categories and codes, its text form, the reader
  and the writer.  Parent pointers are left out.  Of the C library the reader uses \<open>strncasecmp\<close> and
  \<open>sscanf\<close> with five formats; they are written out here on character lists, a C string ending at the
  first NUL.  A wrong \<open>std::get\<close> throws; such a result is None.
\<close>

section \<open>Data\<close>

datatype ar_item = CodeItem ar_code | CatItem ar_cat
  and ar_cat = ARCodeCat (CatName: string) (CatDescription: string) (OnlyOneCodeEnabled: bool)
    (Children: "ar_item list")

record ar_file =
  RootCat :: ar_cat
  Error :: bool

definition empty_cat :: ar_cat where
  "empty_cat = ARCodeCat [] [] False []"

section \<open>Characters and scanning\<close>

definition LF :: char where "LF = CHR 0x0A"
definition CR :: char where "CR = CHR 0x0D"
definition TAB :: char where "TAB = CHR 0x09"
definition NUL :: char where "NUL = CHR 0x00"

definition code_point :: "char \<Rightarrow> nat" where
  "code_point c = of_char c"

definition isspace :: "char \<Rightarrow> bool" where
  "isspace c \<longleftrightarrow> code_point c = 32 \<or> 9 \<le> code_point c \<and> code_point c \<le> 13"

definition lower :: "char \<Rightarrow> char" where
  "lower c = (if 65 \<le> code_point c \<and> code_point c \<le> 90 then char_of (code_point c + 32) else c)"

text \<open>\<open>strncasecmp(s, p, length of p) == 0\<close>, and a character of a C string, NUL at its end.\<close>

definition starts_with_nocase :: "string \<Rightarrow> string \<Rightarrow> bool" where
  "starts_with_nocase p s \<longleftrightarrow> map lower (take (length p) s) = map lower p"

definition char_at :: "string \<Rightarrow> nat \<Rightarrow> char" where
  "char_at s i = (if i < length s then s ! i else NUL)"

text \<open>The directives of \<open>sscanf\<close>: literal text, white space, \<open>%d\<close>, \<open>%<n>[^\r\n]\<close> and \<open>%08X\<close>.\<close>

definition scan_literal :: "string \<Rightarrow> string \<Rightarrow> string option" where
  "scan_literal p s = (if take (length p) s = p then Some (drop (length p) s) else None)"

definition scan_space :: "string \<Rightarrow> string" where
  "scan_space s = dropWhile isspace s"

definition digit_value :: "char \<Rightarrow> nat option" where
  "digit_value c = (let n = code_point c in if 48 \<le> n \<and> n \<le> 57 then Some (n - 48) else None)"

definition hex_value :: "char \<Rightarrow> nat option" where
  "hex_value c = (let n = code_point c in
     if 48 \<le> n \<and> n \<le> 57 then Some (n - 48)
     else if 65 \<le> n \<and> n \<le> 70 then Some (n - 55)
     else if 97 \<le> n \<and> n \<le> 102 then Some (n - 87)
     else None)"

definition number :: "nat \<Rightarrow> (char \<Rightarrow> nat option) \<Rightarrow> string \<Rightarrow> nat" where
  "number base val ds = foldl (\<lambda>a c. base * a + the (val c)) 0 ds"

text \<open>The optional sign: whether it is a minus, its length, the rest.\<close>

definition scan_sign :: "string \<Rightarrow> bool \<times> nat \<times> string" where
  "scan_sign s =
     (if char_at s 0 = CHR ''-'' then (True, 1, drop 1 s)
      else if char_at s 0 = CHR ''+'' then (False, 1, drop 1 s)
      else (False, 0, s))"

text \<open>C leaves a decimal number outside \<open>int\<close> undefined; here it has its value.\<close>

definition scan_int :: "string \<Rightarrow> (int \<times> string) option" where
  "scan_int s =
     (let (neg, n, s) = scan_sign (scan_space s);
          ds = takeWhile (\<lambda>c. digit_value c \<noteq> None) s;
          v = int (number 10 digit_value ds)
      in if ds = [] then None else Some (if neg then - v else v, drop (length ds) s))"

definition scan_text :: "nat \<Rightarrow> string \<Rightarrow> (string \<times> string) option" where
  "scan_text n s =
     (let t = takeWhile (\<lambda>c. c \<noteq> CR \<and> c \<noteq> LF) (take n s)
      in if t = [] then None else Some (t, drop (length t) s))"

definition scan_hex :: "nat \<Rightarrow> string \<Rightarrow> (u32 \<times> string) option" where
  "scan_hex width s =
     (let (neg, n, s) = scan_sign (scan_space s);
          x = (char_at s 0 = CHR ''0'' \<and> lower (char_at s 1) = CHR ''x'' \<and> n + 2 \<le> width);
          s = (if x then drop 2 s else s);
          width = width - n - (if x then 2 else 0);
          ds = takeWhile (\<lambda>c. hex_value c \<noteq> None) (take width s);
          v = of_nat (number 16 hex_value ds)
      in if ds = [] then None else Some (if neg then - v else v, drop (length ds) s))"

text \<open>\<open>std::strchr("\r\n", start[consumed])\<close>, which also finds the NUL.\<close>

definition line_done :: "string \<Rightarrow> bool" where
  "line_done s \<longleftrightarrow> char_at s 0 = CR \<or> char_at s 0 = LF \<or> char_at s 0 = NUL"

section \<open>The formats\<close>

definition scan_name :: "nat \<Rightarrow> string \<Rightarrow> (string \<times> string) option" where
  "scan_name n s = scan_text n (scan_space s)"

text \<open>\<open>"<key> %d %127[^\r\n]%n"\<close> and \<open>"<key> %<n>[^\r\n]%n"\<close>.\<close>

definition sscanf_flag_name :: "string \<Rightarrow> string \<Rightarrow> (int \<times> string \<times> string) option" where
  "sscanf_flag_name key s =
     (case scan_literal key s of None \<Rightarrow> None
      | Some s \<Rightarrow> (case scan_int (scan_space s) of None \<Rightarrow> None
      | Some (d, s) \<Rightarrow> (case scan_name 127 s of None \<Rightarrow> None
      | Some (name, s) \<Rightarrow> Some (d, name, s))))"

definition sscanf_name :: "string \<Rightarrow> nat \<Rightarrow> string \<Rightarrow> (string \<times> string) option" where
  "sscanf_name key n s =
     (case scan_literal key s of None \<Rightarrow> None | Some s \<Rightarrow> scan_name n s)"

text \<open>\<open>"%08X %08X"\<close>.\<close>

definition sscanf_data :: "string \<Rightarrow> (u32 \<times> u32) option" where
  "sscanf_data s =
     (case scan_hex 8 s of None \<Rightarrow> None
      | Some (c0, s) \<Rightarrow> (case scan_hex 8 (scan_space s) of None \<Rightarrow> None
      | Some (c1, s) \<Rightarrow> Some (c0, c1)))"

section \<open>Reading\<close>

text \<open>
  The locals of \<open>Load\<close>.  A category is the root (None) or a child of it, by index; a code is a child of a
  category.  \<open>curcode\<close> is None when the pointer is null, and after \<open>emplace_back\<close> on the root's
  children, which may move the code it pointed to.  \<open>fault\<close> is no variable of the code: it is set when a
  pointer is followed that is null or does not lead to what it should.
\<close>

record load_state =
  root :: "ar_item list"
  isincat :: bool
  curcat :: "nat option"
  isincode :: bool
  curcode :: "(nat option \<times> nat) option"
  lastentry :: nat
  fault :: bool

definition load_init :: load_state where
  "load_init = \<lparr>root = [], isincat = False, curcat = None, isincode = False,
     curcode = None, lastentry = 0, fault = False\<rparr>"

fun map_cat :: "(ar_cat \<Rightarrow> ar_cat) \<Rightarrow> ar_item \<Rightarrow> ar_item" where
  "map_cat f (CatItem c) = CatItem (f c)"
| "map_cat f (CodeItem c) = CodeItem c"

fun map_code :: "(ar_code \<Rightarrow> ar_code) \<Rightarrow> ar_item \<Rightarrow> ar_item" where
  "map_code f (CodeItem c) = CodeItem (f c)"
| "map_code f (CatItem c) = CatItem c"

fun map_children :: "(ar_item list \<Rightarrow> ar_item list) \<Rightarrow> ar_cat \<Rightarrow> ar_cat" where
  "map_children f (ARCodeCat n d one cs) = ARCodeCat n d one (f cs)"

fun set_CatDescription :: "string \<Rightarrow> ar_cat \<Rightarrow> ar_cat" where
  "set_CatDescription d (ARCodeCat n d' one cs) = ARCodeCat n d one cs"

definition modify :: "nat \<Rightarrow> ('a \<Rightarrow> 'a) \<Rightarrow> 'a list \<Rightarrow> 'a list" where
  "modify i f xs = xs[i := f (xs ! i)]"

text \<open>The children a category pointer leads to.\<close>

definition in_cat :: "nat option \<Rightarrow> (ar_item list \<Rightarrow> ar_item list) \<Rightarrow> ar_item list \<Rightarrow> ar_item list" where
  "in_cat c f items = (case c of None \<Rightarrow> f items | Some i \<Rightarrow> modify i (map_cat (map_children f)) items)"

definition children_of :: "nat option \<Rightarrow> ar_item list \<Rightarrow> ar_item list" where
  "children_of c items = (case c of None \<Rightarrow> items
     | Some i \<Rightarrow> (case items ! i of CatItem k \<Rightarrow> Children k | CodeItem _ \<Rightarrow> []))"

definition at_code :: "nat option \<times> nat \<Rightarrow> (ar_code \<Rightarrow> ar_code) \<Rightarrow> ar_item list \<Rightarrow> ar_item list" where
  "at_code p f = in_cat (fst p) (modify (snd p) (map_code f))"

text \<open>A pointer to the root or to one of its categories, and to a code of one of them.\<close>

definition points_to_cat :: "nat option \<Rightarrow> ar_item list \<Rightarrow> bool" where
  "points_to_cat c items \<longleftrightarrow>
     (case c of None \<Rightarrow> True | Some i \<Rightarrow> i < length items \<and> (case items ! i of CatItem k \<Rightarrow> True | CodeItem _ \<Rightarrow> False))"

fun is_code :: "ar_item \<Rightarrow> bool" where
  "is_code (CodeItem c) = True"
| "is_code (CatItem k) = False"

definition points_to_code :: "nat option \<times> nat \<Rightarrow> ar_item list \<Rightarrow> bool" where
  "points_to_code p items \<longleftrightarrow> points_to_cat (fst p) items \<and> snd p < length (children_of (fst p) items) \<and>
     is_code (children_of (fst p) items ! snd p)"

text \<open>Assignments through \<open>curcode\<close> and \<open>curcat\<close>.\<close>

definition via_curcode :: "(ar_code \<Rightarrow> ar_code) \<Rightarrow> load_state \<Rightarrow> load_state" where
  "via_curcode f s =
     (case curcode s of
        Some p \<Rightarrow> if points_to_code p (root s) then s\<lparr>root := at_code p f (root s)\<rparr> else s\<lparr>fault := True\<rparr>
      | None \<Rightarrow> s\<lparr>fault := True\<rparr>)"

definition via_curcat :: "(ar_item list \<Rightarrow> ar_item list) \<Rightarrow> load_state \<Rightarrow> load_state" where
  "via_curcat f s =
     (if points_to_cat (curcat s) (root s) then s\<lparr>root := f (root s)\<rparr> else s\<lparr>fault := True\<rparr>)"

text \<open>
  The branches of the loop body; None is \<open>return false\<close>.  With \<open>lastentry\<close> 1 the current category is never
  the root.
\<close>

definition load_ROOT :: "load_state \<Rightarrow> load_state" where
  "load_ROOT s = s\<lparr>isincode := False, isincat := True, curcat := None, lastentry := 0\<rparr>"

definition scan_CAT :: "string \<Rightarrow> (int \<times> string \<times> string) option" where
  "scan_CAT start =
     (if char_at start 3 = CHR '' '' \<and> (char_at start 4 = CHR ''0'' \<or> char_at start 4 = CHR ''1'') \<and>
         char_at start 5 = CHR '' ''
      then sscanf_flag_name ''CAT'' start
      else map_option (\<lambda>(name, s). (0, name, s)) (sscanf_name ''CAT'' 127 start))"

definition load_CAT :: "string \<Rightarrow> load_state \<Rightarrow> load_state option" where
  "load_CAT start s =
     (case scan_CAT start of None \<Rightarrow> None
      | Some (onlyone, catname, end) \<Rightarrow>
          if \<not> line_done end then None
          else Some (s\<lparr>isincode := False, isincat := True,
                       root := root s @ [CatItem (ARCodeCat catname [] (onlyone \<noteq> 0) [])],
                       curcat := Some (length (root s)), curcode := None, lastentry := 1\<rparr>))"

definition load_CODE :: "string \<Rightarrow> load_state \<Rightarrow> load_state option" where
  "load_CODE start s =
     (case sscanf_flag_name ''CODE'' start of None \<Rightarrow> None
      | Some (enable, codename, end) \<Rightarrow>
          if \<not> line_done end then None
          else if \<not> isincat s then None
          else Some ((via_curcat (in_cat (curcat s) (\<lambda>cs. cs @
                         [CodeItem \<lparr>Name = codename, Description = [], Enabled = enable \<noteq> 0, Code = []\<rparr>])) s)
                     \<lparr>isincode := True,
                       curcode := Some (curcat s, length (children_of (curcat s) (root s))), lastentry := 2\<rparr>))"

definition load_DESC :: "string \<Rightarrow> load_state \<Rightarrow> load_state option" where
  "load_DESC start s =
     (case sscanf_name ''DESC'' 255 start of None \<Rightarrow> Some s
      | Some (desc, end) \<Rightarrow>
          if \<not> line_done end then None
          else if lastentry s = 2 then
            Some (via_curcode (Description_update (\<lambda>_. desc)) s)
          else if lastentry s = 1 then
            (case curcat s of
               Some i \<Rightarrow> Some (via_curcat (modify i (map_cat (set_CatDescription desc))) s)
             | None \<Rightarrow> Some s)
          else None)"

definition load_data :: "string \<Rightarrow> load_state \<Rightarrow> load_state option" where
  "load_data start s =
     (case sscanf_data start of None \<Rightarrow> None
      | Some (c0, c1) \<Rightarrow>
          if \<not> isincode s then None
          else Some (via_curcode (Code_update (\<lambda>ws. ws @ [c0, c1])) s))"

text \<open>The line buffer has 1024 bytes.\<close>

definition line_start :: "string \<Rightarrow> string" where
  "line_start line =
     dropWhile (\<lambda>c. c = CHR '' '' \<or> c = TAB) (takeWhile (\<lambda>c. c \<noteq> NUL) (take 1023 line))"

definition load_line :: "string \<Rightarrow> load_state \<Rightarrow> load_state option" where
  "load_line line s =
     (let start = line_start line; c = char_at start 0 in
      if c = CHR ''#'' \<or> c = CR \<or> c = LF \<or> c = NUL then Some s
      else if starts_with_nocase ''ROOT'' start then Some (load_ROOT s)
      else if starts_with_nocase ''CAT'' start then load_CAT start s
      else if starts_with_nocase ''CODE'' start then load_CODE start s
      else if starts_with_nocase ''DESC'' start then load_DESC start s
      else load_data start s)"

text \<open>What the calls of \<open>FileReadLine\<close> give, up to the end of the file.\<close>

datatype read_result = Line string | ReadFails | Stalled

fun load_lines :: "read_result list \<Rightarrow> load_state \<Rightarrow> load_state option" where
  "load_lines [] s = Some s"
| "load_lines (Line l # rs) s =
     (case load_line l s of None \<Rightarrow> None | Some s \<Rightarrow> load_lines rs s)"
| "load_lines (ReadFails # rs) s = (if rs = [] then Some s else None)"
| "load_lines (Stalled # rs) s = None"

text \<open>\<open>FinalizeList\<close>: a category of single choice keeps its first enabled code.\<close>

fun keep_first :: "bool \<Rightarrow> ar_item list \<Rightarrow> ar_item list option" where
  "keep_first foundone [] = Some []"
| "keep_first foundone (CatItem c # items) = None"
| "keep_first foundone (CodeItem c # items) =
     (if \<not> Enabled c then map_option (Cons (CodeItem c)) (keep_first foundone items)
      else if foundone then map_option (Cons (CodeItem (c\<lparr>Enabled := False\<rparr>))) (keep_first True items)
      else map_option (Cons (CodeItem c)) (keep_first True items))"

fun finalize :: "ar_item list \<Rightarrow> ar_item list option" where
  "finalize [] = Some []"
| "finalize (CodeItem c # items) = map_option (Cons (CodeItem c)) (finalize items)"
| "finalize (CatItem (ARCodeCat n d one cs) # items) =
     (if \<not> one then map_option (Cons (CatItem (ARCodeCat n d one cs))) (finalize items)
      else (case keep_first False cs of None \<Rightarrow> None
            | Some cs' \<Rightarrow> map_option (Cons (CatItem (ARCodeCat n d one cs'))) (finalize items)))"

definition FinalizeList :: "ar_file \<Rightarrow> ar_file option" where
  "FinalizeList f =
     (case finalize (Children (RootCat f)) of None \<Rightarrow> None
      | Some cs \<Rightarrow> Some (f\<lparr>RootCat := map_children (\<lambda>_. cs) (RootCat f)\<rparr>))"

text \<open>The file behind the name: absent, not to be opened, or readable, with the result of its closing.\<close>

datatype source = Absent | Unopenable | Readable "read_result list" bool

fun Load :: "source \<Rightarrow> ar_file \<Rightarrow> (bool \<times> ar_file) option" where
  "Load Absent f = Some (True, f\<lparr>Error := False\<rparr>)"
| "Load Unopenable f = Some (False, f\<lparr>Error := True\<rparr>)"
| "Load (Readable lines closed) f =
     (case load_lines lines load_init of None \<Rightarrow> Some (False, f\<lparr>Error := True\<rparr>)
      | Some s \<Rightarrow>
          if fault s then None
          else if \<not> closed then Some (False, f\<lparr>Error := True\<rparr>)
          else map_option (\<lambda>f. (True, f\<lparr>Error := False\<rparr>))
            (FinalizeList (f\<lparr>Error := True, RootCat := ARCodeCat [] [] False (root s)\<rparr>)))"

section \<open>Writing\<close>

definition validText :: "string \<Rightarrow> nat \<Rightarrow> bool \<Rightarrow> bool" where
  "validText t n allowEmpty =
     (if t = [] then allowEmpty
      else length t \<le> n \<and> \<not> isspace (hd t) \<and> CR \<notin> set t \<and> LF \<notin> set t \<and> NUL \<notin> set t)"

definition hex_digits :: string where
  "hex_digits = ''0123456789ABCDEF''"

text \<open>\<open>%08X\<close> and the line of two.\<close>

definition hex8 :: "u32 \<Rightarrow> string" where
  "hex8 v = map (\<lambda>i. hex_digits ! unat (drop_bit (4 * i) v AND 0xF)) (rev [0..<8])"

fun pairs :: "u32 list \<Rightarrow> string" where
  "pairs (a # b # ws) = hex8 a @ '' '' @ hex8 b @ [LF] @ pairs ws"
| "pairs ws = []"

definition desc_line :: "string \<Rightarrow> string" where
  "desc_line d = (if d = [] then [] else ''DESC '' @ d @ [LF])"

definition appendCode :: "ar_code \<Rightarrow> string option" where
  "appendCode c =
     (if \<not> validText (Name c) 127 False \<or> \<not> validText (Description c) 255 True \<or> odd (length (Code c))
      then None
      else Some ((if Enabled c then ''CODE 1 '' else ''CODE 0 '') @ Name c @ [LF] @
                 desc_line (Description c) @ pairs (Code c) @ [LF]))"

definition append_to :: "string option \<Rightarrow> string option \<Rightarrow> string option" where
  "append_to a b = (case a of None \<Rightarrow> None | Some s \<Rightarrow> map_option (\<lambda>t. s @ t) b)"

text \<open>The children of a category; \<open>foundEnabled\<close> counts only under a single choice.\<close>

fun serialize_children :: "bool \<Rightarrow> bool \<Rightarrow> ar_item list \<Rightarrow> string option" where
  "serialize_children one foundEnabled [] = Some []"
| "serialize_children one foundEnabled (CatItem c # items) = None"
| "serialize_children one foundEnabled (CodeItem c # items) =
     (if one \<and> Enabled c \<and> foundEnabled then None
      else append_to (appendCode c) (serialize_children one (foundEnabled \<or> Enabled c) items))"

text \<open>The items of the root; \<open>incat\<close> asks for a \<open>ROOT\<close> line before the next code.\<close>

fun serialize_items :: "bool \<Rightarrow> ar_item list \<Rightarrow> string option" where
  "serialize_items incat [] = Some []"
| "serialize_items incat (CatItem (ARCodeCat n d one cs) # items) =
     (if \<not> validText n 127 False \<or> \<not> validText d 255 True then None
      else append_to
             (Some ((if one then ''CAT 1 '' else ''CAT 0 '') @ n @ [LF] @ desc_line d @ [LF]))
             (append_to (serialize_children one False cs) (serialize_items True items)))"
| "serialize_items incat (CodeItem c # items) =
     append_to (Some (if incat then ''ROOT'' @ [LF, LF] else []))
       (append_to (appendCode c) (serialize_items False items))"

definition Serialize :: "ar_file \<Rightarrow> string option" where
  "Serialize f =
     (if Error f \<or> CatName (RootCat f) \<noteq> [] \<or> CatDescription (RootCat f) \<noteq> [] \<or>
         OnlyOneCodeEnabled (RootCat f)
      then None
      else serialize_items True (Children (RootCat f)))"

text \<open>\<open>Save\<close>, with the results of opening, writing, flushing and closing the file; the text is what is written.\<close>

definition Save :: "bool \<Rightarrow> bool \<Rightarrow> bool \<Rightarrow> bool \<Rightarrow> ar_file \<Rightarrow> bool \<times> string option" where
  "Save opens writes flushes closes f =
     (case Serialize f of None \<Rightarrow> (False, None)
      | Some text \<Rightarrow> if \<not> opens then (False, None)
                     else (writes \<and> flushes \<and> closes, Some text))"

section \<open>Lists of codes\<close>

fun codes_of :: "ar_item list \<Rightarrow> ar_code list option" where
  "codes_of [] = Some []"
| "codes_of (CodeItem c # items) = map_option (Cons c) (codes_of items)"
| "codes_of (CatItem c # items) = None"

fun GetCodes_loop :: "ar_item list \<Rightarrow> ar_code list option" where
  "GetCodes_loop [] = Some []"
| "GetCodes_loop (CodeItem c # items) = map_option (Cons c) (GetCodes_loop items)"
| "GetCodes_loop (CatItem k # items) =
     (case codes_of (Children k) of None \<Rightarrow> None
      | Some cs \<Rightarrow> map_option (append cs) (GetCodes_loop items))"

definition GetCodes :: "ar_file \<Rightarrow> ar_code list option" where
  "GetCodes f = (if Error f then Some [] else GetCodes_loop (Children (RootCat f)))"

section \<open>Import\<close>

text \<open>
  The codes of the database entry, in the order of its items, go with the choice of the user: \<open>enabled\<close> tells
  for the code at a position (its category's, if any, first) whether it is chosen; without a map all are.
\<close>

fun any_chosen :: "(nat \<Rightarrow> bool) \<Rightarrow> nat \<Rightarrow> ar_item list \<Rightarrow> bool option" where
  "any_chosen enabled j [] = Some False"
| "any_chosen enabled j (CatItem c # items) = None"
| "any_chosen enabled j (CodeItem c # items) =
     (if enabled j then Some True else any_chosen enabled (j + 1) items)"

fun chosen_codes :: "(nat \<Rightarrow> bool) \<Rightarrow> nat \<Rightarrow> ar_item list \<Rightarrow> ar_item list option" where
  "chosen_codes enabled j [] = Some []"
| "chosen_codes enabled j (CatItem c # items) = None"
| "chosen_codes enabled j (CodeItem c # items) =
     (if enabled j then map_option (Cons (CodeItem c)) (chosen_codes enabled (j + 1) items)
      else chosen_codes enabled (j + 1) items)"

fun import_items ::
  "(nat \<times> nat option \<Rightarrow> bool) option \<Rightarrow> nat \<Rightarrow> ar_item list \<Rightarrow> ar_item list option" where
  "import_items emap i [] = Some []"
| "import_items emap i (CatItem (ARCodeCat n d one cs) # items) =
     (let chosen = (\<lambda>j. case emap of None \<Rightarrow> True | Some m \<Rightarrow> m (i, Some j)) in
      case (if emap = None then Some True else any_chosen chosen 0 cs) of
        None \<Rightarrow> None
      | Some False \<Rightarrow> import_items emap (i + 1) items
      | Some True \<Rightarrow> (case chosen_codes chosen 0 cs of None \<Rightarrow> None
            | Some cs' \<Rightarrow> map_option (Cons (CatItem (ARCodeCat n d one cs'))) (import_items emap (i + 1) items)))"
| "import_items emap i (CodeItem c # items) =
     (if emap \<noteq> None \<and> \<not> the emap (i, None) then import_items emap (i + 1) items
      else map_option (Cons (CodeItem c)) (import_items emap (i + 1) items))"

definition Import :: "ar_item list \<Rightarrow> (nat \<times> nat option \<Rightarrow> bool) option \<Rightarrow> bool \<Rightarrow> ar_file \<Rightarrow> ar_file option" where
  "Import entry emap clear f =
     (let f = (if clear then f\<lparr>RootCat := map_children (\<lambda>_. []) (RootCat f)\<rparr> else f) in
      case import_items emap 0 entry of None \<Rightarrow> None
      | Some items \<Rightarrow> FinalizeList (f\<lparr>RootCat := map_children (\<lambda>cs. cs @ items) (RootCat f)\<rparr>))"

end
