(* ===== verification/ARCodeFileProps.thy ===== *)
theory ARCodeFileProps
  imports ARCodeFile
begin

text \<open>
  Properties of the cheat files: what \<open>Serialize\<close> writes, \<open>Load\<close> reads back to the same tree; whatever
  file is loaded, the tree is flat and its codes are complete, and a failed load keeps the old tree.
\<close>

section \<open>Lines of a text\<close>

text \<open>\<open>fgets\<close> with a buffer of 1024 bytes.\<close>

definition read_line :: "string \<Rightarrow> string \<times> string" where
  "read_line s =
     (let t = takeWhile (\<lambda>c. c \<noteq> LF) s in
      if length t < length s \<and> length t < 1023 then (t @ [LF], drop (length t + 1) s)
      else (take 1023 s, drop 1023 s))"

lemma read_line_shorter: "s \<noteq> [] \<Longrightarrow> length (snd (read_line s)) < length s"
  by (auto simp: read_line_def Let_def)

function lines_of :: "string \<Rightarrow> string list" where
  "lines_of s = (if s = [] then [] else fst (read_line s) # lines_of (snd (read_line s)))"
  by pat_completeness auto
termination by (relation "measure length") (auto intro: read_line_shorter)

declare lines_of.simps [simp del]

definition load_text :: "string \<Rightarrow> load_state \<Rightarrow> load_state option" where
  "load_text t s = load_lines (map Line (lines_of t)) s"

lemma load_text_Nil [simp]: "load_text [] s = Some s"
  by (simp add: load_text_def lines_of.simps)

lemma load_text_line:
  assumes "LF \<notin> set l" "length l < 1023"
  shows "load_text (l @ LF # t) s =
    (case load_line (l @ [LF]) s of None \<Rightarrow> None | Some s \<Rightarrow> load_text t s)"
proof -
  have "takeWhile (\<lambda>c. c \<noteq> LF) (l @ LF # t) = l"
    using assms(1) by (induction l) auto
  then have "read_line (l @ LF # t) = (l @ [LF], t)"
    using assms(2) by (simp add: read_line_def)
  then show ?thesis
    by (simp add: load_text_def lines_of.simps [of "l @ LF # t"] split: option.split)
qed

section \<open>Scanning what was written\<close>

lemma char_at_Cons [simp]:
  "char_at [] n = NUL" "char_at (c # s) 0 = c" "char_at (c # s) (Suc n) = char_at s n"
  "char_at (c # s) (numeral k) = char_at s (pred_numeral k)"
  by (simp_all add: char_at_def numeral_eq_Suc)

lemma starts_with_nocase_simps [simp]:
  "starts_with_nocase [] s" "\<not> starts_with_nocase (p # ps) []"
  "starts_with_nocase (p # ps) (c # s) \<longleftrightarrow> lower c = lower p \<and> starts_with_nocase ps s"
  by (simp_all add: starts_with_nocase_def)

lemma lower_letters [simp]:
  "lower (CHR ''R'') = CHR ''r''" "lower (CHR ''O'') = CHR ''o''" "lower (CHR ''T'') = CHR ''t''"
  "lower (CHR ''C'') = CHR ''c''" "lower (CHR ''A'') = CHR ''a''" "lower (CHR ''D'') = CHR ''d''"
  "lower (CHR ''E'') = CHR ''e''" "lower (CHR ''S'') = CHR ''s''" "lower (CHR ''X'') = CHR ''x''"
  by code_simp+

lemma scan_literal_simps [simp]:
  "scan_literal [] s = Some s"
  "scan_literal (p # ps) (c # s) = (if c = p then scan_literal ps s else None)"
  by (auto simp: scan_literal_def)

lemma line_start_id:
  "length l \<le> 1023 \<Longrightarrow> NUL \<notin> set l \<Longrightarrow> char_at l 0 \<noteq> CHR '' '' \<Longrightarrow> char_at l 0 \<noteq> TAB \<Longrightarrow> line_start l = l"
  by (cases l) (auto simp: line_start_def takeWhile_eq_all_conv)

lemma control_chars [simp]:
  "LF \<noteq> NUL" "NUL \<noteq> LF" "LF \<noteq> CR" "CR \<noteq> NUL" "code_point LF = 10" "LF \<noteq> CHR '' ''" "LF \<noteq> TAB"
  by (simp_all add: LF_def NUL_def CR_def TAB_def code_point_def)

lemma valid_text:
  assumes "validText t n False"
  shows "t \<noteq> []" "length t \<le> n" "\<not> isspace (hd t)" "CR \<notin> set t" "LF \<notin> set t" "NUL \<notin> set t"
  using assms by (auto simp: validText_def split: if_splits)

lemma isspace_blank [simp]: "isspace (CHR '' '')"
  by (simp add: isspace_def code_point_def)

lemma scan_name_valid:
  assumes "validText t n False"
  shows "scan_name n (CHR '' '' # t @ [LF]) = Some (t, [LF])"
proof -
  note v = valid_text [OF assms]
  have "scan_space (CHR '' '' # t @ [LF]) = t @ [LF]"
    using v(1,3) by (cases t) (simp_all add: scan_space_def)
  moreover have "takeWhile (\<lambda>c. c \<noteq> CR \<and> c \<noteq> LF) (take n (t @ [LF])) = t"
    using v(2,4,5) by (subst take_append) (auto simp: takeWhile_append takeWhile_eq_all_conv take_Cons')
  ultimately show ?thesis
    using v(1) by (simp add: scan_name_def scan_text_def)
qed

lemma scan_flag:
  "scan_int (scan_space (CHR '' '' # CHR ''0'' # CHR '' '' # s)) = Some (0, CHR '' '' # s)"
  "scan_int (scan_space (CHR '' '' # CHR ''1'' # CHR '' '' # s)) = Some (1, CHR '' '' # s)"
  by (simp_all add: scan_int_def scan_sign_def scan_space_def isspace_def code_point_def
      digit_value_def number_def Let_def)

section \<open>Numbers\<close>

definition plain_hex :: "char \<Rightarrow> bool" where
  "plain_hex c \<longleftrightarrow> hex_value c \<noteq> None \<and> \<not> isspace c \<and> c \<noteq> CHR ''-'' \<and> c \<noteq> CHR ''+'' \<and> c \<noteq> CHR ''#'' \<and>
     c \<noteq> CHR '' '' \<and> c \<noteq> TAB \<and> c \<noteq> CR \<and> c \<noteq> LF \<and> c \<noteq> NUL \<and> lower c \<noteq> lower (CHR ''X'') \<and>
     lower c \<noteq> lower (CHR ''R'') \<and> lower c \<noteq> lower (CHR ''T'') \<and> lower c \<noteq> lower (CHR ''O'') \<and>
     lower c \<noteq> lower (CHR ''S'')"

lemma hex_digits_values:
  "list_all (\<lambda>k. hex_value (hex_digits ! k) = Some k \<and> plain_hex (hex_digits ! k)) [0..<16]"
  by code_simp

lemma hex_digit: "k < 16 \<Longrightarrow> hex_value (hex_digits ! k) = Some k" "k < 16 \<Longrightarrow> plain_hex (hex_digits ! k)"
  using hex_digits_values by (simp_all add: list_all_iff)

lemma nibble: "unat (drop_bit (4 * i) v AND 0xF) = unat v div 16 ^ i mod 16" for v :: u32
proof -
  have "unat (drop_bit (4 * i) v AND 0xF) = take_bit 4 (drop_bit (4 * i) (unat v))"
    by (simp add: unsigned_and_eq unat_drop_bit_eq take_bit_eq_mask mask_numeral)
  also have "\<dots> = unat v div 16 ^ i mod 16"
    by (simp add: take_bit_eq_mod drop_bit_eq_div power_mult)
  finally show ?thesis .
qed

lemma digits_value: "foldl (\<lambda>a i. 16 * a + n div 16 ^ i mod 16) (n div 16 ^ k) (rev [0..<k]) = n" for n :: nat
proof (induction k)
  case (Suc k)
  have "16 * (n div 16 ^ Suc k) + n div 16 ^ k mod 16 = n div 16 ^ k"
    by (simp only: power_Suc2 div_mult2_eq mult_div_mod_eq)
  with Suc show ?case by simp
qed simp

lemma number_hex8: "number 16 hex_value (hex8 v) = unat v"
proof -
  have "number 16 hex_value (hex8 v) = foldl (\<lambda>a i. 16 * a + unat v div 16 ^ i mod 16) 0 (rev [0..<8])"
    by (simp add: number_def hex8_def foldl_map nibble hex_digit)
  moreover have "unat v div 16 ^ 8 = 0"
    using unsigned_less [of v, where ?'a = nat] by simp
  ultimately show ?thesis using digits_value [of "unat v" 8] by simp
qed

lemma length_hex8 [simp]: "length (hex8 v) = 8"
  by (simp add: hex8_def)

lemma hex8_plain: "c \<in> set (hex8 v) \<Longrightarrow> plain_hex c"
proof -
  assume "c \<in> set (hex8 v)"
  then obtain i where "c = hex_digits ! unat (drop_bit (4 * i) v AND 0xF)" by (auto simp: hex8_def)
  then show "plain_hex c" by (simp only: nibble) (simp add: hex_digit)
qed

lemma hex8_chars:
  obtains c0 c1 c2 cs where "hex8 v = c0 # c1 # c2 # cs" "plain_hex c0" "plain_hex c1" "plain_hex c2"
proof -
  from length_hex8 [of v] obtain c0 c1 c2 cs where "hex8 v = c0 # c1 # c2 # cs"
    by (cases "hex8 v"; cases "tl (hex8 v)"; cases "tl (tl (hex8 v))") auto
  with hex8_plain [of _ v] that show thesis by simp
qed

lemma scan_hex8: "scan_hex 8 (hex8 v @ s) = Some (v, s)"
proof -
  obtain c0 c1 c2 cs where h: "hex8 v = c0 # c1 # c2 # cs" "plain_hex c0" "plain_hex c1" "plain_hex c2"
    by (rule hex8_chars)
  have "scan_space (hex8 v @ s) = hex8 v @ s"
    using h by (simp add: scan_space_def plain_hex_def)
  moreover have "scan_sign (hex8 v @ s) = (False, 0, hex8 v @ s)"
    using h by (simp add: scan_sign_def plain_hex_def)
  moreover have "lower (char_at (hex8 v @ s) 1) \<noteq> CHR ''x''"
    using h by (simp add: plain_hex_def)
  moreover have "takeWhile (\<lambda>c. hex_value c \<noteq> None) (take 8 (hex8 v @ s)) = hex8 v"
    using hex8_plain [of _ v] by (simp add: takeWhile_eq_all_conv plain_hex_def)
  moreover have "hex8 v \<noteq> []" using h by simp
  ultimately show ?thesis
    by (simp add: scan_hex_def Let_def number_hex8 del: takeWhile_eq_all_conv not_None_eq)
qed

section \<open>Single lines\<close>

lemma load_blank: "load_line [LF] s = Some s"
  by (simp add: load_line_def line_start_id Let_def)

lemma letters [simp]:
  "CHR ''R'' \<noteq> TAB" "CHR ''R'' \<noteq> CR" "CHR ''R'' \<noteq> LF" "CHR ''R'' \<noteq> NUL"
  "CHR ''C'' \<noteq> TAB" "CHR ''C'' \<noteq> CR" "CHR ''C'' \<noteq> LF" "CHR ''C'' \<noteq> NUL"
  "CHR ''D'' \<noteq> TAB" "CHR ''D'' \<noteq> CR" "CHR ''D'' \<noteq> LF" "CHR ''D'' \<noteq> NUL"
  "NUL \<noteq> CHR ''O''" "NUL \<noteq> CHR ''T''" "NUL \<noteq> CHR ''A''" "NUL \<noteq> CHR ''D''" "NUL \<noteq> CHR ''E''"
  "NUL \<noteq> CHR ''S''" "NUL \<noteq> CHR ''C''" "NUL \<noteq> CHR ''0''" "NUL \<noteq> CHR ''1''" "NUL \<noteq> CHR '' ''" "NUL \<noteq> CHR ''R''"
  "LF \<noteq> CHR ''O''" "LF \<noteq> CHR ''T''" "LF \<noteq> CHR ''A''" "LF \<noteq> CHR ''D''" "LF \<noteq> CHR ''E''"
  "LF \<noteq> CHR ''S''" "LF \<noteq> CHR ''C''" "LF \<noteq> CHR ''0''" "LF \<noteq> CHR ''1''" "LF \<noteq> CHR ''R''"
  by (simp_all add: TAB_def NUL_def CR_def LF_def)

lemma line_done_LF [simp]: "line_done [LF]"
  by (simp add: line_done_def)

lemma load_ROOT_line: "load_line (''ROOT'' @ [LF]) s = Some (load_ROOT s)"
  by (simp add: load_line_def line_start_id Let_def)

lemma load_CAT_line:
  assumes "validText n 127 False"
  shows "load_line ((if one then ''CAT 1 '' else ''CAT 0 '') @ n @ [LF]) s =
    Some (s\<lparr>isincode := False, isincat := True, root := root s @ [CatItem (ARCodeCat n [] one [])],
            curcat := Some (length (root s)), curcode := None, lastentry := 1\<rparr>)"
proof -
  let ?l = "(if one then ''CAT 1 '' else ''CAT 0 '') @ n @ [LF]"
  note v = valid_text [OF assms]
  have "line_start ?l = ?l" using v by (intro line_start_id) auto
  then show ?thesis
    using scan_name_valid [OF assms]
    by (simp add: load_line_def Let_def load_CAT_def scan_CAT_def sscanf_flag_name_def scan_flag
        split: if_split)
qed

lemma load_CODE_line:
  assumes "validText n 127 False" "isincat s" "points_to_cat (curcat s) (root s)"
  shows "load_line ((if en then ''CODE 1 '' else ''CODE 0 '') @ n @ [LF]) s =
    Some (s\<lparr>isincode := True,
            root := in_cat (curcat s) (\<lambda>cs. cs @
              [CodeItem \<lparr>Name = n, Description = [], Enabled = en, Code = []\<rparr>]) (root s),
            curcode := Some (curcat s, length (children_of (curcat s) (root s))), lastentry := 2\<rparr>)"
proof -
  let ?l = "(if en then ''CODE 1 '' else ''CODE 0 '') @ n @ [LF]"
  note v = valid_text [OF assms(1)]
  have "line_start ?l = ?l" using v by (intro line_start_id) auto
  then show ?thesis
    using scan_name_valid [OF assms(1)] assms(2,3)
    by (simp add: load_line_def Let_def load_CODE_def sscanf_flag_name_def scan_flag via_curcat_def
        split: if_split)
qed

lemma load_DESC_line:
  assumes "validText d 255 False"
  shows "load_line (''DESC '' @ d @ [LF]) s =
    (if lastentry s = 2 then
       Some (via_curcode (Description_update (\<lambda>_. d)) s)
     else if lastentry s = 1 then
       (case curcat s of
          Some i \<Rightarrow> Some (via_curcat (modify i (map_cat (set_CatDescription d))) s)
        | None \<Rightarrow> Some s)
     else None)"
proof -
  let ?l = "''DESC '' @ d @ [LF]"
  note v = valid_text [OF assms]
  have "line_start ?l = ?l" using v by (intro line_start_id) auto
  then show ?thesis
    using scan_name_valid [OF assms]
    by (simp add: load_line_def Let_def load_DESC_def sscanf_name_def)
qed

lemma load_data_line:
  assumes "isincode s"
  shows "load_line (hex8 a @ '' '' @ hex8 b @ [LF]) s =
    Some (via_curcode (Code_update (\<lambda>ws. ws @ [a, b])) s)"
proof -
  let ?l = "hex8 a @ '' '' @ hex8 b @ [LF]"
  obtain c0 c1 c2 cs where h: "hex8 a = c0 # c1 # c2 # cs" "plain_hex c0" "plain_hex c1" "plain_hex c2"
    by (rule hex8_chars)
  have "NUL \<notin> set ?l" using hex8_plain [of NUL a] hex8_plain [of NUL b] by (auto simp: plain_hex_def)
  moreover have "char_at ?l 0 = c0" using h by simp
  ultimately have "line_start ?l = ?l"
    using h(2) by (intro line_start_id) (simp_all add: plain_hex_def)
  moreover have "\<not> starts_with_nocase ''ROOT'' ?l" "\<not> starts_with_nocase ''CAT'' ?l"
    "\<not> starts_with_nocase ''CODE'' ?l" "\<not> starts_with_nocase ''DESC'' ?l"
    using h by (simp_all add: plain_hex_def)
  moreover obtain d ds where d: "hex8 b = d # ds" "plain_hex d" by (rule hex8_chars)
  then have "scan_space (CHR '' '' # hex8 b @ [LF]) = hex8 b @ [LF]"
    by (simp add: scan_space_def plain_hex_def)
  then have "sscanf_data ?l = Some (a, b)"
    by (simp add: sscanf_data_def scan_hex8)
  ultimately show ?thesis
    using assms h(2) \<open>char_at ?l 0 = c0\<close>
    by (simp add: load_line_def Let_def load_data_def plain_hex_def)
qed

section \<open>Codes\<close>

lemma via_curcode_Some:
  "curcode s = Some p \<Longrightarrow> points_to_code p (root s) \<Longrightarrow> via_curcode f s = s\<lparr>root := at_code p f (root s)\<rparr>"
  by (simp add: via_curcode_def)

lemma load_text_step:
  assumes "LF \<notin> set l" "length l < 1023" "load_line (l @ [LF]) s = Some s'"
  shows "load_text (l @ LF # t) s = load_text t s'"
  using assms by (simp add: load_text_line)

lemma points_to_cat_Some:
  "points_to_cat (Some i) items \<Longrightarrow> \<exists>n d one cs. i < length items \<and> items ! i = CatItem (ARCodeCat n d one cs)"
  by (auto simp: points_to_cat_def split: ar_item.splits intro: ar_cat.exhaust) (metis ar_cat.exhaust)

lemma in_cat_in_cat: "points_to_cat c items \<Longrightarrow> in_cat c f (in_cat c g items) = in_cat c (\<lambda>xs. f (g xs)) items"
  by (cases c) (auto simp: in_cat_def modify_def dest!: points_to_cat_Some)

lemma points_to_cat_in_cat [simp]: "points_to_cat c items \<Longrightarrow> points_to_cat c (in_cat c f items)"
  by (cases c) (auto simp: points_to_cat_def in_cat_def modify_def split: ar_item.splits)

lemma in_cat_cong:
  "points_to_cat c items \<Longrightarrow> f (children_of c items) = g (children_of c items) \<Longrightarrow> in_cat c f items = in_cat c g items"
  by (cases c) (auto simp: in_cat_def children_of_def modify_def dest!: points_to_cat_Some)

lemma modify_last: "modify (length xs) f (xs @ [x]) = xs @ [f x]"
  by (simp add: modify_def)

text \<open>The state while a code is read: it is the last one of the current category.\<close>

definition reading :: "ar_code \<Rightarrow> load_state \<Rightarrow> load_state \<Rightarrow> bool" where
  "reading c s s' \<longleftrightarrow> isincat s' \<and> isincode s' \<and> lastentry s' = 2 \<and> curcat s' = curcat s \<and> fault s' = fault s \<and>
     curcode s' = Some (curcat s, length (children_of (curcat s) (root s))) \<and>
     root s' = in_cat (curcat s) (\<lambda>cs. cs @ [CodeItem c]) (root s)"

lemma children_in_cat: "points_to_cat c items \<Longrightarrow> children_of c (in_cat c f items) = f (children_of c items)"
  by (cases c) (auto simp: children_of_def in_cat_def modify_def dest!: points_to_cat_Some)

lemma reading_update:
  assumes "points_to_cat (curcat s) (root s)" "reading c s s'"
  shows "reading (f c) s (via_curcode f s')"
proof -
  let ?p = "(curcat s, length (children_of (curcat s) (root s)))"
  have "at_code ?p f (root s') = in_cat (curcat s) (\<lambda>cs. cs @ [CodeItem (f c)]) (root s)"
    using assms(2)
    by (auto simp: reading_def at_code_def in_cat_in_cat [OF assms(1)] modify_last
        intro: in_cat_cong [OF assms(1)])
  moreover have "points_to_code ?p (root s')"
    using assms by (simp add: reading_def points_to_code_def children_in_cat)
  ultimately show ?thesis using assms(2) via_curcode_Some [of s' ?p f] by (simp add: reading_def)
qed

lemma load_pairs:
  assumes "points_to_cat (curcat s) (root s)"
  shows "even (length ws) \<Longrightarrow> reading c s s' \<Longrightarrow>
    \<exists>s''. load_text (pairs ws @ t) s' = load_text t s'' \<and> reading (c\<lparr>Code := Code c @ ws\<rparr>) s s''"
proof (induction ws arbitrary: c s' rule: pairs.induct)
  case (1 a b ws)
  let ?s = "via_curcode (Code_update (\<lambda>ws. ws @ [a, b])) s'"
  let ?l = "hex8 a @ '' '' @ hex8 b"
  have "LF \<notin> set ?l" using hex8_plain [of LF a] hex8_plain [of LF b] by (auto simp: plain_hex_def)
  moreover have "load_line (?l @ [LF]) s' = Some ?s"
    using load_data_line [of s' a b] 1(3) by (simp add: reading_def)
  ultimately have "load_text (?l @ LF # pairs ws @ t) s' = load_text (pairs ws @ t) ?s"
    by (intro load_text_step) simp_all
  moreover have "reading (Code_update (\<lambda>ws. ws @ [a, b]) c) s ?s"
    using reading_update [OF assms 1(3)] .
  ultimately show ?case
    using 1(1) [of "Code_update (\<lambda>ws. ws @ [a, b]) c" ?s] 1(2) by simp
next
  case "2_1"
  then show ?case by (intro exI [of _ s']) simp
qed simp

lemma validText_True: "validText d n True \<longleftrightarrow> d = [] \<or> validText d n False"
  by (simp add: validText_def)

lemma load_blank_line: "load_text (LF # t) s = load_text t s"
  using load_text_step [of "[]" s s t] by (simp add: load_blank)

lemma load_appendCode:
  assumes "appendCode c = Some tx" "isincat s" "points_to_cat (curcat s) (root s)"
  shows "\<exists>s'. load_text (tx @ t) s = load_text t s' \<and> reading c s s'"
proof -
  have n: "validText (Name c) 127 False" and d: "validText (Description c) 255 True" and ev: "even (length (Code c))"
    and shape: "tx = (if Enabled c then ''CODE 1 '' else ''CODE 0 '') @ Name c @ [LF] @
                 desc_line (Description c) @ pairs (Code c) @ [LF]"
    using assms(1) by (auto simp: appendCode_def split: if_splits)
  let ?l = "(if Enabled c then ''CODE 1 '' else ''CODE 0 '') @ Name c"
  let ?c1 = "\<lparr>Name = Name c, Description = [], Enabled = Enabled c, Code = []\<rparr>"
  define s1 where "s1 = s\<lparr>isincode := True,
    root := in_cat (curcat s) (\<lambda>cs. cs @ [CodeItem ?c1]) (root s),
    curcode := Some (curcat s, length (children_of (curcat s) (root s))), lastentry := 2\<rparr>"
  have s1: "load_line (?l @ [LF]) s = Some s1" "reading ?c1 s s1"
    using load_CODE_line [OF n assms(2,3), of "Enabled c"] assms(2) by (simp_all add: reading_def s1_def)
  have 1: "load_text (?l @ LF # u) s = load_text u s1" for u
    using valid_text [OF n] s1(1) by (intro load_text_step) auto
  have "\<exists>s2. load_text (desc_line (Description c) @ u) s1 = load_text u s2 \<and>
          reading (?c1\<lparr>Description := Description c\<rparr>) s s2" for u
  proof (cases "Description c = []")
    case True
    then show ?thesis using s1(2) by (intro exI [of _ s1]) (simp add: desc_line_def)
  next
    case False
    with d have dv: "validText (Description c) 255 False" by (simp add: validText_True)
    let ?s2 = "via_curcode (Description_update (\<lambda>_. Description c)) s1"
    have "load_text ((''DESC '' @ Description c) @ LF # u) s1 = load_text u ?s2"
      using valid_text [OF dv] load_DESC_line [OF dv, of s1] s1(2)
      by (intro load_text_step) (auto simp: reading_def)
    moreover have "reading (?c1\<lparr>Description := Description c\<rparr>) s ?s2"
      using reading_update [OF assms(3) s1(2), of "Description_update (\<lambda>_. Description c)"] by simp
    ultimately show ?thesis using False by (intro exI [of _ ?s2]) (simp add: desc_line_def)
  qed
  then obtain s2 where s2: "load_text (desc_line (Description c) @ pairs (Code c) @ LF # t) s1 =
      load_text (pairs (Code c) @ LF # t) s2" "reading (?c1\<lparr>Description := Description c\<rparr>) s s2"
    by blast
  obtain s3 where s3: "load_text (pairs (Code c) @ LF # t) s2 = load_text (LF # t) s3"
    "reading ((?c1\<lparr>Description := Description c\<rparr>)\<lparr>Code := [] @ Code c\<rparr>) s s3"
    using load_pairs [OF assms(3) ev s2(2)] by auto
  have "reading c s s3" using s3(2) by (cases c) simp
  then show ?thesis
    using 1 s2(1) s3(1) by (intro exI [of _ s3]) (simp add: shape load_blank_line)
qed

section \<open>The tree\<close>

lemma append_to_Some: "append_to a b = Some t \<longleftrightarrow> (\<exists>x y. a = Some x \<and> b = Some y \<and> t = x @ y)"
  by (auto simp: append_to_def split: option.splits)

lemma load_children:
  "serialize_children one found cs = Some tx \<Longrightarrow> isincat s \<Longrightarrow> points_to_cat (curcat s) (root s) \<Longrightarrow>
   \<exists>s'. load_text (tx @ t) s = load_text t s' \<and> isincat s' \<and> curcat s' = curcat s \<and> fault s' = fault s \<and>
     root s' = in_cat (curcat s) (\<lambda>xs. xs @ cs) (root s)"
proof (induction one found cs arbitrary: tx s rule: serialize_children.induct)
  case (1 one found)
  have "in_cat (curcat s) (\<lambda>xs. xs @ []) (root s) = root s"
    using 1(3) by (cases "curcat s") (auto simp: in_cat_def modify_def list_update_same_conv dest!: points_to_cat_Some)
  with 1 show ?case by (intro exI [of _ s]) simp
next
  case (3 one found c items)
  then obtain x y where xy: "appendCode c = Some x" "serialize_children one (found \<or> Enabled c) items = Some y"
    "tx = x @ y" and cond: "\<not> (one \<and> Enabled c \<and> found)"
    by (auto simp: append_to_Some split: if_splits)
  obtain s1 where s1: "load_text (x @ y @ t) s = load_text (y @ t) s1" "reading c s s1"
    using load_appendCode [OF xy(1) 3(3,4)] by blast
  then have "points_to_cat (curcat s1) (root s1)"
    using 3(4) by (auto simp: reading_def)
  with 3(1) [OF cond xy(2), of s1] s1(2) obtain s2 where
    "load_text (y @ t) s1 = load_text t s2" "isincat s2" "curcat s2 = curcat s1" "fault s2 = fault s1"
    "root s2 = in_cat (curcat s1) (\<lambda>xs. xs @ items) (root s1)"
    by (auto simp: reading_def)
  with s1 xy(3) show ?case
    by (intro exI [of _ s2]) (auto simp: reading_def in_cat_in_cat [OF 3(4)])
qed simp

lemma load_items:
  "serialize_items incat items = Some tx \<Longrightarrow> incat \<or> isincat s \<and> curcat s = None \<Longrightarrow>
   \<exists>s'. load_text tx s = Some s' \<and> fault s' = fault s \<and> root s' = root s @ items"
proof (induction incat items arbitrary: tx s rule: serialize_items.induct)
  case (2 incat n d one cs items)
  then obtain y z where n: "validText n 127 False" and d: "validText d 255 True"
    and y: "serialize_children one False cs = Some y" and z: "serialize_items True items = Some z"
    and shape: "tx = ((if one then ''CAT 1 '' else ''CAT 0 '') @ n) @ LF # desc_line d @ LF # y @ z"
    by (auto simp: append_to_Some split: if_splits)
  define s1 where "s1 = s\<lparr>isincode := False, isincat := True,
    root := root s @ [CatItem (ARCodeCat n [] one [])], curcat := Some (length (root s)), curcode := None, lastentry := 1\<rparr>"
  define s2 where "s2 = s1\<lparr>root := root s @ [CatItem (ARCodeCat n d one [])]\<rparr>"
  have "load_text tx s = load_text (desc_line d @ LF # y @ z) s1"
    unfolding shape using valid_text [OF n] load_CAT_line [OF n, of one s]
    by (intro load_text_step) (auto simp: s1_def)
  also have "\<dots> = load_text (y @ z) s2"
  proof (cases "d = []")
    case True
    then have "s2 = s1" by (intro load_state.equality) (simp_all add: s1_def s2_def)
    with True show ?thesis by (simp add: desc_line_def load_blank_line)
  next
    case False
    with d have dv: "validText d 255 False" by (simp add: validText_True)
    have "load_text ((''DESC '' @ d) @ LF # LF # y @ z) s1 = load_text (LF # y @ z) s2"
      using valid_text [OF dv] load_DESC_line [OF dv, of s1]
      by (intro load_text_step) (auto simp: s1_def s2_def modify_last via_curcat_def points_to_cat_def)
    with False show ?thesis by (simp add: desc_line_def load_blank_line)
  qed
  finally have to2: "load_text tx s = load_text (y @ z) s2" .
  have p: "points_to_cat (curcat s2) (root s2)" "isincat s2"
    by (simp_all add: s1_def s2_def points_to_cat_def)
  obtain s3 where s3: "load_text (y @ z) s2 = load_text z s3" "fault s3 = fault s2" "root s3 = in_cat (curcat s2) (\<lambda>xs. xs @ cs) (root s2)"
    using load_children [OF y p(2,1)] by blast
  then have "root s3 = root s @ [CatItem (ARCodeCat n d one cs)]"
    by (simp add: s1_def s2_def in_cat_def modify_last)
  moreover have "fault s3 = fault s" using s3(2) by (simp add: s1_def s2_def)
  ultimately show ?case using 2(1) [OF _ z, of s3] n d to2 s3(1) by auto
next
  case (3 incat c items)
  then obtain y z where y: "appendCode c = Some y" and z: "serialize_items False items = Some z"
    and shape: "tx = (if incat then ''ROOT'' @ [LF, LF] else []) @ y @ z"
    by (auto simp: append_to_Some)
  define s1 where "s1 = (if incat then load_ROOT s else s)"
  have "load_text (''ROOT'' @ LF # LF # u) s = load_text u (load_ROOT s)" for u
    using load_text_step [of "''ROOT''" s "load_ROOT s" "LF # u"] load_ROOT_line [of s]
    by (simp add: load_blank_line)
  then have 1: "load_text tx s = load_text (y @ z) s1"
    by (simp add: shape s1_def)
  have s1: "isincat s1" "curcat s1 = None" "root s1 = root s" "fault s1 = fault s"
    using 3(3) by (auto simp: s1_def load_ROOT_def)
  then obtain s2 where "load_text (y @ z) s1 = load_text z s2" "reading c s1 s2"
    using load_appendCode [OF y s1(1)] by (auto simp: points_to_cat_def)
  with 3(1) [OF z, of s2] s1 1 show ?case by (auto simp: reading_def in_cat_def)
qed simp

lemma keep_first_serialized:
  "serialize_children one found cs = Some tx \<Longrightarrow> one \<Longrightarrow> keep_first found cs = Some cs"
  by (induction one found cs arbitrary: tx rule: serialize_children.induct)
    (auto simp: append_to_Some split: if_splits)

lemma finalize_serialized: "serialize_items incat items = Some tx \<Longrightarrow> finalize items = Some items"
  by (induction incat items arbitrary: tx rule: serialize_items.induct)
    (auto simp: append_to_Some keep_first_serialized split: if_splits)

text \<open>C24. What \<open>Serialize\<close> writes, \<open>Load\<close> reads back: the loaded tree is the written one, with every name,
description, flag and code word, whatever the file object held before.\<close>

theorem Load_Serialize:
  assumes "Serialize f = Some tx"
  shows "Load (Readable (map Line (lines_of tx)) True) f' = Some (True, \<lparr>RootCat = RootCat f, Error = False\<rparr>)"
proof -
  obtain items where f: "RootCat f = ARCodeCat [] [] False items" "serialize_items True items = Some tx"
    using assms by (cases "RootCat f") (auto simp: Serialize_def split: if_splits)
  from load_items [OF f(2), of load_init] obtain s where
    "load_text tx load_init = Some s" "root s = items" "\<not> fault s"
    by (auto simp: load_init_def)
  then show ?thesis
    by (simp add: load_text_def FinalizeList_def finalize_serialized [OF f(2)] f(1))
qed

text \<open>One category with a description and one code of two lines.\<close>

definition sample_file :: ar_file where
  "sample_file = \<lparr>RootCat = ARCodeCat [] [] False
     [CatItem (ARCodeCat ''Lives'' ''pick one'' True
        [CodeItem \<lparr>Name = ''Nine'', Description = [], Enabled = True, Code = [0x02001234, 9]\<rparr>])],
     Error = False\<rparr>"

lemma sample_file_serialized: "\<exists>tx. Serialize sample_file = Some tx"
proof -
  have "validText ''Lives'' 127 False" "validText ''pick one'' 255 True" "validText ''Nine'' 127 False"
    by code_simp+
  then show ?thesis
    by (simp add: Serialize_def sample_file_def appendCode_def append_to_def validText_True)
qed

theorem Load_Serialize_witness:
  "\<exists>tx. Load (Readable (map Line (lines_of tx)) True) \<lparr>RootCat = empty_cat, Error = True\<rparr> =
     Some (True, sample_file)"
proof -
  obtain tx where "Serialize sample_file = Some tx" using sample_file_serialized by blast
  from Load_Serialize [OF this, of "\<lparr>RootCat = empty_cat, Error = True\<rparr>"] show ?thesis
    by (intro exI [of _ tx]) (simp add: sample_file_def)
qed

section \<open>Any file\<close>

text \<open>A flat tree: categories hold codes only; the words of a code come in pairs.\<close>

fun complete_code :: "ar_item \<Rightarrow> bool" where
  "complete_code (CodeItem c) = even (length (Code c))"
| "complete_code (CatItem k) = False"

fun flat_item :: "ar_item \<Rightarrow> bool" where
  "flat_item (CodeItem c) = even (length (Code c))"
| "flat_item (CatItem k) = list_all complete_code (Children k)"

fun enabled_code :: "ar_item \<Rightarrow> bool" where
  "enabled_code (CodeItem c) = Enabled c"
| "enabled_code (CatItem k) = False"

text \<open>In a category of single choice at most one code is enabled.\<close>

fun choice_ok :: "ar_item \<Rightarrow> bool" where
  "choice_ok (CodeItem c) = True"
| "choice_ok (CatItem k) = (if OnlyOneCodeEnabled k then length (filter enabled_code (Children k)) \<le> 1 else True)"

definition tree_ok :: "ar_item list \<Rightarrow> bool" where
  "tree_ok items \<longleftrightarrow> list_all flat_item items \<and> list_all choice_ok items"

lemma list_all_modify:
  "list_all P xs \<Longrightarrow> (\<And>x. P x \<Longrightarrow> P (f x)) \<Longrightarrow> list_all P (modify i f xs)"
  by (cases "i < length xs") (auto simp: list_all_length modify_def nth_list_update)

lemma flat_in_cat:
  assumes "points_to_cat c items" "list_all flat_item items"
    and "\<And>xs. list_all flat_item xs \<Longrightarrow> list_all flat_item (f xs)"
    and "\<And>xs. list_all complete_code xs \<Longrightarrow> list_all complete_code (f xs)"
  shows "list_all flat_item (in_cat c f items)"
proof (cases c)
  case (Some i)
  have "flat_item (map_cat (map_children f) x)" if "flat_item x" for x
  proof (cases x)
    case (CatItem k)
    with that assms(4) show ?thesis by (cases k) simp
  qed (use that in simp)
  with Some assms(2) show ?thesis by (simp add: in_cat_def list_all_modify)
qed (use assms in \<open>simp add: in_cat_def\<close>)

text \<open>The state between two lines: every pointer that the next line may follow is valid.\<close>

definition load_ok :: "load_state \<Rightarrow> bool" where
  "load_ok s \<longleftrightarrow> list_all flat_item (root s) \<and> points_to_cat (curcat s) (root s) \<and>
     (isincode s \<longrightarrow> lastentry s = 2) \<and> (lastentry s = 2 \<longrightarrow> (\<exists>j. curcode s = Some (curcat s, j) \<and> points_to_code (curcat s, j) (root s))) \<and>
     (lastentry s = 1 \<longrightarrow> curcat s \<noteq> None) \<and> \<not> fault s"

lemma via_curcat_ok: "load_ok s \<Longrightarrow> via_curcat f s = s\<lparr>root := f (root s)\<rparr>"
  by (simp add: via_curcat_def load_ok_def)

lemma load_ok_init: "load_ok load_init"
  by (simp add: load_ok_def load_init_def points_to_cat_def)

lemma complete_map_code:
  "(\<And>c. even (length (Code c)) \<Longrightarrow> even (length (Code (f c)))) \<Longrightarrow> complete_code x \<Longrightarrow> complete_code (map_code f x)"
  "(\<And>c. even (length (Code c)) \<Longrightarrow> even (length (Code (f c)))) \<Longrightarrow> flat_item x \<Longrightarrow> flat_item (map_code f x)"
  by (cases x; simp)+

lemma load_ok_via_curcode:
  assumes "load_ok s" "lastentry s = 2" "\<And>c. even (length (Code c)) \<Longrightarrow> even (length (Code (f c)))"
  shows "load_ok (via_curcode f s)"
proof -
  obtain j where p: "curcode s = Some (curcat s, j)" "points_to_code (curcat s, j) (root s)"
    using assms(1,2) by (auto simp: load_ok_def)
  with assms have v: "points_to_cat (curcat s) (root s)" "j < length (children_of (curcat s) (root s))"
    "is_code (children_of (curcat s) (root s) ! j)" "list_all flat_item (root s)"
    by (auto simp: load_ok_def points_to_code_def)
  have "list_all flat_item (at_code (curcat s, j) f (root s))"
    unfolding at_code_def fst_conv snd_conv using assms(3)
    by (intro flat_in_cat [OF v(1,4)] list_all_modify) (auto intro: complete_map_code)
  moreover have "points_to_code (curcat s, j) (at_code (curcat s, j) f (root s))"
    using v(1-3) by (cases "children_of (curcat s) (root s) ! j")
      (auto simp: points_to_code_def at_code_def children_in_cat modify_def)
  moreover have "points_to_cat (curcat s) (at_code (curcat s, j) f (root s))"
    using v(1) by (simp add: at_code_def)
  ultimately show ?thesis using assms(1,2) via_curcode_Some [OF p] p(1) by (simp add: load_ok_def)
qed

lemma load_CAT_ok: "load_ok s \<Longrightarrow> load_CAT l s = Some s' \<Longrightarrow> load_ok s'"
  by (auto simp: load_CAT_def load_ok_def points_to_cat_def split: option.splits if_splits)

lemma load_CODE_ok:
  assumes "load_ok s" "load_CODE l s = Some s'"
  shows "load_ok s'"
proof -
  obtain n en where s': "s' = s\<lparr>root := in_cat (curcat s) (\<lambda>cs. cs @
        [CodeItem \<lparr>Name = n, Description = [], Enabled = en, Code = []\<rparr>]) (root s), isincode := True,
      curcode := Some (curcat s, length (children_of (curcat s) (root s))), lastentry := 2\<rparr>"
    using assms(2) by (auto simp: load_CODE_def via_curcat_ok [OF assms(1)] split: option.splits if_splits)
  have v: "points_to_cat (curcat s) (root s)" "list_all flat_item (root s)" "\<not> fault s"
    using assms(1) by (auto simp: load_ok_def)
  show ?thesis
    using v unfolding s'
    by (simp add: load_ok_def points_to_code_def children_in_cat flat_in_cat)
qed

lemma load_DESC_ok:
  assumes "load_ok s" "load_DESC l s = Some s'"
  shows "load_ok s'"
proof -
  consider "s' = s"
    | d where "lastentry s = 2" "s' = via_curcode (Description_update (\<lambda>_. d)) s"
    | d i where "lastentry s = 1" "curcat s = Some i" "s' = s\<lparr>root := modify i (map_cat (set_CatDescription d)) (root s)\<rparr>"
  proof (cases "sscanf_name ''DESC'' 255 l")
    case (Some x)
    with assms(2) that show thesis
      by (cases x) (auto simp: load_DESC_def via_curcat_ok [OF assms(1)] split: option.splits if_splits)
  next
    case None
    with assms(2) have "s' = s" by (simp add: load_DESC_def)
    then show thesis by (rule that(1))
  qed
  then show ?thesis
  proof cases
    case (3 d i)
    have "flat_item (map_cat (set_CatDescription d) x)" if "flat_item x" for x
    proof (cases x)
      case (CatItem k)
      with that show ?thesis by (cases k) simp
    qed (use that in simp)
    then have "list_all flat_item (root s')"
      using assms(1) 3(3) by (simp add: load_ok_def list_all_modify)
    moreover have "points_to_cat (curcat s') (root s')"
      using assms(1) 3 by (auto simp: load_ok_def modify_def points_to_cat_def split: ar_item.splits)
    ultimately show ?thesis using assms(1) 3 by (auto simp: load_ok_def)
  qed (use assms(1) load_ok_via_curcode in auto)
qed

lemma load_data_ok: "load_ok s \<Longrightarrow> load_data l s = Some s' \<Longrightarrow> load_ok s'"
  by (auto simp: load_data_def intro!: load_ok_via_curcode split: option.splits if_splits) (simp add: load_ok_def)

lemma load_line_ok: "load_ok s \<Longrightarrow> load_line l s = Some s' \<Longrightarrow> load_ok s'"
  by (auto simp: load_line_def Let_def intro: load_CAT_ok load_CODE_ok load_DESC_ok load_data_ok split: if_splits)
    (simp add: load_ok_def load_ROOT_def points_to_cat_def)

lemma load_lines_ok: "load_ok s \<Longrightarrow> load_lines rs s = Some s' \<Longrightarrow> load_ok s'"
  by (induction rs s rule: load_lines.induct) (auto intro: load_line_ok split: option.splits if_splits)

section \<open>Single choice\<close>

lemma keep_first_flat:
  "list_all complete_code cs \<Longrightarrow> \<exists>cs'. keep_first found cs = Some cs' \<and> list_all complete_code cs' \<and>
     length (filter enabled_code cs') \<le> (if found then 0 else 1)"
proof (induction found cs rule: keep_first.induct)
  case (3 found c items)
  then show ?case by (cases "Enabled c"; cases found) auto
qed simp_all

lemma finalize_flat:
  "list_all flat_item items \<Longrightarrow> \<exists>items'. finalize items = Some items' \<and> tree_ok items'"
proof (induction items rule: finalize.induct)
  case (3 n d one cs items)
  then have cs: "list_all complete_code cs" "list_all flat_item items" by simp_all
  obtain cs' where cs': "keep_first False cs = Some cs'" "list_all complete_code cs'"
      "length (filter enabled_code cs') \<le> 1"
    using keep_first_flat [OF cs(1), of False] by auto
  obtain items' where "finalize items = Some items'" "tree_ok items'"
    using 3(1,2) cs(2) cs'(1) by blast
  with cs(1) cs' show ?case by (cases one) (simp_all add: tree_ok_def)
qed (auto simp: tree_ok_def)

section \<open>Lists of codes and import\<close>

lemma codes_of_flat: "list_all complete_code cs \<Longrightarrow> \<exists>ds. codes_of cs = Some ds"
  by (induction cs rule: codes_of.induct) auto

lemma GetCodes_flat: "tree_ok (Children (RootCat f)) \<Longrightarrow> \<exists>cs. GetCodes f = Some cs"
proof -
  have "\<exists>cs. GetCodes_loop items = Some cs" if "list_all flat_item items" for items
    using that codes_of_flat by (induction items rule: GetCodes_loop.induct) fastforce+
  then show "tree_ok (Children (RootCat f)) \<Longrightarrow> ?thesis"
    by (simp add: GetCodes_def tree_ok_def)
qed

lemma chosen_codes_flat:
  "list_all complete_code cs \<Longrightarrow> \<exists>ds. chosen_codes en j cs = Some ds \<and> list_all complete_code ds"
  by (induction en j cs rule: chosen_codes.induct) (auto split: if_splits)

lemma any_chosen_flat: "list_all complete_code cs \<Longrightarrow> \<exists>b. any_chosen en j cs = Some b"
  by (induction en j cs rule: any_chosen.induct) auto

lemma import_items_flat:
  "list_all flat_item items \<Longrightarrow> \<exists>ds. import_items emap i items = Some ds \<and> list_all flat_item ds"
proof (induction emap i items rule: import_items.induct)
  case (2 emap i n d one cs items)
  let ?chosen = "\<lambda>j. case emap of None \<Rightarrow> True | Some m \<Rightarrow> m (i, Some j)"
  have cs: "list_all complete_code cs" "list_all flat_item items" using 2(3) by simp_all
  obtain b where b: "(if emap = None then Some True else any_chosen ?chosen 0 cs) = Some b"
    using any_chosen_flat [OF cs(1)] by (cases "emap = None") auto
  obtain ds where ds: "chosen_codes ?chosen 0 cs = Some ds" "list_all complete_code ds"
    using chosen_codes_flat [OF cs(1)] by blast
  obtain es where "import_items emap (i + 1) items = Some es" "list_all flat_item es"
    using 2(1,2) [OF refl] b ds(1) cs(2) by (cases b) blast+
  then show ?case using b ds by (cases b) (simp_all add: Let_def)
qed (auto split: if_splits)

lemma Import_flat:
  assumes "list_all flat_item entry" "tree_ok (Children (RootCat f))"
  shows "\<exists>f'. Import entry emap clear f = Some f' \<and> tree_ok (Children (RootCat f'))"
proof -
  obtain items where items: "import_items emap 0 entry = Some items" "list_all flat_item items"
    using import_items_flat [OF assms(1)] by blast
  define old where "old = (if clear then [] else Children (RootCat f))"
  have "list_all flat_item (old @ items)"
    using items(2) assms(2) by (simp add: old_def tree_ok_def)
  then obtain items' where "finalize (old @ items) = Some items'" "tree_ok items'"
    using finalize_flat by blast
  then show ?thesis
    by (cases "RootCat f"; cases clear) (simp_all add: Import_def Let_def items(1) FinalizeList_def old_def)
qed

text \<open>C25. Whatever a file contains and however reading it fails, \<open>Load\<close> follows no null or wrong pointer:
after any number of lines \<open>fault\<close> is not set, and the result is not
None, which would be a fault or a wrong \<open>std::get\<close>.  It sets the error flag exactly when it fails, publishes
only a flat tree in which every code has complete lines and a category of single choice at most one
enabled code, and keeps the old tree when it fails or there is no file.\<close>

theorem Load_total:
  "(\<forall>rs s. load_lines rs load_init = Some s \<longrightarrow> \<not> fault s) \<and>
   (\<exists>ok f'. Load src f = Some (ok, f') \<and> Error f' = (\<not> ok) \<and>
     (if ok \<and> src \<noteq> Absent then tree_ok (Children (RootCat f')) else RootCat f' = RootCat f))"
proof -
  have ok: "load_ok s" if "load_lines rs load_init = Some s" for rs s
    by (rule load_lines_ok [OF load_ok_init that])
  have "\<exists>ok f'. Load src f = Some (ok, f') \<and> Error f' = (\<not> ok) \<and>
     (if ok \<and> src \<noteq> Absent then tree_ok (Children (RootCat f')) else RootCat f' = RootCat f)"
  proof (cases src)
    case (Readable rs closed)
    show ?thesis
    proof (cases "load_lines rs load_init")
      case (Some s)
      then have s: "list_all flat_item (root s)" "\<not> fault s" using ok by (simp_all add: load_ok_def)
      then obtain items where "finalize (root s) = Some items" "tree_ok items"
        using finalize_flat by blast
      then show ?thesis
        using Some s(2) by (cases closed) (simp_all add: Readable FinalizeList_def, blast+)
    qed (auto simp: Readable)
  qed auto
  then show ?thesis using ok by (simp add: load_ok_def)
qed

theorem Load_total_witness:
  "\<exists>s. load_lines [Line (''ROOT'' @ [LF]), Line (''CODE 1 '' @ ''Nine'' @ [LF]), Line (hex8 0x02001234 @ '' '' @ hex8 9 @ [LF])]
     load_init = Some s \<and> \<not> fault s \<and>
     root s = [CodeItem \<lparr>Name = ''Nine'', Description = [], Enabled = True, Code = [0x02001234, 9]\<rparr>]"
proof -
  let ?rs = "[Line (''ROOT'' @ [LF]), Line (''CODE 1 '' @ ''Nine'' @ [LF]), Line (hex8 0x02001234 @ '' '' @ hex8 9 @ [LF])]"
  define s1 where "s1 = load_ROOT load_init"
  define s2 where "s2 = s1\<lparr>isincode := True,
    root := [CodeItem \<lparr>Name = ''Nine'', Description = [], Enabled = True, Code = []\<rparr>],
    curcode := Some (None, 0), lastentry := 2\<rparr>"
  have n: "validText ''Nine'' 127 False" by code_simp
  have 1: "isincat s1" "curcat s1 = None" "root s1 = []" by (simp_all add: s1_def load_ROOT_def load_init_def)
  have "load_line (''CODE 1 '' @ ''Nine'' @ [LF]) s1 = Some s2"
    using load_CODE_line [OF n 1(1), of True] 1(2,3) by (simp add: points_to_cat_def s2_def in_cat_def children_of_def)
  moreover have "load_line (hex8 0x02001234 @ '' '' @ hex8 9 @ [LF]) s2 = Some (via_curcode (Code_update (\<lambda>ws. ws @ [0x02001234, 9])) s2)"
    by (rule load_data_line) (simp add: s2_def)
  ultimately have "load_lines ?rs load_init = Some (via_curcode (Code_update (\<lambda>ws. ws @ [0x02001234, 9])) s2)"
    using load_ROOT_line [of load_init] by (simp only: load_lines.simps option.case s1_def)
  moreover have "root (via_curcode (Code_update (\<lambda>ws. ws @ [0x02001234, 9])) s2) =
      [CodeItem \<lparr>Name = ''Nine'', Description = [], Enabled = True, Code = [0x02001234, 9]\<rparr>]"
    by (simp add: via_curcode_def s2_def points_to_code_def points_to_cat_def children_of_def at_code_def in_cat_def modify_def)
  ultimately show ?thesis using Load_total [of Absent undefined] by blast
qed

end
