(* ===== verification/NdsSave.thy ===== *)
theory NdsSave
  imports Prelude
begin

text \<open>
  The save memory of a retail DS cartridge (\<^verbatim>\<open>src/src/NDSCart/CartRetail.cpp\<close>): EEPROM, FRAM and Flash
  chips behind the cartridge's SPI bus, with their page latch, write cycle, protection, lock registers
  and power states.  Arrays are lists; an access outside one, which C++ leaves undefined, sets \<open>fault\<close>.
  \<open>File\<close> is the save file the frontend keeps: \<open>Platform::WriteNDSSave\<close> copies the named range to it.
\<close>

section \<open>Chips\<close>

definition SaveLengths :: "u32 list" where
  "SaveLengths = [0, 512, 8192, 65536, 128*1024, 256*1024, 512*1024, 1024*1024,
     8192*1024, 16384*1024, 65536*1024,
     8192, 65536, 128*1024, 32*1024,
     256*1024, 512*1024, 1024*1024]"

primrec first_type :: "u32 \<Rightarrow> nat \<Rightarrow> u32 list \<Rightarrow> nat option" where
  "first_type len n [] = None"
| "first_type len n (l # ls) = (if l = len then Some n else first_type len (n + 1) ls)"

definition SaveTypeForLength :: "u32 \<Rightarrow> nat option" where
  "SaveTypeForLength len = first_type len 0 SaveLengths"

definition SPITypeForSaveLength :: "u32 \<Rightarrow> nat option" where
  "SPITypeForSaveLength len =
     (case SaveTypeForLength len of None \<Rightarrow> None | Some t \<Rightarrow> if t < 8 then Some t else None)"

definition SaveProtocol :: "nat \<Rightarrow> nat" where
  "SaveProtocol type =
     (if type \<le> 1 then type
      else if type \<le> 4 \<or> type \<ge> 11 \<and> type \<le> 14 then 2
      else if type \<le> 7 \<or> type \<ge> 15 then 3
      else 4)"

definition EEPROMPageSize :: "nat \<Rightarrow> u32" where
  "EEPROMPageSize profile =
     (if profile = 11 then 32 else if profile = 12 then 128 else if profile = 13 then 256 else 0)"

definition IsFlashProfile :: "nat \<Rightarrow> bool" where
  "IsFlashProfile profile \<longleftrightarrow> profile \<ge> 15 \<and> profile \<le> 17"

definition IsExtendedErase :: "u8 \<Rightarrow> bool" where
  "IsExtendedErase command \<longleftrightarrow> command = 0x20 \<or> command = 0xC7"

definition IsPowerCommand :: "u8 \<Rightarrow> bool" where
  "IsPowerCommand command \<longleftrightarrow> command = 0xB9 \<or> command = 0xAB"

definition PowerCycles :: "bool \<Rightarrow> u32" where
  "PowerCycles waking = ucast (((if waking then 30 else 3 :: u64) * 33513982 + 999999) div 1000000)"

definition FlashEraseSize :: "u8 \<Rightarrow> u32 \<Rightarrow> nat \<Rightarrow> u32" where
  "FlashEraseSize command len profile =
     (if command = 0xDB then 256
      else if command = 0xD8 then 65536
      else if \<not> IsFlashProfile profile then 0
      else if command = 0x20 then 4096
      else if command = 0xC7 then len else 0)"

definition StatusMask :: "nat \<Rightarrow> nat \<Rightarrow> u8" where
  "StatusMask protocol profile =
     (if protocol = 3 then if IsFlashProfile profile then if profile = 15 then 0x8C else 0x9C else 0
      else if protocol = 1 then 0x0C else if protocol = 2 then 0x8C else 0)"

definition IsStatusCommand :: "nat \<Rightarrow> u8 \<Rightarrow> nat \<Rightarrow> bool" where
  "IsStatusCommand protocol command profile \<longleftrightarrow>
     protocol > 0 \<and> protocol < 4 \<and>
     (command = 0x04 \<or> command = 0x06 \<or> (protocol < 3 \<or> IsFlashProfile profile) \<and> command = 0x01)"

definition WriteCycles :: "nat \<Rightarrow> u8 \<Rightarrow> u32 \<Rightarrow> u32" where
  "WriteCycles protocol command len =
     (let microseconds = (if protocol = 3 then
            if command = 0x01 then 3000
            else if command = 0x02 then ((len + 7) div 8) * 25
            else if command = 0x20 then 40000
            else if command = 0xC7 then
              if len = 262144 then 4500000 else if len = 524288 then 5000000 else 10000000
            else if command = 0x0A then 11000
            else if command = 0xDB then 10000 else 1500000
          else 5000)
      in ucast (((ucast microseconds :: u64) * 33513982 + 999999) div 1000000))"

section \<open>State\<close>

datatype flash_power = Awake | Entering | Asleep | Waking

record save_chip =
  SRAM :: "u8 list"
  SRAMLength :: u32
  SRAMFileLength :: u32
  SRAMType :: nat
  SRAMProfile :: nat
  SRAMPos :: u32
  SRAMCmd :: u8
  SRAMAddr :: u32
  SRAMStatus :: u8
  SRAMSaveAddr :: u32
  SRAMSaveLen :: u32
  PageBuffer :: "u8 list"
  PagePending :: bool
  WriteDelay :: u32
  WriteCommand :: u8
  WriteAddress :: u32
  WriteFirst :: u32
  WriteLength :: u32
  WriteBuffer :: "u8 list"
  FlashLocks :: "u8 list"
  PowerState :: flash_power
  PowerDelay :: u32
  PowerBlocked :: bool
  File :: "u8 list"
  fault :: bool

text \<open>Accesses to the arrays.\<close>

definition sram_read :: "u32 \<Rightarrow> save_chip \<Rightarrow> u8 \<times> save_chip" where
  "sram_read i s = (if unat i < length (SRAM s) then (SRAM s ! unat i, s) else (0, s\<lparr>fault := True\<rparr>))"

definition sram_write :: "u32 \<Rightarrow> u8 \<Rightarrow> save_chip \<Rightarrow> save_chip" where
  "sram_write i v s =
     (if unat i < length (SRAM s) then s\<lparr>SRAM := (SRAM s)[unat i := v]\<rparr> else s\<lparr>fault := True\<rparr>)"

definition page_write :: "u32 \<Rightarrow> u8 \<Rightarrow> save_chip \<Rightarrow> save_chip" where
  "page_write i v s =
     (if unat i < length (PageBuffer s) then s\<lparr>PageBuffer := (PageBuffer s)[unat i := v]\<rparr>
      else s\<lparr>fault := True\<rparr>)"

definition buffer_read :: "u32 \<Rightarrow> save_chip \<Rightarrow> u8 \<times> save_chip" where
  "buffer_read i s =
     (if unat i < length (WriteBuffer s) then (WriteBuffer s ! unat i, s) else (0, s\<lparr>fault := True\<rparr>))"

definition lock_read :: "u32 \<Rightarrow> save_chip \<Rightarrow> u8 \<times> save_chip" where
  "lock_read i s =
     (if unat i < length (FlashLocks s) then (FlashLocks s ! unat i, s) else (0, s\<lparr>fault := True\<rparr>))"

definition lock_write :: "u32 \<Rightarrow> u8 \<Rightarrow> save_chip \<Rightarrow> save_chip" where
  "lock_write i v s =
     (if unat i < length (FlashLocks s) then s\<lparr>FlashLocks := (FlashLocks s)[unat i := v]\<rparr>
      else s\<lparr>fault := True\<rparr>)"

definition splice :: "nat \<Rightarrow> 'a list \<Rightarrow> 'a list \<Rightarrow> 'a list" where
  "splice k new old = take k old @ new @ drop (k + length new) old"

definition WriteNDSSave :: "u32 \<Rightarrow> u32 \<Rightarrow> save_chip \<Rightarrow> save_chip" where
  "WriteNDSSave offset len s =
     (if unat offset + unat len \<le> length (SRAM s)
      then s\<lparr>File := splice (unat offset) (take (unat len) (drop (unat offset) (SRAM s))) (File s)\<rparr>
      else s\<lparr>fault := True\<rparr>)"

definition fresh_page :: "u8 list" where
  "fresh_page = replicate 256 0xFF"

section \<open>Construction and cancellation\<close>

text \<open>The constructor: the save type of the ROM list and the save file, if any.\<close>

definition CartRetail_new :: "nat \<Rightarrow> u8 list option \<Rightarrow> save_chip" where
  "CartRetail_new SaveMemType sram =
     (let type = (if SaveMemType < length SaveLengths then SaveMemType else 0);
          len = SaveLengths ! type;
          filelen = max (unat len) (case sram of None \<Rightarrow> 0 | Some d \<Rightarrow> length d);
          data = (case sram of None \<Rightarrow> [] | Some d \<Rightarrow> d);
          mem = data @ replicate (filelen - length data) 0xFF
      in \<lparr>SRAM = mem, SRAMLength = len, SRAMFileLength = of_nat filelen, SRAMType = SaveProtocol type,
          SRAMProfile = (if type \<ge> 11 then type else 0), SRAMPos = 0, SRAMCmd = 0, SRAMAddr = 0,
          SRAMStatus = 0, SRAMSaveAddr = 0, SRAMSaveLen = 0, PageBuffer = replicate 256 0,
          PagePending = False, WriteDelay = 0, WriteCommand = 0, WriteAddress = 0, WriteFirst = 0,
          WriteLength = 0, WriteBuffer = replicate 256 0, FlashLocks = replicate 16 0,
          PowerState = Awake, PowerDelay = 0, PowerBlocked = False, File = mem, fault = False\<rparr>)"

definition CancelSave :: "bool \<Rightarrow> save_chip \<Rightarrow> save_chip" where
  "CancelSave powerOff s =
     (let s = (if powerOff then s\<lparr>FlashLocks := replicate (length (FlashLocks s)) 0,
                                  PowerState := Awake, PowerDelay := 0, PowerBlocked := False\<rparr> else s)
      in s\<lparr>WriteDelay := 0, WriteCommand := 0, WriteAddress := 0, WriteFirst := 0, WriteLength := 0,
           SRAMStatus := SRAMStatus s AND NOT 3, SRAMPos := 0, SRAMCmd := 0,
           SRAMSaveAddr := 0, SRAMSaveLen := 0, PagePending := False\<rparr>)"

definition Reset :: "save_chip \<Rightarrow> save_chip" where
  "Reset s =
     (let s = CancelSave True s
      in s\<lparr>SRAMPos := 0, SRAMCmd := 0, SRAMAddr := 0,
           SRAMStatus := SRAMStatus s AND StatusMask (SRAMType s) (SRAMProfile s),
           SRAMSaveAddr := 0, SRAMSaveLen := 0, PagePending := False\<rparr>)"

definition SetSaveMemory :: "u8 list \<Rightarrow> save_chip \<Rightarrow> save_chip" where
  "SetSaveMemory savedata s =
     (let s = CancelSave False s in
      if SRAM s = [] then s
      else let len = min (length savedata) (unat (SRAMFileLength s));
               s = s\<lparr>SRAM := splice 0 (take len savedata) (SRAM s)\<rparr>
           in WriteNDSSave 0 (of_nat len) s)"

section \<open>Protection\<close>

definition flash_protected :: "u32 \<Rightarrow> save_chip \<Rightarrow> bool \<times> save_chip" where
  "flash_protected address s =
     (let address = address AND (SRAMLength s - 1);
          (lock, s) = lock_read (drop_bit 16 address) s in
      if tst lock 1 then (True, s)
      else let bp = (ucast (drop_bit 2 (SRAMStatus s)) :: u32) AND 7;
               len = (if bp \<noteq> 0 then min (SRAMLength s) (shl 65536 (bp - 1)) else 0)
           in (address \<ge> SRAMLength s - len, s))"

definition IsWriteProtected :: "u32 \<Rightarrow> save_chip \<Rightarrow> bool \<times> save_chip" where
  "IsWriteProtected address s =
     (if SRAMType s = 3 then
        if \<not> IsFlashProfile (SRAMProfile s) then (False, s) else flash_protected address s
      else
        let bp = (ucast (drop_bit 2 (SRAMStatus s)) :: u32) AND 3;
            start = (if bp = 0 then SRAMLength s
                     else if bp = 1 then SRAMLength s * 3 div 4
                     else if bp = 2 then SRAMLength s div 2 else 0)
        in (address AND (SRAMLength s - 1) \<ge> start, s))"

section \<open>Write cycles\<close>

definition BeginSave :: "u8 \<Rightarrow> u32 \<Rightarrow> u32 \<Rightarrow> u32 \<Rightarrow> save_chip \<Rightarrow> save_chip" where
  "BeginSave command address first len s =
     (let status = SRAMStatus s OR 1
      in s\<lparr>WriteCommand := command, WriteAddress := address, WriteFirst := first, WriteLength := len,
           WriteBuffer := PageBuffer s, WriteDelay := WriteCycles (SRAMType s) command len,
           SRAMStatus := if IsExtendedErase command then status AND NOT 2 else status\<rparr>)"

definition page_size :: "save_chip \<Rightarrow> u32" where
  "page_size s = (if SRAMType s = 1 then 16 else if SRAMType s = 3 then 256 else EEPROMPageSize (SRAMProfile s))"

definition erase_size :: "u8 \<Rightarrow> save_chip \<Rightarrow> u32" where
  "erase_size command s =
     (if SRAMType s = 3 then FlashEraseSize command (SRAMLength s) (SRAMProfile s) else 0)"

text \<open>One byte of a page, and the whole page, into the array.\<close>

definition program_byte :: "nat \<Rightarrow> save_chip \<Rightarrow> save_chip" where
  "program_byte i s =
     (let index = (WriteFirst s + of_nat i) AND (page_size s - 1);
          (new, s) = buffer_read index s;
          (old, s) = sram_read (WriteAddress s + index) s
      in sram_write (WriteAddress s + index)
           (if SRAMType s = 3 \<and> WriteCommand s = 0x02 then old AND new else new) s)"

definition program_page :: "save_chip \<Rightarrow> save_chip" where
  "program_page s = fold program_byte [0..<unat (WriteLength s)] s"

definition erase_block :: "u32 \<Rightarrow> u32 \<Rightarrow> save_chip \<Rightarrow> save_chip" where
  "erase_block offset len s =
     (if unat offset + unat len \<le> length (SRAM s)
      then s\<lparr>SRAM := splice (unat offset) (replicate (unat len) 0xFF) (SRAM s)\<rparr>
      else s\<lparr>fault := True\<rparr>)"

definition program_done :: "save_chip \<Rightarrow> save_chip" where
  "program_done s =
     (let len = (if erase_size (WriteCommand s) s \<noteq> 0 then erase_size (WriteCommand s) s else page_size s)
      in if WriteCommand s = 0x02 \<or> WriteCommand s = 0x0A then
           let s = program_page s;
               (offset, len) = (if WriteLength s \<le> page_size s - WriteFirst s
                                then (WriteAddress s + WriteFirst s, WriteLength s)
                                else (WriteAddress s, len))
           in WriteNDSSave offset len (s\<lparr>SRAMStatus := SRAMStatus s AND NOT 3\<rparr>)
         else
           let s = erase_block (WriteAddress s) len s
           in WriteNDSSave (WriteAddress s) len (s\<lparr>SRAMStatus := SRAMStatus s AND NOT 3\<rparr>))"

definition CompleteSave :: "save_chip \<Rightarrow> save_chip" where
  "CompleteSave s =
     (if PowerDelay s \<noteq> 0 then
        s\<lparr>PowerDelay := 0, PowerState := if PowerState s = Entering then Asleep else Awake\<rparr>
      else if WriteDelay s = 0 then s
      else let s = s\<lparr>WriteDelay := 0\<rparr>;
               s = (if WriteCommand s = 0x01 then s\<lparr>SRAMStatus := ucast (WriteAddress s)\<rparr>
                    else program_done s)
           in s\<lparr>WriteCommand := 0, WriteAddress := 0, WriteFirst := 0, WriteLength := 0\<rparr>)"

section \<open>Chip select\<close>

definition SPISelect :: "save_chip \<Rightarrow> save_chip" where
  "SPISelect s =
     (let blocked = PowerState s = Entering \<or> PowerState s = Waking
      in s\<lparr>SRAMPos := 0, PowerBlocked := blocked,
           SRAMCmd := if blocked then 0 else SRAMCmd s, PagePending := False,
           SRAMSaveLen := if SRAMType s = 1 \<or> SRAMType s = 3 \<or> EEPROMPageSize (SRAMProfile s) \<noteq> 0
                          then 0 else SRAMSaveLen s\<rparr>)"

definition end_command :: "save_chip \<Rightarrow> save_chip" where
  "end_command s = s\<lparr>SRAMPos := 0, SRAMCmd := 0\<rparr>"

definition release_power :: "save_chip \<Rightarrow> save_chip" where
  "release_power s =
     (let waking = SRAMCmd s = 0xAB;
          s = (if SRAMPos s = 1 \<and> PowerState s = (if waking then Asleep else Awake)
               then s\<lparr>PowerState := if waking then Waking else Entering, PowerDelay := PowerCycles waking\<rparr>
               else s)
      in end_command s\<lparr>SRAMSaveLen := 0\<rparr>)"

definition release_status :: "save_chip \<Rightarrow> save_chip" where
  "release_status s =
     (let s = (if SRAMCmd s = 0x06 \<and> SRAMPos s = 1 then s\<lparr>SRAMStatus := SRAMStatus s OR 2\<rparr>
               else if SRAMCmd s = 0x04 \<and> SRAMPos s = 1 then s\<lparr>SRAMStatus := SRAMStatus s AND NOT 2\<rparr>
               else if SRAMCmd s = 0x01 \<and> SRAMPos s = 2 \<and> tst (SRAMStatus s) 2 then
                 let status = ucast (SRAMAddr s) AND StatusMask (SRAMType s) (SRAMProfile s)
                 in if SRAMType s = 1 \<or> EEPROMPageSize (SRAMProfile s) \<noteq> 0 \<or> IsFlashProfile (SRAMProfile s)
                    then BeginSave 0x01 (ucast status) 0 0 s
                    else s\<lparr>SRAMStatus := status\<rparr>
               else s)
      in end_command s)"

definition release_lock :: "save_chip \<Rightarrow> save_chip" where
  "release_lock s =
     (let s = (if SRAMPos s = 5 \<and> tst (SRAMStatus s) 2 then
                 let i = drop_bit 16 (SRAMAddr s AND (SRAMLength s - 1)); (lock, s) = lock_read i s
                 in if \<not> tst lock 2
                    then (lock_write i (ucast (SRAMSaveLen s) AND 3) s)\<lparr>SRAMStatus := SRAMStatus s AND NOT 2\<rparr>
                    else s
               else s)
      in end_command s\<lparr>SRAMSaveLen := 0\<rparr>)"

definition release_bulk_erase :: "save_chip \<Rightarrow> save_chip" where
  "release_bulk_erase s =
     (let n = unat (SRAMLength s div 65536);
          s = (if n \<le> length (FlashLocks s) then s else s\<lparr>fault := True\<rparr>);
          locked = (tst (SRAMStatus s) 0x1C \<or> list_ex (\<lambda>v. tst v 1) (take n (FlashLocks s)));
          s = (if SRAMPos s = 1 \<and> tst (SRAMStatus s) 2 \<and> \<not> locked
               then BeginSave 0xC7 0 0 (SRAMLength s) s else s)
      in end_command s\<lparr>SRAMSaveLen := 0\<rparr>)"

definition release_page :: "save_chip \<Rightarrow> save_chip" where
  "release_page s =
     (let erase = erase_size (SRAMCmd s) s;
          len = (if erase \<noteq> 0 then erase else page_size s);
          address = (SRAMSaveAddr s AND (SRAMLength s - 1)) AND NOT (len - 1);
          first = (if erase \<noteq> 0 then 0 else (SRAMAddr s - SRAMSaveLen s) AND (page_size s - 1));
          s = BeginSave (SRAMCmd s) address first (SRAMSaveLen s) s;
          s = (if IsExtendedErase (SRAMCmd s) then end_command s else s)
      in s\<lparr>PagePending := False, SRAMSaveAddr := 0, SRAMSaveLen := 0\<rparr>)"

text \<open>The dirty range of a chip that is written byte by byte.\<close>

definition dirty_range :: "save_chip \<Rightarrow> u32 \<times> u32" where
  "dirty_range s =
     (let offset = (if SRAMType s = 1 then SRAMSaveAddr s AND 0x1F0
                    else SRAMSaveAddr s AND (SRAMLength s - 1));
          len = (if SRAMType s = 1 then 16 else min (SRAMSaveLen s) (SRAMLength s))
      in if len > SRAMLength s - offset then (0, SRAMLength s) else (offset, len))"

definition flush_dirty :: "save_chip \<Rightarrow> save_chip" where
  "flush_dirty s =
     (if SRAMLength s \<noteq> 0 \<and> tst (SRAMStatus s) 2 \<and> SRAMSaveLen s > 0 then
        (WriteNDSSave (fst (dirty_range s)) (snd (dirty_range s)) s)
          \<lparr>SRAMStatus := SRAMStatus s AND NOT 2, SRAMSaveAddr := 0, SRAMSaveLen := 0\<rparr>
      else s)"

definition release_direct :: "save_chip \<Rightarrow> save_chip" where
  "release_direct s =
     (let s = flush_dirty s
      in if SRAMProfile s = 14 \<and> SRAMCmd s = 0x02 \<and> SRAMPos s \<ge> 4
         then s\<lparr>SRAMStatus := SRAMStatus s AND NOT 2\<rparr> else s)"

definition SPIRelease :: "save_chip \<Rightarrow> save_chip" where
  "SPIRelease s =
     (if PowerBlocked s then end_command s\<lparr>PowerBlocked := False\<rparr>
      else if WriteDelay s \<noteq> 0 \<or> PowerDelay s \<noteq> 0 then s
      else if IsFlashProfile (SRAMProfile s) \<and> SRAMPos s \<noteq> 0 \<and> IsPowerCommand (SRAMCmd s) then release_power s
      else if PowerState s \<noteq> Awake then s
      else if SRAMPos s \<noteq> 0 \<and> IsStatusCommand (SRAMType s) (SRAMCmd s) (SRAMProfile s) then release_status s
      else if IsFlashProfile (SRAMProfile s) \<and> SRAMCmd s = 0xE5 then release_lock s
      else if IsFlashProfile (SRAMProfile s) \<and> SRAMCmd s = 0xC7 then release_bulk_erase s
      else if PagePending s then release_page s
      else release_direct s)"

section \<open>Bytes\<close>

text \<open>The byte of a transaction goes on a nibble: \<open>(SRAMAddr << 8) | val\<close>.\<close>

definition shift_in :: "u8 \<Rightarrow> save_chip \<Rightarrow> save_chip" where
  "shift_in val s = s\<lparr>SRAMAddr := push_bit 8 (SRAMAddr s) OR ucast val\<rparr>"

definition start_write :: "save_chip \<Rightarrow> save_chip" where
  "start_write s = s\<lparr>SRAMSaveAddr := SRAMAddr s, SRAMSaveLen := 0\<rparr>"

text \<open>A byte into the page latch, which the first byte of a page fills with ones.\<close>

definition open_page :: "save_chip \<Rightarrow> save_chip" where
  "open_page s =
     (if PagePending s then s
      else s\<lparr>PageBuffer := fresh_page, PagePending := True, SRAMSaveLen := 0\<rparr>)"

definition latch :: "u32 \<Rightarrow> u8 \<Rightarrow> save_chip \<Rightarrow> save_chip" where
  "latch n val s =
     (let s = page_write (SRAMAddr s AND (n - 1)) val s
      in s\<lparr>SRAMSaveLen := min (SRAMSaveLen s + 1) n\<rparr>)"

text \<open>The page of a tiny EEPROM keeps the bytes of an old state with a dirty range.\<close>

definition tiny_open_page :: "save_chip \<Rightarrow> save_chip" where
  "tiny_open_page s =
     (if PagePending s then s
      else let base = unat (SRAMSaveAddr s AND 0x1F0);
               s = s\<lparr>PageBuffer := fresh_page\<rparr>;
               s = (if SRAMSaveLen s = 0 then s
                    else if base + 16 \<le> length (SRAM s)
                    then s\<lparr>PageBuffer := splice 0 (take 16 (drop base (SRAM s))) (PageBuffer s)\<rparr>
                    else s\<lparr>fault := True\<rparr>)
           in s\<lparr>PagePending := True\<rparr>)"

definition tiny_write :: "u8 \<Rightarrow> save_chip \<Rightarrow> save_chip" where
  "tiny_write val s =
     (if SRAMPos s < 2 then
        let s = s\<lparr>SRAMAddr := ucast val\<rparr>
        in s\<lparr>SRAMSaveAddr := SRAMAddr s + (if SRAMCmd s = 0x0A then 0x100 else 0), SRAMSaveLen := 0\<rparr>
      else
        let (protected, s) = IsWriteProtected (SRAMSaveAddr s) s;
            s = (if tst (SRAMStatus s) 2 \<and> \<not> protected then latch 16 val (tiny_open_page s) else s)
        in s\<lparr>SRAMAddr := SRAMAddr s + 1\<rparr>)"

definition tiny_read :: "u8 \<Rightarrow> save_chip \<Rightarrow> u8 \<times> save_chip" where
  "tiny_read val s =
     (if SRAMPos s < 2 then (0, s\<lparr>SRAMAddr := ucast val\<rparr>)
      else
        let (ret, s) = sram_read ((SRAMAddr s + (if SRAMCmd s = 0x0B then 0x100 else 0)) AND 0x1FF) s
        in (ret, s\<lparr>SRAMAddr := SRAMAddr s + 1\<rparr>))"

definition SRAMWrite_EEPROMTiny :: "u8 \<Rightarrow> save_chip \<Rightarrow> u8 \<times> save_chip" where
  "SRAMWrite_EEPROMTiny val s =
     (if SRAMCmd s = 0x05 then (SRAMStatus s OR 0xF0, s)
      else if SRAMCmd s = 0x02 \<or> SRAMCmd s = 0x0A then (0, tiny_write val s)
      else if SRAMCmd s = 0x03 \<or> SRAMCmd s = 0x0B then tiny_read val s
      else (0xFF, s))"

definition addr_size :: "save_chip \<Rightarrow> u32" where
  "addr_size s = (if SRAMLength s > 65536 then 3 else 2)"

definition eeprom_store :: "u32 \<Rightarrow> u8 \<Rightarrow> save_chip \<Rightarrow> save_chip" where
  "eeprom_store pageSize val s =
     (if pageSize \<noteq> 0 then latch pageSize val (open_page s)
      else let s = sram_write (SRAMAddr s AND (SRAMLength s - 1)) val s
           in s\<lparr>SRAMSaveLen := min (SRAMSaveLen s + 1) (SRAMLength s)\<rparr>)"

definition next_addr :: "u32 \<Rightarrow> u32 \<Rightarrow> u32" where
  "next_addr pageSize a =
     (if pageSize \<noteq> 0 then (a AND NOT (pageSize - 1)) OR ((a + 1) AND (pageSize - 1)) else a + 1)"

definition eeprom_write :: "u8 \<Rightarrow> save_chip \<Rightarrow> save_chip" where
  "eeprom_write val s =
     (if SRAMPos s \<le> addr_size s then start_write (shift_in val s)
      else
        let pageSize = EEPROMPageSize (SRAMProfile s);
            (protected, s) = IsWriteProtected (SRAMAddr s) s
        in if protected then s
           else let s = (if tst (SRAMStatus s) 2 then eeprom_store pageSize val s else s)
                in s\<lparr>SRAMAddr := next_addr pageSize (SRAMAddr s)\<rparr>)"

definition array_read :: "save_chip \<Rightarrow> u8 \<times> save_chip" where
  "array_read s =
     (let (ret, s) = sram_read (SRAMAddr s AND (SRAMLength s - 1)) s
      in (ret, s\<lparr>SRAMAddr := SRAMAddr s + 1\<rparr>))"

definition SRAMWrite_EEPROM :: "u8 \<Rightarrow> save_chip \<Rightarrow> u8 \<times> save_chip" where
  "SRAMWrite_EEPROM val s =
     (if SRAMCmd s = 0x05 then (SRAMStatus s, s)
      else if SRAMCmd s = 0x02 then (0, eeprom_write val s)
      else if SRAMCmd s = 0x03 then
        if SRAMPos s \<le> addr_size s then (0, shift_in val s) else array_read s
      else (0xFF, s))"

definition flash_write :: "u8 \<Rightarrow> save_chip \<Rightarrow> save_chip" where
  "flash_write val s =
     (if SRAMPos s \<le> 3 then start_write (shift_in val s)
      else
        let (protected, s) = (if tst (SRAMStatus s) 2 then IsWriteProtected (SRAMSaveAddr s) s else (True, s));
            s = (if \<not> protected then latch 256 val (open_page s) else s)
        in s\<lparr>SRAMAddr := (SRAMAddr s AND NOT 255) OR ((SRAMAddr s + 1) AND 255)\<rparr>)"

definition flash_lock :: "u8 \<Rightarrow> save_chip \<Rightarrow> u8 \<times> save_chip" where
  "flash_lock val s =
     (if \<not> IsFlashProfile (SRAMProfile s) then (0xFF, s)
      else if SRAMPos s \<le> 3 then (0, (shift_in val s)\<lparr>SRAMSaveLen := 0\<rparr>)
      else if SRAMCmd s = 0xE8 then lock_read (drop_bit 16 (SRAMAddr s AND (SRAMLength s - 1))) s
      else if SRAMPos s = 4 then (0, s\<lparr>SRAMSaveLen := ucast val\<rparr>)
      else (0, s))"

definition flash_erase :: "u8 \<Rightarrow> save_chip \<Rightarrow> save_chip" where
  "flash_erase val s =
     (let s = (if SRAMPos s \<le> 3 then start_write (shift_in val s) else s);
          (protected, s) = (if SRAMPos s = 3 \<and> tst (SRAMStatus s) 2
                            then IsWriteProtected (SRAMSaveAddr s) s else (True, s))
      in if \<not> protected then
           s\<lparr>PagePending := True, PageBuffer := fresh_page,
             SRAMSaveLen := FlashEraseSize (SRAMCmd s) (SRAMLength s) (SRAMProfile s)\<rparr>
         else if SRAMPos s > 3 then s\<lparr>PagePending := False, SRAMSaveLen := 0\<rparr>
         else s)"

definition flash_id :: "save_chip \<Rightarrow> u8" where
  "flash_id s =
     (if IsFlashProfile (SRAMProfile s) then
        if SRAMPos s = 1 then 0x20 else if SRAMPos s = 2 then 0x80
        else if SRAMPos s = 3 then 0x12 + of_nat (SRAMProfile s) - 15 else 0xFF
      else 0xFF)"

definition SRAMWrite_FLASH :: "u8 \<Rightarrow> save_chip \<Rightarrow> u8 \<times> save_chip" where
  "SRAMWrite_FLASH val s =
     (let c = SRAMCmd s in
      if c = 0x05 then (SRAMStatus s, s)
      else if c = 0x02 \<or> c = 0x0A then (0, flash_write val s)
      else if c = 0x03 then if SRAMPos s \<le> 3 then (0, shift_in val s) else array_read s
      else if c = 0x0B then
        if SRAMPos s \<le> 3 then (0, shift_in val s) else if SRAMPos s = 4 then (0, s) else array_read s
      else if c = 0x9F then (flash_id s, s)
      else if c = 0xE5 \<or> c = 0xE8 then flash_lock val s
      else if c = 0xC7 then (if IsFlashProfile (SRAMProfile s) then 0 else 0xFF, s)
      else if c = 0x20 \<and> \<not> IsFlashProfile (SRAMProfile s) then (0xFF, s)
      else if c = 0x20 \<or> c = 0xD8 \<or> c = 0xDB then (0, flash_erase val s)
      else (0xFF, s))"

text \<open>The first byte of a transaction is its command.\<close>

definition first_byte :: "u8 \<Rightarrow> save_chip \<Rightarrow> u8 \<times> save_chip" where
  "first_byte val s =
     (let s = s\<lparr>SRAMCmd := if WriteDelay s \<noteq> 0 \<and> val \<noteq> 0x05 then 0 else val, SRAMAddr := 0\<rparr>;
          s = (if IsStatusCommand (SRAMType s) val (SRAMProfile s)
               then s\<lparr>SRAMSaveAddr := 0, SRAMSaveLen := 0\<rparr> else s)
      in (if val = 0x04 \<or> val = 0x06 then 0 else 0xFF, s))"

definition later_byte :: "u8 \<Rightarrow> save_chip \<Rightarrow> u8 \<times> save_chip" where
  "later_byte val s =
     (if IsStatusCommand (SRAMType s) (SRAMCmd s) (SRAMProfile s) then
        (0, if SRAMCmd s = 0x01 \<and> SRAMPos s = 1 then s\<lparr>SRAMAddr := ucast val\<rparr> else s)
      else if SRAMType s = 1 then SRAMWrite_EEPROMTiny val s
      else if SRAMType s = 2 then SRAMWrite_EEPROM val s
      else if SRAMType s = 3 then SRAMWrite_FLASH val s
      else (0xFF, s))"

definition count_byte :: "u8 \<times> save_chip \<Rightarrow> u8 \<times> save_chip" where
  "count_byte = (\<lambda>(ret, s). (ret, if SRAMPos s \<noteq> 0xFFFFFFFF then s\<lparr>SRAMPos := SRAMPos s + 1\<rparr> else s))"

definition SPITransmitReceive :: "u8 \<Rightarrow> save_chip \<Rightarrow> u8 \<times> save_chip" where
  "SPITransmitReceive val s =
     (if SRAMType s = 0 then (0, s)
      else if PowerBlocked s then (0xFF, s)
      else if SRAMPos s = 0 then
        if PowerState s \<noteq> Awake \<and> \<not> (PowerState s = Asleep \<and> val = 0xAB)
        then (0xFF, s\<lparr>PowerBlocked := True, SRAMCmd := 0\<rparr>)
        else count_byte (first_byte val s)
      else if SRAMCmd s = 0 then (0xFF, s)
      else count_byte (later_byte val s))"

section \<open>Operations\<close>

datatype save_op = Select | Byte u8 | Release | Complete | Cancel bool | PowerOn | Import "u8 list"

fun save_step :: "save_op \<Rightarrow> save_chip \<Rightarrow> save_chip" where
  "save_step Select s = SPISelect s"
| "save_step (Byte v) s = snd (SPITransmitReceive v s)"
| "save_step Release s = SPIRelease s"
| "save_step Complete s = CompleteSave s"
| "save_step (Cancel powerOff) s = CancelSave powerOff s"
| "save_step PowerOn s = Reset s"
| "save_step (Import d) s = SetSaveMemory d s"

definition GetSaveDelay :: "save_chip \<Rightarrow> u32" where
  "GetSaveDelay s = (if WriteDelay s \<noteq> 0 then WriteDelay s else PowerDelay s)"

end
