(* ===== verification/NdsSaveInv.thy ===== *)
theory NdsSaveInv
  imports NdsSave
begin

text \<open>
  The invariant of the save memory: what is always true of a chip, that every operation keeps it, and that no
  operation but an import changes a byte behind the chip.
\<close>

section \<open>Powers of two\<close>

lemma exp_u32: "unat L = 2 ^ k \<Longrightarrow> k < 32" for L :: u32
proof -
  assume "unat L = 2 ^ k"
  then have "(2 :: nat) ^ k < 2 ^ 32" using unsigned_less [of L, where ?'a = nat] by simp
  then show "k < 32" by (rule power_less_imp_less_exp [rotated]) simp
qed

lemma unat_mask32: "k < 32 \<Longrightarrow> unat (mask k :: u32) = 2 ^ k - 1"
proof -
  assume "k < 32"
  have "unat (mask k :: u32) = unat (take_bit k (- 1 :: u32))" by (simp add: take_bit_minus_one_eq_mask)
  also have "\<dots> = mask k"
    using \<open>k < 32\<close> by (simp only: unsigned_take_bit_eq unsigned_minus_1_eq_mask take_bit_of_mask) simp
  finally show ?thesis by (simp add: mask_eq_exp_minus_1)
qed

lemma word_mask_pow:
  fixes L :: u32
  assumes "unat L = 2 ^ k"
  shows "L - 1 = mask k"
proof -
  have "L = of_nat (unat L)" by simp
  then have "L = 2 ^ k" by (simp only: assms of_nat_power of_nat_numeral)
  then show ?thesis by (simp add: mask_eq_decr_exp)
qed

lemma aligned_room:
  fixes a L len :: u32
  assumes "unat L = 2 ^ k" "unat len = 2 ^ j" "j \<le> k"
  shows "unat ((a AND (L - 1)) AND NOT (len - 1)) + unat len \<le> unat L"
proof -
  let ?y = "(a AND mask k) AND NOT (mask j) :: u32" and ?m = "mask j :: u32"
  have k: "k < 32" using assms(1) by (rule exp_u32)
  have "unat ?y + unat ?m = unat ?y OR unat ?m"
    by (rule disjunctive_add) (auto simp: bit_unsigned_iff bit_simps)
  also have "\<dots> = unat (?y OR ?m)" by (simp add: unsigned_or_eq)
  also have "?y OR ?m \<le> mask k"
  proof -
    have "(?y OR ?m) AND mask k = ?y OR ?m"
      using assms(3) by (intro bit_word_eqI) (auto simp: bit_simps)
    then show ?thesis by (metis word_and_le1)
  qed
  then have "unat (?y OR ?m) \<le> unat (mask k :: u32)" by (simp add: word_le_nat_alt)
  also have "unat (mask k :: u32) = 2 ^ k - 1"
    using k by (rule unat_mask32)
  finally have "unat ?y + unat ?m \<le> 2 ^ k - 1" by simp
  moreover have "unat ?m = 2 ^ j - 1"
    using k assms(3) by (simp add: unat_mask32)
  moreover have "(1 :: nat) \<le> 2 ^ j" "(1 :: nat) \<le> 2 ^ k" by simp_all
  ultimately have "unat ?y + 2 ^ j \<le> 2 ^ k" by linarith
  then show ?thesis
    by (simp only: word_mask_pow [OF assms(1)] word_mask_pow [OF assms(2)] assms(1,2))
qed

lemma masked_less: "0 < unat L \<Longrightarrow> unat (a AND (L - 1)) < unat L" for a L :: u32
proof -
  assume "0 < unat L"
  then have "unat (L - 1) = unat L - 1" by (metis unat_gt_0 unat_minus_one word_gt_0)
  moreover have "unat (a AND (L - 1)) \<le> unat (L - 1)" by (metis word_and_le1 word_le_nat_alt)
  ultimately show ?thesis using \<open>0 < unat L\<close> by simp
qed

section \<open>Chips\<close>

definition chip_kind :: "save_chip \<Rightarrow> nat \<Rightarrow> bool" where
  "chip_kind s t \<longleftrightarrow> SRAMLength s = SaveLengths ! t \<and> SRAMType s = SaveProtocol t \<and>
     SRAMProfile s = (if t \<ge> 11 then t else 0)"

definition geometry :: "save_chip \<Rightarrow> bool" where
  "geometry s \<longleftrightarrow> (\<exists>t < 18. chip_kind s t)"

definition fits_in :: "nat \<Rightarrow> nat \<Rightarrow> bool" where
  "fits_in a b \<longleftrightarrow> (\<exists>j k. a = 2 ^ j \<and> b = 2 ^ k \<and> j \<le> k)"

lemma fits_in_powers: "j \<le> k \<Longrightarrow> fits_in (2 ^ j) (2 ^ k)"
  by (auto simp: fits_in_def)

lemma fits_in_pages:
  "fits_in 16 512" "fits_in 256 262144" "fits_in 256 524288" "fits_in 256 1048576" "fits_in 256 131072"
  "fits_in 32 8192" "fits_in 128 65536"
  "fits_in 4096 262144" "fits_in 4096 524288" "fits_in 4096 1048576"
  "fits_in 65536 262144" "fits_in 65536 524288" "fits_in 65536 1048576"
  "fits_in 262144 262144" "fits_in 524288 524288" "fits_in 1048576 1048576"
  using fits_in_powers [of 4 9] fits_in_powers [of 8 18] fits_in_powers [of 8 19] fits_in_powers [of 8 20]
    fits_in_powers [of 8 17] fits_in_powers [of 5 13] fits_in_powers [of 7 16]
    fits_in_powers [of 12 18] fits_in_powers [of 12 19] fits_in_powers [of 12 20]
    fits_in_powers [of 16 18] fits_in_powers [of 16 19] fits_in_powers [of 16 20]
    fits_in_powers [of 18 18] fits_in_powers [of 19 19] fits_in_powers [of 20 20]
  by simp_all

lemma geometry_facts:
  assumes "geometry s"
  shows "SRAMType s \<noteq> 0 \<Longrightarrow> 0 < unat (SRAMLength s)"
    and "IsFlashProfile (SRAMProfile s) \<Longrightarrow> SRAMType s = 3 \<and> unat (SRAMLength s) \<le> 1048576 \<and> 0 < unat (SRAMLength s)"
    and "SRAMType s = 1 \<Longrightarrow> SRAMLength s = 512"
    and "erase_size c s \<noteq> 0 \<Longrightarrow> fits_in (unat (erase_size c s)) (unat (SRAMLength s))"
    and "page_size s \<noteq> 0 \<Longrightarrow> fits_in (unat (page_size s)) (unat (SRAMLength s)) \<and> unat (page_size s) \<le> 256"
proof -
  obtain t where t: "t < 18" "chip_kind s t" using assms by (auto simp: geometry_def)
  have kinds: "t = 0 \<or> t = 1 \<or> t = 2 \<or> t = 3 \<or> t = 4 \<or> t = 5 \<or> t = 6 \<or> t = 7 \<or> t = 8 \<or>
      t = 9 \<or> t = 10 \<or> t = 11 \<or> t = 12 \<or> t = 13 \<or> t = 14 \<or> t = 15 \<or> t = 16 \<or> t = 17"
    using t(1) by presburger
  note kind = chip_kind_def SaveLengths_def SaveProtocol_def IsFlashProfile_def page_size_def EEPROMPageSize_def
  show "SRAMType s \<noteq> 0 \<Longrightarrow> 0 < unat (SRAMLength s)"
    using kinds t(2) by (elim disjE) (simp_all add: kind)
  show "IsFlashProfile (SRAMProfile s) \<Longrightarrow> SRAMType s = 3 \<and> unat (SRAMLength s) \<le> 1048576 \<and> 0 < unat (SRAMLength s)"
    using kinds t(2) by (elim disjE) (simp_all add: kind)
  show "SRAMType s = 1 \<Longrightarrow> SRAMLength s = 512"
    using kinds t(2) by (elim disjE) (simp_all add: kind)
  show "erase_size c s \<noteq> 0 \<Longrightarrow> fits_in (unat (erase_size c s)) (unat (SRAMLength s))"
    using kinds t(2)
    by (elim disjE) (simp_all add: kind erase_size_def FlashEraseSize_def fits_in_pages split: if_splits)
  show "page_size s \<noteq> 0 \<Longrightarrow> fits_in (unat (page_size s)) (unat (SRAMLength s)) \<and> unat (page_size s) \<le> 256"
    using kinds t(2)
    by (elim disjE) (simp_all add: kind fits_in_pages)
qed

section \<open>The invariant\<close>

text \<open>What a pending write cycle will reach.\<close>

definition write_size :: "save_chip \<Rightarrow> u32" where
  "write_size s = (if erase_size (WriteCommand s) s \<noteq> 0 then erase_size (WriteCommand s) s else page_size s)"

definition cycle_ok :: "save_chip \<Rightarrow> bool" where
  "cycle_ok s \<longleftrightarrow>
     (WriteDelay s \<noteq> 0 \<longrightarrow> WriteCommand s \<noteq> 1 \<longrightarrow>
        unat (WriteAddress s) + unat (write_size s) \<le> unat (SRAMLength s) \<and>
        (WriteCommand s = 0x02 \<or> WriteCommand s = 0x0A \<longrightarrow> page_size s \<noteq> 0 \<and> WriteFirst s < page_size s))"

definition chip_ok :: "save_chip \<Rightarrow> bool" where
  "chip_ok s \<longleftrightarrow> geometry s \<and> unat (SRAMLength s) \<le> length (SRAM s) \<and>
     unat (SRAMFileLength s) \<le> length (SRAM s) \<and>
     length (PageBuffer s) = 256 \<and> length (WriteBuffer s) = 256 \<and> length (FlashLocks s) = 16 \<and>
     length (File s) = length (SRAM s) \<and>
     (PagePending s \<longrightarrow> page_size s \<noteq> 0) \<and> cycle_ok s \<and> \<not> fault s"

text \<open>The same chip with the same bytes behind it.\<close>

definition same_chip :: "save_chip \<Rightarrow> save_chip \<Rightarrow> bool" where
  "same_chip s s' \<longleftrightarrow> SRAMLength s' = SRAMLength s \<and> SRAMType s' = SRAMType s \<and>
     SRAMProfile s' = SRAMProfile s \<and> SRAMFileLength s' = SRAMFileLength s \<and>
     length (SRAM s') = length (SRAM s) \<and>
     drop (unat (SRAMLength s)) (SRAM s') = drop (unat (SRAMLength s)) (SRAM s)"

definition keeps :: "save_chip \<Rightarrow> save_chip \<Rightarrow> bool" where
  "keeps s s' \<longleftrightarrow> chip_ok s' \<and> same_chip s s'"

lemma sizes_upd [simp]:
  "page_size (s\<lparr>SRAMPos := w\<rparr>) = page_size s" "page_size (s\<lparr>SRAMCmd := c\<rparr>) = page_size s"
  "page_size (s\<lparr>SRAMAddr := w\<rparr>) = page_size s" "page_size (s\<lparr>SRAMStatus := c\<rparr>) = page_size s"
  "page_size (s\<lparr>SRAMSaveAddr := w\<rparr>) = page_size s" "page_size (s\<lparr>SRAMSaveLen := w\<rparr>) = page_size s"
  "page_size (s\<lparr>PagePending := b\<rparr>) = page_size s" "page_size (s\<lparr>PowerState := p\<rparr>) = page_size s"
  "page_size (s\<lparr>PowerDelay := w\<rparr>) = page_size s" "page_size (s\<lparr>PowerBlocked := b\<rparr>) = page_size s"
  "page_size (s\<lparr>SRAM := m\<rparr>) = page_size s" "page_size (s\<lparr>File := m\<rparr>) = page_size s"
  "page_size (s\<lparr>PageBuffer := m\<rparr>) = page_size s" "page_size (s\<lparr>WriteBuffer := m\<rparr>) = page_size s"
  "page_size (s\<lparr>FlashLocks := m\<rparr>) = page_size s" "page_size (s\<lparr>WriteDelay := w\<rparr>) = page_size s"
  "page_size (s\<lparr>WriteCommand := c\<rparr>) = page_size s" "page_size (s\<lparr>WriteAddress := w\<rparr>) = page_size s"
  "page_size (s\<lparr>WriteFirst := w\<rparr>) = page_size s" "page_size (s\<lparr>WriteLength := w\<rparr>) = page_size s"
  by (simp_all add: page_size_def)

lemma erase_size_upd [simp]:
  "erase_size d (s\<lparr>SRAMPos := w\<rparr>) = erase_size d s" "erase_size d (s\<lparr>SRAMCmd := c\<rparr>) = erase_size d s"
  "erase_size d (s\<lparr>SRAMAddr := w\<rparr>) = erase_size d s" "erase_size d (s\<lparr>SRAMStatus := c\<rparr>) = erase_size d s"
  "erase_size d (s\<lparr>SRAMSaveAddr := w\<rparr>) = erase_size d s" "erase_size d (s\<lparr>SRAMSaveLen := w\<rparr>) = erase_size d s"
  "erase_size d (s\<lparr>PagePending := b\<rparr>) = erase_size d s" "erase_size d (s\<lparr>PowerState := p\<rparr>) = erase_size d s"
  "erase_size d (s\<lparr>PowerDelay := w\<rparr>) = erase_size d s" "erase_size d (s\<lparr>PowerBlocked := b\<rparr>) = erase_size d s"
  "erase_size d (s\<lparr>SRAM := m\<rparr>) = erase_size d s" "erase_size d (s\<lparr>File := m\<rparr>) = erase_size d s"
  "erase_size d (s\<lparr>PageBuffer := m\<rparr>) = erase_size d s" "erase_size d (s\<lparr>WriteBuffer := m\<rparr>) = erase_size d s"
  "erase_size d (s\<lparr>FlashLocks := m\<rparr>) = erase_size d s" "erase_size d (s\<lparr>WriteDelay := w\<rparr>) = erase_size d s"
  "erase_size d (s\<lparr>WriteCommand := c\<rparr>) = erase_size d s" "erase_size d (s\<lparr>WriteAddress := w\<rparr>) = erase_size d s"
  "erase_size d (s\<lparr>WriteFirst := w\<rparr>) = erase_size d s" "erase_size d (s\<lparr>WriteLength := w\<rparr>) = erase_size d s"
  by (simp_all add: erase_size_def)

text \<open>The registers of a transaction are free.\<close>

lemmas chip_ok_defs = chip_ok_def geometry_def chip_kind_def cycle_ok_def write_size_def

lemma chip_ok_upd [simp]:
  "chip_ok (s\<lparr>SRAMPos := w\<rparr>) = chip_ok s" "chip_ok (s\<lparr>SRAMCmd := c\<rparr>) = chip_ok s"
  "chip_ok (s\<lparr>SRAMAddr := w\<rparr>) = chip_ok s" "chip_ok (s\<lparr>SRAMStatus := c\<rparr>) = chip_ok s"
  "chip_ok (s\<lparr>SRAMSaveAddr := w\<rparr>) = chip_ok s" "chip_ok (s\<lparr>SRAMSaveLen := w\<rparr>) = chip_ok s"
  "chip_ok (s\<lparr>PowerState := p\<rparr>) = chip_ok s" "chip_ok (s\<lparr>PowerDelay := w\<rparr>) = chip_ok s"
  "chip_ok (s\<lparr>PowerBlocked := b\<rparr>) = chip_ok s"
  by (simp_all add: chip_ok_defs)

lemma same_chip_upd [simp]:
  "same_chip s (t\<lparr>SRAMPos := w\<rparr>) = same_chip s t" "same_chip s (t\<lparr>SRAMCmd := c\<rparr>) = same_chip s t"
  "same_chip s (t\<lparr>SRAMAddr := w\<rparr>) = same_chip s t" "same_chip s (t\<lparr>SRAMStatus := c\<rparr>) = same_chip s t"
  "same_chip s (t\<lparr>SRAMSaveAddr := w\<rparr>) = same_chip s t" "same_chip s (t\<lparr>SRAMSaveLen := w\<rparr>) = same_chip s t"
  "same_chip s (t\<lparr>PagePending := b\<rparr>) = same_chip s t" "same_chip s (t\<lparr>PowerState := p\<rparr>) = same_chip s t"
  "same_chip s (t\<lparr>PowerDelay := w\<rparr>) = same_chip s t" "same_chip s (t\<lparr>PowerBlocked := b\<rparr>) = same_chip s t"
  "same_chip s (t\<lparr>File := m\<rparr>) = same_chip s t" "same_chip s (t\<lparr>fault := b\<rparr>) = same_chip s t"
  "same_chip s (t\<lparr>PageBuffer := m\<rparr>) = same_chip s t" "same_chip s (t\<lparr>WriteBuffer := m\<rparr>) = same_chip s t"
  "same_chip s (t\<lparr>FlashLocks := m\<rparr>) = same_chip s t" "same_chip s (t\<lparr>WriteDelay := w\<rparr>) = same_chip s t"
  "same_chip s (t\<lparr>WriteCommand := c\<rparr>) = same_chip s t" "same_chip s (t\<lparr>WriteAddress := w\<rparr>) = same_chip s t"
  "same_chip s (t\<lparr>WriteFirst := w\<rparr>) = same_chip s t" "same_chip s (t\<lparr>WriteLength := w\<rparr>) = same_chip s t"
  by (simp_all add: same_chip_def)

lemma keeps_upd [simp]:
  "keeps s (t\<lparr>SRAMPos := w\<rparr>) = keeps s t" "keeps s (t\<lparr>SRAMCmd := c\<rparr>) = keeps s t"
  "keeps s (t\<lparr>SRAMAddr := w\<rparr>) = keeps s t" "keeps s (t\<lparr>SRAMStatus := c\<rparr>) = keeps s t"
  "keeps s (t\<lparr>SRAMSaveAddr := w\<rparr>) = keeps s t" "keeps s (t\<lparr>SRAMSaveLen := w\<rparr>) = keeps s t"
  "keeps s (t\<lparr>PowerState := p\<rparr>) = keeps s t" "keeps s (t\<lparr>PowerDelay := w\<rparr>) = keeps s t"
  "keeps s (t\<lparr>PowerBlocked := b\<rparr>) = keeps s t"
  by (simp_all add: keeps_def)

lemma same_chip_refl [simp]: "same_chip s s"
  by (simp add: same_chip_def)

lemma keeps_refl [simp]: "keeps s s = chip_ok s"
  by (simp add: keeps_def)

lemma keeps_trans: "keeps s t \<Longrightarrow> keeps t u \<Longrightarrow> keeps s u"
  by (auto simp: keeps_def same_chip_def)

lemma keeps_ok: "keeps s t \<Longrightarrow> chip_ok t"
  by (simp add: keeps_def)

lemma keeps_idle: "keeps s t \<Longrightarrow> keeps s (t\<lparr>PagePending := False\<rparr>)"
  by (auto simp: keeps_def chip_ok_defs)

section \<open>Accesses\<close>

lemma sram_read_ok: "chip_ok s \<Longrightarrow> unat i < unat (SRAMLength s) \<Longrightarrow> sram_read i s = (SRAM s ! unat i, s)"
  by (simp add: sram_read_def chip_ok_def)

lemma sram_write_ok: "chip_ok s \<Longrightarrow> unat i < unat (SRAMLength s) \<Longrightarrow> keeps s (sram_write i v s)"
  by (auto simp: sram_write_def keeps_def chip_ok_defs same_chip_def)

lemma masked_in_chip: "chip_ok s \<Longrightarrow> SRAMType s \<noteq> 0 \<Longrightarrow> unat (a AND (SRAMLength s - 1)) < unat (SRAMLength s)"
  using geometry_facts(1) [of s] by (auto simp: chip_ok_def intro: masked_less)

lemma lock_index:
  assumes "chip_ok s" "IsFlashProfile (SRAMProfile s)"
  shows "unat (drop_bit 16 (a AND (SRAMLength s - 1)) :: u32) < 16"
proof -
  have g: "unat (SRAMLength s) \<le> 1048576" "0 < unat (SRAMLength s)"
    using geometry_facts(2) assms by (auto simp: chip_ok_def)
  have "unat (drop_bit 16 (a AND (SRAMLength s - 1)) :: u32) = unat (a AND (SRAMLength s - 1)) div 65536"
    by (simp only: unat_drop_bit_eq) (simp add: drop_bit_eq_div)
  with masked_less [OF g(2), of a] g(1) show ?thesis by simp
qed

lemma lock_read_ok:
  "chip_ok s \<Longrightarrow> IsFlashProfile (SRAMProfile s) \<Longrightarrow>
   snd (lock_read (drop_bit 16 (a AND (SRAMLength s - 1))) s) = s"
  using lock_index [of s a] by (simp add: lock_read_def chip_ok_def)

lemma lock_write_ok: "chip_ok s \<Longrightarrow> unat i < 16 \<Longrightarrow> keeps s (lock_write i v s)"
  by (auto simp: lock_write_def keeps_def) (auto simp: chip_ok_defs)

lemma IsWriteProtected_ok [simp]: "chip_ok s \<Longrightarrow> snd (IsWriteProtected a s) = s"
  by (simp add: IsWriteProtected_def flash_protected_def Let_def split_beta lock_read_ok del: drop_bit_and)

lemma WriteNDSSave_ok:
  "chip_ok s \<Longrightarrow> unat offset + unat len \<le> unat (SRAMLength s) \<Longrightarrow> keeps s (WriteNDSSave offset len s)"
  by (auto simp: WriteNDSSave_def keeps_def chip_ok_defs same_chip_def splice_def)

section \<open>Every operation\<close>

lemma CancelSave_ok: "chip_ok s \<Longrightarrow> keeps s (CancelSave p s)"
  by (auto simp: CancelSave_def keeps_def Let_def) (auto simp: chip_ok_defs)

lemma Reset_ok: "chip_ok s \<Longrightarrow> keeps s (Reset s)"
  by (simp add: Reset_def Let_def keeps_idle CancelSave_ok)

lemma SPISelect_ok: "chip_ok s \<Longrightarrow> keeps s (SPISelect s)"
  by (simp add: SPISelect_def Let_def keeps_idle)

lemma BeginSave_ok:
  assumes "chip_ok s"
    and "command \<noteq> 1 \<Longrightarrow> unat address + unat (if erase_size command s \<noteq> 0 then erase_size command s else page_size s) \<le> unat (SRAMLength s)"
    and "command = 0x02 \<or> command = 0x0A \<Longrightarrow> page_size s \<noteq> 0 \<and> first < page_size s"
  shows "keeps s (BeginSave command address first len s)"
  using assms by (auto simp: BeginSave_def keeps_def Let_def) (auto simp: chip_ok_defs)

lemma release_power_ok: "chip_ok s \<Longrightarrow> keeps s (release_power s)"
  by (simp add: release_power_def end_command_def Let_def)

lemma release_status_ok: "chip_ok s \<Longrightarrow> keeps s (release_status s)"
  using BeginSave_ok [of s 1 "ucast (ucast (SRAMAddr s) AND StatusMask (SRAMType s) (SRAMProfile s) :: u8)" 0 0]
  by (simp add: release_status_def end_command_def Let_def)

lemma release_lock_ok: "chip_ok s \<Longrightarrow> IsFlashProfile (SRAMProfile s) \<Longrightarrow> keeps s (release_lock s)"
  using lock_index [of s "SRAMAddr s"] lock_read_ok [of s "SRAMAddr s"]
  by (simp add: release_lock_def end_command_def Let_def split_beta lock_write_ok del: drop_bit_and)

lemma sizes_zero: "erase_size 0xC7 s = (if SRAMType s = 3 \<and> IsFlashProfile (SRAMProfile s) then SRAMLength s else 0)"
  "erase_size 0x02 s = 0" "erase_size 0x0A s = 0"
  by (simp_all add: erase_size_def FlashEraseSize_def)

lemma release_bulk_erase_ok:
  assumes "chip_ok s" "IsFlashProfile (SRAMProfile s)"
  shows "keeps s (release_bulk_erase s)"
proof -
  have g: "SRAMType s = 3" "unat (SRAMLength s) \<le> 1048576" "0 < unat (SRAMLength s)"
    using geometry_facts(2) assms by (auto simp: chip_ok_def)
  then have n: "unat (SRAMLength s div 65536) \<le> length (FlashLocks s)"
    using assms(1) by (simp add: unat_div chip_ok_def)
  have "SRAMLength s \<noteq> 0" using g(3) by auto
  then have "keeps s (BeginSave 0xC7 0 0 (SRAMLength s) s)"
    using assms g(1) by (intro BeginSave_ok) (auto simp: sizes_zero)
  with assms(1) n show ?thesis
    by (simp add: release_bulk_erase_def end_command_def Let_def)
qed

lemma fits_room:
  "fits_in (unat len) (unat L) \<Longrightarrow> unat ((a AND (L - 1)) AND NOT (len - 1)) + unat len \<le> unat L" for a L len :: u32
  by (auto simp: fits_in_def intro: aligned_room)

lemma release_page_ok:
  assumes "chip_ok s" "PagePending s"
  shows "keeps s (release_page s)"
proof -
  have p: "page_size s \<noteq> 0" "geometry s" using assms by (auto simp: chip_ok_def)
  define len where "len = (if erase_size (SRAMCmd s) s \<noteq> 0 then erase_size (SRAMCmd s) s else page_size s)"
  have "fits_in (unat len) (unat (SRAMLength s))"
    using geometry_facts(4) [OF p(2)] geometry_facts(5) [OF p(2) p(1)] by (simp add: len_def)
  then have room: "unat ((SRAMSaveAddr s AND (SRAMLength s - 1)) AND NOT (len - 1)) + unat len \<le> unat (SRAMLength s)"
    by (rule fits_room)
  have first: "(SRAMAddr s - SRAMSaveLen s) AND (page_size s - 1) < page_size s"
    using masked_less [of "page_size s"] p(1) by (simp add: word_less_nat_alt unat_gt_0)
  have "keeps s (BeginSave (SRAMCmd s) ((SRAMSaveAddr s AND (SRAMLength s - 1)) AND NOT (len - 1))
      (if erase_size (SRAMCmd s) s \<noteq> 0 then 0 else (SRAMAddr s - SRAMSaveLen s) AND (page_size s - 1))
      (SRAMSaveLen s) s)"
    using assms(1) room p(1) first unfolding len_def
    by (intro BeginSave_ok) (auto simp: sizes_zero)
  then show ?thesis
    by (auto simp: release_page_def Let_def len_def [symmetric] end_command_def keeps_def) (auto simp: chip_ok_defs)
qed

lemma dirty_range_inside:
  assumes "chip_ok s" "SRAMLength s \<noteq> 0"
  shows "unat (fst (dirty_range s)) + unat (snd (dirty_range s)) \<le> unat (SRAMLength s)"
proof -
  have low: "unat (SRAMSaveAddr s AND 0x1F0) \<le> 0x1F0"
    using word_and_le1 [of "SRAMSaveAddr s" "0x1F0"] by (simp add: word_le_nat_alt)
  define offset where "offset = (if SRAMType s = 1 then SRAMSaveAddr s AND 0x1F0
                                 else SRAMSaveAddr s AND (SRAMLength s - 1))"
  have "offset \<le> SRAMLength s"
  proof (cases "SRAMType s = 1")
    case True
    then show ?thesis
      using low geometry_facts(3) [of s] assms by (simp add: offset_def chip_ok_def word_le_nat_alt)
  next
    case False
    then show ?thesis
      using masked_less [of "SRAMLength s" "SRAMSaveAddr s"] assms(2)
      by (simp add: offset_def word_le_nat_alt unat_gt_0)
  qed
  then have room: "unat (SRAMLength s - offset) = unat (SRAMLength s) - unat offset"
    "unat offset \<le> unat (SRAMLength s)"
    by (simp_all add: unat_sub word_le_nat_alt)
  define len where "len = (if SRAMType s = 1 then 16 else min (SRAMSaveLen s) (SRAMLength s))"
  have "dirty_range s = (if len > SRAMLength s - offset then (0, SRAMLength s) else (offset, len))"
    by (simp only: dirty_range_def Let_def offset_def len_def)
  moreover have "\<not> len > SRAMLength s - offset \<Longrightarrow> unat len \<le> unat (SRAMLength s) - unat offset"
    using room(1) by (simp add: word_less_nat_alt)
  ultimately show ?thesis using room(2) by auto
qed

lemma flush_dirty_ok: "chip_ok s \<Longrightarrow> keeps s (flush_dirty s)"
  by (simp add: flush_dirty_def WriteNDSSave_ok dirty_range_inside)

lemma release_direct_ok: "chip_ok s \<Longrightarrow> keeps s (release_direct s)"
  by (simp add: release_direct_def Let_def flush_dirty_ok)

lemma SPIRelease_ok: "chip_ok s \<Longrightarrow> keeps s (SPIRelease s)"
  by (simp add: SPIRelease_def end_command_def release_power_ok release_status_ok release_lock_ok
      release_bulk_erase_ok release_page_ok release_direct_ok)


section \<open>A write cycle completes\<close>

definition ready :: "save_chip \<Rightarrow> bool" where
  "ready s \<longleftrightarrow> chip_ok s \<and> page_size s \<noteq> 0 \<and>
     unat (WriteAddress s) + unat (page_size s) \<le> unat (SRAMLength s)"

definition page_index :: "save_chip \<Rightarrow> nat \<Rightarrow> u32" where
  "page_index s i = (WriteFirst s + of_nat i) AND (page_size s - 1)"

lemma page_index_less: "page_size s \<noteq> 0 \<Longrightarrow> unat (page_index s i) < unat (page_size s)"
  unfolding page_index_def by (rule masked_less) (simp add: unat_gt_0)

lemma unat_sum: "unat a + unat b < 2 ^ 32 \<Longrightarrow> unat (a + b) = unat a + unat b" for a b :: u32
  by (simp add: unat_word_ariths)

lemma in_page:
  fixes a p L i :: u32
  assumes "unat a + unat p \<le> unat L" "unat i < unat p"
  shows "unat (a + i) = unat a + unat i" "unat a + unat i < unat L"
proof -
  have "unat a + unat i < 2 ^ 32"
    using assms unsigned_less [of L, where ?'a = nat] by simp
  then show "unat (a + i) = unat a + unat i" by (rule unat_sum)
  show "unat a + unat i < unat L" using assms by simp
qed

lemma page_size_le: "page_size s \<le> 256"
  by (simp add: page_size_def EEPROMPageSize_def)

lemma program_byte_eq:
  assumes "ready s"
  shows "program_byte i s = s\<lparr>SRAM := (SRAM s)[unat (WriteAddress s) + unat (page_index s i) :=
     (if SRAMType s = 3 \<and> WriteCommand s = 0x02
      then SRAM s ! (unat (WriteAddress s) + unat (page_index s i)) AND WriteBuffer s ! unat (page_index s i)
      else WriteBuffer s ! unat (page_index s i))]\<rparr>"
proof -
  note in_page = in_page [OF _ page_index_less, of "WriteAddress s" s "SRAMLength s" i]
  have "unat (WriteAddress s + page_index s i) = unat (WriteAddress s) + unat (page_index s i)"
    "unat (WriteAddress s) + unat (page_index s i) < length (SRAM s)"
    using in_page assms by (auto simp: ready_def chip_ok_def)
  moreover have "unat (page_index s i) < length (WriteBuffer s)"
    using page_index_less [of s i] page_size_le [of s] assms by (simp add: ready_def chip_ok_def word_le_nat_alt)
  ultimately show ?thesis
    by (simp add: program_byte_def page_index_def [symmetric] Let_def sram_read_def sram_write_def buffer_read_def)
qed

lemma keeps_store: "chip_ok s \<Longrightarrow> p < unat (SRAMLength s) \<Longrightarrow> keeps s (s\<lparr>SRAM := (SRAM s)[p := v]\<rparr>)"
  by (auto simp: keeps_def chip_ok_defs same_chip_def)

lemma program_byte_ready:
  assumes "ready s"
  shows "ready (program_byte i s) \<and> keeps s (program_byte i s) \<and>
    (\<exists>m. program_byte i s = s\<lparr>SRAM := m\<rparr>)"
proof -
  have "unat (WriteAddress s) + unat (page_index s i) < unat (SRAMLength s)"
    using in_page(2) [OF _ page_index_less, of "WriteAddress s" s "SRAMLength s" i] assms by (auto simp: ready_def)
  then have "keeps s (program_byte i s)"
    using assms unfolding program_byte_eq [OF assms] by (intro keeps_store) (simp_all add: ready_def)
  moreover from this have "ready (program_byte i s)"
    using assms unfolding program_byte_eq [OF assms] by (simp add: ready_def keeps_def)
  moreover have "\<exists>m. program_byte i s = s\<lparr>SRAM := m\<rparr>"
    by (rule exI, rule program_byte_eq [OF assms])
  ultimately show ?thesis by (intro conjI)
qed

lemma program_bytes_ready:
  "ready s \<Longrightarrow> ready (fold program_byte ks s) \<and> keeps s (fold program_byte ks s) \<and>
     (\<exists>m. fold program_byte ks s = s\<lparr>SRAM := m\<rparr>)"
proof (induction ks arbitrary: s)
  case Nil
  moreover have "s = s\<lparr>SRAM := SRAM s\<rparr>" by simp
  then have "\<exists>m. s = s\<lparr>SRAM := m\<rparr>" by (rule exI)
  ultimately show ?case by (simp add: ready_def)
next
  case (Cons i ks)
  obtain m where m: "program_byte i s = s\<lparr>SRAM := m\<rparr>" and r: "ready (s\<lparr>SRAM := m\<rparr>)" and k: "keeps s (s\<lparr>SRAM := m\<rparr>)"
    using program_byte_ready [OF Cons.prems, of i] by (elim conjE exE) simp
  obtain n where n: "fold program_byte ks (s\<lparr>SRAM := m\<rparr>) = s\<lparr>SRAM := n\<rparr>"
    using Cons.IH [OF r] by (elim conjE exE) simp
  have "fold program_byte (i # ks) s = s\<lparr>SRAM := n\<rparr>" by (simp add: m n)
  moreover have "ready (s\<lparr>SRAM := n\<rparr>)" "keeps s (s\<lparr>SRAM := n\<rparr>)"
    using Cons.IH [OF r] k unfolding n by (blast intro: keeps_trans)+
  moreover have "\<exists>m. s\<lparr>SRAM := n\<rparr> = s\<lparr>SRAM := m\<rparr>" by (rule exI, rule refl)
  ultimately show ?case by (simp only: simp_thms)
qed

lemma program_page_ok:
  assumes "ready s"
  shows "ready (program_page s)" "keeps s (program_page s)" "\<exists>m. program_page s = s\<lparr>SRAM := m\<rparr>"
  using program_bytes_ready [OF assms] by (auto simp: program_page_def)

lemma erase_block_ok:
  assumes "chip_ok s" "unat offset + unat len \<le> unat (SRAMLength s)"
  shows "keeps s (erase_block offset len s)"
  using assms by (auto simp: erase_block_def keeps_def chip_ok_defs same_chip_def splice_def)

lemma keeps_length: "keeps s t \<Longrightarrow> SRAMLength t = SRAMLength s"
  by (simp add: keeps_def same_chip_def)

lemma write_back:
  assumes "keeps s t" "unat offset + unat len \<le> unat (SRAMLength s)"
  shows "keeps s (WriteNDSSave offset len (t\<lparr>SRAMStatus := x\<rparr>))"
  by (rule keeps_trans [OF assms(1)])
     (use assms WriteNDSSave_ok [of "t\<lparr>SRAMStatus := x\<rparr>" offset len] in
       \<open>auto simp: keeps_def same_chip_def\<close>)

lemma program_done_ok:
  assumes "chip_ok s"
    and room: "unat (WriteAddress s) + unat (write_size s) \<le> unat (SRAMLength s)"
    and page: "WriteCommand s = 0x02 \<or> WriteCommand s = 0x0A \<Longrightarrow> page_size s \<noteq> 0 \<and> WriteFirst s < page_size s"
  shows "keeps s (program_done s)"
proof (cases "WriteCommand s = 0x02 \<or> WriteCommand s = 0x0A")
  case True
  then have size: "write_size s = page_size s" by (auto simp: write_size_def sizes_zero)
  with assms True have "ready s" by (auto simp: ready_def)
  then obtain m where m: "program_page s = s\<lparr>SRAM := m\<rparr>" and k: "keeps s (s\<lparr>SRAM := m\<rparr>)"
    using program_page_ok [of s] by auto
  have first: "unat (WriteFirst s) < unat (page_size s)"
    using page [OF True] by (simp add: word_less_nat_alt)
  have inner: "unat (WriteAddress s + WriteFirst s) + unat (WriteLength s) \<le> unat (SRAMLength s)"
    if "WriteLength s \<le> page_size s - WriteFirst s"
  proof -
    have "unat (WriteLength s) \<le> unat (page_size s) - unat (WriteFirst s)"
      using that first by (simp add: word_le_nat_alt unat_sub)
    then show ?thesis
      using in_page(1) [OF room [unfolded size] first] room size first by simp
  qed
  have len: "(if erase_size (WriteCommand s) s \<noteq> 0 then erase_size (WriteCommand s) s else page_size s) = page_size s"
    using size by (simp add: write_size_def)
  show ?thesis
    using True room size
    by (simp add: program_done_def len Let_def m write_back [OF k] inner)
next
  case False
  have "keeps s (WriteNDSSave (WriteAddress s) (write_size s)
      ((erase_block (WriteAddress s) (write_size s) s)\<lparr>SRAMStatus := x\<rparr>))" for x
    by (rule write_back [OF erase_block_ok [OF assms(1) room] room])
  moreover have "WriteAddress (erase_block a n s) = WriteAddress s" for a n
    by (simp add: erase_block_def)
  ultimately show ?thesis
    using False by (simp add: program_done_def Let_def write_size_def [symmetric])
qed

lemma no_cycle_ok: "chip_ok s \<Longrightarrow> keeps s (s\<lparr>WriteDelay := 0\<rparr>)"
  by (auto simp: keeps_def) (auto simp: chip_ok_defs)

lemma end_cycle_ok:
  "keeps s t \<Longrightarrow> WriteDelay t = 0 \<Longrightarrow>
   keeps s (t\<lparr>WriteCommand := 0, WriteAddress := 0, WriteFirst := 0, WriteLength := 0\<rparr>)"
  by (auto simp: keeps_def) (auto simp: chip_ok_defs)

lemma program_done_delay [simp]: "chip_ok s \<Longrightarrow> WriteDelay (program_done s) = WriteDelay s"
proof -
  have "WriteDelay (program_byte i s) = WriteDelay s" for i s
    by (simp add: program_byte_def sram_read_def sram_write_def buffer_read_def Let_def)
  then have "WriteDelay (fold program_byte ks s) = WriteDelay s" for ks s
    by (induction ks arbitrary: s) simp_all
  then show ?thesis
    by (simp add: program_done_def Let_def split_beta WriteNDSSave_def erase_block_def program_page_def)
qed

lemma write_size_upd [simp]: "write_size (s\<lparr>WriteDelay := w\<rparr>) = write_size s"
  by (simp add: write_size_def)

lemma CompleteSave_ok:
  assumes "chip_ok s"
  shows "keeps s (CompleteSave s)"
proof (cases "PowerDelay s = 0 \<and> WriteDelay s \<noteq> 0")
  case True
  let ?s = "s\<lparr>WriteDelay := 0\<rparr>"
  have k: "keeps s ?s" using assms by (rule no_cycle_ok)
  have c: "cycle_ok s" using assms by (simp add: chip_ok_def)
  have "keeps s (program_done ?s)" if "WriteCommand s \<noteq> 1"
    using k c True that
    by (intro keeps_trans [OF k] program_done_ok) (auto simp: cycle_ok_def keeps_def)
  with True k show ?thesis
    by (simp add: CompleteSave_def Let_def end_cycle_ok keeps_ok)
next
  case False
  then show ?thesis using assms by (auto simp: CompleteSave_def Let_def)
qed

section \<open>Bytes of a transaction\<close>

lemma page_write_ok: "chip_ok s \<Longrightarrow> unat i < 256 \<Longrightarrow> keeps s (page_write i v s)"
  by (auto simp: page_write_def keeps_def) (auto simp: chip_ok_defs)

lemma page_upd_ok: "chip_ok s \<Longrightarrow> length b = 256 \<Longrightarrow> page_size s \<noteq> 0 \<or> \<not> p \<Longrightarrow>
    keeps s (s\<lparr>PageBuffer := b, PagePending := p\<rparr>)"
  by (auto simp: keeps_def) (auto simp: chip_ok_defs)

lemma latch_ok: "chip_ok s \<Longrightarrow> 0 < unat n \<Longrightarrow> unat n \<le> 256 \<Longrightarrow> keeps s (latch n v s)"
  using masked_less [of n "SRAMAddr s"] by (simp add: latch_def Let_def page_write_ok)

lemma open_page_ok: "chip_ok s \<Longrightarrow> page_size s \<noteq> 0 \<Longrightarrow> keeps s (open_page s)"
  using page_upd_ok [of s fresh_page True] by (simp add: open_page_def fresh_page_def)

lemma low_bits: "unat (a AND 0x1F0) + 16 \<le> 512" for a :: u32
  using word_and_le1 [of a "0x1F0"] by (simp add: word_le_nat_alt)

lemma tiny_open_page_ok:
  assumes "chip_ok s" "SRAMType s = 1"
  shows "keeps s (tiny_open_page s)"
proof -
  have "length (SRAM s) \<ge> 512" "length (PageBuffer s) = 256"
    using assms geometry_facts(3) [of s] by (auto simp: chip_ok_def)
  then have *: "unat (SRAMSaveAddr s AND 0x1F0) + 16 \<le> length (SRAM s)"
    using low_bits [of "SRAMSaveAddr s"] by simp
  define m where "m = (if SRAMSaveLen s = 0 then fresh_page
    else splice 0 (take 16 (drop (unat (SRAMSaveAddr s AND 0x1F0)) (SRAM s))) fresh_page)"
  have "length m = 256" using * by (simp add: m_def fresh_page_def splice_def)
  moreover have "page_size s \<noteq> 0" using assms(2) by (simp add: page_size_def)
  ultimately have "keeps s (s\<lparr>PageBuffer := m, PagePending := True\<rparr>)"
    using assms(1) by (intro page_upd_ok) simp_all
  moreover have "tiny_open_page s = (if PagePending s then s else s\<lparr>PageBuffer := m, PagePending := True\<rparr>)"
    using * by (simp add: tiny_open_page_def m_def Let_def)
  ultimately show ?thesis using assms(1) by simp
qed

lemma tiny_write_ok: "chip_ok s \<Longrightarrow> SRAMType s = 1 \<Longrightarrow> keeps s (tiny_write v s)"
  using tiny_open_page_ok [of s] latch_ok [of "tiny_open_page s" 16 v]
  by (simp add: tiny_write_def split_beta Let_def keeps_trans keeps_ok)

lemma tiny_read_ok: "chip_ok s \<Longrightarrow> SRAMType s = 1 \<Longrightarrow> keeps s (snd (tiny_read v s))"
proof -
  assume s: "chip_ok s" "SRAMType s = 1"
  then have "unat (SRAMLength s) = 512" using geometry_facts(3) [of s] by (simp add: chip_ok_def)
  moreover have "unat (a AND 0x1FF) < 512" for a :: u32
    using word_and_le1 [of a "0x1FF"] by (simp add: word_le_nat_alt)
  ultimately show ?thesis
    using s by (simp add: tiny_read_def split_beta sram_read_ok)
qed

lemma tiny_ok: "chip_ok s \<Longrightarrow> SRAMType s = 1 \<Longrightarrow> keeps s (snd (SRAMWrite_EEPROMTiny v s))"
  by (simp add: SRAMWrite_EEPROMTiny_def tiny_write_ok tiny_read_ok)

lemma shift_in_ok [simp]: "keeps s (shift_in v t) = keeps s t"
  by (simp add: shift_in_def)

lemma start_write_ok [simp]: "keeps s (start_write t) = keeps s t"
  by (simp add: start_write_def)

lemma array_read_ok: "chip_ok s \<Longrightarrow> SRAMType s \<noteq> 0 \<Longrightarrow> keeps s (snd (array_read s))"
  by (simp add: array_read_def split_beta sram_read_ok masked_in_chip)

lemma eeprom_store_ok:
  assumes "chip_ok s" "SRAMType s = 2"
  shows "keeps s (eeprom_store (EEPROMPageSize (SRAMProfile s)) v s)"
proof -
  have p: "page_size s = EEPROMPageSize (SRAMProfile s)" using assms(2) by (simp add: page_size_def)
  have "unat (page_size s) \<le> 256" if "page_size s \<noteq> 0"
    using geometry_facts(5) [of s] assms(1) that by (simp add: chip_ok_def)
  then have "keeps s (latch (page_size s) v (open_page s))" if "page_size s \<noteq> 0"
    using that assms(1) open_page_ok [of s] latch_ok [of "open_page s" "page_size s" v]
    by (auto simp: unat_gt_0 intro: keeps_trans keeps_ok)
  moreover have "keeps s (sram_write (SRAMAddr s AND (SRAMLength s - 1)) v s)"
    using assms by (intro sram_write_ok) (simp_all add: masked_in_chip)
  ultimately show ?thesis
    by (simp add: eeprom_store_def Let_def p [symmetric])
qed

lemma eeprom_write_ok: "chip_ok s \<Longrightarrow> SRAMType s = 2 \<Longrightarrow> keeps s (eeprom_write v s)"
  by (simp add: eeprom_write_def split_beta Let_def eeprom_store_ok)

lemma eeprom_ok: "chip_ok s \<Longrightarrow> SRAMType s = 2 \<Longrightarrow> keeps s (snd (SRAMWrite_EEPROM v s))"
  by (simp add: SRAMWrite_EEPROM_def eeprom_write_ok array_read_ok)

lemma flash_write_ok:
  assumes "chip_ok s" "SRAMType s = 3"
  shows "keeps s (flash_write v s)"
proof -
  have "page_size s \<noteq> 0" using assms(2) by (simp add: page_size_def)
  then have "keeps s (latch 256 v (open_page s))"
    using assms(1) open_page_ok [of s] latch_ok [of "open_page s" 256 v]
    by (auto intro: keeps_trans keeps_ok)
  then show ?thesis
    using assms(1) by (simp add: flash_write_def split_beta Let_def)
qed

lemma flash_lock_ok: "chip_ok s \<Longrightarrow> keeps s (snd (flash_lock v s))"
  by (simp add: flash_lock_def lock_read_ok del: drop_bit_and)

lemma flash_erase_ok:
  assumes "chip_ok s" "SRAMType s = 3"
  shows "keeps s (flash_erase v s)"
proof -
  define s' where "s' = (if SRAMPos s \<le> 3 then start_write (shift_in v s) else s)"
  have k: "keeps s s'" and "chip_ok s'" "SRAMType s' = 3"
    using assms by (simp_all add: s'_def keeps_ok) (simp_all add: start_write_def shift_in_def)
  then have "page_size s' \<noteq> 0" by (simp add: page_size_def)
  then have "keeps s' (s'\<lparr>PagePending := True, PageBuffer := fresh_page\<rparr>)"
    using \<open>chip_ok s'\<close> by (auto simp: keeps_def fresh_page_def) (auto simp: chip_ok_defs)
  then have "keeps s (s'\<lparr>PagePending := True, PageBuffer := fresh_page, SRAMSaveLen := n\<rparr>)" for n
    using keeps_trans [OF k] by simp
  moreover have "keeps s (s'\<lparr>PagePending := False, SRAMSaveLen := 0\<rparr>)"
    using keeps_idle [OF k] by simp
  ultimately show ?thesis
    using k \<open>chip_ok s'\<close> unfolding flash_erase_def s'_def [symmetric] by (simp add: split_beta)
qed

lemma flash_ok: "chip_ok s \<Longrightarrow> SRAMType s = 3 \<Longrightarrow> keeps s (snd (SRAMWrite_FLASH v s))"
  by (simp add: SRAMWrite_FLASH_def Let_def flash_write_ok flash_lock_ok flash_erase_ok array_read_ok)

lemma count_byte_ok [simp]: "keeps s (snd (count_byte p)) = keeps s (snd p)"
  by (simp add: count_byte_def split_beta)

lemma first_byte_ok: "chip_ok s \<Longrightarrow> keeps s (snd (first_byte v s))"
  by (simp add: first_byte_def Let_def)

lemma later_byte_ok: "chip_ok s \<Longrightarrow> keeps s (snd (later_byte v s))"
  by (simp add: later_byte_def tiny_ok eeprom_ok flash_ok)

lemma SPITransmitReceive_ok: "chip_ok s \<Longrightarrow> keeps s (snd (SPITransmitReceive v s))"
  by (simp add: SPITransmitReceive_def first_byte_ok later_byte_ok)

end
