(* ===== verification/NdsSaveProps.thy ===== *)
theory NdsSaveProps
  imports NdsSaveInv
begin

text \<open>
  Runs of the save memory, in any order of operations: every access stays inside its array, the bytes behind
  the chip stay those the imports leave, and the save file follows the chip.
\<close>

section \<open>Runs\<close>

lemma SetSaveMemory_ok:
  assumes "chip_ok s"
  shows "chip_ok (SetSaveMemory d s)"
    and "SRAMLength (SetSaveMemory d s) = SRAMLength s"
    and "SRAMFileLength (SetSaveMemory d s) = SRAMFileLength s"
    and "SRAM (SetSaveMemory d s) = splice 0 (take (min (length d) (unat (SRAMFileLength s))) d) (SRAM s)"
proof -
  define t where "t = CancelSave False s"
  define n where "n = min (length d) (unat (SRAMFileLength s))"
  have t: "chip_ok t" using CancelSave_ok [OF assms] by (simp add: t_def keeps_def)
  have same: "SRAM t = SRAM s" "SRAMLength t = SRAMLength s" "SRAMFileLength t = SRAMFileLength s"
    by (simp_all add: t_def CancelSave_def)
  have n: "n \<le> length (SRAM s)" "unat (of_nat n :: u32) = n"
  proof -
    show "n \<le> length (SRAM s)" using assms by (auto simp: n_def chip_ok_def min_def)
    have "n < 2 ^ 32" using unsigned_less [of "SRAMFileLength s", where ?'a = nat] by (simp add: n_def)
    then show "unat (of_nat n :: u32) = n" by (simp add: unat_of_nat)
  qed
  have eq: "SetSaveMemory d s = (if SRAM s = [] then t
      else WriteNDSSave 0 (of_nat n) (t\<lparr>SRAM := splice 0 (take n d) (SRAM s)\<rparr>))"
    by (simp add: SetSaveMemory_def t_def [symmetric] Let_def same n_def min.commute)
  have len: "length (splice 0 (take n d) (SRAM s)) = length (SRAM s)"
    using n(1) by (simp add: splice_def n_def)
  show "SRAMLength (SetSaveMemory d s) = SRAMLength s" "SRAMFileLength (SetSaveMemory d s) = SRAMFileLength s"
    by (simp_all add: eq WriteNDSSave_def same)
  have empty: "SRAM s = [] \<Longrightarrow> n = 0" using n(1) by simp
  show "SRAM (SetSaveMemory d s) = splice 0 (take (min (length d) (unat (SRAMFileLength s))) d) (SRAM s)"
    using empty by (auto simp: eq WriteNDSSave_def same n_def [symmetric] splice_def)
  show "chip_ok (SetSaveMemory d s)"
    using t n len by (auto simp: eq WriteNDSSave_def same) (auto simp: chip_ok_defs same splice_def)
qed

definition is_import :: "save_op \<Rightarrow> bool" where
  "is_import op \<longleftrightarrow> (case op of Import d \<Rightarrow> True | _ \<Rightarrow> False)"

definition run :: "save_op list \<Rightarrow> save_chip \<Rightarrow> save_chip" where
  "run ops s = fold save_step ops s"

lemma run_simps [simp]: "run [] s = s" "run (op # ops) s = run ops (save_step op s)"
  by (simp_all add: run_def)

lemma save_step_keeps: "chip_ok s \<Longrightarrow> \<not> is_import op \<Longrightarrow> keeps s (save_step op s)"
  by (cases op) (simp_all add: is_import_def SPISelect_ok SPITransmitReceive_ok SPIRelease_ok CompleteSave_ok
      CancelSave_ok Reset_ok)

lemma save_step_ok: "chip_ok s \<Longrightarrow> chip_ok (save_step op s)"
  using save_step_keeps [of s op] SetSaveMemory_ok(1) [of s]
  by (cases op) (auto simp: is_import_def dest: keeps_ok)

lemma run_ok: "chip_ok s \<Longrightarrow> chip_ok (run ops s)"
  by (induction ops arbitrary: s) (simp_all add: save_step_ok)

lemma CartRetail_new_ok: "chip_ok (CartRetail_new t d)"
proof -
  define k where "k = (if t < length SaveLengths then t else 0)"
  define s where "s = CartRetail_new t d"
  have k: "k < 18" by (simp add: k_def SaveLengths_def)
  have "chip_kind s k"
    by (simp add: chip_kind_def s_def CartRetail_new_def Let_def k_def [symmetric])
  with k have g: "geometry s" by (auto simp: geometry_def)
  have "unat (of_nat m :: u32) \<le> m" for m by (simp add: unat_of_nat)
  then have f: "unat (SRAMFileLength s) \<le> length (SRAM s)" "unat (SRAMLength s) \<le> length (SRAM s)"
    by (auto simp: s_def CartRetail_new_def Let_def split: option.splits)
  have "WriteDelay s = 0" "\<not> PagePending s" "\<not> fault s" "length (PageBuffer s) = 256"
    "length (WriteBuffer s) = 256" "length (FlashLocks s) = 16" "File s = SRAM s"
    by (simp_all add: s_def CartRetail_new_def Let_def)
  with g f show ?thesis
    unfolding s_def [symmetric] by (simp add: chip_ok_def cycle_ok_def)
qed

text \<open>Two chips that agree behind the save memory.\<close>

definition same_rest :: "save_chip \<Rightarrow> save_chip \<Rightarrow> bool" where
  "same_rest s s' \<longleftrightarrow> SRAMLength s' = SRAMLength s \<and> SRAMFileLength s' = SRAMFileLength s \<and>
     length (SRAM s') = length (SRAM s) \<and>
     drop (unat (SRAMLength s)) (SRAM s') = drop (unat (SRAMLength s)) (SRAM s)"

lemma keeps_same_rest: "keeps s t \<Longrightarrow> same_rest s t"
  by (simp add: keeps_def same_chip_def same_rest_def)

lemma drop_splice:
  assumes "drop n xs = drop n ys"
  shows "drop n (splice 0 zs xs) = drop n (splice 0 zs ys)"
proof -
  have "drop (n - length zs + length zs) xs = drop (n - length zs + length zs) ys"
    using assms drop_drop [of "n - length zs + length zs - n" n] by (metis le_add_diff_inverse2 le_diff_conv order_refl)
  then show ?thesis by (simp add: splice_def)
qed

lemma Import_same_rest:
  assumes "chip_ok s" "chip_ok s'" "same_rest s s'"
  shows "same_rest (SetSaveMemory d s) (SetSaveMemory d s')"
  using assms SetSaveMemory_ok [OF assms(1)] SetSaveMemory_ok [OF assms(2)]
  by (auto simp: same_rest_def intro!: drop_splice) (simp_all add: splice_def)

lemma run_same_rest:
  "chip_ok s \<Longrightarrow> chip_ok s' \<Longrightarrow> same_rest s s' \<Longrightarrow> same_rest (run ops s) (run (filter is_import ops) s')"
proof (induction ops arbitrary: s s')
  case Nil
  then show ?case by simp
next
  case (Cons op ops)
  show ?case
  proof (cases "is_import op")
    case True
    then obtain d where "op = Import d" by (cases op) (auto simp: is_import_def)
    with Cons show ?thesis
      by (simp add: is_import_def Import_same_rest SetSaveMemory_ok)
  next
    case False
    have "same_rest (save_step op s) s'"
      using keeps_same_rest [OF save_step_keeps [OF Cons.prems(1) False]] Cons.prems(3)
      by (auto simp: same_rest_def)
    with Cons False show ?thesis by (simp add: save_step_ok)
  qed
qed

section \<open>The save file follows the chip\<close>

text \<open>Bytes go through a page latch, so the array changes only when a write cycle completes.\<close>

definition latched :: "save_chip \<Rightarrow> bool" where
  "latched s \<longleftrightarrow> (SRAMType s = 2 \<longrightarrow> page_size s \<noteq> 0)"

definition quiet :: "save_chip \<Rightarrow> save_chip \<Rightarrow> bool" where
  "quiet s s' \<longleftrightarrow> SRAM s' = SRAM s \<and> File s' = File s"

lemma quiet_upd [simp]:
  "quiet s (t\<lparr>SRAMPos := w\<rparr>) = quiet s t" "quiet s (t\<lparr>SRAMCmd := c\<rparr>) = quiet s t"
  "quiet s (t\<lparr>SRAMAddr := w\<rparr>) = quiet s t" "quiet s (t\<lparr>SRAMStatus := c\<rparr>) = quiet s t"
  "quiet s (t\<lparr>SRAMSaveAddr := w\<rparr>) = quiet s t" "quiet s (t\<lparr>SRAMSaveLen := w\<rparr>) = quiet s t"
  "quiet s (t\<lparr>PowerState := p\<rparr>) = quiet s t" "quiet s (t\<lparr>PowerDelay := w\<rparr>) = quiet s t"
  "quiet s (t\<lparr>PowerBlocked := b\<rparr>) = quiet s t" "quiet s (t\<lparr>PagePending := b\<rparr>) = quiet s t"
  "quiet s (t\<lparr>fault := b\<rparr>) = quiet s t"
  "quiet s (t\<lparr>PageBuffer := m\<rparr>) = quiet s t" "quiet s (t\<lparr>WriteBuffer := m\<rparr>) = quiet s t"
  "quiet s (t\<lparr>FlashLocks := m\<rparr>) = quiet s t" "quiet s (t\<lparr>WriteDelay := w\<rparr>) = quiet s t"
  "quiet s (t\<lparr>WriteCommand := c\<rparr>) = quiet s t" "quiet s (t\<lparr>WriteAddress := w\<rparr>) = quiet s t"
  "quiet s (t\<lparr>WriteFirst := w\<rparr>) = quiet s t" "quiet s (t\<lparr>WriteLength := w\<rparr>) = quiet s t"
  by (simp_all add: quiet_def)

lemma quiet_refl [simp]: "quiet s s"
  by (simp add: quiet_def)

lemma quiet_trans: "quiet s t \<Longrightarrow> quiet t u \<Longrightarrow> quiet s u"
  by (simp add: quiet_def)

lemma quiet_reads [simp]: "quiet t (snd (sram_read i s)) = quiet t s" "quiet t (snd (lock_read i s)) = quiet t s"
  "quiet t (lock_write i v s) = quiet t s" "quiet t (page_write i v s) = quiet t s"
  by (simp_all add: sram_read_def lock_read_def lock_write_def page_write_def)

lemma quiet_open [simp]: "quiet t (open_page s) = quiet t s" "quiet t (tiny_open_page s) = quiet t s"
  "quiet t (latch n v s) = quiet t s"
  by (simp_all add: open_page_def tiny_open_page_def latch_def Let_def)

lemma quiet_protected [simp]: "quiet t (snd (IsWriteProtected a s)) = quiet t s"
  by (simp add: IsWriteProtected_def flash_protected_def Let_def split_beta)

lemma quiet_begin [simp]: "quiet t (BeginSave c a f l s) = quiet t s"
  by (simp add: BeginSave_def Let_def)

lemma quiet_cancel [simp]: "quiet t (CancelSave p s) = quiet t s" "quiet t (Reset s) = quiet t s"
  "quiet t (SPISelect s) = quiet t s"
  by (simp_all add: CancelSave_def Reset_def SPISelect_def Let_def)

lemma quiet_shift [simp]: "quiet t (shift_in v s) = quiet t s" "quiet t (start_write s) = quiet t s"
  "quiet t (end_command s) = quiet t s"
  by (simp_all add: shift_in_def start_write_def end_command_def)

lemma quiet_tiny [simp]: "quiet s (snd (SRAMWrite_EEPROMTiny v s))"
  by (simp add: SRAMWrite_EEPROMTiny_def tiny_write_def tiny_read_def Let_def split_beta)

lemma quiet_array_read [simp]: "quiet t (snd (array_read s)) = quiet t s"
  by (simp add: array_read_def split_beta)

lemma quiet_eeprom: "latched s \<Longrightarrow> SRAMType s = 2 \<Longrightarrow> quiet s (snd (SRAMWrite_EEPROM v s))"
  by (simp add: SRAMWrite_EEPROM_def eeprom_write_def eeprom_store_def latched_def page_size_def Let_def split_beta)

lemma quiet_flash [simp]: "quiet s (snd (SRAMWrite_FLASH v s))"
  by (simp add: SRAMWrite_FLASH_def flash_write_def flash_lock_def flash_erase_def Let_def split_beta)

lemma quiet_bytes: "latched s \<Longrightarrow> quiet s (snd (SPITransmitReceive v s))"
  by (simp add: SPITransmitReceive_def count_byte_def first_byte_def later_byte_def quiet_eeprom Let_def split_beta)

definition synced :: "save_chip \<Rightarrow> bool" where
  "synced s \<longleftrightarrow> chip_ok s \<and> latched s \<and> File s = SRAM s"

lemma splice_same: "splice k (take n (drop k xs)) xs = xs"
proof -
  have *: "take n ys @ drop (length (take n ys)) ys = ys" for ys :: "'a list"
    by (cases "n \<le> length ys") simp_all
  have "drop (k + length (take n (drop k xs))) xs = drop (length (take n (drop k xs))) (drop k xs)"
    by (simp only: drop_drop add.commute)
  then have "splice k (take n (drop k xs)) xs = take k xs @ drop k xs"
    using * [of "drop k xs"] by (simp only: splice_def)
  then show ?thesis by simp
qed

lemma WriteNDSSave_synced [simp]: "File s = SRAM s \<Longrightarrow> quiet s (WriteNDSSave o' n s)"
  by (simp add: WriteNDSSave_def quiet_def splice_same)

lemma quiet_synced: "synced s \<Longrightarrow> keeps s t \<Longrightarrow> quiet s t \<Longrightarrow> synced t"
  by (simp add: synced_def keeps_def same_chip_def quiet_def latched_def page_size_def)

lemma quiet_release [simp]: "quiet s (release_power s)" "quiet s (release_status s)" "quiet s (release_bulk_erase s)"
  by (simp_all add: release_power_def release_status_def release_bulk_erase_def Let_def)

lemma quiet_release_lock [simp]: "quiet s (release_lock s)"
  by (simp add: release_lock_def Let_def split_beta)

lemma quiet_release_page [simp]: "quiet s (release_page s)"
  by (simp add: release_page_def Let_def)

lemma quiet_release_direct: "File s = SRAM s \<Longrightarrow> quiet s (release_direct s)"
  by (simp add: release_direct_def flush_dirty_def Let_def)

lemma SPIRelease_quiet: "synced s \<Longrightarrow> quiet s (SPIRelease s)"
  by (simp add: synced_def SPIRelease_def quiet_release_direct)

text \<open>A completed write cycle: what changed in the array is in the range that is written back.\<close>

lemma write_back_synced:
  assumes "length m = length xs" "a + n \<le> length xs" "\<And>p. p < length xs \<Longrightarrow> p < a \<or> a + n \<le> p \<Longrightarrow> m ! p = xs ! p"
  shows "splice a (take n (drop a m)) xs = m"
  using assms by (auto simp: list_eq_iff_nth_eq splice_def nth_append)

lemma program_bytes_outside:
  assumes "ready s" "\<And>i. i \<in> set ks \<Longrightarrow> p \<noteq> unat (WriteAddress s) + unat (page_index s i)"
  shows "SRAM (fold program_byte ks s) ! p = SRAM s ! p"
  using assms
proof (induction ks arbitrary: s)
  case Nil
  then show ?case by simp
next
  case (Cons i ks)
  define t where "t = program_byte i s"
  have t: "ready t" "WriteAddress t = WriteAddress s" "page_index t = page_index s" "SRAM t ! p = SRAM s ! p"
    using program_byte_ready [OF Cons.prems(1), of i] Cons.prems(2) [of i]
    by (simp_all add: t_def program_byte_eq [OF Cons.prems(1)] page_index_def fun_eq_iff)
  then show ?case
    using Cons.IH [OF t(1)] Cons.prems(2) by (simp add: t_def [symmetric])
qed

lemma page_index_plain:
  assumes "ready s" "unat (WriteFirst s) + i < unat (page_size s)"
  shows "unat (page_index s i) = unat (WriteFirst s) + i"
proof -
  obtain j where j: "unat (page_size s) = 2 ^ j"
    using geometry_facts(5) [of s] assms(1) by (auto simp: ready_def chip_ok_def fits_in_def)
  have lt: "unat (WriteFirst s) + i < 2 ^ 32"
    using assms(2) unsigned_less [of "page_size s", where ?'a = nat] by simp
  then have i: "unat (of_nat i :: u32) = i" by (simp add: unat_of_nat)
  have "unat (WriteFirst s + of_nat i) = unat (WriteFirst s) + i"
    using unat_sum [of "WriteFirst s" "of_nat i"] lt i by simp
  moreover have "unat (page_index s i) = unat (WriteFirst s + of_nat i) mod 2 ^ j"
    by (simp only: page_index_def word_mask_pow [OF j] take_bit_eq_mask [symmetric] unsigned_take_bit_eq)
       (simp add: take_bit_eq_mod)
  ultimately show ?thesis using assms(2) j by simp
qed

lemma program_page_outside:
  assumes "ready s" "p < unat (WriteAddress s) \<or> unat (WriteAddress s) + unat (page_size s) \<le> p"
  shows "SRAM (program_page s) ! p = SRAM s ! p"
proof -
  have "page_size s \<noteq> 0" using assms(1) by (simp add: ready_def)
  note page_index_less [OF this]
  then have "p \<noteq> unat (WriteAddress s) + unat (page_index s i)" for i
    using assms(2) by (metis add.commute add_less_cancel_left not_add_less2 leD)
  then show ?thesis
    unfolding program_page_def by (intro program_bytes_outside [OF assms(1)])
qed

lemma program_page_outside_range:
  assumes "ready s" "unat (WriteFirst s) + unat (WriteLength s) \<le> unat (page_size s)"
    "p < unat (WriteAddress s) + unat (WriteFirst s) \<or>
     unat (WriteAddress s) + unat (WriteFirst s) + unat (WriteLength s) \<le> p"
  shows "SRAM (program_page s) ! p = SRAM s ! p"
proof -
  have "p \<noteq> unat (WriteAddress s) + unat (page_index s i)" if "i \<in> set [0..<unat (WriteLength s)]" for i
  proof -
    have "i < unat (WriteLength s)" using that by simp
    then show ?thesis using page_index_plain [OF assms(1), of i] assms(2,3) by auto
  qed
  then show ?thesis
    unfolding program_page_def by (intro program_bytes_outside [OF assms(1)])
qed

lemma write_back_file:
  assumes "length (SRAM t) = length (SRAM s)" "File t = SRAM s" "unat offset + unat len \<le> length (SRAM s)"
    and "\<And>p. p < length (SRAM s) \<Longrightarrow> p < unat offset \<or> unat offset + unat len \<le> p \<Longrightarrow> SRAM t ! p = SRAM s ! p"
  shows "File (WriteNDSSave offset len t) = SRAM (WriteNDSSave offset len t)"
  using assms by (simp add: WriteNDSSave_def write_back_synced)

lemma first_room:
  assumes "WriteFirst s < page_size s"
  shows "WriteLength s \<le> page_size s - WriteFirst s \<longleftrightarrow> unat (WriteFirst s) + unat (WriteLength s) \<le> unat (page_size s)"
proof -
  have "unat (page_size s - WriteFirst s) = unat (page_size s) - unat (WriteFirst s)"
    "unat (WriteFirst s) < unat (page_size s)"
    using assms by (simp_all add: unat_sub word_less_nat_alt order_less_imp_le)
  then show ?thesis by (auto simp: word_le_nat_alt)
qed

lemma program_done_synced:
  assumes "chip_ok s" "File s = SRAM s"
    and room: "unat (WriteAddress s) + unat (write_size s) \<le> unat (SRAMLength s)"
    and page: "WriteCommand s = 0x02 \<or> WriteCommand s = 0x0A \<Longrightarrow> page_size s \<noteq> 0 \<and> WriteFirst s < page_size s"
  shows "File (program_done s) = SRAM (program_done s)"
proof -
  have len: "unat (SRAMLength s) \<le> length (SRAM s)" using assms(1) by (simp add: chip_ok_def)
  show ?thesis
  proof (cases "WriteCommand s = 0x02 \<or> WriteCommand s = 0x0A")
    case True
    then have size: "write_size s = page_size s" by (auto simp: write_size_def sizes_zero)
    with assms True have r: "ready s" by (auto simp: ready_def)
    obtain m where m: "program_page s = s\<lparr>SRAM := m\<rparr>" using program_page_ok(3) [OF r] by (elim exE)
    have ml: "length m = length (SRAM s)"
      using program_page_ok(2) [OF r] by (simp add: m keeps_def same_chip_def)
    have first: "WriteFirst s < page_size s" using page [OF True] by simp
    have out: "m ! p = SRAM s ! p" if "p < unat (WriteAddress s) \<or> unat (WriteAddress s) + unat (page_size s) \<le> p" for p
      using program_page_outside [OF r that] by (simp add: m)
    have in_range: "m ! p = SRAM s ! p"
      if "WriteLength s \<le> page_size s - WriteFirst s"
        "p < unat (WriteAddress s + WriteFirst s) \<or>
         unat (WriteAddress s + WriteFirst s) + unat (WriteLength s) \<le> p" for p
      using program_page_outside_range [OF r, of p] that first_room [OF first]
        in_page(1) [OF room [unfolded size], of "WriteFirst s"] first
      by (simp add: m word_less_nat_alt)
    have inner: "unat (WriteAddress s + WriteFirst s) + unat (WriteLength s) \<le> length (SRAM s)"
      if "WriteLength s \<le> page_size s - WriteFirst s"
      using that first_room [OF first] in_page(1) [OF room [unfolded size], of "WriteFirst s"] first room size len
      by (simp add: word_less_nat_alt)
    have sz: "(if erase_size (WriteCommand s) s \<noteq> 0 then erase_size (WriteCommand s) s else page_size s) = page_size s"
      using size by (simp add: write_size_def)
    show ?thesis
    proof (cases "WriteLength s \<le> page_size s - WriteFirst s")
      case inside: True
      show ?thesis
        using True inside assms(2) ml in_range inner
        by (simp add: program_done_def sz Let_def m) (intro write_back_file [of _ s]; simp)
    next
      case False
      show ?thesis
        using True False assms(2) ml out room size len
        by (simp add: program_done_def sz Let_def m) (intro write_back_file [of _ s]; simp)
    qed
  next
    case False
    define t where "t = erase_block (WriteAddress s) (write_size s) s"
    have k: "keeps s t" unfolding t_def by (rule erase_block_ok [OF assms(1) room])
    have t: "WriteAddress t = WriteAddress s" "File t = SRAM s"
      "SRAM t = splice (unat (WriteAddress s)) (replicate (unat (write_size s)) 0xFF) (SRAM s)"
      using room len assms(2) by (simp_all add: t_def erase_block_def)
    have "SRAM t ! p = SRAM s ! p"
      if "p < length (SRAM s)" "p < unat (WriteAddress s) \<or> unat (WriteAddress s) + unat (write_size s) \<le> p" for p
      using that room len by (auto simp: t(3) splice_def nth_append)
    then have "File (WriteNDSSave (WriteAddress s) (write_size s) (t\<lparr>SRAMStatus := x\<rparr>)) =
        SRAM (WriteNDSSave (WriteAddress s) (write_size s) (t\<lparr>SRAMStatus := x\<rparr>))" for x
      using k t(2) room len by (intro write_back_file [of _ s]) (auto simp: keeps_def same_chip_def)
    then show ?thesis
      using False t(1) by (simp add: program_done_def Let_def write_size_def [symmetric] t_def)
  qed
qed

lemma CompleteSave_synced:
  assumes "synced s"
  shows "File (CompleteSave s) = SRAM (CompleteSave s)"
proof (cases "PowerDelay s = 0 \<and> WriteDelay s \<noteq> 0 \<and> WriteCommand s \<noteq> 1")
  case True
  have s: "chip_ok (s\<lparr>WriteDelay := 0\<rparr>)" "cycle_ok s" "File s = SRAM s"
    using assms no_cycle_ok [of s] by (auto simp: synced_def keeps_def chip_ok_def)
  then have "File (program_done (s\<lparr>WriteDelay := 0\<rparr>)) = SRAM (program_done (s\<lparr>WriteDelay := 0\<rparr>))"
    using True by (intro program_done_synced) (auto simp: cycle_ok_def)
  with True show ?thesis by (simp add: CompleteSave_def Let_def)
next
  case False
  then show ?thesis using assms by (auto simp: CompleteSave_def Let_def synced_def)
qed

lemma SetSaveMemory_synced:
  assumes "synced s"
  shows "synced (SetSaveMemory d s)"
proof -
  have s: "chip_ok s" "latched s" "File s = SRAM s" using assms by (auto simp: synced_def)
  define t where "t = CancelSave False s"
  define n where "n = min (length d) (unat (SRAMFileLength s))"
  have same: "SRAM t = SRAM s" "File t = SRAM s" "SRAMFileLength t = SRAMFileLength s"
    using s(3) by (simp_all add: t_def CancelSave_def)
  have fields: "SRAMType (SetSaveMemory d s) = SRAMType s" "SRAMProfile (SetSaveMemory d s) = SRAMProfile s"
    by (simp_all add: SetSaveMemory_def CancelSave_def WriteNDSSave_def Let_def)
  have n: "n \<le> length (SRAM s)" "n \<le> length d" using s(1) by (auto simp: n_def chip_ok_def)
  have "n < 2 ^ 32" using unsigned_less [of "SRAMFileLength s", where ?'a = nat] by (simp add: n_def)
  then have u: "unat (of_nat n :: u32) = n" by (simp add: unat_of_nat)
  have "File (SetSaveMemory d s) = SRAM (SetSaveMemory d s)"
    using n by (simp add: SetSaveMemory_def t_def [symmetric] Let_def same n_def [symmetric]
        WriteNDSSave_def u splice_def)
  then show ?thesis
    using SetSaveMemory_ok(1) [OF s(1), of d] s(2) fields by (simp add: synced_def latched_def page_size_def)
qed

lemma save_step_synced: "synced s \<Longrightarrow> synced (save_step op s)"
proof (cases "is_import op")
  case True
  assume "synced s"
  with True show ?thesis by (cases op) (simp_all add: is_import_def SetSaveMemory_synced)
next
  case False
  assume s: "synced s"
  then have ok: "chip_ok s" "latched s" by (auto simp: synced_def)
  have k: "keeps s (save_step op s)" by (rule save_step_keeps [OF ok(1) False])
  have "File (save_step op s) = SRAM (save_step op s)"
  proof (cases "op = Complete")
    case True
    then show ?thesis using CompleteSave_synced [OF s] by simp
  next
    case Complete: False
    then have "quiet s (save_step op s)"
      using False s ok by (cases op) (simp_all add: is_import_def quiet_bytes SPIRelease_quiet)
    then show ?thesis using s by (simp add: quiet_def synced_def)
  qed
  with s k show ?thesis
    by (simp add: synced_def keeps_def same_chip_def latched_def page_size_def)
qed

lemma run_synced: "synced s \<Longrightarrow> synced (run ops s)"
  by (induction ops arbitrary: s) (simp_all add: save_step_synced)


lemma save_step_lengths:
  assumes "chip_ok s"
  shows "length (SRAM (save_step op s)) = length (SRAM s)" "SRAMLength (save_step op s) = SRAMLength s"
proof -
  have n: "min (length d) (unat (SRAMFileLength s)) \<le> length (SRAM s)" for d :: "u8 list"
    using assms by (auto simp: chip_ok_def min_def)
  show "length (SRAM (save_step op s)) = length (SRAM s)" "SRAMLength (save_step op s) = SRAMLength s"
    using save_step_keeps [OF assms, of op] SetSaveMemory_ok [OF assms] n
    by (cases op; auto simp: is_import_def keeps_def same_chip_def splice_def)+
qed

lemma run_lengths:
  "chip_ok s \<Longrightarrow> length (SRAM (run ops s)) = length (SRAM s) \<and> SRAMLength (run ops s) = SRAMLength s"
  by (induction ops arbitrary: s) (simp_all add: save_step_ok save_step_lengths)

section \<open>The two properties\<close>

text \<open>C26. Every access of the save memory stays inside its array, whatever bytes, chip selects, delays,
  resets and imports arrive in whatever order, and no byte behind the chip, the footer a longer save file
  has, is ever changed by the program: those bytes are what the imports alone leave.\<close>

theorem save_memory_safe:
  "let s0 = CartRetail_new t d; s = run ops s0
   in \<not> fault s \<and> length (SRAM s) = length (SRAM s0) \<and> length (File s) = length (SRAM s0) \<and>
      SRAMLength s = SRAMLength s0 \<and>
      drop (unat (SRAMLength s0)) (SRAM s) = drop (unat (SRAMLength s0)) (SRAM (run (filter is_import ops) s0))"
proof -
  note s0 = CartRetail_new_ok [of t d]
  have "same_rest (CartRetail_new t d) (CartRetail_new t d)" by (simp add: same_rest_def)
  from run_same_rest [OF s0 s0 this, of ops] run_lengths [OF s0, of ops] run_ok [OF s0, of ops] show ?thesis
    by (simp add: Let_def same_rest_def chip_ok_def)
qed

text \<open>C27. A chip with a page latch is written to the save file as it is written: after any sequence of
  operations the save file is the memory of the chip, byte for byte.\<close>

theorem save_file_current:
  assumes "latched (CartRetail_new t d)"
  shows "File (run ops (CartRetail_new t d)) = SRAM (run ops (CartRetail_new t d))"
proof -
  have "File (CartRetail_new t d) = SRAM (CartRetail_new t d)"
    by (simp add: CartRetail_new_def Let_def)
  then have "synced (CartRetail_new t d)"
    using CartRetail_new_ok assms by (simp add: synced_def)
  then show ?thesis using run_synced [of _ ops] by (simp add: synced_def)
qed

theorem save_file_current_witness:
  "File (run [Select, Byte 6, Release, Complete] (CartRetail_new 5 None)) =
   SRAM (run [Select, Byte 6, Release, Complete] (CartRetail_new 5 None))"
  by (rule save_file_current)
     (simp add: latched_def CartRetail_new_def Let_def SaveLengths_def SaveProtocol_def)

end
