(* ===== verification/NdsSavePage.thy ===== *)
theory NdsSavePage
  imports NdsSaveProps
begin

text \<open>
  A page of a Flash chip, from the write enable to the read: the transactions byte by byte, the write cycle,
  and the bytes that come back.
\<close>

section \<open>Writing a page of a Flash chip and reading it back\<close>

fun talk :: "u8 list \<Rightarrow> save_chip \<Rightarrow> u8 list \<times> save_chip" where
  "talk [] s = ([], s)"
| "talk (v # vs) s = (let (r, s) = SPITransmitReceive v s; (rs, s) = talk vs s in (r # rs, s))"

definition transaction :: "u8 list \<Rightarrow> save_chip \<Rightarrow> u8 list \<times> save_chip" where
  "transaction vs s = (let (rs, s) = talk vs (SPISelect s) in (rs, SPIRelease s))"

definition flash_address :: "u8 \<Rightarrow> u8 \<Rightarrow> u8 \<Rightarrow> u32" where
  "flash_address a b c = push_bit 8 (push_bit 8 (ucast a) OR ucast b) OR ucast c"

text \<open>A chip that waits for a command.\<close>

definition idle_flash :: "save_chip \<Rightarrow> bool" where
  "idle_flash s \<longleftrightarrow> chip_ok s \<and> SRAMType s = 3 \<and> PowerState s = Awake \<and> PowerDelay s = 0 \<and>
     WriteDelay s = 0 \<and> \<not> PowerBlocked s"

lemma talk_append: "talk (vs @ ws) s = (fst (talk vs s) @ fst (talk ws (snd (talk vs s))), snd (talk ws (snd (talk vs s))))"
  by (induction vs arbitrary: s) (simp_all add: split_beta)

lemma snd_talk: "snd (talk vs s) = fold (\<lambda>v s. snd (SPITransmitReceive v s)) vs s"
  by (induction vs arbitrary: s) (simp_all add: split_beta)

lemma talk_run: "snd (talk vs s) = run (map Byte vs) s"
  by (induction vs arbitrary: s) (simp_all add: split_beta)

lemma first_command:
  assumes "idle_flash s" "v \<noteq> 1" "v \<noteq> 4" "v \<noteq> 6"
  shows "SPITransmitReceive v (SPISelect s) = (0xFF, (SPISelect s)\<lparr>SRAMCmd := v, SRAMAddr := 0, SRAMPos := 1\<rparr>)"
proof -
  have st: "SRAMPos (SPISelect s) = 0" "\<not> PowerBlocked (SPISelect s)" "SRAMType (SPISelect s) = 3"
    "PowerState (SPISelect s) = Awake" "WriteDelay (SPISelect s) = 0"
    using assms(1) by (simp_all add: SPISelect_def idle_flash_def Let_def)
  then show ?thesis
    using assms(2-4) by (simp add: SPITransmitReceive_def first_byte_def count_byte_def IsStatusCommand_def)
qed

definition in_command :: "u8 \<Rightarrow> save_chip \<Rightarrow> bool" where
  "in_command c s \<longleftrightarrow> SRAMCmd s = c \<and> SRAMType s = 3 \<and> \<not> PowerBlocked s \<and> SRAMPos s \<noteq> 0"

lemma flash_byte:
  assumes "in_command c s" "c = 0x0A \<or> c = 0x03"
  shows "SPITransmitReceive v s = count_byte (SRAMWrite_FLASH v s)"
  using assms by (auto simp: in_command_def SPITransmitReceive_def later_byte_def IsStatusCommand_def)

lemma flash_address_byte:
  assumes "in_command 0x0A s" "SRAMPos s \<le> 3"
  shows "SPITransmitReceive v s = (0, s\<lparr>SRAMAddr := push_bit 8 (SRAMAddr s) OR ucast v,
     SRAMSaveAddr := push_bit 8 (SRAMAddr s) OR ucast v, SRAMSaveLen := 0, SRAMPos := SRAMPos s + 1\<rparr>)"
proof -
  have "SRAMPos s \<noteq> 0xFFFFFFFF" using assms(2) by auto
  with assms show ?thesis
    by (simp add: flash_byte [OF assms(1)] SRAMWrite_FLASH_def flash_write_def start_write_def shift_in_def
        in_command_def count_byte_def)
qed


text \<open>The data of a page: after \<open>d\<close>, the latch holds it from the address on.\<close>

definition page_filled :: "u32 \<Rightarrow> u8 list \<Rightarrow> save_chip \<Rightarrow> save_chip \<Rightarrow> bool" where
  "page_filled A d s t \<longleftrightarrow> (\<exists>B. length B = 256 \<and> (\<forall>i < length d. B ! (unat A mod 256 + i) = d ! i) \<and>
     t = s\<lparr>PageBuffer := B, PagePending := d \<noteq> [], SRAMPos := 4 + of_nat (length d),
           SRAMAddr := (A AND NOT 255) OR ((A + of_nat (length d)) AND 255), SRAMSaveLen := of_nat (length d)\<rparr>)"

definition at_data :: "u32 \<Rightarrow> save_chip \<Rightarrow> bool" where
  "at_data A s \<longleftrightarrow> chip_ok s \<and> in_command 0x0A s \<and> SRAMPos s = 4 \<and> SRAMAddr s = A \<and> SRAMSaveAddr s = A \<and>
     SRAMSaveLen s = 0 \<and> \<not> PagePending s \<and> tst (SRAMStatus s) 2 \<and> \<not> fst (IsWriteProtected A s)"

lemma unat_low_byte: "unat (w AND 255 :: u32) = unat w mod 256"
proof -
  have "unat (w AND 255) = unat (take_bit 8 w)" by (simp add: take_bit_eq_mask mask_eq_exp_minus_1)
  then show ?thesis by (simp only: unsigned_take_bit_eq) (simp add: take_bit_eq_mod)
qed

lemma low_byte_add: "unat A mod 256 + k < 256 \<Longrightarrow> unat ((A + of_nat k) AND 255 :: u32) = unat A mod 256 + k"
proof -
  assume k: "unat A mod 256 + k < 256"
  have "unat (A + of_nat k) mod 256 = (unat A + k) mod 256"
    by (simp add: unat_word_ariths unat_of_nat mod_mod_cancel mod_simps)
  also have "\<dots> = (unat A mod 256 + k) mod 256" by (simp add: mod_simps)
  finally show ?thesis using k by (simp add: unat_low_byte)
qed

lemma low_byte: "w AND 255 = take_bit 8 w" for w :: u32
  by (simp add: take_bit_eq_mask mask_eq_exp_minus_1)

lemma page_addr_high: "((A AND NOT 255) OR (x AND 255)) AND NOT 255 = A AND NOT 255" for A x :: u32
proof -
  have "((A AND NOT 255) OR (x AND 255)) AND NOT 255 = ((A AND NOT 255) AND NOT 255) OR ((x AND 255) AND NOT 255)"
    by (simp only: bit.conj_disj_distrib2)
  also have "(x AND 255) AND NOT 255 = 0"
    by (simp only: and.assoc bit.conj_cancel_right and_zero_eq)
  also have "(A AND NOT 255) AND NOT 255 = A AND NOT 255"
    by (simp only: and.assoc and.idem)
  finally show ?thesis by (simp only: or.right_neutral)
qed

lemma page_addr_low: "((A AND NOT 255) OR (x AND 255)) AND 255 = x AND 255" for A x :: u32
proof -
  have "((A AND NOT 255) OR (x AND 255)) AND 255 = ((A AND NOT 255) AND 255) OR ((x AND 255) AND 255)"
    by (simp only: bit.conj_disj_distrib2)
  also have "(A AND NOT 255) AND 255 = 0"
    by (simp only: and.assoc bit.conj_cancel_left and_zero_eq)
  also have "(x AND 255) AND 255 = x AND 255" by (simp only: and.assoc and.idem)
  finally show ?thesis by (simp only: or.left_neutral)
qed

lemma page_addr_step:
  "(((A AND NOT 255) OR (x AND 255)) AND NOT 255) OR ((((A AND NOT 255) OR (x AND 255)) + 1) AND 255) =
   (A AND NOT 255) OR ((x + 1) AND 255)" for A x :: u32
proof -
  let ?y = "(A AND NOT 255) OR (x AND 255)"
  have "unat (?y AND 255) = unat (x AND 255)" by (simp only: page_addr_low)
  then have "unat ?y mod 256 = unat x mod 256" by (simp only: unat_low_byte)
  then have "unat ((?y + 1) AND 255) = unat ((x + 1) AND 255)"
    unfolding unat_low_byte by (simp only: unat_word_ariths unsigned_1) (simp add: mod_mod_cancel, metis mod_Suc_eq)
  then have "(?y + 1) AND 255 = (x + 1) AND 255" by (simp only: unsigned_word_eqI)
  then show ?thesis by (simp only: page_addr_high)
qed

lemma protected_same:
  "fst (IsWriteProtected a (s\<lparr>PageBuffer := B, PagePending := b, SRAMPos := p, SRAMAddr := w, SRAMSaveLen := n\<rparr>)) =
   fst (IsWriteProtected a s)"
  by (simp add: IsWriteProtected_def flash_protected_def lock_read_def Let_def split_beta)

lemma page_filled_Nil: "at_data A s \<Longrightarrow> page_filled A [] s s"
proof -
  assume s: "at_data A s"
  have "(A AND NOT 255) OR (A AND 255) = A"
    by (simp only: bit.conj_disj_distrib [symmetric] bit.disj_cancel_left and.right_neutral)
  then have "s = s\<lparr>PageBuffer := PageBuffer s, PagePending := ([] :: u8 list) \<noteq> [],
      SRAMPos := 4 + of_nat (length ([] :: u8 list)),
      SRAMAddr := (A AND NOT 255) OR ((A + of_nat (length ([] :: u8 list))) AND 255),
      SRAMSaveLen := of_nat (length ([] :: u8 list))\<rparr>"
    using s by (intro save_chip.equality) (simp_all add: at_data_def)
  moreover have "length (PageBuffer s) = 256" using s by (simp add: at_data_def chip_ok_def)
  moreover have "\<forall>i < length ([] :: u8 list). PageBuffer s ! (unat A mod 256 + i) = [] ! i" by simp
  ultimately show ?thesis unfolding page_filled_def by (intro exI [of _ "PageBuffer s"] conjI)
qed

lemma page_filled_step:
  assumes "at_data A s" "page_filled A d s t" "unat A mod 256 + length d < 256"
  shows "page_filled A (d @ [v]) s (snd (SPITransmitReceive v t))"
proof -
  let ?k = "length d"
  obtain B where B: "length B = 256" "\<And>i. i < ?k \<Longrightarrow> B ! (unat A mod 256 + i) = d ! i"
    and t: "t = s\<lparr>PageBuffer := B, PagePending := d \<noteq> [], SRAMPos := 4 + of_nat ?k,
           SRAMAddr := (A AND NOT 255) OR ((A + of_nat ?k) AND 255), SRAMSaveLen := of_nat ?k\<rparr>"
    using assms(2) unfolding page_filled_def by blast
  have k: "?k < 256" using assms(3) by simp
  then have u: "unat (of_nat ?k :: u32) = ?k" by (simp add: unat_of_nat)
  have pos: "unat (4 + of_nat ?k :: u32) = 4 + ?k"
    using unat_sum [of 4 "of_nat ?k"] u k by simp
  have s: "chip_ok s" "SRAMCmd s = 0x0A" "SRAMType s = 3" "\<not> PowerBlocked s" "tst (SRAMStatus s) 2"
    "SRAMSaveAddr s = A" "\<not> fst (IsWriteProtected A s)"
    using assms(1) by (auto simp: at_data_def in_command_def)
  have "chip_ok t"
  proof -
    have "keeps s (s\<lparr>PageBuffer := B, PagePending := d \<noteq> []\<rparr>)"
      using s B(1) by (intro page_upd_ok) (simp_all add: page_size_def)
    then show ?thesis by (simp add: t keeps_def)
  qed
  then have prot: "IsWriteProtected A t = (False, t)"
    using s(7) protected_same [where a = A and s = s] by (simp add: t prod_eq_iff)
  have sel: "SRAMCmd t = 0x0A" "SRAMType t = 3" "\<not> PowerBlocked t" "tst (SRAMStatus t) 2" "SRAMSaveAddr t = A"
    "SRAMPos t = 4 + of_nat ?k" "SRAMAddr t = (A AND NOT 255) OR ((A + of_nat ?k) AND 255)"
    using s by (simp_all add: t)
  define C where "C = (if d = [] then fresh_page else B)"
  have C: "length C = 256" "\<And>i. i < ?k \<Longrightarrow> C ! (unat A mod 256 + i) = d ! i"
    using B by (auto simp: C_def fresh_page_def)
  define w where "w = open_page t"
  have "w = t\<lparr>PageBuffer := C, PagePending := True, SRAMSaveLen := of_nat ?k\<rparr>"
    by (rule save_chip.equality) (simp_all add: w_def open_page_def C_def t)
  moreover have "unat (SRAMAddr t AND 255) = unat A mod 256 + ?k"
  proof -
    have "SRAMAddr t AND 255 = (A + of_nat ?k) AND 255"
      by (simp only: sel page_addr_low)
    then show ?thesis using low_byte_add [OF assms(3)] by simp
  qed
  moreover have "min (of_nat ?k + 1) (256 :: u32) = of_nat ?k + 1"
    using unat_sum [of "of_nat ?k" 1] u k by (simp add: min_def word_le_nat_alt)
  ultimately have latch: "latch 256 v w = t\<lparr>PageBuffer := C[unat A mod 256 + ?k := v], PagePending := True,
      SRAMSaveLen := of_nat ?k + 1\<rparr>"
    using assms(3) C(1) by (simp add: latch_def page_write_def Let_def)
  have far: "\<not> SRAMPos t \<le> 3" "SRAMPos t \<noteq> 0" "SRAMPos t \<noteq> 0xFFFFFFFF"
    using pos k by (auto simp: sel word_le_nat_alt dest: arg_cong [of _ _ unat])
  have addr: "SRAMAddr (t\<lparr>PageBuffer := P, PagePending := b, SRAMSaveLen := n\<rparr>) = SRAMAddr t"
    "SRAMPos (t\<lparr>PageBuffer := P, PagePending := b, SRAMSaveLen := n, SRAMAddr := a\<rparr>) = SRAMPos t" for P b n a
    by simp_all
  have wr: "flash_write v t = (latch 256 v w)\<lparr>SRAMAddr := (A AND NOT 255) OR ((A + of_nat ?k + 1) AND 255)\<rparr>"
    using far(1) sel prot page_addr_step [of A "A + of_nat ?k"]
    by (simp only: flash_write_def Let_def if_True if_False not_False_eq_True split_conv w_def [symmetric])
      (simp only: latch addr)
  have ic: "in_command 0x0A t"
    using sel(1-3) far(2) by (simp only: in_command_def simp_thms)
  have "SPITransmitReceive v t = count_byte (0, flash_write v t)"
    using flash_byte [OF ic] by (simp add: SRAMWrite_FLASH_def sel(1))
  then have "snd (SPITransmitReceive v t) = (flash_write v t)\<lparr>SRAMPos := SRAMPos t + 1\<rparr>"
    using far(3) by (simp only: count_byte_def wr latch addr split_conv snd_conv if_True not_False_eq_True)
  also have "\<dots> = s\<lparr>PageBuffer := C[unat A mod 256 + ?k := v], PagePending := d @ [v] \<noteq> [],
      SRAMPos := 4 + of_nat (length (d @ [v])), SRAMAddr := (A AND NOT 255) OR ((A + of_nat (length (d @ [v]))) AND 255),
      SRAMSaveLen := of_nat (length (d @ [v]))\<rparr>"
    unfolding wr latch by (rule save_chip.equality) (simp_all add: t algebra_simps)
  finally show ?thesis
    using C assms(3) unfolding page_filled_def
    by (intro exI [of _ "C[unat A mod 256 + ?k := v]"]) (auto simp: nth_append nth_list_update less_Suc_eq)
qed


lemma page_filled_talk:
  "at_data A s \<Longrightarrow> unat A mod 256 + length d \<le> 256 \<Longrightarrow> page_filled A d s (snd (talk d s))"
proof (induction d rule: rev_induct)
  case Nil
  then show ?case by (simp add: page_filled_Nil)
next
  case (snoc v d)
  then have "page_filled A (d @ [v]) s (snd (SPITransmitReceive v (snd (talk d s))))"
    by (intro page_filled_step) simp_all
  then show ?case by (simp add: talk_append split_beta)
qed

text \<open>Write enable.\<close>

lemma write_enable:
  assumes "idle_flash s"
  shows "snd (transaction [0x06] s) = s\<lparr>SRAMPos := 0, PowerBlocked := False, PagePending := False, SRAMSaveLen := 0,
     SRAMSaveAddr := 0, SRAMCmd := 0, SRAMAddr := 0, SRAMStatus := SRAMStatus s OR 2\<rparr>"
proof -
  have st: "SRAMPos (SPISelect s) = 0" "\<not> PowerBlocked (SPISelect s)" "SRAMType (SPISelect s) = 3"
    "PowerState (SPISelect s) = Awake" "WriteDelay (SPISelect s) = 0" "PowerDelay (SPISelect s) = 0"
    using assms(1) by (simp_all add: SPISelect_def idle_flash_def Let_def)
  define t where "t = (SPISelect s)\<lparr>SRAMCmd := 6, SRAMAddr := 0, SRAMSaveAddr := 0, SRAMSaveLen := 0, SRAMPos := 1\<rparr>"
  have "SPITransmitReceive 0x06 (SPISelect s) = (0, t)"
    using st by (simp add: SPITransmitReceive_def first_byte_def count_byte_def IsStatusCommand_def t_def)
  moreover have "SPIRelease t = release_status t"
    using st by (simp add: SPIRelease_def t_def IsPowerCommand_def IsStatusCommand_def)
  ultimately have "snd (transaction [0x06] s) = release_status t" by (simp add: transaction_def)
  also have "release_status t = t\<lparr>SRAMStatus := SRAMStatus t OR 2, SRAMPos := 0, SRAMCmd := 0\<rparr>"
    by (simp add: release_status_def t_def end_command_def)
  finally show ?thesis
    using assms by (intro save_chip.equality) (simp_all add: t_def SPISelect_def idle_flash_def Let_def)
qed

lemma at_page:
  assumes "idle_flash s" "tst (SRAMStatus s) 2" "\<not> fst (IsWriteProtected (flash_address x y z) s)"
  defines "t \<equiv> snd (talk [0x0A, x, y, z] (SPISelect s))"
  shows "t = s\<lparr>SRAMPos := 4, PowerBlocked := False, SRAMCmd := 0x0A, PagePending := False, SRAMSaveLen := 0,
      SRAMAddr := flash_address x y z, SRAMSaveAddr := flash_address x y z\<rparr>"
    and "at_data (flash_address x y z) t"
proof -
  define t0 where "t0 = (SPISelect s)\<lparr>SRAMCmd := 0x0A, SRAMAddr := 0, SRAMPos := 1\<rparr>"
  have t0: "SPITransmitReceive 0x0A (SPISelect s) = (0xFF, t0)"
    unfolding t0_def by (rule first_command [OF assms(1)]) simp_all
  have sel: "SRAMType (SPISelect s) = 3" "\<not> PowerBlocked (SPISelect s)"
    using assms(1) by (simp_all add: SPISelect_def idle_flash_def Let_def)
  have "t = (SPISelect s)\<lparr>SRAMCmd := 0x0A, SRAMPos := 4, SRAMAddr := flash_address x y z,
      SRAMSaveAddr := flash_address x y z, SRAMSaveLen := 0\<rparr>"
    unfolding t_def
    by (simp add: t0 flash_address_byte in_command_def t0_def sel flash_address_def)
  then show eq: "t = s\<lparr>SRAMPos := 4, PowerBlocked := False, SRAMCmd := 0x0A, PagePending := False, SRAMSaveLen := 0,
      SRAMAddr := flash_address x y z, SRAMSaveAddr := flash_address x y z\<rparr>"
    using assms(1) by (intro save_chip.equality) (simp_all add: SPISelect_def idle_flash_def Let_def)
  have "fst (IsWriteProtected a t) = fst (IsWriteProtected a s)" for a
    by (simp add: eq IsWriteProtected_def flash_protected_def lock_read_def Let_def split_beta)
  moreover have "chip_ok t"
    using keeps_idle [of s "s\<lparr>SRAMPos := 4, PowerBlocked := False, SRAMCmd := 0x0A\<rparr>"] assms(1) by (simp add: eq keeps_def idle_flash_def)
  ultimately show "at_data (flash_address x y z) t"
    using assms(1-3) by (simp add: at_data_def in_command_def idle_flash_def) (simp add: eq)
qed

lemma uint_low_byte: "uint (w AND 255) = uint w mod 256" for w :: u32
  unfolding low_byte by (simp only: unsigned_take_bit_eq) (simp add: take_bit_eq_mod)

lemma low_byte_sub:
  fixes x A n :: u32
  assumes "x AND 255 = (A + n) AND 255"
  shows "(x - n) AND 255 = A AND 255"
proof -
  have "uint x mod 256 = uint (A + n) mod 256" using assms by (metis uint_low_byte)
  also have "\<dots> = (uint A + uint n) mod 256" by (simp add: uint_word_ariths mod_mod_cancel)
  finally have x: "uint x mod 256 = (uint A + uint n) mod 256" .
  have "uint (x - n) mod 256 = (uint x - uint n) mod 256" by (simp add: uint_word_ariths mod_mod_cancel)
  also have "\<dots> = (uint x mod 256 - uint n) mod 256" by (simp add: mod_simps)
  also have "\<dots> = uint A mod 256" by (simp add: x mod_simps)
  finally show ?thesis by (simp only: word_uint_eq_iff uint_low_byte)
qed

text \<open>Release: the write cycle of the page.\<close>

lemma release_to_cycle:
  assumes "at_data A s" "page_filled A d s t" "d \<noteq> []" "unat A mod 256 + length d \<le> 256" "idle_flash s"
  obtains B where "length B = 256" "\<And>i. i < length d \<Longrightarrow> B ! (unat A mod 256 + i) = d ! i"
    "SPIRelease t = s\<lparr>PageBuffer := B, PagePending := False, SRAMPos := 4 + of_nat (length d),
       SRAMAddr := (A AND NOT 255) OR ((A + of_nat (length d)) AND 255), SRAMSaveLen := 0, SRAMSaveAddr := 0,
       WriteCommand := 0x0A, WriteAddress := (A AND (SRAMLength s - 1)) AND NOT 255, WriteFirst := A AND 255,
       WriteLength := of_nat (length d), WriteBuffer := B, WriteDelay := WriteCycles 3 0x0A (of_nat (length d)),
       SRAMStatus := SRAMStatus s OR 1\<rparr>"
proof -
  obtain B where B: "length B = 256" "\<And>i. i < length d \<Longrightarrow> B ! (unat A mod 256 + i) = d ! i"
    and t: "t = s\<lparr>PageBuffer := B, PagePending := d \<noteq> [], SRAMPos := 4 + of_nat (length d),
           SRAMAddr := (A AND NOT 255) OR ((A + of_nat (length d)) AND 255), SRAMSaveLen := of_nat (length d)\<rparr>"
    using assms(2) unfolding page_filled_def by blast
  have sel: "\<not> PowerBlocked t" "WriteDelay t = 0" "PowerDelay t = 0" "PowerState t = Awake" "SRAMType t = 3"
    "SRAMCmd t = 0x0A" "PagePending t" "SRAMSaveAddr t = A" "SRAMSaveLen t = of_nat (length d)"
    "SRAMLength t = SRAMLength s" "page_size t = 256"
    "SRAMAddr t = (A AND NOT 255) OR ((A + of_nat (length d)) AND 255)"
    using assms by (auto simp: t at_data_def idle_flash_def in_command_def page_size_def)
  have "SPIRelease t = release_page t"
    using sel by (simp add: SPIRelease_def IsPowerCommand_def IsStatusCommand_def)
  moreover have first: "(SRAMAddr t - SRAMSaveLen t) AND 255 = A AND 255"
    unfolding sel by (rule low_byte_sub) (simp only: page_addr_low)
  moreover have "SRAMCmd (BeginSave 0x0A a f l t) = 0x0A" for a f l
    using sel by (simp add: BeginSave_def Let_def)
  ultimately have "SPIRelease t = (BeginSave 0x0A ((A AND (SRAMLength s - 1)) AND NOT 255) (A AND 255) (of_nat (length d)) t)
      \<lparr>PagePending := False, SRAMSaveAddr := 0, SRAMSaveLen := 0\<rparr>"
    by (simp add: release_page_def sizes_zero IsExtendedErase_def Let_def sel(6,8,10,11) first) (simp add: sel(9))
  then have "SPIRelease t = s\<lparr>PageBuffer := B, PagePending := False, SRAMPos := 4 + of_nat (length d),
       SRAMAddr := (A AND NOT 255) OR ((A + of_nat (length d)) AND 255), SRAMSaveLen := 0, SRAMSaveAddr := 0,
       WriteCommand := 0x0A, WriteAddress := (A AND (SRAMLength s - 1)) AND NOT 255, WriteFirst := A AND 255,
       WriteLength := of_nat (length d), WriteBuffer := B, WriteDelay := WriteCycles 3 0x0A (of_nat (length d)),
       SRAMStatus := SRAMStatus s OR 1\<rparr>"
    using sel(5) by (simp add: BeginSave_def Let_def IsExtendedErase_def) (simp add: t)
  with B show thesis by (rule that)
qed

text \<open>The cycle ends: the page is in the array and in the save file.\<close>

lemma program_bytes_inside:
  assumes "ready s" "WriteCommand s \<noteq> 0x02" "i < n" "unat (WriteFirst s) + n \<le> unat (page_size s)"
  shows "SRAM (fold program_byte [0..<n] s) ! (unat (WriteAddress s) + unat (WriteFirst s) + i) =
    WriteBuffer s ! (unat (WriteFirst s) + i)"
  using assms(3,4)
proof (induction n)
  case 0
  then show ?case by simp
next
  case (Suc n)
  define t where "t = fold program_byte [0..<n] s"
  have "\<exists>m. t = s\<lparr>SRAM := m\<rparr>" using program_bytes_ready [OF assms(1)] by (simp add: t_def)
  then obtain m where m: "t = s\<lparr>SRAM := m\<rparr>" by (elim exE)
  have r: "ready t" using program_bytes_ready [OF assms(1)] by (simp add: t_def)
  have index: "unat (page_index t n) = unat (WriteFirst s) + n"
    using page_index_plain [OF r, of n] Suc.prems by (simp add: m)
  have "unat (WriteAddress s) + (unat (WriteFirst s) + n) < length (SRAM t)"
    using r Suc.prems by (auto simp: ready_def chip_ok_def m)
  moreover have "SRAM (fold program_byte [0..<Suc n] s) =
      (SRAM t)[unat (WriteAddress s) + (unat (WriteFirst s) + n) := WriteBuffer s ! (unat (WriteFirst s) + n)]"
    using assms(2) by (simp add: t_def [symmetric] program_byte_eq [OF r] index) (simp add: m)
  ultimately show ?case
    using Suc.IH Suc.prems by (cases "i = n") (simp_all add: t_def [symmetric] add.assoc)
qed

lemma page_cycle:
  assumes c: "chip_ok s" "SRAMType s = 3" "WriteDelay s \<noteq> 0" "PowerDelay s = 0" "PowerState s = Awake"
      "\<not> PowerBlocked s" "WriteCommand s = 0x0A"
    and n: "unat (WriteFirst s) + unat (WriteLength s) \<le> 256" "0 < unat (WriteLength s)"
  shows "idle_flash (CompleteSave s)"
    and "SRAMLength (CompleteSave s) = SRAMLength s"
    and "i < unat (WriteLength s) \<Longrightarrow>
      SRAM (CompleteSave s) ! (unat (WriteAddress s) + unat (WriteFirst s) + i) = WriteBuffer s ! (unat (WriteFirst s) + i)"
    and "i < unat (WriteLength s) \<Longrightarrow>
      File (CompleteSave s) ! (unat (WriteAddress s) + unat (WriteFirst s) + i) = WriteBuffer s ! (unat (WriteFirst s) + i)"
proof -
  define u where "u = s\<lparr>WriteDelay := 0\<rparr>"
  have page: "page_size s = 256" "write_size s = 256" using c by (simp_all add: page_size_def write_size_def sizes_zero)
  have cyc: "unat (WriteAddress s) + 256 \<le> unat (SRAMLength s)" "WriteFirst s < 256"
    using c page by (auto simp: chip_ok_def cycle_ok_def)
  have "chip_ok u" using no_cycle_ok [OF c(1)] by (simp add: u_def keeps_def)
  then have r: "ready u" using page cyc by (simp add: ready_def u_def)
  obtain m where m: "program_page u = u\<lparr>SRAM := m\<rparr>" using program_page_ok(3) [OF r] by (elim exE)
  have u: "SRAM u = SRAM s" "SRAMLength u = SRAMLength s" "WriteAddress u = WriteAddress s" "WriteFirst u = WriteFirst s"
    "WriteLength u = WriteLength s" "WriteBuffer u = WriteBuffer s" "WriteCommand u = 0x0A" "page_size u = 256"
    "File u = File s"
    using c(7) page by (simp_all add: u_def)
  have "keeps u (u\<lparr>SRAM := m\<rparr>)" using program_page_ok(2) [OF r] by (simp add: m)
  then have len: "length m = length (SRAM s)" "unat (SRAMLength s) \<le> length (SRAM s)" "length (File s) = length (SRAM s)"
    using c(1) by (simp_all add: keeps_def same_chip_def u chip_ok_def)
  have m_nth: "m ! (unat (WriteAddress s) + unat (WriteFirst s) + j) = WriteBuffer s ! (unat (WriteFirst s) + j)"
    if "j < unat (WriteLength s)" for j
    using program_bytes_inside [OF r _ that] n(1) m by (simp add: u program_page_def)
  have room: "unat (WriteAddress s + WriteFirst s) = unat (WriteAddress s) + unat (WriteFirst s)"
    "unat (WriteAddress s) + unat (WriteFirst s) + unat (WriteLength s) \<le> length (SRAM s)"
    using in_page(1) [of "WriteAddress s" 256 "SRAMLength s" "WriteFirst s"] cyc n len
    by (simp_all add: word_less_nat_alt)
  have inside: "WriteLength s \<le> 256 - WriteFirst s"
    using first_room [of u] cyc(2) n(1) by (simp add: u)
  have erase: "erase_size 0x0A x = 0" for x by (rule sizes_zero)
  have result: "program_done u = u\<lparr>SRAM := m, SRAMStatus := SRAMStatus u AND NOT 3,
     File := splice (unat (WriteAddress s) + unat (WriteFirst s))
       (take (unat (WriteLength s)) (drop (unat (WriteAddress s) + unat (WriteFirst s)) m)) (File s)\<rparr>"
    using inside room len by (simp add: program_done_def u Let_def m erase WriteNDSSave_def)
  have complete: "CompleteSave s = (program_done u)\<lparr>WriteCommand := 0, WriteAddress := 0, WriteFirst := 0, WriteLength := 0\<rparr>"
    using c by (simp add: CompleteSave_def Let_def u_def)
  have final: "SRAM (CompleteSave s) = m" "SRAMLength (CompleteSave s) = SRAMLength s"
    "File (CompleteSave s) = splice (unat (WriteAddress s) + unat (WriteFirst s))
       (take (unat (WriteLength s)) (drop (unat (WriteAddress s) + unat (WriteFirst s)) m)) (File s)"
    by (simp_all add: complete result u)
  show "SRAMLength (CompleteSave s) = SRAMLength s" by (rule final)
  show "SRAM (CompleteSave s) ! (unat (WriteAddress s) + unat (WriteFirst s) + i) = WriteBuffer s ! (unat (WriteFirst s) + i)"
    if "i < unat (WriteLength s)" using m_nth [OF that] by (simp add: final)
  show "File (CompleteSave s) ! (unat (WriteAddress s) + unat (WriteFirst s) + i) = WriteBuffer s ! (unat (WriteFirst s) + i)"
    if "i < unat (WriteLength s)"
    using m_nth [OF that] that room len by (simp add: final splice_def nth_append)
  show "idle_flash (CompleteSave s)"
  proof -
    have "chip_ok (CompleteSave s)" using CompleteSave_ok [OF c(1)] by (simp add: keeps_def)
    moreover have "SRAMType (CompleteSave s) = 3" "PowerState (CompleteSave s) = Awake" "PowerDelay (CompleteSave s) = 0"
      "WriteDelay (CompleteSave s) = 0" "\<not> PowerBlocked (CompleteSave s)"
      using c by (simp_all add: complete result) (simp_all add: u_def)
    ultimately show ?thesis by (simp add: idle_flash_def)
  qed
qed

text \<open>Reading.\<close>

lemma split_low: "unat x = unat (x AND NOT 255) + unat (x AND 255)" for x :: u32
proof -
  have "unat (x AND NOT (mask 8)) + unat (x AND mask 8) = unat (x AND NOT (mask 8)) OR unat (x AND mask 8)"
    by (rule disjunctive_add) (auto simp: bit_unsigned_iff bit_simps)
  also have "\<dots> = unat ((x AND NOT (mask 8)) OR (x AND mask 8))" by (simp only: unsigned_or_eq)
  also have "(x AND NOT (mask 8)) OR (x AND mask 8) = x"
    by (simp only: bit.conj_disj_distrib [symmetric] bit.disj_cancel_left and.right_neutral)
  finally show ?thesis by (simp add: mask_eq_exp_minus_1)
qed

lemma unat_masked:
  fixes L w :: u32
  assumes "unat L = 2 ^ k"
  shows "unat (w AND (L - 1)) = unat w mod 2 ^ k"
  by (simp only: word_mask_pow [OF assms] take_bit_eq_mask [symmetric] unsigned_take_bit_eq)
     (simp add: take_bit_eq_mod)

lemma masked_step:
  fixes A L :: u32
  assumes L: "unat L = 2 ^ k" "8 \<le> k" and i: "unat A mod 256 + i < 256"
  shows "unat ((A + of_nat i) AND (L - 1)) = unat ((A AND (L - 1)) AND NOT 255) + unat (A AND 255) + i"
proof -
  define P where "P = unat A mod 2 ^ k"
  have k: "k < 32" using L(1) by (rule exp_u32)
  have pow: "(2 :: nat) ^ k = 256 * 2 ^ (k - 8)"
    using L(2) power_add [of "2 :: nat" 8 "k - 8"] by simp
  have P256: "P mod 256 = unat A mod 256" unfolding P_def pow by (rule mod_mod_cancel) simp
  have "P div 256 < 2 ^ (k - 8)"
    using mod_less_divisor [of "2 ^ k" "unat A"] pow by (simp add: P_def div_less_iff_less_mult mult.commute)
  then have "P div 256 * 256 + 256 \<le> 2 ^ k" unfolding pow by simp
  then have "P + i < 2 ^ k" using i P256 div_mult_mod_eq [of P 256] by linarith
  have dvd: "(2 :: nat) ^ k dvd 2 ^ 32" using k by (intro le_imp_power_dvd) simp
  have "unat (A + of_nat i) mod 2 ^ k = (unat A + i) mod 2 ^ k"
    using dvd i by (simp add: unat_word_ariths unat_of_nat mod_mod_cancel mod_simps)
  also have "\<dots> = (P + i) mod 2 ^ k" by (simp add: P_def mod_simps)
  also have "\<dots> = P + i" using \<open>P + i < 2 ^ k\<close> by simp
  finally have "unat ((A + of_nat i) AND (L - 1)) = P + i" by (simp only: unat_masked [OF L(1)])
  moreover have "unat (A AND (L - 1)) = P" by (simp only: unat_masked [OF L(1)] P_def)
  moreover have "unat ((A AND (L - 1)) AND 255) = unat (A AND 255)"
    unfolding unat_low_byte using P256 by (simp only: \<open>unat (A AND (L - 1)) = P\<close>)
  ultimately show ?thesis using split_low [of "A AND (L - 1)"] by simp
qed

lemma read_byte:
  assumes "in_command 0x03 s" "chip_ok s" "4 \<le> SRAMPos s" "SRAMPos s \<noteq> 0xFFFFFFFF"
  shows "SPITransmitReceive v s = (SRAM s ! unat (SRAMAddr s AND (SRAMLength s - 1)),
    s\<lparr>SRAMAddr := SRAMAddr s + 1, SRAMPos := SRAMPos s + 1\<rparr>)"
proof -
  have pos: "\<not> SRAMPos s \<le> 3" using assms(3) by (simp add: word_le_nat_alt)
  have sel: "SRAMCmd s = 3" "SRAMType s \<noteq> 0" using assms(1) by (auto simp: in_command_def)
  have "SRAMWrite_FLASH v s = array_read s" using pos sel by (simp add: SRAMWrite_FLASH_def)
  moreover have "array_read s = (SRAM s ! unat (SRAMAddr s AND (SRAMLength s - 1)), s\<lparr>SRAMAddr := SRAMAddr s + 1\<rparr>)"
    using sram_read_ok [OF assms(2) masked_in_chip [OF assms(2) sel(2)]] by (simp add: array_read_def)
  ultimately show ?thesis
    using flash_byte [OF assms(1)] assms(4) by (simp add: count_byte_def)
qed

lemma read_bytes:
  "in_command 0x03 s \<Longrightarrow> chip_ok s \<Longrightarrow> 4 \<le> SRAMPos s \<Longrightarrow> unat (SRAMPos s) + n < 2 ^ 32 - 1 \<Longrightarrow>
   fst (talk (replicate n 0) s) = map (\<lambda>i. SRAM s ! unat ((SRAMAddr s + of_nat i) AND (SRAMLength s - 1))) [0..<n]"
proof (induction n arbitrary: s)
  case 0
  then show ?case by simp
next
  case (Suc n)
  have pos: "SRAMPos s \<noteq> 0xFFFFFFFF" using Suc.prems(4) by auto
  let ?t = "s\<lparr>SRAMAddr := SRAMAddr s + 1, SRAMPos := SRAMPos s + 1\<rparr>"
  have up: "unat (SRAMPos s + 1) = unat (SRAMPos s) + 1"
    using unat_sum [of "SRAMPos s" 1] Suc.prems(4) by simp
  have "fst (talk (replicate n 0) ?t) =
      map (\<lambda>i. SRAM ?t ! unat ((SRAMAddr ?t + of_nat i) AND (SRAMLength ?t - 1))) [0..<n]"
  proof (rule Suc.IH)
    show "in_command 0x03 ?t" using Suc.prems(1) up by (auto simp: in_command_def dest: arg_cong [of _ _ unat])
    show "chip_ok ?t" using Suc.prems(2) by simp
    show "4 \<le> SRAMPos ?t" "unat (SRAMPos ?t) + n < 2 ^ 32 - 1"
      using up Suc.prems(3,4) by (simp_all add: word_le_nat_alt)
  qed
  then show ?case
    using read_byte [OF Suc.prems(1-3) pos]
    by (simp add: split_beta upt_conv_Cons map_Suc_upt [symmetric] algebra_simps del: upt_Suc)
qed

lemma read_address:
  fixes x y z :: u8
  assumes "idle_flash s"
  defines "t \<equiv> snd (talk [0x03, x, y, z] (SPISelect s))"
  shows "fst (talk [0x03, x, y, z] (SPISelect s)) = [0xFF, 0, 0, 0]"
    and "in_command 0x03 t" "chip_ok t" "SRAMPos t = 4" "SRAMAddr t = flash_address x y z" "SRAM t = SRAM s"
      "SRAMLength t = SRAMLength s"
proof -
  define t0 where "t0 = (SPISelect s)\<lparr>SRAMCmd := 0x03, SRAMAddr := 0, SRAMPos := 1\<rparr>"
  have t0: "SPITransmitReceive 0x03 (SPISelect s) = (0xFF, t0)"
    unfolding t0_def by (rule first_command [OF assms(1)]) simp_all
  have sel: "SRAMType (SPISelect s) = 3" "\<not> PowerBlocked (SPISelect s)" "SRAM (SPISelect s) = SRAM s"
    "SRAMLength (SPISelect s) = SRAMLength s"
    using assms(1) by (simp_all add: SPISelect_def idle_flash_def Let_def)
  have byte: "SPITransmitReceive v u = (0, u\<lparr>SRAMAddr := push_bit 8 (SRAMAddr u) OR ucast v, SRAMPos := SRAMPos u + 1\<rparr>)"
    if "in_command 0x03 u" "SRAMPos u \<le> 3" for v u
  proof -
    have "SRAMPos u \<noteq> 0xFFFFFFFF" using that(2) by auto
    with that show ?thesis
      by (simp add: flash_byte [OF that(1)] SRAMWrite_FLASH_def shift_in_def in_command_def count_byte_def)
  qed
  have ok: "chip_ok (SPISelect s)" using SPISelect_ok assms(1) by (simp add: idle_flash_def keeps_def)
  have talk: "talk [0x03, x, y, z] (SPISelect s) = ([0xFF, 0, 0, 0],
      (SPISelect s)\<lparr>SRAMCmd := 0x03, SRAMPos := 4, SRAMAddr := flash_address x y z\<rparr>)"
    by (simp add: t0 byte in_command_def t0_def sel flash_address_def)
  then show "fst (talk [0x03, x, y, z] (SPISelect s)) = [0xFF, 0, 0, 0]" by simp
  have t: "t = (SPISelect s)\<lparr>SRAMCmd := 0x03, SRAMPos := 4, SRAMAddr := flash_address x y z\<rparr>"
    by (simp only: t_def talk snd_conv)
  show "in_command 0x03 t" "chip_ok t" "SRAMPos t = 4" "SRAMAddr t = flash_address x y z" "SRAM t = SRAM s"
      "SRAMLength t = SRAMLength s"
    using ok sel by (simp_all add: t in_command_def)
qed

definition write_page :: "u8 \<Rightarrow> u8 \<Rightarrow> u8 \<Rightarrow> u8 list \<Rightarrow> save_chip \<Rightarrow> save_chip" where
  "write_page x y z d s =
     CompleteSave (snd (transaction ([0x0A, x, y, z] @ d) (snd (transaction [0x06] s))))"

definition read_page :: "u8 \<Rightarrow> u8 \<Rightarrow> u8 \<Rightarrow> nat \<Rightarrow> save_chip \<Rightarrow> u8 list" where
  "read_page x y z n s = drop 4 (fst (transaction ([0x03, x, y, z] @ replicate n 0) s))"

lemma flash_length:
  assumes "idle_flash s"
  obtains k where "unat (SRAMLength s) = 2 ^ k" "8 \<le> k"
proof -
  have "fits_in 256 (unat (SRAMLength s))"
    using geometry_facts(5) [of s] assms by (simp add: idle_flash_def chip_ok_def page_size_def)
  then obtain j k where jk: "(256 :: nat) = 2 ^ j" "unat (SRAMLength s) = 2 ^ k" "j \<le> k" by (auto simp: fits_in_def)
  then have "(2 :: nat) ^ 8 = 2 ^ j" by simp
  then have "j = 8" using power_inject_exp [of "2 :: nat" 8 j] by simp
  with jk show thesis by (intro that) simp_all
qed

lemma write_enabled:
  assumes "idle_flash s" "\<not> fst (IsWriteProtected a s)"
  shows "idle_flash (snd (transaction [0x06] s))" "tst (SRAMStatus (snd (transaction [0x06] s))) 2"
    "\<not> fst (IsWriteProtected a (snd (transaction [0x06] s)))"
    "SRAMLength (snd (transaction [0x06] s)) = SRAMLength s"
proof -
  define t where "t = snd (transaction [0x06] s)"
  note eq = write_enable [OF assms(1), folded t_def]
  have "keeps s t"
    using keeps_idle [of s "s\<lparr>SRAMPos := 0, PowerBlocked := False\<rparr>"] assms(1) by (simp add: eq idle_flash_def)
  then show "idle_flash (snd (transaction [0x06] s))" "SRAMLength (snd (transaction [0x06] s)) = SRAMLength s"
    using assms(1) by (simp_all add: idle_flash_def keeps_def t_def [symmetric]) (simp_all add: eq)
  have "tst (SRAMStatus s OR 2) 2"
    using tst_pow [of "SRAMStatus s OR 2" 1] by (simp add: bit_or_iff bit_numeral_rec)
  then show "tst (SRAMStatus (snd (transaction [0x06] s))) 2"
    by (simp add: t_def [symmetric] eq)
  have "drop_bit 2 (SRAMStatus s OR 2) = drop_bit 2 (SRAMStatus s)" by (simp add: drop_bit_or)
  then have "fst (IsWriteProtected a t) = fst (IsWriteProtected a s)"
    by (simp add: eq IsWriteProtected_def flash_protected_def lock_read_def Let_def split_beta)
  then show "\<not> fst (IsWriteProtected a (snd (transaction [0x06] s)))"
    using assms(2) by (simp add: t_def)
qed

lemma write_page_effect:
  fixes x y z :: u8
  assumes "idle_flash s" "\<not> fst (IsWriteProtected A s)" "d \<noteq> []" "unat A mod 256 + length d \<le> 256"
  assumes A: "A = flash_address x y z"
  defines "t \<equiv> write_page x y z d s"
  defines "P \<equiv> unat ((A AND (SRAMLength s - 1)) AND NOT 255) + unat (A AND 255)"
  shows "idle_flash t" "SRAMLength t = SRAMLength s"
    and "i < length d \<Longrightarrow> SRAM t ! (P + i) = d ! i" "i < length d \<Longrightarrow> File t ! (P + i) = d ! i"
proof -
  define s1 where "s1 = snd (transaction [0x06] s)"
  have s1: "idle_flash s1" "tst (SRAMStatus s1) 2" "\<not> fst (IsWriteProtected A s1)" "SRAMLength s1 = SRAMLength s"
    using write_enabled [OF assms(1,2)] by (simp_all add: s1_def)
  define s2 where "s2 = snd (talk [0x0A, x, y, z] (SPISelect s1))"
  note page = at_page [OF s1(1,2) s1(3) [unfolded A], folded s2_def]
  have s2: "idle_flash s2" "SRAMLength s2 = SRAMLength s"
    using page(2) s1 by (simp_all add: idle_flash_def at_data_def in_command_def) (simp_all add: page(1))
  define s3 where "s3 = snd (talk d s2)"
  have filled: "page_filled A d s2 s3"
    unfolding s3_def A by (rule page_filled_talk [OF page(2)]) (use assms(4) A in simp)
  obtain B where B: "\<And>i. i < length d \<Longrightarrow> B ! (unat A mod 256 + i) = d ! i"
    and rel: "SPIRelease s3 = s2\<lparr>PageBuffer := B, PagePending := False, SRAMPos := 4 + of_nat (length d),
       SRAMAddr := (A AND NOT 255) OR ((A + of_nat (length d)) AND 255), SRAMSaveLen := 0, SRAMSaveAddr := 0,
       WriteCommand := 0x0A, WriteAddress := (A AND (SRAMLength s2 - 1)) AND NOT 255, WriteFirst := A AND 255,
       WriteLength := of_nat (length d), WriteBuffer := B, WriteDelay := WriteCycles 3 0x0A (of_nat (length d)),
       SRAMStatus := SRAMStatus s2 OR 1\<rparr>"
    using release_to_cycle [OF page(2) [folded A] filled assms(3,4) s2(1)] by metis
  define c where "c = SPIRelease s3"
  have "chip_ok (run (map Byte d) s2)" using s2(1) by (intro run_ok) (simp add: idle_flash_def)
  then have ok: "chip_ok c" unfolding c_def s3_def talk_run by (rule keeps_ok [OF SPIRelease_ok])
  have len: "unat (of_nat (length d) :: u32) = length d" using assms(4) by (simp add: unat_of_nat)
  have "WriteCycles 3 0x0A w \<noteq> 0" for w by (simp add: WriteCycles_def)
  then have sel: "SRAMType c = 3" "WriteDelay c \<noteq> 0" "PowerDelay c = 0" "PowerState c = Awake" "\<not> PowerBlocked c"
    "WriteCommand c = 0x0A" "WriteFirst c = A AND 255" "unat (WriteLength c) = length d" "WriteBuffer c = B"
    "WriteAddress c = (A AND (SRAMLength s - 1)) AND NOT 255" "SRAMLength c = SRAMLength s"
    using s2 len by (simp_all add: c_def rel idle_flash_def)
  have t: "t = CompleteSave c"
    by (simp add: t_def write_page_def transaction_def talk_append split_beta c_def s3_def s2_def s1_def)
  have n: "unat (WriteFirst c) + unat (WriteLength c) \<le> 256" "0 < unat (WriteLength c)"
    using assms(3,4) by (simp_all only: sel unat_low_byte length_greater_0_conv not_False_eq_True)
  note cycle = page_cycle [OF ok sel(1-6) n]
  show "idle_flash t" "SRAMLength t = SRAMLength s" using cycle(1,2) sel by (simp_all add: t)
  show "SRAM t ! (P + i) = d ! i" "File t ! (P + i) = d ! i" if "i < length d"
    using cycle(3,4) [of i] that B [OF that] by (simp_all only: t sel P_def unat_low_byte)
qed

lemma read_page_bytes:
  fixes x y z :: u8
  assumes "idle_flash s" "n \<le> 256"
  shows "read_page x y z n s =
    map (\<lambda>i. SRAM s ! unat ((flash_address x y z + of_nat i) AND (SRAMLength s - 1))) [0..<n]"
proof -
  define t where "t = snd (talk [0x03, x, y, z] (SPISelect s))"
  note address = read_address [OF assms(1), of x y z, folded t_def]
  have "fst (talk (replicate n 0) t) =
      map (\<lambda>i. SRAM t ! unat ((SRAMAddr t + of_nat i) AND (SRAMLength t - 1))) [0..<n]"
    using address(2-4) assms(2) by (intro read_bytes) simp_all
  moreover have "fst (transaction ([0x03, x, y, z] @ replicate n 0) s) = [0xFF, 0, 0, 0] @ fst (talk (replicate n 0) t)"
    unfolding transaction_def talk_append address(1) t_def [symmetric] by (simp add: split_beta)
  ultimately show ?thesis
    using address(4-7) by (simp add: read_page_def)
qed

text \<open>C28. A page of data, up to the end of its 256 byte page, that is written to an unprotected idle Flash chip
  (write enable, page write, the bytes, release, and the end of the write cycle) is read back by a read of the
  same address, and is in the save file at that address; the chip is idle again.\<close>

theorem flash_page_roundtrip:
  assumes "idle_flash s" "\<not> fst (IsWriteProtected (flash_address x y z) s)"
    and "d \<noteq> []" "unat (flash_address x y z) mod 256 + length d \<le> 256"
  shows "idle_flash (write_page x y z d s) \<and>
    read_page x y z (length d) (write_page x y z d s) = d \<and>
    (\<forall>i < length d. File (write_page x y z d s) !
       unat ((flash_address x y z + of_nat i) AND (SRAMLength s - 1)) = d ! i)"
proof -
  obtain k where k: "unat (SRAMLength s) = 2 ^ k" "8 \<le> k" using flash_length [OF assms(1)] .
  note effect = write_page_effect [OF assms refl]
  have step: "unat ((flash_address x y z + of_nat i) AND (SRAMLength s - 1)) =
      unat ((flash_address x y z AND (SRAMLength s - 1)) AND NOT 255) + unat (flash_address x y z AND 255) + i"
    if "i < length d" for i
    using assms(4) that by (intro masked_step [OF k]) simp
  have read: "read_page x y z (length d) (write_page x y z d s) = d"
  proof (rule nth_equalityI)
    have len: "length d \<le> 256" using assms(4) by simp
    note bytes = read_page_bytes [OF effect(1) len, of x y z]
    show "length (read_page x y z (length d) (write_page x y z d s)) = length d" by (simp add: bytes)
    show "read_page x y z (length d) (write_page x y z d s) ! i = d ! i"
      if "i < length (read_page x y z (length d) (write_page x y z d s))" for i
    proof -
      have i: "i < length d" using that by (simp add: bytes)
      then show ?thesis using effect(3) [OF i] step [OF i] by (simp only: bytes effect(2)) simp
    qed
  qed
  have "File (write_page x y z d s) ! unat ((flash_address x y z + of_nat i) AND (SRAMLength s - 1)) = d ! i"
    if "i < length d" for i
    using effect(4) [OF that] by (simp only: step [OF that])
  with read effect(1) show ?thesis by blast
qed

theorem flash_page_roundtrip_witness:
  "read_page 1 2 3 5 (write_page 1 2 3 [10, 20, 30, 40, 50] (CartRetail_new 5 None)) = [10, 20, 30, 40, 50]"
proof -
  have idle: "idle_flash (CartRetail_new 5 None)"
    using CartRetail_new_ok [of 5 None]
    by (simp add: idle_flash_def CartRetail_new_def Let_def SaveLengths_def SaveProtocol_def)
  have "\<not> fst (IsWriteProtected (flash_address 1 2 3) (CartRetail_new 5 None))"
    by (simp add: IsWriteProtected_def CartRetail_new_def Let_def SaveLengths_def SaveProtocol_def IsFlashProfile_def)
  moreover have "flash_address 1 2 3 = 0x10203" by (simp add: flash_address_def)
  ultimately have "read_page 1 2 3 (length [10, 20, 30, 40, 50 :: u8])
      (write_page 1 2 3 [10, 20, 30, 40, 50] (CartRetail_new 5 None)) = [10, 20, 30, 40, 50]"
    by (intro flash_page_roundtrip [OF idle, THEN conjunct2, THEN conjunct1]) simp_all
  moreover have "length [10, 20, 30, 40, 50 :: u8] = 5" by simp
  ultimately show ?thesis by (simp only:)
qed

end
