(* ===== verification/Key1.thy ===== *)
theory Key1
  imports Prelude
begin

text \<open>
  The KEY1 cipher of the DS cartridge bus and the secure area it protects (\<^verbatim>\<open>src/src/NDSCart.cpp\<close>).  The
  key buffer is a function from the index, below 0x412 wherever the code reads or writes it; two words
  of data are a pair.  A decrypted area is given back by the encryption done when a cartridge is inserted
  and the decryption of direct boot.
\<close>

section \<open>The cipher\<close>

type_synonym keybuf = "nat \<Rightarrow> u32"

definition ByteSwap :: "u32 \<Rightarrow> u32" where
  "ByteSwap val = drop_bit 24 val OR (drop_bit 8 val AND 0xFF00) OR (push_bit 8 val AND 0xFF0000) OR push_bit 24 val"

text \<open>The four table reads of a round, and a round on \<open>(y, x)\<close>.\<close>

definition key1_mix :: "keybuf \<Rightarrow> u32 \<Rightarrow> u32" where
  "key1_mix K z =
     (let x = K (0x012 + unat (drop_bit 24 z));
          x = x + K (0x112 + unat (drop_bit 16 z AND 0xFF));
          x = x XOR K (0x212 + unat (drop_bit 8 z AND 0xFF))
      in x + K (0x312 + unat (z AND 0xFF)))"

definition key1_round :: "keybuf \<Rightarrow> nat \<Rightarrow> u32 \<times> u32 \<Rightarrow> u32 \<times> u32" where
  "key1_round K i = (\<lambda>(y, x). let z = K i XOR x in (z, key1_mix K z XOR y))"

definition Key1_Encrypt :: "keybuf \<Rightarrow> u32 \<times> u32 \<Rightarrow> u32 \<times> u32" where
  "Key1_Encrypt K = (\<lambda>data. let (y, x) = fold (key1_round K) [0..<0x10] data in (x XOR K 0x10, y XOR K 0x11))"

definition Key1_Decrypt :: "keybuf \<Rightarrow> u32 \<times> u32 \<Rightarrow> u32 \<times> u32" where
  "Key1_Decrypt K = (\<lambda>data. let (y, x) = fold (key1_round K) (rev [2..<0x12]) data in (x XOR K 1, y XOR K 0))"

section \<open>The key schedule\<close>

type_synonym keycode = "u32 \<times> u32 \<times> u32"

text \<open>The two encryptions on the overlapping pairs of the key code.\<close>

definition encrypt_keycode :: "keybuf \<Rightarrow> keycode \<Rightarrow> keycode" where
  "encrypt_keycode K = (\<lambda>(k0, k1, k2).
     let (k1, k2) = Key1_Encrypt K (k1, k2);
         (k0, k1) = Key1_Encrypt K (k0, k1)
     in (k0, k1, k2))"

definition keycode_word :: "keycode \<Rightarrow> nat \<Rightarrow> u32" where
  "keycode_word = (\<lambda>(k0, k1, k2) i. if i = 0 then k0 else if i = 1 then k1 else k2)"

definition xor_keycode :: "keycode \<Rightarrow> nat \<Rightarrow> keybuf \<Rightarrow> keybuf" where
  "xor_keycode kc m K = (\<lambda>i. if i \<le> 0x11 then K i XOR ByteSwap (keycode_word kc (i mod m)) else K i)"

text \<open>One turn of the loop that replaces the buffer, two words at a time.\<close>

definition schedule_step :: "nat \<Rightarrow> keybuf \<times> u32 \<times> u32 \<Rightarrow> keybuf \<times> u32 \<times> u32" where
  "schedule_step i = (\<lambda>(K, temp).
     let (t0, t1) = Key1_Encrypt K temp in (K(i := t1, i + 1 := t0), (t0, t1)))"

definition Key1_ApplyKeycode :: "keycode \<Rightarrow> nat \<Rightarrow> keybuf \<Rightarrow> keycode \<times> keybuf" where
  "Key1_ApplyKeycode kc m K =
     (let kc = encrypt_keycode K kc;
          K = xor_keycode kc m K;
          (K, temp) = fold schedule_step (map (\<lambda>i. 2 * i) [0..<0x209]) (K, 0, 0)
      in (kc, K))"

text \<open>The tables in the BIOS images, and which of them the console uses.\<close>

record key_source =
  ConsoleType :: nat
  KnownNativeBIOS :: bool
  ARM7BIOS :: "nat \<Rightarrow> u8"
  ARM7iBIOS :: "nat \<Rightarrow> u8"
  ARM9iBIOS :: "nat \<Rightarrow> u8"

definition words_at :: "(nat \<Rightarrow> u8) \<Rightarrow> nat \<Rightarrow> keybuf" where
  "words_at bios off i =
     ucast (bios (off + 4 * i)) OR push_bit 8 (ucast (bios (off + 4 * i + 1))) OR
     push_bit 16 (ucast (bios (off + 4 * i + 2))) OR push_bit 24 (ucast (bios (off + 4 * i + 3)))"

definition Key1_LoadKeyBuf :: "key_source \<Rightarrow> bool \<Rightarrow> keybuf" where
  "Key1_LoadKeyBuf src dsimode =
     (if ConsoleType src = 1 then
        if dsimode then words_at (ARM7iBIOS src) 0xC6D0 else words_at (ARM9iBIOS src) 0x99A0
      else if KnownNativeBIOS src then words_at (ARM7BIOS src) 0x0030
      else (\<lambda>i. 0))"

definition level3_keycode :: "keycode \<Rightarrow> keycode" where
  "level3_keycode = (\<lambda>(k0, k1, k2). (k0, push_bit 1 k1, drop_bit 1 k2))"

definition Key1_InitKeycode :: "key_source \<Rightarrow> bool \<Rightarrow> u32 \<Rightarrow> nat \<Rightarrow> nat \<Rightarrow> keybuf" where
  "Key1_InitKeycode src dsi idcode level m =
     (let K = Key1_LoadKeyBuf src dsi;
          kc = (idcode, drop_bit 1 idcode, push_bit 1 idcode);
          (kc, K) = (if level \<ge> 1 then Key1_ApplyKeycode kc m K else (kc, K));
          (kc, K) = (if level \<ge> 2 then Key1_ApplyKeycode kc m K else (kc, K));
          (kc, K) = (if level \<ge> 3 then Key1_ApplyKeycode (level3_keycode kc) m K else (kc, K))
      in K)"

section \<open>The secure area\<close>

text \<open>A block of 0x800 bytes as its 0x200 words.\<close>

fun map_pairs :: "(u32 \<times> u32 \<Rightarrow> u32 \<times> u32) \<Rightarrow> u32 list \<Rightarrow> u32 list" where
  "map_pairs f (a # b # ws) = (let (a, b) = f (a, b) in a # b # map_pairs f ws)"
| "map_pairs f ws = ws"

definition map_first :: "(u32 \<times> u32 \<Rightarrow> u32 \<times> u32) \<Rightarrow> u32 list \<Rightarrow> u32 list" where
  "map_first f ws = map_pairs f (take 2 ws) @ drop 2 ws"

definition MARKER :: u32 where "MARKER = 0xE7FFDEFF"

text \<open>\<open>"encryObj"\<close> as two words.\<close>

definition encryObj :: "u32 list" where "encryObj = [0x72636E65, 0x6A624F79]"

definition encrypted_area :: "key_source \<Rightarrow> u32 \<Rightarrow> u32 list \<Rightarrow> u32 list" where
  "encrypted_area src code area =
     (let area = encryObj @ drop 2 area;
          area = map_pairs (Key1_Encrypt (Key1_InitKeycode src False code 3 2)) area
      in map_first (Key1_Encrypt (Key1_InitKeycode src False code 2 2)) area)"

text \<open>What \<open>SetCart\<close> does to the area at \<open>ARM9ROMOffset\<close>.\<close>

definition SetCart_secure_area :: "key_source \<Rightarrow> u32 \<Rightarrow> u32 \<Rightarrow> u32 list \<Rightarrow> u32 list" where
  "SetCart_secure_area src code off area =
     (if off \<ge> 0x4000 \<and> off < 0x8000 \<and> area ! 0 = MARKER \<and> area ! 4 \<noteq> MARKER
      then encrypted_area src code area
      else area)"

definition DecryptSecureArea :: "key_source \<Rightarrow> u32 \<Rightarrow> u32 list \<Rightarrow> u32 list" where
  "DecryptSecureArea src gamecode area =
     (let out = map_first (Key1_Decrypt (Key1_InitKeycode src False gamecode 2 2)) area;
          out = map_pairs (Key1_Decrypt (Key1_InitKeycode src False gamecode 3 2)) out
      in if take 2 out = encryObj then [MARKER, MARKER] @ drop 2 out
         else map (\<lambda>_. MARKER) out)"

section \<open>Round trip\<close>

text \<open>
  Undoing rounds: from the final state of \<open>n\<close> encryption rounds the decryption rounds, downwards, lead
  back to the initial one.
\<close>

lemma xor_shuffle:
  "k XOR (y XOR k) = y" "f XOR ((f XOR y1) XOR k') = y1 XOR k'" for k y f y1 k' :: u32
  by (rule bit_word_eqI; auto simp: bit_xor_iff)+

lemma rounds_undone:
  assumes "fold (key1_round K) [0..<n] (y0, x0) = (y, x)"
    and "fold (key1_round K) (rev [2..<n + 2]) (x XOR K n, y XOR K (n + 1)) = (y', x')"
  shows "x' XOR K 1 = y0 \<and> y' XOR K 0 = x0"
  using assms
proof (induction n arbitrary: y x y' x')
  case 0
  then show ?case by (auto simp: xor.assoc)
next
  case (Suc n)
  obtain y1 x1 where prev: "fold (key1_round K) [0..<n] (y0, x0) = (y1, x1)" by fastforce
  with Suc.prems(1) have "key1_round K n (y1, x1) = (y, x)" by simp
  then have step: "y = K n XOR x1" "x = key1_mix K y XOR y1"
    by (auto simp: key1_round_def Let_def)
  have "key1_round K (n + 2) (x XOR K (n + 1), y XOR K (n + 2)) = (y, y1 XOR K (n + 1))"
    by (simp add: key1_round_def step(2) xor_shuffle)
  moreover have "y = x1 XOR K n" using step(1) by (simp add: xor.commute)
  moreover have "rev [2..<Suc n + 2] = (n + 2) # rev [2..<n + 2]" by simp
  ultimately have "fold (key1_round K) (rev [2..<n + 2]) (x1 XOR K n, y1 XOR K (n + 1)) = (y', x')"
    using Suc.prems(2) by simp
  with Suc.IH [OF prev] show ?case by blast
qed

lemma Decrypt_Encrypt: "Key1_Decrypt K (Key1_Encrypt K data) = data"
proof -
  obtain y0 x0 where d: "data = (y0, x0)" by (cases data)
  obtain y x where e: "fold (key1_round K) [0..<16] (y0, x0) = (y, x)" by fastforce
  obtain y' x' where f: "fold (key1_round K) (rev [2..<16 + 2]) (x XOR K 16, y XOR K (16 + 1)) = (y', x')"
    by fastforce
  from rounds_undone [OF e f] show ?thesis
    using f by (simp add: Key1_Encrypt_def Key1_Decrypt_def d e del: upt_rec_numeral rev_append)
qed

lemma length_map_pairs [simp]: "length (map_pairs f ws) = length ws"
  by (induction ws rule: induct_list012) (simp_all add: split_beta Let_def)

lemma map_pairs_undo:
  "(\<And>d. g (f d) = d) \<Longrightarrow> map_pairs g (map_pairs f ws) = ws"
  by (induction ws rule: induct_list012) (simp_all add: split_beta Let_def)

lemma map_first_undo:
  assumes "\<And>d. g (f d) = d"
  shows "map_first g (map_first f ws) = ws"
proof -
  have "take 2 (map_pairs f (take 2 ws) @ drop 2 ws) = map_pairs f (take 2 ws)"
    by (cases "2 \<le> length ws") simp_all
  moreover have "drop 2 (map_pairs f (take 2 ws) @ drop 2 ws) = drop 2 ws"
    by (cases "2 \<le> length ws") simp_all
  ultimately show ?thesis
    by (simp only: map_first_def map_pairs_undo assms append_take_drop_id)
qed

lemma encryObj_two: "length encryObj = 2"
  by (simp add: encryObj_def)

lemma DecryptSecureArea_encrypted:
  "length area \<ge> 2 \<Longrightarrow>
   DecryptSecureArea src code (encrypted_area src code area) = [MARKER, MARKER] @ drop 2 area"
  by (simp add: DecryptSecureArea_def encrypted_area_def Let_def map_first_undo map_pairs_undo
      Decrypt_Encrypt encryObj_two)

text \<open>C29. The secure area survives the cartridge: when a cartridge with a decrypted secure area (its first
two words are the marker) is inserted, \<open>SetCart\<close> encrypts the area with the console's key tables,
whatever they are, and the decryption of direct boot gives the original area back word for word.\<close>

theorem secure_area_roundtrip:
  assumes "0x4000 \<le> off" "off < 0x8000" "length area = 0x200"
    and "take 2 area = [MARKER, MARKER]" "area ! 4 \<noteq> MARKER"
  shows "DecryptSecureArea src code (SetCart_secure_area src code off area) = area"
proof -
  have "area = [MARKER, MARKER] @ drop 2 area"
    using assms(4) by (metis append_take_drop_id)
  moreover from this have "area ! 0 = MARKER" by (metis append_Cons nth_Cons_0)
  ultimately show ?thesis
    using assms by (simp add: SetCart_secure_area_def DecryptSecureArea_encrypted)
qed

text \<open>A console without native BIOS images, and an area of zeros.\<close>

definition zero_source :: key_source where
  "zero_source = \<lparr>ConsoleType = 0, KnownNativeBIOS = False, ARM7BIOS = (\<lambda>i. 0),
     ARM7iBIOS = (\<lambda>i. 0), ARM9iBIOS = (\<lambda>i. 0)\<rparr>"

theorem secure_area_roundtrip_witness:
  "DecryptSecureArea zero_source 0x45414441
     (SetCart_secure_area zero_source 0x45414441 0x4000 ([MARKER, MARKER] @ replicate 0x1FE 0)) =
   [MARKER, MARKER] @ replicate 0x1FE 0"
  by (rule secure_area_roundtrip) (simp_all add: MARKER_def nth_Cons')

end
