(* ===== verification/Rtc.thy ===== *)
theory Rtc
  imports Irq "HOL-Library.Signed_Division"
begin

text \<open>
  The real-time clock (\<^verbatim>\<open>src/src/RTC.cpp\<close>, \<^verbatim>\<open>RTC.h\<close>): the battery-backed registers in BCD, the counter chain
  from the 32768 Hz tick to the year, the two interrupt outputs, the commands, and the serial interface.
  The clock object is the first component of the console's \<open>Rest\<close>, so that \<open>ClockTimer\<close> is a callback of the
  event scheduler; \<open>RCnt\<close> is the console's register of that name, which this code reads, and \<open>HostDate\<close> the last
  date handed to \<open>Platform::WriteDateTime\<close>.
\<close>

section \<open>State\<close>

record rtc_state =
  StatusReg1 :: u8
  StatusReg2 :: u8
  DateTime :: "nat \<Rightarrow> u8"
  Alarm1 :: "nat \<Rightarrow> u8"
  Alarm2 :: "nat \<Rightarrow> u8"
  ClockAdjust :: u8
  FreeReg :: u8
  IRQFlag :: u8
  MinuteCount :: u32
  FOUT1 :: u8
  FOUT2 :: u8
  AlarmDate1 :: "nat \<Rightarrow> u8"
  AlarmDate2 :: "nat \<Rightarrow> u8"

record rtc =
  IO :: u16
  Input :: u8
  InputBit :: u32
  InputPos :: u32
  Output :: "nat \<Rightarrow> u8"
  OutputBit :: u32
  OutputPos :: u32
  CurCmd :: u8
  State :: rtc_state
  TimerError :: s32
  ClockCount :: u32
  RCnt :: u16
  HostDate :: "int list"

text \<open>The clock inside the console, and a change of it.\<close>

definition clock :: "(rtc \<times> 'y) nds \<Rightarrow> rtc" where
  "clock nds = fst (Rest nds)"

definition on_clock :: "(rtc \<Rightarrow> rtc) \<Rightarrow> (rtc \<times> 'y) nds \<Rightarrow> (rtc \<times> 'y) nds" where
  "on_clock f nds = nds\<lparr>Rest := (f (fst (Rest nds)), snd (Rest nds))\<rparr>"

definition on_state :: "(rtc_state \<Rightarrow> rtc_state) \<Rightarrow> (rtc \<times> 'y) nds \<Rightarrow> (rtc \<times> 'y) nds" where
  "on_state f = on_clock (\<lambda>r. r\<lparr>State := f (State r)\<rparr>)"

definition state_of :: "(rtc \<times> 'y) nds \<Rightarrow> rtc_state" where
  "state_of nds = State (clock nds)"

text \<open>The calls out of the console, which do not touch the clock.\<close>

definition beside_clock :: "'y nds_ext \<Rightarrow> (rtc \<times> 'y) nds_ext" where
  "beside_clock ext =
     \<lparr>Restart3DFrame = (\<lambda>(r, y). (r, Restart3DFrame ext y)),
      CheckNDMAs = (\<lambda>cpu mode (r, y). let (y, m) = CheckNDMAs ext cpu mode y in ((r, y), m)),
      GXFIFO_irq = (\<lambda>(r, y). GXFIFO_irq ext y)\<rparr>"

section \<open>BCD\<close>

definition BCD :: "u8 \<Rightarrow> u8" where
  "BCD val = (val mod 10) OR push_bit 4 (val div 10)"

definition FromBCD :: "u8 \<Rightarrow> u8" where
  "FromBCD val = (val AND 0xF) + drop_bit 4 val * 10"

definition BCDIncrement :: "u8 \<Rightarrow> u8" where
  "BCDIncrement val =
     (let val = val + 1;
          val = (if val AND 0x0F \<ge> 0x0A then val + 0x06 else val)
      in if val AND 0xF0 \<ge> 0xA0 then val + 0x60 else val)"

definition BCDSanitize :: "u8 \<Rightarrow> u8 \<Rightarrow> u8 \<Rightarrow> u8" where
  "BCDSanitize val vmin vmax =
     (if val < vmin \<or> val > vmax then vmin
      else if val AND 0x0F \<ge> 0x0A then vmin
      else if val AND 0xF0 \<ge> 0xA0 then vmin
      else val)"

text \<open>The 24-hour bit of the first status register.\<close>

definition mode24 :: "rtc_state \<Rightarrow> bool" where
  "mode24 s \<longleftrightarrow> tst (StatusReg1 s) 2"

definition set_date :: "nat \<Rightarrow> u8 \<Rightarrow> rtc_state \<Rightarrow> rtc_state" where
  "set_date i v s = s\<lparr>DateTime := (DateTime s)(i := v)\<rparr>"

section \<open>The counter chain\<close>

definition DaysInMonth :: "rtc_state \<Rightarrow> u8" where
  "DaysInMonth s =
     (let m = DateTime s 1 in
      if m = 0x01 \<or> m = 0x03 \<or> m = 0x05 \<or> m = 0x07 \<or> m = 0x08 \<or> m = 0x10 \<or> m = 0x12 then 0x31
      else if m = 0x04 \<or> m = 0x06 \<or> m = 0x09 \<or> m = 0x11 then 0x30
      else if m = 0x02 then
        let year = uint (DateTime s 0); year = (year AND 0xF) + drop_bit 4 year * 10
        in if year AND 3 = 0 then 0x29 else 0x28
      else 0)"

definition CountYear :: "rtc_state \<Rightarrow> rtc_state" where
  "CountYear s = set_date 0 (BCDIncrement (DateTime s 0)) s"

definition CountMonth :: "rtc_state \<Rightarrow> rtc_state" where
  "CountMonth s =
     (let s = set_date 1 (BCDIncrement (DateTime s 1)) s
      in if DateTime s 1 > 0x12 then CountYear (set_date 1 1 s) else s)"

definition CheckEndOfMonth :: "rtc_state \<Rightarrow> rtc_state" where
  "CheckEndOfMonth s = (if DateTime s 2 > DaysInMonth s then CountMonth (set_date 2 1 s) else s)"

definition CountDay :: "rtc_state \<Rightarrow> rtc_state" where
  "CountDay s =
     (let s = set_date 3 (DateTime s 3 + 1) s;
          s = (if DateTime s 3 \<ge> 7 then set_date 3 0 s else s)
      in CheckEndOfMonth (set_date 2 (BCDIncrement (DateTime s 2)) s))"

definition CountHour :: "rtc_state \<Rightarrow> rtc_state" where
  "CountHour s =
     (let hour = BCDIncrement (DateTime s 4 AND 0x3F);
          pm = DateTime s 4 AND 0x40
      in if mode24 s then
           let (hour, s) = (if hour \<ge> 0x24 then (0, CountDay s) else (hour, s));
               pm = (if hour \<ge> 0x12 then 0x40 else 0)
           in set_date 4 (hour OR pm) s
         else
           let (hour, pm, s) = (if hour \<ge> 0x12 then (0, pm XOR 0x40, if pm \<noteq> 0 then CountDay s else s)
                                else (hour, pm, s))
           in set_date 4 (hour OR pm) s)"

text \<open>The registers of \<open>CountMinute\<close>, before it processes the interrupts.\<close>

definition count_minute :: "rtc_state \<Rightarrow> rtc_state" where
  "count_minute s =
     (let s = s\<lparr>MinuteCount := MinuteCount s + 1\<rparr>;
          s = set_date 5 (BCDIncrement (DateTime s 5)) s;
          s = (if DateTime s 5 \<ge> 0x60 then CountHour (set_date 5 0 s) else s)
      in s\<lparr>IRQFlag := IRQFlag s OR 0x01\<rparr>)"

section \<open>Interrupts\<close>

definition IRQ_RTC :: nat where "IRQ_RTC = 7"

definition rtc_SetIRQ :: "'y nds_ext \<Rightarrow> u8 \<Rightarrow> (rtc \<times> 'y) nds \<Rightarrow> (rtc \<times> 'y) nds" where
  "rtc_SetIRQ ext irq nds =
     (let oldstat = IRQFlag (state_of nds);
          nds = on_state (\<lambda>s. s\<lparr>IRQFlag := IRQFlag s OR irq, StatusReg1 := StatusReg1 s OR irq\<rparr>) nds
      in if \<not> tst oldstat 0x30 \<and> tst (IRQFlag (state_of nds)) 0x30 then
           if RCnt (clock nds) AND 0xC100 = 0x8100 then SetIRQ (beside_clock ext) 1 IRQ_RTC nds else nds
         else nds)"

definition rtc_ClearIRQ :: "u8 \<Rightarrow> (rtc \<times> 'y) nds \<Rightarrow> (rtc \<times> 'y) nds" where
  "rtc_ClearIRQ irq = on_state (\<lambda>s. s\<lparr>IRQFlag := IRQFlag s AND NOT irq\<rparr>)"

text \<open>The mask of the steady interrupt: bit \<open>n\<close> of the frequency register selects a bit of the tick counter.\<close>

definition frequency_mask :: "u8 \<Rightarrow> u32" where
  "frequency_mask f =
     (if tst f 1 then 0x4000 else 0) OR (if tst f 2 then 0x2000 else 0) OR
     (if tst f 4 then 0x1000 else 0) OR (if tst f 8 then 0x0800 else 0) OR (if tst f 16 then 0x0400 else 0)"

text \<open>The condition of an alarm; \<open>date\<close> is its date on a DSi.\<close>

definition alarm_matches :: "bool \<Rightarrow> (nat \<Rightarrow> u8) \<Rightarrow> (nat \<Rightarrow> u8) \<Rightarrow> (nat \<Rightarrow> u8) \<Rightarrow> bool" where
  "alarm_matches dsi alarm date now \<longleftrightarrow>
     (tst (alarm 0) 0x80 \<longrightarrow> alarm 0 AND 0x07 = now 3) \<and>
     (tst (alarm 1) 0x80 \<longrightarrow> alarm 1 AND 0x7F = now 4) \<and>
     (tst (alarm 2) 0x80 \<longrightarrow> alarm 2 AND 0x7F = now 5) \<and>
     (dsi \<longrightarrow>
        (tst (date 1) 0x40 \<longrightarrow> date 0 = now 0) \<and>
        (tst (date 1) 0x80 \<longrightarrow> date 1 AND 0x1F = now 1) \<and>
        (tst (date 2) 0x80 \<longrightarrow> date 2 AND 0x3F = now 2))"

definition minute_edge :: "nat \<Rightarrow> rtc_state \<Rightarrow> bool" where
  "minute_edge type s \<longleftrightarrow> type = 0 \<or> type = 2 \<and> tst (IRQFlag s) 0x01"

definition process_INT1 :: "'y nds_ext \<Rightarrow> nat \<Rightarrow> (rtc \<times> 'y) nds \<Rightarrow> (rtc \<times> 'y) nds" where
  "process_INT1 ext type nds =
     (let s = state_of nds; mode = StatusReg2 s AND 0x0F; count = ClockCount (clock nds) in
      if mode = 0 then if type = 2 then rtc_ClearIRQ 0x10 nds else nds
      else if mode = 1 \<or> mode = 5 then
        if type = 1 \<and> \<not> tst count 0x3FF \<or> type = 2 then
          let mask = frequency_mask (Alarm1 s 2)
          in if mask \<noteq> 0 \<and> count AND mask \<noteq> mask then rtc_SetIRQ ext 0x10 nds else rtc_ClearIRQ 0x10 nds
        else nds
      else if mode = 2 \<or> mode = 6 then
        if minute_edge type s then rtc_SetIRQ ext 0x10 nds else nds
      else if mode = 3 then
        if minute_edge type s then rtc_SetIRQ ext 0x10 nds
        else if type = 1 \<and> DateTime s 6 = 0x30 \<and> count AND 0x7FFF = 0 then rtc_ClearIRQ 0x10 nds
        else nds
      else if mode = 7 then
        if minute_edge type s then rtc_SetIRQ ext 0x10 nds
        else if type = 1 \<and> DateTime s 6 = 0x00 \<and> count AND 0x7FFF = 256 then rtc_ClearIRQ 0x10 nds
        else nds
      else if mode = 4 then
        if type = 0 then
          if alarm_matches (ConsoleType nds = 1) (Alarm1 s) (AlarmDate1 s) (DateTime s)
          then rtc_SetIRQ ext 0x10 nds else rtc_ClearIRQ 0x10 nds
        else nds
      else if type = 1 then rtc_ClearIRQ 0x10 (rtc_SetIRQ ext 0x10 nds)
      else nds)"

definition process_INT2 :: "'y nds_ext \<Rightarrow> nat \<Rightarrow> (rtc \<times> 'y) nds \<Rightarrow> (rtc \<times> 'y) nds" where
  "process_INT2 ext type nds =
     (let s = state_of nds in
      if tst (StatusReg2 s) 0x40 then
        if type = 0 then
          if alarm_matches (ConsoleType nds = 1) (Alarm2 s) (AlarmDate2 s) (DateTime s)
          then rtc_SetIRQ ext 0x20 nds else rtc_ClearIRQ 0x20 nds
        else nds
      else if type = 2 then rtc_ClearIRQ 0x20 nds else nds)"

definition ProcessIRQ :: "'y nds_ext \<Rightarrow> nat \<Rightarrow> (rtc \<times> 'y) nds \<Rightarrow> (rtc \<times> 'y) nds" where
  "ProcessIRQ ext type nds = process_INT2 ext type (process_INT1 ext type nds)"

section \<open>The timer\<close>

definition CountMinute :: "'y nds_ext \<Rightarrow> (rtc \<times> 'y) nds \<Rightarrow> (rtc \<times> 'y) nds" where
  "CountMinute ext nds = ProcessIRQ ext 0 (on_state count_minute nds)"

definition CountSecond :: "'y nds_ext \<Rightarrow> (rtc \<times> 'y) nds \<Rightarrow> (rtc \<times> 'y) nds" where
  "CountSecond ext nds =
     (let nds = on_state (\<lambda>s. set_date 6 (BCDIncrement (DateTime s 6)) s) nds
      in if DateTime (state_of nds) 6 \<ge> 0x60 then CountMinute ext (on_state (set_date 6 0) nds) else nds)"

definition ScheduleTimer :: "bool \<Rightarrow> (rtc \<times> 'y) nds \<Rightarrow> (rtc \<times> 'y) nds" where
  "ScheduleTimer first nds =
     (let nds = (if first then on_clock (\<lambda>r. r\<lparr>TimerError := 0\<rparr>) nds else nds);
          sysclock = 33513982 + TimerError (clock nds);
          delay = sar sysclock 15
      in ScheduleEvent Event_RTC (\<not> first) delay 0 0
           (on_clock (\<lambda>r. r\<lparr>TimerError := sysclock AND 0x7FFF\<rparr>) nds))"

definition ClockTimer :: "'y nds_ext \<Rightarrow> u32 \<Rightarrow> (rtc \<times> 'y) nds \<Rightarrow> (rtc \<times> 'y) nds" where
  "ClockTimer ext param nds =
     (let nds = on_clock (\<lambda>r. r\<lparr>ClockCount := ClockCount r + 1\<rparr>) nds;
          nds = (if \<not> tst (ClockCount (clock nds)) 0x7FFF then CountSecond ext nds
                 else if ClockCount (clock nds) AND 0x7FFF = 256
                 then on_state (\<lambda>s. s\<lparr>IRQFlag := IRQFlag s AND NOT 0x01\<rparr>) nds
                 else nds)
      in ScheduleTimer False (ProcessIRQ ext 1 nds))"

section \<open>Setting and reading the clock\<close>

definition ResetState :: rtc_state where
  "ResetState =
     \<lparr>StatusReg1 = 0, StatusReg2 = 0, DateTime = (\<lambda>i. 0)(1 := 1, 2 := 1), Alarm1 = (\<lambda>i. 0), Alarm2 = (\<lambda>i. 0),
      ClockAdjust = 0, FreeReg = 0, IRQFlag = 0, MinuteCount = 0, FOUT1 = 0, FOUT2 = 0,
      AlarmDate1 = (\<lambda>i. 0), AlarmDate2 = (\<lambda>i. 0)\<rparr>"

text \<open>The constructor's state: the power was off.\<close>

definition rtc_initial :: rtc_state where
  "rtc_initial = ResetState\<lparr>StatusReg1 := 0x80 OR 2\<rparr>"

definition GetDateTime :: "rtc_state \<Rightarrow> int list" where
  "GetDateTime s =
     (let year = uint (FromBCD (DateTime s 0)) + 2000;
          month = uint (FromBCD (DateTime s 1 AND 0x3F));
          day = uint (FromBCD (DateTime s 2 AND 0x3F));
          hour = uint (FromBCD (DateTime s 4 AND 0x3F));
          hour = (if \<not> mode24 s \<and> tst (DateTime s 4) 0x40 then hour + 12 else hour)
      in [year, month, day, hour, uint (FromBCD (DateTime s 5 AND 0x7F)), uint (FromBCD (DateTime s 6 AND 0x7F))])"

definition month_days :: "int \<Rightarrow> int list" where
  "month_days year = [0, 31, if year AND 3 = 0 then 29 else 28, 31, 30, 31, 30, 31, 31, 30, 31, 30, 31]"

definition SetDateTime :: "int \<Rightarrow> int \<Rightarrow> int \<Rightarrow> int \<Rightarrow> int \<Rightarrow> int \<Rightarrow> rtc_state \<Rightarrow> rtc_state" where
  "SetDateTime year month day hour minute second s =
     (let year = year smod 100;
          year = (if year < 0 then 0 else year);
          monthdays = month_days year;
          month = (if month < 1 \<or> month > 12 then 1 else month);
          day = (if day < 1 \<or> day > monthdays ! nat month then 1 else day);
          hour = (if hour < 0 \<or> hour > 23 then 0 else hour);
          minute = (if minute < 0 \<or> minute > 59 then 0 else minute);
          second = (if second < 0 \<or> second > 59 then 0 else second);
          numdays = year * 365 + (year + 3) sdiv 4;
          numdays = numdays + sum_list (take (nat month - 1) (drop 1 monthdays));
          numdays = numdays + (day - 1);
          dayofweek = (6 + numdays) smod 7;
          pm = (if hour \<ge> 12 then 0x40 else 0);
          hour = (if \<not> mode24 s \<and> pm \<noteq> 0 then hour - 12 else hour);
          s = set_date 0 (BCD (of_int year)) s;
          s = set_date 1 (BCD (of_int month)) s;
          s = set_date 2 (BCD (of_int day)) s;
          s = set_date 3 (of_int dayofweek) s;
          s = set_date 4 (BCD (of_int hour) OR pm) s;
          s = set_date 5 (BCD (of_int minute)) s;
          s = set_date 6 (BCD (of_int second)) s
      in s\<lparr>StatusReg1 := StatusReg1 s AND NOT 0x80\<rparr>)"

definition write_hour :: "u8 \<Rightarrow> rtc_state \<Rightarrow> rtc_state" where
  "write_hour val s =
     (let hour = val AND 0x3F; pm = val AND 0x40
      in if mode24 s then
           let hour = BCDSanitize hour 0x00 0x23; pm = (if hour \<ge> 0x12 then 0x40 else 0)
           in set_date 4 (hour OR pm) s
         else set_date 4 (BCDSanitize hour 0x00 0x11 OR pm) s)"

definition WriteDateTime :: "nat \<Rightarrow> u8 \<Rightarrow> rtc_state \<Rightarrow> rtc_state" where
  "WriteDateTime num val s =
     (if num = 1 then set_date 0 (BCDSanitize val 0x00 0x99) s
      else if num = 2 then set_date 1 (BCDSanitize (val AND 0x1F) 0x01 0x12) s
      else if num = 3 then CheckEndOfMonth (set_date 2 (BCDSanitize (val AND 0x3F) 0x01 0x31) s)
      else if num = 4 then set_date 3 (BCDSanitize (val AND 0x07) 0x00 0x06) s
      else if num = 5 then write_hour val s
      else if num = 6 then set_date 5 (BCDSanitize (val AND 0x7F) 0x00 0x59) s
      else if num = 7 then set_date 6 (BCDSanitize (val AND 0x7F) 0x00 0x59) s
      else s)"

definition SetState :: "rtc_state \<Rightarrow> rtc_state" where
  "SetState s = fold (\<lambda>i s. WriteDateTime (i + 1) (DateTime s i) s) [0..<7] s"

section \<open>Commands\<close>

definition SaveDateTime :: "rtc \<Rightarrow> rtc" where
  "SaveDateTime r = r\<lparr>HostDate := GetDateTime (State r)\<rparr>"

text \<open>\<open>memcpy\<close> of \<open>n\<close> bytes, and the first byte, into the output buffer.\<close>

definition output_bytes :: "(nat \<Rightarrow> u8) \<Rightarrow> nat \<Rightarrow> rtc \<Rightarrow> rtc" where
  "output_bytes f n r = r\<lparr>Output := (\<lambda>i. if i < n then f i else Output r i)\<rparr>"

definition output_byte :: "u8 \<Rightarrow> rtc \<Rightarrow> rtc" where
  "output_byte v = output_bytes (\<lambda>i. v) 1"

definition minute_bytes :: "u32 \<Rightarrow> nat \<Rightarrow> u8" where
  "minute_bytes m i = ucast (if i = 0 then drop_bit 16 m AND 0xFF
                             else if i = 1 then drop_bit 8 m AND 0xFF else m AND 0xFF)"

definition read_DS :: "rtc \<Rightarrow> rtc" where
  "read_DS r =
     (let s = State r; c = CurCmd r AND 0x70 in
      if c = 0x00 then (output_byte (StatusReg1 s) r)\<lparr>State := s\<lparr>StatusReg1 := StatusReg1 s AND 0x0F\<rparr>\<rparr>
      else if c = 0x40 then output_byte (StatusReg2 s) r
      else if c = 0x20 then output_bytes (DateTime s) 7 r
      else if c = 0x60 then output_bytes (\<lambda>i. DateTime s (i + 4)) 3 r
      else if c = 0x10 then
        if tst (StatusReg2 s) 0x04 then output_bytes (Alarm1 s) 3 r else output_byte (Alarm1 s 2) r
      else if c = 0x50 then output_bytes (Alarm2 s) 3 r
      else if c = 0x30 then output_byte (ClockAdjust s) r
      else output_byte (FreeReg s) r)"

definition read_DSi :: "rtc \<Rightarrow> rtc" where
  "read_DSi r =
     (let s = State r; c = CurCmd r AND 0x70 in
      if c = 0x00 then output_bytes (minute_bytes (MinuteCount s)) 3 r
      else if c = 0x40 then output_byte (FOUT1 s) r
      else if c = 0x20 then output_byte (FOUT2 s) r
      else if c = 0x10 then output_bytes (AlarmDate1 s) 3 r
      else if c = 0x50 then output_bytes (AlarmDate2 s) 3 r
      else r)"

definition CmdRead :: "bool \<Rightarrow> rtc \<Rightarrow> rtc" where
  "CmdRead dsi r =
     (if CurCmd r AND 0x0F = 0x06 then read_DS r
      else if CurCmd r AND 0x0F = 0x0E \<and> dsi then read_DSi r
      else r)"

text \<open>The hour register when the 24-hour bit changes.\<close>

definition converted_hour :: "bool \<Rightarrow> u8 \<Rightarrow> u8" where
  "converted_hour m24 reg =
     (let hour = reg AND 0x3F; pm = reg AND 0x40
      in if m24 then
           let hour = (if pm \<noteq> 0 then
                         let hour = hour + 0x12 in if hour AND 0x0F \<ge> 0x0A then hour + 0x06 else hour
                       else hour)
           in BCDSanitize hour 0x00 0x23 OR pm
         else
           let (hour, pm) = (if hour \<ge> 0x12 then
                               let hour = hour - 0x12
                               in (if hour AND 0x0F \<ge> 0x0A then hour - 0x06 else hour, 0x40)
                             else (hour, 0))
           in BCDSanitize hour 0x00 0x11 OR pm)"

definition convert_hour :: "rtc_state \<Rightarrow> rtc_state" where
  "convert_hour s = set_date 4 (converted_hour (mode24 s) (DateTime s 4)) s"

definition write_status1 :: "u8 \<Rightarrow> rtc_state \<Rightarrow> rtc_state" where
  "write_status1 val s =
     (let oldval = StatusReg1 s;
          s = (if tst val 1 then ResetState else s);
          s = s\<lparr>StatusReg1 := (StatusReg1 s AND 0xF0) OR (val AND 0x0E)\<rparr>
      in if tst (StatusReg1 s XOR oldval) 2 then convert_hour s else s)"

definition write_alarm1 :: "u32 \<Rightarrow> u8 \<Rightarrow> rtc_state \<Rightarrow> rtc_state" where
  "write_alarm1 pos val s =
     (if tst (StatusReg2 s) 0x04 then
        if pos \<le> 3 then s\<lparr>Alarm1 := (Alarm1 s)(unat (pos - 1) := val)\<rparr> else s
      else if pos = 1 then s\<lparr>Alarm1 := (Alarm1 s)(2 := val)\<rparr> else s)"

text \<open>A write command of the DS: the status and date commands also process interrupts and save the date.\<close>

definition write_DS :: "'y nds_ext \<Rightarrow> u8 \<Rightarrow> (rtc \<times> 'y) nds \<Rightarrow> (rtc \<times> 'y) nds" where
  "write_DS ext val nds =
     (let c = CurCmd (clock nds) AND 0x70; pos = InputPos (clock nds) in
      if c = 0x00 then if pos = 1 then on_state (write_status1 val) nds else nds
      else if c = 0x40 then
        if pos = 1 then ProcessIRQ ext 2 (on_state (\<lambda>s. s\<lparr>StatusReg2 := val\<rparr>) nds) else nds
      else if c = 0x20 then
        let nds = (if pos \<le> 7 then on_state (WriteDateTime (unat pos) val) nds else nds)
        in if pos = 7 then on_clock SaveDateTime nds else nds
      else if c = 0x60 then
        let nds = (if pos \<le> 3 then on_state (WriteDateTime (unat (pos + 4)) val) nds else nds)
        in if pos = 3 then on_clock SaveDateTime nds else nds
      else if c = 0x10 then on_state (write_alarm1 pos val) nds
      else if c = 0x50 then
        if pos \<le> 3 then on_state (\<lambda>s. s\<lparr>Alarm2 := (Alarm2 s)(unat (pos - 1) := val)\<rparr>) nds else nds
      else if c = 0x30 then if pos = 1 then on_state (\<lambda>s. s\<lparr>ClockAdjust := val\<rparr>) nds else nds
      else if pos = 1 then on_state (\<lambda>s. s\<lparr>FreeReg := val\<rparr>) nds else nds)"

definition write_DSi :: "u32 \<Rightarrow> u8 \<Rightarrow> u8 \<Rightarrow> rtc_state \<Rightarrow> rtc_state" where
  "write_DSi pos c val s =
     (if c = 0x40 then if pos = 1 then s\<lparr>FOUT1 := val\<rparr> else s
      else if c = 0x20 then if pos = 1 then s\<lparr>FOUT2 := val\<rparr> else s
      else if c = 0x10 then
        if pos \<le> 3 then s\<lparr>AlarmDate1 := (AlarmDate1 s)(unat (pos - 1) := val)\<rparr> else s
      else if c = 0x50 then
        if pos \<le> 3 then s\<lparr>AlarmDate2 := (AlarmDate2 s)(unat (pos - 1) := val)\<rparr> else s
      else s)"

definition CmdWrite :: "'y nds_ext \<Rightarrow> u8 \<Rightarrow> (rtc \<times> 'y) nds \<Rightarrow> (rtc \<times> 'y) nds" where
  "CmdWrite ext val nds =
     (let c = CurCmd (clock nds) in
      if c AND 0x0F = 0x06 then write_DS ext val nds
      else if c AND 0x0F = 0x0E \<and> ConsoleType nds = 1
      then on_state (write_DSi (InputPos (clock nds)) (c AND 0x70) val) nds
      else nds)"

section \<open>The serial interface\<close>

definition rev_DS :: "u8 list" where
  "rev_DS = [0x06, 0x86, 0x46, 0xC6, 0x26, 0xA6, 0x66, 0xE6, 0x16, 0x96, 0x56, 0xD6, 0x36, 0xB6, 0x76, 0xF6]"

definition rev_DSi :: "u8 list" where
  "rev_DSi = [0x0E, 0x8E, 0x4E, 0xCE, 0x2E, 0xAE, 0x6E, 0xEE, 0x1E, 0x9E, 0x5E, 0xDE, 0x3E, 0xBE, 0x7E, 0xFE]"

definition decode_command :: "bool \<Rightarrow> u8 \<Rightarrow> u8" where
  "decode_command dsi val =
     (let cmd = (if val AND 0xF0 = 0x60 then rev_DS ! unat (val AND 0xF) else val)
      in if dsi \<and> cmd AND 0xF0 = 0x70 \<and> cmd AND 0xFE \<noteq> 0x76 then rev_DSi ! unat (cmd AND 0xF) else cmd)"

definition ByteIn :: "'y nds_ext \<Rightarrow> u8 \<Rightarrow> (rtc \<times> 'y) nds \<Rightarrow> (rtc \<times> 'y) nds" where
  "ByteIn ext val nds =
     (if InputPos (clock nds) = 0 then
        let cmd = decode_command (ConsoleType nds = 1) val;
            nds = on_clock (\<lambda>r. r\<lparr>CurCmd := cmd\<rparr>) nds
        in if tst cmd 0x80 then on_clock (CmdRead (ConsoleType nds = 1)) nds else nds
      else CmdWrite ext val nds)"

definition start_transfer :: "rtc \<Rightarrow> rtc" where
  "start_transfer r =
     r\<lparr>Input := 0, InputBit := 0, InputPos := 0, Output := (\<lambda>i. 0), OutputBit := 0, OutputPos := 0\<rparr>"

definition bit_in :: "'y nds_ext \<Rightarrow> bool \<Rightarrow> (rtc \<times> 'y) nds \<Rightarrow> (rtc \<times> 'y) nds" where
  "bit_in ext b nds =
     (let nds = on_clock (\<lambda>r. r\<lparr>Input := if b then Input r OR shl 1 (InputBit r) else Input r,
                               InputBit := InputBit r + 1\<rparr>) nds
      in if InputBit (clock nds) \<ge> 8 then
           let nds = on_clock (\<lambda>r. r\<lparr>InputBit := 0\<rparr>) nds;
               nds = ByteIn ext (Input (clock nds)) nds
           in on_clock (\<lambda>r. r\<lparr>Input := 0, InputPos := InputPos r + 1\<rparr>) nds
         else nds)"

definition bit_out :: "rtc \<Rightarrow> rtc" where
  "bit_out r =
     (let r = r\<lparr>IO := if tst (Output r (unat (OutputPos r))) (shl 1 (OutputBit r)) then IO r OR 0x0001
                      else IO r AND 0xFFFE,
                OutputBit := OutputBit r + 1\<rparr>
      in if OutputBit r \<ge> 8
         then r\<lparr>OutputBit := 0, OutputPos := if OutputPos r < 7 then OutputPos r + 1 else OutputPos r\<rparr>
         else r)"

definition latch_IO :: "u16 \<Rightarrow> rtc \<Rightarrow> rtc" where
  "latch_IO val r = r\<lparr>IO := if tst val 0x0010 then val else (IO r AND 0x0001) OR (val AND 0xFFFE)\<rparr>"

definition rtc_Write :: "'y nds_ext \<Rightarrow> u16 \<Rightarrow> bool \<Rightarrow> (rtc \<times> 'y) nds \<Rightarrow> (rtc \<times> 'y) nds" where
  "rtc_Write ext val byte nds =
     (let io = IO (clock nds);
          val = (if byte then val OR (io AND 0xFF00) else val);
          nds = (if tst val 0x0004 then
                   if \<not> tst io 0x0004 then on_clock start_transfer nds
                   else if tst (io XOR val) 0x0002 then
                     if tst val 0x0010 \<and> tst val 0x0002 then bit_in ext (tst val 0x0001) nds
                     else if \<not> tst val 0x0010 \<and> \<not> tst val 0x0002 then on_clock bit_out nds
                     else nds
                   else nds
                 else nds)
      in on_clock (latch_IO val) nds)"

definition rtc_Read :: "rtc \<Rightarrow> u16" where
  "rtc_Read r = IO r"

definition rtc_Reset :: "(rtc \<times> 'y) nds \<Rightarrow> (rtc \<times> 'y) nds" where
  "rtc_Reset nds =
     ScheduleTimer True (on_clock (\<lambda>r. (start_transfer r)\<lparr>IO := 0, CurCmd := 0, ClockCount := 0\<rparr>) nds)"

end
