(* ===== verification/RtcDate.thy ===== *)
theory RtcDate
  imports Rtc
begin

text \<open>
  The registers of the clock as a calendar date: what a register set shows, the date one second later, and the
  counter chain, the program's writes and the mode switch as operations on dates.
\<close>

section \<open>BCD digits\<close>

definition bcd :: "nat \<Rightarrow> u8" where
  "bcd n = of_nat (16 * (n div 10) + n mod 10)"

lemma all_below: "list_all P [0..<n] \<Longrightarrow> i < n \<Longrightarrow> P i"
  by (simp add: list_all_iff)

lemma unat_bcd: "n < 100 \<Longrightarrow> unat (bcd n) = 16 * (n div 10) + n mod 10"
proof -
  assume "n < 100"
  then have "n div 10 \<le> 9" "n mod 10 \<le> 9" by simp_all
  then have "16 * (n div 10) + n mod 10 < 2 ^ LENGTH(8)" by simp
  then show ?thesis by (simp only: bcd_def unat_of_nat mod_less)
qed

lemma bcd_less: "m < 100 \<Longrightarrow> n < 100 \<Longrightarrow> bcd m < bcd n \<longleftrightarrow> m < n"
proof -
  assume mn: "m < 100" "n < 100"
  have "m = 10 * (m div 10) + m mod 10" "n = 10 * (n div 10) + n mod 10" "m mod 10 < 10" "n mod 10 < 10" by simp_all
  then have "16 * (m div 10) + m mod 10 < 16 * (n div 10) + n mod 10 \<longleftrightarrow> m < n"
    by (cases "m div 10" "n div 10" rule: linorder_cases) linarith+
  with mn show ?thesis by (simp only: word_less_nat_alt unat_bcd)
qed

lemma bcd_inj: "m < 100 \<Longrightarrow> n < 100 \<Longrightarrow> bcd m = bcd n \<longleftrightarrow> m = n"
  using bcd_less [of m n] bcd_less [of n m] by (metis linorder_neqE_nat order_less_irrefl)

lemma bcd_le: "m < 100 \<Longrightarrow> n < 100 \<Longrightarrow> bcd m \<le> bcd n \<longleftrightarrow> m \<le> n"
  using bcd_less [of n m] by (simp add: linorder_not_less [symmetric])

lemma bcd_digits:
  "0 = bcd 0" "1 = bcd 1" "0x06 = bcd 6" "7 = bcd 7" "0x11 = bcd 11" "0x12 = bcd 12" "0x23 = bcd 23" "0x24 = bcd 24"
  "0x28 = bcd 28" "0x29 = bcd 29" "0x30 = bcd 30" "0x31 = bcd 31" "0x59 = bcd 59" "0x60 = bcd 60" "0x99 = bcd 99"
  by (simp_all add: bcd_def)

lemma bcd_tables:
  assumes "n < 100"
  shows "BCDIncrement (bcd n) = bcd ((n + 1) mod 100)" "FromBCD (bcd n) = of_nat n" "BCD (of_nat n) = bcd n"
    "n < 40 \<Longrightarrow> bcd n AND 0x3F = bcd n" "n < 80 \<Longrightarrow> bcd n AND 0x7F = bcd n" "n < 20 \<Longrightarrow> bcd n AND 0x1F = bcd n"
    "n < 8 \<Longrightarrow> bcd n = of_nat n \<and> bcd n AND 7 = bcd n"
proof -
  have "list_all (\<lambda>n. BCDIncrement (bcd n) = bcd ((n + 1) mod 100) \<and> FromBCD (bcd n) = of_nat n \<and>
      BCD (of_nat n) = bcd n \<and> (n < 40 \<longrightarrow> bcd n AND 0x3F = bcd n) \<and> (n < 80 \<longrightarrow> bcd n AND 0x7F = bcd n) \<and>
      (n < 20 \<longrightarrow> bcd n AND 0x1F = bcd n) \<and> (n < 8 \<longrightarrow> bcd n = of_nat n \<and> bcd n AND 7 = bcd n)) [0..<100]"
    by code_simp
  note all_below [OF this assms]
  then show "BCDIncrement (bcd n) = bcd ((n + 1) mod 100)" "FromBCD (bcd n) = of_nat n" "BCD (of_nat n) = bcd n"
    "n < 40 \<Longrightarrow> bcd n AND 0x3F = bcd n" "n < 80 \<Longrightarrow> bcd n AND 0x7F = bcd n" "n < 20 \<Longrightarrow> bcd n AND 0x1F = bcd n"
    "n < 8 \<Longrightarrow> bcd n = of_nat n \<and> bcd n AND 7 = bcd n"
    by blast+
qed

lemma bcd_inc: "n < 99 \<Longrightarrow> BCDIncrement (bcd n) = bcd (n + 1)"
  using bcd_tables(1) [of n] by simp

text \<open>Sanitised bytes are BCD numbers in their range, and such numbers are left alone.\<close>

lemma bcd_of_byte:
  fixes v :: u8
  assumes "\<not> v AND 0x0F \<ge> 0x0A" "\<not> v AND 0xF0 \<ge> 0xA0"
  obtains n where "n < 100" "v = bcd n"
proof -
  have table: "list_all (\<lambda>n. let v = of_nat n :: u8 in
      v AND 0x0F \<ge> 0x0A \<or> v AND 0xF0 \<ge> 0xA0 \<or> n div 16 * 10 + n mod 16 < 100 \<and> v = bcd (n div 16 * 10 + n mod 16)) [0..<256]"
    by code_simp
  have "unat v < 256" using unsigned_less [of v, where ?'a = nat] by simp
  from all_below [OF table this] assms show thesis by (intro that) (auto simp: Let_def)
qed

lemma bcd_digits_valid:
  assumes "n < 100"
  shows "\<not> bcd n AND 0x0F \<ge> 0x0A" "\<not> bcd n AND 0xF0 \<ge> 0xA0"
proof -
  have "list_all (\<lambda>n. \<not> bcd n AND 0x0F \<ge> 0x0A \<and> \<not> bcd n AND 0xF0 \<ge> 0xA0) [0..<100]" by code_simp
  from all_below [OF this assms] show "\<not> bcd n AND 0x0F \<ge> 0x0A" "\<not> bcd n AND 0xF0 \<ge> 0xA0" by simp_all
qed

lemma BCDSanitize_range:
  assumes "a \<le> b" "b < 100"
  obtains n where "a \<le> n" "n \<le> b" "BCDSanitize v (bcd a) (bcd b) = bcd n"
proof (cases "v < bcd a \<or> v > bcd b \<or> v AND 0x0F \<ge> 0x0A \<or> v AND 0xF0 \<ge> 0xA0")
  case True
  then have "BCDSanitize v (bcd a) (bcd b) = bcd a" by (auto simp: BCDSanitize_def)
  with assms show thesis by (intro that [of a]) simp_all
next
  case False
  then obtain n where n: "n < 100" "v = bcd n" using bcd_of_byte [of v] by auto
  with False assms have "a \<le> n" "n \<le> b" by (simp_all add: bcd_less linorder_not_less)
  moreover have "BCDSanitize v (bcd a) (bcd b) = bcd n" using False n by (simp add: BCDSanitize_def)
  ultimately show thesis by (rule that)
qed

lemma BCDSanitize_valid: "a \<le> n \<Longrightarrow> n \<le> b \<Longrightarrow> b < 100 \<Longrightarrow> BCDSanitize (bcd n) (bcd a) (bcd b) = bcd n"
  by (auto simp: BCDSanitize_def bcd_less bcd_digits_valid)

section \<open>Dates\<close>

record date =
  year :: nat
  month :: nat
  day :: nat
  weekday :: nat
  hour :: nat
  minute :: nat
  second :: nat

definition days_in :: "nat \<Rightarrow> nat \<Rightarrow> nat" where
  "days_in y m =
     (if m = 2 then if y mod 4 = 0 then 29 else 28 else if m = 4 \<or> m = 6 \<or> m = 9 \<or> m = 11 then 30 else 31)"

text \<open>Every counter in its range, and moreover the day in its month.\<close>

definition in_range :: "date \<Rightarrow> bool" where
  "in_range d \<longleftrightarrow> year d < 100 \<and> 1 \<le> month d \<and> month d \<le> 12 \<and> 1 \<le> day d \<and> day d \<le> 31 \<and> weekday d < 7 \<and>
     hour d < 24 \<and> minute d < 60 \<and> second d < 60"

definition valid_date :: "date \<Rightarrow> bool" where
  "valid_date d \<longleftrightarrow> in_range d \<and> day d \<le> days_in (year d) (month d)"

text \<open>One second later.\<close>

definition next_month :: "date \<Rightarrow> date" where
  "next_month d = (if month d = 12 then d\<lparr>month := 1, year := (year d + 1) mod 100\<rparr> else d\<lparr>month := month d + 1\<rparr>)"

definition fit_month :: "date \<Rightarrow> date" where
  "fit_month d = (if day d > days_in (year d) (month d) then next_month (d\<lparr>day := 1\<rparr>) else d)"

definition next_day :: "date \<Rightarrow> date" where
  "next_day d = fit_month (d\<lparr>weekday := (weekday d + 1) mod 7, day := day d + 1\<rparr>)"

definition next_hour :: "date \<Rightarrow> date" where
  "next_hour d = (if hour d = 23 then next_day (d\<lparr>hour := 0\<rparr>) else d\<lparr>hour := hour d + 1\<rparr>)"

definition next_minute :: "date \<Rightarrow> date" where
  "next_minute d = (if minute d = 59 then next_hour (d\<lparr>minute := 0\<rparr>) else d\<lparr>minute := minute d + 1\<rparr>)"

definition next_second :: "date \<Rightarrow> date" where
  "next_second d = (if second d = 59 then next_minute (d\<lparr>second := 0\<rparr>) else d\<lparr>second := second d + 1\<rparr>)"

text \<open>The registers that show a date, in either hour mode.\<close>

definition hour_reg :: "bool \<Rightarrow> nat \<Rightarrow> u8" where
  "hour_reg m24 h = bcd (if m24 then h else h mod 12) OR (if h \<ge> 12 then 0x40 else 0)"

definition shows_date :: "date \<Rightarrow> rtc_state \<Rightarrow> bool" where
  "shows_date d s \<longleftrightarrow> DateTime s 0 = bcd (year d) \<and> DateTime s 1 = bcd (month d) \<and> DateTime s 2 = bcd (day d) \<and>
     DateTime s 3 = bcd (weekday d) \<and> DateTime s 4 = hour_reg (mode24 s) (hour d) \<and>
     DateTime s 5 = bcd (minute d) \<and> DateTime s 6 = bcd (second d)"

lemma set_date_simps [simp]:
  "DateTime (set_date i v s) j = (if j = i then v else DateTime s j)" "mode24 (set_date i v s) = mode24 s"
  "StatusReg1 (set_date i v s) = StatusReg1 s" "StatusReg2 (set_date i v s) = StatusReg2 s"
  "IRQFlag (set_date i v s) = IRQFlag s" "MinuteCount (set_date i v s) = MinuteCount s"
  by (simp_all add: set_date_def mode24_def)

lemma hour_tables:
  assumes "h < 24"
  shows "hour_reg m h AND 0x3F = bcd (if m then h else h mod 12)" "hour_reg m h AND 0x40 = (if h \<ge> 12 then 0x40 else 0)"
proof -
  have "list_all (\<lambda>h. list_all (\<lambda>m. hour_reg m h AND 0x3F = bcd (if m then h else h mod 12) \<and>
      hour_reg m h AND 0x40 = (if h \<ge> 12 then 0x40 else 0)) [True, False]) [0..<24]"
    by code_simp
  from all_below [OF this assms]
  show "hour_reg m h AND 0x3F = bcd (if m then h else h mod 12)" "hour_reg m h AND 0x40 = (if h \<ge> 12 then 0x40 else 0)"
    by (cases m; simp)+
qed

section \<open>The counter chain\<close>

lemma month_cases: "1 \<le> m \<Longrightarrow> m \<le> 12 \<Longrightarrow>
    m = 1 \<or> m = 2 \<or> m = 3 \<or> m = 4 \<or> m = 5 \<or> m = 6 \<or> m = 7 \<or> m = 8 \<or> m = 9 \<or> m = 10 \<or> m = 11 \<or> m = (12 :: nat)"
  by presburger

lemma leap_table:
  assumes "y < 100"
  shows "((uint (bcd y) AND 0xF) + drop_bit 4 (uint (bcd y)) * 10) AND 3 = 0 \<longleftrightarrow> y mod 4 = 0"
proof -
  have "list_all (\<lambda>y. (((uint (bcd y) AND 0xF) + drop_bit 4 (uint (bcd y)) * 10) AND 3 = 0) = (y mod 4 = 0)) [0..<100]"
    by code_simp
  from all_below [OF this assms] show ?thesis by simp
qed

lemma DaysInMonth_bcd:
  assumes "DateTime s 0 = bcd y" "DateTime s 1 = bcd m" "y < 100" "1 \<le> m" "m \<le> 12"
  shows "DaysInMonth s = bcd (days_in y m)"
proof (cases "m = 2")
  case True
  then show ?thesis
    using leap_table [OF assms(3)]
    by (simp only: DaysInMonth_def assms(1,2) days_in_def Let_def) (simp add: bcd_def [of 2] bcd_def [of 28] bcd_def [of 29])
next
  case False
  then show ?thesis
    using month_cases [OF assms(4,5)]
    by (simp only: DaysInMonth_def assms(1,2) days_in_def Let_def, elim disjE) (simp_all add: bcd_def)
qed

lemma CountMonth_shows:
  assumes "shows_date d s" "in_range d"
  shows "shows_date (next_month d) (CountMonth s) \<and> mode24 (CountMonth s) = mode24 s"
proof -
  have m: "BCDIncrement (DateTime s 1) = bcd (month d + 1)" "BCDIncrement (DateTime s 0) = bcd ((year d + 1) mod 100)"
    using assms bcd_inc [of "month d"] by (simp_all add: shows_date_def in_range_def bcd_tables(1))
  have "bcd (month d + 1) > 0x12 \<longleftrightarrow> month d = 12"
    using assms(2) bcd_less [of 12 "month d + 1"] by (auto simp: in_range_def bcd_digits)
  then show ?thesis
    using assms m by (simp add: CountMonth_def CountYear_def shows_date_def next_month_def bcd_def Let_def)
qed

lemma fit_month_shows:
  assumes "shows_date d s" "in_range (d\<lparr>day := 1\<rparr>)" "day d \<le> 32"
  shows "shows_date (fit_month d) (CheckEndOfMonth s) \<and> mode24 (CheckEndOfMonth s) = mode24 s"
proof -
  have s: "DateTime s 2 = bcd (day d)" "DaysInMonth s = bcd (days_in (year d) (month d))"
    using assms by (auto simp: shows_date_def in_range_def intro!: DaysInMonth_bcd)
  have one: "shows_date (d\<lparr>day := 1\<rparr>) (set_date 2 1 s)"
    using assms(1) by (simp add: shows_date_def) (simp add: bcd_def)
  have "bcd (day d) > bcd (days_in (year d) (month d)) \<longleftrightarrow> day d > days_in (year d) (month d)"
    using assms(3) by (intro bcd_less) (simp_all add: days_in_def)
  with CountMonth_shows [OF one assms(2)] assms(1) show ?thesis
    by (simp add: CheckEndOfMonth_def fit_month_def s)
qed

lemma CountDay_shows:
  assumes "shows_date d s" "in_range d"
  shows "shows_date (next_day d) (CountDay s) \<and> mode24 (CountDay s) = mode24 s"
proof -
  define d' where "d' = d\<lparr>weekday := (weekday d + 1) mod 7, day := day d + 1\<rparr>"
  define s1 where "s1 = set_date 3 (DateTime s 3 + 1) s"
  define s2 where "s2 = (if DateTime s1 3 \<ge> 7 then set_date 3 0 s1 else s1)"
  have w: "DateTime s1 3 = bcd (weekday d + 1)"
    using assms by (simp add: s1_def shows_date_def in_range_def bcd_tables(7) bcd_def)
  have "DateTime s1 3 \<ge> 7 \<longleftrightarrow> weekday d = 6"
    using assms(2) bcd_le [of 7 "weekday d + 1"] unfolding w by (auto simp: in_range_def bcd_def [of 7])
  then have "DateTime s2 3 = bcd ((weekday d + 1) mod 7)" "\<And>i. i \<noteq> 3 \<Longrightarrow> DateTime s2 i = DateTime s i" "mode24 s2 = mode24 s"
    using w assms(2) by (auto simp: s2_def s1_def in_range_def bcd_def [of 0])
  moreover have "BCDIncrement (DateTime s 2) = bcd (day d + 1)"
    using assms by (simp add: shows_date_def in_range_def bcd_tables)
  ultimately have "shows_date d' (set_date 2 (BCDIncrement (DateTime s2 2)) s2)"
    using assms(1) by (simp add: shows_date_def d'_def)
  moreover have "in_range (d'\<lparr>day := 1\<rparr>)" "day d' \<le> 32" using assms(2) by (simp_all add: in_range_def d'_def)
  ultimately have "shows_date (fit_month d') (CheckEndOfMonth (set_date 2 (BCDIncrement (DateTime s2 2)) s2)) \<and>
      mode24 (CheckEndOfMonth (set_date 2 (BCDIncrement (DateTime s2 2)) s2)) = mode24 s2"
    using fit_month_shows by fastforce
  then show ?thesis
    using \<open>mode24 s2 = mode24 s\<close> by (simp only: CountDay_def next_day_def d'_def Let_def s1_def s2_def)
qed

lemma shows_hour:
  "shows_date d s \<Longrightarrow> v = hour_reg (mode24 s) h \<Longrightarrow> shows_date (d\<lparr>hour := h\<rparr>) (set_date 4 v s)"
  by (simp add: shows_date_def)

lemma next_day_hour: "next_day (d\<lparr>hour := h\<rparr>) = (next_day d)\<lparr>hour := h\<rparr>"
  by (simp add: next_day_def fit_month_def next_month_def)

lemma hour_succ:
  fixes h :: nat
  assumes "h < 24" "h \<noteq> 23" "h \<noteq> 11"
  shows "(h + 1) mod 12 = h mod 12 + 1" "(h + 1 \<ge> 12) = (h \<ge> 12)"
proof -
  have "list_all (\<lambda>h. h = 23 \<or> h = 11 \<or> (h + 1) mod 12 = h mod 12 + 1 \<and> (h + 1 \<ge> 12) = (h \<ge> 12)) [0..<24]"
    by code_simp
  from all_below [OF this assms(1)] assms(2,3)
  show "(h + 1) mod 12 = h mod 12 + 1" "(h + 1 \<ge> 12) = (h \<ge> 12)" by blast+
qed

lemma CountHour_shows:
  assumes "shows_date d s" "in_range d"
  shows "shows_date (next_hour d) (CountHour s) \<and> mode24 (CountHour s) = mode24 s"
proof -
  have h: "hour d < 24" "DateTime s 4 = hour_reg (mode24 s) (hour d)"
    using assms by (simp_all add: shows_date_def in_range_def)
  note parts = hour_tables [OF h(1), of "mode24 s"]
  have day: "shows_date (next_day d) (CountDay s)" "mode24 (CountDay s) = mode24 s"
    using CountDay_shows [OF assms] by simp_all
  show ?thesis
  proof (cases "mode24 s")
    case True
    define H where "H = bcd (hour d + 1)"
    have inc: "BCDIncrement (DateTime s 4 AND 0x3F) = H"
      using True h parts bcd_inc [of "hour d"] by (simp add: H_def)
    have ge: "H \<ge> 0x24 \<longleftrightarrow> hour d = 23" "H \<ge> 0x12 \<longleftrightarrow> hour d + 1 \<ge> 12"
      unfolding H_def using h(1) bcd_le [of 24 "hour d + 1"] bcd_le [of 12 "hour d + 1"] by (auto simp: bcd_def [of 24] bcd_def [of 12])
    have eq: "CountHour s = (if hour d = 23 then set_date 4 (0 OR (if (0 :: u8) \<ge> 0x12 then 0x40 else 0)) (CountDay s)
        else set_date 4 (H OR (if hour d + 1 \<ge> 12 then 0x40 else 0)) s)"
      using True by (simp add: CountHour_def inc ge Let_def)
    show ?thesis
    proof (cases "hour d = 23")
      case last: True
      have "0 OR (if (0 :: u8) \<ge> 0x12 then 0x40 else 0) = hour_reg (mode24 (CountDay s)) 0"
        using True day(2) by (simp add: hour_reg_def bcd_def)
      from shows_hour [OF day(1) this] show ?thesis
        using last day(2) by (simp add: eq next_hour_def next_day_hour)
    next
      case False
      have "H OR (if hour d + 1 \<ge> 12 then 0x40 else 0) = hour_reg (mode24 s) (hour d + 1)"
        using True by (simp add: hour_reg_def H_def)
      from shows_hour [OF assms(1) this] show ?thesis
        using False by (simp add: eq next_hour_def)
    qed
  next
    case False
    have m: "hour d mod 12 < 12" by simp
    define H where "H = bcd (hour d mod 12 + 1)"
    have inc: "BCDIncrement (DateTime s 4 AND 0x3F) = H"
      using False h parts bcd_inc [of "hour d mod 12"] m by (simp add: H_def)
    have ge: "H \<ge> 0x12 \<longleftrightarrow> hour d = 11 \<or> hour d = 23"
    proof -
      have "H \<ge> 0x12 \<longleftrightarrow> hour d mod 12 + 1 \<ge> 12"
        unfolding H_def using m bcd_le [of 12 "hour d mod 12 + 1"] by (simp add: bcd_def [of 12])
      then show ?thesis using h(1) by presburger
    qed
    have pm: "DateTime s 4 AND 0x40 = (if hour d \<ge> 12 then 0x40 else 0)" using h(2) parts(2) by simp
    have eq: "CountHour s =
        (if hour d = 23 then set_date 4 0 (CountDay s)
         else if hour d = 11 then set_date 4 0x40 s
         else set_date 4 (H OR (if hour d \<ge> 12 then 0x40 else 0)) s)"
      using False by (simp add: CountHour_def inc ge pm Let_def)
    consider "hour d = 23" | "hour d = 11" | "hour d \<noteq> 23" "hour d \<noteq> 11" by blast
    then show ?thesis
    proof cases
      case 1
      have "0 = hour_reg (mode24 (CountDay s)) 0" using False day(2) by (simp add: hour_reg_def bcd_def)
      from shows_hour [OF day(1) this] show ?thesis
        using 1 day(2) by (simp add: eq next_hour_def next_day_hour)
    next
      case 2
      have "0x40 = hour_reg (mode24 s) 12" using False by (simp add: hour_reg_def bcd_def)
      from shows_hour [OF assms(1) this] show ?thesis
        using 2 by (simp add: eq next_hour_def)
    next
      case 3
      have e: "(hour d + 1) mod 12 = hour d mod 12 + 1" "(hour d + 1 \<ge> 12) = (hour d \<ge> 12)"
        using hour_succ [OF h(1) 3] by blast+
      have "H OR (if hour d \<ge> 12 then 0x40 else 0) = hour_reg (mode24 s) (hour d + 1)"
        using False by (simp only: hour_reg_def H_def e if_False simp_thms)
      from shows_hour [OF assms(1) this] show ?thesis
        using 3 by (simp add: eq next_hour_def)
    qed
  qed
qed

lemma count_minute_shows:
  assumes "shows_date d s" "in_range d"
  shows "shows_date (next_minute d) (count_minute s) \<and> mode24 (count_minute s) = mode24 s"
proof -
  define t where "t = set_date 5 (bcd (minute d + 1)) (s\<lparr>MinuteCount := MinuteCount s + 1\<rparr>)"
  have irq: "shows_date x (u\<lparr>IRQFlag := f\<rparr>) = shows_date x u" "mode24 (u\<lparr>IRQFlag := f\<rparr>) = mode24 u" for x u f
    by (simp_all add: shows_date_def mode24_def)
  have inc: "BCDIncrement (DateTime s 5) = bcd (minute d + 1)"
    using assms bcd_inc [of "minute d"] by (simp add: shows_date_def in_range_def)
  have ge: "bcd (minute d + 1) \<ge> 0x60 \<longleftrightarrow> minute d = 59"
    using assms(2) bcd_le [of 60 "minute d + 1"] by (auto simp: bcd_def [of 60] in_range_def)
  have eq: "count_minute s = (if minute d = 59 then CountHour (set_date 5 0 t) else t)\<lparr>IRQFlag := IRQFlag (if minute d = 59 then CountHour (set_date 5 0 t) else t) OR 1\<rparr>"
    using inc ge by (simp only: count_minute_def t_def Let_def) simp
  have m: "mode24 t = mode24 s" by (simp add: t_def mode24_def set_date_def)
  have t0: "shows_date (d\<lparr>minute := 0\<rparr>) (set_date 5 0 t)" and t1: "shows_date (d\<lparr>minute := minute d + 1\<rparr>) t"
    using assms(1) m by (simp_all add: shows_date_def) (simp_all add: t_def set_date_def bcd_def)
  have "in_range (d\<lparr>minute := 0\<rparr>)" using assms(2) by (simp add: in_range_def)
  from CountHour_shows [OF t0 this] t1 m show ?thesis
    by (simp add: eq irq next_minute_def)
qed

section \<open>Dates stay in range, and valid\<close>

lemma in_range_next_month: "in_range d \<Longrightarrow> in_range (next_month d)"
  by (simp add: in_range_def next_month_def)

lemma in_range_next_second: "in_range d \<Longrightarrow> in_range (next_second d)"
proof -
  assume d: "in_range d"
  have fit: "in_range (fit_month x)" if "in_range (x\<lparr>day := 1\<rparr>)" "1 \<le> day x" "day x \<le> 32" for x
  proof (cases "day x > days_in (year x) (month x)")
    case True
    then show ?thesis using in_range_next_month [OF that(1)] by (simp add: fit_month_def)
  next
    case False
    then have "day x \<le> 31" by (auto simp: days_in_def split: if_splits)
    with False that show ?thesis by (simp add: fit_month_def in_range_def)
  qed
  have "in_range (next_day x)" if "in_range x" for x
    unfolding next_day_def using that by (intro fit) (simp_all add: in_range_def)
  then show ?thesis using d
    by (auto simp: next_second_def next_minute_def next_hour_def) (simp_all add: in_range_def)
qed

section \<open>Time\<close>

text \<open>Days since 1 January 2000, and seconds.\<close>

definition days :: "date \<Rightarrow> nat" where
  "days d = year d * 365 + (year d + 3) div 4 + sum_list (map (days_in (year d)) [1..<month d]) + (day d - 1)"

definition seconds :: "date \<Rightarrow> nat" where
  "seconds d = ((days d * 24 + hour d) * 60 + minute d) * 60 + second d"

definition weekday_ok :: "date \<Rightarrow> bool" where
  "weekday_ok d \<longleftrightarrow> weekday d = (6 + days d) mod 7"

definition century :: nat where "century = 36525 * 86400"

lemma months_before:
  assumes "1 \<le> m" "m \<le> 12"
  shows "sum_list (map (days_in y) [1..<m]) + days_in y m \<le> (if y mod 4 = 0 then 366 else 365)"
    and "m = 12 \<Longrightarrow> sum_list (map (days_in y) [1..<m]) + 31 = (if y mod 4 = 0 then 366 else 365)"
  using month_cases [OF assms] by (elim disjE; simp add: days_in_def upt_rec)+

lemma leap_step: "(y + 4) div 4 = (y + 3) div 4 + (if y mod 4 = 0 then 1 else 0)" for y :: nat
  by presburger

lemma days_less:
  assumes "valid_date d"
  shows "days d < 36525"
proof -
  have y: "year d \<le> 99" and m: "1 \<le> month d" "month d \<le> 12" and dd: "1 \<le> day d" "day d \<le> days_in (year d) (month d)"
    using assms by (auto simp: valid_date_def in_range_def)
  have "days d < (year d + 1) * 365 + (year d + 4) div 4"
    using months_before(1) [OF m, of "year d"] dd leap_step [of "year d"] by (simp add: days_def split: if_splits)
  also have "\<dots> \<le> 100 * 365 + 103 div 4"
  proof (rule add_mono)
    show "(year d + 1) * 365 \<le> 100 * 365" using y by simp
    show "(year d + 4) div 4 \<le> 103 div 4" using y by (intro div_le_mono) simp
  qed
  finally show ?thesis by simp
qed

lemma next_day_correct:
  assumes "valid_date d"
  shows "valid_date (next_day d) \<and> days (next_day d) = (days d + 1) mod 36525 \<and>
    weekday (next_day d) = (weekday d + 1) mod 7 \<and>
    hour (next_day d) = hour d \<and> minute (next_day d) = minute d \<and> second (next_day d) = second d"
proof -
  have r: "in_range d" and y: "year d < 100" and m: "1 \<le> month d" "month d \<le> 12"
    and dd: "1 \<le> day d" "day d \<le> days_in (year d) (month d)"
    using assms by (auto simp: valid_date_def in_range_def)
  have one: "1 \<le> days_in a b" "days_in a b \<le> 31" for a b by (simp_all add: days_in_def)
  have fields: "weekday (next_day d) = (weekday d + 1) mod 7"
    "hour (next_day d) = hour d \<and> minute (next_day d) = minute d \<and> second (next_day d) = second d"
    by (simp_all add: next_day_def fit_month_def next_month_def)
  consider "day d < days_in (year d) (month d)" | "day d = days_in (year d) (month d)" "month d < 12"
    | "day d = days_in (year d) (month d)" "month d = 12" using dd(2) m(2) by linarith
  then have "valid_date (next_day d) \<and> days (next_day d) = (days d + 1) mod 36525"
  proof cases
    case 1
    then have n: "next_day d = d\<lparr>weekday := (weekday d + 1) mod 7, day := day d + 1\<rparr>"
      by (simp add: next_day_def fit_month_def)
    have v: "valid_date (next_day d)" using r 1 one(2) [of "year d" "month d"] by (simp add: n valid_date_def in_range_def)
    moreover have "days (next_day d) = days d + 1" using dd(1) by (simp add: n days_def)
    ultimately show ?thesis using days_less [OF v] by simp
  next
    case 2
    then have n: "next_day d = d\<lparr>weekday := (weekday d + 1) mod 7, day := 1, month := month d + 1\<rparr>"
      by (simp add: next_day_def fit_month_def next_month_def)
    have v: "valid_date (next_day d)" using r 2 one(1) by (simp add: n valid_date_def in_range_def)
    moreover have "days (next_day d) = days d + 1" using 2 dd(1) m(1) by (simp add: n days_def upt_Suc_append)
    ultimately show ?thesis using days_less [OF v] by simp
  next
    case 3
    then have n: "next_day d = d\<lparr>weekday := (weekday d + 1) mod 7, day := 1, month := 1, year := (year d + 1) mod 100\<rparr>"
      by (simp add: next_day_def fit_month_def next_month_def days_in_def)
    have v: "valid_date (next_day d)" using r one(1) by (simp add: n valid_date_def in_range_def)
    have d31: "day d = 31" using 3 by (simp add: days_in_def)
    have total: "days d + 1 = (year d + 1) * 365 + (year d + 4) div 4"
      using months_before(2) [OF m 3(2), of "year d"] leap_step [of "year d"] d31 by (simp add: days_def split: if_splits)
    show ?thesis
    proof (cases "year d = 99")
      case True
      then show ?thesis using v total by (simp add: n days_def)
    next
      case False
      then have "days (next_day d) = days d + 1" using total y by (simp add: n days_def)
      then show ?thesis using v days_less [OF v] by simp
    qed
  qed
  with fields show ?thesis by simp
qed

lemma seconds_less: "valid_date d \<Longrightarrow> seconds d < century"
proof -
  assume v: "valid_date d"
  then have "days d \<le> 36524" "hour d \<le> 23" "minute d \<le> 59" "second d \<le> 59"
    using days_less [OF v] by (auto simp: valid_date_def in_range_def)
  then show ?thesis by (simp add: seconds_def century_def)
qed

lemma next_second_correct:
  assumes "valid_date d"
  shows "valid_date (next_second d) \<and> seconds (next_second d) = (seconds d + 1) mod century \<and>
    (seconds d + 1 < century \<longrightarrow> weekday_ok d \<longrightarrow> weekday_ok (next_second d))"
proof -
  have r: "hour d < 24" "minute d < 60" "second d < 60" using assms by (auto simp: valid_date_def in_range_def)
  have D: "days d < 36525" by (rule days_less [OF assms])
  have clockwise: "valid_date (d\<lparr>hour := h, minute := mi, second := se\<rparr>)" "days (d\<lparr>hour := h, minute := mi, second := se\<rparr>) = days d"
    if "h < 24" "mi < 60" "se < 60" for h mi se
    using assms that by (simp_all add: valid_date_def in_range_def days_def)
  show ?thesis
  proof (cases "second d = 59 \<and> minute d = 59 \<and> hour d = 23")
    case True
    define e where "e = d\<lparr>hour := 0, minute := 0, second := 0\<rparr>"
    have e: "valid_date e" "days e = days d" using clockwise [of 0 0 0] by (simp_all add: e_def)
    have "d\<lparr>second := 0, minute := 0, hour := 0\<rparr> = e" by (rule date.equality) (simp_all add: e_def)
    then have n: "next_second d = next_day e"
      using True by (simp add: next_second_def next_minute_def next_hour_def)
    moreover have "seconds (next_day e) = (days d + 1) mod 36525 * 86400"
      using next_day_correct [OF e(1)] e(2) by (simp add: seconds_def) (simp add: e_def)
    moreover have "seconds d + 1 = (days d + 1) * 86400" using True by (simp add: seconds_def)
    moreover have w: "weekday_ok (next_second d)" if "seconds d + 1 < century" "weekday_ok d"
    proof -
      have "days d + 1 < 36525" using that(1) \<open>seconds d + 1 = (days d + 1) * 86400\<close> by (simp add: century_def)
      then have "days (next_day e) = days d + 1" using next_day_correct [OF e(1)] e(2) by simp
      moreover have "weekday (next_day e) = (weekday d + 1) mod 7"
        using next_day_correct [OF e(1)] by (simp add: e_def)
      ultimately show ?thesis using that(2) by (simp add: weekday_ok_def n mod_simps)
    qed
    ultimately have "seconds (next_second d) = (seconds d + 1) mod century"
      by (simp only: century_def mod_mult_mult2)
    moreover have "valid_date (next_second d)" using next_day_correct [OF e(1)] by (simp only: n simp_thms)
    ultimately show ?thesis using w by blast
  next
    case False
    have n: "next_second d = d\<lparr>hour := (if second d = 59 \<and> minute d = 59 then hour d + 1 else hour d),
        minute := (if second d = 59 then if minute d = 59 then 0 else minute d + 1 else minute d),
        second := (if second d = 59 then 0 else second d + 1)\<rparr>"
      using False by (simp add: next_second_def next_minute_def next_hour_def)
    have v: "valid_date (next_second d)" "days (next_second d) = days d"
      unfolding n using r False by (intro clockwise; auto)+
    have "seconds (next_second d) = seconds d + 1"
      using v(2) by (simp add: seconds_def) (simp add: n)
    moreover have "seconds (next_second d) < century"
      by (rule seconds_less [OF v(1)])
    moreover have "weekday (next_second d) = weekday d" by (simp add: n)
    ultimately show ?thesis using v by (simp add: weekday_ok_def)
  qed
qed

lemma seconds_later:
  assumes "valid_date d"
  shows "valid_date ((next_second ^^ k) d) \<and> seconds ((next_second ^^ k) d) = (seconds d + k) mod century \<and>
    (seconds d + k < century \<longrightarrow> weekday_ok d \<longrightarrow> weekday_ok ((next_second ^^ k) d))"
proof (induction k)
  case 0
  show ?case using assms seconds_less [OF assms] by simp
next
  case (Suc k)
  note IH = conjunct1 [OF Suc.IH] conjunct1 [OF conjunct2 [OF Suc.IH]] conjunct2 [OF conjunct2 [OF Suc.IH]]
  note succ = next_second_correct [OF IH(1)]
  have "seconds ((next_second ^^ Suc k) d) = (seconds d + Suc k) mod century"
    using succ by (simp add: IH(2) mod_Suc_eq)
  moreover have "weekday_ok ((next_second ^^ Suc k) d)" if "seconds d + Suc k < century" "weekday_ok d"
    using succ IH(2,3) that by simp
  ultimately show ?case using succ by simp
qed

end
