(* ===== verification/RtcRegs.thy ===== *)
theory RtcRegs
  imports RtcDate
begin

text \<open>
  The clock registers stay those of a date in range, whatever is written to them; setting and reading the clock,
  and the change of the hour mode.
\<close>

section \<open>Registers in range\<close>

definition byte_ok :: "bool \<Rightarrow> nat \<Rightarrow> u8 \<Rightarrow> bool" where
  "byte_ok m i v \<longleftrightarrow>
     (if i = 0 then \<exists>n < 100. v = bcd n
      else if i = 1 then \<exists>n. 1 \<le> n \<and> n \<le> 12 \<and> v = bcd n
      else if i = 2 then \<exists>n. 1 \<le> n \<and> n \<le> 31 \<and> v = bcd n
      else if i = 3 then \<exists>n < 7. v = bcd n
      else if i = 4 then \<exists>h < 24. v = hour_reg m h
      else \<exists>n < 60. v = bcd n)"

definition regs_ok :: "rtc_state \<Rightarrow> bool" where
  "regs_ok s \<longleftrightarrow> (\<forall>i < 7. byte_ok (mode24 s) i (DateTime s i))"

lemma less_7: "i < 7 \<longleftrightarrow> i = 0 \<or> i = 1 \<or> i = 2 \<or> i = 3 \<or> i = 4 \<or> i = 5 \<or> i = (6 :: nat)"
  by presburger

lemma regs_ok_shows: "regs_ok s \<longleftrightarrow> (\<exists>d. in_range d \<and> shows_date d s)"
proof
  assume "regs_ok s"
  then have b: "byte_ok (mode24 s) i (DateTime s i)" if "i < 7" for i using that by (simp add: regs_ok_def)
  obtain y where y: "y < 100" "DateTime s 0 = bcd y" using b [of 0] by (auto simp: byte_ok_def)
  obtain m where m: "1 \<le> m" "m \<le> 12" "DateTime s 1 = bcd m" using b [of 1] by (auto simp: byte_ok_def)
  obtain dd where dd: "1 \<le> dd" "dd \<le> 31" "DateTime s 2 = bcd dd" using b [of 2] by (auto simp: byte_ok_def)
  obtain w where w: "w < 7" "DateTime s 3 = bcd w" using b [of 3] by (auto simp: byte_ok_def)
  obtain h where h: "h < 24" "DateTime s 4 = hour_reg (mode24 s) h" using b [of 4] by (auto simp: byte_ok_def)
  obtain mi where mi: "mi < 60" "DateTime s 5 = bcd mi" using b [of 5] by (auto simp: byte_ok_def)
  obtain se where se: "se < 60" "DateTime s 6 = bcd se" using b [of 6] by (auto simp: byte_ok_def)
  define d where "d = \<lparr>year = y, month = m, day = dd, weekday = w, hour = h, minute = mi, second = se\<rparr>"
  have "in_range d" "shows_date d s"
    using y m dd w h mi se by (simp_all add: in_range_def shows_date_def d_def)
  then show "\<exists>d. in_range d \<and> shows_date d s" by blast
next
  assume "\<exists>d. in_range d \<and> shows_date d s"
  then show "regs_ok s"
    by (auto simp: regs_ok_def byte_ok_def less_7 in_range_def shows_date_def)
qed

lemma regs_ok_set: "regs_ok s \<Longrightarrow> byte_ok (mode24 s) i v \<Longrightarrow> regs_ok (set_date i v s)"
  by (simp add: regs_ok_def)

lemma regs_ok_fields [simp]:
  "regs_ok (s\<lparr>IRQFlag := f\<rparr>) = regs_ok s" "regs_ok (s\<lparr>StatusReg2 := f\<rparr>) = regs_ok s"
  "regs_ok (s\<lparr>Alarm1 := a\<rparr>) = regs_ok s" "regs_ok (s\<lparr>Alarm2 := a\<rparr>) = regs_ok s"
  "regs_ok (s\<lparr>ClockAdjust := f\<rparr>) = regs_ok s" "regs_ok (s\<lparr>FreeReg := f\<rparr>) = regs_ok s"
  "regs_ok (s\<lparr>FOUT1 := f\<rparr>) = regs_ok s" "regs_ok (s\<lparr>FOUT2 := f\<rparr>) = regs_ok s"
  "regs_ok (s\<lparr>AlarmDate1 := a\<rparr>) = regs_ok s" "regs_ok (s\<lparr>AlarmDate2 := a\<rparr>) = regs_ok s"
  "regs_ok (s\<lparr>MinuteCount := w\<rparr>) = regs_ok s"
  by (simp_all add: regs_ok_def mode24_def)

section \<open>Writes\<close>

lemma byte_ok_simps:
  "byte_ok m 0 v \<longleftrightarrow> (\<exists>n < 100. v = bcd n)" "byte_ok m 1 v \<longleftrightarrow> (\<exists>n. 1 \<le> n \<and> n \<le> 12 \<and> v = bcd n)"
  "byte_ok m 2 v \<longleftrightarrow> (\<exists>n. 1 \<le> n \<and> n \<le> 31 \<and> v = bcd n)" "byte_ok m 3 v \<longleftrightarrow> (\<exists>n < 7. v = bcd n)"
  "byte_ok m 4 v \<longleftrightarrow> (\<exists>h < 24. v = hour_reg m h)" "byte_ok m 5 v \<longleftrightarrow> (\<exists>n < 60. v = bcd n)"
  "byte_ok m 6 v \<longleftrightarrow> (\<exists>n < 60. v = bcd n)"
  by (simp_all add: byte_ok_def)

lemma byte_okI:
  "n < 100 \<Longrightarrow> byte_ok m 0 (bcd n)" "1 \<le> n \<Longrightarrow> n \<le> 12 \<Longrightarrow> byte_ok m 1 (bcd n)"
  "1 \<le> n \<Longrightarrow> n \<le> 31 \<Longrightarrow> byte_ok m 2 (bcd n)" "n < 7 \<Longrightarrow> byte_ok m 3 (bcd n)"
  "h < 24 \<Longrightarrow> byte_ok m 4 (hour_reg m h)" "n < 60 \<Longrightarrow> byte_ok m 5 (bcd n)" "n < 60 \<Longrightarrow> byte_ok m 6 (bcd n)"
  unfolding byte_ok_simps by blast+

lemma CountMonth_keeps:
  assumes "byte_ok m 0 (DateTime s 0)" "byte_ok m 1 (DateTime s 1)"
  shows "byte_ok m 0 (DateTime (CountMonth s) 0)" "byte_ok m 1 (DateTime (CountMonth s) 1)"
    "2 \<le> i \<Longrightarrow> DateTime (CountMonth s) i = DateTime s i" "mode24 (CountMonth s) = mode24 s"
proof -
  obtain y where y: "y < 100" "DateTime s 0 = bcd y" using assms(1) by (auto simp only: byte_ok_simps)
  obtain k where k: "1 \<le> k" "k \<le> 12" "DateTime s 1 = bcd k" using assms(2) by (auto simp only: byte_ok_simps)
  have one: "1 = bcd 1" and twelve: "0x12 = bcd 12" by (simp_all add: bcd_def)
  have inc: "BCDIncrement (DateTime s 1) = bcd (k + 1)" "BCDIncrement (DateTime s 0) = bcd ((y + 1) mod 100)"
    using y k bcd_inc [of k] bcd_tables(1) [of y] by simp_all
  have gt: "bcd (k + 1) > 0x12 \<longleftrightarrow> k = 12" unfolding twelve using k(1,2) by (subst bcd_less) auto
  have eq: "CountMonth s = (if k = 12 then set_date 0 (bcd ((y + 1) mod 100)) (set_date 1 1 (set_date 1 (bcd (k + 1)) s))
      else set_date 1 (bcd (k + 1)) s)"
    using inc gt by (simp only: CountMonth_def CountYear_def Let_def) simp
  show "byte_ok m 0 (DateTime (CountMonth s) 0)"
    using y byte_okI(1) [of y m] byte_okI(1) [of "(y + 1) mod 100" m] by (simp add: eq)
  show "byte_ok m 1 (DateTime (CountMonth s) 1)"
    using k byte_okI(2) [of "k + 1" m] byte_okI(2) [of 1 m] by (cases "k = 12") (simp_all add: eq one)
  show "2 \<le> i \<Longrightarrow> DateTime (CountMonth s) i = DateTime s i" "mode24 (CountMonth s) = mode24 s"
    by (simp_all add: eq)
qed

lemma CheckEndOfMonth_keeps:
  assumes "byte_ok m 0 (DateTime s 0)" "byte_ok m 1 (DateTime s 1)" "byte_ok m 2 (DateTime s 2)"
  shows "i < 3 \<Longrightarrow> byte_ok m i (DateTime (CheckEndOfMonth s) i)"
    and "3 \<le> i \<Longrightarrow> DateTime (CheckEndOfMonth s) i = DateTime s i"
    and "mode24 (CheckEndOfMonth s) = mode24 s"
proof -
  have one: "1 = bcd 1" by (simp add: bcd_def)
  let ?t = "set_date 2 1 s"
  have t: "byte_ok m 0 (DateTime ?t 0)" "byte_ok m 1 (DateTime ?t 1)" "byte_ok m 2 (DateTime ?t 2)"
    using assms one by (auto simp: byte_ok_def)
  note keep = CountMonth_keeps [OF t(1,2)]
  show "i < 3 \<Longrightarrow> byte_ok m i (DateTime (CheckEndOfMonth s) i)"
  proof -
    assume "i < 3"
    then have "i = 0 \<or> i = 1 \<or> i = 2" by linarith
    then show ?thesis
      using assms t(3) keep(1,2) keep(3) [of 2] by (elim disjE) (simp_all only: CheckEndOfMonth_def order_refl split: if_split, simp_all)
  qed
  show "3 \<le> i \<Longrightarrow> DateTime (CheckEndOfMonth s) i = DateTime s i" "mode24 (CheckEndOfMonth s) = mode24 s"
    using keep(3) [of i] keep(4) by (simp_all add: CheckEndOfMonth_def)
qed

lemma sanitize_ok:
  assumes "a \<le> b" "b < 100"
  shows "\<exists>n. a \<le> n \<and> n \<le> b \<and> BCDSanitize v (bcd a) (bcd b) = bcd n"
  using BCDSanitize_range [OF assms, of v] by metis

lemma bcd_bounds:
  "bcd 0 = 0" "bcd 1 = 1" "bcd (Suc 0) = 1" "bcd 6 = 6" "bcd 11 = 0x11" "bcd 12 = 0x12" "bcd 23 = 0x23" "bcd 31 = 0x31" "bcd 59 = 0x59" "bcd 99 = 0x99"
  by (simp_all add: bcd_def)

lemma write_hour_keeps: "\<exists>h < 24. write_hour v s = set_date 4 (hour_reg (mode24 s) h) s"
proof (cases "mode24 s")
  case True
  obtain n where n: "n \<le> 23" "BCDSanitize (v AND 0x3F) 0 0x23 = bcd n"
    using sanitize_ok [of 0 23 "v AND 0x3F"] by (auto simp: bcd_bounds)
  have "bcd n \<ge> 0x12 \<longleftrightarrow> n \<ge> 12" using n(1) bcd_le [of 12 n] by (simp add: bcd_bounds)
  then have "write_hour v s = set_date 4 (hour_reg (mode24 s) n) s"
    using True n(2) by (simp add: write_hour_def hour_reg_def)
  then show ?thesis using n(1) by (intro exI [of _ n]) simp
next
  case False
  obtain n where n: "n \<le> 11" "BCDSanitize (v AND 0x3F) 0 0x11 = bcd n"
    using sanitize_ok [of 0 11 "v AND 0x3F"] by (auto simp: bcd_bounds)
  define h where "h = (if v AND 0x40 = 0 then n else n + 12)"
  have "v AND 0x40 = 0 \<or> v AND 0x40 = 0x40"
  proof -
    have table: "list_all (\<lambda>n. (of_nat n :: u8) AND 0x40 = 0 \<or> (of_nat n :: u8) AND 0x40 = 0x40) [0..<256]" by code_simp
    have "unat v < 256" using unsigned_less [of v, where ?'a = nat] by simp
    from all_below [OF table this] have "v AND 0x40 = 0 \<or> v AND 0x40 = 0x40" by simp
    then show ?thesis by simp
  qed
  then have "bcd n OR (v AND 0x40) = hour_reg False h"
    using n(1) by (auto simp: hour_reg_def h_def)
  then have "write_hour v s = set_date 4 (hour_reg (mode24 s) h) s"
    using False n(2) by (simp add: write_hour_def)
  then show ?thesis using n(1) by (intro exI [of _ h]) (simp add: h_def)
qed

definition regs_upto :: "nat \<Rightarrow> rtc_state \<Rightarrow> bool" where
  "regs_upto n s \<longleftrightarrow> (\<forall>i < n. byte_ok (mode24 s) i (DateTime s i))"

lemma WriteDateTime_field:
  assumes "i < 7" "i \<noteq> 2"
  obtains w where "WriteDateTime (i + 1) v s = set_date i w s" "byte_ok (mode24 s) i w"
proof -
  consider "i = 0" | "i = 1" | "i = 3" | "i = 4" | "i = 5" | "i = 6" using assms by linarith
  then show thesis
  proof cases
    case 1
    obtain n where "n \<le> 99" "BCDSanitize v 0 0x99 = bcd n" using sanitize_ok [of 0 99 v] by (auto simp: bcd_bounds)
    with 1 show thesis by (intro that [of "bcd n"]) (simp_all add: WriteDateTime_def byte_okI)
  next
    case 2
    obtain n where n: "1 \<le> n" "n \<le> 12" "BCDSanitize (v AND 0x1F) 1 0x12 = bcd n"
      using sanitize_ok [of 1 12 "v AND 0x1F"] by (auto simp: bcd_bounds)
    show thesis using 2 n byte_okI(2) [OF n(1,2)] by (intro that [of "bcd n"]) (simp_all add: WriteDateTime_def)
  next
    case 3
    obtain n where "n \<le> 6" "BCDSanitize (v AND 0x07) 0 6 = bcd n"
      using sanitize_ok [of 0 6 "v AND 0x07"] by (auto simp: bcd_bounds)
    with 3 show thesis by (intro that [of "bcd n"]) (simp_all add: WriteDateTime_def byte_okI)
  next
    case 4
    obtain h where "h < 24" "write_hour v s = set_date 4 (hour_reg (mode24 s) h) s" using write_hour_keeps by blast
    with 4 show thesis by (intro that [of "hour_reg (mode24 s) h"]) (simp_all add: WriteDateTime_def byte_okI)
  next
    case 5
    obtain n where "n \<le> 59" "BCDSanitize (v AND 0x7F) 0 0x59 = bcd n"
      using sanitize_ok [of 0 59 "v AND 0x7F"] by (auto simp: bcd_bounds)
    with 5 show thesis by (intro that [of "bcd n"]) (simp_all add: WriteDateTime_def byte_okI)
  next
    case 6
    obtain n where "n \<le> 59" "BCDSanitize (v AND 0x7F) 0 0x59 = bcd n"
      using sanitize_ok [of 0 59 "v AND 0x7F"] by (auto simp: bcd_bounds)
    with 6 show thesis by (intro that [of "bcd n"]) (simp_all add: WriteDateTime_def byte_okI)
  qed
qed

lemma WriteDateTime_upto:
  assumes "regs_upto n s" "i \<le> n" "i < 7"
  shows "regs_upto (max n (i + 1)) (WriteDateTime (i + 1) v s) \<and> mode24 (WriteDateTime (i + 1) v s) = mode24 s"
proof (cases "i = 2")
  case False
  obtain w where "WriteDateTime (i + 1) v s = set_date i w s" "byte_ok (mode24 s) i w"
    using WriteDateTime_field [OF assms(3) False] by blast
  with assms(1,2) show ?thesis by (auto simp: regs_upto_def)
next
  case True
  obtain k where k: "1 \<le> k" "k \<le> 31" "BCDSanitize (v AND 0x3F) 1 0x31 = bcd k"
    using sanitize_ok [of 1 31 "v AND 0x3F"] by (auto simp: bcd_bounds)
  define t where "t = set_date 2 (bcd k) s"
  have eq: "WriteDateTime (i + 1) v s = CheckEndOfMonth t" using True k by (simp add: WriteDateTime_def t_def)
  have old: "byte_ok (mode24 s) j (DateTime s j)" if "j < n" for j using assms(1) that by (simp add: regs_upto_def)
  have n: "2 \<le> n" using True assms(2) by simp
  have t: "byte_ok (mode24 s) 0 (DateTime t 0)" "byte_ok (mode24 s) 1 (DateTime t 1)" "byte_ok (mode24 s) 2 (DateTime t 2)"
    using old [of 0] old [of 1] n byte_okI(3) [OF k(1,2)] by (simp_all add: t_def)
  note keep = CheckEndOfMonth_keeps [OF t]
  have "byte_ok (mode24 s) j (DateTime (CheckEndOfMonth t) j)" if "j < max n 3" for j
  proof (cases "j < 3")
    case True
    then show ?thesis by (rule keep(1))
  next
    case False
    then have "DateTime (CheckEndOfMonth t) j = DateTime s j" using keep(2) [of j] by (simp add: t_def)
    then show ?thesis using old [of j] that False by simp
  qed
  moreover have "mode24 (CheckEndOfMonth t) = mode24 s" using keep(3) by (simp add: t_def)
  moreover have "max n (i + 1) = max n 3" using True by simp
  ultimately show ?thesis by (simp only: eq regs_upto_def simp_thms) blast
qed

lemma regs_ok_upto: "regs_ok s = regs_upto 7 s"
  by (simp add: regs_ok_def regs_upto_def)

lemma WriteDateTime_ok: "regs_ok s \<Longrightarrow> regs_ok (WriteDateTime num v s)"
proof (cases "1 \<le> num \<and> num \<le> 7")
  case True
  assume "regs_ok s"
  moreover have "num - 1 \<le> 7" "num - 1 < 7" "num - 1 + 1 = num" using True by linarith+
  ultimately show ?thesis using WriteDateTime_upto [of 7 s "num - 1" v] True by (simp add: regs_ok_upto)
next
  case False
  assume "regs_ok s"
  moreover have "WriteDateTime num v s = s" using False by (auto simp: WriteDateTime_def)
  ultimately show ?thesis by simp
qed

lemma SetState_ok: "regs_ok (SetState s)"
proof -
  have "regs_upto n (fold (\<lambda>i s. WriteDateTime (i + 1) (DateTime s i) s) [0..<n] s)" if "n \<le> 7" for n
    using that
  proof (induction n)
    case 0
    then show ?case by (simp add: regs_upto_def)
  next
    case (Suc n)
    let ?t = "fold (\<lambda>i s. WriteDateTime (i + 1) (DateTime s i) s) [0..<n] s"
    have "regs_upto (max n (n + 1)) (WriteDateTime (n + 1) (DateTime ?t n) ?t)"
      using Suc by (intro WriteDateTime_upto [THEN conjunct1]) simp_all
    then show ?case by simp
  qed
  from this [of 7] show ?thesis by (simp only: regs_ok_upto SetState_def order_refl simp_thms)
qed

section \<open>The hour mode\<close>

lemma converted_hour_table:
  assumes "h < 24"
  shows "converted_hour m (hour_reg (\<not> m) h) = hour_reg m h"
proof -
  have "list_all (\<lambda>h. list_all (\<lambda>m. converted_hour m (hour_reg (\<not> m) h) = hour_reg m h) [True, False]) [0..<24]"
    by code_simp
  from all_below [OF this assms] show ?thesis by (cases m) simp_all
qed

definition epoch :: date where
  "epoch = \<lparr>year = 0, month = 1, day = 1, weekday = 0, hour = 0, minute = 0, second = 0\<rparr>"

text \<open>The mode bit after a write of the first status register.\<close>

lemma status1_mode: "tst ((w AND 0xF0) OR (v AND 0x0E)) 2 = tst v 2" for v w :: u8
proof -
  have "tst x 2 = bit x 1" for x :: u8 using tst_pow [of x 1] by simp
  then show ?thesis by (simp add: bit_simps bit_numeral_rec)
qed

lemma tst_xor2: "tst (x XOR y) 2 \<longleftrightarrow> tst x 2 \<noteq> tst y 2" for x y :: u8
proof -
  have "tst x 2 = bit x 1" for x :: u8 using tst_pow [of x 1] by simp
  then show ?thesis by (simp add: bit_simps)
qed

text \<open>A write of the first status register keeps the time across a change of the mode; its reset bit sets the epoch.\<close>

lemma write_status1_shows:
  assumes "shows_date d s" "in_range d"
  shows "shows_date (if tst v 1 then epoch else d) (write_status1 v s)" "mode24 (write_status1 v s) = tst v 2"
proof -
  define u where "u = (if tst v 1 then ResetState else s)"
  define t where "t = u\<lparr>StatusReg1 := (StatusReg1 u AND 0xF0) OR (v AND 0x0E)\<rparr>"
  have m: "mode24 t = tst v 2" by (simp add: t_def mode24_def status1_mode)
  have eq: "write_status1 v s = (if mode24 t \<noteq> mode24 s then convert_hour t else t)"
    by (simp only: write_status1_def Let_def u_def t_def tst_xor2 mode24_def)
  have conv: "mode24 (convert_hour x) = mode24 x" for x by (simp add: convert_hour_def)
  then show "mode24 (write_status1 v s) = tst v 2" using m by (simp add: eq)
  show "shows_date (if tst v 1 then epoch else d) (write_status1 v s)"
  proof (cases "tst v 1")
    case True
    have z: "hour_reg a 0 = 0" for a by (simp add: hour_reg_def bcd_def)
    have "DateTime t = (\<lambda>i. 0)(1 := 1, 2 := 1)" using True by (simp add: t_def u_def ResetState_def)
    moreover from this have "convert_hour t = set_date 4 0 t"
      using converted_hour_table [of 0 "mode24 t"] by (simp add: convert_hour_def z)
    ultimately show ?thesis
      using True by (simp add: eq shows_date_def epoch_def z conv) (simp add: bcd_def)
  next
    case False
    have h: "hour d < 24" using assms(2) by (simp add: in_range_def)
    have regs: "DateTime t = DateTime s" using False by (simp add: t_def u_def)
    have "convert_hour t = set_date 4 (hour_reg (mode24 t) (hour d)) t" if "mode24 t \<noteq> mode24 s"
    proof -
      have "mode24 s = (\<not> mode24 t)" using that by blast
      then have "DateTime t 4 = hour_reg (\<not> mode24 t) (hour d)" using assms(1) by (simp add: regs shows_date_def)
      then show ?thesis using converted_hour_table [OF h, of "mode24 t"] by (simp only: convert_hour_def)
    qed
    then show ?thesis
      using False assms(1) regs by (simp add: eq shows_date_def)
  qed
qed

section \<open>Setting and reading\<close>

lemma and_3_int: "x AND 3 = x mod 4" for x :: int
  using take_bit_eq_mod [of 2 x] take_bit_eq_mask [of 2 x] by (simp add: mask_eq_exp_minus_1)

lemma month_days_list: "month_days (int y) = 0 # map (\<lambda>m. int (days_in y m)) [1..<13]"
proof -
  have leap: "int y mod 4 = 0 \<longleftrightarrow> y mod 4 = 0" by presburger
  have "[1..<13] = [1, 2, 3, 4, 5, 6, 7, 8, 9, 10, 11, 12 :: nat]" by code_simp
  then show ?thesis by (simp add: month_days_def and_3_int leap days_in_def)
qed

lemma month_days_sum:
  assumes "1 \<le> m" "m \<le> 12"
  shows "sum_list (take (m - 1) (drop 1 (month_days (int y)))) = int (sum_list (map (days_in y) [1..<m]))"
    and "month_days (int y) ! m = int (days_in y m)"
proof -
  have "take (m - 1) (drop 1 (month_days (int y))) = map (\<lambda>m. int (days_in y m)) [1..<m]"
    using assms by (simp add: month_days_list take_map take_upt del: upt_Suc)
  then show "sum_list (take (m - 1) (drop 1 (month_days (int y)))) = int (sum_list (map (days_in y) [1..<m]))"
    by (simp add: sum_list_of_nat [symmetric] comp_def map_map del: upt_Suc)
  show "month_days (int y) ! m = int (days_in y m)"
    using assms by (cases m) (simp_all add: month_days_list del: upt_Suc)
qed

text \<open>The date that \<open>SetDateTime\<close> makes of its arguments.\<close>

definition clamp :: "int \<Rightarrow> int \<Rightarrow> int \<Rightarrow> nat" where
  "clamp lo hi x = nat (if x < lo \<or> x > hi then lo else x)"

definition given_date :: "int \<Rightarrow> int \<Rightarrow> int \<Rightarrow> int \<Rightarrow> int \<Rightarrow> int \<Rightarrow> date" where
  "given_date y m dd h mi se =
     (let y = nat (y smod 100); m = clamp 1 12 m;
          d = \<lparr>year = y, month = m, day = clamp 1 (int (days_in y m)) dd, weekday = 0,
               hour = clamp 0 23 h, minute = clamp 0 59 mi, second = clamp 0 59 se\<rparr>
      in d\<lparr>weekday := (6 + days d) mod 7\<rparr>)"

lemma clamp_range: "0 \<le> lo \<Longrightarrow> lo \<le> hi \<Longrightarrow> nat lo \<le> clamp lo hi x \<and> clamp lo hi x \<le> nat hi"
  by (auto simp: clamp_def)

lemma year_range: "nat (y smod 100) < 100"
proof -
  have "\<bar>y\<bar> mod 100 < 100" "0 \<le> \<bar>y\<bar> mod 100" by simp_all
  then show ?thesis by (auto simp: signed_modulo_int_def sgn_if)
qed

lemma given_date_fields:
  "given_date y m dd h mi se =
     (let Y = nat (y smod 100); M = clamp 1 12 m; D = clamp 1 (int (days_in Y M)) dd
      in \<lparr>year = Y, month = M, day = D, weekday = (6 + days (given_date y m dd h mi se)) mod 7,
          hour = clamp 0 23 h, minute = clamp 0 59 mi, second = clamp 0 59 se\<rparr>)"
  by (simp add: given_date_def Let_def days_def)

lemma given_date_valid: "valid_date (given_date y m dd h mi se) \<and> weekday_ok (given_date y m dd h mi se)"
proof -
  define Y M where "Y = nat (y smod 100)" and "M = clamp 1 12 m"
  define D where "D = clamp 1 (int (days_in Y M)) dd"
  define w where "w = (6 + days (given_date y m dd h mi se)) mod 7"
  have gd: "given_date y m dd h mi se = \<lparr>year = Y, month = M, day = D, weekday = w, hour = clamp 0 23 h,
      minute = clamp 0 59 mi, second = clamp 0 59 se\<rparr>"
    by (subst given_date_fields) (simp only: Let_def Y_def M_def D_def w_def)
  have "1 \<le> M" "M \<le> 12" using clamp_range [of 1 12 m] by (simp_all add: M_def)
  moreover have D: "1 \<le> D" "D \<le> days_in Y M"
    using clamp_range [of 1 "int (days_in Y M)" dd] by (auto simp: D_def days_in_def)
  moreover from D(2) have "D \<le> 31" by (rule order_trans) (simp add: days_in_def)
  moreover have "clamp 0 23 h < 24" "clamp 0 59 mi < 60" "clamp 0 59 se < 60"
    using clamp_range [of 0 23 h] clamp_range [of 0 59 mi] clamp_range [of 0 59 se] by simp_all
  moreover have "w < 7" by (simp add: w_def)
  ultimately have "valid_date (given_date y m dd h mi se)"
    using year_range [of y] by (simp add: gd valid_date_def in_range_def Y_def)
  moreover have "weekday (given_date y m dd h mi se) = w" by (simp add: gd)
  ultimately show ?thesis by (simp only: weekday_ok_def w_def simp_thms)
qed

lemma BCD_int: "n < 100 \<Longrightarrow> BCD (of_int (int n)) = bcd n"
  by (simp add: bcd_tables(3))

lemma hour_reg_split: "h < 24 \<Longrightarrow>
    BCD (of_int (if \<not> m24 \<and> int h \<ge> 12 then int h - 12 else int h)) OR (if int h \<ge> 12 then 0x40 else 0) = hour_reg m24 h"
proof -
  assume h: "h < 24"
  have "list_all (\<lambda>h. list_all (\<lambda>m24. BCD (of_int (if \<not> m24 \<and> int h \<ge> 12 then int h - 12 else int h)) OR
      (if int h \<ge> 12 then 0x40 else 0) = hour_reg m24 h) [True, False]) [0..<24]"
    by code_simp
  from all_below [OF this h] show ?thesis by (cases m24) simp_all
qed

lemma numdays_smod: "0 \<le> n \<Longrightarrow> (6 + n) smod 7 = (6 + n) mod 7" for n :: int
  by (simp add: signed_modulo_int_def sgn_if)

lemma year_sdiv: "0 \<le> y \<Longrightarrow> (y + 3) sdiv 4 = (y + 3) div 4" for y :: int
  by (simp add: signed_divide_int_def sgn_if)

lemma SetDateTime_shows:
  "shows_date (given_date y m dd h mi se) (SetDateTime y m dd h mi se s)"
    "mode24 (SetDateTime y m dd h mi se s) = mode24 s"
proof -
  define Y where "Y = nat (y smod 100)"
  define M where "M = clamp 1 12 m"
  define D where "D = clamp 1 (int (days_in Y M)) dd"
  define H where "H = clamp 0 23 h"
  define MI where "MI = clamp 0 59 mi"
  define SE where "SE = clamp 0 59 se"
  have v: "valid_date (given_date y m dd h mi se)" using given_date_valid by blast
  have gd: "given_date y m dd h mi se =
      \<lparr>year = Y, month = M, day = D, weekday = (6 + days (given_date y m dd h mi se)) mod 7, hour = H, minute = MI, second = SE\<rparr>"
    by (subst given_date_fields) (simp only: Let_def Y_def M_def D_def H_def MI_def SE_def)
  have r: "Y < 100" "1 \<le> M" "M \<le> 12" "1 \<le> D" "D \<le> 31" "H < 24" "MI < 60" "SE < 60"
    using v by (subst (asm) gd, simp add: valid_date_def in_range_def)+
  have ints: "(if y smod 100 < 0 then 0 else y smod 100) = int Y"
    "(if m < 1 \<or> m > 12 then 1 else m) = int M"
    "(if dd < 1 \<or> dd > int (days_in Y M) then 1 else dd) = int D"
    "(if h < 0 \<or> h > 23 then 0 else h) = int H" "(if mi < 0 \<or> mi > 59 then 0 else mi) = int MI"
    "(if se < 0 \<or> se > 59 then 0 else se) = int SE"
    by (simp_all add: Y_def M_def D_def H_def MI_def SE_def clamp_def)
  have numdays: "int Y * 365 + (int Y + 3) sdiv 4 + sum_list (take (nat (int M) - 1) (drop 1 (month_days (int Y)))) + (int D - 1)
      = int (days (given_date y m dd h mi se))"
    using month_days_sum(1) [OF r(2,3), of Y] r(4)
    by (subst gd) (simp add: days_def year_sdiv zdiv_int of_nat_diff)
  have dow: "of_int ((6 + int (days (given_date y m dd h mi se))) smod 7) = bcd (weekday (given_date y m dd h mi se))"
  proof -
    have "(6 + int (days (given_date y m dd h mi se))) smod 7 = int ((6 + days (given_date y m dd h mi se)) mod 7)"
      by (simp add: numdays_smod zmod_int)
    moreover have "bcd ((6 + days (given_date y m dd h mi se)) mod 7) = of_nat ((6 + days (given_date y m dd h mi se)) mod 7)"
      using bcd_tables(7) [of "(6 + days (given_date y m dd h mi se)) mod 7"] by simp
    moreover have "weekday (given_date y m dd h mi se) = (6 + days (given_date y m dd h mi se)) mod 7"
      by (subst gd) simp
    ultimately show ?thesis by simp
  qed
  have pm: "((if int H \<ge> 12 then 0x40 else 0 :: u8) \<noteq> 0) = (int H \<ge> 12)" by simp
  have num: "M < 100" "D < 100" "MI < 100" "SE < 100" using r by simp_all
  have eq: "SetDateTime y m dd h mi se s =
      (let t = set_date 6 (bcd SE) (set_date 5 (bcd MI) (set_date 4 (hour_reg (mode24 s) H)
         (set_date 3 (bcd (weekday (given_date y m dd h mi se))) (set_date 2 (bcd D) (set_date 1 (bcd M) (set_date 0 (bcd Y) s))))))
       in t\<lparr>StatusReg1 := StatusReg1 t AND NOT 0x80\<rparr>)"
    by (simp only: SetDateTime_def Let_def ints month_days_sum(2) [OF r(2,3)] nat_int pm
        numdays [unfolded nat_int] dow hour_reg_split [OF r(6)] BCD_int [OF r(1)] num [THEN BCD_int])
  have "tst (x AND NOT 0x80) 2 = tst x 2" for x :: u8
    using tst_pow [of "x AND NOT 0x80" 1] tst_pow [of x 1] by (simp add: bit_simps bit_numeral_rec)
  then show m: "mode24 (SetDateTime y m dd h mi se s) = mode24 s"
    by (simp only: eq Let_def mode24_def) simp
  have "year (given_date y m dd h mi se) = Y" "month (given_date y m dd h mi se) = M" "day (given_date y m dd h mi se) = D"
    "hour (given_date y m dd h mi se) = H" "minute (given_date y m dd h mi se) = MI" "second (given_date y m dd h mi se) = SE"
    by (subst gd, simp)+
  then show "shows_date (given_date y m dd h mi se) (SetDateTime y m dd h mi se s)"
    unfolding shows_date_def m by (simp add: eq Let_def)
qed

text \<open>Reading.\<close>

lemma GetDateTime_shows:
  assumes "shows_date d s" "in_range d"
  shows "GetDateTime s = [2000 + int (year d), int (month d), int (day d), int (hour d), int (minute d), int (second d)]"
proof -
  have h: "hour d < 24" "DateTime s 4 = hour_reg (mode24 s) (hour d)" using assms by (simp_all add: shows_date_def in_range_def)
  have hv: "(if \<not> mode24 s \<and> tst (DateTime s 4) 0x40 then uint (FromBCD (DateTime s 4 AND 0x3F)) + 12
      else uint (FromBCD (DateTime s 4 AND 0x3F))) = int (hour d)"
  proof -
    have "list_all (\<lambda>h. list_all (\<lambda>m24. (if \<not> m24 \<and> tst (hour_reg m24 h) 0x40 then uint (FromBCD (hour_reg m24 h AND 0x3F)) + 12
      else uint (FromBCD (hour_reg m24 h AND 0x3F))) = int h) [True, False]) [0..<24]"
      by code_simp
    from all_below [OF this h(1)] show ?thesis unfolding h(2) by (cases "mode24 s") (auto split: if_splits)
  qed
  have "uint (FromBCD (bcd n)) = int n" if "n < 100" for n
    using bcd_tables(2) [OF that] that by (simp add: unsigned_of_nat take_bit_nat_eq_self)
  then have parts: "uint (FromBCD (DateTime s 0)) = int (year d)" "uint (FromBCD (DateTime s 1 AND 0x3F)) = int (month d)"
    "uint (FromBCD (DateTime s 2 AND 0x3F)) = int (day d)" "uint (FromBCD (DateTime s 5 AND 0x7F)) = int (minute d)"
    "uint (FromBCD (DateTime s 6 AND 0x7F)) = int (second d)"
    using assms by (simp_all add: shows_date_def in_range_def bcd_tables(4,5))
  show ?thesis by (simp only: GetDateTime_def Let_def hv parts add.commute [of 2000])
qed

end
