(* ===== verification/RtcProps.thy ===== *)
theory RtcProps
  imports RtcRegs
begin

text \<open>
  The clock in the console: the registers show a date in range under any operations, the clock keeps time with
  the event scheduler, and a date written over the serial interface is read back.
\<close>

section \<open>The clock object\<close>

lemma clock_simps [simp]:
  "clock (on_clock f nds) = f (clock nds)" "state_of (on_clock f nds) = State (f (clock nds))"
  "clock (on_state g nds) = (clock nds)\<lparr>State := g (state_of nds)\<rparr>" "state_of (on_state g nds) = g (state_of nds)"
  by (simp_all add: clock_def on_clock_def on_state_def state_of_def)

lemma on_clock_nds [simp]:
  "SchedList (on_clock f nds) = SchedList nds" "SysTimestamp (on_clock f nds) = SysTimestamp nds"
  "SchedListMask (on_clock f nds) = SchedListMask nds" "ConsoleType (on_clock f nds) = ConsoleType nds"
  "SchedList (on_state g nds) = SchedList nds" "SysTimestamp (on_state g nds) = SysTimestamp nds"
  "SchedListMask (on_state g nds) = SchedListMask nds" "ConsoleType (on_state g nds) = ConsoleType nds"
  by (simp_all add: on_clock_def on_state_def)

text \<open>The calls out of the clock leave it alone.\<close>

lemma SetIRQ_beside [simp]:
  "clock (SetIRQ (beside_clock ext) cpu irq nds) = clock nds"
  "SchedList (SetIRQ (beside_clock ext) cpu irq nds) = SchedList nds"
  "SchedListMask (SetIRQ (beside_clock ext) cpu irq nds) = SchedListMask nds"
  "SysTimestamp (SetIRQ (beside_clock ext) cpu irq nds) = SysTimestamp nds"
  "ConsoleType (SetIRQ (beside_clock ext) cpu irq nds) = ConsoleType nds"
  by (simp_all add: SetIRQ_def UpdateIRQ_def clock_def beside_clock_def Let_def split_beta)

lemma ScheduleEvent_clock [simp]:
  "clock (ScheduleEvent i p dl f a nds) = clock nds" "ConsoleType (ScheduleEvent i p dl f a nds) = ConsoleType nds"
  by (simp_all add: ScheduleEvent_def ScheduleEventAt_def Reschedule_def clock_def Let_def)

lemma state_of_clock: "state_of nds = State (clock nds)"
  by (simp add: state_of_def)

text \<open>Interrupts change the flags only.\<close>

definition flags_only :: "(rtc \<times> 'y) nds \<Rightarrow> (rtc \<times> 'y) nds \<Rightarrow> bool" where
  "flags_only nds nds' \<longleftrightarrow>
     (\<exists>s. clock nds' = (clock nds)\<lparr>State := s\<rparr> \<and> DateTime s = DateTime (state_of nds) \<and> mode24 s = mode24 (state_of nds)) \<and>
     SchedList nds' = SchedList nds \<and> SchedListMask nds' = SchedListMask nds \<and>
     SysTimestamp nds' = SysTimestamp nds \<and> ConsoleType nds' = ConsoleType nds"

lemma flags_only_refl [simp]: "flags_only nds nds"
  unfolding flags_only_def by (intro conjI exI [of _ "state_of nds"]) (simp_all add: state_of_def)

lemma flags_only_trans: "flags_only a b \<Longrightarrow> flags_only b c \<Longrightarrow> flags_only a c"
  by (force simp: flags_only_def state_of_def)

lemma mode24_or: "mode24 (s\<lparr>IRQFlag := f, StatusReg1 := StatusReg1 s OR 0x10\<rparr>) = mode24 s"
    "mode24 (s\<lparr>IRQFlag := f, StatusReg1 := StatusReg1 s OR 0x20\<rparr>) = mode24 s"
  using tst_pow [of "StatusReg1 s" 1] tst_pow [of "StatusReg1 s OR 0x10" 1] tst_pow [of "StatusReg1 s OR 0x20" 1]
  by (simp_all add: mode24_def bit_simps bit_numeral_rec)

lemma rtc_SetIRQ_flags: "irq = 0x10 \<or> irq = 0x20 \<Longrightarrow> flags_only nds (rtc_SetIRQ ext irq nds)"
  unfolding flags_only_def
  by (auto simp: rtc_SetIRQ_def Let_def mode24_or intro!: exI)

lemma rtc_ClearIRQ_flags: "flags_only nds (rtc_ClearIRQ irq nds)"
  unfolding flags_only_def by (auto simp: rtc_ClearIRQ_def mode24_def intro!: exI)

lemma process_INT1_flags: "flags_only nds (process_INT1 ext type nds)"
  by (simp add: process_INT1_def Let_def rtc_SetIRQ_flags rtc_ClearIRQ_flags flags_only_trans [OF rtc_SetIRQ_flags rtc_ClearIRQ_flags])

lemma process_INT2_flags: "flags_only nds (process_INT2 ext type nds)"
  by (simp add: process_INT2_def Let_def rtc_SetIRQ_flags rtc_ClearIRQ_flags)

lemma ProcessIRQ_flags: "flags_only nds (ProcessIRQ ext type nds)"
  unfolding ProcessIRQ_def by (rule flags_only_trans [OF process_INT1_flags process_INT2_flags])

lemma flags_only_shows: "flags_only nds nds' \<Longrightarrow> shows_date d (state_of nds') = shows_date d (state_of nds)"
  by (auto simp: flags_only_def state_of_clock shows_date_def)

lemma flags_only_regs: "flags_only nds nds' \<Longrightarrow> regs_ok (state_of nds') = regs_ok (state_of nds)"
  by (auto simp: regs_ok_shows flags_only_shows)

text \<open>A change of the registers alone, in the same hour mode.\<close>

definition state_only :: "(rtc \<times> 'y) nds \<Rightarrow> (rtc \<times> 'y) nds \<Rightarrow> bool" where
  "state_only nds nds' \<longleftrightarrow>
     (\<exists>s. clock nds' = (clock nds)\<lparr>State := s\<rparr> \<and> mode24 s = mode24 (state_of nds)) \<and>
     SchedList nds' = SchedList nds \<and> SchedListMask nds' = SchedListMask nds \<and>
     SysTimestamp nds' = SysTimestamp nds \<and> ConsoleType nds' = ConsoleType nds"

lemma state_only_flags: "flags_only nds nds' \<Longrightarrow> state_only nds nds'"
  unfolding flags_only_def state_only_def by (elim conjE exE) (intro conjI exI; assumption)

lemma state_only_trans: "state_only a b \<Longrightarrow> state_only b c \<Longrightarrow> state_only a c"
  by (force simp: state_only_def state_of_clock)

lemma state_only_on_state: "mode24 (f (state_of nds)) = mode24 (state_of nds) \<Longrightarrow> state_only nds (on_state f nds)"
  unfolding state_only_def by (intro conjI exI [of _ "f (state_of nds)"]) simp_all

section \<open>Counting\<close>

lemma CountSecond_shows:
  assumes "shows_date d (state_of nds)" "in_range d"
  shows "shows_date (next_second d) (state_of (CountSecond ext nds))" "state_only nds (CountSecond ext nds)"
proof -
  let ?s = "state_of nds"
  define nds1 where "nds1 = on_state (\<lambda>s. set_date 6 (BCDIncrement (DateTime s 6)) s) nds"
  have inc: "BCDIncrement (DateTime ?s 6) = bcd (second d + 1)"
    using assms bcd_inc [of "second d"] by (simp add: shows_date_def in_range_def)
  have s1: "state_of nds1 = set_date 6 (bcd (second d + 1)) ?s" by (simp add: nds1_def inc)
  have ge: "DateTime (state_of nds1) 6 \<ge> 0x60 \<longleftrightarrow> second d = 59"
    using assms(2) bcd_le [of 60 "second d + 1"] unfolding s1 by (auto simp: bcd_def [of 60] in_range_def)
  have eq: "CountSecond ext nds = (if second d = 59 then CountMinute ext (on_state (set_date 6 0) nds1) else nds1)"
    using ge by (simp only: CountSecond_def Let_def nds1_def)
  have "shows_date (d\<lparr>second := 0\<rparr>) (set_date 6 0 (state_of nds1))" "in_range (d\<lparr>second := 0\<rparr>)"
    using assms by (simp_all add: s1 shows_date_def in_range_def) (simp add: bcd_def)
  note minute = count_minute_shows [OF this]
  define nds2 where "nds2 = on_state count_minute (on_state (set_date 6 0) nds1)"
  have fl: "flags_only nds2 (ProcessIRQ ext 0 nds2)" by (rule ProcessIRQ_flags)
  have eq2: "CountSecond ext nds = (if second d = 59 then ProcessIRQ ext 0 nds2 else nds1)"
    by (simp add: eq CountMinute_def nds2_def)
  have n2: "shows_date (next_second d) (state_of nds2)" if "second d = 59"
    using minute that by (simp add: nds2_def next_second_def)
  have n1: "shows_date (next_second d) (state_of nds1)" if "second d \<noteq> 59"
    using assms(1) that by (simp add: s1 next_second_def shows_date_def)
  show "shows_date (next_second d) (state_of (CountSecond ext nds))"
    using n1 n2 flags_only_shows [OF fl] by (simp add: eq2)
  have 1: "state_only nds nds1" unfolding nds1_def by (rule state_only_on_state) simp
  have 2: "state_only nds1 (on_state (set_date 6 0) nds1)" by (rule state_only_on_state) simp
  have "state_only (on_state (set_date 6 0) nds1) nds2"
    unfolding nds2_def by (rule state_only_on_state) (use minute in simp)
  then have "state_only nds nds2" using 1 2 state_only_trans by blast
  then have "state_only nds (ProcessIRQ ext 0 nds2)" by (rule state_only_trans [OF _ state_only_flags [OF fl]])
  then show "state_only nds (CountSecond ext nds)" using 1 by (simp add: eq2)
qed

text \<open>One tick of the 32768 Hz clock.\<close>

definition one_tick :: "'y nds_ext \<Rightarrow> (rtc \<times> 'y) nds \<Rightarrow> (rtc \<times> 'y) nds" where
  "one_tick ext nds =
     (let nds = on_clock (\<lambda>r. r\<lparr>ClockCount := ClockCount r + 1\<rparr>) nds;
          nds = (if \<not> tst (ClockCount (clock nds)) 0x7FFF then CountSecond ext nds
                 else if ClockCount (clock nds) AND 0x7FFF = 256
                 then on_state (\<lambda>s. s\<lparr>IRQFlag := IRQFlag s AND NOT 0x01\<rparr>) nds
                 else nds)
      in ProcessIRQ ext 1 nds)"

lemma ClockTimer_one_tick: "ClockTimer ext p nds = ScheduleTimer False (one_tick ext nds)"
  by (simp only: ClockTimer_def one_tick_def Let_def)

definition second_edge :: "u32 \<Rightarrow> bool" where
  "second_edge c \<longleftrightarrow> (c + 1) AND 0x7FFF = 0"

lemma low_15: "unat (w AND 0x7FFF) = unat w mod 0x8000" for w :: u32
proof -
  have "w AND 0x7FFF = take_bit 15 w" by (simp add: take_bit_eq_mask mask_eq_exp_minus_1)
  then have "unat (w AND 0x7FFF) = take_bit 15 (unat w)" by (simp only: unsigned_take_bit_eq)
  then show ?thesis by (simp only: take_bit_eq_mod) simp
qed

lemma second_edge_mod: "second_edge c \<longleftrightarrow> (unat c mod 0x8000 + 1) div 0x8000 = 1"
  and second_count: "unat (c + 1) mod 0x8000 = (unat c mod 0x8000 + 1) mod 0x8000"
proof -
  have "unat (c + 1) mod 0x8000 = (unat c + 1) mod 2 ^ 32 mod 2 ^ 15"
    by (simp add: unat_word_ariths)
  also have "\<dots> = (unat c + 1) mod 2 ^ 15" by (rule mod_mod_cancel) (simp add: le_imp_power_dvd)
  finally show s: "unat (c + 1) mod 0x8000 = (unat c mod 0x8000 + 1) mod 0x8000"
    by (simp add: mod_Suc_eq)
  have "second_edge c \<longleftrightarrow> (unat c mod 0x8000 + 1) mod 0x8000 = 0"
    using low_15 [of "c + 1"] s by (metis second_edge_def unat_eq_zero)
  then show "second_edge c \<longleftrightarrow> (unat c mod 0x8000 + 1) div 0x8000 = 1"
    by (cases "unat c mod 0x8000 = 0x7FFF") (simp_all add: div_eq_0_iff)
qed

lemma one_tick_shows:
  assumes "shows_date d (state_of nds)" "in_range d"
  shows "shows_date (if second_edge (ClockCount (clock nds)) then next_second d else d) (state_of (one_tick ext nds))"
    "state_only (on_clock (\<lambda>r. r\<lparr>ClockCount := ClockCount r + 1\<rparr>) nds) (one_tick ext nds)"
proof -
  define nds1 where "nds1 = on_clock (\<lambda>r. r\<lparr>ClockCount := ClockCount r + 1\<rparr>) nds"
  define nds2 where "nds2 = (if \<not> tst (ClockCount (clock nds1)) 0x7FFF then CountSecond ext nds1
                 else if ClockCount (clock nds1) AND 0x7FFF = 256
                 then on_state (\<lambda>s. s\<lparr>IRQFlag := IRQFlag s AND NOT 0x01\<rparr>) nds1 else nds1)"
  have t: "one_tick ext nds = ProcessIRQ ext 1 nds2" by (simp only: one_tick_def Let_def nds1_def nds2_def)
  have s1: "state_of nds1 = state_of nds" by (simp add: nds1_def state_of_clock)
  have edge: "tst (ClockCount (clock nds1)) 0x7FFF \<longleftrightarrow> \<not> second_edge (ClockCount (clock nds))"
    by (simp add: nds1_def second_edge_def tst_def)
  have irq: "shows_date d (s\<lparr>IRQFlag := f\<rparr>) = shows_date d s" for s f by (simp add: shows_date_def mode24_def)
  note count = CountSecond_shows [OF assms(1) [folded s1] assms(2), of ext]
  have d2: "shows_date (if second_edge (ClockCount (clock nds)) then next_second d else d) (state_of nds2)"
    using assms(1) count(1) by (simp add: nds2_def edge irq s1)
  have "state_only nds1 (on_state (\<lambda>s. s\<lparr>IRQFlag := IRQFlag s AND NOT 0x01\<rparr>) nds1)"
    by (rule state_only_on_state) (simp add: mode24_def)
  then have o2: "state_only nds1 nds2"
    using count(2) state_only_flags [OF flags_only_refl [of nds1]] by (simp add: nds2_def)
  show "shows_date (if second_edge (ClockCount (clock nds)) then next_second d else d) (state_of (one_tick ext nds))"
    using d2 by (simp only: t flags_only_shows [OF ProcessIRQ_flags])
  show "state_only (on_clock (\<lambda>r. r\<lparr>ClockCount := ClockCount r + 1\<rparr>) nds) (one_tick ext nds)"
    using state_only_trans [OF o2 state_only_flags [OF ProcessIRQ_flags]] by (simp add: t nds1_def)
qed

text \<open>The delay to the next tick carries the remainder of the division over.\<close>

lemma Reschedule_slots [simp]:
  "SchedList (Reschedule t nds) = SchedList nds" "SchedListMask (Reschedule t nds) = SchedListMask nds"
  by (simp_all add: Reschedule_def)

lemma ScheduleEvent_periodic:
  assumes "\<not> bit (SchedListMask nds) i" "i < 32"
  shows "Timestamp (SchedList (ScheduleEvent i True dl f p nds) i) = Timestamp (SchedList nds i) + scast dl"
    "bit (SchedListMask (ScheduleEvent i True dl f p nds)) i"
proof -
  have e: "SchedList (if b then x\<lparr>EarliestEventTimestamp := t\<rparr> else x) = SchedList x"
    "SchedListMask (if b then x\<lparr>EarliestEventTimestamp := t\<rparr> else x) = SchedListMask x" for b t and x :: "'a nds"
    by simp_all
  have b: "bit (m OR push_bit i 1) i" for m :: u32
    using assms(2) by (simp only: bit_or_iff bit_push1) simp
  show "Timestamp (SchedList (ScheduleEvent i True dl f p nds) i) = Timestamp (SchedList nds i) + scast dl"
    using assms by (simp only: ScheduleEvent_def ScheduleEventAt_def Let_def if_True if_False Reschedule_slots e) simp
  show "bit (SchedListMask (ScheduleEvent i True dl f p nds)) i"
    using assms by (simp only: ScheduleEvent_def ScheduleEventAt_def Let_def if_True if_False Reschedule_slots e)
      (simp add: b del: push_bit_of_1)
qed

lemma ScheduleTimer_next:
  assumes e: "unat (TimerError (clock nds)) < 0x8000" and free: "\<not> bit (SchedListMask nds) Event_RTC"
  defines "S \<equiv> 33513982 + unat (TimerError (clock nds))"
  shows "clock (ScheduleTimer False nds) = (clock nds)\<lparr>TimerError := of_nat (S mod 0x8000)\<rparr>"
    "Timestamp (SchedList (ScheduleTimer False nds) Event_RTC) = Timestamp (SchedList nds Event_RTC) + of_nat (S div 0x8000)"
    "bit (SchedListMask (ScheduleTimer False nds)) Event_RTC"
proof -
  define w where "w = 33513982 + TimerError (clock nds)"
  have uw: "unat w = S" using e by (simp add: w_def S_def unat_word_ariths)
  have small: "S < 2 ^ 31" using e by (simp add: S_def)
  have sw: "sint w = int S"
    using small by (simp add: sint_uint signed_take_bit_int_eq_self uint_nat uw)
  have rem: "w AND 0x7FFF = of_nat (S mod 0x8000)"
  proof -
    have "unat (w AND 0x7FFF) = S mod 0x8000" by (simp only: low_15 uw)
    then show ?thesis by (metis of_nat_unat ucast_id)
  qed
  have "sint (sar w 15) = int S div 2 ^ 15"
    by (simp add: sar_def sint_signed_drop_bit_eq sw drop_bit_eq_div)
  also have "\<dots> = int (S div 0x8000)" by (simp add: zdiv_int)
  finally have "sint (sar w 15) = int (S div 0x8000)" .
  then have dl: "scast (sar w 15) = (of_nat (S div 0x8000) :: u64)"
    by (simp only: scast_eq of_int_of_nat_eq)
  have "ScheduleTimer False nds = ScheduleEvent Event_RTC True (sar w 15) 0 0
      (on_clock (\<lambda>r. r\<lparr>TimerError := of_nat (S mod 0x8000)\<rparr>) nds)"
    by (simp add: ScheduleTimer_def Let_def rem flip: w_def)
  then show "clock (ScheduleTimer False nds) = (clock nds)\<lparr>TimerError := of_nat (S mod 0x8000)\<rparr>"
    "Timestamp (SchedList (ScheduleTimer False nds) Event_RTC) = Timestamp (SchedList nds Event_RTC) + of_nat (S div 0x8000)"
    "bit (SchedListMask (ScheduleTimer False nds)) Event_RTC"
    using free by (simp_all add: ScheduleEvent_periodic dl Event_RTC_def)
qed

section \<open>Keeping time\<close>

lemma div_carry: "0 < m \<Longrightarrow> (a + b) div m = a div m + (a mod m + b) div m" for a b m :: nat
proof -
  assume m: "0 < m"
  have "a + b = (a mod m + b) + m * (a div m)" by simp
  then have "(a + b) div m = (a mod m + b + m * (a div m)) div m" by (rule arg_cong)
  also have "\<dots> = a div m + (a mod m + b) div m" using m by (simp only: div_mult_self2)
  finally show ?thesis .
qed

text \<open>The scheduler runs the clock's event at its deadline.\<close>

definition clock_event :: "'y nds_ext \<Rightarrow> (rtc \<times> 'y) nds \<Rightarrow> (rtc \<times> 'y) nds" where
  "clock_event ext nds =
     run_slot (\<lambda>i f p. ClockTimer ext p) Event_RTC (nds\<lparr>SysTimestamp := Timestamp (SchedList nds Event_RTC)\<rparr>)"

lemma clock_event_one_tick:
  obtains nds0 where "clock_event ext nds = ScheduleTimer False (one_tick ext nds0)" "clock nds0 = clock nds"
    "SchedList nds0 = SchedList nds" "\<not> bit (SchedListMask nds0) Event_RTC"
proof -
  define M where "M = SchedListMask nds AND NOT (push_bit Event_RTC 1)"
  have M: "\<not> bit M Event_RTC" unfolding M_def by (simp only: bit_clear1) simp
  define nds0 where "nds0 = nds\<lparr>SysTimestamp := Timestamp (SchedList nds Event_RTC), SchedListMask := M\<rparr>"
  have "clock_event ext nds = ScheduleTimer False (one_tick ext nds0)"
    by (simp add: clock_event_def run_slot_def ClockTimer_one_tick nds0_def M_def Let_def)
  then show thesis using M by (intro that [of nds0]) (simp_all add: nds0_def clock_def)
qed

lemma clock_event_step:
  fixes nds :: "(rtc \<times> 'y) nds" and ext :: "'y nds_ext"
  assumes "shows_date d (state_of nds)" "in_range d" "unat (TimerError (clock nds)) < 0x8000"
  defines "S \<equiv> 33513982 + unat (TimerError (clock nds))" and "nds' \<equiv> clock_event ext nds"
  shows "shows_date (if second_edge (ClockCount (clock nds)) then next_second d else d) (state_of nds')"
    "ClockCount (clock nds') = ClockCount (clock nds) + 1" "unat (TimerError (clock nds')) = S mod 0x8000"
    "Timestamp (SchedList nds' Event_RTC) = Timestamp (SchedList nds Event_RTC) + of_nat (S div 0x8000)"
    "EventScheduled Event_RTC nds'"
proof -
  obtain nds0 where n: "nds' = ScheduleTimer False (one_tick ext nds0)" and c: "clock nds0 = clock nds"
    "SchedList nds0 = SchedList nds" "\<not> bit (SchedListMask nds0) Event_RTC"
    unfolding nds'_def by (rule clock_event_one_tick)
  note t = one_tick_shows [of d nds0 ext, unfolded state_of_clock c(1), folded state_of_clock, OF assms(1,2)]
  have tc: "TimerError (clock (one_tick ext nds0)) = TimerError (clock nds)"
    "ClockCount (clock (one_tick ext nds0)) = ClockCount (clock nds) + 1"
    "SchedList (one_tick ext nds0) = SchedList nds" "SchedListMask (one_tick ext nds0) = SchedListMask nds0"
    using t(2) c by (auto simp: state_only_def)
  have e: "unat (TimerError (clock (one_tick ext nds0))) < 0x8000" using assms(3) by (simp only: tc)
  have f: "\<not> bit (SchedListMask (one_tick ext nds0)) Event_RTC" using c(3) by (simp add: tc)
  note s = ScheduleTimer_next [OF e f, folded n, unfolded tc, folded S_def]
  show "ClockCount (clock nds') = ClockCount (clock nds) + 1" using s(1) tc(2) by simp
  show "unat (TimerError (clock nds')) = S mod 0x8000"
    using s(1) by (simp add: unat_of_nat less_le_trans [of "S mod 0x8000" 0x8000])
  show "Timestamp (SchedList nds' Event_RTC) = Timestamp (SchedList nds Event_RTC) + of_nat (S div 0x8000)"
    by (rule s(2))
  show "EventScheduled Event_RTC nds'" using s(3) by (simp add: EventScheduled_def)
  have "state_of nds' = state_of (one_tick ext nds0)" using s(1) by (simp add: state_of_clock)
  then show "shows_date (if second_edge (ClockCount (clock nds)) then next_second d else d) (state_of nds')"
    using t(1) by (simp only:)
qed

text \<open>C30. The clock keeps time without drift: however many of its events the scheduler has run, the registers show
  the date one second later for every 32768 ticks (which is the number of seconds since 2000, modulo a century),
  in either hour mode and over ends of months and years, the next tick is scheduled, and it is due at
  exactly the elapsed fraction of the 33513982 Hz system clock.\<close>

theorem rtc_keeps_time:
  fixes nds :: "(rtc \<times> 'y) nds" and ext :: "'y nds_ext" and n :: nat
  assumes "valid_date d" "shows_date d (state_of nds)" "unat (TimerError (clock nds)) < 0x8000"
  defines "c \<equiv> unat (ClockCount (clock nds)) mod 0x8000" and "e \<equiv> unat (TimerError (clock nds))"
    and "nds' \<equiv> (clock_event ext ^^ n) nds"
  defines "d' \<equiv> (next_second ^^ ((c + n) div 0x8000)) d"
  shows "shows_date d' (state_of nds') \<and> valid_date d' \<and>
      seconds d' = (seconds d + (c + n) div 0x8000) mod century \<and>
      Timestamp (SchedList nds' Event_RTC) = Timestamp (SchedList nds Event_RTC) + of_nat ((e + 33513982 * n) div 0x8000) \<and>
      (n = 0 \<or> EventScheduled Event_RTC nds')"
proof -
  have v: "valid_date ((next_second ^^ k) d) \<and> seconds ((next_second ^^ k) d) = (seconds d + k) mod century" for k
    using seconds_later [OF assms(1), of k] by blast
  have "shows_date d' (state_of nds') \<and> unat (ClockCount (clock nds')) mod 0x8000 = (c + n) mod 0x8000 \<and>
      unat (TimerError (clock nds')) = (e + 33513982 * n) mod 0x8000 \<and>
      Timestamp (SchedList nds' Event_RTC) = Timestamp (SchedList nds Event_RTC) + of_nat ((e + 33513982 * n) div 0x8000) \<and>
      (n = 0 \<or> EventScheduled Event_RTC nds')"
    unfolding d'_def nds'_def
  proof (induction n)
    case 0
    show ?case using assms(2,3) by (simp add: c_def e_def)
  next
    case (Suc n)
    define m where "m = (clock_event ext ^^ n) nds"
    define D where "D = (next_second ^^ ((c + n) div 0x8000)) d"
    define E where "E = e + 33513982 * n"
    have D: "in_range D" using v by (simp add: D_def valid_date_def)
    have IH: "shows_date D (state_of m)" "unat (ClockCount (clock m)) mod 0x8000 = (c + n) mod 0x8000"
      "unat (TimerError (clock m)) = E mod 0x8000"
      "Timestamp (SchedList m Event_RTC) = Timestamp (SchedList nds Event_RTC) + of_nat (E div 0x8000)"
      using Suc.IH by (simp_all add: m_def D_def E_def)
    have small: "unat (TimerError (clock m)) < 0x8000" by (simp add: IH)
    note step = clock_event_step [OF IH(1) D small, of ext]
    have D': "(next_second ^^ ((c + Suc n) div 0x8000)) d = (if second_edge (ClockCount (clock m)) then next_second D else D)"
    proof -
      have "(c + Suc n) div 0x8000 = (c + n) div 0x8000 + ((c + n) mod 0x8000 + 1) div 0x8000"
        using div_carry [where m = "0x8000" and a = "c + n" and b = 1] by simp
      moreover have "((c + n) mod 0x8000 + 1) div 0x8000 = (if second_edge (ClockCount (clock m)) then 1 else 0)"
        using IH(2) second_edge_mod [of "ClockCount (clock m)"] div_le_mono [of "(c + n) mod 0x8000 + 1" 32768 32768]
          mod_less_divisor [of 32768 "c + n"]
        by auto
      ultimately show ?thesis by (simp add: D_def)
    qed
    have E': "e + 33513982 * Suc n = E + 33513982" by (simp add: E_def)
    have E1: "(33513982 + E mod 0x8000) mod 0x8000 = (E + 33513982) mod 0x8000"
      by (simp only: mod_add_right_eq) (simp only: add.commute)
    have E2: "(E + 33513982) div 0x8000 = E div 0x8000 + (33513982 + E mod 0x8000) div 0x8000"
      using div_carry [where m = "0x8000" and a = E and b = 33513982] by (simp only: add.commute)
    have C: "unat (ClockCount (clock (clock_event ext m))) mod 0x8000 = (c + Suc n) mod 0x8000"
      by (simp only: step(2) second_count IH(2)) (simp add: mod_Suc_eq)
    have m': "(clock_event ext ^^ Suc n) nds = clock_event ext m" by (simp add: m_def)
    show ?case unfolding m' D' E'
      using step C by (simp add: IH E1 E2)
  qed
  then show ?thesis using v by (simp add: d'_def)
qed

definition new_clock :: rtc where
  "new_clock = \<lparr>IO = 0, Input = 0, InputBit = 0, InputPos = 0, Output = (\<lambda>i. 0), OutputBit = 0, OutputPos = 0,
     CurCmd = 0, State = rtc_initial, TimerError = 0, ClockCount = 0, RCnt = 0, HostDate = []\<rparr>"

lemma new_clock_shows: "valid_date epoch" "shows_date epoch (State new_clock)"
  by (simp_all add: new_clock_def rtc_initial_def ResetState_def shows_date_def epoch_def mode24_def hour_reg_def bcd_def
      tst_def valid_date_def in_range_def days_in_def)

definition new_console :: "(rtc \<times> unit) nds" where
  "new_console = (undefined :: (rtc \<times> unit) nds)\<lparr>Rest := (new_clock, ())\<rparr>"

definition silent :: "unit nds_ext" where
  "silent = \<lparr>Restart3DFrame = (\<lambda>y. y), CheckNDMAs = (\<lambda>cpu mode y. (y, 0)), GXFIFO_irq = (\<lambda>y. False)\<rparr>"

lemma new_console_clock: "clock new_console = new_clock" "state_of new_console = rtc_initial"
  by (simp_all add: new_console_def clock_def state_of_def new_clock_def)

theorem rtc_keeps_time_witness:
  "shows_date (next_second epoch) (state_of ((clock_event silent ^^ 32768) new_console))"
proof -
  have "shows_date epoch (state_of new_console)" "unat (TimerError (clock new_console)) < 0x8000"
    using new_clock_shows(2) by (simp_all add: new_console_clock) (simp_all add: new_clock_def)
  from rtc_keeps_time [OF new_clock_shows(1) this, where ext = silent and n = 32768]
  show ?thesis by (simp add: new_console_clock) (simp add: new_clock_def)
qed

end
