(* ===== verification/RtcInv.thy ===== *)
theory RtcInv
  imports RtcProps
begin

text \<open>
  The clock under any sequence of operations: register accesses bit by bit, ticks, resets and changes of the date from
  outside keep the registers in their ranges and the positions of the serial interface inside its buffers.  The
  year and the month can be written without the day, so the registers may show a 31 February; the next count or write of
  the day makes them a calendar date again.
\<close>

section \<open>The invariant of the clock object\<close>

definition clock_ok :: "rtc \<Rightarrow> bool" where
  "clock_ok r \<longleftrightarrow> regs_ok (State r) \<and> InputBit r < 8 \<and> OutputBit r < 8 \<and> OutputPos r \<le> 7"

lemma clock_ok_fields [simp]:
  "clock_ok (r\<lparr>IO := io\<rparr>) = clock_ok r" "clock_ok (r\<lparr>Input := b\<rparr>) = clock_ok r" "clock_ok (r\<lparr>InputPos := w\<rparr>) = clock_ok r"
  "clock_ok (r\<lparr>Output := out\<rparr>) = clock_ok r" "clock_ok (r\<lparr>CurCmd := b\<rparr>) = clock_ok r"
  "clock_ok (r\<lparr>TimerError := e\<rparr>) = clock_ok r" "clock_ok (r\<lparr>ClockCount := w\<rparr>) = clock_ok r"
  "clock_ok (r\<lparr>HostDate := h\<rparr>) = clock_ok r"
  by (simp_all add: clock_ok_def)

lemma clock_ok_state: "clock_ok r \<Longrightarrow> regs_ok s \<Longrightarrow> clock_ok (r\<lparr>State := s\<rparr>)"
  by (simp add: clock_ok_def)

lemma clock_ok_regs: "clock_ok (clock nds) \<Longrightarrow> regs_ok (state_of nds)"
  by (simp add: clock_ok_def state_of_clock)

lemma ok_on_state: "clock_ok (clock nds) \<Longrightarrow> (\<And>s. regs_ok s \<Longrightarrow> regs_ok (f s)) \<Longrightarrow> clock_ok (clock (on_state f nds))"
  by (simp add: clock_ok_state clock_ok_regs)

lemma ok_flags: "flags_only nds nds' \<Longrightarrow> clock_ok (clock nds) \<Longrightarrow> clock_ok (clock nds')"
  using flags_only_regs [of nds nds'] by (auto simp: flags_only_def clock_ok_def state_of_clock)

lemmas ok_ProcessIRQ = ok_flags [OF ProcessIRQ_flags]

section \<open>The operations keep it\<close>

lemma write_status1_ok: "regs_ok s \<Longrightarrow> regs_ok (write_status1 v s)"
proof -
  assume "regs_ok s"
  then obtain d where d: "in_range d" "shows_date d s" by (auto simp: regs_ok_shows)
  have "in_range (if tst v 1 then epoch else d)" using d(1) new_clock_shows(1) by (simp add: valid_date_def)
  then show ?thesis using write_status1_shows(1) [OF d(2,1), of v] by (auto simp: regs_ok_shows)
qed

lemma write_DS_ok: "clock_ok (clock nds) \<Longrightarrow> clock_ok (clock (write_DS ext v nds))"
proof -
  assume ok: "clock_ok (clock nds)"
  have w: "clock_ok (clock (on_state (WriteDateTime k v) nds))" for k by (rule ok_on_state [OF ok WriteDateTime_ok])
  have s2: "clock_ok (clock (on_state (\<lambda>s. s\<lparr>StatusReg2 := v\<rparr>) nds))" by (rule ok_on_state [OF ok]) simp
  have a: "regs_ok (write_alarm1 p v s) = regs_ok s" for p s by (simp add: write_alarm1_def)
  show ?thesis
    unfolding write_DS_def Let_def
    using ok w ok_on_state [OF ok, of "write_status1 v"] write_status1_ok ok_ProcessIRQ [OF s2] a
    by (simp add: SaveDateTime_def clock_ok_state clock_ok_regs)
qed

lemma CmdWrite_ok: "clock_ok (clock nds) \<Longrightarrow> clock_ok (clock (CmdWrite ext v nds))"
proof -
  assume ok: "clock_ok (clock nds)"
  have "regs_ok (write_DSi p c v s) = regs_ok s" for p c s by (simp add: write_DSi_def)
  then show ?thesis using ok by (simp add: CmdWrite_def Let_def write_DS_ok clock_ok_state clock_ok_regs)
qed

lemma output_ok [simp]: "clock_ok (output_bytes f n r) = clock_ok r" "State (output_bytes f n r) = State r"
  by (simp_all add: output_bytes_def)

lemma CmdRead_ok: "clock_ok r \<Longrightarrow> clock_ok (CmdRead dsi r)"
proof -
  assume ok: "clock_ok r"
  have m: "tst (w AND 0x0F) 2 = tst w 2" for w :: u8
    by (simp add: tst_def and.assoc)
  have "mode24 (State r\<lparr>StatusReg1 := StatusReg1 (State r) AND 0x0F\<rparr>) = mode24 (State r)"
    by (simp add: mode24_def m)
  then have "regs_ok (State r\<lparr>StatusReg1 := StatusReg1 (State r) AND 0x0F\<rparr>)"
    using ok by (simp add: clock_ok_def regs_ok_def)
  then have "clock_ok (read_DS r)" "clock_ok (read_DSi r)"
    using ok by (simp_all add: read_DS_def read_DSi_def output_byte_def Let_def clock_ok_state)
  then show ?thesis using ok by (simp add: CmdRead_def)
qed

lemma ByteIn_ok: "clock_ok (clock nds) \<Longrightarrow> clock_ok (clock (ByteIn ext v nds))"
  by (simp add: ByteIn_def Let_def CmdWrite_ok CmdRead_ok)

lemma bit_in_ok:
  assumes "clock_ok (clock nds)"
  shows "clock_ok (clock (bit_in ext b nds))"
proof -
  define nds1 where "nds1 = on_clock (\<lambda>r. r\<lparr>Input := if b then Input r OR shl 1 (InputBit r) else Input r,
                               InputBit := InputBit r + 1\<rparr>) nds"
  define nds2 where "nds2 = on_clock (\<lambda>r. r\<lparr>InputBit := 0\<rparr>) nds1"
  have ok2: "clock_ok (clock nds2)" using assms by (simp add: nds2_def nds1_def clock_ok_def)
  have "clock_ok (clock nds1)" if "\<not> InputBit (clock nds1) \<ge> 8"
    using assms that by (simp add: nds1_def clock_ok_def not_le)
  then show ?thesis
    using ByteIn_ok [OF ok2, of ext "Input (clock nds2)"]
    by (simp add: bit_in_def Let_def flip: nds1_def nds2_def)
qed

lemma bit_out_ok: "clock_ok r \<Longrightarrow> clock_ok (bit_out r)"
proof -
  assume ok: "clock_ok r"
  have "OutputPos r + 1 \<le> 7" if "OutputPos r < 7" using that by (simp add: inc_le)
  then show ?thesis using ok by (auto simp: bit_out_def Let_def clock_ok_def not_le)
qed

lemma start_ok: "regs_ok (State r) \<Longrightarrow> clock_ok (start_transfer r)"
  by (simp add: start_transfer_def clock_ok_def)

lemma rtc_Write_ok: "clock_ok (clock nds) \<Longrightarrow> clock_ok (clock (rtc_Write ext v byte nds))"
  by (simp add: rtc_Write_def latch_IO_def Let_def bit_in_ok bit_out_ok start_ok clock_ok_regs [unfolded state_of_clock])

lemma ScheduleTimer_ok: "clock_ok (clock (ScheduleTimer first nds)) = clock_ok (clock nds)"
  by (simp add: ScheduleTimer_def Let_def)

lemma ClockTimer_ok: "clock_ok (clock nds) \<Longrightarrow> clock_ok (clock (ClockTimer ext p nds))"
proof -
  assume ok: "clock_ok (clock nds)"
  then obtain d where d: "in_range d" "shows_date d (state_of nds)" using clock_ok_regs by (auto simp: regs_ok_shows)
  note t = one_tick_shows [OF d(2,1), of ext]
  have "regs_ok (state_of (one_tick ext nds))"
    using t(1) d(1) in_range_next_second [OF d(1)] by (auto simp: regs_ok_shows split: if_splits)
  then have "clock_ok (clock (one_tick ext nds))" using t(2) ok by (auto simp: state_only_def clock_ok_def state_of_clock)
  then show ?thesis by (simp add: ClockTimer_one_tick ScheduleTimer_ok)
qed

section \<open>Any operations\<close>

datatype rtc_op =
    Tick
  | BusWrite u16 bool
  | PowerOn
  | SetClock int int int int int int
  | Restore rtc_state

fun rtc_step :: "'y nds_ext \<Rightarrow> rtc_op \<Rightarrow> (rtc \<times> 'y) nds \<Rightarrow> (rtc \<times> 'y) nds" where
  "rtc_step ext Tick nds = clock_event ext nds"
| "rtc_step ext (BusWrite val byte) nds = rtc_Write ext val byte nds"
| "rtc_step ext PowerOn nds = rtc_Reset nds"
| "rtc_step ext (SetClock y m d h mi se) nds = on_state (SetDateTime y m d h mi se) nds"
| "rtc_step ext (Restore s) nds = on_state (\<lambda>_. SetState s) nds"

lemma given_in_range: "in_range (given_date y m d h mi se)"
  using given_date_valid by (simp add: valid_date_def)

lemma rtc_step_ok: "clock_ok (clock nds) \<Longrightarrow> clock_ok (clock (rtc_step ext op nds))"
proof (induction op)
  case Tick
  obtain nds0 where "clock_event ext nds = ScheduleTimer False (one_tick ext nds0)" "clock nds0 = clock nds"
    by (rule clock_event_one_tick)
  then show ?case using ClockTimer_ok [of nds0 ext 0] Tick by (simp add: ClockTimer_one_tick)
next
  case PowerOn
  then show ?case by (simp add: rtc_Reset_def ScheduleTimer_ok start_ok clock_ok_regs [unfolded state_of_clock])
next
  case (SetClock y m d h mi se)
  have "regs_ok (SetDateTime y m d h mi se s)" for s
    using SetDateTime_shows(1) [of y m d h mi se s] given_in_range unfolding regs_ok_shows by blast
  then show ?case using SetClock by (simp add: clock_ok_state)
next
  case (Restore s)
  then show ?case by (simp add: clock_ok_state SetState_ok)
qed (simp add: rtc_Write_ok)

text \<open>Counting and writing the day give a date of the calendar.\<close>

lemma valid_fit_month:
  assumes "in_range (d\<lparr>day := 1\<rparr>)" "1 \<le> day d" "day d \<le> 32"
  shows "valid_date (fit_month d)"
proof -
  have one: "1 \<le> days_in y m" "days_in y m \<le> 31" for y m by (simp_all add: days_in_def)
  show ?thesis
  proof (cases "day d > days_in (year d) (month d)")
    case True
    have "in_range (next_month (d\<lparr>day := 1\<rparr>))" "day (next_month (d\<lparr>day := 1\<rparr>)) = 1"
      using assms(1) by (auto simp: next_month_def in_range_def)
    then show ?thesis using True one(1) by (simp only: valid_date_def fit_month_def if_True)
  next
    case False
    then have "in_range d" using assms one(2) [of "year d" "month d"] by (simp add: in_range_def)
    then show ?thesis using False by (simp add: valid_date_def fit_month_def)
  qed
qed

lemma valid_next_day: "in_range d \<Longrightarrow> valid_date (next_day d)"
  unfolding next_day_def by (rule valid_fit_month) (simp_all add: in_range_def)

lemma write_day_valid:
  assumes "shows_date d s" "in_range d"
  shows "\<exists>d'. valid_date d' \<and> shows_date d' (WriteDateTime 3 v s)"
proof -
  obtain k where k: "1 \<le> k" "k \<le> 31" "BCDSanitize (v AND 0x3F) 1 0x31 = bcd k"
    using sanitize_ok [of 1 31 "v AND 0x3F"] by (auto simp: bcd_bounds)
  have "shows_date (d\<lparr>day := k\<rparr>) (set_date 2 (bcd k) s)" using assms(1) by (simp add: shows_date_def)
  moreover have "in_range (d\<lparr>day := k, day := 1\<rparr>)" using assms(2) by (simp add: in_range_def)
  moreover have "WriteDateTime 3 v s = CheckEndOfMonth (set_date 2 (bcd k) s)" using k(3) by (simp add: WriteDateTime_def)
  ultimately show ?thesis
    using fit_month_shows [of "d\<lparr>day := k\<rparr>"] valid_fit_month [of "d\<lparr>day := k\<rparr>"] k(1,2) by auto
qed

text \<open>C31. From power-on, whatever the program writes to the clock's serial port bit by bit, whatever is restored into it
  and however long it runs, every date register holds the BCD digits of a number in its range, the hour in the
  mode that is set, and the bit and byte positions of a transfer stay inside the byte and the eight-byte
  output buffer.  The day may be too large for a month or year written after it, but only until it is counted or
  written next: from every such state \<open>CountDay\<close> gives the date \<open>next_day\<close>, of the calendar,
  and a write of the day register gives a calendar date.\<close>

theorem rtc_registers_valid:
  fixes nds :: "(rtc \<times> 'y) nds" and ext :: "'y nds_ext" and ops :: "rtc_op list"
  assumes "regs_ok (state_of nds)"
  defines "nds' \<equiv> fold (rtc_step ext) ops (rtc_Reset nds)"
  shows "(\<exists>d. in_range d \<and> shows_date d (state_of nds') \<and>
      valid_date (next_day d) \<and> shows_date (next_day d) (CountDay (state_of nds'))) \<and>
    (\<forall>v. \<exists>d. valid_date d \<and> shows_date d (WriteDateTime 3 v (state_of nds'))) \<and>
    InputBit (clock nds') < 8 \<and> OutputBit (clock nds') < 8 \<and> OutputPos (clock nds') \<le> 7"
proof -
  have "clock_ok (clock nds')" if "clock_ok (clock nds0)" "nds' = fold (rtc_step ext) ops nds0" for nds0
    using that
  proof (induction ops arbitrary: nds0)
    case (Cons op ops)
    then show ?case using rtc_step_ok [of nds0 ext op] by simp
  qed simp
  moreover have "clock_ok (clock (rtc_Reset nds))"
    using assms(1) by (simp add: rtc_Reset_def ScheduleTimer_ok start_ok state_of_clock)
  ultimately have "clock_ok (clock nds')" by (simp add: nds'_def)
  then obtain d where d: "in_range d" "shows_date d (state_of nds')"
    and pos: "InputBit (clock nds') < 8 \<and> OutputBit (clock nds') < 8 \<and> OutputPos (clock nds') \<le> 7"
    by (auto simp: clock_ok_def regs_ok_shows state_of_clock)
  show ?thesis
    using d pos valid_next_day [OF d(1)] CountDay_shows [OF d(2,1)] write_day_valid [OF d(2,1)] by blast
qed

theorem rtc_registers_valid_witness:
  "\<exists>d. in_range d \<and> shows_date d (state_of (fold (rtc_step silent)
     [BusWrite 0x12 False, BusWrite 0x16 False, BusWrite 0x15 True, BusWrite 0x17 True, Tick] (rtc_Reset new_console)))"
proof -
  have "regs_ok (state_of new_console)"
    using new_clock_shows by (auto simp: regs_ok_shows new_console_clock valid_date_def new_clock_def)
  from rtc_registers_valid [OF this, where ext = silent] show ?thesis by blast
qed

end
