(* ===== verification/RtcSerial.thy ===== *)
theory RtcSerial
  imports RtcProps
begin

text \<open>
  The serial interface driven as a program drives it: a date written bit by bit is the date the registers show, and is
  read back bit by bit.
\<close>

section \<open>The serial protocol\<close>

text \<open>The transfers a program makes: select the chip, send a byte bit by bit, lowest first, and receive one.\<close>

definition rtc_select :: "'y nds_ext \<Rightarrow> (rtc \<times> 'y) nds \<Rightarrow> (rtc \<times> 'y) nds" where
  "rtc_select ext nds = rtc_Write ext 0x16 False (rtc_Write ext 0x12 False nds)"

definition send_bit :: "'y nds_ext \<Rightarrow> bool \<Rightarrow> (rtc \<times> 'y) nds \<Rightarrow> (rtc \<times> 'y) nds" where
  "send_bit ext b nds =
     (let d = (if b then 1 else 0) in rtc_Write ext (0x16 OR d) False (rtc_Write ext (0x14 OR d) False nds))"

definition send_byte :: "'y nds_ext \<Rightarrow> u8 \<Rightarrow> (rtc \<times> 'y) nds \<Rightarrow> (rtc \<times> 'y) nds" where
  "send_byte ext v nds = fold (\<lambda>i. send_bit ext (bit v i)) [0..<8] nds"

definition receive_bit :: "'y nds_ext \<Rightarrow> (rtc \<times> 'y) nds \<Rightarrow> bool \<times> (rtc \<times> 'y) nds" where
  "receive_bit ext nds =
     (let nds = rtc_Write ext 0x04 False (rtc_Write ext 0x06 False nds) in (bit (rtc_Read (clock nds)) 0, nds))"

fun receive_bits :: "'y nds_ext \<Rightarrow> nat \<Rightarrow> (rtc \<times> 'y) nds \<Rightarrow> bool list \<times> (rtc \<times> 'y) nds" where
  "receive_bits ext 0 nds = ([], nds)"
| "receive_bits ext (Suc n) nds =
     (let (b, nds) = receive_bit ext nds; (bs, nds) = receive_bits ext n nds in (b # bs, nds))"

fun receive_bytes :: "'y nds_ext \<Rightarrow> nat \<Rightarrow> (rtc \<times> 'y) nds \<Rightarrow> u8 list \<times> (rtc \<times> 'y) nds" where
  "receive_bytes ext 0 nds = ([], nds)"
| "receive_bytes ext (Suc n) nds =
     (let (bits, nds) = receive_bits ext 8 nds; (vs, nds) = receive_bytes ext n nds
      in (horner_sum of_bool 2 bits # vs, nds))"

section \<open>Bits\<close>

lemma tst_bits: "tst x 1 \<longleftrightarrow> bit x 0" "tst x 2 \<longleftrightarrow> bit x 1" "tst x 4 \<longleftrightarrow> bit x 2" "tst x 0x10 \<longleftrightarrow> bit x 4" for x :: u16
  using tst_pow [of x 0] tst_pow [of x 1] tst_pow [of x 2] tst_pow [of x 4] by simp_all

text \<open>The port during a transfer: the chip is selected and the clock line is high.\<close>

definition idle :: "rtc \<Rightarrow> bool" where
  "idle r \<longleftrightarrow> bit (IO r) 1 \<and> bit (IO r) 2"

lemma select_clock:
  "clock (rtc_select ext nds) = (start_transfer (clock nds))\<lparr>IO := 0x16\<rparr>"
  "ConsoleType (rtc_select ext nds) = ConsoleType nds"
  by (simp_all add: rtc_select_def rtc_Write_def Let_def latch_IO_def tst_bits bit_numeral_rec start_transfer_def)

definition on_line :: "u16 \<Rightarrow> bool \<Rightarrow> (rtc \<times> 'y) nds \<Rightarrow> (rtc \<times> 'y) nds" where
  "on_line io b = on_clock (\<lambda>r. r\<lparr>IO := io OR (if b then 1 else 0)\<rparr>)"

lemma on_line_simps [simp]:
  "clock (on_line io b nds) = (clock nds)\<lparr>IO := io OR (if b then 1 else 0)\<rparr>"
  "ConsoleType (on_line io b nds) = ConsoleType nds"
  by (simp_all add: on_line_def)

lemma latch_out: "bit val 4 \<Longrightarrow> latch_IO val = (\<lambda>r. r\<lparr>IO := val\<rparr>)"
  by (rule ext) (simp add: latch_IO_def tst_bits)

lemma send_bit_eq:
  "idle (clock nds) \<Longrightarrow> send_bit ext b nds = on_line 0x16 b (bit_in ext b (on_line 0x14 b nds))"
  unfolding send_bit_def on_line_def
  by (cases b) (simp_all add: rtc_Write_def Let_def latch_out tst_bits bit_numeral_rec idle_def bit_simps)

lemma idle_line [simp]: "idle (r\<lparr>IO := 0x16 OR (if b then 1 else 0)\<rparr>)"
  by (simp add: idle_def bit_or_iff bit_numeral_rec)

text \<open>The first seven bits are collected.\<close>

lemma take_bit_next: "take_bit n v OR (if bit v n then push_bit n 1 else 0) = take_bit (Suc n) v" for v :: u8
  by (rule bit_word_eqI) (auto simp: bit_simps less_Suc_eq)

lemma send_bits:
  assumes "n \<le> 7" "idle (clock nds)" "InputBit (clock nds) = 0" "Input (clock nds) = 0"
  shows "\<exists>io. clock (fold (\<lambda>i. send_bit ext (bit v i)) [0..<n] nds) =
      (clock nds)\<lparr>Input := take_bit n v, InputBit := of_nat n, IO := io\<rparr> \<and>
    idle (clock (fold (\<lambda>i. send_bit ext (bit v i)) [0..<n] nds)) \<and>
    ConsoleType (fold (\<lambda>i. send_bit ext (bit v i)) [0..<n] nds) = ConsoleType nds"
  using assms(1)
proof (induction n)
  case 0
  have "clock nds = (clock nds)\<lparr>Input := take_bit 0 v, InputBit := of_nat 0, IO := IO (clock nds)\<rparr>"
    using assms by (simp add: rtc.equality)
  then show ?case using assms(2) by (intro exI [of _ "IO (clock nds)"]) simp
next
  case (Suc n)
  define m where "m = fold (\<lambda>i. send_bit ext (bit v i)) [0..<n] nds"
  obtain io where m: "clock m = (clock nds)\<lparr>Input := take_bit n v, InputBit := of_nat n, IO := io\<rparr>" "idle (clock m)"
    "ConsoleType m = ConsoleType nds"
    using Suc by (auto simp: m_def)
  have n: "\<not> (8 :: u32) \<le> of_nat n + 1" "unat (of_nat n :: u32) = n"
    using Suc.prems by (simp_all add: word_le_nat_alt unat_word_ariths unat_of_nat)
  have bits: "bit v n \<Longrightarrow> take_bit n v OR shl 1 (of_nat n) = take_bit (Suc n) v"
    "\<not> bit v n \<Longrightarrow> take_bit (Suc n) v = take_bit n v"
    using take_bit_next [of n v] by (simp_all add: shl_def n)
  have "clock (send_bit ext (bit v n) m) = (clock nds)\<lparr>Input := take_bit (Suc n) v, InputBit := of_nat (Suc n),
      IO := 0x16 OR (if bit v n then 1 else 0)\<rparr>"
    using n bits by (simp add: send_bit_eq [OF m(2)] bit_in_def Let_def m(1) add.commute)
  moreover have "ConsoleType (send_bit ext (bit v n) m) = ConsoleType nds"
    using n m by (simp add: send_bit_eq bit_in_def Let_def)
  moreover have "fold (\<lambda>i. send_bit ext (bit v i)) [0..<Suc n] nds = send_bit ext (bit v n) m" by (simp add: m_def)
  ultimately show ?case
    by (intro exI [of _ "0x16 OR (if bit v n then 1 else 0)"]) (simp add: idle_def bit_or_iff bit_numeral_rec)
qed

text \<open>The eighth bit hands the byte over.\<close>

lemma send_byte_clock:
  assumes "idle (clock nds)" "InputBit (clock nds) = 0" "Input (clock nds) = 0"
  obtains m io where "clock m = (clock nds)\<lparr>Input := v, IO := io\<rparr>" "ConsoleType m = ConsoleType nds"
    "clock (send_byte ext v nds) = (clock (ByteIn ext v m))\<lparr>Input := 0, InputPos := InputPos (clock (ByteIn ext v m)) + 1,
       IO := 0x16 OR (if bit v 7 then 1 else 0)\<rparr>"
    "ConsoleType (send_byte ext v nds) = ConsoleType (ByteIn ext v m)"
proof -
  define m7 where "m7 = fold (\<lambda>i. send_bit ext (bit v i)) [0..<7] nds"
  obtain io where m7: "clock m7 = (clock nds)\<lparr>Input := take_bit 7 v, InputBit := 7, IO := io\<rparr>" "idle (clock m7)"
    "ConsoleType m7 = ConsoleType nds"
    using send_bits [OF _ assms, of 7 ext v] by (auto simp: m7_def)
  define m where "m = on_clock (\<lambda>r. r\<lparr>InputBit := 0\<rparr>) (on_clock (\<lambda>r. r\<lparr>Input := if bit v 7 then Input r OR shl 1 (InputBit r) else Input r,
      InputBit := InputBit r + 1\<rparr>) (on_line 0x14 (bit v 7) m7))"
  have v: "(if bit v 7 then take_bit 7 v OR shl 1 7 else take_bit 7 v) = v"
    using take_bit_next [of 7 v] by (cases "bit v 7") (simp_all add: shl_def take_bit_word_eq_self)
  have "clock m = (clock nds)\<lparr>Input := v, IO := 0x14 OR (if bit v 7 then 1 else 0)\<rparr>"
    using v by (cases "bit v 7"; intro rtc.equality) (simp_all add: m_def m7(1) assms(2))
  moreover have "ConsoleType m = ConsoleType nds" by (simp add: m_def m7(3))
  ultimately have m: "clock m = (clock nds)\<lparr>Input := v, IO := 0x14 OR (if bit v 7 then 1 else 0)\<rparr>" "ConsoleType m = ConsoleType nds" .
  have "send_byte ext v nds = send_bit ext (bit v 7) m7"
    by (simp add: send_byte_def m7_def upt_rec numeral_eq_Suc)
  also have "\<dots> = on_line 0x16 (bit v 7) (bit_in ext (bit v 7) (on_line 0x14 (bit v 7) m7))" by (rule send_bit_eq [OF m7(2)])
  also have "bit_in ext (bit v 7) (on_line 0x14 (bit v 7) m7) =
      on_clock (\<lambda>r. r\<lparr>Input := 0, InputPos := InputPos r + 1\<rparr>) (ByteIn ext (Input (clock m)) m)"
    by (simp add: bit_in_def Let_def m7(1) m_def)
  finally have "send_byte ext v nds = on_line 0x16 (bit v 7)
      (on_clock (\<lambda>r. r\<lparr>Input := 0, InputPos := InputPos r + 1\<rparr>) (ByteIn ext v m))" by (simp add: m(1))
  then show thesis using m by (intro that [of m]) simp_all
qed

section \<open>Receiving\<close>

lemma latch_in: "\<not> bit val 4 \<Longrightarrow> latch_IO val = (\<lambda>r. r\<lparr>IO := (IO r AND 1) OR (val AND 0xFFFE)\<rparr>)"
  by (rule ext) (simp add: latch_IO_def tst_bits)

lemma receive_bit_clock:
  assumes "bit (IO (clock nds)) 2" "OutputBit (clock nds) = of_nat k" "k < 8"
  defines "r \<equiv> clock nds"
  shows "fst (receive_bit ext nds) = bit (Output r (unat (OutputPos r))) k"
    "\<exists>io. clock (snd (receive_bit ext nds)) = r\<lparr>OutputBit := if k = 7 then 0 else of_nat (k + 1),
       OutputPos := if k = 7 \<and> OutputPos r < 7 then OutputPos r + 1 else OutputPos r, IO := io\<rparr> \<and> bit io 2"
proof -
  define io where "io = (IO r AND 1) OR (6 :: u16)"
  define nds1 where "nds1 = on_clock (\<lambda>r. r\<lparr>IO := io\<rparr>) nds"
  have 1: "rtc_Write ext 6 False nds = nds1"
    using assms(1) by (simp add: rtc_Write_def Let_def latch_in tst_bits bit_numeral_rec nds1_def io_def r_def on_clock_def clock_def)
  have io: "bit io 2" "bit io 1" by (simp_all add: io_def bit_or_iff bit_numeral_rec)
  have "rtc_Write ext 4 False nds1 = on_clock (latch_IO 4) (on_clock bit_out nds1)"
    using io by (simp add: rtc_Write_def Let_def tst_bits bit_numeral_rec nds1_def bit_xor_iff)
  then have c: "clock (snd (receive_bit ext nds)) = latch_IO 4 (bit_out (r\<lparr>IO := io\<rparr>))"
    "fst (receive_bit ext nds) = bit (IO (latch_IO 4 (bit_out (r\<lparr>IO := io\<rparr>)))) 0"
    by (simp_all add: receive_bit_def 1 Let_def rtc_Read_def) (simp_all add: nds1_def r_def)
  have k: "OutputBit r = of_nat k" "unat (of_nat k :: u32) = k" "(8 :: u32) \<le> of_nat k + 1 \<longleftrightarrow> k = 7"
    using assms(2,3) by (auto simp: r_def word_le_nat_alt unat_word_ariths unat_of_nat)
  have t: "tst (v :: u8) (shl 1 (of_nat k)) \<longleftrightarrow> bit v k" for v
    using tst_bit [of v k] by (simp add: shl_def k)
  show "fst (receive_bit ext nds) = bit (Output r (unat (OutputPos r))) k"
    by (simp add: c latch_in bit_numeral_rec bit_out_def Let_def k t bit_or_iff bit_and_iff)
  show "\<exists>io. clock (snd (receive_bit ext nds)) = r\<lparr>OutputBit := if k = 7 then 0 else of_nat (k + 1),
       OutputPos := if k = 7 \<and> OutputPos r < 7 then OutputPos r + 1 else OutputPos r, IO := io\<rparr> \<and> bit io 2"
    by (intro exI [of _ "IO (latch_IO 4 (bit_out (r\<lparr>IO := io\<rparr>)))"] conjI)
      (simp_all add: c latch_in bit_numeral_rec bit_out_def Let_def k bit_or_iff bit_and_iff)
qed

lemma receive_bits_clock:
  assumes "bit (IO (clock nds)) 2" "OutputBit (clock nds) = of_nat k" "k + Suc n \<le> 8"
  shows "fst (receive_bits ext (Suc n) nds) = map (bit (Output (clock nds) (unat (OutputPos (clock nds))))) [k..<k + Suc n] \<and>
    (\<exists>io. clock (snd (receive_bits ext (Suc n) nds)) = (clock nds)\<lparr>OutputBit := if k + Suc n = 8 then 0 else of_nat (k + Suc n),
       OutputPos := if k + Suc n = 8 \<and> OutputPos (clock nds) < 7 then OutputPos (clock nds) + 1 else OutputPos (clock nds),
       IO := io\<rparr> \<and> bit io 2)"
  using assms
proof (induction n arbitrary: k nds)
  case 0
  have k: "k < 8" using 0 by simp
  note b = receive_bit_clock [OF 0(1,2) k, of ext]
  have "receive_bits ext (Suc 0) nds = ([fst (receive_bit ext nds)], snd (receive_bit ext nds))" by (simp add: split_beta Let_def)
  then show ?case using b by (auto simp: k)
next
  case (Suc n)
  have k: "k < 8" "k \<noteq> 7" using Suc.prems by simp_all
  define m where "m = snd (receive_bit ext nds)"
  obtain io where m: "clock m = (clock nds)\<lparr>OutputBit := of_nat (k + 1), OutputPos := OutputPos (clock nds), IO := io\<rparr>" "bit io 2"
    using receive_bit_clock(2) [OF Suc.prems(1,2) k(1), of ext] k(2) by (auto simp: m_def)
  have b: "fst (receive_bit ext nds) = bit (Output (clock nds) (unat (OutputPos (clock nds)))) k"
    by (rule receive_bit_clock(1) [OF Suc.prems(1,2) k(1)])
  have "bit (IO (clock m)) 2" "OutputBit (clock m) = of_nat (k + 1)" "(k + 1) + Suc n \<le> 8" using m Suc.prems by simp_all
  note IH = Suc.IH [OF this]
  have f: "Output (clock m) = Output (clock nds)" "OutputPos (clock m) = OutputPos (clock nds)" by (simp_all add: m(1))
  have eq: "receive_bits ext (Suc (Suc n)) nds =
      (fst (receive_bit ext nds) # fst (receive_bits ext (Suc n) m), snd (receive_bits ext (Suc n) m))"
    by (simp only: receive_bits.simps(2) [of ext "Suc n" nds] Let_def split_beta m_def)
  have l: "[k..<k + Suc (Suc n)] = k # [k + 1..<k + 1 + Suc n]" by (simp add: upt_conv_Cons)
  have s: "k + 1 + Suc n = k + Suc (Suc n)" by simp
  show ?case
  proof
    show "fst (receive_bits ext (Suc (Suc n)) nds) =
        map (bit (Output (clock nds) (unat (OutputPos (clock nds))))) [k..<k + Suc (Suc n)]"
      using conjunct1 [OF IH] unfolding eq l by (simp only: fst_conv b f list.map)
    obtain io' where io': "clock (snd (receive_bits ext (Suc n) m)) = (clock m)\<lparr>
        OutputBit := if k + Suc (Suc n) = 8 then 0 else of_nat (k + Suc (Suc n)),
        OutputPos := if k + Suc (Suc n) = 8 \<and> OutputPos (clock m) < 7 then OutputPos (clock m) + 1 else OutputPos (clock m),
        IO := io'\<rparr>" "bit io' 2"
      using IH unfolding s by blast
    show "\<exists>io. clock (snd (receive_bits ext (Suc (Suc n)) nds)) = (clock nds)\<lparr>
        OutputBit := if k + Suc (Suc n) = 8 then 0 else of_nat (k + Suc (Suc n)),
        OutputPos := if k + Suc (Suc n) = 8 \<and> OutputPos (clock nds) < 7 then OutputPos (clock nds) + 1 else OutputPos (clock nds),
        IO := io\<rparr> \<and> bit io 2"
      unfolding eq snd_conv io'(1) by (intro exI [of _ io']) (simp add: m(1) io'(2))
  qed
qed

lemma receive_bytes_clock:
  assumes "bit (IO (clock nds)) 2" "OutputBit (clock nds) = 0" "OutputPos (clock nds) = of_nat p" "p + n \<le> 7"
  shows "fst (receive_bytes ext n nds) = map (Output (clock nds)) [p..<p + n]"
  using assms
proof (induction n arbitrary: p nds)
  case (Suc n)
  define m where "m = snd (receive_bits ext 8 nds)"
  have p: "p < 7" "unat (of_nat p :: u32) = p" using Suc.prems by (simp_all add: unat_of_nat)
  have lt: "(of_nat p :: u32) < 7" using p by (simp add: word_less_nat_alt)
  have bits: "fst (receive_bits ext 8 nds) = map (bit (Output (clock nds) p)) [0..<8]"
    "\<exists>io. clock m = (clock nds)\<lparr>OutputBit := 0, OutputPos := of_nat (Suc p), IO := io\<rparr> \<and> bit io 2"
    using receive_bits_clock [of nds 0 7 ext] Suc.prems(1-3) p lt by (simp_all add: m_def numeral_eq_Suc add.commute)
  then obtain io where m: "clock m = (clock nds)\<lparr>OutputBit := 0, OutputPos := of_nat (Suc p), IO := io\<rparr>" "bit io 2" by blast
  have byte: "horner_sum of_bool 2 (map (bit (Output (clock nds) p)) [0..<8]) = Output (clock nds) p"
    by (simp only: horner_sum_bit_eq_take_bit) (simp add: take_bit_word_eq_self)
  have "fst (receive_bytes ext n m) = map (Output (clock m)) [Suc p..<Suc p + n]"
    using m Suc.prems by (intro Suc.IH) simp_all
  moreover have "fst (receive_bytes ext (Suc n) nds) =
      horner_sum of_bool 2 (fst (receive_bits ext 8 nds)) # fst (receive_bytes ext n m)"
    by (simp only: receive_bytes.simps(2) Let_def split_beta m_def fst_conv)
  moreover have "[p..<p + Suc n] = p # [Suc p..<Suc p + n]" by (simp add: upt_conv_Cons)
  moreover have "Output (clock m) = Output (clock nds)" by (simp add: m(1))
  ultimately show ?case by (simp only: bits(1) byte list.map)
qed simp

section \<open>A date over the wire\<close>

definition date_bytes :: "bool \<Rightarrow> date \<Rightarrow> u8 list" where
  "date_bytes m24 d =
     [bcd (year d), bcd (month d), bcd (day d), bcd (weekday d), hour_reg m24 (hour d), bcd (minute d), bcd (second d)]"

lemma shows_date_bytes: "shows_date d s \<longleftrightarrow> map (DateTime s) [0..<7] = date_bytes (mode24 s) d"
  by (simp add: shows_date_def date_bytes_def upt_rec numeral_eq_Suc)

lemma write_hour_valid:
  assumes "h < 24"
  shows "write_hour (hour_reg (mode24 s) h) s = set_date 4 (hour_reg (mode24 s) h) s"
proof -
  note p = hour_tables [OF assms, of "mode24 s"]
  have m: "h mod 12 \<le> 11" by simp
  show ?thesis
  proof (cases "mode24 s")
    case True
    have "BCDSanitize (bcd h) 0 0x23 = bcd h" using BCDSanitize_valid [of 0 h 23] assms by (simp add: bcd_bounds)
    moreover have "bcd h \<ge> 0x12 \<longleftrightarrow> h \<ge> 12" using bcd_le [of 12 h] assms by (simp add: bcd_bounds)
    ultimately show ?thesis using p True by (simp add: write_hour_def Let_def hour_reg_def)
  next
    case False
    have "BCDSanitize (bcd (h mod 12)) 0 0x11 = bcd (h mod 12)"
      using BCDSanitize_valid [of 0 "h mod 12" 11] m by (simp add: bcd_bounds)
    then show ?thesis using p False by (simp add: write_hour_def Let_def hour_reg_def)
  qed
qed

lemma WriteDateTime_valid:
  assumes "valid_date d" "i < 7" "\<And>j. j < i \<Longrightarrow> DateTime s j = date_bytes (mode24 s) d ! j"
  shows "WriteDateTime (i + 1) (date_bytes (mode24 s) d ! i) s = set_date i (date_bytes (mode24 s) d ! i) s"
proof -
  have r: "year d < 100" "1 \<le> month d" "month d \<le> 12" "1 \<le> day d" "day d \<le> 31" "weekday d < 7" "hour d < 24"
    "minute d < 60" "second d < 60" "day d \<le> days_in (year d) (month d)"
    using assms(1) by (auto simp: valid_date_def in_range_def)
  note [simp] = bcd_bounds date_bytes_def WriteDateTime_def
  from assms(2) consider "i = 0" | "i = 1" | "i = 2" | "i = 3" | "i = 4" | "i = 5" | "i = 6" by linarith
  then show ?thesis
  proof cases
    case 1 then show ?thesis using BCDSanitize_valid [of 0 "year d" 99] r by simp
  next
    case 2 then show ?thesis using BCDSanitize_valid [of 1 "month d" 12] bcd_tables(6) [of "month d"] r by simp
  next
    case 3
    define s1 where "s1 = set_date 2 (bcd (day d)) s"
    have "DateTime s1 0 = bcd (year d)" "DateTime s1 1 = bcd (month d)"
      using assms(3) [of 0] assms(3) [of 1] 3 by (simp_all add: s1_def)
    then have "DaysInMonth s1 = bcd (days_in (year d) (month d))" using DaysInMonth_bcd r by blast
    moreover have "\<not> bcd (day d) > bcd (days_in (year d) (month d))"
      using r bcd_less [of "days_in (year d) (month d)" "day d"] by (simp add: days_in_def)
    ultimately have "CheckEndOfMonth s1 = s1" by (simp add: CheckEndOfMonth_def s1_def)
    then show ?thesis using 3 BCDSanitize_valid [of 1 "day d" 31] bcd_tables(4) [of "day d"] r by (simp add: s1_def)
  next
    case 4
    have "weekday d < 100" "weekday d < 8" using r by simp_all
    then have "bcd (weekday d) AND 7 = bcd (weekday d)" by (rule conjunct2 [OF bcd_tables(7)])
    moreover have "BCDSanitize (bcd (weekday d)) (bcd 0) (bcd 6) = bcd (weekday d)" using BCDSanitize_valid [of 0 "weekday d" 6] r by simp
    ultimately show ?thesis using 4 by simp
  next
    case 5 then show ?thesis using write_hour_valid [OF r(7), of s] by simp
  next
    case 6 then show ?thesis using BCDSanitize_valid [of 0 "minute d" 59] bcd_tables(5) [of "minute d"] r by simp
  next
    case 7 then show ?thesis using BCDSanitize_valid [of 0 "second d" 59] bcd_tables(5) [of "second d"] r by simp
  qed
qed

text \<open>The clock after \<open>n\<close> bytes of the date command.\<close>

definition writing :: "date \<Rightarrow> nat \<Rightarrow> (rtc \<times> 'y) nds \<Rightarrow> bool" where
  "writing d n nds \<longleftrightarrow>
     (let r = clock nds; s = State r in
      idle r \<and> InputBit r = 0 \<and> Input r = 0 \<and> InputPos r = of_nat (n + 1) \<and> CurCmd r = 0x26 \<and>
      (\<forall>j < n. DateTime s j = date_bytes (mode24 s) d ! j) \<and> (n = 7 \<longrightarrow> HostDate r = GetDateTime s))"

lemma date_write:
  assumes "CurCmd (clock m) = 0x26" "InputPos (clock m) = of_nat (n + 1)" "n < 7"
  shows "ByteIn ext v m = (if n = 6 then on_clock SaveDateTime (on_state (WriteDateTime (n + 1) v) m)
      else on_state (WriteDateTime (n + 1) v) m)"
proof -
  have p: "(of_nat (n + 1) :: u32) \<noteq> 0" "unat (of_nat (n + 1) :: u32) = n + 1" "(of_nat (n + 1) :: u32) \<le> 7"
    "(of_nat (n + 1) :: u32) = 7 \<longleftrightarrow> n = 6"
    using assms(3) less_7 [of n] by (auto simp: unat_of_nat word_le_nat_alt)
  have "ByteIn ext v m = write_DS ext v m" by (simp only: ByteIn_def CmdWrite_def Let_def assms(1,2) p) simp
  also have "\<dots> = (if n = 6 then on_clock SaveDateTime (on_state (WriteDateTime (n + 1) v) m)
      else on_state (WriteDateTime (n + 1) v) m)"
    by (simp only: write_DS_def Let_def assms(1,2) p if_True) simp
  finally show ?thesis .
qed

lemma writing_byte:
  assumes "writing d n nds" "n < 7" "valid_date d"
  shows "writing d (Suc n) (send_byte ext (date_bytes (mode24 (state_of nds)) d ! n) nds) \<and>
    mode24 (state_of (send_byte ext (date_bytes (mode24 (state_of nds)) d ! n) nds)) = mode24 (state_of nds) \<and>
    ConsoleType (send_byte ext (date_bytes (mode24 (state_of nds)) d ! n) nds) = ConsoleType nds"
proof -
  define v where "v = date_bytes (mode24 (state_of nds)) d ! n"
  have w: "idle (clock nds)" "InputBit (clock nds) = 0" "Input (clock nds) = 0" "InputPos (clock nds) = of_nat (n + 1)"
    "CurCmd (clock nds) = 0x26" "\<And>j. j < n \<Longrightarrow> DateTime (state_of nds) j = date_bytes (mode24 (state_of nds)) d ! j"
    using assms(1) by (simp_all add: writing_def Let_def state_of_clock)
  obtain m io where m: "clock m = (clock nds)\<lparr>Input := v, IO := io\<rparr>" "ConsoleType m = ConsoleType nds"
    "clock (send_byte ext v nds) = (clock (ByteIn ext v m))\<lparr>Input := 0, InputPos := InputPos (clock (ByteIn ext v m)) + 1,
       IO := 0x16 OR (if bit v 7 then 1 else 0)\<rparr>"
    "ConsoleType (send_byte ext v nds) = ConsoleType (ByteIn ext v m)"
    by (rule send_byte_clock [OF w(1-3)])
  have "CurCmd (clock m) = 0x26" "InputPos (clock m) = of_nat (n + 1)" by (simp_all add: m(1) w)
  note b = date_write [OF this assms(2), of ext v]
  have s: "state_of m = state_of nds" by (simp add: state_of_clock m(1))
  have wr: "WriteDateTime (n + 1) v (state_of nds) = set_date n v (state_of nds)"
    using WriteDateTime_valid [OF assms(3,2) w(6)] by (simp add: v_def)
  define S where "S = set_date n v (state_of nds)"
  have st: "state_of (send_byte ext v nds) = S" using wr
    by (cases "n = 6") (simp_all add: state_of_clock m(3) b S_def SaveDateTime_def s [unfolded state_of_clock])
  have "DateTime S j = date_bytes (mode24 S) d ! j" if "j < Suc n" for j
    using w(6) that by (auto simp: S_def v_def less_Suc_eq)
  moreover have "HostDate (clock (send_byte ext v nds)) = GetDateTime S" if "n = 6"
    using that wr by (simp add: m(3) b SaveDateTime_def S_def s s [unfolded state_of_clock])
  ultimately have "writing d (Suc n) (send_byte ext v nds)"
    using st w(2,4,5) by (simp add: writing_def Let_def state_of_clock) (simp add: m(3) m(1) b SaveDateTime_def)
  moreover have "mode24 S = mode24 (state_of nds)" by (simp add: S_def)
  ultimately show ?thesis using st m(2,4) by (simp add: b flip: v_def)
qed

lemma writing_bytes:
  assumes "writing d 0 nds" "valid_date d" "n \<le> 7"
  defines "vs \<equiv> date_bytes (mode24 (state_of nds)) d"
  shows "writing d n (fold (send_byte ext) (take n vs) nds) \<and>
    mode24 (state_of (fold (send_byte ext) (take n vs) nds)) = mode24 (state_of nds) \<and>
    ConsoleType (fold (send_byte ext) (take n vs) nds) = ConsoleType nds"
  using assms(3)
proof (induction n)
  case (Suc n)
  define m where "m = fold (send_byte ext) (take n vs) nds"
  have m: "writing d n m" "mode24 (state_of m) = mode24 (state_of nds)" "ConsoleType m = ConsoleType nds"
    using Suc by (simp_all add: m_def)
  have n: "n < 7" "n < length vs" using Suc.prems by (simp_all add: vs_def date_bytes_def)
  have "fold (send_byte ext) (take (Suc n) vs) nds = send_byte ext (vs ! n) m"
    by (simp add: take_Suc_conv_app_nth n m_def)
  then show ?case using writing_byte [OF m(1) n(1) assms(2), of ext] m by (simp add: vs_def)
qed (simp add: assms)

text \<open>The command byte, in either bit order.\<close>

lemma send_command:
  assumes "clock nds = (start_transfer r)\<lparr>IO := 0x16\<rparr>" "decode_command (ConsoleType nds = 1) v = c"
  shows "\<exists>i io. clock (send_byte ext v nds) =
      (if tst c 0x80 then CmdRead (ConsoleType nds = 1) ((start_transfer r)\<lparr>Input := i, IO := io, CurCmd := c\<rparr>)
       else (start_transfer r)\<lparr>Input := i, IO := io, CurCmd := c\<rparr>)\<lparr>Input := 0, InputPos := 1,
         IO := 0x16 OR (if bit v 7 then 1 else 0)\<rparr>"
    "ConsoleType (send_byte ext v nds) = ConsoleType nds"
proof -
  have "idle (clock nds)" "InputBit (clock nds) = 0" "Input (clock nds) = 0"
    using assms(1) by (simp_all add: idle_def bit_numeral_rec start_transfer_def)
  then obtain m io where m: "clock m = (clock nds)\<lparr>Input := v, IO := io\<rparr>" "ConsoleType m = ConsoleType nds"
    "clock (send_byte ext v nds) = (clock (ByteIn ext v m))\<lparr>Input := 0, InputPos := InputPos (clock (ByteIn ext v m)) + 1,
       IO := 0x16 OR (if bit v 7 then 1 else 0)\<rparr>"
    "ConsoleType (send_byte ext v nds) = ConsoleType (ByteIn ext v m)"
    by (rule send_byte_clock)
  have c: "clock m = (start_transfer r)\<lparr>Input := v, IO := io\<rparr>" using assms(1) by (simp add: m(1) start_transfer_def)
  have pos: "InputPos (CmdRead dsi x) = InputPos x" for dsi x
    by (simp add: CmdRead_def read_DS_def read_DSi_def output_byte_def output_bytes_def Let_def)
  have b: "ByteIn ext v m = (if tst c 0x80 then on_clock (CmdRead (ConsoleType nds = 1)) else (\<lambda>x. x)) (on_clock (\<lambda>r. r\<lparr>CurCmd := c\<rparr>) m)"
    using assms(2) by (simp add: ByteIn_def Let_def c m(2)) (simp add: start_transfer_def)
  show "\<exists>i io. clock (send_byte ext v nds) =
      (if tst c 0x80 then CmdRead (ConsoleType nds = 1) ((start_transfer r)\<lparr>Input := i, IO := io, CurCmd := c\<rparr>)
       else (start_transfer r)\<lparr>Input := i, IO := io, CurCmd := c\<rparr>)\<lparr>Input := 0, InputPos := 1,
         IO := 0x16 OR (if bit v 7 then 1 else 0)\<rparr>"
    by (intro exI [of _ v] exI [of _ io]) (simp add: m(3) b c pos, simp add: start_transfer_def)
  show "ConsoleType (send_byte ext v nds) = ConsoleType nds" by (simp add: m(2,4) b)
qed

text \<open>C32. A valid date sent over the serial interface, bit by bit, lowest bit first, after the write command in either bit
  order is the date that the registers then show and that the platform is given to keep; and the seven bytes read
  back after the read command are the same seven bytes, in whichever hour mode the clock is.\<close>

theorem serial_clock_roundtrip:
  fixes nds :: "(rtc \<times> 'y) nds" and ext :: "'y nds_ext"
  assumes "valid_date d"
    and "decode_command (ConsoleType nds = 1) wr = 0x26" "decode_command (ConsoleType nds = 1) rd = 0xA6"
  defines "vs \<equiv> date_bytes (mode24 (state_of nds)) d"
  defines "written \<equiv> fold (send_byte ext) (wr # vs) (rtc_select ext nds)"
  defines "asked \<equiv> send_byte ext rd (rtc_select ext written)"
  shows "shows_date d (state_of written) \<and>
    HostDate (clock written) =
      [2000 + int (year d), int (month d), int (day d), int (hour d), int (minute d), int (second d)] \<and>
    fst (receive_bytes ext 7 asked) = vs"
proof -
  have r: "in_range d" using assms(1) by (simp add: valid_date_def)
  define cmd where "cmd = send_byte ext wr (rtc_select ext nds)"
  obtain i io where cmd: "clock cmd = (start_transfer (clock nds))\<lparr>Input := i, IO := io, CurCmd := 0x26, Input := 0, InputPos := 1,
      IO := 0x16 OR (if bit wr 7 then 1 else 0)\<rparr>" "ConsoleType cmd = ConsoleType nds"
    using send_command [where nds = "rtc_select ext nds" and v = wr and c = "0x26" and ext = ext, OF select_clock(1)] assms(2) by (auto simp: cmd_def select_clock tst_def)
  have w0: "writing d 0 cmd" and s0: "state_of cmd = state_of nds"
    by (simp_all add: writing_def Let_def cmd state_of_clock idle_def bit_or_iff bit_numeral_rec start_transfer_def)
  have len: "take 7 vs = vs" "length vs = 7" by (simp_all add: vs_def date_bytes_def)
  have wn: "written = fold (send_byte ext) (take 7 vs) cmd" by (simp add: written_def cmd_def len)
  have w: "writing d 7 written" "mode24 (state_of written) = mode24 (state_of nds)" "ConsoleType written = ConsoleType nds"
    using writing_bytes [OF w0 assms(1), of 7 ext] s0 cmd(2) by (simp_all add: wn vs_def)
  then have bytes: "map (DateTime (state_of written)) [0..<7] = vs"
    using len(2) by (intro nth_equalityI) (simp_all add: writing_def Let_def state_of_clock vs_def)
  then have sh: "shows_date d (state_of written)" using w(2) by (simp add: shows_date_bytes vs_def)
  have "HostDate (clock written) = GetDateTime (state_of written)" using w(1) by (simp add: writing_def Let_def state_of_clock)
  then have host: "HostDate (clock written) =
      [2000 + int (year d), int (month d), int (day d), int (hour d), int (minute d), int (second d)]"
    by (simp only: GetDateTime_shows [OF sh r])
  obtain i io where rdc: "clock asked = (CmdRead (ConsoleType nds = 1) ((start_transfer (clock written))\<lparr>Input := i, IO := io, CurCmd := 0xA6\<rparr>))
      \<lparr>Input := 0, InputPos := 1, IO := 0x16 OR (if bit rd 7 then 1 else 0)\<rparr>"
    using send_command(1) [where nds = "rtc_select ext written" and v = rd and c = "0xA6" and ext = ext, OF select_clock(1)] assms(3) w(3)
    by (auto simp: asked_def select_clock tst_def)
  have "bit (IO (clock asked)) 2" by (simp add: rdc bit_or_iff bit_numeral_rec)
  moreover have o: "OutputBit (clock asked) = 0" "OutputPos (clock asked) = of_nat 0"
    "\<And>i. i < 7 \<Longrightarrow> Output (clock asked) i = DateTime (state_of written) i"
    by (simp_all add: rdc CmdRead_def read_DS_def output_bytes_def start_transfer_def state_of_clock)
  ultimately have "fst (receive_bytes ext 7 asked) = map (Output (clock asked)) [0..<7]"
    using receive_bytes_clock [of asked 0 7 ext] by simp
  also have "\<dots> = map (DateTime (state_of written)) [0..<7]" using o(3) by (intro map_cong) simp_all
  finally have "fst (receive_bytes ext 7 asked) = vs" by (simp only: bytes)
  then show ?thesis using sh host by blast
qed

theorem serial_clock_roundtrip_witness:
  "fst (receive_bytes silent 7 (send_byte silent 0x65 (rtc_select silent
     (fold (send_byte silent) (0x64 # [0x24, 0x02, 0x29, 0x04, 0x63, 0x59, 0x58]) (rtc_select silent
        (new_console\<lparr>ConsoleType := 0\<rparr>)))))) = [0x24, 0x02, 0x29, 0x04, 0x63, 0x59, 0x58]"
proof -
  define d where "d = \<lparr>year = 24, month = 2, day = 29, weekday = 4, hour = 23, minute = 59, second = 58\<rparr>"
  define n where "n = (new_console\<lparr>ConsoleType := 0\<rparr>)"
  have "valid_date d" by (simp add: d_def valid_date_def in_range_def days_in_def)
  moreover have "decode_command (ConsoleType n = 1) 0x64 = 0x26" "decode_command (ConsoleType n = 1) 0x65 = 0xA6"
    by (simp_all add: n_def decode_command_def rev_DS_def)
  ultimately have "fst (receive_bytes silent 7 (send_byte silent 0x65 (rtc_select silent
      (fold (send_byte silent) (0x64 # date_bytes (mode24 (state_of n)) d) (rtc_select silent n))))) =
      date_bytes (mode24 (state_of n)) d"
    using serial_clock_roundtrip [of d n "0x64" "0x65" silent] by blast
  moreover have "mode24 (state_of n)"
    by (simp add: n_def new_console_def state_of_def clock_def new_clock_def rtc_initial_def ResetState_def mode24_def tst_def)
  then have "date_bytes (mode24 (state_of n)) d = [0x24, 0x02, 0x29, 0x04, 0x63, 0x59, 0x58]"
    by (simp add: date_bytes_def d_def bcd_def hour_reg_def)
  ultimately show ?thesis by (simp only: n_def)
qed

end
