(* ===== verification/Savestate.thy ===== *)
theory Savestate
  imports Prelude
begin

text \<open>
  The savestate files (\<^verbatim>\<open>src/src/Savestate.cpp\<close>, \<^verbatim>\<open>Savestate.h\<close>): a global header, and sections with a magic number
  and a length, written and read through the same calls.

  The memory behind \<open>buffer\<close> is a list, \<open>None\<close> a null pointer; a \<open>memcpy\<close> outside it, which C++ leaves undefined,
  sets \<open>fault\<close>.  \<open>mem n\<close> says whether the host has \<open>n\<close> bytes to allocate, and \<open>junk n\<close> is what \<open>malloc\<close> gives.
  A variable that a call reads or writes is passed in and returned.
\<close>

section \<open>State\<close>

record savestate =
  Error :: bool
  Saving :: bool
  CurSection :: u32
  buffer :: "u8 list option"
  buffer_offset :: u32
  buffer_length :: u32
  section_end :: u32
  buffer_owned :: bool
  finished :: bool
  header_valid :: bool
  fault :: bool

definition NO_SECTION :: u32 where "NO_SECTION = 0xFFFFFFFF"
definition SAVESTATE_MAGIC :: "u8 list" where "SAVESTATE_MAGIC = [0x4D, 0x45, 0x4C, 0x4E]"
definition SAVESTATE_MAJOR :: u16 where "SAVESTATE_MAJOR = 14"
definition SAVESTATE_MINOR :: u16 where "SAVESTATE_MINOR = 2"
definition SAVESTATE_MAX_MINOR :: u16 where "SAVESTATE_MAX_MINOR = 15"

text \<open>\<open>memcpy\<close> into and out of the buffer.\<close>

definition store :: "nat \<Rightarrow> u8 list \<Rightarrow> savestate \<Rightarrow> savestate" where
  "store i d st =
     (case buffer st of
        Some b \<Rightarrow> if i + length d \<le> length b then st\<lparr>buffer := Some (take i b @ d @ drop (i + length d) b)\<rparr>
                  else st\<lparr>fault := True\<rparr>
      | None \<Rightarrow> st\<lparr>fault := True\<rparr>)"

definition memcpy_out :: "nat \<Rightarrow> nat \<Rightarrow> savestate \<Rightarrow> u8 list \<times> savestate" where
  "memcpy_out i n st =
     (case buffer st of
        Some b \<Rightarrow> if i + n \<le> length b then (take n (drop i b), st) else (replicate n 0, st\<lparr>fault := True\<rparr>)
      | None \<Rightarrow> (replicate n 0, st\<lparr>fault := True\<rparr>))"

text \<open>The bytes of an integer in memory, lowest first.\<close>

definition lsb_bytes :: "nat \<Rightarrow> 'a::len word \<Rightarrow> u8 list" where
  "lsb_bytes n x = map (\<lambda>i. ucast (drop_bit (8 * i) x)) [0..<n]"

definition le_word :: "u8 list \<Rightarrow> 'a::len word" where
  "le_word bs = foldr (\<lambda>b x. ucast b OR push_bit 8 x) bs 0"

section \<open>Variables\<close>

definition Resize :: "(u32 \<Rightarrow> bool) \<Rightarrow> u32 \<Rightarrow> savestate \<Rightarrow> bool \<times> savestate" where
  "Resize mem new_length st =
     (if \<not> buffer_owned st then (False, st)
      else if \<not> mem new_length then (False, st)
      else
        let length_diff = new_length - buffer_length st in
        (True, st\<lparr>buffer := map_option (\<lambda>b. take (unat (buffer_length st)) b @ replicate (unat length_diff) 0) (buffer st),
                 buffer_length := new_length\<rparr>))"

definition VarArray :: "(u32 \<Rightarrow> bool) \<Rightarrow> u8 list \<Rightarrow> savestate \<Rightarrow> u8 list \<times> savestate" where
  "VarArray mem d st =
     (let len = of_nat (length d) in
      if Error st \<or> finished st \<or> len = 0 then (d, st)
      else if buffer st = None \<or> buffer_offset st > buffer_length st \<or> len > 0xFFFFFFFF - buffer_offset st
      then (d, st\<lparr>Error := True\<rparr>)
      else if Saving st then
        let (ok, st) = (if len > buffer_length st - buffer_offset st then
                          let new_length = ucast (min (ucast (buffer_length st) * 2 + ucast len) (0xFFFFFFFF :: u64))
                          in if buffer_owned st then Resize mem new_length st else (False, st)
                        else (True, st))
        in if \<not> ok then (d, st\<lparr>Error := True\<rparr>)
           else (d, (store (unat (buffer_offset st)) d st)\<lparr>buffer_offset := buffer_offset st + len\<rparr>)
      else if buffer_offset st > section_end st \<or> len > section_end st - buffer_offset st
      then (d, st\<lparr>Error := True\<rparr>)
      else let (d, st) = memcpy_out (unat (buffer_offset st)) (length d) st
           in (d, st\<lparr>buffer_offset := buffer_offset st + len\<rparr>))"

definition Var8 :: "(u32 \<Rightarrow> bool) \<Rightarrow> u8 \<Rightarrow> savestate \<Rightarrow> u8 \<times> savestate" where
  "Var8 mem v st = (let (d, st) = VarArray mem (lsb_bytes 1 v) st in (le_word d, st))"

definition Var16 :: "(u32 \<Rightarrow> bool) \<Rightarrow> u16 \<Rightarrow> savestate \<Rightarrow> u16 \<times> savestate" where
  "Var16 mem v st = (let (d, st) = VarArray mem (lsb_bytes 2 v) st in (le_word d, st))"

definition Var32 :: "(u32 \<Rightarrow> bool) \<Rightarrow> u32 \<Rightarrow> savestate \<Rightarrow> u32 \<times> savestate" where
  "Var32 mem v st = (let (d, st) = VarArray mem (lsb_bytes 4 v) st in (le_word d, st))"

definition Var64 :: "(u32 \<Rightarrow> bool) \<Rightarrow> u64 \<Rightarrow> savestate \<Rightarrow> u64 \<times> savestate" where
  "Var64 mem v st = (let (d, st) = VarArray mem (lsb_bytes 8 v) st in (le_word d, st))"

definition VarBool :: "(u32 \<Rightarrow> bool) \<Rightarrow> bool \<Rightarrow> savestate \<Rightarrow> bool \<times> savestate" where
  "VarBool mem v st =
     (if Saving st then (v, snd (Var8 mem (if v then 1 else 0) st))
      else let (b, st) = Var8 mem 0 st in (if \<not> Error st then b \<noteq> 0 else v, st))"

definition Bool32 :: "(u32 \<Rightarrow> bool) \<Rightarrow> bool \<Rightarrow> savestate \<Rightarrow> bool \<times> savestate" where
  "Bool32 mem v st =
     (if Saving st then (v, snd (Var32 mem (if v then 1 else 0) st))
      else let (b, st) = Var32 mem 0 st in (if \<not> Error st then b \<noteq> 0 else v, st))"

section \<open>Sections\<close>

lemma unat_bound32: "unat x < 4294967296" for x :: u32
proof -
  have "unat x < 2 ^ LENGTH(32)" by (rule unsigned_less)
  then show ?thesis by simp
qed

definition CloseCurrentSection :: "savestate \<Rightarrow> savestate" where
  "CloseCurrentSection st =
     (if CurSection st \<noteq> NO_SECTION \<and> \<not> finished st then
        (store (unat (CurSection st) + 4) (lsb_bytes 4 (buffer_offset st - CurSection st)) st)\<lparr>CurSection := NO_SECTION\<rparr>
      else st)"

lemma memcpy_out_length [simp]: "buffer_length (snd (memcpy_out i n st)) = buffer_length st"
  by (simp add: memcpy_out_def split: option.split)

function find_section :: "u8 list \<Rightarrow> u32 \<Rightarrow> savestate \<Rightarrow> u32 \<times> savestate" where
  "find_section magic offset st =
     (if \<not> offset < buffer_length st then (NO_SECTION, st)
      else if buffer_length st - offset < 16 then (NO_SECTION, st)
      else
        let f = memcpy_out (unat offset + 4) 4 st; section_length = le_word (fst f) :: u32 in
        if section_length < 16 \<or> section_length > buffer_length st - offset then (NO_SECTION, snd f)
        else
          let g = memcpy_out (unat offset) 4 (snd f) in
          if fst g = magic then (offset + 16, snd g) else find_section magic (offset + section_length) (snd g))"
  by pat_completeness auto
termination
proof (relation "measure (\<lambda>(magic, offset, st). unat (buffer_length st) - unat offset)", simp)
  fix magic offset st f and section_length :: u32 and g
  assume a: "\<not> \<not> offset < buffer_length st" "\<not> buffer_length st - offset < 16" "f = memcpy_out (unat offset + 4) 4 st"
    "section_length = le_word (fst f)" "\<not> (section_length < 16 \<or> buffer_length st - offset < section_length)"
    "g = memcpy_out (unat offset) 4 (snd f)" "fst g \<noteq> magic"
  have sub: "unat (buffer_length st - offset) = unat (buffer_length st) - unat offset"
    using a(1) by (simp add: unat_sub order_less_imp_le)
  have l: "16 \<le> unat section_length" "unat section_length \<le> unat (buffer_length st) - unat offset"
    using a(5) sub by (simp_all add: word_less_nat_alt not_less)
  have "unat (offset + section_length) = unat offset + unat section_length"
    using l unat_bound32 [of "buffer_length st"] by (simp add: unat_word_ariths)
  then show "((magic, offset + section_length, snd g), magic, offset, st)
      \<in> measure (\<lambda>(magic, offset, st). unat (buffer_length st) - unat offset)"
    using a(1,3,6) l by (simp add: word_less_nat_alt)
qed

declare find_section.simps [simp del]

definition FindSection :: "u8 list \<Rightarrow> savestate \<Rightarrow> u32 \<times> savestate" where
  "FindSection magic st = find_section magic 0x10 st"

definition Section :: "(u32 \<Rightarrow> bool) \<Rightarrow> u8 list \<Rightarrow> savestate \<Rightarrow> savestate" where
  "Section mem magic st =
     (if Error st \<or> finished st then st
      else if Saving st then
        let st = CloseCurrentSection st;
            st = st\<lparr>CurSection := buffer_offset st\<rparr>;
            st = snd (VarArray mem magic st);
            (zero, st) = Var32 mem 0 st;
            (zero, st) = Var32 mem zero st;
            (zero, st) = Var32 mem zero st
        in st
      else
        let (section_offset, st) = FindSection magic st in
        if section_offset \<noteq> NO_SECTION then
          let st = st\<lparr>buffer_offset := section_offset\<rparr>;
              (d, st) = memcpy_out (unat section_offset - 12) 4 st
          in st\<lparr>section_end := section_offset - 16 + le_word d\<rparr>
        else st\<lparr>Error := True\<rparr>)"

section \<open>Files\<close>

definition WriteStateLength :: "savestate \<Rightarrow> savestate" where
  "WriteStateLength st = store 0x08 (lsb_bytes 4 (buffer_offset st)) st"

definition Finish :: "savestate \<Rightarrow> savestate" where
  "Finish st =
     (if Error st \<or> finished st then st
      else (if Saving st then WriteStateLength (CloseCurrentSection st) else st)\<lparr>finished := True\<rparr>)"

definition MajorVersion :: "savestate \<Rightarrow> u16 \<times> savestate" where
  "MajorVersion st = (let (d, st) = memcpy_out 4 2 st in (le_word d, st))"

definition MinorVersion :: "savestate \<Rightarrow> u16 \<times> savestate" where
  "MinorVersion st = (let (d, st) = memcpy_out 6 2 st in (le_word d, st))"

definition IsAtLeastVersion :: "u32 \<Rightarrow> u32 \<Rightarrow> savestate \<Rightarrow> bool \<times> savestate" where
  "IsAtLeastVersion major minor st =
     (let (major_version, st) = MajorVersion st in
      if ucast major_version > major then (True, st)
      else if ucast major_version = major then
        let (minor_version, st) = MinorVersion st in (ucast minor_version \<ge> minor, st)
      else (False, st))"

definition RequireMinorVersion :: "u16 \<Rightarrow> savestate \<Rightarrow> savestate" where
  "RequireMinorVersion minor st =
     (if Error st \<or> finished st then st
      else if \<not> Saving st \<or> \<not> header_valid st \<or> minor > SAVESTATE_MAX_MINOR then st\<lparr>Error := True\<rparr>
      else let (m, st) = MinorVersion st in if minor > m then store 6 (lsb_bytes 2 minor) st else st)"

definition Rewind :: "bool \<Rightarrow> savestate \<Rightarrow> savestate" where
  "Rewind save st =
     (if \<not> save \<and> \<not> header_valid st then st\<lparr>Error := True\<rparr>
      else st\<lparr>Error := False, Saving := save, CurSection := NO_SECTION, section_end := buffer_length st,
              buffer_offset := 0, finished := False\<rparr>)"

definition WriteSavestateHeader :: "(u32 \<Rightarrow> bool) \<Rightarrow> savestate \<Rightarrow> savestate" where
  "WriteSavestateHeader mem st =
     (let st = snd (VarArray mem SAVESTATE_MAGIC st);
          st = snd (Var16 mem SAVESTATE_MAJOR st);
          st = snd (Var16 mem SAVESTATE_MINOR st);
          (zero, st) = Var32 mem 0 st;
          (zero, st) = Var32 mem zero st
      in st\<lparr>header_valid := \<not> Error st\<rparr>)"

text \<open>The header that a reader accepts.\<close>

definition read_header :: "(u32 \<Rightarrow> bool) \<Rightarrow> savestate \<Rightarrow> savestate" where
  "read_header mem st =
     (let (read_magic, st) = Var32 mem 0 st in
      if read_magic \<noteq> le_word SAVESTATE_MAGIC then st\<lparr>Error := True\<rparr>
      else
        let (major, st) = Var16 mem 0 st in
        if major \<noteq> SAVESTATE_MAJOR \<and> major \<noteq> 13 then st\<lparr>Error := True\<rparr>
        else
          let (minor, st) = Var16 mem 0 st in
          if minor > (if major = 13 then 0 else SAVESTATE_MAX_MINOR) then st\<lparr>Error := True\<rparr>
          else
            let (read_length, st) = Var32 mem 0 st in
            if read_length \<noteq> buffer_length st then st\<lparr>Error := True\<rparr>
            else st\<lparr>buffer_offset := buffer_offset st + 4, header_valid := True\<rparr>)"

text \<open>The constructors on a buffer of the caller's and on one of its own, and the destructor.\<close>

definition savestate_over :: "(u32 \<Rightarrow> bool) \<Rightarrow> u8 list option \<Rightarrow> u32 \<Rightarrow> bool \<Rightarrow> savestate" where
  "savestate_over mem buf sz save =
     (let st = \<lparr>Error = False, Saving = save, CurSection = NO_SECTION, buffer = buf, buffer_offset = 0,
                buffer_length = sz, section_end = sz, buffer_owned = False, finished = False,
                header_valid = False, fault = False\<rparr>
      in if buf = None \<or> sz < 16 then st\<lparr>Error := True\<rparr>
         else if save then WriteSavestateHeader mem st
         else read_header mem st)"

definition savestate_new :: "(u32 \<Rightarrow> bool) \<Rightarrow> (u32 \<Rightarrow> u8 list) \<Rightarrow> u32 \<Rightarrow> savestate" where
  "savestate_new mem junk initial_size =
     (let st = \<lparr>Error = False, Saving = True, CurSection = NO_SECTION,
                buffer = if mem initial_size then Some (junk initial_size) else None, buffer_offset = 0,
                buffer_length = initial_size, section_end = initial_size, buffer_owned = True, finished = False,
                header_valid = False, fault = False\<rparr>
      in if buffer st = None then st\<lparr>Error := True\<rparr> else WriteSavestateHeader mem st)"

definition savestate_destroy :: "savestate \<Rightarrow> savestate" where
  "savestate_destroy st =
     (let st = (if Saving st \<and> \<not> finished st \<and> \<not> buffer_owned st \<and> \<not> Error st then Finish st else st)
      in if buffer_owned st then st\<lparr>buffer := None\<rparr> else st)"

end
