(* ===== verification/SavestateInv.thy ===== *)
theory SavestateInv
  imports Savestate
begin

text \<open>
  Every access of a savestate stays inside its buffer: what each call keeps, and any sequence of calls.
\<close>

section \<open>The invariant\<close>

definition buffer_ok :: "savestate \<Rightarrow> bool" where
  "buffer_ok st \<longleftrightarrow> \<not> fault st \<and> (\<forall>b. buffer st = Some b \<longrightarrow> length b = unat (buffer_length st)) \<and>
     section_end st \<le> buffer_length st"

lemma len32: "n < 4294967296 \<Longrightarrow> unat (of_nat n :: u32) = n"
  by (simp add: unat_of_nat)

lemma Resize_keeps:
  assumes "buffer_ok st" "buffer_length st \<le> n"
  shows "buffer_ok (snd (Resize mem n st))"
    "fst (Resize mem n st) \<Longrightarrow> buffer_length (snd (Resize mem n st)) = n"
    "\<not> fst (Resize mem n st) \<Longrightarrow> snd (Resize mem n st) = st"
proof -
  have "unat (n - buffer_length st) = unat n - unat (buffer_length st)" using assms(2) by (rule unat_sub)
  moreover have "unat (buffer_length st) \<le> unat n" using assms(2) by (simp add: word_le_nat_alt)
  ultimately show "buffer_ok (snd (Resize mem n st))"
    using assms by (auto simp: Resize_def buffer_ok_def Let_def)
  show "fst (Resize mem n st) \<Longrightarrow> buffer_length (snd (Resize mem n st)) = n"
    by (simp add: Resize_def Let_def split: if_splits)
  show "\<not> fst (Resize mem n st) \<Longrightarrow> snd (Resize mem n st) = st"
    by (simp add: Resize_def Let_def split: if_splits)
qed

lemma Resize_fields [simp]:
  "Error (snd (Resize mem n st)) = Error st" "Saving (snd (Resize mem n st)) = Saving st"
  "CurSection (snd (Resize mem n st)) = CurSection st" "buffer_offset (snd (Resize mem n st)) = buffer_offset st"
  "finished (snd (Resize mem n st)) = finished st" "header_valid (snd (Resize mem n st)) = header_valid st"
  "section_end (snd (Resize mem n st)) = section_end st" "(buffer (snd (Resize mem n st)) = None) = (buffer st = None)"
  by (simp_all add: Resize_def Let_def)

text \<open>The length the buffer grows to.\<close>

definition grown :: "u32 \<Rightarrow> u32 \<Rightarrow> u32" where
  "grown old len = ucast (min (ucast old * 2 + ucast len) (0xFFFFFFFF :: u64))"

lemma unat_grown: "unat (grown old len) = min (unat old * 2 + unat len) 4294967295"
proof -
  have b: "unat old < 4294967296" "unat len < 4294967296" by (rule unat_bound32)+
  have u: "unat (ucast old * 2 + ucast len :: u64) = unat old * 2 + unat len"
    using b by (simp add: unat_word_ariths unat_ucast_up)
  have m: "unat (min (ucast old * 2 + ucast len) (0xFFFFFFFF :: u64)) = min (unat old * 2 + unat len) 4294967295"
    by (simp add: min_def word_le_nat_alt u)
  then show ?thesis by (simp add: grown_def unsigned_ucast_eq take_bit_eq_mod)
qed

lemma VarArray_save:
  assumes ok: "buffer_ok st" and d: "length d < 4294967296" "d \<noteq> []"
    and st: "\<not> Error st" "\<not> finished st" "Saving st"
  obtains "VarArray mem d st = (d, st\<lparr>Error := True\<rparr>)"
  | st1 where "buffer_ok st1" "st1 = st \<or> st1 = snd (Resize mem (grown (buffer_length st) (of_nat (length d))) st)"
      "buffer_length st \<le> buffer_length st1" "unat (buffer_offset st) + length d \<le> unat (buffer_length st1)"
      "VarArray mem d st = (d, (store (unat (buffer_offset st)) d st1)\<lparr>buffer_offset := buffer_offset st + of_nat (length d)\<rparr>)"
      "buffer st1 \<noteq> None"
proof -
  define len where "len = (of_nat (length d) :: u32)"
  have ulen: "unat len = length d" using d(1) by (simp add: len_def len32)
  have len0: "len \<noteq> 0" using ulen d(2) by (metis length_0_conv unat_0)
  consider (null) "buffer st = None \<or> buffer_offset st > buffer_length st \<or> len > 0xFFFFFFFF - buffer_offset st"
    | (fits) "buffer st \<noteq> None" "buffer_offset st \<le> buffer_length st" "len \<le> buffer_length st - buffer_offset st"
    | (grow) "buffer st \<noteq> None" "buffer_offset st \<le> buffer_length st" "\<not> len \<le> buffer_length st - buffer_offset st"
        "\<not> len > 0xFFFFFFFF - buffer_offset st"
    by fastforce
  then show thesis
  proof cases
    case null
    then have "VarArray mem d st = (d, st\<lparr>Error := True\<rparr>)" using st len0 by (simp add: VarArray_def Let_def flip: len_def)
    then show thesis by (rule that(1))
  next
    case fits
    have u: "unat (buffer_length st - buffer_offset st) = unat (buffer_length st) - unat (buffer_offset st)"
      "unat (buffer_offset st) \<le> unat (buffer_length st)" using fits(2) by (simp_all add: unat_sub word_le_nat_alt)
    then have le: "unat (buffer_offset st) + length d \<le> unat (buffer_length st)"
      using fits(3) ulen by (simp add: word_le_nat_alt)
    have "unat (0xFFFFFFFF - buffer_offset st) = 4294967295 - unat (buffer_offset st)"
      by (subst unat_sub) (simp_all add: word_le_nat_alt, use unat_bound32 [of "buffer_offset st"] in simp)
    then have "\<not> len > 0xFFFFFFFF - buffer_offset st"
      using le ulen unat_bound32 [of "buffer_length st"] by (simp add: word_less_nat_alt)
    then have "VarArray mem d st = (d, (store (unat (buffer_offset st)) d st)\<lparr>buffer_offset := buffer_offset st + len\<rparr>)"
      using fits st len0 by (auto simp: VarArray_def Let_def simp flip: len_def)
    then show thesis using that(2) [of st] ok le fits(1) by (simp add: len_def)
  next
    case grow
    define st1 where "st1 = snd (Resize mem (grown (buffer_length st) len) st)"
    have R: "VarArray mem d st = (if buffer_owned st \<and> fst (Resize mem (grown (buffer_length st) len) st)
        then (d, (store (unat (buffer_offset st)) d st1)\<lparr>buffer_offset := buffer_offset st + len\<rparr>) else (d, st1\<lparr>Error := True\<rparr>))"
      using grow st len0 by (auto simp: VarArray_def Let_def grown_def st1_def Resize_def simp flip: len_def)
    have ge: "buffer_length st \<le> grown (buffer_length st) len"
      using unat_bound32 [of "buffer_length st"] by (simp add: word_le_nat_alt unat_grown)
    note k = Resize_keeps [OF ok ge, of mem, folded st1_def]
    show thesis
    proof (cases "buffer_owned st \<and> fst (Resize mem (grown (buffer_length st) len) st)")
      case False
      then have "st1 = st" using k(3) by (auto simp: st1_def Resize_def)
      then show thesis using that(1) R False by simp
    next
      case True
      have "unat (0xFFFFFFFF - buffer_offset st) = 4294967295 - unat (buffer_offset st)"
        by (subst unat_sub) (simp_all add: word_le_nat_alt, use unat_bound32 [of "buffer_offset st"] in simp)
      then have "unat (buffer_offset st) + length d \<le> 4294967295"
        using grow(4) ulen unat_bound32 [of "buffer_offset st"] by (simp add: word_less_nat_alt)
      moreover have "unat (buffer_offset st) \<le> unat (buffer_length st)" using grow(2) by (simp add: word_le_nat_alt)
      ultimately have "unat (buffer_offset st) + length d \<le> unat (buffer_length st1)"
        using k(2) True by (simp add: unat_grown ulen)
      moreover have "buffer_length st \<le> buffer_length st1" using k(2) True ge by simp
      ultimately show thesis
        using that(2) [of st1] k(1) R True grow(1) by (auto simp: st1_def len_def)
    qed
  qed
qed

lemma VarArray_load:
  assumes ok: "buffer_ok st" and d: "length d < 4294967296" "d \<noteq> []"
    and st: "\<not> Error st" "\<not> finished st" "\<not> Saving st"
  obtains "VarArray mem d st = (d, st\<lparr>Error := True\<rparr>)"
  | b where "buffer st = Some b" "unat (buffer_offset st) + length d \<le> unat (section_end st)"
      "unat (buffer_offset st) + length d \<le> length b"
      "VarArray mem d st = (take (length d) (drop (unat (buffer_offset st)) b), st\<lparr>buffer_offset := buffer_offset st + of_nat (length d)\<rparr>)"
proof -
  define len where "len = (of_nat (length d) :: u32)"
  have ulen: "unat len = length d" using d(1) by (simp add: len_def len32)
  have len0: "len \<noteq> 0" using ulen d(2) by (metis length_0_conv unat_0)
  show thesis
  proof (cases "buffer st = None \<or> buffer_offset st > buffer_length st \<or> len > 0xFFFFFFFF - buffer_offset st \<or>
      buffer_offset st > section_end st \<or> len > section_end st - buffer_offset st")
    case True
    then have "VarArray mem d st = (d, st\<lparr>Error := True\<rparr>)"
      using st len0 by (auto simp: VarArray_def Let_def simp flip: len_def)
    then show thesis by (rule that(1))
  next
    case False
    then obtain b where b: "buffer st = Some b" by auto
    have "unat (section_end st - buffer_offset st) = unat (section_end st) - unat (buffer_offset st)"
      "unat (buffer_offset st) \<le> unat (section_end st)" using False by (simp_all add: unat_sub word_le_nat_alt not_less)
    moreover have "unat len \<le> unat (section_end st - buffer_offset st)" using False by (simp add: word_le_nat_alt not_less)
    ultimately have le: "unat (buffer_offset st) + length d \<le> unat (section_end st)" using ulen by linarith
    then have in_buf: "unat (buffer_offset st) + length d \<le> length b"
      using ok b by (auto simp: buffer_ok_def word_le_nat_alt)
    have "VarArray mem d st = (take (length d) (drop (unat (buffer_offset st)) b), st\<lparr>buffer_offset := buffer_offset st + len\<rparr>)"
      using False st len0 b in_buf by (simp add: VarArray_def Let_def memcpy_out_def flip: len_def)
    then show thesis using that(2) b le in_buf by (simp add: len_def)
  qed
qed

lemma store_ok:
  assumes "buffer_ok st" "i + length d \<le> unat (buffer_length st)" "buffer st \<noteq> None"
  shows "buffer_ok (store i d st)" "\<exists>b. store i d st = st\<lparr>buffer := Some b\<rparr>"
  using assms by (auto simp: store_def buffer_ok_def)

lemma memcpy_out_ok:
  assumes "buffer_ok st" "i + n \<le> unat (buffer_length st)" "buffer st \<noteq> None"
  shows "snd (memcpy_out i n st) = st" "length (fst (memcpy_out i n st)) = n"
  using assms by (auto simp: memcpy_out_def buffer_ok_def)

text \<open>A call on a variable keeps the buffer and the flags; when it succeeds the variable lies inside the buffer.\<close>

definition kept :: "savestate \<Rightarrow> savestate \<Rightarrow> bool" where
  "kept st st' \<longleftrightarrow> buffer_ok st' \<and> header_valid st' = header_valid st \<and> CurSection st' = CurSection st \<and>
     finished st' = finished st \<and> Saving st' = Saving st \<and> buffer_length st \<le> buffer_length st' \<and>
     (buffer st' = None) = (buffer st = None) \<and> (Error st \<longrightarrow> Error st')"

lemma kept_refl [simp]: "kept st st = buffer_ok st"
  by (simp add: kept_def)

lemma kept_trans: "kept a b \<Longrightarrow> kept b c \<Longrightarrow> kept a c"
  by (auto simp: kept_def)

lemma kept_error: "kept st st' \<Longrightarrow> kept st (st'\<lparr>Error := True\<rparr>)"
  by (simp add: kept_def buffer_ok_def)

lemma VarArray_kept:
  assumes ok: "buffer_ok st" and d: "length d < 4294967296"
  shows "kept st (snd (VarArray mem d st))" "length (fst (VarArray mem d st)) = length d"
    "\<not> Error (snd (VarArray mem d st)) \<Longrightarrow> \<not> finished st \<Longrightarrow> d \<noteq> [] \<Longrightarrow>
       unat (buffer_offset (snd (VarArray mem d st))) = unat (buffer_offset st) + length d \<and>
       unat (buffer_offset (snd (VarArray mem d st))) \<le> unat (buffer_length (snd (VarArray mem d st)))"
proof -
  have err: "kept st (st\<lparr>Error := True\<rparr>)" using ok by (simp add: kept_error)
  have add: "unat (buffer_offset st + of_nat (length d)) = unat (buffer_offset st) + length d"
    if "unat (buffer_offset st) + length d \<le> unat (w :: u32)" for w
    using that unat_bound32 [of w] d by (simp add: unat_word_ariths len32)
  have "kept st (snd (VarArray mem d st)) \<and> length (fst (VarArray mem d st)) = length d \<and>
      (\<not> Error (snd (VarArray mem d st)) \<longrightarrow> \<not> finished st \<longrightarrow> d \<noteq> [] \<longrightarrow>
       unat (buffer_offset (snd (VarArray mem d st))) = unat (buffer_offset st) + length d \<and>
       unat (buffer_offset (snd (VarArray mem d st))) \<le> unat (buffer_length (snd (VarArray mem d st))))"
  proof (cases "Error st \<or> finished st \<or> d = []")
    case True
    then have "VarArray mem d st = (d, st)" by (auto simp: VarArray_def)
    then show ?thesis using True ok by auto
  next
    case False
    then have st: "d \<noteq> []" "\<not> Error st" "\<not> finished st" by simp_all
    show ?thesis
    proof (cases "Saving st")
      case True
      show ?thesis
      proof (rule VarArray_save [OF ok d st True, of mem])
        assume "VarArray mem d st = (d, st\<lparr>Error := True\<rparr>)"
        then show ?thesis using err by simp
      next
        fix st1
        assume st1: "buffer_ok st1" "st1 = st \<or> st1 = snd (Resize mem (grown (buffer_length st) (of_nat (length d))) st)"
          "buffer_length st \<le> buffer_length st1" "unat (buffer_offset st) + length d \<le> unat (buffer_length st1)"
          "VarArray mem d st = (d, (store (unat (buffer_offset st)) d st1)\<lparr>buffer_offset := buffer_offset st + of_nat (length d)\<rparr>)"
          "buffer st1 \<noteq> None"
        have k1: "kept st st1" using st1(1-3) ok by (auto simp: kept_def)
        obtain b where s: "buffer_ok (store (unat (buffer_offset st)) d st1)" "store (unat (buffer_offset st)) d st1 = st1\<lparr>buffer := Some b\<rparr>"
          using store_ok [OF st1(1,4,6)] by blast
        have "kept st1 ((store (unat (buffer_offset st)) d st1)\<lparr>buffer_offset := buffer_offset st + of_nat (length d)\<rparr>)"
          using s st1(6) by (simp add: kept_def buffer_ok_def)
        then have "kept st (snd (VarArray mem d st))" using kept_trans [OF k1] by (simp add: st1(5))
        then show ?thesis using add [OF st1(4)] st1(4) s(2) by (simp add: st1(5))
      qed
    next
      case False
      show ?thesis
      proof (rule VarArray_load [OF ok d st False, of mem])
        assume "VarArray mem d st = (d, st\<lparr>Error := True\<rparr>)"
        then show ?thesis using err by simp
      next
        fix b
        assume b: "buffer st = Some b" "unat (buffer_offset st) + length d \<le> unat (section_end st)"
          "unat (buffer_offset st) + length d \<le> length b"
          "VarArray mem d st = (take (length d) (drop (unat (buffer_offset st)) b), st\<lparr>buffer_offset := buffer_offset st + of_nat (length d)\<rparr>)"
        have "length b = unat (buffer_length st)" using ok b(1) by (simp add: buffer_ok_def)
        then show ?thesis using b add [OF b(2)] ok by (simp add: kept_def buffer_ok_def)
      qed
    qed
  qed
  then show "kept st (snd (VarArray mem d st))" "length (fst (VarArray mem d st)) = length d"
    "\<not> Error (snd (VarArray mem d st)) \<Longrightarrow> \<not> finished st \<Longrightarrow> d \<noteq> [] \<Longrightarrow>
       unat (buffer_offset (snd (VarArray mem d st))) = unat (buffer_offset st) + length d \<and>
       unat (buffer_offset (snd (VarArray mem d st))) \<le> unat (buffer_length (snd (VarArray mem d st)))"
    by blast+
qed

section \<open>Calls\<close>

lemma lsb_bytes_length [simp]: "length (lsb_bytes n x) = n"
  by (simp add: lsb_bytes_def)

lemma lsb_bytes_nonempty [simp]: "(lsb_bytes n x = []) = (n = 0)"
  by (simp add: lsb_bytes_def)

lemma Var_snd:
  "snd (Var8 mem a st) = snd (VarArray mem (lsb_bytes 1 a) st)" "snd (Var16 mem b st) = snd (VarArray mem (lsb_bytes 2 b) st)"
  "snd (Var32 mem c st) = snd (VarArray mem (lsb_bytes 4 c) st)" "snd (Var64 mem e st) = snd (VarArray mem (lsb_bytes 8 e) st)"
  by (simp_all add: Var8_def Var16_def Var32_def Var64_def split_beta Let_def)

text \<open>Integers and booleans.\<close>

lemma Var_kept:
  assumes "buffer_ok st"
  shows "kept st (snd (Var8 mem a st))" "kept st (snd (Var16 mem b st))" "kept st (snd (Var32 mem c st))"
    "kept st (snd (Var64 mem e st))" "kept st (snd (VarBool mem v st))" "kept st (snd (Bool32 mem v st))"
  by (simp_all add: Var_snd VarBool_def Bool32_def split_beta Let_def VarArray_kept(1) [OF assms])

text \<open>An open section has its header inside the buffer, and a live file is at least a header long.\<close>

definition file_ok :: "savestate \<Rightarrow> bool" where
  "file_ok st \<longleftrightarrow> buffer_ok st \<and> (\<not> Error st \<or> header_valid st \<longrightarrow> buffer st \<noteq> None \<and> 16 \<le> unat (buffer_length st)) \<and>
     (CurSection st \<noteq> NO_SECTION \<and> \<not> Error st \<longrightarrow> unat (CurSection st) + 16 \<le> unat (buffer_length st))"

lemma file_ok_error: "file_ok st \<Longrightarrow> file_ok (st\<lparr>Error := True\<rparr>)"
  by (simp add: file_ok_def buffer_ok_def)

lemma kept_file_ok: "file_ok st \<Longrightarrow> kept st st' \<Longrightarrow> file_ok st'"
  by (auto simp: file_ok_def kept_def word_le_nat_alt)

lemma Close_ok:
  assumes "file_ok st" "\<not> Error st"
  shows "file_ok (CloseCurrentSection st)"
    "\<exists>b c. CloseCurrentSection st = st\<lparr>buffer := b, CurSection := c\<rparr>"
proof -
  have "file_ok (CloseCurrentSection st) \<and> (\<exists>b c. CloseCurrentSection st = st\<lparr>buffer := b, CurSection := c\<rparr>)"
  proof (cases "CurSection st \<noteq> NO_SECTION \<and> \<not> finished st")
    case True
    have ok: "buffer_ok st" "buffer st \<noteq> None" "unat (CurSection st) + 4 + length (lsb_bytes 4 (buffer_offset st - CurSection st)) \<le> unat (buffer_length st)"
      using assms True by (simp_all add: file_ok_def)
    obtain b where s: "buffer_ok (store (unat (CurSection st) + 4) (lsb_bytes 4 (buffer_offset st - CurSection st)) st)"
      "store (unat (CurSection st) + 4) (lsb_bytes 4 (buffer_offset st - CurSection st)) st = st\<lparr>buffer := Some b\<rparr>"
      using store_ok [OF ok(1,3,2)] by blast
    then show ?thesis using True assms s by (auto simp: CloseCurrentSection_def file_ok_def buffer_ok_def)
  next
    case False
    have "st = st\<lparr>buffer := buffer st, CurSection := CurSection st\<rparr>" by simp
    then have "\<exists>b c. st = st\<lparr>buffer := b, CurSection := c\<rparr>" by blast
    moreover have "CloseCurrentSection st = st" using False by (auto simp: CloseCurrentSection_def)
    ultimately show ?thesis using assms by simp
  qed
  then show "file_ok (CloseCurrentSection st)" "\<exists>b c. CloseCurrentSection st = st\<lparr>buffer := b, CurSection := c\<rparr>" by blast+
qed

text \<open>The search for a section stays inside the buffer and ends in front of a section that fits.\<close>

lemma find_section_ok:
  assumes "buffer_ok st" "buffer st \<noteq> None" "16 \<le> unat offset"
  shows "snd (find_section magic offset st) = st \<and>
    (fst (find_section magic offset st) \<noteq> NO_SECTION \<longrightarrow>
      (let o' = fst (find_section magic offset st); d = fst (memcpy_out (unat o' - 12) 4 st) in
       32 \<le> unat o' \<and> unat o' - 16 + unat (le_word d :: u32) \<le> unat (buffer_length st) \<and> 16 \<le> unat (le_word d :: u32)))"
  using assms(3)
proof (induction "unat (buffer_length st) - unat offset" arbitrary: offset rule: less_induct)
  case less
  show ?case
  proof (cases "offset < buffer_length st \<and> \<not> buffer_length st - offset < 16")
    case False
    then show ?thesis by (subst (1 2 3) find_section.simps) (auto simp: Let_def NO_SECTION_def)
  next
    case True
    define f where "f = memcpy_out (unat offset + 4) 4 st"
    define l where "l = (le_word (fst f) :: u32)"
    define g where "g = memcpy_out (unat offset) 4 st"
    have sub: "unat (buffer_length st - offset) = unat (buffer_length st) - unat offset"
      using True by (simp add: unat_sub order_less_imp_le)
    have room: "unat offset + 16 \<le> unat (buffer_length st)"
      using True sub unfolding word_less_nat_alt not_less by (simp, linarith)
    have f: "snd f = st" using memcpy_out_ok(1) [OF assms(1) _ assms(2)] room by (simp add: f_def)
    have g: "snd g = st" using memcpy_out_ok(1) [OF assms(1) _ assms(2)] room by (simp add: g_def)
    have eq: "find_section magic offset st = (if l < 16 \<or> l > buffer_length st - offset then (NO_SECTION, st)
        else if fst g = magic then (offset + 16, st) else find_section magic (offset + l) st)"
      using True by (subst find_section.simps) (simp add: Let_def f g flip: f_def g_def l_def)
    show ?thesis
    proof (cases "l < 16 \<or> l > buffer_length st - offset")
      case True
      then show ?thesis by (simp add: eq)
    next
      case fits: False
      have l: "16 \<le> unat l" "unat offset + unat l \<le> unat (buffer_length st)"
        using fits sub room by (simp_all add: word_less_nat_alt not_less) linarith
      have o16: "unat (offset + 16) = unat offset + 16" "unat (offset + l) = unat offset + unat l"
        using room l unat_bound32 [of "buffer_length st"] by (simp_all add: unat_word_ariths)
      show ?thesis
      proof (cases "fst g = magic")
        case True
        have "fst (memcpy_out (unat (offset + 16) - 12) 4 st) = fst f" by (simp add: f_def o16 add.commute)
        then show ?thesis using True fits l o16 less.prems by (simp add: eq Let_def flip: l_def)
      next
        case False
        have "find_section magic offset st = find_section magic (offset + l) st" using False fits by (simp add: eq)
        then show ?thesis using less.hyps [of "offset + l"] o16 l room less.prems by simp
      qed
    qed
  qed
qed

text \<open>While saving a variable keeps its value, so a header is a run of constant writes.\<close>

definition writes :: "(u32 \<Rightarrow> bool) \<Rightarrow> u8 list list \<Rightarrow> savestate \<Rightarrow> savestate" where
  "writes mem ds st = fold (\<lambda>d st. snd (VarArray mem d st)) ds st"

lemma writes_Cons [simp]: "writes mem [] st = st" "writes mem (d # ds) st = writes mem ds (snd (VarArray mem d st))"
  by (simp_all add: writes_def)

lemma writes_kept:
  assumes "buffer_ok st" "\<forall>d \<in> set ds. length d < 4294967296 \<and> d \<noteq> []"
  shows "kept st (writes mem ds st)"
    "\<not> Error (writes mem ds st) \<Longrightarrow> \<not> finished st \<Longrightarrow>
      unat (buffer_offset (writes mem ds st)) = unat (buffer_offset st) + sum_list (map length ds) \<and>
      (ds \<noteq> [] \<longrightarrow> unat (buffer_offset (writes mem ds st)) \<le> unat (buffer_length (writes mem ds st)))"
proof -
  have "kept st (writes mem ds st) \<and> (\<not> Error (writes mem ds st) \<longrightarrow> \<not> finished st \<longrightarrow>
      unat (buffer_offset (writes mem ds st)) = unat (buffer_offset st) + sum_list (map length ds) \<and>
      (ds \<noteq> [] \<longrightarrow> unat (buffer_offset (writes mem ds st)) \<le> unat (buffer_length (writes mem ds st))))"
    using assms
  proof (induction ds arbitrary: st)
    case (Cons d ds)
    define a where "a = snd (VarArray mem d st)"
    have d: "length d < 4294967296" "d \<noteq> []" using Cons.prems(2) by simp_all
    note v = VarArray_kept [OF Cons.prems(1) d(1), of mem, folded a_def]
    have a: "buffer_ok a" "finished a = finished st" using v(1) by (simp_all add: kept_def)
    note IH = Cons.IH [OF a(1)]
    have err: "Error a \<longrightarrow> Error (writes mem ds a)" using IH Cons.prems(2) by (auto simp: kept_def)
    show ?case
    proof (cases "ds = []")
      case True
      then show ?thesis using v d(2) by (auto simp: a_def [symmetric])
    next
      case False
      then show ?thesis using IH Cons.prems(2) v err d(2) a(2) by (auto simp: a_def [symmetric] intro: kept_trans)
    qed
  qed simp
  then show "kept st (writes mem ds st)"
    "\<not> Error (writes mem ds st) \<Longrightarrow> \<not> finished st \<Longrightarrow>
      unat (buffer_offset (writes mem ds st)) = unat (buffer_offset st) + sum_list (map length ds) \<and>
      (ds \<noteq> [] \<longrightarrow> unat (buffer_offset (writes mem ds st)) \<le> unat (buffer_length (writes mem ds st)))"
    by blast+
qed

lemma store_Saving [simp]: "Saving (store i d st) = Saving st"
  by (simp add: store_def split: option.split)

lemma VarArray_saving:
  assumes "Saving st"
  shows "fst (VarArray mem d st) = d" "Saving (snd (VarArray mem d st))"
  using assms by (auto simp: VarArray_def Let_def split_beta)

lemma le_word_zero [simp]: "le_word (lsb_bytes n 0) = 0"
  by (induction n) (simp_all add: le_word_def lsb_bytes_def)

lemma Var32_zero: "Saving st \<Longrightarrow> Var32 mem 0 st = (0, snd (VarArray mem (lsb_bytes 4 (0 :: u32)) st))"
  by (simp add: Var32_def split_beta Let_def VarArray_saving)

definition section_header :: "u8 list \<Rightarrow> u8 list list" where
  "section_header magic = [magic, lsb_bytes 4 (0 :: u32), lsb_bytes 4 (0 :: u32), lsb_bytes 4 (0 :: u32)]"

definition begin_section :: "savestate \<Rightarrow> savestate" where
  "begin_section st = (CloseCurrentSection st)\<lparr>CurSection := buffer_offset (CloseCurrentSection st)\<rparr>"

lemma begin_Saving: "Saving (begin_section st) = Saving st"
  by (simp add: begin_section_def CloseCurrentSection_def)

lemma Section_save:
  assumes "Saving st" "\<not> Error st" "\<not> finished st"
  shows "Section mem magic st = writes mem (section_header magic) (begin_section st)"
  using assms by (simp add: Section_def Let_def section_header_def begin_section_def [symmetric] Var32_zero VarArray_saving begin_Saving)

definition file_header :: "u8 list list" where
  "file_header = [SAVESTATE_MAGIC, lsb_bytes 2 SAVESTATE_MAJOR, lsb_bytes 2 SAVESTATE_MINOR, lsb_bytes 4 (0 :: u32), lsb_bytes 4 (0 :: u32)]"

lemma WriteSavestateHeader_save:
  assumes "Saving st"
  shows "WriteSavestateHeader mem st = (writes mem file_header st)\<lparr>header_valid := \<not> Error (writes mem file_header st)\<rparr>"
  using assms by (simp add: WriteSavestateHeader_def Let_def file_header_def Var_snd Var32_zero VarArray_saving)

lemma Section_load:
  assumes ok: "file_ok st" "\<not> Error st" "\<not> finished st" "\<not> Saving st"
  shows "file_ok (Section mem magic st)" "header_valid (Section mem magic st) = header_valid st"
proof -
  have st: "buffer_ok st" "buffer st \<noteq> None" using ok by (simp_all add: file_ok_def)
  define o' where "o' = fst (FindSection magic st)"
  note f = find_section_ok [OF st, of "0x10" magic, folded FindSection_def, folded o'_def, simplified]
  have f1: "snd (FindSection magic st) = st" using f by simp
  have "file_ok (Section mem magic st) \<and> header_valid (Section mem magic st) = header_valid st"
  proof (cases "o' = NO_SECTION")
    case True
    then show ?thesis using ok f1 file_ok_error [OF ok(1)] by (simp add: Section_def Let_def split_beta flip: o'_def)
  next
    case sec: False
    define d where "d = fst (memcpy_out (unat o' - 12) 4 st)"
    have b: "32 \<le> unat o'" "unat o' - 16 + unat (le_word d :: u32) \<le> unat (buffer_length st)"
      "16 \<le> unat (le_word d :: u32)"
      using f sec unfolding Let_def d_def by auto
    have fx: "memcpy_out i n (st\<lparr>buffer_offset := w\<rparr>) = (fst (memcpy_out i n st), (snd (memcpy_out i n st))\<lparr>buffer_offset := w\<rparr>)" for i n w
      by (simp add: memcpy_out_def split: option.split)
    have in_buf: "snd (memcpy_out (unat o' - 12) 4 st) = st" by (rule memcpy_out_ok(1) [OF st(1) _ st(2)]) (use b in linarith)
    have "Section mem magic st = st\<lparr>buffer_offset := o', section_end := o' - 16 + le_word d\<rparr>"
      using ok f1 sec by (simp add: Section_def Let_def split_beta fx in_buf d_def flip: o'_def)
    moreover have "unat (o' - 16 + le_word d) = unat o' - 16 + unat (le_word d :: u32)"
    proof -
      have "unat (o' - 16) = unat o' - 16" using b(1) by (subst unat_sub) (simp_all add: word_le_nat_alt)
      then show ?thesis using b(2) unat_bound32 [of "buffer_length st"] by (simp add: unat_word_ariths)
    qed
    ultimately show ?thesis using ok b by (simp add: file_ok_def buffer_ok_def word_le_nat_alt)
  qed
  then show "file_ok (Section mem magic st)" "header_valid (Section mem magic st) = header_valid st" by blast+
qed

lemma Section_ok:
  assumes ok: "file_ok st" and m: "length magic = 4"
  shows "file_ok (Section mem magic st)" "header_valid (Section mem magic st) = header_valid st"
proof -
  have "file_ok (Section mem magic st) \<and> header_valid (Section mem magic st) = header_valid st"
  proof (cases "Error st \<or> finished st")
    case True
    then show ?thesis using ok by (simp add: Section_def)
  next
    case False
    then have e: "\<not> Error st" "\<not> finished st" by simp_all
    show ?thesis
    proof (cases "Saving st")
      case True
      define a where "a = begin_section st"
      obtain b c where c: "file_ok (CloseCurrentSection st)" "CloseCurrentSection st = st\<lparr>buffer := b, CurSection := c\<rparr>"
        using Close_ok [OF ok e(1)] by blast
      have a: "buffer_ok a" "buffer a \<noteq> None" "16 \<le> unat (buffer_length a)" "header_valid a = header_valid st"
        "CurSection a = buffer_offset a" "\<not> finished a"
        using c e by (simp_all add: a_def begin_section_def file_ok_def buffer_ok_def)
      have sz: "\<forall>d \<in> set (section_header magic). length d < 4294967296 \<and> d \<noteq> []"
        "sum_list (map length (section_header magic)) = 16" "section_header magic \<noteq> []"
        using m by (auto simp: section_header_def)
      note w = writes_kept [OF a(1) sz(1), of mem]
      show ?thesis
        using w a sz(2,3) by (auto simp: Section_save [OF True e] file_ok_def kept_def word_le_nat_alt simp flip: a_def)
    next
      case False
      then show ?thesis using Section_load [OF ok e] by blast
    qed
  qed
  then show "file_ok (Section mem magic st)" "header_valid (Section mem magic st) = header_valid st" by blast+
qed

lemma Finish_ok:
  assumes "file_ok st"
  shows "file_ok (Finish st)" "header_valid (Finish st) = header_valid st"
proof -
  have "file_ok (Finish st) \<and> header_valid (Finish st) = header_valid st"
  proof (cases "Error st \<or> finished st")
    case True
    then show ?thesis using assms by (simp add: Finish_def)
  next
    case False
    have fin: "file_ok (x\<lparr>finished := True\<rparr>) = file_ok x" for x by (simp add: file_ok_def buffer_ok_def)
    obtain b c where c: "file_ok (CloseCurrentSection st)" "CloseCurrentSection st = st\<lparr>buffer := b, CurSection := c\<rparr>"
      using Close_ok [OF assms] False by blast
    define x where "x = CloseCurrentSection st"
    have x: "buffer_ok x" "buffer x \<noteq> None" "16 \<le> unat (buffer_length x)" "\<not> Error x"
      using c False by (simp_all add: x_def file_ok_def)
    obtain b' where s: "buffer_ok (store 8 (lsb_bytes 4 (buffer_offset x)) x)"
      "store 8 (lsb_bytes 4 (buffer_offset x)) x = x\<lparr>buffer := Some b'\<rparr>"
      using store_ok [OF x(1) _ x(2), of 8 "lsb_bytes 4 (buffer_offset x)"] x(3) by auto
    have "file_ok (WriteStateLength x)" using c(1) s by (simp add: WriteStateLength_def file_ok_def flip: x_def)
    moreover have "header_valid (WriteStateLength x) = header_valid st"
      using s(2) c(2) by (simp add: WriteStateLength_def x_def)
    ultimately show ?thesis using False assms fin by (simp add: Finish_def flip: x_def)
  qed
  then show "file_ok (Finish st)" "header_valid (Finish st) = header_valid st" by blast+
qed

lemma RequireMinorVersion_ok:
  assumes "file_ok st"
  shows "file_ok (RequireMinorVersion v st)" "header_valid (RequireMinorVersion v st) = header_valid st"
proof -
  have "file_ok (RequireMinorVersion v st) \<and> header_valid (RequireMinorVersion v st) = header_valid st"
  proof (cases "Error st \<or> finished st \<or> \<not> Saving st \<or> \<not> header_valid st \<or> v > SAVESTATE_MAX_MINOR")
    case True
    then show ?thesis using assms file_ok_error [OF assms] by (auto simp: RequireMinorVersion_def)
  next
    case False
    have x: "buffer_ok st" "buffer st \<noteq> None" "16 \<le> unat (buffer_length st)"
      using assms False by (simp_all add: file_ok_def)
    have "snd (memcpy_out 6 2 st) = st" using memcpy_out_ok(1) [OF x(1) _ x(2)] x(3) by simp
    moreover obtain b where "buffer_ok (store 6 (lsb_bytes 2 v) st)" "store 6 (lsb_bytes 2 v) st = st\<lparr>buffer := Some b\<rparr>"
      using store_ok [OF x(1) _ x(2), of 6 "lsb_bytes 2 v"] x(3) by auto
    ultimately show ?thesis using assms False by (simp add: RequireMinorVersion_def MinorVersion_def split_beta Let_def file_ok_def)
  qed
  then show "file_ok (RequireMinorVersion v st)" "header_valid (RequireMinorVersion v st) = header_valid st" by blast+
qed

lemma Rewind_ok:
  assumes "file_ok st" "save \<Longrightarrow> header_valid st"
  shows "file_ok (Rewind save st)" "header_valid (Rewind save st) = header_valid st"
  using assms file_ok_error [OF assms(1)] by (auto simp: Rewind_def file_ok_def buffer_ok_def)

lemma version_ok:
  assumes "file_ok st" "header_valid st"
  shows "snd (IsAtLeastVersion a b st) = st"
proof -
  have x: "buffer_ok st" "buffer st \<noteq> None" "16 \<le> unat (buffer_length st)" using assms by (simp_all add: file_ok_def)
  have "snd (memcpy_out 4 2 st) = st" "snd (memcpy_out 6 2 st) = st" using memcpy_out_ok(1) [OF x(1) _ x(2)] x(3) by simp_all
  then show ?thesis by (simp add: IsAtLeastVersion_def MajorVersion_def MinorVersion_def split_beta Let_def)
qed

section \<open>Constructors\<close>

lemma header_size: "\<forall>d \<in> set file_header. length d < 4294967296 \<and> d \<noteq> []" "sum_list (map length file_header) = 16"
  by (simp_all add: file_header_def SAVESTATE_MAGIC_def)

lemma WriteSavestateHeader_ok:
  assumes "buffer_ok st" "buffer st \<noteq> None" "Saving st" "\<not> finished st" "CurSection st = NO_SECTION"
  shows "file_ok (WriteSavestateHeader mem st)"
  using writes_kept [OF assms(1) header_size(1), of mem] assms header_size(2)
  by (auto simp: WriteSavestateHeader_save file_ok_def kept_def buffer_ok_def file_header_def)

text \<open>What a reader accepts keeps its buffer.\<close>

definition same_file :: "savestate \<Rightarrow> savestate \<Rightarrow> bool" where
  "same_file st st' \<longleftrightarrow> kept st st' \<and> buffer st' = buffer st \<and> buffer_length st' = buffer_length st \<and> section_end st' = section_end st"

lemma same_file_trans:
  assumes "same_file a b" "same_file b c"
  shows "same_file a c"
proof -
  have "kept a c" by (rule kept_trans [of a b]) (use assms in \<open>simp_all add: same_file_def\<close>)
  then show ?thesis using assms by (simp add: same_file_def)
qed

lemma VarArray_load_same:
  assumes "buffer_ok st" "length d < 4294967296" "\<not> Saving st"
  shows "same_file st (snd (VarArray mem d st))"
proof (cases "Error st \<or> finished st \<or> d = []")
  case True
  then show ?thesis using assms by (auto simp: VarArray_def same_file_def)
next
  case False
  then have d: "d \<noteq> []" "\<not> Error st" "\<not> finished st" by simp_all
  have k: "kept st (snd (VarArray mem d st))" by (rule VarArray_kept(1) [OF assms(1,2)])
  show ?thesis
    by (rule VarArray_load [OF assms(1,2) d assms(3), of mem]) (use k in \<open>simp_all add: same_file_def\<close>)
qed

lemma read_header_ok:
  assumes "buffer_ok st" "buffer st \<noteq> None" "16 \<le> unat (buffer_length st)" "\<not> Saving st" "CurSection st = NO_SECTION"
  shows "file_ok (read_header mem st)"
proof -
  define a1 where "a1 = Var32 mem 0 st"
  define a2 where "a2 = Var16 mem 0 (snd a1)"
  define a3 where "a3 = Var16 mem 0 (snd a2)"
  define a4 where "a4 = Var32 mem 0 (snd a3)"
  have step: "same_file st (snd (Var32 mem v x))" "same_file st (snd (Var16 mem w x))" if "same_file st x" for x v w
  proof -
    have x: "buffer_ok x" "\<not> Saving x" using that assms(4) by (simp_all add: same_file_def kept_def)
    show "same_file st (snd (Var32 mem v x))" "same_file st (snd (Var16 mem w x))"
      unfolding Var_snd by (rule same_file_trans [OF that VarArray_load_same]; simp add: x)+
  qed
  have s: "same_file st st" using assms(1) by (simp add: same_file_def)
  have s1: "same_file st (snd a1)" using step(1) [OF s] by (simp add: a1_def)
  have s2: "same_file st (snd a2)" using step(2) [OF s1] by (simp add: a2_def)
  have s3: "same_file st (snd a3)" using step(2) [OF s2] by (simp add: a3_def)
  have s4: "same_file st (snd a4)" using step(1) [OF s3] by (simp add: a4_def)
  have ok: "file_ok x" "file_ok (x\<lparr>Error := True\<rparr>)" "file_ok (x\<lparr>buffer_offset := w, header_valid := True\<rparr>)"
    if "same_file st x" for x w
    using that assms by (auto simp: same_file_def kept_def file_ok_def buffer_ok_def)
  show ?thesis
    by (simp add: read_header_def split_beta Let_def flip: a1_def a2_def a3_def a4_def)
      (simp add: ok s1 s2 s3 s4)
qed

lemma savestate_over_ok:
  assumes "\<And>b. buf = Some b \<Longrightarrow> length b = unat sz"
  shows "file_ok (savestate_over mem buf sz save)"
proof -
  define st where "st = \<lparr>Error = False, Saving = save, CurSection = NO_SECTION, buffer = buf, buffer_offset = 0,
                buffer_length = sz, section_end = sz, buffer_owned = False, finished = False,
                header_valid = False, fault = False\<rparr>"
  have st: "buffer_ok st" "Saving st = save" "\<not> finished st" "CurSection st = NO_SECTION" "buffer st = buf" "buffer_length st = sz"
    using assms by (simp_all add: st_def buffer_ok_def)
  have eq: "savestate_over mem buf sz save = (if buf = None \<or> sz < 16 then st\<lparr>Error := True\<rparr>
         else if save then WriteSavestateHeader mem st else read_header mem st)"
    by (simp only: savestate_over_def Let_def st_def)
  have "file_ok (st\<lparr>Error := True\<rparr>)" using st by (simp add: file_ok_def buffer_ok_def) (simp add: st_def)
  moreover have "buf \<noteq> None \<Longrightarrow> save \<Longrightarrow> file_ok (WriteSavestateHeader mem st)"
    using WriteSavestateHeader_ok [OF st(1) _ _ st(3,4)] st(2,5) by simp
  moreover have "buf \<noteq> None \<Longrightarrow> \<not> sz < 16 \<Longrightarrow> \<not> save \<Longrightarrow> file_ok (read_header mem st)"
    using read_header_ok [OF st(1) _ _ _ st(4)] st(2,5,6) by (simp add: word_less_nat_alt not_less)
  ultimately show ?thesis by (simp add: eq)
qed

lemma savestate_new_ok:
  assumes "length (junk sz) = unat sz"
  shows "file_ok (savestate_new mem junk sz)"
proof -
  define st where "st = \<lparr>Error = False, Saving = True, CurSection = NO_SECTION,
                buffer = if mem sz then Some (junk sz) else None, buffer_offset = 0,
                buffer_length = sz, section_end = sz, buffer_owned = True, finished = False,
                header_valid = False, fault = False\<rparr>"
  have st: "buffer_ok st" "Saving st" "\<not> finished st" "CurSection st = NO_SECTION" "\<not> header_valid st"
    using assms by (simp_all add: st_def buffer_ok_def)
  have eq: "savestate_new mem junk sz = (if buffer st = None then st\<lparr>Error := True\<rparr> else WriteSavestateHeader mem st)"
    by (simp only: savestate_new_def Let_def st_def)
  have "file_ok (st\<lparr>Error := True\<rparr>)" using st by (simp add: file_ok_def buffer_ok_def)
  then show ?thesis using WriteSavestateHeader_ok [OF st(1) _ st(2-4)] by (simp add: eq)
qed

end
