(* ===== verification/SavestateProps.thy ===== *)
theory SavestateProps
  imports SavestateInv
begin

text \<open>
  Savestates as a whole: no sequence of calls leaves the buffer, with the one proviso that is needed.
\<close>

section \<open>Any sequence of calls\<close>

datatype ss_op =
    OSection "u8 list"
  | OArray "u8 list"
  | OBool bool
  | OBool32 bool
  | OFinish
  | ORequire u16
  | OVersion u32 u32
  | ORewind bool

fun ss_step :: "(u32 \<Rightarrow> bool) \<Rightarrow> ss_op \<Rightarrow> savestate \<Rightarrow> savestate" where
  "ss_step mem (OSection m) st = Section mem m st"
| "ss_step mem (OArray d) st = snd (VarArray mem d st)"
| "ss_step mem (OBool v) st = snd (VarBool mem v st)"
| "ss_step mem (OBool32 v) st = snd (Bool32 mem v st)"
| "ss_step mem OFinish st = Finish st"
| "ss_step mem (ORequire v) st = RequireMinorVersion v st"
| "ss_step mem (OVersion a b) st = snd (IsAtLeastVersion a b st)"
| "ss_step mem (ORewind save) st = Rewind save st"

text \<open>
  A magic number is four bytes and a length 32 bits; only a file whose header stood may be rewound for saving or asked for
  its version.
\<close>

fun op_ok :: "bool \<Rightarrow> ss_op \<Rightarrow> bool" where
  "op_ok valid (OSection m) = (length m = 4)"
| "op_ok valid (OArray d) = (length d < 4294967296)"
| "op_ok valid (OVersion a b) = valid"
| "op_ok valid (ORewind save) = (save \<longrightarrow> valid)"
| "op_ok valid x = True"

lemma ss_step_ok:
  assumes "file_ok st" "op_ok (header_valid st) x"
  shows "file_ok (ss_step mem x st) \<and> header_valid (ss_step mem x st) = header_valid st"
proof -
  have b: "buffer_ok st" using assms(1) by (simp add: file_ok_def)
  have k: "file_ok st' \<and> header_valid st' = header_valid st" if "kept st st'" for st'
    using kept_file_ok [OF assms(1) that] that by (simp add: kept_def)
  show ?thesis
    using assms k [OF VarArray_kept(1) [OF b]] k [OF Var_kept(5) [OF b]] k [OF Var_kept(6) [OF b]]
    by (cases x) (simp_all add: Section_ok Finish_ok RequireMinorVersion_ok version_ok Rewind_ok)
qed

lemma ss_run_ok:
  assumes "file_ok st" "list_all (op_ok (header_valid st)) ops"
  shows "file_ok (fold (ss_step mem) ops st)"
  using assms
proof (induction ops arbitrary: st)
  case (Cons x ops)
  then show ?case using ss_step_ok [of st x mem] by simp
qed simp

text \<open>C33. However a savestate is opened, on a buffer of its own or on any bytes of the caller's, and whatever calls follow,
  with any sections in the file and the host out of memory or not, every access stays inside the buffer; the
  calls on a file whose header was rejected must not ask for its version or rewind it for saving.\<close>

theorem savestate_memory_safe:
  assumes "st0 = savestate_over mem buf sz save \<and> (\<forall>b. buf = Some b \<longrightarrow> length b = unat sz) \<or>
      st0 = savestate_new mem junk sz \<and> length (junk sz) = unat sz"
    and "list_all (op_ok (header_valid st0)) ops"
  shows "\<not> fault (fold (ss_step mem) ops st0)"
proof -
  have "file_ok st0" using assms(1) savestate_over_ok [of buf sz mem save] savestate_new_ok [of junk sz mem] by blast
  then have "file_ok (fold (ss_step mem) ops st0)" using assms(2) by (rule ss_run_ok)
  then show ?thesis by (simp add: file_ok_def buffer_ok_def)
qed

theorem savestate_memory_safe_witness:
  "\<not> fault (fold (ss_step (\<lambda>n. True)) [OSection [1, 2, 3, 4], OArray [5], OFinish, ORewind False, OSection [1, 2, 3, 4]]
     (savestate_over (\<lambda>n. True) (Some (replicate 20 0)) 20 False))"
proof -
  define st0 where "st0 = savestate_over (\<lambda>n. True) (Some (replicate 20 0)) 20 False"
  show ?thesis unfolding st0_def [symmetric]
    by (rule savestate_memory_safe [of st0 "\<lambda>n. True" "Some (replicate 20 0)" 20 False "\<lambda>n. []"]) (simp_all add: st0_def)
qed

text \<open>C35. Without that proviso the buffer is left: on every buffer too short for a length field, rewinding for saving clears the
  error the constructor raised, and finishing the file then writes bytes 8 to 11, behind the end.\<close>

theorem Rewind_short_buffer:
  assumes "length b < 12"
  shows "let st = savestate_over mem (Some b) (of_nat (length b)) save
    in Error st \<and> \<not> fault st \<and> fault (Finish (Rewind True st))"
proof -
  have "(of_nat (length b) :: u32) < 16" using assms by (simp add: word_less_nat_alt unat_of_nat)
  then show ?thesis using assms
    by (simp add: savestate_over_def Let_def Rewind_def Finish_def CloseCurrentSection_def NO_SECTION_def WriteStateLength_def store_def)
qed

theorem Rewind_short_buffer_witness:
  "let st = savestate_over (\<lambda>n. True) (Some []) (of_nat (length ([] :: u8 list))) True
   in Error st \<and> \<not> fault st \<and> fault (Finish (Rewind True st))"
  by (rule Rewind_short_buffer) simp

end
