(* ===== verification/SavestateTrip.thy ===== *)
theory SavestateTrip
  imports SavestateInv
begin

text \<open>
  Sections written to a savestate are read back, in any order: the bytes a writer leaves, and what a reader finds in them.
\<close>

section \<open>Integers\<close>

lemma lsb_bytes_4: "lsb_bytes 4 x = [ucast x, ucast (drop_bit 8 x), ucast (drop_bit 16 x), ucast (drop_bit 24 x)]" for x :: u32
  by (simp add: lsb_bytes_def upt_rec numeral_eq_Suc)

lemma le_word_bytes: "le_word (lsb_bytes 4 x) = x" for x :: u32
proof (rule bit_word_eqI)
  fix i assume "i < LENGTH(32)"
  then have "i < 32" by simp
  then consider "i < 8" | "8 \<le> i" "i < 16" | "16 \<le> i" "i < 24" | "24 \<le> i" "i < 32" by linarith
  then show "bit (le_word (lsb_bytes 4 x) :: u32) i = bit x i"
    by cases (auto simp: lsb_bytes_4 le_word_def bit_simps)
qed

lemma lsb_bytes_zero [simp]: "lsb_bytes n 0 = replicate n 0"
  by (simp add: lsb_bytes_def map_replicate_trivial)

section \<open>The writer\<close>

definition plenty :: "u32 \<Rightarrow> bool" where "plenty n = True"

definition writer :: "savestate \<Rightarrow> bool" where
  "writer st \<longleftrightarrow> buffer_ok st \<and> \<not> Error st \<and> \<not> finished st \<and> Saving st \<and> buffer_owned st \<and> buffer st \<noteq> None \<and>
     buffer_offset st \<le> buffer_length st"

definition written :: "savestate \<Rightarrow> u8 list" where
  "written st = take (unat (buffer_offset st)) (the (buffer st))"

lemma Resize_owned: "buffer_owned (snd (Resize mem n st)) = buffer_owned st"
  by (simp add: Resize_def Let_def)

lemma length_written: "writer st \<Longrightarrow> length (written st) = unat (buffer_offset st)"
  by (auto simp: writer_def written_def buffer_ok_def word_le_nat_alt)

lemma write_appends:
  assumes w: "writer st" and room: "unat (buffer_offset st) + length d \<le> 0xFFFFFFFF"
  defines "st' \<equiv> snd (VarArray plenty d st)"
  shows "writer st' \<and> written st' = written st @ d \<and> CurSection st' = CurSection st \<and> header_valid st' = header_valid st"
proof (cases "d = []")
  case True
  then show ?thesis using w by (simp add: st'_def VarArray_def)
next
  case False
  have st: "buffer_ok st" "\<not> Error st" "\<not> finished st" "Saving st" "buffer_owned st" "buffer st \<noteq> None"
    "buffer_offset st \<le> buffer_length st" using w by (simp_all add: writer_def)
  have d: "length d < 4294967296" using room by simp
  define len where "len = (of_nat (length d) :: u32)"
  have ulen: "unat len = length d" using d by (simp add: len_def len32)
  have "unat (0xFFFFFFFF - buffer_offset st) = 4294967295 - unat (buffer_offset st)"
    by (subst unat_sub) (simp_all add: word_le_nat_alt, use unat_bound32 [of "buffer_offset st"] in simp)
  then have nolim: "\<not> len > 0xFFFFFFFF - buffer_offset st" using room ulen by (simp add: word_less_nat_alt)
  have noerr: "\<not> Error (snd (VarArray plenty d st))"
    using st nolim by (auto simp: VarArray_def Let_def Resize_def plenty_def store_def split: option.split simp flip: len_def)
  show ?thesis
  proof (rule VarArray_save [OF st(1) d False st(2-4), of plenty])
    assume "VarArray plenty d st = (d, st\<lparr>Error := True\<rparr>)"
    then show ?thesis using noerr by simp
  next
    fix st1
    assume st1: "buffer_ok st1" "st1 = st \<or> st1 = snd (Resize plenty (grown (buffer_length st) (of_nat (length d))) st)"
      "buffer_length st \<le> buffer_length st1" "unat (buffer_offset st) + length d \<le> unat (buffer_length st1)"
      "VarArray plenty d st = (d, (store (unat (buffer_offset st)) d st1)\<lparr>buffer_offset := buffer_offset st + of_nat (length d)\<rparr>)"
      "buffer st1 \<noteq> None"
    obtain b where b: "buffer st = Some b" "length b = unat (buffer_length st)" using st(1,6) by (auto simp: buffer_ok_def)
    obtain b1 where b1: "buffer st1 = Some b1" "length b1 = unat (buffer_length st1)" using st1(1,6) by (auto simp: buffer_ok_def)
    have off: "unat (buffer_offset st) \<le> length b" using st(7) b(2) by (simp add: word_le_nat_alt)
    have pre: "take (unat (buffer_offset st)) b1 = take (unat (buffer_offset st)) b"
      using st1(2) b b1(1) off st(5) by (auto simp: Resize_def plenty_def Let_def)
    have same: "Error st1 = Error st" "finished st1 = finished st" "Saving st1 = Saving st" "buffer_owned st1 = buffer_owned st"
      "CurSection st1 = CurSection st" "header_valid st1 = header_valid st"
      using st1(2) by (auto simp: Resize_owned)
    have s: "store (unat (buffer_offset st)) d st1 =
        st1\<lparr>buffer := Some (take (unat (buffer_offset st)) b1 @ d @ drop (unat (buffer_offset st) + length d) b1)\<rparr>"
      using b1 st1(4) by (simp add: store_def)
    have ok: "buffer_ok (store (unat (buffer_offset st)) d st1)" using store_ok(1) [OF st1(1,4,6)] .
    have add: "unat (buffer_offset st + of_nat (length d)) = unat (buffer_offset st) + length d"
      using room d by (simp add: unat_word_ariths len32)
    have eq: "st' = (store (unat (buffer_offset st)) d st1)\<lparr>buffer_offset := buffer_offset st + of_nat (length d)\<rparr>"
      by (simp add: st'_def st1(5))
    have "writer st'" using st ok same st1(4) add s by (simp add: eq writer_def buffer_ok_def word_le_nat_alt)
    moreover have "written st' = written st @ d"
      using add pre off b st1(4) b1(2) by (simp add: eq s written_def)
    ultimately show ?thesis using same s by (simp add: eq)
  qed
qed

lemma writes_append:
  assumes "writer st" "unat (buffer_offset st) + sum_list (map length ds) \<le> 0xFFFFFFFF"
  shows "writer (writes plenty ds st) \<and> written (writes plenty ds st) = written st @ concat ds \<and>
    CurSection (writes plenty ds st) = CurSection st \<and> header_valid (writes plenty ds st) = header_valid st"
  using assms
proof (induction ds arbitrary: st)
  case (Cons d ds)
  define a where "a = snd (VarArray plenty d st)"
  have a: "writer a" "written a = written st @ d" "CurSection a = CurSection st" "header_valid a = header_valid st"
    using write_appends [OF Cons.prems(1), of d] Cons.prems(2) by (simp_all add: a_def)
  have "unat (buffer_offset a) = unat (buffer_offset st) + length d"
    using length_written [OF a(1)] length_written [OF Cons.prems(1)] a(2) by simp
  then show ?case using Cons.IH [OF a(1)] Cons.prems(2) a by (simp flip: a_def)
qed simp

text \<open>A length that is filled in later.\<close>

lemma store_written:
  assumes "writer st" "i + length d \<le> unat (buffer_offset st)"
  shows "writer (store i d st)" "written (store i d st) = take i (written st) @ d @ drop (i + length d) (written st)"
    "\<exists>b. store i d st = st\<lparr>buffer := Some b\<rparr>"
proof -
  obtain b where b: "buffer st = Some b" "length b = unat (buffer_length st)" "unat (buffer_offset st) \<le> length b"
    using assms(1) by (auto simp: writer_def buffer_ok_def word_le_nat_alt)
  have s: "store i d st = st\<lparr>buffer := Some (take i b @ d @ drop (i + length d) b)\<rparr>"
    using b assms(2) by (simp add: store_def)
  show "writer (store i d st)" using assms b by (simp add: s writer_def buffer_ok_def)
  show "written (store i d st) = take i (written st) @ d @ drop (i + length d) (written st)"
    unfolding s using assms(2) b take_add [of i "unat (buffer_offset st) - i" b]
    by (cases "d = []") (simp_all add: written_def drop_take add.commute)
  show "\<exists>b. store i d st = st\<lparr>buffer := Some b\<rparr>" using s by blast
qed

section \<open>The bytes of a file\<close>

definition sec_bytes :: "u8 list \<times> u8 list \<Rightarrow> u8 list" where
  "sec_bytes = (\<lambda>(m, p). m @ lsb_bytes 4 (of_nat (16 + length p) :: u32) @ replicate 8 0 @ p)"

definition image :: "(u8 list \<times> u8 list) list \<Rightarrow> u8 list" where
  "image secs = concat (map sec_bytes secs)"

definition head_bytes :: "u32 \<Rightarrow> u8 list" where
  "head_bytes n = SAVESTATE_MAGIC @ lsb_bytes 2 SAVESTATE_MAJOR @ lsb_bytes 2 SAVESTATE_MINOR @ lsb_bytes 4 n @ replicate 4 0"

definition put_section :: "(u32 \<Rightarrow> bool) \<Rightarrow> savestate \<Rightarrow> u8 list \<times> u8 list \<Rightarrow> savestate" where
  "put_section mem st = (\<lambda>(m, p). snd (VarArray mem p (Section mem m st)))"

definition total :: "(u8 list \<times> u8 list) list \<Rightarrow> nat" where
  "total secs = sum_list (map (\<lambda>(m, p). 16 + length p) secs)"

lemma length_image: "\<forall>(m, p) \<in> set secs. length m = 4 \<Longrightarrow> length (image secs) = total secs"
  by (induction secs) (auto simp: image_def sec_bytes_def total_def)

lemma length_head [simp]: "length (head_bytes n) = 16"
  by (simp add: head_bytes_def SAVESTATE_MAGIC_def)

lemma image_snoc: "image (secs @ [s]) = image secs @ sec_bytes s"
  by (simp add: image_def)

text \<open>With its last section closed the file so far holds the sections.\<close>

definition holds :: "(u8 list \<times> u8 list) list \<Rightarrow> savestate \<Rightarrow> bool" where
  "holds secs st \<longleftrightarrow> writer st \<and> writer (CloseCurrentSection st) \<and> header_valid st \<and>
     buffer_offset (CloseCurrentSection st) = buffer_offset st \<and>
     written (CloseCurrentSection st) = head_bytes 0 @ image secs"

lemma put_section_holds:
  assumes h: "holds secs st" and m: "length m = 4" "\<forall>(m, p) \<in> set secs. length m = 4"
    and room: "16 + total (secs @ [(m, p)]) \<le> 0xFFFFFFFF"
  shows "holds (secs @ [(m, p)]) (put_section plenty st (m, p))"
proof -
  define A where "A = head_bytes 0 @ image secs"
  define c where "c = CloseCurrentSection st"
  define a where "a = begin_section st"
  have lenA: "length A = 16 + total secs" using m(2) by (simp add: A_def length_image)
  have c: "writer c" "written c = A" "buffer_offset c = buffer_offset st" using h by (simp_all add: holds_def c_def A_def)
  have st: "Saving st" "\<not> Error st" "\<not> finished st" "header_valid st" using h by (simp_all add: holds_def writer_def)
  have a_c: "a = c\<lparr>CurSection := buffer_offset c\<rparr>" by (simp add: a_def begin_section_def c_def)
  have a: "writer a" "written a = A" using c by (simp_all add: a_c writer_def written_def buffer_ok_def)
  have offa: "unat (buffer_offset a) = 16 + total secs" using length_written [OF a(1)] a(2) lenA by simp
  have hv: "header_valid a = header_valid st"
    using h by (auto simp: a_c c_def CloseCurrentSection_def store_def split: option.split)
  have size: "16 + total secs + 16 + length p \<le> 0xFFFFFFFF" using room by (simp add: total_def)
  define s where "s = Section plenty m st"
  have s: "writer s" "written s = A @ m @ replicate 12 0" "CurSection s = buffer_offset a" "header_valid s = header_valid a"
  proof -
    have "sum_list (map length (section_header m)) = 16" using m(1) by (simp add: section_header_def)
    then have "unat (buffer_offset a) + sum_list (map length (section_header m)) \<le> 0xFFFFFFFF" using size offa by simp
    from writes_append [OF a(1) this] a(2)
    have w: "writer s \<and> written s = A @ concat (section_header m) \<and> CurSection s = CurSection a \<and> header_valid s = header_valid a"
      by (simp add: s_def Section_save [OF st(1-3)] flip: a_def)
    moreover have "concat (section_header m) = m @ replicate 12 0" by (simp add: section_header_def numeral_eq_Suc)
    ultimately show "writer s" "written s = A @ m @ replicate 12 0" "CurSection s = buffer_offset a" "header_valid s = header_valid a"
      by (simp_all add: a_c)
  qed
  have offs: "unat (buffer_offset s) = 16 + total secs + 16" using length_written [OF s(1)] s(2) lenA m(1) by simp
  define t where "t = put_section plenty st (m, p)"
  have t: "writer t" "written t = A @ m @ replicate 12 0 @ p" "CurSection t = buffer_offset a" "header_valid t"
    using write_appends [OF s(1), of p] offs size s(2,3,4) hv st(4) by (simp_all add: t_def put_section_def flip: s_def)
  have offt: "unat (buffer_offset t) = 16 + total secs + 16 + length p" using length_written [OF t(1)] t(2) lenA m(1) by simp
  have cur: "unat (CurSection t) = 16 + total secs" using t(3) offa by simp
  have sec: "CurSection t \<noteq> NO_SECTION" using cur size by (auto simp: NO_SECTION_def)
  have fin: "\<not> finished t" using t(1) by (simp add: writer_def)
  have diff: "buffer_offset t - CurSection t = of_nat (16 + length p)"
  proof -
    have "unat (buffer_offset t - CurSection t) = 16 + length p"
      using offt cur by (subst unat_sub) (simp_all add: word_le_nat_alt)
    then show ?thesis by (metis of_nat_unat ucast_id)
  qed
  define l where "l = lsb_bytes 4 (of_nat (16 + length p) :: u32)"
  have "unat (CurSection t) + 4 + length l \<le> unat (buffer_offset t)" using cur offt by (simp add: l_def)
  note q = store_written [OF t(1) this]
  have close: "CloseCurrentSection t = (store (unat (CurSection t) + 4) l t)\<lparr>CurSection := NO_SECTION\<rparr>"
    using sec fin diff by (simp add: CloseCurrentSection_def l_def)
  have "take (unat (CurSection t) + 4) (written t) = A @ m" using cur lenA m(1) by (simp add: t(2))
  moreover have "drop (unat (CurSection t) + 4 + length l) (written t) = replicate 8 0 @ p"
    using cur lenA m(1) by (simp add: t(2) l_def)
  ultimately have "written (CloseCurrentSection t) = A @ m @ l @ replicate 8 0 @ p"
    using q(2) by (simp add: close written_def)
  moreover have "writer (CloseCurrentSection t)" "buffer_offset (CloseCurrentSection t) = buffer_offset t"
    using q(1,3) by (auto simp: close writer_def buffer_ok_def)
  ultimately show ?thesis
    using t(1,4) by (simp add: holds_def image_snoc A_def sec_bytes_def l_def flip: t_def)
qed

text \<open>The whole file.\<close>

lemma drop_head: "drop 12 (head_bytes n) = replicate 4 0" "take 8 (head_bytes n) = take 8 (head_bytes 0)"
  "take 8 (head_bytes 0) @ lsb_bytes 4 n @ replicate 4 0 = head_bytes n"
  by (simp_all add: head_bytes_def SAVESTATE_MAGIC_def)

lemma new_holds:
  assumes "length (junk sz) = unat sz"
  shows "holds [] (savestate_new plenty junk sz)"
proof -
  define st where "st = \<lparr>Error = False, Saving = True, CurSection = NO_SECTION, buffer = Some (junk sz), buffer_offset = 0,
                buffer_length = sz, section_end = sz, buffer_owned = True, finished = False,
                header_valid = False, fault = False\<rparr>"
  have st: "writer st" "written st = []" "CurSection st = NO_SECTION" "Saving st" "buffer_offset st = 0"
    using assms by (simp_all add: st_def writer_def buffer_ok_def written_def)
  define w where "w = writes plenty file_header st"
  have "unat (buffer_offset st) + sum_list (map length file_header) \<le> 0xFFFFFFFF" using st(5) header_size(2) by simp
  from writes_append [OF st(1) this] st(2,3)
  have w: "writer w" "written w = concat file_header" "CurSection w = NO_SECTION" by (simp_all add: w_def)
  have new: "savestate_new plenty junk sz = w\<lparr>header_valid := True\<rparr>"
    using w(1) st(4) by (simp add: savestate_new_def plenty_def [abs_def] writer_def st_def [symmetric] WriteSavestateHeader_save w_def)
      (simp add: savestate_new_def plenty_def st_def WriteSavestateHeader_save)
  have close: "CloseCurrentSection (w\<lparr>header_valid := True\<rparr>) = w\<lparr>header_valid := True\<rparr>"
    using w(3) by (simp add: CloseCurrentSection_def)
  have "concat file_header = head_bytes 0" by (simp add: file_header_def head_bytes_def numeral_eq_Suc)
  then show ?thesis using w by (simp add: holds_def new close image_def writer_def buffer_ok_def written_def)
qed

definition save_file :: "(u8 list \<times> u8 list) list \<Rightarrow> savestate \<Rightarrow> u8 list" where
  "save_file secs st = written (Finish (fold (\<lambda>s st. put_section plenty st s) secs st))"

lemma puts_hold:
  assumes "holds old st" "\<forall>(m, p) \<in> set (old @ secs). length m = 4" "16 + total (old @ secs) \<le> 0xFFFFFFFF"
  shows "holds (old @ secs) (fold (\<lambda>s st. put_section plenty st s) secs st)"
  using assms
proof (induction secs arbitrary: old st)
  case (Cons s secs)
  obtain m p where s: "s = (m, p)" by (cases s)
  have "16 + total (old @ [(m, p)]) \<le> 0xFFFFFFFF" using Cons.prems(3) by (simp add: total_def s)
  then have "holds (old @ [s]) (put_section plenty st s)"
    using put_section_holds [of old st m p] Cons.prems by (auto simp: s)
  then show ?case using Cons.IH [of "old @ [s]" "put_section plenty st s"] Cons.prems by simp
qed simp

lemma save_file_bytes:
  assumes "length (junk sz) = unat sz" "\<forall>(m, p) \<in> set secs. length m = 4" "16 + total secs \<le> 0xFFFFFFFF"
  shows "save_file secs (savestate_new plenty junk sz) = head_bytes (of_nat (16 + total secs)) @ image secs"
proof -
  define st where "st = fold (\<lambda>s st. put_section plenty st s) secs (savestate_new plenty junk sz)"
  have "holds ([] @ secs) st" unfolding st_def by (rule puts_hold [OF new_holds [of junk sz, OF assms(1)]]) (use assms in simp_all)
  then have h: "writer st" "writer (CloseCurrentSection st)" "written (CloseCurrentSection st) = head_bytes 0 @ image secs"
    by (simp_all add: holds_def)
  define c where "c = CloseCurrentSection st"
  have len: "unat (buffer_offset c) = 16 + total secs"
    using length_written [OF h(2)] h(3) assms(2) by (simp add: length_image c_def)
  then have off: "buffer_offset c = of_nat (16 + total secs)" by (metis of_nat_unat ucast_id)
  have "8 + length (lsb_bytes 4 (buffer_offset c)) \<le> unat (buffer_offset c)" using len by simp
  note s = store_written [OF h(2) [folded c_def] this]
  have "written (WriteStateLength c) = head_bytes (buffer_offset c) @ image secs"
    using s(2) h(3) drop_head(1) [of 0] drop_head(3) [of "buffer_offset c"]
    by (simp add: WriteStateLength_def flip: c_def)
  moreover have "Finish st = (WriteStateLength c)\<lparr>finished := True\<rparr>"
    using h(1) by (simp add: Finish_def writer_def c_def)
  ultimately show ?thesis by (simp add: save_file_def st_def [symmetric] written_def off)
qed

section \<open>The reader\<close>

definition reader :: "u8 list \<Rightarrow> savestate \<Rightarrow> bool" where
  "reader b st \<longleftrightarrow> buffer_ok st \<and> \<not> Error st \<and> \<not> finished st \<and> \<not> Saving st \<and> buffer st = Some b"

lemma read_exact:
  assumes "reader b st" "unat (buffer_offset st) + length d \<le> unat (section_end st)"
  shows "VarArray mem d st = (take (length d) (drop (unat (buffer_offset st)) b), st\<lparr>buffer_offset := buffer_offset st + of_nat (length d)\<rparr>)"
proof (cases "d = []")
  case True
  then show ?thesis by (simp add: VarArray_def)
next
  case False
  have st: "buffer_ok st" "\<not> Error st" "\<not> finished st" "\<not> Saving st" "buffer st = Some b" using assms(1) by (simp_all add: reader_def)
  have d: "length d < 4294967296" using assms(2) unat_bound32 [of "section_end st"] by linarith
  define len where "len = (of_nat (length d) :: u32)"
  have ulen: "unat len = length d" using d by (simp add: len_def len32)
  have se: "unat (section_end st) \<le> unat (buffer_length st)" using st(1) by (simp add: buffer_ok_def word_le_nat_alt)
  have "unat (0xFFFFFFFF - buffer_offset st) = 4294967295 - unat (buffer_offset st)"
    by (subst unat_sub) (simp_all add: word_le_nat_alt, use unat_bound32 [of "buffer_offset st"] in simp)
  then have c1: "\<not> len > 0xFFFFFFFF - buffer_offset st"
    using assms(2) ulen unat_bound32 [of "section_end st"] by (simp add: word_less_nat_alt)
  have c2: "buffer_offset st \<le> section_end st" using assms(2) by (simp add: word_le_nat_alt)
  then have c3: "\<not> len > section_end st - buffer_offset st"
    using assms(2) ulen by (simp add: word_less_nat_alt unat_sub)
  have c4: "\<not> buffer_offset st > buffer_length st" using c2 se by (simp add: word_le_nat_alt not_less)
  have c2': "\<not> buffer_offset st > section_end st" using c2 by simp
  have noerr: "\<not> Error (snd (VarArray mem d st))"
    using st c1 c2' c3 c4 by (simp add: VarArray_def Let_def memcpy_out_def split_beta flip: len_def)
  show ?thesis
    by (rule VarArray_load [OF st(1) d False st(2-4), of mem]) (use noerr st(5) in simp_all)
qed

lemma read_beyond:
  assumes "reader b st" "unat (section_end st) < unat (buffer_offset st) + length d" "length d < 4294967296" "d \<noteq> []"
  shows "VarArray mem d st = (d, st\<lparr>Error := True\<rparr>)"
proof -
  have st: "buffer_ok st" "\<not> Error st" "\<not> finished st" "\<not> Saving st" using assms(1) by (simp_all add: reader_def)
  show ?thesis by (rule VarArray_load [OF st(1) assms(3,4) st(2-4), of mem]) (use assms(2) in simp_all)
qed

lemma length_image_files: "length (head_bytes n @ image secs) = 16 + length (image secs)"
  by simp

text \<open>The header a writer leaves is accepted.\<close>

lemma open_accepts:
  assumes "fl = head_bytes (of_nat (length fl)) @ img" "length fl < 4294967296"
  shows "reader fl (savestate_over mem (Some fl) (of_nat (length fl)) False)"
    "buffer_length (savestate_over mem (Some fl) (of_nat (length fl)) False) = of_nat (length fl)"
    "header_valid (savestate_over mem (Some fl) (of_nat (length fl)) False)"
proof -
  define n where "n = (of_nat (length fl) :: u32)"
  have n: "unat n = length fl" using assms(2) by (simp add: n_def len32)
  have bts: "fl = SAVESTATE_MAGIC @ lsb_bytes 2 SAVESTATE_MAJOR @ lsb_bytes 2 SAVESTATE_MINOR @ lsb_bytes 4 n @ replicate 4 0 @ img"
    using assms(1) by (simp add: head_bytes_def flip: n_def)
  have len: "16 \<le> length fl" using arg_cong [OF assms(1), of length] by simp
  define st where "st = \<lparr>Error = False, Saving = False, CurSection = NO_SECTION, buffer = Some fl, buffer_offset = 0,
                buffer_length = n, section_end = n, buffer_owned = False, finished = False,
                header_valid = False, fault = False\<rparr>"
  have r: "reader fl (st\<lparr>buffer_offset := w\<rparr>)" for w using n by (simp add: reader_def st_def buffer_ok_def)
  have st0: "st = st\<lparr>buffer_offset := 0\<rparr>" by (simp add: st_def)
  have part: "VarArray mem d (st\<lparr>buffer_offset := w\<rparr>) = (take (length d) (drop (unat w) fl), st\<lparr>buffer_offset := w + of_nat (length d)\<rparr>)"
    if "unat w + length d \<le> 16" for w d
    using read_exact [OF r [of w], of d mem] that len n by (simp add: st_def)
  have bytes: "take 4 fl = SAVESTATE_MAGIC" "take 2 (drop 4 fl) = lsb_bytes 2 SAVESTATE_MAJOR"
    "take 2 (drop 6 fl) = lsb_bytes 2 SAVESTATE_MINOR" "take 4 (drop 8 fl) = lsb_bytes 4 n"
    unfolding bts by (simp_all add: SAVESTATE_MAGIC_def)
  have vals: "le_word (lsb_bytes 2 SAVESTATE_MAJOR) = SAVESTATE_MAJOR" "le_word (lsb_bytes 2 SAVESTATE_MINOR) = SAVESTATE_MINOR"
    by (simp_all add: le_word_def lsb_bytes_def SAVESTATE_MAJOR_def SAVESTATE_MINOR_def upt_rec)
  have 1: "Var32 mem 0 st = (le_word SAVESTATE_MAGIC, st\<lparr>buffer_offset := 4\<rparr>)"
    using part [of 0 "lsb_bytes 4 (0 :: u32)"] bytes(1) by (subst st0) (simp add: Var32_def)
  have 2: "Var16 mem 0 (st\<lparr>buffer_offset := 4\<rparr>) = (SAVESTATE_MAJOR, st\<lparr>buffer_offset := 6\<rparr>)"
    using part [of 4 "lsb_bytes 2 (0 :: u16)"] bytes(2) vals(1) by (simp add: Var16_def)
  have 3: "Var16 mem 0 (st\<lparr>buffer_offset := 6\<rparr>) = (SAVESTATE_MINOR, st\<lparr>buffer_offset := 8\<rparr>)"
    using part [of 6 "lsb_bytes 2 (0 :: u16)"] bytes(3) vals(2) by (simp add: Var16_def)
  have 4: "Var32 mem 0 (st\<lparr>buffer_offset := 8\<rparr>) = (n, st\<lparr>buffer_offset := 12\<rparr>)"
    using part [of 8 "lsb_bytes 4 (0 :: u32)"] bytes(4) by (simp add: Var32_def le_word_bytes)
  have "read_header mem st = st\<lparr>buffer_offset := 16, header_valid := True\<rparr>"
    by (simp add: read_header_def 1 2 3 4 Let_def) (simp add: SAVESTATE_MAJOR_def SAVESTATE_MINOR_def SAVESTATE_MAX_MINOR_def st_def)
  moreover have "\<not> n < 16" using len n by (simp add: word_less_nat_alt)
  ultimately have "savestate_over mem (Some fl) n False = st\<lparr>buffer_offset := 16, header_valid := True\<rparr>"
    by (simp add: savestate_over_def st_def Let_def)
  then show "reader fl (savestate_over mem (Some fl) (of_nat (length fl)) False)"
    "buffer_length (savestate_over mem (Some fl) (of_nat (length fl)) False) = of_nat (length fl)"
    "header_valid (savestate_over mem (Some fl) (of_nat (length fl)) False)"
    using r [of 16] by (simp_all add: reader_def buffer_ok_def st_def flip: n_def)
qed

lemma memcpy_out_reader: "reader b st \<Longrightarrow> i + n \<le> length b \<Longrightarrow> memcpy_out i n st = (take n (drop i b), st)"
  by (simp add: memcpy_out_def reader_def)

lemma length_sec: "length m = 4 \<Longrightarrow> length (sec_bytes (m, p)) = 16 + length p"
  by (simp add: sec_bytes_def)

text \<open>One turn of the search: the section at the offset.\<close>

lemma find_turn:
  assumes r: "reader fl st" "buffer_length st = of_nat (length fl)" "length fl < 4294967296"
    and fl: "fl = H @ sec_bytes (m', p) @ rest" and m: "length m' = 4"
  shows "find_section m (of_nat (length H)) st =
    (if m' = m then (of_nat (length H + 16), st) else find_section m (of_nat (length H + 16 + length p)) st)"
proof -
  have len: "length fl = length H + 16 + length p + length rest" using m by (simp add: fl length_sec)
  have o: "unat (of_nat (length H) :: u32) = length H" using len r(3) by (simp add: len32)
  have bl: "unat (buffer_length st) = length fl" using r(2,3) by (simp add: len32)
  have lt: "of_nat (length H) < buffer_length st" using len o bl by (simp add: word_less_nat_alt)
  have sub: "unat (buffer_length st - of_nat (length H)) = length fl - length H"
    using lt o bl by (subst unat_sub) simp_all
  have room: "\<not> buffer_length st - of_nat (length H) < 16" using sub len by (simp add: word_less_nat_alt)
  have f: "memcpy_out (length H + 4) 4 st = (lsb_bytes 4 (of_nat (16 + length p) :: u32), st)"
    using memcpy_out_reader [OF r(1), of "length H + 4" 4] len m by (simp add: fl sec_bytes_def)
  have g: "memcpy_out (length H) 4 st = (m', st)"
    using memcpy_out_reader [OF r(1), of "length H" 4] len m by (simp add: fl sec_bytes_def)
  have l: "unat (of_nat (16 + length p) :: u32) = 16 + length p" using len r(3) by (intro len32) simp
  have l1: "\<not> (of_nat (16 + length p) :: u32) < 16" using l by (simp add: word_less_nat_alt)
  have l2: "\<not> (of_nat (16 + length p) :: u32) > buffer_length st - of_nat (length H)"
    using l sub len by (simp add: word_less_nat_alt)
  have "find_section m (of_nat (length H)) st = (if m' = m then (of_nat (length H) + 16, st)
      else find_section m (of_nat (length H) + of_nat (16 + length p)) st)"
    using lt room l1 l2 by (subst find_section.simps) (simp only: Let_def o f g fst_conv snd_conv le_word_bytes simp_thms if_True if_False)
  then show ?thesis by (simp add: add.commute add.left_commute)
qed

lemma find_in:
  assumes r: "reader fl st" "buffer_length st = of_nat (length fl)" "length fl < 4294967296"
  shows "fl = H @ image (pre @ (m, p) # post) \<Longrightarrow> \<forall>(m, p) \<in> set (pre @ (m, p) # post). length m = 4 \<Longrightarrow> m \<notin> fst ` set pre \<Longrightarrow>
    find_section m (of_nat (length H)) st = (of_nat (length H + total pre + 16), st)"
proof (induction pre arbitrary: H)
  case Nil
  have "fl = H @ sec_bytes (m, p) @ image post" using Nil(1) by (simp add: image_def)
  from find_turn [OF r this, of m] Nil(2) show ?case by (simp add: total_def)
next
  case (Cons s pre)
  obtain m' p' where s: "s = (m', p')" by (cases s)
  have m': "length m' = 4" "m' \<noteq> m" using Cons.prems(2,3) by (auto simp: s)
  have fl: "fl = H @ sec_bytes (m', p') @ image (pre @ (m, p) # post)" using Cons.prems(1) by (simp add: image_def s)
  define H' where "H' = H @ sec_bytes (m', p')"
  have "length H' = length H + 16 + length p'" using m'(1) by (simp add: H'_def length_sec)
  moreover have "find_section m (of_nat (length H')) st = (of_nat (length H' + total pre + 16), st)"
    by (rule Cons.IH) (use fl Cons.prems(2,3) in \<open>auto simp: H'_def\<close>)
  ultimately show ?case using find_turn [OF r fl m'(1), of m] m'(2) by (simp add: total_def s add.assoc)
qed

text \<open>A section that is asked for.\<close>

definition get_section :: "(u32 \<Rightarrow> bool) \<Rightarrow> u8 list \<Rightarrow> u8 list \<Rightarrow> savestate \<Rightarrow> u8 list \<times> savestate" where
  "get_section mem m d st = VarArray mem d (Section mem m st)"

lemma get_section_found:
  fixes mem :: "u32 \<Rightarrow> bool"
  assumes r: "reader fl st" "buffer_length st = of_nat (length fl)" "length fl < 0xFFFFFFFF"
    and fl: "fl = head_bytes n @ image secs" "\<forall>(m, p) \<in> set secs. length m = 4" "distinct (map fst secs)"
    and m: "(m, p) \<in> set secs"
  defines "s \<equiv> Section mem m st"
  shows "reader fl s" "buffer_length s = buffer_length st"
    "length d = length p \<Longrightarrow> fst (VarArray mem d s) = p \<and> reader fl (snd (VarArray mem d s)) \<and>
       buffer_length (snd (VarArray mem d s)) = buffer_length st"
    "length d = length p + 1 \<Longrightarrow> length d < 4294967296 \<Longrightarrow> Error (snd (VarArray mem d s))"
proof -
  obtain pre post where split: "secs = pre @ (m, p) # post" using m by (meson split_list)
  have notin: "m \<notin> fst ` set pre" using fl(3) by (auto simp: split)
  have fl': "fl = head_bytes n @ image (pre @ (m, p) # post)" using fl(1) split by simp
  have m4: "length m = 4" using fl(2) m by auto
  define o' where "o' = (of_nat (16 + total pre + 16) :: u32)"
  have find: "FindSection m st = (o', st)"
    using find_in [OF r(1,2) _ fl' _ notin] r(3) fl(2) by (simp add: FindSection_def o'_def split)
  have lenpre: "length (image pre) = total pre" using fl(2) by (intro length_image) (simp add: split)
  have cut: "fl = (head_bytes n @ image pre) @ sec_bytes (m, p) @ image post" by (simp add: fl' image_def)
  have len: "length fl = 16 + total pre + 16 + length p + length (image post)"
    using arg_cong [OF cut, of length] m4 lenpre by (simp add: length_sec)
  have o': "unat o' = 16 + total pre + 16" unfolding o'_def by (rule len32) (use len r(3) in simp)
  have sec: "o' \<noteq> NO_SECTION"
  proof
    assume "o' = NO_SECTION"
    then have "16 + total pre + 16 = 0xFFFFFFFF" using o' by (simp add: NO_SECTION_def)
    then show False using len r(3) by simp
  qed
  have st: "buffer_ok st" "\<not> Error st" "\<not> finished st" "\<not> Saving st" "buffer st = Some fl" using r(1) by (simp_all add: reader_def)
  define l where "l = (of_nat (16 + length p) :: u32)"
  have l: "unat l = 16 + length p" unfolding l_def by (rule len32) (use len r(3) in simp)
  have f: "memcpy_out (unat o' - 12) 4 (st\<lparr>buffer_offset := w\<rparr>) = (lsb_bytes 4 l, st\<lparr>buffer_offset := w\<rparr>)" for w
  proof -
    have "reader fl (st\<lparr>buffer_offset := w\<rparr>)" using st by (simp add: reader_def buffer_ok_def)
    moreover have "drop (unat o' - 12) fl = lsb_bytes 4 l @ replicate 8 0 @ p @ image post"
      using lenpre m4 by (simp add: o' cut sec_bytes_def l_def)
    ultimately show ?thesis using memcpy_out_reader [of fl "st\<lparr>buffer_offset := w\<rparr>" "unat o' - 12" 4] len o' by simp
  qed
  have s: "s = st\<lparr>buffer_offset := o', section_end := o' - 16 + l\<rparr>"
    using st sec by (simp add: s_def Section_def find f le_word_bytes)
  have e: "unat (o' - 16 + l) = 16 + total pre + 16 + length p"
  proof -
    have "unat (o' - 16) = 16 + total pre" using o' by (subst unat_sub) (simp_all add: word_le_nat_alt)
    then show ?thesis using l len r(3) by (simp add: unat_word_ariths)
  qed
  have bl: "unat (buffer_length st) = length fl" using r(2,3) by (simp add: len32)
  show rs: "reader fl s" using st e len bl by (simp add: s reader_def buffer_ok_def word_le_nat_alt)
  show "buffer_length s = buffer_length st" by (simp add: s)
  have p: "take (length p) (drop (unat o') fl) = p" using lenpre m4 by (simp add: o' cut sec_bytes_def)
  {
    assume d: "length d = length p"
    have "VarArray mem d s = (p, s\<lparr>buffer_offset := o' + of_nat (length d)\<rparr>)"
      using read_exact [OF rs, of d mem] d e o' p by (simp add: s)
    then show "fst (VarArray mem d s) = p \<and> reader fl (snd (VarArray mem d s)) \<and>
       buffer_length (snd (VarArray mem d s)) = buffer_length st"
      using rs by (simp add: reader_def buffer_ok_def s)
  next
    assume d: "length d = length p + 1" "length d < 4294967296"
    then show "Error (snd (VarArray mem d s))" using read_beyond [OF rs, of d mem] e o' by (simp add: s length_0_conv [symmetric] del: length_0_conv)
  }
qed

section \<open>The round trip\<close>

text \<open>Sections asked for one after the other.\<close>

fun get_sections :: "(u32 \<Rightarrow> bool) \<Rightarrow> (u8 list \<times> u8 list) list \<Rightarrow> savestate \<Rightarrow> u8 list list \<times> savestate" where
  "get_sections mem [] st = ([], st)"
| "get_sections mem ((m, d) # asked) st =
     (let (p, st) = get_section mem m d st; (ps, st) = get_sections mem asked st in (p # ps, st))"

lemma get_sections_found:
  assumes "length fl < 0xFFFFFFFF" "fl = head_bytes n @ image secs" "\<forall>(m, p) \<in> set secs. length m = 4" "distinct (map fst secs)"
  shows "reader fl st \<Longrightarrow> buffer_length st = of_nat (length fl) \<Longrightarrow>
    \<forall>(m, d) \<in> set asked. \<exists>p. (m, p) \<in> set secs \<and> length d = length p \<Longrightarrow>
    fst (get_sections mem asked st) = map (\<lambda>(m, d). the (map_of secs m)) asked \<and>
    reader fl (snd (get_sections mem asked st)) \<and> buffer_length (snd (get_sections mem asked st)) = of_nat (length fl)"
proof (induction asked arbitrary: st)
  case (Cons a asked)
  obtain m d p where a: "a = (m, d)" "(m, p) \<in> set secs" "length d = length p" using Cons.prems(3) by (cases a) auto
  note g = get_section_found [where mem = mem, OF Cons.prems(1,2) assms a(2)]
  have mo: "map_of secs m = Some p" using assms(4) a(2) by simp
  have x: "fst (get_section mem m d st) = p" "reader fl (snd (get_section mem m d st))"
    "buffer_length (snd (get_section mem m d st)) = of_nat (length fl)"
    using g(3) [OF a(3)] Cons.prems(2) by (simp_all add: get_section_def)
  have rest: "\<forall>(m, d) \<in> set asked. \<exists>p. (m, p) \<in> set secs \<and> length d = length p" using Cons.prems(3) by simp
  show ?case using Cons.IH [OF x(2,3) rest] x(1) mo by (simp add: a(1) split_beta Let_def)
qed simp

text \<open>C34. Whatever sections with different magic numbers are saved to a fresh savestate that may grow, the finished file is
  accepted by a reader and gives back the bytes of every section, for any choice and order of sections; a
  read that goes on past a section's bytes fails instead of borrowing those of the next.\<close>

theorem sections_roundtrip:
  fixes mem :: "u32 \<Rightarrow> bool"
  assumes "\<forall>(m, p) \<in> set secs. length m = 4" "distinct (map fst secs)" "16 + total secs < 0xFFFFFFFF"
    and "length (junk sz) = unat sz"
    and "\<forall>(m, d) \<in> set asked. \<exists>p. (m, p) \<in> set secs \<and> length d = length p"
    and "(m, p) \<in> set secs" "length d = length p + 1"
  defines "fl \<equiv> save_file secs (savestate_new plenty junk sz)"
  defines "st \<equiv> savestate_over mem (Some fl) (of_nat (length fl)) False"
  shows "fst (get_sections mem asked st) = map (\<lambda>(m, d). the (map_of secs m)) asked \<and>
    \<not> Error (snd (get_sections mem asked st)) \<and>
    Error (snd (get_section mem m d (snd (get_sections mem asked st))))"
proof -
  have fl: "fl = head_bytes (of_nat (16 + total secs)) @ image secs"
    unfolding fl_def by (rule save_file_bytes [of junk sz, OF assms(4,1)]) (use assms(3) in simp)
  have len: "length fl = 16 + total secs" using length_image [OF assms(1)] by (simp add: fl)
  have small: "length fl < 0xFFFFFFFF" using assms(3) by (simp add: len)
  have "fl = head_bytes (of_nat (length fl)) @ image secs" using fl len by simp
  note op = open_accepts [where mem = mem, OF this, folded st_def]
  have st: "reader fl st" "buffer_length st = of_nat (length fl)" using op small by simp_all
  note g = get_sections_found [where mem = mem, OF small fl assms(1,2) st assms(5)]
  define s where "s = snd (get_sections mem asked st)"
  have s: "reader fl s" "buffer_length s = of_nat (length fl)" using g by (simp_all add: s_def)
  have mem4: "length p + 1 < 4294967296"
  proof -
    have "16 + length p \<le> total secs" using assms(6) member_le_sum_list [of "16 + length p" "map (\<lambda>(m, p). 16 + length p) secs"]
      by (force simp: total_def)
    then show ?thesis using assms(3) by simp
  qed
  have "Error (snd (get_section mem m d s))"
    using get_section_found(4) [where mem = mem, OF s small fl assms(1,2,6), of d] mem4 assms(7) by (simp add: get_section_def)
  then show ?thesis using g by (simp add: reader_def flip: s_def)
qed

theorem sections_roundtrip_witness:
  "fst (get_sections plenty [([5, 6, 7, 8], [0, 0]), ([1, 2, 3, 4], [0])]
     (let fl = save_file [([1, 2, 3, 4], [9]), ([5, 6, 7, 8], [10, 11])] (savestate_new plenty (\<lambda>n. []) 0)
      in savestate_over plenty (Some fl) (of_nat (length fl)) False)) = [[10, 11], [9]]"
  using sections_roundtrip [of "[([1, 2, 3, 4], [9]), ([5, 6, 7, 8], [10, 11])]" "\<lambda>n. []" 0
      "[([5, 6, 7, 8], [0, 0]), ([1, 2, 3, 4], [0])]" "[1, 2, 3, 4]" "[9]" "[0, 0]" plenty]
  by (simp add: total_def Let_def)

end
