(* ===== verification/GbaEeprom.thy ===== *)
theory GbaEeprom
  imports Savestate
begin

text \<open>
  The serial EEPROM of the GBA cartridges (\<^verbatim>\<open>src/src/GBACartEEPROM.cpp\<close>, \<^verbatim>\<open>GBACartEEPROM.h\<close>): one bit per access,
  a command, an address, and a block of eight bytes in or out, with a busy time after a write.

  The storage is a list of bytes; \<open>None\<close> is an access outside it.  \<open>eeprom_Write\<close> gives the offset it changed when
  the C++ function returns true.
\<close>

section \<open>State\<close>

datatype phase = Idle | Command | ReadAddress | ReadDummy | ReadData | WriteAddress | WriteData | WriteDummy

record eeprom =
  State :: phase
  AddressBits :: u8
  Bits :: u8
  Address :: u16
  Data :: u64
  BusyUntil :: u64

definition WriteBusyCycles :: u64 where "WriteBusyCycles = 217841"

definition new_eeprom :: eeprom where
  "new_eeprom = \<lparr>State = Idle, AddressBits = 0, Bits = 0, Address = 0, Data = 0, BusyUntil = 0\<rparr>"

definition ClearProtocol :: "eeprom \<Rightarrow> eeprom" where
  "ClearProtocol e = e\<lparr>State := Idle, AddressBits := 0, Bits := 0, Address := 0, Data := 0\<rparr>"

definition eeprom_Reset :: "eeprom \<Rightarrow> eeprom" where
  "eeprom_Reset e = (ClearProtocol e)\<lparr>BusyUntil := 0\<rparr>"

definition Deselect :: "bool \<Rightarrow> eeprom \<Rightarrow> eeprom" where
  "Deselect abort e = (if abort \<or> State e \<noteq> ReadData \<or> Bits e \<noteq> 0 then ClearProtocol e else e)"

definition Ready :: "u64 \<Rightarrow> eeprom \<Rightarrow> bool" where
  "Ready timestamp e \<longleftrightarrow> timestamp \<ge> BusyUntil e"

definition Active :: "u64 \<Rightarrow> eeprom \<Rightarrow> bool" where
  "Active timestamp e \<longleftrightarrow> State e \<noteq> Idle \<or> \<not> Ready timestamp e"

definition AcceptStorage :: "nat \<Rightarrow> eeprom \<Rightarrow> bool \<times> eeprom" where
  "AcceptStorage len e =
     (if len \<noteq> 512 \<and> len \<noteq> 8192 \<or> State e \<noteq> Idle \<and> AddressBits e \<noteq> (if len = 512 then 6 else 14)
      then (False, ClearProtocol e) else (True, e))"

section \<open>The bus\<close>

definition response_bit :: "u8 list \<Rightarrow> eeprom \<Rightarrow> u16 option" where
  "response_bit save e =
     (if Bits e \<ge> 4 then
        let n = unat (Bits e - 4); i = unat (Address e) * 8 + n div 8
        in if i < length save then Some (ucast (drop_bit (7 - n mod 8) (save ! i)) AND 1) else None
      else Some 0)"

definition eeprom_Read :: "u8 list \<Rightarrow> u64 \<Rightarrow> eeprom \<Rightarrow> (u16 \<times> eeprom) option" where
  "eeprom_Read save timestamp e =
     (if \<not> Ready timestamp e then Some (0, e)
      else
        let (ok, e) = AcceptStorage (length save) (e\<lparr>BusyUntil := 0\<rparr>) in
        if \<not> ok \<or> State e \<noteq> ReadData then Some (1, e)
        else
          case response_bit save e of
            None \<Rightarrow> None
          | Some result \<Rightarrow>
              let e = e\<lparr>Bits := Bits e + 1\<rparr> in Some (result, if Bits e = 68 then ClearProtocol e else e))"

text \<open>A bit of the address.\<close>

definition address_bit :: "u16 \<Rightarrow> nat \<Rightarrow> eeprom \<Rightarrow> eeprom" where
  "address_bit b len e =
     (let e = e\<lparr>Address := push_bit 1 (Address e) OR b, Bits := Bits e + 1\<rparr> in
      if Bits e = AddressBits e then
        e\<lparr>Address := Address e AND of_nat (len div 8 - 1), Bits := 0,
          State := if State e = ReadAddress then ReadDummy else WriteData\<rparr>
      else e)"

text \<open>The eight bytes of a finished write.\<close>

definition store_block :: "nat \<Rightarrow> u64 \<Rightarrow> u8 list \<Rightarrow> u8 list option" where
  "store_block offset d save =
     (if offset + 8 \<le> length save
      then Some (take offset save @ map (\<lambda>i. ucast (drop_bit (56 - 8 * i) d)) [0..<8] @ drop (offset + 8) save)
      else None)"

definition commit_block :: "u8 list \<Rightarrow> u64 \<Rightarrow> eeprom \<Rightarrow> (u32 option \<times> u8 list \<times> eeprom) option" where
  "commit_block save timestamp e =
     (if timestamp > 0xFFFFFFFFFFFFFFFF - WriteBusyCycles then Some (None, save, ClearProtocol e)
      else
        let changedOffset = ucast (Address e) * 8 in
        case store_block (unat changedOffset) (Data e) save of
          None \<Rightarrow> None
        | Some save \<Rightarrow> Some (Some changedOffset, save, ClearProtocol (e\<lparr>BusyUntil := timestamp + WriteBusyCycles\<rparr>)))"

definition eeprom_Write :: "u16 \<Rightarrow> u8 list \<Rightarrow> u64 \<Rightarrow> eeprom \<Rightarrow> (u32 option \<times> u8 list \<times> eeprom) option" where
  "eeprom_Write val save timestamp e =
     (if \<not> Ready timestamp e then Some (None, save, e)
      else
        let (ok, e) = AcceptStorage (length save) (e\<lparr>BusyUntil := 0\<rparr>) in
        if \<not> ok then Some (None, save, e)
        else
          let b = val AND 1 in
          case State e of
            Idle \<Rightarrow> Some (None, save,
              if b \<noteq> 0 then e\<lparr>AddressBits := if length save = 512 then 6 else 14, State := Command\<rparr> else e)
          | Command \<Rightarrow> Some (None, save, e\<lparr>State := if b \<noteq> 0 then ReadAddress else WriteAddress\<rparr>)
          | ReadAddress \<Rightarrow> Some (None, save, address_bit b (length save) e)
          | WriteAddress \<Rightarrow> Some (None, save, address_bit b (length save) e)
          | ReadDummy \<Rightarrow> Some (None, save, e\<lparr>State := ReadData\<rparr>)
          | ReadData \<Rightarrow> Some (None, save, e)
          | WriteData \<Rightarrow>
              let e = e\<lparr>Data := push_bit 1 (Data e) OR ucast b, Bits := Bits e + 1\<rparr>
              in Some (None, save, if Bits e = 64 then e\<lparr>Bits := 0, State := WriteDummy\<rparr> else e)
          | WriteDummy \<Rightarrow> commit_block save timestamp e)"

section \<open>Validity and savestates\<close>

definition phase_valid :: "u32 \<Rightarrow> eeprom \<Rightarrow> bool" where
  "phase_valid saveLength e =
     (case State e of
        Idle \<Rightarrow> False
      | Command \<Rightarrow> Bits e = 0 \<and> Address e = 0 \<and> Data e = 0
      | ReadAddress \<Rightarrow> Bits e < AddressBits e \<and> ucast (Address e) < (shl 1 (ucast (Bits e)) :: u32) \<and> Data e = 0
      | WriteAddress \<Rightarrow> Bits e < AddressBits e \<and> ucast (Address e) < (shl 1 (ucast (Bits e)) :: u32) \<and> Data e = 0
      | ReadDummy \<Rightarrow> Bits e = 0 \<and> ucast (Address e) < saveLength div 8 \<and> Data e = 0
      | ReadData \<Rightarrow> Bits e < 68 \<and> ucast (Address e) < saveLength div 8 \<and> Data e = 0
      | WriteData \<Rightarrow> Bits e < 64 \<and> ucast (Address e) < saveLength div 8 \<and> shr (Data e) (ucast (Bits e)) = 0
      | WriteDummy \<Rightarrow> Bits e = 0 \<and> ucast (Address e) < saveLength div 8)"

definition IsValid :: "u32 \<Rightarrow> eeprom \<Rightarrow> bool" where
  "IsValid saveLength e =
     (if BusyUntil e \<noteq> 0 \<and> (BusyUntil e < WriteBusyCycles \<or> saveLength \<noteq> 512 \<and> saveLength \<noteq> 8192) then False
      else if State e = Idle then AddressBits e = 0 \<and> Bits e = 0 \<and> Address e = 0 \<and> Data e = 0
      else if BusyUntil e \<noteq> 0 \<or> saveLength \<noteq> 512 \<and> saveLength \<noteq> 8192 \<or>
              AddressBits e \<noteq> (if saveLength = 512 then 6 else 14) then False
      else phase_valid saveLength e)"

definition phase_code :: "phase \<Rightarrow> u8" where
  "phase_code p = (case p of Idle \<Rightarrow> 0 | Command \<Rightarrow> 1 | ReadAddress \<Rightarrow> 2 | ReadDummy \<Rightarrow> 3 | ReadData \<Rightarrow> 4
     | WriteAddress \<Rightarrow> 5 | WriteData \<Rightarrow> 6 | WriteDummy \<Rightarrow> 7)"

text \<open>A byte that is no phase is not valid in any state.\<close>

definition phase_of :: "u8 \<Rightarrow> phase option" where
  "phase_of b = (if b = 0 then Some Idle else if b = 1 then Some Command else if b = 2 then Some ReadAddress
     else if b = 3 then Some ReadDummy else if b = 4 then Some ReadData else if b = 5 then Some WriteAddress
     else if b = 6 then Some WriteData else if b = 7 then Some WriteDummy else None)"

definition eeprom_DoSavestate :: "(u32 \<Rightarrow> bool) \<Rightarrow> u32 \<Rightarrow> eeprom \<Rightarrow> savestate \<Rightarrow> eeprom \<times> savestate" where
  "eeprom_DoSavestate mem saveLength e f =
     (if Error f then (e, f)
      else if Saving f \<and> \<not> IsValid saveLength e then (e, f\<lparr>Error := True\<rparr>)
      else
        let (phase, f) = Var8 mem (phase_code (State e)) f;
            (abits, f) = Var8 mem (AddressBits e) f;
            (bits, f) = Var8 mem (Bits e) f;
            (addr, f) = Var16 mem (Address e) f;
            (d, f) = Var64 mem (Data e) f;
            (busy, f) = Var64 mem (BusyUntil e) f
        in if Error f then (e, f)
           else case phase_of phase of
             None \<Rightarrow> (e, f\<lparr>Error := True\<rparr>)
           | Some p \<Rightarrow>
               let staged = \<lparr>State = p, AddressBits = abits, Bits = bits, Address = addr, Data = d, BusyUntil = busy\<rparr>
               in if \<not> IsValid saveLength staged then (e, f\<lparr>Error := True\<rparr>)
                  else (if Saving f then e else staged, f))"

end
