(* ===== verification/GbaEepromProps.thy ===== *)
theory GbaEepromProps
  imports GbaEeprom
begin

text \<open>
  The serial EEPROM keeps its own notion of validity, under any accesses on any storage, so that every access of the
  storage is inside it.
\<close>

section \<open>Validity\<close>

lemma of_nat_eq_sizes: "n < 4294967296 \<Longrightarrow> (of_nat n :: u32) = 512 \<longleftrightarrow> n = 512" "n < 4294967296 \<Longrightarrow> (of_nat n :: u32) = 8192 \<longleftrightarrow> n = 8192"
  by (auto simp: word_unat_eq_iff unat_of_nat)

text \<open>Validity in terms of numbers.\<close>

definition idle_regs :: "eeprom \<Rightarrow> bool" where
  "idle_regs e \<longleftrightarrow> State e = Idle \<and> AddressBits e = 0 \<and> Bits e = 0 \<and> Address e = 0 \<and> Data e = 0"

definition in_protocol :: "nat \<Rightarrow> eeprom \<Rightarrow> bool" where
  "in_protocol n e \<longleftrightarrow> State e \<noteq> Idle \<and> (n = 512 \<or> n = 8192) \<and> unat (AddressBits e) = (if n = 512 then 6 else 14) \<and>
     (case State e of
        Idle \<Rightarrow> False
      | Command \<Rightarrow> Bits e = 0 \<and> Address e = 0 \<and> Data e = 0
      | ReadAddress \<Rightarrow> unat (Bits e) < unat (AddressBits e) \<and> unat (Address e) < 2 ^ unat (Bits e) \<and> Data e = 0
      | WriteAddress \<Rightarrow> unat (Bits e) < unat (AddressBits e) \<and> unat (Address e) < 2 ^ unat (Bits e) \<and> Data e = 0
      | ReadDummy \<Rightarrow> Bits e = 0 \<and> unat (Address e) < n div 8 \<and> Data e = 0
      | ReadData \<Rightarrow> unat (Bits e) < 68 \<and> unat (Address e) < n div 8 \<and> Data e = 0
      | WriteData \<Rightarrow> unat (Bits e) < 64 \<and> unat (Address e) < n div 8 \<and> drop_bit (unat (Bits e)) (Data e) = 0
      | WriteDummy \<Rightarrow> Bits e = 0 \<and> unat (Address e) < n div 8)"

lemma unat_ucast8: "unat (ucast (w :: u8) :: u32) = unat w" "unat (ucast (v :: u16) :: u32) = unat v"
  by (simp_all add: unat_ucast_up)

lemma IsValid_iff:
  assumes "n < 4294967296"
  shows "IsValid (of_nat n) e \<longleftrightarrow>
    (BusyUntil e = 0 \<and> in_protocol n e) \<or>
    idle_regs e \<and> (BusyUntil e = 0 \<or> BusyUntil e \<ge> WriteBusyCycles \<and> (n = 512 \<or> n = 8192))"
proof -
  have pow: "unat (shl 1 (ucast b) :: u32) = 2 ^ unat b" if "unat b < 14" for b :: u8
  proof -
    have "(2 :: nat) ^ unat b < 2 ^ 32" using that by (intro power_strict_increasing) simp_all
    then have "unat (of_nat (2 ^ unat b) :: u32) = 2 ^ unat b" by (simp only: unat_of_nat) simp
    then show ?thesis by (simp add: shl_def push_bit_eq_mult unat_ucast8)
  qed
  have addr: "Bits e < AddressBits e \<and> ucast (Address e) < (shl 1 (ucast (Bits e)) :: u32) \<longleftrightarrow>
      unat (Bits e) < unat (AddressBits e) \<and> unat (Address e) < 2 ^ unat (Bits e)" if "unat (AddressBits e) \<le> 14"
    using that pow [of "Bits e"] by (auto simp: word_less_nat_alt unat_ucast8)
  have len: "unat ((of_nat n :: u32) div 8) = n div 8" using assms by (simp add: unat_div unat_of_nat)
  have "AddressBits e = k \<longleftrightarrow> unat (AddressBits e) = unat k" for k by (simp add: word_unat_eq_iff)
  then show ?thesis
    using addr
    by (cases "State e") (auto simp: IsValid_def phase_valid_def in_protocol_def idle_regs_def of_nat_eq_sizes [OF assms] len
        word_less_nat_alt unat_ucast8 shr_def not_le not_less split: if_splits)
qed

text \<open>The invariant over a storage of \<open>n\<close> bytes.\<close>

definition valid :: "nat \<Rightarrow> eeprom \<Rightarrow> bool" where
  "valid n e \<longleftrightarrow> (BusyUntil e = 0 \<and> in_protocol n e) \<or>
     idle_regs e \<and> (BusyUntil e = 0 \<or> BusyUntil e \<ge> WriteBusyCycles \<and> (n = 512 \<or> n = 8192))"

lemma valid_clear [simp]: "valid n (ClearProtocol (e\<lparr>BusyUntil := 0\<rparr>))" "valid n (eeprom_Reset e)"
  by (simp_all add: valid_def idle_regs_def ClearProtocol_def eeprom_Reset_def)

lemma valid_Deselect: "valid n e \<Longrightarrow> valid n (Deselect abort e)"
  by (auto simp: valid_def idle_regs_def ClearProtocol_def Deselect_def in_protocol_def)

text \<open>A ready chip on its storage: idle, or somewhere in a transfer.\<close>

lemma accept_valid:
  assumes "valid n e"
  obtains (refused) "AcceptStorage n (e\<lparr>BusyUntil := 0\<rparr>) = (False, ClearProtocol (e\<lparr>BusyUntil := 0\<rparr>))"
  | (idle) "AcceptStorage n (e\<lparr>BusyUntil := 0\<rparr>) = (True, e\<lparr>BusyUntil := 0\<rparr>)" "idle_regs e" "n = 512 \<or> n = 8192"
  | (running) "AcceptStorage n (e\<lparr>BusyUntil := 0\<rparr>) = (True, e)" "in_protocol n e" "BusyUntil e = 0"
proof -
  have bits: "AddressBits e = 6 \<longleftrightarrow> unat (AddressBits e) = 6" "AddressBits e = 14 \<longleftrightarrow> unat (AddressBits e) = 14"
    by (simp_all add: word_unat_eq_iff)
  have z: "BusyUntil e = 0 \<Longrightarrow> e\<lparr>BusyUntil := 0\<rparr> = e" by simp
  show thesis
  proof (cases "BusyUntil e = 0 \<and> in_protocol n e")
    case True
    then have "AcceptStorage n (e\<lparr>BusyUntil := 0\<rparr>) = (True, e)"
      using bits z by (auto simp: AcceptStorage_def in_protocol_def split: if_splits)
    then show thesis using True by (intro running) simp_all
  next
    case False
    then have i: "idle_regs e" using assms unfolding valid_def by blast
    show thesis
    proof (cases "n = 512 \<or> n = 8192")
      case True
      then have "AcceptStorage n (e\<lparr>BusyUntil := 0\<rparr>) = (True, e\<lparr>BusyUntil := 0\<rparr>)"
        using i by (auto simp: AcceptStorage_def idle_regs_def)
      then show thesis using i True by (rule idle)
    next
      case False
      then show thesis by (intro refused) (simp add: AcceptStorage_def)
    qed
  qed
qed

lemma eeprom_Read_ok:
  assumes "valid (length save) e"
  shows "\<exists>r e'. eeprom_Read save timestamp e = Some (r, e') \<and> valid (length save) e'"
proof (cases "Ready timestamp e")
  case False
  then show ?thesis using assms by (simp add: eeprom_Read_def)
next
  case True
  show ?thesis
  proof (rule accept_valid [OF assms])
    assume "AcceptStorage (length save) (e\<lparr>BusyUntil := 0\<rparr>) = (False, ClearProtocol (e\<lparr>BusyUntil := 0\<rparr>))"
    then show ?thesis using True by (simp add: eeprom_Read_def)
  next
    assume "AcceptStorage (length save) (e\<lparr>BusyUntil := 0\<rparr>) = (True, e\<lparr>BusyUntil := 0\<rparr>)" "idle_regs e"
    then show ?thesis using True by (simp add: eeprom_Read_def idle_regs_def valid_def)
  next
    assume a: "AcceptStorage (length save) (e\<lparr>BusyUntil := 0\<rparr>) = (True, e)" "in_protocol (length save) e" "BusyUntil e = 0"
    show ?thesis
    proof (cases "State e = ReadData")
      case False
      then show ?thesis using True a by (simp add: eeprom_Read_def valid_def)
    next
      case rd: True
      then have b: "unat (Bits e) < 68" "unat (Address e) < length save div 8" "Data e = 0" "length save = 512 \<or> length save = 8192"
        using a(2) by (auto simp: in_protocol_def)
      have "unat (Address e) * 8 + unat (Bits e - 4) div 8 < length save" if "Bits e \<ge> 4"
      proof -
        have "unat (Bits e - 4) = unat (Bits e) - 4" using that by (subst unat_sub) simp_all
        then show ?thesis using b by auto
      qed
      then have "response_bit save e \<noteq> None" by (simp add: response_bit_def Let_def)
      then obtain r where r: "response_bit save e = Some r" by auto
      have inc: "unat (Bits e + 1) = unat (Bits e) + 1" using b(1) by (simp add: unat_word_ariths)
      have end_bit: "Bits e + 1 = 68 \<longleftrightarrow> unat (Bits e) = 67" using inc by (auto simp: word_unat_eq_iff)
      have "valid (length save) (if Bits e + 1 = 68 then ClearProtocol (e\<lparr>Bits := Bits e + 1\<rparr>) else e\<lparr>Bits := Bits e + 1\<rparr>)"
        using a(2,3) b rd inc end_bit by (auto simp: valid_def in_protocol_def idle_regs_def ClearProtocol_def)
      then show ?thesis using True a(1) rd r by (simp add: eeprom_Read_def Let_def)
    qed
  qed
qed

lemma address_bit_ok:
  assumes "in_protocol n e" "State e = ReadAddress \<or> State e = WriteAddress" "b = 0 \<or> b = 1"
  shows "in_protocol n (address_bit b n e)" "BusyUntil (address_bit b n e) = BusyUntil e"
proof -
  have e: "unat (Bits e) < unat (AddressBits e)" "unat (Address e) < 2 ^ unat (Bits e)" "Data e = 0"
    "n = 512 \<or> n = 8192" "unat (AddressBits e) = (if n = 512 then 6 else 14)"
    using assms(1,2) by (auto simp: in_protocol_def)
  have b14: "unat (Bits e) < 14" using e by (auto split: if_splits)
  have inc: "unat (Bits e + 1) = unat (Bits e) + 1" using b14 by (simp add: unat_word_ariths)
  have a16: "unat (Address e) < 2 ^ 14"
    using e(2) power_strict_increasing [of "unat (Bits e)" 14 "2 :: nat"] b14 by simp
  have push: "unat (push_bit 1 (Address e)) = 2 * unat (Address e)"
    using a16 by (simp add: push_bit_eq_mult unat_word_ariths)
  have orb: "unat (push_bit 1 (Address e) OR b) = 2 * unat (Address e) + unat b"
  proof -
    have "push_bit 1 (Address e) OR b = push_bit 1 (Address e) + b"
      using assms(3) by (auto simp: or_one_eq)
    then show ?thesis using push a16 assms(3) by (auto simp: unat_word_ariths)
  qed
  have lt: "unat (push_bit 1 (Address e) OR b) < 2 ^ unat (Bits e + 1)"
  proof -
    have "unat b \<le> 1" using assms(3) by auto
    then show ?thesis using e(2) by (simp only: orb inc) simp
  qed
  have mask: "unat (v AND of_nat (n div 8 - 1)) < n div 8" for v :: u16
  proof -
    have "v AND of_nat (n div 8 - 1) \<le> (of_nat (n div 8 - 1) :: u16)" by (rule word_and_le1)
    then show ?thesis using e(4) by (auto simp: word_le_nat_alt)
  qed
  show "in_protocol n (address_bit b n e)" "BusyUntil (address_bit b n e) = BusyUntil e"
    using assms(1,2) e inc lt mask by (auto simp: address_bit_def Let_def in_protocol_def word_unat_eq_iff)
qed

lemma and_1: "(v AND 1 :: 'a::len word) = 0 \<or> v AND 1 = 1"
  by (simp add: and_one_eq mod_2_eq_odd)

lemma data_bit_ok:
  fixes d :: u64
  assumes "drop_bit k d = 0" "k < 64" "b = 0 \<or> b = 1"
  shows "drop_bit (k + 1) (push_bit 1 d OR b) = 0"
proof (rule bit_word_eqI)
  fix i assume "i < LENGTH(64)"
  have "\<not> bit (drop_bit k d) i" by (simp only: assms(1) bit_0_eq bot_apply) simp
  then have "\<not> bit d (k + i)" by (simp only: bit_drop_bit_eq comp_apply) simp
  moreover have "\<not> bit b (Suc (k + i))" using assms(3) by (auto simp: bit_simps)
  ultimately show "bit (drop_bit (k + 1) (push_bit 1 d OR b)) i = bit (0 :: u64) i"
    by (simp only: bit_drop_bit_eq comp_apply bit_or_iff bit_push_bit_iff) simp
qed

lemma eeprom_Write_ok:
  assumes "valid (length save) e"
  shows "\<exists>c save' e'. eeprom_Write v save timestamp e = Some (c, save', e') \<and> length save' = length save \<and> valid (length save) e'"
proof (cases "Ready timestamp e")
  case False
  then show ?thesis using assms by (simp add: eeprom_Write_def)
next
  case True
  define b where "b = v AND 1"
  have b: "b = 0 \<or> b = 1" unfolding b_def by (rule and_1)
  show ?thesis
  proof (rule accept_valid [OF assms])
    assume "AcceptStorage (length save) (e\<lparr>BusyUntil := 0\<rparr>) = (False, ClearProtocol (e\<lparr>BusyUntil := 0\<rparr>))"
    then show ?thesis using True by (simp add: eeprom_Write_def)
  next
    assume a: "AcceptStorage (length save) (e\<lparr>BusyUntil := 0\<rparr>) = (True, e\<lparr>BusyUntil := 0\<rparr>)" "idle_regs e"
      "length save = 512 \<or> length save = 8192"
    then show ?thesis using True b
      by (auto simp: eeprom_Write_def Let_def idle_regs_def valid_def in_protocol_def simp flip: b_def)
  next
    assume a: "AcceptStorage (length save) (e\<lparr>BusyUntil := 0\<rparr>) = (True, e)" "in_protocol (length save) e" "BusyUntil e = 0"
    note [simp] = eeprom_Write_def Let_def b_def [symmetric]
    show ?thesis
    proof (cases "State e")
      case Idle then show ?thesis using a(2) by (simp add: in_protocol_def)
    next
      case Command then show ?thesis using True a by (auto simp: valid_def in_protocol_def)
    next
      case ReadAddress then show ?thesis using True a address_bit_ok [OF a(2) _ b] by (simp add: valid_def)
    next
      case ReadDummy then show ?thesis using True a by (auto simp: valid_def in_protocol_def)
    next
      case ReadData then show ?thesis using True a by (simp add: valid_def)
    next
      case WriteAddress then show ?thesis using True a address_bit_ok [OF a(2) _ b] by (simp add: valid_def)
    next
      case WriteData
      then have d: "unat (Bits e) < 64" "drop_bit (unat (Bits e)) (Data e) = 0" using a(2) by (simp_all add: in_protocol_def)
      have inc: "unat (Bits e + 1) = unat (Bits e) + 1" using d(1) by (simp add: unat_word_ariths)
      have ub: "ucast b = (0 :: u64) \<or> ucast b = (1 :: u64)" using b by auto
      have "drop_bit (unat (Bits e) + 1) (push_bit 1 (Data e) OR ucast b) = 0" by (rule data_bit_ok [OF d(2,1) ub])
      then show ?thesis using True a WriteData inc d by (auto simp: valid_def in_protocol_def word_unat_eq_iff)
    next
      case WriteDummy
      then have i: "unat (Address e) < length save div 8" "length save = 512 \<or> length save = 8192"
        using a(2) by (auto simp: in_protocol_def)
      have off: "unat (ucast (Address e) * 8 :: u32) = unat (Address e) * 8"
        using i by (auto simp: unat_word_ariths unat_ucast8)
      have fits: "unat (Address e) * 8 + 8 \<le> length save" using i by auto
      have late: "WriteBusyCycles \<le> timestamp + WriteBusyCycles" if "\<not> 0xFFFFFFFFFFFFFFFF - WriteBusyCycles < timestamp"
      proof -
        have "unat timestamp \<le> 18446744073709333774" using that by (simp add: WriteBusyCycles_def word_less_nat_alt not_less)
        then have "unat (timestamp + 217841) = unat timestamp + 217841" by (simp add: unat_word_ariths)
        then show ?thesis by (simp add: WriteBusyCycles_def word_le_nat_alt)
      qed
      show ?thesis using True a WriteDummy fits off late i(2)
        by (auto simp: commit_block_def store_block_def valid_def idle_regs_def ClearProtocol_def)
    qed
  qed
qed

section \<open>Any accesses\<close>

datatype eeprom_op = OpReset | OpDeselect bool | OpRead u64 | OpWrite u16 u64

fun eeprom_step :: "eeprom_op \<Rightarrow> u8 list \<times> eeprom \<Rightarrow> (u8 list \<times> eeprom) option" where
  "eeprom_step OpReset (save, e) = Some (save, eeprom_Reset e)"
| "eeprom_step (OpDeselect abort) (save, e) = Some (save, Deselect abort e)"
| "eeprom_step (OpRead t) (save, e) = map_option (\<lambda>(r, e). (save, e)) (eeprom_Read save t e)"
| "eeprom_step (OpWrite v t) (save, e) = map_option (\<lambda>(c, save, e). (save, e)) (eeprom_Write v save t e)"

fun eeprom_run :: "eeprom_op list \<Rightarrow> u8 list \<times> eeprom \<Rightarrow> (u8 list \<times> eeprom) option" where
  "eeprom_run [] s = Some s"
| "eeprom_run (x # xs) s = (case eeprom_step x s of None \<Rightarrow> None | Some s \<Rightarrow> eeprom_run xs s)"

lemma eeprom_step_ok:
  assumes "valid (length save) e"
  shows "\<exists>save' e'. eeprom_step x (save, e) = Some (save', e') \<and> length save' = length save \<and> valid (length save) e'"
proof (cases x)
  case (OpRead t)
  then show ?thesis using eeprom_Read_ok [OF assms, of t] by auto
next
  case (OpWrite v t)
  then show ?thesis using eeprom_Write_ok [OF assms, of v t] by auto
qed (use assms in \<open>simp_all add: valid_Deselect\<close>)

text \<open>C36. On a storage of any size, whatever accesses reach the serial EEPROM at whatever times, every byte it touches lies inside
  the storage, whose size it keeps, and its registers are in a state that its own validity check accepts, so
  that they can be saved and loaded.\<close>

theorem eeprom_stays_valid:
  assumes "length save < 4294967296"
  shows "\<exists>save' e'. eeprom_run ops (save, new_eeprom) = Some (save', e') \<and> length save' = length save \<and>
    IsValid (of_nat (length save)) e'"
proof -
  have "\<exists>save' e'. eeprom_run ops (s, e) = Some (save', e') \<and> length save' = length s \<and> valid (length s) e'"
    if "valid (length s) e" for s e
    using that
  proof (induction ops arbitrary: s e)
    case (Cons x ops)
    obtain s1 e1 where 1: "eeprom_step x (s, e) = Some (s1, e1)" "length s1 = length s" "valid (length s) e1"
      using eeprom_step_ok [OF Cons.prems] by blast
    then show ?case using Cons.IH [of s1 e1] by simp
  qed simp
  moreover have "valid (length save) new_eeprom" by (simp add: valid_def idle_regs_def new_eeprom_def)
  ultimately obtain save' e' where r: "eeprom_run ops (save, new_eeprom) = Some (save', e')"
    "length save' = length save" "valid (length save) e'" by blast
  then have "IsValid (of_nat (length save)) e'" by (simp add: IsValid_iff [OF assms] valid_def)
  then show ?thesis using r by blast
qed

theorem eeprom_stays_valid_witness:
  "\<exists>save' e'. eeprom_run [OpWrite 1 0, OpWrite 1 0, OpRead 5, OpDeselect False] (replicate 512 0, new_eeprom) = Some (save', e') \<and>
    length save' = length (replicate 512 (0 :: u8)) \<and> IsValid (of_nat (length (replicate 512 (0 :: u8)))) e'"
  by (rule eeprom_stays_valid) simp

end
