(* ===== verification/GbaEepromTrip.thy ===== *)
theory GbaEepromTrip
  imports GbaEepromProps
begin

text \<open>
  A block that is clocked into the serial EEPROM bit by bit comes out of it bit by bit.
\<close>

section \<open>Transfers\<close>

text \<open>Values written at their times, with the offsets that are notified, and reads at their times.\<close>

fun send :: "(u16 \<times> u64) list \<Rightarrow> u8 list \<times> eeprom \<Rightarrow> (u32 list \<times> u8 list \<times> eeprom) option" where
  "send [] s = Some ([], s)"
| "send (x # xs) s =
     (case eeprom_Write (fst x) (fst s) (snd x) (snd s) of
        None \<Rightarrow> None
      | Some (c, s) \<Rightarrow>
          (case send xs s of
             None \<Rightarrow> None
           | Some (cs, s) \<Rightarrow> Some (case c of None \<Rightarrow> cs | Some offset \<Rightarrow> offset # cs, s)))"

fun receive :: "u64 list \<Rightarrow> u8 list \<times> eeprom \<Rightarrow> (u16 list \<times> eeprom) option" where
  "receive [] s = Some ([], snd s)"
| "receive (t # ts) s =
     (case eeprom_Read (fst s) t (snd s) of
        None \<Rightarrow> None
      | Some (r, e) \<Rightarrow>
          (case receive ts (fst s, e) of
             None \<Rightarrow> None
           | Some (rs, e) \<Rightarrow> Some (r # rs, e)))"

text \<open>The bits that the chip sees of what is written, and the number they stand for.\<close>

abbreviation bits_of :: "(u16 \<times> u64) list \<Rightarrow> bool list" where
  "bits_of xs \<equiv> map (\<lambda>x. odd (fst x)) xs"

definition clock_in :: "'a::len word \<Rightarrow> bool \<Rightarrow> 'a word" where
  "clock_in w b = push_bit 1 w OR (if b then 1 else 0)"

definition bits_value :: "bool list \<Rightarrow> 'a::len word" where
  "bits_value bs = foldl clock_in 0 bs"

lemma bit_bits_value: "bit (bits_value bs :: 'a::len word) i \<longleftrightarrow> i < LENGTH('a) \<and> i < length bs \<and> bs ! (length bs - 1 - i)"
proof (induction bs arbitrary: i rule: rev_induct)
  case Nil
  then show ?case by (simp add: bits_value_def)
next
  case (snoc b bs)
  have n: "(bits_value (bs @ [b]) :: 'a word) = push_bit 1 (bits_value bs) OR (if b then 1 else 0)"
    by (simp add: bits_value_def clock_in_def)
  show ?case
  proof (cases i)
    case 0
    have "bit (bits_value (bs @ [b]) :: 'a word) 0 \<longleftrightarrow> b" unfolding n by (simp only: bit_or_iff bit_push_bit_iff) simp
    then show ?thesis by (simp add: 0)
  next
    case (Suc j)
    have "bit (bits_value (bs @ [b]) :: 'a word) i \<longleftrightarrow> Suc j < LENGTH('a) \<and> bit (bits_value bs :: 'a word) j"
      unfolding n Suc by (simp only: bit_or_iff bit_push_bit_iff) (auto simp: bit_simps)
    moreover have "(bs @ [b]) ! (length (bs @ [b]) - 1 - i) = bs ! (length bs - 1 - j)" if "j < length bs"
    proof -
      have "length bs - Suc j < length bs" using that by simp
      then show ?thesis by (simp add: Suc nth_append)
    qed
    ultimately show ?thesis using snoc.IH [of j] by (auto simp: Suc)
  qed
qed

lemma send_append:
  assumes "send xs s = Some (cs, s1)" "send ys s1 = Some (ds, s2)"
  shows "send (xs @ ys) s = Some (cs @ ds, s2)"
  using assms(1)
proof (induction xs arbitrary: s cs)
  case Nil
  then show ?case using assms(2) by simp
next
  case (Cons x xs)
  obtain c s' where w: "eeprom_Write (fst x) (fst s) (snd x) (snd s) = Some (c, s')"
    using Cons.prems by (auto split: option.splits)
  obtain cs' where r: "send xs s' = Some (cs', s1)" "cs = (case c of None \<Rightarrow> cs' | Some k \<Rightarrow> k # cs')"
    using Cons.prems by (auto simp: w split: option.splits)
  show ?case using Cons.IH [OF r(1)] r(2) by (simp add: w split: option.split)
qed

lemma send_quiet: "eeprom_Write (fst x) (fst s) (snd x) (snd s) = Some (None, s1) \<Longrightarrow> send (x # xs) s = send xs s1"
  by (simp split: option.split)

section \<open>A chip in a transfer\<close>

definition chip :: "phase \<Rightarrow> nat \<Rightarrow> nat \<Rightarrow> u16 \<Rightarrow> u64 \<Rightarrow> eeprom" where
  "chip p nb k a d = \<lparr>State = p, AddressBits = of_nat nb, Bits = of_nat k, Address = a, Data = d, BusyUntil = 0\<rparr>"

definition sizes :: "nat \<Rightarrow> nat \<Rightarrow> bool" where
  "sizes n nb \<longleftrightarrow> n = 512 \<and> nb = 6 \<or> n = 8192 \<and> nb = 14"

lemma chip_simps [simp]:
  "State (chip p nb k a d) = p" "Bits (chip p nb k a d) = of_nat k" "Address (chip p nb k a d) = a" "Data (chip p nb k a d) = d"
  "AddressBits (chip p nb k a d) = of_nat nb" "BusyUntil (chip p nb k a d) = 0" "Ready t (chip p nb k a d)"
  "(chip p nb k a d)\<lparr>BusyUntil := 0\<rparr> = chip p nb k a d" "ClearProtocol (chip p nb k a d) = new_eeprom"
  by (simp_all add: chip_def Ready_def ClearProtocol_def new_eeprom_def)

lemma chip_updates [simp]:
  "(chip p nb k a d)\<lparr>State := q\<rparr> = chip q nb k a d" "(chip p nb k a d)\<lparr>Bits := of_nat j\<rparr> = chip p nb j a d"
  "(chip p nb k a d)\<lparr>Bits := 0\<rparr> = chip p nb 0 a d"
  "(chip p nb k a d)\<lparr>Address := b\<rparr> = chip p nb k b d" "(chip p nb k a d)\<lparr>Data := x\<rparr> = chip p nb k a x"
  by (simp_all add: chip_def)

lemma accept_chip [simp]: "sizes n nb \<Longrightarrow> AcceptStorage n (chip p nb k a d) = (True, chip p nb k a d)"
  by (auto simp: sizes_def AcceptStorage_def chip_def)

lemma of_nat_u8: "j < 256 \<Longrightarrow> m < 256 \<Longrightarrow> (of_nat j :: u8) = of_nat m \<longleftrightarrow> j = m"
  by (simp add: word_unat_eq_iff unat_of_nat)

lemma Suc_u8: "(of_nat k + 1 :: u8) = of_nat (Suc k)"
  by simp

lemma low_bit: "v AND 1 = (if odd v then 1 else 0)" for v :: u16
  by (simp add: and_one_eq mod_2_eq_odd)

lemma write_start:
  assumes "idle_regs e" "Ready t e" "sizes (length save) nb" "odd v"
  shows "eeprom_Write v save t e = Some (None, save, chip Command nb 0 0 0)"
proof -
  have "e\<lparr>BusyUntil := 0\<rparr> = chip Idle 0 0 0 0" using assms(1) by (simp add: idle_regs_def chip_def)
  then show ?thesis using assms(2-4)
    by (auto simp: eeprom_Write_def AcceptStorage_def low_bit sizes_def chip_def)
qed

lemma write_command:
  assumes "sizes (length save) nb"
  shows "eeprom_Write v save t (chip Command nb 0 0 0) = Some (None, save, chip (if odd v then ReadAddress else WriteAddress) nb 0 0 0)"
  using assms by (simp add: eeprom_Write_def low_bit)

lemma send_address:
  assumes "sizes (length save) nb" "p = ReadAddress \<or> p = WriteAddress" "k < nb" "length xs = nb - k"
  shows "send xs (save, chip p nb k a 0) =
    Some ([], save, chip (if p = ReadAddress then ReadDummy else WriteData) nb 0
      (foldl clock_in a (bits_of xs) AND of_nat (length save div 8 - 1)) 0)"
  using assms(3,4)
proof (induction xs arbitrary: k a)
  case (Cons x xs)
  have nb: "nb < 256" using assms(1) by (auto simp: sizes_def)
  have w: "eeprom_Write (fst x) save (snd x) (chip p nb k a 0) =
      Some (None, save, address_bit (fst x AND 1) (length save) (chip p nb k a 0))"
    using assms(1,2) by (auto simp: eeprom_Write_def)
  have s: "address_bit (fst x AND 1) (length save) (chip p nb k a 0) =
      (let a = clock_in a (odd (fst x)) in
       if Suc k = nb then chip (if p = ReadAddress then ReadDummy else WriteData) nb 0 (a AND of_nat (length save div 8 - 1)) 0
       else chip p nb (Suc k) a 0)"
    using nb Cons.prems(1) by (simp add: address_bit_def Suc_u8 of_nat_u8 Let_def clock_in_def low_bit del: of_nat_Suc)
  show ?case
  proof (cases "Suc k = nb")
    case True
    have "xs = []" using Cons.prems(2) by (simp add: True [symmetric])
    then show ?thesis using True by (simp add: w s Let_def)
  next
    case False
    then have "Suc k < nb" "length xs = nb - Suc k" using Cons.prems by simp_all
    from Cons.IH [OF this, of "clock_in a (odd (fst x))"] show ?thesis using False
      by (subst send_quiet) (simp_all add: w s Let_def)
  qed
qed simp

lemma send_data:
  assumes "sizes (length save) nb" "k < 64" "length xs = 64 - k"
  shows "send xs (save, chip WriteData nb k a d) = Some ([], save, chip WriteDummy nb 0 a (foldl clock_in d (bits_of xs)))"
  using assms(2,3)
proof (induction xs arbitrary: k d)
  case (Cons x xs)
  have 64: "(64 :: u8) = of_nat 64" by simp
  have w: "eeprom_Write (fst x) save (snd x) (chip WriteData nb k a d) =
      Some (None, save, let d = clock_in d (odd (fst x)) in if Suc k = 64 then chip WriteDummy nb 0 a d else chip WriteData nb (Suc k) a d)"
    using assms(1) Cons.prems(1) of_nat_u8 [of "Suc k" 64]
    by (simp add: eeprom_Write_def Suc_u8 Let_def clock_in_def low_bit del: of_nat_Suc)
  show ?case
  proof (cases "Suc k = 64")
    case True
    then have k: "k = 63" "xs = []" using Cons.prems by simp_all
    show ?thesis using w by (simp add: k Let_def)
  next
    case False
    then have "Suc k < 64" "length xs = 64 - Suc k" using Cons.prems by simp_all
    from Cons.IH [OF this, of "clock_in d (odd (fst x))"] show ?thesis using False
      by (subst send_quiet) (simp_all add: w Let_def)
  qed
qed simp

section \<open>What is stored and read\<close>

lemma store_block_nth:
  assumes "store_block off d save = Some save'" "i < length save"
  shows "save' ! i = (if off \<le> i \<and> i < off + 8 then ucast (drop_bit (56 - 8 * (i - off)) d) else save ! i)"
proof -
  have s: "off + 8 \<le> length save"
    "save' = take off save @ map (\<lambda>i. ucast (drop_bit (56 - 8 * i) d)) [0..<8] @ drop (off + 8) save"
    using assms(1) by (auto simp: store_block_def split: if_splits)
  consider "i < off" | "off \<le> i" "i < off + 8" | "off + 8 \<le> i" by linarith
  then show ?thesis
  proof cases
    case 1
    then show ?thesis using s assms(2) by (simp add: nth_append)
  next
    case 2
    then have "i - off < length [0..<8]" by simp
    then show ?thesis using s 2 unfolding s(2) by (simp only: nth_append length_append length_map length_take nth_map) simp
  next
    case 3
    then have "\<not> i - off < 8" by simp
    then show ?thesis using s assms(2) 3 unfolding s(2) by (simp add: nth_append)
  qed
qed

text \<open>The bit at position \<open>k\<close> of a reading: four zeros, then the block.\<close>

definition read_bit :: "u8 list \<Rightarrow> nat \<Rightarrow> nat \<Rightarrow> bool" where
  "read_bit save block k \<longleftrightarrow> k \<ge> 4 \<and> bit (save ! (block * 8 + (k - 4) div 8)) (7 - (k - 4) mod 8)"

lemma read_chip:
  assumes "sizes (length save) nb" "k < 68" "unat a < length save div 8"
  shows "eeprom_Read save t (chip ReadData nb k a 0) =
    Some (if read_bit save (unat a) k then 1 else 0, if Suc k = 68 then new_eeprom else chip ReadData nb (Suc k) a 0)"
proof -
  have len: "length save = length save div 8 * 8" using assms(1) by (auto simp: sizes_def)
  have k8: "unat (of_nat k :: u8) = k" using assms(2) by (simp add: unat_of_nat)
  have ge: "(of_nat k :: u8) \<ge> 4 \<longleftrightarrow> k \<ge> 4" by (simp add: word_le_nat_alt k8)
  have sub: "unat (of_nat k - 4 :: u8) = k - 4" if "k \<ge> 4" using that ge by (subst unat_sub) (simp_all add: k8)
  have i: "unat a * 8 + (k - 4) div 8 < length save" using assms(2,3) len by linarith
  have b: "ucast (drop_bit j (v :: u8)) AND (1 :: u16) = (if bit v j then 1 else 0)" for v j
  proof -
    have "odd (ucast (drop_bit j v) :: u16) \<longleftrightarrow> bit v j" by (simp flip: bit_0 add: bit_ucast_iff bit_drop_bit_eq)
    then show ?thesis by (simp only: low_bit)
  qed
  have "response_bit save (chip ReadData nb k a 0) = Some (if read_bit save (unat a) k then 1 else 0)"
    using i by (simp add: response_bit_def ge sub Let_def b read_bit_def)
  moreover have "(of_nat (Suc k) :: u8) = 68 \<longleftrightarrow> Suc k = 68" using of_nat_u8 [of "Suc k" 68] assms(2) by (simp del: of_nat_Suc)
  ultimately show ?thesis using assms(1) by (simp add: eeprom_Read_def Let_def Suc_u8 del: of_nat_Suc)
qed

lemma receive_block:
  assumes "sizes (length save) nb" "k < 68" "length ts = 68 - k" "unat a < length save div 8"
  shows "receive ts (save, chip ReadData nb k a 0) =
    Some (map (\<lambda>k. if read_bit save (unat a) k then 1 else 0) [k..<68], new_eeprom)"
  using assms(2,3)
proof (induction ts arbitrary: k)
  case (Cons t ts)
  note r = read_chip [OF assms(1) Cons.prems(1) assms(4), of t]
  show ?case
  proof (cases "Suc k = 68")
    case True
    then have k: "k = 67" "ts = []" using Cons.prems by simp_all
    show ?thesis using r by (simp add: k upt_rec)
  next
    case False
    then have n: "Suc k < 68" "length ts = 68 - Suc k" using Cons.prems by simp_all
    have "[k..<68] = k # [Suc k..<68]" using n(1) by (simp add: upt_rec)
    then show ?thesis using Cons.IH [OF n] False by (simp add: r)
  qed
qed simp

section \<open>A block written and read\<close>

definition block_address :: "u8 list \<Rightarrow> bool list \<Rightarrow> u16" where
  "block_address save bs = bits_value bs AND of_nat (length save div 8 - 1)"

lemma block_address_bound: "sizes (length save) nb \<Longrightarrow> unat (block_address save bs) < length save div 8"
proof -
  assume a: "sizes (length save) nb"
  have "block_address save bs \<le> (of_nat (length save div 8 - 1) :: u16)" unfolding block_address_def by (rule word_and_le1)
  then show ?thesis using a by (auto simp: sizes_def word_le_nat_alt)
qed

lemma send_write_block:
  assumes "sizes (length save) nb" "idle_regs e" "Ready t1 e" "odd v1" "even v2" "length was = nb" "length wds = 64"
    "t \<le> 0xFFFFFFFFFFFFFFFF - WriteBusyCycles"
  defines "block \<equiv> unat (block_address save (bits_of was))"
  obtains save' where "store_block (block * 8) (bits_value (bits_of wds)) save = Some save'"
    "send ((v1, t1) # (v2, t2) # was @ wds @ [(x, t)]) (save, e) =
      Some ([of_nat (block * 8)], save', new_eeprom\<lparr>BusyUntil := t + WriteBusyCycles\<rparr>)"
proof -
  let ?a = "block_address save (bits_of was)" and ?d = "bits_value (bits_of wds) :: u64"
  have nb: "nb > 0" using assms(1) by (auto simp: sizes_def)
  have bound: "block < length save div 8" unfolding block_def by (rule block_address_bound [OF assms(1)])
  have "block * 8 + 8 \<le> length save" using bound assms(1) by (auto simp: sizes_def)
  then obtain save' where save': "store_block (block * 8) ?d save = Some save'" by (simp add: store_block_def)
  have off: "ucast ?a * 8 = (of_nat (block * 8) :: u32)" by (simp add: block_def word_unat_eq_iff unat_word_ariths unat_ucast8 unat_of_nat)
  have "block * 8 < 4294967296" using bound assms(1) by (auto simp: sizes_def)
  then have "unat (of_nat (block * 8) :: u32) = block * 8" by (simp only: unat_of_nat) simp
  then have commit: "commit_block save t (chip WriteDummy nb 0 ?a ?d) =
      Some (Some (of_nat (block * 8)), save', new_eeprom\<lparr>BusyUntil := t + WriteBusyCycles\<rparr>)"
    using assms(8) save' by (simp add: commit_block_def off not_less) (simp add: ClearProtocol_def chip_def new_eeprom_def)
  have last: "send [(x, t)] (save, chip WriteDummy nb 0 ?a ?d) =
      Some ([of_nat (block * 8)], save', new_eeprom\<lparr>BusyUntil := t + WriteBusyCycles\<rparr>)"
    using assms(1) commit by (simp add: eeprom_Write_def)
  have d: "send wds (save, chip WriteData nb 0 ?a 0) = Some ([], save, chip WriteDummy nb 0 ?a ?d)"
    using send_data [OF assms(1), of 0 wds ?a 0] assms(7) by (simp add: bits_value_def)
  have a: "send was (save, chip WriteAddress nb 0 0 0) = Some ([], save, chip WriteData nb 0 ?a 0)"
    using send_address [OF assms(1), of WriteAddress 0 was 0] assms(6) nb by (simp add: bits_value_def block_address_def)
  have "send (was @ wds @ [(x, t)]) (save, chip WriteAddress nb 0 0 0) =
      Some ([of_nat (block * 8)], save', new_eeprom\<lparr>BusyUntil := t + WriteBusyCycles\<rparr>)"
    using send_append [OF a send_append [OF d last]] by simp
  then have "send ((v1, t1) # (v2, t2) # was @ wds @ [(x, t)]) (save, e) =
      Some ([of_nat (block * 8)], save', new_eeprom\<lparr>BusyUntil := t + WriteBusyCycles\<rparr>)"
    using assms(5) by (simp add: write_start [OF assms(2,3,1,4)] write_command [OF assms(1)])
  then show thesis using save' by (rule that [rotated])
qed

lemma send_read_command:
  assumes "sizes (length save) nb" "idle_regs e" "Ready t1 e" "odd v1" "odd v2" "length ras = nb"
  shows "send ((v1, t1) # (v2, t2) # ras @ [(y, t)]) (save, e) =
    Some ([], save, chip ReadData nb 0 (block_address save (bits_of ras)) 0)"
proof -
  let ?a = "block_address save (bits_of ras)"
  have nb: "nb > 0" using assms(1) by (auto simp: sizes_def)
  have "send [(y, t)] (save, chip ReadDummy nb 0 ?a 0) = Some ([], save, chip ReadData nb 0 ?a 0)"
    using assms(1) by (simp add: eeprom_Write_def)
  moreover have "send ras (save, chip ReadAddress nb 0 0 0) = Some ([], save, chip ReadDummy nb 0 ?a 0)"
    using send_address [OF assms(1), of ReadAddress 0 ras 0] assms(6) nb by (simp add: bits_value_def block_address_def)
  ultimately have "send (ras @ [(y, t)]) (save, chip ReadAddress nb 0 0 0) = Some ([], save, chip ReadData nb 0 ?a 0)"
    using send_append by fastforce
  then show ?thesis
    using assms(5) by (simp add: write_start [OF assms(2,3,1,4)] write_command [OF assms(1)])
qed

lemma read_bits_block:
  assumes "store_block (block * 8) (bits_value ds) save = Some save'" "block * 8 + 8 \<le> length save" "length ds = 64"
  shows "map (\<lambda>k. if read_bit save' block k then 1 else 0) [0..<68] = replicate 4 (0 :: u16) @ map (\<lambda>b. if b then 1 else 0) ds"
proof (rule nth_equalityI)
  fix k assume "k < length (map (\<lambda>k. if read_bit save' block k then 1 else (0 :: u16)) [0..<68])"
  then have k: "k < 68" by simp
  show "map (\<lambda>k. if read_bit save' block k then 1 else 0) [0..<68] ! k = (replicate 4 (0 :: u16) @ map (\<lambda>b. if b then 1 else 0) ds) ! k"
  proof (cases "k < 4")
    case True
    then show ?thesis by (simp add: read_bit_def nth_append)
  next
    case False
    define m where "m = k - 4"
    have m: "m < 64" "k = m + 4" using k False by (simp_all add: m_def)
    have q: "m div 8 < 8" "7 - m mod 8 < 8" "56 - 8 * (m div 8) + (7 - m mod 8) = 63 - m"
      using m(1) by presburger+
    have "save' ! (block * 8 + m div 8) = ucast (drop_bit (56 - 8 * (m div 8)) (bits_value ds :: u64))"
      using store_block_nth [OF assms(1), of "block * 8 + m div 8"] q(1) assms(2) by simp
    then have "read_bit save' block k \<longleftrightarrow> bit (bits_value ds :: u64) (63 - m)"
      using q(2,3) by (simp add: read_bit_def m(2) bit_ucast_iff bit_drop_bit_eq)
    also have "\<dots> \<longleftrightarrow> ds ! m" using m(1) assms(3) by (simp add: bit_bits_value less_imp_diff_less)
    finally show ?thesis using k m assms(3) by (simp add: nth_append)
  qed
qed (use assms(3) in simp)

lemma command_shape:
  assumes "bits_of xs = b1 # b2 # as @ zs"
  obtains v1 t1 v2 t2 xas xzs where "xs = (v1, t1) # (v2, t2) # xas @ xzs" "odd v1 = b1" "odd v2 = b2"
    "bits_of xas = as" "bits_of xzs = zs"
proof -
  obtain x1 x2 ys where 1: "xs = x1 # x2 # ys" "odd (fst x1) = b1" "odd (fst x2) = b2" "bits_of ys = as @ zs"
    using assms by (auto simp: Cons_eq_map_conv map_eq_Cons_conv)
  obtain xas xzs where "ys = xas @ xzs" "bits_of xas = as" "bits_of xzs = zs"
    using 1(4) by (auto simp: map_eq_append_conv)
  then show thesis using 1 that [of "fst x1" "snd x1" "fst x2" "snd x2" xas xzs] by simp
qed

text \<open>C37. On both sizes of the chip, clocking in a write command, an address, the 64 bits of a block and any dummy bit,
  from an idle chip that is ready, notifies one changed offset, that of the addressed block, and changes no
  byte of another block; the chip reads 0 until the write cycle ends.  From then on, a read command with any
  address that is decoded as the same block makes the next 68 reads give four zeros and the bits of the block, in
  order, and leaves the chip as new.  Each bit may come at its own time.\<close>

theorem eeprom_block_roundtrip:
  fixes block :: nat and finish :: u64
  assumes "length save = 512 \<and> nb = 6 \<or> length save = 8192 \<and> nb = 14"
    and "idle_regs e" "BusyUntil e \<le> snd (hd ws)"
    and "bits_of ws = True # False # as @ ds @ [x]" "length as = nb" "length ds = 64"
    and "snd (last ws) \<le> 0xFFFFFFFFFFFFFFFF - WriteBusyCycles"
    and "bits_of rs = True # True # as' @ [y]" "length as' = nb" "block_address save as' = block_address save as"
  defines "block \<equiv> unat (block_address save as)" and "finish \<equiv> snd (last ws) + WriteBusyCycles"
  assumes "finish \<le> snd (hd rs)" "length ts = 68"
  shows "\<exists>save' e1 e2. send ws (save, e) = Some ([of_nat (block * 8)], save', e1) \<and>
    length save' = length save \<and> (\<forall>i < length save. i div 8 \<noteq> block \<longrightarrow> save' ! i = save ! i) \<and>
    (\<forall>t < finish. eeprom_Read save' t e1 = Some (0, e1)) \<and>
    send rs (save', e1) = Some ([], save', e2) \<and>
    receive ts (save', e2) = Some (replicate 4 0 @ map (\<lambda>b. if b then 1 else 0) ds, new_eeprom)"
proof -
  have sz: "sizes (length save) nb" using assms(1) by (simp add: sizes_def)
  obtain v1 t1 v2 t2 was wzs where w: "ws = (v1, t1) # (v2, t2) # was @ wzs" "odd v1" "\<not> odd v2" "bits_of was = as"
    "bits_of wzs = ds @ [x]" using assms(4) by (rule command_shape) auto
  obtain wds xv t where wz: "wzs = wds @ [(xv, t)]" "bits_of wds = ds"
    using w(5) by (auto simp: map_eq_append_conv Cons_eq_map_conv map_eq_Cons_conv)
  obtain r1 s1 r2 s2 ras rzs where r: "rs = (r1, s1) # (r2, s2) # ras @ rzs" "odd r1 = True" "odd r2 = True" "bits_of ras = as'"
    "bits_of rzs = [y]" using assms(8) by (rule command_shape)
  obtain yv s where rz: "rzs = [(yv, s)]" using r(5) by (cases rzs) auto
  have "length was = nb" "length wds = 64" "length ras = nb"
    using w(4) wz(2) r(4) assms(5,6,9) by (metis length_map)+
  note l = this
  have t: "snd (last ws) = t" by (simp add: w(1) wz(1))
  obtain save' where st: "store_block (block * 8) (bits_value ds) save = Some save'"
    "send ws (save, e) = Some ([of_nat (block * 8)], save', new_eeprom\<lparr>BusyUntil := finish\<rparr>)"
    using send_write_block [OF sz assms(2) _ w(2) _ l(1,2), of t1 v2 t t2 xv] assms(3,7) w(3) t
    by (auto simp: Ready_def w(1,4) wz finish_def block_def)
  have bound: "block < length save div 8" unfolding block_def by (rule block_address_bound [OF sz])
  have fits: "block * 8 + 8 \<le> length save" using bound sz by (auto simp: sizes_def)
  have len: "length save' = length save" using st(1) by (auto simp: store_block_def split: if_splits)
  have others: "save' ! i = save ! i" if "i < length save" "i div 8 \<noteq> block" for i
    using store_block_nth [OF st(1) that(1)] that(2) by (auto split: if_splits)
  have same: "block_address save' as' = block_address save as"
    using assms(10) unfolding block_address_def len .
  have "idle_regs (new_eeprom\<lparr>BusyUntil := finish\<rparr>)" by (simp add: idle_regs_def new_eeprom_def)
  then have rd: "send rs (save', new_eeprom\<lparr>BusyUntil := finish\<rparr>) = Some ([], save', chip ReadData nb 0 (block_address save as) 0)"
    using send_read_command [of save' nb _ s1 r1 r2 ras s2 yv s] sz len r(2,3) l(3) assms(13)
    by (simp add: r(1,4) rz Ready_def same)
  have "receive ts (save', chip ReadData nb 0 (block_address save as) 0) =
      Some (replicate 4 0 @ map (\<lambda>b. if b then 1 else 0) ds, new_eeprom)"
    using receive_block [of save' nb 0 ts "block_address save as"] sz len bound assms(14)
      read_bits_block [OF st(1) fits assms(6)] by (simp add: block_def)
  then show ?thesis using st(2) len others rd by (auto simp: eeprom_Read_def Ready_def)
qed

theorem eeprom_block_roundtrip_witness:
  "\<exists>save' e1 e2. send (map (\<lambda>b. (if b then 1 else 0, 7)) (True # False # replicate 6 True @ replicate 64 True @ [False])) (replicate 512 0, new_eeprom) =
      Some ([of_nat (unat (block_address (replicate 512 0) (replicate 6 True)) * 8)], save', e1) \<and>
    length save' = length (replicate 512 (0 :: u8)) \<and>
    (\<forall>i < length (replicate 512 (0 :: u8)). i div 8 \<noteq> unat (block_address (replicate 512 0) (replicate 6 True)) \<longrightarrow>
      save' ! i = replicate 512 0 ! i) \<and>
    (\<forall>t < snd (last (map (\<lambda>b. (if b then 1 else (0 :: u16), 7)) (True # False # replicate 6 True @ replicate 64 True @ [False]))) + WriteBusyCycles.
      eeprom_Read save' t e1 = Some (0, e1)) \<and>
    send (map (\<lambda>b. (if b then 1 else 0, 300000)) (True # True # replicate 6 True @ [False])) (save', e1) = Some ([], save', e2) \<and>
    receive (replicate 68 300000) (save', e2) = Some (replicate 4 0 @ map (\<lambda>b. if b then 1 else 0) (replicate 64 True), new_eeprom)"
  by (rule eeprom_block_roundtrip [where nb = 6 and x = False and y = False])
    (simp_all add: idle_regs_def new_eeprom_def WriteBusyCycles_def comp_def)

end
