(* ===== verification/GbaEepromSave.thy ===== *)
theory GbaEepromSave
  imports GbaEepromProps SavestateTrip
begin

text \<open>
  The serial EEPROM in a savestate: what it saves it loads, and what it loads is a state it can go on from.
\<close>

section \<open>Numbers in a savestate\<close>

lemma bit_le_word: "bit (le_word bs :: 'a::len word) i \<longleftrightarrow> i < LENGTH('a) \<and> i div 8 < length bs \<and> bit (bs ! (i div 8)) (i mod 8)"
proof (induction bs arbitrary: i)
  case Nil
  then show ?case by (simp add: le_word_def)
next
  case (Cons b bs)
  have w: "(le_word (b # bs) :: 'a word) = ucast b OR push_bit 8 (le_word bs)" by (simp add: le_word_def)
  show ?case
  proof (cases "i < 8")
    case True
    then show ?thesis unfolding w by (simp add: bit_or_iff bit_push_bit_iff bit_ucast_iff)
  next
    case False
    define j where "j = i - 8"
    have j: "i = j + 8" using False by (simp add: j_def)
    have high: "\<not> bit b i" using False by (auto dest: bit_imp_le_length)
    have "bit (le_word (b # bs) :: 'a word) i \<longleftrightarrow> i < LENGTH('a) \<and> bit (le_word bs :: 'a word) j"
      unfolding w using False high by (simp add: bit_or_iff bit_push_bit_iff bit_ucast_iff flip: j_def)
    moreover have "i div 8 = Suc (j div 8)" "i mod 8 = j mod 8" by (simp_all add: j)
    ultimately show ?thesis using Cons.IH [of j] by (auto simp: j)
  qed
qed

lemma le_word_lsb_bytes:
  fixes x :: "'a::len word"
  assumes "LENGTH('a) \<le> 8 * n"
  shows "le_word (lsb_bytes n x) = x"
proof (rule bit_word_eqI)
  fix i assume i: "i < LENGTH('a)"
  have "i div 8 < n" using i assms by (simp add: div_less_iff_less_mult mult.commute)
  moreover have "8 * (i div 8) + i mod 8 = i" by simp
  ultimately show "bit (le_word (lsb_bytes n x) :: 'a word) i = bit x i"
    using i by (simp add: bit_le_word lsb_bytes_def bit_ucast_iff bit_drop_bit_eq)
qed

lemma length_lsb_bytes [simp]: "length (lsb_bytes n x) = n"
  by (simp add: lsb_bytes_def)

text \<open>A reader in front of some bytes of its section.\<close>

definition ahead :: "u8 list \<Rightarrow> u8 list \<Rightarrow> savestate \<Rightarrow> bool" where
  "ahead b ds st \<longleftrightarrow> reader b st \<and> unat (buffer_offset st) + length ds \<le> unat (section_end st) \<and>
     take (length ds) (drop (unat (buffer_offset st)) b) = ds"

lemma read_ahead:
  assumes "ahead b (x @ y) st" "length d = length x"
  obtains st' where "VarArray mem d st = (x, st')" "ahead b y st'"
proof
  have r: "reader b st" "unat (buffer_offset st) + length d + length y \<le> unat (section_end st)"
    "take (length x + length y) (drop (unat (buffer_offset st)) b) = x @ y"
    using assms by (simp_all add: ahead_def add.assoc)
  let ?st' = "st\<lparr>buffer_offset := buffer_offset st + of_nat (length d)\<rparr>"
  have x: "take (length x) (drop (unat (buffer_offset st)) b) = x"
    using arg_cong [OF r(3), of "take (length x)"] by simp
  show "VarArray mem d st = (x, ?st')" using read_exact [OF r(1), of d mem] r(2) assms(2) x by simp
  have "length d < 4294967296" using r(2) unat_bound32 [of "section_end st"] by linarith
  then have o: "unat (buffer_offset st + of_nat (length d)) = unat (buffer_offset st) + length d"
    using r(2) unat_bound32 [of "section_end st"] by (simp add: unat_word_ariths len32)
  have y: "take (length y) (drop (length x + unat (buffer_offset st)) b) = y"
    using arg_cong [OF r(3), of "drop (length x)"] by (simp add: drop_take)
  have "reader b ?st'" using r(1) by (simp add: reader_def buffer_ok_def)
  then show "ahead b y ?st'" using r(2) y assms(2) o by (simp add: ahead_def add_ac)
qed

lemma Var_ahead:
  assumes "ahead b (lsb_bytes n (x :: 'a::len word) @ y) st" "LENGTH('a) \<le> 8 * n"
  obtains st' where "(let (d, st) = VarArray mem (lsb_bytes n (v :: 'a word)) st in (le_word d, st)) = (x, st')" "ahead b y st'"
proof -
  obtain st' where "VarArray mem (lsb_bytes n v) st = (lsb_bytes n x, st')" "ahead b y st'"
    using read_ahead [OF assms(1), of "lsb_bytes n v"] by auto
  then show thesis using that [of st'] by (simp add: le_word_lsb_bytes [OF assms(2)])
qed

section \<open>The chip\<close>

text \<open>The 21 bytes of a chip.\<close>

definition eeprom_bytes :: "eeprom \<Rightarrow> u8 list list" where
  "eeprom_bytes e = [lsb_bytes 1 (phase_code (State e)), lsb_bytes 1 (AddressBits e), lsb_bytes 1 (Bits e),
     lsb_bytes 2 (Address e), lsb_bytes 8 (Data e), lsb_bytes 8 (BusyUntil e)]"

lemma phase_of_code [simp]: "phase_of (phase_code p) = Some p"
  by (cases p) (simp_all add: phase_of_def phase_code_def)

lemma Var_saved:
  assumes "LENGTH('a) \<le> 8 * n" "Saving st"
  shows "(let (d, st) = VarArray mem (lsb_bytes n (v :: 'a::len word)) st in (le_word d, st)) = (v, snd (VarArray mem (lsb_bytes n v) st))"
  using VarArray_saving [OF assms(2), of mem "lsb_bytes n v"] by (simp add: split_beta le_word_lsb_bytes [OF assms(1)])

lemma Vars_saved:
  assumes "Saving st"
  shows "Var8 mem v8 st = (v8, snd (VarArray mem (lsb_bytes 1 v8) st))" "Var16 mem v16 st = (v16, snd (VarArray mem (lsb_bytes 2 v16) st))"
    "Var64 mem v64 st = (v64, snd (VarArray mem (lsb_bytes 8 v64) st))"
  unfolding Var8_def Var16_def Var64_def by (rule Var_saved, simp, rule assms)+

lemma eeprom_eta [simp]:
  "\<lparr>State = State e, AddressBits = AddressBits e, Bits = Bits e, Address = Address e, Data = Data e, BusyUntil = BusyUntil e\<rparr> = e"
  by (cases e) simp

lemma eeprom_saved:
  assumes "Saving st" "\<not> Error st" "IsValid n e"
  shows "eeprom_DoSavestate mem n e st = (e, writes mem (eeprom_bytes e) st)"
  using assms by (simp add: eeprom_DoSavestate_def Vars_saved VarArray_saving eeprom_bytes_def Let_def)

lemma eeprom_loaded:
  assumes "ahead b (concat (eeprom_bytes e)) st" "IsValid n e"
  obtains st' where "eeprom_DoSavestate mem n e0 st = (e, st')" "\<not> Error st'" "Saving st' = Saving st"
proof -
  have r: "reader b st" using assms(1) by (simp add: ahead_def)
  obtain s1 where 1: "Var8 mem (phase_code (State e0)) st = (phase_code (State e), s1)"
    "ahead b (concat (drop 1 (eeprom_bytes e))) s1"
    using Var_ahead [where b = b and n = 1 and x = "phase_code (State e)" and st = st and v = "phase_code (State e0)" and mem = mem] assms(1)
    by (auto simp: eeprom_bytes_def Var8_def)
  obtain s2 where 2: "Var8 mem (AddressBits e0) s1 = (AddressBits e, s2)" "ahead b (concat (drop 2 (eeprom_bytes e))) s2"
    using Var_ahead [where b = b and n = 1 and x = "AddressBits e" and st = s1 and v = "AddressBits e0" and mem = mem] 1(2) by (auto simp: eeprom_bytes_def Var8_def)
  obtain s3 where 3: "Var8 mem (Bits e0) s2 = (Bits e, s3)" "ahead b (concat (drop 3 (eeprom_bytes e))) s3"
    using Var_ahead [where b = b and n = 1 and x = "Bits e" and st = s2 and v = "Bits e0" and mem = mem] 2(2) by (auto simp: eeprom_bytes_def Var8_def)
  obtain s4 where 4: "Var16 mem (Address e0) s3 = (Address e, s4)" "ahead b (concat (drop 4 (eeprom_bytes e))) s4"
    using Var_ahead [where b = b and n = 2 and x = "Address e" and st = s3 and v = "Address e0" and mem = mem] 3(2) by (auto simp: eeprom_bytes_def Var16_def)
  obtain s5 where 5: "Var64 mem (Data e0) s4 = (Data e, s5)" "ahead b (lsb_bytes 8 (BusyUntil e) @ []) s5"
    using Var_ahead [where b = b and n = 8 and x = "Data e" and st = s4 and v = "Data e0" and mem = mem] 4(2) by (auto simp: eeprom_bytes_def Var64_def)
  obtain s6 where 6: "Var64 mem (BusyUntil e0) s5 = (BusyUntil e, s6)" "ahead b [] s6"
    using Var_ahead [OF 5(2), where v = "BusyUntil e0" and mem = mem] by (auto simp: Var64_def)
  have s6: "\<not> Error s6" "\<not> Saving s6" using 6(2) by (simp_all add: ahead_def reader_def)
  have st: "\<not> Error st" "\<not> Saving st" using r by (simp_all add: reader_def)
  show thesis
    by (rule that [of s6]) (use assms(2) st s6 in \<open>simp_all add: eeprom_DoSavestate_def 1(1) 2(1) 3(1) 4(1) 5(1) 6(1)\<close>)
qed

lemma Var_Saving [simp]:
  "Saving (snd (VarArray mem d st)) = Saving st"
  "Saving (snd (Var8 mem v8 st)) = Saving st" "Saving (snd (Var16 mem v16 st)) = Saving st" "Saving (snd (Var64 mem v64 st)) = Saving st"
proof -
  show a: "Saving (snd (VarArray mem d st)) = Saving st" for d st
    by (auto simp: VarArray_def Let_def split_beta Resize_def memcpy_out_def split: option.splits)
  show "Saving (snd (Var8 mem v8 st)) = Saving st" "Saving (snd (Var16 mem v16 st)) = Saving st" "Saving (snd (Var64 mem v64 st)) = Saving st"
    by (simp_all add: Var8_def Var16_def Var64_def a split_beta Let_def)
qed

lemma eeprom_load_cases:
  assumes "\<not> Saving f"
  shows "let (e', f') = eeprom_DoSavestate mem n e f in Error f' \<and> e' = e \<or> \<not> Error f' \<and> IsValid n e'"
  using assms by (auto simp: eeprom_DoSavestate_def Let_def split_beta split: option.split)

text \<open>A chip in a valid state is appended to a savestate without an error; wherever a reader finds the 21 bytes that were
  added, it makes any chip the one that was saved.  From any other bytes, or none, a chip is either left alone with
  an error or put in a valid state.\<close>

lemma eeprom_savestate_roundtrip:
  fixes mem :: "u32 \<Rightarrow> bool" and st' :: savestate
  assumes "IsValid n e" "writer st" "unat (buffer_offset st) + 21 \<le> 0xFFFFFFFF"
  defines "st' \<equiv> snd (eeprom_DoSavestate plenty n e st)"
  assumes "reader b f" "unat (buffer_offset f) + 21 \<le> unat (section_end f)"
    and "take 21 (drop (unat (buffer_offset f)) b) = drop (length (written st)) (written st')"
    and "\<not> Saving g"
  shows "writer st' \<and> take (length (written st)) (written st') = written st \<and>
    fst (eeprom_DoSavestate mem n e0 f) = e \<and> \<not> Error (snd (eeprom_DoSavestate mem n e0 f)) \<and>
    (let (e', g') = eeprom_DoSavestate mem n e0 g in Error g' \<and> e' = e0 \<or> \<not> Error g' \<and> IsValid n e')"
proof -
  have st: "Saving st" "\<not> Error st" using assms(2) by (simp_all add: writer_def)
  have len: "length (concat (eeprom_bytes e)) = 21" "sum_list (map length (eeprom_bytes e)) = 21"
    by (simp_all add: eeprom_bytes_def)
  have w: "writer st'" "written st' = written st @ concat (eeprom_bytes e)"
    using writes_append [OF assms(2), of "eeprom_bytes e"] assms(3) len(2)
    by (simp_all add: st'_def eeprom_saved [OF st assms(1)])
  have "ahead b (concat (eeprom_bytes e)) f" using assms(5-7) len(1) by (simp add: ahead_def w(2))
  then obtain f' where "eeprom_DoSavestate mem n e0 f = (e, f')" "\<not> Error f'"
    by (rule eeprom_loaded [OF _ assms(1)])
  then show ?thesis using w eeprom_load_cases [OF assms(8), of mem n e0] by simp
qed

lemma eeprom_savestate_roundtrip_witness:
  "let f = \<lparr>Error = False, Saving = False, CurSection = NO_SECTION, buffer = Some (replicate 21 0), buffer_offset = 0,
         buffer_length = 21, section_end = 21, buffer_owned = False, finished = False, header_valid = True, fault = False\<rparr>
   in fst (eeprom_DoSavestate plenty 512 (new_eeprom\<lparr>State := Command, AddressBits := 6\<rparr>) f) = new_eeprom"
proof -
  define f where "f = \<lparr>Error = False, Saving = False, CurSection = NO_SECTION, buffer = Some (replicate 21 (0 :: u8)), buffer_offset = 0,
         buffer_length = 21, section_end = 21, buffer_owned = False, finished = False, header_valid = True, fault = False\<rparr>"
  define st where "st = \<lparr>Error = False, Saving = True, CurSection = NO_SECTION, buffer = Some ([] :: u8 list), buffer_offset = 0,
         buffer_length = 0, section_end = 0, buffer_owned = True, finished = False, header_valid = True, fault = False\<rparr>"
  have v: "IsValid 512 new_eeprom" by (simp add: IsValid_def new_eeprom_def)
  have st: "writer st" "written st = []" "buffer_offset st = 0" "Saving st" "\<not> Error st"
    by (simp_all add: st_def writer_def written_def buffer_ok_def)
  have f: "reader (replicate 21 0) f" "\<not> Saving f" "buffer_offset f = 0" "section_end f = 21"
    by (simp_all add: f_def reader_def buffer_ok_def)
  have "concat (eeprom_bytes new_eeprom) = replicate 21 0"
    by (simp add: eeprom_bytes_def new_eeprom_def phase_code_def numeral_eq_Suc)
  then have "written (snd (eeprom_DoSavestate plenty 512 new_eeprom st)) = replicate 21 0"
    using writes_append [OF st(1), of "eeprom_bytes new_eeprom"] st(2,3)
    by (simp add: eeprom_saved [OF st(4,5) v] eeprom_bytes_def)
  then have "fst (eeprom_DoSavestate plenty 512 (new_eeprom\<lparr>State := Command, AddressBits := 6\<rparr>) f) = new_eeprom"
    using eeprom_savestate_roundtrip [OF v st(1) _ f(1) _ _ f(2), of plenty "new_eeprom\<lparr>State := Command, AddressBits := 6\<rparr>"]
    by (simp add: st(2,3) f(3,4))
  then show ?thesis by (simp flip: f_def)
qed

end
