(* ===== verification/Spec2Isabelle.thy ===== *)
theory Spec2Isabelle
  imports Armv4Props ArmDecode Crc Ipc Timers Maths DmaProps ActionReplayProps ARCodeFileProps
    NdsSavePage Key1 RtcInv RtcSerial SavestateProps SavestateTrip GbaEepromTrip GbaEepromSave
begin

text \<open>
  \<^bold>\<open>melonDS: a verification library for the emulator core.\<close>

  melonDS emulates the Nintendo DS: two ARM processors (the ARM9 and the ARM7) that execute guest
  code, and the devices around them, driven by one event scheduler.  The sources are C++ under
  \<^verbatim>\<open>src/src/\<close>.  The library models the parts that decide what a guest program observes, operation
  by operation, and proves what makes each of them correct.

  \<^bold>\<open>Conventions.\<close>  Integers keep their C width as words (\<open>u8\<close>, \<open>u16\<close>, \<open>u32\<close>, \<open>u64\<close>; a signed value is
  the same word read with \<^const>\<open>sint\<close>), classes are records, methods are functions that take the
  object last and return it changed, small arrays are functions from the index.  Calls that leave
  the modelled part are arguments: the record \<open>arm_vt\<close> holds the virtual methods of a CPU (data
  accesses, cycle counting, coprocessor), \<open>nds_ext\<close> the calls of the console into the GPU and the
  NDMA controllers, and \<open>event_func\<close> the callbacks in the scheduler's slots.  A loop is structural
  recursion or a function with a measure; the ARM7's execution loop, which need not end, has fuel.

  \<^bold>\<open>The ARM processors.\<close>
  \<^item> \<open>ArmState\<close> (ARM.h, ARM.cpp): registers with their banks, CPSR, conditions, mode switches, IRQ entry.
  \<^item> \<open>ArmShift\<close>, \<open>ArmAlu\<close>, \<open>ArmMul\<close>, \<open>ArmThumbAlu\<close> (ARMInterpreter_ALU.cpp): the barrel shifter, the data
    processing instructions, multiplies and saturating arithmetic, the Thumb ALU handlers.
  \<^item> \<open>ArmLoadStore\<close>, \<open>ArmBlock\<close> (ARMInterpreter_LoadStore.cpp): single and block transfers.
  \<^item> \<open>ArmBranch\<close> (ARMInterpreter_Branch.cpp, ARMInterpreter.cpp): branches, MSR and MRS, coprocessor
    transfers, software interrupts.
  \<^item> \<open>ArmTable\<close> (ARM_InstrTable.h): both dispatch tables, entry by entry; \<open>ArmDecode\<close> states the
    instruction encodings independently and compares the tables with them.
  \<^item> \<open>ArmCore\<close>: the interface between handlers and CPU as a locale, with the
    well-formedness invariant that every handler keeps.
  \<^item> \<open>Armv4\<close>, \<open>Armv4Props\<close> (ARM.cpp): the ARM7's memory accesses, pipeline and interpreter loop; the locale
    is interpreted on them, and in every state reachable from reset the next instruction is shown to index the
    condition table and the dispatch tables inside their lengths.  The fuel of the loop bounds the number of
    instructions of one call; the theorem holds for every fuel.

  \<^bold>\<open>The console.\<close>
  \<^item> \<open>NdsCore\<close> (NDS.h, NDS.cpp): the fields the devices share, and the event scheduler.  Its cached deadline
    is exact, \<open>RunSystem\<close> refines a plain walk over the due events, and the CPUs' next target never
    passes a deadline.
  \<^item> \<open>Irq\<close> (NDS.cpp, ARM.h, DSi.cpp): interrupt controllers, keys, CPU stop flags.  The CPUs' IRQ lines
    always equal the formula over the registers.
  \<^item> \<open>Ipc\<close> (NDS.cpp): the registers between the CPUs.  Any interleaving of their FIFO accesses refines a
    specification of two ports, written once for both sides, that loses no word it accepted; an access requests
    an interrupt exactly when the condition of that interrupt becomes true; the sync nibbles stay crossed.
  \<^item> \<open>Timers\<close> (NDS.cpp): the closed form of the count, its interrupt, its bound, and chained timers as one
    wide counter.
  \<^item> \<open>Maths\<close> (NDS.cpp): the divider and the square-root unit with their delayed completion.  The root is exact for
    operands below \<open>2\<^sup>6\<^sup>2\<close>, and what the unit returns for the others is stated exactly too.
  \<^item> \<open>Dma\<close>, \<open>DmaProps\<close> (DMA.cpp, DMA.h, DMA_Timings.cpp): a DMA channel.  Its loop is an option-valued fixed
    point, because a bus access may rewrite the channel; on an ordinary memory bus (a locale on one unit of a
    transfer, interpreted on the four kinds of unit) every call is shown to return and the transfer to copy
    exactly its units under any time slicing.  The burst-timing index stays in its table.
  \<^item> \<open>ActionReplay\<close>, \<open>ActionReplayProps\<close> (AREngine.cpp): the cheat interpreter.  Its main loop is an option-valued
    fixed point, shown to end for every code, because \<open>FOR\<close> moves the loop start forward, \<open>NEXT\<close> counts down
    and anything else moves the program counter; the validation keeps every read inside the code.
  \<^item> \<open>ARCodeFile\<close>, \<open>ARCodeFileProps\<close> (ARCodeFile.cpp): the cheat files.  What is written is read back, and
    no file can break the shape of the tree or make the reader follow a null or wrong pointer, which would set
    the flag \<open>fault\<close>.
  \<^item> \<open>Key1\<close> (NDSCart.cpp): the KEY1 cipher of the cartridges, with its key schedule from the BIOS tables, and the
    secure area that \<open>SetCart\<close> encrypts and \<open>DecryptSecureArea\<close> decrypts; the two undo each other.
  \<^item> \<open>NdsSave\<close>, \<open>NdsSaveInv\<close>, \<open>NdsSaveProps\<close>, \<open>NdsSavePage\<close> (CartRetail.cpp, CartRetail.h): the EEPROM, FRAM and Flash
    chips of the retail cartridges behind the SPI bus, with their write cycles on the event scheduler.  Any sequence of
    operations stays inside the chip, the save file equals the memory of a chip with a page latch, and a page
    that is written is read back.
  \<^item> \<open>Rtc\<close> (RTC.cpp, RTC.h): the real-time clock, from the 32768 Hz tick to the bits of its serial port; the clock is
    the first component of the console's \<open>Rest\<close>, so that its tick is a callback of the scheduler.  \<open>RtcDate\<close> and
    \<open>RtcRegs\<close> read the BCD registers as a calendar date, with its successor and its number of seconds; \<open>RtcProps\<close>
    shows that the clock keeps time without drift, \<open>RtcInv\<close> that no operation takes a register out of its range and that the next
    count or write of the day gives a calendar date, and \<open>RtcSerial\<close>
    that a date sent bit by bit is read back.
  \<^item> \<open>Savestate\<close> (Savestate.cpp, Savestate.h): the files that the emulator's state is saved to, with a \<open>fault\<close> flag for
    every access outside the buffer.  \<open>SavestateInv\<close> holds what each call keeps, \<open>SavestateProps\<close> that no sequence of calls
    on any file leaves the buffer, and \<open>SavestateTrip\<close> that the sections of a finished file are read back in any order.
  \<^item> \<open>GbaEeprom\<close>, \<open>GbaEepromProps\<close>, \<open>GbaEepromTrip\<close>, \<open>GbaEepromSave\<close> (GBACartEEPROM.cpp, GBACartEEPROM.h): the bit-serial EEPROM of the GBA cartridges, with
    its savestate.  Whatever is clocked in, it stays in the states its own check accepts and inside its storage;
    a block clocked in bit by bit is clocked out bit by bit, and what it saves in a savestate it loads.
  \<^item> \<open>Fifo\<close> (FIFO.h): the ring-buffer containers, refining bounded queues; the locale \<open>bounded_queue\<close> is
    interpreted on both the static and the dynamic FIFO.
  \<^item> \<open>Crc\<close> (CRC32.cpp): the table-driven checksum against its bit-serial definition.
  \<^item> \<open>Prelude\<close>: integer types, C idioms, facts on words.

  \<^bold>\<open>What modelling showed.\<close>  Entry \<open>0x03A\<close> of the ARM table sends \<open>EORS\<close> with an odd \<open>LSR\<close> amount to the
  rotating handler (\<open>ArmDecode\<close>); the square root of an operand from \<open>2\<^sup>6\<^sup>2\<close> on is too large by one when it is even
  and the operand is close to the next square, because an intermediate product is 32 bits wide (\<open>Maths\<close>); the year and
  the month of the clock can be written without the day, so it can show a 31 February until the day is counted (\<open>RtcInv\<close>); a savestate over a short buffer that is rewound for
  saving loses its error and is then written behind its end (\<open>SavestateProps\<close>).

  \<^bold>\<open>Not modelled.\<close>  The ARM9's caches, protection unit and coprocessor 15 are arguments of the instruction
  handlers.  The frame loop and the memory map, which only connect the devices, the ROM commands of the cartridges,
  the SPI devices and the DSi's own peripherals are left out; what the modelled code calls of them is an
  argument.  Of the devices' savestates, which copy
  every field through the calls of \<open>Savestate\<close>, only the one of the GBA EEPROM is modelled.  The JIT compilers, the graphics and sound back ends,
  the network, the file systems, the debugger and the front end produce host code, pictures, sound or I/O.
\<close>

end
